(* ===== verification/Forge_Prelude.thy ===== *)
theory Forge_Prelude
  imports Main "HOL-Library.Word" "HOL-Library.Sublist" "HOL-Library.Product_Lexorder"
begin

text \<open>
  Shared material of the development: the collections of rewrite rules, the
  types that stand for the Go and PostgreSQL scalars (\<open>uuid\<close>, \<open>text\<close>,
  timestamps), the result combinators for fallible statements and services,
  list tables with primary keys, the part of Go's \<open>strings\<close> package the services
  use, and JSON documents with the two casts that the queries apply to them.
\<close>

named_theorems result_simps \<open>inversion of the result combinators\<close>
named_theorems table_simps \<open>queries over updated tables\<close>
named_theorems frame_simps \<open>tables and columns an operation leaves alone\<close>

section \<open>Scalars\<close>

text \<open>
  A UUID is its sixteen bytes. A \<open>pgtype.UUID\<close> with \<open>Valid = false\<close> is SQL NULL and
  is \<open>None\<close>; the same holds for \<open>pgtype.Text\<close> and \<open>pgtype.Timestamptz\<close>.
  Timestamps and durations are nanosecond counts. A Go slice whose nil value is
  observable (pgx sends a nil slice as SQL NULL) is an option of a list.
\<close>

type_synonym uuid = "128 word"
type_synonym timestamp = int
type_synonym duration = int
type_synonym 'a slice = "'a list option"

abbreviation slice_list :: "'a slice \<Rightarrow> 'a list" where
  "slice_list xs \<equiv> (case xs of None \<Rightarrow> [] | Some ys \<Rightarrow> ys)"

abbreviation second :: duration where "second \<equiv> 1000000000"
abbreviation minute :: duration where "minute \<equiv> 60 * second"
abbreviation hour :: duration where "hour \<equiv> 60 * minute"

section \<open>Errors and results\<close>

text \<open>The errors a statement can raise: pgx's \<open>ErrNoRows\<close> and the SQLSTATE classes that
  the schema's constraints and casts raise.\<close>

datatype pg_error =
    NoRows
  | UniqueViolation
  | CheckViolation
  | ForeignKeyViolation
  | NotNullViolation
  | InvalidTextRepresentation
  | NumericValueOutOfRange

primrec and_then :: "'e + 'a \<Rightarrow> ('a \<Rightarrow> 'e + 'b) \<Rightarrow> 'e + 'b" where
  "and_then (Inl e) f = Inl e"
| "and_then (Inr a) f = f a"

lemma and_then_Inr_iff [result_simps]:
  "and_then r f = Inr b \<longleftrightarrow> (\<exists>a. r = Inr a \<and> f a = Inr b)"
  by (cases r) auto

lemma and_then_Inl_iff [result_simps]:
  "and_then r f = Inl e \<longleftrightarrow> r = Inl e \<or> (\<exists>a. r = Inr a \<and> f a = Inl e)"
  by (cases r) auto

text \<open>\<open>ensure\<close> raises an error unless its condition holds (a constraint check).\<close>

definition ensure :: "bool \<Rightarrow> 'e \<Rightarrow> 'e + unit" where
  "ensure b e = (if b then Inr () else Inl e)"

lemma ensure_Inr_iff [result_simps]: "ensure b e = Inr u \<longleftrightarrow> b"
  by (simp add: ensure_def)

lemma ensure_Inl_iff [result_simps]: "ensure b e = Inl e' \<longleftrightarrow> \<not> b \<and> e' = e"
  by (auto simp: ensure_def)

lemma ensure_True [simp]: "ensure True e = Inr ()"
  by (simp add: ensure_def)

lemma ensure_False [simp]: "ensure False e = Inl e"
  by (simp add: ensure_def)

text \<open>A validation step: the list of problems gains a message when the condition holds.\<close>

definition problem :: "bool \<Rightarrow> string \<Rightarrow> string list" where
  "problem b msg = (if b then [msg] else [])"

lemma problem_Nil_iff [simp]: "problem b msg = [] \<longleftrightarrow> \<not> b"
  by (simp add: problem_def)

section \<open>List tables\<close>

text \<open>
  A table is the list of its rows. \<open>find_row\<close> is a primary key lookup,
  \<open>update_rows\<close> is \<open>UPDATE ... SET ... WHERE\<close>, \<open>insert_row\<close> is an \<open>INSERT\<close> that
  checks the primary key.
\<close>

definition find_row :: "('r \<Rightarrow> 'k) \<Rightarrow> 'k \<Rightarrow> 'r list \<Rightarrow> 'r option" where
  "find_row key k rows = find (\<lambda>r. key r = k) rows"

definition update_rows :: "('r \<Rightarrow> bool) \<Rightarrow> ('r \<Rightarrow> 'r) \<Rightarrow> 'r list \<Rightarrow> 'r list" where
  "update_rows p f rows = map (\<lambda>r. if p r then f r else r) rows"

definition insert_row :: "('r \<Rightarrow> 'k) \<Rightarrow> 'r \<Rightarrow> 'r list \<Rightarrow> pg_error + 'r list" where
  "insert_row key r rows =
     (if key r \<in> set (map key rows) then Inl UniqueViolation else Inr (rows @ [r]))"

abbreviation unique_key :: "('r \<Rightarrow> 'k) \<Rightarrow> 'r list \<Rightarrow> bool" where
  "unique_key key rows \<equiv> distinct (map key rows)"

lemma find_row_Nil [simp]: "find_row key k [] = None"
  by (simp add: find_row_def)

lemma find_row_Cons [simp]:
  "find_row key k (r # rs) = (if key r = k then Some r else find_row key k rs)"
  by (simp add: find_row_def)

lemma find_row_SomeD: "find_row key k rows = Some r \<Longrightarrow> r \<in> set rows \<and> key r = k"
  by (auto simp: find_row_def find_Some_iff)

lemma find_row_None_iff: "find_row key k rows = None \<longleftrightarrow> (\<forall>r \<in> set rows. key r \<noteq> k)"
  by (auto simp: find_row_def find_None_iff)

lemma find_row_absent: "k \<notin> key ` set rows \<Longrightarrow> find_row key k rows = None"
  by (auto simp: find_row_None_iff)

lemma find_row_unique:
  "unique_key key rows \<Longrightarrow> r \<in> set rows \<Longrightarrow> find_row key (key r) rows = Some r"
  by (induction rows) auto

lemma find_row_append [table_simps]:
  "find_row key k (xs @ ys) =
     (case find_row key k xs of None \<Rightarrow> find_row key k ys | Some r \<Rightarrow> Some r)"
  by (induction xs) auto

lemma set_update_rows [table_simps]:
  "set (update_rows p f rows) = (\<lambda>r. if p r then f r else r) ` set rows"
  by (simp add: update_rows_def)

lemma length_update_rows [simp]: "length (update_rows p f rows) = length rows"
  by (simp add: update_rows_def)

lemma update_rows_Nil [simp]: "update_rows p f [] = []"
  by (simp add: update_rows_def)

lemma update_rows_Cons [simp]:
  "update_rows p f (r # rs) = (if p r then f r else r) # update_rows p f rs"
  by (simp add: update_rows_def)

lemma map_update_rows [table_simps]:
  assumes "\<And>r. g (f r) = g r"
  shows "map g (update_rows p f rows) = map g rows"
  using assms by (induction rows) auto

lemma update_rows_none:
  assumes "\<And>r. r \<in> set rows \<Longrightarrow> \<not> p r"
  shows "update_rows p f rows = rows"
  using assms by (induction rows) auto

lemma update_rows_cong:
  assumes "\<And>r. r \<in> set rows \<Longrightarrow> p r = q r" and "\<And>r. r \<in> set rows \<Longrightarrow> q r \<Longrightarrow> f r = g r"
  shows "update_rows p f rows = update_rows q g rows"
  using assms by (induction rows) auto

lemma find_row_update_rows [table_simps]:
  assumes "\<And>r. key (f r) = key r"
  shows "find_row key k (update_rows p f rows) =
     map_option (\<lambda>r. if p r then f r else r) (find_row key k rows)"
  using assms by (induction rows) auto

lemma insert_row_Inr_iff [result_simps]:
  "insert_row key r rows = Inr rows' \<longleftrightarrow> key r \<notin> key ` set rows \<and> rows' = rows @ [r]"
  by (auto simp: insert_row_def)

lemma insert_row_unique:
  "insert_row key r rows = Inr rows' \<Longrightarrow> unique_key key rows \<Longrightarrow> unique_key key rows'"
  by (auto simp: insert_row_def split: if_splits)

lemma unique_key_eqD:
  "unique_key key rows \<Longrightarrow> r \<in> set rows \<Longrightarrow> r' \<in> set rows \<Longrightarrow> key r = key r' \<Longrightarrow> r = r'"
  by (auto simp: distinct_map inj_on_def)

section \<open>ORDER BY, LIMIT and OFFSET\<close>

text \<open>
  \<open>ORDER BY\<close> is a stable sort on the ordering columns: PostgreSQL leaves the order of
  ties open, and the table order is the resolution the model takes.
\<close>

definition limit_rows :: "int \<Rightarrow> 'r list \<Rightarrow> 'r list" where
  "limit_rows n rows = take (nat n) rows"

definition offset_rows :: "int \<Rightarrow> 'r list \<Rightarrow> 'r list" where
  "offset_rows n rows = drop (nat n) rows"

definition first_row :: "'r list \<Rightarrow> 'r option" where
  "first_row rows = (case rows of [] \<Rightarrow> None | r # _ \<Rightarrow> Some r)"

lemma first_row_None_iff [simp]: "first_row rows = None \<longleftrightarrow> rows = []"
  by (simp add: first_row_def split: list.splits)

lemma first_row_SomeD: "first_row rows = Some r \<Longrightarrow> r \<in> set rows"
  by (auto simp: first_row_def split: list.splits)

lemma first_row_sort_key_least:
  assumes "first_row (sort_key k rows) = Some r"
  shows "r \<in> set rows" and "\<And>r'. r' \<in> set rows \<Longrightarrow> k r \<le> k r'"
proof -
  obtain rs where srt: "sort_key k rows = r # rs"
    using assms by (auto simp: first_row_def split: list.splits)
  have sets: "set rows = set (r # rs)"
    using srt by (metis set_sort)
  have ord: "sorted (map k (r # rs))"
    using srt by (metis sorted_sort_key)
  show "r \<in> set rows" using sets by simp
  show "k r \<le> k r'" if "r' \<in> set rows" for r'
    using that sets ord by auto
qed

section \<open>Go strings\<close>

text \<open>
  Go strings are byte sequences, as HOL strings are. \<open>spaceSeqs\<close> lists the UTF-8
  encodings of the runes that \<open>unicode.IsSpace\<close> accepts; \<open>TrimSpace\<close> removes them
  repeatedly from both ends. A byte sequence that ends in one of the encodings decodes
  (from the right) to that rune, since the first byte of each encoding is a start byte.
\<close>

definition spaceSeqs :: "string list" where
  "spaceSeqs =
     [[CHR 0x09], [CHR 0x0A], [CHR 0x0B], [CHR 0x0C], [CHR 0x0D], [CHR 0x20],
      [CHR 0xC2, CHR 0x85], [CHR 0xC2, CHR 0xA0], [CHR 0xE1, CHR 0x9A, CHR 0x80],
      [CHR 0xE2, CHR 0x80, CHR 0x80], [CHR 0xE2, CHR 0x80, CHR 0x81],
      [CHR 0xE2, CHR 0x80, CHR 0x82], [CHR 0xE2, CHR 0x80, CHR 0x83],
      [CHR 0xE2, CHR 0x80, CHR 0x84], [CHR 0xE2, CHR 0x80, CHR 0x85],
      [CHR 0xE2, CHR 0x80, CHR 0x86], [CHR 0xE2, CHR 0x80, CHR 0x87],
      [CHR 0xE2, CHR 0x80, CHR 0x88], [CHR 0xE2, CHR 0x80, CHR 0x89],
      [CHR 0xE2, CHR 0x80, CHR 0x8A], [CHR 0xE2, CHR 0x80, CHR 0xA8],
      [CHR 0xE2, CHR 0x80, CHR 0xA9], [CHR 0xE2, CHR 0x80, CHR 0xAF],
      [CHR 0xE2, CHR 0x81, CHR 0x9F], [CHR 0xE3, CHR 0x80, CHR 0x80]]"

primrec stripAny :: "string list \<Rightarrow> string \<Rightarrow> string option" where
  "stripAny [] s = None"
| "stripAny (q # qs) s =
     (if q \<noteq> [] \<and> prefix q s then Some (drop (length q) s) else stripAny qs s)"

lemma stripAny_shorter: "stripAny qs s = Some r \<Longrightarrow> length r < length s"
proof (induction qs)
  case (Cons q qs)
  then show ?case
    by (auto split: if_splits dest: prefix_length_le
        intro!: diff_less simp: length_greater_0_conv [symmetric] simp del: length_greater_0_conv)
qed simp

function trimSeqs :: "string list \<Rightarrow> string \<Rightarrow> string" where
  "trimSeqs qs s = (case stripAny qs s of None \<Rightarrow> s | Some r \<Rightarrow> trimSeqs qs r)"
  by pat_completeness auto
termination
  by (relation "measure (\<lambda>(qs, s). length s)") (auto dest: stripAny_shorter)

declare trimSeqs.simps [simp del]

definition trimLeft :: "string \<Rightarrow> string" where
  "trimLeft s = trimSeqs spaceSeqs s"

definition trimRight :: "string \<Rightarrow> string" where
  "trimRight s = rev (trimSeqs (map rev spaceSeqs) (rev s))"

definition TrimSpace :: "string \<Rightarrow> string" where
  "TrimSpace s = trimRight (trimLeft s)"

lemma trimSeqs_None: "stripAny qs s = None \<Longrightarrow> trimSeqs qs s = s"
  by (subst trimSeqs.simps) simp

lemma stripAny_trimSeqs: "stripAny qs (trimSeqs qs s) = None"
proof (induction qs s rule: trimSeqs.induct)
  case (1 qs s)
  show ?case
  proof (cases "stripAny qs s")
    case None
    then show ?thesis by (simp add: trimSeqs_None)
  next
    case (Some r)
    with "1.IH" show ?thesis by (simp add: trimSeqs.simps [of qs s])
  qed
qed

lemma stripAny_suffix: "stripAny qs s = Some r \<Longrightarrow> suffix r s"
  by (induction qs) (auto split: if_splits simp: suffix_drop)

lemma trimSeqs_suffix: "suffix (trimSeqs qs s) s"
proof (induction qs s rule: trimSeqs.induct)
  case (1 qs s)
  show ?case
  proof (cases "stripAny qs s")
    case None
    then show ?thesis by (simp add: trimSeqs_None)
  next
    case (Some r)
    with "1.IH" have "suffix (trimSeqs qs r) r" by simp
    moreover have "suffix r s" using Some by (rule stripAny_suffix)
    ultimately show ?thesis
      using Some by (simp add: trimSeqs.simps [of qs s])
  qed
qed

lemma stripAny_None_iff: "stripAny qs s = None \<longleftrightarrow> (\<forall>q \<in> set qs. q \<noteq> [] \<longrightarrow> \<not> prefix q s)"
  by (induction qs) auto

lemma stripAny_None_prefix: "stripAny qs s = None \<Longrightarrow> prefix p s \<Longrightarrow> stripAny qs p = None"
  by (auto simp: stripAny_None_iff dest: prefix_order.trans)

lemma trimRight_prefix: "prefix (trimRight s) s"
  using trimSeqs_suffix [of "map rev spaceSeqs" "rev s"]
  by (simp add: trimRight_def suffix_to_prefix)

lemma trimRight_idem: "trimRight (trimRight s) = trimRight s"
  by (simp add: trimRight_def trimSeqs_None stripAny_trimSeqs)

lemma TrimSpace_idem [simp]: "TrimSpace (TrimSpace s) = TrimSpace s"
proof -
  have "stripAny spaceSeqs (trimLeft s) = None"
    by (simp add: trimLeft_def stripAny_trimSeqs)
  then have "stripAny spaceSeqs (TrimSpace s) = None"
    unfolding TrimSpace_def using trimRight_prefix by (rule stripAny_None_prefix)
  then have "trimLeft (TrimSpace s) = TrimSpace s"
    by (simp add: trimLeft_def trimSeqs_None)
  then show ?thesis
    by (simp add: TrimSpace_def trimRight_idem)
qed

lemma TrimSpace_Nil [simp]: "TrimSpace [] = []"
proof -
  have left: "trimLeft [] = []"
    using trimSeqs_suffix [of spaceSeqs "[]"] by (simp add: trimLeft_def)
  have "trimRight [] = []"
    using trimRight_prefix [of "[]"] by simp
  then show ?thesis by (simp add: TrimSpace_def left)
qed

text \<open>
  \<open>compactStrings\<close> (services/tickets.go) trims every value and drops the blank ones; it
  returns a nil slice for an empty argument, and an empty non-nil slice when every value
  was blank. \<open>compactStringsPreserveEmpty\<close> never returns nil.
\<close>

definition compactStrings :: "string list \<Rightarrow> string slice" where
  "compactStrings values =
     (if values = [] then None
      else Some (filter (\<lambda>v. v \<noteq> []) (map TrimSpace values)))"

definition compactStringsPreserveEmpty :: "string list \<Rightarrow> string list" where
  "compactStringsPreserveEmpty values =
     (case compactStrings values of None \<Rightarrow> [] | Some out \<Rightarrow> out)"

lemma compactStringsPreserveEmpty_eq:
  "compactStringsPreserveEmpty vs = filter (\<lambda>v. v \<noteq> []) (map TrimSpace vs)"
  by (simp add: compactStringsPreserveEmpty_def compactStrings_def)

lemma compactStringsPreserveEmpty_idem [simp]:
  "compactStringsPreserveEmpty (compactStringsPreserveEmpty vs) = compactStringsPreserveEmpty vs"
  by (induction vs) (auto simp: compactStringsPreserveEmpty_eq)

lemma compactStrings_values:
  "v \<in> set (slice_list (compactStrings vs)) \<Longrightarrow> v \<noteq> [] \<and> TrimSpace v = v"
  by (auto simp: compactStrings_def split: if_splits)

definition optionalText :: "string \<Rightarrow> string option" where
  "optionalText v = (if v = [] then None else Some v)"

definition requiredText :: "string \<Rightarrow> string option" where
  "requiredText v = Some v"

definition textValue :: "string option \<Rightarrow> string" where
  "textValue v = (case v of None \<Rightarrow> [] | Some s \<Rightarrow> s)"

lemma textValue_optionalText [simp]: "textValue (optionalText v) = v"
  by (simp add: textValue_def optionalText_def)

end
