(* ===== verification/Forge_Json.thy ===== *)
theory Forge_Json
  imports Forge_Prelude
begin

text \<open>
  JSON documents as the services and the queries see them. A Go \<open>[]byte\<close> that carries JSON
  is a \<open>json_raw\<close>: empty, rejected by \<open>json.Valid\<close>, or the text of a document; a \<open>jsonb\<close>
  column holds a \<open>json\<close>. The number \<open>JNum m s\<close> is the decimal \<open>m / 10 ^ s\<close> printed with
  \<open>s\<close> fractional digits, which is what \<open>numeric\<close> keeps of it.
\<close>

datatype json =
    JNull
  | JBool bool
  | JNum int nat
  | JStr string
  | JArr "json list"
  | JObj "(string \<times> json) list"

datatype json_raw = RawEmpty | RawInvalid | RawDoc json

text \<open>\<open>j -> k\<close>: \<open>jsonb\<close> keeps the last of duplicated keys; a non-object has no field.\<close>

fun json_field :: "json \<Rightarrow> string \<Rightarrow> json option" where
  "json_field (JObj kvs) k = map_of (rev kvs) k"
| "json_field _ k = None"

text \<open>The input of a \<open>jsonb\<close> parameter. Texts are taken to be valid UTF-8 without NUL, which PostgreSQL
  refuses in \<open>jsonb\<close> and in text; that error is outside the model.\<close>

definition jsonb_in :: "json_raw \<Rightarrow> pg_error + json" where
  "jsonb_in raw = (case raw of RawDoc j \<Rightarrow> Inr j | _ \<Rightarrow> Inl InvalidTextRepresentation)"

lemma jsonb_in_RawDoc [simp]: "jsonb_in (RawDoc j) = Inr j"
  by (simp add: jsonb_in_def)

lemma jsonb_in_Inr_iff [result_simps]: "jsonb_in raw = Inr j \<longleftrightarrow> raw = RawDoc j"
  by (cases raw) (auto simp: jsonb_in_def)

section \<open>The casts \<open>(j ->> k)::integer\<close> and \<open>(j ->> k)::boolean\<close>\<close>

definition isspace :: "char \<Rightarrow> bool" where
  "isspace c \<longleftrightarrow> c \<in> {CHR 0x09, CHR 0x0A, CHR 0x0B, CHR 0x0C, CHR 0x0D, CHR 0x20}"

definition strip_c_space :: "string \<Rightarrow> string" where
  "strip_c_space s = rev (dropWhile isspace (rev (dropWhile isspace s)))"

definition digit_value :: "char \<Rightarrow> int option" where
  "digit_value c =
     (let n = (of_char c :: int) in if 48 \<le> n \<and> n \<le> 57 then Some (n - 48) else None)"

fun digits_value :: "int \<Rightarrow> string \<Rightarrow> int option" where
  "digits_value acc [] = Some acc"
| "digits_value acc (c # cs) =
     (case digit_value c of None \<Rightarrow> None | Some d \<Rightarrow> digits_value (10 * acc + d) cs)"

fun signed_value :: "string \<Rightarrow> int option" where
  "signed_value [] = None"
| "signed_value (c # cs) =
     (if c = CHR ''-'' then (if cs = [] then None else map_option uminus (digits_value 0 cs))
      else if c = CHR ''+'' then (if cs = [] then None else digits_value 0 cs)
      else digits_value 0 (c # cs))"

definition int4_range :: "int \<Rightarrow> pg_error + int" where
  "int4_range n =
     (if - 2147483648 \<le> n \<and> n \<le> 2147483647 then Inr n else Inl NumericValueOutOfRange)"

definition int4in :: "string \<Rightarrow> pg_error + int" where
  "int4in s =
     (case signed_value (strip_c_space s) of
        None \<Rightarrow> Inl InvalidTextRepresentation
      | Some n \<Rightarrow> int4_range n)"

fun json_integer :: "json option \<Rightarrow> pg_error + int option" where
  "json_integer None = Inr None"
| "json_integer (Some JNull) = Inr None"
| "json_integer (Some (JNum m s)) =
     (if s = 0 then and_then (int4_range m) (\<lambda>n. Inr (Some n))
      else Inl InvalidTextRepresentation)"
| "json_integer (Some (JStr t)) = and_then (int4in t) (\<lambda>n. Inr (Some n))"
| "json_integer (Some _) = Inl InvalidTextRepresentation"

definition ascii_lower :: "char \<Rightarrow> char" where
  "ascii_lower c =
     (let n = (of_char c :: nat) in if 65 \<le> n \<and> n \<le> 90 then char_of (n + 32) else c)"

definition boolin :: "string \<Rightarrow> pg_error + bool" where
  "boolin s =
     (let v = map ascii_lower (strip_c_space s) in
      if v = [] then Inl InvalidTextRepresentation
      else if prefix v ''true'' \<or> prefix v ''yes'' \<or> v = ''on'' \<or> v = ''1'' then Inr True
      else if prefix v ''false'' \<or> prefix v ''no'' \<or> v = ''of'' \<or> v = ''off'' \<or> v = ''0''
      then Inr False
      else Inl InvalidTextRepresentation)"

fun json_boolean :: "json option \<Rightarrow> pg_error + bool option" where
  "json_boolean None = Inr None"
| "json_boolean (Some JNull) = Inr None"
| "json_boolean (Some (JBool b)) = Inr (Some b)"
| "json_boolean (Some (JNum m s)) =
     (if s = 0 \<and> m = 1 then Inr (Some True)
      else if s = 0 \<and> m = 0 then Inr (Some False)
      else Inl InvalidTextRepresentation)"
| "json_boolean (Some (JStr t)) = and_then (boolin t) (\<lambda>b. Inr (Some b))"
| "json_boolean (Some _) = Inl InvalidTextRepresentation"

text \<open>\<open>j ->> k = t\<close> for a literal \<open>t\<close> that is not the text of a number, a Boolean, an array
  or an object: only a JSON string can be equal to it.\<close>

definition json_text_is :: "json option \<Rightarrow> string \<Rightarrow> bool" where
  "json_text_is j t \<longleftrightarrow> j = Some (JStr t)"

section \<open>The encoders and decoders of services/tickets.go and services/claims.go\<close>

definition defaultJSONObject :: json_raw where "defaultJSONObject = RawDoc (JObj [])"
definition defaultJSONArray :: json_raw where "defaultJSONArray = RawDoc (JArr [])"

definition defaultRetryPolicy :: json_raw where
  "defaultRetryPolicy =
     RawDoc (JObj [(''max_attempts'', JNum 3 0), (''on_failure'', JStr ''return_to_todo''),
                   (''requires_review_on_success'', JBool False)])"

text \<open>A \<open>map[string]any\<close> is the list of its entries; \<open>json.Marshal\<close> does not fail on the
  values JSON decoding produces.\<close>

definition encodeJSONObject :: "(string \<times> json) list \<Rightarrow> json_raw" where
  "encodeJSONObject v = (if v = [] then defaultJSONObject else RawDoc (JObj v))"

definition encodeJSONArray :: "string list \<Rightarrow> json_raw" where
  "encodeJSONArray v = (if v = [] then defaultJSONArray else RawDoc (JArr (map JStr v)))"

text \<open>\<open>json.Unmarshal\<close> into a \<open>[]string\<close>: a null element leaves the zero value.\<close>

fun unmarshal_strings :: "json list \<Rightarrow> string list option" where
  "unmarshal_strings [] = Some []"
| "unmarshal_strings (JStr s # js) = map_option ((#) s) (unmarshal_strings js)"
| "unmarshal_strings (JNull # js) = map_option ((#) []) (unmarshal_strings js)"
| "unmarshal_strings (_ # js) = None"

definition decodeJSONArray :: "json_raw \<Rightarrow> string slice option" where
  "decodeJSONArray raw =
     (case raw of
        RawEmpty \<Rightarrow> Some None
      | RawInvalid \<Rightarrow> None
      | RawDoc JNull \<Rightarrow> Some None
      | RawDoc (JArr js) \<Rightarrow> map_option Some (unmarshal_strings js)
      | RawDoc _ \<Rightarrow> None)"

definition decodeObject :: "json_raw \<Rightarrow> (string \<times> json) list option" where
  "decodeObject raw =
     (case raw of
        RawEmpty \<Rightarrow> Some []
      | RawInvalid \<Rightarrow> None
      | RawDoc JNull \<Rightarrow> Some []
      | RawDoc (JObj kvs) \<Rightarrow> Some kvs
      | RawDoc _ \<Rightarrow> None)"

lemma unmarshal_strings_JStr [simp]: "unmarshal_strings (map JStr xs) = Some xs"
  by (induction xs) auto

lemma decode_encode_array: "decodeJSONArray (encodeJSONArray xs) = Some (Some xs)"
  by (simp add: decodeJSONArray_def encodeJSONArray_def defaultJSONArray_def)

lemma decode_encode_object: "decodeObject (encodeJSONObject kvs) = Some kvs"
  by (simp add: decodeObject_def encodeJSONObject_def defaultJSONObject_def)

lemma encodeJSONObject_doc: "\<exists>kvs. encodeJSONObject v = RawDoc (JObj kvs)"
  by (simp add: encodeJSONObject_def defaultJSONObject_def)

lemma encoded_output: "\<exists>j. jsonb_in (encodeJSONObject kvs) = Inr j"
  using encodeJSONObject_doc [of kvs] by auto

lemma encodeJSONArray_doc: "\<exists>js. encodeJSONArray v = RawDoc (JArr js)"
  by (simp add: encodeJSONArray_def defaultJSONArray_def)

end
