(* ===== verification/Forge_Store.thy ===== *)
theory Forge_Store
  imports Forge_Json
begin

text \<open>
  The rows of the PostgreSQL schema (internal/db/models.go and sql/migrations), the database
  as a record of tables, and the insertion of a ticket event with the trigger that enqueues
  webhook deliveries. A NOT NULL column is a plain value, a nullable one an option.
\<close>

section \<open>Rows (internal/db/models.go)\<close>

record workspace =
  ws_ID :: uuid
  ws_Name :: string
  ws_CreatedAt :: timestamp
  ws_UpdatedAt :: timestamp

record project =
  pj_ID :: uuid
  pj_WorkspaceID :: uuid
  pj_Name :: string
  pj_CreatedAt :: timestamp
  pj_UpdatedAt :: timestamp

record ticket =
  tk_ID :: uuid
  tk_WorkspaceID :: uuid
  tk_ProjectID :: uuid
  tk_ParentID :: "uuid option"
  tk_RootID :: "uuid option"
  tk_SourceAttemptID :: "uuid option"
  tk_SourceArtifactID :: "uuid option"
  tk_Title :: string
  tk_Description :: string
  tk_Type :: string
  tk_Status :: string
  tk_Priority :: int
  tk_Tags :: "string list"
  tk_AcceptanceCriteria :: "string list"
  tk_VerificationCommands :: json
  tk_ExpectedArtifacts :: "string list"
  tk_RelevantPaths :: "string list"
  tk_RequiredTools :: "string list"
  tk_RequiredPermissions :: "string list"
  tk_Environment :: json
  tk_Input :: json
  tk_InputSchema :: "string option"
  tk_RequiredCapabilities :: "string list"
  tk_AllowedHarnesses :: "string list"
  tk_RetryPolicy :: json
  tk_CreatedBy :: string
  tk_CreatedByID :: "string option"
  tk_CreationReason :: "string option"
  tk_CreatedAt :: timestamp
  tk_UpdatedAt :: timestamp

record ticket_dependency =
  dep_TicketID :: uuid
  dep_DependsOnTicketID :: uuid
  dep_WorkspaceID :: uuid
  dep_ProjectID :: uuid
  dep_CreatedAt :: timestamp

record attempt =
  at_ID :: uuid
  at_WorkspaceID :: uuid
  at_ProjectID :: uuid
  at_TicketID :: uuid
  at_AgentID :: string
  at_Harness :: string
  at_Model :: string
  at_Status :: string
  at_LeaseExpiresAt :: timestamp
  at_LastHeartbeatAt :: "timestamp option"
  at_ProgressPercent :: int
  at_CurrentSummary :: "string option"
  at_NextStep :: "string option"
  at_Output :: json
  at_OutputSchema :: "string option"
  at_FailureReason :: "string option"
  at_FailureCategory :: "string option"
  at_Blocker :: "json option"
  at_TraceID :: "string option"
  at_CheckpointRef :: "string option"
  at_StartedAt :: timestamp
  at_CompletedAt :: "timestamp option"

record attempt_checkpoint =
  cp_ID :: uuid
  cp_WorkspaceID :: uuid
  cp_ProjectID :: uuid
  cp_TicketID :: uuid
  cp_AttemptID :: uuid
  cp_Summary :: string
  cp_FilesTouched :: "string list"
  cp_CommandsRun :: "string list"
  cp_NextStep :: "string option"
  cp_Risk :: "string option"
  cp_CreatedAt :: timestamp

text \<open>The numeric columns of \<open>attempt_metrics\<close> keep a fixed scale (six and three digits);
  they are the integers of that scale.\<close>

record attempt_metric =
  am_ID :: uuid
  am_AttemptID :: uuid
  am_WorkspaceID :: uuid
  am_ProjectID :: uuid
  am_TokensIn :: int
  am_TokensOut :: int
  am_CostUsd :: int
  am_DurationSeconds :: int
  am_RetryCount :: int
  am_CreatedAt :: timestamp

record ticket_event =
  ev_ID :: uuid
  ev_WorkspaceID :: uuid
  ev_ProjectID :: uuid
  ev_TicketID :: uuid
  ev_AttemptID :: "uuid option"
  ev_Type :: string
  ev_ActorType :: string
  ev_ActorID :: "string option"
  ev_Data :: json
  ev_CreatedAt :: timestamp
  ev_EventSequence :: int

record artifact =
  ar_ID :: uuid
  ar_WorkspaceID :: uuid
  ar_ProjectID :: uuid
  ar_TicketID :: uuid
  ar_AttemptID :: "uuid option"
  ar_Type :: string
  ar_Role :: string
  ar_Name :: string
  ar_Url :: string
  ar_StorageBackend :: string
  ar_SizeBytes :: int
  ar_MimeType :: string
  ar_Metadata :: json
  ar_CreatedAt :: timestamp

record idempotency_key =
  ik_ID :: uuid
  ik_WorkspaceID :: uuid
  ik_ActorID :: string
  ik_Key :: string
  ik_Route :: string
  ik_RequestHash :: string
  ik_ResponseBody :: json
  ik_CreatedAt :: timestamp
  ik_ExpiresAt :: timestamp

record webhook_subscription =
  wsub_ID :: uuid
  wsub_WorkspaceID :: uuid
  wsub_ProjectID :: uuid
  wsub_EndpointUrl :: string
  wsub_Secret :: "string option"
  wsub_EventTypes :: "string list"
  wsub_Active :: bool
  wsub_MaxAttempts :: int
  wsub_Description :: string
  wsub_CreatedAt :: timestamp
  wsub_UpdatedAt :: timestamp

text \<open>The \<open>payload\<close> document that the trigger of migration 0007 builds: the event, and the
  attempt and metrics rows as they are when the event is inserted.\<close>

record delivery_payload =
  pl_Event :: ticket_event
  pl_Attempt :: "attempt option"
  pl_Metrics :: "attempt_metric option"

record webhook_delivery =
  wd_ID :: uuid
  wd_SubscriptionID :: uuid
  wd_EventID :: uuid
  wd_WorkspaceID :: uuid
  wd_ProjectID :: uuid
  wd_TicketID :: uuid
  wd_AttemptID :: "uuid option"
  wd_Status :: string
  wd_Payload :: delivery_payload
  wd_AttemptCount :: int
  wd_MaxAttempts :: int
  wd_NextAttemptAt :: timestamp
  wd_LockedUntil :: "timestamp option"
  wd_LastAttemptAt :: "timestamp option"
  wd_DeliveredAt :: "timestamp option"
  wd_ResponseStatus :: "int option"
  wd_ResponseBody :: "string option"
  wd_Error :: "string option"
  wd_CreatedAt :: timestamp
  wd_UpdatedAt :: timestamp
  wd_ClaimToken :: "uuid option"

record agent_capability =
  ac_ID :: uuid
  ac_WorkspaceID :: uuid
  ac_ProjectID :: uuid
  ac_AgentID :: string
  ac_Harness :: string
  ac_Model :: string
  ac_Transports :: "string list"
  ac_Capabilities :: "string list"
  ac_ToolNames :: "string list"
  ac_ArtifactRoles :: "string list"
  ac_PreferredClaim :: json
  ac_Metadata :: json
  ac_LastSeenAt :: timestamp
  ac_CreatedAt :: timestamp
  ac_UpdatedAt :: timestamp

record workspace_member =
  wm_WorkspaceID :: uuid
  wm_ActorType :: string
  wm_ActorID :: string
  wm_Role :: string
  wm_CreatedAt :: timestamp
  wm_UpdatedAt :: timestamp

section \<open>The database\<close>

text \<open>
  \<open>event_seq\<close> is the next value of the sequence \<open>ticket_events_event_sequence_seq\<close>;
  \<open>id_ctr\<close> counts the calls of \<open>gen_random_uuid()\<close>, whose results the environment supplies.
\<close>

record db =
  workspaces :: "workspace list"
  projects :: "project list"
  tickets :: "ticket list"
  ticket_dependencies :: "ticket_dependency list"
  attempts :: "attempt list"
  attempt_checkpoints :: "attempt_checkpoint list"
  attempt_metrics :: "attempt_metric list"
  ticket_events :: "ticket_event list"
  artifacts :: "artifact list"
  idempotency_keys :: "idempotency_key list"
  webhook_subscriptions :: "webhook_subscription list"
  webhook_deliveries :: "webhook_delivery list"
  agent_capabilities :: "agent_capability list"
  workspace_members :: "workspace_member list"
  event_seq :: int
  id_ctr :: nat

text \<open>
  What PostgreSQL supplies to a statement: the transaction timestamp \<open>now()\<close>, the random
  UUIDs, and the text forms of timestamps and UUIDs inside \<open>jsonb_build_object\<close>.
  \<open>env_casts\<close> is the freedom of the query planner where a condition can raise an error: the
  tickets on whose retry policy the chosen plan evaluates the cast of \<open>max_attempts\<close> although
  the result does not need it.
\<close>

record pg_env =
  env_now :: timestamp
  env_gen :: "nat \<Rightarrow> uuid"
  env_time_text :: "timestamp \<Rightarrow> string"
  env_uuid_text :: "uuid \<Rightarrow> string"
  env_casts :: "ticket \<Rightarrow> bool"

definition gen_random_uuid :: "pg_env \<Rightarrow> db \<Rightarrow> uuid \<times> db" where
  "gen_random_uuid env d = (env_gen env (id_ctr d), d\<lparr>id_ctr := Suc (id_ctr d)\<rparr>)"

section \<open>Literals of the schema and the services\<close>

definition ActorHuman :: string where "ActorHuman = ''human''"
definition ActorAgent :: string where "ActorAgent = ''agent''"
definition ActorSystem :: string where "ActorSystem = ''system''"

definition TicketStatusBacklog :: string where "TicketStatusBacklog = ''backlog''"
definition TicketStatusTodo :: string where "TicketStatusTodo = ''todo''"
definition TicketStatusInProgress :: string where "TicketStatusInProgress = ''in_progress''"
definition TicketStatusBlocked :: string where "TicketStatusBlocked = ''blocked''"
definition TicketStatusNeedsReview :: string where "TicketStatusNeedsReview = ''needs_review''"
definition TicketStatusDone :: string where "TicketStatusDone = ''done''"
definition TicketStatusFailed :: string where "TicketStatusFailed = ''failed''"
definition TicketStatusArchived :: string where "TicketStatusArchived = ''archived''"

definition AttemptStatusRunning :: string where "AttemptStatusRunning = ''running''"
definition AttemptStatusSucceeded :: string where "AttemptStatusSucceeded = ''succeeded''"
definition AttemptStatusFailed :: string where "AttemptStatusFailed = ''failed''"
definition AttemptStatusBlocked :: string where "AttemptStatusBlocked = ''blocked''"
definition AttemptStatusExpired :: string where "AttemptStatusExpired = ''expired''"
definition AttemptStatusCancelled :: string where "AttemptStatusCancelled = ''cancelled''"

lemmas ticket_status_defs =
  TicketStatusBacklog_def TicketStatusTodo_def TicketStatusInProgress_def
  TicketStatusBlocked_def TicketStatusNeedsReview_def TicketStatusDone_def
  TicketStatusFailed_def TicketStatusArchived_def

lemmas attempt_status_defs =
  AttemptStatusRunning_def AttemptStatusSucceeded_def AttemptStatusFailed_def
  AttemptStatusBlocked_def AttemptStatusExpired_def AttemptStatusCancelled_def

lemmas actor_defs = ActorHuman_def ActorAgent_def ActorSystem_def

definition ticket_status_names :: "string list" where
  "ticket_status_names =
     [TicketStatusBacklog, TicketStatusTodo, TicketStatusInProgress, TicketStatusBlocked,
      TicketStatusNeedsReview, TicketStatusDone, TicketStatusFailed, TicketStatusArchived]"

definition attempt_status_names :: "string list" where
  "attempt_status_names =
     [AttemptStatusRunning, AttemptStatusSucceeded, AttemptStatusFailed,
      AttemptStatusBlocked, AttemptStatusExpired, AttemptStatusCancelled]"

definition ticket_event_types :: "string list" where
  "ticket_event_types =
     [''created'', ''proposed'', ''claimed'', ''heartbeat'', ''checkpointed'', ''updated'',
      ''completed'', ''failed'', ''blocked'', ''expired'', ''cancelled'', ''ready'', ''reopened'',
      ''unblocked'', ''review_requested'', ''reviewed'', ''archived'']"

definition actor_types :: "string list" where
  "actor_types = [ActorHuman, ActorAgent, ActorSystem]"

lemma ticket_status_distinct:
  "distinct [TicketStatusBacklog, TicketStatusTodo, TicketStatusInProgress, TicketStatusBlocked,
     TicketStatusNeedsReview, TicketStatusDone, TicketStatusFailed, TicketStatusArchived]"
  "distinct [TicketStatusArchived, TicketStatusFailed, TicketStatusDone, TicketStatusNeedsReview,
     TicketStatusBlocked, TicketStatusInProgress, TicketStatusTodo, TicketStatusBacklog]"
  by (simp_all add: ticket_status_defs)

lemma attempt_status_distinct:
  "distinct [AttemptStatusRunning, AttemptStatusSucceeded, AttemptStatusFailed,
     AttemptStatusBlocked, AttemptStatusExpired, AttemptStatusCancelled]"
  "distinct [AttemptStatusCancelled, AttemptStatusExpired, AttemptStatusBlocked,
     AttemptStatusFailed, AttemptStatusSucceeded, AttemptStatusRunning]"
  by (simp_all add: attempt_status_defs)

lemma actor_distinct:
  "distinct [ActorHuman, ActorAgent, ActorSystem]" "distinct [ActorSystem, ActorAgent, ActorHuman]"
  by (simp_all add: actor_defs)

lemmas ticket_status_neq [simp] = ticket_status_distinct [simplified]
lemmas attempt_status_neq [simp] = attempt_status_distinct [simplified]
lemmas actor_neq [simp] = actor_distinct [simplified]

lemma literal_nonempty [simp]:
  "TicketStatusBacklog \<noteq> []" "TicketStatusTodo \<noteq> []" "ActorHuman \<noteq> []" "ActorAgent \<noteq> []"
  by (simp_all add: ticket_status_defs actor_defs)

section \<open>The two statements every workflow statement ends with\<close>

text \<open>
  Insertion into \<open>webhook_deliveries\<close> by the triggers of migrations 0007 and 0012: one
  pending delivery per active subscription of the event's scope that asks for the event's
  type (an empty list asks for every type but heartbeats).
\<close>

definition subscription_wants :: "ticket_event \<Rightarrow> webhook_subscription \<Rightarrow> bool" where
  "subscription_wants e s \<longleftrightarrow>
     wsub_WorkspaceID s = ev_WorkspaceID e \<and> wsub_ProjectID s = ev_ProjectID e \<and>
     wsub_Active s \<and>
     (wsub_EventTypes s = [] \<or> ev_Type e \<in> set (wsub_EventTypes s)) \<and>
     \<not> (ev_Type e = ''heartbeat'' \<and> wsub_EventTypes s = [])"

definition new_delivery ::
  "pg_env \<Rightarrow> db \<Rightarrow> ticket_event \<Rightarrow> webhook_subscription \<Rightarrow> uuid \<Rightarrow> webhook_delivery" where
  "new_delivery env d e s i =
     \<lparr>wd_ID = i, wd_SubscriptionID = wsub_ID s, wd_EventID = ev_ID e,
      wd_WorkspaceID = ev_WorkspaceID e, wd_ProjectID = ev_ProjectID e,
      wd_TicketID = ev_TicketID e, wd_AttemptID = ev_AttemptID e,
      wd_Status = ''pending'',
      wd_Payload =
        \<lparr>pl_Event = e,
         pl_Attempt = (case ev_AttemptID e of None \<Rightarrow> None | Some a \<Rightarrow> find_row at_ID a (attempts d)),
         pl_Metrics = (case ev_AttemptID e of None \<Rightarrow> None
            | Some a \<Rightarrow> find_row am_AttemptID a (attempt_metrics d))\<rparr>,
      wd_AttemptCount = 0, wd_MaxAttempts = wsub_MaxAttempts s,
      wd_NextAttemptAt = env_now env, wd_LockedUntil = None, wd_LastAttemptAt = None,
      wd_DeliveredAt = None, wd_ResponseStatus = None, wd_ResponseBody = None, wd_Error = None,
      wd_CreatedAt = env_now env, wd_UpdatedAt = env_now env, wd_ClaimToken = None\<rparr>"

fun enqueue_deliveries ::
  "pg_env \<Rightarrow> ticket_event \<Rightarrow> webhook_subscription list \<Rightarrow> db \<Rightarrow> pg_error + db" where
  "enqueue_deliveries env e [] d = Inr d"
| "enqueue_deliveries env e (s # ss) d =
     (case gen_random_uuid env d of (i, d1) \<Rightarrow>
        and_then (insert_row wd_ID (new_delivery env d1 e s i) (webhook_deliveries d1))
          (\<lambda>ds. enqueue_deliveries env e ss (d1\<lparr>webhook_deliveries := ds\<rparr>)))"

record event_params =
  ep_WorkspaceID :: uuid
  ep_ProjectID :: uuid
  ep_TicketID :: uuid
  ep_AttemptID :: "uuid option"
  ep_Type :: string
  ep_ActorType :: string
  ep_ActorID :: "string option"
  ep_Data :: json

text \<open>The scoped foreign keys of migration 0013.\<close>

definition ticket_in_scope :: "db \<Rightarrow> uuid \<Rightarrow> uuid \<Rightarrow> uuid \<Rightarrow> bool" where
  "ticket_in_scope d w p t \<longleftrightarrow>
     (\<exists>r \<in> set (tickets d). tk_ID r = t \<and> tk_WorkspaceID r = w \<and> tk_ProjectID r = p)"

definition attempt_in_scope :: "db \<Rightarrow> uuid \<Rightarrow> uuid \<Rightarrow> uuid \<Rightarrow> uuid \<Rightarrow> bool" where
  "attempt_in_scope d w p t a \<longleftrightarrow>
     (\<exists>r \<in> set (attempts d). at_ID r = a \<and> at_TicketID r = t \<and> at_WorkspaceID r = w \<and>
        at_ProjectID r = p)"

definition new_event :: "pg_env \<Rightarrow> event_params \<Rightarrow> int \<Rightarrow> uuid \<Rightarrow> ticket_event" where
  "new_event env p n i =
     \<lparr>ev_ID = i, ev_WorkspaceID = ep_WorkspaceID p, ev_ProjectID = ep_ProjectID p,
      ev_TicketID = ep_TicketID p, ev_AttemptID = ep_AttemptID p, ev_Type = ep_Type p,
      ev_ActorType = ep_ActorType p, ev_ActorID = ep_ActorID p, ev_Data = ep_Data p,
      ev_CreatedAt = env_now env, ev_EventSequence = n\<rparr>"

text \<open>The number of an event is drawn and becomes visible in one step: that transactions which run at
  the same time may commit in another order than they drew their numbers is outside the model.\<close>

definition insert_ticket_event ::
  "pg_env \<Rightarrow> event_params \<Rightarrow> db \<Rightarrow> pg_error + (ticket_event \<times> db)" where
  "insert_ticket_event env p d =
     (case gen_random_uuid env d of (i, d1) \<Rightarrow>
        let e = new_event env p (event_seq d1) i in
        and_then (ensure (ep_Type p \<in> set ticket_event_types) CheckViolation) (\<lambda>_.
        and_then (ensure (ep_ActorType p \<in> set actor_types) CheckViolation) (\<lambda>_.
        and_then (insert_row ev_ID e (ticket_events d1)) (\<lambda>es.
        and_then (ensure (ticket_in_scope d1 (ep_WorkspaceID p) (ep_ProjectID p) (ep_TicketID p))
                    ForeignKeyViolation) (\<lambda>_.
        and_then (ensure (case ep_AttemptID p of None \<Rightarrow> True
                    | Some a \<Rightarrow> attempt_in_scope d1 (ep_WorkspaceID p) (ep_ProjectID p)
                                  (ep_TicketID p) a) ForeignKeyViolation) (\<lambda>_.
        and_then (enqueue_deliveries env e
                    (filter (subscription_wants e) (webhook_subscriptions d1))
                    (d1\<lparr>ticket_events := es, event_seq := event_seq d1 + 1\<rparr>)) (\<lambda>d2.
        Inr (e, d2))))))))"

text \<open>
  What the two insertions leave alone. \<open>core\<close> forgets the delivery table and the UUID
  counter, the only parts of the database that an enqueued delivery changes.
\<close>

abbreviation core :: "db \<Rightarrow> db" where
  "core d \<equiv> d\<lparr>webhook_deliveries := [], id_ctr := 0\<rparr>"

lemma gen_random_uuid_core [simp]: "core (snd (gen_random_uuid env d)) = core d"
  by (simp add: gen_random_uuid_def)

lemma enqueue_deliveries_core: "enqueue_deliveries env e ss d = Inr d' \<Longrightarrow> core d' = core d"
  by (induction ss arbitrary: d) (auto simp: gen_random_uuid_def result_simps)

lemma core_eqD:
  assumes "core d' = core d"
  shows "workspaces d' = workspaces d" "projects d' = projects d" "tickets d' = tickets d"
    "ticket_dependencies d' = ticket_dependencies d" "attempts d' = attempts d"
    "attempt_checkpoints d' = attempt_checkpoints d" "attempt_metrics d' = attempt_metrics d"
    "ticket_events d' = ticket_events d" "artifacts d' = artifacts d"
    "idempotency_keys d' = idempotency_keys d"
    "webhook_subscriptions d' = webhook_subscriptions d"
    "agent_capabilities d' = agent_capabilities d" "workspace_members d' = workspace_members d"
    "event_seq d' = event_seq d"
  using assms by (cases d; cases d'; simp)+

lemma insert_ticket_event_core:
  assumes "insert_ticket_event env p d = Inr (e, d')"
  shows "core d' = core (d\<lparr>ticket_events := ticket_events d @ [e], event_seq := event_seq d + 1\<rparr>)"
    and "e = new_event env p (event_seq d) (env_gen env (id_ctr d))"
    and "ev_ID e \<notin> ev_ID ` set (ticket_events d)"
  using assms
  by (auto simp: insert_ticket_event_def gen_random_uuid_def Let_def result_simps
      dest!: enqueue_deliveries_core)

lemmas insert_ticket_event_frame [frame_simps] =
  core_eqD [OF insert_ticket_event_core(1), simplified]

lemma insert_ticket_event_checks:
  assumes "insert_ticket_event env p d = Inr (e, d')"
  shows "ep_Type p \<in> set ticket_event_types" and "ep_ActorType p \<in> set actor_types"
    and "ticket_in_scope d (ep_WorkspaceID p) (ep_ProjectID p) (ep_TicketID p)"
  using assms
  by (auto simp: insert_ticket_event_def gen_random_uuid_def Let_def result_simps
      ticket_in_scope_def)

section \<open>Fresh identifiers\<close>

text \<open>
  \<open>gen_random_uuid()\<close> is documented to return identifiers that do not collide. \<open>gen_fresh env n d\<close>
  states that for the next \<open>n\<close> identifiers: they are pairwise distinct and none is the key of a
  stored row. Only claims that a statement succeeds rest on it.
\<close>

definition used_ids :: "db \<Rightarrow> uuid set" where
  "used_ids d =
     tk_ID ` set (tickets d) \<union> at_ID ` set (attempts d) \<union>
     cp_ID ` set (attempt_checkpoints d) \<union> am_ID ` set (attempt_metrics d) \<union>
     ev_ID ` set (ticket_events d) \<union> ar_ID ` set (artifacts d) \<union>
     ik_ID ` set (idempotency_keys d) \<union> wd_ID ` set (webhook_deliveries d) \<union>
     wsub_ID ` set (webhook_subscriptions d) \<union> ac_ID ` set (agent_capabilities d)"

definition gen_fresh :: "pg_env \<Rightarrow> nat \<Rightarrow> db \<Rightarrow> bool" where
  "gen_fresh env n d \<longleftrightarrow>
     (\<forall>i < n. env_gen env (id_ctr d + i) \<notin> used_ids d) \<and>
     inj_on (\<lambda>i. env_gen env (id_ctr d + i)) {..<n}"

lemma gen_freshD: "gen_fresh env (Suc n) d \<Longrightarrow> env_gen env (id_ctr d) \<notin> used_ids d"
  unfolding gen_fresh_def by (metis add.right_neutral zero_less_Suc)

lemma gen_fresh_mono: "gen_fresh env n d \<Longrightarrow> m \<le> n \<Longrightarrow> gen_fresh env m d"
  unfolding gen_fresh_def by (auto intro: inj_on_subset)

text \<open>A row stored under the next identifier leaves the later identifiers fresh.\<close>

lemma gen_fresh_step:
  assumes "gen_fresh env (Suc n) d"
    and "used_ids d' \<subseteq> insert (env_gen env (id_ctr d)) (used_ids d)"
    and "id_ctr d' = Suc (id_ctr d)"
  shows "gen_fresh env n d'"
proof -
  have inj: "inj_on (\<lambda>i. env_gen env (id_ctr d + i)) {..<Suc n}"
    and new: "\<And>i. i < Suc n \<Longrightarrow> env_gen env (id_ctr d + i) \<notin> used_ids d"
    using assms(1) by (auto simp: gen_fresh_def)
  have "env_gen env (id_ctr d' + i) \<notin> used_ids d'" if "i < n" for i
  proof
    assume "env_gen env (id_ctr d' + i) \<in> used_ids d'"
    then have "env_gen env (id_ctr d + Suc i) = env_gen env (id_ctr d + 0)"
      using assms(2,3) new [of "Suc i"] that by auto
    from inj_onD [OF inj this] that show False by simp
  qed
  moreover have "inj_on (\<lambda>i. env_gen env (id_ctr d' + i)) {..<n}"
  proof (rule inj_onI)
    fix i j
    assume "i \<in> {..<n}" "j \<in> {..<n}" "env_gen env (id_ctr d' + i) = env_gen env (id_ctr d' + j)"
    then show "i = j"
      using inj_onD [OF inj, of "Suc i" "Suc j"] by (simp add: assms(3))
  qed
  ultimately show ?thesis by (simp add: gen_fresh_def)
qed

lemma enqueue_deliveries_succeeds:
  "gen_fresh env (length ss + n) d \<Longrightarrow>
   \<exists>d'. enqueue_deliveries env e ss d = Inr d' \<and> gen_fresh env n d'"
proof (induction ss arbitrary: d)
  case Nil
  then show ?case by simp
next
  case (Cons s ss)
  let ?i = "env_gen env (id_ctr d)"
  let ?d1 = "d\<lparr>id_ctr := Suc (id_ctr d)\<rparr>"
  let ?w = "new_delivery env ?d1 e s ?i"
  let ?d2 = "?d1\<lparr>webhook_deliveries := webhook_deliveries d @ [?w]\<rparr>"
  have g: "gen_fresh env (Suc (length ss + n)) d"
    using Cons.prems by simp
  have fresh: "?i \<notin> wd_ID ` set (webhook_deliveries d)"
    using gen_freshD [OF g] by (simp add: used_ids_def)
  have "gen_fresh env (length ss + n) ?d2"
    by (rule gen_fresh_step [OF g]) (auto simp: used_ids_def new_delivery_def)
  then obtain d' where "enqueue_deliveries env e ss ?d2 = Inr d'" and "gen_fresh env n d'"
    using Cons.IH by blast
  then show ?case
    using fresh by (simp add: gen_random_uuid_def insert_row_def new_delivery_def)
qed

text \<open>The identifiers that an event can use: its own, and one per delivery it enqueues.\<close>

definition event_ids :: "db \<Rightarrow> nat" where
  "event_ids d = Suc (length (webhook_subscriptions d))"

lemma insert_ticket_event_succeeds:
  assumes "gen_fresh env (event_ids d + n) d"
    and "ep_Type p \<in> set ticket_event_types" and "ep_ActorType p \<in> set actor_types"
    and "ticket_in_scope d (ep_WorkspaceID p) (ep_ProjectID p) (ep_TicketID p)"
    and "\<And>a. ep_AttemptID p = Some a \<Longrightarrow>
      attempt_in_scope d (ep_WorkspaceID p) (ep_ProjectID p) (ep_TicketID p) a"
  shows "\<exists>e d'. insert_ticket_event env p d = Inr (e, d') \<and> gen_fresh env n d'"
proof -
  let ?i = "env_gen env (id_ctr d)"
  let ?e = "new_event env p (event_seq d) ?i"
  let ?ss = "filter (subscription_wants ?e) (webhook_subscriptions d)"
  let ?d1 = "d\<lparr>id_ctr := Suc (id_ctr d), ticket_events := ticket_events d @ [?e],
    event_seq := event_seq d + 1\<rparr>"
  have g: "gen_fresh env (Suc (length ?ss + n)) d"
    using assms(1) by (rule gen_fresh_mono) (simp add: event_ids_def)
  have fresh: "?i \<notin> ev_ID ` set (ticket_events d)"
    using gen_freshD [OF g] by (simp add: used_ids_def)
  have "gen_fresh env (length ?ss + n) ?d1"
    by (rule gen_fresh_step [OF g]) (auto simp: used_ids_def new_event_def)
  then obtain d' where "enqueue_deliveries env ?e ?ss ?d1 = Inr d'" and "gen_fresh env n d'"
    using enqueue_deliveries_succeeds by blast
  then show ?thesis
    using assms fresh
    by (auto simp: insert_ticket_event_def gen_random_uuid_def Let_def insert_row_def
        new_event_def ticket_in_scope_def attempt_in_scope_def ensure_def split: option.splits)
qed

end
