(* ===== verification/Ticket_Store.thy ===== *)
theory Ticket_Store
  imports Forge_Store
begin

text \<open>
  The statements of internal/db/tickets.sql.go and the event statements of
  internal/db/events.sql.go. A statement takes the database and returns an error, leaving
  the database as it was, or a row and the new database.
\<close>

record create_ticket_params =
  ctp_WorkspaceID :: "uuid option"
  ctp_ProjectID :: "uuid option"
  ctp_ParentID :: "uuid option"
  ctp_RootID :: "uuid option"
  ctp_SourceAttemptID :: "uuid option"
  ctp_SourceArtifactID :: "uuid option"
  ctp_Title :: string
  ctp_Description :: string
  ctp_Type :: string
  ctp_Status :: string
  ctp_Priority :: int
  ctp_Tags :: "string list"
  ctp_AcceptanceCriteria :: "string list"
  ctp_VerificationCommands :: json_raw
  ctp_ExpectedArtifacts :: "string list"
  ctp_RelevantPaths :: "string list"
  ctp_RequiredTools :: "string list"
  ctp_RequiredPermissions :: "string list"
  ctp_Environment :: json_raw
  ctp_Input :: json_raw
  ctp_InputSchema :: "string option"
  ctp_RequiredCapabilities :: "string list"
  ctp_AllowedHarnesses :: "string list"
  ctp_RetryPolicy :: json_raw
  ctp_CreatedBy :: string
  ctp_CreatedByID :: "string option"
  ctp_CreationReason :: "string option"

definition ticket_type_names :: "string list" where
  "ticket_type_names =
     [''feature'', ''task'', ''bug'', ''documentation'', ''research'', ''analysis'', ''planning'',
      ''review'', ''integration'', ''investigation'', ''cleanup'', ''follow_up'', ''custom'']"

text \<open>The CHECK constraints of the table \<open>tickets\<close>.\<close>

definition ticket_row_checks :: "ticket \<Rightarrow> bool" where
  "ticket_row_checks t \<longleftrightarrow>
     tk_Type t \<in> set ticket_type_names \<and> tk_Status t \<in> set ticket_status_names \<and>
     0 \<le> tk_Priority t \<and> tk_Priority t \<le> 4 \<and> tk_CreatedBy t \<in> set actor_types"

text \<open>Its foreign keys: the project of the workspace, and references inside the scope.\<close>

definition project_in_scope :: "db \<Rightarrow> uuid \<Rightarrow> uuid \<Rightarrow> bool" where
  "project_in_scope d w p \<longleftrightarrow> (\<exists>r \<in> set (projects d). pj_ID r = p \<and> pj_WorkspaceID r = w)"

definition ticket_row_references :: "db \<Rightarrow> ticket \<Rightarrow> bool" where
  "ticket_row_references d t \<longleftrightarrow>
     project_in_scope d (tk_WorkspaceID t) (tk_ProjectID t) \<and>
     (\<forall>i \<in> set_option (tk_ParentID t).
        ticket_in_scope d (tk_WorkspaceID t) (tk_ProjectID t) i) \<and>
     (\<forall>i \<in> set_option (tk_RootID t).
        ticket_in_scope d (tk_WorkspaceID t) (tk_ProjectID t) i) \<and>
     (\<forall>i \<in> set_option (tk_SourceAttemptID t).
        \<exists>a \<in> set (attempts d). at_ID a = i \<and> at_WorkspaceID a = tk_WorkspaceID t \<and>
          at_ProjectID a = tk_ProjectID t) \<and>
     (\<forall>i \<in> set_option (tk_SourceArtifactID t).
        \<exists>a \<in> set (artifacts d). ar_ID a = i \<and> ar_WorkspaceID a = tk_WorkspaceID t \<and>
          ar_ProjectID a = tk_ProjectID t)"

definition not_null :: "'a option \<Rightarrow> pg_error + 'a" where
  "not_null v = (case v of None \<Rightarrow> Inl NotNullViolation | Some x \<Rightarrow> Inr x)"

lemma not_null_Inr_iff [result_simps]: "not_null v = Inr x \<longleftrightarrow> v = Some x"
  by (cases v) (auto simp: not_null_def)

lemma not_null_Some [simp]: "not_null (Some x) = Inr x"
  by (simp add: not_null_def)

definition new_ticket ::
  "pg_env \<Rightarrow> create_ticket_params \<Rightarrow> uuid \<Rightarrow> uuid \<Rightarrow> uuid \<Rightarrow> json \<Rightarrow> json \<Rightarrow> json \<Rightarrow> json \<Rightarrow> ticket" where
  "new_ticket env p i w pj vc en inp rp =
     \<lparr>tk_ID = i, tk_WorkspaceID = w, tk_ProjectID = pj, tk_ParentID = ctp_ParentID p,
      tk_RootID = ctp_RootID p, tk_SourceAttemptID = ctp_SourceAttemptID p,
      tk_SourceArtifactID = ctp_SourceArtifactID p, tk_Title = ctp_Title p,
      tk_Description = ctp_Description p, tk_Type = ctp_Type p, tk_Status = ctp_Status p,
      tk_Priority = ctp_Priority p, tk_Tags = ctp_Tags p,
      tk_AcceptanceCriteria = ctp_AcceptanceCriteria p, tk_VerificationCommands = vc,
      tk_ExpectedArtifacts = ctp_ExpectedArtifacts p, tk_RelevantPaths = ctp_RelevantPaths p,
      tk_RequiredTools = ctp_RequiredTools p, tk_RequiredPermissions = ctp_RequiredPermissions p,
      tk_Environment = en, tk_Input = inp, tk_InputSchema = ctp_InputSchema p,
      tk_RequiredCapabilities = ctp_RequiredCapabilities p,
      tk_AllowedHarnesses = ctp_AllowedHarnesses p, tk_RetryPolicy = rp,
      tk_CreatedBy = ctp_CreatedBy p, tk_CreatedByID = ctp_CreatedByID p,
      tk_CreationReason = ctp_CreationReason p, tk_CreatedAt = env_now env,
      tk_UpdatedAt = env_now env\<rparr>"

definition CreateTicket_stmt ::
  "pg_env \<Rightarrow> create_ticket_params \<Rightarrow> db \<Rightarrow> pg_error + (ticket \<times> db)" where
  "CreateTicket_stmt env p d =
     (case gen_random_uuid env d of (i, d1) \<Rightarrow>
        and_then (jsonb_in (ctp_VerificationCommands p)) (\<lambda>vc.
        and_then (jsonb_in (ctp_Environment p)) (\<lambda>en.
        and_then (jsonb_in (ctp_Input p)) (\<lambda>inp.
        and_then (jsonb_in (ctp_RetryPolicy p)) (\<lambda>rp.
        and_then (not_null (ctp_WorkspaceID p)) (\<lambda>w.
        and_then (not_null (ctp_ProjectID p)) (\<lambda>pj.
        let t = new_ticket env p i w pj vc en inp rp in
        and_then (ensure (ticket_row_checks t) CheckViolation) (\<lambda>_.
        and_then (insert_row tk_ID t (tickets d1)) (\<lambda>ts.
        let d2 = d1\<lparr>tickets := ts\<rparr> in
        and_then (ensure (ticket_row_references d2 t) ForeignKeyViolation) (\<lambda>_.
        Inr (t, d2)))))))))))"

definition CreateTicketDependency_stmt ::
  "pg_env \<Rightarrow> uuid \<Rightarrow> uuid option \<Rightarrow> uuid \<Rightarrow> uuid \<Rightarrow> db \<Rightarrow> pg_error + (ticket_dependency \<times> db)" where
  "CreateTicketDependency_stmt env t on w p d =
     and_then (not_null on) (\<lambda>o'.
     let r = \<lparr>dep_TicketID = t, dep_DependsOnTicketID = o', dep_WorkspaceID = w,
              dep_ProjectID = p, dep_CreatedAt = env_now env\<rparr> in
     and_then (ensure (t \<noteq> o') CheckViolation) (\<lambda>_.
     and_then (insert_row (\<lambda>x. (dep_TicketID x, dep_DependsOnTicketID x)) r
                 (ticket_dependencies d)) (\<lambda>rs.
     and_then (ensure (ticket_in_scope d w p t \<and> ticket_in_scope d w p o') ForeignKeyViolation)
       (\<lambda>_. Inr (r, d\<lparr>ticket_dependencies := rs\<rparr>)))))"

definition GetTicket_stmt :: "uuid option \<Rightarrow> db \<Rightarrow> pg_error + ticket" where
  "GetTicket_stmt i d =
     (case i of None \<Rightarrow> Inl NoRows
      | Some k \<Rightarrow> (case find_row tk_ID k (tickets d) of None \<Rightarrow> Inl NoRows | Some t \<Rightarrow> Inr t))"

definition ListTicketDependencies_stmt :: "uuid \<Rightarrow> db \<Rightarrow> ticket_dependency list" where
  "ListTicketDependencies_stmt t d =
     sort_key dep_CreatedAt (filter (\<lambda>r. dep_TicketID r = t) (ticket_dependencies d))"

abbreviation queue_order :: "ticket \<Rightarrow> int \<times> timestamp" where
  "queue_order t \<equiv> (tk_Priority t, tk_CreatedAt t)"

record list_tickets_params =
  ltp_WorkspaceID :: "uuid option"
  ltp_ProjectID :: "uuid option"
  ltp_Status :: "string option"
  ltp_Type :: "string option"
  ltp_Offset :: int
  ltp_Limit :: int

definition ListTickets_stmt :: "list_tickets_params \<Rightarrow> db \<Rightarrow> ticket list" where
  "ListTickets_stmt p d =
     limit_rows (ltp_Limit p) (offset_rows (ltp_Offset p) (sort_key queue_order
       (filter (\<lambda>t. Some (tk_WorkspaceID t) = ltp_WorkspaceID p \<and>
          Some (tk_ProjectID t) = ltp_ProjectID p \<and>
          (ltp_Status p = None \<or> ltp_Status p = Some (tk_Status t)) \<and>
          (ltp_Type p = None \<or> ltp_Type p = Some (tk_Type t))) (tickets d))))"

definition ListProposedTickets_stmt ::
  "uuid option \<Rightarrow> uuid option \<Rightarrow> string option \<Rightarrow> int \<Rightarrow> int \<Rightarrow> db \<Rightarrow> ticket list" where
  "ListProposedTickets_stmt w p ty off lim d =
     limit_rows lim (offset_rows off (sort_key queue_order
       (filter (\<lambda>t. Some (tk_WorkspaceID t) = w \<and> Some (tk_ProjectID t) = p \<and>
          tk_Status t = TicketStatusBacklog \<and> tk_CreatedBy t = ActorAgent \<and>
          (ty = None \<or> ty = Some (tk_Type t))) (tickets d))))"

record transition_ticket_params =
  ttp_Status :: string
  ttp_ID :: "uuid option"
  ttp_AllowedStatuses :: "string list"
  ttp_Type :: string
  ttp_ActorType :: string
  ttp_ActorID :: "string option"
  ttp_Data :: json_raw

text \<open>The update of one ticket's status that \<open>TransitionTicket\<close> and the attempt
  transitions perform.\<close>

definition set_ticket_status :: "pg_env \<Rightarrow> uuid \<Rightarrow> string \<Rightarrow> db \<Rightarrow> db" where
  "set_ticket_status env i st d =
     d\<lparr>tickets := update_rows (\<lambda>t. tk_ID t = i)
         (\<lambda>t. t\<lparr>tk_Status := st, tk_UpdatedAt := env_now env\<rparr>) (tickets d)\<rparr>"

definition TransitionTicket_stmt ::
  "pg_env \<Rightarrow> transition_ticket_params \<Rightarrow> db \<Rightarrow> pg_error + (ticket \<times> db)" where
  "TransitionTicket_stmt env p d =
     and_then (jsonb_in (ttp_Data p)) (\<lambda>j.
     and_then (GetTicket_stmt (ttp_ID p) d) (\<lambda>t.
     and_then (ensure (tk_Status t \<in> set (ttp_AllowedStatuses p)) NoRows) (\<lambda>_.
     and_then (ensure (ttp_Status p \<in> set ticket_status_names) CheckViolation) (\<lambda>_.
     and_then (insert_ticket_event env
        \<lparr>ep_WorkspaceID = tk_WorkspaceID t, ep_ProjectID = tk_ProjectID t, ep_TicketID = tk_ID t,
         ep_AttemptID = None, ep_Type = ttp_Type p, ep_ActorType = ttp_ActorType p,
         ep_ActorID = ttp_ActorID p, ep_Data = j\<rparr>
        (set_ticket_status env (tk_ID t) (ttp_Status p) d)) (\<lambda>(e, d2).
     Inr (t\<lparr>tk_Status := ttp_Status p, tk_UpdatedAt := env_now env\<rparr>, d2))))))"

record update_ticket_params =
  utp_ID :: "uuid option"
  utp_Title :: "string option"
  utp_Description :: "string option"
  utp_UpdateTags :: bool
  utp_Tags :: "string list"
  utp_UpdateAcceptanceCriteria :: bool
  utp_AcceptanceCriteria :: "string list"
  utp_UpdateVerificationCommands :: bool
  utp_VerificationCommands :: json_raw
  utp_UpdateRelevantPaths :: bool
  utp_RelevantPaths :: "string list"

definition coalesce :: "'a option \<Rightarrow> 'a \<Rightarrow> 'a" where
  "coalesce v x = (case v of None \<Rightarrow> x | Some y \<Rightarrow> y)"

text \<open>The unused \<open>jsonb\<close> argument of an update that does not touch the commands is a nil
  byte slice, SQL NULL, and is not parsed.\<close>

definition patched_ticket ::
  "pg_env \<Rightarrow> update_ticket_params \<Rightarrow> json option \<Rightarrow> ticket \<Rightarrow> ticket" where
  "patched_ticket env p vc t =
     t\<lparr>tk_Title := coalesce (utp_Title p) (tk_Title t),
       tk_Description := coalesce (utp_Description p) (tk_Description t),
       tk_Tags := (if utp_UpdateTags p then utp_Tags p else tk_Tags t),
       tk_AcceptanceCriteria :=
         (if utp_UpdateAcceptanceCriteria p then utp_AcceptanceCriteria p
          else tk_AcceptanceCriteria t),
       tk_VerificationCommands := coalesce vc (tk_VerificationCommands t),
       tk_RelevantPaths :=
         (if utp_UpdateRelevantPaths p then utp_RelevantPaths p else tk_RelevantPaths t),
       tk_UpdatedAt := env_now env\<rparr>"

definition UpdateTicket_stmt ::
  "pg_env \<Rightarrow> update_ticket_params \<Rightarrow> db \<Rightarrow> pg_error + (ticket \<times> db)" where
  "UpdateTicket_stmt env p d =
     and_then (if utp_UpdateVerificationCommands p
               then and_then (jsonb_in (utp_VerificationCommands p)) (\<lambda>j. Inr (Some j))
               else Inr None) (\<lambda>vc.
     and_then (GetTicket_stmt (utp_ID p) d) (\<lambda>t.
     Inr (patched_ticket env p vc t,
          d\<lparr>tickets := update_rows (\<lambda>r. tk_ID r = tk_ID t) (patched_ticket env p vc)
                        (tickets d)\<rparr>)))"

definition CreateTicketEvent_stmt ::
  "pg_env \<Rightarrow> event_params \<Rightarrow> json_raw \<Rightarrow> db \<Rightarrow> pg_error + (ticket_event \<times> db)" where
  "CreateTicketEvent_stmt env p raw d =
     and_then (jsonb_in raw) (\<lambda>j. insert_ticket_event env (p\<lparr>ep_Data := j\<rparr>) d)"

section \<open>Events (internal/db/events.sql.go)\<close>

record list_events_params =
  lep_WorkspaceID :: "uuid option"
  lep_ProjectID :: "uuid option"
  lep_TicketID :: "uuid option"
  lep_AttemptID :: "uuid option"

definition event_matches :: "list_events_params \<Rightarrow> ticket_event \<Rightarrow> bool" where
  "event_matches p e \<longleftrightarrow>
     (lep_WorkspaceID p = None \<or> lep_WorkspaceID p = Some (ev_WorkspaceID e)) \<and>
     (lep_ProjectID p = None \<or> lep_ProjectID p = Some (ev_ProjectID e)) \<and>
     (lep_TicketID p = None \<or> lep_TicketID p = Some (ev_TicketID e)) \<and>
     (lep_AttemptID p = None \<or> lep_AttemptID p = ev_AttemptID e)"

definition ListRecentTicketEvents_stmt ::
  "list_events_params \<Rightarrow> int \<Rightarrow> db \<Rightarrow> ticket_event list" where
  "ListRecentTicketEvents_stmt p lim d =
     sort_key ev_EventSequence
       (limit_rows lim (sort_key (\<lambda>e. - ev_EventSequence e)
         (filter (event_matches p) (ticket_events d))))"

definition ListTicketEventsAfterCursor_stmt ::
  "list_events_params \<Rightarrow> int \<Rightarrow> int \<Rightarrow> db \<Rightarrow> ticket_event list" where
  "ListTicketEventsAfterCursor_stmt p after lim d =
     limit_rows lim (sort_key ev_EventSequence
       (filter (\<lambda>e. event_matches p e \<and> after < ev_EventSequence e) (ticket_events d)))"

definition ListTicketEventsByTicket_stmt :: "uuid \<Rightarrow> db \<Rightarrow> ticket_event list" where
  "ListTicketEventsByTicket_stmt t d =
     sort_key ev_EventSequence (filter (\<lambda>e. ev_TicketID e = t) (ticket_events d))"

section \<open>What the statements do\<close>

lemma GetTicket_stmt_Inr_iff [result_simps]:
  "GetTicket_stmt i d = Inr t \<longleftrightarrow> (\<exists>k. i = Some k \<and> find_row tk_ID k (tickets d) = Some t)"
  by (auto simp: GetTicket_stmt_def split: option.splits)

lemma GetTicket_stmt_Inl_iff [result_simps]:
  "GetTicket_stmt i d = Inl e \<longleftrightarrow>
     e = NoRows \<and> (i = None \<or> (\<exists>k. i = Some k \<and> find_row tk_ID k (tickets d) = None))"
  by (auto simp: GetTicket_stmt_def split: option.splits)

lemma set_ticket_status_frame [simp]:
  "attempts (set_ticket_status env i st d) = attempts d"
  "projects (set_ticket_status env i st d) = projects d"
  "workspaces (set_ticket_status env i st d) = workspaces d"
  "artifacts (set_ticket_status env i st d) = artifacts d"
  "ticket_dependencies (set_ticket_status env i st d) = ticket_dependencies d"
  "attempt_checkpoints (set_ticket_status env i st d) = attempt_checkpoints d"
  "attempt_metrics (set_ticket_status env i st d) = attempt_metrics d"
  "ticket_events (set_ticket_status env i st d) = ticket_events d"
  "idempotency_keys (set_ticket_status env i st d) = idempotency_keys d"
  "webhook_subscriptions (set_ticket_status env i st d) = webhook_subscriptions d"
  "webhook_deliveries (set_ticket_status env i st d) = webhook_deliveries d"
  "agent_capabilities (set_ticket_status env i st d) = agent_capabilities d"
  "workspace_members (set_ticket_status env i st d) = workspace_members d"
  "event_seq (set_ticket_status env i st d) = event_seq d"
  "id_ctr (set_ticket_status env i st d) = id_ctr d"
  by (simp_all add: set_ticket_status_def)

lemma map_tk_ID_set_ticket_status [simp]:
  "map tk_ID (tickets (set_ticket_status env i st d)) = map tk_ID (tickets d)"
  by (simp add: set_ticket_status_def map_update_rows)

lemma ticket_ids_set_ticket_status [simp]:
  "tk_ID ` set (tickets (set_ticket_status env i st d)) = tk_ID ` set (tickets d)"
  by (metis list.set_map map_tk_ID_set_ticket_status)

lemma find_set_ticket_status [simp]:
  "find_row tk_ID k (tickets (set_ticket_status env i st d)) =
     map_option (\<lambda>t. if tk_ID t = i then t\<lparr>tk_Status := st, tk_UpdatedAt := env_now env\<rparr> else t)
       (find_row tk_ID k (tickets d))"
  by (simp add: set_ticket_status_def find_row_update_rows)

lemma ticket_in_scope_set_ticket_status [simp]:
  "ticket_in_scope (set_ticket_status env i st d) w p t = ticket_in_scope d w p t"
proof -
  let ?key = "\<lambda>r :: ticket. (tk_ID r, tk_WorkspaceID r, tk_ProjectID r)"
  have scope: "ticket_in_scope d0 w p t \<longleftrightarrow> (t, w, p) \<in> ?key ` set (tickets d0)" for d0
    by (auto simp: ticket_in_scope_def)
  have "map ?key (tickets (set_ticket_status env i st d)) = map ?key (tickets d)"
    by (simp add: set_ticket_status_def map_update_rows)
  then show ?thesis
    unfolding scope set_map [symmetric] by simp
qed

lemma used_ids_set_ticket_status [simp]: "used_ids (set_ticket_status env i st d) = used_ids d"
  by (simp add: used_ids_def)

lemma gen_fresh_set_ticket_status [simp]:
  "gen_fresh env' n (set_ticket_status env i st d) = gen_fresh env' n d"
  by (simp add: gen_fresh_def)

lemma event_ids_set_ticket_status [simp]: "event_ids (set_ticket_status env i st d) = event_ids d"
  by (simp add: event_ids_def)

text \<open>A transition that reports a row moved exactly that ticket from an allowed status, and
  wrote one event; the two ways to report no row are told apart by \<open>GetTicket\<close>.\<close>

lemma TransitionTicket_stmt_InrD:
  assumes "TransitionTicket_stmt env p d = Inr (t', d')"
  obtains k t e where "ttp_ID p = Some k" and "find_row tk_ID k (tickets d) = Some t"
    and "tk_Status t \<in> set (ttp_AllowedStatuses p)"
    and "ttp_Status p \<in> set ticket_status_names"
    and "t' = t\<lparr>tk_Status := ttp_Status p, tk_UpdatedAt := env_now env\<rparr>"
    and "core d' = core ((set_ticket_status env k (ttp_Status p) d)
            \<lparr>ticket_events := ticket_events d @ [e], event_seq := event_seq d + 1\<rparr>)"
    and "ev_TicketID e = k" and "ev_Type e = ttp_Type p" and "ev_EventSequence e = event_seq d"
    and "ev_ActorType e = ttp_ActorType p" and "ev_ID e \<notin> ev_ID ` set (ticket_events d)"
proof -
  from assms obtain j t e where *: "ttp_Data p = RawDoc j" "GetTicket_stmt (ttp_ID p) d = Inr t"
    "tk_Status t \<in> set (ttp_AllowedStatuses p)" "ttp_Status p \<in> set ticket_status_names"
    "t' = t\<lparr>tk_Status := ttp_Status p, tk_UpdatedAt := env_now env\<rparr>"
    and ins: "insert_ticket_event env
        \<lparr>ep_WorkspaceID = tk_WorkspaceID t, ep_ProjectID = tk_ProjectID t, ep_TicketID = tk_ID t,
         ep_AttemptID = None, ep_Type = ttp_Type p, ep_ActorType = ttp_ActorType p,
         ep_ActorID = ttp_ActorID p, ep_Data = j\<rparr>
        (set_ticket_status env (tk_ID t) (ttp_Status p) d) = Inr (e, d')"
    by (auto simp: TransitionTicket_stmt_def result_simps split: prod.splits)
  from *(2) obtain k where k: "ttp_ID p = Some k" "find_row tk_ID k (tickets d) = Some t"
    by (auto simp: result_simps)
  then have "tk_ID t = k" by (auto dest: find_row_SomeD)
  then show ?thesis
    using that k * insert_ticket_event_core [OF ins] by (simp add: new_event_def)
qed

lemma TransitionTicket_stmt_NoRows_iff:
  assumes "ttp_Data p = RawDoc j" and "ttp_ID p = Some k"
  shows "TransitionTicket_stmt env p d = Inl NoRows \<longleftrightarrow>
    (find_row tk_ID k (tickets d) = None \<or>
     (\<exists>t. find_row tk_ID k (tickets d) = Some t \<and> tk_Status t \<notin> set (ttp_AllowedStatuses p)))"
proof -
  have "insert_ticket_event env q d0 \<noteq> Inl NoRows" for q d0
  proof -
    have "enqueue_deliveries env e ss d1 \<noteq> Inl NoRows" for e ss d1
      by (induction ss arbitrary: d1)
        (auto simp: gen_random_uuid_def result_simps insert_row_def)
    then show ?thesis
      by (auto simp: insert_ticket_event_def gen_random_uuid_def Let_def result_simps
          insert_row_def)
  qed
  then show ?thesis
    using assms
    by (auto simp: TransitionTicket_stmt_def result_simps split: prod.splits option.splits)
qed

lemma TransitionTicket_stmt_succeeds:
  assumes "gen_fresh env (event_ids d) d" and "ttp_Data p = RawDoc j" and "ttp_ID p = Some k"
    and "find_row tk_ID k (tickets d) = Some t"
    and "tk_Status t \<in> set (ttp_AllowedStatuses p)" and "ttp_Status p \<in> set ticket_status_names"
    and "ttp_Type p \<in> set ticket_event_types" and "ttp_ActorType p \<in> set actor_types"
  shows "\<exists>t' d'. TransitionTicket_stmt env p d = Inr (t', d')"
proof -
  let ?p = "\<lparr>ep_WorkspaceID = tk_WorkspaceID t, ep_ProjectID = tk_ProjectID t,
    ep_TicketID = tk_ID t, ep_AttemptID = None, ep_Type = ttp_Type p,
    ep_ActorType = ttp_ActorType p, ep_ActorID = ttp_ActorID p, ep_Data = j\<rparr>"
  have "ticket_in_scope d (tk_WorkspaceID t) (tk_ProjectID t) (tk_ID t)"
    using assms(4) by (auto simp: ticket_in_scope_def dest: find_row_SomeD)
  then have "\<exists>e d'. insert_ticket_event env ?p
      (set_ticket_status env (tk_ID t) (ttp_Status p) d) = Inr (e, d') \<and> gen_fresh env 0 d'"
    using assms by (intro insert_ticket_event_succeeds) auto
  then show ?thesis
    using assms by (auto simp: TransitionTicket_stmt_def GetTicket_stmt_def)
qed

lemma CreateTicket_stmt_InrD:
  assumes "CreateTicket_stmt env p d = Inr (t, d')"
  shows "core d' = core (d\<lparr>tickets := tickets d @ [t]\<rparr>)"
    and "tk_ID t \<notin> tk_ID ` set (tickets d)" and "ticket_row_checks t"
    and "tk_Status t = ctp_Status p" and "tk_CreatedBy t = ctp_CreatedBy p"
    and "tk_Type t = ctp_Type p" and "ctp_RetryPolicy p = RawDoc (tk_RetryPolicy t)"
    and "Some (tk_WorkspaceID t) = ctp_WorkspaceID p"
    and "Some (tk_ProjectID t) = ctp_ProjectID p"
    and "project_in_scope d (tk_WorkspaceID t) (tk_ProjectID t)"
    and "tk_CreatedByID t = ctp_CreatedByID p"
  using assms
  by (auto simp: CreateTicket_stmt_def gen_random_uuid_def Let_def result_simps new_ticket_def
      ticket_row_references_def project_in_scope_def)

lemma CreateTicketDependency_stmt_InrD:
  assumes "CreateTicketDependency_stmt env t on w p d = Inr (r, d')"
  shows "d' = d\<lparr>ticket_dependencies := ticket_dependencies d @ [r]\<rparr>"
    and "dep_TicketID r = t" and "on = Some (dep_DependsOnTicketID r)"
    and "dep_DependsOnTicketID r \<noteq> t"
    and "ticket_in_scope d w p t" and "ticket_in_scope d w p (dep_DependsOnTicketID r)"
  using assms by (auto simp: CreateTicketDependency_stmt_def Let_def result_simps)

lemma CreateTicketEvent_stmt_core:
  assumes "CreateTicketEvent_stmt env p raw d = Inr (e, d')"
  shows "core d' = core (d\<lparr>ticket_events := ticket_events d @ [e], event_seq := event_seq d + 1\<rparr>)"
    and "ev_EventSequence e = event_seq d" and "ev_Type e = ep_Type p"
    and "ev_TicketID e = ep_TicketID p"
proof -
  obtain j where "insert_ticket_event env (p\<lparr>ep_Data := j\<rparr>) d = Inr (e, d')"
    using assms by (auto simp: CreateTicketEvent_stmt_def result_simps)
  note ins = insert_ticket_event_core [OF this]
  show "core d' = core (d\<lparr>ticket_events := ticket_events d @ [e], event_seq := event_seq d + 1\<rparr>)"
    by (rule ins(1))
  show "ev_EventSequence e = event_seq d" "ev_Type e = ep_Type p" "ev_TicketID e = ep_TicketID p"
    by (simp_all add: ins(2) new_event_def)
qed

lemma patched_ticket_frame [simp]:
  "tk_ID (patched_ticket env p vc t) = tk_ID t"
  "tk_Status (patched_ticket env p vc t) = tk_Status t"
  "tk_RetryPolicy (patched_ticket env p vc t) = tk_RetryPolicy t"
  "tk_WorkspaceID (patched_ticket env p vc t) = tk_WorkspaceID t"
  "tk_ProjectID (patched_ticket env p vc t) = tk_ProjectID t"
  "tk_CreatedBy (patched_ticket env p vc t) = tk_CreatedBy t"
  "tk_Priority (patched_ticket env p vc t) = tk_Priority t"
  "tk_Type (patched_ticket env p vc t) = tk_Type t"
  by (simp_all add: patched_ticket_def)

lemma UpdateTicket_stmt_InrD:
  assumes "UpdateTicket_stmt env p d = Inr (t', d')"
  obtains k t vc where "utp_ID p = Some k" and "find_row tk_ID k (tickets d) = Some t"
    and "t' = patched_ticket env p vc t"
    and "d' = d\<lparr>tickets := update_rows (\<lambda>r. tk_ID r = k) (patched_ticket env p vc) (tickets d)\<rparr>"
    and "utp_UpdateVerificationCommands p \<Longrightarrow> \<exists>j. vc = Some j \<and> utp_VerificationCommands p = RawDoc j"
    and "\<not> utp_UpdateVerificationCommands p \<Longrightarrow> vc = None"
proof -
  from assms obtain vc t where t: "GetTicket_stmt (utp_ID p) d = Inr t"
    and out: "t' = patched_ticket env p vc t"
      "d' = d\<lparr>tickets := update_rows (\<lambda>r. tk_ID r = tk_ID t) (patched_ticket env p vc) (tickets d)\<rparr>"
    and vc: "utp_UpdateVerificationCommands p \<Longrightarrow>
        \<exists>j. vc = Some j \<and> utp_VerificationCommands p = RawDoc j"
      "\<not> utp_UpdateVerificationCommands p \<Longrightarrow> vc = None"
    by (auto simp: UpdateTicket_stmt_def result_simps split: if_splits)
  from t obtain k where "utp_ID p = Some k" "find_row tk_ID k (tickets d) = Some t"
    by (auto simp: result_simps)
  moreover from this have "tk_ID t = k" by (auto dest: find_row_SomeD)
  ultimately show ?thesis
    using that out vc by simp
qed

end
