(* ===== verification/Attempt_Store.thy ===== *)
theory Attempt_Store
  imports Ticket_Store
begin

text \<open>
  The statements of internal/db/attempts.sql.go, internal/db/transitions.sql.go and the
  metrics insertion of internal/db/metrics.sql.go. The five transitions that end an attempt
  share one shape, \<open>transition_attempt\<close>: a running attempt is closed, its ticket gets a new
  status, an event is written, all in one statement. All the parts of such a statement read
  the database as it was when the statement began: PostgreSQL runs the data-modifying
  parts of a WITH query against one snapshot, so that a sub-select over \<open>attempts\<close> does not
  see the update of the attempt that the same statement makes.

  The locale \<open>attempt_transition\<close> states the contract of a transition; its interpretations
  are the five statements.
\<close>

section \<open>Rows and retry policies\<close>

definition FailureCategories :: "string list" where
  "FailureCategories =
     [''task_failed'', ''blocked'', ''needs_human'', ''environment_failed'',
      ''permission_required'', ''dependency_missing'', ''unclear_requirements'']"

text \<open>The CHECK constraints of the table \<open>attempts\<close>.\<close>

definition attempt_row_checks :: "attempt \<Rightarrow> bool" where
  "attempt_row_checks a \<longleftrightarrow>
     at_Status a \<in> set attempt_status_names \<and>
     0 \<le> at_ProgressPercent a \<and> at_ProgressPercent a \<le> 100 \<and>
     (\<forall>c \<in> set_option (at_FailureCategory a). c \<in> set FailureCategories)"

definition set_attempt :: "uuid \<Rightarrow> (attempt \<Rightarrow> attempt) \<Rightarrow> db \<Rightarrow> db" where
  "set_attempt i f d = d\<lparr>attempts := update_rows (\<lambda>a. at_ID a = i) f (attempts d)\<rparr>"

definition GetAttempt_stmt :: "uuid option \<Rightarrow> db \<Rightarrow> pg_error + attempt" where
  "GetAttempt_stmt i d =
     (case i of None \<Rightarrow> Inl NoRows
      | Some k \<Rightarrow> (case find_row at_ID k (attempts d) of None \<Rightarrow> Inl NoRows | Some a \<Rightarrow> Inr a))"

text \<open>The rows that \<open>UPDATE attempts ... WHERE id = $n AND status = 'running'\<close> selects.\<close>

definition running_attempt :: "uuid option \<Rightarrow> db \<Rightarrow> pg_error + attempt" where
  "running_attempt i d =
     and_then (GetAttempt_stmt i d) (\<lambda>a.
     and_then (ensure (at_Status a = AttemptStatusRunning) NoRows) (\<lambda>_. Inr a))"

definition counts_as_failure :: "uuid \<Rightarrow> attempt \<Rightarrow> bool" where
  "counts_as_failure t a \<longleftrightarrow>
     at_TicketID a = t \<and> (at_Status a = AttemptStatusFailed \<or> at_Status a = AttemptStatusExpired)"

definition failure_count :: "db \<Rightarrow> uuid \<Rightarrow> int" where
  "failure_count d t = int (length (filter (counts_as_failure t) (attempts d)))"

definition max_attempts :: "ticket \<Rightarrow> pg_error + int" where
  "max_attempts t =
     and_then (json_integer (json_field (tk_RetryPolicy t) ''max_attempts''))
       (\<lambda>v. Inr (coalesce v 3))"

section \<open>Transitions (internal/db/transitions.sql.go)\<close>

record transition_row =
  tr_AttemptID :: uuid
  tr_WorkspaceID :: uuid
  tr_ProjectID :: uuid
  tr_TicketID :: uuid
  tr_AttemptStatus :: string
  tr_TicketStatus :: string

definition attempt_event :: "attempt \<Rightarrow> string \<Rightarrow> string \<Rightarrow> json \<Rightarrow> event_params" where
  "attempt_event a ty actor j =
     \<lparr>ep_WorkspaceID = at_WorkspaceID a, ep_ProjectID = at_ProjectID a,
      ep_TicketID = at_TicketID a, ep_AttemptID = Some (at_ID a), ep_Type = ty,
      ep_ActorType = actor, ep_ActorID = Some (at_AgentID a), ep_Data = j\<rparr>"

text \<open>
  The joins with \<open>updated_ticket\<close> always have a row: an attempt's ticket exists, by the
  foreign key of the table \<open>attempts\<close>.
\<close>

definition transition_attempt ::
  "pg_env \<Rightarrow> uuid option \<Rightarrow> (attempt \<Rightarrow> bool) \<Rightarrow> (attempt \<Rightarrow> attempt) \<Rightarrow>
   (ticket \<Rightarrow> pg_error + string) \<Rightarrow> string \<Rightarrow> string \<Rightarrow> (string \<Rightarrow> (string \<times> json) list) \<Rightarrow>
   db \<Rightarrow> pg_error + (transition_row \<times> db)" where
  "transition_attempt env i guard close next_status ty actor data d =
     and_then (running_attempt i d) (\<lambda>a.
     and_then (ensure (guard a) NoRows) (\<lambda>_.
     and_then (ensure (attempt_row_checks (close a)) CheckViolation) (\<lambda>_.
     and_then (GetTicket_stmt (Some (at_TicketID a)) d) (\<lambda>t.
     and_then (next_status t) (\<lambda>st.
     and_then (insert_ticket_event env (attempt_event a ty actor (JObj (data st)))
        (set_ticket_status env (at_TicketID a) st (set_attempt (at_ID a) close d))) (\<lambda>(e, d').
     Inr (\<lparr>tr_AttemptID = at_ID a, tr_WorkspaceID = at_WorkspaceID a,
           tr_ProjectID = at_ProjectID a, tr_TicketID = at_TicketID a,
           tr_AttemptStatus = at_Status (close a), tr_TicketStatus = st\<rparr>, d')))))))"

definition json_text :: "string option \<Rightarrow> json" where
  "json_text v = (case v of None \<Rightarrow> JNull | Some s \<Rightarrow> JStr s)"

record complete_attempt_params =
  cap_Output :: json_raw
  cap_OutputSchema :: "string option"
  cap_CompletedAt :: timestamp
  cap_AttemptID :: "uuid option"

definition success_status :: "ticket \<Rightarrow> pg_error + string" where
  "success_status t =
     and_then (json_boolean (json_field (tk_RetryPolicy t) ''requires_review_on_success''))
       (\<lambda>v. Inr (if coalesce v False then TicketStatusNeedsReview else TicketStatusDone))"

definition CompleteAttempt_stmt ::
  "pg_env \<Rightarrow> complete_attempt_params \<Rightarrow> db \<Rightarrow> pg_error + (transition_row \<times> db)" where
  "CompleteAttempt_stmt env p d =
     and_then (jsonb_in (cap_Output p)) (\<lambda>out.
     transition_attempt env (cap_AttemptID p) (\<lambda>_. True)
       (\<lambda>a. a\<lparr>at_Status := AttemptStatusSucceeded, at_ProgressPercent := 100, at_Output := out,
              at_OutputSchema := cap_OutputSchema p,
              at_CompletedAt := Some (cap_CompletedAt p)\<rparr>)
       success_status ''completed'' ActorAgent (\<lambda>st. [(''ticket_status'', JStr st)]) d)"

record fail_attempt_params =
  fap_FailureReason :: string
  fap_FailureCategory :: "string option"
  fap_Output :: json_raw
  fap_CompletedAt :: timestamp
  fap_AttemptID :: "uuid option"

text \<open>\<open>d\<close> is the snapshot of the statement, in which the failing attempt is still running.\<close>

definition exhausted_status :: "db \<Rightarrow> ticket \<Rightarrow> pg_error + string" where
  "exhausted_status d t =
     and_then (max_attempts t) (\<lambda>m.
       Inr (if m \<le> failure_count d (tk_ID t) then TicketStatusFailed else TicketStatusTodo))"

definition failure_status :: "db \<Rightarrow> ticket \<Rightarrow> pg_error + string" where
  "failure_status d t =
     (let on_failure = json_field (tk_RetryPolicy t) ''on_failure'' in
      if json_text_is on_failure ''mark_failed'' then Inr TicketStatusFailed
      else if json_text_is on_failure ''needs_review'' then Inr TicketStatusNeedsReview
      else exhausted_status d t)"

definition FailAttempt_stmt ::
  "pg_env \<Rightarrow> fail_attempt_params \<Rightarrow> db \<Rightarrow> pg_error + (transition_row \<times> db)" where
  "FailAttempt_stmt env p d =
     and_then (jsonb_in (fap_Output p)) (\<lambda>out.
     transition_attempt env (fap_AttemptID p) (\<lambda>_. True)
       (\<lambda>a. a\<lparr>at_Status := AttemptStatusFailed, at_FailureReason := Some (fap_FailureReason p),
              at_FailureCategory := fap_FailureCategory p, at_Output := out,
              at_CompletedAt := Some (fap_CompletedAt p)\<rparr>)
       (failure_status d) ''failed'' ActorAgent
       (\<lambda>st. [(''ticket_status'', JStr st),
              (''failure_category'', json_text (fap_FailureCategory p))]) d)"

record block_attempt_params =
  bap_BlockerReason :: string
  bap_FailureCategory :: "string option"
  bap_Blocker :: json_raw
  bap_CompletedAt :: timestamp
  bap_AttemptID :: "uuid option"

definition BlockAttempt_stmt ::
  "pg_env \<Rightarrow> block_attempt_params \<Rightarrow> db \<Rightarrow> pg_error + (transition_row \<times> db)" where
  "BlockAttempt_stmt env p d =
     and_then (jsonb_in (bap_Blocker p)) (\<lambda>blocker.
     transition_attempt env (bap_AttemptID p) (\<lambda>_. True)
       (\<lambda>a. a\<lparr>at_Status := AttemptStatusBlocked, at_FailureReason := Some (bap_BlockerReason p),
              at_FailureCategory := bap_FailureCategory p, at_Blocker := Some blocker,
              at_CompletedAt := Some (bap_CompletedAt p)\<rparr>)
       (\<lambda>_. Inr TicketStatusBlocked) ''blocked'' ActorAgent
       (\<lambda>st. [(''ticket_status'', JStr st),
              (''failure_category'', json_text (bap_FailureCategory p))]) d)"

record cancel_attempt_params =
  xap_Reason :: "string option"
  xap_CompletedAt :: timestamp
  xap_AttemptID :: "uuid option"

definition CancelAttempt_stmt ::
  "pg_env \<Rightarrow> cancel_attempt_params \<Rightarrow> db \<Rightarrow> pg_error + (transition_row \<times> db)" where
  "CancelAttempt_stmt env p d =
     transition_attempt env (xap_AttemptID p) (\<lambda>_. True)
       (\<lambda>a. a\<lparr>at_Status := AttemptStatusCancelled, at_FailureReason := xap_Reason p,
              at_CompletedAt := Some (xap_CompletedAt p)\<rparr>)
       (\<lambda>_. Inr TicketStatusTodo) ''cancelled'' ActorAgent
       (\<lambda>st. [(''ticket_status'', JStr st)]) d"

record expire_attempt_params =
  eap_CompletedAt :: timestamp
  eap_AttemptID :: "uuid option"
  eap_ExpirationCutoff :: timestamp

definition ExpireAttempt_stmt ::
  "pg_env \<Rightarrow> expire_attempt_params \<Rightarrow> db \<Rightarrow> pg_error + (transition_row \<times> db)" where
  "ExpireAttempt_stmt env p d =
     transition_attempt env (eap_AttemptID p)
       (\<lambda>a. at_LeaseExpiresAt a < eap_ExpirationCutoff p)
       (\<lambda>a. a\<lparr>at_Status := AttemptStatusExpired, at_FailureReason := Some ''lease expired'',
              at_CompletedAt := Some (eap_CompletedAt p)\<rparr>)
       (exhausted_status d) ''expired'' ActorSystem
       (\<lambda>st. [(''ticket_status'', JStr st)]) d"

section \<open>Leases, checkpoints and listings (internal/db/attempts.sql.go)\<close>

record heartbeat_attempt_params =
  hap_LeaseExpiresAt :: timestamp
  hap_HeartbeatAt :: timestamp
  hap_AttemptID :: "uuid option"

definition HeartbeatAttempt_stmt ::
  "pg_env \<Rightarrow> heartbeat_attempt_params \<Rightarrow> db \<Rightarrow> pg_error + (attempt \<times> db)" where
  "HeartbeatAttempt_stmt env p d =
     and_then (running_attempt (hap_AttemptID p) d) (\<lambda>a.
     let beat = (\<lambda>x. x\<lparr>at_LeaseExpiresAt := hap_LeaseExpiresAt p,
                      at_LastHeartbeatAt := Some (hap_HeartbeatAt p)\<rparr>) in
     and_then (insert_ticket_event env
        (attempt_event a ''heartbeat'' ActorAgent
          (JObj [(''lease_expires_at'', JStr (env_time_text env (hap_LeaseExpiresAt p))),
                 (''heartbeat_at'', JStr (env_time_text env (hap_HeartbeatAt p)))]))
        (set_attempt (at_ID a) beat d)) (\<lambda>(e, d').
     Inr (beat a, d')))"

record checkpoint_attempt_params =
  kap_ProgressPercent :: int
  kap_Summary :: string
  kap_NextStep :: "string option"
  kap_AttemptID :: "uuid option"
  kap_FilesTouched :: "string list"
  kap_CommandsRun :: "string list"
  kap_Risk :: "string option"

definition new_checkpoint ::
  "pg_env \<Rightarrow> checkpoint_attempt_params \<Rightarrow> attempt \<Rightarrow> uuid \<Rightarrow> attempt_checkpoint" where
  "new_checkpoint env p a i =
     \<lparr>cp_ID = i, cp_WorkspaceID = at_WorkspaceID a, cp_ProjectID = at_ProjectID a,
      cp_TicketID = at_TicketID a, cp_AttemptID = at_ID a, cp_Summary = kap_Summary p,
      cp_FilesTouched = kap_FilesTouched p, cp_CommandsRun = kap_CommandsRun p,
      cp_NextStep = kap_NextStep p, cp_Risk = kap_Risk p, cp_CreatedAt = env_now env\<rparr>"

definition CheckpointAttempt_stmt ::
  "pg_env \<Rightarrow> checkpoint_attempt_params \<Rightarrow> db \<Rightarrow> pg_error + (attempt_checkpoint \<times> db)" where
  "CheckpointAttempt_stmt env p d =
     and_then (running_attempt (kap_AttemptID p) d) (\<lambda>a.
     let note = (\<lambda>x. x\<lparr>at_ProgressPercent := kap_ProgressPercent p,
                      at_CurrentSummary := Some (kap_Summary p),
                      at_NextStep := kap_NextStep p\<rparr>) in
     and_then (ensure (attempt_row_checks (note a)) CheckViolation) (\<lambda>_.
     case gen_random_uuid env (set_attempt (at_ID a) note d) of (i, d1) \<Rightarrow>
     let c = new_checkpoint env p a i in
     and_then (insert_row cp_ID c (attempt_checkpoints d1)) (\<lambda>cs.
     and_then (insert_ticket_event env
        (attempt_event a ''checkpointed'' ActorAgent
          (JObj [(''checkpoint_id'', JStr (env_uuid_text env i)),
                 (''progress_percent'', JNum (kap_ProgressPercent p) 0)]))
        (d1\<lparr>attempt_checkpoints := cs\<rparr>)) (\<lambda>(e, d').
     Inr (c, d')))))"

definition ListAttemptCheckpointsByTicket_stmt :: "uuid \<Rightarrow> db \<Rightarrow> attempt_checkpoint list" where
  "ListAttemptCheckpointsByTicket_stmt t d =
     sort_key cp_CreatedAt (filter (\<lambda>c. cp_TicketID c = t) (attempt_checkpoints d))"

definition ListAttemptsByTicket_stmt :: "uuid \<Rightarrow> db \<Rightarrow> attempt list" where
  "ListAttemptsByTicket_stmt t d =
     sort_key (\<lambda>a. - at_StartedAt a) (filter (\<lambda>a. at_TicketID a = t) (attempts d))"

definition ListExpiredRunningAttempts_stmt :: "timestamp \<Rightarrow> int \<Rightarrow> db \<Rightarrow> attempt list" where
  "ListExpiredRunningAttempts_stmt now lim d =
     limit_rows lim (sort_key at_LeaseExpiresAt
       (filter (\<lambda>a. at_Status a = AttemptStatusRunning \<and> at_LeaseExpiresAt a < now) (attempts d)))"


section \<open>Metrics (internal/db/metrics.sql.go)\<close>

text \<open>
  A \<open>float64\<close> is NaN, an infinity, or the finite number whose shortest decimal form is
  \<open>m / 10 ^ s\<close>, which is what \<open>strconv.FormatFloat(v, 'f', -1, 64)\<close> prints. A
  \<open>numeric(12, k)\<close> column rounds a decimal to \<open>k\<close> digits, half away from zero, and raises an
  error when the result has more than twelve digits; it holds the scaled integer.
\<close>

datatype float64 = F64NaN | F64Inf bool | F64 int nat

type_synonym decimal = "int \<times> nat"

fun round_to_scale :: "nat \<Rightarrow> decimal \<Rightarrow> int" where
  "round_to_scale k (m, s) =
     (if s \<le> k then m * 10 ^ (k - s)
      else sgn m * ((\<bar>m\<bar> + 5 * 10 ^ (s - k - 1)) div 10 ^ (s - k)))"

definition numeric_column :: "nat \<Rightarrow> decimal option \<Rightarrow> pg_error + int" where
  "numeric_column k v =
     and_then (not_null v) (\<lambda>x.
     if \<bar>round_to_scale k x\<bar> < 10 ^ 12 then Inr (round_to_scale k x)
     else Inl NumericValueOutOfRange)"

record create_attempt_metrics_params =
  cmp_AttemptID :: uuid
  cmp_WorkspaceID :: uuid
  cmp_ProjectID :: uuid
  cmp_TokensIn :: int
  cmp_TokensOut :: int
  cmp_CostUsd :: "decimal option"
  cmp_DurationSeconds :: "decimal option"
  cmp_RetryCount :: int

definition metric_row_checks :: "attempt_metric \<Rightarrow> bool" where
  "metric_row_checks r \<longleftrightarrow>
     0 \<le> am_TokensIn r \<and> 0 \<le> am_TokensOut r \<and> 0 \<le> am_CostUsd r \<and>
     0 \<le> am_DurationSeconds r \<and> 0 \<le> am_RetryCount r"

text \<open>\<open>ON CONFLICT (attempt_id) DO UPDATE\<close>: a second insertion for an attempt overwrites the
  measured columns of the first row.\<close>

definition CreateAttemptMetrics_stmt ::
  "pg_env \<Rightarrow> create_attempt_metrics_params \<Rightarrow> db \<Rightarrow> pg_error + (attempt_metric \<times> db)" where
  "CreateAttemptMetrics_stmt env p d =
     (case gen_random_uuid env d of (i, d1) \<Rightarrow>
      and_then (numeric_column 6 (cmp_CostUsd p)) (\<lambda>cost.
      and_then (numeric_column 3 (cmp_DurationSeconds p)) (\<lambda>dur.
      let r = \<lparr>am_ID = i, am_AttemptID = cmp_AttemptID p, am_WorkspaceID = cmp_WorkspaceID p,
               am_ProjectID = cmp_ProjectID p, am_TokensIn = cmp_TokensIn p,
               am_TokensOut = cmp_TokensOut p, am_CostUsd = cost, am_DurationSeconds = dur,
               am_RetryCount = cmp_RetryCount p, am_CreatedAt = env_now env\<rparr>;
          merge = (\<lambda>x. x\<lparr>am_TokensIn := am_TokensIn r, am_TokensOut := am_TokensOut r,
                         am_CostUsd := cost, am_DurationSeconds := dur,
                         am_RetryCount := am_RetryCount r\<rparr>) in
      and_then (ensure (metric_row_checks r) CheckViolation) (\<lambda>_.
      case find_row am_AttemptID (cmp_AttemptID p) (attempt_metrics d1) of
        Some x \<Rightarrow>
          Inr (merge x, d1\<lparr>attempt_metrics :=
            update_rows (\<lambda>y. am_AttemptID y = cmp_AttemptID p) merge (attempt_metrics d1)\<rparr>)
      | None \<Rightarrow>
          and_then (insert_row am_ID r (attempt_metrics d1)) (\<lambda>rs.
          and_then (ensure (\<exists>a \<in> set (attempts d1). at_ID a = cmp_AttemptID p \<and>
              at_WorkspaceID a = cmp_WorkspaceID p \<and> at_ProjectID a = cmp_ProjectID p)
              ForeignKeyViolation) (\<lambda>_.
          Inr (r, d1\<lparr>attempt_metrics := rs\<rparr>)))))))"

section \<open>What the statements do\<close>

lemma CreateAttemptMetrics_stmt_frame:
  assumes "CreateAttemptMetrics_stmt env p d = Inr (r, d')"
  shows "tickets d' = tickets d" and "attempts d' = attempts d"
    and "ticket_events d' = ticket_events d" and "event_seq d' = event_seq d"
    and "am_AttemptID r = cmp_AttemptID p"
    and "ticket_dependencies d' = ticket_dependencies d"
  using assms
  by (cases "find_row am_AttemptID (cmp_AttemptID p) (attempt_metrics d)";
      auto simp: CreateAttemptMetrics_stmt_def gen_random_uuid_def Let_def result_simps
      dest!: find_row_SomeD)+

lemma GetAttempt_stmt_Inr_iff [result_simps]:
  "GetAttempt_stmt i d = Inr a \<longleftrightarrow> (\<exists>k. i = Some k \<and> find_row at_ID k (attempts d) = Some a)"
  by (auto simp: GetAttempt_stmt_def split: option.splits)

lemma GetAttempt_stmt_Inl_iff [result_simps]:
  "GetAttempt_stmt i d = Inl e \<longleftrightarrow>
     e = NoRows \<and> (i = None \<or> (\<exists>k. i = Some k \<and> find_row at_ID k (attempts d) = None))"
  by (auto simp: GetAttempt_stmt_def split: option.splits)

lemma running_attempt_Inr_iff [result_simps]:
  "running_attempt i d = Inr a \<longleftrightarrow>
     i = Some (at_ID a) \<and> find_row at_ID (at_ID a) (attempts d) = Some a \<and>
     at_Status a = AttemptStatusRunning"
  by (auto simp: running_attempt_def result_simps dest: find_row_SomeD)

lemma running_attempt_InlD: "running_attempt i d = Inl e \<Longrightarrow> e = NoRows"
  by (auto simp: running_attempt_def result_simps)

lemma set_attempt_frame [simp]:
  "tickets (set_attempt i f d) = tickets d"
  "projects (set_attempt i f d) = projects d"
  "workspaces (set_attempt i f d) = workspaces d"
  "artifacts (set_attempt i f d) = artifacts d"
  "ticket_dependencies (set_attempt i f d) = ticket_dependencies d"
  "attempt_checkpoints (set_attempt i f d) = attempt_checkpoints d"
  "attempt_metrics (set_attempt i f d) = attempt_metrics d"
  "ticket_events (set_attempt i f d) = ticket_events d"
  "idempotency_keys (set_attempt i f d) = idempotency_keys d"
  "webhook_subscriptions (set_attempt i f d) = webhook_subscriptions d"
  "webhook_deliveries (set_attempt i f d) = webhook_deliveries d"
  "agent_capabilities (set_attempt i f d) = agent_capabilities d"
  "workspace_members (set_attempt i f d) = workspace_members d"
  "event_seq (set_attempt i f d) = event_seq d"
  "id_ctr (set_attempt i f d) = id_ctr d"
  by (simp_all add: set_attempt_def)

lemma attempts_set_attempt:
  "attempts (set_attempt i f d) = update_rows (\<lambda>a. at_ID a = i) f (attempts d)"
  by (simp add: set_attempt_def)

text \<open>An update of an attempt that keeps its keys keeps the references to it.\<close>

definition keeps_attempt_keys :: "(attempt \<Rightarrow> attempt) \<Rightarrow> bool" where
  "keeps_attempt_keys f \<longleftrightarrow>
     (\<forall>a. at_ID (f a) = at_ID a \<and> at_TicketID (f a) = at_TicketID a \<and>
          at_WorkspaceID (f a) = at_WorkspaceID a \<and> at_ProjectID (f a) = at_ProjectID a)"

lemma keeps_attempt_keysD:
  assumes "keeps_attempt_keys f"
  shows "at_ID (f a) = at_ID a" and "at_TicketID (f a) = at_TicketID a"
    and "at_WorkspaceID (f a) = at_WorkspaceID a" and "at_ProjectID (f a) = at_ProjectID a"
  using assms by (auto simp: keeps_attempt_keys_def)

lemma map_at_ID_set_attempt:
  "keeps_attempt_keys f \<Longrightarrow> map at_ID (attempts (set_attempt i f d)) = map at_ID (attempts d)"
  by (simp add: attempts_set_attempt map_update_rows keeps_attempt_keysD)

lemma find_set_attempt:
  "keeps_attempt_keys f \<Longrightarrow>
   find_row at_ID k (attempts (set_attempt i f d)) =
     map_option (\<lambda>a. if at_ID a = i then f a else a) (find_row at_ID k (attempts d))"
  by (simp add: attempts_set_attempt find_row_update_rows keeps_attempt_keysD)

lemma ticket_in_scope_set_attempt [simp]:
  "ticket_in_scope (set_attempt i f d) w p t = ticket_in_scope d w p t"
  by (simp add: ticket_in_scope_def)

lemma attempt_in_scope_set_ticket_status [simp]:
  "attempt_in_scope (set_ticket_status env i st d) w p t a = attempt_in_scope d w p t a"
  by (simp add: attempt_in_scope_def)

lemma attempt_in_scope_set_attempt:
  assumes "keeps_attempt_keys f"
  shows "attempt_in_scope (set_attempt i f d) w p t a = attempt_in_scope d w p t a"
proof -
  let ?key = "\<lambda>r. (at_ID r, at_TicketID r, at_WorkspaceID r, at_ProjectID r)"
  have scope: "attempt_in_scope d0 w p t a \<longleftrightarrow> (a, t, w, p) \<in> ?key ` set (attempts d0)" for d0
    by (auto simp: attempt_in_scope_def)
  have "map ?key (attempts (set_attempt i f d)) = map ?key (attempts d)"
    using assms by (simp add: attempts_set_attempt map_update_rows keeps_attempt_keysD)
  then show ?thesis
    unfolding scope set_map [symmetric] by simp
qed

lemma used_ids_set_attempt:
  assumes "keeps_attempt_keys f"
  shows "used_ids (set_attempt i f d) = used_ids d"
proof -
  have "at_ID ` set (attempts (set_attempt i f d)) = at_ID ` set (attempts d)"
    unfolding set_map [symmetric] by (simp add: map_at_ID_set_attempt assms)
  then show ?thesis by (simp add: used_ids_def)
qed

lemma event_ids_set_attempt [simp]: "event_ids (set_attempt i f d) = event_ids d"
  by (simp add: event_ids_def)

lemma gen_fresh_set_attempt:
  "keeps_attempt_keys f \<Longrightarrow> gen_fresh env n (set_attempt i f d) = gen_fresh env n d"
  by (simp add: gen_fresh_def used_ids_set_attempt)

text \<open>The state a successful transition leaves, up to the deliveries it enqueues.\<close>

definition transitioned ::
  "pg_env \<Rightarrow> attempt \<Rightarrow> (attempt \<Rightarrow> attempt) \<Rightarrow> string \<Rightarrow> ticket_event \<Rightarrow> db \<Rightarrow> db" where
  "transitioned env a f st e d =
     (set_ticket_status env (at_TicketID a) st (set_attempt (at_ID a) f d))
       \<lparr>ticket_events := ticket_events d @ [e], event_seq := event_seq d + 1\<rparr>"

lemma transition_attempt_InrD:
  assumes "transition_attempt env i guard close next_status ty actor data d = Inr (r, d')"
  obtains a t st e where "running_attempt i d = Inr a" and "guard a"
    and "attempt_row_checks (close a)"
    and "find_row tk_ID (at_TicketID a) (tickets d) = Some t" and "next_status t = Inr st"
    and "core d' = core (transitioned env a close st e d)"
    and "ev_TicketID e = at_TicketID a" and "ev_AttemptID e = Some (at_ID a)"
    and "ev_Type e = ty" and "ev_ActorType e = actor" and "ev_EventSequence e = event_seq d"
    and "ev_Data e = JObj (data st)" and "ev_ID e \<notin> ev_ID ` set (ticket_events d)"
    and "r = \<lparr>tr_AttemptID = at_ID a, tr_WorkspaceID = at_WorkspaceID a,
           tr_ProjectID = at_ProjectID a, tr_TicketID = at_TicketID a,
           tr_AttemptStatus = at_Status (close a), tr_TicketStatus = st\<rparr>"
proof -
  from assms obtain a t st e where *: "running_attempt i d = Inr a" "guard a"
    "attempt_row_checks (close a)"
    "find_row tk_ID (at_TicketID a) (tickets d) = Some t" "next_status t = Inr st"
    and ins: "insert_ticket_event env (attempt_event a ty actor (JObj (data st)))
        (set_ticket_status env (at_TicketID a) st (set_attempt (at_ID a) close d)) = Inr (e, d')"
    and r: "r = \<lparr>tr_AttemptID = at_ID a, tr_WorkspaceID = at_WorkspaceID a,
           tr_ProjectID = at_ProjectID a, tr_TicketID = at_TicketID a,
           tr_AttemptStatus = at_Status (close a), tr_TicketStatus = st\<rparr>"
    by (auto simp: transition_attempt_def and_then_Inr_iff ensure_Inr_iff GetTicket_stmt_Inr_iff
        split: prod.splits)
  note ev = insert_ticket_event_core [OF ins]
  show ?thesis
    by (rule that [OF *, of e])
      (use ev r in \<open>simp_all add: transitioned_def new_event_def attempt_event_def\<close>)
qed

lemma transition_attempt_not_running:
  "running_attempt i d = Inl e \<Longrightarrow>
   transition_attempt env i guard close next_status ty actor data d = Inl NoRows"
  by (auto simp: transition_attempt_def dest: running_attempt_InlD)

lemma transition_attempt_succeeds:
  assumes "gen_fresh env (event_ids d + n) d" and "running_attempt i d = Inr a" and "guard a"
    and "keeps_attempt_keys close" and "attempt_row_checks (close a)"
    and "find_row tk_ID (at_TicketID a) (tickets d) = Some t"
    and "ticket_in_scope d (at_WorkspaceID a) (at_ProjectID a) (at_TicketID a)"
    and "next_status t = Inr st"
    and "ty \<in> set ticket_event_types" and "actor \<in> set actor_types"
  shows "\<exists>r d'. transition_attempt env i guard close next_status ty actor data d = Inr (r, d') \<and>
    gen_fresh env n d'"
proof -
  let ?p = "attempt_event a ty actor (JObj (data st))"
  let ?d = "set_ticket_status env (at_TicketID a) st (set_attempt (at_ID a) close d)"
  have "attempt_in_scope d (at_WorkspaceID a) (at_ProjectID a) (at_TicketID a) (at_ID a)"
    using assms(2) by (auto simp: attempt_in_scope_def result_simps dest: find_row_SomeD)
  then have "\<exists>e d'. insert_ticket_event env ?p ?d = Inr (e, d') \<and> gen_fresh env n d'"
    using assms
    by (intro insert_ticket_event_succeeds)
      (auto simp: attempt_event_def gen_fresh_set_attempt attempt_in_scope_set_attempt)
  then show ?thesis
    using assms by (auto simp: transition_attempt_def GetTicket_stmt_def)
qed

section \<open>The contract of a transition\<close>

text \<open>
  \<open>transition_effect\<close> relates the database before and after a transition of the attempt
  \<open>i\<close>: the attempt was running and is now in the given status with its keys unchanged, its
  ticket has the status that the ticket rule computes from the state before, and one event
  was appended.
\<close>

definition transition_effect ::
  "pg_env \<Rightarrow> uuid option \<Rightarrow> string \<Rightarrow> (db \<Rightarrow> ticket \<Rightarrow> pg_error + string) \<Rightarrow> string \<Rightarrow> string \<Rightarrow>
   db \<Rightarrow> transition_row \<Rightarrow> db \<Rightarrow> bool" where
  "transition_effect env i outcome rule ty actor d r d' \<longleftrightarrow>
     (\<exists>a t f st e. running_attempt i d = Inr a \<and> keeps_attempt_keys f \<and>
        (\<forall>x. at_Status (f x) = outcome) \<and> attempt_row_checks (f a) \<and>
        find_row tk_ID (at_TicketID a) (tickets d) = Some t \<and> rule d t = Inr st \<and>
        core d' = core (transitioned env a f st e d) \<and>
        ev_TicketID e = at_TicketID a \<and> ev_AttemptID e = Some (at_ID a) \<and>
        ev_Type e = ty \<and> ev_ActorType e = actor \<and> ev_EventSequence e = event_seq d \<and>
        ev_ID e \<notin> ev_ID ` set (ticket_events d) \<and>
        r = \<lparr>tr_AttemptID = at_ID a, tr_WorkspaceID = at_WorkspaceID a,
             tr_ProjectID = at_ProjectID a, tr_TicketID = at_TicketID a,
             tr_AttemptStatus = outcome, tr_TicketStatus = st\<rparr>)"

lemma transition_attempt_effect:
  assumes "transition_attempt env i guard close (rule d) ty actor data d = Inr (r, d')"
    and "keeps_attempt_keys close" and "\<And>x. at_Status (close x) = outcome"
  shows "transition_effect env i outcome rule ty actor d r d'"
  using assms(1)
  by (rule transition_attempt_InrD) (use assms(2,3) in \<open>auto simp: transition_effect_def\<close>)

lemma transitioned_tables:
  assumes "core d' = core (transitioned env a f st e d)"
  shows "attempts d' = attempts (set_attempt (at_ID a) f d)"
    and "tickets d' = tickets (set_ticket_status env (at_TicketID a) st d)"
    and "ticket_events d' = ticket_events d @ [e]" and "event_seq d' = event_seq d + 1"
    and "projects d' = projects d" and "ticket_dependencies d' = ticket_dependencies d"
    and "idempotency_keys d' = idempotency_keys d" and "artifacts d' = artifacts d"
    and "attempt_metrics d' = attempt_metrics d"
    and "attempt_checkpoints d' = attempt_checkpoints d"
    and "webhook_subscriptions d' = webhook_subscriptions d"
  using core_eqD [OF assms] by (simp_all add: transitioned_def set_ticket_status_def)

lemma transition_effectE:
  assumes "transition_effect env i outcome rule ty actor d r d'"
  obtains a t f st e where "i = Some (at_ID a)"
    and "find_row at_ID (at_ID a) (attempts d) = Some a"
    and "at_Status a = AttemptStatusRunning" and "keeps_attempt_keys f"
    and "\<And>x. at_Status (f x) = outcome" and "attempt_row_checks (f a)"
    and "find_row tk_ID (at_TicketID a) (tickets d) = Some t" and "rule d t = Inr st"
    and "core d' = core (transitioned env a f st e d)"
    and "ev_TicketID e = at_TicketID a" and "ev_AttemptID e = Some (at_ID a)"
    and "ev_Type e = ty" and "ev_ActorType e = actor" and "ev_EventSequence e = event_seq d"
    and "ev_ID e \<notin> ev_ID ` set (ticket_events d)"
    and "tr_AttemptID r = at_ID a" and "tr_TicketID r = at_TicketID a"
    and "tr_AttemptStatus r = outcome" and "tr_TicketStatus r = st"
    and "tr_WorkspaceID r = at_WorkspaceID a" and "tr_ProjectID r = at_ProjectID a"
  using assms unfolding transition_effect_def running_attempt_Inr_iff by force

locale attempt_transition =
  fixes run :: "pg_env \<Rightarrow> 'p \<Rightarrow> db \<Rightarrow> pg_error + (transition_row \<times> db)"
    and target :: "'p \<Rightarrow> uuid option"
    and outcome :: string
    and rule :: "db \<Rightarrow> ticket \<Rightarrow> pg_error + string"
    and ty :: string
    and actor :: string
  assumes terminal: "outcome \<noteq> AttemptStatusRunning"
    and effect: "run env p d = Inr (r, d') \<Longrightarrow>
      transition_effect env (target p) outcome rule ty actor d r d'"
    and refuses: "running_attempt (target p) d = Inl e \<Longrightarrow> \<exists>e'. run env p d = Inl e'"
begin

lemma attempts_after:
  assumes "run env p d = Inr (r, d')"
  obtains a f where "target p = Some (at_ID a)" and "tr_AttemptID r = at_ID a"
    and "find_row at_ID (at_ID a) (attempts d) = Some a"
    and "keeps_attempt_keys f" and "\<And>x. at_Status (f x) = outcome"
    and "attempts d' = attempts (set_attempt (at_ID a) f d)"
  using effect [OF assms] by (rule transition_effectE) (rule that, auto dest: transitioned_tables)

lemma closes:
  assumes "run env p d = Inr (r, d')"
  shows "\<exists>a. find_row at_ID (tr_AttemptID r) (attempts d') = Some a \<and> at_Status a = outcome"
  using assms by (rule attempts_after) (simp add: find_set_attempt)

text \<open>After a transition no transition of the same attempt succeeds again.\<close>

lemma ends:
  assumes "run env p d = Inr (r, d')" and "i = target p"
  shows "running_attempt i d' = Inl NoRows"
  using assms(1)
  by (rule attempts_after)
    (use assms(2) terminal in \<open>simp add: find_set_attempt running_attempt_def GetAttempt_stmt_def\<close>)

lemma other_attempts:
  assumes "run env p d = Inr (r, d')" and "Some k \<noteq> target p"
  shows "find_row at_ID k (attempts d') = find_row at_ID k (attempts d)"
  using assms(1)
proof (rule attempts_after)
  fix a f
  assume "target p = Some (at_ID a)" "keeps_attempt_keys f"
    "attempts d' = attempts (set_attempt (at_ID a) f d)"
  then show ?thesis
    using assms(2)
    by (cases "find_row at_ID k (attempts d)") (auto simp: find_set_attempt dest: find_row_SomeD)
qed

lemma other_tickets:
  assumes "run env p d = Inr (r, d')" and "k \<noteq> tr_TicketID r"
  shows "find_row tk_ID k (tickets d') = find_row tk_ID k (tickets d)"
  using effect [OF assms(1)]
proof (rule transition_effectE)
  fix a st f e
  assume r: "tr_TicketID r = at_TicketID a" and "core d' = core (transitioned env a f st e d)"
  then have "tickets d' = tickets (set_ticket_status env (at_TicketID a) st d)"
    by (auto dest: transitioned_tables)
  then show ?thesis
    using assms(2) r by (cases "find_row tk_ID k (tickets d)") (auto dest: find_row_SomeD)
qed

end

lemma transition_keeps_keys [simp]:
  "keeps_attempt_keys (\<lambda>a. a\<lparr>at_Status := s, at_ProgressPercent := pp, at_Output := out,
     at_OutputSchema := sch, at_CompletedAt := c\<rparr>)"
  "keeps_attempt_keys (\<lambda>a. a\<lparr>at_Status := s, at_FailureReason := fr, at_FailureCategory := fc,
     at_Output := out, at_CompletedAt := c\<rparr>)"
  "keeps_attempt_keys (\<lambda>a. a\<lparr>at_Status := s, at_FailureReason := fr, at_FailureCategory := fc,
     at_Blocker := b, at_CompletedAt := c\<rparr>)"
  "keeps_attempt_keys (\<lambda>a. a\<lparr>at_Status := s, at_FailureReason := fr, at_CompletedAt := c\<rparr>)"
  by (simp_all add: keeps_attempt_keys_def)

lemma and_then_refuses: "(\<And>a. \<exists>e. f a = Inl e) \<Longrightarrow> \<exists>e. and_then r f = Inl e"
  by (cases r) auto

interpretation complete: attempt_transition CompleteAttempt_stmt cap_AttemptID
  AttemptStatusSucceeded "\<lambda>_. success_status" "''completed''" ActorAgent
  by unfold_locales
    (auto simp: CompleteAttempt_stmt_def and_then_Inr_iff
      intro!: transition_attempt_effect and_then_refuses dest: transition_attempt_not_running)

interpretation fail: attempt_transition FailAttempt_stmt fap_AttemptID
  AttemptStatusFailed failure_status "''failed''" ActorAgent
  by unfold_locales
    (auto simp: FailAttempt_stmt_def and_then_Inr_iff
      intro!: transition_attempt_effect and_then_refuses dest: transition_attempt_not_running)

interpretation block: attempt_transition BlockAttempt_stmt bap_AttemptID
  AttemptStatusBlocked "\<lambda>_ _. Inr TicketStatusBlocked" "''blocked''" ActorAgent
  by unfold_locales
    (auto simp: BlockAttempt_stmt_def and_then_Inr_iff
      intro!: transition_attempt_effect and_then_refuses dest: transition_attempt_not_running)

interpretation cancel: attempt_transition CancelAttempt_stmt xap_AttemptID
  AttemptStatusCancelled "\<lambda>_ _. Inr TicketStatusTodo" "''cancelled''" ActorAgent
  by unfold_locales
    (auto simp: CancelAttempt_stmt_def
      intro!: transition_attempt_effect dest: transition_attempt_not_running)

interpretation expire: attempt_transition ExpireAttempt_stmt eap_AttemptID
  AttemptStatusExpired exhausted_status "''expired''" ActorSystem
  by unfold_locales
    (auto simp: ExpireAttempt_stmt_def
      intro!: transition_attempt_effect dest: transition_attempt_not_running)

end
