(* ===== verification/Claim_Store.thy ===== *)
theory Claim_Store
  imports Attempt_Store
begin

text \<open>
  The claim statement of internal/db/claims.sql.go, which picks a ticket, starts an attempt on
  it, writes the event and stores the idempotency record in one statement, and the statements
  of internal/db/idempotency.sql.go.
\<close>

section \<open>Selecting a candidate\<close>

record claim_next_ticket_params =
  cnp_WorkspaceID :: "uuid option"
  cnp_ProjectID :: "uuid option"
  cnp_TicketType :: "string option"
  cnp_Tags :: "string slice"
  cnp_Harness :: string
  cnp_Capabilities :: "string slice"
  cnp_AgentID :: string
  cnp_Model :: string
  cnp_LeaseExpiresAt :: timestamp
  cnp_LastHeartbeatAt :: timestamp
  cnp_IdempotencyKey :: "string option"
  cnp_RequestHash :: "string option"
  cnp_IdempotencyExpiresAt :: timestamp

record claim_next_ticket_row =
  cnr_TicketID :: uuid
  cnr_AttemptID :: uuid

text \<open>A dependency whose ticket is not done.\<close>

definition has_open_dependency :: "db \<Rightarrow> uuid \<Rightarrow> bool" where
  "has_open_dependency d t \<longleftrightarrow>
     (\<exists>r \<in> set (ticket_dependencies d). dep_TicketID r = t \<and>
        (\<exists>dep \<in> set (tickets d). tk_ID dep = dep_DependsOnTicketID r \<and>
           tk_Status dep \<noteq> TicketStatusDone))"

text \<open>The conditions of the candidate that cannot fail.\<close>

definition claim_matches :: "claim_next_ticket_params \<Rightarrow> db \<Rightarrow> ticket \<Rightarrow> bool" where
  "claim_matches p d t \<longleftrightarrow>
     Some (tk_WorkspaceID t) = cnp_WorkspaceID p \<and> Some (tk_ProjectID t) = cnp_ProjectID p \<and>
     tk_Status t = TicketStatusTodo \<and>
     (cnp_TicketType p = None \<or> cnp_TicketType p = Some (tk_Type t)) \<and>
     (slice_list (cnp_Tags p) = [] \<or> (\<exists>g \<in> set (tk_Tags t). g \<in> set (slice_list (cnp_Tags p)))) \<and>
     (tk_AllowedHarnesses t = [] \<or> cnp_Harness p \<in> set (tk_AllowedHarnesses t)) \<and>
     (tk_RequiredCapabilities t = [] \<or>
        (\<forall>c \<in> set (tk_RequiredCapabilities t). c \<in> set (slice_list (cnp_Capabilities p)))) \<and>
     \<not> has_open_dependency d (tk_ID t)"

text \<open>
  The last condition compares the failure count with a cast of the retry policy, which raises an
  error for a policy that is not an integer. On a ticket that meets the other conditions, the cast
  decides whether the ticket qualifies.
\<close>

definition claimable :: "claim_next_ticket_params \<Rightarrow> db \<Rightarrow> ticket \<Rightarrow> pg_error + bool" where
  "claimable p d t =
     (if claim_matches p d t
      then and_then (max_attempts t) (\<lambda>m. Inr (failure_count d (tk_ID t) < m))
      else Inr False)"

fun filter_rows :: "('r \<Rightarrow> 'e + bool) \<Rightarrow> 'r list \<Rightarrow> 'e + 'r list" where
  "filter_rows c [] = Inr []"
| "filter_rows c (r # rs) =
     and_then (c r) (\<lambda>b. and_then (filter_rows c rs) (\<lambda>out. Inr (if b then r # out else out)))"

text \<open>The casts that the plan evaluates beyond those that the result needs.\<close>

fun plan_casts :: "pg_env \<Rightarrow> ticket list \<Rightarrow> pg_error + unit" where
  "plan_casts env [] = Inr ()"
| "plan_casts env (t # ts) =
     (if env_casts env t then and_then (max_attempts t) (\<lambda>_. plan_casts env ts)
      else plan_casts env ts)"

text \<open>
  \<open>ORDER BY priority, created_at FOR UPDATE SKIP LOCKED LIMIT 1\<close>: the rows are taken in the order
  of the queue up to the first that qualifies and that no other transaction has locked. Whether a
  row qualifies has to be decided for the rows before it as well, but not for those after it, which
  a scan of the index \<open>idx_tickets_claim_queue\<close> does not reach; a plan that sorts all candidates
  decides it for them too.
\<close>

fun scan_queue ::
  "(ticket \<Rightarrow> pg_error + bool) \<Rightarrow> uuid list \<Rightarrow> ticket list \<Rightarrow> pg_error + ticket" where
  "scan_queue c locked [] = Inl NoRows"
| "scan_queue c locked (t # ts) =
     and_then (c t) (\<lambda>b. if b \<and> tk_ID t \<notin> set locked then Inr t else scan_queue c locked ts)"

text \<open>\<open>locked\<close> are the tickets that other transactions hold.\<close>

definition claim_candidate ::
  "pg_env \<Rightarrow> uuid list \<Rightarrow> claim_next_ticket_params \<Rightarrow> db \<Rightarrow> pg_error + ticket" where
  "claim_candidate env locked p d =
     and_then (plan_casts env (tickets d)) (\<lambda>_.
     scan_queue (claimable p d) locked (sort_key queue_order (tickets d)))"

section \<open>The claim statement\<close>

definition new_attempt :: "pg_env \<Rightarrow> claim_next_ticket_params \<Rightarrow> ticket \<Rightarrow> uuid \<Rightarrow> attempt" where
  "new_attempt env p t i =
     \<lparr>at_ID = i, at_WorkspaceID = tk_WorkspaceID t, at_ProjectID = tk_ProjectID t,
      at_TicketID = tk_ID t, at_AgentID = cnp_AgentID p, at_Harness = cnp_Harness p,
      at_Model = cnp_Model p, at_Status = AttemptStatusRunning,
      at_LeaseExpiresAt = cnp_LeaseExpiresAt p,
      at_LastHeartbeatAt = Some (cnp_LastHeartbeatAt p), at_ProgressPercent = 0,
      at_CurrentSummary = None, at_NextStep = None, at_Output = JObj [],
      at_OutputSchema = None, at_FailureReason = None, at_FailureCategory = None,
      at_Blocker = None, at_TraceID = None, at_CheckpointRef = None,
      at_StartedAt = env_now env, at_CompletedAt = None\<rparr>"

text \<open>The primary key of \<open>attempts\<close> and its unique index on the running attempt of a ticket.\<close>

definition insert_running_attempt :: "attempt \<Rightarrow> attempt list \<Rightarrow> pg_error + attempt list" where
  "insert_running_attempt a rows =
     and_then (ensure (\<not> (\<exists>r \<in> set rows. at_TicketID r = at_TicketID a \<and>
                 at_Status r = AttemptStatusRunning)) UniqueViolation)
       (\<lambda>_. insert_row at_ID a rows)"

definition idempotency_scope :: "idempotency_key \<Rightarrow> uuid \<times> string \<times> string \<times> string" where
  "idempotency_scope r = (ik_WorkspaceID r, ik_ActorID r, ik_Route r, ik_Key r)"

definition store_claim_key ::
  "pg_env \<Rightarrow> claim_next_ticket_params \<Rightarrow> ticket \<Rightarrow> uuid \<Rightarrow> db \<Rightarrow> pg_error + db" where
  "store_claim_key env p t a d =
     (case cnp_IdempotencyKey p of
        None \<Rightarrow> Inr d
      | Some key \<Rightarrow>
          and_then (not_null (cnp_RequestHash p)) (\<lambda>h.
          case gen_random_uuid env d of (i, d1) \<Rightarrow>
          let r = \<lparr>ik_ID = i, ik_WorkspaceID = tk_WorkspaceID t, ik_ActorID = cnp_AgentID p,
                   ik_Key = key, ik_Route = ''claim-next'', ik_RequestHash = h,
                   ik_ResponseBody =
                     JObj [(''ticket_id'', JStr (env_uuid_text env (tk_ID t))),
                           (''attempt_id'', JStr (env_uuid_text env a))],
                   ik_CreatedAt = env_now env, ik_ExpiresAt = cnp_IdempotencyExpiresAt p\<rparr> in
          and_then (ensure (idempotency_scope r \<notin> idempotency_scope ` set (idempotency_keys d))
                      UniqueViolation) (\<lambda>_.
          and_then (insert_row ik_ID r (idempotency_keys d1)) (\<lambda>ks.
          Inr (d1\<lparr>idempotency_keys := ks\<rparr>)))))"

definition ClaimNextTicket_stmt ::
  "uuid list \<Rightarrow> pg_env \<Rightarrow> claim_next_ticket_params \<Rightarrow> db \<Rightarrow> pg_error + (claim_next_ticket_row \<times> db)"
where
  "ClaimNextTicket_stmt locked env p d =
     and_then (claim_candidate env locked p d) (\<lambda>t.
     case gen_random_uuid env (set_ticket_status env (tk_ID t) TicketStatusInProgress d)
       of (i, d1) \<Rightarrow>
     let a = new_attempt env p t i in
     and_then (insert_running_attempt a (attempts d1)) (\<lambda>as.
     and_then (insert_ticket_event env
        (attempt_event a ''claimed'' ActorAgent
          (JObj [(''attempt_id'', JStr (env_uuid_text env i)), (''agent_id'', JStr (cnp_AgentID p)),
                 (''harness'', JStr (cnp_Harness p)), (''model'', JStr (cnp_Model p))]))
        (d1\<lparr>attempts := as\<rparr>)) (\<lambda>(e, d2).
     and_then (store_claim_key env p t i d2) (\<lambda>d3.
     Inr (\<lparr>cnr_TicketID = tk_ID t, cnr_AttemptID = i\<rparr>, d3)))))"

section \<open>Idempotency records\<close>

definition GetIdempotencyKey_stmt ::
  "uuid option \<Rightarrow> string \<Rightarrow> string \<Rightarrow> string \<Rightarrow> db \<Rightarrow> pg_error + idempotency_key" where
  "GetIdempotencyKey_stmt w actor route key d =
     (case w of
        None \<Rightarrow> Inl NoRows
      | Some u \<Rightarrow>
          (case find_row idempotency_scope (u, actor, route, key) (idempotency_keys d) of
             None \<Rightarrow> Inl NoRows
           | Some r \<Rightarrow> Inr r))"

definition DeleteExpiredIdempotencyKeys_stmt :: "pg_env \<Rightarrow> db \<Rightarrow> int \<times> db" where
  "DeleteExpiredIdempotencyKeys_stmt env d =
     (let expired = (\<lambda>r. ik_ExpiresAt r < env_now env) in
      (int (length (filter expired (idempotency_keys d))),
       d\<lparr>idempotency_keys := filter (\<lambda>r. \<not> expired r) (idempotency_keys d)\<rparr>))"

section \<open>The candidate\<close>

lemma filter_rows_Inr_iff [result_simps]:
  "filter_rows c rs = Inr out \<longleftrightarrow>
     (\<forall>r \<in> set rs. \<exists>b. c r = Inr b) \<and> out = filter (\<lambda>r. c r = Inr True) rs"
proof (induction rs arbitrary: out)
  case (Cons r rs)
  then show ?case
    by (cases "c r") (auto simp: and_then_Inr_iff)
qed auto

lemma filter_rows_Inl_iff:
  "(\<exists>e. filter_rows c rs = Inl e) \<longleftrightarrow> (\<exists>r \<in> set rs. \<exists>e. c r = Inl e)"
proof (induction rs)
  case (Cons r rs)
  then show ?case
    by (cases "c r"; cases "filter_rows c rs") auto
qed simp

lemma claimable_True_iff [result_simps]:
  "claimable p d t = Inr True \<longleftrightarrow>
     claim_matches p d t \<and> (\<exists>m. max_attempts t = Inr m \<and> failure_count d (tk_ID t) < m)"
  by (auto simp: claimable_def result_simps)

text \<open>The laws of the scan, against the rows and not against the order in which they are visited.\<close>

lemma scan_queue_InrD:
  assumes "scan_queue c locked ts = Inr t" and "sorted (map queue_order ts)"
  shows "t \<in> set ts \<and> tk_ID t \<notin> set locked \<and> c t = Inr True \<and>
    (\<forall>u \<in> set ts. c u = Inr True \<and> tk_ID u \<notin> set locked \<longrightarrow> queue_order t \<le> queue_order u)"
  using assms
proof (induction ts)
  case (Cons x xs)
  show ?case
  proof (cases "c x = Inr True \<and> tk_ID x \<notin> set locked")
    case True
    with Cons.prems show ?thesis by auto
  next
    case False
    with Cons.prems have "scan_queue c locked xs = Inr t"
      by (auto simp: and_then_Inr_iff split: if_splits)
    with Cons False show ?thesis by auto
  qed
qed simp

lemma scan_queue_NoRows_iff:
  assumes "\<And>t. t \<in> set ts \<Longrightarrow> \<exists>b. c t = Inr b"
  shows "scan_queue c locked ts = Inl NoRows \<longleftrightarrow>
    (\<forall>t \<in> set ts. c t = Inr True \<longrightarrow> tk_ID t \<in> set locked)"
  using assms
proof (induction ts)
  case (Cons x xs)
  obtain b where "c x = Inr b" using Cons.prems by force
  with Cons show ?case by auto
qed simp

lemma scan_queue_total:
  assumes "\<And>t. t \<in> set ts \<Longrightarrow> \<exists>b. c t = Inr b"
  shows "scan_queue c locked ts = Inl e \<Longrightarrow> e = NoRows"
  using assms
proof (induction ts)
  case (Cons x xs)
  obtain b where "c x = Inr b" using Cons.prems by force
  with Cons show ?case by (auto split: if_splits)
qed simp

text \<open>A row whose condition raises an error stops the scan unless a row before it is taken.\<close>

lemma scan_queue_error:
  assumes "t \<in> set ts" and "c t = Inl e" and "sorted (map queue_order ts)"
    and "\<And>u. u \<in> set ts \<Longrightarrow> c u = Inr True \<Longrightarrow> tk_ID u \<notin> set locked \<Longrightarrow>
      queue_order t < queue_order u"
  shows "\<exists>u \<in> set ts. \<exists>e'. c u = Inl e' \<and> scan_queue c locked ts = Inl e'"
  using assms
proof (induction ts)
  case (Cons x xs)
  show ?case
  proof (cases "c x")
    case (Inl e')
    then show ?thesis by auto
  next
    case (Inr b)
    with Cons.prems(1,2) have t: "t \<in> set xs" by auto
    with Cons.prems(3) have "queue_order x \<le> queue_order t" by auto
    then have "\<not> (c x = Inr True \<and> tk_ID x \<notin> set locked)"
      using Cons.prems(4) [of x] by (auto simp: not_less [symmetric])
    then have "scan_queue c locked (x # xs) = scan_queue c locked xs"
      using Inr by auto
    moreover from Cons.IH [OF t Cons.prems(2)] Cons.prems(3,4)
    have "\<exists>u \<in> set xs. \<exists>e'. c u = Inl e' \<and> scan_queue c locked xs = Inl e'" by auto
    ultimately show ?thesis by auto
  qed
qed simp

lemma plan_casts_Inr_iff [result_simps]:
  "plan_casts env ts = Inr u \<longleftrightarrow>
     (\<forall>t \<in> set ts. env_casts env t \<longrightarrow> (\<exists>m. max_attempts t = Inr m))"
  by (induction ts) (auto simp: and_then_Inr_iff)

lemma plan_casts_InlD:
  "plan_casts env ts = Inl e \<Longrightarrow> \<exists>t \<in> set ts. env_casts env t \<and> max_attempts t = Inl e"
  by (induction ts) (auto simp: and_then_Inl_iff split: if_splits)

text \<open>The policies that the statement reads are well formed: those of the tickets that meet the
  other conditions, and those that the plan reads besides.\<close>

definition casts_succeed :: "pg_env \<Rightarrow> claim_next_ticket_params \<Rightarrow> db \<Rightarrow> bool" where
  "casts_succeed env p d \<longleftrightarrow>
     (\<forall>t \<in> set (tickets d). claim_matches p d t \<or> env_casts env t \<longrightarrow> \<not> isl (max_attempts t))"

lemma casts_succeedD:
  assumes "casts_succeed env p d"
  shows "plan_casts env (tickets d) = Inr ()"
    and "t \<in> set (tickets d) \<Longrightarrow> \<exists>b. claimable p d t = Inr b"
proof -
  have cast: "\<exists>m. max_attempts t = Inr m"
    if "t \<in> set (tickets d)" "claim_matches p d t \<or> env_casts env t" for t
    using assms that unfolding casts_succeed_def by (metis sum.collapse(2))
  then show "plan_casts env (tickets d) = Inr ()"
    by (auto simp: plan_casts_Inr_iff)
  show "t \<in> set (tickets d) \<Longrightarrow> \<exists>b. claimable p d t = Inr b"
    using cast [of t] by (auto simp: claimable_def)
qed

lemma claim_candidate_InrD:
  assumes "claim_candidate env locked p d = Inr t"
  shows "t \<in> set (tickets d)" and "tk_ID t \<notin> set locked" and "claimable p d t = Inr True"
    and "\<And>u. u \<in> set (tickets d) \<Longrightarrow> claimable p d u = Inr True \<Longrightarrow> tk_ID u \<notin> set locked \<Longrightarrow>
           queue_order t \<le> queue_order u"
proof -
  have scan: "scan_queue (claimable p d) locked (sort_key queue_order (tickets d)) = Inr t"
    using assms by (auto simp: claim_candidate_def and_then_Inr_iff)
  note first = scan_queue_InrD [OF scan sorted_sort_key]
  show "t \<in> set (tickets d)" "tk_ID t \<notin> set locked" "claimable p d t = Inr True"
    using first by simp_all
  show "queue_order t \<le> queue_order u"
    if "u \<in> set (tickets d)" "claimable p d u = Inr True" "tk_ID u \<notin> set locked" for u
    using first that by simp
qed

lemma claim_candidate_NoRows_iff:
  assumes "casts_succeed env p d"
  shows "claim_candidate env locked p d = Inl NoRows \<longleftrightarrow>
    (\<forall>t \<in> set (tickets d). claimable p d t = Inr True \<longrightarrow> tk_ID t \<in> set locked)"
  using scan_queue_NoRows_iff [of "sort_key queue_order (tickets d)" "claimable p d" locked]
    casts_succeedD [OF assms]
  by (simp add: claim_candidate_def)

lemma claim_candidate_total:
  assumes "casts_succeed env p d" and "claim_candidate env locked p d = Inl e"
  shows "e = NoRows"
  using scan_queue_total [of "sort_key queue_order (tickets d)" "claimable p d" locked e]
    casts_succeedD [OF assms(1)] assms(2)
  by (simp add: claim_candidate_def)

section \<open>The effect of a claim\<close>

text \<open>The idempotency rows a claim of the ticket \<open>t\<close> by the attempt \<open>a\<close> adds.\<close>

definition claim_keys ::
  "pg_env \<Rightarrow> claim_next_ticket_params \<Rightarrow> ticket \<Rightarrow> uuid \<Rightarrow> idempotency_key list \<Rightarrow> bool" where
  "claim_keys env p t a ks \<longleftrightarrow>
     (case cnp_IdempotencyKey p of
        None \<Rightarrow> ks = []
      | Some key \<Rightarrow>
          (\<exists>k. ks = [k] \<and> cnp_RequestHash p = Some (ik_RequestHash k) \<and>
             idempotency_scope k = (tk_WorkspaceID t, cnp_AgentID p, ''claim-next'', key) \<and>
             ik_ExpiresAt k = cnp_IdempotencyExpiresAt p \<and>
             ik_ResponseBody k =
               JObj [(''ticket_id'', JStr (env_uuid_text env (tk_ID t))),
                     (''attempt_id'', JStr (env_uuid_text env a))]))"

lemma store_claim_key_InrD:
  assumes "store_claim_key env p t a d = Inr d'"
  obtains ks where "core d' = core (d\<lparr>idempotency_keys := idempotency_keys d @ ks\<rparr>)"
    and "claim_keys env p t a ks"
    and "idempotency_scope ` set ks \<inter> idempotency_scope ` set (idempotency_keys d) = {}"
proof (cases "cnp_IdempotencyKey p")
  case None
  with assms that [of "[]"] show ?thesis
    by (simp add: store_claim_key_def claim_keys_def)
next
  case (Some key)
  with assms obtain h where h: "cnp_RequestHash p = Some h"
    by (auto simp: store_claim_key_def and_then_Inr_iff not_null_Inr_iff)
  let ?r = "\<lparr>ik_ID = env_gen env (id_ctr d), ik_WorkspaceID = tk_WorkspaceID t,
     ik_ActorID = cnp_AgentID p, ik_Key = key, ik_Route = ''claim-next'', ik_RequestHash = h,
     ik_ResponseBody = JObj [(''ticket_id'', JStr (env_uuid_text env (tk_ID t))),
                             (''attempt_id'', JStr (env_uuid_text env a))],
     ik_CreatedAt = env_now env, ik_ExpiresAt = cnp_IdempotencyExpiresAt p\<rparr>"
  from assms Some h have "core d' = core (d\<lparr>idempotency_keys := idempotency_keys d @ [?r]\<rparr>)"
    and "idempotency_scope ?r \<notin> idempotency_scope ` set (idempotency_keys d)"
    by (auto simp: store_claim_key_def gen_random_uuid_def Let_def and_then_Inr_iff
        ensure_Inr_iff insert_row_Inr_iff)
  then show ?thesis
    using Some h by (intro that [of "[?r]"]) (auto simp: claim_keys_def idempotency_scope_def)
qed

lemma core_idempotency_keys:
  "core d = core d' \<Longrightarrow>
   core (d\<lparr>idempotency_keys := ks\<rparr>) = core (d'\<lparr>idempotency_keys := ks\<rparr>)"
  by (cases d; cases d') simp

definition claimed ::
  "pg_env \<Rightarrow> attempt \<Rightarrow> ticket_event \<Rightarrow> idempotency_key list \<Rightarrow> db \<Rightarrow> db" where
  "claimed env a e ks d =
     (set_ticket_status env (at_TicketID a) TicketStatusInProgress d)
       \<lparr>attempts := attempts d @ [a], ticket_events := ticket_events d @ [e],
        event_seq := event_seq d + 1, idempotency_keys := idempotency_keys d @ ks\<rparr>"

lemma ClaimNextTicket_stmt_InrD:
  assumes "ClaimNextTicket_stmt locked env p d = Inr (r, d')"
  obtains t a e ks where "claim_candidate env locked p d = Inr t"
    and "cnr_TicketID r = tk_ID t" and "cnr_AttemptID r = at_ID a"
    and "a = new_attempt env p t (at_ID a)"
    and "\<And>b. b \<in> set (attempts d) \<Longrightarrow> at_TicketID b = tk_ID t \<Longrightarrow>
           at_Status b \<noteq> AttemptStatusRunning"
    and "at_ID a \<notin> at_ID ` set (attempts d)"
    and "core d' = core (claimed env a e ks d)"
    and "claim_keys env p t (at_ID a) ks"
    and "idempotency_scope ` set ks \<inter> idempotency_scope ` set (idempotency_keys d) = {}"
    and "ev_TicketID e = tk_ID t" and "ev_Type e = ''claimed''"
    and "ev_EventSequence e = event_seq d" and "ev_ID e \<notin> ev_ID ` set (ticket_events d)"
proof -
  let ?i = "env_gen env (id_ctr d)"
  from assms obtain t as e d2 where t: "claim_candidate env locked p d = Inr t"
    and as: "insert_running_attempt (new_attempt env p t ?i) (attempts d) = Inr as"
    and ins: "insert_ticket_event env
        (attempt_event (new_attempt env p t ?i) ''claimed'' ActorAgent
          (JObj [(''attempt_id'', JStr (env_uuid_text env ?i)),
             (''agent_id'', JStr (cnp_AgentID p)), (''harness'', JStr (cnp_Harness p)),
             (''model'', JStr (cnp_Model p))]))
        ((set_ticket_status env (tk_ID t) TicketStatusInProgress d)
           \<lparr>id_ctr := Suc (id_ctr d), attempts := as\<rparr>) = Inr (e, d2)"
    and key: "store_claim_key env p t ?i d2 = Inr d'"
    and r: "r = \<lparr>cnr_TicketID = tk_ID t, cnr_AttemptID = ?i\<rparr>"
    by (auto simp: ClaimNextTicket_stmt_def gen_random_uuid_def Let_def and_then_Inr_iff
        split: prod.splits)
  note ev = insert_ticket_event_core [OF ins]
  from key obtain ks where ks: "core d' = core (d2\<lparr>idempotency_keys := idempotency_keys d2 @ ks\<rparr>)"
    "claim_keys env p t ?i ks"
    "idempotency_scope ` set ks \<inter> idempotency_scope ` set (idempotency_keys d2) = {}"
    by (rule store_claim_key_InrD)
  have keys: "idempotency_keys d2 = idempotency_keys d"
    using core_eqD [OF ev(1)] by simp
  have "as = attempts d @ [new_attempt env p t ?i]"
    using as by (auto simp: insert_running_attempt_def and_then_Inr_iff insert_row_Inr_iff)
  then have "core d' = core (claimed env (new_attempt env p t ?i) e ks d)"
    unfolding ks(1) core_idempotency_keys [OF ev(1)] keys
    by (simp add: claimed_def set_ticket_status_def new_attempt_def)
  with keys show ?thesis
    using t r as ev ks
    by (intro that [of t "new_attempt env p t ?i" e ks])
      (auto simp: insert_running_attempt_def and_then_Inr_iff ensure_Inr_iff
        insert_row_Inr_iff new_attempt_def new_event_def attempt_event_def)
qed

end
