(* ===== verification/Policy_Service.thy ===== *)
theory Policy_Service
  imports Forge_Store
begin

text \<open>
  internal/services/policy.go: the guardrails evaluated before a workflow action. A reason is
  the constructor of its message format with the arguments that are printed into it.
  \<open>strings.EqualFold\<close> compares strings under Unicode case folding; the comparison is the
  argument \<open>fold_eq\<close>.
\<close>

datatype policy_reason =
    OperationNotManaged string
  | EnqueueWithoutAuthority
  | MissingAttribution
  | MissingCreationReason
  | NoAcceptanceCriteria
  | NoVerificationCommands
  | LeaseExceeds duration duration
  | HarnessNotAllowed string
  | MissingCapabilities "string list"
  | RequiresPermissions "string list"
  | RequiresTools "string list"
  | AttemptNotRunning string string
  | TransitionWithoutVerification
  | ArchivedMustReopen
  | DoneNeedsReason
  | NoGuardrails

datatype policy_verdict = PolicyDecisionAllow | PolicyDecisionWarn | PolicyDecisionDeny

record policy_decision =
  pd_Decision :: policy_verdict
  pd_Reasons :: "policy_reason list"

record policy_config =
  pc_MaxClaimLease :: duration

record policy_input =
  pi_Operation :: string
  pi_ActorType :: string
  pi_ActorID :: string
  pi_TicketStatus :: string
  pi_TicketType :: string
  pi_TicketCreatedBy :: string
  pi_AttemptStatus :: string
  pi_Harness :: string
  pi_AllowedHarnesses :: "string list"
  pi_AgentCapabilities :: "string list"
  pi_RequiredCapabilities :: "string list"
  pi_RequiredPermissions :: "string list"
  pi_RequiredTools :: "string list"
  pi_AcceptanceCriteria :: "string list"
  pi_VerificationCommands :: "string list"
  pi_CreationReason :: string
  pi_HasSourceAttempt :: bool
  pi_HasSourceArtifact :: bool
  pi_Enqueue :: bool
  pi_CanEnqueue :: bool
  pi_Lease :: duration

definition policy_input_zero :: policy_input where
  "policy_input_zero =
     \<lparr>pi_Operation = [], pi_ActorType = [], pi_ActorID = [], pi_TicketStatus = [],
      pi_TicketType = [], pi_TicketCreatedBy = [], pi_AttemptStatus = [], pi_Harness = [],
      pi_AllowedHarnesses = [], pi_AgentCapabilities = [], pi_RequiredCapabilities = [],
      pi_RequiredPermissions = [], pi_RequiredTools = [], pi_AcceptanceCriteria = [],
      pi_VerificationCommands = [], pi_CreationReason = [], pi_HasSourceAttempt = False,
      pi_HasSourceArtifact = False, pi_Enqueue = False, pi_CanEnqueue = False, pi_Lease = 0\<rparr>"

definition NewPolicyService :: "policy_config \<Rightarrow> policy_config" where
  "NewPolicyService c =
     (if pc_MaxClaimLease c = 0 then c\<lparr>pc_MaxClaimLease := 24 * hour\<rparr> else c)"

definition compact :: "string list \<Rightarrow> string list" where
  "compact vs = slice_list (compactStrings vs)"

definition normalizePolicyInput :: "policy_input \<Rightarrow> policy_input" where
  "normalizePolicyInput i =
     i\<lparr>pi_Operation := TrimSpace (pi_Operation i), pi_ActorType := TrimSpace (pi_ActorType i),
       pi_ActorID := TrimSpace (pi_ActorID i), pi_TicketStatus := TrimSpace (pi_TicketStatus i),
       pi_TicketType := TrimSpace (pi_TicketType i),
       pi_TicketCreatedBy := TrimSpace (pi_TicketCreatedBy i),
       pi_AttemptStatus := TrimSpace (pi_AttemptStatus i), pi_Harness := TrimSpace (pi_Harness i),
       pi_CreationReason := TrimSpace (pi_CreationReason i),
       pi_AllowedHarnesses := compact (pi_AllowedHarnesses i),
       pi_AgentCapabilities := compact (pi_AgentCapabilities i),
       pi_RequiredCapabilities := compact (pi_RequiredCapabilities i),
       pi_RequiredPermissions := compact (pi_RequiredPermissions i),
       pi_RequiredTools := compact (pi_RequiredTools i),
       pi_AcceptanceCriteria := compact (pi_AcceptanceCriteria i),
       pi_VerificationCommands := compact (pi_VerificationCommands i)\<rparr>"

fun containsFold :: "(string \<Rightarrow> string \<Rightarrow> bool) \<Rightarrow> string list \<Rightarrow> string \<Rightarrow> bool" where
  "containsFold fold_eq [] want = False"
| "containsFold fold_eq (v # vs) want = (if fold_eq v want then True else containsFold fold_eq vs want)"

fun missingStrings ::
  "(string \<Rightarrow> string \<Rightarrow> bool) \<Rightarrow> string list \<Rightarrow> string list \<Rightarrow> string list" where
  "missingStrings fold_eq [] actual = []"
| "missingStrings fold_eq (r # rs) actual =
     (if containsFold fold_eq actual r then missingStrings fold_eq rs actual
      else r # missingStrings fold_eq rs actual)"

definition reason :: "bool \<Rightarrow> policy_reason \<Rightarrow> policy_reason list" where
  "reason b r = (if b then [r] else [])"

text \<open>Each guardrail returns the denials and the warnings it appends.\<close>

definition evaluateTicketCreationPolicy ::
  "policy_input \<Rightarrow> policy_reason list \<times> policy_reason list" where
  "evaluateTicketCreationPolicy i =
     (let agent = (pi_ActorType i = ActorAgent) in
      (reason (agent \<and> pi_Enqueue i \<and> \<not> pi_CanEnqueue i) EnqueueWithoutAuthority,
       reason (agent \<and> \<not> pi_HasSourceAttempt i \<and> \<not> pi_HasSourceArtifact i) MissingAttribution @
       reason (agent \<and> pi_CreationReason i = []) MissingCreationReason @
       reason (pi_AcceptanceCriteria i = []) NoAcceptanceCriteria @
       reason (pi_VerificationCommands i = []) NoVerificationCommands))"

definition evaluateClaimPolicy ::
  "(string \<Rightarrow> string \<Rightarrow> bool) \<Rightarrow> policy_config \<Rightarrow> policy_input \<Rightarrow>
   policy_reason list \<times> policy_reason list" where
  "evaluateClaimPolicy fold_eq c i =
     (let missing = missingStrings fold_eq (pi_RequiredCapabilities i) (pi_AgentCapabilities i) in
      (reason (pc_MaxClaimLease c < pi_Lease i) (LeaseExceeds (pi_Lease i) (pc_MaxClaimLease c)) @
       reason (pi_AllowedHarnesses i \<noteq> [] \<and>
               \<not> containsFold fold_eq (pi_AllowedHarnesses i) (pi_Harness i))
         (HarnessNotAllowed (pi_Harness i)) @
       reason (missing \<noteq> []) (MissingCapabilities missing),
       reason (pi_RequiredPermissions i \<noteq> []) (RequiresPermissions (pi_RequiredPermissions i)) @
       reason (pi_RequiredTools i \<noteq> []) (RequiresTools (pi_RequiredTools i))))"

definition evaluateRunningAttemptPolicy ::
  "policy_input \<Rightarrow> string \<Rightarrow> policy_reason list \<times> policy_reason list" where
  "evaluateRunningAttemptPolicy i action =
     (reason (pi_AttemptStatus i \<noteq> [] \<and> pi_AttemptStatus i \<noteq> AttemptStatusRunning)
        (AttemptNotRunning action (pi_AttemptStatus i)),
      reason (action = ''transition'' \<and> pi_VerificationCommands i = [])
        TransitionWithoutVerification)"

definition evaluateTicketTransitionPolicy ::
  "policy_input \<Rightarrow> policy_reason list \<times> policy_reason list" where
  "evaluateTicketTransitionPolicy i =
     (if pi_TicketStatus i = TicketStatusArchived then ([ArchivedMustReopen], [])
      else if pi_TicketStatus i = TicketStatusDone then ([], [DoneNeedsReason])
      else ([], []))"

definition Evaluate ::
  "(string \<Rightarrow> string \<Rightarrow> bool) \<Rightarrow> policy_config \<Rightarrow> policy_input \<Rightarrow> policy_decision" where
  "Evaluate fold_eq c input =
     (let i = normalizePolicyInput input; op = pi_Operation i;
          (denies, warnings) =
            (if op = ''create_ticket'' \<or> op = ''propose_ticket'' then evaluateTicketCreationPolicy i
             else if op = ''claim_next_ticket'' then evaluateClaimPolicy fold_eq c i
             else if op = ''checkpoint_attempt'' then evaluateRunningAttemptPolicy i ''checkpoint''
             else if op = ''complete_attempt'' \<or> op = ''fail_attempt'' \<or> op = ''block_attempt''
             then evaluateRunningAttemptPolicy i ''transition''
             else if op = ''ticket_transition'' then evaluateTicketTransitionPolicy i
             else ([OperationNotManaged op], [])) in
      if denies \<noteq> [] then \<lparr>pd_Decision = PolicyDecisionDeny, pd_Reasons = denies\<rparr>
      else if warnings \<noteq> [] then \<lparr>pd_Decision = PolicyDecisionWarn, pd_Reasons = warnings\<rparr>
      else \<lparr>pd_Decision = PolicyDecisionAllow, pd_Reasons = [NoGuardrails]\<rparr>)"

definition Allowed :: "policy_decision \<Rightarrow> bool" where
  "Allowed dec \<longleftrightarrow> pd_Decision dec \<noteq> PolicyDecisionDeny"

section \<open>What the guardrails decide\<close>

lemma reason_Nil_iff [simp]: "reason b r = [] \<longleftrightarrow> \<not> b"
  by (simp add: reason_def)

lemma containsFold_iff: "containsFold fold_eq vs want \<longleftrightarrow> (\<exists>v \<in> set vs. fold_eq v want)"
  by (induction vs) auto

lemma missingStrings_eq:
  "missingStrings fold_eq rs actual = filter (\<lambda>r. \<not> (\<exists>v \<in> set actual. fold_eq v r)) rs"
  by (induction rs) (auto simp: containsFold_iff)

lemma compact_idem [simp]: "compact (compact vs) = compact vs"
proof -
  have "compact ws = compactStringsPreserveEmpty ws" for ws
    by (simp add: compact_def compactStringsPreserveEmpty_def)
  then show ?thesis by simp
qed

lemma normalizePolicyInput_idem: "normalizePolicyInput (normalizePolicyInput i) = normalizePolicyInput i"
  by (simp add: normalizePolicyInput_def)

lemma Evaluate_normalize: "Evaluate fold_eq c (normalizePolicyInput i) = Evaluate fold_eq c i"
  by (simp add: Evaluate_def normalizePolicyInput_idem)

lemma Evaluate_claim:
  assumes "TrimSpace (pi_Operation i) = ''claim_next_ticket''"
  shows "Allowed (Evaluate fold_eq c i) \<longleftrightarrow>
    pi_Lease i \<le> pc_MaxClaimLease c \<and>
    (compact (pi_AllowedHarnesses i) = [] \<or>
       (\<exists>h \<in> set (compact (pi_AllowedHarnesses i)). fold_eq h (TrimSpace (pi_Harness i)))) \<and>
    (\<forall>r \<in> set (compact (pi_RequiredCapabilities i)).
       \<exists>v \<in> set (compact (pi_AgentCapabilities i)). fold_eq v r)"
  using assms
  by (auto simp: Allowed_def Evaluate_def Let_def normalizePolicyInput_def evaluateClaimPolicy_def
      containsFold_iff missingStrings_eq filter_empty_conv split: prod.splits if_splits)

end
