(* ===== verification/Forge_Service.thy ===== *)
theory Forge_Service
  imports Claim_Store Policy_Service
begin

text \<open>
  The error values of the services and the combinators their bodies are written with. A
  service operation takes the database and returns an error or a value together with the
  database: unlike a failed statement, a failed operation keeps the effects of the statements
  it ran before the failure. The runtime wraps some operations in a transaction
  (\<open>with_transaction\<close>), which restores the database when the operation fails.

  The clock of a service (its \<open>now\<close> function) and the statement environment are arguments of
  the operations.
\<close>

datatype svc_error =
    ValidationError "string list"
  | ErrEnqueuePermissionRequired
  | ErrTicketNotFound
  | ErrTicketIsNotProposed
  | ErrTicketTransitionNotAllowed
  | ErrNoClaimableTickets
  | ErrIdempotencyConflict
  | ErrAttemptNotRunning
  | ErrPolicyDenied "policy_reason list"
  | DecodeError string
  | StoreError string pg_error
  | ErrArtifactDeleteUnsupported
  | ServiceError string
  | WrappedError string svc_error

type_synonym 'a svc = "db \<Rightarrow> (svc_error + 'a) \<times> db"

definition svc_return :: "'a \<Rightarrow> 'a svc" where
  "svc_return a d = (Inr a, d)"

definition svc_fail :: "svc_error \<Rightarrow> 'a svc" where
  "svc_fail e d = (Inl e, d)"

definition svc_bind :: "'a svc \<Rightarrow> ('a \<Rightarrow> 'b svc) \<Rightarrow> 'b svc" where
  "svc_bind m f d = (case m d of (Inl e, d') \<Rightarrow> (Inl e, d') | (Inr a, d') \<Rightarrow> f a d')"

text \<open>Running a statement; \<open>wrap\<close> is what the service makes of the statement's error.\<close>

definition svc_stmt :: "(pg_error \<Rightarrow> svc_error) \<Rightarrow> (db \<Rightarrow> pg_error + ('a \<times> db)) \<Rightarrow> 'a svc" where
  "svc_stmt wrap stmt d =
     (case stmt d of Inl e \<Rightarrow> (Inl (wrap e), d) | Inr (a, d') \<Rightarrow> (Inr a, d'))"

definition svc_query :: "(pg_error \<Rightarrow> svc_error) \<Rightarrow> (db \<Rightarrow> pg_error + 'a) \<Rightarrow> 'a svc" where
  "svc_query wrap q d = (case q d of Inl e \<Rightarrow> (Inl (wrap e), d) | Inr a \<Rightarrow> (Inr a, d))"

definition svc_read :: "(db \<Rightarrow> 'a) \<Rightarrow> 'a svc" where
  "svc_read q d = (Inr (q d), d)"

definition svc_check :: "string list \<Rightarrow> 'a svc \<Rightarrow> 'a svc" where
  "svc_check problems m = (if problems = [] then m else svc_fail (ValidationError problems))"

definition svc_decode :: "string \<Rightarrow> 'a option \<Rightarrow> 'a svc" where
  "svc_decode label v = (case v of None \<Rightarrow> svc_fail (DecodeError label) | Some a \<Rightarrow> svc_return a)"

text \<open>\<open>svc_each\<close> runs an operation for every element, stopping at the first error.\<close>

fun svc_each :: "('x \<Rightarrow> 'a svc) \<Rightarrow> 'x list \<Rightarrow> unit svc" where
  "svc_each f [] = svc_return ()"
| "svc_each f (x # xs) = svc_bind (f x) (\<lambda>_. svc_each f xs)"

text \<open>\<open>fmt.Errorf("...: %w", err)\<close> around the error of another operation.\<close>

definition svc_wrap :: "string \<Rightarrow> 'a svc \<Rightarrow> 'a svc" where
  "svc_wrap label m d =
     (case m d of (Inl e, d') \<Rightarrow> (Inl (WrappedError label e), d') | (Inr a, d') \<Rightarrow> (Inr a, d'))"

text \<open>The transaction of the runtime. That beginning or committing it fails is outside the model: the
  outcomes of \<open>m\<close> are those that are reached when both succeed.\<close>

definition with_transaction :: "'a svc \<Rightarrow> 'a svc" where
  "with_transaction m d = (case m d of (Inl e, _) \<Rightarrow> (Inl e, d) | (Inr a, d') \<Rightarrow> (Inr a, d'))"

section \<open>Inversion\<close>

lemma svc_return_iff [result_simps]: "svc_return a d = (r, d') \<longleftrightarrow> r = Inr a \<and> d' = d"
  by (auto simp: svc_return_def)

lemma svc_fail_iff [result_simps]: "svc_fail e d = (r, d') \<longleftrightarrow> r = Inl e \<and> d' = d"
  by (auto simp: svc_fail_def)

lemma svc_bind_Inr_iff [result_simps]:
  "svc_bind m f d = (Inr b, d') \<longleftrightarrow> (\<exists>a d1. m d = (Inr a, d1) \<and> f a d1 = (Inr b, d'))"
  by (auto simp: svc_bind_def split: prod.splits sum.splits)

lemma svc_bind_Inl_iff [result_simps]:
  "svc_bind m f d = (Inl e, d') \<longleftrightarrow>
     m d = (Inl e, d') \<or> (\<exists>a d1. m d = (Inr a, d1) \<and> f a d1 = (Inl e, d'))"
  by (auto simp: svc_bind_def split: prod.splits sum.splits)

lemma svc_stmt_Inr_iff [result_simps]:
  "svc_stmt wrap stmt d = (Inr a, d') \<longleftrightarrow> stmt d = Inr (a, d')"
  by (auto simp: svc_stmt_def split: sum.splits prod.splits)

lemma svc_stmt_Inl_iff [result_simps]:
  "svc_stmt wrap stmt d = (Inl e, d') \<longleftrightarrow> d' = d \<and> (\<exists>pe. stmt d = Inl pe \<and> e = wrap pe)"
  by (auto simp: svc_stmt_def split: sum.splits prod.splits)

lemma svc_query_Inr_iff [result_simps]:
  "svc_query wrap q d = (Inr a, d') \<longleftrightarrow> d' = d \<and> q d = Inr a"
  by (auto simp: svc_query_def split: sum.splits)

lemma svc_query_Inl_iff [result_simps]:
  "svc_query wrap q d = (Inl e, d') \<longleftrightarrow> d' = d \<and> (\<exists>pe. q d = Inl pe \<and> e = wrap pe)"
  by (auto simp: svc_query_def split: sum.splits)

lemma svc_read_iff [result_simps]: "svc_read q d = (r, d') \<longleftrightarrow> r = Inr (q d) \<and> d' = d"
  by (auto simp: svc_read_def)

lemma svc_check_Inr_iff [result_simps]:
  "svc_check ps m d = (Inr a, d') \<longleftrightarrow> ps = [] \<and> m d = (Inr a, d')"
  by (auto simp: svc_check_def svc_fail_def)

lemma svc_check_Nil [simp]: "svc_check [] m = m"
  by (simp add: svc_check_def)

lemma svc_decode_Inr_iff [result_simps]:
  "svc_decode l v d = (Inr a, d') \<longleftrightarrow> v = Some a \<and> d' = d"
  by (auto simp: svc_decode_def svc_fail_def svc_return_def split: option.splits)

lemma svc_wrap_Inr_iff [result_simps]: "svc_wrap l m d = (Inr a, d') \<longleftrightarrow> m d = (Inr a, d')"
  by (auto simp: svc_wrap_def split: prod.splits sum.splits)

section \<open>Operations as sequences of statements\<close>

text \<open>
  \<open>svc_steps R m\<close>: whatever \<open>m\<close> returns, it moves the database by a sequence of steps of
  \<open>R\<close>. The rules below reduce this to the statements that \<open>m\<close> runs.
\<close>

named_theorems svc_steps_intros \<open>composition of step sequences\<close>

definition svc_steps :: "(db \<Rightarrow> db \<Rightarrow> bool) \<Rightarrow> 'a svc \<Rightarrow> bool" where
  "svc_steps R m \<longleftrightarrow> (\<forall>d. R\<^sup>*\<^sup>* d (snd (m d)))"

lemma svc_stepsD: "svc_steps R m \<Longrightarrow> m d = (r, d') \<Longrightarrow> R\<^sup>*\<^sup>* d d'"
  unfolding svc_steps_def by (metis snd_conv)

lemma svc_steps_return [svc_steps_intros]: "svc_steps R (svc_return a)"
  by (simp add: svc_steps_def svc_return_def)

lemma svc_steps_fail [svc_steps_intros]: "svc_steps R (svc_fail e)"
  by (simp add: svc_steps_def svc_fail_def)

lemma svc_steps_read [svc_steps_intros]: "svc_steps R (svc_read q)"
  by (simp add: svc_steps_def svc_read_def)

lemma svc_steps_query [svc_steps_intros]: "svc_steps R (svc_query w q)"
  by (simp add: svc_steps_def svc_query_def split: sum.splits)

lemma svc_steps_decode [svc_steps_intros]: "svc_steps R (svc_decode l v)"
  by (cases v) (simp_all add: svc_decode_def svc_steps_intros)

lemma svc_steps_stmt:
  assumes "\<And>d a d'. stmt d = Inr (a, d') \<Longrightarrow> R d d'"
  shows "svc_steps R (svc_stmt w stmt)"
  using assms by (auto simp: svc_steps_def svc_stmt_def split: sum.splits)

lemma svc_steps_bind [svc_steps_intros]:
  assumes "svc_steps R m" and "\<And>a. svc_steps R (f a)"
  shows "svc_steps R (svc_bind m f)"
proof -
  have "R\<^sup>*\<^sup>* d (snd (svc_bind m f d))" for d
  proof (cases "m d")
    case (Pair r d1)
    then have "R\<^sup>*\<^sup>* d d1" using assms(1) by (rule svc_stepsD [rotated])
    moreover have "R\<^sup>*\<^sup>* d1 (snd (f a d1))" for a using assms(2) by (simp add: svc_steps_def)
    ultimately show ?thesis
      using Pair by (cases r) (auto simp: svc_bind_def intro: rtranclp_trans)
  qed
  then show ?thesis by (simp add: svc_steps_def)
qed

lemma svc_steps_check [svc_steps_intros]: "svc_steps R m \<Longrightarrow> svc_steps R (svc_check ps m)"
  by (simp add: svc_check_def svc_steps_intros)

lemma svc_steps_if [svc_steps_intros]:
  "(b \<Longrightarrow> svc_steps R m) \<Longrightarrow> (\<not> b \<Longrightarrow> svc_steps R n) \<Longrightarrow> svc_steps R (if b then m else n)"
  by simp

lemma svc_steps_case_sum [svc_steps_intros]:
  "(\<And>e. svc_steps R (f e)) \<Longrightarrow> (\<And>a. svc_steps R (g a)) \<Longrightarrow>
   svc_steps R (case v of Inl e \<Rightarrow> f e | Inr a \<Rightarrow> g a)"
  by (cases v) simp_all

lemma svc_steps_case_option [svc_steps_intros]:
  "svc_steps R m \<Longrightarrow> (\<And>a. svc_steps R (g a)) \<Longrightarrow>
   svc_steps R (case v of None \<Rightarrow> m | Some a \<Rightarrow> g a)"
  by (cases v) simp_all

lemma svc_steps_each [svc_steps_intros]:
  "(\<And>x. svc_steps R (f x)) \<Longrightarrow> svc_steps R (svc_each f xs)"
  by (induction xs) (simp_all add: svc_steps_intros)

lemma svc_steps_each_in:
  "(\<And>x. x \<in> set xs \<Longrightarrow> svc_steps R (f x)) \<Longrightarrow> svc_steps R (svc_each f xs)"
  by (induction xs) (simp_all add: svc_steps_intros)

lemma svc_steps_transaction [svc_steps_intros]:
  "svc_steps R m \<Longrightarrow> svc_steps R (with_transaction m)"
  by (auto simp: svc_steps_def with_transaction_def split: prod.splits sum.splits)
    (metis snd_conv)

lemma svc_steps_wrap [svc_steps_intros]: "svc_steps R m \<Longrightarrow> svc_steps R (svc_wrap l m)"
  by (auto simp: svc_steps_def svc_wrap_def split: prod.splits sum.splits) (metis snd_conv)+

text \<open>A transaction that fails leaves the database as it was.\<close>

lemma with_transaction_Inl: "with_transaction m d = (Inl e, d') \<Longrightarrow> d' = d"
  by (auto simp: with_transaction_def split: prod.splits sum.splits)

lemma with_transaction_Inr_iff [result_simps]:
  "with_transaction m d = (Inr a, d') \<longleftrightarrow> m d = (Inr a, d')"
  by (auto simp: with_transaction_def split: prod.splits sum.splits)

end
