(* ===== verification/Ticket_Service.thy ===== *)
theory Ticket_Service
  imports Forge_Service
begin

text \<open>
  internal/services/tickets.go: creation, patches, the status transitions of a ticket and the
  triage of proposed tickets, in the order of the source.
\<close>

section \<open>Requests\<close>

record create_ticket_request =
  cr_WorkspaceID :: "uuid option"
  cr_ProjectID :: "uuid option"
  cr_ParentID :: "uuid option"
  cr_RootID :: "uuid option"
  cr_SourceAttemptID :: "uuid option"
  cr_SourceArtifactID :: "uuid option"
  cr_Title :: string
  cr_Description :: string
  cr_Type :: string
  cr_Status :: string
  cr_Priority :: "int option"
  cr_Tags :: "string list"
  cr_AcceptanceCriteria :: "string list"
  cr_VerificationCommands :: "string list"
  cr_ExpectedArtifacts :: "string list"
  cr_RelevantPaths :: "string list"
  cr_RequiredTools :: "string list"
  cr_RequiredPermissions :: "string list"
  cr_Environment :: "(string \<times> json) list"
  cr_Input :: "(string \<times> json) list"
  cr_InputSchema :: string
  cr_RequiredCapabilities :: "string list"
  cr_AllowedHarnesses :: "string list"
  cr_RetryPolicy :: json_raw
  cr_Dependencies :: "uuid option list"
  cr_CreatedBy :: string
  cr_CreatedByID :: string
  cr_CreationReason :: string
  cr_Enqueue :: bool
  cr_CanEnqueue :: bool

record list_tickets_request =
  lr_WorkspaceID :: "uuid option"
  lr_ProjectID :: "uuid option"
  lr_Status :: string
  lr_Type :: string
  lr_Offset :: int
  lr_Limit :: int

record update_ticket_request =
  ur_TicketID :: "uuid option"
  ur_Title :: "string option"
  ur_Description :: "string option"
  ur_Tags :: "string list option"
  ur_AcceptanceCriteria :: "string list option"
  ur_VerificationCommands :: "string list option"
  ur_RelevantPaths :: "string list option"
  ur_ActorType :: string
  ur_ActorID :: string
  ur_eventData :: "(string \<times> string) list"

record ticket_transition_request =
  tr_TicketRef :: "uuid option"
  tr_ActorType :: string
  tr_ActorID :: string
  tr_Reason :: string

record review_ticket_request =
  rv_TicketID :: "uuid option"
  rv_Decision :: string
  rv_ActorType :: string
  rv_ActorID :: string
  rv_Reason :: string

record proposed_ticket_triage_request =
  pt_TicketID :: "uuid option"
  pt_ActorType :: string
  pt_ActorID :: string
  pt_Reason :: string
  pt_CanEnqueue :: bool

record merge_proposed_ticket_request =
  mp_TicketID :: "uuid option"
  mp_TargetTicketID :: "uuid option"
  mp_ActorType :: string
  mp_ActorID :: string
  mp_Reason :: string

record refine_proposed_ticket_request =
  rf_TicketID :: "uuid option"
  rf_Title :: "string option"
  rf_Description :: "string option"
  rf_Tags :: "string list option"
  rf_AcceptanceCriteria :: "string list option"
  rf_VerificationCommands :: "string list option"
  rf_RelevantPaths :: "string list option"
  rf_ActorType :: string
  rf_ActorID :: string
  rf_Reason :: string

section \<open>Allowed values\<close>

definition isAllowedActor :: "string \<Rightarrow> bool" where
  "isAllowedActor v \<longleftrightarrow> v = ActorHuman \<or> v = ActorAgent \<or> v = ActorSystem"

definition isAllowedTicketType :: "string \<Rightarrow> bool" where
  "isAllowedTicketType v \<longleftrightarrow>
     v \<in> set [''feature'', ''task'', ''bug'', ''documentation'', ''research'', ''analysis'',
       ''planning'', ''review'', ''integration'', ''investigation'', ''cleanup'', ''follow_up'',
       ''custom'']"

definition isAllowedTicketListStatus :: "string \<Rightarrow> bool" where
  "isAllowedTicketListStatus v \<longleftrightarrow>
     v \<in> set [TicketStatusBacklog, TicketStatusTodo, ''in_progress'', ''blocked'',
       ''needs_review'', ''done'', ''failed'', ''archived'']"

lemma isAllowedActor_iff: "isAllowedActor v \<longleftrightarrow> v \<in> set actor_types"
  by (auto simp: isAllowedActor_def actor_types_def)

lemma isAllowedTicketType_iff: "isAllowedTicketType v \<longleftrightarrow> v \<in> set ticket_type_names"
  by (simp add: isAllowedTicketType_def ticket_type_names_def)

lemma isAllowedTicketListStatus_iff:
  "isAllowedTicketListStatus v \<longleftrightarrow> v \<in> set ticket_status_names"
  by (simp add: isAllowedTicketListStatus_def ticket_status_names_def ticket_status_defs)

text \<open>\<open>if req.ActorType == "" { req.ActorType = dflt }\<close>\<close>

definition default_string :: "string \<Rightarrow> string \<Rightarrow> string" where
  "default_string dflt v = (if v = [] then dflt else v)"

section \<open>Creating a ticket\<close>

definition trimCreateTicketRequest :: "create_ticket_request \<Rightarrow> create_ticket_request" where
  "trimCreateTicketRequest r =
     r\<lparr>cr_Title := TrimSpace (cr_Title r), cr_Description := TrimSpace (cr_Description r),
       cr_Type := TrimSpace (cr_Type r), cr_Status := TrimSpace (cr_Status r),
       cr_CreatedBy := TrimSpace (cr_CreatedBy r),
       cr_CreatedByID := TrimSpace (cr_CreatedByID r),
       cr_CreationReason := TrimSpace (cr_CreationReason r),
       cr_InputSchema := TrimSpace (cr_InputSchema r),
       cr_Tags := compactStringsPreserveEmpty (cr_Tags r),
       cr_AcceptanceCriteria := compactStringsPreserveEmpty (cr_AcceptanceCriteria r),
       cr_VerificationCommands := compactStringsPreserveEmpty (cr_VerificationCommands r),
       cr_ExpectedArtifacts := compactStringsPreserveEmpty (cr_ExpectedArtifacts r),
       cr_RelevantPaths := compactStringsPreserveEmpty (cr_RelevantPaths r),
       cr_RequiredTools := compactStringsPreserveEmpty (cr_RequiredTools r),
       cr_RequiredPermissions := compactStringsPreserveEmpty (cr_RequiredPermissions r),
       cr_RequiredCapabilities := compactStringsPreserveEmpty (cr_RequiredCapabilities r),
       cr_AllowedHarnesses := compactStringsPreserveEmpty (cr_AllowedHarnesses r)\<rparr>"

definition defaultCreateStatus :: "create_ticket_request \<Rightarrow> string" where
  "defaultCreateStatus r =
     (if cr_CreatedBy r = ActorAgent \<and> \<not> cr_Enqueue r then TicketStatusBacklog
      else TicketStatusTodo)"

definition hasUsefulContext :: "create_ticket_request \<Rightarrow> bool" where
  "hasUsefulContext r \<longleftrightarrow>
     cr_Description r \<noteq> [] \<or> cr_RelevantPaths r \<noteq> [] \<or> cr_VerificationCommands r \<noteq> [] \<or>
     cr_ExpectedArtifacts r \<noteq> [] \<or> cr_Input r \<noteq> []"

definition validateCreateTicketRequest :: "create_ticket_request \<Rightarrow> string list" where
  "validateCreateTicketRequest r =
     problem (cr_WorkspaceID r = None) ''workspace_id is required'' @
     problem (cr_ProjectID r = None) ''project_id is required'' @
     problem (cr_Title r = []) ''title is required'' @
     (if cr_Type r = [] then [''type is required'']
      else problem (\<not> isAllowedTicketType (cr_Type r))
        ''type must be one of feature, task, bug, documentation, research, analysis, planning, review, integration, investigation, cleanup, follow_up, custom'') @
     (if cr_Status r = [] then [''status is required'']
      else problem (cr_Status r \<noteq> TicketStatusBacklog \<and> cr_Status r \<noteq> TicketStatusTodo)
        ''status must be backlog or todo when creating tickets'') @
     problem (\<exists>n \<in> set_option (cr_Priority r). n < 0 \<or> 4 < n)
       ''priority must be between 0 and 4'' @
     problem (\<not> isAllowedActor (cr_CreatedBy r))
       ''created_by must be human, agent, or system'' @
     problem (cr_AcceptanceCriteria r = []) ''acceptance_criteria is required'' @
     problem (\<not> hasUsefulContext r) ''useful context is required'' @
     problem (cr_CreatedBy r = ActorAgent \<and> cr_CreationReason r = [])
       ''creation_reason is required for agent-created tickets'' @
     problem (cr_RetryPolicy r = RawInvalid) ''retry_policy must be valid JSON'' @
     problem (None \<in> set (cr_Dependencies r)) ''dependencies must contain valid ticket ids''"

definition EventTicketCreated :: string where "EventTicketCreated = ''created''"
definition EventTicketProposed :: string where "EventTicketProposed = ''proposed''"

lemma event_created_neq [simp]: "EventTicketCreated \<noteq> EventTicketProposed"
  by (simp add: EventTicketCreated_def EventTicketProposed_def)

definition completeCreateTicketRequest :: "create_ticket_request \<Rightarrow> string \<Rightarrow> create_ticket_request" where
  "completeCreateTicketRequest req eventType =
     (let r0 = trimCreateTicketRequest req;
          r1 = r0\<lparr>cr_CreatedBy := default_string ActorHuman (cr_CreatedBy r0)\<rparr> in
      if eventType = EventTicketProposed then r1\<lparr>cr_Status := TicketStatusBacklog\<rparr>
      else if cr_Status r1 = [] then r1\<lparr>cr_Status := defaultCreateStatus r1\<rparr>
      else r1)"

definition createTicketParams :: "create_ticket_request \<Rightarrow> create_ticket_params" where
  "createTicketParams r =
     \<lparr>ctp_WorkspaceID = cr_WorkspaceID r, ctp_ProjectID = cr_ProjectID r,
      ctp_ParentID = cr_ParentID r, ctp_RootID = cr_RootID r,
      ctp_SourceAttemptID = cr_SourceAttemptID r, ctp_SourceArtifactID = cr_SourceArtifactID r,
      ctp_Title = cr_Title r, ctp_Description = cr_Description r, ctp_Type = cr_Type r,
      ctp_Status = cr_Status r, ctp_Priority = coalesce (cr_Priority r) 2,
      ctp_Tags = cr_Tags r, ctp_AcceptanceCriteria = cr_AcceptanceCriteria r,
      ctp_VerificationCommands = encodeJSONArray (cr_VerificationCommands r),
      ctp_ExpectedArtifacts = cr_ExpectedArtifacts r, ctp_RelevantPaths = cr_RelevantPaths r,
      ctp_RequiredTools = cr_RequiredTools r,
      ctp_RequiredPermissions = cr_RequiredPermissions r,
      ctp_Environment = encodeJSONObject (cr_Environment r),
      ctp_Input = encodeJSONObject (cr_Input r),
      ctp_InputSchema = optionalText (cr_InputSchema r),
      ctp_RequiredCapabilities = cr_RequiredCapabilities r,
      ctp_AllowedHarnesses = cr_AllowedHarnesses r,
      ctp_RetryPolicy =
        (if cr_RetryPolicy r = RawEmpty then defaultRetryPolicy else cr_RetryPolicy r),
      ctp_CreatedBy = cr_CreatedBy r, ctp_CreatedByID = optionalText (cr_CreatedByID r),
      ctp_CreationReason = optionalText (cr_CreationReason r)\<rparr>"

definition normalizeCreateTicketRequest ::
  "create_ticket_request \<Rightarrow> string \<Rightarrow> svc_error + create_ticket_params \<times> uuid option list" where
  "normalizeCreateTicketRequest req eventType =
     (let r = completeCreateTicketRequest req eventType in
      if cr_CreatedBy r = ActorAgent \<and> (cr_Enqueue r \<or> cr_Status r = TicketStatusTodo) \<and>
         \<not> cr_CanEnqueue r
      then Inl ErrEnqueuePermissionRequired
      else if validateCreateTicketRequest r \<noteq> []
      then Inl (ValidationError (validateCreateTicketRequest r))
      else Inr (createTicketParams r, cr_Dependencies r))"

definition createTicket :: "pg_env \<Rightarrow> create_ticket_request \<Rightarrow> string \<Rightarrow> ticket svc" where
  "createTicket env req eventType =
     (case normalizeCreateTicketRequest req eventType of
        Inl e \<Rightarrow> svc_fail e
      | Inr (params, dependencies) \<Rightarrow>
          svc_bind (svc_stmt (StoreError ''create ticket'') (CreateTicket_stmt env params)) (\<lambda>t.
          svc_bind (svc_each (\<lambda>dep. svc_stmt (StoreError ''create ticket dependency'')
             (CreateTicketDependency_stmt env (tk_ID t) dep (tk_WorkspaceID t) (tk_ProjectID t)))
             dependencies) (\<lambda>_.
          svc_bind (svc_stmt (StoreError ''create ticket event'')
             (CreateTicketEvent_stmt env
                \<lparr>ep_WorkspaceID = tk_WorkspaceID t, ep_ProjectID = tk_ProjectID t,
                 ep_TicketID = tk_ID t, ep_AttemptID = None, ep_Type = eventType,
                 ep_ActorType = tk_CreatedBy t, ep_ActorID = tk_CreatedByID t, ep_Data = JNull\<rparr>
                (RawDoc (JObj [(''status'', JStr (tk_Status t)), (''type'', JStr (tk_Type t))]))))
             (\<lambda>_. svc_return t))))"

definition CreateTicket :: "pg_env \<Rightarrow> create_ticket_request \<Rightarrow> ticket svc" where
  "CreateTicket env req = createTicket env req EventTicketCreated"

definition ProposeTicket :: "pg_env \<Rightarrow> create_ticket_request \<Rightarrow> ticket svc" where
  "ProposeTicket env req =
     createTicket env (req\<lparr>cr_Status := TicketStatusBacklog, cr_Enqueue := False\<rparr>)
       EventTicketProposed"

section \<open>Listings\<close>

definition validateListTicketsRequest :: "list_tickets_request \<Rightarrow> string list" where
  "validateListTicketsRequest r =
     problem (lr_WorkspaceID r = None) ''workspace_id is required'' @
     problem (lr_ProjectID r = None) ''project_id is required'' @
     problem (lr_Status r \<noteq> [] \<and> \<not> isAllowedTicketListStatus (lr_Status r))
       ''status filter is not valid'' @
     problem (lr_Type r \<noteq> [] \<and> \<not> isAllowedTicketType (lr_Type r))
       ''type filter is not valid'' @
     problem (lr_Offset r < 0) ''offset must be non-negative'' @
     problem (lr_Limit r < 0) ''limit must be non-negative''"

definition ListTickets :: "list_tickets_request \<Rightarrow> ticket list svc" where
  "ListTickets r =
     svc_check (validateListTicketsRequest r)
       (let lim0 = (if lr_Limit r = 0 then 50 else lr_Limit r);
            lim = (if 200 < lim0 then 200 else lim0) in
        svc_read (ListTickets_stmt
          \<lparr>ltp_WorkspaceID = lr_WorkspaceID r, ltp_ProjectID = lr_ProjectID r,
           ltp_Status = optionalText (lr_Status r), ltp_Type = optionalText (lr_Type r),
           ltp_Offset = lr_Offset r, ltp_Limit = lim\<rparr>))"

record list_proposed_tickets_request =
  lp_WorkspaceID :: "uuid option"
  lp_ProjectID :: "uuid option"
  lp_Type :: string
  lp_Offset :: int
  lp_Limit :: int

record proposed_ticket_triage_item =
  ti_Ticket :: ticket
  ti_SourceAttemptID :: "uuid option"
  ti_SourceArtifactID :: "uuid option"
  ti_CreatedByID :: string
  ti_CreationReason :: string
  ti_AcceptanceCriteria :: "string list"
  ti_VerificationCommands :: "string slice"
  ti_RelevantPaths :: "string list"

definition validateListProposedTicketsRequest :: "list_proposed_tickets_request \<Rightarrow> string list" where
  "validateListProposedTicketsRequest r =
     problem (lp_WorkspaceID r = None) ''workspace_id is required'' @
     problem (lp_ProjectID r = None) ''project_id is required'' @
     problem (lp_Type r \<noteq> [] \<and> \<not> isAllowedTicketType (lp_Type r))
       ''type filter is not valid'' @
     problem (lp_Offset r < 0) ''offset must be non-negative'' @
     problem (lp_Limit r < 0) ''limit must be non-negative''"

fun triageItems :: "ticket list \<Rightarrow> proposed_ticket_triage_item list svc" where
  "triageItems [] = svc_return []"
| "triageItems (t # ts) =
     (if tk_CreatedBy t \<noteq> ActorAgent then triageItems ts
      else svc_bind (svc_decode ''decode proposed ticket verification commands''
             (decodeJSONArray (RawDoc (tk_VerificationCommands t)))) (\<lambda>vc.
           svc_bind (triageItems ts) (\<lambda>items. svc_return
             (\<lparr>ti_Ticket = t, ti_SourceAttemptID = tk_SourceAttemptID t,
               ti_SourceArtifactID = tk_SourceArtifactID t,
               ti_CreatedByID = textValue (tk_CreatedByID t),
               ti_CreationReason = textValue (tk_CreationReason t),
               ti_AcceptanceCriteria = tk_AcceptanceCriteria t,
               ti_VerificationCommands = vc, ti_RelevantPaths = tk_RelevantPaths t\<rparr> # items))))"

definition ListProposedTickets ::
  "list_proposed_tickets_request \<Rightarrow> proposed_ticket_triage_item list svc" where
  "ListProposedTickets req =
     (let r = req\<lparr>lp_Type := TrimSpace (lp_Type req)\<rparr> in
      svc_check (validateListProposedTicketsRequest r)
        (let lim0 = (if lp_Limit r \<le> 0 then 50 else lp_Limit r);
             lim = (if 200 < lim0 then 200 else lim0) in
         svc_bind (svc_read (ListProposedTickets_stmt (lp_WorkspaceID r) (lp_ProjectID r)
           (optionalText (lp_Type r)) (lp_Offset r) lim)) triageItems))"

section \<open>Patching a ticket\<close>

definition trimUpdateTicketRequest :: "update_ticket_request \<Rightarrow> update_ticket_request" where
  "trimUpdateTicketRequest r =
     r\<lparr>ur_Title := map_option TrimSpace (ur_Title r),
       ur_Description := map_option TrimSpace (ur_Description r),
       ur_ActorType := TrimSpace (ur_ActorType r), ur_ActorID := TrimSpace (ur_ActorID r),
       ur_Tags := map_option compactStringsPreserveEmpty (ur_Tags r),
       ur_AcceptanceCriteria :=
         map_option compactStringsPreserveEmpty (ur_AcceptanceCriteria r),
       ur_VerificationCommands :=
         map_option compactStringsPreserveEmpty (ur_VerificationCommands r),
       ur_RelevantPaths := map_option compactStringsPreserveEmpty (ur_RelevantPaths r)\<rparr>"

definition validateUpdateTicketRequest :: "update_ticket_request \<Rightarrow> string list" where
  "validateUpdateTicketRequest r =
     problem (ur_TicketID r = None) ''ticket_id is required'' @
     problem (\<not> isAllowedActor (ur_ActorType r))
       ''actor_type must be human, agent, or system'' @
     problem (ur_Title r = None \<and> ur_Description r = None \<and> ur_Tags r = None \<and>
              ur_AcceptanceCriteria r = None \<and> ur_VerificationCommands r = None \<and>
              ur_RelevantPaths r = None)
       ''patch must include at least one supported field'' @
     problem (ur_Title r = Some []) ''title cannot be empty'' @
     problem (ur_AcceptanceCriteria r = Some []) ''acceptance_criteria cannot be empty''"

definition changedFields :: "update_ticket_request \<Rightarrow> string list" where
  "changedFields r =
     problem (ur_Title r \<noteq> None) ''title'' @
     problem (ur_Description r \<noteq> None) ''description'' @
     problem (ur_Tags r \<noteq> None) ''tags'' @
     problem (ur_AcceptanceCriteria r \<noteq> None) ''acceptance_criteria'' @
     problem (ur_VerificationCommands r \<noteq> None) ''verification_commands'' @
     problem (ur_RelevantPaths r \<noteq> None) ''relevant_paths''"

definition updateTicketParams :: "update_ticket_request \<Rightarrow> update_ticket_params" where
  "updateTicketParams r =
     \<lparr>utp_ID = ur_TicketID r, utp_Title = ur_Title r, utp_Description = ur_Description r,
      utp_UpdateTags = (ur_Tags r \<noteq> None), utp_Tags = slice_list (ur_Tags r),
      utp_UpdateAcceptanceCriteria = (ur_AcceptanceCriteria r \<noteq> None),
      utp_AcceptanceCriteria = slice_list (ur_AcceptanceCriteria r),
      utp_UpdateVerificationCommands = (ur_VerificationCommands r \<noteq> None),
      utp_VerificationCommands =
        (case ur_VerificationCommands r of None \<Rightarrow> RawEmpty | Some v \<Rightarrow> encodeJSONArray v),
      utp_UpdateRelevantPaths = (ur_RelevantPaths r \<noteq> None),
      utp_RelevantPaths = slice_list (ur_RelevantPaths r)\<rparr>"

text \<open>The entries with a non-empty value, as the loops over \<open>eventData\<close> keep them.\<close>

definition nonempty_entries :: "(string \<times> string) list \<Rightarrow> (string \<times> json) list" where
  "nonempty_entries kvs = map (\<lambda>(k, v). (k, JStr v)) (filter (\<lambda>(k, v). v \<noteq> []) kvs)"

definition UpdateTicket :: "pg_env \<Rightarrow> update_ticket_request \<Rightarrow> ticket svc" where
  "UpdateTicket env req =
     (let r0 = trimUpdateTicketRequest req;
          r = r0\<lparr>ur_ActorType := default_string ActorAgent (ur_ActorType r0)\<rparr> in
      svc_check (validateUpdateTicketRequest r)
        (svc_bind (svc_stmt (StoreError ''update ticket'')
           (UpdateTicket_stmt env (updateTicketParams r))) (\<lambda>t.
         svc_bind (svc_stmt (StoreError ''create ticket event'')
           (CreateTicketEvent_stmt env
              \<lparr>ep_WorkspaceID = tk_WorkspaceID t, ep_ProjectID = tk_ProjectID t,
               ep_TicketID = tk_ID t, ep_AttemptID = None, ep_Type = ''updated'',
               ep_ActorType = ur_ActorType r, ep_ActorID = optionalText (ur_ActorID r),
               ep_Data = JNull\<rparr>
              (RawDoc (JObj ((''changed_fields'', JArr (map JStr (changedFields r))) #
                 nonempty_entries (ur_eventData r)))))) (\<lambda>_. svc_return t))))"

section \<open>Status transitions\<close>

record ticket_transition_spec =
  sp_operation :: string
  sp_eventType :: string
  sp_targetStatus :: string
  sp_allowedStatuses :: "string list"

record set_ticket_status_request =
  ss_ticketID :: "uuid option"
  ss_status :: string
  ss_allowedStatuses :: "string list"
  ss_eventType :: string
  ss_actorType :: string
  ss_actorID :: string
  ss_data :: "(string \<times> string) list"

definition setTicketStatusParams :: "set_ticket_status_request \<Rightarrow> transition_ticket_params" where
  "setTicketStatusParams r =
     \<lparr>ttp_Status = ss_status r, ttp_ID = ss_ticketID r,
      ttp_AllowedStatuses = ss_allowedStatuses r, ttp_Type = ss_eventType r,
      ttp_ActorType = ss_actorType r, ttp_ActorID = optionalText (ss_actorID r),
      ttp_Data =
        RawDoc (JObj (nonempty_entries (ss_data r) @ [(''status'', JStr (ss_status r))]))\<rparr>"

text \<open>\<open>ErrNoRows\<close> is explained by a second query: the ticket is missing, or its status does
  not allow the transition.\<close>

definition setTicketStatus :: "pg_env \<Rightarrow> set_ticket_status_request \<Rightarrow> ticket svc" where
  "setTicketStatus env r d =
     (case TransitionTicket_stmt env (setTicketStatusParams r) d of
        Inr (t, d') \<Rightarrow> (Inr t, d')
      | Inl e \<Rightarrow>
          (if e = NoRows then
             (case GetTicket_stmt (ss_ticketID r) d of
                Inl e' \<Rightarrow>
                  (if e' = NoRows then (Inl ErrTicketNotFound, d)
                   else (Inl (StoreError ''get ticket after transition miss'' e'), d))
              | Inr _ \<Rightarrow> (Inl ErrTicketTransitionNotAllowed, d))
           else (Inl (StoreError ''transition ticket'' e), d)))"

definition validateTicketTransitionRequest :: "ticket_transition_request \<Rightarrow> string list" where
  "validateTicketTransitionRequest r =
     problem (tr_TicketRef r = None) ''ticket_id is required'' @
     problem (\<not> isAllowedActor (tr_ActorType r))
       ''actor_type must be human, agent, or system''"

definition trimTicketTransitionRequest :: "ticket_transition_request \<Rightarrow> ticket_transition_request" where
  "trimTicketTransitionRequest r =
     r\<lparr>tr_ActorType := TrimSpace (tr_ActorType r), tr_ActorID := TrimSpace (tr_ActorID r),
       tr_Reason := TrimSpace (tr_Reason r)\<rparr>"

definition transitionTicket ::
  "pg_env \<Rightarrow> ticket_transition_request \<Rightarrow> ticket_transition_spec \<Rightarrow> ticket svc" where
  "transitionTicket env req spec =
     (let r0 = trimTicketTransitionRequest req;
          r = r0\<lparr>tr_ActorType := default_string ActorHuman (tr_ActorType r0)\<rparr> in
      svc_check (validateTicketTransitionRequest r)
        (setTicketStatus env
           \<lparr>ss_ticketID = tr_TicketRef r, ss_status = sp_targetStatus spec,
            ss_allowedStatuses = sp_allowedStatuses spec, ss_eventType = sp_eventType spec,
            ss_actorType = tr_ActorType r, ss_actorID = tr_ActorID r,
            ss_data = [(''operation'', sp_operation spec), (''reason'', tr_Reason r)]\<rparr>))"

definition ready_spec :: ticket_transition_spec where
  "ready_spec =
     \<lparr>sp_operation = ''ready'', sp_eventType = ''ready'', sp_targetStatus = TicketStatusTodo,
      sp_allowedStatuses = [TicketStatusBacklog]\<rparr>"

definition reopen_spec :: ticket_transition_spec where
  "reopen_spec =
     \<lparr>sp_operation = ''reopen'', sp_eventType = ''reopened'', sp_targetStatus = TicketStatusTodo,
      sp_allowedStatuses = [TicketStatusDone, TicketStatusFailed]\<rparr>"

definition unblock_spec :: ticket_transition_spec where
  "unblock_spec =
     \<lparr>sp_operation = ''unblock'', sp_eventType = ''unblocked'',
      sp_targetStatus = TicketStatusTodo, sp_allowedStatuses = [TicketStatusBlocked]\<rparr>"

definition request_review_spec :: ticket_transition_spec where
  "request_review_spec =
     \<lparr>sp_operation = ''request_review'', sp_eventType = ''review_requested'',
      sp_targetStatus = TicketStatusNeedsReview,
      sp_allowedStatuses =
        [TicketStatusBlocked, TicketStatusTodo, TicketStatusFailed, TicketStatusDone]\<rparr>"

definition archive_spec :: ticket_transition_spec where
  "archive_spec =
     \<lparr>sp_operation = ''archive'', sp_eventType = ''archived'',
      sp_targetStatus = TicketStatusArchived,
      sp_allowedStatuses =
        [TicketStatusBacklog, TicketStatusTodo, TicketStatusBlocked, TicketStatusNeedsReview,
         TicketStatusDone, TicketStatusFailed]\<rparr>"

definition MarkReady :: "pg_env \<Rightarrow> ticket_transition_request \<Rightarrow> ticket svc" where
  "MarkReady env req = transitionTicket env req ready_spec"

definition Reopen :: "pg_env \<Rightarrow> ticket_transition_request \<Rightarrow> ticket svc" where
  "Reopen env req = transitionTicket env req reopen_spec"

definition Unblock :: "pg_env \<Rightarrow> ticket_transition_request \<Rightarrow> ticket svc" where
  "Unblock env req = transitionTicket env req unblock_spec"

definition RequestReview :: "pg_env \<Rightarrow> ticket_transition_request \<Rightarrow> ticket svc" where
  "RequestReview env req = transitionTicket env req request_review_spec"

definition Archive :: "pg_env \<Rightarrow> ticket_transition_request \<Rightarrow> ticket svc" where
  "Archive env req = transitionTicket env req archive_spec"

definition ReviewDecisionApprove :: string where "ReviewDecisionApprove = ''approve''"
definition ReviewDecisionReject :: string where "ReviewDecisionReject = ''reject''"

definition validateReviewTicketRequest :: "review_ticket_request \<Rightarrow> string list" where
  "validateReviewTicketRequest r =
     problem (rv_TicketID r = None) ''ticket_id is required'' @
     problem (\<not> isAllowedActor (rv_ActorType r))
       ''actor_type must be human, agent, or system'' @
     problem (rv_Decision r \<noteq> ReviewDecisionApprove \<and> rv_Decision r \<noteq> ReviewDecisionReject)
       ''decision must be approve or reject''"

definition trimReviewTicketRequest :: "review_ticket_request \<Rightarrow> review_ticket_request" where
  "trimReviewTicketRequest r =
     r\<lparr>rv_Decision := TrimSpace (rv_Decision r), rv_ActorType := TrimSpace (rv_ActorType r),
       rv_ActorID := TrimSpace (rv_ActorID r), rv_Reason := TrimSpace (rv_Reason r)\<rparr>"

definition Review :: "pg_env \<Rightarrow> review_ticket_request \<Rightarrow> ticket svc" where
  "Review env req =
     (let r0 = trimReviewTicketRequest req;
          r = r0\<lparr>rv_ActorType := default_string ActorHuman (rv_ActorType r0)\<rparr> in
      svc_check (validateReviewTicketRequest r)
        (setTicketStatus env
           \<lparr>ss_ticketID = rv_TicketID r,
            ss_status =
              (if rv_Decision r = ReviewDecisionReject then TicketStatusTodo
               else TicketStatusDone),
            ss_allowedStatuses = [TicketStatusNeedsReview], ss_eventType = ''reviewed'',
            ss_actorType = rv_ActorType r, ss_actorID = rv_ActorID r,
            ss_data = [(''operation'', ''review''), (''decision'', rv_Decision r),
                       (''reason'', rv_Reason r)]\<rparr>))"

section \<open>Triage of proposed tickets\<close>

definition requireProposedTicket :: "uuid option \<Rightarrow> ticket svc" where
  "requireProposedTicket i =
     svc_bind (svc_query (\<lambda>e. if e = NoRows then ErrTicketNotFound
                              else StoreError ''get proposed ticket'' e) (GetTicket_stmt i)) (\<lambda>t.
     if tk_Status t \<noteq> TicketStatusBacklog \<or> tk_CreatedBy t \<noteq> ActorAgent
     then svc_fail ErrTicketIsNotProposed
     else svc_return t)"

definition validateProposedTicketTriageRequest ::
  "proposed_ticket_triage_request \<Rightarrow> string list" where
  "validateProposedTicketTriageRequest r =
     problem (pt_TicketID r = None) ''ticket_id is required'' @
     problem (\<not> isAllowedActor (pt_ActorType r))
       ''actor_type must be human, agent, or system''"

definition trimProposedTicketTriageRequest ::
  "proposed_ticket_triage_request \<Rightarrow> proposed_ticket_triage_request" where
  "trimProposedTicketTriageRequest r =
     r\<lparr>pt_ActorType := TrimSpace (pt_ActorType r), pt_ActorID := TrimSpace (pt_ActorID r),
       pt_Reason := TrimSpace (pt_Reason r)\<rparr>"

definition transitionProposedTicket ::
  "pg_env \<Rightarrow> proposed_ticket_triage_request \<Rightarrow> string \<Rightarrow> string \<Rightarrow> string \<Rightarrow> ticket svc" where
  "transitionProposedTicket env req operation eventType targetStatus =
     (let r0 = trimProposedTicketTriageRequest req;
          r = r0\<lparr>pt_ActorType := default_string ActorHuman (pt_ActorType r0)\<rparr> in
      svc_check (validateProposedTicketTriageRequest r)
        (svc_bind (requireProposedTicket (pt_TicketID r)) (\<lambda>_.
         setTicketStatus env
           \<lparr>ss_ticketID = pt_TicketID r, ss_status = targetStatus,
            ss_allowedStatuses = [TicketStatusBacklog], ss_eventType = eventType,
            ss_actorType = pt_ActorType r, ss_actorID = pt_ActorID r,
            ss_data = [(''operation'', operation), (''reason'', pt_Reason r)]\<rparr>)))"

definition ReadyProposedTicket :: "pg_env \<Rightarrow> proposed_ticket_triage_request \<Rightarrow> ticket svc" where
  "ReadyProposedTicket env req =
     transitionProposedTicket env req ''ready_proposed'' ''ready'' TicketStatusTodo"

definition EnqueueProposedTicket :: "pg_env \<Rightarrow> proposed_ticket_triage_request \<Rightarrow> ticket svc" where
  "EnqueueProposedTicket env req =
     (let r0 = trimProposedTicketTriageRequest req;
          r = r0\<lparr>pt_ActorType := default_string ActorHuman (pt_ActorType r0)\<rparr> in
      if pt_ActorType r = ActorAgent \<and> \<not> pt_CanEnqueue r
      then svc_fail ErrEnqueuePermissionRequired
      else transitionProposedTicket env r ''enqueue_proposed'' ''ready'' TicketStatusTodo)"

definition RejectProposedTicket :: "pg_env \<Rightarrow> proposed_ticket_triage_request \<Rightarrow> ticket svc" where
  "RejectProposedTicket env req =
     transitionProposedTicket env req ''reject_proposed'' ''archived'' TicketStatusArchived"

definition ArchiveProposedTicket :: "pg_env \<Rightarrow> proposed_ticket_triage_request \<Rightarrow> ticket svc" where
  "ArchiveProposedTicket env req =
     transitionProposedTicket env req ''archive_proposed'' ''archived'' TicketStatusArchived"

definition validateMergeProposedTicketRequest :: "merge_proposed_ticket_request \<Rightarrow> string list" where
  "validateMergeProposedTicketRequest r =
     problem (mp_TicketID r = None) ''ticket_id is required'' @
     problem (mp_TargetTicketID r = None) ''target_ticket_id is required'' @
     problem (mp_TicketID r = mp_TargetTicketID r)
       ''target_ticket_id must differ from ticket_id'' @
     problem (\<not> isAllowedActor (mp_ActorType r))
       ''actor_type must be human, agent, or system''"

definition trimMergeProposedTicketRequest ::
  "merge_proposed_ticket_request \<Rightarrow> merge_proposed_ticket_request" where
  "trimMergeProposedTicketRequest r =
     r\<lparr>mp_ActorType := TrimSpace (mp_ActorType r), mp_ActorID := TrimSpace (mp_ActorID r),
       mp_Reason := TrimSpace (mp_Reason r)\<rparr>"

definition ticketUUIDString :: "pg_env \<Rightarrow> uuid option \<Rightarrow> string" where
  "ticketUUIDString env i = (case i of None \<Rightarrow> [] | Some u \<Rightarrow> env_uuid_text env u)"

definition MergeProposedTicket :: "pg_env \<Rightarrow> merge_proposed_ticket_request \<Rightarrow> ticket svc" where
  "MergeProposedTicket env req =
     (let r0 = trimMergeProposedTicketRequest req;
          r = r0\<lparr>mp_ActorType := default_string ActorHuman (mp_ActorType r0)\<rparr> in
      svc_check (validateMergeProposedTicketRequest r)
        (svc_bind (requireProposedTicket (mp_TicketID r)) (\<lambda>proposed.
         svc_bind (svc_query (\<lambda>e. if e = NoRows then ErrTicketNotFound
                                  else StoreError ''get proposed ticket merge target'' e)
                     (GetTicket_stmt (mp_TargetTicketID r))) (\<lambda>target.
         if tk_WorkspaceID target \<noteq> tk_WorkspaceID proposed \<or>
            tk_ProjectID target \<noteq> tk_ProjectID proposed
         then svc_fail (ValidationError
                [''target_ticket_id must belong to the same workspace and project''])
         else setTicketStatus env
           \<lparr>ss_ticketID = mp_TicketID r, ss_status = TicketStatusArchived,
            ss_allowedStatuses = [TicketStatusBacklog], ss_eventType = ''archived'',
            ss_actorType = mp_ActorType r, ss_actorID = mp_ActorID r,
            ss_data = [(''operation'', ''merge_proposed''), (''reason'', mp_Reason r),
                       (''merged_into_ticket_id'',
                        ticketUUIDString env (mp_TargetTicketID r))]\<rparr>))))"

definition validateRefineProposedTicketRequest ::
  "refine_proposed_ticket_request \<Rightarrow> string list" where
  "validateRefineProposedTicketRequest r =
     problem (rf_TicketID r = None) ''ticket_id is required'' @
     problem (\<not> isAllowedActor (rf_ActorType r))
       ''actor_type must be human, agent, or system'' @
     problem (rf_Title r = None \<and> rf_Description r = None \<and> rf_Tags r = None \<and>
              rf_AcceptanceCriteria r = None \<and> rf_VerificationCommands r = None \<and>
              rf_RelevantPaths r = None)
       ''patch must include at least one supported field'' @
     problem (rf_Title r = Some []) ''title cannot be empty'' @
     problem (rf_AcceptanceCriteria r = Some []) ''acceptance_criteria cannot be empty''"

definition trimRefineProposedTicketRequest ::
  "refine_proposed_ticket_request \<Rightarrow> refine_proposed_ticket_request" where
  "trimRefineProposedTicketRequest r =
     r\<lparr>rf_Title := map_option TrimSpace (rf_Title r),
       rf_Description := map_option TrimSpace (rf_Description r),
       rf_ActorType := TrimSpace (rf_ActorType r), rf_ActorID := TrimSpace (rf_ActorID r),
       rf_Reason := TrimSpace (rf_Reason r),
       rf_Tags := map_option compactStringsPreserveEmpty (rf_Tags r),
       rf_AcceptanceCriteria :=
         map_option compactStringsPreserveEmpty (rf_AcceptanceCriteria r),
       rf_VerificationCommands :=
         map_option compactStringsPreserveEmpty (rf_VerificationCommands r),
       rf_RelevantPaths := map_option compactStringsPreserveEmpty (rf_RelevantPaths r)\<rparr>"

definition RefineProposedTicket :: "pg_env \<Rightarrow> refine_proposed_ticket_request \<Rightarrow> ticket svc" where
  "RefineProposedTicket env req =
     (let r0 = trimRefineProposedTicketRequest req;
          r = r0\<lparr>rf_ActorType := default_string ActorHuman (rf_ActorType r0)\<rparr> in
      svc_check (validateRefineProposedTicketRequest r)
        (svc_bind (requireProposedTicket (rf_TicketID r)) (\<lambda>_.
         UpdateTicket env
           \<lparr>ur_TicketID = rf_TicketID r, ur_Title = rf_Title r,
            ur_Description = rf_Description r, ur_Tags = rf_Tags r,
            ur_AcceptanceCriteria = rf_AcceptanceCriteria r,
            ur_VerificationCommands = rf_VerificationCommands r,
            ur_RelevantPaths = rf_RelevantPaths r, ur_ActorType = rf_ActorType r,
            ur_ActorID = rf_ActorID r,
            ur_eventData = [(''operation'', ''refine_proposed''), (''reason'', rf_Reason r)]\<rparr>)))"

end
