(* ===== verification/Attempt_Service.thy ===== *)
theory Attempt_Service
  imports Ticket_Service
begin

text \<open>
  internal/services/attempts.go and internal/services/metrics.go: leases, checkpoints, and the
  five ways an attempt ends, with the optional metrics. \<open>now\<close> is the service's clock.
\<close>

section \<open>Requests and validation\<close>

record attempt_metrics_request =
  mr_TokensIn :: int
  mr_TokensOut :: int
  mr_CostUSD :: float64
  mr_DurationSeconds :: float64
  mr_RetryCount :: int

record heartbeat_request =
  hr_AttemptID :: "uuid option"
  hr_Lease :: duration

record checkpoint_request =
  kr_AttemptID :: "uuid option"
  kr_Summary :: string
  kr_ProgressPercent :: int
  kr_FilesTouched :: "string list"
  kr_CommandsRun :: "string list"
  kr_NextStep :: string
  kr_Risk :: string

record checkpoint_result =
  ck_Checkpoint :: attempt_checkpoint
  ck_ProgressPercent :: int

record complete_attempt_request =
  or_AttemptID :: "uuid option"
  or_Output :: "(string \<times> json) list"
  or_OutputSchema :: string
  or_Metrics :: "attempt_metrics_request option"

record fail_attempt_request =
  fr_AttemptID :: "uuid option"
  fr_FailureReason :: string
  fr_FailureCategory :: string
  fr_Output :: "(string \<times> json) list"
  fr_Metrics :: "attempt_metrics_request option"

record block_attempt_request =
  br_AttemptID :: "uuid option"
  br_BlockerReason :: string
  br_FailureCategory :: string
  br_Blocker :: "(string \<times> json) list"
  br_Metrics :: "attempt_metrics_request option"

record cancel_attempt_request =
  xr_AttemptID :: "uuid option"
  xr_Reason :: string

text \<open>The zero time, which \<open>Expire\<close> replaces by the clock, is \<open>None\<close>.\<close>

record expire_attempt_request =
  er_AttemptID :: "uuid option"
  er_ExpirationCutoff :: "timestamp option"

record attempt_transition_result =
  ax_AttemptID :: uuid
  ax_TicketID :: uuid
  ax_AttemptStatus :: string
  ax_TicketStatus :: string

fun not_finite_nonneg :: "float64 \<Rightarrow> bool" where
  "not_finite_nonneg (F64 m s) = (m < 0)"
| "not_finite_nonneg F64NaN = True"
| "not_finite_nonneg (F64Inf b) = True"

definition validateAttemptMetrics :: "attempt_metrics_request option \<Rightarrow> string list" where
  "validateAttemptMetrics metrics =
     (case metrics of
        None \<Rightarrow> []
      | Some m \<Rightarrow>
          problem (mr_TokensIn m < 0) ''tokens_in must be non-negative'' @
          problem (mr_TokensOut m < 0) ''tokens_out must be non-negative'' @
          problem (not_finite_nonneg (mr_CostUSD m))
            ''cost_usd must be a finite non-negative number'' @
          problem (not_finite_nonneg (mr_DurationSeconds m))
            ''duration_seconds must be a finite non-negative number'' @
          problem (mr_RetryCount m < 0) ''retry_count must be non-negative'')"

text \<open>The decimal that pgx scans from the printed number. Only numbers that pass
  \<open>validateAttemptMetrics\<close> reach it; for the others the result is left invalid.\<close>

fun numeric :: "float64 \<Rightarrow> decimal option" where
  "numeric (F64 m s) = Some (m, s)"
| "numeric _ = None"

definition validateAttemptID :: "uuid option \<Rightarrow> string list" where
  "validateAttemptID i = problem (i = None) ''attempt_id is required''"

definition validateHeartbeatRequest :: "heartbeat_request \<Rightarrow> string list" where
  "validateHeartbeatRequest r =
     validateAttemptID (hr_AttemptID r) @ problem (hr_Lease r \<le> 0) ''lease must be positive''"

definition validateCheckpointRequest :: "checkpoint_request \<Rightarrow> string list" where
  "validateCheckpointRequest r =
     validateAttemptID (kr_AttemptID r) @
     problem (kr_Summary r = []) ''summary is required'' @
     problem (kr_ProgressPercent r < 0 \<or> 100 < kr_ProgressPercent r)
       ''progress_percent must be between 0 and 100''"

definition validateFailureCategory :: "string \<Rightarrow> string list" where
  "validateFailureCategory c =
     (if c = [] then []
      else if c \<in> set FailureCategories then []
      else [''failure_category must be one of: task_failed, blocked, needs_human, environment_failed, permission_required, dependency_missing, unclear_requirements''])"

definition validateFailAttemptRequest :: "fail_attempt_request \<Rightarrow> string list" where
  "validateFailAttemptRequest r =
     validateAttemptID (fr_AttemptID r) @
     problem (fr_FailureReason r = []) ''failure_reason is required'' @
     validateFailureCategory (fr_FailureCategory r)"

definition validateBlockAttemptRequest :: "block_attempt_request \<Rightarrow> string list" where
  "validateBlockAttemptRequest r =
     validateAttemptID (br_AttemptID r) @
     problem (br_BlockerReason r = []) ''blocker_reason is required'' @
     validateFailureCategory (br_FailureCategory r)"

definition trimCheckpointRequest :: "checkpoint_request \<Rightarrow> checkpoint_request" where
  "trimCheckpointRequest r =
     r\<lparr>kr_Summary := TrimSpace (kr_Summary r), kr_NextStep := TrimSpace (kr_NextStep r),
       kr_Risk := TrimSpace (kr_Risk r),
       kr_FilesTouched := compactStringsPreserveEmpty (kr_FilesTouched r),
       kr_CommandsRun := compactStringsPreserveEmpty (kr_CommandsRun r)\<rparr>"

definition transitionError :: "string \<Rightarrow> pg_error \<Rightarrow> svc_error" where
  "transitionError operation e =
     (if e = NoRows then ErrAttemptNotRunning else StoreError operation e)"

definition transitionResult :: "transition_row \<Rightarrow> attempt_transition_result" where
  "transitionResult r =
     \<lparr>ax_AttemptID = tr_AttemptID r, ax_TicketID = tr_TicketID r,
      ax_AttemptStatus = tr_AttemptStatus r, ax_TicketStatus = tr_TicketStatus r\<rparr>"

section \<open>Operations\<close>

definition Heartbeat :: "timestamp \<Rightarrow> pg_env \<Rightarrow> heartbeat_request \<Rightarrow> attempt svc" where
  "Heartbeat now env r =
     svc_check (validateHeartbeatRequest r)
       (svc_stmt (transitionError ''heartbeat attempt'')
          (HeartbeatAttempt_stmt env
             \<lparr>hap_LeaseExpiresAt = now + hr_Lease r, hap_HeartbeatAt = now,
              hap_AttemptID = hr_AttemptID r\<rparr>))"

definition Checkpoint :: "pg_env \<Rightarrow> checkpoint_request \<Rightarrow> checkpoint_result svc" where
  "Checkpoint env req =
     (let r = trimCheckpointRequest req in
      svc_check (validateCheckpointRequest r)
        (svc_bind (svc_stmt (transitionError ''checkpoint attempt'')
           (CheckpointAttempt_stmt env
              \<lparr>kap_ProgressPercent = kr_ProgressPercent r, kap_Summary = kr_Summary r,
               kap_NextStep = optionalText (kr_NextStep r), kap_AttemptID = kr_AttemptID r,
               kap_FilesTouched = kr_FilesTouched r, kap_CommandsRun = kr_CommandsRun r,
               kap_Risk = optionalText (kr_Risk r)\<rparr>))
          (\<lambda>c. svc_return \<lparr>ck_Checkpoint = c, ck_ProgressPercent = kr_ProgressPercent r\<rparr>)))"

definition recordAttemptMetrics ::
  "pg_env \<Rightarrow> transition_row \<Rightarrow> attempt_metrics_request option \<Rightarrow> unit svc" where
  "recordAttemptMetrics env row metrics =
     (case metrics of
        None \<Rightarrow> svc_return ()
      | Some m \<Rightarrow>
          svc_bind (svc_stmt (StoreError ''record attempt metrics'')
            (CreateAttemptMetrics_stmt env
               \<lparr>cmp_AttemptID = tr_AttemptID row, cmp_WorkspaceID = tr_WorkspaceID row,
                cmp_ProjectID = tr_ProjectID row, cmp_TokensIn = mr_TokensIn m,
                cmp_TokensOut = mr_TokensOut m, cmp_CostUsd = numeric (mr_CostUSD m),
                cmp_DurationSeconds = numeric (mr_DurationSeconds m),
                cmp_RetryCount = mr_RetryCount m\<rparr>)) (\<lambda>_. svc_return ()))"

definition Complete ::
  "timestamp \<Rightarrow> pg_env \<Rightarrow> complete_attempt_request \<Rightarrow> attempt_transition_result svc" where
  "Complete now env r =
     svc_check (validateAttemptID (or_AttemptID r))
       (svc_check (validateAttemptMetrics (or_Metrics r))
          (svc_bind (svc_stmt (transitionError ''complete attempt'')
             (CompleteAttempt_stmt env
                \<lparr>cap_Output = encodeJSONObject (or_Output r),
                 cap_OutputSchema = optionalText (TrimSpace (or_OutputSchema r)),
                 cap_CompletedAt = now, cap_AttemptID = or_AttemptID r\<rparr>)) (\<lambda>row.
           svc_bind (recordAttemptMetrics env row (or_Metrics r)) (\<lambda>_.
           svc_return (transitionResult row)))))"

definition Fail ::
  "timestamp \<Rightarrow> pg_env \<Rightarrow> fail_attempt_request \<Rightarrow> attempt_transition_result svc" where
  "Fail now env req =
     (let r = req\<lparr>fr_FailureReason := TrimSpace (fr_FailureReason req),
                 fr_FailureCategory := TrimSpace (fr_FailureCategory req)\<rparr> in
      svc_check (validateFailAttemptRequest r)
        (svc_check (validateAttemptMetrics (fr_Metrics r))
           (svc_bind (svc_stmt (transitionError ''fail attempt'')
              (FailAttempt_stmt env
                 \<lparr>fap_FailureReason = fr_FailureReason r,
                  fap_FailureCategory = optionalText (fr_FailureCategory r),
                  fap_Output = encodeJSONObject (fr_Output r), fap_CompletedAt = now,
                  fap_AttemptID = fr_AttemptID r\<rparr>)) (\<lambda>row.
            svc_bind (recordAttemptMetrics env row (fr_Metrics r)) (\<lambda>_.
            svc_return (transitionResult row))))))"

definition Block ::
  "timestamp \<Rightarrow> pg_env \<Rightarrow> block_attempt_request \<Rightarrow> attempt_transition_result svc" where
  "Block now env req =
     (let r = req\<lparr>br_BlockerReason := TrimSpace (br_BlockerReason req),
                 br_FailureCategory := TrimSpace (br_FailureCategory req)\<rparr> in
      svc_check (validateBlockAttemptRequest r)
        (svc_check (validateAttemptMetrics (br_Metrics r))
           (svc_bind (svc_stmt (transitionError ''block attempt'')
              (BlockAttempt_stmt env
                 \<lparr>bap_BlockerReason = br_BlockerReason r,
                  bap_FailureCategory = optionalText (br_FailureCategory r),
                  bap_Blocker = encodeJSONObject (br_Blocker r), bap_CompletedAt = now,
                  bap_AttemptID = br_AttemptID r\<rparr>)) (\<lambda>row.
            svc_bind (recordAttemptMetrics env row (br_Metrics r)) (\<lambda>_.
            svc_return (transitionResult row))))))"

definition Cancel ::
  "timestamp \<Rightarrow> pg_env \<Rightarrow> cancel_attempt_request \<Rightarrow> attempt_transition_result svc" where
  "Cancel now env req =
     (let r = req\<lparr>xr_Reason := TrimSpace (xr_Reason req)\<rparr> in
      svc_check (validateAttemptID (xr_AttemptID r))
        (svc_bind (svc_stmt (transitionError ''cancel attempt'')
           (CancelAttempt_stmt env
              \<lparr>xap_Reason = optionalText (xr_Reason r), xap_CompletedAt = now,
               xap_AttemptID = xr_AttemptID r\<rparr>))
          (\<lambda>row. svc_return (transitionResult row))))"

definition Expire ::
  "timestamp \<Rightarrow> pg_env \<Rightarrow> expire_attempt_request \<Rightarrow> attempt_transition_result svc" where
  "Expire now env r =
     svc_check (validateAttemptID (er_AttemptID r))
       (svc_bind (svc_stmt (transitionError ''expire attempt'')
          (ExpireAttempt_stmt env
             \<lparr>eap_CompletedAt = now, eap_AttemptID = er_AttemptID r,
              eap_ExpirationCutoff = coalesce (er_ExpirationCutoff r) now\<rparr>))
         (\<lambda>row. svc_return (transitionResult row)))"

section \<open>Validated requests meet the constraints\<close>

lemma validated_metrics:
  assumes "validateAttemptMetrics (Some m) = []"
  obtains c cs du ds where "numeric (mr_CostUSD m) = Some (c, cs)"
    and "numeric (mr_DurationSeconds m) = Some (du, ds)" and "0 \<le> c" and "0 \<le> du"
    and "0 \<le> mr_TokensIn m" and "0 \<le> mr_TokensOut m" and "0 \<le> mr_RetryCount m"
  using assms that
  by (cases "mr_CostUSD m"; cases "mr_DurationSeconds m") (auto simp: validateAttemptMetrics_def)

lemma round_to_scale_nonneg: "0 \<le> m \<Longrightarrow> 0 \<le> round_to_scale k (m, s)"
  by (simp add: sgn_if pos_imp_zdiv_nonneg_iff)

lemma validateFailureCategory_iff:
  "validateFailureCategory c = [] \<longleftrightarrow> set_option (optionalText c) \<subseteq> set FailureCategories"
  by (simp add: validateFailureCategory_def optionalText_def)

end
