(* ===== verification/Ticket_Laws.thy ===== *)
theory Ticket_Laws
  imports Ticket_Service
begin

text \<open>
  What the ticket service guarantees. The locale \<open>ticket_operation\<close> is the contract of an
  operation that moves one ticket along given pairs of statuses: on success exactly that
  ticket changed, in its status and update time, and one event was written; on failure
  nothing changed. Its interpretations are the eleven transition operations of the service.
\<close>

section \<open>Setting the status of a ticket\<close>

lemma jobj_doc [simp]: "ttp_Data (setTicketStatusParams r) =
    RawDoc (JObj (nonempty_entries (ss_data r) @ [(''status'', JStr (ss_status r))]))"
  by (simp add: setTicketStatusParams_def)

lemma setTicketStatusParams_simps [simp]:
  "ttp_ID (setTicketStatusParams r) = ss_ticketID r"
  "ttp_Status (setTicketStatusParams r) = ss_status r"
  "ttp_AllowedStatuses (setTicketStatusParams r) = ss_allowedStatuses r"
  "ttp_Type (setTicketStatusParams r) = ss_eventType r"
  "ttp_ActorType (setTicketStatusParams r) = ss_actorType r"
  by (simp_all add: setTicketStatusParams_def)

lemma setTicketStatus_Inr_iff [result_simps]:
  "setTicketStatus env r d = (Inr t, d') \<longleftrightarrow>
     TransitionTicket_stmt env (setTicketStatusParams r) d = Inr (t, d')"
  by (auto simp: setTicketStatus_def split: sum.splits if_splits)

lemma setTicketStatus_Inl: "setTicketStatus env r d = (Inl e, d') \<Longrightarrow> d' = d"
  by (auto simp: setTicketStatus_def split: sum.splits if_splits)

lemma setTicketStatus_missing:
  assumes "ss_ticketID r = Some k" and "find_row tk_ID k (tickets d) = None"
  shows "setTicketStatus env r d = (Inl ErrTicketNotFound, d)"
proof -
  have "TransitionTicket_stmt env (setTicketStatusParams r) d = Inl NoRows"
    using assms by (subst TransitionTicket_stmt_NoRows_iff) auto
  then show ?thesis
    using assms by (simp add: setTicketStatus_def GetTicket_stmt_def)
qed

lemma setTicketStatus_not_allowed:
  assumes "ss_ticketID r = Some k" and "find_row tk_ID k (tickets d) = Some t"
    and "tk_Status t \<notin> set (ss_allowedStatuses r)"
  shows "setTicketStatus env r d = (Inl ErrTicketTransitionNotAllowed, d)"
proof -
  have "TransitionTicket_stmt env (setTicketStatusParams r) d = Inl NoRows"
    using assms by (subst TransitionTicket_stmt_NoRows_iff) auto
  then show ?thesis
    using assms by (simp add: setTicketStatus_def GetTicket_stmt_def)
qed

section \<open>The contract of a transition operation\<close>

definition ticket_moved ::
  "pg_env \<Rightarrow> uuid option \<Rightarrow> (string \<times> string) set \<Rightarrow> db \<Rightarrow> ticket \<Rightarrow> db \<Rightarrow> bool" where
  "ticket_moved env i moves d t' d' \<longleftrightarrow>
     (\<exists>k t e. i = Some k \<and> find_row tk_ID k (tickets d) = Some t \<and>
        (tk_Status t, tk_Status t') \<in> moves \<and>
        t' = t\<lparr>tk_Status := tk_Status t', tk_UpdatedAt := env_now env\<rparr> \<and>
        core d' = core ((set_ticket_status env k (tk_Status t') d)
            \<lparr>ticket_events := ticket_events d @ [e], event_seq := event_seq d + 1\<rparr>) \<and>
        ev_TicketID e = k \<and> ev_EventSequence e = event_seq d \<and>
        ev_ID e \<notin> ev_ID ` set (ticket_events d))"

lemma setTicketStatus_moved:
  assumes "setTicketStatus env r d = (Inr t', d')" and "ss_ticketID r = i"
    and "set (ss_allowedStatuses r) \<times> {ss_status r} \<subseteq> moves"
  shows "ticket_moved env i moves d t' d'"
proof -
  have "TransitionTicket_stmt env (setTicketStatusParams r) d = Inr (t', d')"
    using assms(1) by (simp add: result_simps)
  then show ?thesis
    by (rule TransitionTicket_stmt_InrD) (use assms(2,3) in \<open>auto simp: ticket_moved_def\<close>)
qed

locale ticket_operation =
  fixes run :: "pg_env \<Rightarrow> 'r \<Rightarrow> ticket svc"
    and target :: "'r \<Rightarrow> uuid option"
    and moves :: "(string \<times> string) set"
  assumes moved: "run env r d = (Inr t, d') \<Longrightarrow> ticket_moved env (target r) moves d t d'"
    and failed: "run env r d = (Inl e, d') \<Longrightarrow> d' = d"
    and idle: "(s, s') \<in> moves \<Longrightarrow>
      s \<noteq> TicketStatusInProgress \<and> s' \<noteq> TicketStatusInProgress \<and> s \<noteq> TicketStatusArchived"
begin

lemma status_after:
  assumes "run env r d = (Inr t', d')"
  obtains t where "target r = Some (tk_ID t')"
    and "find_row tk_ID (tk_ID t') (tickets d) = Some t"
    and "find_row tk_ID (tk_ID t') (tickets d') = Some t'"
    and "(tk_Status t, tk_Status t') \<in> moves"
proof -
  from moved [OF assms] obtain k t where k: "target r = Some k"
    "find_row tk_ID k (tickets d) = Some t" "(tk_Status t, tk_Status t') \<in> moves"
    and t': "t' = t\<lparr>tk_Status := tk_Status t', tk_UpdatedAt := env_now env\<rparr>"
    and "tickets d' = tickets (set_ticket_status env k (tk_Status t') d)"
    by (auto simp: ticket_moved_def set_ticket_status_def dest!: core_eqD(3))
  moreover have "tk_ID t = k" using k(2) by (auto dest: find_row_SomeD)
  moreover have "tk_ID t' = tk_ID t" by (subst t') simp
  ultimately show ?thesis
    using that by simp
qed

lemma attempts_unchanged: "run env r d = (Inr t, d') \<Longrightarrow> attempts d' = attempts d"
  by (auto simp: ticket_moved_def dest!: moved core_eqD(5))

text \<open>An archived ticket and a ticket that an attempt holds are out of reach.\<close>

lemma refuses_archived:
  assumes "target r = Some k" and "find_row tk_ID k (tickets d) = Some t"
    and "tk_Status t = TicketStatusArchived \<or> tk_Status t = TicketStatusInProgress"
  shows "\<exists>e. run env r d = (Inl e, d)"
proof (cases "run env r d")
  case (Pair res d')
  show ?thesis
  proof (cases res)
    case (Inl e)
    with Pair show ?thesis by (auto dest: failed)
  next
    case (Inr t')
    with Pair have "run env r d = (Inr t', d')" by simp
    then obtain u where "target r = Some (tk_ID t')"
      "find_row tk_ID (tk_ID t') (tickets d) = Some u" "(tk_Status u, tk_Status t') \<in> moves"
      by (rule status_after)
    with assms show ?thesis by (auto dest: idle)
  qed
qed

end

section \<open>The eleven operations\<close>

definition spec_moves :: "ticket_transition_spec \<Rightarrow> (string \<times> string) set" where
  "spec_moves spec = set (sp_allowedStatuses spec) \<times> {sp_targetStatus spec}"

lemmas transition_specs =
  ready_spec_def reopen_spec_def unblock_spec_def request_review_spec_def archive_spec_def

lemma transitionTicket_moved:
  "transitionTicket env r spec d = (Inr t, d') \<Longrightarrow>
   ticket_moved env (tr_TicketRef r) (spec_moves spec) d t d'"
  by (auto simp: transitionTicket_def Let_def svc_check_Inr_iff trimTicketTransitionRequest_def
      spec_moves_def intro!: setTicketStatus_moved)

lemma transitionTicket_failed: "transitionTicket env r spec d = (Inl e, d') \<Longrightarrow> d' = d"
  by (auto simp: transitionTicket_def Let_def svc_check_def svc_fail_def split: if_splits
      dest: setTicketStatus_Inl)

lemma transitionProposedTicket_moved:
  "transitionProposedTicket env r op ty st d = (Inr t, d') \<Longrightarrow>
   ticket_moved env (pt_TicketID r) {(TicketStatusBacklog, st)} d t d'"
  by (auto simp: transitionProposedTicket_def Let_def svc_check_Inr_iff svc_bind_Inr_iff
      requireProposedTicket_def svc_query_Inr_iff svc_return_iff svc_fail_iff
      trimProposedTicketTriageRequest_def split: if_splits intro!: setTicketStatus_moved)

lemma requireProposedTicket_state: "requireProposedTicket i d = (r, d') \<Longrightarrow> d' = d"
  by (auto simp: requireProposedTicket_def svc_bind_def svc_query_def svc_fail_def
      svc_return_def split: sum.splits if_splits)

lemma transitionProposedTicket_failed:
  "transitionProposedTicket env r op ty st d = (Inl e, d') \<Longrightarrow> d' = d"
  by (auto simp: transitionProposedTicket_def Let_def svc_check_def svc_fail_iff
      svc_bind_Inl_iff split: if_splits dest!: requireProposedTicket_state
      dest: setTicketStatus_Inl)

interpretation ready: ticket_operation MarkReady tr_TicketRef "spec_moves ready_spec"
  by unfold_locales (auto simp: MarkReady_def spec_moves_def transition_specs
      dest: transitionTicket_moved transitionTicket_failed)

interpretation reopen: ticket_operation Reopen tr_TicketRef "spec_moves reopen_spec"
  by unfold_locales (auto simp: Reopen_def spec_moves_def transition_specs
      dest: transitionTicket_moved transitionTicket_failed)

interpretation unblock: ticket_operation Unblock tr_TicketRef "spec_moves unblock_spec"
  by unfold_locales (auto simp: Unblock_def spec_moves_def transition_specs
      dest: transitionTicket_moved transitionTicket_failed)

interpretation request_review:
  ticket_operation RequestReview tr_TicketRef "spec_moves request_review_spec"
  by unfold_locales (auto simp: RequestReview_def spec_moves_def transition_specs
      dest: transitionTicket_moved transitionTicket_failed)

interpretation archive: ticket_operation Archive tr_TicketRef "spec_moves archive_spec"
  by unfold_locales (auto simp: Archive_def spec_moves_def transition_specs
      dest: transitionTicket_moved transitionTicket_failed)

definition review_moves :: "(string \<times> string) set" where
  "review_moves = {TicketStatusNeedsReview} \<times> {TicketStatusDone, TicketStatusTodo}"

interpretation review: ticket_operation Review rv_TicketID review_moves
  by unfold_locales
    (auto simp: Review_def Let_def svc_check_def svc_fail_iff trimReviewTicketRequest_def
      review_moves_def split: if_splits
      dest: setTicketStatus_Inl intro!: setTicketStatus_moved)

abbreviation proposed_to :: "string \<Rightarrow> (string \<times> string) set" where
  "proposed_to st \<equiv> {(TicketStatusBacklog, st)}"

interpretation ready_proposed:
  ticket_operation ReadyProposedTicket pt_TicketID "proposed_to TicketStatusTodo"
  by unfold_locales (auto simp: ReadyProposedTicket_def
      dest: transitionProposedTicket_moved transitionProposedTicket_failed)

interpretation enqueue_proposed:
  ticket_operation EnqueueProposedTicket pt_TicketID "proposed_to TicketStatusTodo"
  by unfold_locales (auto simp: EnqueueProposedTicket_def Let_def svc_fail_iff
      trimProposedTicketTriageRequest_def split: if_splits
      dest: transitionProposedTicket_moved transitionProposedTicket_failed)

interpretation reject_proposed:
  ticket_operation RejectProposedTicket pt_TicketID "proposed_to TicketStatusArchived"
  by unfold_locales (auto simp: RejectProposedTicket_def
      dest: transitionProposedTicket_moved transitionProposedTicket_failed)

interpretation archive_proposed:
  ticket_operation ArchiveProposedTicket pt_TicketID "proposed_to TicketStatusArchived"
  by unfold_locales (auto simp: ArchiveProposedTicket_def
      dest: transitionProposedTicket_moved transitionProposedTicket_failed)

interpretation merge_proposed:
  ticket_operation MergeProposedTicket mp_TicketID "proposed_to TicketStatusArchived"
  by unfold_locales
    (auto simp: MergeProposedTicket_def Let_def svc_check_def svc_bind_Inr_iff svc_bind_Inl_iff
      svc_query_Inr_iff svc_query_Inl_iff svc_fail_iff trimMergeProposedTicketRequest_def
      split: if_splits dest!: requireProposedTicket_state
      dest: setTicketStatus_Inl intro!: setTicketStatus_moved)

section \<open>Creation\<close>

lemma completeCreate_CreatedBy [simp]:
  "cr_CreatedBy (completeCreateTicketRequest req ty) =
     default_string ActorHuman (TrimSpace (cr_CreatedBy req))"
  by (simp add: completeCreateTicketRequest_def Let_def trimCreateTicketRequest_def)

lemma completeCreate_flags [simp]:
  "cr_Enqueue (completeCreateTicketRequest req ty) = cr_Enqueue req"
  "cr_CanEnqueue (completeCreateTicketRequest req ty) = cr_CanEnqueue req"
  by (simp_all add: completeCreateTicketRequest_def Let_def trimCreateTicketRequest_def)

lemma completeCreate_proposed [simp]:
  "cr_Status (completeCreateTicketRequest req EventTicketProposed) = TicketStatusBacklog"
  by (simp add: completeCreateTicketRequest_def Let_def)

lemma normalizeCreate_Inr_iff:
  "normalizeCreateTicketRequest req ty = Inr (params, deps) \<longleftrightarrow>
     (let r = completeCreateTicketRequest req ty in
      \<not> (cr_CreatedBy r = ActorAgent \<and> (cr_Enqueue r \<or> cr_Status r = TicketStatusTodo) \<and>
         \<not> cr_CanEnqueue r) \<and>
      validateCreateTicketRequest r = [] \<and>
      params = createTicketParams r \<and> deps = cr_Dependencies r)"
  by (auto simp: normalizeCreateTicketRequest_def Let_def split: if_splits)

text \<open>A request that passes validation satisfies the table's checks.\<close>

lemma validated_create:
  assumes "validateCreateTicketRequest r = []"
  shows "cr_WorkspaceID r \<noteq> None" and "cr_ProjectID r \<noteq> None"
    and "cr_Status r = TicketStatusBacklog \<or> cr_Status r = TicketStatusTodo"
    and "cr_Type r \<in> set ticket_type_names" and "cr_CreatedBy r \<in> set actor_types"
    and "0 \<le> coalesce (cr_Priority r) 2" and "coalesce (cr_Priority r) 2 \<le> 4"
    and "cr_RetryPolicy r \<noteq> RawInvalid" and "None \<notin> set (cr_Dependencies r)"
  using assms
  by (auto simp: validateCreateTicketRequest_def isAllowedTicketType_iff isAllowedActor_iff
      coalesce_def split: if_splits option.splits)

lemma createTicketParams_docs:
  assumes "cr_RetryPolicy r \<noteq> RawInvalid"
  obtains vc en inp rp where "ctp_VerificationCommands (createTicketParams r) = RawDoc vc"
    and "ctp_Environment (createTicketParams r) = RawDoc en"
    and "ctp_Input (createTicketParams r) = RawDoc inp"
    and "ctp_RetryPolicy (createTicketParams r) = RawDoc rp"
proof -
  obtain vc en inp where "encodeJSONArray (cr_VerificationCommands r) = RawDoc vc"
    "encodeJSONObject (cr_Environment r) = RawDoc en" "encodeJSONObject (cr_Input r) = RawDoc inp"
    using encodeJSONObject_doc encodeJSONArray_doc by metis
  moreover obtain rp where
    "(if cr_RetryPolicy r = RawEmpty then defaultRetryPolicy else cr_RetryPolicy r) = RawDoc rp"
    using assms by (cases "cr_RetryPolicy r") (auto simp: defaultRetryPolicy_def)
  ultimately show ?thesis
    using that by (simp add: createTicketParams_def)
qed

lemma createTicket_InrD:
  assumes "createTicket env req ty d = (Inr t, d')"
  obtains d1 d2 e where
    "validateCreateTicketRequest (completeCreateTicketRequest req ty) = []"
    and "cr_CreatedBy (completeCreateTicketRequest req ty) = ActorAgent \<Longrightarrow>
      cr_Enqueue req \<or> cr_Status (completeCreateTicketRequest req ty) = TicketStatusTodo \<Longrightarrow>
      cr_CanEnqueue req"
    and "CreateTicket_stmt env (createTicketParams (completeCreateTicketRequest req ty)) d =
      Inr (t, d1)"
    and "svc_each (\<lambda>dep. svc_stmt (StoreError ''create ticket dependency'')
        (CreateTicketDependency_stmt env (tk_ID t) dep (tk_WorkspaceID t) (tk_ProjectID t)))
        (cr_Dependencies (completeCreateTicketRequest req ty)) d1 = (Inr (), d2)"
    and "ev_Type e = ty" and "ev_TicketID e = tk_ID t"
    and "core d' = core (d2\<lparr>ticket_events := ticket_events d2 @ [e],
           event_seq := event_seq d2 + 1\<rparr>)"
proof -
  let ?r = "completeCreateTicketRequest req ty"
  from assms have norm: "normalizeCreateTicketRequest req ty =
      Inr (createTicketParams ?r, cr_Dependencies ?r)"
    by (auto simp: createTicket_def svc_fail_iff normalizeCreateTicketRequest_def Let_def
        split: if_splits)
  obtain d1 d2 e where run: "CreateTicket_stmt env (createTicketParams ?r) d = Inr (t, d1)"
    "svc_each (\<lambda>dep. svc_stmt (StoreError ''create ticket dependency'')
        (CreateTicketDependency_stmt env (tk_ID t) dep (tk_WorkspaceID t) (tk_ProjectID t)))
        (cr_Dependencies ?r) d1 = (Inr (), d2)"
    and ev: "CreateTicketEvent_stmt env
         \<lparr>ep_WorkspaceID = tk_WorkspaceID t, ep_ProjectID = tk_ProjectID t,
          ep_TicketID = tk_ID t, ep_AttemptID = None, ep_Type = ty,
          ep_ActorType = tk_CreatedBy t, ep_ActorID = tk_CreatedByID t, ep_Data = JNull\<rparr>
         (RawDoc (JObj [(''status'', JStr (tk_Status t)), (''type'', JStr (tk_Type t))])) d2
       = Inr (e, d')"
    using assms unfolding createTicket_def norm
    by (auto simp: svc_bind_Inr_iff svc_stmt_Inr_iff svc_return_iff)
  have "validateCreateTicketRequest ?r = []"
    and "cr_CreatedBy ?r = ActorAgent \<Longrightarrow> cr_Enqueue req \<or> cr_Status ?r = TicketStatusTodo \<Longrightarrow>
      cr_CanEnqueue req"
    using norm by (auto simp: normalizeCreate_Inr_iff Let_def)
  with run CreateTicketEvent_stmt_core [OF ev] that show ?thesis
    by simp
qed

text \<open>The dependencies of a new ticket are inserted one by one.\<close>

lemma create_dependencies_core:
  assumes "svc_each (\<lambda>dep. svc_stmt w
      (CreateTicketDependency_stmt env i dep ws pj)) deps d = (Inr (), d')"
  shows "\<exists>rs. d' = d\<lparr>ticket_dependencies := ticket_dependencies d @ rs\<rparr> \<and>
    deps = map (\<lambda>r. Some (dep_DependsOnTicketID r)) rs \<and>
    (\<forall>r \<in> set rs. dep_TicketID r = i \<and> dep_DependsOnTicketID r \<noteq> i \<and>
       dep_DependsOnTicketID r \<in> tk_ID ` set (tickets d))"
  using assms
proof (induction deps arbitrary: d)
  case Nil
  then show ?case by (auto simp: svc_return_iff)
next
  case (Cons x xs)
  then obtain r d1 where 1: "CreateTicketDependency_stmt env i x ws pj d = Inr (r, d1)"
    and 2: "svc_each (\<lambda>dep. svc_stmt w (CreateTicketDependency_stmt env i dep ws pj)) xs d1 =
      (Inr (), d')"
    by (auto simp: svc_bind_Inr_iff svc_stmt_Inr_iff)
  note d1 = CreateTicketDependency_stmt_InrD [OF 1]
  from Cons.IH [OF 2] obtain rs where
    "d' = d1\<lparr>ticket_dependencies := ticket_dependencies d1 @ rs\<rparr>"
    "xs = map (\<lambda>r. Some (dep_DependsOnTicketID r)) rs"
    "\<forall>r \<in> set rs. dep_TicketID r = i \<and> dep_DependsOnTicketID r \<noteq> i \<and>
       dep_DependsOnTicketID r \<in> tk_ID ` set (tickets d1)"
    by blast
  moreover have "dep_DependsOnTicketID r \<in> tk_ID ` set (tickets d)"
    using d1(6) by (force simp: ticket_in_scope_def)
  ultimately show ?case
    using d1(1-4) by (intro exI [of _ "r # rs"]) simp
qed

text \<open>The rows that a creation adds, and the fields of the new ticket.\<close>

lemma createTicket_rows:
  assumes "createTicket env req ty d = (Inr t, d')"
  shows "tickets d' = tickets d @ [t]" and "tk_ID t \<notin> tk_ID ` set (tickets d)"
    and "attempts d' = attempts d"
    and "\<exists>rs. ticket_dependencies d' = ticket_dependencies d @ rs \<and>
      cr_Dependencies req = map (\<lambda>r. Some (dep_DependsOnTicketID r)) rs \<and>
      (\<forall>r \<in> set rs. dep_TicketID r = tk_ID t \<and> dep_DependsOnTicketID r \<noteq> tk_ID t \<and>
         dep_DependsOnTicketID r \<in> tk_ID ` set (tickets d'))"
    and "tk_Title t = TrimSpace (cr_Title req)" and "tk_Type t = TrimSpace (cr_Type req)"
    and "Some (tk_WorkspaceID t) = cr_WorkspaceID req" and "Some (tk_ProjectID t) = cr_ProjectID req"
    and "tk_ParentID t = cr_ParentID req" and "tk_RootID t = cr_RootID req"
    and "tk_SourceAttemptID t = cr_SourceAttemptID req"
    and "tk_Status t = cr_Status (completeCreateTicketRequest req ty)"
    and "tk_CreatedBy t = default_string ActorHuman (TrimSpace (cr_CreatedBy req))"
proof -
  let ?r = "completeCreateTicketRequest req ty"
  from assms obtain d1 d2 e where
    ins: "CreateTicket_stmt env (createTicketParams ?r) d = Inr (t, d1)"
    and deps: "svc_each (\<lambda>dep. svc_stmt (StoreError ''create ticket dependency'')
        (CreateTicketDependency_stmt env (tk_ID t) dep (tk_WorkspaceID t) (tk_ProjectID t)))
        (cr_Dependencies ?r) d1 = (Inr (), d2)"
    and core: "core d' = core (d2\<lparr>ticket_events := ticket_events d2 @ [e],
      event_seq := event_seq d2 + 1\<rparr>)"
    by (rule createTicket_InrD)
  have r: "cr_Title ?r = TrimSpace (cr_Title req)" "cr_Type ?r = TrimSpace (cr_Type req)"
    "cr_WorkspaceID ?r = cr_WorkspaceID req" "cr_ProjectID ?r = cr_ProjectID req"
    "cr_ParentID ?r = cr_ParentID req" "cr_RootID ?r = cr_RootID req"
    "cr_SourceAttemptID ?r = cr_SourceAttemptID req" "cr_Dependencies ?r = cr_Dependencies req"
    "cr_CreatedBy ?r = default_string ActorHuman (TrimSpace (cr_CreatedBy req))"
    by (simp_all add: completeCreateTicketRequest_def Let_def trimCreateTicketRequest_def)
  from create_dependencies_core [OF deps] obtain rs where
    rs: "d2 = d1\<lparr>ticket_dependencies := ticket_dependencies d1 @ rs\<rparr>"
      "cr_Dependencies req = map (\<lambda>r. Some (dep_DependsOnTicketID r)) rs"
      "\<forall>r \<in> set rs. dep_TicketID r = tk_ID t \<and> dep_DependsOnTicketID r \<noteq> tk_ID t \<and>
         dep_DependsOnTicketID r \<in> tk_ID ` set (tickets d1)"
    unfolding r by blast
  note d1 = core_eqD [OF CreateTicket_stmt_InrD(1) [OF ins]]
  show "tickets d' = tickets d @ [t]" "attempts d' = attempts d"
    using core_eqD [OF core] rs(1) d1 by simp_all
  show "tk_ID t \<notin> tk_ID ` set (tickets d)" by (rule CreateTicket_stmt_InrD(2) [OF ins])
  show "\<exists>rs. ticket_dependencies d' = ticket_dependencies d @ rs \<and>
      cr_Dependencies req = map (\<lambda>r. Some (dep_DependsOnTicketID r)) rs \<and>
      (\<forall>r \<in> set rs. dep_TicketID r = tk_ID t \<and> dep_DependsOnTicketID r \<noteq> tk_ID t \<and>
         dep_DependsOnTicketID r \<in> tk_ID ` set (tickets d'))"
    using core_eqD [OF core] rs d1 by (intro exI [of _ rs]) auto
  show "tk_Title t = TrimSpace (cr_Title req)" "tk_Type t = TrimSpace (cr_Type req)"
    "Some (tk_WorkspaceID t) = cr_WorkspaceID req" "Some (tk_ProjectID t) = cr_ProjectID req"
    "tk_ParentID t = cr_ParentID req" "tk_RootID t = cr_RootID req"
    "tk_SourceAttemptID t = cr_SourceAttemptID req" "tk_Status t = cr_Status ?r"
    "tk_CreatedBy t = default_string ActorHuman (TrimSpace (cr_CreatedBy req))"
    using ins r by (auto simp: CreateTicket_stmt_def gen_random_uuid_def Let_def result_simps
        new_ticket_def createTicketParams_def)
qed

lemma createTicketParams_status [simp]:
  "ctp_Status (createTicketParams r) = cr_Status r"
  "ctp_CreatedBy (createTicketParams r) = cr_CreatedBy r"
  "ctp_WorkspaceID (createTicketParams r) = cr_WorkspaceID r"
  "ctp_ProjectID (createTicketParams r) = cr_ProjectID r"
  "ctp_Type (createTicketParams r) = cr_Type r"
  "ctp_Priority (createTicketParams r) = coalesce (cr_Priority r) 2"
  by (simp_all add: createTicketParams_def)

text \<open>A validated creation satisfies every constraint that does not depend on other rows.\<close>

lemma validated_create_constraints:
  assumes "validateCreateTicketRequest r = []"
    and "CreateTicket_stmt env (createTicketParams r) d = Inl e"
  shows "e = UniqueViolation \<or> e = ForeignKeyViolation"
proof -
  note v = validated_create [OF assms(1)]
  obtain vc en inp rp where docs:
    "ctp_VerificationCommands (createTicketParams r) = RawDoc vc"
    "ctp_Environment (createTicketParams r) = RawDoc en"
    "ctp_Input (createTicketParams r) = RawDoc inp"
    "ctp_RetryPolicy (createTicketParams r) = RawDoc rp"
    using v(8) by (rule createTicketParams_docs)
  obtain w pj where scope: "cr_WorkspaceID r = Some w" "cr_ProjectID r = Some pj"
    using v(1,2) by auto
  have "ticket_row_checks (new_ticket env (createTicketParams r) i w pj vc en inp rp)" for i
    using v by (auto simp: ticket_row_checks_def new_ticket_def ticket_status_names_def)
  then show ?thesis
    using assms(2)
    by (auto simp: CreateTicket_stmt_def gen_random_uuid_def docs scope Let_def
        and_then_Inl_iff ensure_Inl_iff insert_row_def split: if_splits)
qed

section \<open>Patches\<close>

definition completeUpdateRequest :: "update_ticket_request \<Rightarrow> update_ticket_request" where
  "completeUpdateRequest req =
     (let r = trimUpdateTicketRequest req in
      r\<lparr>ur_ActorType := default_string ActorAgent (ur_ActorType r)\<rparr>)"

lemma UpdateTicket_InrD:
  assumes "UpdateTicket env req d = (Inr t', d')"
  defines "p \<equiv> updateTicketParams (completeUpdateRequest req)"
  obtains k t vc e where "ur_TicketID req = Some k"
    and "find_row tk_ID k (tickets d) = Some t" and "t' = patched_ticket env p vc t"
    and "tickets d' = update_rows (\<lambda>r. tk_ID r = k) (patched_ticket env p vc) (tickets d)"
    and "attempts d' = attempts d" and "ticket_dependencies d' = ticket_dependencies d"
    and "ticket_events d' = ticket_events d @ [e]"
    and "ev_Type e = ''updated''" and "ev_TicketID e = k"
    and "ur_VerificationCommands req = None \<Longrightarrow> vc = None"
    and "\<And>cs. ur_VerificationCommands req = Some cs \<Longrightarrow>
      map_option RawDoc vc = Some (encodeJSONArray (compactStringsPreserveEmpty cs))"
proof -
  from assms(1) obtain d1 ep raw e where up: "UpdateTicket_stmt env p d = Inr (t', d1)"
    and ev: "CreateTicketEvent_stmt env ep raw d1 = Inr (e, d')"
    and ep: "ep_Type ep = ''updated''" "ep_TicketID ep = tk_ID t'"
    unfolding p_def completeUpdateRequest_def
    by (fastforce simp: UpdateTicket_def Let_def svc_check_Inr_iff svc_bind_Inr_iff
        svc_stmt_Inr_iff svc_return_iff)
  note core = CreateTicketEvent_stmt_core [OF ev]
  have p: "utp_ID p = ur_TicketID req"
    "utp_UpdateVerificationCommands p = (ur_VerificationCommands req \<noteq> None)"
    "\<And>cs. ur_VerificationCommands req = Some cs \<Longrightarrow>
      utp_VerificationCommands p = encodeJSONArray (compactStringsPreserveEmpty cs)"
    by (simp_all add: p_def completeUpdateRequest_def Let_def updateTicketParams_def
        trimUpdateTicketRequest_def)
  from up show ?thesis
  proof (rule UpdateTicket_stmt_InrD)
    fix k t vc
    assume *: "utp_ID p = Some k" "find_row tk_ID k (tickets d) = Some t"
      "t' = patched_ticket env p vc t"
      "d1 = d\<lparr>tickets := update_rows (\<lambda>r. tk_ID r = k) (patched_ticket env p vc) (tickets d)\<rparr>"
      "utp_UpdateVerificationCommands p \<Longrightarrow> \<exists>j. vc = Some j \<and> utp_VerificationCommands p = RawDoc j"
      "\<not> utp_UpdateVerificationCommands p \<Longrightarrow> vc = None"
    show thesis
      by (rule that [of k t vc e])
        (use * p ep core(3,4) core_eqD [OF core(1)] in \<open>auto dest: find_row_SomeD\<close>)
  qed
qed

end
