(* ===== verification/Workflow.thy ===== *)
theory Workflow
  imports Ticket_Laws
begin

text \<open>
  The invariant of the two tables that carry the workflow. A ticket is in progress exactly
  when an attempt on it is running, a ticket has at most one running attempt, an attempt
  refers to a ticket of its scope, and the failures of a ticket never exceed its retry budget.
  One preservation lemma per kind of change to the tables; the statements are put into these
  kinds in the theory \<open>Lifecycle\<close>.
\<close>

definition held :: "db \<Rightarrow> uuid \<Rightarrow> bool" where
  "held d k \<longleftrightarrow> (\<exists>a \<in> set (attempts d). at_TicketID a = k \<and> at_Status a = AttemptStatusRunning)"

definition rows_ok :: "db \<Rightarrow> bool" where
  "rows_ok d \<longleftrightarrow>
     unique_key tk_ID (tickets d) \<and> unique_key at_ID (attempts d) \<and>
     (\<forall>t \<in> set (tickets d). ticket_row_checks t) \<and>
     (\<forall>a \<in> set (attempts d). attempt_row_checks a) \<and>
     (\<forall>a \<in> set (attempts d).
        ticket_in_scope d (at_WorkspaceID a) (at_ProjectID a) (at_TicketID a))"

definition one_runner :: "db \<Rightarrow> bool" where
  "one_runner d \<longleftrightarrow>
     (\<forall>a \<in> set (attempts d). \<forall>b \<in> set (attempts d).
        at_Status a = AttemptStatusRunning \<longrightarrow> at_Status b = AttemptStatusRunning \<longrightarrow>
        at_TicketID a = at_TicketID b \<longrightarrow> a = b)"

definition progress_iff_held :: "db \<Rightarrow> bool" where
  "progress_iff_held d \<longleftrightarrow>
     (\<forall>t \<in> set (tickets d). tk_Status t = TicketStatusInProgress \<longleftrightarrow> held d (tk_ID t))"

definition retry_budget :: "db \<Rightarrow> bool" where
  "retry_budget d \<longleftrightarrow>
     (\<forall>t \<in> set (tickets d).
        (held d (tk_ID t) \<longrightarrow>
           (\<exists>m. max_attempts t = Inr m \<and> failure_count d (tk_ID t) < m)) \<and>
        (\<forall>m. max_attempts t = Inr m \<longrightarrow> failure_count d (tk_ID t) \<le> max m 0))"

definition workflow_ok :: "db \<Rightarrow> bool" where
  "workflow_ok d \<longleftrightarrow> rows_ok d \<and> one_runner d \<and> progress_iff_held d \<and> retry_budget d"

lemmas workflow_defs = workflow_ok_def rows_ok_def one_runner_def progress_iff_held_def retry_budget_def

lemma one_runnerD:
  "one_runner d \<Longrightarrow> a \<in> set (attempts d) \<Longrightarrow> b \<in> set (attempts d) \<Longrightarrow>
   at_Status a = AttemptStatusRunning \<Longrightarrow> at_Status b = AttemptStatusRunning \<Longrightarrow>
   at_TicketID a = at_TicketID b \<Longrightarrow> a = b"
  unfolding one_runner_def by blast

lemma workflow_okD:
  assumes "workflow_ok d"
  shows "rows_ok d" and "one_runner d" and "progress_iff_held d" and "retry_budget d"
  using assms by (simp_all add: workflow_ok_def)

lemma workflow_cong:
  assumes "tickets d' = tickets d" and "attempts d' = attempts d"
  shows "workflow_ok d' = workflow_ok d"
  using assms
  by (simp add: workflow_defs held_def failure_count_def ticket_in_scope_def)

lemma attempt_ticket:
  assumes "rows_ok d" and "a \<in> set (attempts d)"
  obtains t where "t \<in> set (tickets d)" and "tk_ID t = at_TicketID a"
proof -
  have "ticket_in_scope d (at_WorkspaceID a) (at_ProjectID a) (at_TicketID a)"
    using assms by (simp add: rows_ok_def)
  then show ?thesis
    using that by (auto simp: ticket_in_scope_def)
qed

section \<open>Changes to tickets\<close>

lemma rows_ok_ticket_keys:
  assumes "rows_ok d" and "attempts d' = attempts d"
    and "map (\<lambda>t. (tk_ID t, tk_WorkspaceID t, tk_ProjectID t)) (tickets d') =
         map (\<lambda>t. (tk_ID t, tk_WorkspaceID t, tk_ProjectID t)) (tickets d)"
    and "\<And>t. t \<in> set (tickets d') \<Longrightarrow> ticket_row_checks t"
  shows "rows_ok d'"
proof -
  let ?key = "\<lambda>t. (tk_ID t, tk_WorkspaceID t, tk_ProjectID t)"
  have scope: "ticket_in_scope x w p k \<longleftrightarrow> (k, w, p) \<in> ?key ` set (tickets x)" for x w p k
    by (auto simp: ticket_in_scope_def)
  have "?key ` set (tickets d') = ?key ` set (tickets d)"
    using arg_cong [OF assms(3), of set] by simp
  moreover have "map tk_ID (tickets d') = map tk_ID (tickets d)"
    using arg_cong [OF assms(3), of "map fst"] by (simp add: comp_def)
  ultimately show ?thesis
    using assms(1,2,4) by (simp add: rows_ok_def scope)
qed

text \<open>One ticket is replaced by a row with the same keys and retry policy, and either keeps
  its status or moves between statuses outside progress.\<close>

lemma workflow_update_ticket:
  assumes ok: "workflow_ok d" and as: "attempts d' = attempts d"
    and ts: "tickets d' = update_rows (\<lambda>t. tk_ID t = k) f (tickets d)"
    and keys: "\<And>t. tk_ID (f t) = tk_ID t \<and> tk_WorkspaceID (f t) = tk_WorkspaceID t \<and>
      tk_ProjectID (f t) = tk_ProjectID t \<and> tk_RetryPolicy (f t) = tk_RetryPolicy t"
    and checks: "\<And>t. ticket_row_checks t \<Longrightarrow> ticket_row_checks (f t)"
    and st: "\<And>t. t \<in> set (tickets d) \<Longrightarrow> tk_ID t = k \<Longrightarrow>
      tk_Status (f t) = TicketStatusInProgress \<longleftrightarrow> tk_Status t = TicketStatusInProgress"
  shows "workflow_ok d'"
proof -
  have "rows_ok d'"
  proof (rule rows_ok_ticket_keys)
    show "rows_ok d" using ok by (simp add: workflow_ok_def)
    then show "ticket_row_checks t" if "t \<in> set (tickets d')" for t
      using that checks by (auto simp: rows_ok_def ts set_update_rows)
    show "map (\<lambda>t. (tk_ID t, tk_WorkspaceID t, tk_ProjectID t)) (tickets d') =
        map (\<lambda>t. (tk_ID t, tk_WorkspaceID t, tk_ProjectID t)) (tickets d)"
      unfolding ts by (rule map_update_rows) (simp add: keys)
  qed (rule as)
  moreover have "one_runner d'"
    using ok by (simp add: workflow_ok_def one_runner_def as)
  moreover have "held d' = held d"
    by (simp add: held_def as fun_eq_iff)
  moreover have "failure_count d' = failure_count d"
    by (simp add: failure_count_def as fun_eq_iff)
  moreover have "max_attempts (f t) = max_attempts t" for t
    by (simp add: max_attempts_def keys)
  ultimately show ?thesis
    using ok st
    by (auto simp: workflow_ok_def progress_iff_held_def retry_budget_def ts set_update_rows keys)
qed

lemma failure_count_unreferenced:
  assumes "\<And>a. a \<in> set (attempts d) \<Longrightarrow> at_TicketID a \<noteq> k"
  shows "failure_count d k = 0"
proof -
  have "filter (counts_as_failure k) (attempts d) = []"
    using assms by (auto simp: filter_empty_conv counts_as_failure_def)
  then show ?thesis by (simp add: failure_count_def)
qed

lemma workflow_new_ticket:
  assumes ok: "workflow_ok d" and as: "attempts d' = attempts d"
    and ts: "tickets d' = tickets d @ [t]" and fresh: "tk_ID t \<notin> tk_ID ` set (tickets d)"
    and checks: "ticket_row_checks t" and st: "tk_Status t \<noteq> TicketStatusInProgress"
  shows "workflow_ok d'"
proof -
  have scope: "ticket_in_scope d w p k \<Longrightarrow> ticket_in_scope d' w p k" for w p k
    by (auto simp: ticket_in_scope_def ts)
  have unref: "at_TicketID a \<noteq> tk_ID t" if a: "a \<in> set (attempts d)" for a
  proof -
    have "rows_ok d" using ok by (simp add: workflow_ok_def)
    then obtain u where "u \<in> set (tickets d)" "tk_ID u = at_TicketID a"
      using a by (rule attempt_ticket)
    with fresh show ?thesis by (metis image_eqI)
  qed
  have "\<not> held d (tk_ID t)"
    using unref by (auto simp: held_def)
  moreover have "failure_count d (tk_ID t) = 0"
    using unref by (rule failure_count_unreferenced)
  moreover have "held d' = held d" "failure_count d' = failure_count d"
    by (simp_all add: held_def failure_count_def as fun_eq_iff)
  moreover have "rows_ok d'"
    using ok scope fresh checks by (auto simp: workflow_ok_def rows_ok_def as ts)
  moreover have "one_runner d'"
    using ok by (simp add: workflow_ok_def one_runner_def as)
  ultimately show ?thesis
    using ok st by (auto simp: workflow_ok_def progress_iff_held_def retry_budget_def ts)
qed

section \<open>Changes to attempts\<close>

lemma count_update_row:
  assumes "unique_key key rows" and "r \<in> set rows" and "\<not> P r" and "\<And>x. key (f x) = key x"
  shows "length (filter P (update_rows (\<lambda>x. key x = key r) f rows)) =
    length (filter P rows) + (if P (f r) then 1 else 0)"
  using assms
proof (induction rows)
  case (Cons x xs)
  show ?case
  proof (cases "x = r")
    case True
    then have "update_rows (\<lambda>x. key x = key r) f xs = xs"
      using Cons.prems(1) by (intro update_rows_none) (auto simp: image_iff)
    with True Cons.prems(3) show ?thesis by simp
  next
    case False
    with Cons.prems have "key x \<noteq> key r" "r \<in> set xs" "unique_key key xs"
      by auto
    with Cons show ?thesis by simp
  qed
qed simp

lemma rows_ok_attempt_keys:
  assumes "rows_ok d" and "tickets d' = tickets (set_ticket_status env k st d)"
    and "attempts d' = attempts (set_attempt i f d)" and "keeps_attempt_keys f"
    and "st \<in> set ticket_status_names"
    and "\<And>a. a \<in> set (attempts d) \<Longrightarrow> at_ID a = i \<Longrightarrow> attempt_row_checks (f a)"
  shows "rows_ok d'"
proof -
  have scope: "ticket_in_scope d' w p t = ticket_in_scope d w p t" for w p t
    using ticket_in_scope_set_ticket_status [of env k st d w p t] assms(2)
    by (simp add: ticket_in_scope_def)
  have "unique_key tk_ID (tickets d')" and "unique_key at_ID (attempts d')"
    using assms(1-4) by (simp_all add: rows_ok_def map_at_ID_set_attempt)
  moreover have "\<forall>t \<in> set (tickets d'). ticket_row_checks t"
    using assms(1,2,5)
    by (auto simp: rows_ok_def set_ticket_status_def set_update_rows ticket_row_checks_def)
  moreover have "\<forall>a \<in> set (attempts d'). attempt_row_checks a"
    using assms(1,3,6) by (auto simp: rows_ok_def attempts_set_attempt set_update_rows)
  moreover have "\<forall>a \<in> set (attempts d').
      ticket_in_scope d' (at_WorkspaceID a) (at_ProjectID a) (at_TicketID a)"
    using assms(1,3,4)
    by (auto simp: rows_ok_def scope attempts_set_attempt set_update_rows keeps_attempt_keysD)
  ultimately show ?thesis by (simp add: rows_ok_def)
qed

text \<open>A running attempt is updated in columns that are neither its status nor a key.\<close>

lemma workflow_touch_attempt:
  assumes ok: "workflow_ok d" and ts: "tickets d' = tickets d"
    and as: "attempts d' = attempts (set_attempt i f d)" and keys: "keeps_attempt_keys f"
    and st: "\<And>a. at_Status (f a) = at_Status a"
    and checks: "\<And>a. a \<in> set (attempts d) \<Longrightarrow> at_ID a = i \<Longrightarrow> attempt_row_checks (f a)"
  shows "workflow_ok d'"
proof -
  let ?view = "\<lambda>a. (at_ID a, at_TicketID a, at_Status a)"
  have view: "map ?view (attempts d') = map ?view (attempts d)"
    unfolding as attempts_set_attempt
    by (rule map_update_rows) (simp add: st keeps_attempt_keysD [OF keys])
  have "held x k \<longleftrightarrow> (k, AttemptStatusRunning) \<in> snd ` set (map ?view (attempts x))" for x k
    by (force simp: held_def)
  then have held: "held d' = held d"
    by (simp only: view fun_eq_iff simp_thms)
  have "failure_count x k = int (length (filter (\<lambda>(i, t, s). t = k \<and>
      (s = AttemptStatusFailed \<or> s = AttemptStatusExpired)) (map ?view (attempts x))))" for x k
    by (simp add: failure_count_def counts_as_failure_def [abs_def] filter_map comp_def)
  then have count: "failure_count d' = failure_count d"
    by (simp only: view fun_eq_iff simp_thms)
  have rows: "rows_ok d'"
  proof -
    have scope: "ticket_in_scope d' = ticket_in_scope d"
      by (simp add: ticket_in_scope_def ts fun_eq_iff)
    have "unique_key at_ID (attempts d')"
      using ok by (simp add: workflow_ok_def rows_ok_def as map_at_ID_set_attempt [OF keys])
    then show ?thesis
      using ok checks
      by (auto simp: workflow_ok_def rows_ok_def ts scope as
          attempts_set_attempt set_update_rows keeps_attempt_keysD [OF keys])
  qed
  have "one_runner d'"
  proof -
    have uniq: "unique_key at_ID (attempts d')"
      using rows by (simp add: rows_ok_def)
    have "at_ID a = at_ID b" if "a \<in> set (attempts d')" "b \<in> set (attempts d')"
      "at_Status a = AttemptStatusRunning" "at_Status b = AttemptStatusRunning"
      "at_TicketID a = at_TicketID b" for a b
    proof -
      have "?view a \<in> ?view ` set (attempts d)" "?view b \<in> ?view ` set (attempts d)"
        using that(1,2) arg_cong [OF view, of set] by auto
      then obtain a0 b0 where ab: "a0 \<in> set (attempts d)" "?view a0 = ?view a"
        "b0 \<in> set (attempts d)" "?view b0 = ?view b"
        by auto
      moreover have "a0 = b0"
        by (rule one_runnerD [OF workflow_okD(2) [OF ok]]) (use that(3-5) ab in simp_all)
      ultimately show ?thesis by simp
    qed
    then show ?thesis
      unfolding one_runner_def by (blast intro: unique_key_eqD [OF uniq])
  qed
  with ok rows held count show ?thesis
    by (simp add: workflow_ok_def progress_iff_held_def retry_budget_def ts)
qed

text \<open>A claim: a ticket that is free, with retries left, goes into progress with a new attempt.\<close>

lemma workflow_claim:
  assumes ok: "workflow_ok d"
    and ts: "tickets d' = tickets (set_ticket_status env (tk_ID t) TicketStatusInProgress d)"
    and as: "attempts d' = attempts d @ [a]"
    and t: "t \<in> set (tickets d)" and a: "at_TicketID a = tk_ID t"
      "at_WorkspaceID a = tk_WorkspaceID t" "at_ProjectID a = tk_ProjectID t"
      "at_Status a = AttemptStatusRunning" "attempt_row_checks a"
    and fresh: "at_ID a \<notin> at_ID ` set (attempts d)" and free: "\<not> held d (tk_ID t)"
    and m: "max_attempts t = Inr m" and left: "failure_count d (tk_ID t) < m"
  shows "workflow_ok d'"
proof -
  have held: "held d' k \<longleftrightarrow> held d k \<or> k = tk_ID t" for k
    using a by (auto simp: held_def as)
  have count: "failure_count d' = failure_count d"
    using a by (simp add: failure_count_def as counts_as_failure_def fun_eq_iff)
  have scope: "ticket_in_scope d' w p k = ticket_in_scope d w p k" for w p k
    using ticket_in_scope_set_ticket_status [of env "tk_ID t" TicketStatusInProgress d w p k] ts
    by (simp add: ticket_in_scope_def)
  have uniq: "unique_key tk_ID (tickets d)"
    using ok by (simp add: workflow_ok_def rows_ok_def)
  have "rows_ok d'"
    using ok a fresh t
    by (auto simp: workflow_ok_def rows_ok_def ts as scope)
      (auto simp: set_ticket_status_def set_update_rows ticket_row_checks_def
        ticket_status_names_def ticket_in_scope_def)
  moreover have "one_runner d'"
    using ok free a by (auto simp: workflow_ok_def one_runner_def as held_def)
  moreover have "progress_iff_held d'"
    using ok by (auto simp: workflow_ok_def progress_iff_held_def ts held
        set_ticket_status_def set_update_rows)
  moreover have "retry_budget d'"
  proof -
    have mt: "max_attempts (x\<lparr>tk_Status := s, tk_UpdatedAt := n\<rparr>) = max_attempts x" for x s n
      by (simp add: max_attempts_def)
    have "x = t" if "x \<in> set (tickets d)" "tk_ID x = tk_ID t" for x
      using uniq that t by (blast dest: unique_key_eqD)
    then have "held d' (tk_ID x) \<Longrightarrow> \<exists>m. max_attempts x = Inr m \<and> failure_count d' (tk_ID x) < m"
      "max_attempts x = Inr n \<Longrightarrow> failure_count d' (tk_ID x) \<le> max n 0"
      if "x \<in> set (tickets d)" for x n
      using ok m left that unfolding workflow_ok_def retry_budget_def held count by blast+
    moreover have "\<exists>x \<in> set (tickets d). tk_ID x = tk_ID x' \<and> max_attempts x = max_attempts x'"
      if "x' \<in> set (tickets d')" for x'
      using that by (auto simp: ts set_ticket_status_def set_update_rows mt)
    ultimately show ?thesis
      unfolding retry_budget_def by metis
  qed
  ultimately show ?thesis by (simp add: workflow_ok_def)
qed

text \<open>The end of an attempt: the ticket leaves progress.\<close>

lemma running_after_close:
  assumes "unique_key at_ID (attempts d)" and "a \<in> set (attempts d)"
    and "attempts d' = attempts (set_attempt (at_ID a) f d)"
    and "\<And>x. at_Status (f x) \<noteq> AttemptStatusRunning"
  shows "x \<in> set (attempts d') \<and> at_Status x = AttemptStatusRunning \<longleftrightarrow>
    x \<in> set (attempts d) \<and> at_Status x = AttemptStatusRunning \<and> x \<noteq> a"
proof -
  have "y = a" if "y \<in> set (attempts d)" "at_ID y = at_ID a" for y
    using assms(1) that assms(2) by (blast dest: unique_key_eqD)
  then show ?thesis
    using assms(2,4) by (auto simp: assms(3) attempts_set_attempt set_update_rows)
qed

lemma workflow_close:
  assumes ok: "workflow_ok d"
    and ts: "tickets d' = tickets (set_ticket_status env (at_TicketID a) st d)"
    and as: "attempts d' = attempts (set_attempt (at_ID a) f d)"
    and a: "a \<in> set (attempts d)" "at_Status a = AttemptStatusRunning"
    and keys: "keeps_attempt_keys f" and f: "\<And>x. at_Status (f x) \<noteq> AttemptStatusRunning"
    and st: "st \<in> set ticket_status_names" "st \<noteq> TicketStatusInProgress"
    and checks: "attempt_row_checks (f a)"
  shows "workflow_ok d'"
proof -
  have ua: "unique_key at_ID (attempts d)"
    using ok by (simp add: workflow_ok_def rows_ok_def)
  have self: "x = a" if "x \<in> set (attempts d)" "at_ID x = at_ID a" for x
    using ua that a(1) by (blast dest: unique_key_eqD)
  have solo: "x = a" if "x \<in> set (attempts d)" "at_Status x = AttemptStatusRunning"
    "at_TicketID x = at_TicketID a" for x
    by (rule one_runnerD [OF workflow_okD(2) [OF ok]]) (use that a in simp_all)
  have run: "x \<in> set (attempts d') \<and> at_Status x = AttemptStatusRunning \<longleftrightarrow>
      x \<in> set (attempts d) \<and> at_Status x = AttemptStatusRunning \<and> x \<noteq> a" for x
    using ua a(1) as f by (rule running_after_close)
  have held: "held d' k \<longleftrightarrow> held d k \<and> k \<noteq> at_TicketID a" for k
    using solo run unfolding held_def by metis
  have "one_runner d'"
    using ok run unfolding workflow_ok_def one_runner_def by metis
  moreover have "rows_ok d'"
    using ok ts as keys st(1) by (rule_tac rows_ok_attempt_keys)
      (auto simp: workflow_ok_def dest: self intro: checks)
  moreover have "progress_iff_held d'"
    using ok st(2) by (auto simp: workflow_ok_def progress_iff_held_def ts held
        set_ticket_status_def set_update_rows)
  moreover have "retry_budget d'"
  proof -
    have mt: "max_attempts (x\<lparr>tk_Status := s, tk_UpdatedAt := n\<rparr>) = max_attempts x" for x s n
      by (simp add: max_attempts_def)
    have "\<not> counts_as_failure k a" for k
      using a(2) by (simp add: counts_as_failure_def)
    then have count: "failure_count d' k = failure_count d k +
        (if counts_as_failure k (f a) then 1 else 0)" for k
      using count_update_row [OF ua a(1), of "counts_as_failure k" f] keeps_attempt_keysD(1) [OF keys]
      by (simp add: failure_count_def as attempts_set_attempt)
    have other: "failure_count d' k = failure_count d k" if "k \<noteq> at_TicketID a" for k
      using that keeps_attempt_keysD(2) [OF keys] by (simp add: count counts_as_failure_def)
    have le: "failure_count d' k \<le> failure_count d k + 1" for k
      by (simp add: count)
    have "held d (at_TicketID a)"
      using a by (auto simp: held_def)
    then have bound: "\<exists>m. max_attempts t = Inr m \<and> failure_count d' (tk_ID t) \<le> m"
      if "t \<in> set (tickets d)" "tk_ID t = at_TicketID a" for t
      using ok that le [of "at_TicketID a"]
      unfolding workflow_ok_def retry_budget_def by fastforce
    have "failure_count d' (tk_ID t) \<le> max m 0"
      if "t \<in> set (tickets d)" "max_attempts t = Inr m" for t m
    proof (cases "tk_ID t = at_TicketID a")
      case True
      with bound [OF that(1)] that(2) show ?thesis by auto
    next
      case False
      with ok that other show ?thesis by (simp add: workflow_ok_def retry_budget_def)
    qed
    moreover have "\<exists>m. max_attempts t = Inr m \<and> failure_count d' (tk_ID t) < m"
      if "t \<in> set (tickets d)" "held d' (tk_ID t)" for t
      using ok that held other by (auto simp: workflow_ok_def retry_budget_def)
    moreover have "\<exists>t \<in> set (tickets d). tk_ID t = tk_ID t' \<and> max_attempts t = max_attempts t'"
      if "t' \<in> set (tickets d')" for t'
      using that by (auto simp: ts set_ticket_status_def set_update_rows mt)
    ultimately show ?thesis
      unfolding retry_budget_def by metis
  qed
  ultimately show ?thesis by (simp add: workflow_ok_def)
qed

end
