(* ===== verification/Webhook_Store.thy ===== *)
theory Webhook_Store
  imports Claim_Store
begin

text \<open>
  The delivery statements of internal/db/webhooks.sql.go: claiming a batch of due deliveries
  under a token, recording the outcome of one, and deleting old finished rows.
\<close>

definition DeliveryPending :: string where "DeliveryPending = ''pending''"
definition DeliveryDelivering :: string where "DeliveryDelivering = ''delivering''"
definition DeliverySucceeded :: string where "DeliverySucceeded = ''succeeded''"
definition DeliveryFailed :: string where "DeliveryFailed = ''failed''"

lemma delivery_status_neq [simp]:
  "distinct [DeliveryPending, DeliveryDelivering, DeliverySucceeded, DeliveryFailed]"
  "DeliveryPending \<noteq> DeliveryDelivering" "DeliveryDelivering \<noteq> DeliveryPending"
  "DeliverySucceeded \<noteq> DeliveryDelivering" "DeliveryDelivering \<noteq> DeliverySucceeded"
  "DeliveryFailed \<noteq> DeliveryDelivering" "DeliveryDelivering \<noteq> DeliveryFailed"
  "DeliverySucceeded \<noteq> DeliveryPending" "DeliveryPending \<noteq> DeliverySucceeded"
  "DeliveryFailed \<noteq> DeliveryPending" "DeliveryPending \<noteq> DeliveryFailed"
  "DeliveryFailed \<noteq> DeliverySucceeded" "DeliverySucceeded \<noteq> DeliveryFailed"
  by (simp_all add: DeliveryPending_def DeliveryDelivering_def DeliverySucceeded_def
      DeliveryFailed_def)

record claim_deliveries_params =
  cdp_LockedUntil :: timestamp
  cdp_ClaimToken :: uuid
  cdp_Now :: timestamp
  cdp_BatchLimit :: int

definition delivery_due :: "claim_deliveries_params \<Rightarrow> db \<Rightarrow> webhook_delivery \<Rightarrow> bool" where
  "delivery_due p d r \<longleftrightarrow>
     (\<exists>s \<in> set (webhook_subscriptions d). wsub_ID s = wd_SubscriptionID r \<and> wsub_Active s) \<and>
     (wd_Status r = DeliveryPending \<or> wd_Status r = DeliveryDelivering) \<and>
     wd_AttemptCount r < wd_MaxAttempts r \<and> wd_NextAttemptAt r \<le> cdp_Now p \<and>
     (wd_Status r \<noteq> DeliveryDelivering \<or>
        (case wd_LockedUntil r of None \<Rightarrow> True | Some u \<Rightarrow> u \<le> cdp_Now p))"

definition due_deliveries ::
  "uuid list \<Rightarrow> claim_deliveries_params \<Rightarrow> db \<Rightarrow> webhook_delivery list" where
  "due_deliveries locked p d =
     limit_rows (cdp_BatchLimit p) (filter (\<lambda>r. wd_ID r \<notin> set locked)
       (sort_key wd_CreatedAt (filter (delivery_due p d) (webhook_deliveries d))))"

definition claim_delivery ::
  "pg_env \<Rightarrow> claim_deliveries_params \<Rightarrow> webhook_delivery \<Rightarrow> webhook_delivery" where
  "claim_delivery env p r =
     r\<lparr>wd_Status := DeliveryDelivering, wd_LockedUntil := Some (cdp_LockedUntil p),
       wd_ClaimToken := Some (cdp_ClaimToken p), wd_UpdatedAt := env_now env\<rparr>"

text \<open>The rows of the batch, oldest first, with the endpoint and secret of the subscription.\<close>

definition ClaimPendingWebhookDeliveries_stmt ::
  "uuid list \<Rightarrow> pg_env \<Rightarrow> claim_deliveries_params \<Rightarrow> db \<Rightarrow>
   (webhook_delivery \<times> webhook_subscription) list \<times> db" where
  "ClaimPendingWebhookDeliveries_stmt locked env p d =
     (let batch = due_deliveries locked p d;
          ids = map wd_ID batch in
      (concat (map (\<lambda>r. map (\<lambda>s. (claim_delivery env p r, s))
          (filter (\<lambda>s. wsub_ID s = wd_SubscriptionID r \<and> wsub_Active s)
             (webhook_subscriptions d))) batch),
       d\<lparr>webhook_deliveries :=
           update_rows (\<lambda>r. wd_ID r \<in> set ids) (claim_delivery env p) (webhook_deliveries d)\<rparr>))"

text \<open>The row that an outcome is recorded on: still being delivered under the caller's token.\<close>

definition owned_delivery :: "uuid \<Rightarrow> uuid option \<Rightarrow> db \<Rightarrow> pg_error + webhook_delivery" where
  "owned_delivery i token d =
     (case find_row wd_ID i (webhook_deliveries d) of
        None \<Rightarrow> Inl NoRows
      | Some r \<Rightarrow>
          (if token \<noteq> None \<and> wd_ClaimToken r = token \<and> wd_Status r = DeliveryDelivering
           then Inr r else Inl NoRows))"

record mark_succeeded_params =
  msp_AttemptCount :: int
  msp_AttemptedAt :: timestamp
  msp_ResponseStatus :: "int option"
  msp_ResponseBody :: "string option"
  msp_ID :: uuid
  msp_ClaimToken :: "uuid option"

definition MarkWebhookDeliverySucceeded_stmt ::
  "pg_env \<Rightarrow> mark_succeeded_params \<Rightarrow> db \<Rightarrow> pg_error + (webhook_delivery \<times> db)" where
  "MarkWebhookDeliverySucceeded_stmt env p d =
     and_then (owned_delivery (msp_ID p) (msp_ClaimToken p) d) (\<lambda>r.
     let done = (\<lambda>x. x\<lparr>wd_Status := DeliverySucceeded, wd_AttemptCount := msp_AttemptCount p,
           wd_LockedUntil := None, wd_LastAttemptAt := Some (msp_AttemptedAt p),
           wd_DeliveredAt := Some (msp_AttemptedAt p), wd_ResponseStatus := msp_ResponseStatus p,
           wd_ResponseBody := msp_ResponseBody p, wd_Error := None,
           wd_UpdatedAt := env_now env\<rparr>) in
     and_then (ensure (0 \<le> msp_AttemptCount p) CheckViolation) (\<lambda>_.
     Inr (done r, d\<lparr>webhook_deliveries :=
       update_rows (\<lambda>x. wd_ID x = wd_ID r) done (webhook_deliveries d)\<rparr>)))"

record mark_failed_params =
  mfp_AttemptCount :: int
  mfp_AttemptedAt :: timestamp
  mfp_ResponseStatus :: "int option"
  mfp_ResponseBody :: "string option"
  mfp_Error :: string
  mfp_NextAttemptAt :: timestamp
  mfp_ID :: uuid
  mfp_ClaimToken :: "uuid option"

definition MarkWebhookDeliveryFailed_stmt ::
  "pg_env \<Rightarrow> mark_failed_params \<Rightarrow> db \<Rightarrow> pg_error + (webhook_delivery \<times> db)" where
  "MarkWebhookDeliveryFailed_stmt env p d =
     and_then (owned_delivery (mfp_ID p) (mfp_ClaimToken p) d) (\<lambda>r.
     let retry = (\<lambda>x. x\<lparr>wd_Status :=
             (if wd_MaxAttempts x \<le> mfp_AttemptCount p then DeliveryFailed else DeliveryPending),
           wd_AttemptCount := mfp_AttemptCount p, wd_LockedUntil := None,
           wd_LastAttemptAt := Some (mfp_AttemptedAt p),
           wd_ResponseStatus := mfp_ResponseStatus p, wd_ResponseBody := mfp_ResponseBody p,
           wd_Error := Some (mfp_Error p), wd_NextAttemptAt := mfp_NextAttemptAt p,
           wd_UpdatedAt := env_now env\<rparr>) in
     and_then (ensure (0 \<le> mfp_AttemptCount p) CheckViolation) (\<lambda>_.
     Inr (retry r, d\<lparr>webhook_deliveries :=
       update_rows (\<lambda>x. wd_ID x = wd_ID r) retry (webhook_deliveries d)\<rparr>)))"

definition DeleteTerminalWebhookDeliveries_stmt :: "timestamp \<Rightarrow> db \<Rightarrow> int \<times> db" where
  "DeleteTerminalWebhookDeliveries_stmt cutoff d =
     (let old = (\<lambda>r. (wd_Status r = DeliverySucceeded \<or> wd_Status r = DeliveryFailed) \<and>
                     wd_UpdatedAt r < cutoff) in
      (int (length (filter old (webhook_deliveries d))),
       d\<lparr>webhook_deliveries := filter (\<lambda>r. \<not> old r) (webhook_deliveries d)\<rparr>))"

section \<open>What the statements leave alone\<close>

lemma owned_delivery_Inr_iff [result_simps]:
  "owned_delivery i token d = Inr r \<longleftrightarrow>
     find_row wd_ID i (webhook_deliveries d) = Some r \<and> token \<noteq> None \<and>
     wd_ClaimToken r = token \<and> wd_Status r = DeliveryDelivering"
  by (auto simp: owned_delivery_def split: option.splits)

lemma owned_delivery_Inl: "owned_delivery i token d = Inl e \<Longrightarrow> e = NoRows"
  by (auto simp: owned_delivery_def split: option.splits if_splits)

lemma claim_deliveries_core:
  "ClaimPendingWebhookDeliveries_stmt locked env p d = (rows, d') \<Longrightarrow> core d' = core d"
  by (auto simp: ClaimPendingWebhookDeliveries_stmt_def Let_def)

lemma mark_succeeded_core:
  "MarkWebhookDeliverySucceeded_stmt env p d = Inr (r, d') \<Longrightarrow> core d' = core d"
  by (auto simp: MarkWebhookDeliverySucceeded_stmt_def Let_def and_then_Inr_iff)

lemma mark_failed_core:
  "MarkWebhookDeliveryFailed_stmt env p d = Inr (r, d') \<Longrightarrow> core d' = core d"
  by (auto simp: MarkWebhookDeliveryFailed_stmt_def Let_def and_then_Inr_iff)

lemma delete_deliveries_core:
  "DeleteTerminalWebhookDeliveries_stmt cutoff d = (n, d') \<Longrightarrow> core d' = core d"
  by (auto simp: DeleteTerminalWebhookDeliveries_stmt_def Let_def)

end
