(* ===== verification/Resource_Store.thy ===== *)
theory Resource_Store
  imports Webhook_Store
begin

text \<open>
  The statements on the tables beside the workflow: artifacts (internal/db/artifacts.sql.go),
  agent capabilities (capabilities.sql.go), workspaces, projects and members
  (workspaces.sql.go) and webhook subscriptions (webhooks.sql.go), with the constraints that the
  migrations put on them. Text is ordered by the collation of the database, whose sort key is
  an argument (\<open>collate\<close>).
\<close>

section \<open>Artifacts\<close>

record create_artifact_params =
  cap_WorkspaceID :: "uuid option"
  cap_ProjectID :: "uuid option"
  cap_TicketID :: "uuid option"
  cap_AttemptID :: "uuid option"
  cap_Type :: string
  cap_Role :: string
  cap_Name :: string
  cap_Url :: string
  cap_StorageBackend :: string
  cap_SizeBytes :: int
  cap_MimeType :: string
  cap_Metadata :: json_raw

definition artifact_type_names :: "string list" where
  "artifact_type_names =
     [''code'', ''document'', ''image'', ''dataset'', ''log'', ''diff'', ''trace'',
      ''test_output'', ''screenshot'', ''handoff'', ''diagnostic'', ''final_response'', ''other'']"

definition artifact_role_names :: "string list" where
  "artifact_role_names =
     [''evidence'', ''patch'', ''context'', ''output'', ''diagnostic'', ''handoff'']"

definition artifact_row_checks :: "artifact \<Rightarrow> bool" where
  "artifact_row_checks a \<longleftrightarrow>
     ar_Type a \<in> set artifact_type_names \<and> ar_Role a \<in> set artifact_role_names \<and>
     ar_StorageBackend a \<in> set [''local'', ''s3''] \<and> 0 \<le> ar_SizeBytes a"

definition artifact_row_references :: "db \<Rightarrow> artifact \<Rightarrow> bool" where
  "artifact_row_references d a \<longleftrightarrow>
     ticket_in_scope d (ar_WorkspaceID a) (ar_ProjectID a) (ar_TicketID a) \<and>
     (\<forall>i \<in> set_option (ar_AttemptID a).
        attempt_in_scope d (ar_WorkspaceID a) (ar_ProjectID a) (ar_TicketID a) i)"

definition CreateArtifact_stmt ::
  "pg_env \<Rightarrow> create_artifact_params \<Rightarrow> db \<Rightarrow> pg_error + (artifact \<times> db)" where
  "CreateArtifact_stmt env p d =
     (case gen_random_uuid env d of (i, d1) \<Rightarrow>
      and_then (jsonb_in (cap_Metadata p)) (\<lambda>meta.
      and_then (not_null (cap_WorkspaceID p)) (\<lambda>w.
      and_then (not_null (cap_ProjectID p)) (\<lambda>pj.
      and_then (not_null (cap_TicketID p)) (\<lambda>t.
      let a = \<lparr>ar_ID = i, ar_WorkspaceID = w, ar_ProjectID = pj, ar_TicketID = t,
               ar_AttemptID = cap_AttemptID p, ar_Type = cap_Type p, ar_Role = cap_Role p,
               ar_Name = cap_Name p, ar_Url = cap_Url p, ar_StorageBackend = cap_StorageBackend p,
               ar_SizeBytes = cap_SizeBytes p, ar_MimeType = cap_MimeType p, ar_Metadata = meta,
               ar_CreatedAt = env_now env\<rparr> in
      and_then (ensure (artifact_row_checks a) CheckViolation) (\<lambda>_.
      and_then (insert_row ar_ID a (artifacts d1)) (\<lambda>as.
      and_then (ensure (artifact_row_references d1 a) ForeignKeyViolation) (\<lambda>_.
      Inr (a, d1\<lparr>artifacts := as\<rparr>)))))))))"

text \<open>
  The foreign key of migration 0013 from \<open>(workspace_id, project_id, source_artifact_id)\<close> of a
  ticket to an artifact is declared \<open>ON DELETE SET NULL\<close> without a column list, so that the
  deletion sets all three columns to null, of which the first two are declared not null.
\<close>

definition DeleteArtifact_stmt :: "uuid option \<Rightarrow> db \<Rightarrow> pg_error + db" where
  "DeleteArtifact_stmt i d =
     (case i of
        None \<Rightarrow> Inr d
      | Some k \<Rightarrow>
          and_then (ensure (\<not> (\<exists>a \<in> set (artifacts d). ar_ID a = k \<and>
              (\<exists>t \<in> set (tickets d). tk_SourceArtifactID t = Some k \<and>
                 tk_WorkspaceID t = ar_WorkspaceID a \<and> tk_ProjectID t = ar_ProjectID a)))
            NotNullViolation) (\<lambda>_.
          Inr (d\<lparr>artifacts := filter (\<lambda>a. ar_ID a \<noteq> k) (artifacts d)\<rparr>)))"

definition GetArtifact_stmt :: "uuid option \<Rightarrow> db \<Rightarrow> pg_error + artifact" where
  "GetArtifact_stmt i d =
     (case i of None \<Rightarrow> Inl NoRows
      | Some k \<Rightarrow> (case find_row ar_ID k (artifacts d) of None \<Rightarrow> Inl NoRows | Some a \<Rightarrow> Inr a))"

definition ListArtifactsByAttempt_stmt :: "uuid option \<Rightarrow> db \<Rightarrow> artifact list" where
  "ListArtifactsByAttempt_stmt i d =
     sort_key ar_CreatedAt (filter (\<lambda>a. i \<noteq> None \<and> ar_AttemptID a = i) (artifacts d))"

record list_artifacts_params =
  lap_WorkspaceID :: "uuid option"
  lap_ProjectID :: "uuid option"
  lap_TicketID :: "uuid option"
  lap_OffsetCount :: int
  lap_LimitCount :: int

definition ListArtifactsByScope_stmt :: "list_artifacts_params \<Rightarrow> db \<Rightarrow> artifact list" where
  "ListArtifactsByScope_stmt p d =
     limit_rows (lap_LimitCount p) (offset_rows (lap_OffsetCount p)
       (sort_key (\<lambda>a. - ar_CreatedAt a) (filter (\<lambda>a.
          Some (ar_WorkspaceID a) = lap_WorkspaceID p \<and>
          Some (ar_ProjectID a) = lap_ProjectID p \<and>
          (lap_TicketID p = None \<or> lap_TicketID p = Some (ar_TicketID a))) (artifacts d))))"

section \<open>Agent capabilities\<close>

record upsert_capability_params =
  ucp_WorkspaceID :: "uuid option"
  ucp_ProjectID :: "uuid option"
  ucp_AgentID :: string
  ucp_Harness :: string
  ucp_Model :: string
  ucp_Transports :: "string slice"
  ucp_Capabilities :: "string slice"
  ucp_ToolNames :: "string slice"
  ucp_ArtifactRoles :: "string slice"
  ucp_PreferredClaim :: json_raw
  ucp_Metadata :: json_raw
  ucp_LastSeenAt :: timestamp

definition capability_key :: "agent_capability \<Rightarrow> uuid \<times> uuid \<times> string \<times> string" where
  "capability_key c = (ac_WorkspaceID c, ac_ProjectID c, ac_AgentID c, ac_Harness c)"

text \<open>\<open>INSERT ... ON CONFLICT (key) DO UPDATE\<close>: the inserted or the updated row, and the table.\<close>

definition upsert_row :: "('r \<Rightarrow> 'k) \<Rightarrow> ('r \<Rightarrow> 'r) \<Rightarrow> 'r \<Rightarrow> 'r list \<Rightarrow> 'r \<times> 'r list" where
  "upsert_row key upd r rows =
     (case find_row key (key r) rows of
        None \<Rightarrow> (r, rows @ [r])
      | Some x \<Rightarrow> (upd x, update_rows (\<lambda>y. key y = key r) upd rows))"

definition set_capability :: "pg_env \<Rightarrow> agent_capability \<Rightarrow> agent_capability \<Rightarrow> agent_capability" where
  "set_capability env excluded x =
     x\<lparr>ac_Model := ac_Model excluded, ac_Transports := ac_Transports excluded,
       ac_Capabilities := ac_Capabilities excluded, ac_ToolNames := ac_ToolNames excluded,
       ac_ArtifactRoles := ac_ArtifactRoles excluded,
       ac_PreferredClaim := ac_PreferredClaim excluded, ac_Metadata := ac_Metadata excluded,
       ac_LastSeenAt := ac_LastSeenAt excluded, ac_UpdatedAt := env_now env\<rparr>"

definition new_capability ::
  "pg_env \<Rightarrow> upsert_capability_params \<Rightarrow> uuid \<Rightarrow> uuid \<Rightarrow> uuid \<Rightarrow> string list \<Rightarrow> string list \<Rightarrow>
   string list \<Rightarrow> string list \<Rightarrow> json \<Rightarrow> json \<Rightarrow> agent_capability" where
  "new_capability env p i w pj tr cs tn rs claim meta =
     \<lparr>ac_ID = i, ac_WorkspaceID = w, ac_ProjectID = pj, ac_AgentID = ucp_AgentID p,
      ac_Harness = ucp_Harness p, ac_Model = ucp_Model p, ac_Transports = tr,
      ac_Capabilities = cs, ac_ToolNames = tn, ac_ArtifactRoles = rs,
      ac_PreferredClaim = claim, ac_Metadata = meta, ac_LastSeenAt = ucp_LastSeenAt p,
      ac_CreatedAt = env_now env, ac_UpdatedAt = env_now env\<rparr>"

definition UpsertAgentCapability_stmt ::
  "pg_env \<Rightarrow> upsert_capability_params \<Rightarrow> db \<Rightarrow> pg_error + (agent_capability \<times> db)" where
  "UpsertAgentCapability_stmt env p d =
     (case gen_random_uuid env d of (i, d1) \<Rightarrow>
      and_then (jsonb_in (ucp_PreferredClaim p)) (\<lambda>claim.
      and_then (jsonb_in (ucp_Metadata p)) (\<lambda>meta.
      and_then (not_null (ucp_WorkspaceID p)) (\<lambda>w.
      and_then (not_null (ucp_ProjectID p)) (\<lambda>pj.
      and_then (not_null (ucp_Transports p)) (\<lambda>tr.
      and_then (not_null (ucp_Capabilities p)) (\<lambda>cs.
      and_then (not_null (ucp_ToolNames p)) (\<lambda>tn.
      and_then (not_null (ucp_ArtifactRoles p)) (\<lambda>rs.
      let r = new_capability env p i w pj tr cs tn rs claim meta;
          up = upsert_row capability_key (set_capability env r) r (agent_capabilities d1) in
      and_then (ensure (capability_key r \<in> capability_key ` set (agent_capabilities d1) \<or>
                  i \<notin> ac_ID ` set (agent_capabilities d1)) UniqueViolation) (\<lambda>_.
      and_then (ensure (project_in_scope d1 w pj) ForeignKeyViolation) (\<lambda>_.
      Inr (fst up, d1\<lparr>agent_capabilities := snd up\<rparr>))))))))))))"

definition GetAgentCapability_stmt ::
  "uuid option \<Rightarrow> uuid option \<Rightarrow> string \<Rightarrow> string \<Rightarrow> db \<Rightarrow> pg_error + agent_capability" where
  "GetAgentCapability_stmt w pj agent harness d =
     (case first_row (filter (\<lambda>c. Some (ac_WorkspaceID c) = w \<and> Some (ac_ProjectID c) = pj \<and>
             ac_AgentID c = agent \<and> ac_Harness c = harness) (agent_capabilities d)) of
        None \<Rightarrow> Inl NoRows
      | Some c \<Rightarrow> Inr c)"

definition ListAgentCapabilities_stmt ::
  "(string \<Rightarrow> 'k :: linorder) \<Rightarrow> uuid option \<Rightarrow> uuid option \<Rightarrow> string option \<Rightarrow> string option \<Rightarrow> db \<Rightarrow>
   agent_capability list" where
  "ListAgentCapabilities_stmt collate w pj harness capability d =
     sort_key (\<lambda>c. (collate (ac_Harness c), collate (ac_AgentID c)))
       (filter (\<lambda>c. Some (ac_WorkspaceID c) = w \<and> Some (ac_ProjectID c) = pj \<and>
          (harness = None \<or> harness = Some (ac_Harness c)) \<and>
          (\<forall>x \<in> set_option capability. x \<in> set (ac_Capabilities c))) (agent_capabilities d))"

section \<open>Workspaces, projects and members\<close>

definition CreateWorkspace_stmt :: "pg_env \<Rightarrow> string \<Rightarrow> db \<Rightarrow> pg_error + (workspace \<times> db)" where
  "CreateWorkspace_stmt env name d =
     (case gen_random_uuid env d of (i, d1) \<Rightarrow>
      let w = \<lparr>ws_ID = i, ws_Name = name, ws_CreatedAt = env_now env, ws_UpdatedAt = env_now env\<rparr> in
      and_then (insert_row ws_ID w (workspaces d1)) (\<lambda>rows.
      and_then (ensure (name \<notin> ws_Name ` set (workspaces d1)) UniqueViolation) (\<lambda>_.
      Inr (w, d1\<lparr>workspaces := rows\<rparr>))))"

definition CreateProject_stmt ::
  "pg_env \<Rightarrow> uuid option \<Rightarrow> string \<Rightarrow> db \<Rightarrow> pg_error + (project \<times> db)" where
  "CreateProject_stmt env ws name d =
     (case gen_random_uuid env d of (i, d1) \<Rightarrow>
      and_then (not_null ws) (\<lambda>w.
      let p = \<lparr>pj_ID = i, pj_WorkspaceID = w, pj_Name = name, pj_CreatedAt = env_now env,
               pj_UpdatedAt = env_now env\<rparr> in
      and_then (insert_row pj_ID p (projects d1)) (\<lambda>rows.
      and_then (ensure ((w, name) \<notin> (\<lambda>x. (pj_WorkspaceID x, pj_Name x)) ` set (projects d1))
        UniqueViolation) (\<lambda>_.
      and_then (ensure (w \<in> ws_ID ` set (workspaces d1)) ForeignKeyViolation) (\<lambda>_.
      Inr (p, d1\<lparr>projects := rows\<rparr>))))))"

definition GetWorkspace_stmt :: "uuid option \<Rightarrow> db \<Rightarrow> pg_error + workspace" where
  "GetWorkspace_stmt i d =
     (case i of None \<Rightarrow> Inl NoRows
      | Some k \<Rightarrow> (case find_row ws_ID k (workspaces d) of None \<Rightarrow> Inl NoRows | Some w \<Rightarrow> Inr w))"

definition GetProject_stmt :: "uuid option \<Rightarrow> db \<Rightarrow> pg_error + project" where
  "GetProject_stmt i d =
     (case i of None \<Rightarrow> Inl NoRows
      | Some k \<Rightarrow> (case find_row pj_ID k (projects d) of None \<Rightarrow> Inl NoRows | Some p \<Rightarrow> Inr p))"

definition ListWorkspaces_stmt :: "(string \<Rightarrow> 'k :: linorder) \<Rightarrow> db \<Rightarrow> workspace list" where
  "ListWorkspaces_stmt collate d = sort_key (\<lambda>w. collate (ws_Name w)) (workspaces d)"

definition ListProjectsByWorkspace_stmt ::
  "(string \<Rightarrow> 'k :: linorder) \<Rightarrow> uuid option \<Rightarrow> db \<Rightarrow> project list" where
  "ListProjectsByWorkspace_stmt collate w d =
     sort_key (\<lambda>p. collate (pj_Name p)) (filter (\<lambda>p. Some (pj_WorkspaceID p) = w) (projects d))"

record member_params =
  mp_WorkspaceID :: "uuid option"
  mp_MemberType :: string
  mp_MemberID :: string
  mp_Role :: string

definition member_key :: "workspace_member \<Rightarrow> uuid \<times> string \<times> string" where
  "member_key m = (wm_WorkspaceID m, wm_ActorType m, wm_ActorID m)"

text \<open>\<open>btrim\<close> removes spaces only.\<close>

definition member_row_checks :: "workspace_member \<Rightarrow> bool" where
  "member_row_checks m \<longleftrightarrow>
     wm_ActorType m \<in> set actor_types \<and>
     dropWhile (\<lambda>c. c = CHR '' '') (wm_ActorID m) \<noteq> [] \<and>
     wm_Role m \<in> set [''owner'', ''admin'', ''member'', ''viewer'']"

definition set_role :: "pg_env \<Rightarrow> string \<Rightarrow> workspace_member \<Rightarrow> workspace_member" where
  "set_role env role m = m\<lparr>wm_Role := role, wm_UpdatedAt := env_now env\<rparr>"

definition new_member :: "pg_env \<Rightarrow> member_params \<Rightarrow> uuid \<Rightarrow> workspace_member" where
  "new_member env p w =
     \<lparr>wm_WorkspaceID = w, wm_ActorType = mp_MemberType p, wm_ActorID = mp_MemberID p,
      wm_Role = mp_Role p, wm_CreatedAt = env_now env, wm_UpdatedAt = env_now env\<rparr>"

definition UpsertWorkspaceMember_stmt ::
  "pg_env \<Rightarrow> member_params \<Rightarrow> db \<Rightarrow> pg_error + (workspace_member \<times> db)" where
  "UpsertWorkspaceMember_stmt env p d =
     and_then (not_null (mp_WorkspaceID p)) (\<lambda>w.
     let up = upsert_row member_key (set_role env (mp_Role p)) (new_member env p w)
                (workspace_members d) in
     and_then (ensure (member_row_checks (new_member env p w)) CheckViolation) (\<lambda>_.
     and_then (ensure (w \<in> ws_ID ` set (workspaces d)) ForeignKeyViolation) (\<lambda>_.
     Inr (fst up, d\<lparr>workspace_members := snd up\<rparr>))))"

definition member_named :: "uuid option \<Rightarrow> string \<Rightarrow> string \<Rightarrow> workspace_member \<Rightarrow> bool" where
  "member_named w ty i m \<longleftrightarrow> Some (wm_WorkspaceID m) = w \<and> wm_ActorType m = ty \<and> wm_ActorID m = i"

definition UpdateWorkspaceMemberRole_stmt ::
  "pg_env \<Rightarrow> member_params \<Rightarrow> db \<Rightarrow> pg_error + (workspace_member \<times> db)" where
  "UpdateWorkspaceMemberRole_stmt env p d =
     (let named = member_named (mp_WorkspaceID p) (mp_MemberType p) (mp_MemberID p);
          upd = set_role env (mp_Role p) in
      case find named (workspace_members d) of
        None \<Rightarrow> Inl NoRows
      | Some m \<Rightarrow>
          and_then (ensure (member_row_checks (upd m)) CheckViolation) (\<lambda>_.
          Inr (upd m, d\<lparr>workspace_members := update_rows named upd (workspace_members d)\<rparr>)))"

definition DeleteWorkspaceMember_stmt :: "uuid option \<Rightarrow> string \<Rightarrow> string \<Rightarrow> db \<Rightarrow> db" where
  "DeleteWorkspaceMember_stmt w ty i d =
     d\<lparr>workspace_members := filter (\<lambda>m. \<not> member_named w ty i m) (workspace_members d)\<rparr>"

definition role_rank :: "string \<Rightarrow> nat" where
  "role_rank r =
     (if r = ''owner'' then 1 else if r = ''admin'' then 2 else if r = ''member'' then 3
      else if r = ''viewer'' then 4 else 5)"

definition ListWorkspaceMembers_stmt ::
  "(string \<Rightarrow> 'k :: linorder) \<Rightarrow> uuid option \<Rightarrow> db \<Rightarrow> workspace_member list" where
  "ListWorkspaceMembers_stmt collate w d =
     sort_key (\<lambda>m. (role_rank (wm_Role m), collate (wm_ActorType m), collate (wm_ActorID m)))
       (filter (\<lambda>m. Some (wm_WorkspaceID m) = w) (workspace_members d))"

section \<open>Webhook subscriptions\<close>

record create_subscription_params =
  csp_WorkspaceID :: "uuid option"
  csp_ProjectID :: "uuid option"
  csp_EndpointUrl :: string
  csp_Secret :: "string option"
  csp_EventTypes :: "string slice"
  csp_Active :: bool
  csp_MaxAttempts :: int
  csp_Description :: string

definition CreateWebhookSubscription_stmt ::
  "pg_env \<Rightarrow> create_subscription_params \<Rightarrow> db \<Rightarrow> pg_error + (webhook_subscription \<times> db)" where
  "CreateWebhookSubscription_stmt env p d =
     (case gen_random_uuid env d of (i, d1) \<Rightarrow>
      and_then (not_null (csp_WorkspaceID p)) (\<lambda>w.
      and_then (not_null (csp_ProjectID p)) (\<lambda>pj.
      and_then (not_null (csp_EventTypes p)) (\<lambda>types.
      let s = \<lparr>wsub_ID = i, wsub_WorkspaceID = w, wsub_ProjectID = pj,
               wsub_EndpointUrl = csp_EndpointUrl p, wsub_Secret = csp_Secret p,
               wsub_EventTypes = types, wsub_Active = csp_Active p,
               wsub_MaxAttempts = csp_MaxAttempts p, wsub_Description = csp_Description p,
               wsub_CreatedAt = env_now env, wsub_UpdatedAt = env_now env\<rparr> in
      and_then (ensure ((prefix ''http://'' (wsub_EndpointUrl s) \<or>
                 prefix ''https://'' (wsub_EndpointUrl s)) \<and> 0 < wsub_MaxAttempts s)
        CheckViolation) (\<lambda>_.
      and_then (insert_row wsub_ID s (webhook_subscriptions d1)) (\<lambda>rows.
      and_then (ensure (project_in_scope d1 w pj) ForeignKeyViolation) (\<lambda>_.
      Inr (s, d1\<lparr>webhook_subscriptions := rows\<rparr>))))))))"

definition ListWebhookSubscriptions_stmt ::
  "uuid option \<Rightarrow> uuid option \<Rightarrow> bool \<Rightarrow> db \<Rightarrow> webhook_subscription list" where
  "ListWebhookSubscriptions_stmt w pj activeOnly d =
     sort_key (\<lambda>s. - wsub_CreatedAt s) (filter (\<lambda>s. Some (wsub_WorkspaceID s) = w \<and>
       Some (wsub_ProjectID s) = pj \<and> (\<not> activeOnly \<or> wsub_Active s)) (webhook_subscriptions d))"

definition ListWebhookDeliveriesByEvent_stmt :: "uuid option \<Rightarrow> db \<Rightarrow> webhook_delivery list" where
  "ListWebhookDeliveriesByEvent_stmt e d =
     sort_key wd_CreatedAt (filter (\<lambda>r. Some (wd_EventID r) = e) (webhook_deliveries d))"

section \<open>Laws of the tables\<close>

text \<open>An upsert leaves exactly one row under its key, and every row under another key.\<close>

lemma upsert_row_lookup:
  assumes "\<And>x. key (upd x) = key x"
  shows "find_row key k (snd (upsert_row key upd r rows)) =
    (if k = key r then Some (fst (upsert_row key upd r rows)) else find_row key k rows)"
proof (cases "find_row key (key r) rows")
  case None
  then show ?thesis by (auto simp: upsert_row_def find_row_append split: option.splits)
next
  case (Some x)
  with assms find_row_SomeD [OF Some] show ?thesis
    by (auto simp: upsert_row_def find_row_update_rows map_option_case dest: find_row_SomeD
        split: option.splits)
qed

lemma upsert_row_key:
  "(\<And>x. key (upd x) = key x) \<Longrightarrow> key (fst (upsert_row key upd r rows)) = key r"
  by (auto simp: upsert_row_def dest: find_row_SomeD split: option.splits)

lemma upsert_row_unique:
  assumes "\<And>x. key (upd x) = key x" and "unique_key key rows"
  shows "unique_key key (snd (upsert_row key upd r rows))"
  using assms
  by (auto simp: upsert_row_def map_update_rows find_row_None_iff split: option.splits)

lemma capability_key_set [simp]: "capability_key (set_capability env r x) = capability_key x"
  by (simp add: capability_key_def set_capability_def)

lemma member_key_role [simp]: "member_key (set_role env r m) = member_key m"
  by (simp add: member_key_def set_role_def)

text \<open>What the statements do to their table, and that they leave the others alone.\<close>

lemma CreateArtifact_stmt_InrD:
  assumes "CreateArtifact_stmt env p d = Inr (a, d')"
  shows "d' = d\<lparr>id_ctr := Suc (id_ctr d), artifacts := artifacts d @ [a]\<rparr>"
    and "ar_ID a \<notin> ar_ID ` set (artifacts d)" and "artifact_row_checks a"
    and "artifact_row_references d a"
  using assms by (auto simp: CreateArtifact_stmt_def gen_random_uuid_def Let_def result_simps
      artifact_row_references_def ticket_in_scope_def attempt_in_scope_def)

lemma DeleteArtifact_stmt_InrD:
  assumes "DeleteArtifact_stmt i d = Inr d'"
  shows "d' = d\<lparr>artifacts := filter (\<lambda>a. Some (ar_ID a) \<noteq> i) (artifacts d)\<rparr>"
  using assms by (auto simp: DeleteArtifact_stmt_def result_simps split: option.splits)

lemma UpsertAgentCapability_stmt_InrD:
  assumes "UpsertAgentCapability_stmt env p d = Inr (c, d')"
  obtains i w pj tr cs tn rs claim meta r where
    "r = new_capability env p i w pj tr cs tn rs claim meta"
    and "d' = d\<lparr>id_ctr := Suc (id_ctr d), agent_capabilities :=
      snd (upsert_row capability_key (set_capability env r) r (agent_capabilities d))\<rparr>"
    and "c = fst (upsert_row capability_key (set_capability env r) r (agent_capabilities d))"
    and "ucp_WorkspaceID p = Some w" and "ucp_ProjectID p = Some pj"
    and "ucp_Transports p = Some tr" and "ucp_Capabilities p = Some cs"
    and "ucp_ToolNames p = Some tn" and "ucp_ArtifactRoles p = Some rs"
  using assms
  by (auto simp: UpsertAgentCapability_stmt_def gen_random_uuid_def Let_def result_simps)

lemma CreateWorkspace_stmt_InrD:
  assumes "CreateWorkspace_stmt env name d = Inr (w, d')"
  shows "d' = d\<lparr>id_ctr := Suc (id_ctr d), workspaces := workspaces d @ [w]\<rparr>"
  using assms by (auto simp: CreateWorkspace_stmt_def gen_random_uuid_def Let_def result_simps)

lemma CreateProject_stmt_InrD:
  assumes "CreateProject_stmt env ws name d = Inr (p, d')"
  shows "d' = d\<lparr>id_ctr := Suc (id_ctr d), projects := projects d @ [p]\<rparr>"
  using assms by (auto simp: CreateProject_stmt_def gen_random_uuid_def Let_def result_simps)

lemma UpsertWorkspaceMember_stmt_InrD:
  assumes "UpsertWorkspaceMember_stmt env p d = Inr (m, d')"
  obtains w where "mp_WorkspaceID p = Some w"
    and "d' = d\<lparr>workspace_members := snd (upsert_row member_key (set_role env (mp_Role p))
      (new_member env p w) (workspace_members d))\<rparr>"
    and "m = fst (upsert_row member_key (set_role env (mp_Role p)) (new_member env p w)
      (workspace_members d))"
  using assms by (auto simp: UpsertWorkspaceMember_stmt_def Let_def result_simps)

lemma UpdateWorkspaceMemberRole_stmt_InrD:
  assumes "UpdateWorkspaceMemberRole_stmt env p d = Inr (m, d')"
  shows "\<exists>rows. d' = d\<lparr>workspace_members := rows\<rparr>"
  using assms
  by (auto simp: UpdateWorkspaceMemberRole_stmt_def Let_def result_simps split: option.splits)

lemma CreateWebhookSubscription_stmt_InrD:
  assumes "CreateWebhookSubscription_stmt env p d = Inr (s, d')"
  shows "d' = d\<lparr>id_ctr := Suc (id_ctr d), webhook_subscriptions := webhook_subscriptions d @ [s]\<rparr>"
    and "0 < wsub_MaxAttempts s" and "wsub_ID s \<notin> wsub_ID ` set (webhook_subscriptions d)"
  using assms
  by (auto simp: CreateWebhookSubscription_stmt_def gen_random_uuid_def Let_def result_simps)

section \<open>The statements as steps\<close>

text \<open>One step of a client of these tables. A step leaves the tables of the workflow, the event log
  and the deliveries alone.\<close>

inductive resource_step :: "db \<Rightarrow> db \<Rightarrow> bool" where
  create_artifact: "CreateArtifact_stmt env ap d = Inr (a, d') \<Longrightarrow> resource_step d d'"
| delete_artifact: "DeleteArtifact_stmt i d = Inr d' \<Longrightarrow> resource_step d d'"
| upsert_capability: "UpsertAgentCapability_stmt env up d = Inr (c, d') \<Longrightarrow> resource_step d d'"
| create_workspace: "CreateWorkspace_stmt env name d = Inr (w, d') \<Longrightarrow> resource_step d d'"
| create_project: "CreateProject_stmt env ws name d = Inr (pj, d') \<Longrightarrow> resource_step d d'"
| upsert_member: "UpsertWorkspaceMember_stmt env mp d = Inr (m, d') \<Longrightarrow> resource_step d d'"
| update_member: "UpdateWorkspaceMemberRole_stmt env mp d = Inr (m, d') \<Longrightarrow> resource_step d d'"
| delete_member: "DeleteWorkspaceMember_stmt w ty j d = d' \<Longrightarrow> resource_step d d'"
| create_subscription:
    "CreateWebhookSubscription_stmt env sp d = Inr (s, d') \<Longrightarrow> resource_step d d'"

lemma resource_step_frame:
  assumes "resource_step d d'"
  shows "tickets d' = tickets d" and "ticket_dependencies d' = ticket_dependencies d"
    and "attempts d' = attempts d" and "attempt_checkpoints d' = attempt_checkpoints d"
    and "attempt_metrics d' = attempt_metrics d" and "ticket_events d' = ticket_events d"
    and "event_seq d' = event_seq d" and "idempotency_keys d' = idempotency_keys d"
    and "webhook_deliveries d' = webhook_deliveries d"
proof -
  have "tickets d' = tickets d \<and> ticket_dependencies d' = ticket_dependencies d \<and>
    attempts d' = attempts d \<and> attempt_checkpoints d' = attempt_checkpoints d \<and>
    attempt_metrics d' = attempt_metrics d \<and> ticket_events d' = ticket_events d \<and>
    event_seq d' = event_seq d \<and> idempotency_keys d' = idempotency_keys d \<and>
    webhook_deliveries d' = webhook_deliveries d"
    using assms
  proof (cases rule: resource_step.cases)
    case (create_artifact env ap a)
    from CreateArtifact_stmt_InrD(1) [OF this] show ?thesis by simp
  next
    case (delete_artifact i)
    from DeleteArtifact_stmt_InrD [OF this] show ?thesis by simp
  next
    case (upsert_capability env up c)
    then show ?thesis by (rule UpsertAgentCapability_stmt_InrD) simp
  next
    case (create_workspace env name w)
    from CreateWorkspace_stmt_InrD [OF this] show ?thesis by simp
  next
    case (create_project env ws name pj)
    from CreateProject_stmt_InrD [OF this] show ?thesis by simp
  next
    case (upsert_member env mp m)
    then show ?thesis by (rule UpsertWorkspaceMember_stmt_InrD) simp
  next
    case (update_member env mp m)
    from UpdateWorkspaceMemberRole_stmt_InrD [OF this] show ?thesis by auto
  next
    case (delete_member w ty j)
    then show ?thesis by (auto simp: DeleteWorkspaceMember_stmt_def)
  next
    case (create_subscription env sp s)
    from CreateWebhookSubscription_stmt_InrD(1) [OF this] show ?thesis by simp
  qed
  then show "tickets d' = tickets d" "ticket_dependencies d' = ticket_dependencies d"
    "attempts d' = attempts d" "attempt_checkpoints d' = attempt_checkpoints d"
    "attempt_metrics d' = attempt_metrics d" "ticket_events d' = ticket_events d"
    "event_seq d' = event_seq d" "idempotency_keys d' = idempotency_keys d"
    "webhook_deliveries d' = webhook_deliveries d"
    by simp_all
qed

end
