(* ===== verification/Lifecycle.thy ===== *)
theory Lifecycle
  imports Workflow Resource_Store
begin

text \<open>
  The program as a transition system. A step of the system is one statement of one client:
  statements are atomic, and the statements of concurrent requests and of the maintenance
  worker interleave freely, so a property of all reachable databases holds under every
  interleaving. \<open>stmt_step\<close> has one rule per statement that changes the modelled tables, with
  the arguments that the services can pass to it. \<open>workflow_step\<close> is the abstract machine on
  the tickets and attempts that the statements implement; the refinement is proved once, and
  the invariants are proved on the seven kinds of abstract steps.
\<close>

section \<open>Invariants of transition systems\<close>

locale invariant_system =
  fixes init :: "'s \<Rightarrow> bool" and step :: "'s \<Rightarrow> 's \<Rightarrow> bool" and inv :: "'s \<Rightarrow> bool"
  assumes base: "init s \<Longrightarrow> inv s"
    and preserved: "step s s' \<Longrightarrow> inv s \<Longrightarrow> inv s'"
begin

lemma steps: "step\<^sup>*\<^sup>* s s' \<Longrightarrow> inv s \<Longrightarrow> inv s'"
  by (induction rule: rtranclp_induct) (auto intro: preserved)

lemma reachable: "init s \<Longrightarrow> step\<^sup>*\<^sup>* s s' \<Longrightarrow> inv s'"
  by (auto intro: steps base)

end

section \<open>Statements\<close>

text \<open>The moves that the ticket service asks of \<open>TransitionTicket\<close>.\<close>

definition manual_edges :: "(string \<times> string) set" where
  "manual_edges =
     spec_moves ready_spec \<union> spec_moves reopen_spec \<union> spec_moves unblock_spec \<union>
     spec_moves request_review_spec \<union> spec_moves archive_spec \<union> review_moves"

inductive stmt_step :: "db \<Rightarrow> db \<Rightarrow> bool" where
  create_ticket: "CreateTicket_stmt env p d = Inr (t, d') \<Longrightarrow>
    ctp_Status p = TicketStatusBacklog \<or> ctp_Status p = TicketStatusTodo \<Longrightarrow> stmt_step d d'"
| create_dependency:
    "CreateTicketDependency_stmt env t on w p d = Inr (r, d') \<Longrightarrow> stmt_step d d'"
| create_event: "CreateTicketEvent_stmt env p raw d = Inr (e, d') \<Longrightarrow> stmt_step d d'"
| update_ticket: "UpdateTicket_stmt env p d = Inr (t, d') \<Longrightarrow> stmt_step d d'"
| transition_ticket: "TransitionTicket_stmt env p d = Inr (t, d') \<Longrightarrow>
    set (ttp_AllowedStatuses p) \<times> {ttp_Status p} \<subseteq> manual_edges \<Longrightarrow> stmt_step d d'"
| claim_next: "ClaimNextTicket_stmt locked env p d = Inr (r, d') \<Longrightarrow> stmt_step d d'"
| heartbeat: "HeartbeatAttempt_stmt env p d = Inr (a, d') \<Longrightarrow> stmt_step d d'"
| checkpoint: "CheckpointAttempt_stmt env p d = Inr (c, d') \<Longrightarrow> stmt_step d d'"
| complete: "CompleteAttempt_stmt env p d = Inr (r, d') \<Longrightarrow> stmt_step d d'"
| fail: "FailAttempt_stmt env p d = Inr (r, d') \<Longrightarrow> stmt_step d d'"
| block: "BlockAttempt_stmt env p d = Inr (r, d') \<Longrightarrow> stmt_step d d'"
| cancel: "CancelAttempt_stmt env p d = Inr (r, d') \<Longrightarrow> stmt_step d d'"
| expire: "ExpireAttempt_stmt env p d = Inr (r, d') \<Longrightarrow> stmt_step d d'"
| record_metrics: "CreateAttemptMetrics_stmt env p d = Inr (m, d') \<Longrightarrow> stmt_step d d'"
| delete_keys: "DeleteExpiredIdempotencyKeys_stmt env d = (n, d') \<Longrightarrow> stmt_step d d'"
| claim_deliveries:
    "ClaimPendingWebhookDeliveries_stmt locked env dp d = (rows, d') \<Longrightarrow> stmt_step d d'"
| delivery_succeeded:
    "MarkWebhookDeliverySucceeded_stmt env sp d = Inr (w, d') \<Longrightarrow> stmt_step d d'"
| delivery_failed: "MarkWebhookDeliveryFailed_stmt env fp d = Inr (w, d') \<Longrightarrow> stmt_step d d'"
| delete_deliveries: "DeleteTerminalWebhookDeliveries_stmt cutoff d = (n, d') \<Longrightarrow> stmt_step d d'"
| resource: "resource_step d d' \<Longrightarrow> stmt_step d d'"

text \<open>A database before the first ticket.\<close>

definition initial_db :: "db \<Rightarrow> bool" where
  "initial_db d \<longleftrightarrow> tickets d = [] \<and> attempts d = [] \<and> ticket_events d = []"

section \<open>The abstract machine\<close>

definition closing_statuses :: "string set" where
  "closing_statuses =
     {TicketStatusDone, TicketStatusNeedsReview, TicketStatusFailed, TicketStatusTodo,
      TicketStatusBlocked}"

definition keeps_ticket_keys :: "(ticket \<Rightarrow> ticket) \<Rightarrow> bool" where
  "keeps_ticket_keys f \<longleftrightarrow>
     (\<forall>t. tk_ID (f t) = tk_ID t \<and> tk_WorkspaceID (f t) = tk_WorkspaceID t \<and>
          tk_ProjectID (f t) = tk_ProjectID t \<and> tk_RetryPolicy (f t) = tk_RetryPolicy t \<and>
          tk_Status (f t) = tk_Status t \<and> tk_Type (f t) = tk_Type t \<and>
          tk_Priority (f t) = tk_Priority t \<and> tk_CreatedBy (f t) = tk_CreatedBy t)"

inductive workflow_step :: "db \<Rightarrow> db \<Rightarrow> bool" where
  quiet: "tickets d' = tickets d \<Longrightarrow> attempts d' = attempts d \<Longrightarrow> workflow_step d d'"
| new_ticket: "attempts d' = attempts d \<Longrightarrow> tickets d' = tickets d @ [t] \<Longrightarrow>
    tk_ID t \<notin> tk_ID ` set (tickets d) \<Longrightarrow> ticket_row_checks t \<Longrightarrow>
    tk_Status t = TicketStatusBacklog \<or> tk_Status t = TicketStatusTodo \<Longrightarrow> workflow_step d d'"
| patch: "attempts d' = attempts d \<Longrightarrow>
    tickets d' = update_rows (\<lambda>t. tk_ID t = k) f (tickets d) \<Longrightarrow> keeps_ticket_keys f \<Longrightarrow>
    workflow_step d d'"
| move: "attempts d' = attempts d \<Longrightarrow> find_row tk_ID k (tickets d) = Some t \<Longrightarrow>
    tickets d' = tickets (set_ticket_status env k st d) \<Longrightarrow> (tk_Status t, st) \<in> manual_edges \<Longrightarrow>
    workflow_step d d'"
| touch: "tickets d' = tickets d \<Longrightarrow> attempts d' = attempts (set_attempt (at_ID a) f d) \<Longrightarrow>
    a \<in> set (attempts d) \<Longrightarrow> at_Status a = AttemptStatusRunning \<Longrightarrow> keeps_attempt_keys f \<Longrightarrow>
    (\<And>x. at_Status (f x) = at_Status x) \<Longrightarrow>
    (attempt_row_checks a \<Longrightarrow> attempt_row_checks (f a)) \<Longrightarrow> workflow_step d d'"
| claim: "tickets d' = tickets (set_ticket_status env (tk_ID t) TicketStatusInProgress d) \<Longrightarrow>
    attempts d' = attempts d @ [a] \<Longrightarrow> t \<in> set (tickets d) \<Longrightarrow>
    tk_Status t = TicketStatusTodo \<Longrightarrow> \<not> has_open_dependency d (tk_ID t) \<Longrightarrow>
    at_TicketID a = tk_ID t \<Longrightarrow> at_WorkspaceID a = tk_WorkspaceID t \<Longrightarrow>
    at_ProjectID a = tk_ProjectID t \<Longrightarrow> at_Status a = AttemptStatusRunning \<Longrightarrow>
    attempt_row_checks a \<Longrightarrow> at_ID a \<notin> at_ID ` set (attempts d) \<Longrightarrow> \<not> held d (tk_ID t) \<Longrightarrow>
    max_attempts t = Inr m \<Longrightarrow> failure_count d (tk_ID t) < m \<Longrightarrow> workflow_step d d'"
| close: "tickets d' = tickets (set_ticket_status env (at_TicketID a) st d) \<Longrightarrow>
    attempts d' = attempts (set_attempt (at_ID a) f d) \<Longrightarrow> a \<in> set (attempts d) \<Longrightarrow>
    at_Status a = AttemptStatusRunning \<Longrightarrow> keeps_attempt_keys f \<Longrightarrow>
    (\<And>x. at_Status (f x) \<noteq> AttemptStatusRunning) \<Longrightarrow> attempt_row_checks (f a) \<Longrightarrow>
    st \<in> closing_statuses \<Longrightarrow> workflow_step d d'"

inductive_cases workflow_stepE: "workflow_step d d'"

lemmas edge_simps =
  manual_edges_def spec_moves_def transition_specs review_moves_def closing_statuses_def

lemma manual_edges_idle:
  assumes "(s, s') \<in> manual_edges"
  shows "s \<noteq> TicketStatusInProgress" and "s' \<noteq> TicketStatusInProgress"
    and "s \<noteq> TicketStatusArchived" and "s' \<in> set ticket_status_names"
  using assms by (auto simp: edge_simps ticket_status_names_def)

lemma workflow_step_ok:
  assumes "workflow_step d d'" and "workflow_ok d"
  shows "workflow_ok d'"
  using assms(1)
proof (cases rule: workflow_step.cases)
  case quiet
  then show ?thesis using workflow_cong [of d' d] assms(2) by blast
next
  case (new_ticket t)
  with assms(2) show ?thesis by (intro workflow_new_ticket [of d d' t]) auto
next
  case (patch k f)
  then show ?thesis
    by (intro workflow_update_ticket [OF assms(2), of d' k f])
      (auto simp: keeps_ticket_keys_def ticket_row_checks_def)
next
  case (move k t env st)
  have "x = t" if "x \<in> set (tickets d)" "tk_ID x = k" for x
    using that move(2) workflow_okD(1) [OF assms(2)] find_row_unique [of tk_ID "tickets d" x]
    by (simp add: rows_ok_def)
  with move manual_edges_idle [OF move(4)] show ?thesis
    by (intro workflow_update_ticket [OF assms(2), of d' k
          "\<lambda>t. t\<lparr>tk_Status := st, tk_UpdatedAt := env_now env\<rparr>"])
      (auto simp: set_ticket_status_def ticket_row_checks_def)
next
  case (touch a f)
  have "unique_key at_ID (attempts d)" "attempt_row_checks a"
    using workflow_okD(1) [OF assms(2)] touch(3) by (simp_all add: rows_ok_def)
  with touch show ?thesis
    by (intro workflow_touch_attempt [OF assms(2), of d' "at_ID a" f])
      (auto dest: unique_key_eqD)
next
  case (claim env t a m)
  with assms(2) show ?thesis by (intro workflow_claim [of d d' env t a m]) auto
next
  case (close env a st f)
  with assms(2) show ?thesis
    by (intro workflow_close [of d d' env a st f])
      (auto simp: closing_statuses_def ticket_status_names_def)
qed

section \<open>The statements implement the abstract machine\<close>

lemma failure_status_closing: "failure_status d t = Inr st \<Longrightarrow> st \<in> closing_statuses"
  by (auto simp: failure_status_def exhausted_status_def Let_def and_then_Inr_iff
      closing_statuses_def split: if_splits)

lemma exhausted_status_closing: "exhausted_status d t = Inr st \<Longrightarrow> st \<in> closing_statuses"
  by (auto simp: exhausted_status_def and_then_Inr_iff closing_statuses_def split: if_splits)

lemma success_status_closing: "success_status t = Inr st \<Longrightarrow> st \<in> closing_statuses"
  by (auto simp: success_status_def and_then_Inr_iff closing_statuses_def split: if_splits)

lemma transition_effect_step:
  assumes "transition_effect env i outcome rule ty actor d r d'"
    and "outcome \<noteq> AttemptStatusRunning"
    and "\<And>t st. rule d t = Inr st \<Longrightarrow> st \<in> closing_statuses"
  shows "workflow_step d d'"
  using assms(1)
proof (rule transition_effectE)
  fix a t f st e
  assume *: "find_row at_ID (at_ID a) (attempts d) = Some a" "at_Status a = AttemptStatusRunning"
    "keeps_attempt_keys f" "\<And>x. at_Status (f x) = outcome" "attempt_row_checks (f a)"
    "rule d t = Inr st" "core d' = core (transitioned env a f st e d)"
  show ?thesis
    by (rule workflow_step.close [of d' env a st d f])
      (use * assms(2,3) transitioned_tables [OF *(7)] in \<open>auto dest: find_row_SomeD\<close>)
qed

lemma heartbeat_tables:
  assumes "HeartbeatAttempt_stmt env p d = Inr (b, d')"
  obtains a f e where "running_attempt (hap_AttemptID p) d = Inr a" and "keeps_attempt_keys f"
    and "\<And>x. at_Status (f x) = at_Status x"
    and "attempt_row_checks a \<Longrightarrow> attempt_row_checks (f a)" and "b = f a"
    and "at_LeaseExpiresAt (f a) = hap_LeaseExpiresAt p"
    and "tickets d' = tickets d" and "attempts d' = attempts (set_attempt (at_ID a) f d)"
    and "ticket_events d' = ticket_events d @ [e]" and "event_seq d' = event_seq d + 1"
    and "ev_EventSequence e = event_seq d"
    and "ticket_dependencies d' = ticket_dependencies d"
proof -
  let ?f = "\<lambda>x. x\<lparr>at_LeaseExpiresAt := hap_LeaseExpiresAt p,
    at_LastHeartbeatAt := Some (hap_HeartbeatAt p)\<rparr>"
  from assms obtain a e ep where a: "running_attempt (hap_AttemptID p) d = Inr a" "b = ?f a"
    and ins: "insert_ticket_event env ep (set_attempt (at_ID a) ?f d) = Inr (e, d')"
    by (auto simp: HeartbeatAttempt_stmt_def Let_def and_then_Inr_iff split: prod.splits)
  note ev = insert_ticket_event_core [OF ins]
  from core_eqD [OF ev(1)] a ev(2) show ?thesis
    by (intro that [of a ?f e])
      (auto simp: keeps_attempt_keys_def attempt_row_checks_def set_attempt_def new_event_def)
qed

lemma checkpoint_tables:
  assumes "CheckpointAttempt_stmt env p d = Inr (c, d')"
  obtains a f e where "running_attempt (kap_AttemptID p) d = Inr a" and "keeps_attempt_keys f"
    and "\<And>x. at_Status (f x) = at_Status x" and "attempt_row_checks (f a)"
    and "tickets d' = tickets d" and "attempts d' = attempts (set_attempt (at_ID a) f d)"
    and "ticket_events d' = ticket_events d @ [e]" and "event_seq d' = event_seq d + 1"
    and "ev_EventSequence e = event_seq d"
    and "attempt_checkpoints d' = attempt_checkpoints d @ [c]" and "cp_AttemptID c = at_ID a"
    and "ticket_dependencies d' = ticket_dependencies d"
proof -
  let ?f = "\<lambda>x. x\<lparr>at_ProgressPercent := kap_ProgressPercent p,
    at_CurrentSummary := Some (kap_Summary p), at_NextStep := kap_NextStep p\<rparr>"
  from assms obtain a e ep cs i where a: "running_attempt (kap_AttemptID p) d = Inr a"
    "attempt_row_checks (?f a)" "cs = attempt_checkpoints d @ [c]" "c = new_checkpoint env p a i"
    and ins: "insert_ticket_event env ep ((set_attempt (at_ID a) ?f d)
      \<lparr>id_ctr := Suc (id_ctr d), attempt_checkpoints := cs\<rparr>) = Inr (e, d')"
    by (auto simp: CheckpointAttempt_stmt_def Let_def gen_random_uuid_def and_then_Inr_iff
        ensure_Inr_iff insert_row_Inr_iff split: prod.splits)
  note ev = insert_ticket_event_core [OF ins]
  from core_eqD [OF ev(1)] a ev(2) show ?thesis
    by (intro that [of a ?f e])
      (auto simp: keeps_attempt_keys_def set_attempt_def new_event_def new_checkpoint_def)
qed

lemma core_step: "core d' = core d \<Longrightarrow> workflow_step d d'"
  using core_eqD [of d' d] by (intro workflow_step.quiet) auto

lemma claim_tables:
  assumes "core d' = core (claimed env a e ks d)"
  shows "tickets d' = tickets (set_ticket_status env (at_TicketID a) TicketStatusInProgress d)"
    and "attempts d' = attempts d @ [a]" and "ticket_events d' = ticket_events d @ [e]"
    and "event_seq d' = event_seq d + 1"
    and "idempotency_keys d' = idempotency_keys d @ ks"
    and "ticket_dependencies d' = ticket_dependencies d"
  using core_eqD [OF assms] by (simp_all add: claimed_def set_ticket_status_def)

lemma claim_step:
  assumes "ClaimNextTicket_stmt locked env p d = Inr (r, d')"
  shows "workflow_step d d'"
  using assms
proof (rule ClaimNextTicket_stmt_InrD)
  fix t a e ks
  assume cand: "claim_candidate env locked p d = Inr t" and a: "a = new_attempt env p t (at_ID a)"
    and free: "\<And>b. b \<in> set (attempts d) \<Longrightarrow> at_TicketID b = tk_ID t \<Longrightarrow>
      at_Status b \<noteq> AttemptStatusRunning"
    and fresh: "at_ID a \<notin> at_ID ` set (attempts d)"
    and core: "core d' = core (claimed env a e ks d)"
  note c = claim_candidate_InrD [OF cand]
  from c(3) obtain m where m: "claim_matches p d t" "max_attempts t = Inr m"
    "failure_count d (tk_ID t) < m"
    by (auto simp: claimable_True_iff)
  have proj: "at_TicketID a = tk_ID t" "at_WorkspaceID a = tk_WorkspaceID t"
    "at_ProjectID a = tk_ProjectID t" "at_Status a = AttemptStatusRunning" "attempt_row_checks a"
    by (subst a, simp add: new_attempt_def attempt_row_checks_def attempt_status_names_def)+
  show ?thesis
    by (rule workflow_step.claim [of d' env t d a m])
      (use m proj c(1) free fresh claim_tables [OF core] in
        \<open>auto simp: claim_matches_def held_def\<close>)
qed

theorem stmt_step_refines: "stmt_step d d' \<Longrightarrow> workflow_step d d'"
proof (induction rule: stmt_step.induct)
  case (create_ticket env p d t d')
  note c = CreateTicket_stmt_InrD [OF create_ticket(1)]
  from core_eqD [OF c(1)] c create_ticket(2) show ?case
    by (intro workflow_step.new_ticket [of d' d t]) auto
next
  case (update_ticket env p d t d')
  then show ?case
  proof (rule UpdateTicket_stmt_InrD)
    fix k u vc
    assume "d' = d\<lparr>tickets := update_rows (\<lambda>r. tk_ID r = k) (patched_ticket env p vc) (tickets d)\<rparr>"
    then show ?case
      by (intro workflow_step.patch [of d' d k "patched_ticket env p vc"])
        (auto simp: keeps_ticket_keys_def)
  qed
next
  case (transition_ticket env p d t d')
  from transition_ticket(1) show ?case
  proof (rule TransitionTicket_stmt_InrD)
    fix k u e
    assume *: "find_row tk_ID k (tickets d) = Some u" "tk_Status u \<in> set (ttp_AllowedStatuses p)"
      "core d' = core ((set_ticket_status env k (ttp_Status p) d)
            \<lparr>ticket_events := ticket_events d @ [e], event_seq := event_seq d + 1\<rparr>)"
    from core_eqD [OF *(3)] * transition_ticket(2) show ?case
      by (intro workflow_step.move [of d' d k u env "ttp_Status p"]) auto
  qed
next
  case (heartbeat env p d b d')
  then show ?case
    by (rule heartbeat_tables)
      (rule workflow_step.touch, assumption+, auto simp: running_attempt_Inr_iff
        dest: find_row_SomeD)
next
  case (checkpoint env p d c d')
  then show ?case
    by (rule checkpoint_tables)
      (rule workflow_step.touch, assumption+, auto simp: running_attempt_Inr_iff
        dest: find_row_SomeD)
next
  case (claim_next locked env p d r d')
  then show ?case by (rule claim_step)
next
  case (complete env p d r d')
  then show ?case
    by (rule transition_effect_step [OF complete.effect complete.terminal])
      (rule success_status_closing)
next
  case (fail env p d r d')
  then show ?case
    by (rule transition_effect_step [OF fail.effect fail.terminal]) (rule failure_status_closing)
next
  case (block env p d r d')
  then show ?case
    by (rule transition_effect_step [OF block.effect block.terminal])
      (simp add: closing_statuses_def)
next
  case (cancel env p d r d')
  then show ?case
    by (rule transition_effect_step [OF cancel.effect cancel.terminal])
      (simp add: closing_statuses_def)
next
  case (expire env p d r d')
  then show ?case
    by (rule transition_effect_step [OF expire.effect expire.terminal])
      (rule exhausted_status_closing)
next
  case (create_dependency env t on w p d r d')
  from CreateTicketDependency_stmt_InrD(1) [OF this] show ?case
    by (intro workflow_step.quiet) simp_all
next
  case (create_event env p raw d e d')
  from core_eqD [OF CreateTicketEvent_stmt_core(1) [OF this]] show ?case
    by (intro workflow_step.quiet) simp_all
next
  case (record_metrics env p d m d')
  from CreateAttemptMetrics_stmt_frame [OF this] show ?case
    by (intro workflow_step.quiet) simp_all
next
  case (delete_keys env d n d')
  then show ?case
    by (intro workflow_step.quiet) (auto simp: DeleteExpiredIdempotencyKeys_stmt_def Let_def)
next
  case (resource d d')
  then show ?case by (intro workflow_step.quiet) (simp_all add: resource_step_frame)
qed (blast intro: core_step claim_deliveries_core mark_succeeded_core mark_failed_core
      delete_deliveries_core)+

interpretation workflow: invariant_system initial_db stmt_step workflow_ok
proof
  show "workflow_ok d" if "initial_db d" for d
    using that by (simp add: workflow_defs initial_db_def)
  show "workflow_ok d'" if "stmt_step d d'" "workflow_ok d" for d d'
    using that by (blast intro: workflow_step_ok stmt_step_refines)
qed

section \<open>The event log\<close>

text \<open>A statement appends at most one event, under the next sequence number.\<close>

definition logs :: "db \<Rightarrow> db \<Rightarrow> bool" where
  "logs d d' \<longleftrightarrow>
     (ticket_events d' = ticket_events d \<and> event_seq d' = event_seq d) \<or>
     (\<exists>e. ticket_events d' = ticket_events d @ [e] \<and> event_seq d' = event_seq d + 1 \<and>
          ev_EventSequence e = event_seq d)"

definition events_ok :: "db \<Rightarrow> bool" where
  "events_ok d \<longleftrightarrow>
     sorted_wrt (<) (map ev_EventSequence (ticket_events d)) \<and>
     (\<forall>e \<in> set (ticket_events d). ev_EventSequence e < event_seq d)"

lemma logs_ok: "logs d d' \<Longrightarrow> events_ok d \<Longrightarrow> events_ok d'"
  by (fastforce simp: logs_def events_ok_def sorted_wrt_append)

lemma transition_effect_logs: "transition_effect env i o' rule ty actor d r d' \<Longrightarrow> logs d d'"
  by (erule transition_effectE) (auto simp: logs_def dest: transitioned_tables)

lemma core_logs: "core d' = core d \<Longrightarrow> logs d d'"
  using core_eqD [of d' d] by (auto simp: logs_def)

lemma stmt_step_logs: "stmt_step d d' \<Longrightarrow> logs d d'"
proof (induction rule: stmt_step.induct)
  case (create_ticket env p d t d')
  from core_eqD [OF CreateTicket_stmt_InrD(1) [OF create_ticket(1)]] show ?case
    by (simp add: logs_def)
next
  case (create_dependency env t on w p d r d')
  from CreateTicketDependency_stmt_InrD(1) [OF this] show ?case by (simp add: logs_def)
next
  case (create_event env p raw d e d')
  note ev = CreateTicketEvent_stmt_core [OF this]
  from core_eqD [OF ev(1)] ev(2) show ?case by (auto simp: logs_def)
next
  case (update_ticket env p d t d')
  then show ?case by (rule UpdateTicket_stmt_InrD) (simp add: logs_def)
next
  case (transition_ticket env p d t d')
  from transition_ticket(1) show ?case
  proof (rule TransitionTicket_stmt_InrD)
    fix k u e
    assume *: "ev_EventSequence e = event_seq d"
      "core d' = core ((set_ticket_status env k (ttp_Status p) d)
            \<lparr>ticket_events := ticket_events d @ [e], event_seq := event_seq d + 1\<rparr>)"
    from core_eqD [OF *(2)] *(1) show ?case by (auto simp: logs_def)
  qed
next
  case (claim_next locked env p d r d')
  then show ?case
    by (rule ClaimNextTicket_stmt_InrD) (auto simp: logs_def dest: claim_tables)
next
  case (heartbeat env p d b d')
  then show ?case by (rule heartbeat_tables) (auto simp: logs_def)
next
  case (checkpoint env p d c d')
  then show ?case by (rule checkpoint_tables) (auto simp: logs_def)
next
  case (record_metrics env p d m d')
  from CreateAttemptMetrics_stmt_frame [OF this] show ?case by (simp add: logs_def)
next
  case (delete_keys env d n d')
  then show ?case by (auto simp: logs_def DeleteExpiredIdempotencyKeys_stmt_def Let_def)
next
  case (resource d d')
  then show ?case by (simp add: logs_def resource_step_frame)
qed (blast intro: transition_effect_logs complete.effect fail.effect block.effect cancel.effect
      expire.effect core_logs claim_deliveries_core mark_succeeded_core mark_failed_core
      delete_deliveries_core)+

interpretation event_log: invariant_system initial_db stmt_step events_ok
proof
  show "events_ok d" if "initial_db d" for d
    using that by (simp add: initial_db_def events_ok_def)
  show "events_ok d'" if "stmt_step d d'" "events_ok d" for d d'
    using that by (blast intro: logs_ok stmt_step_logs)
qed

lemma stmt_steps_append:
  assumes "stmt_step\<^sup>*\<^sup>* d d'"
  shows "\<exists>es. ticket_events d' = ticket_events d @ es"
  using assms
proof (induction rule: rtranclp_induct)
  case (step d1 d2)
  from stmt_step_logs [OF step(2)] step(3) show ?case by (auto simp: logs_def)
qed simp

section \<open>Attempts that have ended, tickets that are archived\<close>

lemma ended_attempt_step:
  assumes "workflow_step d d'" and "a \<in> set (attempts d)"
    and "at_Status a \<noteq> AttemptStatusRunning" and "unique_key at_ID (attempts d)"
  shows "a \<in> set (attempts d')"
proof -
  have keep: "a \<in> set (attempts (set_attempt (at_ID b) f d))"
    if "b \<in> set (attempts d)" "at_Status b = AttemptStatusRunning" for b f
  proof -
    have "at_ID a \<noteq> at_ID b"
      using assms(2-4) that by (auto dest: unique_key_eqD)
    with assms(2) show ?thesis by (force simp: attempts_set_attempt set_update_rows)
  qed
  from assms(1) show ?thesis
    by (cases rule: workflow_step.cases) (use assms(2) keep in auto)
qed

lemma ended_attempt_steps:
  assumes "stmt_step\<^sup>*\<^sup>* d d'" and "workflow_ok d" and "a \<in> set (attempts d)"
    and "at_Status a \<noteq> AttemptStatusRunning"
  shows "a \<in> set (attempts d')"
  using assms(1)
proof (induction rule: rtranclp_induct)
  case (step d1 d2)
  have "workflow_ok d1"
    using step(1) assms(2) by (rule workflow.steps)
  then have "unique_key at_ID (attempts d1)"
    by (simp add: workflow_ok_def rows_ok_def)
  with step assms(4) show ?case
    by (blast intro: ended_attempt_step stmt_step_refines)
qed (rule assms(3))

text \<open>The status graph of a ticket, written out.\<close>

definition status_edges :: "(string \<times> string) set" where
  "status_edges =
     {(TicketStatusBacklog, TicketStatusTodo), (TicketStatusBacklog, TicketStatusArchived),
      (TicketStatusTodo, TicketStatusInProgress), (TicketStatusTodo, TicketStatusNeedsReview),
      (TicketStatusTodo, TicketStatusArchived),
      (TicketStatusInProgress, TicketStatusDone), (TicketStatusInProgress, TicketStatusNeedsReview),
      (TicketStatusInProgress, TicketStatusFailed), (TicketStatusInProgress, TicketStatusTodo),
      (TicketStatusInProgress, TicketStatusBlocked),
      (TicketStatusBlocked, TicketStatusTodo), (TicketStatusBlocked, TicketStatusNeedsReview),
      (TicketStatusBlocked, TicketStatusArchived),
      (TicketStatusNeedsReview, TicketStatusDone), (TicketStatusNeedsReview, TicketStatusTodo),
      (TicketStatusNeedsReview, TicketStatusArchived),
      (TicketStatusDone, TicketStatusTodo), (TicketStatusDone, TicketStatusNeedsReview),
      (TicketStatusDone, TicketStatusArchived),
      (TicketStatusFailed, TicketStatusTodo), (TicketStatusFailed, TicketStatusNeedsReview),
      (TicketStatusFailed, TicketStatusArchived)}"

definition ticket_status_of :: "db \<Rightarrow> uuid \<Rightarrow> string option" where
  "ticket_status_of d k = map_option tk_Status (find_row tk_ID k (tickets d))"

lemma manual_edges_status: "manual_edges \<subseteq> status_edges"
  by (auto simp: edge_simps status_edges_def)

lemma ticket_status_of_Some:
  "ticket_status_of d k = Some s \<longleftrightarrow>
     (\<exists>t. find_row tk_ID k (tickets d) = Some t \<and> tk_Status t = s)"
  by (auto simp: ticket_status_of_def)

text \<open>
  What moves the status of the ticket \<open>k\<close> in one step: a claim, which starts an attempt on a todo
  ticket without open dependencies; the end of the running attempt; a transition that a person or
  an agent asks for, which leaves the attempts alone.
\<close>

definition status_move :: "db \<Rightarrow> db \<Rightarrow> uuid \<Rightarrow> string \<Rightarrow> string \<Rightarrow> bool" where
  "status_move d d' k s s' \<longleftrightarrow>
     s = TicketStatusTodo \<and> s' = TicketStatusInProgress \<and>
       \<not> held d k \<and> held d' k \<and> \<not> has_open_dependency d k \<or>
     s = TicketStatusInProgress \<and> s' \<in> closing_statuses \<and> held d k \<and> \<not> held d' k \<or>
     (s, s') \<in> manual_edges \<and> attempts d' = attempts d"

lemma status_move_edge: "status_move d d' k s s' \<Longrightarrow> (s, s') \<in> status_edges"
  unfolding status_move_def
proof (elim disjE conjE)
  assume "s = TicketStatusInProgress" and "s' \<in> closing_statuses"
  then show ?thesis by (auto simp: status_edges_def closing_statuses_def)
next
  assume "(s, s') \<in> manual_edges"
  with manual_edges_status show ?thesis by (rule subsetD)
qed (simp add: status_edges_def)

lemma held_iff_in_progress:
  assumes "workflow_ok d" and "find_row tk_ID k (tickets d) = Some t"
  shows "held d k \<longleftrightarrow> tk_Status t = TicketStatusInProgress"
  using workflow_okD(3) [OF assms(1)] assms(2)
  by (auto simp: progress_iff_held_def dest!: find_row_SomeD)

lemma status_step:
  assumes "workflow_step d d'" and "workflow_ok d" and "find_row tk_ID k (tickets d) = Some u"
  shows "\<exists>u'. find_row tk_ID k (tickets d') = Some u' \<and>
    (tk_Status u' = tk_Status u \<or> status_move d d' k (tk_Status u) (tk_Status u'))"
proof -
  have uk: "tk_ID u = k" using assms(3) by (auto dest: find_row_SomeD)
  have at: "x = u" if "x \<in> set (tickets d)" "tk_ID x = k" for x
  proof -
    have "unique_key tk_ID (tickets d)"
      using workflow_okD(1) [OF assms(2)] by (simp add: rows_ok_def)
    then have "find_row tk_ID (tk_ID x) (tickets d) = Some x"
      using that(1) by (rule find_row_unique)
    with that(2) assms(3) show ?thesis by simp
  qed
  note held = held_iff_in_progress [OF assms(2,3)]
  have held': "held d' k \<longleftrightarrow> tk_Status u' = TicketStatusInProgress"
    if "find_row tk_ID k (tickets d') = Some u'" for u'
    by (rule held_iff_in_progress [OF workflow_step_ok [OF assms(1,2)] that])
  from assms(1) show ?thesis
  proof (cases rule: workflow_step.cases)
    case quiet
    with assms(3) show ?thesis by simp
  next
    case (new_ticket t)
    with assms(3) show ?thesis by (simp add: find_row_append)
  next
    case (patch i f)
    with assms(3) show ?thesis by (simp add: keeps_ticket_keys_def find_row_update_rows)
  next
    case (move i t env st)
    with assms(3) uk show ?thesis by (auto simp: status_move_def)
  next
    case (touch a f)
    with assms(3) show ?thesis by simp
  next
    case (claim env t a m)
    have "tk_ID t = k \<Longrightarrow> t = u" using at claim(3) by blast
    with claim(1,4,5) assms(3) uk held held' show ?thesis by (auto simp: status_move_def)
  next
    case (close env a st f)
    obtain t where t: "t \<in> set (tickets d)" "tk_ID t = at_TicketID a"
      using workflow_okD(1) [OF assms(2)] close(3) by (rule attempt_ticket)
    have "held d (tk_ID t)"
      using close(3,4) t(2) by (auto simp: held_def)
    then have "at_TicketID a = k \<Longrightarrow> tk_Status u = TicketStatusInProgress"
      using held t(2) by simp
    moreover have "st \<noteq> TicketStatusInProgress"
      using close(8) by (auto simp: closing_statuses_def)
    ultimately show ?thesis
      using assms(3) uk close(1,8) held held' by (auto simp: status_move_def)
  qed
qed

lemma status_steps:
  assumes "stmt_step\<^sup>*\<^sup>* d d'" and "workflow_ok d" and "ticket_status_of d k = Some s"
  shows "\<exists>s'. ticket_status_of d' k = Some s' \<and> (s, s') \<in> status_edges\<^sup>*"
  using assms(1)
proof (induction rule: rtranclp_induct)
  case base
  with assms(3) show ?case by simp
next
  case (step d1 d2)
  then obtain u where u: "find_row tk_ID k (tickets d1) = Some u"
    "(s, tk_Status u) \<in> status_edges\<^sup>*"
    by (auto simp: ticket_status_of_Some)
  have "workflow_ok d1"
    using step(1) assms(2) by (rule workflow.steps)
  from status_step [OF stmt_step_refines [OF step(2)] this u(1)] obtain u' where
    u': "find_row tk_ID k (tickets d2) = Some u'"
    "tk_Status u' = tk_Status u \<or> status_move d1 d2 k (tk_Status u) (tk_Status u')"
    by blast
  from u(2) u'(2) status_move_edge have "(s, tk_Status u') \<in> status_edges\<^sup>*"
    by (metis rtrancl_into_rtrancl)
  with u'(1) show ?case by (simp add: ticket_status_of_def)
qed

end
