(* ===== verification/Maintenance_Worker.thy ===== *)
theory Maintenance_Worker
  imports Lifecycle Forge_Service
begin

text \<open>
  internal/jobs/maintenance.go: expiring attempts whose lease ran out and deleting expired
  idempotency records and old finished webhook deliveries. One run returns from any state; in
  a reachable state it succeeds, and a batch that is large enough leaves no expired lease.
\<close>

record maintenance_result =
  mx_ExpiredAttempts :: int
  mx_SkippedExpiryRaces :: int
  mx_DeletedIdempotencyKeys :: int
  mx_DeletedWebhookDeliveries :: int

definition no_maintenance :: maintenance_result where
  "no_maintenance =
     \<lparr>mx_ExpiredAttempts = 0, mx_SkippedExpiryRaces = 0, mx_DeletedIdempotencyKeys = 0,
      mx_DeletedWebhookDeliveries = 0\<rparr>"

record maintenance_worker =
  mw_batchLimit :: int
  mw_webhookRetention :: duration

definition NewMaintenanceWorker :: "maintenance_worker \<Rightarrow> maintenance_worker" where
  "NewMaintenanceWorker w =
     (if mw_batchLimit w \<le> 0 then w\<lparr>mw_batchLimit := 100\<rparr> else w)"

definition expireParams :: "timestamp \<Rightarrow> attempt \<Rightarrow> expire_attempt_params" where
  "expireParams now a =
     \<lparr>eap_CompletedAt = now, eap_AttemptID = Some (at_ID a), eap_ExpirationCutoff = now\<rparr>"

fun expireEach ::
  "timestamp \<Rightarrow> pg_env \<Rightarrow> attempt list \<Rightarrow> maintenance_result \<Rightarrow> maintenance_result svc" where
  "expireEach now env [] res d = (Inr res, d)"
| "expireEach now env (a # as) res d =
     (case ExpireAttempt_stmt env (expireParams now a) d of
        Inl e \<Rightarrow>
          (if e = NoRows
           then expireEach now env as
                  (res\<lparr>mx_SkippedExpiryRaces := mx_SkippedExpiryRaces res + 1\<rparr>) d
           else (Inl (StoreError ''expire attempt'' e), d))
      | Inr (r, d') \<Rightarrow>
          expireEach now env as (res\<lparr>mx_ExpiredAttempts := mx_ExpiredAttempts res + 1\<rparr>) d')"

definition RunOnce :: "maintenance_worker \<Rightarrow> timestamp \<Rightarrow> pg_env \<Rightarrow> maintenance_result svc" where
  "RunOnce w now env =
     svc_bind (svc_read (ListExpiredRunningAttempts_stmt now (mw_batchLimit w))) (\<lambda>expired.
     svc_bind (expireEach now env expired no_maintenance) (\<lambda>res d.
       (case DeleteExpiredIdempotencyKeys_stmt env d of (n, d1) \<Rightarrow>
        let res1 = res\<lparr>mx_DeletedIdempotencyKeys := n\<rparr> in
        if 0 < mw_webhookRetention w
        then (case DeleteTerminalWebhookDeliveries_stmt (now - mw_webhookRetention w) d1 of
                (k, d2) \<Rightarrow> (Inr (res1\<lparr>mx_DeletedWebhookDeliveries := k\<rparr>), d2))
        else (Inr res1, d1))))"

section \<open>A run from a reachable state\<close>

lemma expire_overdue:
  assumes ok: "workflow_ok d" and fresh: "gen_fresh env (event_ids d + n) d" and a: "a \<in> set (attempts d)"
    "at_Status a = AttemptStatusRunning" and due: "at_LeaseExpiresAt a < now"
  obtains r d' where "ExpireAttempt_stmt env (expireParams now a) d = Inr (r, d')"
    and "workflow_ok d'" and "gen_fresh env n d'" and "event_ids d' = event_ids d"
    and "\<And>x. x \<in> set (attempts d') \<and> at_Status x = AttemptStatusRunning \<longleftrightarrow>
           x \<in> set (attempts d) \<and> at_Status x = AttemptStatusRunning \<and> x \<noteq> a"
proof -
  let ?close = "\<lambda>x. x\<lparr>at_Status := AttemptStatusExpired,
    at_FailureReason := Some ''lease expired'', at_CompletedAt := Some now\<rparr>"
  have rows: "rows_ok d" and ua: "unique_key at_ID (attempts d)"
    using ok by (simp_all add: workflow_ok_def rows_ok_def)
  obtain t where t: "t \<in> set (tickets d)" "tk_ID t = at_TicketID a"
    using rows a(1) by (rule attempt_ticket)
  have find: "find_row tk_ID (at_TicketID a) (tickets d) = Some t"
    using rows t find_row_unique [of tk_ID "tickets d" t] by (simp add: rows_ok_def)
  have "held d (tk_ID t)" using a t(2) by (auto simp: held_def)
  then obtain m where "max_attempts t = Inr m"
    using workflow_okD(4) [OF ok] t(1) by (auto simp: retry_budget_def)
  then obtain st where st: "exhausted_status d t = Inr st"
    by (auto simp: exhausted_status_def)
  have run: "running_attempt (Some (at_ID a)) d = Inr a"
    using a find_row_unique [OF ua a(1)] by (simp add: running_attempt_Inr_iff)
  have "attempt_row_checks a" "ticket_in_scope d (at_WorkspaceID a) (at_ProjectID a) (at_TicketID a)"
    using rows a(1) by (simp_all add: rows_ok_def)
  then have "\<exists>r d'. ExpireAttempt_stmt env (expireParams now a) d = Inr (r, d') \<and> gen_fresh env n d'"
    unfolding ExpireAttempt_stmt_def expireParams_def
    using fresh run due find st
    by (intro transition_attempt_succeeds [where a = a and t = t and st = st])
      (auto simp: attempt_row_checks_def attempt_status_names_def ticket_event_types_def
        actor_types_def)
  then obtain r d' where x: "ExpireAttempt_stmt env (expireParams now a) d = Inr (r, d')"
    "gen_fresh env n d'"
    by blast
  then have ok': "workflow_ok d'"
    using ok by (blast intro: workflow.preserved stmt_step.expire)
  from x(1) obtain b f where b: "eap_AttemptID (expireParams now a) = Some (at_ID b)"
    "find_row at_ID (at_ID b) (attempts d) = Some b" "\<And>x. at_Status (f x) = AttemptStatusExpired"
    "attempts d' = attempts (set_attempt (at_ID b) f d)"
    by (rule expire.attempts_after) (rule that, assumption+)
  have "b = a"
    using run b by (simp add: expireParams_def running_attempt_Inr_iff)
  with b(4) have as: "attempts d' = attempts (set_attempt (at_ID a) f d)"
    by simp
  have ids: "event_ids d' = event_ids d"
    using expire.effect [OF x(1)]
    by (rule transition_effectE) (auto simp: event_ids_def dest: transitioned_tables(11))
  show ?thesis
    by (rule that [OF x(1) ok' x(2) ids]) (rule running_after_close [OF ua a(1) as], simp add: b(3))
qed

lemma expireEach_overdue:
  assumes "workflow_ok d" and "gen_fresh env (length as * event_ids d) d" and "distinct as"
    and "\<And>a. a \<in> set as \<Longrightarrow> a \<in> set (attempts d) \<and> at_Status a = AttemptStatusRunning \<and>
           at_LeaseExpiresAt a < now"
  shows "\<exists>d'. expireEach now env as res d =
      (Inr (res\<lparr>mx_ExpiredAttempts := mx_ExpiredAttempts res + int (length as)\<rparr>), d') \<and>
    workflow_ok d' \<and>
    (\<forall>x. x \<in> set (attempts d') \<and> at_Status x = AttemptStatusRunning \<longleftrightarrow>
       x \<in> set (attempts d) \<and> at_Status x = AttemptStatusRunning \<and> x \<notin> set as)"
  using assms
proof (induction as arbitrary: d res)
  case Nil
  then show ?case by simp
next
  case (Cons a as)
  have a: "a \<in> set (attempts d)" "at_Status a = AttemptStatusRunning" "at_LeaseExpiresAt a < now"
    using Cons.prems(4) [of a] by simp_all
  obtain r d1 where d1: "ExpireAttempt_stmt env (expireParams now a) d = Inr (r, d1)"
    "workflow_ok d1" "gen_fresh env (length as * event_ids d) d1" "event_ids d1 = event_ids d"
    and run: "\<And>x. x \<in> set (attempts d1) \<and> at_Status x = AttemptStatusRunning \<longleftrightarrow>
           x \<in> set (attempts d) \<and> at_Status x = AttemptStatusRunning \<and> x \<noteq> a"
    using expire_overdue [OF Cons.prems(1) _ a, of env "length as * event_ids d"] Cons.prems(2)
    by auto
  have rest: "x \<in> set (attempts d1) \<and> at_Status x = AttemptStatusRunning \<and> at_LeaseExpiresAt x < now"
    if "x \<in> set as" for x
    using run [of x] Cons.prems(3) Cons.prems(4) [of x] that by auto
  have "distinct as" using Cons.prems(3) by simp
  have "\<exists>d'. expireEach now env as (res\<lparr>mx_ExpiredAttempts := mx_ExpiredAttempts res + 1\<rparr>) d1 =
      (Inr (res\<lparr>mx_ExpiredAttempts := mx_ExpiredAttempts res + 1 + int (length as)\<rparr>), d') \<and>
    workflow_ok d' \<and>
    (\<forall>x. x \<in> set (attempts d') \<and> at_Status x = AttemptStatusRunning \<longleftrightarrow>
       x \<in> set (attempts d1) \<and> at_Status x = AttemptStatusRunning \<and> x \<notin> set as)"
    using Cons.IH [OF d1(2) d1(3) [folded d1(4)] \<open>distinct as\<close> rest,
      of "res\<lparr>mx_ExpiredAttempts := mx_ExpiredAttempts res + 1\<rparr>"]
    by simp
  then obtain d' where d': "expireEach now env as
      (res\<lparr>mx_ExpiredAttempts := mx_ExpiredAttempts res + 1\<rparr>) d1 =
      (Inr (res\<lparr>mx_ExpiredAttempts := mx_ExpiredAttempts res + 1 + int (length as)\<rparr>), d')"
    "workflow_ok d'"
    "\<And>x. x \<in> set (attempts d') \<and> at_Status x = AttemptStatusRunning \<longleftrightarrow>
       x \<in> set (attempts d1) \<and> at_Status x = AttemptStatusRunning \<and> x \<notin> set as"
    by blast
  have "x \<in> set (attempts d') \<and> at_Status x = AttemptStatusRunning \<longleftrightarrow>
      x \<in> set (attempts d) \<and> at_Status x = AttemptStatusRunning \<and> x \<notin> set (a # as)" for x
    using d'(3) [of x] run [of x] by auto
  with d'(1,2) show ?case
    using d1(1) by (auto simp: algebra_simps)
qed

lemma expired_batch:
  assumes "workflow_ok d"
  shows "distinct (ListExpiredRunningAttempts_stmt now lim d)"
    and "a \<in> set (ListExpiredRunningAttempts_stmt now lim d) \<Longrightarrow>
      a \<in> set (attempts d) \<and> at_Status a = AttemptStatusRunning \<and> at_LeaseExpiresAt a < now"
proof -
  have "distinct (attempts d)"
    using workflow_okD(1) [OF assms] by (auto simp: rows_ok_def distinct_map)
  then show "distinct (ListExpiredRunningAttempts_stmt now lim d)"
    by (simp add: ListExpiredRunningAttempts_stmt_def limit_rows_def)
  show "a \<in> set (attempts d) \<and> at_Status a = AttemptStatusRunning \<and> at_LeaseExpiresAt a < now"
    if "a \<in> set (ListExpiredRunningAttempts_stmt now lim d)"
    using that by (auto simp: ListExpiredRunningAttempts_stmt_def limit_rows_def dest: in_set_takeD)
qed

text \<open>The running attempts whose lease has run out.\<close>

definition overdue :: "timestamp \<Rightarrow> db \<Rightarrow> attempt list" where
  "overdue now d =
     filter (\<lambda>a. at_Status a = AttemptStatusRunning \<and> at_LeaseExpiresAt a < now) (attempts d)"

lemma expired_batch_length:
  "0 \<le> lim \<Longrightarrow> int (length (ListExpiredRunningAttempts_stmt now lim d)) =
     min (int (length (overdue now d))) lim"
  by (simp add: ListExpiredRunningAttempts_stmt_def limit_rows_def overdue_def of_nat_min)

lemma overdue_card:
  assumes "workflow_ok d"
  shows "length (overdue now d) = card {a \<in> set (attempts d).
    at_Status a = AttemptStatusRunning \<and> at_LeaseExpiresAt a < now}"
proof -
  have "distinct (overdue now d)"
    using workflow_okD(1) [OF assms] by (auto simp: overdue_def rows_ok_def distinct_map)
  then show ?thesis
    by (simp add: overdue_def distinct_card [symmetric])
qed

lemma RunOnce_reachable:
  assumes "workflow_ok d"
    and "gen_fresh env (length (ListExpiredRunningAttempts_stmt now (mw_batchLimit w) d) *
           event_ids d) d"
  shows "\<exists>res d'. RunOnce w now env d = (Inr res, d') \<and>
    mx_ExpiredAttempts res =
      int (length (ListExpiredRunningAttempts_stmt now (mw_batchLimit w) d)) \<and>
    mx_SkippedExpiryRaces res = 0 \<and>
    (\<forall>x. x \<in> set (attempts d') \<and> at_Status x = AttemptStatusRunning \<longleftrightarrow>
       x \<in> set (attempts d) \<and> at_Status x = AttemptStatusRunning \<and>
       x \<notin> set (ListExpiredRunningAttempts_stmt now (mw_batchLimit w) d)) \<and>
    length (overdue now d') + length (ListExpiredRunningAttempts_stmt now (mw_batchLimit w) d) =
      length (overdue now d) \<and>
    (\<forall>k \<in> set (idempotency_keys d'). env_now env \<le> ik_ExpiresAt k)"
proof -
  let ?L = "ListExpiredRunningAttempts_stmt now (mw_batchLimit w) d"
  let ?due = "\<lambda>d. {a \<in> set (attempts d). at_Status a = AttemptStatusRunning \<and>
    at_LeaseExpiresAt a < now}"
  note batch = expired_batch [OF assms(1), where now = now and lim = "mw_batchLimit w"]
  from expireEach_overdue [where now = now and res = no_maintenance, OF assms batch]
  obtain d1 where d1: "expireEach now env ?L no_maintenance d =
      (Inr (no_maintenance\<lparr>mx_ExpiredAttempts := int (length ?L)\<rparr>), d1)" "workflow_ok d1"
    and run: "\<And>x. x \<in> set (attempts d1) \<and> at_Status x = AttemptStatusRunning \<longleftrightarrow>
       x \<in> set (attempts d) \<and> at_Status x = AttemptStatusRunning \<and> x \<notin> set ?L"
    by (auto simp: no_maintenance_def)
  have "?due d1 = ?due d - set ?L" using run by blast
  moreover have "set ?L \<subseteq> ?due d" using batch(2) by blast
  ultimately have "card (?due d1) + card (set ?L) = card (?due d)"
    by (simp add: card_Diff_subset card_mono)
  then have "length (overdue now d1) + length ?L = length (overdue now d)"
    by (simp add: overdue_card [OF assms(1)] overdue_card [OF d1(2)] distinct_card [OF batch(1)])
  then show ?thesis
    using d1(1) run
    by (auto simp: RunOnce_def svc_bind_def svc_read_def DeleteExpiredIdempotencyKeys_stmt_def
        DeleteTerminalWebhookDeliveries_stmt_def Let_def no_maintenance_def overdue_def)
qed

end
