(* ===== verification/Webhook_Worker.thy ===== *)
theory Webhook_Worker
  imports Webhook_Store Forge_Service
begin

text \<open>
  internal/jobs/webhooks.go: one run of the delivery worker. The HTTP exchange is an argument:
  \<open>send\<close> gives the outcome of posting a delivery to the endpoint of its subscription; the
  token is the 16 random bytes of the run. \<open>clock\<close> is the time read when the outcome of a
  delivery is recorded.
\<close>

section \<open>Timing\<close>

definition defaultWebhookBatchLimit :: int where "defaultWebhookBatchLimit = 25"
definition defaultWebhookLockTTL :: duration where "defaultWebhookLockTTL = 2 * minute"
definition defaultWebhookTimeout :: duration where "defaultWebhookTimeout = 10 * second"
definition defaultWebhookLockBuffer :: duration where
  "defaultWebhookLockBuffer = defaultWebhookTimeout"

record webhook_worker =
  ww_batchLimit :: int
  ww_lockTTL :: duration

definition NewWebhookWorker :: "webhook_worker \<Rightarrow> webhook_worker" where
  "NewWebhookWorker w =
     \<lparr>ww_batchLimit = (if ww_batchLimit w \<le> 0 then defaultWebhookBatchLimit else ww_batchLimit w),
      ww_lockTTL = (if ww_lockTTL w \<le> 0 then defaultWebhookLockTTL else ww_lockTTL w)\<rparr>"

definition claimLockTTL :: "webhook_worker \<Rightarrow> duration" where
  "claimLockTTL w =
     (let batchTTL = ww_batchLimit w * defaultWebhookTimeout + defaultWebhookLockBuffer in
      if ww_lockTTL w < batchTTL then batchTTL else ww_lockTTL w)"

definition webhookBackoff :: "int \<Rightarrow> duration" where
  "webhookBackoff attemptCount =
     (let n = (if attemptCount < 1 then 1 else attemptCount);
          k = (if 6 < n then 6 else n) in
      2 ^ nat (k - 1) * minute)"

section \<open>Delivering a batch\<close>

record delivery_outcome =
  do_statusCode :: int
  do_body :: string
  do_err :: "string option"

text \<open>\<open>fmt.Sprintf("%d")\<close> of the status code is an argument of the worker.\<close>

definition webhookDeliveryError :: "(int \<Rightarrow> string) \<Rightarrow> delivery_outcome \<Rightarrow> string" where
  "webhookDeliveryError itoa o' =
     (case do_err o' of
        Some e \<Rightarrow> e
      | None \<Rightarrow> ''webhook endpoint returned HTTP '' @ itoa (do_statusCode o'))"

definition nullableInt4 :: "int \<Rightarrow> int option" where
  "nullableInt4 v = (if v = 0 then None else Some v)"

definition nullableText :: "string \<Rightarrow> string option" where
  "nullableText v = (if v = [] then None else Some v)"

definition delivered :: "delivery_outcome \<Rightarrow> bool" where
  "delivered o' \<longleftrightarrow> do_err o' = None \<and> 200 \<le> do_statusCode o' \<and> do_statusCode o' < 300"

definition markSucceeded ::
  "timestamp \<Rightarrow> pg_env \<Rightarrow> webhook_delivery \<Rightarrow> delivery_outcome \<Rightarrow> db \<Rightarrow>
   pg_error + (webhook_delivery \<times> db)" where
  "markSucceeded now env r o' =
     MarkWebhookDeliverySucceeded_stmt env
       \<lparr>msp_AttemptCount = wd_AttemptCount r + 1, msp_AttemptedAt = now,
        msp_ResponseStatus = nullableInt4 (do_statusCode o'),
        msp_ResponseBody = nullableText (do_body o'), msp_ID = wd_ID r,
        msp_ClaimToken = wd_ClaimToken r\<rparr>"

text \<open>The result of \<open>markFailed\<close> says whether the delivery is exhausted.\<close>

definition markFailed ::
  "(int \<Rightarrow> string) \<Rightarrow> timestamp \<Rightarrow> pg_env \<Rightarrow> webhook_delivery \<Rightarrow> delivery_outcome \<Rightarrow> db \<Rightarrow>
   pg_error + (bool \<times> db)" where
  "markFailed itoa now env r o' d =
     (let attemptCount = wd_AttemptCount r + 1 in
      and_then (MarkWebhookDeliveryFailed_stmt env
        \<lparr>mfp_AttemptCount = attemptCount, mfp_AttemptedAt = now,
         mfp_ResponseStatus = nullableInt4 (do_statusCode o'),
         mfp_ResponseBody = nullableText (do_body o'),
         mfp_Error = webhookDeliveryError itoa o',
         mfp_NextAttemptAt = now + webhookBackoff attemptCount, mfp_ID = wd_ID r,
         mfp_ClaimToken = wd_ClaimToken r\<rparr> d)
        (\<lambda>(_, d'). Inr (wd_MaxAttempts r \<le> attemptCount, d')))"

record webhook_run_result =
  wr_Claimed :: int
  wr_Succeeded :: int
  wr_Failed :: int
  wr_Retried :: int
  wr_LostOwnership :: int

type_synonym http_send = "webhook_delivery \<Rightarrow> webhook_subscription \<Rightarrow> delivery_outcome"

fun deliverEach ::
  "(int \<Rightarrow> string) \<Rightarrow> http_send \<Rightarrow> (webhook_delivery \<Rightarrow> timestamp) \<Rightarrow> pg_env \<Rightarrow>
   (webhook_delivery \<times> webhook_subscription) list \<Rightarrow> webhook_run_result \<Rightarrow>
   webhook_run_result svc" where
  "deliverEach itoa send clock env [] res d = (Inr res, d)"
| "deliverEach itoa send clock env ((r, s) # rs) res d =
     (let o' = send r s in
      if delivered o' then
        (case markSucceeded (clock r) env r o' d of
           Inr (_, d') \<Rightarrow>
             deliverEach itoa send clock env rs
               (res\<lparr>wr_Succeeded := wr_Succeeded res + 1\<rparr>) d'
         | Inl e \<Rightarrow>
             (if e = NoRows
              then deliverEach itoa send clock env rs
                     (res\<lparr>wr_LostOwnership := wr_LostOwnership res + 1\<rparr>) d
              else (Inl (StoreError ''mark webhook delivery succeeded'' e), d)))
      else
        (case markFailed itoa (clock r) env r o' d of
           Inr (exhausted, d') \<Rightarrow>
             deliverEach itoa send clock env rs
               (if exhausted then res\<lparr>wr_Failed := wr_Failed res + 1\<rparr>
                else res\<lparr>wr_Retried := wr_Retried res + 1\<rparr>) d'
         | Inl e \<Rightarrow>
             (if e = NoRows
              then deliverEach itoa send clock env rs
                     (res\<lparr>wr_LostOwnership := wr_LostOwnership res + 1\<rparr>) d
              else (Inl (StoreError ''mark webhook delivery failed'' e), d))))"

definition RunWebhooksOnce ::
  "(int \<Rightarrow> string) \<Rightarrow> http_send \<Rightarrow> (webhook_delivery \<Rightarrow> timestamp) \<Rightarrow> webhook_worker \<Rightarrow> timestamp \<Rightarrow>
   uuid \<Rightarrow> uuid list \<Rightarrow> pg_env \<Rightarrow> webhook_run_result svc" where
  "RunWebhooksOnce itoa send clock w now token locked env d =
     (case ClaimPendingWebhookDeliveries_stmt locked env
         \<lparr>cdp_LockedUntil = now + claimLockTTL w, cdp_ClaimToken = token, cdp_Now = now,
          cdp_BatchLimit = ww_batchLimit w\<rparr> d of
        (rows, d1) \<Rightarrow>
          deliverEach itoa send clock env rows
            \<lparr>wr_Claimed = int (length rows), wr_Succeeded = 0, wr_Failed = 0, wr_Retried = 0,
             wr_LostOwnership = 0\<rparr> d1)"

section \<open>Properties of the timing and of the counts\<close>

lemma webhookBackoff_eq: "webhookBackoff n = 2 ^ nat (min 6 (max 1 n) - 1) * minute"
  by (auto simp: webhookBackoff_def Let_def min_def max_def)

lemma webhookBackoff_mono: "m \<le> n \<Longrightarrow> webhookBackoff m \<le> webhookBackoff n"
  unfolding webhookBackoff_eq
  by (intro mult_right_mono power_increasing) (auto simp: nat_le_iff)

lemma webhookBackoff_bounds: "minute \<le> webhookBackoff n \<and> webhookBackoff n \<le> 32 * minute"
proof -
  have "nat (min 6 (max 1 n) - 1) \<le> 5" by simp
  then have "(2::int) ^ nat (min 6 (max 1 n) - 1) \<le> 2 ^ 5"
    by (rule power_increasing) simp
  then show ?thesis
    unfolding webhookBackoff_eq by simp
qed

lemma claimLockTTL_covers: "ww_batchLimit w * defaultWebhookTimeout < claimLockTTL w"
  by (auto simp: claimLockTTL_def Let_def defaultWebhookLockBuffer_def defaultWebhookTimeout_def)

lemma deliverEach_counts:
  assumes "deliverEach itoa send clock env rows res d = (Inr res', d')"
  shows "wr_Succeeded res' + wr_Failed res' + wr_Retried res' + wr_LostOwnership res' =
      wr_Succeeded res + wr_Failed res + wr_Retried res + wr_LostOwnership res + int (length rows)"
    and "wr_Claimed res' = wr_Claimed res"
  using assms
proof (induction rows arbitrary: res d)
  case (Cons x rows)
  {
    case 1
    with Cons.IH(1) show ?case
      by (cases x) (fastforce simp: Let_def split: if_splits sum.splits prod.splits)
  next
    case 2
    with Cons.IH(2) show ?case
      by (cases x) (fastforce simp: Let_def split: if_splits sum.splits prod.splits)
  }
qed auto

section \<open>Bounded retries\<close>

text \<open>A delivery is tried at most \<open>max_attempts\<close> times: the count of an open delivery is below
  the limit, and a failed one has reached it.\<close>

definition delivery_ok :: "webhook_delivery \<Rightarrow> bool" where
  "delivery_ok r \<longleftrightarrow>
     0 \<le> wd_AttemptCount r \<and> wd_AttemptCount r \<le> wd_MaxAttempts r \<and>
     (wd_Status r = DeliveryPending \<or> wd_Status r = DeliveryDelivering \<longrightarrow>
        wd_AttemptCount r < wd_MaxAttempts r) \<and>
     (wd_Status r = DeliveryFailed \<longrightarrow> wd_AttemptCount r = wd_MaxAttempts r)"

definition deliveries_ok :: "db \<Rightarrow> bool" where
  "deliveries_ok d \<longleftrightarrow>
     unique_key wd_ID (webhook_deliveries d) \<and> (\<forall>r \<in> set (webhook_deliveries d). delivery_ok r)"

text \<open>What a run relies on for a claimed row \<open>r\<close>: as long as the stored row is being delivered
  under the token of \<open>r\<close>, it has the count of \<open>r\<close>.\<close>

definition tracks :: "db \<Rightarrow> webhook_delivery \<Rightarrow> bool" where
  "tracks d r \<longleftrightarrow>
     (\<forall>x \<in> set (webhook_deliveries d).
        wd_ID x = wd_ID r \<longrightarrow> wd_ClaimToken x = wd_ClaimToken r \<longrightarrow>
        wd_Status x = DeliveryDelivering \<longrightarrow>
        wd_AttemptCount x = wd_AttemptCount r \<and> wd_MaxAttempts x = wd_MaxAttempts r)"

lemma deliveries_ok_update:
  assumes "deliveries_ok d"
    and "d' = d\<lparr>webhook_deliveries := update_rows (\<lambda>x. wd_ID x = wd_ID q) g (webhook_deliveries d)\<rparr>"
    and "q \<in> set (webhook_deliveries d)" and "\<And>x. wd_ID (g x) = wd_ID x"
    and "delivery_ok (g q)" and "wd_Status (g q) \<noteq> DeliveryDelivering"
  shows "deliveries_ok d'" and "tracks d r \<Longrightarrow> tracks d' r"
proof -
  have q: "x = q" if "x \<in> set (webhook_deliveries d)" "wd_ID x = wd_ID q" for x
    using assms(1,3) that by (auto simp: deliveries_ok_def dest: unique_key_eqD)
  have rows: "x \<in> set (webhook_deliveries d') \<Longrightarrow> x = g q \<or> x \<in> set (webhook_deliveries d)" for x
    by (auto simp: assms(2) set_update_rows dest: q split: if_splits)
  have "unique_key wd_ID (webhook_deliveries d')"
    using assms(1) by (simp add: assms(2,4) deliveries_ok_def map_update_rows)
  with rows assms(1,5) show "deliveries_ok d'"
    by (auto simp: deliveries_ok_def)
  show "tracks d' r" if "tracks d r"
    using that rows assms(6) unfolding tracks_def by blast
qed

lemma markSucceeded_ok:
  assumes "markSucceeded now env r o' d = Inr (w, d')" and "deliveries_ok d" and "tracks d r"
  shows "deliveries_ok d'" and "tracks d q \<Longrightarrow> tracks d' q"
proof -
  let ?g = "\<lambda>x. x\<lparr>wd_Status := DeliverySucceeded, wd_AttemptCount := wd_AttemptCount r + 1,
     wd_LockedUntil := None, wd_LastAttemptAt := Some now, wd_DeliveredAt := Some now,
     wd_ResponseStatus := nullableInt4 (do_statusCode o'),
     wd_ResponseBody := nullableText (do_body o'), wd_Error := None,
     wd_UpdatedAt := env_now env\<rparr>"
  from assms(1) obtain x where x: "find_row wd_ID (wd_ID r) (webhook_deliveries d) = Some x"
    "wd_ClaimToken x = wd_ClaimToken r" "wd_Status x = DeliveryDelivering"
    and d': "d' = d\<lparr>webhook_deliveries :=
      update_rows (\<lambda>y. wd_ID y = wd_ID x) ?g (webhook_deliveries d)\<rparr>"
    by (auto simp: markSucceeded_def MarkWebhookDeliverySucceeded_stmt_def Let_def result_simps)
  from x(1) have "x \<in> set (webhook_deliveries d)" "wd_ID x = wd_ID r"
    by (auto dest: find_row_SomeD)
  moreover from this have "wd_AttemptCount x = wd_AttemptCount r" "delivery_ok x"
    using assms(2,3) x by (auto simp: tracks_def deliveries_ok_def)
  ultimately show "deliveries_ok d'" "tracks d q \<Longrightarrow> tracks d' q"
    using x(3) deliveries_ok_update [OF assms(2) d'] by (auto simp: delivery_ok_def)
qed

lemma markFailed_ok:
  assumes "markFailed itoa now env r o' d = Inr (b, d')" and "deliveries_ok d" and "tracks d r"
  shows "deliveries_ok d'" and "tracks d q \<Longrightarrow> tracks d' q"
proof -
  let ?g = "\<lambda>x. x\<lparr>wd_Status :=
       (if wd_MaxAttempts x \<le> wd_AttemptCount r + 1 then DeliveryFailed else DeliveryPending),
     wd_AttemptCount := wd_AttemptCount r + 1, wd_LockedUntil := None,
     wd_LastAttemptAt := Some now, wd_ResponseStatus := nullableInt4 (do_statusCode o'),
     wd_ResponseBody := nullableText (do_body o'),
     wd_Error := Some (webhookDeliveryError itoa o'),
     wd_NextAttemptAt := now + webhookBackoff (wd_AttemptCount r + 1),
     wd_UpdatedAt := env_now env\<rparr>"
  from assms(1) obtain x where x: "find_row wd_ID (wd_ID r) (webhook_deliveries d) = Some x"
    "wd_ClaimToken x = wd_ClaimToken r" "wd_Status x = DeliveryDelivering"
    and d': "d' = d\<lparr>webhook_deliveries :=
      update_rows (\<lambda>y. wd_ID y = wd_ID x) ?g (webhook_deliveries d)\<rparr>"
    by (auto simp: markFailed_def MarkWebhookDeliveryFailed_stmt_def Let_def result_simps)
  from x(1) have "x \<in> set (webhook_deliveries d)" "wd_ID x = wd_ID r"
    by (auto dest: find_row_SomeD)
  moreover from this have "wd_AttemptCount x = wd_AttemptCount r" "delivery_ok x"
    using assms(2,3) x by (auto simp: tracks_def deliveries_ok_def)
  ultimately show "deliveries_ok d'" "tracks d q \<Longrightarrow> tracks d' q"
    using x(3) deliveries_ok_update [OF assms(2) d'] by (auto simp: delivery_ok_def)
qed

lemma deliverEach_ok:
  assumes "deliverEach itoa send clock env rows res d = (out, d')" and "deliveries_ok d"
    and "\<And>r s. (r, s) \<in> set rows \<Longrightarrow> tracks d r"
  shows "deliveries_ok d'"
  using assms
proof (induction rows arbitrary: res d)
  case Nil
  then show ?case by simp
next
  case (Cons x rows)
  obtain r s where x: "x = (r, s)" by fastforce
  have r: "tracks d r" and rest: "\<And>q u. (q, u) \<in> set rows \<Longrightarrow> tracks d q"
    using Cons.prems(3) x by auto
  show ?case
  proof (cases "delivered (send r s)")
    case True
    show ?thesis
    proof (cases "markSucceeded (clock r) env r (send r s) d")
      case (Inl e)
      with Cons.prems(1,2) Cons.IH [OF _ _ rest] x True show ?thesis
        by (auto simp: Let_def split: if_splits)
    next
      case (Inr p)
      obtain w d1 where p: "p = (w, d1)" by fastforce
      note ok = markSucceeded_ok [OF Inr [unfolded p] Cons.prems(2) r]
      from Cons.prems(1) x True Inr p have
        "deliverEach itoa send clock env rows (res\<lparr>wr_Succeeded := wr_Succeeded res + 1\<rparr>) d1 =
          (out, d')" by (simp add: Let_def)
      from Cons.IH [OF this ok(1) ok(2) [OF rest]] show ?thesis .
    qed
  next
    case False
    show ?thesis
    proof (cases "markFailed itoa (clock r) env r (send r s) d")
      case (Inl e)
      with Cons.prems(1,2) Cons.IH [OF _ _ rest] x False show ?thesis
        by (auto simp: Let_def split: if_splits)
    next
      case (Inr p)
      obtain b d1 where p: "p = (b, d1)" by fastforce
      note ok = markFailed_ok [OF Inr [unfolded p] Cons.prems(2) r]
      from Cons.prems(1) x False Inr p have
        "deliverEach itoa send clock env rows
          (if b then res\<lparr>wr_Failed := wr_Failed res + 1\<rparr>
           else res\<lparr>wr_Retried := wr_Retried res + 1\<rparr>) d1 = (out, d')"
        by (simp add: Let_def)
      from Cons.IH [OF this ok(1) ok(2) [OF rest]] show ?thesis .
    qed
  qed
qed

lemma claim_deliveries_ok:
  assumes "ClaimPendingWebhookDeliveries_stmt locked env p d = (rows, d')" and "deliveries_ok d"
  shows "deliveries_ok d'" and "(r, s) \<in> set rows \<Longrightarrow> tracks d' r"
proof -
  let ?B = "due_deliveries locked p d"
  have d': "d' = d\<lparr>webhook_deliveries := update_rows (\<lambda>r. wd_ID r \<in> wd_ID ` set ?B)
      (claim_delivery env p) (webhook_deliveries d)\<rparr>"
    and rows: "(r, s) \<in> set rows \<Longrightarrow> \<exists>x \<in> set ?B. r = claim_delivery env p x"
    using assms(1) by (auto simp: ClaimPendingWebhookDeliveries_stmt_def Let_def)
  have B: "x \<in> set (webhook_deliveries d) \<and> delivery_due p d x" if "x \<in> set ?B" for x
    using that by (auto simp: due_deliveries_def limit_rows_def dest: in_set_takeD)
  have same: "x = y" if "x \<in> set (webhook_deliveries d)" "y \<in> set ?B" "wd_ID x = wd_ID y" for x y
    using assms(2) that B by (auto simp: deliveries_ok_def dest: unique_key_eqD)
  have key: "wd_ID (claim_delivery env p x) = wd_ID x" for x
    by (simp add: claim_delivery_def)
  have "delivery_ok (claim_delivery env p x)" if "x \<in> set ?B" for x
    using B [OF that] assms(2) by (auto simp: deliveries_ok_def delivery_ok_def
        claim_delivery_def delivery_due_def)
  then show "deliveries_ok d'"
    using assms(2) same unfolding deliveries_ok_def d'
    by (auto simp: map_update_rows key set_update_rows)
  show "tracks d' r" if "(r, s) \<in> set rows"
  proof -
    from rows [OF that] obtain x where x: "x \<in> set ?B" "r = claim_delivery env p x" by blast
    have "y = x" if "y \<in> set (webhook_deliveries d)" "wd_ID y = wd_ID x" for y
      using that x(1) same by blast
    then show ?thesis
      using x by (fastforce simp: tracks_def d' set_update_rows key claim_delivery_def)
  qed
qed

end
