(* ===== verification/Claim_Service.thy ===== *)
theory Claim_Service
  imports Ticket_Service
begin

text \<open>
  internal/services/claims.go: claiming the next ticket, replaying a claim under an
  idempotency key, and the context bundle handed to the agent. Code outside the repository is
  an argument: the hex digest of the JSON form of the request (\<open>ce_hash\<close>), the UUID parser of
  pgx (\<open>ce_scan\<close>), Unicode case folding (\<open>ce_fold\<close>).
\<close>

record claim_next_request =
  cq_WorkspaceID :: "uuid option"
  cq_ProjectID :: "uuid option"
  cq_Type :: string
  cq_Tags :: "string slice"
  cq_Harness :: string
  cq_Capabilities :: "string slice"
  cq_AgentID :: string
  cq_Model :: string
  cq_Lease :: duration
  cq_IdempotencyKey :: string
  cq_IdempotencyTTL :: duration

record claim_payload =
  hp_WorkspaceID :: "uuid option"
  hp_ProjectID :: "uuid option"
  hp_Type :: string
  hp_Tags :: "string slice"
  hp_Harness :: string
  hp_Capabilities :: "string slice"
  hp_AgentID :: string
  hp_Model :: string
  hp_LeaseSeconds :: int

record claim_env =
  ce_hash :: "claim_payload \<Rightarrow> string"
  ce_scan :: "string \<Rightarrow> uuid option"
  ce_fold :: "string \<Rightarrow> string \<Rightarrow> bool"

record claim_context_bundle =
  cb_Ticket :: ticket
  cb_Attempt :: attempt
  cb_AcceptanceCriteria :: "string list"
  cb_VerificationCommands :: "string slice"
  cb_Environment :: "(string \<times> json) list"
  cb_Input :: "(string \<times> json) list"
  cb_RelevantPaths :: "string list"
  cb_RequiredTools :: "string list"
  cb_RequiredPermissions :: "string list"
  cb_ExpectedArtifacts :: "string list"
  cb_PriorAttempts :: "attempt list"
  cb_Checkpoints :: "attempt_checkpoint list"
  cb_Artifacts :: "artifact list"

record claim_next_result =
  cx_Ticket :: ticket
  cx_Attempt :: attempt
  cx_Context :: claim_context_bundle

definition trimClaimNextRequest :: "claim_next_request \<Rightarrow> claim_next_request" where
  "trimClaimNextRequest r =
     r\<lparr>cq_Type := TrimSpace (cq_Type r), cq_Harness := TrimSpace (cq_Harness r),
       cq_AgentID := TrimSpace (cq_AgentID r), cq_Model := TrimSpace (cq_Model r),
       cq_IdempotencyKey := TrimSpace (cq_IdempotencyKey r),
       cq_Tags := compactStrings (slice_list (cq_Tags r)),
       cq_Capabilities := compactStrings (slice_list (cq_Capabilities r))\<rparr>"

definition validateClaimNextRequest :: "claim_next_request \<Rightarrow> string list" where
  "validateClaimNextRequest r =
     problem (cq_WorkspaceID r = None) ''workspace_id is required'' @
     problem (cq_ProjectID r = None) ''project_id is required'' @
     problem (cq_AgentID r = []) ''agent_id is required'' @
     problem (cq_Harness r = []) ''harness is required'' @
     problem (cq_Lease r \<le> 0) ''lease must be positive'' @
     problem (cq_IdempotencyTTL r < 0) ''idempotency_ttl must be non-negative'' @
     problem (cq_Type r \<noteq> [] \<and> \<not> isAllowedTicketType (cq_Type r)) ''type filter is not valid''"

text \<open>\<open>int64(req.Lease.Seconds())\<close>, the whole seconds of the lease.\<close>

definition claimRequestHash :: "claim_env \<Rightarrow> claim_next_request \<Rightarrow> string" where
  "claimRequestHash ce r = ce_hash ce
     \<lparr>hp_WorkspaceID = cq_WorkspaceID r, hp_ProjectID = cq_ProjectID r, hp_Type = cq_Type r,
      hp_Tags = cq_Tags r, hp_Harness = cq_Harness r, hp_Capabilities = cq_Capabilities r,
      hp_AgentID = cq_AgentID r, hp_Model = cq_Model r, hp_LeaseSeconds = cq_Lease r div second\<rparr>"

definition parseUUID :: "claim_env \<Rightarrow> string \<Rightarrow> uuid option" where
  "parseUUID ce v = (if v = [] then None else ce_scan ce v)"

text \<open>A string field of the payload struct: absent and null leave it empty.\<close>

fun string_field :: "json \<Rightarrow> string \<Rightarrow> string option" where
  "string_field JNull k = Some []"
| "string_field (JObj kvs) k =
     (case json_field (JObj kvs) k of
        None \<Rightarrow> Some [] | Some JNull \<Rightarrow> Some [] | Some (JStr s) \<Rightarrow> Some s | Some _ \<Rightarrow> None)"
| "string_field _ k = None"

definition decodeClaimIdempotencyResponse :: "claim_env \<Rightarrow> json \<Rightarrow> (uuid \<times> uuid) option" where
  "decodeClaimIdempotencyResponse ce body =
     Option.bind (string_field body ''ticket_id'') (\<lambda>ts.
     Option.bind (string_field body ''attempt_id'') (\<lambda>as.
     Option.bind (parseUUID ce ts) (\<lambda>t.
     Option.bind (parseUUID ce as) (\<lambda>a. Some (t, a)))))"

definition decodeStringArray :: "json_raw \<Rightarrow> string slice option" where
  "decodeStringArray raw =
     (if raw = RawEmpty \<or> raw = RawDoc JNull then Some None else decodeJSONArray raw)"

fun priorAttempts :: "attempt list \<Rightarrow> uuid \<Rightarrow> attempt list" where
  "priorAttempts [] i = []"
| "priorAttempts (a # as) i =
     (if at_ID a = i then priorAttempts as i else a # priorAttempts as i)"

definition ListArtifactsByTicket_stmt :: "uuid \<Rightarrow> db \<Rightarrow> artifact list" where
  "ListArtifactsByTicket_stmt t d =
     sort_key ar_CreatedAt (filter (\<lambda>r. ar_TicketID r = t) (artifacts d))"

definition contextBundle :: "ticket \<Rightarrow> attempt \<Rightarrow> claim_context_bundle svc" where
  "contextBundle t a =
     svc_bind (svc_read (ListAttemptsByTicket_stmt (tk_ID t))) (\<lambda>atts.
     svc_bind (svc_read (ListAttemptCheckpointsByTicket_stmt (tk_ID t))) (\<lambda>cps.
     svc_bind (svc_read (ListArtifactsByTicket_stmt (tk_ID t))) (\<lambda>arts.
     svc_bind (svc_decode ''decode verification commands''
       (decodeStringArray (RawDoc (tk_VerificationCommands t)))) (\<lambda>vc.
     svc_bind (svc_decode ''decode environment'' (decodeObject (RawDoc (tk_Environment t)))) (\<lambda>en.
     svc_bind (svc_decode ''decode input'' (decodeObject (RawDoc (tk_Input t)))) (\<lambda>inp.
     svc_return
       \<lparr>cb_Ticket = t, cb_Attempt = a, cb_AcceptanceCriteria = tk_AcceptanceCriteria t,
        cb_VerificationCommands = vc, cb_Environment = en, cb_Input = inp,
        cb_RelevantPaths = tk_RelevantPaths t, cb_RequiredTools = tk_RequiredTools t,
        cb_RequiredPermissions = tk_RequiredPermissions t,
        cb_ExpectedArtifacts = tk_ExpectedArtifacts t,
        cb_PriorAttempts = priorAttempts atts (at_ID a), cb_Checkpoints = cps,
        cb_Artifacts = arts\<rparr>))))))"

definition hydrateClaim :: "uuid \<Rightarrow> uuid \<Rightarrow> claim_next_result svc" where
  "hydrateClaim ticketID attemptID =
     svc_bind (svc_query (StoreError ''get claimed ticket'') (GetTicket_stmt (Some ticketID))) (\<lambda>t.
     svc_bind (svc_query (StoreError ''get claimed attempt'') (GetAttempt_stmt (Some attemptID)))
       (\<lambda>a.
     svc_bind (contextBundle t a) (\<lambda>c.
     svc_return \<lparr>cx_Ticket = t, cx_Attempt = a, cx_Context = c\<rparr>)))"

definition replayClaim ::
  "claim_env \<Rightarrow> claim_next_request \<Rightarrow> string \<Rightarrow> claim_next_result option svc" where
  "replayClaim ce r requestHash d =
     (case GetIdempotencyKey_stmt (cq_WorkspaceID r) (cq_AgentID r) ''claim-next''
             (cq_IdempotencyKey r) d of
        Inl e \<Rightarrow>
          (if e = NoRows then (Inr None, d) else (Inl (StoreError ''get idempotency key'' e), d))
      | Inr k \<Rightarrow>
          (if ik_RequestHash k \<noteq> requestHash then (Inl ErrIdempotencyConflict, d)
           else (case decodeClaimIdempotencyResponse ce (ik_ResponseBody k) of
                   None \<Rightarrow> (Inl (DecodeError ''decode claim idempotency response''), d)
                 | Some (t, a) \<Rightarrow>
                     svc_bind (hydrateClaim t a) (\<lambda>res. svc_return (Some res)) d)))"

definition claimPolicyInput :: "claim_next_request \<Rightarrow> policy_input" where
  "claimPolicyInput r = policy_input_zero
     \<lparr>pi_Operation := ''claim_next_ticket'', pi_ActorType := ActorAgent,
      pi_ActorID := cq_AgentID r, pi_Harness := cq_Harness r,
      pi_AgentCapabilities := slice_list (cq_Capabilities r), pi_Lease := cq_Lease r\<rparr>"

definition claimParams ::
  "timestamp \<Rightarrow> claim_next_request \<Rightarrow> string \<Rightarrow> claim_next_ticket_params" where
  "claimParams now r requestHash =
     \<lparr>cnp_WorkspaceID = cq_WorkspaceID r, cnp_ProjectID = cq_ProjectID r,
      cnp_TicketType = optionalText (cq_Type r), cnp_Tags = cq_Tags r,
      cnp_Harness = cq_Harness r, cnp_Capabilities = cq_Capabilities r,
      cnp_AgentID = cq_AgentID r, cnp_Model = cq_Model r,
      cnp_LeaseExpiresAt = now + cq_Lease r, cnp_LastHeartbeatAt = now,
      cnp_IdempotencyKey = optionalText (cq_IdempotencyKey r),
      cnp_RequestHash = optionalText requestHash,
      cnp_IdempotencyExpiresAt =
        now + (if cq_IdempotencyTTL r = 0 then 24 * hour else cq_IdempotencyTTL r)\<rparr>"

definition ClaimNext ::
  "claim_env \<Rightarrow> policy_config option \<Rightarrow> timestamp \<Rightarrow> uuid list \<Rightarrow> pg_env \<Rightarrow> claim_next_request \<Rightarrow>
   claim_next_result svc" where
  "ClaimNext ce policy now locked env req =
     (let r = trimClaimNextRequest req; h = claimRequestHash ce r in
      svc_check (validateClaimNextRequest r)
        (svc_bind (if cq_IdempotencyKey r \<noteq> [] then replayClaim ce r h else svc_return None)
          (\<lambda>replayed.
           case replayed of
             Some res \<Rightarrow> svc_return res
           | None \<Rightarrow>
               svc_bind (case policy of
                   None \<Rightarrow> svc_return ()
                 | Some c \<Rightarrow>
                     (let dec = Evaluate (ce_fold ce) c (claimPolicyInput r) in
                      if Allowed dec then svc_return () else svc_fail (ErrPolicyDenied (pd_Reasons dec))))
                 (\<lambda>_.
               svc_bind (svc_stmt (\<lambda>e. if e = NoRows then ErrNoClaimableTickets
                                       else StoreError ''claim next ticket'' e)
                   (ClaimNextTicket_stmt locked env (claimParams now r h))) (\<lambda>row.
               hydrateClaim (cnr_TicketID row) (cnr_AttemptID row))))))"

end
