(* ===== verification/Resource_Service.thy ===== *)
theory Resource_Service
  imports Claim_Service Resource_Store
begin

text \<open>
  internal/services/artifacts.go, capabilities.go and workspaces.go: the services on the tables
  beside the workflow. \<open>strings.ToLower\<close>, which rests on Go's Unicode tables, is an argument of
  the member operations (\<open>toLower\<close>); the removal of a stored file is an argument of the deletion
  of an artifact and acts on a file store of any type.
\<close>

section \<open>Artifacts (artifacts.go)\<close>

definition ArtifactStorageLocal :: string where "ArtifactStorageLocal = ''local''"
definition ArtifactStorageS3 :: string where "ArtifactStorageS3 = ''s3''"

record register_artifact_request =
  ra_WorkspaceID :: "uuid option"
  ra_ProjectID :: "uuid option"
  ra_TicketID :: "uuid option"
  ra_AttemptID :: "uuid option"
  ra_Type :: string
  ra_Role :: string
  ra_Name :: string
  ra_URL :: string
  ra_StorageBackend :: string
  ra_SizeBytes :: int
  ra_MimeType :: string
  ra_Metadata :: "(string \<times> json) list"

record list_artifacts_request =
  la_WorkspaceID :: "uuid option"
  la_ProjectID :: "uuid option"
  la_TicketID :: "uuid option"
  la_Limit :: int
  la_Offset :: int

definition isAllowedArtifactType :: "string \<Rightarrow> bool" where
  "isAllowedArtifactType v \<longleftrightarrow>
     v \<in> set [''code'', ''document'', ''image'', ''dataset'', ''log'', ''diff'', ''trace'',
       ''test_output'', ''screenshot'', ''handoff'', ''diagnostic'', ''final_response'', ''other'']"

definition isAllowedArtifactRole :: "string \<Rightarrow> bool" where
  "isAllowedArtifactRole v \<longleftrightarrow>
     v \<in> set [''evidence'', ''patch'', ''context'', ''output'', ''diagnostic'', ''handoff'']"

definition trimRegisterArtifactRequest :: "register_artifact_request \<Rightarrow> register_artifact_request" where
  "trimRegisterArtifactRequest r =
     r\<lparr>ra_Type := TrimSpace (ra_Type r), ra_Role := TrimSpace (ra_Role r),
       ra_Name := TrimSpace (ra_Name r), ra_URL := TrimSpace (ra_URL r),
       ra_StorageBackend := default_string ArtifactStorageLocal (TrimSpace (ra_StorageBackend r)),
       ra_MimeType := TrimSpace (ra_MimeType r)\<rparr>"

definition validateRegisterArtifactRequest :: "register_artifact_request \<Rightarrow> string list" where
  "validateRegisterArtifactRequest r =
     problem (ra_WorkspaceID r = None) ''workspace_id is required'' @
     problem (ra_ProjectID r = None) ''project_id is required'' @
     problem (ra_TicketID r = None) ''ticket_id is required'' @
     (if ra_Type r = [] then [''type is required'']
      else problem (\<not> isAllowedArtifactType (ra_Type r)) ''type is not valid'') @
     (if ra_Role r = [] then [''role is required'']
      else problem (\<not> isAllowedArtifactRole (ra_Role r)) ''role is not valid'') @
     problem (ra_Name r = []) ''name is required'' @
     problem (ra_URL r = []) ''url is required'' @
     problem (ra_StorageBackend r \<noteq> ArtifactStorageLocal \<and> ra_StorageBackend r \<noteq> ArtifactStorageS3)
       ''storage_backend must be local or s3'' @
     problem (ra_SizeBytes r < 0) ''size_bytes must be non-negative''"

definition artifactParams :: "register_artifact_request \<Rightarrow> create_artifact_params" where
  "artifactParams r =
     \<lparr>cap_WorkspaceID = ra_WorkspaceID r, cap_ProjectID = ra_ProjectID r,
      cap_TicketID = ra_TicketID r, cap_AttemptID = ra_AttemptID r, cap_Type = ra_Type r,
      cap_Role = ra_Role r, cap_Name = ra_Name r, cap_Url = ra_URL r,
      cap_StorageBackend = ra_StorageBackend r, cap_SizeBytes = ra_SizeBytes r,
      cap_MimeType = ra_MimeType r, cap_Metadata = encodeJSONObject (ra_Metadata r)\<rparr>"

definition RegisterArtifact :: "pg_env \<Rightarrow> register_artifact_request \<Rightarrow> artifact svc" where
  "RegisterArtifact env req =
     (let r = trimRegisterArtifactRequest req in
      svc_check (validateRegisterArtifactRequest r)
        (svc_stmt (StoreError ''create artifact'') (CreateArtifact_stmt env (artifactParams r))))"

definition ListArtifactsByTicket :: "uuid option \<Rightarrow> artifact list svc" where
  "ListArtifactsByTicket i =
     svc_read (\<lambda>d. case i of None \<Rightarrow> [] | Some t \<Rightarrow> ListArtifactsByTicket_stmt t d)"

definition ListArtifactsByAttempt :: "uuid option \<Rightarrow> artifact list svc" where
  "ListArtifactsByAttempt i = svc_read (ListArtifactsByAttempt_stmt i)"

definition validateListArtifactsRequest :: "list_artifacts_request \<Rightarrow> string list" where
  "validateListArtifactsRequest r =
     problem (la_WorkspaceID r = None) ''workspace_id is required'' @
     problem (la_ProjectID r = None) ''project_id is required'' @
     problem (la_Limit r < 0) ''limit must be non-negative'' @
     problem (la_Offset r < 0) ''offset must be non-negative''"

definition ListArtifacts :: "list_artifacts_request \<Rightarrow> artifact list svc" where
  "ListArtifacts r =
     svc_check (validateListArtifactsRequest r)
       (svc_read (ListArtifactsByScope_stmt
          \<lparr>lap_WorkspaceID = la_WorkspaceID r, lap_ProjectID = la_ProjectID r,
           lap_TicketID = la_TicketID r, lap_OffsetCount = la_Offset r,
           lap_LimitCount = (if la_Limit r = 0 then 100 else la_Limit r)\<rparr>))"

definition GetArtifact :: "uuid option \<Rightarrow> artifact svc" where
  "GetArtifact i = svc_query (StoreError []) (GetArtifact_stmt i)"

text \<open>\<open>removeLocal\<close> is nil, or removes the file of a URL from the file store and reports the text
  of an error. The file is removed before the row is deleted.\<close>

definition DeleteLocalArtifact ::
  "uuid option \<Rightarrow> (string \<Rightarrow> 'fs \<Rightarrow> string option \<times> 'fs) option \<Rightarrow> db \<times> 'fs \<Rightarrow>
   (svc_error + artifact) \<times> db \<times> 'fs" where
  "DeleteLocalArtifact i removeLocal = (\<lambda>(d, fs).
     case GetArtifact_stmt i d of
       Inl e \<Rightarrow> (Inl (StoreError [] e), d, fs)
     | Inr a \<Rightarrow>
         if ar_StorageBackend a \<noteq> ArtifactStorageLocal
         then (Inl ErrArtifactDeleteUnsupported, d, fs)
         else (case removeLocal of
             None \<Rightarrow> (Inl (ServiceError ''local artifact cleanup is not configured''), d, fs)
           | Some remove \<Rightarrow>
               (case remove (ar_Url a) fs of
                  (Some msg, fs') \<Rightarrow>
                    (Inl (WrappedError ''remove local artifact'' (ServiceError msg)), d, fs')
                | (None, fs') \<Rightarrow>
                    (case DeleteArtifact_stmt i d of
                       Inl e \<Rightarrow> (Inl (StoreError ''delete artifact metadata'' e), d, fs')
                     | Inr d' \<Rightarrow> (Inr a, d', fs')))))"

section \<open>Capabilities (capabilities.go)\<close>

definition TransportCLI :: string where "TransportCLI = ''cli''"
definition TransportREST :: string where "TransportREST = ''rest''"
definition TransportMCP :: string where "TransportMCP = ''mcp''"

record register_capabilities_request =
  rc_WorkspaceID :: "uuid option"
  rc_ProjectID :: "uuid option"
  rc_AgentID :: string
  rc_Harness :: string
  rc_Model :: string
  rc_Transports :: "string slice"
  rc_Capabilities :: "string slice"
  rc_ToolNames :: "string slice"
  rc_ArtifactRoles :: "string slice"
  rc_PreferredClaim :: "(string \<times> json) list"
  rc_Metadata :: "(string \<times> json) list"

definition isAllowedTransport :: "string \<Rightarrow> bool" where
  "isAllowedTransport v \<longleftrightarrow> v = TransportCLI \<or> v = TransportREST \<or> v = TransportMCP"

definition validateCapabilityScope :: "uuid option \<Rightarrow> uuid option \<Rightarrow> string list" where
  "validateCapabilityScope w pj =
     problem (w = None) ''workspace_id is required'' @
     problem (pj = None) ''project_id is required''"

definition trimRegisterCapabilitiesRequest ::
  "register_capabilities_request \<Rightarrow> register_capabilities_request" where
  "trimRegisterCapabilitiesRequest r =
     r\<lparr>rc_AgentID := TrimSpace (rc_AgentID r), rc_Harness := TrimSpace (rc_Harness r),
       rc_Model := TrimSpace (rc_Model r),
       rc_Transports := compactStrings (slice_list (rc_Transports r)),
       rc_Capabilities := compactStrings (slice_list (rc_Capabilities r)),
       rc_ToolNames := compactStrings (slice_list (rc_ToolNames r)),
       rc_ArtifactRoles := compactStrings (slice_list (rc_ArtifactRoles r))\<rparr>"

definition validateRegisterCapabilitiesRequest :: "register_capabilities_request \<Rightarrow> string list" where
  "validateRegisterCapabilitiesRequest r =
     validateCapabilityScope (rc_WorkspaceID r) (rc_ProjectID r) @
     problem (rc_AgentID r = []) ''agent_id is required'' @
     problem (rc_Harness r = []) ''harness is required'' @
     problem (slice_list (rc_Transports r) = []) ''transports is required'' @
     problem (\<exists>t \<in> set (slice_list (rc_Transports r)). \<not> isAllowedTransport t)
       ''transports contains an invalid transport'' @
     problem (slice_list (rc_Capabilities r) = []) ''capabilities is required'' @
     problem (\<exists>x \<in> set (slice_list (rc_ArtifactRoles r)). \<not> isAllowedArtifactRole x)
       ''artifact_roles contains an invalid role''"

definition RegisterCapabilities ::
  "timestamp \<Rightarrow> pg_env \<Rightarrow> register_capabilities_request \<Rightarrow> agent_capability svc" where
  "RegisterCapabilities now env req =
     (let r = trimRegisterCapabilitiesRequest req in
      svc_check (validateRegisterCapabilitiesRequest r)
        (svc_stmt (StoreError ''upsert agent capability'') (UpsertAgentCapability_stmt env
          \<lparr>ucp_WorkspaceID = rc_WorkspaceID r, ucp_ProjectID = rc_ProjectID r,
           ucp_AgentID = rc_AgentID r, ucp_Harness = rc_Harness r, ucp_Model = rc_Model r,
           ucp_Transports = rc_Transports r, ucp_Capabilities = rc_Capabilities r,
           ucp_ToolNames = rc_ToolNames r, ucp_ArtifactRoles = rc_ArtifactRoles r,
           ucp_PreferredClaim = encodeJSONObject (rc_PreferredClaim r),
           ucp_Metadata = encodeJSONObject (rc_Metadata r), ucp_LastSeenAt = now\<rparr>)))"

record get_capabilities_request =
  gc_WorkspaceID :: "uuid option"
  gc_ProjectID :: "uuid option"
  gc_AgentID :: string
  gc_Harness :: string

definition trimGetCapabilitiesRequest :: "get_capabilities_request \<Rightarrow> get_capabilities_request" where
  "trimGetCapabilitiesRequest r =
     r\<lparr>gc_AgentID := TrimSpace (gc_AgentID r), gc_Harness := TrimSpace (gc_Harness r)\<rparr>"

definition validateGetCapabilitiesRequest :: "get_capabilities_request \<Rightarrow> string list" where
  "validateGetCapabilitiesRequest r =
     validateCapabilityScope (gc_WorkspaceID r) (gc_ProjectID r) @
     problem (gc_AgentID r = []) ''agent_id is required'' @
     problem (gc_Harness r = []) ''harness is required''"

definition GetCapabilities :: "get_capabilities_request \<Rightarrow> agent_capability svc" where
  "GetCapabilities req =
     (let r = trimGetCapabilitiesRequest req in
      svc_check (validateGetCapabilitiesRequest r)
        (svc_query (StoreError ''get agent capability'')
          (GetAgentCapability_stmt (gc_WorkspaceID r) (gc_ProjectID r) (gc_AgentID r)
            (gc_Harness r))))"

record list_capabilities_request =
  lc_WorkspaceID :: "uuid option"
  lc_ProjectID :: "uuid option"
  lc_Harness :: string
  lc_Capability :: string

definition trimListCapabilitiesRequest :: "list_capabilities_request \<Rightarrow> list_capabilities_request" where
  "trimListCapabilitiesRequest r =
     r\<lparr>lc_Harness := TrimSpace (lc_Harness r), lc_Capability := TrimSpace (lc_Capability r)\<rparr>"

definition validateListCapabilitiesRequest :: "list_capabilities_request \<Rightarrow> string list" where
  "validateListCapabilitiesRequest r =
     validateCapabilityScope (lc_WorkspaceID r) (lc_ProjectID r)"

definition ListCapabilities ::
  "(string \<Rightarrow> 'k :: linorder) \<Rightarrow> list_capabilities_request \<Rightarrow> agent_capability list svc" where
  "ListCapabilities collate req =
     (let r = trimListCapabilitiesRequest req in
      svc_check (validateListCapabilitiesRequest r)
        (svc_read (ListAgentCapabilities_stmt collate (lc_WorkspaceID r) (lc_ProjectID r)
          (optionalText (lc_Harness r)) (optionalText (lc_Capability r)))))"

section \<open>Workspace members (workspaces.go)\<close>

definition WorkspaceRoleOwner :: string where "WorkspaceRoleOwner = ''owner''"
definition WorkspaceRoleAdmin :: string where "WorkspaceRoleAdmin = ''admin''"
definition WorkspaceRoleMember :: string where "WorkspaceRoleMember = ''member''"
definition WorkspaceRoleViewer :: string where "WorkspaceRoleViewer = ''viewer''"

text \<open>\<open>AddWorkspaceMemberRequest\<close>, \<open>UpdateWorkspaceMemberRoleRequest\<close> and, without the role,
  \<open>RemoveWorkspaceMemberRequest\<close> have the same fields.\<close>

record workspace_member_request =
  am_WorkspaceID :: "uuid option"
  am_ActorType :: string
  am_ActorID :: string
  am_Role :: string

definition normalizeWorkspaceMemberToken :: "(string \<Rightarrow> string) \<Rightarrow> string \<Rightarrow> string" where
  "normalizeWorkspaceMemberToken toLower v = toLower (TrimSpace v)"

definition trimWorkspaceMemberRequest ::
  "(string \<Rightarrow> string) \<Rightarrow> workspace_member_request \<Rightarrow> workspace_member_request" where
  "trimWorkspaceMemberRequest toLower r =
     r\<lparr>am_ActorType := normalizeWorkspaceMemberToken toLower (am_ActorType r),
       am_ActorID := TrimSpace (am_ActorID r),
       am_Role := normalizeWorkspaceMemberToken toLower (am_Role r)\<rparr>"

definition isAllowedWorkspaceMemberActorType :: "string \<Rightarrow> bool" where
  "isAllowedWorkspaceMemberActorType v \<longleftrightarrow> v = ActorHuman \<or> v = ActorAgent \<or> v = ActorSystem"

definition isAllowedWorkspaceRole :: "string \<Rightarrow> bool" where
  "isAllowedWorkspaceRole v \<longleftrightarrow>
     v = WorkspaceRoleOwner \<or> v = WorkspaceRoleAdmin \<or> v = WorkspaceRoleMember \<or>
     v = WorkspaceRoleViewer"

definition validateWorkspaceMemberIdentity :: "uuid option \<Rightarrow> string \<Rightarrow> string \<Rightarrow> string list" where
  "validateWorkspaceMemberIdentity w actorType actorID =
     problem (w = None) ''workspace_id is required'' @
     (if actorType = [] then [''actor_type is required'']
      else problem (\<not> isAllowedWorkspaceMemberActorType actorType) ''actor_type is not valid'') @
     problem (actorID = []) ''actor_id is required''"

definition validateWorkspaceMember :: "uuid option \<Rightarrow> string \<Rightarrow> string \<Rightarrow> string \<Rightarrow> string list" where
  "validateWorkspaceMember w actorType actorID role =
     validateWorkspaceMemberIdentity w actorType actorID @
     (if role = [] then [''role is required'']
      else problem (\<not> isAllowedWorkspaceRole role) ''role is not valid'')"

definition memberParams :: "workspace_member_request \<Rightarrow> member_params" where
  "memberParams r =
     \<lparr>mp_WorkspaceID = am_WorkspaceID r, mp_MemberType = am_ActorType r,
      mp_MemberID = am_ActorID r, mp_Role = am_Role r\<rparr>"

definition AddMember ::
  "(string \<Rightarrow> string) \<Rightarrow> pg_env \<Rightarrow> workspace_member_request \<Rightarrow> workspace_member svc" where
  "AddMember toLower env req =
     (let r = trimWorkspaceMemberRequest toLower req in
      svc_check (validateWorkspaceMember (am_WorkspaceID r) (am_ActorType r) (am_ActorID r)
          (am_Role r))
        (svc_stmt (StoreError ''upsert workspace member'')
          (UpsertWorkspaceMember_stmt env (memberParams r))))"

definition ListMembers ::
  "(string \<Rightarrow> 'k :: linorder) \<Rightarrow> uuid option \<Rightarrow> workspace_member list svc" where
  "ListMembers collate w =
     svc_check (problem (w = None) ''workspace_id is required'')
       (svc_read (ListWorkspaceMembers_stmt collate w))"

definition UpdateMemberRole ::
  "(string \<Rightarrow> string) \<Rightarrow> pg_env \<Rightarrow> workspace_member_request \<Rightarrow> workspace_member svc" where
  "UpdateMemberRole toLower env req =
     (let r = trimWorkspaceMemberRequest toLower req in
      svc_check (validateWorkspaceMember (am_WorkspaceID r) (am_ActorType r) (am_ActorID r)
          (am_Role r))
        (svc_stmt (StoreError ''update workspace member role'')
          (UpdateWorkspaceMemberRole_stmt env (memberParams r))))"

definition RemoveMember :: "(string \<Rightarrow> string) \<Rightarrow> workspace_member_request \<Rightarrow> unit svc" where
  "RemoveMember toLower req =
     (let w = am_WorkspaceID req;
          ty = normalizeWorkspaceMemberToken toLower (am_ActorType req);
          i = TrimSpace (am_ActorID req) in
      svc_check (validateWorkspaceMemberIdentity w ty i)
        (\<lambda>d. (Inr (), DeleteWorkspaceMember_stmt w ty i d)))"

section \<open>Validation and the constraints of the tables\<close>

lemma isAllowedArtifactType_iff: "isAllowedArtifactType v \<longleftrightarrow> v \<in> set artifact_type_names"
  by (simp add: isAllowedArtifactType_def artifact_type_names_def)

lemma isAllowedArtifactRole_iff: "isAllowedArtifactRole v \<longleftrightarrow> v \<in> set artifact_role_names"
  by (simp add: isAllowedArtifactRole_def artifact_role_names_def)

text \<open>A validated artifact meets the checks of the table, so only its references can be wrong.\<close>

lemma validated_artifact_checks:
  assumes "validateRegisterArtifactRequest r = []"
  shows "CreateArtifact_stmt env (artifactParams r) d \<noteq> Inl CheckViolation"
    and "CreateArtifact_stmt env (artifactParams r) d \<noteq> Inl NotNullViolation"
proof -
  note checks = assms [unfolded validateRegisterArtifactRequest_def, simplified]
  obtain kvs where enc: "encodeJSONObject (ra_Metadata r) = RawDoc (JObj kvs)"
    using encodeJSONObject_doc by blast
  show "CreateArtifact_stmt env (artifactParams r) d \<noteq> Inl CheckViolation"
    "CreateArtifact_stmt env (artifactParams r) d \<noteq> Inl NotNullViolation"
    using checks
    by (auto simp: CreateArtifact_stmt_def artifactParams_def gen_random_uuid_def Let_def
        result_simps enc not_null_def artifact_row_checks_def insert_row_def
        isAllowedArtifactType_iff isAllowedArtifactRole_iff ArtifactStorageLocal_def
        ArtifactStorageS3_def split: option.splits if_splits)
qed

end
