(* ===== verification/Ticket_Templates.thy ===== *)
theory Ticket_Templates
  imports Ticket_Laws
begin

text \<open>
  internal/services/ticket_templates.go: the table of ticket templates and the creation of a
  ticket from the attempt in whose course it was found.
\<close>

section \<open>Templates\<close>

definition TemplateBug :: string where "TemplateBug = ''bug''"
definition TemplateFeature :: string where "TemplateFeature = ''feature''"
definition TemplateDocumentation :: string where "TemplateDocumentation = ''documentation''"
definition TemplateReview :: string where "TemplateReview = ''review''"
definition TemplateInvestigation :: string where "TemplateInvestigation = ''investigation''"
definition TemplateCleanup :: string where "TemplateCleanup = ''cleanup''"
definition TemplateFollowUp :: string where "TemplateFollowUp = ''follow_up''"

record ticket_template =
  tt_Kind :: string
  tt_Type :: string
  tt_Summary :: string
  tt_RequiredFields :: "string list"
  tt_OptionalFields :: "string list"
  tt_AcceptanceHints :: "string list"

definition ticketTemplates :: "ticket_template list" where
  "ticketTemplates =
     [\<lparr>tt_Kind = TemplateBug, tt_Type = ''bug'',
        tt_Summary = ''Defect, regression, or broken behavior discovered during execution.'',
        tt_RequiredFields = [''title'', ''description'', ''acceptance_criteria'',
          ''verification_commands'', ''creation_reason''],
        tt_OptionalFields = [''relevant_paths'', ''source_artifact_id'',
          ''required_capabilities''],
        tt_AcceptanceHints = [''Describe the failing behavior that must no longer happen.'',
          ''Include the regression check that proves the fix.'']\<rparr>,
      \<lparr>tt_Kind = TemplateFeature, tt_Type = ''feature'',
        tt_Summary = ''New user- or agent-facing behavior that should be planned and implemented.'',
        tt_RequiredFields = [''title'', ''description'', ''acceptance_criteria'',
          ''creation_reason''],
        tt_OptionalFields = [''verification_commands'', ''expected_artifacts'',
          ''required_capabilities''],
        tt_AcceptanceHints = [''State the observable behavior the feature adds.'',
          ''Name the smallest useful proof artifact.'']\<rparr>,
      \<lparr>tt_Kind = TemplateDocumentation, tt_Type = ''documentation'',
        tt_Summary = ''Documentation gap, stale instructions, or missing developer guidance.'',
        tt_RequiredFields = [''title'', ''description'', ''acceptance_criteria'',
          ''relevant_paths'', ''creation_reason''],
        tt_OptionalFields = [''verification_commands'', ''expected_artifacts''],
        tt_AcceptanceHints = [''Identify the audience and where the doc should live.'',
          ''Describe what a future reader can do after the update.'']\<rparr>,
      \<lparr>tt_Kind = TemplateReview, tt_Type = ''review'',
        tt_Summary = ''Human or agent review work for correctness, design, security, or quality.'',
        tt_RequiredFields = [''title'', ''description'', ''acceptance_criteria'',
          ''creation_reason''],
        tt_OptionalFields = [''relevant_paths'', ''required_tools'', ''expected_artifacts''],
        tt_AcceptanceHints = [''State the review surface.'',
          ''Describe the decision or findings expected.'']\<rparr>,
      \<lparr>tt_Kind = TemplateInvestigation, tt_Type = ''investigation'',
        tt_Summary = ''Unknown cause or unclear requirements that need exploration before implementation.'',
        tt_RequiredFields = [''title'', ''description'', ''acceptance_criteria'',
          ''creation_reason''],
        tt_OptionalFields = [''relevant_paths'', ''verification_commands'', ''required_tools''],
        tt_AcceptanceHints = [''Name the question to answer.'',
          ''Describe what evidence will make the next step clear.'']\<rparr>,
      \<lparr>tt_Kind = TemplateCleanup, tt_Type = ''cleanup'',
        tt_Summary = ''Low-risk cleanup that removes stale, duplicated, or confusing project material.'',
        tt_RequiredFields = [''title'', ''description'', ''acceptance_criteria'',
          ''verification_commands'', ''creation_reason''],
        tt_OptionalFields = [''relevant_paths'', ''expected_artifacts''],
        tt_AcceptanceHints = [''State what should be simpler or removed.'',
          ''Include the command that proves behavior did not change.'']\<rparr>,
      \<lparr>tt_Kind = TemplateFollowUp, tt_Type = ''follow_up'',
        tt_Summary = ''General follow-up work discovered while executing a different ticket.'',
        tt_RequiredFields = [''title'', ''description'', ''acceptance_criteria'',
          ''creation_reason''],
        tt_OptionalFields = [''verification_commands'', ''relevant_paths'',
          ''source_artifact_id''],
        tt_AcceptanceHints = [''Explain why this should be separate work.'',
          ''Describe the proof a future worker should attach.'']\<rparr>]"

definition TicketTemplates :: "ticket_template list" where
  "TicketTemplates = ticketTemplates"

definition TicketTemplateByKind :: "string \<Rightarrow> ticket_template option" where
  "TicketTemplateByKind kind = find (\<lambda>t. tt_Kind t = TrimSpace kind) ticketTemplates"

lemmas template_kind_defs = TemplateBug_def TemplateFeature_def TemplateDocumentation_def
  TemplateReview_def TemplateInvestigation_def TemplateCleanup_def TemplateFollowUp_def

text \<open>The kinds of the table are distinct, so the search finds every entry, and every entry has a
  type that tickets may have.\<close>

lemma template_kinds_distinct: "distinct (map tt_Kind ticketTemplates)"
  by (simp add: ticketTemplates_def template_kind_defs)

lemma template_types_allowed: "t \<in> set ticketTemplates \<Longrightarrow> isAllowedTicketType (tt_Type t)"
  by (auto simp: ticketTemplates_def isAllowedTicketType_def)

lemma TicketTemplateByKind_SomeD:
  "TicketTemplateByKind k = Some t \<Longrightarrow> t \<in> set ticketTemplates \<and> tt_Kind t = TrimSpace k"
  by (auto simp: TicketTemplateByKind_def find_Some_iff)

section \<open>A ticket from an attempt\<close>

record create_ticket_from_attempt_request =
  fa_WorkspaceID :: "uuid option"
  fa_ProjectID :: "uuid option"
  fa_SourceAttemptID :: "uuid option"
  fa_SourceArtifactID :: "uuid option"
  fa_TemplateKind :: string
  fa_Title :: string
  fa_Description :: string
  fa_Priority :: "int option"
  fa_Tags :: "string list"
  fa_AcceptanceCriteria :: "string list"
  fa_VerificationCommands :: "string list"
  fa_ExpectedArtifacts :: "string list"
  fa_RelevantPaths :: "string list"
  fa_RequiredTools :: "string list"
  fa_RequiredPermissions :: "string list"
  fa_RequiredCapabilities :: "string list"
  fa_AllowedHarnesses :: "string list"
  fa_Environment :: "(string \<times> json) list"
  fa_Input :: "(string \<times> json) list"
  fa_CreatedByID :: string
  fa_CreationReason :: string
  fa_Enqueue :: bool
  fa_CanEnqueue :: bool

definition trimCreateTicketFromAttemptRequest ::
  "create_ticket_from_attempt_request \<Rightarrow> create_ticket_from_attempt_request" where
  "trimCreateTicketFromAttemptRequest r =
     r\<lparr>fa_TemplateKind := TrimSpace (fa_TemplateKind r), fa_Title := TrimSpace (fa_Title r),
       fa_Description := TrimSpace (fa_Description r),
       fa_CreatedByID := TrimSpace (fa_CreatedByID r),
       fa_CreationReason := TrimSpace (fa_CreationReason r),
       fa_Tags := slice_list (compactStrings (fa_Tags r)),
       fa_AcceptanceCriteria := slice_list (compactStrings (fa_AcceptanceCriteria r)),
       fa_VerificationCommands := slice_list (compactStrings (fa_VerificationCommands r)),
       fa_ExpectedArtifacts := slice_list (compactStrings (fa_ExpectedArtifacts r)),
       fa_RelevantPaths := slice_list (compactStrings (fa_RelevantPaths r)),
       fa_RequiredTools := slice_list (compactStrings (fa_RequiredTools r)),
       fa_RequiredPermissions := slice_list (compactStrings (fa_RequiredPermissions r)),
       fa_RequiredCapabilities := slice_list (compactStrings (fa_RequiredCapabilities r)),
       fa_AllowedHarnesses := slice_list (compactStrings (fa_AllowedHarnesses r))\<rparr>"

text \<open>The fields that the request does not set have Go's zero values. An unknown template is the
  zero template, whose type is empty.\<close>

definition createTicketRequestFromAttempt ::
  "create_ticket_from_attempt_request \<Rightarrow> ticket_template option \<Rightarrow> create_ticket_request" where
  "createTicketRequestFromAttempt r template =
     \<lparr>cr_WorkspaceID = fa_WorkspaceID r, cr_ProjectID = fa_ProjectID r, cr_ParentID = None,
      cr_RootID = None, cr_SourceAttemptID = fa_SourceAttemptID r,
      cr_SourceArtifactID = fa_SourceArtifactID r, cr_Title = fa_Title r,
      cr_Description = fa_Description r,
      cr_Type = (case template of None \<Rightarrow> [] | Some t \<Rightarrow> tt_Type t),
      cr_Status = (if fa_Enqueue r then TicketStatusTodo else TicketStatusBacklog),
      cr_Priority = fa_Priority r, cr_Tags = fa_Tags r,
      cr_AcceptanceCriteria = fa_AcceptanceCriteria r,
      cr_VerificationCommands = fa_VerificationCommands r,
      cr_ExpectedArtifacts = fa_ExpectedArtifacts r, cr_RelevantPaths = fa_RelevantPaths r,
      cr_RequiredTools = fa_RequiredTools r, cr_RequiredPermissions = fa_RequiredPermissions r,
      cr_Environment = fa_Environment r, cr_Input = fa_Input r, cr_InputSchema = [],
      cr_RequiredCapabilities = fa_RequiredCapabilities r,
      cr_AllowedHarnesses = fa_AllowedHarnesses r, cr_RetryPolicy = RawEmpty,
      cr_Dependencies = [], cr_CreatedBy = ActorAgent, cr_CreatedByID = fa_CreatedByID r,
      cr_CreationReason = fa_CreationReason r, cr_Enqueue = fa_Enqueue r,
      cr_CanEnqueue = fa_CanEnqueue r\<rparr>"

definition validateCreateTicketFromAttemptRequest ::
  "create_ticket_from_attempt_request \<Rightarrow> bool \<Rightarrow> create_ticket_request \<Rightarrow> string list" where
  "validateCreateTicketFromAttemptRequest r knownTemplate ticketReq =
     problem (fa_SourceAttemptID r = None) ''source_attempt_id is required'' @
     (if fa_TemplateKind r = [] then [''template_kind is required'']
      else problem (\<not> knownTemplate) ''template_kind is not valid'') @
     validateCreateTicketRequest ticketReq"

definition CreateTicketFromAttempt ::
  "pg_env \<Rightarrow> create_ticket_from_attempt_request \<Rightarrow> ticket svc" where
  "CreateTicketFromAttempt env req =
     (let r = trimCreateTicketFromAttemptRequest req;
          template = TicketTemplateByKind (fa_TemplateKind r);
          ticketReq = createTicketRequestFromAttempt r template in
      svc_check (validateCreateTicketFromAttemptRequest r (template \<noteq> None) ticketReq)
        (if fa_Enqueue r then CreateTicket env ticketReq else ProposeTicket env ticketReq))"

end
