(* ===== verification/Dependency_Graph.thy ===== *)
theory Dependency_Graph
  imports Forge_Prelude "HOL-Library.AList"
begin

text \<open>
  \<open>hasDependencyCycle\<close> of internal/services/ticket_decomposition.go: a depth-first search with
  three colours over the dependencies between the children of a decomposition. The map of
  dependencies is an association list, as only finitely many keys have dependencies; a key
  that is missing from it has the nil slice of the map's zero value. The search is shown to
  terminate on every input and to find a cycle exactly when there is one.
\<close>

section \<open>The search\<close>

datatype visit_state = unvisited | visiting | visited

type_synonym dependency_map = "(string \<times> string list) list"

definition dependencies_of :: "dependency_map \<Rightarrow> string \<Rightarrow> string list" where
  "dependencies_of deps k = (case map_of deps k of None \<Rightarrow> [] | Some ks \<Rightarrow> ks)"

text \<open>\<open>visit\<close> is the recursive closure of the source, \<open>visit_each\<close> the loop in it. The colours
  are the state that the closure updates; the flag tells that a key was met again while it was
  being visited.\<close>

function (sequential) visit :: "dependency_map \<Rightarrow> string \<Rightarrow> (string \<Rightarrow> visit_state) \<Rightarrow> bool \<times> (string \<Rightarrow> visit_state)"
  and visit_each :: "dependency_map \<Rightarrow> string list \<Rightarrow> (string \<Rightarrow> visit_state) \<Rightarrow> bool \<times> (string \<Rightarrow> visit_state)"
where
  "visit deps key st =
     (case st key of
        visiting \<Rightarrow> (True, st)
      | visited \<Rightarrow> (False, st)
      | unvisited \<Rightarrow>
          (case visit_each deps (dependencies_of deps key) (st(key := visiting)) of
             (True, st') \<Rightarrow> (True, st')
           | (False, st') \<Rightarrow> (False, st'(key := visited))))"
| "visit_each deps [] st = (False, st)"
| "visit_each deps (k # ks) st =
     (case visit deps k st of
        (True, st') \<Rightarrow> (True, st')
      | (False, st') \<Rightarrow> visit_each deps ks st')"
  by pat_completeness auto

definition white :: "dependency_map \<Rightarrow> (string \<Rightarrow> visit_state) \<Rightarrow> string set" where
  "white deps st = {k \<in> fst ` set deps. st k = unvisited}"

lemma finite_white [simp]: "finite (white deps st)"
  by (simp add: white_def)

text \<open>A search never makes a visited key unvisited again, which the termination of the loop
  rests on.\<close>

lemma white_shrinks:
  "visit_visit_each_dom (Inl (deps, k, st)) \<Longrightarrow> white deps (snd (visit deps k st)) \<subseteq> white deps st"
  "visit_visit_each_dom (Inr (deps, ks, st)) \<Longrightarrow>
     white deps (snd (visit_each deps ks st)) \<subseteq> white deps st"
proof (induction rule: visit_visit_each.pinduct)
  case (1 deps key st)
  then show ?case
    by (fastforce simp: visit.psimps white_def split: visit_state.splits bool.splits prod.splits
        if_splits)
next
  case (2 deps st)
  then show ?case by (simp add: visit_each.psimps)
next
  case (3 deps k ks st)
  then show ?case
    by (fastforce simp: visit_each.psimps split: bool.splits prod.splits)
qed

termination visit
proof (relation "measures [case_sum (\<lambda>(deps, k, st). card (white deps st))
    (\<lambda>(deps, ks, st). card (white deps st)),
    case_sum (\<lambda>_. 1) (\<lambda>(deps, ks, st). 2 * length ks)]", goal_cases)
  case 1
  show ?case by simp
next
  case (2 deps key st)
  show ?case
  proof (cases "key \<in> fst ` set deps")
    case True
    with 2 have "white deps (st(key := visiting)) \<subset> white deps st"
      by (auto simp: white_def)
    then show ?thesis by (simp add: psubset_card_mono)
  next
    case False
    then have "map_of deps key = None"
      by (simp add: map_of_eq_None_iff)
    then have "dependencies_of deps key = []"
      by (simp add: dependencies_of_def)
    moreover have "white deps (st(key := visiting)) = white deps st"
      using False by (auto simp: white_def)
    ultimately show ?thesis by simp
  qed
next
  case (3 deps k ks st)
  show ?case by simp
next
  case (4 deps k ks st b st')
  then have "white deps st' \<subseteq> white deps st"
    using white_shrinks(1) [of deps k st] by (metis snd_conv)
  then have "card (white deps st') \<le> card (white deps st)"
    by (simp add: card_mono)
  then show ?case by auto
qed

section \<open>Correctness\<close>

definition edges :: "dependency_map \<Rightarrow> (string \<times> string) set" where
  "edges deps = {(k, j). j \<in> set (dependencies_of deps k)}"

text \<open>The visited keys: closed under dependencies, and on no cycle.\<close>

definition finished :: "dependency_map \<Rightarrow> (string \<Rightarrow> visit_state) \<Rightarrow> bool" where
  "finished deps st \<longleftrightarrow>
     (\<forall>k. st k = visited \<longrightarrow> (k, k) \<notin> (edges deps)\<^sup>+ \<and>
        (\<forall>j. (k, j) \<in> edges deps \<longrightarrow> st j = visited))"

lemma finished_closed:
  assumes "finished deps st" and "(k, j) \<in> (edges deps)\<^sup>+" and "st k = visited"
  shows "st j = visited"
  using assms(2,3,1) by (induction rule: trancl_induct) (auto simp: finished_def)

lemma finished_visit:
  assumes "finished deps st" and "st key \<noteq> visited"
    and "\<And>j. (key, j) \<in> edges deps \<Longrightarrow> st j = visited"
  shows "finished deps (st(key := visited))"
proof -
  have "(key, key) \<notin> (edges deps)\<^sup>+"
  proof
    assume "(key, key) \<in> (edges deps)\<^sup>+"
    then obtain j where "(key, j) \<in> edges deps" "j = key \<or> (j, key) \<in> (edges deps)\<^sup>+"
      by (metis rtranclD tranclD)
    with assms show False by (auto dest: finished_closed)
  qed
  with assms show ?thesis by (auto simp: finished_def)
qed

text \<open>A search that finds no cycle visits the keys it was asked for, keeps the keys that are being
  visited, and keeps the visited keys free of cycles.\<close>

lemma visit_False:
  "visit deps k st = (False, st') \<Longrightarrow> finished deps st \<Longrightarrow>
     finished deps st' \<and> st' k = visited \<and> (\<forall>j. st' j = visiting \<longleftrightarrow> st j = visiting) \<and>
     (\<forall>j. st j = visited \<longrightarrow> st' j = visited)"
  "visit_each deps ks st = (False, st') \<Longrightarrow> finished deps st \<Longrightarrow>
     finished deps st' \<and> (\<forall>k \<in> set ks. st' k = visited) \<and>
     (\<forall>j. st' j = visiting \<longleftrightarrow> st j = visiting) \<and> (\<forall>j. st j = visited \<longrightarrow> st' j = visited)"
proof (induction deps k st and deps ks st arbitrary: st' and st' rule: visit_visit_each.induct)
  case (1 deps key st)
  show ?case
  proof (cases "st key")
    case unvisited
    let ?st0 = "st(key := visiting)"
    from unvisited 1(2) obtain st1
      where st1: "visit_each deps (dependencies_of deps key) ?st0 = (False, st1)"
        "st' = st1(key := visited)"
      by (auto split: prod.splits bool.splits)
    have "finished deps ?st0"
      using 1(3) unvisited by (auto simp: finished_def)
    note IH = 1(1) [OF unvisited st1(1) this]
    then have "finished deps st'"
      unfolding st1(2)
      by (intro finished_visit) (auto simp: edges_def dest: spec [of _ key])
    then show ?thesis
      using IH unvisited by (auto simp: st1(2) fun_upd_def)
  qed (use 1 in auto)
next
  case (3 deps k ks st)
  from 3(3) obtain st1 where st1: "visit deps k st = (False, st1)" "visit_each deps ks st1 = (False, st')"
    by (auto split: prod.splits bool.splits)
  note IH1 = 3(1) [OF st1(1) 3(4)]
  with 3(2) [OF st1(1) [symmetric] refl st1(2)] show ?case by auto
qed simp

text \<open>A search that meets a key again has found a cycle, as long as every key that is being
  visited leads to the one the search is at.\<close>

lemma visit_True:
  "visit deps k st = (True, st') \<Longrightarrow> (\<And>j. st j = visiting \<Longrightarrow> (j, k) \<in> (edges deps)\<^sup>+) \<Longrightarrow>
     finished deps st \<Longrightarrow> \<exists>c. (c, c) \<in> (edges deps)\<^sup>+"
  "visit_each deps ks st = (True, st') \<Longrightarrow>
     (\<And>j k. st j = visiting \<Longrightarrow> k \<in> set ks \<Longrightarrow> (j, k) \<in> (edges deps)\<^sup>+) \<Longrightarrow>
     finished deps st \<Longrightarrow> \<exists>c. (c, c) \<in> (edges deps)\<^sup>+"
proof (induction deps k st and deps ks st arbitrary: st' and st' rule: visit_visit_each.induct)
  case (1 deps key st)
  show ?case
  proof (cases "st key")
    case unvisited
    let ?st0 = "st(key := visiting)"
    from unvisited 1(2) have found: "visit_each deps (dependencies_of deps key) ?st0 = (True, st')"
      by (auto split: prod.splits bool.splits)
    have path: "(j, k) \<in> (edges deps)\<^sup>+"
      if "?st0 j = visiting" and "k \<in> set (dependencies_of deps key)" for j k
    proof -
      have "(key, k) \<in> edges deps" using that(2) by (simp add: edges_def)
      with that(1) 1(3) [of j] show ?thesis
        by (cases "j = key") (auto intro: trancl_into_trancl)
    qed
    have "finished deps ?st0"
      using 1(4) unvisited by (auto simp: finished_def)
    with 1(1) [OF unvisited found path] show ?thesis by blast
  next
    case visiting
    with 1(3) [of key] show ?thesis by blast
  next
    case visited
    with 1(2) show ?thesis by simp
  qed
next
  case (3 deps k ks st)
  show ?case
  proof (cases "visit deps k st")
    case (Pair b st1)
    show ?thesis
    proof (cases b)
      case True
      with 3(1) [of st1] 3(4,5) Pair show ?thesis by auto
    next
      case False
      with Pair have r: "visit deps k st = (False, st1)" by simp
      with 3(3) have rest: "visit_each deps ks st1 = (True, st')" by simp
      note inv = visit_False(1) [OF r 3(5)]
      show ?thesis
        by (rule 3(2) [OF r [symmetric] refl rest]) (use inv 3(4) in auto)
    qed
  qed
qed simp

lemma visit_each_iff_cycle:
  assumes "fst ` set deps \<subseteq> set ks"
  shows "fst (visit_each deps ks (\<lambda>_. unvisited)) \<longleftrightarrow> (\<exists>c. (c, c) \<in> (edges deps)\<^sup>+)"
proof (cases "visit_each deps ks (\<lambda>_. unvisited)")
  case (Pair found st)
  have start: "finished deps (\<lambda>_. unvisited)" by (simp add: finished_def)
  show ?thesis
  proof (cases found)
    case True
    with Pair visit_True(2) [of deps ks _ st, OF _ _ start] show ?thesis by auto
  next
    case False
    with Pair visit_False(2) [of deps ks _ st, OF _ start]
    have st: "finished deps st" "\<forall>k \<in> set ks. st k = visited" by auto
    have "st c = visited" if "(c, c) \<in> (edges deps)\<^sup>+" for c
    proof -
      from that obtain j where "(c, j) \<in> edges deps" by (auto dest: tranclD)
      then have "map_of deps c \<noteq> None"
        by (cases "map_of deps c") (auto simp: edges_def dependencies_of_def)
      then have "c \<in> fst ` set deps" by (auto simp: map_of_eq_None_iff)
      with assms st(2) show ?thesis by blast
    qed
    with st(1) have "\<nexists>c. (c, c) \<in> (edges deps)\<^sup>+" unfolding finished_def by blast
    with False Pair show ?thesis by simp
  qed
qed

section \<open>The outer loop\<close>

text \<open>The loop over the children visits the keys that are still unvisited.\<close>

fun visit_roots :: "dependency_map \<Rightarrow> string list \<Rightarrow> (string \<Rightarrow> visit_state) \<Rightarrow> bool" where
  "visit_roots deps [] st = False"
| "visit_roots deps (k # ks) st =
     (if st k = unvisited
      then (case visit deps k st of
              (True, st') \<Rightarrow> True
            | (False, st') \<Rightarrow> visit_roots deps ks st')
      else visit_roots deps ks st)"

lemma visit_roots_eq:
  assumes "finished deps st" and "\<And>j. st j \<noteq> visiting"
  shows "visit_roots deps ks st = fst (visit_each deps ks st)"
  using assms
proof (induction ks arbitrary: st)
  case (Cons k ks)
  show ?case
  proof (cases "st k")
    case unvisited
    show ?thesis
    proof (cases "visit deps k st")
      case (Pair b st1)
      show ?thesis
      proof (cases b)
        case False
        with Pair have r: "visit deps k st = (False, st1)" by simp
        from visit_False(1) [OF this Cons.prems(1)] Cons.prems(2)
        have "visit_roots deps ks st1 = fst (visit_each deps ks st1)"
          by (intro Cons.IH) auto
        with unvisited r show ?thesis by (simp del: visit.simps)
      qed (use unvisited Pair in \<open>simp del: visit.simps\<close>)
    qed
  qed (use Cons in auto)
qed simp

lemma visit_roots_iff_cycle:
  assumes "fst ` set deps \<subseteq> set ks"
  shows "visit_roots deps ks (\<lambda>_. unvisited) \<longleftrightarrow> \<not> acyclic (edges deps)"
proof -
  have "visit_roots deps ks (\<lambda>_. unvisited) = fst (visit_each deps ks (\<lambda>_. unvisited))"
    by (rule visit_roots_eq) (simp_all add: finished_def)
  with visit_each_iff_cycle [OF assms] show ?thesis by (simp add: acyclic_def)
qed

end
