(* ===== verification/Go_Strconv.thy ===== *)
theory Go_Strconv
  imports Forge_Json
begin

text \<open>
  The part of Go's \<open>strconv\<close> and \<open>strings\<close> that the services format and parse with: decimal
  printing, \<open>ParseInt(s, 10, 64)\<close>, and splitting at a separator, with their round trips.
\<close>

section \<open>Decimal numbers\<close>

fun nat_digits :: "nat \<Rightarrow> string" where
  "nat_digits n =
     (if n < 10 then [char_of (48 + n)] else nat_digits (n div 10) @ [char_of (48 + n mod 10)])"

declare nat_digits.simps [simp del]

definition FormatInt :: "int \<Rightarrow> string" where
  "FormatInt n = (if n < 0 then CHR ''-'' # nat_digits (nat (- n)) else nat_digits (nat n))"

definition ParseInt :: "string \<Rightarrow> int option" where
  "ParseInt s =
     (case signed_value s of
        None \<Rightarrow> None
      | Some n \<Rightarrow> if - (2 ^ 63) \<le> n \<and> n < 2 ^ 63 then Some n else None)"

lemma digit_value_char_of: "n < 10 \<Longrightarrow> digit_value (char_of (48 + n :: nat)) = Some (int n)"
  unfolding digit_value_def Let_def
  by (simp add: of_char_of [where 'a = int, of "int (48 + n)", simplified of_nat_add]
      flip: of_nat_of_char [where 'a = int])

lemma digits_value_append:
  "digits_value acc (xs @ ys) =
     (case digits_value acc xs of None \<Rightarrow> None | Some a \<Rightarrow> digits_value a ys)"
  by (induction xs arbitrary: acc) (auto split: option.splits)

lemma digits_value_nat_digits: "digits_value 0 (nat_digits n) = Some (int n)"
proof (induction n rule: nat_digits.induct)
  case (1 n)
  show ?case
  proof (cases "n < 10")
    case True
    then show ?thesis by (simp add: nat_digits.simps [of n] digit_value_char_of)
  next
    case False
    have "10 * int (n div 10) + int (n mod 10) = int n"
      by (metis mult_div_mod_eq of_nat_add of_nat_mult of_nat_numeral)
    moreover have "digits_value (int (n div 10)) [char_of (48 + n mod 10)] =
        Some (10 * int (n div 10) + int (n mod 10))"
      using digit_value_char_of [of "n mod 10"] by simp
    ultimately show ?thesis
      using False 1 by (simp only: nat_digits.simps [of n] digits_value_append if_False
          option.case not_False_eq_True)
  qed
qed

text \<open>A printed number has digits only.\<close>

definition is_digit :: "char \<Rightarrow> bool" where
  "is_digit c \<longleftrightarrow> digit_value c \<noteq> None"

lemma nat_digits_digits: "\<forall>c \<in> set (nat_digits n). is_digit c"
proof (induction n rule: nat_digits.induct)
  case (1 n)
  then show ?case
    by (auto simp: nat_digits.simps [of n] is_digit_def digit_value_char_of)
qed

lemma nat_digits_not_Nil [simp]: "nat_digits n \<noteq> []"
  by (simp add: nat_digits.simps [of n])

lemma not_digits: "\<not> is_digit CHR ''-''" "\<not> is_digit CHR ''+''" "\<not> is_digit CHR ''|''"
  "\<not> is_digit CHR ''.''" "\<not> is_digit CHR ''/''"
  by (simp_all add: is_digit_def digit_value_def)

lemma signed_value_nat_digits: "signed_value (nat_digits n) = Some (int n)"
proof -
  obtain c cs where c: "nat_digits n = c # cs"
    by (cases "nat_digits n") auto
  then have "is_digit c" using nat_digits_digits [of n] by simp
  then have "c \<noteq> CHR ''-''" "c \<noteq> CHR ''+''" using not_digits by auto
  then show ?thesis using digits_value_nat_digits [of n] c by simp
qed

lemma signed_value_FormatInt [simp]: "signed_value (FormatInt n) = Some n"
  using signed_value_nat_digits [of "nat n"] digits_value_nat_digits [of "nat (- n)"]
  by (simp add: FormatInt_def)

lemma ParseInt_FormatInt: "- (2 ^ 63) \<le> n \<Longrightarrow> n < 2 ^ 63 \<Longrightarrow> ParseInt (FormatInt n) = Some n"
  by (simp add: ParseInt_def)

lemma FormatInt_chars: "\<forall>c \<in> set (FormatInt n). is_digit c \<or> c = CHR ''-''"
  using nat_digits_digits by (auto simp: FormatInt_def)

lemma FormatInt_not_Nil [simp]: "FormatInt n \<noteq> []"
  by (simp add: FormatInt_def)

lemma FormatInt_inject: "FormatInt m = FormatInt n \<longleftrightarrow> m = n"
  by (metis option.inject signed_value_FormatInt)

section \<open>Splitting and joining\<close>

text \<open>\<open>strings.Split\<close> and \<open>strings.Join\<close> for a separator of one byte.\<close>

fun Split :: "char \<Rightarrow> string \<Rightarrow> string list" where
  "Split sep [] = [[]]"
| "Split sep (c # cs) =
     (if c = sep then [] # Split sep cs
      else (case Split sep cs of [] \<Rightarrow> [[c]] | p # ps \<Rightarrow> (c # p) # ps))"

fun Join :: "char \<Rightarrow> string list \<Rightarrow> string" where
  "Join sep [] = []"
| "Join sep [p] = p"
| "Join sep (p # ps) = p @ sep # Join sep ps"

lemma Split_not_Nil [simp]: "Split sep s \<noteq> []"
  by (cases s) (auto split: list.splits)

lemma Split_single: "sep \<notin> set p \<Longrightarrow> Split sep p = [p]"
  by (induction p) auto

lemma Split_append: "sep \<notin> set p \<Longrightarrow> Split sep (p @ sep # s) = p # Split sep s"
  by (induction p) auto

lemma Split_Join: "ps \<noteq> [] \<Longrightarrow> (\<And>p. p \<in> set ps \<Longrightarrow> sep \<notin> set p) \<Longrightarrow> Split sep (Join sep ps) = ps"
  by (induction ps rule: Join.induct) (auto simp: Split_single Split_append)

lemma Split_no_sep: "p \<in> set (Split sep s) \<Longrightarrow> sep \<notin> set p"
  by (induction s arbitrary: p) (auto split: list.splits if_splits)

lemma Join_Split: "Join sep (Split sep s) = s"
proof (induction s)
  case (Cons c s)
  obtain p ps where "Split sep s = p # ps" by (cases "Split sep s") auto
  with Cons show ?case by (cases ps) auto
qed simp

section \<open>Text without white space\<close>

definition plain_char :: "char \<Rightarrow> bool" where
  "plain_char c \<longleftrightarrow> 32 < (of_char c :: nat) \<and> (of_char c :: nat) < 128"

lemma stripAny_plain:
  assumes "\<forall>c \<in> set s. plain_char c" and "\<forall>q \<in> set qs. q \<noteq> [] \<longrightarrow> \<not> plain_char (hd q)"
  shows "stripAny qs s = None"
  unfolding stripAny_None_iff
proof (intro ballI impI notI)
  fix q
  assume q: "q \<in> set qs" "q \<noteq> []" "prefix q s"
  then have "hd q \<in> set s" by (meson hd_in_set set_mono_prefix subsetD)
  with assms q(1,2) show False by blast
qed

lemma TrimSpace_plain:
  assumes "\<forall>c \<in> set s. plain_char c"
  shows "TrimSpace s = s"
proof -
  have "stripAny spaceSeqs s = None" "stripAny (map rev spaceSeqs) (rev s) = None"
    by (rule stripAny_plain; use assms in \<open>simp add: spaceSeqs_def plain_char_def\<close>)+
  then show ?thesis
    by (simp add: TrimSpace_def trimLeft_def trimRight_def trimSeqs_None)
qed

end
