(* ===== verification/Ticket_Decomposition.thy ===== *)
theory Ticket_Decomposition
  imports Ticket_Laws Dependency_Graph Go_Strconv
begin

text \<open>
  internal/services/ticket_decomposition.go: a ticket is split into children, which are created
  or proposed one by one and then connected by dependencies that name each other by key.
  \<open>strconv.Quote\<close>, which rests on Go's table of printable runes, is an argument (\<open>quote\<close>); it
  occurs in error texts only.
\<close>

section \<open>Requests\<close>

definition DecomposeModePropose :: string where "DecomposeModePropose = ''propose''"
definition DecomposeModeCreate :: string where "DecomposeModeCreate = ''create''"

record decompose_child_request =
  dc_Key :: string
  dc_Title :: string
  dc_Description :: string
  dc_Type :: string
  dc_Priority :: "int option"
  dc_Tags :: "string list"
  dc_AcceptanceCriteria :: "string list"
  dc_VerificationCommands :: "string list"
  dc_ExpectedArtifacts :: "string list"
  dc_RelevantPaths :: "string list"
  dc_RequiredTools :: "string list"
  dc_RequiredPermissions :: "string list"
  dc_RequiredCapabilities :: "string list"
  dc_AllowedHarnesses :: "string list"
  dc_Environment :: "(string \<times> json) list"
  dc_Input :: "(string \<times> json) list"
  dc_DependsOn :: "string list"

record decompose_ticket_request =
  dt_WorkspaceID :: "uuid option"
  dt_ProjectID :: "uuid option"
  dt_ParentID :: "uuid option"
  dt_RootID :: "uuid option"
  dt_Mode :: string
  dt_CanEnqueue :: bool
  dt_CreatedBy :: string
  dt_CreatedByID :: string
  dt_CreationReason :: string
  dt_Children :: "decompose_child_request list"

definition trimDecomposeChild :: "decompose_child_request \<Rightarrow> decompose_child_request" where
  "trimDecomposeChild c =
     c\<lparr>dc_Key := TrimSpace (dc_Key c), dc_Title := TrimSpace (dc_Title c),
       dc_Description := TrimSpace (dc_Description c), dc_Type := TrimSpace (dc_Type c),
       dc_Tags := slice_list (compactStrings (dc_Tags c)),
       dc_AcceptanceCriteria := slice_list (compactStrings (dc_AcceptanceCriteria c)),
       dc_VerificationCommands := slice_list (compactStrings (dc_VerificationCommands c)),
       dc_ExpectedArtifacts := slice_list (compactStrings (dc_ExpectedArtifacts c)),
       dc_RelevantPaths := slice_list (compactStrings (dc_RelevantPaths c)),
       dc_RequiredTools := slice_list (compactStrings (dc_RequiredTools c)),
       dc_RequiredPermissions := slice_list (compactStrings (dc_RequiredPermissions c)),
       dc_RequiredCapabilities := slice_list (compactStrings (dc_RequiredCapabilities c)),
       dc_AllowedHarnesses := slice_list (compactStrings (dc_AllowedHarnesses c)),
       dc_DependsOn := slice_list (compactStrings (dc_DependsOn c))\<rparr>"

definition trimDecomposeTicketRequest :: "decompose_ticket_request \<Rightarrow> decompose_ticket_request" where
  "trimDecomposeTicketRequest r =
     r\<lparr>dt_Mode := default_string DecomposeModePropose (TrimSpace (dt_Mode r)),
       dt_CreatedBy := default_string ActorAgent (TrimSpace (dt_CreatedBy r)),
       dt_CreatedByID := TrimSpace (dt_CreatedByID r),
       dt_CreationReason := TrimSpace (dt_CreationReason r),
       dt_Children := map trimDecomposeChild (dt_Children r)\<rparr>"

definition createRequestFromChild ::
  "decompose_ticket_request \<Rightarrow> decompose_child_request \<Rightarrow> create_ticket_request" where
  "createRequestFromChild r c =
     (let create = (dt_Mode r = DecomposeModeCreate) in
      \<lparr>cr_WorkspaceID = dt_WorkspaceID r, cr_ProjectID = dt_ProjectID r,
       cr_ParentID = dt_ParentID r,
       cr_RootID = (if dt_RootID r = None then dt_ParentID r else dt_RootID r),
       cr_SourceAttemptID = None, cr_SourceArtifactID = None, cr_Title = dc_Title c,
       cr_Description = dc_Description c, cr_Type = dc_Type c,
       cr_Status = (if create then TicketStatusTodo else TicketStatusBacklog),
       cr_Priority = dc_Priority c, cr_Tags = dc_Tags c,
       cr_AcceptanceCriteria = dc_AcceptanceCriteria c,
       cr_VerificationCommands = dc_VerificationCommands c,
       cr_ExpectedArtifacts = dc_ExpectedArtifacts c, cr_RelevantPaths = dc_RelevantPaths c,
       cr_RequiredTools = dc_RequiredTools c, cr_RequiredPermissions = dc_RequiredPermissions c,
       cr_Environment = dc_Environment c, cr_Input = dc_Input c, cr_InputSchema = [],
       cr_RequiredCapabilities = dc_RequiredCapabilities c,
       cr_AllowedHarnesses = dc_AllowedHarnesses c, cr_RetryPolicy = RawEmpty,
       cr_Dependencies = [], cr_CreatedBy = dt_CreatedBy r, cr_CreatedByID = dt_CreatedByID r,
       cr_CreationReason = dt_CreationReason r, cr_Enqueue = create,
       cr_CanEnqueue = dt_CanEnqueue r\<rparr>)"

definition createRequestsFromDecomposition ::
  "decompose_ticket_request \<Rightarrow> create_ticket_request list" where
  "createRequestsFromDecomposition r = map (createRequestFromChild r) (dt_Children r)"

section \<open>Validation\<close>

text \<open>\<open>fmt.Sprintf("children[%d].%s", i, msg)\<close>\<close>

definition child_problem :: "nat \<Rightarrow> string \<Rightarrow> string" where
  "child_problem i msg = ''children['' @ FormatInt (int i) @ ''].'' @ msg"

text \<open>The first loop of the validation: \<open>i\<close> is the index of the next child and \<open>keys\<close> holds the
  keys seen so far.\<close>

fun key_problems :: "nat \<Rightarrow> string list \<Rightarrow> decompose_child_request list \<Rightarrow> string list \<times> string list" where
  "key_problems i keys [] = ([], keys)"
| "key_problems i keys (c # cs) =
     (if dc_Key c = [] then
        (case key_problems (Suc i) keys cs of
           (ps, ks) \<Rightarrow> (child_problem i ''key is required'' # ps, ks))
      else if dc_Key c \<in> set keys then
        (case key_problems (Suc i) keys cs of
           (ps, ks) \<Rightarrow> (child_problem i ''key is duplicated'' # ps, ks))
      else key_problems (Suc i) (dc_Key c # keys) cs)"

definition dependency_problems ::
  "(string \<Rightarrow> string) \<Rightarrow> string list \<Rightarrow> nat \<times> decompose_child_request \<Rightarrow> string list" where
  "dependency_problems quote keys = (\<lambda>(i, c).
     concat (map (\<lambda>k.
       problem (k \<notin> set keys)
         (child_problem i (''depends_on references unknown child '' @ quote k)) @
       problem (k = dc_Key c) (child_problem i ''depends_on cannot reference itself''))
       (dc_DependsOn c)))"

definition dependencies :: "decompose_child_request list \<Rightarrow> dependency_map" where
  "dependencies children =
     foldl (\<lambda>m c. AList.update (dc_Key c) (dc_DependsOn c) m) [] children"

definition hasDependencyCycle :: "decompose_child_request list \<Rightarrow> bool" where
  "hasDependencyCycle children =
     visit_roots (dependencies children) (map dc_Key children) (\<lambda>_. unvisited)"

definition validateDecomposeTicketRequest ::
  "(string \<Rightarrow> string) \<Rightarrow> decompose_ticket_request \<Rightarrow> create_ticket_request list \<Rightarrow> string list" where
  "validateDecomposeTicketRequest quote r childRequests =
     (let ps1 =
        problem (dt_WorkspaceID r = None) ''workspace_id is required'' @
        problem (dt_ProjectID r = None) ''project_id is required'' @
        problem (dt_ParentID r = None) ''parent_id is required'' @
        problem (dt_Mode r \<noteq> DecomposeModePropose \<and> dt_Mode r \<noteq> DecomposeModeCreate)
          ''mode must be propose or create'' @
        problem (dt_Children r = []) ''children is required'' in
      case key_problems 0 [] (dt_Children r) of (ps2, keys) \<Rightarrow>
      let ps3 = concat (map (dependency_problems quote keys) (enumerate 0 (dt_Children r)));
          ps = ps1 @ ps2 @ ps3 in
      ps @
      problem (ps = [] \<and> hasDependencyCycle (dt_Children r))
        ''children dependencies contain a cycle'' @
      concat (map (\<lambda>(i, cr). map (child_problem i) (validateCreateTicketRequest cr))
        (enumerate 0 childRequests)))"

section \<open>Decomposition\<close>

fun create_children ::
  "(string \<Rightarrow> string) \<Rightarrow> pg_env \<Rightarrow> string \<Rightarrow> (string \<times> create_ticket_request) list \<Rightarrow> ticket list svc" where
  "create_children quote env mode [] = svc_return []"
| "create_children quote env mode ((key, r) # rs) =
     svc_bind (svc_wrap (''create decomposed child '' @ quote key)
        (if mode = DecomposeModeCreate then CreateTicket env r else ProposeTicket env r)) (\<lambda>t.
     svc_bind (create_children quote env mode rs) (\<lambda>ts. svc_return (t # ts)))"

definition childIDsByKey :: "string list \<Rightarrow> ticket list \<Rightarrow> string \<Rightarrow> uuid option" where
  "childIDsByKey keys ts = map_of (rev (zip keys (map tk_ID ts)))"

definition create_child_dependencies ::
  "pg_env \<Rightarrow> (string \<Rightarrow> uuid option) \<Rightarrow> ticket \<Rightarrow> string list \<Rightarrow> unit svc" where
  "create_child_dependencies env ids t keys =
     svc_each (\<lambda>k. svc_stmt (StoreError ''create decomposed child dependency'')
       (CreateTicketDependency_stmt env (tk_ID t) (ids k) (tk_WorkspaceID t) (tk_ProjectID t)))
       keys"

definition DecomposeTicket ::
  "(string \<Rightarrow> string) \<Rightarrow> pg_env \<Rightarrow> decompose_ticket_request \<Rightarrow> ticket list svc" where
  "DecomposeTicket quote env req =
     (let r = trimDecomposeTicketRequest req;
          childRequests = createRequestsFromDecomposition r;
          keys = map dc_Key (dt_Children r) in
      svc_check (validateDecomposeTicketRequest quote r childRequests)
        (svc_bind (create_children quote env (dt_Mode r) (zip keys childRequests)) (\<lambda>ts.
         svc_bind (svc_each
           (\<lambda>(t, c). create_child_dependencies env (childIDsByKey keys ts) t (dc_DependsOn c))
           (zip ts (dt_Children r))) (\<lambda>_.
         svc_return ts))))"

section \<open>The cycle check\<close>

text \<open>The dependency relation between keys that the children declare; among children with the
  same key the last one counts.\<close>

definition child_dependency :: "decompose_child_request list \<Rightarrow> (string \<times> string) set" where
  "child_dependency cs = {(k, j). \<exists>ks. map_of (rev (map (\<lambda>c. (dc_Key c, dc_DependsOn c)) cs)) k =
     Some ks \<and> j \<in> set ks}"

lemma map_of_dependencies:
  "map_of (dependencies cs) = map_of (rev (map (\<lambda>c. (dc_Key c, dc_DependsOn c)) cs))"
proof -
  have "map_of (foldl (\<lambda>m c. AList.update (dc_Key c) (dc_DependsOn c) m) m0 cs) =
      map_of m0 ++ map_of (rev (map (\<lambda>c. (dc_Key c, dc_DependsOn c)) cs))" for m0
    by (induction cs arbitrary: m0) (simp_all add: update_conv')
  then show ?thesis by (simp add: dependencies_def)
qed

lemma edges_dependencies: "edges (dependencies cs) = child_dependency cs"
proof -
  have "j \<in> set (case v of None \<Rightarrow> [] | Some ks \<Rightarrow> ks) \<longleftrightarrow> (\<exists>ks. v = Some ks \<and> j \<in> set ks)"
    for j and v :: "string list option"
    by (cases v) auto
  then show ?thesis
    by (simp add: edges_def dependencies_of_def child_dependency_def map_of_dependencies)
qed

lemma dependencies_keys: "fst ` set (dependencies cs) \<subseteq> set (map dc_Key cs)"
proof -
  have "dom (map_of (dependencies cs)) \<subseteq> set (map dc_Key cs)"
    by (auto simp: map_of_dependencies dom_map_of_conv_image_fst)
  then show ?thesis by (simp add: dom_map_of_conv_image_fst)
qed

lemma hasDependencyCycle_iff: "hasDependencyCycle cs \<longleftrightarrow> \<not> acyclic (child_dependency cs)"
  unfolding hasDependencyCycle_def
  by (simp add: visit_roots_iff_cycle dependencies_keys edges_dependencies del: set_map)

lemma child_dependency_distinct:
  assumes "distinct (map dc_Key cs)" and "c \<in> set cs" and "j \<in> set (dc_DependsOn c)"
  shows "(dc_Key c, j) \<in> child_dependency cs"
proof -
  let ?m = "map (\<lambda>c. (dc_Key c, dc_DependsOn c)) cs"
  have "distinct (map fst (rev ?m))"
    using assms(1) by (simp add: comp_def flip: rev_map)
  moreover have "(dc_Key c, dc_DependsOn c) \<in> set (rev ?m)"
    using assms(2) by auto
  ultimately have "map_of (rev ?m) (dc_Key c) = Some (dc_DependsOn c)"
    by (rule map_of_is_SomeI)
  with assms(3) show ?thesis by (auto simp: child_dependency_def)
qed

section \<open>What validation ensures\<close>

lemma key_problems_Nil:
  assumes "key_problems i keys cs = ([], ks)"
  shows "set ks = set keys \<union> dc_Key ` set cs \<and> distinct (map dc_Key cs) \<and>
    dc_Key ` set cs \<inter> set keys = {}"
  using assms
proof (induction cs arbitrary: i keys)
  case (Cons c cs)
  then have "dc_Key c \<notin> set keys" "key_problems (Suc i) (dc_Key c # keys) cs = ([], ks)"
    by (auto split: if_splits prod.splits)
  with Cons.IH [of "Suc i" "dc_Key c # keys"] show ?case by auto
qed simp

lemma validated_decomposition:
  assumes "validateDecomposeTicketRequest quote r crs = []"
  shows "distinct (map dc_Key (dt_Children r))" and "acyclic (child_dependency (dt_Children r))"
    and "\<And>c k. c \<in> set (dt_Children r) \<Longrightarrow> k \<in> set (dc_DependsOn c) \<Longrightarrow>
      k \<in> dc_Key ` set (dt_Children r)"
    and "dt_Mode r = DecomposeModePropose \<or> dt_Mode r = DecomposeModeCreate"
    and "dt_Children r \<noteq> []" and "dt_ParentID r \<noteq> None"
proof -
  obtain ps keys where kp: "key_problems 0 [] (dt_Children r) = (ps, keys)" by fastforce
  note v = assms [unfolded validateDecomposeTicketRequest_def Let_def kp prod.case, simplified]
  from v have ps: "ps = []" by simp
  note keys = key_problems_Nil [OF kp [unfolded ps]]
  show "distinct (map dc_Key (dt_Children r))" using keys by simp
  show "acyclic (child_dependency (dt_Children r))"
    using v by (elim conjE) (auto simp: hasDependencyCycle_iff)
  show "dt_Mode r = DecomposeModePropose \<or> dt_Mode r = DecomposeModeCreate"
    "dt_Children r \<noteq> []" "dt_ParentID r \<noteq> None"
    using v by auto
  fix c k
  assume c: "c \<in> set (dt_Children r)" and k: "k \<in> set (dc_DependsOn c)"
  from c obtain i where "(i, c) \<in> set (enumerate 0 (dt_Children r))"
    by (metis in_set_conv_nth in_set_impl_in_set_zip2 enumerate_eq_zip length_upt
        diff_add_inverse)
  with v have "dependency_problems quote keys (i, c) = []" by auto
  with k have "k \<in> set keys" by (auto simp: dependency_problems_def)
  with keys show "k \<in> dc_Key ` set (dt_Children r)" by simp
qed

section \<open>The effect of a decomposition\<close>

lemma svc_each_map: "svc_each f (map g xs) = svc_each (\<lambda>x. f (g x)) xs"
  by (induction xs) simp_all

text \<open>The ticket made from a request, in the status of the mode.\<close>

definition child_of :: "string \<Rightarrow> create_ticket_request \<Rightarrow> ticket \<Rightarrow> bool" where
  "child_of mode r t \<longleftrightarrow>
     Some (tk_WorkspaceID t) = cr_WorkspaceID r \<and> Some (tk_ProjectID t) = cr_ProjectID r \<and>
     tk_ParentID t = cr_ParentID r \<and> tk_RootID t = cr_RootID r \<and>
     tk_Title t = TrimSpace (cr_Title r) \<and> tk_Type t = TrimSpace (cr_Type r) \<and>
     tk_Status t = (if mode = DecomposeModeCreate then TicketStatusTodo else TicketStatusBacklog)"

lemma create_child_rows:
  assumes "(if mode = DecomposeModeCreate then CreateTicket env r else ProposeTicket env r) d =
      (Inr t, d')"
    and "cr_Dependencies r = []" and "mode = DecomposeModeCreate \<Longrightarrow> cr_Status r = TicketStatusTodo"
  shows "tickets d' = tickets d @ [t]" and "tk_ID t \<notin> tk_ID ` set (tickets d)"
    and "attempts d' = attempts d" and "ticket_dependencies d' = ticket_dependencies d"
    and "child_of mode r t"
proof -
  let ?r = "if mode = DecomposeModeCreate then r
    else r\<lparr>cr_Status := TicketStatusBacklog, cr_Enqueue := False\<rparr>"
  let ?ty = "if mode = DecomposeModeCreate then EventTicketCreated else EventTicketProposed"
  have run: "createTicket env ?r ?ty d = (Inr t, d')"
    using assms(1) by (simp add: CreateTicket_def ProposeTicket_def split: if_splits)
  note rows = createTicket_rows [OF run]
  show "tickets d' = tickets d @ [t]" "tk_ID t \<notin> tk_ID ` set (tickets d)"
    "attempts d' = attempts d"
    by (rule rows)+
  show "ticket_dependencies d' = ticket_dependencies d"
  proof -
    have "cr_Dependencies ?r = []" using assms(2) by simp
    with rows(4) show ?thesis by (metis Nil_is_map_conv append_Nil2)
  qed
  have "TrimSpace TicketStatusTodo = TicketStatusTodo" by code_simp
  then have "cr_Status (completeCreateTicketRequest ?r ?ty) =
      (if mode = DecomposeModeCreate then TicketStatusTodo else TicketStatusBacklog)"
    using assms(3)
    by (auto simp: completeCreateTicketRequest_def Let_def trimCreateTicketRequest_def
        event_created_neq [symmetric] ticket_status_defs)
  with rows(5-10,12) show "child_of mode r t" by (simp add: child_of_def)
qed

lemma create_children_rows:
  assumes "create_children quote env mode krs d = (Inr ts, d')"
    and "\<And>k r. (k, r) \<in> set krs \<Longrightarrow> cr_Dependencies r = [] \<and>
      (mode = DecomposeModeCreate \<longrightarrow> cr_Status r = TicketStatusTodo)"
  shows "tickets d' = tickets d @ ts \<and> distinct (map tk_ID ts) \<and>
    tk_ID ` set ts \<inter> tk_ID ` set (tickets d) = {} \<and> attempts d' = attempts d \<and>
    ticket_dependencies d' = ticket_dependencies d \<and> list_all2 (child_of mode) (map snd krs) ts"
  using assms
proof (induction krs arbitrary: d ts)
  case Nil
  then show ?case by (simp add: svc_return_iff)
next
  case (Cons kr krs)
  obtain k r where kr: "kr = (k, r)" by fastforce
  from Cons.prems(1) obtain t d1 ts' where
    1: "(if mode = DecomposeModeCreate then CreateTicket env r else ProposeTicket env r) d =
      (Inr t, d1)"
    and 2: "create_children quote env mode krs d1 = (Inr ts', d')" and ts: "ts = t # ts'"
    by (auto simp: kr svc_bind_Inr_iff svc_wrap_Inr_iff svc_return_iff)
  have "cr_Dependencies r = []" "mode = DecomposeModeCreate \<Longrightarrow> cr_Status r = TicketStatusTodo"
    using Cons.prems(2) [of k r] by (auto simp: kr)
  note rows = create_child_rows [OF 1 this]
  from Cons.IH [OF 2] Cons.prems(2) rows show ?case
    by (auto simp: kr ts)
qed

text \<open>The rows that connect the children.\<close>

lemma create_child_dependencies_rows:
  assumes "svc_each (\<lambda>(t, c). create_child_dependencies env ids t (dc_DependsOn c)) tcs d =
      (Inr (), d')"
  shows "\<exists>rs. d' = d\<lparr>ticket_dependencies := ticket_dependencies d @ rs\<rparr> \<and>
    map (\<lambda>r. (dep_TicketID r, Some (dep_DependsOnTicketID r))) rs =
      concat (map (\<lambda>(t, c). map (\<lambda>k. (tk_ID t, ids k)) (dc_DependsOn c)) tcs)"
  using assms
proof (induction tcs arbitrary: d)
  case Nil
  then show ?case by (auto simp: svc_return_iff)
next
  case (Cons tc tcs)
  obtain t c where tc: "tc = (t, c)" by fastforce
  from Cons.prems obtain d1 where
    1: "create_child_dependencies env ids t (dc_DependsOn c) d = (Inr (), d1)"
    and 2: "svc_each (\<lambda>(t, c). create_child_dependencies env ids t (dc_DependsOn c)) tcs d1 =
      (Inr (), d')"
    by (auto simp: tc svc_bind_Inr_iff)
  from create_dependencies_core [of "StoreError ''create decomposed child dependency''" env
      "tk_ID t" "tk_WorkspaceID t" "tk_ProjectID t" "map ids (dc_DependsOn c)" d d1] 1
  obtain rs1 where rs1: "d1 = d\<lparr>ticket_dependencies := ticket_dependencies d @ rs1\<rparr>"
    "map ids (dc_DependsOn c) = map (\<lambda>r. Some (dep_DependsOnTicketID r)) rs1"
    "\<forall>r \<in> set rs1. dep_TicketID r = tk_ID t"
    by (auto simp: create_child_dependencies_def svc_each_map)
  have "map (\<lambda>r. (dep_TicketID r, Some (dep_DependsOnTicketID r))) rs1 =
      map (\<lambda>x. (tk_ID t, x)) (map (\<lambda>r. Some (dep_DependsOnTicketID r)) rs1)"
    using rs1(3) by simp
  also have "\<dots> = map (\<lambda>k. (tk_ID t, ids k)) (dc_DependsOn c)"
    by (simp add: rs1(2) [symmetric])
  finally have first: "map (\<lambda>r. (dep_TicketID r, Some (dep_DependsOnTicketID r))) rs1 =
      map (\<lambda>k. (tk_ID t, ids k)) (dc_DependsOn c)" .
  from Cons.IH [OF 2] obtain rs2 where
    "d' = d1\<lparr>ticket_dependencies := ticket_dependencies d1 @ rs2\<rparr>"
    "map (\<lambda>r. (dep_TicketID r, Some (dep_DependsOnTicketID r))) rs2 =
      concat (map (\<lambda>(t, c). map (\<lambda>k. (tk_ID t, ids k)) (dc_DependsOn c)) tcs)"
    by blast
  with rs1(1) first show ?case
    by (intro exI [of _ "rs1 @ rs2"]) (simp add: tc)
qed

text \<open>The keys of the children name their tickets.\<close>

lemma childIDsByKey_nth:
  assumes "distinct keys" and "length ts = length keys" and "i < length keys"
  shows "childIDsByKey keys ts (keys ! i) = Some (tk_ID (ts ! i))"
proof -
  have "distinct (map fst (rev (zip keys (map tk_ID ts))))"
    using assms(1,2) by (simp flip: rev_map)
  moreover have "(keys ! i, tk_ID (ts ! i)) \<in> set (rev (zip keys (map tk_ID ts)))"
    using assms(2,3) by (auto simp: in_set_zip)
  ultimately show ?thesis
    unfolding childIDsByKey_def by (rule map_of_is_SomeI)
qed

lemma acyclic_map_prod:
  assumes "finite E" and "acyclic E" and "inj_on f (Field E)"
  shows "acyclic (map_prod f f ` E)"
proof -
  have "wf E" using assms(1,2) by (rule finite_acyclic_wf)
  then have "wf (map_prod f f ` E)"
    by (rule wf_map_prod_image_Dom_Ran)
      (use assms(3) in \<open>auto simp: inj_on_def Field_def\<close>)
  then show ?thesis by (rule wf_acyclic)
qed

text \<open>The graph that the requested dependencies induce on the new tickets.\<close>

definition child_edges :: "decompose_child_request list \<Rightarrow> ticket list \<Rightarrow> (uuid \<times> uuid) set" where
  "child_edges cs ts =
     {(tk_ID (ts ! i), tk_ID (ts ! j)) | i j. i < length cs \<and> j < length cs \<and>
        dc_Key (cs ! j) \<in> set (dc_DependsOn (cs ! i))}"

lemma acyclic_child_edges:
  assumes "distinct (map dc_Key cs)" and "acyclic (child_dependency cs)"
    and "distinct (map tk_ID ts)" and "length ts = length cs"
  shows "acyclic (child_edges cs ts)"
proof -
  let ?keys = "map dc_Key cs"
  let ?f = "\<lambda>k. the (childIDsByKey ?keys ts k)"
  let ?E = "child_dependency cs \<inter> set ?keys \<times> set ?keys"
  have f: "?f (dc_Key (cs ! i)) = tk_ID (ts ! i)" if "i < length cs" for i
    using childIDsByKey_nth [OF assms(1), of ts i] assms(4) that by simp
  have "inj_on ?f (set ?keys)"
  proof (rule inj_onI)
    fix k k'
    assume "k \<in> set ?keys" "k' \<in> set ?keys" and eq: "?f k = ?f k'"
    then obtain i j where "i < length cs" "k = dc_Key (cs ! i)" "j < length cs"
      "k' = dc_Key (cs ! j)"
      by (auto simp: in_set_conv_nth)
    with eq f assms(3,4) show "k = k'"
      by (auto simp: nth_eq_iff_index_eq distinct_conv_nth)
  qed
  then have "inj_on ?f (Field ?E)"
    by (rule inj_on_subset) (auto simp: Field_def)
  moreover have "finite ?E" by simp
  moreover have "acyclic ?E"
    using assms(2) by (rule acyclic_subset) auto
  ultimately have "acyclic (map_prod ?f ?f ` ?E)"
    by (intro acyclic_map_prod)
  moreover have "child_edges cs ts \<subseteq> map_prod ?f ?f ` ?E"
  proof
    fix e
    assume "e \<in> child_edges cs ts"
    then obtain i j where e: "e = (tk_ID (ts ! i), tk_ID (ts ! j))" and ij: "i < length cs"
      "j < length cs" "dc_Key (cs ! j) \<in> set (dc_DependsOn (cs ! i))"
      by (auto simp: child_edges_def)
    have "(dc_Key (cs ! i), dc_Key (cs ! j)) \<in> ?E"
      using child_dependency_distinct [OF assms(1) _ ij(3)] ij by simp
    then show "e \<in> map_prod ?f ?f ` ?E"
      unfolding e using f ij by (intro image_eqI) (auto simp del: set_map)
  qed
  ultimately show ?thesis by (rule acyclic_subset)
qed

lemma linked_edges:
  assumes "distinct (map dc_Key cs)" and len: "length ts = length cs"
    and known: "\<And>c k. c \<in> set cs \<Longrightarrow> k \<in> set (dc_DependsOn c) \<Longrightarrow> k \<in> dc_Key ` set cs"
    and rs: "map (\<lambda>x. (dep_TicketID x, Some (dep_DependsOnTicketID x))) rs =
      concat (map (\<lambda>(t, c). map (\<lambda>k. (tk_ID t, childIDsByKey (map dc_Key cs) ts k))
        (dc_DependsOn c)) (zip ts cs))"
  shows "(\<lambda>x. (dep_TicketID x, dep_DependsOnTicketID x)) ` set rs = child_edges cs ts"
proof -
  let ?ids = "childIDsByKey (map dc_Key cs) ts"
  have id: "?ids (dc_Key (cs ! j)) = Some (tk_ID (ts ! j))" if "j < length cs" for j
    using childIDsByKey_nth [OF assms(1), of ts j] len that by simp
  have "(a, b) \<in> (\<lambda>x. (dep_TicketID x, dep_DependsOnTicketID x)) ` set rs \<longleftrightarrow>
      (a, b) \<in> child_edges cs ts" for a b
  proof -
    have "(a, b) \<in> (\<lambda>x. (dep_TicketID x, dep_DependsOnTicketID x)) ` set rs \<longleftrightarrow>
        (a, Some b) \<in> set (map (\<lambda>x. (dep_TicketID x, Some (dep_DependsOnTicketID x))) rs)"
      by auto
    also have "\<dots> \<longleftrightarrow> (\<exists>p \<in> set (zip ts cs). \<exists>k \<in> set (dc_DependsOn (snd p)).
        a = tk_ID (fst p) \<and> ?ids k = Some b)"
      unfolding rs by (simp add: split_beta image_iff) metis
    also have "\<dots> \<longleftrightarrow> (\<exists>i < length cs. \<exists>k \<in> set (dc_DependsOn (cs ! i)).
        a = tk_ID (ts ! i) \<and> ?ids k = Some b)"
      using len by (metis (no_types, lifting) fst_conv snd_conv in_set_zip)
    also have "\<dots> \<longleftrightarrow> (a, b) \<in> child_edges cs ts"
    proof
      assume "\<exists>i < length cs. \<exists>k \<in> set (dc_DependsOn (cs ! i)). a = tk_ID (ts ! i) \<and> ?ids k = Some b"
      then obtain i k where ik: "i < length cs" "k \<in> set (dc_DependsOn (cs ! i))"
        "a = tk_ID (ts ! i)" "?ids k = Some b" by blast
      have "k \<in> dc_Key ` set cs" using known ik(1,2) nth_mem by blast
      then obtain j where "j < length cs" "k = dc_Key (cs ! j)"
        by (auto simp: in_set_conv_nth)
      with ik id show "(a, b) \<in> child_edges cs ts" by (auto simp: child_edges_def)
    qed (use id in \<open>auto simp: child_edges_def\<close>)
    finally show ?thesis .
  qed
  then show ?thesis by (simp add: set_eq_iff split_paired_All)
qed

lemma decomposition_rows:
  assumes "DecomposeTicket quote env req d = (Inr ts, d')"
  defines "r \<equiv> trimDecomposeTicketRequest req"
  shows "tickets d' = tickets d @ ts" and "attempts d' = attempts d"
    and "distinct (map tk_ID ts)" and "tk_ID ` set ts \<inter> tk_ID ` set (tickets d) = {}"
    and "list_all2 (child_of (dt_Mode r)) (createRequestsFromDecomposition r) ts"
    and "\<exists>rs. ticket_dependencies d' = ticket_dependencies d @ rs \<and>
      (\<lambda>x. (dep_TicketID x, dep_DependsOnTicketID x)) ` set rs = child_edges (dt_Children r) ts"
    and "acyclic (child_edges (dt_Children r) ts)"
proof -
  let ?cs = "dt_Children r"
  let ?keys = "map dc_Key ?cs"
  let ?reqs = "createRequestsFromDecomposition r"
  let ?ids = "childIDsByKey ?keys ts"
  from assms(1) obtain d1 where
    val: "validateDecomposeTicketRequest quote r ?reqs = []"
    and create: "create_children quote env (dt_Mode r) (zip ?keys ?reqs) d = (Inr ts, d1)"
    and link: "svc_each (\<lambda>(t, c). create_child_dependencies env ?ids t (dc_DependsOn c))
        (zip ts ?cs) d1 = (Inr (), d')"
    by (auto simp: DecomposeTicket_def Let_def r_def result_simps)
  note v = validated_decomposition [OF val]
  have "map snd (zip ?keys ?reqs) = ?reqs"
    by (simp add: createRequestsFromDecomposition_def)
  moreover have "cr_Dependencies q = [] \<and>
      (dt_Mode r = DecomposeModeCreate \<longrightarrow> cr_Status q = TicketStatusTodo)"
    if "(k, q) \<in> set (zip ?keys ?reqs)" for k q
    using set_zip_rightD [OF that]
    by (auto simp: createRequestsFromDecomposition_def createRequestFromChild_def Let_def)
  ultimately have rows: "tickets d1 = tickets d @ ts" "distinct (map tk_ID ts)"
    "tk_ID ` set ts \<inter> tk_ID ` set (tickets d) = {}" "attempts d1 = attempts d"
    "ticket_dependencies d1 = ticket_dependencies d" "list_all2 (child_of (dt_Mode r)) ?reqs ts"
    using create_children_rows [OF create] by simp_all
  have len: "length ts = length ?cs"
    using list_all2_lengthD [OF rows(6)] by (simp add: createRequestsFromDecomposition_def)
  from create_child_dependencies_rows [OF link] obtain rs where
    d': "d' = d1\<lparr>ticket_dependencies := ticket_dependencies d1 @ rs\<rparr>"
    and rs: "map (\<lambda>x. (dep_TicketID x, Some (dep_DependsOnTicketID x))) rs =
      concat (map (\<lambda>(t, c). map (\<lambda>k. (tk_ID t, ?ids k)) (dc_DependsOn c)) (zip ts ?cs))"
    by blast
  have "(\<lambda>x. (dep_TicketID x, dep_DependsOnTicketID x)) ` set rs = child_edges ?cs ts"
    by (rule linked_edges [OF v(1) len v(3) rs])
  with d' rows show "tickets d' = tickets d @ ts" "attempts d' = attempts d"
    "distinct (map tk_ID ts)" "tk_ID ` set ts \<inter> tk_ID ` set (tickets d) = {}"
    "list_all2 (child_of (dt_Mode r)) ?reqs ts"
    "\<exists>rs. ticket_dependencies d' = ticket_dependencies d @ rs \<and>
      (\<lambda>x. (dep_TicketID x, dep_DependsOnTicketID x)) ` set rs = child_edges ?cs ts"
    by auto
  show "acyclic (child_edges ?cs ts)"
    by (rule acyclic_child_edges [OF v(1,2) rows(2) len])
qed

end
