(* ===== verification/Service_Steps.thy ===== *)
theory Service_Steps
  imports Attempt_Service Maintenance_Worker Webhook_Worker Resource_Service Ticket_Templates
    Ticket_Decomposition
begin

text \<open>
  Every operation of a service or worker moves the database by a sequence of statements. The
  locale \<open>statement_relation\<close> states this once for every relation that holds between the
  databases before and after each statement; it is interpreted on the steps of the transition
  system, and on the relation that the dependencies of the tickets stay the same. The operations
  that create dependencies are in an extension of the locale.
\<close>

section \<open>Operations that only read\<close>

lemma svc_steps_pure: "(\<And>d. snd (m d) = d) \<Longrightarrow> svc_steps R m"
  by (simp add: svc_steps_def)

lemma requireProposedTicket_steps [svc_steps_intros]: "svc_steps R (requireProposedTicket i)"
  unfolding requireProposedTicket_def by (intro svc_steps_intros)

lemma hydrateClaim_steps [svc_steps_intros]: "svc_steps R (hydrateClaim t a)"
  unfolding hydrateClaim_def contextBundle_def by (intro svc_steps_intros)

lemma replayClaim_steps [svc_steps_intros]: "svc_steps R (replayClaim ce r h)"
proof -
  have "svc_steps R (svc_bind (hydrateClaim t a) (\<lambda>res. svc_return (Some res)))" for t a
    by (intro svc_steps_intros)
  then show ?thesis
    by (auto simp: svc_steps_def replayClaim_def split: sum.splits option.splits)
qed

lemma proposed_edges:
  "{TicketStatusBacklog} \<times> {TicketStatusTodo} \<subseteq> manual_edges"
  "{TicketStatusBacklog} \<times> {TicketStatusArchived} \<subseteq> manual_edges"
  by (auto simp: edge_simps)

section \<open>Operations that run statements\<close>

locale statement_relation =
  fixes R :: "db \<Rightarrow> db \<Rightarrow> bool"
  assumes create_ticket: "CreateTicket_stmt env p d = Inr (t, d') \<Longrightarrow>
      ctp_Status p = TicketStatusBacklog \<or> ctp_Status p = TicketStatusTodo \<Longrightarrow> R d d'"
    and create_event: "CreateTicketEvent_stmt env ep raw d = Inr (e, d') \<Longrightarrow> R d d'"
    and update_ticket: "UpdateTicket_stmt env up d = Inr (t, d') \<Longrightarrow> R d d'"
    and transition_ticket: "TransitionTicket_stmt env tp d = Inr (t, d') \<Longrightarrow>
      set (ttp_AllowedStatuses tp) \<times> {ttp_Status tp} \<subseteq> manual_edges \<Longrightarrow> R d d'"
    and claim_next: "ClaimNextTicket_stmt locked env cp d = Inr (r, d') \<Longrightarrow> R d d'"
    and heartbeat: "HeartbeatAttempt_stmt env hp d = Inr (a, d') \<Longrightarrow> R d d'"
    and checkpoint: "CheckpointAttempt_stmt env kp d = Inr (c, d') \<Longrightarrow> R d d'"
    and complete: "CompleteAttempt_stmt env ca d = Inr (tr, d') \<Longrightarrow> R d d'"
    and fail: "FailAttempt_stmt env fa d = Inr (tr, d') \<Longrightarrow> R d d'"
    and block: "BlockAttempt_stmt env ba d = Inr (tr, d') \<Longrightarrow> R d d'"
    and cancel: "CancelAttempt_stmt env xa d = Inr (tr, d') \<Longrightarrow> R d d'"
    and expire: "ExpireAttempt_stmt env ea d = Inr (tr, d') \<Longrightarrow> R d d'"
    and record_metrics: "CreateAttemptMetrics_stmt env mp d = Inr (m, d') \<Longrightarrow> R d d'"
    and delete_keys: "DeleteExpiredIdempotencyKeys_stmt env d = (n, d') \<Longrightarrow> R d d'"
    and claim_deliveries:
      "ClaimPendingWebhookDeliveries_stmt locked env dp d = (rows, d') \<Longrightarrow> R d d'"
    and delivery_succeeded: "MarkWebhookDeliverySucceeded_stmt env sp d = Inr (w, d') \<Longrightarrow> R d d'"
    and delivery_failed: "MarkWebhookDeliveryFailed_stmt env fp d = Inr (w, d') \<Longrightarrow> R d d'"
    and delete_deliveries: "DeleteTerminalWebhookDeliveries_stmt cutoff d = (n, d') \<Longrightarrow> R d d'"
    and resource: "resource_step d d' \<Longrightarrow> R d d'"
begin

lemma setTicketStatus_steps [svc_steps_intros]:
  assumes "set (ss_allowedStatuses r) \<times> {ss_status r} \<subseteq> manual_edges"
  shows "svc_steps R (setTicketStatus env r)"
proof -
  have "R\<^sup>*\<^sup>* d (snd (setTicketStatus env r d))" for d
  proof (cases "setTicketStatus env r d")
    case (Pair out d')
    show ?thesis
    proof (cases out)
      case (Inl e)
      with Pair show ?thesis by (auto dest: setTicketStatus_Inl)
    next
      case (Inr t)
      with Pair have "R d d'"
        using assms by (auto simp: setTicketStatus_Inr_iff intro!: transition_ticket)
      with Pair show ?thesis by simp
    qed
  qed
  then show ?thesis by (simp add: svc_steps_def)
qed

lemma transitionTicket_steps:
  "spec_moves spec \<subseteq> manual_edges \<Longrightarrow> svc_steps R (transitionTicket env r spec)"
  unfolding transitionTicket_def Let_def spec_moves_def by (intro svc_steps_intros) simp

lemma transitionProposedTicket_steps:
  "{TicketStatusBacklog} \<times> {st} \<subseteq> manual_edges \<Longrightarrow>
   svc_steps R (transitionProposedTicket env r op ty st)"
  unfolding transitionProposedTicket_def Let_def by (intro svc_steps_intros) simp

lemma transition_operations_steps [svc_steps_intros]:
  "svc_steps R (MarkReady env r)" "svc_steps R (Reopen env r)"
  "svc_steps R (Unblock env r)" "svc_steps R (RequestReview env r)"
  "svc_steps R (Archive env r)"
  by (auto simp: MarkReady_def Reopen_def Unblock_def RequestReview_def Archive_def
      manual_edges_def intro!: transitionTicket_steps)

lemma Review_steps [svc_steps_intros]: "svc_steps R (Review env r)"
  unfolding Review_def Let_def by (intro svc_steps_intros) (auto simp: edge_simps)

lemma proposed_operations_steps [svc_steps_intros]:
  "svc_steps R (ReadyProposedTicket env r)"
  "svc_steps R (EnqueueProposedTicket env r)"
  "svc_steps R (RejectProposedTicket env r)"
  "svc_steps R (ArchiveProposedTicket env r)"
  using proposed_edges
  by (auto simp: ReadyProposedTicket_def EnqueueProposedTicket_def RejectProposedTicket_def
      ArchiveProposedTicket_def Let_def svc_steps_fail
      intro!: transitionProposedTicket_steps)

lemma MergeProposedTicket_steps [svc_steps_intros]: "svc_steps R (MergeProposedTicket env r)"
  unfolding MergeProposedTicket_def Let_def
  by (intro svc_steps_intros) (use proposed_edges in auto)

lemma UpdateTicket_steps [svc_steps_intros]: "svc_steps R (UpdateTicket env r)"
  unfolding UpdateTicket_def Let_def
  by (intro svc_steps_intros svc_steps_stmt) (erule update_ticket create_event)+

lemma RefineProposedTicket_steps [svc_steps_intros]:
  "svc_steps R (RefineProposedTicket env r)"
  unfolding RefineProposedTicket_def Let_def by (intro svc_steps_intros)

lemma ClaimNext_steps [svc_steps_intros]:
  "svc_steps R (ClaimNext ce policy now locked env r)"
  unfolding ClaimNext_def Let_def
  by (intro svc_steps_intros svc_steps_stmt) (erule claim_next)

lemma recordAttemptMetrics_steps [svc_steps_intros]:
  "svc_steps R (recordAttemptMetrics env row m)"
  unfolding recordAttemptMetrics_def
  by (intro svc_steps_intros svc_steps_stmt) (erule record_metrics)

lemma attempt_operations_steps [svc_steps_intros]:
  "svc_steps R (Heartbeat now env hr)" "svc_steps R (Checkpoint env kr)"
  "svc_steps R (Complete now env cr)" "svc_steps R (Fail now env fr)"
  "svc_steps R (Block now env br)" "svc_steps R (Cancel now env xr)"
  "svc_steps R (Expire now env er)"
  unfolding Heartbeat_def Checkpoint_def Complete_def Fail_def Block_def Cancel_def Expire_def
    Let_def
  by (intro svc_steps_intros svc_steps_stmt;
      erule heartbeat checkpoint complete fail
        block cancel expire)+

lemma expireEach_steps: "R\<^sup>*\<^sup>* d (snd (expireEach now env as res d))"
proof (induction as arbitrary: res d)
  case (Cons a as)
  show ?case
  proof (cases "ExpireAttempt_stmt env (expireParams now a) d")
    case (Inl e)
    then show ?thesis by (auto intro: Cons.IH)
  next
    case (Inr p)
    obtain r d1 where p: "p = (r, d1)" by fastforce
    have "R d d1"
      using Inr unfolding p by (rule expire)
    then show ?thesis
      using Inr p Cons.IH by (auto intro: converse_rtranclp_into_rtranclp)
  qed
qed simp

lemma RunOnce_steps [svc_steps_intros]: "svc_steps R (RunOnce w now env)"
proof -
  have del: "R d (snd (DeleteExpiredIdempotencyKeys_stmt env d))"
    "R d (snd (DeleteTerminalWebhookDeliveries_stmt cutoff d))" for d cutoff
    by (rule delete_keys, rule surjective_pairing,
        rule delete_deliveries, rule surjective_pairing)
  have last: "R\<^sup>*\<^sup>* d (snd (case DeleteExpiredIdempotencyKeys_stmt env d of (n, d1) \<Rightarrow>
        if 0 < mw_webhookRetention w
        then (case DeleteTerminalWebhookDeliveries_stmt (now - mw_webhookRetention w) d1 of
                (k, d2) \<Rightarrow> (Inr (f n k), d2))
        else (Inr (g n), d1)))" for d and f :: "int \<Rightarrow> int \<Rightarrow> maintenance_result" and g
    using del(1) [of d] del(2) [of "snd (DeleteExpiredIdempotencyKeys_stmt env d)"
        "now - mw_webhookRetention w"]
    by (auto split: prod.splits)
  show ?thesis
    unfolding RunOnce_def Let_def
    by (intro svc_steps_intros) (simp_all add: svc_steps_def expireEach_steps last)
qed

lemma deliverEach_steps: "R\<^sup>*\<^sup>* d (snd (deliverEach itoa send clock env rows res d))"
proof (induction rows arbitrary: res d)
  case (Cons x rows)
  obtain r s where x: "x = (r, s)" by fastforce
  have ok: "R d d1" if "markSucceeded (clock r) env r (send r s) d = Inr (w, d1)" for w d1
    using that unfolding markSucceeded_def by (rule delivery_succeeded)
  have bad: "R d d1" if "markFailed itoa (clock r) env r (send r s) d = Inr (b, d1)" for b d1
    using that by (auto simp: markFailed_def Let_def and_then_Inr_iff
        intro: delivery_failed)
  show ?case
    unfolding x
    by (auto simp: Let_def split: sum.splits
        intro: Cons.IH converse_rtranclp_into_rtranclp [OF ok Cons.IH]
          converse_rtranclp_into_rtranclp [OF bad Cons.IH])
qed simp

lemma RunWebhooksOnce_steps [svc_steps_intros]:
  "svc_steps R (RunWebhooksOnce itoa send clock w now token locked env)"
  unfolding svc_steps_def
proof
  fix d
  let ?p = "\<lparr>cdp_LockedUntil = now + claimLockTTL w, cdp_ClaimToken = token, cdp_Now = now,
    cdp_BatchLimit = ww_batchLimit w\<rparr>"
  obtain rows d1 where c: "ClaimPendingWebhookDeliveries_stmt locked env ?p d = (rows, d1)"
    by fastforce
  from converse_rtranclp_into_rtranclp [OF claim_deliveries [OF c] deliverEach_steps]
  show "R\<^sup>*\<^sup>* d (snd (RunWebhooksOnce itoa send clock w now token locked env d))"
    unfolding RunWebhooksOnce_def c by simp
qed

lemma resource_operations_steps [svc_steps_intros]:
  "svc_steps R (RegisterArtifact env ra)" "svc_steps R (RegisterCapabilities now env rc)"
  "svc_steps R (AddMember toLower env am)" "svc_steps R (UpdateMemberRole toLower env am)"
  unfolding RegisterArtifact_def RegisterCapabilities_def AddMember_def UpdateMemberRole_def Let_def
  by (intro svc_steps_intros svc_steps_stmt resource;
      erule resource_step.create_artifact resource_step.upsert_capability
        resource_step.upsert_member resource_step.update_member)+

lemma RemoveMember_steps [svc_steps_intros]: "svc_steps R (RemoveMember toLower am)"
proof -
  have "svc_steps R (\<lambda>d. (Inr (), DeleteWorkspaceMember_stmt w ty i d))" for w ty i
    by (auto simp: svc_steps_def intro!: r_into_rtranclp resource resource_step.delete_member)
  then show ?thesis
    unfolding RemoveMember_def Let_def by (intro svc_steps_intros)
qed

text \<open>A creation whose dependencies are inserted by steps of the relation, or that has none.\<close>

lemma createTicket_parts_steps:
  assumes "\<And>i dep ws pj. dep \<in> set (cr_Dependencies req) \<Longrightarrow>
    svc_steps R (svc_stmt (StoreError ''create ticket dependency'')
      (CreateTicketDependency_stmt env i dep ws pj))"
  shows "svc_steps R (createTicket env req ty)"
proof (cases "normalizeCreateTicketRequest req ty")
  case (Inl e)
  then show ?thesis by (simp add: createTicket_def svc_steps_intros)
next
  case (Inr p)
  obtain params deps where p: "p = (params, deps)" by fastforce
  have "ctp_Status params = TicketStatusBacklog \<or> ctp_Status params = TicketStatusTodo"
    using Inr p by (auto simp: normalizeCreate_Inr_iff Let_def dest: validated_create(3))
  then have "svc_steps R (svc_stmt w (CreateTicket_stmt env params))" for w
    by (blast intro: svc_steps_stmt create_ticket)
  moreover have "deps = cr_Dependencies req"
    using Inr p by (auto simp: normalizeCreate_Inr_iff Let_def completeCreateTicketRequest_def
        trimCreateTicketRequest_def)
  moreover have "svc_steps R (svc_stmt w (CreateTicketEvent_stmt env ep raw))" for w ep raw
    by (rule svc_steps_stmt) (rule create_event)
  ultimately show ?thesis
    unfolding createTicket_def Inr p using assms by (auto intro!: svc_steps_intros svc_steps_each_in)
qed

lemma CreateTicketFromAttempt_steps [svc_steps_intros]:
  "svc_steps R (CreateTicketFromAttempt env r)"
  unfolding CreateTicketFromAttempt_def Let_def CreateTicket_def ProposeTicket_def
  by (intro svc_steps_intros createTicket_parts_steps)
    (simp_all add: createTicketRequestFromAttempt_def)

end

text \<open>The operations that insert dependencies.\<close>

locale dependency_relation = statement_relation +
  assumes create_dependency: "CreateTicketDependency_stmt env i on ws pj d = Inr (dep, d') \<Longrightarrow> R d d'"
begin

lemma createTicket_steps [svc_steps_intros]: "svc_steps R (createTicket env req ty)"
  by (rule createTicket_parts_steps, rule svc_steps_stmt) (erule create_dependency)

lemma CreateTicket_steps [svc_steps_intros]:
  "svc_steps R (CreateTicket env r)" "svc_steps R (ProposeTicket env r)"
  by (simp_all add: CreateTicket_def ProposeTicket_def svc_steps_intros)

lemma create_children_steps [svc_steps_intros]: "svc_steps R (create_children quote env mode rs)"
proof (induction rs)
  case (Cons x rs)
  then show ?case by (cases x) (auto intro!: svc_steps_intros)
qed (simp add: svc_steps_intros)

lemma DecomposeTicket_steps [svc_steps_intros]: "svc_steps R (DecomposeTicket quote env r)"
proof -
  have "svc_steps R (create_child_dependencies env ids t keys)" for ids t keys
    unfolding create_child_dependencies_def
    by (intro svc_steps_intros svc_steps_stmt) (erule create_dependency)
  then show ?thesis
    unfolding DecomposeTicket_def Let_def by (intro svc_steps_intros) (auto split: prod.splits)
qed

end

interpretation steps: dependency_relation stmt_step
  by unfold_locales (fact stmt_step.intros)+

end
