(* ===== verification/Forge_Runtime.thy ===== *)
theory Forge_Runtime
  imports Service_Steps
begin

text \<open>
  internal/runtime/runtime.go: the operations a front end can call, with the ones the runtime
  wraps in a transaction. Every call moves the database by a sequence of statement steps, so
  the invariants of the transition system hold between any two statements of any calls.
\<close>

section \<open>Transitions with artifacts\<close>

fun register_artifacts :: "pg_env \<Rightarrow> register_artifact_request list \<Rightarrow> artifact list svc" where
  "register_artifacts env [] = svc_return []"
| "register_artifacts env (r # rs) =
     svc_bind (RegisterArtifact env r) (\<lambda>a.
     svc_bind (register_artifacts env rs) (\<lambda>as. svc_return (a # as)))"

definition transitionWithArtifacts ::
  "pg_env \<Rightarrow> register_artifact_request list \<Rightarrow> 'a svc \<Rightarrow> ('a \<times> artifact list) svc" where
  "transitionWithArtifacts env reqs transition =
     with_transaction (svc_bind transition (\<lambda>res.
       svc_bind (register_artifacts env reqs) (\<lambda>as. svc_return (res, as))))"

definition CompleteWithArtifacts where
  "CompleteWithArtifacts now env req reqs = transitionWithArtifacts env reqs (Complete now env req)"

definition BlockWithArtifacts where
  "BlockWithArtifacts now env req reqs = transitionWithArtifacts env reqs (Block now env req)"

text \<open>\<open>DeleteLocalArtifact\<close> seen from the database: \<open>remove\<close> is what the removal of the file
  reports for a URL.\<close>

definition delete_local_artifact :: "(string \<Rightarrow> string option) \<Rightarrow> uuid option \<Rightarrow> artifact svc" where
  "delete_local_artifact remove i d =
     (case DeleteLocalArtifact i (Some (\<lambda>url fs. (remove url, fs))) (d, ()) of
        (r, d', _) \<Rightarrow> (r, d'))"

section \<open>Calls\<close>

text \<open>One call of the runtime by a front end or by the background workers, with what the
  outside supplies to it: the statement environment, the clock, the locked rows, the network.\<close>

datatype (plugins only: code) runtime_call =
    CallCreateTicket pg_env create_ticket_request
  | CallProposeTicket pg_env create_ticket_request
  | CallUpdateTicket pg_env update_ticket_request
  | CallMarkReady pg_env ticket_transition_request
  | CallReopen pg_env ticket_transition_request
  | CallUnblock pg_env ticket_transition_request
  | CallRequestReview pg_env ticket_transition_request
  | CallReview pg_env review_ticket_request
  | CallArchive pg_env ticket_transition_request
  | CallClaimNext claim_env timestamp "uuid list" pg_env claim_next_request
  | CallHeartbeat timestamp pg_env heartbeat_request
  | CallCheckpoint pg_env checkpoint_request
  | CallComplete timestamp pg_env complete_attempt_request
  | CallFail timestamp pg_env fail_attempt_request
  | CallBlock timestamp pg_env block_attempt_request
  | CallCancel timestamp pg_env cancel_attempt_request
  | CallReadyProposed pg_env proposed_ticket_triage_request
  | CallEnqueueProposed pg_env proposed_ticket_triage_request
  | CallRefineProposed pg_env refine_proposed_ticket_request
  | CallRejectProposed pg_env proposed_ticket_triage_request
  | CallMergeProposed pg_env merge_proposed_ticket_request
  | CallArchiveProposed pg_env proposed_ticket_triage_request
  | CallCreateTicketFromAttempt pg_env create_ticket_from_attempt_request
  | CallDecomposeTicket "string \<Rightarrow> string" pg_env decompose_ticket_request
  | CallCompleteWithArtifacts timestamp pg_env complete_attempt_request
      "register_artifact_request list"
  | CallBlockWithArtifacts timestamp pg_env block_attempt_request "register_artifact_request list"
  | CallRegisterArtifact pg_env register_artifact_request
  | CallDeleteLocalArtifact "string \<Rightarrow> string option" "uuid option"
  | CallRegisterCapabilities timestamp pg_env register_capabilities_request
  | CallCreateWorkspace pg_env string
  | CallCreateProject pg_env "uuid option" string
  | CallCreateWebhookSubscription pg_env create_subscription_params
  | CallRunMaintenance duration timestamp pg_env
  | CallRunWebhooks "int \<Rightarrow> string" http_send "webhook_delivery \<Rightarrow> timestamp" timestamp uuid
      "uuid list" pg_env

text \<open>\<open>NewWithConfig\<close>: the claim service has the default policy, the workers the default limits.\<close>

definition runtime_policy :: policy_config where
  "runtime_policy = NewPolicyService \<lparr>pc_MaxClaimLease = 0\<rparr>"

definition runtime_maintenance :: "duration \<Rightarrow> maintenance_worker" where
  "runtime_maintenance retention =
     NewMaintenanceWorker \<lparr>mw_batchLimit = 100, mw_webhookRetention = retention\<rparr>"

definition runtime_webhooks :: webhook_worker where
  "runtime_webhooks = NewWebhookWorker
     \<lparr>ww_batchLimit = defaultWebhookBatchLimit, ww_lockTTL = defaultWebhookLockTTL\<rparr>"

definition no_result :: "'a svc \<Rightarrow> unit svc" where
  "no_result m = svc_bind m (\<lambda>_. svc_return ())"

fun runtime :: "runtime_call \<Rightarrow> unit svc" where
  "runtime (CallCreateTicket env r) = no_result (with_transaction (CreateTicket env r))"
| "runtime (CallProposeTicket env r) = no_result (with_transaction (ProposeTicket env r))"
| "runtime (CallUpdateTicket env r) = no_result (with_transaction (UpdateTicket env r))"
| "runtime (CallMarkReady env r) = no_result (MarkReady env r)"
| "runtime (CallReopen env r) = no_result (Reopen env r)"
| "runtime (CallUnblock env r) = no_result (Unblock env r)"
| "runtime (CallRequestReview env r) = no_result (RequestReview env r)"
| "runtime (CallReview env r) = no_result (Review env r)"
| "runtime (CallArchive env r) = no_result (Archive env r)"
| "runtime (CallClaimNext ce now locked env r) =
     no_result (ClaimNext ce (Some runtime_policy) now locked env r)"
| "runtime (CallHeartbeat now env r) = no_result (Heartbeat now env r)"
| "runtime (CallCheckpoint env r) = no_result (Checkpoint env r)"
| "runtime (CallComplete now env r) = no_result (with_transaction (Complete now env r))"
| "runtime (CallFail now env r) = no_result (with_transaction (Fail now env r))"
| "runtime (CallBlock now env r) = no_result (with_transaction (Block now env r))"
| "runtime (CallCancel now env r) = no_result (Cancel now env r)"
| "runtime (CallReadyProposed env r) = no_result (ReadyProposedTicket env r)"
| "runtime (CallEnqueueProposed env r) = no_result (EnqueueProposedTicket env r)"
| "runtime (CallRefineProposed env r) = no_result (RefineProposedTicket env r)"
| "runtime (CallRejectProposed env r) = no_result (RejectProposedTicket env r)"
| "runtime (CallMergeProposed env r) = no_result (MergeProposedTicket env r)"
| "runtime (CallArchiveProposed env r) = no_result (ArchiveProposedTicket env r)"
| "runtime (CallCreateTicketFromAttempt env r) = no_result (CreateTicketFromAttempt env r)"
| "runtime (CallDecomposeTicket quote env r) =
     no_result (with_transaction (DecomposeTicket quote env r))"
| "runtime (CallCompleteWithArtifacts now env r reqs) =
     no_result (CompleteWithArtifacts now env r reqs)"
| "runtime (CallBlockWithArtifacts now env r reqs) = no_result (BlockWithArtifacts now env r reqs)"
| "runtime (CallRegisterArtifact env r) = no_result (RegisterArtifact env r)"
| "runtime (CallDeleteLocalArtifact remove i) = no_result (delete_local_artifact remove i)"
| "runtime (CallRegisterCapabilities now env r) = no_result (RegisterCapabilities now env r)"
| "runtime (CallCreateWorkspace env name) =
     no_result (svc_stmt (StoreError []) (CreateWorkspace_stmt env name))"
| "runtime (CallCreateProject env w name) =
     no_result (svc_stmt (StoreError []) (CreateProject_stmt env w name))"
| "runtime (CallCreateWebhookSubscription env p) =
     no_result (svc_stmt (StoreError []) (CreateWebhookSubscription_stmt env p))"
| "runtime (CallRunMaintenance retention now env) =
     no_result (RunOnce (runtime_maintenance retention) now env)"
| "runtime (CallRunWebhooks itoa send clock now token locked env) =
     no_result (RunWebhooksOnce itoa send clock runtime_webhooks now token locked env)"

lemma no_result_steps [svc_steps_intros]: "svc_steps R m \<Longrightarrow> svc_steps R (no_result m)"
  unfolding no_result_def by (intro svc_steps_intros)

text \<open>The calls that insert dependencies, and the others.\<close>

definition inserts_dependencies :: "runtime_call \<Rightarrow> bool" where
  "inserts_dependencies c \<longleftrightarrow>
     (\<exists>env r. c = CallCreateTicket env r) \<or> (\<exists>env r. c = CallProposeTicket env r) \<or>
     (\<exists>quote env r. c = CallDecomposeTicket quote env r)"

lemma inserts_dependenciesE:
  assumes "inserts_dependencies c"
  obtains (create) env r where "c = CallCreateTicket env r"
  | (propose) env r where "c = CallProposeTicket env r"
  | (decompose) quote env r where "c = CallDecomposeTicket quote env r"
  using assms unfolding inserts_dependencies_def by blast

context statement_relation
begin

lemma register_artifacts_steps [svc_steps_intros]: "svc_steps R (register_artifacts env rs)"
  by (induction rs) (auto intro!: svc_steps_intros)

lemma with_artifacts_steps [svc_steps_intros]:
  "svc_steps R (CompleteWithArtifacts now env cr rs)" "svc_steps R (BlockWithArtifacts now env br rs)"
  unfolding CompleteWithArtifacts_def BlockWithArtifacts_def transitionWithArtifacts_def
  by (intro svc_steps_intros)+

lemma delete_local_artifact_steps [svc_steps_intros]: "svc_steps R (delete_local_artifact remove i)"
  unfolding svc_steps_def
proof
  fix d
  have "R d d'" if "DeleteArtifact_stmt i d = Inr d'" for d'
    using that by (intro resource resource_step.delete_artifact)
  then show "R\<^sup>*\<^sup>* d (snd (delete_local_artifact remove i d))"
    by (auto simp: delete_local_artifact_def DeleteLocalArtifact_def split: sum.splits option.splits)
qed

lemma resource_statements_steps [svc_steps_intros]:
  "svc_steps R (svc_stmt w (CreateWorkspace_stmt env name))"
  "svc_steps R (svc_stmt w (CreateProject_stmt env ws name))"
  "svc_steps R (svc_stmt w (CreateWebhookSubscription_stmt env sp))"
  by (intro svc_steps_stmt resource;
      erule resource_step.create_workspace resource_step.create_project
        resource_step.create_subscription)+

lemma quiet_call_steps: "\<not> inserts_dependencies c \<Longrightarrow> svc_steps R (runtime c)"
  by (cases c)
    (simp_all only: runtime.simps svc_steps_intros, simp_all add: inserts_dependencies_def)

end

context dependency_relation
begin

lemma call_steps: "svc_steps R (runtime c)"
proof (cases "inserts_dependencies c")
  case True
  then show ?thesis
    by (cases rule: inserts_dependenciesE) (simp_all only: runtime.simps svc_steps_intros)
qed (rule quiet_call_steps)

end

fun run_calls :: "runtime_call list \<Rightarrow> db \<Rightarrow> db" where
  "run_calls [] d = d"
| "run_calls (c # cs) d = run_calls cs (snd (runtime c d))"

lemma run_calls_steps: "stmt_step\<^sup>*\<^sup>* d (run_calls cs d)"
proof (induction cs arbitrary: d)
  case (Cons c cs)
  have "stmt_step\<^sup>*\<^sup>* d (snd (runtime c d))"
    using steps.call_steps by (simp add: svc_steps_def)
  with Cons.IH show ?case by (simp add: rtranclp_trans)
qed simp

end
