(* ===== verification/Forge_Sample.thy ===== *)
theory Forge_Sample
  imports Forge_Runtime
begin

text \<open>A small installation, on which the witnesses of the properties evaluate the model.\<close>

definition sample_env :: pg_env where
  "sample_env =
     \<lparr>env_now = 1000, env_gen = (\<lambda>n. of_nat (n + 100)), env_time_text = (\<lambda>_. ''time''),
      env_uuid_text = (\<lambda>u. replicate (Suc (unat u)) (CHR ''x'')), env_casts = (\<lambda>_. False)\<rparr>"

definition sample_db :: db where
  "sample_db =
     \<lparr>workspaces = [\<lparr>ws_ID = 1, ws_Name = ''w'', ws_CreatedAt = 0, ws_UpdatedAt = 0\<rparr>],
      projects = [\<lparr>pj_ID = 2, pj_WorkspaceID = 1, pj_Name = ''p'', pj_CreatedAt = 0,
                   pj_UpdatedAt = 0\<rparr>],
      tickets = [], ticket_dependencies = [], attempts = [], attempt_checkpoints = [],
      attempt_metrics = [], ticket_events = [], artifacts = [], idempotency_keys = [],
      webhook_subscriptions = [], webhook_deliveries = [], agent_capabilities = [],
      workspace_members = [], event_seq = 1, id_ctr = 0\<rparr>"

definition sample_create :: create_ticket_request where
  "sample_create =
     \<lparr>cr_WorkspaceID = Some 1, cr_ProjectID = Some 2, cr_ParentID = None, cr_RootID = None,
      cr_SourceAttemptID = None, cr_SourceArtifactID = None, cr_Title = '' t '',
      cr_Description = ''d'', cr_Type = ''bug'', cr_Status = [], cr_Priority = None,
      cr_Tags = [], cr_AcceptanceCriteria = [''a''], cr_VerificationCommands = [],
      cr_ExpectedArtifacts = [], cr_RelevantPaths = [], cr_RequiredTools = [],
      cr_RequiredPermissions = [], cr_Environment = [], cr_Input = [], cr_InputSchema = [],
      cr_RequiredCapabilities = [], cr_AllowedHarnesses = [], cr_RetryPolicy = RawEmpty,
      cr_Dependencies = [], cr_CreatedBy = [], cr_CreatedByID = [], cr_CreationReason = [],
      cr_Enqueue = False, cr_CanEnqueue = False\<rparr>"

definition sample_claim :: claim_next_request where
  "sample_claim =
     \<lparr>cq_WorkspaceID = Some 1, cq_ProjectID = Some 2, cq_Type = [], cq_Tags = None,
      cq_Harness = ''h'', cq_Capabilities = None, cq_AgentID = ''a'', cq_Model = [],
      cq_Lease = 60, cq_IdempotencyKey = ''k'', cq_IdempotencyTTL = 0\<rparr>"

definition sample_claim_env :: claim_env where
  "sample_claim_env =
     \<lparr>ce_hash = (\<lambda>p. hp_AgentID p @ hp_Model p), ce_scan = (\<lambda>s. Some (of_nat (length s - 1))), ce_fold = (=)\<rparr>"

text \<open>The installation after a ticket was created, and after it was claimed.\<close>

definition sample_ready :: db where
  "sample_ready = run_calls [CallCreateTicket sample_env sample_create] sample_db"

definition sample_claimed :: db where
  "sample_claimed =
     run_calls [CallClaimNext sample_claim_env 5 [] sample_env sample_claim] sample_ready"

definition sample_ticket :: uuid where "sample_ticket = 100"
definition sample_attempt :: uuid where "sample_attempt = 102"

definition sample_fail :: fail_attempt_params where
  "sample_fail =
     \<lparr>fap_FailureReason = ''broken'', fap_FailureCategory = None, fap_Output = RawDoc (JObj []),
      fap_CompletedAt = 7, fap_AttemptID = Some sample_attempt\<rparr>"

definition sample_fail_call :: runtime_call where
  "sample_fail_call = CallFail 7 sample_env
     \<lparr>fr_AttemptID = Some sample_attempt, fr_FailureReason = ''broken'', fr_FailureCategory = [],
      fr_Output = [], fr_Metrics = None\<rparr>"

definition sample_failed :: db where
  "sample_failed = run_calls [sample_fail_call] sample_claimed"

lemma sample_initial: "initial_db sample_db"
  by (simp add: initial_db_def sample_db_def)

lemma sample_ready_reachable: "stmt_step\<^sup>*\<^sup>* sample_db sample_ready"
  unfolding sample_ready_def by (rule run_calls_steps)

lemma sample_claimed_reachable: "stmt_step\<^sup>*\<^sup>* sample_db sample_claimed"
  unfolding sample_claimed_def using sample_ready_reachable run_calls_steps
  by (rule rtranclp_trans)

lemma sample_ready_ok: "workflow_ok sample_ready"
  using sample_initial sample_ready_reachable by (rule workflow.reachable)

lemma sample_claimed_ok: "workflow_ok sample_claimed"
  using sample_initial sample_claimed_reachable by (rule workflow.reachable)

lemma sample_failed_ok: "workflow_ok sample_failed"
  unfolding sample_failed_def using run_calls_steps sample_claimed_ok by (rule workflow.steps)

lemma gen_fresh_code [code]:
  "gen_fresh env n d \<longleftrightarrow>
     (let ids = map (\<lambda>i. env_gen env (id_ctr d + i)) [0..<n] in
      distinct ids \<and> (\<forall>u \<in> set ids. u \<notin> used_ids d))"
  by (auto simp: gen_fresh_def Let_def distinct_map atLeast0LessThan)

section \<open>The states of the sample\<close>

text \<open>What the calls above leave in the tables. The equations replace the definitions when a
  witness is evaluated, so that the calls are run once.\<close>

definition sample_ticket_row :: "string \<Rightarrow> ticket" where
  "sample_ticket_row status =
     \<lparr>tk_ID = sample_ticket, tk_WorkspaceID = 1, tk_ProjectID = 2, tk_ParentID = None,
      tk_RootID = None, tk_SourceAttemptID = None, tk_SourceArtifactID = None, tk_Title = ''t'',
      tk_Description = ''d'', tk_Type = ''bug'', tk_Status = status, tk_Priority = 2, tk_Tags = [],
      tk_AcceptanceCriteria = [''a''], tk_VerificationCommands = JArr [], tk_ExpectedArtifacts = [],
      tk_RelevantPaths = [], tk_RequiredTools = [], tk_RequiredPermissions = [],
      tk_Environment = JObj [], tk_Input = JObj [], tk_InputSchema = None,
      tk_RequiredCapabilities = [], tk_AllowedHarnesses = [],
      tk_RetryPolicy =
        JObj [(''max_attempts'', JNum 3 0), (''on_failure'', JStr ''return_to_todo''),
              (''requires_review_on_success'', JBool False)],
      tk_CreatedBy = ''human'', tk_CreatedByID = None, tk_CreationReason = None,
      tk_CreatedAt = 1000, tk_UpdatedAt = 1000\<rparr>"

definition sample_attempt_row :: "string \<Rightarrow> string option \<Rightarrow> timestamp option \<Rightarrow> attempt" where
  "sample_attempt_row status why completed =
     \<lparr>at_ID = sample_attempt, at_WorkspaceID = 1, at_ProjectID = 2, at_TicketID = sample_ticket,
      at_AgentID = ''a'', at_Harness = ''h'', at_Model = [], at_Status = status,
      at_LeaseExpiresAt = 65, at_LastHeartbeatAt = Some 5, at_ProgressPercent = 0,
      at_CurrentSummary = None, at_NextStep = None, at_Output = JObj [], at_OutputSchema = None,
      at_FailureReason = why, at_FailureCategory = None, at_Blocker = None, at_TraceID = None,
      at_CheckpointRef = None, at_StartedAt = 1000, at_CompletedAt = completed\<rparr>"

definition sample_events :: "ticket_event list" where
  "sample_events =
     [\<lparr>ev_ID = 101, ev_WorkspaceID = 1, ev_ProjectID = 2, ev_TicketID = sample_ticket,
       ev_AttemptID = None, ev_Type = ''created'', ev_ActorType = ''human'', ev_ActorID = None,
       ev_Data = JObj [(''status'', JStr ''todo''), (''type'', JStr ''bug'')],
       ev_CreatedAt = 1000, ev_EventSequence = 1\<rparr>,
      \<lparr>ev_ID = 103, ev_WorkspaceID = 1, ev_ProjectID = 2, ev_TicketID = sample_ticket,
       ev_AttemptID = Some sample_attempt, ev_Type = ''claimed'', ev_ActorType = ''agent'',
       ev_ActorID = Some ''a'',
       ev_Data = JObj [(''attempt_id'', JStr (env_uuid_text sample_env sample_attempt)),
         (''agent_id'', JStr ''a''), (''harness'', JStr ''h''), (''model'', JStr [])],
       ev_CreatedAt = 1000, ev_EventSequence = 2\<rparr>,
      \<lparr>ev_ID = 105, ev_WorkspaceID = 1, ev_ProjectID = 2, ev_TicketID = sample_ticket,
       ev_AttemptID = Some sample_attempt, ev_Type = ''failed'', ev_ActorType = ''agent'',
       ev_ActorID = Some ''a'',
       ev_Data = JObj [(''ticket_status'', JStr ''todo''), (''failure_category'', JNull)],
       ev_CreatedAt = 1000, ev_EventSequence = 3\<rparr>]"

definition sample_key :: idempotency_key where
  "sample_key =
     \<lparr>ik_ID = 104, ik_WorkspaceID = 1, ik_ActorID = ''a'', ik_Key = ''k'', ik_Route = ''claim-next'',
      ik_RequestHash = ''a'',
      ik_ResponseBody = JObj [(''ticket_id'', JStr (env_uuid_text sample_env sample_ticket)),
        (''attempt_id'', JStr (env_uuid_text sample_env sample_attempt))],
      ik_CreatedAt = 1000, ik_ExpiresAt = 86400000000005\<rparr>"

lemma sample_ready_state [code]:
  "sample_ready = sample_db\<lparr>tickets := [sample_ticket_row ''todo''],
     ticket_events := take 1 sample_events, event_seq := 2, id_ctr := 2\<rparr>"
  by code_simp

lemma sample_claimed_state [code]:
  "sample_claimed = sample_db\<lparr>tickets := [sample_ticket_row ''in_progress''],
     attempts := [sample_attempt_row ''running'' None None],
     ticket_events := take 2 sample_events, idempotency_keys := [sample_key],
     event_seq := 3, id_ctr := 5\<rparr>"
  by code_simp

lemma sample_failed_state [code]:
  "sample_failed = sample_db\<lparr>tickets := [sample_ticket_row ''todo''],
     attempts := [sample_attempt_row ''failed'' (Some ''broken'') (Some 7)],
     ticket_events := sample_events, idempotency_keys := [sample_key],
     event_seq := 4, id_ctr := 6\<rparr>"
  by code_simp

text \<open>Reading the outcome of an evaluated statement or operation.\<close>

lemma evaluated_stmt: "\<not> isl x \<Longrightarrow> x = Inr (fst (projr x), snd (projr x))"
  by (cases x) simp_all

lemma evaluated_svc: "\<not> isl (fst x) \<Longrightarrow> x = (Inr (projr (fst x)), snd x)"
  by (cases x; cases "fst x") simp_all

end
