(* ===== verification/Claim_Properties.thy ===== *)
theory Claim_Properties
  imports Forge_Sample
begin

text \<open>
  What a claim promises: which ticket it takes, that it takes one whenever one is due, and that
  a request repeated under its idempotency key is answered with the first result.
\<close>

section \<open>The candidate\<close>



lemma store_claim_key_succeeds:
  assumes "gen_fresh env (Suc n) d" and "cnp_IdempotencyKey p \<noteq> None \<Longrightarrow> cnp_RequestHash p \<noteq> None"
    and "\<And>key. cnp_IdempotencyKey p = Some key \<Longrightarrow>
      (tk_WorkspaceID t, cnp_AgentID p, ''claim-next'', key) \<notin>
        idempotency_scope ` set (idempotency_keys d)"
  shows "\<exists>d'. store_claim_key env p t a d = Inr d'"
proof -
  have "env_gen env (id_ctr d) \<notin> ik_ID ` set (idempotency_keys d)"
    using gen_freshD [OF assms(1)] by (simp add: used_ids_def)
  then show ?thesis
    using assms(2,3)
    by (auto simp: store_claim_key_def gen_random_uuid_def Let_def insert_row_def ensure_def
        idempotency_scope_def split: option.splits)
qed

text \<open>The claim statement carries out the claim of any candidate of a database that satisfies the
  invariant: the candidate is todo, so that no attempt on it is running.\<close>

lemma claim_of_candidate:
  assumes ok: "workflow_ok d" and cand: "claim_candidate env locked p d = Inr t"
    and fresh: "gen_fresh env (event_ids d + 2) d"
    and hash: "cnp_IdempotencyKey p \<noteq> None \<Longrightarrow> cnp_RequestHash p \<noteq> None"
    and key: "\<And>key. cnp_IdempotencyKey p = Some key \<Longrightarrow>
      (tk_WorkspaceID t, cnp_AgentID p, ''claim-next'', key) \<notin>
        idempotency_scope ` set (idempotency_keys d)"
  shows "\<exists>r d'. ClaimNextTicket_stmt locked env p d = Inr (r, d')"
proof -
  let ?i = "env_gen env (id_ctr d)"
  let ?a = "new_attempt env p t ?i"
  let ?d1 = "(set_ticket_status env (tk_ID t) TicketStatusInProgress d)
    \<lparr>id_ctr := Suc (id_ctr d), attempts := attempts d @ [?a]\<rparr>"
  let ?e = "attempt_event ?a ''claimed'' ActorAgent
    (JObj [(''attempt_id'', JStr (env_uuid_text env ?i)), (''agent_id'', JStr (cnp_AgentID p)),
           (''harness'', JStr (cnp_Harness p)), (''model'', JStr (cnp_Model p))])"
  note c = claim_candidate_InrD [OF cand]
  have "tk_Status t = TicketStatusTodo"
    using c(3) by (simp add: claimable_True_iff claim_matches_def)
  then have free: "\<not> held d (tk_ID t)"
    using workflow_okD(3) [OF ok] c(1) by (auto simp: progress_iff_held_def)
  have g: "gen_fresh env (Suc (event_ids d + 1)) d"
    using fresh by (rule gen_fresh_mono) simp
  have "?i \<notin> at_ID ` set (attempts d)"
    using gen_freshD [OF g] by (simp add: used_ids_def)
  then have ins: "insert_running_attempt ?a (attempts d) = Inr (attempts d @ [?a])"
    using free by (auto simp: insert_running_attempt_def insert_row_def held_def ensure_def
        new_attempt_def)
  have g1: "gen_fresh env (event_ids ?d1 + 1) ?d1"
    by (rule gen_fresh_step [of env _ d])
      (use g in \<open>auto simp: used_ids_def event_ids_def new_attempt_def\<close>)
  have "\<exists>e d2. insert_ticket_event env ?e ?d1 = Inr (e, d2) \<and> gen_fresh env (Suc 0) d2"
  proof (rule insert_ticket_event_succeeds)
    show "gen_fresh env (event_ids ?d1 + Suc 0) ?d1" using g1 by simp
    have "ticket_in_scope d (tk_WorkspaceID t) (tk_ProjectID t) (tk_ID t)"
      using c(1) by (auto simp: ticket_in_scope_def)
    then have "ticket_in_scope (set_ticket_status env (tk_ID t) TicketStatusInProgress d)
        (tk_WorkspaceID t) (tk_ProjectID t) (tk_ID t)"
      by simp
    then show "ticket_in_scope ?d1 (ep_WorkspaceID ?e) (ep_ProjectID ?e) (ep_TicketID ?e)"
      by (simp add: ticket_in_scope_def attempt_event_def new_attempt_def)
  qed (auto simp: attempt_event_def new_attempt_def ticket_event_types_def actor_types_def
      attempt_in_scope_def)
  then obtain e d2 where e: "insert_ticket_event env ?e ?d1 = Inr (e, d2)" "gen_fresh env (Suc 0) d2"
    by blast
  have "idempotency_keys d2 = idempotency_keys d"
    using insert_ticket_event_frame [OF e(1)] by simp
  then have "\<exists>d3. store_claim_key env p t ?i d2 = Inr d3"
    using hash key by (intro store_claim_key_succeeds [OF e(2)]) auto
  then show ?thesis
    using cand ins e(1)
    by (auto simp: ClaimNextTicket_stmt_def gen_random_uuid_def Let_def)
qed

text \<open>C4. When a claim succeeds. In a database that satisfies the invariant, with identifiers that
  are new, and as long as the retry policies that the statement reads are well formed (those of the
  tickets that meet the request's other conditions, and those that the plan reads besides), a claim
  without a key or under an unused one succeeds exactly when some unlocked ticket qualifies, and
  otherwise reports that there is no row.\<close>

theorem claim_succeeds_iff_due:
  assumes "workflow_ok d" and "casts_succeed env p d"
    and "gen_fresh env (event_ids d + 2) d"
    and "cnp_IdempotencyKey p \<noteq> None \<Longrightarrow> cnp_RequestHash p \<noteq> None"
    and "\<And>w key. cnp_WorkspaceID p = Some w \<Longrightarrow> cnp_IdempotencyKey p = Some key \<Longrightarrow>
      (w, cnp_AgentID p, ''claim-next'', key) \<notin> idempotency_scope ` set (idempotency_keys d)"
  shows "if \<exists>t \<in> set (tickets d). claimable p d t = Inr True \<and> tk_ID t \<notin> set locked
    then \<exists>r d'. ClaimNextTicket_stmt locked env p d = Inr (r, d')
    else ClaimNextTicket_stmt locked env p d = Inl NoRows"
proof (cases "claim_candidate env locked p d")
  case (Inl e)
  with claim_candidate_total [OF assms(2)] have "claim_candidate env locked p d = Inl NoRows" by simp
  then show ?thesis
    using claim_candidate_NoRows_iff [OF assms(2), of locked]
    by (auto simp: ClaimNextTicket_stmt_def)
next
  case (Inr t)
  note c = claim_candidate_InrD [OF Inr]
  have "cnp_WorkspaceID p = Some (tk_WorkspaceID t)"
    using c(3) by (simp add: claimable_True_iff claim_matches_def)
  then have "\<exists>r d'. ClaimNextTicket_stmt locked env p d = Inr (r, d')"
    using assms(1,3,4,5) Inr by (intro claim_of_candidate) auto
  with c show ?thesis by auto
qed

theorem claim_succeeds_iff_due_witness:
  "\<exists>r d'. ClaimNextTicket_stmt [] sample_env (claimParams 5 sample_claim ''h'') sample_ready =
     Inr (r, d')"
proof -
  let ?p = "claimParams 5 sample_claim ''h''"
  have one: "tickets sample_ready = [hd (tickets sample_ready)]"
    by code_simp
  have due: "claimable ?p sample_ready (hd (tickets sample_ready)) = Inr True"
    by code_simp
  have fresh: "gen_fresh sample_env (event_ids sample_ready + 2) sample_ready"
    by code_simp
  have keys: "idempotency_keys sample_ready = []"
    by code_simp
  have casts: "casts_succeed sample_env ?p sample_ready"
    by code_simp
  have "\<exists>t \<in> set (tickets sample_ready). claimable ?p sample_ready t = Inr True \<and>
      tk_ID t \<notin> set []"
    by (subst one) (simp add: due)
  then show ?thesis
    using claim_succeeds_iff_due [OF sample_ready_ok casts fresh, of "[]"]
    by (simp add: keys claimParams_def optionalText_def)
qed

lemma max_attempts_error: "max_attempts t = Inl e \<Longrightarrow> e \<noteq> NoRows"
  by (cases "json_field (tk_RetryPolicy t) ''max_attempts''" rule: json_integer.cases)
    (auto simp: max_attempts_def and_then_Inl_iff int4_range_def int4in_def
      split: if_splits option.splits)

lemma claimable_error: "claimable p d t = Inl e \<Longrightarrow> e \<noteq> NoRows"
  by (auto simp: claimable_def and_then_Inl_iff split: if_splits dest: max_attempts_error)

text \<open>C13. One ticket whose \<open>max_attempts\<close> does not cast to an integer blocks the queue behind it:
  when it matches a request in every other condition and comes before every unlocked ticket that
  qualifies, the claim fails with the error of a cast, and not as an empty queue, however the
  statement is planned, although other tickets are due. Such a ticket stays at the head of the
  queue, since no claim gets past it.\<close>

theorem malformed_policy_blocks_claims:
  assumes "t \<in> set (tickets d)" and "claim_matches p d t" and "max_attempts t = Inl e"
    and "\<forall>u \<in> set (tickets d). claimable p d u = Inr True \<and> tk_ID u \<notin> set locked \<longrightarrow>
      (tk_Priority t, tk_CreatedAt t) < (tk_Priority u, tk_CreatedAt u)"
  shows "\<exists>e'. ClaimNextTicket_stmt locked env p d = Inl e' \<and> e' \<noteq> NoRows"
proof -
  let ?q = "sort_key queue_order (tickets d)"
  have error: "claimable p d t = Inl e"
    using assms(2,3) by (simp add: claimable_def)
  have "\<exists>u \<in> set ?q. \<exists>e'. claimable p d u = Inl e' \<and>
      scan_queue (claimable p d) locked ?q = Inl e'"
    using assms(1,4)
    by (intro scan_queue_error [where c = "claimable p d" and t = t, OF _ error]) simp_all
  then obtain e' where "scan_queue (claimable p d) locked ?q = Inl e'" "e' \<noteq> NoRows"
    by (auto dest: claimable_error)
  then show ?thesis
    by (cases "plan_casts env (tickets d)")
      (auto simp: ClaimNextTicket_stmt_def claim_candidate_def dest!: plan_casts_InlD
        max_attempts_error)
qed

definition sample_malformed :: db where
  "sample_malformed = run_calls [CallCreateTicket sample_env
     (sample_create\<lparr>cr_RetryPolicy := RawDoc (JObj [(''max_attempts'', JStr ''many'')]),
       cr_Priority := Some 1\<rparr>)]
     sample_ready"

theorem malformed_policy_blocks_claims_witness:
  "(\<exists>e'. ClaimNextTicket_stmt [] sample_env (claimParams 5 sample_claim ''h'') sample_malformed =
     Inl e' \<and> e' \<noteq> NoRows) \<and>
   claimable (claimParams 5 sample_claim ''h'') sample_malformed (hd (tickets sample_malformed)) =
     Inr True"
proof
  show "\<exists>e'. ClaimNextTicket_stmt [] sample_env (claimParams 5 sample_claim ''h'') sample_malformed =
     Inl e' \<and> e' \<noteq> NoRows"
  proof (rule malformed_policy_blocks_claims)
    show "last (tickets sample_malformed) \<in> set (tickets sample_malformed)"
      by (rule last_in_set) code_simp
    show "claim_matches (claimParams 5 sample_claim ''h'') sample_malformed
        (last (tickets sample_malformed))"
      by code_simp
    show "max_attempts (last (tickets sample_malformed)) = Inl InvalidTextRepresentation"
      by code_simp
    show "\<forall>u \<in> set (tickets sample_malformed). claimable (claimParams 5 sample_claim ''h'')
        sample_malformed u = Inr True \<and> tk_ID u \<notin> set [] \<longrightarrow>
        (tk_Priority (last (tickets sample_malformed)), tk_CreatedAt (last (tickets sample_malformed)))
          < (tk_Priority u, tk_CreatedAt u)"
      by code_simp
  qed
  show "claimable (claimParams 5 sample_claim ''h'') sample_malformed (hd (tickets sample_malformed)) =
     Inr True"
    by code_simp
qed

section \<open>Idempotency\<close>

lemma hydrateClaim_state: "hydrateClaim t a d = (r, d') \<Longrightarrow> d' = d"
  by (auto simp: hydrateClaim_def contextBundle_def svc_bind_def svc_query_def svc_read_def
      svc_decode_def svc_return_def svc_fail_def split: sum.splits option.splits prod.splits)

lemma hydrateClaim_ids:
  assumes "hydrateClaim t a d = (Inr res, d')"
  shows "tk_ID (cx_Ticket res) = t" and "at_ID (cx_Attempt res) = a"
  using assms
  by (auto simp: hydrateClaim_def svc_bind_Inr_iff svc_query_Inr_iff svc_return_iff result_simps
      dest: find_row_SomeD)

lemma replayClaim_state: "replayClaim ce r h d = (x, d') \<Longrightarrow> d' = d"
  by (auto simp: replayClaim_def svc_bind_def svc_return_def split: sum.splits prod.splits if_splits
      option.splits dest: hydrateClaim_state)

lemma replayClaim_stored:
  assumes "cq_WorkspaceID r = Some w"
    and "find_row idempotency_scope (w, cq_AgentID r, ''claim-next'', cq_IdempotencyKey r)
      (idempotency_keys d) = Some k"
    and "ik_RequestHash k = h"
    and "decodeClaimIdempotencyResponse ce (ik_ResponseBody k) = Some (t, a)"
    and "hydrateClaim t a d = (Inr res, d)"
  shows "replayClaim ce r h d = (Inr (Some res), d)"
  using assms
  by (simp add: replayClaim_def GetIdempotencyKey_stmt_def svc_bind_def svc_return_def)

lemma decode_claim_response:
  assumes "\<And>u. ce_scan ce (env_uuid_text env u) = Some u" and "\<And>u. env_uuid_text env u \<noteq> []"
  shows "decodeClaimIdempotencyResponse ce
    (JObj [(''ticket_id'', JStr (env_uuid_text env t)),
           (''attempt_id'', JStr (env_uuid_text env a))]) = Some (t, a)"
  using assms by (simp add: decodeClaimIdempotencyResponse_def parseUUID_def)

text \<open>The two ways a claim returns a result.\<close>

lemma ClaimNext_InrD:
  fixes ce req
  defines "r \<equiv> trimClaimNextRequest req" and "h \<equiv> claimRequestHash ce (trimClaimNextRequest req)"
  assumes "ClaimNext ce policy now locked env req d = (Inr res, d')"
  obtains "validateClaimNextRequest r = []" and "cq_IdempotencyKey r \<noteq> []"
      and "replayClaim ce r h d = (Inr (Some res), d)" and "d' = d"
    | row where "validateClaimNextRequest r = []"
      and "ClaimNextTicket_stmt locked env (claimParams now r h) d = Inr (row, d')"
      and "hydrateClaim (cnr_TicketID row) (cnr_AttemptID row) d' = (Inr res, d')"
proof -
  let ?m = "if cq_IdempotencyKey r \<noteq> [] then replayClaim ce r h else svc_return None"
  from assms(3) obtain x d1 where v: "validateClaimNextRequest r = []" and x: "?m d = (Inr x, d1)"
    and rest: "x = Some res \<and> d' = d1 \<or> x = None \<and> (\<exists>row d2.
      ClaimNextTicket_stmt locked env (claimParams now r h) d1 = Inr (row, d2) \<and>
      hydrateClaim (cnr_TicketID row) (cnr_AttemptID row) d2 = (Inr res, d'))"
    unfolding ClaimNext_def Let_def r_def [symmetric] h_def [folded r_def]
    by (cases policy; fastforce simp: svc_check_Inr_iff svc_bind_Inr_iff svc_return_iff svc_fail_iff
        svc_stmt_Inr_iff split: option.splits if_splits)
  have "d1 = d"
    using x by (auto simp: svc_return_iff split: if_splits dest: replayClaim_state)
  with that v x rest show thesis
    by (auto simp: svc_return_iff split: if_splits dest: hydrateClaim_state)
qed

lemma ClaimNext_replays:
  assumes "validateClaimNextRequest (trimClaimNextRequest req) = []"
    and "cq_IdempotencyKey (trimClaimNextRequest req) \<noteq> []"
    and "replayClaim ce (trimClaimNextRequest req)
      (claimRequestHash ce (trimClaimNextRequest req)) d = (Inr (Some res), d)"
  shows "ClaimNext ce policy now locked env req d = (Inr res, d)"
  using assms by (simp add: ClaimNext_def Let_def svc_bind_def svc_return_def)

text \<open>C5. Repeating a claim under its idempotency key is safe: on the database that a successful
  claim left, the same request returns the same ticket, attempt and context, at any later time
  and under any policy, and changes nothing. The UUID parser is assumed to read back what
  PostgreSQL prints.\<close>

theorem claim_replay:
  assumes "\<And>u. ce_scan ce (env_uuid_text env u) = Some u" and "\<And>u. env_uuid_text env u \<noteq> []"
    and "ClaimNext ce policy now locked env req d = (Inr res, d')"
    and "TrimSpace (cq_IdempotencyKey req) \<noteq> []"
  shows "ClaimNext ce policy' now' locked' env' req d' = (Inr res, d')"
proof -
  let ?r = "trimClaimNextRequest req"
  let ?h = "claimRequestHash ce ?r"
  have key: "cq_IdempotencyKey ?r \<noteq> []"
    using assms(4) by (simp add: trimClaimNextRequest_def)
  from assms(3) show ?thesis
  proof (cases rule: ClaimNext_InrD)
    case 1
    then show ?thesis by (simp add: ClaimNext_replays)
  next
    case (2 row)
    let ?p = "claimParams now ?r ?h"
    from 2(2) obtain t a e ks where c: "claim_candidate env locked ?p d = Inr t"
      "cnr_TicketID row = tk_ID t" "cnr_AttemptID row = at_ID a"
      "core d' = core (claimed env a e ks d)" "claim_keys env ?p t (at_ID a) ks"
      "idempotency_scope ` set ks \<inter> idempotency_scope ` set (idempotency_keys d) = {}"
      by (rule ClaimNextTicket_stmt_InrD) (rule that, assumption+)
    have w: "cq_WorkspaceID ?r = Some (tk_WorkspaceID t)"
      using claim_candidate_InrD(3) [OF c(1)]
      by (simp add: claimable_True_iff claim_matches_def claimParams_def)
    from c(5) key obtain k where k: "ks = [k]" "ik_RequestHash k = ?h"
      "idempotency_scope k =
        (tk_WorkspaceID t, cq_AgentID ?r, ''claim-next'', cq_IdempotencyKey ?r)"
      "ik_ResponseBody k = JObj [(''ticket_id'', JStr (env_uuid_text env (tk_ID t))),
         (''attempt_id'', JStr (env_uuid_text env (at_ID a)))]"
      by (auto simp: claim_keys_def claimParams_def optionalText_def split: if_splits)
    have "find_row idempotency_scope (idempotency_scope k) (idempotency_keys d) = None"
      using c(6) k(1) by (intro find_row_absent) simp
    then have "find_row idempotency_scope (idempotency_scope k) (idempotency_keys d') = Some k"
      using claim_tables(5) [OF c(4)] k(1) by (simp add: find_row_append)
    then have "replayClaim ce ?r ?h d' = (Inr (Some res), d')"
      using w k 2(3) c(2,3) decode_claim_response [of ce env, OF assms(1,2)]
      by (intro replayClaim_stored) auto
    with 2(1) key show ?thesis by (simp add: ClaimNext_replays)
  qed
qed

theorem claim_replay_witness:
  "ClaimNext sample_claim_env None 99 [] sample_env sample_claim sample_claimed =
     (fst (ClaimNext sample_claim_env None 99 [] sample_env sample_claim sample_claimed),
      sample_claimed)"
proof -
  let ?x = "ClaimNext sample_claim_env (Some runtime_policy) 5 [] sample_env sample_claim sample_ready"
  have run: "?x = (Inr (projr (fst ?x)), snd ?x)"
    by (rule evaluated_svc) code_simp
  have "sample_claimed = snd ?x"
    by (subst run) (simp add: sample_claimed_def no_result_def svc_bind_def svc_return_def
        run [symmetric] split: sum.splits prod.splits)
  moreover have "ClaimNext sample_claim_env None 99 [] sample_env sample_claim (snd ?x) =
      (Inr (projr (fst ?x)), snd ?x)"
  proof (rule claim_replay [OF _ _ run])
    show "ce_scan sample_claim_env (env_uuid_text sample_env u) = Some u" for u
      by (simp add: sample_claim_env_def sample_env_def)
    show "env_uuid_text sample_env u \<noteq> []" for u
      by (simp add: sample_env_def)
    show "TrimSpace (cq_IdempotencyKey sample_claim) \<noteq> []"
      by code_simp
  qed
  ultimately show ?thesis by simp
qed

text \<open>A key that was used for another request is refused: the claim ends in a conflict and
  changes nothing.\<close>

theorem reused_key_conflicts:
  assumes "validateClaimNextRequest (trimClaimNextRequest req) = []"
    and "TrimSpace (cq_IdempotencyKey req) \<noteq> []" and "cq_WorkspaceID req = Some w"
    and "find_row idempotency_scope
      (w, TrimSpace (cq_AgentID req), ''claim-next'', TrimSpace (cq_IdempotencyKey req))
      (idempotency_keys d) = Some k"
    and "ik_RequestHash k \<noteq> claimRequestHash ce (trimClaimNextRequest req)"
  shows "ClaimNext ce policy now locked env req d = (Inl ErrIdempotencyConflict, d)"
proof -
  have "replayClaim ce (trimClaimNextRequest req) (claimRequestHash ce (trimClaimNextRequest req)) d =
      (Inl ErrIdempotencyConflict, d)"
    using assms(3-5) by (simp add: replayClaim_def GetIdempotencyKey_stmt_def trimClaimNextRequest_def)
  moreover have "cq_IdempotencyKey (trimClaimNextRequest req) \<noteq> []"
    using assms(2) by (simp add: trimClaimNextRequest_def)
  ultimately show ?thesis
    using assms(1) by (simp add: ClaimNext_def Let_def svc_bind_def)
qed

theorem reused_key_conflicts_witness:
  "ClaimNext sample_claim_env None 9 [] sample_env (sample_claim\<lparr>cq_Model := ''m''\<rparr>)
     sample_claimed = (Inl ErrIdempotencyConflict, sample_claimed)"
proof (rule reused_key_conflicts)
  let ?req = "sample_claim\<lparr>cq_Model := ''m''\<rparr>"
  show "validateClaimNextRequest (trimClaimNextRequest ?req) = []"
    by code_simp
  show "TrimSpace (cq_IdempotencyKey ?req) \<noteq> []"
    by code_simp
  show "cq_WorkspaceID ?req = Some 1"
    by code_simp
  show "find_row idempotency_scope
      (1, TrimSpace (cq_AgentID ?req), ''claim-next'', TrimSpace (cq_IdempotencyKey ?req))
      (idempotency_keys sample_claimed) = Some (hd (idempotency_keys sample_claimed))"
    by code_simp
  show "ik_RequestHash (hd (idempotency_keys sample_claimed)) \<noteq>
      claimRequestHash sample_claim_env (trimClaimNextRequest ?req)"
    by code_simp
qed

section \<open>Policy\<close>

lemma claim_policy_allowed:
  "Allowed (Evaluate fold_eq runtime_policy (claimPolicyInput r)) \<longleftrightarrow> cq_Lease r \<le> 24 * hour"
proof -
  have "TrimSpace ''claim_next_ticket'' = ''claim_next_ticket''"
    by code_simp
  then show ?thesis
    by (subst Evaluate_claim)
      (simp_all add: claimPolicyInput_def policy_input_zero_def runtime_policy_def
        NewPolicyService_def compact_def compactStrings_def)
qed

lemma no_policy_denial:
  "svc_bind (svc_stmt (\<lambda>e. if e = NoRows then ErrNoClaimableTickets else StoreError l e) stmt)
     (\<lambda>row. hydrateClaim (f row) (g row)) d \<noteq> (Inl (ErrPolicyDenied rs), d')"
  by (auto simp: svc_bind_Inl_iff svc_stmt_Inl_iff hydrateClaim_def contextBundle_def svc_query_Inl_iff
      svc_read_iff svc_decode_def svc_fail_iff svc_return_iff split: if_splits option.splits)

text \<open>The installed policy denies a fresh claim exactly when it asks for a lease of more than
  twenty-four hours; a denied claim changes nothing.\<close>

theorem long_lease_denied:
  assumes "validateClaimNextRequest (trimClaimNextRequest req) = []"
    and "TrimSpace (cq_IdempotencyKey req) = []"
  shows "(\<exists>rs. ClaimNext ce (Some runtime_policy) now locked env req d =
      (Inl (ErrPolicyDenied rs), d)) \<longleftrightarrow> 24 * hour < cq_Lease req"
proof -
  have "cq_IdempotencyKey (trimClaimNextRequest req) = []"
    "cq_Lease (trimClaimNextRequest req) = cq_Lease req"
    using assms(2) by (simp_all add: trimClaimNextRequest_def)
  then show ?thesis
    using assms(1)
    by (auto simp: ClaimNext_def Let_def svc_bind_def [of "svc_return x" for x] svc_return_def
        svc_fail_def svc_bind_def [of "if b then x else y" for b x y] claim_policy_allowed
        no_policy_denial)
qed

theorem long_lease_denied_witness:
  "\<exists>rs. ClaimNext sample_claim_env (Some runtime_policy) 5 [] sample_env
     (sample_claim\<lparr>cq_IdempotencyKey := [], cq_Lease := 25 * hour\<rparr>) sample_ready =
     (Inl (ErrPolicyDenied rs), sample_ready)"
proof -
  let ?req = "sample_claim\<lparr>cq_IdempotencyKey := [], cq_Lease := 25 * hour\<rparr>"
  have "validateClaimNextRequest (trimClaimNextRequest ?req) = []"
    by code_simp
  moreover have "TrimSpace (cq_IdempotencyKey ?req) = []"
    by code_simp
  ultimately show ?thesis
    by (subst long_lease_denied) simp_all
qed

end
