(* ===== verification/Attempt_Properties.thy ===== *)
theory Attempt_Properties
  imports Forge_Sample
begin

text \<open>
  What the attempt service promises: how an attempt can end, that it ends once, what its end
  does to the ticket, and that a lease protects it.
\<close>

section \<open>The end of an attempt\<close>

lemma ended_not_running:
  assumes "workflow_ok d" and "stmt_step\<^sup>*\<^sup>* d d'" and "a \<in> set (attempts d)"
    and "at_Status a \<noteq> AttemptStatusRunning"
  shows "running_attempt (Some (at_ID a)) d' = Inl NoRows"
proof -
  have "unique_key at_ID (attempts d')"
    using workflow_okD(1) [OF workflow.steps [OF assms(2,1)]] by (simp add: rows_ok_def)
  moreover have "a \<in> set (attempts d')"
    using assms(2,1,3,4) by (rule ended_attempt_steps)
  ultimately have "find_row at_ID (at_ID a) (attempts d') = Some a"
    by (rule find_row_unique)
  with assms(4) show ?thesis
    by (simp add: running_attempt_def GetAttempt_stmt_def)
qed

text \<open>Every statement on an attempt refuses one that is not running.\<close>

lemma refused_statements:
  assumes "running_attempt (Some k) d = Inl NoRows"
  shows "transition_attempt env (Some k) g f st ty actor data d = Inl NoRows"
    and "HeartbeatAttempt_stmt env \<lparr>hap_LeaseExpiresAt = l, hap_HeartbeatAt = n,
      hap_AttemptID = Some k\<rparr> d = Inl NoRows"
    and "kap_AttemptID kp = Some k \<Longrightarrow> CheckpointAttempt_stmt env kp d = Inl NoRows"
  using assms
  by (simp_all add: transition_attempt_not_running HeartbeatAttempt_stmt_def
      CheckpointAttempt_stmt_def)

lemma svc_refused:
  assumes "stmt d = Inl NoRows"
  shows "svc_bind (svc_stmt (transitionError l) stmt) f d = (Inl ErrAttemptNotRunning, d)"
    and "svc_stmt (transitionError l) stmt d = (Inl ErrAttemptNotRunning, d)"
  using assms by (simp_all add: svc_bind_def svc_stmt_def transitionError_def)

lemma validateAttemptID_Some [simp]: "validateAttemptID (Some k) = []"
  by (simp add: validateAttemptID_def problem_def)

text \<open>The well-formed calls on the attempt \<open>k\<close>.\<close>

fun valid_attempt_call :: "uuid \<Rightarrow> runtime_call \<Rightarrow> bool" where
  "valid_attempt_call k (CallHeartbeat now env r) \<longleftrightarrow>
     hr_AttemptID r = Some k \<and> validateHeartbeatRequest r = []"
| "valid_attempt_call k (CallCheckpoint env r) \<longleftrightarrow>
     kr_AttemptID r = Some k \<and> validateCheckpointRequest (trimCheckpointRequest r) = []"
| "valid_attempt_call k (CallComplete now env r) \<longleftrightarrow>
     or_AttemptID r = Some k \<and> validateAttemptMetrics (or_Metrics r) = []"
| "valid_attempt_call k (CallFail now env r) \<longleftrightarrow>
     fr_AttemptID r = Some k \<and> TrimSpace (fr_FailureReason r) \<noteq> [] \<and>
     validateFailureCategory (TrimSpace (fr_FailureCategory r)) = [] \<and>
     validateAttemptMetrics (fr_Metrics r) = []"
| "valid_attempt_call k (CallBlock now env r) \<longleftrightarrow>
     br_AttemptID r = Some k \<and> TrimSpace (br_BlockerReason r) \<noteq> [] \<and>
     validateFailureCategory (TrimSpace (br_FailureCategory r)) = [] \<and>
     validateAttemptMetrics (br_Metrics r) = []"
| "valid_attempt_call k (CallCancel now env r) \<longleftrightarrow> xr_AttemptID r = Some k"
| "valid_attempt_call k _ \<longleftrightarrow> False"

lemma valid_call_refused:
  assumes "running_attempt (Some k) d = Inl NoRows" and "valid_attempt_call k c"
  shows "runtime c d = (Inl ErrAttemptNotRunning, d)"
proof (cases c)
  case (CallHeartbeat now env r)
  with assms show ?thesis
    by (simp add: Heartbeat_def svc_refused refused_statements no_result_def svc_bind_def)
next
  case (CallCheckpoint env r)
  with assms have "Checkpoint env r d = (Inl ErrAttemptNotRunning, d)"
    by (simp add: Checkpoint_def Let_def svc_refused refused_statements trimCheckpointRequest_def)
  with CallCheckpoint show ?thesis by (simp add: no_result_def svc_bind_def)
next
  case (CallComplete now env r)
  obtain j where "jsonb_in (encodeJSONObject (or_Output r)) = Inr j"
    using encoded_output by blast
  with CallComplete assms have "Complete now env r d = (Inl ErrAttemptNotRunning, d)"
    by (simp add: Complete_def CompleteAttempt_stmt_def svc_refused refused_statements)
  with CallComplete show ?thesis by (simp add: no_result_def svc_bind_def with_transaction_def)
next
  case (CallFail now env r)
  obtain j where "jsonb_in (encodeJSONObject (fr_Output r)) = Inr j"
    using encoded_output by blast
  with CallFail assms have "Fail now env r d = (Inl ErrAttemptNotRunning, d)"
    by (simp add: Fail_def FailAttempt_stmt_def Let_def validateFailAttemptRequest_def problem_def
        svc_refused refused_statements)
  with CallFail show ?thesis by (simp add: no_result_def svc_bind_def with_transaction_def)
next
  case (CallBlock now env r)
  obtain j where "jsonb_in (encodeJSONObject (br_Blocker r)) = Inr j"
    using encoded_output by blast
  with CallBlock assms have "Block now env r d = (Inl ErrAttemptNotRunning, d)"
    by (simp add: Block_def BlockAttempt_stmt_def Let_def validateBlockAttemptRequest_def problem_def
        svc_refused refused_statements)
  with CallBlock show ?thesis by (simp add: no_result_def svc_bind_def with_transaction_def)
next
  case (CallCancel now env r)
  with assms show ?thesis
    by (simp add: Cancel_def CancelAttempt_stmt_def Let_def svc_refused refused_statements
        no_result_def svc_bind_def)
qed (use assms(2) in simp_all)

text \<open>An attempt ends once. Whatever happens after its end, heartbeats, checkpoints and every
  further attempt to end it are refused as not running, and change nothing.\<close>

theorem ended_attempt_refuses:
  assumes "workflow_ok d" and "stmt_step\<^sup>*\<^sup>* d d'" and "a \<in> set (attempts d)"
    and "at_Status a \<noteq> AttemptStatusRunning" and "valid_attempt_call (at_ID a) c"
  shows "runtime c d' = (Inl ErrAttemptNotRunning, d')"
  using ended_not_running [OF assms(1-4)] assms(5) by (rule valid_call_refused)

theorem ended_attempt_refuses_witness:
  "runtime sample_fail_call sample_failed = (Inl ErrAttemptNotRunning, sample_failed)"
proof (rule ended_attempt_refuses)
  show "workflow_ok sample_failed" by (rule sample_failed_ok)
  show "stmt_step\<^sup>*\<^sup>* sample_failed sample_failed" by simp
  show "hd (attempts sample_failed) \<in> set (attempts sample_failed)"
    by (rule hd_in_set) code_simp
  show "at_Status (hd (attempts sample_failed)) \<noteq> AttemptStatusRunning"
    by code_simp
  show "valid_attempt_call (at_ID (hd (attempts sample_failed))) sample_fail_call"
    by code_simp
qed

section \<open>What the end of an attempt does\<close>

lemmas transition_names = attempt_status_names_def ticket_event_types_def actor_types_def

lemma running_transition:
  assumes ok: "workflow_ok d" and a: "a \<in> set (attempts d)" "at_Status a = AttemptStatusRunning"
    and t: "find_row tk_ID (at_TicketID a) (tickets d) = Some t" "next_status t = Inr st"
    and fresh: "gen_fresh env (event_ids d + n) d" and close: "keeps_attempt_keys close" "guard a"
    and checks: "attempt_row_checks a \<Longrightarrow> attempt_row_checks (close a)"
    and names: "ty \<in> set ticket_event_types" "actor \<in> set actor_types"
  shows "\<exists>r d'. transition_attempt env (Some (at_ID a)) guard close next_status ty actor data d =
    Inr (r, d') \<and> gen_fresh env n d'"
proof -
  note rows = workflow_okD(1) [OF ok]
  have "attempt_row_checks a" "ticket_in_scope d (at_WorkspaceID a) (at_ProjectID a) (at_TicketID a)"
    "running_attempt (Some (at_ID a)) d = Inr a"
    using rows a find_row_unique [of at_ID "attempts d" a]
    by (simp_all add: rows_ok_def running_attempt_Inr_iff)
  then show ?thesis
    using transition_attempt_succeeds [of env d n "Some (at_ID a)" a guard close t next_status st
        ty actor data] t fresh close checks names
    by auto
qed

lemma running_transition_ends:
  assumes "workflow_ok d" and "a \<in> set (attempts d)" "at_Status a = AttemptStatusRunning"
    and "find_row tk_ID (at_TicketID a) (tickets d) = Some t" "next_status t = Inr st"
    and "gen_fresh env (event_ids d) d" and "keeps_attempt_keys close" "guard a"
    and "attempt_row_checks a \<Longrightarrow> attempt_row_checks (close a)"
    and "ty \<in> set ticket_event_types" "actor \<in> set actor_types"
  shows "\<exists>r d'. transition_attempt env (Some (at_ID a)) guard close next_status ty actor data d =
    Inr (r, d')"
  using running_transition [where n = 0 and next_status = next_status and st = st,
      OF assms(1-5), where env = env and close = close and guard = guard and ty = ty
        and actor = actor and data = data] assms(6-)
  by auto

lemma transition_result:
  assumes "transition_effect env (Some (at_ID a)) outcome rule ty actor d r d'"
    and "workflow_ok d" and "a \<in> set (attempts d)"
    and "find_row tk_ID (at_TicketID a) (tickets d) = Some t" and "rule d t = Inr st"
  shows "ticket_status_of d' (at_TicketID a) = Some st \<and>
    (\<exists>a'. find_row at_ID (at_ID a) (attempts d') = Some a' \<and> at_Status a' = outcome)"
  using assms(1)
proof (rule transition_effectE)
  fix b u f st' e
  assume b: "Some (at_ID a) = Some (at_ID b)" "find_row at_ID (at_ID b) (attempts d) = Some b"
    and f: "keeps_attempt_keys f" "\<And>x. at_Status (f x) = outcome"
    and u: "find_row tk_ID (at_TicketID b) (tickets d) = Some u" "rule d u = Inr st'"
    and core: "core d' = core (transitioned env b f st' e d)"
  have "find_row at_ID (at_ID a) (attempts d) = Some a"
    using workflow_okD(1) [OF assms(2)] assms(3) by (simp add: rows_ok_def find_row_unique)
  with b have "b = a" by simp
  with u assms(4,5) have "st' = st" by simp
  with \<open>b = a\<close> show ?thesis
    using assms(4) b f transitioned_tables(1,2) [OF core]
    by (auto simp: ticket_status_of_def find_set_attempt dest: find_row_SomeD)
qed

text \<open>Metrics that the service accepts and that fit the numeric columns of the table.\<close>

definition storable_metrics :: "attempt_metrics_request option \<Rightarrow> bool" where
  "storable_metrics metrics \<longleftrightarrow>
     validateAttemptMetrics metrics = [] \<and>
     (\<forall>m \<in> set_option metrics.
        \<not> isl (numeric_column 6 (numeric (mr_CostUSD m))) \<and>
        \<not> isl (numeric_column 3 (numeric (mr_DurationSeconds m))))"

lemma not_isl_iff: "\<not> isl x \<longleftrightarrow> (\<exists>y. x = Inr y)"
  by (cases x) simp_all

lemma numeric_column_nonneg:
  "numeric_column k (Some (m, s)) = Inr c \<Longrightarrow> 0 \<le> m \<Longrightarrow> 0 \<le> c"
  by (auto simp: numeric_column_def sgn_if pos_imp_zdiv_nonneg_iff split: if_splits)

lemma recordAttemptMetrics_succeeds:
  assumes "storable_metrics metrics" and "gen_fresh env 1 d"
    and "find_row at_ID (tr_AttemptID row) (attempts d) = Some a"
    and "at_WorkspaceID a = tr_WorkspaceID row" and "at_ProjectID a = tr_ProjectID row"
  shows "\<exists>d'. recordAttemptMetrics env row metrics d = (Inr (), d') \<and>
    tickets d' = tickets d \<and> attempts d' = attempts d"
proof (cases metrics)
  case None
  then show ?thesis by (simp add: recordAttemptMetrics_def svc_return_def)
next
  case (Some m)
  let ?p = "\<lparr>cmp_AttemptID = tr_AttemptID row, cmp_WorkspaceID = tr_WorkspaceID row,
    cmp_ProjectID = tr_ProjectID row, cmp_TokensIn = mr_TokensIn m, cmp_TokensOut = mr_TokensOut m,
    cmp_CostUsd = numeric (mr_CostUSD m), cmp_DurationSeconds = numeric (mr_DurationSeconds m),
    cmp_RetryCount = mr_RetryCount m\<rparr>"
  have "validateAttemptMetrics (Some m) = []"
    using assms(1) Some by (simp add: storable_metrics_def)
  then obtain c cs du ds where num: "numeric (mr_CostUSD m) = Some (c, cs)" "0 \<le> c"
    "numeric (mr_DurationSeconds m) = Some (du, ds)" "0 \<le> du"
    "0 \<le> mr_TokensIn m" "0 \<le> mr_TokensOut m" "0 \<le> mr_RetryCount m"
    by (rule validated_metrics) (rule that)
  obtain cost dur where cols: "numeric_column 6 (Some (c, cs)) = Inr cost"
    "numeric_column 3 (Some (du, ds)) = Inr dur"
    using assms(1) Some num by (auto simp: storable_metrics_def not_isl_iff)
  have pos: "0 \<le> cost" "0 \<le> dur"
    using cols num(2,4) by (blast intro: numeric_column_nonneg)+
  have new: "env_gen env (id_ctr d) \<notin> am_ID ` set (attempt_metrics d)"
    using assms(2) gen_freshD [of env 0 d] by (simp add: used_ids_def)
  have fk: "\<exists>x \<in> set (attempts d). at_ID x = tr_AttemptID row \<and>
      at_WorkspaceID x = tr_WorkspaceID row \<and> at_ProjectID x = tr_ProjectID row"
    using assms(3-5) by (auto dest: find_row_SomeD)
  have "\<exists>r d'. CreateAttemptMetrics_stmt env ?p d = Inr (r, d')"
    using num cols pos new fk
    by (simp add: CreateAttemptMetrics_stmt_def gen_random_uuid_def Let_def metric_row_checks_def
        insert_row_def ensure_def split: option.split)
  then obtain r d' where run: "CreateAttemptMetrics_stmt env ?p d = Inr (r, d')" by blast
  then show ?thesis
    using CreateAttemptMetrics_stmt_frame(1,2) [OF run] Some
    by (simp add: recordAttemptMetrics_def svc_bind_def svc_stmt_def svc_return_def)
qed

lemma recordAttemptMetrics_InrD:
  assumes "recordAttemptMetrics env row metrics d = (Inr u, d')"
    and "validateAttemptMetrics metrics = []"
  shows "storable_metrics metrics"
  using assms
  by (cases metrics)
    (auto simp: recordAttemptMetrics_def storable_metrics_def svc_bind_Inr_iff svc_stmt_Inr_iff
      CreateAttemptMetrics_stmt_def gen_random_uuid_def Let_def and_then_Inr_iff)

abbreviation completion_params :: "timestamp \<Rightarrow> complete_attempt_request \<Rightarrow> complete_attempt_params" where
  "completion_params now req \<equiv>
     \<lparr>cap_Output = encodeJSONObject (or_Output req),
      cap_OutputSchema = optionalText (TrimSpace (or_OutputSchema req)), cap_CompletedAt = now,
      cap_AttemptID = or_AttemptID req\<rparr>"

text \<open>C8. When a running attempt can be completed. In a database that satisfies the invariant, with
  identifiers that are new, the call succeeds exactly when the policy of the ticket says in a
  readable way whether a review is required and the metrics of the request, if it has any, are
  valid and fit their columns. Then the attempt has succeeded and its ticket is done, or waits for
  review when the policy requires one. Otherwise the call fails and the database is as it was.\<close>

theorem running_attempt_completes:
  assumes ok: "workflow_ok d" and a: "a \<in> set (attempts d)" "at_Status a = AttemptStatusRunning"
    and t: "find_row tk_ID (at_TicketID a) (tickets d) = Some t"
    and fresh: "gen_fresh env (event_ids d + 1) d" and req: "or_AttemptID req = Some (at_ID a)"
  shows "if (\<exists>v. json_boolean (json_field (tk_RetryPolicy t) ''requires_review_on_success'') = Inr v)
       \<and> storable_metrics (or_Metrics req)
    then \<exists>d'. runtime (CallComplete now env req) d = (Inr (), d') \<and>
      ticket_status_of d' (at_TicketID a) =
        Some (if json_boolean (json_field (tk_RetryPolicy t) ''requires_review_on_success'') =
            Inr (Some True) then TicketStatusNeedsReview else TicketStatusDone) \<and>
      (\<exists>a'. find_row at_ID (at_ID a) (attempts d') = Some a' \<and>
         at_Status a' = AttemptStatusSucceeded)
    else \<exists>e. runtime (CallComplete now env req) d = (Inl e, d)"
    (is "if ?ok then ?succeeds else ?fails")
proof -
  let ?v = "json_boolean (json_field (tk_RetryPolicy t) ''requires_review_on_success'')"
  let ?st = "if ?v = Inr (Some True) then TicketStatusNeedsReview else TicketStatusDone"
  have effect: "transition_effect env (Some (at_ID a)) AttemptStatusSucceeded (\<lambda>_. success_status)
      ''completed'' ActorAgent d r d'"
    if "CompleteAttempt_stmt env (completion_params now req) d = Inr (r, d')" for r d'
    using complete.effect [OF that] req by simp
  have succeeds: "?succeeds" if good: ?ok
  proof -
    obtain j where j: "jsonb_in (encodeJSONObject (or_Output req)) = Inr j"
      using encoded_output by blast
    obtain v where v: "?v = Inr v" using good by blast
    have st: "success_status t = Inr ?st"
      using v by (cases v) (auto simp: success_status_def coalesce_def)
    have "gen_fresh env (event_ids d + Suc 0) d"
      using fresh by simp
    note runs = running_transition [where next_status = success_status, OF ok a t st this]
    have "\<exists>r d1. CompleteAttempt_stmt env (completion_params now req) d = Inr (r, d1) \<and>
        gen_fresh env (Suc 0) d1"
      by (simp add: CompleteAttempt_stmt_def j req, rule runs)
        (simp_all add: transition_names attempt_row_checks_def)
    then obtain r d1 where run: "CompleteAttempt_stmt env (completion_params now req) d = Inr (r, d1)"
      and fresh1: "gen_fresh env 1 d1" by auto
    note eff = effect [OF run]
    have stored: "find_row at_ID (tr_AttemptID r) (attempts d1) =
        Some (the (find_row at_ID (at_ID a) (attempts d1)))"
      "at_WorkspaceID (the (find_row at_ID (at_ID a) (attempts d1))) = tr_WorkspaceID r"
      "at_ProjectID (the (find_row at_ID (at_ID a) (attempts d1))) = tr_ProjectID r"
      using eff by (auto elim!: transition_effectE dest!: transitioned_tables(1)
          simp: find_set_attempt keeps_attempt_keysD)
    obtain d' where "recordAttemptMetrics env r (or_Metrics req) d1 = (Inr (), d')"
      and same: "tickets d' = tickets d1" "attempts d' = attempts d1"
      using recordAttemptMetrics_succeeds [OF _ fresh1 stored] good by blast
    then have "runtime (CallComplete now env req) d = (Inr (), d')"
      using req run good
      by (simp add: Complete_def svc_stmt_def svc_bind_def svc_return_def no_result_def
          with_transaction_def storable_metrics_def)
    then show ?succeeds
      using transition_result [OF eff ok a(1) t] st same by (auto simp: ticket_status_of_def)
  qed
  have complete_ok: ?ok if run: "runtime (CallComplete now env req) d = (Inr u, d')" for u d'
  proof -
    from run obtain r d1 d2 where m: "validateAttemptMetrics (or_Metrics req) = []"
      "CompleteAttempt_stmt env (completion_params now req) d = Inr (r, d1)"
      "recordAttemptMetrics env r (or_Metrics req) d1 = (Inr (), d2)"
      by (auto simp: no_result_def svc_bind_Inr_iff with_transaction_Inr_iff Complete_def
          svc_check_Inr_iff svc_stmt_Inr_iff)
    have self: "find_row at_ID (at_ID a) (attempts d) = Some a"
      using a(1) workflow_okD(1) [OF ok] by (simp add: rows_ok_def find_row_unique)
    have "\<exists>st. success_status t = Inr st"
      using effect [OF m(2)] by (rule transition_effectE) (use self t in simp)
    then obtain st where "success_status t = Inr st" by blast
    then show ?ok
      using recordAttemptMetrics_InrD [OF m(3,1)]
      by (auto simp: success_status_def and_then_Inr_iff)
  qed
  have fails: "?fails" if "\<not> ?ok"
  proof -
    obtain x d' where run: "runtime (CallComplete now env req) d = (x, d')" by fastforce
    with complete_ok that obtain e where e: "x = Inl e" by (cases x) auto
    with run have "d' = d"
      by (auto simp: no_result_def svc_bind_Inl_iff svc_return_iff dest: with_transaction_Inl)
    with run e show ?fails by blast
  qed
  show ?thesis
    using succeeds fails by (cases ?ok) (simp_all only: if_True if_False simp_thms)
qed

definition sample_metrics :: attempt_metrics_request where
  "sample_metrics = \<lparr>mr_TokensIn = 1, mr_TokensOut = 2, mr_CostUSD = F64 (10 ^ 9) 0,
     mr_DurationSeconds = F64 15 1, mr_RetryCount = 0\<rparr>"

lemma sample_claimed_fresh1: "gen_fresh sample_env (event_ids sample_claimed + 1) sample_claimed"
  by code_simp

lemma sample_claimed_fresh: "gen_fresh sample_env (event_ids sample_claimed) sample_claimed"
  using sample_claimed_fresh1 by (rule gen_fresh_mono) simp

theorem running_attempt_completes_witness:
  "\<exists>d'. runtime (CallComplete 8 sample_env
      \<lparr>or_AttemptID = Some sample_attempt, or_Output = [], or_OutputSchema = [],
       or_Metrics = Some (sample_metrics\<lparr>mr_CostUSD := F64 5 1\<rparr>)\<rparr>)
      sample_claimed = (Inr (), d') \<and>
    ticket_status_of d' sample_ticket = Some TicketStatusDone"
proof -
  let ?a = "hd (attempts sample_claimed)"
  let ?t = "hd (tickets sample_claimed)"
  have a: "?a \<in> set (attempts sample_claimed)" "at_Status ?a = AttemptStatusRunning"
    "at_ID ?a = sample_attempt" "at_TicketID ?a = sample_ticket"
    by (rule hd_in_set, code_simp, code_simp, code_simp, code_simp)
  have t: "find_row tk_ID (at_TicketID ?a) (tickets sample_claimed) = Some ?t"
    by code_simp
  have v: "json_boolean (json_field (tk_RetryPolicy ?t) ''requires_review_on_success'') =
      Inr (Some False)"
    by code_simp
  let ?req = "\<lparr>or_AttemptID = Some sample_attempt, or_Output = [], or_OutputSchema = [],
    or_Metrics = Some (sample_metrics\<lparr>mr_CostUSD := F64 5 1\<rparr>)\<rparr>"
  have m: "storable_metrics (or_Metrics ?req)"
    by code_simp
  have id: "or_AttemptID ?req = Some (at_ID ?a)" by (simp add: a)
  show ?thesis
    using running_attempt_completes [OF sample_claimed_ok a(1,2) t sample_claimed_fresh1 id,
      where now = 8] m v
    by (auto simp: a)
qed

section \<open>Leases\<close>

lemma expireEach_keeps:
  assumes "expireEach now env as res d = (r, d')" and "k \<notin> at_ID ` set as"
  shows "find_row at_ID k (attempts d') = find_row at_ID k (attempts d)"
  using assms
proof (induction as arbitrary: res d)
  case (Cons a as)
  have "find_row at_ID k (attempts d1) = find_row at_ID k (attempts d)"
    if "ExpireAttempt_stmt env (expireParams now a) d = Inr (x, d1)" for x d1
    using that Cons.prems(2) by (intro expire.other_attempts) (auto simp: expireParams_def)
  with Cons show ?case
    by (auto split: sum.splits if_splits)
qed simp

lemma RunOnce_keeps:
  assumes "RunOnce w now env d = (r, d')"
    and "k \<notin> at_ID ` set (ListExpiredRunningAttempts_stmt now (mw_batchLimit w) d)"
  shows "find_row at_ID k (attempts d') = find_row at_ID k (attempts d)"
proof -
  let ?L = "ListExpiredRunningAttempts_stmt now (mw_batchLimit w) d"
  obtain x d1 where x: "expireEach now env ?L no_maintenance d = (x, d1)"
    by fastforce
  have "attempts d' = attempts d1"
    using assms(1) x
    by (cases x) (auto simp: RunOnce_def svc_bind_def svc_read_def Let_def
        DeleteExpiredIdempotencyKeys_stmt_def DeleteTerminalWebhookDeliveries_stmt_def
        split: if_splits)
  with expireEach_keeps [OF x assms(2)] show ?thesis by simp
qed

text \<open>A heartbeat protects the attempt from the maintenance worker: until the lease it asked
  for has run out, a maintenance run leaves the attempt as it is, running.\<close>

theorem heartbeat_protects:
  assumes "workflow_ok d" and "Heartbeat now env req d = (Inr a, d')" and "now' \<le> now + hr_Lease req"
    and "RunOnce w now' env' d' = (res, d'')"
  shows "find_row at_ID (at_ID a) (attempts d'') = Some a \<and> at_Status a = AttemptStatusRunning"
proof -
  from assms(2) have hb: "HeartbeatAttempt_stmt env
      \<lparr>hap_LeaseExpiresAt = now + hr_Lease req, hap_HeartbeatAt = now,
       hap_AttemptID = hr_AttemptID req\<rparr> d = Inr (a, d')"
    by (simp add: Heartbeat_def svc_check_Inr_iff svc_stmt_Inr_iff)
  then have ok: "workflow_ok d'"
    using assms(1) by (blast intro: workflow.preserved stmt_step.heartbeat)
  from hb have beat: "find_row at_ID (at_ID a) (attempts d') = Some a"
    "at_Status a = AttemptStatusRunning" "at_LeaseExpiresAt a = now + hr_Lease req"
    by (rule heartbeat_tables; auto simp: running_attempt_Inr_iff find_set_attempt
        keeps_attempt_keysD dest: find_row_SomeD)+
  have "at_ID a \<notin> at_ID ` set (ListExpiredRunningAttempts_stmt now' (mw_batchLimit w) d')"
  proof
    assume "at_ID a \<in> at_ID ` set (ListExpiredRunningAttempts_stmt now' (mw_batchLimit w) d')"
    then obtain b where b: "b \<in> set (ListExpiredRunningAttempts_stmt now' (mw_batchLimit w) d')"
      "at_ID b = at_ID a" by auto
    have "unique_key at_ID (attempts d')"
      using workflow_okD(1) [OF ok] by (simp add: rows_ok_def)
    with b expired_batch(2) [OF ok b(1)] beat(1) have "b = a"
      by (auto dest!: find_row_unique)
    with expired_batch(2) [OF ok b(1)] beat(3) assms(3) show False by simp
  qed
  with RunOnce_keeps [OF assms(4)] beat show ?thesis by simp
qed

definition sample_heartbeat :: heartbeat_request where
  "sample_heartbeat = \<lparr>hr_AttemptID = Some sample_attempt, hr_Lease = 500\<rparr>"

theorem heartbeat_protects_witness:
  "\<exists>a. find_row at_ID sample_attempt
     (attempts (snd (RunOnce (runtime_maintenance 0) 400 sample_env
        (snd (Heartbeat 10 sample_env sample_heartbeat sample_claimed))))) = Some a \<and>
     at_Status a = AttemptStatusRunning"
proof -
  let ?h = "Heartbeat 10 sample_env sample_heartbeat sample_claimed"
  let ?m = "RunOnce (runtime_maintenance 0) 400 sample_env (snd ?h)"
  have h: "?h = (Inr (projr (fst ?h)), snd ?h)"
    by (rule evaluated_svc) code_simp
  have id: "at_ID (projr (fst ?h)) = sample_attempt"
    by code_simp
  have m: "?m = (fst ?m, snd ?m)" by simp
  from heartbeat_protects [OF sample_claimed_ok h _ m, unfolded id] show ?thesis
    by (auto simp: sample_heartbeat_def)
qed

text \<open>A running attempt can be expired exactly when its lease ended before the cutoff.\<close>

theorem expires_iff_overdue:
  assumes "workflow_ok d" and "a \<in> set (attempts d)" and "at_Status a = AttemptStatusRunning"
    and "gen_fresh env (event_ids d) d" and "er_AttemptID req = Some (at_ID a)"
  shows "(\<exists>r d'. Expire now env req d = (Inr r, d')) \<longleftrightarrow>
    at_LeaseExpiresAt a < coalesce (er_ExpirationCutoff req) now"
proof -
  let ?c = "coalesce (er_ExpirationCutoff req) now"
  note rows = workflow_okD(1) [OF assms(1)]
  obtain t where t: "t \<in> set (tickets d)" "tk_ID t = at_TicketID a"
    using rows assms(2) by (rule attempt_ticket)
  have find: "find_row tk_ID (at_TicketID a) (tickets d) = Some t"
    using rows t find_row_unique [of tk_ID "tickets d" t] by (simp add: rows_ok_def)
  have "held d (tk_ID t)" using assms(2,3) t(2) by (auto simp: held_def)
  then obtain m where "max_attempts t = Inr m"
    using workflow_okD(4) [OF assms(1)] t(1) by (auto simp: retry_budget_def)
  then obtain st where st: "exhausted_status d t = Inr st"
    by (auto simp: exhausted_status_def)
  have run: "running_attempt (Some (at_ID a)) d = Inr a"
    using assms(2,3) find_row_unique [of at_ID "attempts d" a] rows
    by (simp add: running_attempt_Inr_iff rows_ok_def)
  let ?p = "\<lparr>eap_CompletedAt = now, eap_AttemptID = Some (at_ID a), eap_ExpirationCutoff = ?c\<rparr>"
  have "(\<exists>r d'. ExpireAttempt_stmt env ?p d = Inr (r, d')) \<longleftrightarrow> at_LeaseExpiresAt a < ?c"
  proof
    assume "\<exists>r d'. ExpireAttempt_stmt env ?p d = Inr (r, d')"
    then show "at_LeaseExpiresAt a < ?c"
      using run by (auto simp: ExpireAttempt_stmt_def transition_attempt_def and_then_Inr_iff
          ensure_Inr_iff)
  next
    assume "at_LeaseExpiresAt a < ?c"
    then show "\<exists>r d'. ExpireAttempt_stmt env ?p d = Inr (r, d')"
      by (simp add: ExpireAttempt_stmt_def, intro running_transition_ends
          [where next_status = "exhausted_status d", OF assms(1-3) find st assms(4)])
        (simp_all add: transition_names attempt_row_checks_def)
  qed
  then show ?thesis
    using assms(5) by (auto simp: Expire_def svc_bind_Inr_iff svc_stmt_Inr_iff svc_return_iff)
qed

theorem expires_iff_overdue_witness:
  "\<exists>r d'. Expire 2000000 sample_env
     \<lparr>er_AttemptID = Some sample_attempt, er_ExpirationCutoff = None\<rparr> sample_claimed = (Inr r, d')"
proof -
  let ?a = "hd (attempts sample_claimed)"
  have a: "?a \<in> set (attempts sample_claimed)" "at_Status ?a = AttemptStatusRunning"
    "at_ID ?a = sample_attempt" "at_LeaseExpiresAt ?a = 65"
    by (rule hd_in_set, code_simp, code_simp, code_simp, code_simp)
  show ?thesis
    using expires_iff_overdue [OF sample_claimed_ok a(1,2) sample_claimed_fresh,
        of "\<lparr>er_AttemptID = Some sample_attempt, er_ExpirationCutoff = None\<rparr>" 2000000]
    by (simp add: a coalesce_def)
qed

section \<open>Metrics\<close>

text \<open>Metrics that pass validation satisfy every check and not-null constraint of the metrics
  table: storing them can fail only for a number that does not fit its column, or for the
  references and the key of the row.\<close>

theorem validated_metrics_storable:
  assumes "validateAttemptMetrics (Some m) = []"
    and "recordAttemptMetrics env row (Some m) d = (Inl e, d')"
  shows "e \<in> StoreError ''record attempt metrics'' `
      {NumericValueOutOfRange, UniqueViolation, ForeignKeyViolation} \<and> d' = d"
  using assms(1)
proof (rule validated_metrics)
  fix c cs du ds
  assume c: "numeric (mr_CostUSD m) = Some (c, cs)" "0 \<le> c"
    and du: "numeric (mr_DurationSeconds m) = Some (du, ds)" "0 \<le> du"
    and n: "0 \<le> mr_TokensIn m" "0 \<le> mr_TokensOut m" "0 \<le> mr_RetryCount m"
  have "0 \<le> round_to_scale 6 (c, cs)" "0 \<le> round_to_scale 3 (du, ds)"
    using round_to_scale_nonneg [OF c(2)] round_to_scale_nonneg [OF du(2)] by blast+
  then show ?thesis
    using assms(2) n
    by (auto simp: recordAttemptMetrics_def svc_bind_Inl_iff svc_stmt_Inl_iff svc_return_iff
        CreateAttemptMetrics_stmt_def gen_random_uuid_def numeric_column_def Let_def c(1) du(1)
        and_then_Inl_iff ensure_Inl_iff metric_row_checks_def insert_row_def
        simp del: round_to_scale.simps split: if_splits option.splits)
qed

theorem validated_metrics_storable_witness:
  "fst (recordAttemptMetrics sample_env
      (fst (projr (FailAttempt_stmt sample_env sample_fail sample_claimed))) (Some sample_metrics)
      sample_claimed)
    \<in> Inl ` StoreError ''record attempt metrics'' `
        {NumericValueOutOfRange, UniqueViolation, ForeignKeyViolation}"
proof -
  let ?row = "fst (projr (FailAttempt_stmt sample_env sample_fail sample_claimed))"
  let ?x = "recordAttemptMetrics sample_env ?row (Some sample_metrics) sample_claimed"
  have x: "?x = (Inl (projl (fst ?x)), snd ?x)"
  proof -
    have "isl (fst ?x)" by code_simp
    then show ?thesis by (metis isl_def prod.collapse sum.sel(1))
  qed
  have v: "validateAttemptMetrics (Some sample_metrics) = []" by code_simp
  show ?thesis
    using validated_metrics_storable [OF v x] by (subst x) auto
qed

end
