(* ===== verification/Ticket_Transitions.thy ===== *)
theory Ticket_Transitions
  imports Lifecycle
begin

text \<open>
  The outcomes of a transition request on a given ticket: missing, refused or carried out.
\<close>

abbreviation acting :: "string \<Rightarrow> string" where
  "acting actor \<equiv> default_string ActorHuman (TrimSpace actor)"

definition transition_specs_list :: "ticket_transition_spec list" where
  "transition_specs_list =
     [ready_spec, reopen_spec, unblock_spec, request_review_spec, archive_spec]"

lemma spec_names:
  assumes "spec \<in> set transition_specs_list"
  shows "sp_eventType spec \<in> set ticket_event_types"
    and "sp_targetStatus spec \<in> set ticket_status_names"
  using assms by (auto simp: transition_specs_list_def transition_specs ticket_event_types_def
      ticket_status_names_def)

lemma setTicketStatus_succeeds:
  assumes "gen_fresh env (event_ids d) d" and "ss_ticketID r = Some k"
    and "find_row tk_ID k (tickets d) = Some t" and "tk_Status t \<in> set (ss_allowedStatuses r)"
    and "ss_status r \<in> set ticket_status_names" and "ss_eventType r \<in> set ticket_event_types"
    and "ss_actorType r \<in> set actor_types"
  shows "\<exists>d'. setTicketStatus env r d =
      (Inr (t\<lparr>tk_Status := ss_status r, tk_UpdatedAt := env_now env\<rparr>), d') \<and>
    ticket_status_of d' k = Some (ss_status r)"
proof -
  obtain t' d' where run: "TransitionTicket_stmt env (setTicketStatusParams r) d = Inr (t', d')"
    using TransitionTicket_stmt_succeeds [OF assms(1) jobj_doc, of r k t] assms by auto
  from run have "t' = t\<lparr>tk_Status := ss_status r, tk_UpdatedAt := env_now env\<rparr> \<and>
      tickets d' = tickets (set_ticket_status env k (ss_status r) d)"
  proof (rule TransitionTicket_stmt_InrD)
    fix k' u e
    assume *: "ttp_ID (setTicketStatusParams r) = Some k'" "find_row tk_ID k' (tickets d) = Some u"
      "t' = u\<lparr>tk_Status := ttp_Status (setTicketStatusParams r), tk_UpdatedAt := env_now env\<rparr>"
      "core d' = core ((set_ticket_status env k' (ttp_Status (setTicketStatusParams r)) d)
         \<lparr>ticket_events := ticket_events d @ [e], event_seq := event_seq d + 1\<rparr>)"
    have "tickets d' = tickets (set_ticket_status env k (ss_status r) d)"
      using core_eqD(3) [OF *(4)] *(1) assms(2) by (simp add: set_ticket_status_def)
    with * assms(2,3) show ?thesis by simp
  qed
  moreover have "tk_ID t = k" using assms(3) by (auto dest: find_row_SomeD)
  ultimately show ?thesis
    using run assms(3) by (simp add: setTicketStatus_def ticket_status_of_def)
qed

text \<open>A request on a ticket by an allowed actor.\<close>

lemma transitionTicket_run:
  assumes "tr_TicketRef req = Some k" and "isAllowedActor (acting (tr_ActorType req))"
  shows "transitionTicket env req spec d = setTicketStatus env
    \<lparr>ss_ticketID = Some k, ss_status = sp_targetStatus spec,
     ss_allowedStatuses = sp_allowedStatuses spec, ss_eventType = sp_eventType spec,
     ss_actorType = acting (tr_ActorType req), ss_actorID = TrimSpace (tr_ActorID req),
     ss_data = [(''operation'', sp_operation spec), (''reason'', TrimSpace (tr_Reason req))]\<rparr> d"
  using assms by (simp add: transitionTicket_def Let_def trimTicketTransitionRequest_def
      validateTicketTransitionRequest_def problem_def)

lemma transitionTicket_missing:
  assumes "tr_TicketRef req = Some k" and "isAllowedActor (acting (tr_ActorType req))"
    and "find_row tk_ID k (tickets d) = None"
  shows "transitionTicket env req spec d = (Inl ErrTicketNotFound, d)"
  unfolding transitionTicket_run [OF assms(1,2)]
  by (rule setTicketStatus_missing [OF _ assms(3)]) simp

lemma transitionTicket_not_allowed:
  assumes "tr_TicketRef req = Some k" and "isAllowedActor (acting (tr_ActorType req))"
    and "find_row tk_ID k (tickets d) = Some t" and "tk_Status t \<notin> set (sp_allowedStatuses spec)"
  shows "transitionTicket env req spec d = (Inl ErrTicketTransitionNotAllowed, d)"
  unfolding transitionTicket_run [OF assms(1,2)]
  by (rule setTicketStatus_not_allowed [OF _ assms(3)]) (simp_all add: assms(4))

lemma transitionTicket_succeeds:
  assumes "tr_TicketRef req = Some k" and "isAllowedActor (acting (tr_ActorType req))"
    and "find_row tk_ID k (tickets d) = Some t" and "tk_Status t \<in> set (sp_allowedStatuses spec)"
    and "gen_fresh env (event_ids d) d" and "spec \<in> set transition_specs_list"
  shows "\<exists>d'. transitionTicket env req spec d =
      (Inr (t\<lparr>tk_Status := sp_targetStatus spec, tk_UpdatedAt := env_now env\<rparr>), d') \<and>
    ticket_status_of d' k = Some (sp_targetStatus spec)"
proof -
  let ?r = "\<lparr>ss_ticketID = Some k, ss_status = sp_targetStatus spec,
    ss_allowedStatuses = sp_allowedStatuses spec, ss_eventType = sp_eventType spec,
    ss_actorType = acting (tr_ActorType req), ss_actorID = TrimSpace (tr_ActorID req),
    ss_data = [(''operation'', sp_operation spec), (''reason'', TrimSpace (tr_Reason req))]\<rparr>"
  show ?thesis
    using setTicketStatus_succeeds [OF assms(5), of ?r k t] spec_names [OF assms(6)] assms(2-4)
    by (simp add: transitionTicket_run [OF assms(1,2)] isAllowedActor_iff)
qed

end
