(* ===== verification/Ticket_Properties.thy ===== *)
theory Ticket_Properties
  imports Forge_Sample Ticket_Transitions
begin

text \<open>
  What the ticket service promises: which transitions it carries out and how it refuses the
  others, who may put a ticket into the queue, and what creation and patches do.
\<close>

section \<open>Transitions\<close>

text \<open>A well-formed transition request has three outcomes, decided by the ticket alone: a
  missing ticket is not found, a ticket whose status the transition does not start from is
  refused, both without effect, and every other ticket gets the target status.\<close>

theorem transition_decides:
  assumes "gen_fresh env (event_ids d) d" and "spec \<in> set transition_specs_list"
    and "tr_TicketRef req = Some k" and "isAllowedActor (acting (tr_ActorType req))"
  shows "case find_row tk_ID k (tickets d) of
      None \<Rightarrow> transitionTicket env req spec d = (Inl ErrTicketNotFound, d)
    | Some t \<Rightarrow>
        if tk_Status t \<in> set (sp_allowedStatuses spec)
        then \<exists>d'. transitionTicket env req spec d =
            (Inr (t\<lparr>tk_Status := sp_targetStatus spec, tk_UpdatedAt := env_now env\<rparr>), d') \<and>
          ticket_status_of d' k = Some (sp_targetStatus spec)
        else transitionTicket env req spec d = (Inl ErrTicketTransitionNotAllowed, d)"
proof (cases "find_row tk_ID k (tickets d)")
  case None
  then show ?thesis using assms(3,4) by (simp add: transitionTicket_missing)
next
  case (Some t)
  then show ?thesis
    using assms by (simp add: transitionTicket_not_allowed transitionTicket_succeeds)
qed

definition sample_move :: ticket_transition_request where
  "sample_move =
     \<lparr>tr_TicketRef = Some sample_ticket, tr_ActorType = [], tr_ActorID = [], tr_Reason = []\<rparr>"

lemma sample_ready_fresh: "gen_fresh sample_env (event_ids sample_ready) sample_ready"
  by code_simp

theorem transition_decides_witness:
  "\<exists>t d'. transitionTicket sample_env sample_move archive_spec sample_ready = (Inr t, d') \<and>
     ticket_status_of d' sample_ticket = Some TicketStatusArchived"
proof -
  have t: "find_row tk_ID sample_ticket (tickets sample_ready) = Some (hd (tickets sample_ready))"
    by code_simp
  have s: "tk_Status (hd (tickets sample_ready)) \<in> set (sp_allowedStatuses archive_spec)"
    by code_simp
  have a: "archive_spec \<in> set transition_specs_list"
    by (simp add: transition_specs_list_def)
  have m: "tr_TicketRef sample_move = Some sample_ticket" "isAllowedActor (acting (tr_ActorType sample_move))"
    by (simp add: sample_move_def, code_simp)
  have g: "sp_targetStatus archive_spec = TicketStatusArchived"
    by (simp add: archive_spec_def)
  show ?thesis
    using transition_decides [OF sample_ready_fresh a m] by (auto simp: t s g)
qed

section \<open>The right to enqueue\<close>

text \<open>An agent without the right to enqueue cannot put a ticket it creates into the queue: what
  \<open>CreateTicket\<close> stores for it is in the backlog.\<close>

theorem agent_creates_in_backlog:
  assumes "CreateTicket env req d = (Inr t, d')" and "tk_CreatedBy t = ActorAgent"
    and "\<not> cr_CanEnqueue req"
  shows "ticket_status_of d' (tk_ID t) = Some TicketStatusBacklog"
proof -
  let ?r = "completeCreateTicketRequest req EventTicketCreated"
  from assms(1) obtain d1 d2 e where v: "validateCreateTicketRequest ?r = []"
    and guard: "cr_CreatedBy ?r = ActorAgent \<Longrightarrow> cr_Enqueue req \<or> cr_Status ?r = TicketStatusTodo \<Longrightarrow>
      cr_CanEnqueue req"
    and ins: "CreateTicket_stmt env (createTicketParams ?r) d = Inr (t, d1)"
    and deps: "svc_each (\<lambda>dep. svc_stmt (StoreError ''create ticket dependency'')
        (CreateTicketDependency_stmt env (tk_ID t) dep (tk_WorkspaceID t) (tk_ProjectID t)))
        (cr_Dependencies ?r) d1 = (Inr (), d2)"
    and core: "core d' = core (d2\<lparr>ticket_events := ticket_events d2 @ [e],
      event_seq := event_seq d2 + 1\<rparr>)"
    unfolding CreateTicket_def by (rule createTicket_InrD) (rule that, assumption+)
  note t = CreateTicket_stmt_InrD [OF ins]
  have "cr_CreatedBy ?r = ActorAgent"
    using t(5) assms(2) by simp
  then have "tk_Status t = TicketStatusBacklog"
    using guard assms(3) t(4) validated_create(3) [OF v] by auto
  moreover have "tickets d' = tickets d @ [t]"
    using core_eqD(3) [OF core] core_eqD(3) [OF t(1)] create_dependencies_core [OF deps] by auto
  moreover have "find_row tk_ID (tk_ID t) (tickets d) = None"
    using t(2) by (rule find_row_absent)
  ultimately show ?thesis
    by (simp add: ticket_status_of_def find_row_append)
qed

definition sample_agent_create :: create_ticket_request where
  "sample_agent_create =
     sample_create\<lparr>cr_CreatedBy := ActorAgent, cr_CreationReason := ''found''\<rparr>"

theorem agent_creates_in_backlog_witness:
  "ticket_status_of (snd (CreateTicket sample_env sample_agent_create sample_db)) sample_ticket =
     Some TicketStatusBacklog"
proof -
  let ?x = "CreateTicket sample_env sample_agent_create sample_db"
  have x: "?x = (Inr (projr (fst ?x)), snd ?x)"
    by (rule evaluated_svc) code_simp
  have t: "tk_CreatedBy (projr (fst ?x)) = ActorAgent" "tk_ID (projr (fst ?x)) = sample_ticket"
    by (code_simp, code_simp)
  have "\<not> cr_CanEnqueue sample_agent_create"
    by code_simp
  from agent_creates_in_backlog [OF x t(1) this] show ?thesis
    by (simp add: t(2))
qed

lemma transitionProposedTicket_eq:
  assumes "pt_TicketID req = Some k" and "isAllowedActor (acting (pt_ActorType req))"
    and "find_row tk_ID k (tickets d) = Some t" and "tk_Status t = TicketStatusBacklog"
    and "tk_CreatedBy t = ActorAgent"
  shows "transitionProposedTicket env req op ty st d = setTicketStatus env
    \<lparr>ss_ticketID = Some k, ss_status = st, ss_allowedStatuses = [TicketStatusBacklog],
     ss_eventType = ty, ss_actorType = acting (pt_ActorType req),
     ss_actorID = TrimSpace (pt_ActorID req),
     ss_data = [(''operation'', op), (''reason'', TrimSpace (pt_Reason req))]\<rparr> d"
  using assms
  by (simp add: transitionProposedTicket_def Let_def trimProposedTicketTriageRequest_def
      validateProposedTicketTriageRequest_def problem_def requireProposedTicket_def svc_bind_def
      svc_query_def svc_return_def GetTicket_stmt_def)

text \<open>C12. The check of the right to enqueue covers one of the two ways out of triage only: for an
  agent without the right, \<open>EnqueueProposedTicket\<close> is refused without effect, while
  \<open>ReadyProposedTicket\<close> performs the same move from the backlog into the queue.\<close>

theorem ready_bypasses_enqueue_right:
  assumes "gen_fresh env (event_ids d) d" and "pt_TicketID req = Some k"
    and "find_row tk_ID k (tickets d) = Some t" and "tk_Status t = TicketStatusBacklog"
    and "tk_CreatedBy t = ActorAgent"
    and "TrimSpace (pt_ActorType req) = ActorAgent" and "\<not> pt_CanEnqueue req"
  shows "EnqueueProposedTicket env req d = (Inl ErrEnqueuePermissionRequired, d) \<and>
    (\<exists>t' d'. ReadyProposedTicket env req d = (Inr t', d') \<and>
       ticket_status_of d' k = Some TicketStatusTodo)"
proof
  have acting: "acting (pt_ActorType req) = ActorAgent"
    using assms(6) by (simp add: default_string_def)
  then show "EnqueueProposedTicket env req d = (Inl ErrEnqueuePermissionRequired, d)"
    using assms(7) by (simp add: EnqueueProposedTicket_def Let_def
        trimProposedTicketTriageRequest_def svc_fail_def)
  have "isAllowedActor (acting (pt_ActorType req))"
    by (simp add: acting isAllowedActor_def)
  note eq = transitionProposedTicket_eq [OF assms(2) this assms(3-5)]
  show "\<exists>t' d'. ReadyProposedTicket env req d = (Inr t', d') \<and>
      ticket_status_of d' k = Some TicketStatusTodo"
    unfolding ReadyProposedTicket_def eq
    using setTicketStatus_succeeds [OF assms(1), of "\<lparr>ss_ticketID = Some k,
        ss_status = TicketStatusTodo, ss_allowedStatuses = [TicketStatusBacklog],
        ss_eventType = ''ready'', ss_actorType = acting (pt_ActorType req),
        ss_actorID = TrimSpace (pt_ActorID req), ss_data = [(''operation'', ''ready_proposed''),
          (''reason'', TrimSpace (pt_Reason req))]\<rparr>" k t]
    by (auto simp: assms(3,4) acting ticket_status_names_def ticket_event_types_def actor_types_def)
qed

definition sample_proposed :: db where
  "sample_proposed = run_calls [CallProposeTicket sample_env sample_agent_create] sample_db"

definition sample_triage :: proposed_ticket_triage_request where
  "sample_triage = \<lparr>pt_TicketID = Some sample_ticket, pt_ActorType = ActorAgent, pt_ActorID = [],
     pt_Reason = [], pt_CanEnqueue = False\<rparr>"

theorem ready_bypasses_enqueue_right_witness:
  "EnqueueProposedTicket sample_env sample_triage sample_proposed =
     (Inl ErrEnqueuePermissionRequired, sample_proposed) \<and>
   (\<exists>t' d'. ReadyProposedTicket sample_env sample_triage sample_proposed = (Inr t', d') \<and>
      ticket_status_of d' sample_ticket = Some TicketStatusTodo)"
proof (rule ready_bypasses_enqueue_right)
  show "gen_fresh sample_env (event_ids sample_proposed) sample_proposed" by code_simp
  show "pt_TicketID sample_triage = Some sample_ticket" by (simp add: sample_triage_def)
  show "find_row tk_ID sample_ticket (tickets sample_proposed) = Some (hd (tickets sample_proposed))"
    by code_simp
  show "tk_Status (hd (tickets sample_proposed)) = TicketStatusBacklog" by code_simp
  show "tk_CreatedBy (hd (tickets sample_proposed)) = ActorAgent" by code_simp
  show "TrimSpace (pt_ActorType sample_triage) = ActorAgent" by code_simp
  show "\<not> pt_CanEnqueue sample_triage" by (simp add: sample_triage_def)
qed

section \<open>Creation, patches and merges\<close>

text \<open>The texts of a list that are left when every text is trimmed and the empty ones are dropped.\<close>

abbreviation trimmed_texts :: "string list \<Rightarrow> string list" where
  "trimmed_texts vs \<equiv> filter (\<lambda>v. v \<noteq> []) (map TrimSpace vs)"

text \<open>The ticket that a creation stores for a request, field by field: texts are trimmed, empty
  optional texts are null, and what the request leaves out has its default.\<close>

definition ticket_of_request :: "pg_env \<Rightarrow> create_ticket_request \<Rightarrow> ticket \<Rightarrow> bool" where
  "ticket_of_request env req t \<longleftrightarrow>
     Some (tk_WorkspaceID t) = cr_WorkspaceID req \<and> Some (tk_ProjectID t) = cr_ProjectID req \<and>
     tk_ParentID t = cr_ParentID req \<and> tk_RootID t = cr_RootID req \<and>
     tk_SourceAttemptID t = cr_SourceAttemptID req \<and>
     tk_SourceArtifactID t = cr_SourceArtifactID req \<and>
     tk_Title t = TrimSpace (cr_Title req) \<and> tk_Description t = TrimSpace (cr_Description req) \<and>
     tk_Type t = TrimSpace (cr_Type req) \<and>
     tk_CreatedBy t =
       (if TrimSpace (cr_CreatedBy req) = [] then ActorHuman else TrimSpace (cr_CreatedBy req)) \<and>
     tk_Status t =
       (if TrimSpace (cr_Status req) \<noteq> [] then TrimSpace (cr_Status req)
        else if tk_CreatedBy t = ActorAgent \<and> \<not> cr_Enqueue req then TicketStatusBacklog
        else TicketStatusTodo) \<and>
     tk_Priority t = coalesce (cr_Priority req) 2 \<and>
     tk_Tags t = trimmed_texts (cr_Tags req) \<and>
     tk_AcceptanceCriteria t = trimmed_texts (cr_AcceptanceCriteria req) \<and>
     tk_VerificationCommands t = JArr (map JStr (trimmed_texts (cr_VerificationCommands req))) \<and>
     tk_ExpectedArtifacts t = trimmed_texts (cr_ExpectedArtifacts req) \<and>
     tk_RelevantPaths t = trimmed_texts (cr_RelevantPaths req) \<and>
     tk_RequiredTools t = trimmed_texts (cr_RequiredTools req) \<and>
     tk_RequiredPermissions t = trimmed_texts (cr_RequiredPermissions req) \<and>
     tk_Environment t = JObj (cr_Environment req) \<and> tk_Input t = JObj (cr_Input req) \<and>
     tk_InputSchema t = optionalText (TrimSpace (cr_InputSchema req)) \<and>
     tk_RequiredCapabilities t = trimmed_texts (cr_RequiredCapabilities req) \<and>
     tk_AllowedHarnesses t = trimmed_texts (cr_AllowedHarnesses req) \<and>
     RawDoc (tk_RetryPolicy t) =
       (if cr_RetryPolicy req = RawEmpty then defaultRetryPolicy else cr_RetryPolicy req) \<and>
     tk_CreatedByID t = optionalText (TrimSpace (cr_CreatedByID req)) \<and>
     tk_CreationReason t = optionalText (TrimSpace (cr_CreationReason req)) \<and>
     tk_CreatedAt t = env_now env \<and> tk_UpdatedAt t = env_now env"

lemma encoded_array: "encodeJSONArray vs = RawDoc (JArr (map JStr vs))"
  by (simp add: encodeJSONArray_def defaultJSONArray_def)

lemma encoded_object: "encodeJSONObject v = RawDoc (JObj v)"
  by (simp add: encodeJSONObject_def defaultJSONObject_def)

lemma completed_request:
  fixes req :: create_ticket_request
  defines "by \<equiv> if TrimSpace (cr_CreatedBy req) = [] then ActorHuman else TrimSpace (cr_CreatedBy req)"
  shows "completeCreateTicketRequest req EventTicketCreated = (trimCreateTicketRequest req)
    \<lparr>cr_CreatedBy := by,
     cr_Status := if TrimSpace (cr_Status req) \<noteq> [] then TrimSpace (cr_Status req)
       else if by = ActorAgent \<and> \<not> cr_Enqueue req then TicketStatusBacklog else TicketStatusTodo\<rparr>"
  unfolding completeCreateTicketRequest_def trimCreateTicketRequest_def Let_def by_def
  by (cases req) (simp add: defaultCreateStatus_def default_string_def)

lemma created_ticket_fields:
  assumes "CreateTicket_stmt env (createTicketParams
    (completeCreateTicketRequest req EventTicketCreated)) d = Inr (t, d')"
  shows "ticket_of_request env req t" and "tk_ID t = env_gen env (id_ctr d)"
proof -
  let ?r = "completeCreateTicketRequest req EventTicketCreated"
  from assms obtain i w p vc en inp rp where
    t: "t = new_ticket env (createTicketParams ?r) i w p vc en inp rp" "i = env_gen env (id_ctr d)"
    and raw: "encodeJSONArray (cr_VerificationCommands ?r) = RawDoc vc"
      "encodeJSONObject (cr_Environment ?r) = RawDoc en" "encodeJSONObject (cr_Input ?r) = RawDoc inp"
      "(if cr_RetryPolicy ?r = RawEmpty then defaultRetryPolicy else cr_RetryPolicy ?r) = RawDoc rp"
      "cr_WorkspaceID ?r = Some w" "cr_ProjectID ?r = Some p"
    by (auto simp: CreateTicket_stmt_def gen_random_uuid_def Let_def result_simps
        createTicketParams_def)
  show "tk_ID t = env_gen env (id_ctr d)"
    by (simp add: t new_ticket_def)
  show "ticket_of_request env req t"
    using raw(1-3) raw(4) [symmetric] raw(5,6) unfolding completed_request
    by (simp add: ticket_of_request_def t new_ticket_def createTicketParams_def encoded_array
        encoded_object completed_request trimCreateTicketRequest_def compactStringsPreserveEmpty_eq
        split del: if_split cong: if_cong)
qed

text \<open>The row of a dependency that is requested for a new ticket.\<close>

definition dependency_of :: "pg_env \<Rightarrow> ticket \<Rightarrow> uuid option \<Rightarrow> ticket_dependency" where
  "dependency_of env t on =
     \<lparr>dep_TicketID = tk_ID t, dep_DependsOnTicketID = the on, dep_WorkspaceID = tk_WorkspaceID t,
      dep_ProjectID = tk_ProjectID t, dep_CreatedAt = env_now env\<rparr>"

lemma created_dependencies:
  assumes "svc_each (\<lambda>dep. svc_stmt l (CreateTicketDependency_stmt env (tk_ID t) dep
      (tk_WorkspaceID t) (tk_ProjectID t))) deps d = (Inr (), d')"
  shows "d' = d\<lparr>ticket_dependencies := ticket_dependencies d @ map (dependency_of env t) deps\<rparr> \<and>
    set deps \<subseteq> Some ` (tk_ID ` set (tickets d) - {tk_ID t})"
  using assms
proof (induction deps arbitrary: d)
  case Nil
  then show ?case by (auto simp: svc_return_iff)
next
  case (Cons x xs)
  then obtain r d1 where 1: "CreateTicketDependency_stmt env (tk_ID t) x (tk_WorkspaceID t)
      (tk_ProjectID t) d = Inr (r, d1)"
    and 2: "svc_each (\<lambda>dep. svc_stmt l (CreateTicketDependency_stmt env (tk_ID t) dep
      (tk_WorkspaceID t) (tk_ProjectID t))) xs d1 = (Inr (), d')"
    by (auto simp: svc_bind_Inr_iff svc_stmt_Inr_iff)
  note d1 = CreateTicketDependency_stmt_InrD [OF 1]
  have r: "r = dependency_of env t x"
    using 1 by (auto simp: CreateTicketDependency_stmt_def dependency_of_def Let_def result_simps)
  have "dep_DependsOnTicketID r \<in> tk_ID ` set (tickets d)"
    using d1(6) by (force simp: ticket_in_scope_def)
  then have "x \<in> Some ` (tk_ID ` set (tickets d) - {tk_ID t})"
    using d1(3,4) by blast
  with Cons.IH [OF 2] show ?case
    by (simp add: d1(1) r)
qed

lemma new_deliveries:
  assumes "enqueue_deliveries env e ss d = Inr d'"
  shows "\<exists>ws. webhook_deliveries d' = webhook_deliveries d @ ws \<and> (\<forall>w \<in> set ws. wd_EventID w = ev_ID e)"
  using assms
proof (induction ss arbitrary: d)
  case (Cons s ss)
  then obtain i d1 where "enqueue_deliveries env e ss (d1\<lparr>webhook_deliveries :=
      webhook_deliveries d @ [new_delivery env d1 e s i]\<rparr>) = Inr d'"
    by (auto simp: gen_random_uuid_def result_simps)
  from Cons.IH [OF this] show ?case
    by (auto simp: new_delivery_def)
qed simp

lemma recorded_event:
  assumes "CreateTicketEvent_stmt env p (RawDoc j) d = Inr (e, d')"
  shows "\<exists>i ws k. e = new_event env (p\<lparr>ep_Data := j\<rparr>) (event_seq d) i \<and>
    d' = d\<lparr>ticket_events := ticket_events d @ [e], event_seq := event_seq d + 1,
      webhook_deliveries := webhook_deliveries d @ ws, id_ctr := k\<rparr> \<and>
    (\<forall>w \<in> set ws. wd_EventID w = ev_ID e)"
proof -
  have ins: "insert_ticket_event env (p\<lparr>ep_Data := j\<rparr>) d = Inr (e, d')"
    using assms by (simp add: CreateTicketEvent_stmt_def)
  note core = insert_ticket_event_core [OF ins]
  have "\<exists>ss x. enqueue_deliveries env e ss x = Inr d' \<and>
      webhook_deliveries x = webhook_deliveries d"
  proof -
    from ins obtain es ss i where "enqueue_deliveries env e ss (d\<lparr>id_ctr := i, ticket_events := es,
        event_seq := event_seq d + 1\<rparr>) = Inr d'"
      by (auto simp: insert_ticket_event_def gen_random_uuid_def Let_def result_simps)
    then show ?thesis by fastforce
  qed
  then obtain ss x where x: "enqueue_deliveries env e ss x = Inr d'"
    "webhook_deliveries x = webhook_deliveries d"
    by blast
  from new_deliveries [OF x(1)] obtain ws where
    ws: "webhook_deliveries d' = webhook_deliveries d @ ws" "\<forall>w \<in> set ws. wd_EventID w = ev_ID e"
    by (auto simp: x(2))
  have "d' = d\<lparr>ticket_events := ticket_events d @ [e], event_seq := event_seq d + 1,
      webhook_deliveries := webhook_deliveries d', id_ctr := id_ctr d'\<rparr>"
    using core(1) by (cases d; cases d') simp
  with ws core(2) show ?thesis by metis
qed

text \<open>C11. What a successful creation does to the database. It adds exactly one ticket, under the
  next identifier, whose fields are those of the request: every text and every list of texts
  trimmed, empty ones dropped, absent ones replaced by their defaults. It adds one dependency row
  per requested dependency, each on another existing ticket, one event of type created with the
  status and the type of the ticket, and deliveries of this event. Nothing else of the database
  changes.\<close>

theorem create_ticket_effect:
  assumes "CreateTicket env req d = (Inr t, d')"
  shows "ticket_of_request env req t \<and> tk_Title t \<noteq> [] \<and>
    tk_ID t = env_gen env (id_ctr d) \<and> tk_ID t \<notin> tk_ID ` set (tickets d) \<and>
    set (cr_Dependencies req) \<subseteq> Some ` tk_ID ` set (tickets d) \<and>
    (\<exists>e ws k. d' = d\<lparr>tickets := tickets d @ [t],
         ticket_dependencies :=
           ticket_dependencies d @ map (dependency_of env t) (cr_Dependencies req),
         ticket_events := ticket_events d @ [e], event_seq := event_seq d + 1,
         webhook_deliveries := webhook_deliveries d @ ws, id_ctr := k\<rparr> \<and>
       e = \<lparr>ev_ID = ev_ID e, ev_WorkspaceID = tk_WorkspaceID t, ev_ProjectID = tk_ProjectID t,
         ev_TicketID = tk_ID t, ev_AttemptID = None, ev_Type = ''created'',
         ev_ActorType = tk_CreatedBy t, ev_ActorID = tk_CreatedByID t,
         ev_Data = JObj [(''status'', JStr (tk_Status t)), (''type'', JStr (tk_Type t))],
         ev_CreatedAt = env_now env, ev_EventSequence = event_seq d\<rparr> \<and>
       (\<forall>w \<in> set ws. wd_EventID w = ev_ID e))"
proof -
  let ?r = "completeCreateTicketRequest req EventTicketCreated"
  have norm: "normalizeCreateTicketRequest req EventTicketCreated =
      Inr (createTicketParams ?r, cr_Dependencies ?r)"
    using assms by (auto simp: CreateTicket_def createTicket_def svc_fail_iff
        normalizeCreateTicketRequest_def Let_def split: if_splits)
  have deps_eq: "cr_Dependencies ?r = cr_Dependencies req" "cr_Title ?r = TrimSpace (cr_Title req)"
    by (simp_all add: completeCreateTicketRequest_def Let_def trimCreateTicketRequest_def)
  obtain d1 d2 e where ins: "CreateTicket_stmt env (createTicketParams ?r) d = Inr (t, d1)"
    and deps: "svc_each (\<lambda>dep. svc_stmt (StoreError ''create ticket dependency'')
        (CreateTicketDependency_stmt env (tk_ID t) dep (tk_WorkspaceID t) (tk_ProjectID t)))
        (cr_Dependencies req) d1 = (Inr (), d2)"
    and ev: "CreateTicketEvent_stmt env
         \<lparr>ep_WorkspaceID = tk_WorkspaceID t, ep_ProjectID = tk_ProjectID t,
          ep_TicketID = tk_ID t, ep_AttemptID = None, ep_Type = EventTicketCreated,
          ep_ActorType = tk_CreatedBy t, ep_ActorID = tk_CreatedByID t, ep_Data = JNull\<rparr>
         (RawDoc (JObj [(''status'', JStr (tk_Status t)), (''type'', JStr (tk_Type t))])) d2
       = Inr (e, d')"
    using assms unfolding CreateTicket_def createTicket_def norm
    by (auto simp: svc_bind_Inr_iff svc_stmt_Inr_iff svc_return_iff deps_eq)
  have "tk_Title t \<noteq> []"
    using norm created_ticket_fields(1) [OF ins] deps_eq(2)
    by (auto simp: normalizeCreate_Inr_iff Let_def validateCreateTicketRequest_def
        ticket_of_request_def)
  moreover have d1: "d1 = d\<lparr>tickets := tickets d @ [t], id_ctr := Suc (id_ctr d)\<rparr>"
    using ins by (auto simp: CreateTicket_stmt_def gen_random_uuid_def Let_def result_simps)
  moreover note created_dependencies [OF deps]
  moreover from recorded_event [OF ev] obtain i ws k where
    "e = new_event env \<lparr>ep_WorkspaceID = tk_WorkspaceID t, ep_ProjectID = tk_ProjectID t,
          ep_TicketID = tk_ID t, ep_AttemptID = None, ep_Type = EventTicketCreated,
          ep_ActorType = tk_CreatedBy t, ep_ActorID = tk_CreatedByID t,
          ep_Data = JObj [(''status'', JStr (tk_Status t)), (''type'', JStr (tk_Type t))]\<rparr>
        (event_seq d2) i"
    "d' = d2\<lparr>ticket_events := ticket_events d2 @ [e], event_seq := event_seq d2 + 1,
      webhook_deliveries := webhook_deliveries d2 @ ws, id_ctr := k\<rparr>"
    "\<forall>w \<in> set ws. wd_EventID w = ev_ID e"
    by auto
  ultimately show ?thesis
    using created_ticket_fields [OF ins] CreateTicket_stmt_InrD(2) [OF ins]
    by (intro conjI exI [of _ e] exI [of _ ws] exI [of _ k])
      (auto simp: new_event_def EventTicketCreated_def)
qed

theorem create_ticket_effect_witness:
  "ticket_of_request sample_env sample_create
     (projr (fst (CreateTicket sample_env sample_create sample_db))) \<and>
   attempts (snd (CreateTicket sample_env sample_create sample_db)) = attempts sample_db"
proof -
  let ?x = "CreateTicket sample_env sample_create sample_db"
  have "?x = (Inr (projr (fst ?x)), snd ?x)"
    by (rule evaluated_svc) code_simp
  note effect = create_ticket_effect [OF this]
  from effect obtain e ws k where "snd ?x = sample_db\<lparr>tickets := tickets sample_db @ [projr (fst ?x)],
      ticket_dependencies := ticket_dependencies sample_db @
        map (dependency_of sample_env (projr (fst ?x))) (cr_Dependencies sample_create),
      ticket_events := ticket_events sample_db @ [e], event_seq := event_seq sample_db + 1,
      webhook_deliveries := webhook_deliveries sample_db @ ws, id_ctr := k\<rparr>"
    by blast
  then have "attempts (snd ?x) = attempts sample_db" by (rule ssubst) simp
  with effect show ?thesis by (blast intro: conjI)
qed

lemma patch_field:
  "(if v \<noteq> None then slice_list (map_option f v) else x) = coalesce (map_option f v) x"
  by (cases v) (simp_all add: coalesce_def)

text \<open>A patch changes the fields it names, to their trimmed values, and the update time, and
  nothing else: the status, the scope, the retry policy and every other ticket stay.\<close>

theorem patch_changes_named_fields:
  assumes "UpdateTicket env req d = (Inr t', d')"
  shows "\<exists>t. ur_TicketID req = Some (tk_ID t) \<and>
    find_row tk_ID (tk_ID t) (tickets d) = Some t \<and>
    find_row tk_ID (tk_ID t) (tickets d') = Some t' \<and>
    t' = t\<lparr>tk_Title := coalesce (map_option TrimSpace (ur_Title req)) (tk_Title t),
      tk_Description := coalesce (map_option TrimSpace (ur_Description req)) (tk_Description t),
      tk_Tags := coalesce (map_option compactStringsPreserveEmpty (ur_Tags req)) (tk_Tags t),
      tk_AcceptanceCriteria := coalesce
        (map_option compactStringsPreserveEmpty (ur_AcceptanceCriteria req))
        (tk_AcceptanceCriteria t),
      tk_VerificationCommands := coalesce (map_option
        (\<lambda>cs. JArr (map JStr (compactStringsPreserveEmpty cs))) (ur_VerificationCommands req))
        (tk_VerificationCommands t),
      tk_RelevantPaths := coalesce
        (map_option compactStringsPreserveEmpty (ur_RelevantPaths req)) (tk_RelevantPaths t),
      tk_UpdatedAt := env_now env\<rparr> \<and>
    (\<forall>u \<in> set (tickets d). tk_ID u \<noteq> tk_ID t \<longrightarrow> u \<in> set (tickets d')) \<and>
    attempts d' = attempts d \<and> ticket_dependencies d' = ticket_dependencies d"
  using assms
proof (rule UpdateTicket_InrD)
  let ?p = "updateTicketParams (completeUpdateRequest req)"
  fix k t vc
  assume k: "ur_TicketID req = Some k" "find_row tk_ID k (tickets d) = Some t"
    and t': "t' = patched_ticket env ?p vc t"
    and ts: "tickets d' = update_rows (\<lambda>r. tk_ID r = k) (patched_ticket env ?p vc) (tickets d)"
    and same: "attempts d' = attempts d" "ticket_dependencies d' = ticket_dependencies d"
    and none: "ur_VerificationCommands req = None \<Longrightarrow> vc = None"
    and some: "\<And>cs. ur_VerificationCommands req = Some cs \<Longrightarrow>
      map_option RawDoc vc = Some (encodeJSONArray (compactStringsPreserveEmpty cs))"
  have id: "tk_ID t = k" using k(2) by (auto dest: find_row_SomeD)
  have vc: "vc = map_option (\<lambda>cs. JArr (map JStr (compactStringsPreserveEmpty cs)))
      (ur_VerificationCommands req)"
    using none some by (cases "ur_VerificationCommands req")
      (auto simp: encodeJSONArray_def defaultJSONArray_def split: if_splits)
  have params: "utp_Title ?p = map_option TrimSpace (ur_Title req)"
    "utp_Description ?p = map_option TrimSpace (ur_Description req)"
    "utp_UpdateTags ?p = (ur_Tags req \<noteq> None)"
    "utp_Tags ?p = slice_list (map_option compactStringsPreserveEmpty (ur_Tags req))"
    "utp_UpdateAcceptanceCriteria ?p = (ur_AcceptanceCriteria req \<noteq> None)"
    "utp_AcceptanceCriteria ?p =
       slice_list (map_option compactStringsPreserveEmpty (ur_AcceptanceCriteria req))"
    "utp_UpdateRelevantPaths ?p = (ur_RelevantPaths req \<noteq> None)"
    "utp_RelevantPaths ?p =
       slice_list (map_option compactStringsPreserveEmpty (ur_RelevantPaths req))"
    by (simp_all add: updateTicketParams_def completeUpdateRequest_def Let_def
        trimUpdateTicketRequest_def)
  have "find_row tk_ID k (tickets d') = Some t'"
    using k(2) id by (simp add: ts t' find_row_update_rows)
  moreover have "u \<in> set (tickets d')" if "u \<in> set (tickets d)" "tk_ID u \<noteq> tk_ID t" for u
    using that by (auto simp: ts id set_update_rows image_iff intro!: bexI [of _ u])
  ultimately show ?thesis
    unfolding t' patched_ticket_def params patch_field vc
    using k id same by (intro exI [of _ t]) simp
qed

definition sample_patch :: update_ticket_request where
  "sample_patch = \<lparr>ur_TicketID = Some sample_ticket, ur_Title = Some '' new '',
     ur_Description = None, ur_Tags = None, ur_AcceptanceCriteria = None,
     ur_VerificationCommands = None, ur_RelevantPaths = None, ur_ActorType = [], ur_ActorID = [],
     ur_eventData = []\<rparr>"

theorem patch_changes_named_fields_witness:
  "attempts (snd (UpdateTicket sample_env sample_patch sample_claimed)) = attempts sample_claimed"
proof -
  let ?x = "UpdateTicket sample_env sample_patch sample_claimed"
  have "?x = (Inr (projr (fst ?x)), snd ?x)"
    by (rule evaluated_svc) code_simp
  from patch_changes_named_fields [OF this] show ?thesis by blast
qed

end
