(* ===== verification/Worker_Properties.thy ===== *)
theory Worker_Properties
  imports Forge_Sample
begin

text \<open>
  What the background workers promise: that a maintenance run leaves no lease overdue, that the
  webhook worker accounts for every delivery it claims and tries none too often, and how it
  spaces its retries.
\<close>

section \<open>Maintenance\<close>

text \<open>C9. What one maintenance run clears. In a database that satisfies the invariant, with
  identifiers that are new and a batch limit that is not negative (the constructor makes it
  positive), a run that no other transaction interferes with succeeds. It expires as many overdue attempts as there are, or
  as its batch admits when there are more; that many fewer are overdue afterwards, none when the
  batch held all. Every attempt whose lease has not run out keeps running unchanged, and no
  idempotency key that has expired is left.\<close>

theorem maintenance_clears_overdue:
  assumes "workflow_ok d" and "0 \<le> mw_batchLimit w"
    and "gen_fresh env (length (ListExpiredRunningAttempts_stmt now (mw_batchLimit w) d) *
      event_ids d) d"
  shows "\<exists>res d'. RunOnce w now env d = (Inr res, d') \<and>
    mx_ExpiredAttempts res = min (int (length (overdue now d))) (mw_batchLimit w) \<and>
    int (length (overdue now d')) = int (length (overdue now d)) - mx_ExpiredAttempts res \<and>
    (\<forall>a \<in> set (attempts d). at_Status a = AttemptStatusRunning \<and> now \<le> at_LeaseExpiresAt a \<longrightarrow>
       a \<in> set (attempts d')) \<and>
    (\<forall>k \<in> set (idempotency_keys d'). env_now env \<le> ik_ExpiresAt k)"
proof -
  let ?L = "ListExpiredRunningAttempts_stmt now (mw_batchLimit w) d"
  from RunOnce_reachable [OF assms(1,3)] obtain res d' where run: "RunOnce w now env d = (Inr res, d')"
    "mx_ExpiredAttempts res = int (length ?L)"
    and kept: "\<And>x. x \<in> set (attempts d) \<Longrightarrow> at_Status x = AttemptStatusRunning \<Longrightarrow> x \<notin> set ?L \<Longrightarrow>
      x \<in> set (attempts d')"
    and left: "length (overdue now d') + length ?L = length (overdue now d)"
    and keys: "\<forall>k \<in> set (idempotency_keys d'). env_now env \<le> ik_ExpiresAt k"
    by blast
  have "a \<in> set (attempts d')"
    if "a \<in> set (attempts d)" "at_Status a = AttemptStatusRunning" "now \<le> at_LeaseExpiresAt a" for a
    using kept [OF that(1,2)] expired_batch(2) [OF assms(1), of a now "mw_batchLimit w"] that(3)
    by fastforce
  with run left keys expired_batch_length [OF assms(2), of now d] show ?thesis
    by (intro exI [of _ res] exI [of _ d']) auto
qed

lemma sample_maintenance_fresh: "gen_fresh sample_env
  (length (ListExpiredRunningAttempts_stmt 2000 (mw_batchLimit (runtime_maintenance 0)) sample_claimed) *
     event_ids sample_claimed) sample_claimed"
  by code_simp

theorem maintenance_clears_overdue_witness:
  "\<exists>res d'. RunOnce (runtime_maintenance 0) 2000 sample_env sample_claimed = (Inr res, d') \<and>
     mx_ExpiredAttempts res = 1"
proof -
  have n: "length (overdue 2000 sample_claimed) = 1"
    by code_simp
  have "mw_batchLimit (runtime_maintenance 0) = 100"
    by code_simp
  then have le: "0 \<le> mw_batchLimit (runtime_maintenance 0)"
    and one: "min (int (length (overdue 2000 sample_claimed)))
      (mw_batchLimit (runtime_maintenance 0)) = 1"
    by (simp_all add: n)
  from maintenance_clears_overdue [OF sample_claimed_ok le sample_maintenance_fresh]
  show ?thesis
    unfolding one by (elim exE conjE, intro exI conjI) assumption+
qed

section \<open>Webhooks\<close>

text \<open>A webhook run that returns accounts for every delivery it claimed: each was delivered, was
  given up, will be retried, or had passed to another worker.\<close>

theorem webhook_run_accounts:
  assumes "RunWebhooksOnce itoa send clock w now token locked env d = (Inr res, d')"
  shows "wr_Claimed res =
    wr_Succeeded res + wr_Failed res + wr_Retried res + wr_LostOwnership res"
proof -
  obtain rows d1 where "deliverEach itoa send clock env rows
      \<lparr>wr_Claimed = int (length rows), wr_Succeeded = 0, wr_Failed = 0, wr_Retried = 0,
       wr_LostOwnership = 0\<rparr> d1 = (Inr res, d')"
    using assms by (auto simp: RunWebhooksOnce_def split: prod.splits)
  from deliverEach_counts [OF this] show ?thesis by simp
qed

definition sample_hook :: db where
  "sample_hook = run_calls [CallCreateTicket sample_env sample_create] (sample_db
     \<lparr>webhook_subscriptions := [\<lparr>wsub_ID = 9, wsub_WorkspaceID = 1, wsub_ProjectID = 2,
        wsub_EndpointUrl = ''https://x'', wsub_Secret = None, wsub_EventTypes = [],
        wsub_Active = True, wsub_MaxAttempts = 3, wsub_Description = [], wsub_CreatedAt = 0,
        wsub_UpdatedAt = 0\<rparr>]\<rparr>)"

definition sample_send :: http_send where
  "sample_send r s = \<lparr>do_statusCode = 500, do_body = [], do_err = None\<rparr>"

definition sample_run :: "db \<Rightarrow> (svc_error + webhook_run_result) \<times> db" where
  "sample_run = RunWebhooksOnce (\<lambda>_. ''n'') sample_send (\<lambda>_. 2001) runtime_webhooks 2000 77 [] sample_env"

theorem webhook_run_accounts_witness:
  "wr_Claimed (projr (fst (sample_run sample_hook))) =
     wr_Succeeded (projr (fst (sample_run sample_hook))) +
     wr_Failed (projr (fst (sample_run sample_hook))) +
     wr_Retried (projr (fst (sample_run sample_hook))) +
     wr_LostOwnership (projr (fst (sample_run sample_hook)))"
proof -
  have "sample_run sample_hook = (Inr (projr (fst (sample_run sample_hook))), snd (sample_run sample_hook))"
    by (rule evaluated_svc) code_simp
  then show ?thesis
    unfolding sample_run_def by (rule webhook_run_accounts)
qed

text \<open>No delivery is tried more often than its subscription allows: the bound on the attempt
  counts is an invariant of the worker, whatever the endpoints answer and however the run ends.\<close>

theorem webhook_retries_bounded:
  assumes "deliveries_ok d"
    and "RunWebhooksOnce itoa send clock w now token locked env d = (out, d')"
  shows "deliveries_ok d'"
proof -
  let ?p = "\<lparr>cdp_LockedUntil = now + claimLockTTL w, cdp_ClaimToken = token, cdp_Now = now,
    cdp_BatchLimit = ww_batchLimit w\<rparr>"
  obtain rows d1 where c: "ClaimPendingWebhookDeliveries_stmt locked env ?p d = (rows, d1)"
    by fastforce
  obtain res where "deliverEach itoa send clock env rows res d1 = (out, d')"
    using assms(2) c by (auto simp: RunWebhooksOnce_def)
  then show ?thesis
    using claim_deliveries_ok [OF c assms(1)] by (rule deliverEach_ok)
qed

theorem webhook_retries_bounded_witness:
  "deliveries_ok (snd (sample_run sample_hook))"
proof (rule webhook_retries_bounded)
  have "webhook_deliveries sample_hook = [hd (webhook_deliveries sample_hook)]"
    by code_simp
  moreover have "delivery_ok (hd (webhook_deliveries sample_hook))"
    by code_simp
  ultimately show "deliveries_ok sample_hook"
    unfolding deliveries_ok_def by (metis distinct_singleton empty_iff empty_set list.simps(8,9) set_ConsD)
  show "RunWebhooksOnce (\<lambda>_. ''n'') sample_send (\<lambda>_. 2001) runtime_webhooks 2000 77 [] sample_env
      sample_hook = (fst (sample_run sample_hook), snd (sample_run sample_hook))"
    by (simp add: sample_run_def)
qed

text \<open>The delay before a retry never decreases with the number of attempts and stays between one
  and thirty-two minutes, for every count.\<close>

theorem webhook_backoff_bounds:
  assumes "m \<le> n"
  shows "minute \<le> webhookBackoff m \<and> webhookBackoff m \<le> webhookBackoff n \<and>
    webhookBackoff n \<le> 32 * minute"
  using webhookBackoff_bounds [of m] webhookBackoff_bounds [of n] webhookBackoff_mono [OF assms]
  by blast

theorem webhook_backoff_bounds_witness:
  "minute \<le> webhookBackoff 2 \<and> webhookBackoff 2 \<le> webhookBackoff 9 \<and>
   webhookBackoff 9 \<le> 32 * minute"
  by (rule webhook_backoff_bounds) simp

end
