(* ===== verification/Dependency_Order.thy ===== *)
theory Dependency_Order
  imports Forge_Runtime
begin

text \<open>
  The dependencies between tickets form an acyclic graph after every sequence of calls: a new
  ticket depends on tickets that exist already, a decomposition checks its children for cycles
  before it creates them, and no other call inserts a dependency. A set of tickets can
  therefore not wait for itself.
\<close>

section \<open>The graph\<close>

definition dependency_edges :: "db \<Rightarrow> (uuid \<times> uuid) set" where
  "dependency_edges d = (\<lambda>r. (dep_TicketID r, dep_DependsOnTicketID r)) ` set (ticket_dependencies d)"

definition dependencies_ok :: "db \<Rightarrow> bool" where
  "dependencies_ok d \<longleftrightarrow>
     acyclic (dependency_edges d) \<and> Field (dependency_edges d) \<subseteq> tk_ID ` set (tickets d)"

lemma finite_dependency_edges [simp]: "finite (dependency_edges d)"
  by (simp add: dependency_edges_def)

text \<open>Edges from new nodes keep a graph acyclic when they are acyclic among the new nodes.\<close>

lemma acyclic_extend:
  assumes "finite E" and "finite E'" and "acyclic E" and "acyclic (E' \<inter> N \<times> N)"
    and "Field E \<subseteq> T" and "E' \<subseteq> N \<times> (N \<union> T)" and "N \<inter> T = {}"
  shows "acyclic (E \<union> E')"
proof -
  have "wf E" "wf (E' \<inter> N \<times> N)"
    using assms(1-4) by (simp_all add: finite_acyclic_wf)
  have "wf (E' \<inter> N \<times> T)"
    by (rule wf_subset [OF wf_measure [of "\<lambda>x. if x \<in> T then 1 else 0"]]) (use assms(7) in auto)
  then have "wf (E' \<inter> N \<times> T \<union> E)"
    by (rule wf_Un [OF _ \<open>wf E\<close>]) (use assms(5,7) in \<open>auto simp: Field_def\<close>)
  then have "wf (E' \<inter> N \<times> N \<union> (E' \<inter> N \<times> T \<union> E))"
    by (rule wf_Un [OF \<open>wf (E' \<inter> N \<times> N)\<close>]) (use assms(5,7) in \<open>auto simp: Field_def\<close>)
  moreover have "E' \<inter> N \<times> N \<union> (E' \<inter> N \<times> T \<union> E) = E \<union> E'"
    using assms(6) by auto
  ultimately show ?thesis by (metis wf_acyclic)
qed

lemma dependencies_extend:
  assumes "dependencies_ok d" and "tickets d' = tickets d @ ts"
    and "tk_ID ` set ts \<inter> tk_ID ` set (tickets d) = {}"
    and "ticket_dependencies d' = ticket_dependencies d @ rs"
    and "\<And>r. r \<in> set rs \<Longrightarrow> dep_TicketID r \<in> tk_ID ` set ts \<and>
      dep_DependsOnTicketID r \<in> tk_ID ` set (tickets d')"
    and "acyclic {(dep_TicketID r, dep_DependsOnTicketID r) | r. r \<in> set rs \<and>
      dep_DependsOnTicketID r \<in> tk_ID ` set ts}"
  shows "dependencies_ok d'"
proof -
  let ?E' = "(\<lambda>r. (dep_TicketID r, dep_DependsOnTicketID r)) ` set rs"
  let ?N = "tk_ID ` set ts" and ?T = "tk_ID ` set (tickets d)"
  have edges: "dependency_edges d' = dependency_edges d \<union> ?E'"
    by (simp add: dependency_edges_def assms(4) image_Un)
  have new: "?E' \<subseteq> ?N \<times> (?N \<union> ?T)"
    using assms(5) by (auto simp: assms(2) image_Un)
  have inner: "?E' \<inter> ?N \<times> ?N = {(dep_TicketID r, dep_DependsOnTicketID r) | r.
      r \<in> set rs \<and> dep_DependsOnTicketID r \<in> ?N}"
    using assms(5) by blast
  have "acyclic (dependency_edges d \<union> ?E')"
    by (rule acyclic_extend [where N = ?N and T = ?T])
      (use assms(1,3,6) new inner in \<open>auto simp: dependencies_ok_def\<close>)
  moreover have "Field (dependency_edges d') \<subseteq> tk_ID ` set (tickets d')"
    using assms(1) new unfolding edges
    by (auto simp: dependencies_ok_def Field_def assms(2) image_Un)
  ultimately show ?thesis by (simp add: dependencies_ok_def edges)
qed

section \<open>Statements that keep the dependencies\<close>

definition keeps_dependencies :: "db \<Rightarrow> db \<Rightarrow> bool" where
  "keeps_dependencies d d' \<longleftrightarrow>
     ticket_dependencies d' = ticket_dependencies d \<and>
     tk_ID ` set (tickets d) \<subseteq> tk_ID ` set (tickets d')"

lemma workflow_step_ids:
  assumes "workflow_step d d'"
  shows "tk_ID ` set (tickets d) \<subseteq> tk_ID ` set (tickets d')"
proof -
  have set_status: "tk_ID ` set (tickets (set_ticket_status env k st d)) = tk_ID ` set (tickets d)"
    for env k st
  proof -
    have "map tk_ID (tickets (set_ticket_status env k st d)) = map tk_ID (tickets d)"
      by (simp add: set_ticket_status_def map_update_rows)
    then show ?thesis by (metis list.set_map)
  qed
  show ?thesis
    using assms
  proof (cases rule: workflow_step.cases)
    case (patch k f)
    then have "map tk_ID (tickets d') = map tk_ID (tickets d)"
      by (auto simp: keeps_ticket_keys_def intro!: map_update_rows)
    then show ?thesis by (metis list.set_map order_refl)
  qed (use set_status in auto)
qed

lemma keeps_dependenciesI:
  assumes "stmt_step d d'" and "ticket_dependencies d' = ticket_dependencies d"
  shows "keeps_dependencies d d'"
  using assms workflow_step_ids [OF stmt_step_refines] by (simp add: keeps_dependencies_def)

lemma transition_effect_dependencies:
  "transition_effect env i o' rule ty actor d r d' \<Longrightarrow>
   ticket_dependencies d' = ticket_dependencies d"
  by (erule transition_effectE) (rule transitioned_tables)

interpretation deps: statement_relation keeps_dependencies
proof
  fix env p d t d'
  assume c: "CreateTicket_stmt env p d = Inr (t, d')"
    "ctp_Status p = TicketStatusBacklog \<or> ctp_Status p = TicketStatusTodo"
  from core_eqD [OF CreateTicket_stmt_InrD(1) [OF c(1)]] show "keeps_dependencies d d'"
    by (intro keeps_dependenciesI stmt_step.create_ticket [OF c]) simp
next
  fix env p raw d e d'
  assume c: "CreateTicketEvent_stmt env p raw d = Inr (e, d')"
  from core_eqD [OF CreateTicketEvent_stmt_core(1) [OF c]] show "keeps_dependencies d d'"
    by (intro keeps_dependenciesI stmt_step.create_event [OF c]) simp
next
  fix env p d t d'
  assume c: "UpdateTicket_stmt env p d = Inr (t, d')"
  then show "keeps_dependencies d d'"
    by (intro keeps_dependenciesI stmt_step.update_ticket [OF c])
      (erule UpdateTicket_stmt_InrD, simp)
next
  fix env p d t d'
  assume c: "TransitionTicket_stmt env p d = Inr (t, d')"
    "set (ttp_AllowedStatuses p) \<times> {ttp_Status p} \<subseteq> manual_edges"
  show "keeps_dependencies d d'"
    using c(1)
    by (intro keeps_dependenciesI stmt_step.transition_ticket [OF c])
      (erule TransitionTicket_stmt_InrD, drule core_eqD(4), simp add: set_ticket_status_def)
next
  fix locked env p d r d'
  assume c: "ClaimNextTicket_stmt locked env p d = Inr (r, d')"
  then show "keeps_dependencies d d'"
    by (intro keeps_dependenciesI stmt_step.claim_next [OF c])
      (erule ClaimNextTicket_stmt_InrD, erule claim_tables(6))
next
  fix env p d a d'
  assume c: "HeartbeatAttempt_stmt env p d = Inr (a, d')"
  then show "keeps_dependencies d d'"
    by (intro keeps_dependenciesI stmt_step.heartbeat [OF c]) (erule heartbeat_tables)
next
  fix env p d a d'
  assume c: "CheckpointAttempt_stmt env p d = Inr (a, d')"
  then show "keeps_dependencies d d'"
    by (intro keeps_dependenciesI stmt_step.checkpoint [OF c]) (erule checkpoint_tables)
next
  fix env p d n d'
  assume c: "DeleteExpiredIdempotencyKeys_stmt env d = (n, d')"
  then show "keeps_dependencies d d'"
    by (intro keeps_dependenciesI stmt_step.delete_keys [OF c])
      (auto simp: DeleteExpiredIdempotencyKeys_stmt_def Let_def)
next
  fix env p d m d'
  assume c: "CreateAttemptMetrics_stmt env p d = Inr (m, d')"
  from CreateAttemptMetrics_stmt_frame(6) [OF c] show "keeps_dependencies d d'"
    by (rule keeps_dependenciesI [OF stmt_step.record_metrics [OF c]])
next
  fix d d'
  assume c: "resource_step d d'"
  from resource_step_frame(2) [OF c] show "keeps_dependencies d d'"
    by (rule keeps_dependenciesI [OF stmt_step.resource [OF c]])
qed (blast intro: keeps_dependenciesI stmt_step.intros transition_effect_dependencies
      complete.effect fail.effect block.effect cancel.effect expire.effect
      core_eqD(4) claim_deliveries_core mark_succeeded_core mark_failed_core
      delete_deliveries_core)+

lemma keeps_dependencies_ok:
  assumes "keeps_dependencies\<^sup>*\<^sup>* d d'" and "dependencies_ok d"
  shows "dependencies_ok d'"
  using assms
proof (induction rule: rtranclp_induct)
  case (step d1 d2)
  then show ?case
    by (auto simp: keeps_dependencies_def dependencies_ok_def dependency_edges_def)
qed simp

section \<open>Calls\<close>

lemma created_dependencies_ok:
  assumes "createTicket env req ty d = (Inr t, d')" and "dependencies_ok d"
  shows "dependencies_ok d'"
proof -
  note rows = createTicket_rows [OF assms(1)]
  from rows(4) obtain rs where rs: "ticket_dependencies d' = ticket_dependencies d @ rs"
    "\<forall>r \<in> set rs. dep_TicketID r = tk_ID t \<and> dep_DependsOnTicketID r \<noteq> tk_ID t \<and>
       dep_DependsOnTicketID r \<in> tk_ID ` set (tickets d')"
    by blast
  have none: "{(dep_TicketID r, dep_DependsOnTicketID r) | r. r \<in> set rs \<and>
      dep_DependsOnTicketID r \<in> tk_ID ` set [t]} = {}"
    using rs(2) by auto
  show ?thesis
  proof (rule dependencies_extend [OF assms(2) rows(1) _ rs(1)])
    show "acyclic {(dep_TicketID r, dep_DependsOnTicketID r) | r. r \<in> set rs \<and>
        dep_DependsOnTicketID r \<in> tk_ID ` set [t]}"
      unfolding none by (simp add: acyclic_def)
  qed (use rows(2) rs(2) in auto)
qed

lemma decomposed_dependencies_ok:
  assumes "DecomposeTicket quote env req d = (Inr ts, d')" and "dependencies_ok d"
  shows "dependencies_ok d'"
proof -
  let ?cs = "dt_Children (trimDecomposeTicketRequest req)"
  note rows = decomposition_rows [OF assms(1)]
  from rows(6) obtain rs where rs: "ticket_dependencies d' = ticket_dependencies d @ rs"
    "(\<lambda>x. (dep_TicketID x, dep_DependsOnTicketID x)) ` set rs = child_edges ?cs ts"
    by blast
  have len: "length ts = length ?cs"
    using list_all2_lengthD [OF rows(5)] by (simp add: createRequestsFromDecomposition_def)
  have "child_edges ?cs ts \<subseteq> tk_ID ` set ts \<times> tk_ID ` set ts"
    by (auto simp: child_edges_def len [symmetric])
  then have ends: "dep_TicketID r \<in> tk_ID ` set ts \<and> dep_DependsOnTicketID r \<in> tk_ID ` set ts"
    if "r \<in> set rs" for r
    using that rs(2) by blast
  show ?thesis
  proof (rule dependencies_extend [OF assms(2) rows(1) rows(4) rs(1)])
    show "acyclic {(dep_TicketID r, dep_DependsOnTicketID r) | r. r \<in> set rs \<and>
        dep_DependsOnTicketID r \<in> tk_ID ` set ts}"
      by (rule acyclic_subset [OF rows(7)]) (use rs(2) in auto)
  qed (use ends rows(1) in auto)
qed

lemma transaction_ok:
  assumes "\<And>a d1. m d = (Inr a, d1) \<Longrightarrow> P d1" and "P d"
  shows "P (snd (no_result (with_transaction m) d))"
  using assms
  by (auto simp: no_result_def svc_bind_def with_transaction_def svc_return_def
      split: prod.splits sum.splits)

lemma call_dependencies_ok:
  assumes "dependencies_ok d"
  shows "dependencies_ok (snd (runtime c d))"
proof (cases "inserts_dependencies c")
  case True
  then show ?thesis
  proof (cases rule: inserts_dependenciesE)
    case (create env r)
    show ?thesis
      unfolding create runtime.simps CreateTicket_def
      by (rule transaction_ok [where P = dependencies_ok, OF _ assms])
        (erule created_dependencies_ok [OF _ assms])
  next
    case (propose env r)
    show ?thesis
      unfolding propose runtime.simps ProposeTicket_def
      by (rule transaction_ok [where P = dependencies_ok, OF _ assms])
        (erule created_dependencies_ok [OF _ assms])
  next
    case (decompose quote env r)
    show ?thesis
      unfolding decompose runtime.simps
      by (rule transaction_ok [where P = dependencies_ok, OF _ assms])
        (erule decomposed_dependencies_ok [OF _ assms])
  qed
next
  case False
  from deps.quiet_call_steps [OF this] have "keeps_dependencies\<^sup>*\<^sup>* d (snd (runtime c d))"
    by (simp add: svc_steps_def)
  then show ?thesis using assms by (rule keeps_dependencies_ok)
qed

lemma calls_dependencies_ok: "dependencies_ok d \<Longrightarrow> dependencies_ok (run_calls cs d)"
  by (induction cs arbitrary: d) (simp_all add: call_dependencies_ok)

text \<open>A chain of open dependencies ends in a ticket that waits for nothing.\<close>

lemma waiting_ends:
  assumes "dependencies_ok d" and "has_open_dependency d k"
  shows "\<exists>u \<in> set (tickets d). (k, tk_ID u) \<in> (dependency_edges d)\<^sup>+ \<and>
    tk_Status u \<noteq> TicketStatusDone \<and> \<not> has_open_dependency d (tk_ID u)"
proof -
  have "wf ((dependency_edges d)\<inverse>)"
    using assms(1) by (intro finite_acyclic_wf_converse) (simp_all add: dependencies_ok_def)
  then show ?thesis
    using assms(2)
  proof (induction k rule: wf_induct_rule)
    case (less k)
    from less.prems obtain u where u: "u \<in> set (tickets d)" "tk_Status u \<noteq> TicketStatusDone"
      and edge: "(k, tk_ID u) \<in> dependency_edges d"
      by (auto simp: has_open_dependency_def dependency_edges_def)
    show ?case
    proof (cases "has_open_dependency d (tk_ID u)")
      case True
      with less.IH [of "tk_ID u"] edge obtain v where "v \<in> set (tickets d)"
        "(tk_ID u, tk_ID v) \<in> (dependency_edges d)\<^sup>+"
        "tk_Status v \<noteq> TicketStatusDone" "\<not> has_open_dependency d (tk_ID v)"
        by blast
      with edge show ?thesis by (blast intro: trancl_into_trancl2)
    next
      case False
      with u edge show ?thesis by blast
    qed
  qed
qed

end
