(* ===== verification/Call_Atomicity.thy ===== *)
theory Call_Atomicity
  imports Forge_Runtime
begin

text \<open>
  Which calls of the runtime are atomic: a call that fails leaves the database as it was. A
  transaction is, and so is an operation that reads first and then runs a single statement.
\<close>

section \<open>Atomic operations\<close>

named_theorems atomic_intros \<open>composition of atomic operations\<close>

definition svc_reads :: "'a svc \<Rightarrow> bool" where
  "svc_reads m \<longleftrightarrow> (\<forall>d. snd (m d) = d)"

definition svc_atomic :: "'a svc \<Rightarrow> bool" where
  "svc_atomic m \<longleftrightarrow> (\<forall>d e d'. m d = (Inl e, d') \<longrightarrow> d' = d)"

lemma svc_atomicD: "svc_atomic m \<Longrightarrow> m d = (Inl e, d') \<Longrightarrow> d' = d"
  by (simp add: svc_atomic_def)

lemma svc_reads_query [atomic_intros]: "svc_reads (svc_query w q)"
  by (simp add: svc_reads_def svc_query_def split: sum.splits)

lemma svc_reads_return [atomic_intros]: "svc_reads (svc_return a)"
  by (simp add: svc_reads_def svc_return_def)

lemma svc_reads_fail [atomic_intros]: "svc_reads (svc_fail e)"
  by (simp add: svc_reads_def svc_fail_def)

lemma svc_reads_if [atomic_intros]:
  "svc_reads m \<Longrightarrow> svc_reads n \<Longrightarrow> svc_reads (if b then m else n)"
  by simp

lemma svc_reads_bind [atomic_intros]:
  "svc_reads m \<Longrightarrow> (\<And>a. svc_reads (f a)) \<Longrightarrow> svc_reads (svc_bind m f)"
  unfolding svc_reads_def svc_bind_def by (auto split: prod.splits sum.splits) (metis snd_conv)+

lemma svc_atomic_fail [atomic_intros]: "svc_atomic (svc_fail e)"
  by (simp add: svc_atomic_def svc_fail_def)

lemma svc_atomic_stmt [atomic_intros]: "svc_atomic (svc_stmt w stmt)"
  by (auto simp: svc_atomic_def svc_stmt_def split: sum.splits)

lemma svc_atomic_transaction [atomic_intros]: "svc_atomic (with_transaction m)"
  using with_transaction_Inl by (fastforce simp: svc_atomic_def)

lemma svc_atomic_check [atomic_intros]: "svc_atomic m \<Longrightarrow> svc_atomic (svc_check ps m)"
  by (simp add: svc_check_def atomic_intros)

lemma svc_atomic_if [atomic_intros]:
  "svc_atomic m \<Longrightarrow> svc_atomic n \<Longrightarrow> svc_atomic (if b then m else n)"
  by simp

lemma svc_atomic_then_return [atomic_intros]:
  "svc_atomic m \<Longrightarrow> svc_atomic (svc_bind m (\<lambda>a. svc_return (f a)))"
  by (auto simp: svc_atomic_def result_simps)

lemma svc_atomic_after_read [atomic_intros]:
  assumes "svc_reads m" and "\<And>a. svc_atomic (f a)"
  shows "svc_atomic (svc_bind m f)"
proof -
  have "d' = d" if m: "m d = (r, d')" for d r d'
    using assms(1) m unfolding svc_reads_def by (metis snd_conv)
  with assms(2) show ?thesis
    unfolding svc_atomic_def svc_bind_Inl_iff by metis
qed

lemma svc_atomic_no_result [atomic_intros]: "svc_atomic m \<Longrightarrow> svc_atomic (no_result m)"
  unfolding no_result_def by (rule svc_atomic_then_return)

section \<open>The operations of the runtime\<close>

lemma setTicketStatus_atomic [atomic_intros]: "svc_atomic (setTicketStatus env r)"
  by (auto simp: svc_atomic_def setTicketStatus_def split: sum.splits if_splits)

lemma transitionTicket_atomic [atomic_intros]: "svc_atomic (transitionTicket env req spec)"
  unfolding transitionTicket_def Let_def by (intro atomic_intros)

lemma requireProposedTicket_reads [atomic_intros]: "svc_reads (requireProposedTicket i)"
  unfolding requireProposedTicket_def by (intro atomic_intros)

lemma transitionProposedTicket_atomic [atomic_intros]:
  "svc_atomic (transitionProposedTicket env req op ev st)"
  unfolding transitionProposedTicket_def Let_def by (intro atomic_intros)

lemma triage_atomic [atomic_intros]:
  "svc_atomic (ReadyProposedTicket env pr)" "svc_atomic (EnqueueProposedTicket env pr)"
  "svc_atomic (RejectProposedTicket env pr)" "svc_atomic (ArchiveProposedTicket env pr)"
  "svc_atomic (MergeProposedTicket env mr)"
  unfolding ReadyProposedTicket_def EnqueueProposedTicket_def RejectProposedTicket_def
    ArchiveProposedTicket_def MergeProposedTicket_def Let_def
  by (intro atomic_intros)+

lemma transitions_atomic [atomic_intros]:
  "svc_atomic (MarkReady env r)" "svc_atomic (Reopen env r)" "svc_atomic (Unblock env r)"
  "svc_atomic (RequestReview env r)" "svc_atomic (Archive env r)" "svc_atomic (Review env rr)"
  unfolding MarkReady_def Reopen_def Unblock_def RequestReview_def Archive_def Review_def Let_def
  by (intro atomic_intros)+

lemma attempts_atomic [atomic_intros]:
  "svc_atomic (Heartbeat now env hr)" "svc_atomic (Checkpoint env kr)" "svc_atomic (Cancel now env xr)"
  unfolding Heartbeat_def Checkpoint_def Cancel_def Let_def by (intro atomic_intros)+

lemma resources_atomic [atomic_intros]:
  "svc_atomic (RegisterArtifact env ra)" "svc_atomic (RegisterCapabilities now env rc)"
  "svc_atomic (CompleteWithArtifacts now env cr rs)" "svc_atomic (BlockWithArtifacts now env br rs)"
  unfolding RegisterArtifact_def RegisterCapabilities_def CompleteWithArtifacts_def
    BlockWithArtifacts_def transitionWithArtifacts_def Let_def
  by (intro atomic_intros)+

lemma delete_local_artifact_atomic [atomic_intros]: "svc_atomic (delete_local_artifact remove i)"
  by (auto simp: svc_atomic_def delete_local_artifact_def DeleteLocalArtifact_def
      split: sum.splits option.splits if_splits)

text \<open>The calls that run several statements without a transaction.\<close>

fun composite_call :: "runtime_call \<Rightarrow> bool" where
  "composite_call (CallClaimNext ce now locked env r) = True"
| "composite_call (CallRefineProposed env r) = True"
| "composite_call (CallCreateTicketFromAttempt env r) = True"
| "composite_call (CallRunMaintenance retention now env) = True"
| "composite_call (CallRunWebhooks itoa send clock now token locked env) = True"
| "composite_call _ = False"

lemma call_atomic: "\<not> composite_call c \<Longrightarrow> svc_atomic (runtime c)"
  by (cases c) (simp_all only: runtime.simps composite_call.simps not_True_eq_False atomic_intros)

end
