(* ===== verification/Go_Base64.thy ===== *)
theory Go_Base64
  imports Go_Strconv
begin

text \<open>
  Go's \<open>base64.RawURLEncoding\<close>: the URL alphabet without padding, with the decoder's tolerance
  for line breaks, and that it decodes what was encoded.
\<close>

definition b64_char :: "nat \<Rightarrow> char" where
  "b64_char n =
     (if n < 26 then char_of (65 + n) else if n < 52 then char_of (71 + n)
      else if n < 62 then char_of (n - 4) else if n = 62 then CHR ''-'' else CHR ''_'')"

definition b64_value :: "char \<Rightarrow> nat option" where
  "b64_value c =
     (let n = (of_char c :: nat) in
      if 65 \<le> n \<and> n \<le> 90 then Some (n - 65)
      else if 97 \<le> n \<and> n \<le> 122 then Some (n - 71)
      else if 48 \<le> n \<and> n \<le> 57 then Some (n + 4)
      else if c = CHR ''-'' then Some 62
      else if c = CHR ''_'' then Some 63
      else None)"

fun b64_groups :: "nat list \<Rightarrow> nat list" where
  "b64_groups [] = []"
| "b64_groups [a] = [a div 4, a mod 4 * 16]"
| "b64_groups [a, b] = [a div 4, a mod 4 * 16 + b div 16, b mod 16 * 4]"
| "b64_groups (a # b # c # bs) =
     a div 4 # (a mod 4 * 16 + b div 16) # (b mod 16 * 4 + c div 64) # c mod 64 # b64_groups bs"

fun b64_bytes :: "nat list \<Rightarrow> nat list option" where
  "b64_bytes [] = Some []"
| "b64_bytes [v] = None"
| "b64_bytes [v, w] = Some [v * 4 + w div 16]"
| "b64_bytes [v, w, x] = Some [v * 4 + w div 16, w mod 16 * 16 + x div 4]"
| "b64_bytes (v # w # x # y # vs) =
     map_option (\<lambda>bs. (v * 4 + w div 16) # (w mod 16 * 16 + x div 4) # (x mod 4 * 64 + y) # bs)
       (b64_bytes vs)"

definition EncodeToString :: "string \<Rightarrow> string" where
  "EncodeToString s = map b64_char (b64_groups (map of_char s))"

fun b64_values :: "string \<Rightarrow> nat list option" where
  "b64_values [] = Some []"
| "b64_values (c # cs) =
     (case b64_value c of None \<Rightarrow> None | Some v \<Rightarrow> map_option (\<lambda>vs. v # vs) (b64_values cs))"

definition DecodeString :: "string \<Rightarrow> string option" where
  "DecodeString s =
     (case b64_values (filter (\<lambda>c. c \<noteq> CHR 0x0A \<and> c \<noteq> CHR 0x0D) s) of
        None \<Rightarrow> None
      | Some vs \<Rightarrow> map_option (map char_of) (b64_bytes vs))"

section \<open>Round trip\<close>

lemma b64_value_char: "n < 64 \<Longrightarrow> b64_value (b64_char n) = Some n"
  by (auto simp: b64_char_def b64_value_def Let_def)

lemma b64_char_no_break: "n < 64 \<Longrightarrow> b64_char n \<noteq> CHR 0x0A \<and> b64_char n \<noteq> CHR 0x0D"
  using b64_value_char [of n] by (auto simp: b64_value_def)

lemma b64_groups_bound: "(\<And>b. b \<in> set bs \<Longrightarrow> b < 256) \<Longrightarrow> v \<in> set (b64_groups bs) \<Longrightarrow> v < 64"
proof (induction bs rule: b64_groups.induct)
  case (2 a)
  then have "a < 256" by simp
  with 2(2) show ?case by auto
next
  case (3 a b)
  then have "a < 256" "b < 256" by auto
  then have "a div 4 < 64" "a mod 4 * 16 + b div 16 < 64" "b mod 16 * 4 < 64" by linarith+
  with 3(2) show ?case by auto
next
  case (4 a b c bs)
  then have "a < 256" "b < 256" "c < 256" by auto
  then have "a div 4 < 64" "a mod 4 * 16 + b div 16 < 64" "b mod 16 * 4 + c div 64 < 64" by linarith+
  with 4 show ?case by auto
qed simp

text \<open>Two numbers packed into one and unpacked again.\<close>

lemma unpack:
  fixes x y k :: nat
  assumes "y < k"
  shows "(x * k + y) div k = x" and "(x * k + y) mod k = y"
  using assms by simp_all

lemma b64_bytes_groups: "(\<And>b. b \<in> set bs \<Longrightarrow> b < 256) \<Longrightarrow> b64_bytes (b64_groups bs) = Some bs"
proof (induction bs rule: b64_groups.induct)
  case (3 a b)
  then have "b < 256" by simp
  then have "b div 16 < 16" by simp
  then show ?case by (simp add: unpack)
next
  case (4 a b c bs)
  then have "b < 256" "c < 256" by simp_all
  then have "b div 16 < 16" "c div 64 < 4" by simp_all
  with 4 show ?case by (simp add: unpack)
qed simp_all

lemma b64_values_map: "(\<And>v. v \<in> set vs \<Longrightarrow> v < 64) \<Longrightarrow> b64_values (map b64_char vs) = Some vs"
  by (induction vs) (simp_all add: b64_value_char)

theorem DecodeString_EncodeToString: "DecodeString (EncodeToString s) = Some s"
proof -
  let ?vs = "b64_groups (map of_char s)"
  have bytes: "b < 256" if "b \<in> set (map of_char s)" for b :: nat
    using that by auto
  have vals: "v < 64" if "v \<in> set ?vs" for v
    using b64_groups_bound [of "map of_char s"] bytes that by blast
  have "filter (\<lambda>c. c \<noteq> CHR 0x0A \<and> c \<noteq> CHR 0x0D) (map b64_char ?vs) = map b64_char ?vs"
    using vals b64_char_no_break by (intro filter_True) (auto simp del: One_nat_def)
  moreover have "b64_values (map b64_char ?vs) = Some ?vs"
    by (rule b64_values_map) (rule vals)
  moreover have "b64_bytes ?vs = Some (map of_char s)"
    by (rule b64_bytes_groups) (rule bytes)
  ultimately show ?thesis
    by (simp add: DecodeString_def EncodeToString_def comp_def)
qed

lemma EncodeToString_plain: "\<forall>c \<in> set (EncodeToString s). plain_char c"
proof -
  have "plain_char (b64_char v)" for v
    by (auto simp: b64_char_def plain_char_def)
  then show ?thesis by (simp add: EncodeToString_def)
qed

lemma EncodeToString_Nil_iff [simp]: "EncodeToString s = [] \<longleftrightarrow> s = []"
  by (metis DecodeString_EncodeToString EncodeToString_def b64_groups.simps(1) list.map(1) option.inject)

end
