(* ===== verification/Event_Service.thy ===== *)
theory Event_Service
  imports Lifecycle Forge_Service Go_Base64
begin

text \<open>
  internal/services/events.go: the event feed, read in pages whose cursors name the last event
  that was delivered. The text forms of timestamps (\<open>time.RFC3339Nano\<close>) and the UUID parser of
  pgx are arguments, gathered in \<open>event_env\<close>; of the parsed cursor only the sequence number is
  used, so the feed rests on nothing more than that the parsers accept what was printed.
\<close>

unbundle bit_operations_syntax

section \<open>Cursors\<close>

record event_env =
  ee_format_time :: "timestamp \<Rightarrow> string"
  ee_parse_time :: "string \<Rightarrow> timestamp option"
  ee_scan :: "string \<Rightarrow> uuid option"

record event_cursor =
  ec_EventSequence :: int
  ec_CreatedAt :: timestamp
  ec_ID :: uuid

definition hex_digit :: "nat \<Rightarrow> char" where
  "hex_digit n = (if n < 10 then char_of (48 + n) else char_of (87 + n))"

definition uuid_hex :: "uuid \<Rightarrow> nat \<Rightarrow> nat \<Rightarrow> string" where
  "uuid_hex u from to =
     map (\<lambda>i. hex_digit (unat (drop_bit (4 * (31 - i)) u AND 15))) [from..<to]"

definition eventUUIDString :: "uuid \<Rightarrow> string" where
  "eventUUIDString u =
     uuid_hex u 0 8 @ ''-'' @ uuid_hex u 8 12 @ ''-'' @ uuid_hex u 12 16 @ ''-'' @
     uuid_hex u 16 20 @ ''-'' @ uuid_hex u 20 32"

definition formatEventCursor :: "event_env \<Rightarrow> ticket_event \<Rightarrow> string" where
  "formatEventCursor ee e =
     EncodeToString (FormatInt (ev_EventSequence e) @ ''|'' @ ee_format_time ee (ev_CreatedAt e) @
       ''|'' @ eventUUIDString (ev_ID e))"

text \<open>\<open>strings.SplitN(s, sep, n)\<close> for a positive \<open>n\<close>.\<close>

fun SplitN :: "char \<Rightarrow> nat \<Rightarrow> string \<Rightarrow> string list" where
  "SplitN sep 0 s = []"
| "SplitN sep (Suc 0) s = [s]"
| "SplitN sep (Suc n) s =
     (if sep \<in> set s
      then takeWhile (\<lambda>c. c \<noteq> sep) s # SplitN sep n (tl (dropWhile (\<lambda>c. c \<noteq> sep) s))
      else [s])"

declare SplitN.simps(3) [simp del]

definition parseEventCursor :: "event_env \<Rightarrow> string \<Rightarrow> event_cursor option" where
  "parseEventCursor ee value =
     (case DecodeString value of
        None \<Rightarrow> None
      | Some decoded \<Rightarrow>
          (case SplitN (CHR ''|'') 3 decoded of
             [p0, p1, p2] \<Rightarrow>
               if p0 = [] \<or> p1 = [] \<or> p2 = [] then None
               else (case ParseInt p0 of
                   None \<Rightarrow> None
                 | Some sq \<Rightarrow>
                     if sq < 1 then None
                     else (case ee_parse_time ee p1 of
                         None \<Rightarrow> None
                       | Some t \<Rightarrow>
                           (case ee_scan ee p2 of
                              None \<Rightarrow> None
                            | Some i \<Rightarrow> Some \<lparr>ec_EventSequence = sq, ec_CreatedAt = t, ec_ID = i\<rparr>)))
           | _ \<Rightarrow> None))"

section \<open>The feed\<close>

definition defaultEventFeedLimit :: int where "defaultEventFeedLimit = 100"
definition maxEventFeedLimit :: int where "maxEventFeedLimit = 500"

record list_events_request =
  le_WorkspaceID :: "uuid option"
  le_ProjectID :: "uuid option"
  le_TicketID :: "uuid option"
  le_AttemptID :: "uuid option"
  le_Cursor :: string
  le_Limit :: int

record list_events_result =
  lv_Events :: "ticket_event list"
  lv_NextCursor :: string

definition validateListEventsRequest :: "list_events_request \<Rightarrow> string list" where
  "validateListEventsRequest r = problem (le_Limit r < 0) ''limit must be non-negative''"

definition feed_limit :: "int \<Rightarrow> int" where
  "feed_limit lim =
     (let l = (if lim = 0 then defaultEventFeedLimit else lim) in
      if maxEventFeedLimit < l then maxEventFeedLimit else l)"

definition feed_filter :: "list_events_request \<Rightarrow> list_events_params" where
  "feed_filter r =
     \<lparr>lep_WorkspaceID = le_WorkspaceID r, lep_ProjectID = le_ProjectID r,
      lep_TicketID = le_TicketID r, lep_AttemptID = le_AttemptID r\<rparr>"

definition feed_result :: "event_env \<Rightarrow> string \<Rightarrow> ticket_event list \<Rightarrow> list_events_result" where
  "feed_result ee cursor events =
     \<lparr>lv_Events = events,
      lv_NextCursor = (if events = [] then cursor else formatEventCursor ee (last events))\<rparr>"

definition ListEvents :: "event_env \<Rightarrow> list_events_request \<Rightarrow> list_events_result svc" where
  "ListEvents ee req =
     (let cursor = TrimSpace (le_Cursor req) in
      svc_check (validateListEventsRequest req)
        (if cursor = []
         then svc_bind (svc_read (ListRecentTicketEvents_stmt (feed_filter req)
             (feed_limit (le_Limit req)))) (\<lambda>events. svc_return (feed_result ee cursor events))
         else (case parseEventCursor ee cursor of
             None \<Rightarrow> svc_fail (ValidationError [''cursor is invalid''])
           | Some c \<Rightarrow>
               svc_bind (svc_read (ListTicketEventsAfterCursor_stmt (feed_filter req)
                 (ec_EventSequence c) (feed_limit (le_Limit req))))
                 (\<lambda>events. svc_return (feed_result ee cursor events)))))"

section \<open>Cursors round trip\<close>

text \<open>What the feed needs of the text forms, for one event: the parsers read back what was
  printed for it, and the text of a time is not empty and has no bar.\<close>

definition event_env_ok :: "event_env \<Rightarrow> ticket_event \<Rightarrow> bool" where
  "event_env_ok ee e \<longleftrightarrow>
     (let t = ee_format_time ee (ev_CreatedAt e) in
      t \<noteq> [] \<and> CHR ''|'' \<notin> set t \<and> ee_parse_time ee t = Some (ev_CreatedAt e)) \<and>
     ee_scan ee (eventUUIDString (ev_ID e)) = Some (ev_ID e)"

lemma SplitN_append:
  "sep \<notin> set p \<Longrightarrow> SplitN sep (Suc (Suc n)) (p @ sep # s) = p # SplitN sep (Suc n) s"
proof -
  assume "sep \<notin> set p"
  then have "takeWhile (\<lambda>c. c \<noteq> sep) (p @ sep # s) = p"
    "dropWhile (\<lambda>c. c \<noteq> sep) (p @ sep # s) = sep # s"
    by (induction p) auto
  then show ?thesis by (simp add: SplitN.simps(3))
qed

lemma parse_format_cursor:
  assumes "event_env_ok ee e" and "1 \<le> ev_EventSequence e" and "ev_EventSequence e < 2 ^ 63"
  shows "parseEventCursor ee (formatEventCursor ee e) =
    Some \<lparr>ec_EventSequence = ev_EventSequence e, ec_CreatedAt = ev_CreatedAt e, ec_ID = ev_ID e\<rparr>"
proof -
  let ?n = "FormatInt (ev_EventSequence e)"
  have "CHR ''|'' \<notin> set ?n"
    using FormatInt_chars [of "ev_EventSequence e"] not_digits(3) by auto
  then have "SplitN (CHR ''|'') 3 (?n @ ''|'' @ ee_format_time ee (ev_CreatedAt e) @ ''|'' @
      eventUUIDString (ev_ID e)) =
      [?n, ee_format_time ee (ev_CreatedAt e), eventUUIDString (ev_ID e)]"
    using assms(1) by (simp add: numeral_3_eq_3 SplitN_append event_env_ok_def Let_def)
  moreover have "eventUUIDString (ev_ID e) \<noteq> []"
    by (simp add: eventUUIDString_def)
  ultimately show ?thesis
    using assms by (simp add: parseEventCursor_def formatEventCursor_def
        DecodeString_EncodeToString ParseInt_FormatInt event_env_ok_def Let_def)
qed

text \<open>A printed cursor survives trimming: the alphabet has no white space.\<close>

lemma cursor_trimmed [simp]: "TrimSpace (formatEventCursor ee e) = formatEventCursor ee e"
  unfolding formatEventCursor_def by (intro TrimSpace_plain EncodeToString_plain)

lemma cursor_not_Nil [simp]: "formatEventCursor ee e \<noteq> []"
  by (simp add: formatEventCursor_def)

section \<open>Reading in pages\<close>

text \<open>A client that reads \<open>n\<close> pages, each from the cursor that the one before returned.\<close>

fun read_pages :: "event_env \<Rightarrow> list_events_request \<Rightarrow> nat \<Rightarrow> db \<Rightarrow> ticket_event list" where
  "read_pages ee req 0 d = []"
| "read_pages ee req (Suc n) d =
     (case ListEvents ee req d of
        (Inl e, _) \<Rightarrow> []
      | (Inr res, _) \<Rightarrow> lv_Events res @ read_pages ee (req\<lparr>le_Cursor := lv_NextCursor res\<rparr>) n d)"

lemma after_last_page:
  fixes f :: "'a \<Rightarrow> 'b :: linorder"
  assumes "sorted_wrt (<) (map f xs)" and "take l xs \<noteq> []"
  shows "filter (\<lambda>x. f (last (take l xs)) < f x) xs = drop l xs"
proof -
  obtain ys m where ys: "take l xs = ys @ [m]"
    using assms(2) by (metis append_butlast_last_id)
  have xs: "xs = ys @ m # drop l xs"
    by (metis append_take_drop_id ys append.assoc append_Cons append_Nil)
  have "sorted_wrt (<) (map f (ys @ m # drop l xs))"
    using assms(1) xs by simp
  then have "filter (\<lambda>x. f m < f x) (ys @ m # drop l xs) = drop l xs"
    by (auto simp: sorted_wrt_append filter_empty_conv)
  with ys xs show ?thesis by simp
qed

lemma feed_limit_pos: "0 \<le> lim \<Longrightarrow> 1 \<le> feed_limit lim \<and> feed_limit lim \<le> 500"
  by (auto simp: feed_limit_def defaultEventFeedLimit_def maxEventFeedLimit_def Let_def)

text \<open>The events that a request is to deliver after a sequence number.\<close>

definition events_after :: "list_events_request \<Rightarrow> int \<Rightarrow> db \<Rightarrow> ticket_event list" where
  "events_after req s d =
     filter (\<lambda>e. event_matches (feed_filter req) e \<and> s < ev_EventSequence e) (ticket_events d)"

lemma events_after_sorted:
  assumes "events_ok d"
  shows "sorted_wrt (<) (map ev_EventSequence (events_after req s d))"
  using assms unfolding events_ok_def events_after_def
  by (simp add: sorted_wrt_map sorted_wrt_filter)

lemma page_after_cursor:
  assumes "events_ok d" and "0 \<le> le_Limit req" and "TrimSpace (le_Cursor req) \<noteq> []"
    and "parseEventCursor ee (TrimSpace (le_Cursor req)) = Some c"
  shows "ListEvents ee req d = (Inr (feed_result ee (TrimSpace (le_Cursor req))
    (take (nat (feed_limit (le_Limit req))) (events_after req (ec_EventSequence c) d))), d)"
proof -
  have "sort_key ev_EventSequence (events_after req s d) = events_after req s d" for s
    using events_after_sorted [OF assms(1)]
    by (intro sort_key_id_if_sorted) (simp add: strict_sorted_imp_sorted)
  then show ?thesis
    using assms(2-4)
    by (simp add: ListEvents_def validateListEventsRequest_def ListTicketEventsAfterCursor_stmt_def
        events_after_def [symmetric] limit_rows_def problem_def svc_bind_def svc_read_def svc_return_def)
qed

lemma read_pages_after:
  assumes "\<And>e. e \<in> set (ticket_events d) \<Longrightarrow> event_env_ok ee e" and "events_ok d"
    and "0 \<le> le_Limit req"
    and "\<And>e. e \<in> set (ticket_events d) \<Longrightarrow> 1 \<le> ev_EventSequence e \<and> ev_EventSequence e < 2 ^ 63"
    and "TrimSpace (le_Cursor req) \<noteq> []"
    and "parseEventCursor ee (TrimSpace (le_Cursor req)) = Some c"
  shows "read_pages ee req n d =
    take (n * nat (feed_limit (le_Limit req))) (events_after req (ec_EventSequence c) d)"
  using assms(3,5,6)
proof (induction n arbitrary: req c)
  case (Suc n)
  let ?l = "nat (feed_limit (le_Limit req))"
  let ?evs = "events_after req (ec_EventSequence c) d"
  let ?page = "take ?l ?evs"
  let ?res = "feed_result ee (TrimSpace (le_Cursor req)) ?page"
  let ?next = "req\<lparr>le_Cursor := lv_NextCursor ?res\<rparr>"
  note page = page_after_cursor [OF assms(2) Suc.prems]
  have same: "events_after (req\<lparr>le_Cursor := x\<rparr>) s d = events_after req s d" for x s
    by (simp add: events_after_def feed_filter_def)
  show ?case
  proof (cases "?page = []")
    case True
    have "0 < ?l" using feed_limit_pos [OF Suc.prems(1)] by simp
    with True have "?evs = []" by simp
    moreover have "read_pages ee ?next n d = take (n * ?l) ?evs"
      using Suc.IH [of ?next c] Suc.prems True by (simp add: feed_result_def same)
    ultimately show ?thesis by (simp add: page feed_result_def)
  next
    case False
    let ?m = "last ?page"
    have "?m \<in> set ?evs"
      using False by (meson in_set_takeD last_in_set)
    then have m: "?m \<in> set (ticket_events d)" "event_matches (feed_filter req) ?m"
      "ec_EventSequence c < ev_EventSequence ?m"
      by (auto simp: events_after_def)
    have "parseEventCursor ee (formatEventCursor ee ?m) =
        Some \<lparr>ec_EventSequence = ev_EventSequence ?m, ec_CreatedAt = ev_CreatedAt ?m, ec_ID = ev_ID ?m\<rparr>"
      using parse_format_cursor [OF assms(1) [OF m(1)]] assms(4) [OF m(1)] by simp
    then have "read_pages ee ?next n d = take (n * ?l) (events_after req (ev_EventSequence ?m) d)"
      using Suc.IH [of ?next] Suc.prems(1) False by (simp add: feed_result_def same)
    also have "events_after req (ev_EventSequence ?m) d =
        filter (\<lambda>e. ev_EventSequence ?m < ev_EventSequence e) ?evs"
      using m(3) by (auto simp: events_after_def intro!: filter_cong)
    also have "\<dots> = drop ?l ?evs"
      by (rule after_last_page [OF events_after_sorted [OF assms(2)] False])
    finally show ?thesis
      by (simp add: page feed_result_def take_add)
  qed
qed simp

end
