(* ===== verification/Resource_Properties.thy ===== *)
theory Resource_Properties
  imports Forge_Sample Dependency_Order Call_Atomicity Event_Service
begin

text \<open>
  Properties of decomposition, of the dependencies between tickets, of the event feed, of the
  transactions of the runtime, and of artifacts and capabilities.
\<close>

section \<open>Decomposition and dependencies\<close>

text \<open>C14. The depth-first search that guards a decomposition returns for every list of children
  and finds a cycle exactly when there is one: it decides whether the dependencies that the
  children declare by key are acyclic, whatever keys are repeated or unknown.\<close>

theorem cycle_check_decides:
  "hasDependencyCycle cs \<longleftrightarrow> \<not> acyclic (child_dependency cs)"
  by (rule hasDependencyCycle_iff)

text \<open>C15. A successful decomposition creates one fresh ticket per child, in the order of the
  request and in the status of its mode, and connects exactly the tickets whose children name
  each other; the new dependencies are acyclic, and no attempt changes.\<close>

theorem decomposition_effect:
  assumes "DecomposeTicket quote env req d = (Inr ts, d')"
    and "r = trimDecomposeTicketRequest req"
  shows "tickets d' = tickets d @ ts \<and> attempts d' = attempts d \<and> distinct (map tk_ID ts) \<and>
    tk_ID ` set ts \<inter> tk_ID ` set (tickets d) = {} \<and>
    list_all2 (child_of (dt_Mode r)) (createRequestsFromDecomposition r) ts \<and>
    (\<exists>rs. ticket_dependencies d' = ticket_dependencies d @ rs \<and>
      (\<lambda>x. (dep_TicketID x, dep_DependsOnTicketID x)) ` set rs = child_edges (dt_Children r) ts) \<and>
    acyclic (child_edges (dt_Children r) ts)"
  using decomposition_rows [OF assms(1)] unfolding assms(2) by blast

definition sample_child :: "string \<Rightarrow> string list \<Rightarrow> decompose_child_request" where
  "sample_child key deps =
     \<lparr>dc_Key = key, dc_Title = key, dc_Description = ''d'', dc_Type = ''bug'',
      dc_Priority = None, dc_Tags = [], dc_AcceptanceCriteria = [''a''],
      dc_VerificationCommands = [], dc_ExpectedArtifacts = [], dc_RelevantPaths = [],
      dc_RequiredTools = [], dc_RequiredPermissions = [], dc_RequiredCapabilities = [],
      dc_AllowedHarnesses = [], dc_Environment = [], dc_Input = [], dc_DependsOn = deps\<rparr>"

definition sample_decompose :: decompose_ticket_request where
  "sample_decompose =
     \<lparr>dt_WorkspaceID = Some 1, dt_ProjectID = Some 2, dt_ParentID = Some sample_ticket,
      dt_RootID = None, dt_Mode = ''create'', dt_CanEnqueue = True, dt_CreatedBy = ''human'',
      dt_CreatedByID = [], dt_CreationReason = ''split'',
      dt_Children = [sample_child ''x'' [''y''], sample_child ''y'' []]\<rparr>"

definition sample_decomposed :: "(svc_error + ticket list) \<times> db" where
  "sample_decomposed = DecomposeTicket (\<lambda>s. s) sample_env sample_decompose sample_ready"

theorem decomposition_effect_witness:
  "length (projr (fst sample_decomposed)) = 2 \<and>
   tickets (snd sample_decomposed) = tickets sample_ready @ projr (fst sample_decomposed) \<and>
   acyclic (child_edges (dt_Children (trimDecomposeTicketRequest sample_decompose))
     (projr (fst sample_decomposed)))"
proof -
  have run: "DecomposeTicket (\<lambda>s. s) sample_env sample_decompose sample_ready =
      (Inr (projr (fst sample_decomposed)), snd sample_decomposed)"
    unfolding sample_decomposed_def by (rule evaluated_svc) code_simp
  have "length (projr (fst sample_decomposed)) = 2"
    by code_simp
  with decomposition_effect [OF run refl] show ?thesis by blast
qed

text \<open>C16. Whatever calls are made on a new installation, the dependencies between tickets stay
  acyclic. So no ticket waits for ever on a circle: one that waits for a dependency waits, along a
  chain of dependencies, for a ticket that is not done and itself waits for nothing.\<close>

theorem no_circular_wait:
  assumes "initial_db d" and "ticket_dependencies d = []"
  shows "acyclic (dependency_edges (run_calls cs d)) \<and>
    (has_open_dependency (run_calls cs d) k \<longrightarrow>
      (\<exists>u \<in> set (tickets (run_calls cs d)).
        (k, tk_ID u) \<in> (dependency_edges (run_calls cs d))\<^sup>+ \<and>
        tk_Status u \<noteq> TicketStatusDone \<and> \<not> has_open_dependency (run_calls cs d) (tk_ID u)))"
proof -
  have "dependencies_ok d"
    using assms by (simp add: dependencies_ok_def dependency_edges_def acyclic_def)
  then have ok: "dependencies_ok (run_calls cs d)"
    by (rule calls_dependencies_ok)
  then show ?thesis
    using waiting_ends [OF ok] by (simp add: dependencies_ok_def)
qed

definition sample_waiting :: "runtime_call list" where
  "sample_waiting =
     [CallCreateTicket sample_env sample_create,
      CallDecomposeTicket (\<lambda>s. s) sample_env sample_decompose]"

definition sample_children :: "uuid list" where
  "sample_children = map tk_ID (tl (tickets (run_calls sample_waiting sample_db)))"

theorem no_circular_wait_witness:
  "\<exists>u \<in> set (tickets (run_calls sample_waiting sample_db)).
     (hd sample_children, tk_ID u) \<in> (dependency_edges (run_calls sample_waiting sample_db))\<^sup>+ \<and>
     tk_Status u \<noteq> TicketStatusDone \<and>
     \<not> has_open_dependency (run_calls sample_waiting sample_db) (tk_ID u)"
proof -
  have none: "ticket_dependencies sample_db = []"
    by (simp add: sample_db_def)
  have "has_open_dependency (run_calls sample_waiting sample_db) (hd sample_children)"
    by code_simp
  then show ?thesis
    using no_circular_wait [OF sample_initial none] by blast
qed

section \<open>Transactions\<close>

text \<open>C17. Every call of the runtime is atomic, except the five that run several statements
  without a transaction (claims, refinements, tickets from attempts and the two workers): when it
  fails it leaves the database as it was. In particular an attempt is not completed when one of
  the artifacts that come with its completion is refused.\<close>

theorem failed_call_changes_nothing:
  assumes "\<not> composite_call c" and "runtime c d = (Inl e, d')"
  shows "d' = d"
  using call_atomic [OF assms(1)] assms(2) by (rule svc_atomicD)

definition sample_artifact :: register_artifact_request where
  "sample_artifact =
     \<lparr>ra_WorkspaceID = Some 1, ra_ProjectID = Some 2, ra_TicketID = Some sample_ticket,
      ra_AttemptID = None, ra_Type = ''log'', ra_Role = ''evidence'', ra_Name = ''n'',
      ra_URL = ''file:///n'', ra_StorageBackend = ''local'', ra_SizeBytes = 0, ra_MimeType = [],
      ra_Metadata = []\<rparr>"

definition sample_refused :: runtime_call where
  "sample_refused = CallCompleteWithArtifacts 7 sample_env
     \<lparr>or_AttemptID = Some sample_attempt, or_Output = [], or_OutputSchema = [], or_Metrics = None\<rparr>
     [sample_artifact, sample_artifact\<lparr>ra_Name := []\<rparr>]"

theorem failed_call_changes_nothing_witness:
  "isl (fst (runtime sample_refused sample_claimed)) \<and>
   snd (runtime sample_refused sample_claimed) = sample_claimed"
proof -
  let ?x = "runtime sample_refused sample_claimed"
  have simple: "\<not> composite_call sample_refused"
    by (simp add: sample_refused_def)
  have failed: "isl (fst ?x)"
    by code_simp
  then have "?x = (Inl (projl (fst ?x)), snd ?x)"
    by (cases ?x) auto
  with failed failed_call_changes_nothing [OF simple] show ?thesis by blast
qed

section \<open>The event feed\<close>

text \<open>A cursor round trips: parsing the text that was printed for an event gives back its
  sequence number, its time and its identifier, through the decimal, the separators and base64.\<close>

theorem cursor_round_trip:
  assumes "event_env_ok ee e" and "1 \<le> ev_EventSequence e" and "ev_EventSequence e < 2 ^ 63"
  shows "parseEventCursor ee (TrimSpace (formatEventCursor ee e)) =
    Some \<lparr>ec_EventSequence = ev_EventSequence e, ec_CreatedAt = ev_CreatedAt e, ec_ID = ev_ID e\<rparr>"
  using parse_format_cursor [OF assms] by simp

text \<open>A text form of times, and the UUID parser on the texts that \<open>eventUUIDString\<close> prints.\<close>

definition hex_value :: "char \<Rightarrow> nat" where
  "hex_value c = (if of_char c < (58 :: nat) then of_char c - 48 else of_char c - 87)"

definition sample_event_env :: event_env where
  "sample_event_env =
     \<lparr>ee_format_time = (\<lambda>t. FormatInt t), ee_parse_time = ParseInt,
      ee_scan = (\<lambda>s. Some (foldl (\<lambda>w c. w * 16 + of_nat (hex_value c)) 0
        (filter (\<lambda>c. c \<noteq> CHR ''-'') s)))\<rparr>"

theorem cursor_round_trip_witness:
  "map_option ec_EventSequence (parseEventCursor sample_event_env (TrimSpace
     (formatEventCursor sample_event_env (hd (ticket_events sample_claimed))))) = Some 1"
proof -
  let ?e = "hd (ticket_events sample_claimed)"
  have ok: "event_env_ok sample_event_env ?e"
    by code_simp
  have seq: "ev_EventSequence ?e = 1"
    by code_simp
  with cursor_round_trip [OF ok] show ?thesis by simp
qed

text \<open>C18. The feed loses nothing and repeats nothing: a client that continues from the cursor of
  an event, while the log grows to \<open>d\<close>, and reads any number of pages of any limit gets the
  matching events after that one, in the order of the log and without gaps, as many as the pages
  hold. A page holds at least one event, so that enough pages deliver them all.\<close>

theorem feed_complete:
  assumes "initial_db d0" and "stmt_step\<^sup>*\<^sup>* d0 d"
    and "\<forall>e \<in> set (ticket_events d). event_env_ok ee e \<and>
      1 \<le> ev_EventSequence e \<and> ev_EventSequence e < 2 ^ 63"
    and "e0 \<in> set (ticket_events d)" and "le_Cursor req = formatEventCursor ee e0"
    and "0 \<le> le_Limit req"
  shows "read_pages ee req n d =
      take (n * nat (feed_limit (le_Limit req))) (events_after req (ev_EventSequence e0) d) \<and>
    1 \<le> feed_limit (le_Limit req)"
proof -
  have ok: "events_ok d"
    using assms(1,2) by (rule event_log.reachable)
  have "parseEventCursor ee (TrimSpace (le_Cursor req)) = Some \<lparr>ec_EventSequence =
      ev_EventSequence e0, ec_CreatedAt = ev_CreatedAt e0, ec_ID = ev_ID e0\<rparr>"
    using parse_format_cursor assms(3-5) by simp
  with assms ok show ?thesis
    by (simp add: read_pages_after feed_limit_pos)
qed

definition sample_feed :: list_events_request where
  "sample_feed =
     \<lparr>le_WorkspaceID = Some 1, le_ProjectID = None, le_TicketID = None, le_AttemptID = None,
      le_Cursor = formatEventCursor sample_event_env (hd (ticket_events sample_failed)),
      le_Limit = 1\<rparr>"

theorem feed_complete_witness:
  "read_pages sample_event_env sample_feed 2 sample_failed = tl (ticket_events sample_failed) \<and>
   length (ticket_events sample_failed) = 3"
proof -
  have reach: "stmt_step\<^sup>*\<^sup>* sample_db sample_failed"
    unfolding sample_failed_def using sample_claimed_reachable run_calls_steps
    by (rule rtranclp_trans)
  have env: "\<forall>e \<in> set (ticket_events sample_failed). event_env_ok sample_event_env e \<and>
      1 \<le> ev_EventSequence e \<and> ev_EventSequence e < 2 ^ 63"
    by code_simp
  have first: "hd (ticket_events sample_failed) \<in> set (ticket_events sample_failed)"
    by (rule hd_in_set) code_simp
  have cursor: "le_Cursor sample_feed =
      formatEventCursor sample_event_env (hd (ticket_events sample_failed))" "0 \<le> le_Limit sample_feed"
    by (simp_all add: sample_feed_def)
  have "take (2 * nat (feed_limit (le_Limit sample_feed)))
      (events_after sample_feed (ev_EventSequence (hd (ticket_events sample_failed))) sample_failed) =
      tl (ticket_events sample_failed)" "length (ticket_events sample_failed) = 3"
    by code_simp+
  with feed_complete [OF sample_initial reach env first cursor] show ?thesis by simp
qed

section \<open>Artifacts and capabilities\<close>

text \<open>The file of a local artifact is removed before its row is deleted, and the deletion of
  the row fails whenever a ticket of its project names the artifact as its source: the foreign key
  sets the ticket's project to null. The call then reports an error and the row remains, with a URL
  whose file is gone; otherwise row and file are both removed.\<close>

theorem artifact_deletion_outcome:
  assumes "unique_key ar_ID (artifacts d)" and "GetArtifact_stmt i d = Inr a"
    and "ar_StorageBackend a = ArtifactStorageLocal" and "remove (ar_Url a) fs = (None, fs')"
  shows "DeleteLocalArtifact i (Some remove) (d, fs) =
    (if \<exists>t \<in> set (tickets d). tk_SourceArtifactID t = i \<and>
          tk_WorkspaceID t = ar_WorkspaceID a \<and> tk_ProjectID t = ar_ProjectID a
     then (Inl (StoreError ''delete artifact metadata'' NotNullViolation), d, fs')
     else (Inr a, d\<lparr>artifacts := filter (\<lambda>x. Some (ar_ID x) \<noteq> i) (artifacts d)\<rparr>, fs'))"
proof -
  obtain k where i: "i = Some k" and a: "find_row ar_ID k (artifacts d) = Some a"
    using assms(2) by (auto simp: GetArtifact_stmt_def split: option.splits)
  then have mem: "a \<in> set (artifacts d)" "ar_ID a = k"
    by (auto dest: find_row_SomeD)
  have "(\<exists>x \<in> set (artifacts d). ar_ID x = k \<and> P x) \<longleftrightarrow> P a" for P
    using mem assms(1) by (auto simp: distinct_map inj_on_def)
  then show ?thesis
    using assms(2-4) by (simp add: DeleteLocalArtifact_def DeleteArtifact_stmt_def i ensure_def)
qed

definition sample_follow_up :: "uuid \<Rightarrow> create_ticket_request" where
  "sample_follow_up k = sample_create\<lparr>cr_SourceArtifactID := Some k\<rparr>"

definition sample_stored :: db where
  "sample_stored = run_calls [CallRegisterArtifact sample_env sample_artifact] sample_ready"

definition sample_source :: artifact where
  "sample_source = hd (artifacts sample_stored)"

definition sample_named :: db where
  "sample_named =
     run_calls [CallCreateTicket sample_env (sample_follow_up (ar_ID sample_source))] sample_stored"

theorem artifact_deletion_outcome_witness:
  "DeleteLocalArtifact (Some (ar_ID sample_source)) (Some (\<lambda>url fs. (None, removeAll url fs)))
     (sample_named, [''file:///n'', ''other'']) =
   (Inl (StoreError ''delete artifact metadata'' NotNullViolation), sample_named, [''other''])"
proof -
  let ?rm = "\<lambda>url fs. (None, removeAll url fs)" and ?fs = "[''file:///n'', ''other'']"
  have u: "unique_key ar_ID (artifacts sample_named)"
    by code_simp
  have g: "GetArtifact_stmt (Some (ar_ID sample_source)) sample_named = Inr sample_source"
    by code_simp
  have l: "ar_StorageBackend sample_source = ArtifactStorageLocal"
    by code_simp
  have url: "ar_Url sample_source = ''file:///n''"
    by code_simp
  have r: "?rm (ar_Url sample_source) ?fs = (None, [''other''])"
    unfolding url by simp
  have "\<exists>t \<in> set (tickets sample_named). tk_SourceArtifactID t = Some (ar_ID sample_source) \<and>
      tk_WorkspaceID t = ar_WorkspaceID sample_source \<and>
      tk_ProjectID t = ar_ProjectID sample_source"
    by code_simp
  with artifact_deletion_outcome [of _ _ _ ?rm, OF u g l r] show ?thesis by simp
qed

text \<open>Tool names and artifact roles are declared optional, but a registration of capabilities
  that leaves either of them empty never succeeds: the empty list is stored as a null, which the
  table refuses.\<close>

theorem capabilities_without_lists_fail:
  assumes "slice_list (rc_ToolNames req) = [] \<or> slice_list (rc_ArtifactRoles req) = []"
    and "validateRegisterCapabilitiesRequest (trimRegisterCapabilitiesRequest req) = []"
  shows "RegisterCapabilities now env req d =
    (Inl (StoreError ''upsert agent capability'' NotNullViolation), d)"
proof -
  let ?r = "trimRegisterCapabilitiesRequest req"
  obtain claim where claim: "jsonb_in (encodeJSONObject (rc_PreferredClaim ?r)) = Inr claim"
    using encoded_output by blast
  obtain meta where meta: "jsonb_in (encodeJSONObject (rc_Metadata ?r)) = Inr meta"
    using encoded_output by blast
  have "rc_ToolNames ?r = None \<or> rc_ArtifactRoles ?r = None"
    using assms(1) by (auto simp: trimRegisterCapabilitiesRequest_def compactStrings_def)
  with claim meta show ?thesis
    by (auto simp: RegisterCapabilities_def Let_def assms(2) svc_stmt_def
        UpsertAgentCapability_stmt_def not_null_def split: option.splits sum.splits prod.splits)
qed

definition sample_capabilities :: register_capabilities_request where
  "sample_capabilities =
     \<lparr>rc_WorkspaceID = Some 1, rc_ProjectID = Some 2, rc_AgentID = ''a'', rc_Harness = ''h'',
      rc_Model = [], rc_Transports = Some [''cli''], rc_Capabilities = Some [''go''],
      rc_ToolNames = None, rc_ArtifactRoles = Some [''output''], rc_PreferredClaim = [],
      rc_Metadata = []\<rparr>"

theorem capabilities_without_lists_fail_witness:
  "RegisterCapabilities 0 sample_env sample_capabilities sample_db =
    (Inl (StoreError ''upsert agent capability'' NotNullViolation), sample_db)"
proof -
  have valid: "validateRegisterCapabilitiesRequest
      (trimRegisterCapabilitiesRequest sample_capabilities) = []"
    by code_simp
  have "slice_list (rc_ToolNames sample_capabilities) = []"
    by code_simp
  then show ?thesis
    using valid by (intro capabilities_without_lists_fail) simp_all
qed

end
