(* ===== verification/Go_Netip.thy ===== *)
theory Go_Netip
  imports Go_Strconv
begin

text \<open>
  The part of Go's \<open>net/netip\<close> that the webhook destination policy uses: addresses, their parser
  and classification, and prefixes. An address is a 32-bit or a 128-bit number, the latter with a
  zone; \<open>AddrInvalid\<close> is the zero value of the type. The classification of the library is by bit
  masks; the last section relates it to blocks of addresses.
\<close>

unbundle bit_operations_syntax

section \<open>Addresses\<close>

datatype addr = AddrInvalid | V4 "32 word" | V6 "128 word" string

definition Unmap :: "addr \<Rightarrow> addr" where
  "Unmap a =
     (case a of V6 w z \<Rightarrow> if drop_bit 32 w = 0xFFFF then V4 (ucast w) else a | _ \<Rightarrow> a)"

text \<open>The classification, for addresses that are not mapped from IPv4.\<close>

definition v4_byte :: "nat \<Rightarrow> 32 word \<Rightarrow> 32 word" where
  "v4_byte i w = drop_bit (24 - 8 * i) w AND 0xFF"

definition v6_byte :: "nat \<Rightarrow> 128 word \<Rightarrow> 128 word" where
  "v6_byte i w = drop_bit (120 - 8 * i) w AND 0xFF"

definition v6u16 :: "nat \<Rightarrow> 128 word \<Rightarrow> 128 word" where
  "v6u16 i w = drop_bit (112 - 16 * i) w AND 0xFFFF"

fun IsLoopback :: "addr \<Rightarrow> bool" where
  "IsLoopback AddrInvalid = False"
| "IsLoopback (V4 w) = (v4_byte 0 w = 127)"
| "IsLoopback (V6 w z) = (w = 1)"

fun IsLinkLocalUnicast :: "addr \<Rightarrow> bool" where
  "IsLinkLocalUnicast AddrInvalid = False"
| "IsLinkLocalUnicast (V4 w) = (v4_byte 0 w = 169 \<and> v4_byte 1 w = 254)"
| "IsLinkLocalUnicast (V6 w z) = (v6u16 0 w AND 0xFFC0 = 0xFE80)"

fun IsMulticast :: "addr \<Rightarrow> bool" where
  "IsMulticast AddrInvalid = False"
| "IsMulticast (V4 w) = (v4_byte 0 w AND 0xF0 = 0xE0)"
| "IsMulticast (V6 w z) = (v6_byte 0 w = 0xFF)"

fun IsLinkLocalMulticast :: "addr \<Rightarrow> bool" where
  "IsLinkLocalMulticast AddrInvalid = False"
| "IsLinkLocalMulticast (V4 w) = (v4_byte 0 w = 224 \<and> v4_byte 1 w = 0 \<and> v4_byte 2 w = 0)"
| "IsLinkLocalMulticast (V6 w z) = (v6u16 0 w AND 0xFF0F = 0xFF02)"

definition IsUnspecified :: "addr \<Rightarrow> bool" where
  "IsUnspecified a \<longleftrightarrow> a = V4 0 \<or> a = V6 0 []"

fun IsPrivate :: "addr \<Rightarrow> bool" where
  "IsPrivate AddrInvalid = False"
| "IsPrivate (V4 w) =
     (v4_byte 0 w = 10 \<or> (v4_byte 0 w = 172 \<and> v4_byte 1 w AND 0xF0 = 16) \<or>
      (v4_byte 0 w = 192 \<and> v4_byte 1 w = 168))"
| "IsPrivate (V6 w z) = (v6_byte 0 w AND 0xFE = 0xFC)"

section \<open>Parsing addresses\<close>

text \<open>\<open>parseIPv4Fields\<close>: \<open>prev\<close> is the character before, \<open>val\<close> and \<open>digLen\<close> the octet under way.\<close>

fun parseIPv4Fields :: "char option \<Rightarrow> nat \<Rightarrow> nat \<Rightarrow> nat list \<Rightarrow> string \<Rightarrow> nat list option" where
  "parseIPv4Fields prev val digLen fields [] =
     (if length fields < 3 then None else Some (fields @ [val]))"
| "parseIPv4Fields prev val digLen fields (c # s) =
     (case digit_value c of
        Some x \<Rightarrow>
          if digLen = 1 \<and> val = 0 \<or> 255 < val * 10 + nat x then None
          else parseIPv4Fields (Some c) (val * 10 + nat x) (Suc digLen) fields s
      | None \<Rightarrow>
          if c \<noteq> CHR ''.'' then None
          else if prev = None \<or> s = [] \<or> prev = Some (CHR ''.'') then None
          else if length fields = 3 then None
          else parseIPv4Fields (Some c) 0 0 (fields @ [val]) s)"

definition parseIPv4 :: "string \<Rightarrow> addr option" where
  "parseIPv4 s =
     map_option (\<lambda>fs. V4 (foldl (\<lambda>w b. w * 256 + of_nat b) 0 fs)) (parseIPv4Fields None 0 0 [] s)"

definition hex_char :: "char \<Rightarrow> nat option" where
  "hex_char c =
     (let n = of_char c :: nat in
      if 48 \<le> n \<and> n \<le> 57 then Some (n - 48)
      else if 97 \<le> n \<and> n \<le> 102 then Some (n - 87)
      else if 65 \<le> n \<and> n \<le> 70 then Some (n - 55)
      else None)"

definition hex_number :: "string \<Rightarrow> nat" where
  "hex_number ds = foldl (\<lambda>n c. n * 16 + the (hex_char c)) 0 ds"

text \<open>The loop of \<open>parseIPv6\<close>: \<open>n\<close> groups of 16 bits remain, \<open>gs\<close> are those read, \<open>ell\<close> the
  position of the ellipsis. The result is the unread rest, the groups and the position.\<close>

fun parse_groups ::
  "nat \<Rightarrow> string \<Rightarrow> nat list \<Rightarrow> nat option \<Rightarrow> (string \<times> nat list \<times> nat option) option" where
  "parse_groups 0 s gs ell = Some (s, gs, ell)"
| "parse_groups (Suc n) s gs ell =
     (let ds = takeWhile (\<lambda>c. hex_char c \<noteq> None) s; r = drop (length ds) s in
      if ds = [] \<or> 4 < length ds then None
      else if r \<noteq> [] \<and> hd r = CHR ''.'' then
        (if ell = None \<and> length gs \<noteq> 6 \<or> 6 < length gs then None
         else (case parseIPv4Fields None 0 0 [] s of
             Some [a, b, c, d] \<Rightarrow> Some ([], gs @ [a * 256 + b, c * 256 + d], ell)
           | _ \<Rightarrow> None))
      else
        (let gs' = gs @ [hex_number ds] in
         if r = [] then Some ([], gs', ell)
         else if hd r \<noteq> CHR '':'' \<or> tl r = [] then None
         else if hd (tl r) \<noteq> CHR '':'' then parse_groups n (tl r) gs' ell
         else if ell \<noteq> None then None
         else if tl (tl r) = [] then Some ([], gs', Some (length gs'))
         else parse_groups n (tl (tl r)) gs' (Some (length gs'))))"

definition expand_ellipsis :: "nat list \<Rightarrow> nat option \<Rightarrow> nat list option" where
  "expand_ellipsis gs ell =
     (if length gs < 8
      then map_option (\<lambda>e. take e gs @ replicate (8 - length gs) 0 @ drop e gs) ell
      else if ell = None then Some gs else None)"

definition groups_word :: "nat list \<Rightarrow> 128 word" where
  "groups_word gs = foldl (\<lambda>w g. w * 65536 + of_nat g) 0 gs"

definition parse_v6_body :: "string \<Rightarrow> string \<Rightarrow> addr option" where
  "parse_v6_body s zone =
     (let lead = (take 2 s = ''::''); body = (if lead then drop 2 s else s) in
      if lead \<and> body = [] then Some (V6 0 zone)
      else (case parse_groups 8 body [] (if lead then Some 0 else None) of
          None \<Rightarrow> None
        | Some (rest, gs, ell) \<Rightarrow>
            if rest \<noteq> [] then None
            else map_option (\<lambda>full. V6 (groups_word full) zone) (expand_ellipsis gs ell)))"

definition parseIPv6 :: "string \<Rightarrow> addr option" where
  "parseIPv6 s =
     (if CHR ''%'' \<in> set s
      then (let zone = tl (dropWhile (\<lambda>c. c \<noteq> CHR ''%'') s) in
            if zone = [] then None else parse_v6_body (takeWhile (\<lambda>c. c \<noteq> CHR ''%'') s) zone)
      else parse_v6_body s [])"

text \<open>The first of the characters \<open>.\<close>, \<open>:\<close> and \<open>%\<close> decides.\<close>

definition ParseAddr :: "string \<Rightarrow> addr option" where
  "ParseAddr s =
     (case find (\<lambda>c. c \<in> set ''.:%'') s of
        None \<Rightarrow> None
      | Some c \<Rightarrow>
          if c = CHR ''.'' then parseIPv4 s else if c = CHR '':'' then parseIPv6 s else None)"

section \<open>Prefixes\<close>

record prefix =
  px_addr :: addr
  px_bits :: nat

fun addr_bits :: "addr \<Rightarrow> nat" where
  "addr_bits AddrInvalid = 0"
| "addr_bits (V4 w) = 32"
| "addr_bits (V6 w z) = 128"

fun has_zone :: "addr \<Rightarrow> bool" where
  "has_zone (V6 w z) = (z \<noteq> [])"
| "has_zone a = False"

definition ParsePrefix :: "string \<Rightarrow> prefix option" where
  "ParsePrefix s =
     (if CHR ''/'' \<notin> set s then None
      else
        (let bits = rev (takeWhile (\<lambda>c. c \<noteq> CHR ''/'') (rev s));
             text = take (length s - length bits - 1) s in
         case ParseAddr text of
           None \<Rightarrow> None
         | Some ip \<Rightarrow>
             if has_zone ip then None
             else if 1 < length bits \<and> (\<not> is_digit (hd bits) \<or> hd bits = CHR ''0'') then None
             else (case ParseInt bits of
                 None \<Rightarrow> None
               | Some n \<Rightarrow>
                   if n < 0 \<or> int (addr_bits ip) < n then None
                   else Some \<lparr>px_addr = ip, px_bits = nat n\<rparr>)))"

definition Contains :: "prefix \<Rightarrow> addr \<Rightarrow> bool" where
  "Contains p ip =
     (case (px_addr p, ip) of
        (V4 a, V4 w) \<Rightarrow> drop_bit (32 - px_bits p) (w XOR a) = 0
      | (V6 a _, V6 w z) \<Rightarrow> z = [] \<and> drop_bit (128 - px_bits p) (w XOR a) = 0
      | _ \<Rightarrow> False)"

section \<open>Classification by blocks\<close>

text \<open>The block of the addresses that agree with \<open>base\<close> in the first \<open>len\<close> of \<open>width\<close> bits.\<close>

definition in_block :: "nat \<Rightarrow> nat \<times> nat \<Rightarrow> nat \<Rightarrow> bool" where
  "in_block width blk n =
     (case blk of (base, len) \<Rightarrow> n div 2 ^ (width - len) = base div 2 ^ (width - len))"

definition reserved_v4 :: "(nat \<times> nat) list" where
  "reserved_v4 =
     [(127 * 2 ^ 24, 8), (169 * 2 ^ 24 + 254 * 2 ^ 16, 16), (224 * 2 ^ 24, 4), (0, 32),
      (10 * 2 ^ 24, 8), (172 * 2 ^ 24 + 16 * 2 ^ 16, 12), (192 * 2 ^ 24 + 168 * 2 ^ 16, 16)]"

definition reserved_v6 :: "(nat \<times> nat) list" where
  "reserved_v6 =
     [(1, 128), (0xFE80 * 2 ^ 112, 10), (0xFF * 2 ^ 120, 8), (0, 128), (0xFC * 2 ^ 120, 7)]"

fun reserved :: "addr \<Rightarrow> bool" where
  "reserved AddrInvalid = False"
| "reserved (V4 w) = (\<exists>b \<in> set reserved_v4. in_block 32 b (unat w))"
| "reserved (V6 w z) = (\<exists>b \<in> set reserved_v6. in_block 128 b (unat w))"

text \<open>Masks on numbers: a mask of low bits is a remainder, a mask of high bits a quotient.\<close>

lemma and_low: "(n :: nat) AND 255 = n mod 256" "(n :: nat) AND 65535 = n mod 65536"
proof -
  have "n AND mask k = n mod 2 ^ k" for k
    by (simp add: take_bit_eq_mod flip: take_bit_eq_mask)
  from this [of 8] this [of 16] show "n AND 255 = n mod 256" "n AND 65535 = n mod 65536"
    by (simp_all add: mask_eq_exp_minus_1)
qed

lemma and_high:
  fixes n :: nat
  assumes "n < 2 ^ (a + k)"
  shows "n AND push_bit k (mask a) = 2 ^ k * (n div 2 ^ k)"
proof -
  have "n AND push_bit k (mask a) = push_bit k (drop_bit k n)"
  proof (rule bit_eqI)
    fix i
    have "bit n i \<Longrightarrow> i < a + k"
      using assms by (metis bit_take_bit_iff take_bit_nat_eq_self)
    then show "bit (n AND push_bit k (mask a)) i \<longleftrightarrow> bit (push_bit k (drop_bit k n)) i"
      by (auto simp: bit_simps)
  qed
  then show ?thesis by (simp add: push_bit_eq_mult drop_bit_eq_div mult.commute)
qed

lemma unat_shift: "unat (drop_bit n (w :: 'a :: len word)) = unat w div 2 ^ n"
  unfolding unat_drop_bit_eq by (simp add: drop_bit_eq_div)

lemma unat_bytes:
  "unat (v4_byte i w) = unat w div 2 ^ (24 - 8 * i) mod 256"
  "unat (v6_byte i v) = unat v div 2 ^ (120 - 8 * i) mod 256"
  "unat (v6u16 i v) = unat v div 2 ^ (112 - 16 * i) mod 65536"
  by (simp_all add: v4_byte_def v6_byte_def v6u16_def unsigned_and_eq unat_shift and_low)

lemma masked_high:
  "m < 256 \<Longrightarrow> m AND 0xF0 = 16 * (m div 16)"
  "m < 256 \<Longrightarrow> m AND 0xFE = 2 * (m div 2)"
  "n < 65536 \<Longrightarrow> n AND 0xFFC0 = 64 * (n div 64)"
  "n < 65536 \<Longrightarrow> n AND 0xFF00 = 256 * (n div 256)" for m n :: nat
  using and_high [of m 4 4] and_high [of m 7 1] and_high [of n 10 6] and_high [of n 8 8]
  by (simp_all add: push_bit_eq_mult mask_eq_exp_minus_1)

text \<open>The predicates of the library agree with the blocks, except that an unspecified address with
  a zone is not recognised.\<close>

lemma word_eq_iff: "(w :: 'a :: len word) = v \<longleftrightarrow> unat w = unat v"
  by (simp add: word_unat_eq_iff)

lemma digits_pair: "y < k \<Longrightarrow> n div k = x \<and> n mod k = y \<longleftrightarrow> n = x * k + y" for n k x y :: nat
  by (metis div_mult_mod_eq div_mult_self3 div_less mod_mult_self3 mod_less add_0_right
      mult.commute less_nat_zero_code)

lemma high_nibble: "n mod 256 div 16 = n div 16 mod 16" for n :: nat
  using mod_mult2_eq [of n 16 16] by simp

lemma v4_classification:
  "(IsLoopback (V4 w) \<or> IsLinkLocalUnicast (V4 w) \<or> IsLinkLocalMulticast (V4 w) \<or>
    IsMulticast (V4 w) \<or> IsUnspecified (V4 w) \<or> IsPrivate (V4 w)) \<longleftrightarrow> reserved (V4 w)"
proof -
  define B where "B = unat w div 2 ^ 16"
  have B: "B < 2 ^ 16"
    using unsigned_less [where 'a = nat, of w] by (simp add: B_def less_mult_imp_div_less)
  have shifts: "unat w div 2 ^ 24 = B div 256" "unat w div 2 ^ 28 = B div 4096"
    "unat w div 2 ^ 20 = B div 16"
    by (simp_all add: B_def div_mult2_eq [symmetric])
  have bytes: "unat (v4_byte 0 w) = B div 256" "unat (v4_byte 1 w) = B mod 256"
    using B shifts(1) by (simp_all add: unat_bytes B_def)
  have masked: "B div 256 AND 0xF0 = 16 * (B div 256 div 16)"
    "B mod 256 AND 0xF0 = 16 * (B mod 256 div 16)"
    using B by (auto intro!: masked_high)
  have "IsLoopback (V4 w) \<longleftrightarrow> B div 256 = 127"
    by (simp add: word_eq_iff bytes)
  moreover have "IsLinkLocalUnicast (V4 w) \<longleftrightarrow> B = 169 * 256 + 254"
    using digits_pair [of 254 256 B 169] by (simp add: word_eq_iff bytes [unfolded One_nat_def])
  moreover have "IsMulticast (V4 w) \<longleftrightarrow> B div 4096 = 14"
    using div_mult2_eq [of B 256 16] by (simp add: word_eq_iff unsigned_and_eq bytes masked)
  moreover have "IsLinkLocalMulticast (V4 w) \<Longrightarrow> B div 4096 = 14"
    using div_mult2_eq [of B 256 16] by (simp add: word_eq_iff bytes)
  moreover have "IsPrivate (V4 w) \<longleftrightarrow>
      B div 256 = 10 \<or> B div 16 = 172 * 16 + 1 \<or> B = 192 * 256 + 168"
    using digits_pair [of 1 16 "B div 16" 172] digits_pair [of 168 256 B 192] div_mult2_eq [of B 16 16]
    by (simp add: word_eq_iff unsigned_and_eq bytes [unfolded One_nat_def]
        masked high_nibble)
  moreover have "IsUnspecified (V4 w) \<longleftrightarrow> unat w = 0"
    by (simp add: IsUnspecified_def word_eq_iff)
  moreover have "reserved (V4 w) \<longleftrightarrow> B div 256 = 127 \<or> B = 169 * 256 + 254 \<or> B div 4096 = 14 \<or>
      unat w = 0 \<or> B div 256 = 10 \<or> B div 16 = 172 * 16 + 1 \<or> B = 192 * 256 + 168"
    using shifts B_def by (simp add: reserved_v4_def in_block_def)
  ultimately show ?thesis by argo
qed

lemma v6_classification:
  "(IsLoopback (V6 w z) \<or> IsLinkLocalUnicast (V6 w z) \<or> IsLinkLocalMulticast (V6 w z) \<or>
    IsMulticast (V6 w z) \<or> IsUnspecified (V6 w z) \<or> IsPrivate (V6 w z)) \<longleftrightarrow>
   reserved (V6 w z) \<and> \<not> (w = 0 \<and> z \<noteq> [])"
proof -
  define H where "H = unat w div 2 ^ 112"
  have H: "H < 2 ^ 16"
    using unsigned_less [where 'a = nat, of w] by (simp add: H_def less_mult_imp_div_less)
  have shifts: "unat w div 2 ^ 120 = H div 256" "unat w div 2 ^ 118 = H div 64"
    "unat w div 2 ^ 121 = H div 512"
    by (simp_all add: H_def div_mult2_eq [symmetric])
  have parts: "unat (v6u16 0 w) = H" "unat (v6_byte 0 w) = H div 256"
    using H shifts(1) by (simp_all add: unat_bytes H_def)
  have masked: "H AND 0xFFC0 = 64 * (H div 64)" "H AND 0xFF00 = 256 * (H div 256)"
    "H div 256 AND 0xFE = 2 * (H div 256 div 2)"
    using H by (auto intro!: masked_high)
  have "IsLoopback (V6 w z) \<longleftrightarrow> unat w = 1"
    by (simp add: word_eq_iff)
  moreover have "IsLinkLocalUnicast (V6 w z) \<longleftrightarrow> H div 64 = 0x3FA"
    by (simp add: word_eq_iff unsigned_and_eq parts masked)
  moreover have "IsMulticast (V6 w z) \<longleftrightarrow> H div 256 = 255"
    by (simp add: word_eq_iff parts)
  moreover have "IsLinkLocalMulticast (V6 w z) \<Longrightarrow> H div 256 = 255"
  proof -
    assume "IsLinkLocalMulticast (V6 w z)"
    then have "H AND 0xFF0F = 0xFF02"
      by (simp add: word_eq_iff unsigned_and_eq parts)
    then have "H AND (0xFF0F AND 0xFF00) = 0xFF02 AND 0xFF00"
      by (metis and.assoc)
    then show "H div 256 = 255" by (simp add: masked)
  qed
  moreover have "IsPrivate (V6 w z) \<longleftrightarrow> H div 512 = 126"
    using div_mult2_eq [of H 256 2] by (simp add: word_eq_iff unsigned_and_eq parts masked)
  moreover have "IsUnspecified (V6 w z) \<longleftrightarrow> unat w = 0 \<and> z = []" "w = 0 \<longleftrightarrow> unat w = 0"
    by (auto simp: IsUnspecified_def word_eq_iff)
  moreover have "reserved (V6 w z) \<longleftrightarrow> unat w = 1 \<or> H div 64 = 0x3FA \<or> H div 256 = 255 \<or>
      unat w = 0 \<or> H div 512 = 126"
    using shifts H_def by (simp add: reserved_v6_def in_block_def)
  moreover have "unat w = 0 \<Longrightarrow> unat w \<noteq> 1 \<and> H div 64 \<noteq> 0x3FA \<and> H div 256 \<noteq> 255 \<and> H div 512 \<noteq> 126"
    by (simp add: H_def)
  ultimately show ?thesis by argo
qed

end
