(* ===== verification/Webhook_Policy.thy ===== *)
theory Webhook_Policy
  imports Go_Netip
begin

text \<open>
  internal/jobs/webhook_policy.go: which addresses a webhook may be posted to, and the dialer of
  internal/jobs/webhooks.go, which connects to an address that was checked at that moment. The
  resolver, \<open>strings.ToLower\<close> and \<open>net.SplitHostPort\<close> are arguments.
\<close>

section \<open>The policy\<close>

datatype destination_error =
    ParseCIDRError string
  | IPNotAllowed addr
  | ResolveFailed string string
  | ResolvedToNothing string
  | ResolvedDisallowed string addr
  | SplitFailed string
  | NoIPResolved string

record webhook_destination_policy =
  dp_AllowedHosts :: "string list"
  dp_AllowedCIDRs :: "prefix list"

type_synonym resolver = "string \<Rightarrow> string + addr list"

fun parse_cidrs :: "string list \<Rightarrow> destination_error + prefix list" where
  "parse_cidrs [] = Inr []"
| "parse_cidrs (raw # raws) =
     (let r = TrimSpace raw in
      if r = [] then parse_cidrs raws
      else (case ParsePrefix r of
          None \<Rightarrow> Inl (ParseCIDRError r)
        | Some p \<Rightarrow> (case parse_cidrs raws of Inl e \<Rightarrow> Inl e | Inr ps \<Rightarrow> Inr (p # ps))))"

definition NewWebhookDestinationPolicy ::
  "(string \<Rightarrow> string) \<Rightarrow> string list \<Rightarrow> string list \<Rightarrow>
   destination_error + webhook_destination_policy" where
  "NewWebhookDestinationPolicy toLower hosts cidrs =
     (case parse_cidrs cidrs of
        Inl e \<Rightarrow> Inl e
      | Inr ps \<Rightarrow> Inr \<lparr>dp_AllowedHosts = filter (\<lambda>h. h \<noteq> []) (map (\<lambda>h. toLower (TrimSpace h)) hosts),
          dp_AllowedCIDRs = ps\<rparr>)"

definition allowedIP :: "webhook_destination_policy \<Rightarrow> addr \<Rightarrow> bool" where
  "allowedIP p ip0 =
     (let ip = Unmap ip0 in
      (\<exists>px \<in> set (dp_AllowedCIDRs p). Contains px ip) \<or>
      (\<not> IsLoopback ip \<and> \<not> IsLinkLocalUnicast ip \<and> \<not> IsLinkLocalMulticast ip \<and>
       \<not> IsMulticast ip \<and> \<not> IsUnspecified ip \<and> \<not> IsPrivate ip))"

definition TrimSuffixDot :: "string \<Rightarrow> string" where
  "TrimSuffixDot s = (if s \<noteq> [] \<and> last s = CHR ''.'' then butlast s else s)"

definition destination_host :: "(string \<Rightarrow> string) \<Rightarrow> string \<Rightarrow> string" where
  "destination_host toLower host = TrimSuffixDot (toLower (TrimSpace host))"

definition ValidateHost ::
  "(string \<Rightarrow> string) \<Rightarrow> resolver \<Rightarrow> webhook_destination_policy \<Rightarrow> string \<Rightarrow>
   destination_error + addr list" where
  "ValidateHost toLower resolve p host0 =
     (let host = destination_host toLower host0; explicitlyAllowed = host \<in> set (dp_AllowedHosts p) in
      case ParseAddr host of
        Some ip \<Rightarrow>
          if explicitlyAllowed then Inr [Unmap ip]
          else if allowedIP p ip then Inr [ip]
          else Inl (IPNotAllowed ip)
      | None \<Rightarrow>
          (case resolve host of
             Inl msg \<Rightarrow> Inl (ResolveFailed host msg)
           | Inr addresses \<Rightarrow>
               if addresses = [] then Inl (ResolvedToNothing host)
               else if explicitlyAllowed then Inr addresses
               else (case find (\<lambda>a. \<not> allowedIP p a) addresses of
                   Some a \<Rightarrow> Inl (ResolvedDisallowed host a)
                 | None \<Rightarrow> Inr addresses)))"

text \<open>\<open>DialContext\<close> of \<open>newWebhookHTTPClient\<close>: the address and the port that are connected to.\<close>

definition webhook_dial ::
  "(string \<Rightarrow> string) \<Rightarrow> (string \<Rightarrow> string + string \<times> string) \<Rightarrow> resolver \<Rightarrow>
   webhook_destination_policy \<Rightarrow> string \<Rightarrow> destination_error + addr \<times> string" where
  "webhook_dial toLower split resolve p address =
     (case split address of
        Inl msg \<Rightarrow> Inl (SplitFailed msg)
      | Inr (host, port) \<Rightarrow>
          (case ValidateHost toLower resolve p host of
             Inl e \<Rightarrow> Inl e
           | Inr [] \<Rightarrow> Inl (NoIPResolved host)
           | Inr (a # _) \<Rightarrow> Inr (a, port)))"

section \<open>What passes\<close>

text \<open>The addresses that the policy is to keep webhooks from: reserved ones that no configured
  prefix contains.\<close>

definition denied :: "webhook_destination_policy \<Rightarrow> addr \<Rightarrow> bool" where
  "denied p a \<longleftrightarrow> reserved (Unmap a) \<and> (\<forall>px \<in> set (dp_AllowedCIDRs p). \<not> Contains px (Unmap a))"

definition zoned_unspecified :: "addr \<Rightarrow> bool" where
  "zoned_unspecified a = (case a of V6 w z \<Rightarrow> w = 0 \<and> z \<noteq> [] | _ \<Rightarrow> False)"

lemma classification:
  "(IsLoopback a \<or> IsLinkLocalUnicast a \<or> IsLinkLocalMulticast a \<or> IsMulticast a \<or>
    IsUnspecified a \<or> IsPrivate a) \<longleftrightarrow> reserved a \<and> \<not> zoned_unspecified a"
proof (cases a)
  case (V4 w)
  then show ?thesis using v4_classification [of w] by (simp add: zoned_unspecified_def)
next
  case (V6 w z)
  then show ?thesis using v6_classification [of w z] by (simp add: zoned_unspecified_def)
qed (simp add: IsUnspecified_def)

lemma zoned_unspecified_Unmap [simp]: "zoned_unspecified (Unmap a) \<longleftrightarrow> zoned_unspecified a"
  by (cases a) (auto simp: zoned_unspecified_def Unmap_def)

lemma allowedIP_iff: "allowedIP p a \<longleftrightarrow> \<not> denied p a \<or> zoned_unspecified a"
proof -
  have "(\<exists>px \<in> set (dp_AllowedCIDRs p). Contains px (Unmap a)) \<or>
      \<not> (reserved (Unmap a) \<and> \<not> zoned_unspecified (Unmap a)) \<longleftrightarrow> allowedIP p a"
    unfolding allowedIP_def Let_def classification [symmetric] by argo
  then show ?thesis by (auto simp: denied_def)
qed

lemma ValidateHost_checked:
  assumes "ValidateHost toLower resolve p host = Inr as"
    and "destination_host toLower host \<notin> set (dp_AllowedHosts p)"
  shows "as \<noteq> [] \<and> (\<forall>a \<in> set as. allowedIP p a)"
  using assms
  by (auto simp: ValidateHost_def Let_def find_None_iff split: option.splits sum.splits if_splits)

lemma webhook_dial_InrE:
  assumes "webhook_dial toLower split resolve p address = Inr (a, port)"
  obtains host as where "split address = Inr (host, port)"
    "ValidateHost toLower resolve p host = Inr (a # as)"
  using assms by (auto simp: webhook_dial_def split: sum.splits list.splits)

lemma parse_zoned:
  assumes "zone \<noteq> []"
  shows "ParseAddr (''::%'' @ zone) = Some (V6 0 zone)"
  using assms by (simp add: ParseAddr_def parseIPv6_def parse_v6_body_def)

end
