(* ===== verification/Go_Path.thy ===== *)
theory Go_Path
  imports Go_Strconv
begin

text \<open>
  Go's package \<open>path\<close>: the lexical functions on slash-separated paths that artifact storage uses,
  and their effect on paths of proper segments.
\<close>

section \<open>Functions\<close>

text \<open>The loop of \<open>path.Clean\<close> over the segments; the output is kept in reverse.\<close>

fun clean_segs :: "bool \<Rightarrow> string list \<Rightarrow> string list \<Rightarrow> string list" where
  "clean_segs rooted out [] = rev out"
| "clean_segs rooted out (s # ss) =
     (if s = [] \<or> s = ''.'' then clean_segs rooted out ss
      else if s = ''..'' then
        (if out \<noteq> [] \<and> hd out \<noteq> ''..'' then clean_segs rooted (tl out) ss
         else if rooted then clean_segs rooted out ss
         else clean_segs rooted (''..'' # out) ss)
      else clean_segs rooted (s # out) ss)"

definition Clean :: "string \<Rightarrow> string" where
  "Clean p =
     (if p = [] then ''.''
      else (let rooted = (hd p = CHR ''/''); out = clean_segs rooted [] (Split (CHR ''/'') p) in
            if rooted then CHR ''/'' # Join (CHR ''/'') out
            else if out = [] then ''.'' else Join (CHR ''/'') out))"

definition Dir :: "string \<Rightarrow> string" where
  "Dir p = Clean (rev (dropWhile (\<lambda>c. c \<noteq> CHR ''/'') (rev p)))"

definition Base :: "string \<Rightarrow> string" where
  "Base p =
     (if p = [] then ''.''
      else (let q = dropWhile (\<lambda>c. c = CHR ''/'') (rev p);
                b = rev (takeWhile (\<lambda>c. c \<noteq> CHR ''/'') q) in
            if b = [] then ''/'' else b))"

definition path_Join :: "string list \<Rightarrow> string" where
  "path_Join es =
     (case filter (\<lambda>e. e \<noteq> []) es of [] \<Rightarrow> [] | xs \<Rightarrow> Clean (Join (CHR ''/'') xs))"

section \<open>Proper paths\<close>

text \<open>A proper segment names an entry of a directory: it is not empty, not the directory itself
  and not its parent, and has no slash.\<close>

definition proper_segment :: "string \<Rightarrow> bool" where
  "proper_segment s \<longleftrightarrow> s \<noteq> [] \<and> s \<noteq> ''.'' \<and> s \<noteq> ''..'' \<and> CHR ''/'' \<notin> set s"

definition proper_path :: "string \<Rightarrow> bool" where
  "proper_path p \<longleftrightarrow> (\<forall>s \<in> set (Split (CHR ''/'') p). proper_segment s)"

lemma proper_path_not_Nil: "\<not> proper_path []"
  by (simp add: proper_path_def proper_segment_def)

lemma proper_path_Join:
  "ss \<noteq> [] \<Longrightarrow> \<forall>s \<in> set ss. proper_segment s \<Longrightarrow> proper_path (Join (CHR ''/'') ss)"
  by (simp add: proper_path_def Split_Join proper_segment_def)

lemma proper_pathE:
  assumes "proper_path p"
  obtains ss b where "p = Join (CHR ''/'') (ss @ [b])" "\<forall>s \<in> set ss. proper_segment s"
    "proper_segment b"
proof
  let ?ss = "Split (CHR ''/'') p"
  show "p = Join (CHR ''/'') (butlast ?ss @ [last ?ss])"
    by (simp add: Join_Split)
  show "\<forall>s \<in> set (butlast ?ss). proper_segment s"
    using assms by (auto simp: proper_path_def dest: in_set_butlastD)
  show "proper_segment (last ?ss)"
    using assms by (simp add: proper_path_def)
qed

lemma clean_segs_no_parent:
  "''..'' \<notin> set ss \<Longrightarrow>
   clean_segs rooted out ss = rev out @ filter (\<lambda>s. s \<noteq> [] \<and> s \<noteq> ''.'') ss"
  by (induction ss arbitrary: out) auto

lemma clean_segs_proper:
  "\<forall>s \<in> set ss. proper_segment s \<Longrightarrow> clean_segs rooted out ss = rev out @ ss"
  by (induction ss arbitrary: out) (auto simp: proper_segment_def)

lemma hd_Join: "p \<noteq> [] \<Longrightarrow> hd (Join sep (p # ps)) = hd p"
  by (cases ps) auto

lemma Join_not_Nil: "ss \<noteq> [] \<Longrightarrow> \<forall>s \<in> set ss. s \<noteq> [] \<Longrightarrow> Join sep ss \<noteq> []"
  by (cases ss; cases "tl ss") auto

lemma Join_snoc: "ss \<noteq> [] \<Longrightarrow> Join sep (ss @ [b]) = Join sep ss @ sep # b"
proof (induction ss rule: Join.induct)
  case (3 sep p v va)
  then show ?case by simp
qed simp_all

lemma Join_nested:
  "ss \<noteq> [] \<Longrightarrow> ts \<noteq> [] \<Longrightarrow> Join sep (ss @ ts) = Join sep ss @ sep # Join sep ts"
proof (induction ss rule: Join.induct)
  case (2 sep p)
  then show ?case by (cases ts) auto
qed simp_all

lemma proper_hd: "proper_segment s \<Longrightarrow> hd s \<noteq> CHR ''/''"
  by (cases s) (auto simp: proper_segment_def)

lemma hd_Join_proper:
  assumes "ss \<noteq> []" and "\<forall>s \<in> set ss. proper_segment s"
  shows "hd (Join (CHR ''/'') ss) \<noteq> CHR ''/''"
proof (cases ss)
  case (Cons s ts)
  with assms(2) have "proper_segment s" "s \<noteq> []" by (simp_all add: proper_segment_def)
  with Cons show ?thesis by (simp add: hd_Join proper_hd)
qed (use assms(1) in simp)

lemma Clean_proper: "proper_path p \<Longrightarrow> Clean p = p"
proof (erule proper_pathE)
  fix ss b
  assume p: "p = Join (CHR ''/'') (ss @ [b])" and good: "\<forall>s \<in> set ss. proper_segment s" "proper_segment b"
  let ?ss = "ss @ [b]"
  have all: "\<forall>s \<in> set ?ss. proper_segment s" using good by auto
  then have ne: "p \<noteq> []" unfolding p by (intro Join_not_Nil) (auto simp: proper_segment_def)
  have "hd p \<noteq> CHR ''/''"
    unfolding p using all by (intro hd_Join_proper) auto
  moreover have "Split (CHR ''/'') p = ?ss"
    unfolding p using all by (intro Split_Join) (auto simp: proper_segment_def)
  ultimately show "Clean p = p"
    using ne all clean_segs_proper [OF all, of False "[]"] by (simp add: Clean_def p)
qed

lemma Clean_rooted:
  assumes "''..'' \<notin> set (Split (CHR ''/'') name)"
  shows "Clean (CHR ''/'' # name) =
    CHR ''/'' # Join (CHR ''/'') (filter (\<lambda>s. s \<noteq> [] \<and> s \<noteq> ''.'') (Split (CHR ''/'') name))"
  using assms by (simp add: Clean_def clean_segs_no_parent)

lemma Base_proper:
  assumes "proper_segment b"
  shows "Base (Join (CHR ''/'') (ss @ [b])) = b"
proof -
  have b: "b \<noteq> []" and ns: "\<And>c. c \<in> set (rev b) \<Longrightarrow> c \<noteq> CHR ''/''"
    using assms by (auto simp: proper_segment_def)
  have t: "takeWhile (\<lambda>c. c \<noteq> CHR ''/'') (rev b @ x) = rev b @ takeWhile (\<lambda>c. c \<noteq> CHR ''/'') x" for x
    by (rule takeWhile_append2) (rule ns)
  obtain c cs where "rev b = c # cs" "c \<noteq> CHR ''/''"
    using b ns by (cases "rev b") auto
  then have d: "dropWhile (\<lambda>c. c = CHR ''/'') (rev b @ x) = rev b @ x" for x
    by simp
  show ?thesis
  proof (cases "ss = []")
    case True
    with b t [of "[]"] d [of "[]"] show ?thesis by (simp add: Base_def Let_def takeWhile_eq_all_conv [THEN iffD2])
  next
    case False
    with b t d show ?thesis by (simp add: Base_def Let_def Join_snoc)
  qed
qed

lemma Dir_proper:
  assumes "\<forall>s \<in> set ss. proper_segment s" and "proper_segment b"
  shows "Dir (Join (CHR ''/'') (ss @ [b])) = (if ss = [] then ''.'' else Join (CHR ''/'') ss)"
proof -
  have "\<forall>c \<in> set (rev b). c \<noteq> CHR ''/''"
    using assms(2) by (auto simp: proper_segment_def)
  then have d: "dropWhile (\<lambda>c. c \<noteq> CHR ''/'') (rev b @ x) = dropWhile (\<lambda>c. c \<noteq> CHR ''/'') x" for x
    by (intro dropWhile_append2) blast
  show ?thesis
  proof (cases "ss = []")
    case True
    with d [of "[]"] show ?thesis by (simp add: Dir_def Clean_def)
  next
    case False
    let ?q = "Join (CHR ''/'') (ss @ [[]])"
    have "Join (CHR ''/'') ss \<noteq> []"
      using False assms(1) by (intro Join_not_Nil) (auto simp: proper_segment_def)
    then have "hd (Join (CHR ''/'') ss @ [CHR ''/'']) \<noteq> CHR ''/''"
      using hd_Join_proper [OF False assms(1)] by simp
    moreover have "Split (CHR ''/'') ?q = ss @ [[]]"
    proof (rule Split_Join)
      have "\<forall>s \<in> set (ss @ [[]]). CHR ''/'' \<notin> set s"
        using assms(1) by (simp add: proper_segment_def)
      then show "\<And>s. s \<in> set (ss @ [[]]) \<Longrightarrow> CHR ''/'' \<notin> set s" by blast
    qed simp
    moreover have "clean_segs r [] (ss @ [[]]) = ss" for r
    proof -
      have "clean_segs r [] (ss @ [[]]) = filter (\<lambda>s. s \<noteq> [] \<and> s \<noteq> ''.'') (ss @ [[]])"
        using assms(1) by (subst clean_segs_no_parent) (auto simp: proper_segment_def)
      also have "\<dots> = ss"
        using assms(1) by (auto simp: proper_segment_def filter_id_conv)
      finally show ?thesis .
    qed
    ultimately show ?thesis
      using False d by (simp add: Dir_def Join_snoc Clean_def Let_def)
  qed
qed

lemma path_Join_proper:
  assumes "proper_path p" and "proper_path q"
  shows "path_Join [p, q] = p @ ''/'' @ q" and "proper_path (p @ ''/'' @ q)"
proof -
  let ?ps = "Split (CHR ''/'') p" and ?qs = "Split (CHR ''/'') q"
  have eq: "p @ ''/'' @ q = Join (CHR ''/'') (?ps @ ?qs)"
    by (simp add: Join_nested Join_Split)
  show pp: "proper_path (p @ ''/'' @ q)"
    unfolding eq using assms by (intro proper_path_Join) (auto simp: proper_path_def)
  have "p \<noteq> []" "q \<noteq> []"
    using assms proper_path_not_Nil by auto
  with Clean_proper [OF pp] show "path_Join [p, q] = p @ ''/'' @ q"
    by (simp add: path_Join_def)
qed

end
