(* ===== verification/Artifact_Storage.thy ===== *)
theory Artifact_Storage
  imports Go_Path Forge_Store
begin

text \<open>
  internal/storage: artifacts in a local directory or in an S3 bucket. Names are cleaned to
  relative paths; a file is stored under its name with a random token, and its URL leads back to
  it. The parser and printer of \<open>net/url\<close>, the MIME table, the source file and the S3 client are
  arguments. A local root is a list of files and directories, as \<open>os.Root\<close> presents it without
  links; \<open>fault\<close> gives the errors that the system may report for an operation.
\<close>

section \<open>Names\<close>

type_synonym 'a storage_result = "string + 'a"

definition to_slashes :: "string \<Rightarrow> string" where
  "to_slashes s = map (\<lambda>c. if c = CHR 0x5C then CHR ''/'' else c) s"

definition TrimPrefixSlash :: "string \<Rightarrow> string" where
  "TrimPrefixSlash s = (if s \<noteq> [] \<and> hd s = CHR ''/'' then tl s else s)"

definition path_escapes :: string where
  "path_escapes = ''invalid local artifact URL: path escapes artifact root''"

definition cleanArtifactName :: "string \<Rightarrow> string storage_result" where
  "cleanArtifactName name0 =
     (let name = TrimSpace (to_slashes name0) in
      if name = [] then Inl ''invalid local artifact URL: path is required''
      else if ''..'' \<in> set (Split (CHR ''/'') name) then Inl path_escapes
      else
        (let cleaned = Clean (CHR ''/'' # name) in
         if cleaned = ''/'' \<or> prefix ''/../'' cleaned \<or> cleaned = ''/..'' then Inl path_escapes
         else
           (let rel = TrimPrefixSlash cleaned in
            if rel = ''.'' \<or> rel = [] \<or> prefix ''../'' rel then Inl path_escapes else Inr rel)))"

definition uniqueArtifactPath :: "string \<Rightarrow> string \<Rightarrow> string" where
  "uniqueArtifactPath name0 token =
     (let name = Clean name0; dir = Dir name; uniqueBase = token @ ''-'' @ Base name in
      if dir = ''.'' \<or> dir = ''/'' then uniqueBase else path_Join [dir, uniqueBase])"

definition firstNonEmpty :: "string list \<Rightarrow> string" where
  "firstNonEmpty values =
     (case find (\<lambda>v. TrimSpace v \<noteq> []) values of None \<Rightarrow> [] | Some v \<Rightarrow> v)"

text \<open>\<open>filepath.Ext\<close>: the last segment from its last dot on.\<close>

definition Ext :: "string \<Rightarrow> string" where
  "Ext p =
     (let b = takeWhile (\<lambda>c. c \<noteq> CHR ''/'') (rev p) in
      if CHR ''.'' \<in> set b then CHR ''.'' # rev (takeWhile (\<lambda>c. c \<noteq> CHR ''.'') b) else [])"

section \<open>URLs\<close>

record url =
  u_Scheme :: string
  u_Host :: string
  u_Path :: string
  u_EscapedPath :: string
  u_RawQuery :: string
  u_Fragment :: string

text \<open>\<open>url.Parse\<close>, the \<open>String\<close> method on a scheme, a host and a path, and \<open>url.PathUnescape\<close>.\<close>

record url_env =
  ue_Parse :: "string \<Rightarrow> url storage_result"
  ue_String :: "string \<Rightarrow> string \<Rightarrow> string \<Rightarrow> string"
  ue_PathUnescape :: "string \<Rightarrow> string storage_result"

definition LocalRelativePath :: "url_env \<Rightarrow> string \<Rightarrow> string storage_result" where
  "LocalRelativePath ue rawURL =
     and_then (ue_Parse ue (TrimSpace rawURL)) (\<lambda>parsed.
       if u_Scheme parsed \<noteq> ''local'' \<or> u_Host parsed \<noteq> ''artifacts'' \<or>
          u_RawQuery parsed \<noteq> [] \<or> u_Fragment parsed \<noteq> []
       then Inl ''invalid local artifact URL''
       else cleanArtifactName (TrimPrefixSlash (u_Path parsed)))"

definition IsLocalArtifactURL :: "url_env \<Rightarrow> string \<Rightarrow> bool" where
  "IsLocalArtifactURL ue rawURL \<longleftrightarrow> \<not> isl (LocalRelativePath ue rawURL)"

definition localArtifactURL :: "url_env \<Rightarrow> string \<Rightarrow> string" where
  "localArtifactURL ue rel = ue_String ue ''local'' ''artifacts'' (CHR ''/'' # to_slashes rel)"

definition S3ObjectLocation :: "url_env \<Rightarrow> string \<Rightarrow> (string \<times> string) storage_result" where
  "S3ObjectLocation ue rawURL =
     and_then (ue_Parse ue (TrimSpace rawURL)) (\<lambda>parsed.
       if u_Scheme parsed \<noteq> ''s3'' \<or> u_Host parsed = [] \<or>
          u_RawQuery parsed \<noteq> [] \<or> u_Fragment parsed \<noteq> []
       then Inl ''invalid s3 artifact URL''
       else and_then (ue_PathUnescape ue (TrimPrefixSlash (u_EscapedPath parsed))) (\<lambda>key.
         if key = [] then Inl ''invalid s3 artifact URL'' else Inr (u_Host parsed, key)))"

definition IsS3ArtifactURL :: "url_env \<Rightarrow> string \<Rightarrow> bool" where
  "IsS3ArtifactURL ue rawURL \<longleftrightarrow> \<not> isl (S3ObjectLocation ue rawURL)"

definition BackendLocal :: string where "BackendLocal = ''local''"
definition BackendS3 :: string where "BackendS3 = ''s3''"

definition BackendForURL :: "url_env \<Rightarrow> string \<Rightarrow> string" where
  "BackendForURL ue rawURL =
     (if IsLocalArtifactURL ue rawURL then BackendLocal
      else if IsS3ArtifactURL ue rawURL then BackendS3
      else BackendLocal)"

section \<open>The local root\<close>

record root_fs =
  rf_files :: "(string \<times> string) list"
  rf_dirs :: "string list"

record file_info =
  fi_IsDir :: bool
  fi_IsRegular :: bool
  fi_Size :: nat

datatype dir_entry = NoEntry | RegularFile string | Directory

definition root_entry :: "root_fs \<Rightarrow> string \<Rightarrow> dir_entry" where
  "root_entry fs p =
     (case map_of (rf_files fs) p of
        Some content \<Rightarrow> RegularFile content
      | None \<Rightarrow> if p \<in> set (rf_dirs fs) then Directory else NoEntry)"

text \<open>The directories on the way to a path and itself, from the top.\<close>

definition path_prefixes :: "string \<Rightarrow> string list" where
  "path_prefixes p =
     (let ss = Split (CHR ''/'') p in
      map (\<lambda>k. Join (CHR ''/'') (take k ss)) [1..<Suc (length ss)])"

text \<open>\<open>MkdirAll\<close> makes them one by one and stops at a file.\<close>

fun root_mkdir_all :: "string list \<Rightarrow> root_fs \<Rightarrow> string option \<times> root_fs" where
  "root_mkdir_all [] fs = (None, fs)"
| "root_mkdir_all (p # ps) fs =
     (case root_entry fs p of
        RegularFile _ \<Rightarrow> (Some ''not a directory'', fs)
      | Directory \<Rightarrow> root_mkdir_all ps fs
      | NoEntry \<Rightarrow> root_mkdir_all ps (fs\<lparr>rf_dirs := p # rf_dirs fs\<rparr>))"

text \<open>\<open>OpenFile\<close> with \<open>O_EXCL\<close>, and the writing of the content.\<close>

definition root_create :: "string \<Rightarrow> root_fs \<Rightarrow> root_fs storage_result" where
  "root_create p fs =
     (if root_entry fs p = NoEntry then Inr (fs\<lparr>rf_files := (p, []) # rf_files fs\<rparr>)
      else Inl ''file exists'')"

definition root_write :: "string \<Rightarrow> string \<Rightarrow> root_fs \<Rightarrow> root_fs" where
  "root_write p content fs =
     fs\<lparr>rf_files := map (\<lambda>f. if fst f = p then (p, content) else f) (rf_files fs)\<rparr>"

definition root_open :: "string \<Rightarrow> root_fs \<Rightarrow> (file_info \<times> string) storage_result" where
  "root_open p fs =
     (case root_entry fs p of
        NoEntry \<Rightarrow> Inl ''no such file''
      | RegularFile content \<Rightarrow>
          Inr (\<lparr>fi_IsDir = False, fi_IsRegular = True, fi_Size = length content\<rparr>, content)
      | Directory \<Rightarrow> Inr (\<lparr>fi_IsDir = True, fi_IsRegular = False, fi_Size = 0\<rparr>, []))"

definition root_stat :: "string \<Rightarrow> root_fs \<Rightarrow> file_info storage_result" where
  "root_stat p fs = and_then (root_open p fs) (\<lambda>(info, _). Inr info)"

text \<open>A missing entry is not an error for the caller.\<close>

definition root_remove :: "string \<Rightarrow> root_fs \<Rightarrow> root_fs storage_result" where
  "root_remove p fs =
     (case root_entry fs p of
        NoEntry \<Rightarrow> Inr fs
      | RegularFile _ \<Rightarrow> Inr (fs\<lparr>rf_files := filter (\<lambda>f. fst f \<noteq> p) (rf_files fs)\<rparr>)
      | Directory \<Rightarrow>
          if \<exists>q \<in> fst ` set (rf_files fs) \<union> set (rf_dirs fs). prefix (p @ ''/'') q
          then Inl ''directory not empty''
          else Inr (fs\<lparr>rf_dirs := removeAll p (rf_dirs fs)\<rparr>))"

section \<open>Files\<close>

text \<open>What the outside supplies: the source file (its state by name, then its state and content once
  opened), sixteen random bytes, the MIME table, the errors of the system by operation, and the
  part of the content that a failing copy leaves behind.\<close>

record storage_env =
  se_stat :: "string \<Rightarrow> file_info storage_result"
  se_open :: "string \<Rightarrow> (file_info \<times> string) storage_result"
  se_random :: "nat list storage_result"
  se_mime :: "string \<Rightarrow> string"
  se_fault :: "string \<Rightarrow> string option"
  se_partial :: string

record stored_artifact =
  sa_Name :: string
  sa_URL :: string
  sa_StorageBackend :: string
  sa_MimeType :: string
  sa_Size :: nat

record artifact_content =
  ac_Name :: string
  ac_MimeType :: string
  ac_Size :: nat
  ac_Reader :: string

definition requireRegularFile :: "file_info \<Rightarrow> string \<Rightarrow> unit storage_result" where
  "requireRegularFile info subject =
     (if fi_IsRegular info then Inr () else Inl (subject @ '' must be a regular file''))"

definition hex_char_of :: "nat \<Rightarrow> char" where
  "hex_char_of n = (if n < 10 then char_of (48 + n) else char_of (87 + n))"

definition randomPathToken :: "storage_env \<Rightarrow> string storage_result" where
  "randomPathToken env =
     and_then (se_random env) (\<lambda>bytes.
       Inr (concat (map (\<lambda>b. [hex_char_of (b div 16 mod 16), hex_char_of (b mod 16)]) bytes)))"

text \<open>A step of the system, which may report an error instead.\<close>

definition system :: "storage_env \<Rightarrow> string \<Rightarrow> 'a storage_result \<Rightarrow> 'a storage_result" where
  "system env op r = (case se_fault env op of Some msg \<Rightarrow> Inl msg | None \<Rightarrow> r)"

definition mime_type :: "storage_env \<Rightarrow> string \<Rightarrow> string" where
  "mime_type env name =
     (let t = se_mime env (Ext name) in if t = [] then ''application/octet-stream'' else t)"

definition source_info :: "storage_env \<Rightarrow> string \<Rightarrow> file_info storage_result" where
  "source_info env source =
     (if source = [] then Inl ''source path is required''
      else and_then (se_stat env source) (\<lambda>info.
        if fi_IsDir info then Inl ''source artifact must be a file''
        else and_then (requireRegularFile info ''source artifact'') (\<lambda>_. Inr info)))"

text \<open>The clean name of an artifact and the path it is stored under.\<close>

definition artifact_names :: "storage_env \<Rightarrow> string \<Rightarrow> string \<Rightarrow> (string \<times> string) storage_result" where
  "artifact_names env source preferredName =
     and_then (cleanArtifactName (firstNonEmpty [preferredName, Base source])) (\<lambda>name.
     and_then (randomPathToken env) (\<lambda>token. Inr (name, uniqueArtifactPath name token)))"

definition openRoot :: "storage_env \<Rightarrow> string \<Rightarrow> unit storage_result" where
  "openRoot env root =
     (if TrimSpace root = [] then Inl ''artifact root is not configured''
      else system env ''open root'' (Inr ()))"

definition local_source ::
  "storage_env \<Rightarrow> string \<Rightarrow> string \<Rightarrow> (string \<times> string \<times> string) storage_result" where
  "local_source env source preferredName =
     and_then (source_info env source) (\<lambda>_.
     and_then (se_open env source) (\<lambda>(opened, content).
     and_then (requireRegularFile opened ''source artifact'') (\<lambda>_.
     and_then (artifact_names env source preferredName) (\<lambda>(name, rel). Inr (content, name, rel)))))"

definition StoreLocalFile ::
  "url_env \<Rightarrow> storage_env \<Rightarrow> string \<Rightarrow> string \<Rightarrow> string \<Rightarrow> root_fs \<Rightarrow>
   stored_artifact storage_result \<times> root_fs" where
  "StoreLocalFile ue env root sourcePath preferredName fs =
     (case local_source env (TrimSpace sourcePath) preferredName of
        Inl e \<Rightarrow> (Inl e, fs)
      | Inr (content, name, rel) \<Rightarrow>
          if TrimSpace root = [] then (Inl ''artifact root is not configured'', fs)
          else (case and_then (system env ''create root'' (Inr ())) (\<lambda>_. openRoot env root) of
              Inl e \<Rightarrow> (Inl e, fs)
            | Inr _ \<Rightarrow>
                (case (if Dir rel = ''.'' then (None, fs)
                       else case se_fault env ''mkdir'' of Some e \<Rightarrow> (Some e, fs)
                            | None \<Rightarrow> root_mkdir_all (path_prefixes (Dir rel)) fs) of
                   (Some e, fs1) \<Rightarrow> (Inl e, fs1)
                 | (None, fs1) \<Rightarrow>
                     (case system env ''create'' (root_create rel fs1) of
                        Inl e \<Rightarrow> (Inl e, fs1)
                      | Inr fs2 \<Rightarrow>
                          (case se_fault env ''copy'' of
                             Some e \<Rightarrow> (Inl e, root_write rel (se_partial env) fs2)
                           | None \<Rightarrow>
                               (Inr \<lparr>sa_Name = name, sa_URL = localArtifactURL ue rel,
                                  sa_StorageBackend = BackendLocal,
                                  sa_MimeType = mime_type env name, sa_Size = length content\<rparr>,
                                root_write rel content fs2))))))"

definition OpenLocal ::
  "url_env \<Rightarrow> storage_env \<Rightarrow> string \<Rightarrow> artifact \<Rightarrow> root_fs \<Rightarrow> artifact_content storage_result" where
  "OpenLocal ue env root art fs =
     and_then (LocalRelativePath ue (ar_Url art)) (\<lambda>rel.
     and_then (openRoot env root) (\<lambda>_.
     and_then (system env ''stat'' (root_stat rel fs)) (\<lambda>info.
     and_then (requireRegularFile info ''local artifact'') (\<lambda>_.
     and_then (system env ''open'' (root_open rel fs)) (\<lambda>(opened, content).
     and_then (requireRegularFile opened ''local artifact'') (\<lambda>_.
     let name = (if TrimSpace (ar_Name art) = [] then Base rel else TrimSpace (ar_Name art)) in
     Inr \<lparr>ac_Name = name,
          ac_MimeType = (if TrimSpace (ar_MimeType art) = [] then mime_type env name
                         else TrimSpace (ar_MimeType art)),
          ac_Size = fi_Size opened, ac_Reader = content\<rparr>))))))"

definition RemoveLocal ::
  "url_env \<Rightarrow> storage_env \<Rightarrow> string \<Rightarrow> string \<Rightarrow> root_fs \<Rightarrow> unit storage_result \<times> root_fs" where
  "RemoveLocal ue env root rawURL fs =
     (case and_then (LocalRelativePath ue rawURL) (\<lambda>rel.
             and_then (openRoot env root) (\<lambda>_. system env ''remove'' (root_remove rel fs))) of
        Inl e \<Rightarrow> (Inl e, fs)
      | Inr fs' \<Rightarrow> (Inr (), fs'))"

section \<open>The bucket\<close>

record s3_store =
  s3_bucket :: string
  s3_prefix :: string

record s3_object =
  so_ContentType :: "string option"
  so_ContentLength :: "nat option"
  so_Body :: string

definition trim_slashes :: "string \<Rightarrow> string" where
  "trim_slashes s =
     (let strip = dropWhile (\<lambda>c. c = CHR ''/'') in rev (strip (rev (strip s))))"

definition cleanS3Prefix :: "string \<Rightarrow> string storage_result" where
  "cleanS3Prefix raw =
     (let p = trim_slashes (TrimSpace (to_slashes raw)) in
      if p = [] then Inr [] else cleanArtifactName p)"

definition NewS3Store :: "bool \<Rightarrow> string \<Rightarrow> string \<Rightarrow> s3_store storage_result" where
  "NewS3Store hasClient bucket prefixText =
     (if TrimSpace bucket = [] then Inl ''s3 bucket is required''
      else if \<not> hasClient then Inl ''s3 client is required''
      else and_then (cleanS3Prefix prefixText) (\<lambda>p.
        Inr \<lparr>s3_bucket = TrimSpace bucket, s3_prefix = p\<rparr>))"

definition keyInScope :: "s3_store \<Rightarrow> string \<Rightarrow> bool" where
  "keyInScope s key \<longleftrightarrow>
     s3_prefix s = [] \<or> key = s3_prefix s \<or> prefix (s3_prefix s @ ''/'') key"

definition joinS3Key :: "string \<Rightarrow> string \<Rightarrow> string" where
  "joinS3Key p name = (if TrimSpace p = [] then name else path_Join [p, name])"

definition s3ArtifactURL :: "url_env \<Rightarrow> string \<Rightarrow> string \<Rightarrow> string" where
  "s3ArtifactURL ue bucket key = ue_String ue ''s3'' bucket (CHR ''/'' # to_slashes key)"

text \<open>The bucket and the key that a URL names, if the store may touch it.\<close>

definition scoped_location :: "url_env \<Rightarrow> s3_store \<Rightarrow> string \<Rightarrow> (string \<times> string) storage_result" where
  "scoped_location ue s rawURL =
     and_then (S3ObjectLocation ue rawURL) (\<lambda>(bucket, key).
       if bucket \<noteq> s3_bucket s then Inl ''s3 artifact bucket does not match configured bucket''
       else if \<not> keyInScope s key then Inl ''s3 artifact key is outside configured prefix''
       else Inr (bucket, key))"

definition CanOpenURL :: "url_env \<Rightarrow> s3_store \<Rightarrow> string \<Rightarrow> bool" where
  "CanOpenURL ue s rawURL \<longleftrightarrow>
     (case S3ObjectLocation ue rawURL of
        Inl _ \<Rightarrow> False
      | Inr (bucket, key) \<Rightarrow> bucket = s3_bucket s \<and> keyInScope s key)"

definition OpenS3 ::
  "url_env \<Rightarrow> storage_env \<Rightarrow> s3_store \<Rightarrow> (string \<Rightarrow> string \<Rightarrow> s3_object storage_result) \<Rightarrow> artifact \<Rightarrow>
   artifact_content storage_result" where
  "OpenS3 ue env s get art =
     and_then (scoped_location ue s (ar_Url art)) (\<lambda>(bucket, key).
     and_then (get bucket key) (\<lambda>obj.
     let name = (if TrimSpace (ar_Name art) = [] then Base key else TrimSpace (ar_Name art));
         ctype = TrimSpace (case so_ContentType obj of None \<Rightarrow> [] | Some t \<Rightarrow> t) in
     Inr \<lparr>ac_Name = name,
          ac_MimeType = (if TrimSpace (ar_MimeType art) \<noteq> [] then TrimSpace (ar_MimeType art)
                         else if ctype \<noteq> [] then ctype else mime_type env name),
          ac_Size = (case so_ContentLength obj of None \<Rightarrow> 0 | Some n \<Rightarrow> n),
          ac_Reader = so_Body obj\<rparr>))"

text \<open>\<open>put\<close> and \<open>del\<close> are the client's operations on the state of the service.\<close>

definition StoreS3File ::
  "url_env \<Rightarrow> storage_env \<Rightarrow> s3_store \<Rightarrow>
   (string \<Rightarrow> string \<Rightarrow> string \<Rightarrow> nat \<Rightarrow> string \<Rightarrow> 'st \<Rightarrow> string option \<times> 'st) \<Rightarrow> string \<Rightarrow> string \<Rightarrow> 'st \<Rightarrow>
   stored_artifact storage_result \<times> 'st" where
  "StoreS3File ue env s put sourcePath preferredName st =
     (let source = TrimSpace sourcePath in
      case and_then (source_info env source) (\<lambda>info.
             and_then (se_open env source) (\<lambda>(_, content).
             and_then (artifact_names env source preferredName) (\<lambda>(name, rel).
             Inr (info, content, name, joinS3Key (s3_prefix s) rel)))) of
        Inl e \<Rightarrow> (Inl e, st)
      | Inr (info, content, name, key) \<Rightarrow>
          (case put (s3_bucket s) key content (fi_Size info) (mime_type env name) st of
             (Some e, st') \<Rightarrow> (Inl e, st')
           | (None, st') \<Rightarrow>
               (Inr \<lparr>sa_Name = name, sa_URL = s3ArtifactURL ue (s3_bucket s) key,
                  sa_StorageBackend = BackendS3, sa_MimeType = mime_type env name,
                  sa_Size = fi_Size info\<rparr>, st')))"

definition RemoveS3 ::
  "url_env \<Rightarrow> s3_store \<Rightarrow> (string \<Rightarrow> string \<Rightarrow> 'st \<Rightarrow> string option \<times> 'st) \<Rightarrow> string \<Rightarrow> 'st \<Rightarrow>
   unit storage_result \<times> 'st" where
  "RemoveS3 ue s del rawURL st =
     (case scoped_location ue s rawURL of
        Inl e \<Rightarrow> (Inl e, st)
      | Inr (bucket, key) \<Rightarrow>
          (case del bucket key st of
             (Some e, st') \<Rightarrow> (Inl e, st')
           | (None, st') \<Rightarrow> (Inr (), st')))"

section \<open>Names are confined\<close>

definition no_backslash :: "string \<Rightarrow> bool" where
  "no_backslash s \<longleftrightarrow> CHR 0x5C \<notin> set s"

lemma to_slashes_id: "no_backslash s \<Longrightarrow> to_slashes s = s"
  by (auto simp: to_slashes_def no_backslash_def intro: map_idI)

lemma to_slashes_clean [simp]: "no_backslash (to_slashes s)"
  by (auto simp: to_slashes_def no_backslash_def)

lemma Split_subset: "p \<in> set (Split sep s) \<Longrightarrow> set p \<subseteq> set s"
  by (induction s arbitrary: p) (fastforce split: list.splits if_splits)+

lemma set_Join: "set (Join sep ps) \<subseteq> insert sep (\<Union> (set ` set ps))"
  by (induction ps rule: Join.induct) auto

lemma TrimSpace_subset: "set (TrimSpace s) \<subseteq> set s"
proof -
  have "suffix (trimLeft s) s"
    unfolding trimLeft_def by (rule trimSeqs_suffix)
  then show ?thesis
    unfolding TrimSpace_def using trimRight_prefix [of "trimLeft s"]
    by (meson set_mono_prefix set_mono_suffix subset_trans)
qed

lemma cleanArtifactName_InrD:
  assumes "cleanArtifactName name = Inr rel"
  shows "proper_path rel" and "no_backslash rel"
proof -
  let ?n = "TrimSpace (to_slashes name)"
  let ?ss = "filter (\<lambda>s. s \<noteq> [] \<and> s \<noteq> ''.'') (Split (CHR ''/'') ?n)"
  have dots: "''..'' \<notin> set (Split (CHR ''/'') ?n)"
    and rel: "rel = Join (CHR ''/'') ?ss" and ne: "rel \<noteq> []"
    using assms Clean_rooted [of ?n]
    by (auto simp: cleanArtifactName_def Let_def TrimPrefixSlash_def split: if_splits)
  have "\<forall>s \<in> set ?ss. proper_segment s"
    using dots Split_no_sep [of _ "CHR ''/''" ?n] by (auto simp: proper_segment_def)
  moreover have "?ss \<noteq> []"
    using ne rel by (metis Join.simps(1))
  ultimately show "proper_path rel"
    unfolding rel by (rule proper_path_Join [rotated])
  have "set ?n \<subseteq> set (to_slashes name)"
    by (rule TrimSpace_subset)
  then have "CHR 0x5C \<notin> set ?n"
    using to_slashes_clean [of name] by (auto simp: no_backslash_def)
  then have "\<forall>s \<in> set ?ss. CHR 0x5C \<notin> set s"
    using Split_subset [of _ "CHR ''/''" ?n] by auto
  then show "no_backslash rel"
    unfolding rel no_backslash_def using set_Join [of "CHR ''/''" ?ss] by auto
qed

lemma not_proper: "\<not> proper_path ''.''" "\<not> proper_path ''..''" "\<not> proper_path ''/''"
  by (simp_all add: proper_path_def proper_segment_def)

lemma Split_no_parent: "proper_path p \<Longrightarrow> ''..'' \<notin> set (Split (CHR ''/'') p)"
  by (auto simp: proper_path_def proper_segment_def)

text \<open>A proper path that does not begin or end with white space is its own clean name.\<close>

lemma cleanArtifactName_proper:
  assumes "proper_path p" and "no_backslash p" and "TrimSpace p = p"
  shows "cleanArtifactName p = Inr p"
proof -
  have ne: "p \<noteq> []"
    using assms(1) proper_path_not_Nil by auto
  have dots: "''..'' \<notin> set (Split (CHR ''/'') p)"
    using assms(1) by (rule Split_no_parent)
  have "filter (\<lambda>s. s \<noteq> [] \<and> s \<noteq> ''.'') (Split (CHR ''/'') p) = Split (CHR ''/'') p"
    using assms(1) by (auto simp: proper_path_def proper_segment_def filter_id_conv)
  then have clean: "Clean (CHR ''/'' # p) = CHR ''/'' # p"
    using Clean_rooted [OF dots] by (simp add: Join_Split)
  have head: "\<not> prefix ''../'' p"
  proof
    assume "prefix ''../'' p"
    then obtain q where "p = ''..'' @ CHR ''/'' # q" by (auto elim: prefixE)
    then have "Split (CHR ''/'') p = ''..'' # Split (CHR ''/'') q"
      by (simp add: Split_append)
    with dots show False by simp
  qed
  have "p \<noteq> ''..''" "p \<noteq> ''.''"
    using assms(1) not_proper by metis+
  with ne dots head show ?thesis
    by (simp add: cleanArtifactName_def Let_def to_slashes_id [OF assms(2)] assms(3) clean
        TrimPrefixSlash_def)
qed

lemma randomPathToken_chars:
  assumes "randomPathToken env = Inr token"
  shows "\<forall>c \<in> set token. c \<noteq> CHR ''/'' \<and> c \<noteq> CHR 0x5C"
proof -
  have hex: "hex_char_of n \<notin> {CHR ''/'', CHR 0x5C}" if "n < 16" for n
  proof -
    have "n \<in> set [0..<16]" using that by simp
    moreover have "\<forall>n \<in> set [0..<16]. hex_char_of n \<notin> {CHR ''/'', CHR 0x5C}"
      by code_simp
    ultimately show ?thesis by blast
  qed
  obtain bytes where bytes: "token =
      concat (map (\<lambda>b. [hex_char_of (b div 16 mod 16), hex_char_of (b mod 16)]) bytes)"
    using assms by (auto simp: randomPathToken_def result_simps)
  have "c \<notin> {CHR ''/'', CHR 0x5C}" if "c \<in> set token" for c
    using that hex [of "_ div 16 mod 16"] hex [of "_ mod 16"] by (fastforce simp: bytes)
  then show ?thesis by blast
qed

lemma uniqueArtifactPath_proper:
  assumes "proper_path name" and "no_backslash name"
    and token: "\<forall>c \<in> set token. c \<noteq> CHR ''/'' \<and> c \<noteq> CHR 0x5C"
  shows "proper_path (uniqueArtifactPath name token)"
    and "no_backslash (uniqueArtifactPath name token)"
proof -
  obtain ss b where name: "name = Join (CHR ''/'') (ss @ [b])"
    and ss: "\<forall>s \<in> set ss. proper_segment s" and b: "proper_segment b"
    using assms(1) by (rule proper_pathE)
  let ?u = "token @ ''-'' @ b"
  have set_u: "CHR ''-'' \<in> set ?u" "CHR ''/'' \<notin> set ?u"
    using token b by (auto simp: proper_segment_def)
  have differs: "?u \<noteq> s" if "CHR ''-'' \<notin> set s" for s
    using set_u(1) that by metis
  have u: "proper_segment ?u"
    using set_u(2) differs [of "[]"] differs [of "''.''"] differs [of "''..''"]
    by (simp add: proper_segment_def)
  have "proper_path ?u"
    using u set_u(2) by (simp add: proper_path_def Split_single)
  have dir: "ss \<noteq> [] \<Longrightarrow> proper_path (Join (CHR ''/'') ss)"
    using ss by (intro proper_path_Join)
  have not_root: "ss \<noteq> [] \<Longrightarrow> Join (CHR ''/'') ss \<noteq> ''.'' \<and> Join (CHR ''/'') ss \<noteq> ''/''"
    using dir not_proper by metis
  have eq: "uniqueArtifactPath name token = (if ss = [] then ?u else Join (CHR ''/'') ss @ ''/'' @ ?u)"
    using not_root path_Join_proper(1) [OF dir \<open>proper_path ?u\<close>] ss b
    by (simp add: uniqueArtifactPath_def Let_def Clean_proper [OF assms(1)])
      (simp add: name Dir_proper Base_proper Base_proper [of b "[]", simplified])
  show "proper_path (uniqueArtifactPath name token)"
    using \<open>proper_path ?u\<close> path_Join_proper(2) [OF dir \<open>proper_path ?u\<close>] by (auto simp: eq)
  have "set (Join (CHR ''/'') ss) \<union> set b \<subseteq> set name"
    unfolding name by (cases "ss = []") (auto simp: Join_snoc)
  then show "no_backslash (uniqueArtifactPath name token)"
    using assms(2) token by (auto simp: eq no_backslash_def)
qed

lemma artifact_names_proper:
  assumes "artifact_names env source preferred = Inr (name, rel)"
  shows "proper_path rel" and "no_backslash rel"
proof -
  from assms obtain token where c: "cleanArtifactName (firstNonEmpty [preferred, Base source]) = Inr name"
    and t: "randomPathToken env = Inr token" and rel: "rel = uniqueArtifactPath name token"
    by (auto simp: artifact_names_def result_simps)
  note p = uniqueArtifactPath_proper [OF cleanArtifactName_InrD [OF c] randomPathToken_chars [OF t]]
  show "proper_path rel" "no_backslash rel"
    using p by (simp_all add: rel)
qed

section \<open>Storing and opening\<close>

lemma root_mkdir_all_files:
  "rf_files (snd (root_mkdir_all ps fs)) = rf_files fs"
  by (induction ps fs rule: root_mkdir_all.induct) (auto split: dir_entry.splits)

lemma root_create_write:
  assumes "root_create p fs = Inr fs'"
  shows "rf_files (root_write p content fs') = (p, content) # rf_files fs"
    and "root_entry (root_write p content fs') p = RegularFile content"
proof -
  have fs': "fs' = fs\<lparr>rf_files := (p, []) # rf_files fs\<rparr>" and none: "map_of (rf_files fs) p = None"
    using assms by (auto simp: root_create_def root_entry_def split: if_splits option.splits)
  have "map (\<lambda>f. if fst f = p then (p, content) else f) (rf_files fs) = rf_files fs"
    using none by (intro map_idI) (force simp: map_of_eq_None_iff)
  with fs' show "rf_files (root_write p content fs') = (p, content) # rf_files fs"
    by (simp add: root_write_def)
  then show "root_entry (root_write p content fs') p = RegularFile content"
    by (simp add: root_entry_def)
qed

lemma StoreLocalFile_InrD:
  assumes "StoreLocalFile ue env root source preferred fs = (Inr st, fs')"
  obtains content rel where
    "local_source env (TrimSpace source) preferred = Inr (content, sa_Name st, rel)"
    "rf_files fs' = (rel, content) # rf_files fs" "root_entry fs' rel = RegularFile content"
    "rel \<notin> fst ` set (rf_files fs)"
    "sa_URL st = localArtifactURL ue rel" "sa_Size st = length content"
    "TrimSpace root \<noteq> []"
proof -
  from assms obtain content name rel where
    src: "local_source env (TrimSpace source) preferred = Inr (content, name, rel)"
    by (cases "local_source env (TrimSpace source) preferred") (auto simp: StoreLocalFile_def)
  let ?mk = "if Dir rel = ''.'' then (None, fs)
    else case se_fault env ''mkdir'' of Some e \<Rightarrow> (Some e, fs)
         | None \<Rightarrow> root_mkdir_all (path_prefixes (Dir rel)) fs"
  obtain r fs1 where mk: "?mk = (r, fs1)" by (cases ?mk)
  with assms src obtain fs2 where create: "root_create rel fs1 = Inr fs2"
    and st: "st = \<lparr>sa_Name = name, sa_URL = localArtifactURL ue rel,
      sa_StorageBackend = BackendLocal, sa_MimeType = mime_type env name, sa_Size = length content\<rparr>"
    and fs': "fs' = root_write rel content fs2" and "TrimSpace root \<noteq> []"
    by (auto simp: StoreLocalFile_def system_def split: sum.splits option.splits if_splits)
  have "rf_files fs1 = rf_files fs"
    using mk root_mkdir_all_files [of "path_prefixes (Dir rel)" fs]
    by (auto split: if_splits option.splits)
  moreover have "rel \<notin> fst ` set (rf_files fs1)"
    using create by (auto simp: root_create_def root_entry_def map_of_eq_None_iff
        split: if_splits option.splits)
  ultimately show ?thesis
    using root_create_write [OF create, of content] st fs' src \<open>TrimSpace root \<noteq> []\<close> that
    by simp
qed

text \<open>What the URLs rest on: the parser reads back the path that was printed.\<close>

definition local_url_ok :: "url_env \<Rightarrow> string \<Rightarrow> bool" where
  "local_url_ok ue rel \<longleftrightarrow>
     (case ue_Parse ue (TrimSpace (localArtifactURL ue rel)) of
        Inl _ \<Rightarrow> False
      | Inr u \<Rightarrow> u_Scheme u = ''local'' \<and> u_Host u = ''artifacts'' \<and> u_Path u = CHR ''/'' # rel \<and>
          u_RawQuery u = [] \<and> u_Fragment u = [])"

lemma LocalRelativePath_url:
  assumes "local_url_ok ue rel" and "proper_path rel" and "no_backslash rel" and "TrimSpace rel = rel"
  shows "LocalRelativePath ue (localArtifactURL ue rel) = Inr rel"
  using assms(1) cleanArtifactName_proper [OF assms(2-4)]
  by (auto simp: local_url_ok_def LocalRelativePath_def TrimPrefixSlash_def split: sum.splits)

lemma OpenLocal_entry:
  assumes "LocalRelativePath ue (ar_Url art) = Inr rel" and "root_entry fs rel = RegularFile content"
    and "TrimSpace root \<noteq> []" and "se_fault env = (\<lambda>_. None)"
  shows "\<exists>c. OpenLocal ue env root art fs = Inr c \<and> ac_Reader c = content \<and> ac_Size c = length content"
  using assms
  by (simp add: OpenLocal_def openRoot_def system_def root_stat_def root_open_def
      requireRegularFile_def Let_def)

lemma joinS3Key_scope:
  assumes "NewS3Store c bucket pfx = Inr s" and "TrimSpace (s3_prefix s) \<noteq> [] \<or> s3_prefix s = []"
    and "proper_path rel"
  shows "keyInScope s (joinS3Key (s3_prefix s) rel)"
proof (cases "s3_prefix s = []")
  case False
  then have "proper_path (s3_prefix s)"
    using assms(1) cleanArtifactName_InrD(1)
    by (auto simp: NewS3Store_def cleanS3Prefix_def Let_def result_simps split: if_splits)
  from path_Join_proper(1) [OF this assms(3)] show ?thesis
    using False assms(2) by (simp add: keyInScope_def joinS3Key_def)
qed (simp add: keyInScope_def)

end
