(* ===== verification/Boundary_Properties.thy ===== *)
theory Boundary_Properties
  imports Webhook_Policy Artifact_Storage Go_Base64
begin

text \<open>
  Properties of the boundary of the system: where webhooks may be posted to, and where artifacts
  are stored.
\<close>

section \<open>Webhook destinations\<close>

text \<open>C19. Unless its host is on the operator's list, a webhook is connected only to an address
  that is outside all reserved blocks (loopback, link-local, multicast, unspecified, private) or
  inside a configured prefix: whatever the resolver answers, one denied address among the answers
  refuses the connection. The exception is an unspecified address with a zone, which the
  classification does not recognise.\<close>

theorem webhook_egress_denied:
  assumes "webhook_dial toLower split resolve p address = Inr (a, port)"
    and "split address = Inr (host, port)"
    and "destination_host toLower host \<notin> set (dp_AllowedHosts p)"
  shows "\<not> denied p a \<or> zoned_unspecified a"
proof -
  from assms(1,2) obtain as where "ValidateHost toLower resolve p host = Inr (a # as)"
    by (auto elim: webhook_dial_InrE)
  from ValidateHost_checked [OF this assms(3)] show ?thesis
    by (simp add: allowedIP_iff)
qed

definition sample_split :: "string \<Rightarrow> string + string \<times> string" where
  "sample_split s =
     (if CHR '':'' \<in> set s
      then Inr (takeWhile (\<lambda>c. c \<noteq> CHR '':'') s, tl (dropWhile (\<lambda>c. c \<noteq> CHR '':'') s))
      else Inl ''missing port'')"

definition sample_policy :: webhook_destination_policy where
  "sample_policy = \<lparr>dp_AllowedHosts = [''sink''], dp_AllowedCIDRs =
     [\<lparr>px_addr = V4 (10 * 2 ^ 24), px_bits = 8\<rparr>]\<rparr>"

definition sample_resolve :: resolver where
  "sample_resolve host = (if host = ''inner'' then Inr [V4 (10 * 2 ^ 24 + 7)]
     else Inr [V4 (8 * 2 ^ 24), V4 (127 * 2 ^ 24 + 1)])"

theorem webhook_egress_denied_witness:
  "\<not> denied sample_policy (V4 (10 * 2 ^ 24 + 7)) \<and>
   isl (webhook_dial (\<lambda>s. s) sample_split sample_resolve sample_policy ''mixed:80'')"
proof -
  have dial: "webhook_dial (\<lambda>s. s) sample_split sample_resolve sample_policy ''inner:80'' =
      Inr (V4 (10 * 2 ^ 24 + 7), ''80'')"
    by code_simp
  have split: "sample_split ''inner:80'' = Inr (''inner'', ''80'')"
    by code_simp
  have host: "destination_host (\<lambda>s. s) ''inner'' \<notin> set (dp_AllowedHosts sample_policy)"
    by code_simp
  have "\<not> zoned_unspecified (V4 (10 * 2 ^ 24 + 7))"
    by (simp add: zoned_unspecified_def)
  moreover have "isl (webhook_dial (\<lambda>s. s) sample_split sample_resolve sample_policy ''mixed:80'')"
    by code_simp
  ultimately show ?thesis
    using webhook_egress_denied [OF dial split host] by blast
qed

text \<open>The exception is real: the unspecified address with any zone, written in the URL, is
  connected to under every policy, although without the zone it is refused.\<close>

theorem zoned_address_passes:
  assumes "split address = Inr (''::%'' @ zone, port)" and "zone \<noteq> []"
    and "destination_host toLower (''::%'' @ zone) = ''::%'' @ zone"
  shows "webhook_dial toLower split resolve p address = Inr (V6 0 zone, port) \<and>
    reserved (V6 0 zone)"
proof -
  have "zoned_unspecified (V6 0 zone)"
    using assms(2) by (simp add: zoned_unspecified_def)
  then have "allowedIP p (V6 0 zone)"
    by (simp add: allowedIP_iff)
  moreover have "Unmap (V6 0 zone) = V6 0 zone"
    by (simp add: Unmap_def)
  ultimately have "ValidateHost toLower resolve p (''::%'' @ zone) = Inr [V6 0 zone]"
    using parse_zoned [OF assms(2)] assms(3) by (simp add: ValidateHost_def Let_def)
  then show ?thesis
    using assms(1) by (simp add: webhook_dial_def reserved_v6_def in_block_def)
qed

theorem zoned_address_passes_witness:
  "webhook_dial (\<lambda>s. s) (\<lambda>_. Inr (''::%lo'', ''80'')) sample_resolve sample_policy ''[::%lo]:80'' =
     Inr (V6 0 ''lo'', ''80'') \<and>
   isl (webhook_dial (\<lambda>s. s) (\<lambda>_. Inr (''::'', ''80'')) sample_resolve sample_policy ''[::]:80'')"
proof -
  have "destination_host (\<lambda>s. s) (''::%'' @ ''lo'') = ''::%'' @ ''lo''"
    by code_simp
  moreover have "isl (webhook_dial (\<lambda>s. s) (\<lambda>_. Inr (''::'', ''80'')) sample_resolve sample_policy
      ''[::]:80'')"
    by code_simp
  ultimately show ?thesis
    using zoned_address_passes [of "\<lambda>_. Inr (''::%lo'', ''80'')" "''[::%lo]:80''" "''lo''" "''80''"
        "\<lambda>s. s" sample_resolve sample_policy]
    by simp
qed

section \<open>Artifact storage\<close>

text \<open>The objects that belong to an S3 store: those of its bucket whose key is the prefix or lies
  below it. Two clients agree on a store when they treat its objects alike.\<close>

definition store_object :: "s3_store \<Rightarrow> string \<Rightarrow> string \<Rightarrow> bool" where
  "store_object s bucket key \<longleftrightarrow>
     bucket = s3_bucket s \<and>
     (s3_prefix s = [] \<or> key = s3_prefix s \<or> (\<exists>rest. key = s3_prefix s @ ''/'' @ rest))"

definition agree_on :: "s3_store \<Rightarrow> (string \<Rightarrow> string \<Rightarrow> 'r) \<Rightarrow> (string \<Rightarrow> string \<Rightarrow> 'r) \<Rightarrow> bool" where
  "agree_on s f g \<longleftrightarrow> (\<forall>bucket key. store_object s bucket key \<longrightarrow> f bucket key = g bucket key)"

lemma keyInScope_object: "keyInScope s key \<longleftrightarrow> store_object s (s3_bucket s) key"
  by (auto simp: keyInScope_def store_object_def prefix_def)

lemma scoped_location_object:
  "scoped_location ue s rawURL = Inr (bucket, key) \<Longrightarrow> store_object s bucket key"
  by (auto simp: scoped_location_def result_simps keyInScope_object split: if_splits)

lemma stored_key_object:
  assumes "NewS3Store c b p = Inr s" and "TrimSpace (s3_prefix s) = [] \<longrightarrow> s3_prefix s = []"
    and "artifact_names env source preferred = Inr (name, rel)"
  shows "store_object s (s3_bucket s) (joinS3Key (s3_prefix s) rel)"
  unfolding keyInScope_object [symmetric]
  using joinS3Key_scope [OF assms(1) _ artifact_names_proper(1) [OF assms(3)]] assms(2) by blast

text \<open>C20. No artifact leaves its store. On the local side, the path that a URL names and the path
  that a name is stored under consist of proper segments, without \<open>.\<close>, \<open>..\<close>, empty segments or
  backslashes, so that they stay below the local root. On the S3 side, for a store that the
  program has set up, storing, opening and removing depend on and act on the objects of the store
  only: two clients that agree on those cannot be told apart. For storing, the prefix must not
  consist of white space alone, which the program drops from the key although it checks it in
  URLs.\<close>

theorem artifact_paths_confined:
  assumes "NewS3Store c b p = Inr s"
  shows "(LocalRelativePath ue rawURL = Inr rel \<longrightarrow> proper_path rel \<and> no_backslash rel) \<and>
   (artifact_names env source preferred = Inr (name, stored) \<longrightarrow>
      proper_path stored \<and> no_backslash stored) \<and>
   ((TrimSpace (s3_prefix s) = [] \<longrightarrow> s3_prefix s = []) \<and> agree_on s put put' \<longrightarrow>
      StoreS3File ue env s put source preferred st = StoreS3File ue env s put' source preferred st) \<and>
   (agree_on s get get' \<longrightarrow> OpenS3 ue env s get art = OpenS3 ue env s get' art) \<and>
   (agree_on s del del' \<longrightarrow> RemoveS3 ue s del rawURL st = RemoveS3 ue s del' rawURL st)"
proof -
  have "LocalRelativePath ue rawURL = Inr rel \<Longrightarrow> proper_path rel \<and> no_backslash rel"
    using cleanArtifactName_InrD by (auto simp: LocalRelativePath_def result_simps split: if_splits)
  moreover have "StoreS3File ue env s put source preferred st =
      StoreS3File ue env s put' source preferred st"
    if same: "agree_on s put put'" and blank: "TrimSpace (s3_prefix s) = [] \<longrightarrow> s3_prefix s = []"
  proof -
    have "put (s3_bucket s) (joinS3Key (s3_prefix s) rel) =
        put' (s3_bucket s) (joinS3Key (s3_prefix s) rel)"
      if "artifact_names env (TrimSpace source) preferred = Inr (name, rel)" for name rel
      using same stored_key_object [OF assms blank that] by (simp add: agree_on_def)
    then show ?thesis
      by (auto simp: StoreS3File_def Let_def result_simps split: sum.splits)
  qed
  moreover have "OpenS3 ue env s get art = OpenS3 ue env s get' art" if "agree_on s get get'"
    using that scoped_location_object [of ue s "ar_Url art"]
    by (cases "scoped_location ue s (ar_Url art)") (auto simp: OpenS3_def agree_on_def)
  moreover have "RemoveS3 ue s del rawURL st = RemoveS3 ue s del' rawURL st" if "agree_on s del del'"
    using that scoped_location_object [of ue s rawURL]
    by (cases "scoped_location ue s rawURL") (auto simp: RemoveS3_def agree_on_def)
  ultimately show ?thesis
    using artifact_names_proper by blast
qed

text \<open>A prefix of white space alone: the configuration \<open>./ /.\<close> is accepted and cleaned to a blank,
  what the store checks in URLs, but the key of a new object is formed without it.\<close>

theorem blank_prefix_escapes:
  "NewS3Store True ''b'' ''./ /.'' = Inr \<lparr>s3_bucket = ''b'', s3_prefix = '' ''\<rparr> \<and>
   joinS3Key '' '' rel = rel \<and>
   (store_object \<lparr>s3_bucket = ''b'', s3_prefix = '' ''\<rparr> ''b'' rel \<longrightarrow> hd rel = CHR '' '')"
proof -
  have "NewS3Store True ''b'' ''./ /.'' = Inr \<lparr>s3_bucket = ''b'', s3_prefix = '' ''\<rparr>"
    by code_simp
  moreover have "TrimSpace '' '' = []"
    by code_simp
  ultimately show ?thesis
    by (auto simp: joinS3Key_def store_object_def)
qed

text \<open>Printing and parsing of simple URLs, for the witnesses.\<close>

definition sample_url_env :: url_env where
  "sample_url_env =
     \<lparr>ue_Parse = (\<lambda>s.
        let r = drop 3 (dropWhile (\<lambda>c. c \<noteq> CHR '':'') s); path = dropWhile (\<lambda>c. c \<noteq> CHR ''/'') r in
        Inr \<lparr>u_Scheme = takeWhile (\<lambda>c. c \<noteq> CHR '':'') s, u_Host = takeWhile (\<lambda>c. c \<noteq> CHR ''/'') r,
             u_Path = path, u_EscapedPath = path, u_RawQuery = [], u_Fragment = []\<rparr>),
      ue_String = (\<lambda>s h p. s @ ''://'' @ h @ p), ue_PathUnescape = Inr\<rparr>"

definition sample_storage :: storage_env where
  "sample_storage =
     \<lparr>se_stat = (\<lambda>_. Inr \<lparr>fi_IsDir = False, fi_IsRegular = True, fi_Size = 3\<rparr>),
      se_open = (\<lambda>_. Inr (\<lparr>fi_IsDir = False, fi_IsRegular = True, fi_Size = 3\<rparr>, ''abc'')),
      se_random = Inr [1, 171], se_mime = (\<lambda>_. []), se_fault = (\<lambda>_. None), se_partial = []\<rparr>"

definition sample_s3 :: s3_store where
  "sample_s3 = \<lparr>s3_bucket = ''b'', s3_prefix = ''p''\<rparr>"

text \<open>A client that takes every object, and one that takes the objects of the store only.\<close>

definition open_put :: "string \<Rightarrow> string \<Rightarrow> string \<Rightarrow> nat \<Rightarrow> string \<Rightarrow> nat \<Rightarrow> string option \<times> nat" where
  "open_put bucket key content n ty st = (None, st + n)"

definition guarded_put :: "string \<Rightarrow> string \<Rightarrow> string \<Rightarrow> nat \<Rightarrow> string \<Rightarrow> nat \<Rightarrow> string option \<times> nat" where
  "guarded_put bucket key content n ty st =
     (if bucket = ''b'' \<and> (key = ''p'' \<or> take 2 key = ''p/'') then (None, st + n)
      else (Some ''denied'', st))"

theorem artifact_paths_confined_witness:
  "artifact_names sample_storage ''/tmp/x'' ''a//./b.log'' = Inr (''a/b.log'', ''a/01ab-b.log'') \<and>
   proper_path ''a/01ab-b.log'' \<and>
   snd (StoreS3File sample_url_env sample_storage sample_s3 guarded_put ''/tmp/x'' ''a//./b.log'' 4) = 7"
proof -
  have store: "NewS3Store True ''b'' ''/p/'' = Inr sample_s3"
    by code_simp
  have names: "artifact_names sample_storage ''/tmp/x'' ''a//./b.log'' =
      Inr (''a/b.log'', ''a/01ab-b.log'')"
    by code_simp
  have blank: "TrimSpace (s3_prefix sample_s3) = [] \<longrightarrow> s3_prefix sample_s3 = []"
    by code_simp
  have run: "snd (StoreS3File sample_url_env sample_storage sample_s3 open_put
      ''/tmp/x'' ''a//./b.log'' 4) = 7"
    by code_simp
  have agree: "agree_on sample_s3 open_put guarded_put"
    by (auto simp: agree_on_def store_object_def sample_s3_def open_put_def guarded_put_def fun_eq_iff)
  note confined = artifact_paths_confined [OF store]
  have "proper_path ''a/01ab-b.log''"
    using confined [of undefined undefined undefined sample_storage "''/tmp/x''" "''a//./b.log''"
      "''a/b.log''" "''a/01ab-b.log''"] names by metis
  moreover have "StoreS3File sample_url_env sample_storage sample_s3 open_put ''/tmp/x''
      ''a//./b.log'' 4 = StoreS3File sample_url_env sample_storage sample_s3 guarded_put ''/tmp/x''
      ''a//./b.log'' 4"
    by (rule confined [THEN conjunct2, THEN conjunct2, THEN conjunct1, THEN mp,
      OF conjI [OF blank agree]])
  ultimately show ?thesis using names run by simp
qed

text \<open>Storing and opening round trip: a file that was stored is opened again through its URL
  with the same content and size, it is stored under a new name, and no other file changes. The
  new path must not begin or end with white space, as the URL is trimmed when it is read back.\<close>

theorem stored_artifact_opens:
  assumes "StoreLocalFile ue env root source preferred fs = (Inr stored, fs')"
    and "se_fault env = (\<lambda>_. None)" and "ar_Url art = sa_URL stored"
    and "\<forall>rel \<in> fst ` (set (rf_files fs') - set (rf_files fs)). local_url_ok ue rel \<and> TrimSpace rel = rel"
  shows "\<exists>rel content c. rf_files fs' = (rel, content) # rf_files fs \<and>
    OpenLocal ue env root art fs' = Inr c \<and> ac_Reader c = content \<and>
    ac_Size c = sa_Size stored \<and> rel \<notin> fst ` set (rf_files fs)"
proof -
  from assms(1) obtain content rel where
    src: "local_source env (TrimSpace source) preferred = Inr (content, sa_Name stored, rel)"
    and files: "rf_files fs' = (rel, content) # rf_files fs" "root_entry fs' rel = RegularFile content"
    and new: "rel \<notin> fst ` set (rf_files fs)"
    and st: "sa_URL stored = localArtifactURL ue rel" "sa_Size stored = length content"
    and root: "TrimSpace root \<noteq> []"
    by (rule StoreLocalFile_InrD)
  have "artifact_names env (TrimSpace source) preferred = Inr (sa_Name stored, rel)"
    using src by (auto simp: local_source_def result_simps)
  note proper = artifact_names_proper [OF this]
  have "(rel, content) \<notin> set (rf_files fs)"
    using new by (auto simp: image_iff)
  then have "local_url_ok ue rel" "TrimSpace rel = rel"
    using assms(4) files(1) by force+
  from LocalRelativePath_url [OF this(1) proper this(2)]
  have "LocalRelativePath ue (ar_Url art) = Inr rel"
    by (simp add: assms(3) st(1))
  from OpenLocal_entry [OF this files(2) root assms(2)] files(1) st(2) new show ?thesis
    by auto
qed

theorem stored_artifact_opens_witness:
  "\<exists>c. OpenLocal sample_url_env sample_storage ''/root''
      \<lparr>ar_ID = 1, ar_WorkspaceID = 1, ar_ProjectID = 2, ar_TicketID = 3, ar_AttemptID = None,
       ar_Type = ''log'', ar_Role = ''output'', ar_Name = [], ar_Url = ''local://artifacts/a/01ab-b'',
       ar_StorageBackend = ''local'', ar_SizeBytes = 3, ar_MimeType = [], ar_Metadata = JNull,
       ar_CreatedAt = 0\<rparr>
      (snd (StoreLocalFile sample_url_env sample_storage ''/root'' ''/tmp/x'' ''a/b''
         \<lparr>rf_files = [], rf_dirs = []\<rparr>)) = Inr c \<and> ac_Reader c = ''abc''"
proof -
  let ?fs = "\<lparr>rf_files = [], rf_dirs = []\<rparr>"
  let ?x = "StoreLocalFile sample_url_env sample_storage ''/root'' ''/tmp/x'' ''a/b'' ?fs"
  let ?art = "\<lparr>ar_ID = 1, ar_WorkspaceID = 1, ar_ProjectID = 2, ar_TicketID = 3, ar_AttemptID = None,
       ar_Type = ''log'', ar_Role = ''output'', ar_Name = [], ar_Url = ''local://artifacts/a/01ab-b'',
       ar_StorageBackend = ''local'', ar_SizeBytes = 3, ar_MimeType = [], ar_Metadata = JNull,
       ar_CreatedAt = 0\<rparr>"
  have run: "?x = (Inr (projr (fst ?x)), snd ?x)"
    by code_simp
  have faults: "se_fault sample_storage = (\<lambda>_. None)"
    by (simp add: sample_storage_def)
  have url: "ar_Url ?art = sa_URL (projr (fst ?x))"
    by code_simp
  have laws: "\<forall>rel \<in> fst ` (set (rf_files (snd ?x)) - set (rf_files ?fs)).
      local_url_ok sample_url_env rel \<and> TrimSpace rel = rel"
    by code_simp
  have "rf_files (snd ?x) = [(''a/01ab-b'', ''abc'')]"
    by code_simp
  with stored_artifact_opens [OF run faults url laws] show ?thesis by auto
qed

end
