(* ===== verification/Go_Numbers.thy ===== *)
theory Go_Numbers
  imports Forge_Prelude "HOL-Library.Log_Nat"
begin

text \<open>
  Go's numbers where the program computes with them: \<open>int64\<close>, whose arithmetic wraps, and
  \<open>float64\<close>, a rational here. An operation on \<open>float64\<close> is the exact one followed by
  \<open>f64\<close>, which rounds to 53 significant bits, to even in the middle. Subnormal numbers and
  infinities do not occur: what is rounded here is zero or between \<open>2 ^ -100\<close> and \<open>2 ^ 100\<close>.
\<close>

section \<open>Integers\<close>

definition wrap64 :: "int \<Rightarrow> int" where
  "wrap64 n = (n + 2 ^ 63) mod 2 ^ 64 - 2 ^ 63"

lemma wrap64_id: "- (2 ^ 63) \<le> n \<Longrightarrow> n < 2 ^ 63 \<Longrightarrow> wrap64 n = n"
  by (simp add: wrap64_def)

lemma wrap64_range: "- (2 ^ 63) \<le> wrap64 n \<and> wrap64 n < 2 ^ 63"
  using pos_mod_sign [of "2 ^ 64" "n + 2 ^ 63"] pos_mod_bound [of "2 ^ 64" "n + 2 ^ 63"]
  by (simp add: wrap64_def)

section \<open>Rounding to an integer\<close>

definition round_even :: "rat \<Rightarrow> int" where
  "round_even x =
     (let n = \<lfloor>x\<rfloor>; r = x - of_int n in
      if r < 1 / 2 then n else if 1 / 2 < r then n + 1 else if even n then n else n + 1)"

lemma round_even_bounds: "\<lfloor>x\<rfloor> \<le> round_even x \<and> round_even x \<le> \<lfloor>x\<rfloor> + 1"
  by (simp add: round_even_def Let_def)

lemma round_even_of_int [simp]: "round_even (of_int n) = n"
  by (simp add: round_even_def)

lemma round_even_mono:
  assumes "x \<le> y"
  shows "round_even x \<le> round_even y"
proof (cases "\<lfloor>x\<rfloor> = \<lfloor>y\<rfloor>")
  case True
  then show ?thesis using assms by (auto simp: round_even_def Let_def)
next
  case False
  then have "\<lfloor>x\<rfloor> + 1 \<le> \<lfloor>y\<rfloor>" using floor_mono [OF assms] by linarith
  then show ?thesis using round_even_bounds [of x] round_even_bounds [of y] by linarith
qed

section \<open>Rounding to a \<open>float64\<close>\<close>

text \<open>The exponent of a positive number: the number lies between \<open>2 powi e\<close> and twice that.\<close>

definition exponent :: "rat \<Rightarrow> int" where
  "exponent x =
     (case quotient_of x of (p, q) \<Rightarrow>
        let k = int (floorlog 2 (nat p)) - int (floorlog 2 (nat q)) in
        if x < 2 powi k then k - 1 else k)"

definition f64 :: "rat \<Rightarrow> rat" where
  "f64 x =
     (if x = 0 then 0
      else let u = 2 powi (exponent \<bar>x\<bar> - 52) in sgn x * (of_int (round_even (\<bar>x\<bar> / u)) * u))"

lemma exponent_bounds:
  assumes "0 < x"
  shows "2 powi exponent x \<le> x" and "x < 2 powi (exponent x + 1)"
proof -
  obtain p q where pq: "quotient_of x = (p, q)" by fastforce
  have q: "0 < q" and x: "x = of_int p / of_int q"
    using pq quotient_of_denom_pos quotient_of_div by blast+
  with assms have p: "0 < p" by (simp add: zero_less_divide_iff)
  define a where "a = floorlog 2 (nat p)"
  define b where "b = floorlog 2 (nat q)"
  have bound: "2 powi (int (floorlog 2 (nat n)) - 1) \<le> (of_int n :: rat) \<and>
      (of_int n :: rat) < 2 powi int (floorlog 2 (nat n))" if "0 < n" for n
  proof -
    have ge: "1 \<le> floorlog 2 (nat n)" using that by (simp add: floorlog_def)
    have "2 ^ (floorlog 2 (nat n) - 1) \<le> nat n \<and> nat n < 2 ^ floorlog 2 (nat n)"
      using that floorlog_bounds [of "nat n" 2] by simp
    then have "(2::int) ^ (floorlog 2 (nat n) - 1) \<le> n \<and> n < 2 ^ floorlog 2 (nat n)"
      using that by (metis int_nat_eq less_imp_le of_nat_le_iff of_nat_less_iff of_nat_numeral of_nat_power)
    then have "(of_int (2 ^ (floorlog 2 (nat n) - 1)) :: rat) \<le> of_int n \<and>
        (of_int n :: rat) < of_int (2 ^ floorlog 2 (nat n))"
      unfolding of_int_le_iff of_int_less_iff .
    with ge show ?thesis
      by (simp add: power_int_def nat_diff_distrib)
  qed
  from bound [OF p] bound [OF q]
  have pb: "2 powi (int a - 1) \<le> (of_int p :: rat)" "(of_int p :: rat) < 2 powi int a"
    and qb: "2 powi (int b - 1) \<le> (of_int q :: rat)" "(of_int q :: rat) < 2 powi int b"
    by (simp_all add: a_def b_def)
  have split: "(2 :: rat) powi (m + n) = 2 powi m * 2 powi n" for m n :: int
    by (simp add: power_int_add)
  have pos: "(0 :: rat) < 2 powi m" for m :: int by simp
  have qr: "(0 :: rat) < of_int q" using q by simp
  have "2 powi (int a - int b - 1) \<le> x"
  proof -
    have "2 powi (int a - int b - 1) * (of_int q :: rat) \<le> 2 powi (int a - int b - 1) * 2 powi int b"
      by (intro mult_left_mono less_imp_le [OF qb(2)] less_imp_le [OF pos])
    also have "\<dots> = 2 powi (int a - 1)" using split [of "int a - int b - 1" "int b"] by simp
    also have "\<dots> \<le> of_int p" by (rule pb)
    finally show ?thesis using qr by (simp add: x pos_le_divide_eq)
  qed
  moreover have "x < 2 powi (int a - int b + 1)"
  proof -
    have "of_int p < (2 :: rat) powi int a" by (rule pb)
    also have "\<dots> = 2 powi (int a - int b + 1) * 2 powi (int b - 1)"
      using split [of "int a - int b + 1" "int b - 1"] by simp
    also have "\<dots> \<le> 2 powi (int a - int b + 1) * of_int q"
      by (intro mult_left_mono qb(1) less_imp_le [OF pos])
    finally show ?thesis using qr by (simp add: x pos_divide_less_eq)
  qed
  ultimately show "2 powi exponent x \<le> x" and "x < 2 powi (exponent x + 1)"
    by (simp_all add: exponent_def pq Let_def a_def b_def)
qed

text \<open>Rounding stays within the two powers of two around a number.\<close>

lemma f64_pos:
  assumes "0 < x"
  shows "2 powi exponent x \<le> f64 x \<and> f64 x \<le> 2 powi (exponent x + 1)"
proof -
  define e where "e = exponent x"
  define u :: rat where "u = 2 powi (e - 52)"
  have u: "0 < u" by (simp add: u_def)
  have split: "(2 :: rat) powi (m + n) = 2 powi m * 2 powi n" for m n :: int
    by (simp add: power_int_add)
  have lo: "2 powi e = of_int (2 ^ 52) * u" and hi: "2 powi (e + 1) = of_int (2 ^ 53) * u"
    unfolding u_def using split [of 52 "e - 52"] split [of 53 "e - 52"]
    by (simp_all add: add.commute)
  have "of_int (2 ^ 52) \<le> x / u" and "x / u \<le> of_int (2 ^ 53)"
    using exponent_bounds [OF assms] u lo hi
    by (simp_all add: e_def [symmetric] pos_le_divide_eq pos_divide_le_eq)
  then have "2 ^ 52 \<le> round_even (x / u)" and "round_even (x / u) \<le> 2 ^ 53"
    using round_even_mono round_even_of_int by metis+
  then have "(of_int (2 ^ 52) :: rat) \<le> of_int (round_even (x / u))"
    and "(of_int (round_even (x / u)) :: rat) \<le> of_int (2 ^ 53)"
    unfolding of_int_le_iff .
  then have "of_int (2 ^ 52) * u \<le> of_int (round_even (x / u)) * u"
    and "of_int (round_even (x / u)) * u \<le> of_int (2 ^ 53) * u"
    using u by (simp_all add: mult_le_cancel_right)
  moreover have "f64 x = of_int (round_even (x / u)) * u"
    using assms by (simp add: f64_def Let_def u_def e_def)
  ultimately show ?thesis by (simp add: lo hi flip: e_def)
qed

lemma f64_zero [simp]: "f64 0 = 0"
  by (simp add: f64_def)

lemma f64_nonneg: "0 \<le> x \<Longrightarrow> 0 \<le> f64 x"
proof (cases "x = 0")
  case False
  moreover assume "0 \<le> x"
  ultimately have "2 powi exponent x \<le> f64 x" using f64_pos [of x] by simp
  moreover have "(0 :: rat) < 2 powi exponent x" by simp
  ultimately show ?thesis by linarith
qed simp

lemma f64_mono:
  assumes "0 \<le> x" and "x \<le> y"
  shows "f64 x \<le> f64 y"
proof (cases "x = 0")
  case True
  then show ?thesis using assms f64_nonneg by simp
next
  case False
  with assms have x: "0 < x" and y: "0 < y" by simp_all
  consider "exponent x = exponent y" | "exponent x < exponent y" | "exponent y < exponent x"
    by linarith
  then show ?thesis
  proof cases
    case 1
    define u :: rat where "u = 2 powi (exponent y - 52)"
    have u: "0 < u" by (simp add: u_def)
    then have "round_even (x / u) \<le> round_even (y / u)"
      using assms(2) by (intro round_even_mono) (simp add: divide_right_mono)
    then have "of_int (round_even (x / u)) * u \<le> of_int (round_even (y / u)) * u"
      using u by (simp add: mult_le_cancel_right)
    then show ?thesis using x y 1 by (simp add: f64_def Let_def u_def)
  next
    case 2
    then have "(2 :: rat) powi (exponent x + 1) \<le> 2 powi exponent y"
      by (intro power_int_increasing) simp_all
    then show ?thesis using f64_pos [OF x] f64_pos [OF y] by linarith
  next
    case 3
    then have "(2 :: rat) powi (exponent y + 1) \<le> 2 powi exponent x"
      by (intro power_int_increasing) simp_all
    then show ?thesis using exponent_bounds [OF x] exponent_bounds [OF y] assms(2) by linarith
  qed
qed

lemma f64_one [simp]: "f64 1 = 1"
  by (simp add: f64_def exponent_def Let_def quotient_of_int floorlog_def power_int_minus
      round_even_def)

lemma f64_ratio_le_one:
  assumes "0 \<le> n" and "n \<le> m"
  shows "0 \<le> f64 (f64 n / f64 m) \<and> f64 (f64 n / f64 m) \<le> 1"
proof -
  have "0 \<le> f64 n" and "f64 n \<le> f64 m" using assms f64_nonneg f64_mono by blast+
  then have "0 \<le> f64 n / f64 m" and "f64 n / f64 m \<le> 1"
    by (auto intro: divide_nonneg_nonneg simp: divide_le_eq_1)
  then show ?thesis using f64_nonneg f64_mono [of "f64 n / f64 m" 1] by simp
qed

end
