(* ===== verification/Web_Auth.thy ===== *)
theory Web_Auth
  imports Artifact_Storage Go_Numbers
begin

text \<open>
  The access control of internal/web/handler.go: the operator token, the sessions of the human
  web interface and their signature, the throttle of the login form, and the checks of the
  origin. SHA-256, HMAC, the URL functions, Unicode case folding, \<open>UUID.Scan\<close> and the
  clock are fields of \<open>web_env\<close>.
\<close>

section \<open>Strings\<close>

text \<open>\<open>strings.Fields\<close>, and \<open>strings.Cut\<close> at a byte.\<close>

function fields_from :: "string \<Rightarrow> string \<Rightarrow> string list" where
  "fields_from w s =
     (case stripAny spaceSeqs s of
        Some r \<Rightarrow> (if w = [] then fields_from [] r else rev w # fields_from [] r)
      | None \<Rightarrow>
          (case s of [] \<Rightarrow> (if w = [] then [] else [rev w])
           | c # cs \<Rightarrow> fields_from (c # w) cs))"
  by pat_completeness auto
termination
  by (relation "measure (\<lambda>(w, s). length s)") (auto dest: stripAny_shorter)

declare fields_from.simps [simp del]

definition Fields :: "string \<Rightarrow> string list" where
  "Fields s = fields_from [] s"

definition Cut :: "char \<Rightarrow> string \<Rightarrow> (string \<times> string) option" where
  "Cut sep s =
     (if sep \<in> set s
      then Some (takeWhile (\<lambda>c. c \<noteq> sep) s, tl (dropWhile (\<lambda>c. c \<noteq> sep) s)) else None)"

lemma Cut_append: "sep \<notin> set p \<Longrightarrow> Cut sep (p @ sep # s) = Some (p, s)"
  by (induction p) (auto simp: Cut_def)

section \<open>Time\<close>

text \<open>A \<open>timestamp\<close> counts nanoseconds from 1970. \<open>time.Time{}\<close> is the start of year 1, and
  \<open>Time.Sub\<close> saturates at the bounds of \<open>time.Duration\<close>. \<open>time.Unix(s, 0)\<close> and \<open>Time.Unix()\<close>
  convert to and from seconds with the wrap-around of \<open>int64\<close>.\<close>

definition zero_time :: timestamp where
  "zero_time = -62135596800 * second"

definition time_Sub :: "timestamp \<Rightarrow> timestamp \<Rightarrow> duration" where
  "time_Sub t u = max (- (2 ^ 63)) (min (2 ^ 63 - 1) (t - u))"

definition unix_time :: "int \<Rightarrow> timestamp" where
  "unix_time s = (wrap64 (s + 62135596800) - 62135596800) * second"

definition time_Unix :: "timestamp \<Rightarrow> int" where
  "time_Unix t = wrap64 (t div second)"

section \<open>The throttle of the login form\<close>

record login_throttle =
  lt_windowStart :: timestamp
  lt_failures :: int

definition loginFailureLimit :: int where "loginFailureLimit = 10"
definition loginFailureWindow :: duration where "loginFailureWindow = minute"

definition new_throttle :: login_throttle where
  "new_throttle = \<lparr>lt_windowStart = zero_time, lt_failures = 0\<rparr>"

definition rollWindow :: "timestamp \<Rightarrow> login_throttle \<Rightarrow> login_throttle" where
  "rollWindow now t =
     (if loginFailureWindow \<le> time_Sub now (lt_windowStart t)
      then \<lparr>lt_windowStart = now, lt_failures = 0\<rparr> else t)"

definition overLimit :: "timestamp \<Rightarrow> login_throttle \<Rightarrow> bool \<times> login_throttle" where
  "overLimit now t0 =
     (let t = rollWindow now t0 in (loginFailureLimit \<le> lt_failures t, t))"

definition recordFailure :: "timestamp \<Rightarrow> login_throttle \<Rightarrow> login_throttle" where
  "recordFailure now t0 =
     (let t = rollWindow now t0 in t\<lparr>lt_failures := lt_failures t + 1\<rparr>)"

section \<open>Requests and responses\<close>

text \<open>What the handlers read of a request. \<open>rq_Form\<close> is \<open>r.Form\<close> after \<open>ParseForm\<close>, which may have
  failed; \<open>Get\<close> and \<open>FormValue\<close> return the first value of a key, or the empty string.\<close>

record request =
  rq_Method :: string
  rq_Path :: string
  rq_RequestURI :: string
  rq_Host :: string
  rq_Authorization :: string
  rq_AdminToken :: string
  rq_Origin :: string
  rq_Cookies :: "(string \<times> string) list"
  rq_Query :: "(string \<times> string) list"
  rq_Form :: "(string \<times> string) list"
  rq_FormError :: bool

definition first_value :: "(string \<times> string) list \<Rightarrow> string \<Rightarrow> string" where
  "first_value kvs k = (case map_of kvs k of None \<Rightarrow> [] | Some v \<Rightarrow> v)"

abbreviation query_Get :: "request \<Rightarrow> string \<Rightarrow> string" where
  "query_Get r \<equiv> first_value (rq_Query r)"

abbreviation FormValue :: "request \<Rightarrow> string \<Rightarrow> string" where
  "FormValue r \<equiv> first_value (rq_Form r)"

record web_env =
  we_sha256 :: "string \<Rightarrow> string"
  we_hmac :: "string \<Rightarrow> string \<Rightarrow> string"
  we_fold :: "string \<Rightarrow> string"
  we_url :: url_env
  we_QueryEscape :: "string \<Rightarrow> string"
  we_scan :: "string \<Rightarrow> uuid option"
  we_now :: timestamp
  we_issued :: timestamp

text \<open>The responses; \<open>'p\<close> is the type of the pages. The cookie of a session carries its value,
  expiry and the flag that restricts it to HTTPS.\<close>

datatype 'p response =
    Asset string
  | Redirect string
  | SessionStarted string timestamp bool string
  | SessionCleared bool string
  | NotFound
  | MethodNotAllowed "string list" string
  | Status nat string string
  | LoginRequired
  | LoginPage nat string string
  | Page nat 'p

definition EqualFold :: "web_env \<Rightarrow> string \<Rightarrow> string \<Rightarrow> bool" where
  "EqualFold we a b \<longleftrightarrow> we_fold we a = we_fold we b"

section \<open>Tokens and sessions\<close>

definition constantTimeTokenEqual :: "web_env \<Rightarrow> string \<Rightarrow> string \<Rightarrow> bool" where
  "constantTimeTokenEqual we got0 want0 =
     (let got = TrimSpace got0; want = TrimSpace want0 in
      if got = [] \<or> want = [] then False else we_sha256 we got = we_sha256 we want)"

definition bearerToken :: "web_env \<Rightarrow> string \<Rightarrow> string" where
  "bearerToken we v =
     (case Fields v of
        [scheme, token] \<Rightarrow> (if \<not> EqualFold we scheme ''Bearer'' then [] else token)
      | _ \<Rightarrow> [])"

definition sanitizeNext :: "string \<Rightarrow> string" where
  "sanitizeNext v =
     (if TrimSpace v = [] \<or> \<not> prefix ''/'' v \<or> prefix ''//'' v then ''/workspaces'' else v)"

definition unsafeMethod :: "string \<Rightarrow> bool" where
  "unsafeMethod m \<longleftrightarrow> m \<noteq> ''GET'' \<and> m \<noteq> ''HEAD'' \<and> m \<noteq> ''OPTIONS''"

definition sameOrigin :: "web_env \<Rightarrow> request \<Rightarrow> bool" where
  "sameOrigin we r =
     (let origin = TrimSpace (rq_Origin r) in
      if origin = [] then False
      else (case ue_Parse (we_url we) origin of
          Inl _ \<Rightarrow> False
        | Inr parsed \<Rightarrow> u_Host parsed \<noteq> [] \<and> EqualFold we (u_Host parsed) (rq_Host r)))"

record auth_options =
  ao_AdminToken :: string
  ao_CookieName :: string
  ao_SecureCookie :: bool
  ao_SessionTTL :: duration

definition defaultSessionCookieName :: string where
  "defaultSessionCookieName = ''forge_admin_session''"

definition cookieName :: "auth_options \<Rightarrow> string" where
  "cookieName a = (if ao_CookieName a = [] then defaultSessionCookieName else ao_CookieName a)"

definition sessionTTL :: "auth_options \<Rightarrow> duration" where
  "sessionTTL a = (if ao_SessionTTL a \<le> 0 then 8 * hour else ao_SessionTTL a)"

definition normalized :: "auth_options \<Rightarrow> auth_options" where
  "normalized a =
     a\<lparr>ao_AdminToken := TrimSpace (ao_AdminToken a),
       ao_CookieName :=
         (if ao_CookieName a = [] then defaultSessionCookieName else ao_CookieName a),
       ao_SessionTTL := (if ao_SessionTTL a \<le> 0 then 8 * hour else ao_SessionTTL a)\<rparr>"

definition auth_enabled :: "auth_options \<Rightarrow> bool" where
  "auth_enabled a \<longleftrightarrow> TrimSpace (ao_AdminToken a) \<noteq> []"

definition ValidAdminToken :: "web_env \<Rightarrow> auth_options \<Rightarrow> string \<Rightarrow> bool" where
  "ValidAdminToken we a token = constantTimeTokenEqual we token (ao_AdminToken (normalized a))"

definition hex_encode :: "string \<Rightarrow> string" where
  "hex_encode bytes =
     concat (map (\<lambda>c. [hex_char_of (of_char c div 16), hex_char_of (of_char c mod 16)]) bytes)"

definition sessionValue :: "web_env \<Rightarrow> auth_options \<Rightarrow> timestamp \<Rightarrow> string" where
  "sessionValue we a expiresAt =
     (let expiresUnix = FormatInt (time_Unix expiresAt);
          mac = we_hmac we (ao_AdminToken a) (''forge-human-session-v1|'' @ expiresUnix) in
      expiresUnix @ ''.'' @ hex_encode mac)"

definition validSessionValue :: "web_env \<Rightarrow> auth_options \<Rightarrow> string \<Rightarrow> bool" where
  "validSessionValue we a v =
     (case Cut (CHR ''.'') (TrimSpace v) of
        None \<Rightarrow> False
      | Some (expiresText, sig) \<Rightarrow>
          if expiresText = [] \<or> sig = [] then False
          else (case ParseInt expiresText of
              None \<Rightarrow> False
            | Some expiresUnix \<Rightarrow>
                let expiresAt = unix_time expiresUnix in
                if \<not> we_now we < expiresAt then False
                else constantTimeTokenEqual we v (sessionValue we a expiresAt)))"

definition isCookieAuthorized :: "web_env \<Rightarrow> auth_options \<Rightarrow> request \<Rightarrow> bool" where
  "isCookieAuthorized we a r =
     (case map_of (rq_Cookies r) (cookieName a) of
        None \<Rightarrow> False | Some v \<Rightarrow> validSessionValue we a v)"

definition isAuthorized :: "web_env \<Rightarrow> auth_options \<Rightarrow> request \<Rightarrow> bool" where
  "isAuthorized we a r =
     (if ValidAdminToken we a (bearerToken we (rq_Authorization r)) then True
      else if ValidAdminToken we a (rq_AdminToken r) then True
      else isCookieAuthorized we a r)"

definition requireLogin :: "web_env \<Rightarrow> request \<Rightarrow> 'p response" where
  "requireLogin we r =
     (if rq_Method r = ''GET''
      then Redirect (''/login?next='' @ we_QueryEscape we (rq_RequestURI r)) else LoginRequired)"

text \<open>\<open>RequireAdminToken\<close>: \<open>serve\<close> is what the next handler makes of a request; \<open>None\<close> is the
  response 401.\<close>

definition RequireAdminToken ::
  "web_env \<Rightarrow> auth_options \<Rightarrow> (request \<Rightarrow> 's \<Rightarrow> 'r \<times> 's) \<Rightarrow> request \<Rightarrow> 's \<Rightarrow> 'r option \<times> 's" where
  "RequireAdminToken we auth serve r s =
     (let a = normalized auth in
      if \<not> auth_enabled a then apfst Some (serve r s)
      else if ValidAdminToken we a (bearerToken we (rq_Authorization r)) \<or>
              ValidAdminToken we a (rq_AdminToken r) then apfst Some (serve r s)
      else (None, s))"

section \<open>Login and logout\<close>

definition handleLogout :: "web_env \<Rightarrow> auth_options \<Rightarrow> request \<Rightarrow> 'p response" where
  "handleLogout we a r =
     (if rq_Method r \<noteq> ''POST'' then MethodNotAllowed [''POST''] ''Logout accepts POST requests.''
      else if \<not> isAuthorized we a r then requireLogin we r
      else SessionCleared (ao_SecureCookie a) ''/login'')"

definition handleLogin ::
  "web_env \<Rightarrow> auth_options \<Rightarrow> request \<Rightarrow> login_throttle \<Rightarrow> 'p response \<times> login_throttle" where
  "handleLogin we a r t0 =
     (if rq_Method r = ''GET''
      then (LoginPage 200 (sanitizeNext (query_Get r ''next'')) [], t0)
      else if rq_Method r = ''POST'' then
        (if rq_FormError r
         then (LoginPage 400 (sanitizeNext (FormValue r ''next'')) ''Unable to read login form.'', t0)
         else
           (let next = sanitizeNext (FormValue r ''next''); (over, t) = overLimit (we_now we) t0 in
            if over
            then (LoginPage 429 next ''Too many failed login attempts. Try again shortly.'', t)
            else if \<not> constantTimeTokenEqual we (FormValue r ''admin_token'') (ao_AdminToken a)
            then (LoginPage 401 next ''Invalid admin token.'', recordFailure (we_now we) t)
            else (let expiresAt = we_issued we + sessionTTL a in
                  (SessionStarted (sessionValue we a expiresAt) expiresAt (ao_SecureCookie a) next,
                   t))))
      else (MethodNotAllowed [''GET'', ''POST''] ''Login accepts GET and POST requests.'', t0))"

section \<open>The throttle bounds the guesses\<close>

definition rejected :: "'p response \<Rightarrow> bool" where
  "rejected resp = (case resp of LoginPage code _ _ \<Rightarrow> code = 401 | _ \<Rightarrow> False)"

text \<open>The answers to a sequence of login requests, each with the time it is handled at.\<close>

fun login_responses ::
  "auth_options \<Rightarrow> (web_env \<times> request) list \<Rightarrow> login_throttle \<Rightarrow> (timestamp \<times> 'p response) list" where
  "login_responses a [] t = []"
| "login_responses a ((we, r) # xs) t =
     (let (resp, t') = handleLogin we a r t in (we_now we, resp) # login_responses a xs t')"

lemma rollWindow_cases:
  "rollWindow now t = (if lt_windowStart t + loginFailureWindow \<le> now
     then \<lparr>lt_windowStart = now, lt_failures = 0\<rparr> else t)"
  by (auto simp: rollWindow_def time_Sub_def loginFailureWindow_def)

lemma rollWindow_idem [simp]: "rollWindow now (rollWindow now t) = rollWindow now t"
  by (simp add: rollWindow_cases loginFailureWindow_def)

lemma handleLogin_cases:
  assumes "handleLogin we a r t = (resp, t')"
  obtains (quiet) "\<not> rejected resp" "t' = t \<or> t' = rollWindow (we_now we) t"
  | (counted) "rejected resp" "lt_failures (rollWindow (we_now we) t) < loginFailureLimit"
      "t' = (rollWindow (we_now we) t)\<lparr>lt_failures := lt_failures (rollWindow (we_now we) t) + 1\<rparr>"
proof (cases "rq_Method r = ''POST'' \<and> \<not> rq_FormError r")
  case False
  then have "\<not> rejected resp" "t' = t"
    using assms by (auto simp: handleLogin_def rejected_def split: if_splits)
  then show ?thesis by (simp add: quiet)
next
  case True
  let ?t = "rollWindow (we_now we) t"
  let ?ok = "constantTimeTokenEqual we (FormValue r ''admin_token'') (ao_AdminToken a)"
  consider "loginFailureLimit \<le> lt_failures ?t" | "lt_failures ?t < loginFailureLimit" "?ok"
    | "lt_failures ?t < loginFailureLimit" "\<not> ?ok"
    by linarith
  then show ?thesis
  proof cases
    case 3
    then have "rejected resp" "t' = ?t\<lparr>lt_failures := lt_failures ?t + 1\<rparr>"
      using assms True
      by (auto simp: handleLogin_def overLimit_def recordFailure_def Let_def rejected_def)
    with 3 show ?thesis by (intro counted)
  qed (use assms True in \<open>auto simp: handleLogin_def overLimit_def Let_def rejected_def intro!: quiet\<close>)
qed

abbreviation rejected_before :: "timestamp \<Rightarrow> (timestamp \<times> 'p response) list \<Rightarrow> nat" where
  "rejected_before e rs \<equiv> length (filter (\<lambda>(t, resp). rejected resp \<and> t < e) rs)"

abbreviation login_times :: "(web_env \<times> request) list \<Rightarrow> timestamp list" where
  "login_times xs \<equiv> map (\<lambda>x. we_now (fst x)) xs"

lemma times_login_responses: "map fst (login_responses a xs t) = login_times xs"
  by (induction xs arbitrary: t) (auto split: prod.splits)

lemma rejected_before_late:
  assumes "\<And>x. x \<in> set xs \<Longrightarrow> e \<le> we_now (fst x)"
  shows "rejected_before e (login_responses a xs t :: (timestamp \<times> 'p response) list) = 0"
proof -
  have "e \<le> fst p" if "p \<in> set (login_responses a xs t)" for p :: "timestamp \<times> 'p response"
  proof -
    from that have "fst p \<in> set (map fst (login_responses a xs t :: (timestamp \<times> 'p response) list))"
      by simp
    then have "fst p \<in> set (login_times xs)" by (simp only: times_login_responses)
    then show ?thesis using assms by auto
  qed
  then show ?thesis by (fastforce simp: filter_empty_conv)
qed

lemma rejected_in_window:
  assumes "sorted (login_times xs)" and "e \<le> lt_windowStart t + loginFailureWindow"
    and "0 \<le> lt_failures t"
  shows "int (rejected_before e (login_responses a xs t :: (timestamp \<times> 'p response) list)) \<le>
    max 0 (loginFailureLimit - lt_failures t)"
  using assms
proof (induction xs arbitrary: t)
  case (Cons x xs)
  obtain we r where x: "x = (we, r)" by fastforce
  obtain resp :: "'p response" and t' where h: "handleLogin we a r t = (resp, t')" by fastforce
  show ?case
  proof (cases "lt_windowStart t + loginFailureWindow \<le> we_now we")
    case True
    then have "e \<le> we_now (fst y)" if "y \<in> set (x # xs)" for y
      using that Cons.prems by (fastforce simp: x)
    then show ?thesis by (subst rejected_before_late) auto
  next
    case False
    then have roll: "rollWindow (we_now we) t = t" by (simp add: rollWindow_cases)
    have srt: "sorted (login_times xs)" using Cons.prems by simp
    from h show ?thesis
    proof (cases rule: handleLogin_cases)
      case quiet
      with roll have "t' = t" by auto
      with Cons.IH [of t] Cons.prems srt quiet(1) h show ?thesis by (simp add: x)
    next
      case counted
      with Cons.IH [of t'] Cons.prems srt roll h show ?thesis by (auto simp: x)
    qed
  qed
qed simp

lemma rejected_in_minute:
  assumes "sorted (login_times xs)" and "\<And>x. x \<in> set xs \<Longrightarrow> e \<le> we_now (fst x) + loginFailureWindow"
    and "0 \<le> lt_failures t"
  shows "int (rejected_before e (login_responses a xs t :: (timestamp \<times> 'p response) list)) \<le>
    max 0 (loginFailureLimit - lt_failures t) + loginFailureLimit"
  using assms
proof (induction xs arbitrary: t)
  case (Cons x xs)
  obtain we r where x: "x = (we, r)" by fastforce
  obtain resp :: "'p response" and t' where h: "handleLogin we a r t = (resp, t')" by fastforce
  have srt: "sorted (login_times xs)" and low: "\<And>y. y \<in> set xs \<Longrightarrow> e \<le> we_now (fst y) + loginFailureWindow"
    and ex: "e \<le> we_now we + loginFailureWindow"
    using Cons.prems(1) Cons.prems(2) [of "(we, r)"] Cons.prems(2) by (auto simp: x)
  show ?case
  proof (cases "lt_windowStart t + loginFailureWindow \<le> we_now we")
    case True
    let ?t = "rollWindow (we_now we) t"
    have new: "?t = \<lparr>lt_windowStart = we_now we, lt_failures = 0\<rparr>"
      using True by (simp add: rollWindow_cases)
    from h show ?thesis
    proof (cases rule: handleLogin_cases)
      case quiet
      then consider "t' = t" | "t' = ?t" by blast
      then show ?thesis
      proof cases
        case 1
        with Cons.IH [of t] srt low h quiet(1) Cons.prems(3) show ?thesis by (simp add: x)
      next
        case 2
        have "int (rejected_before e (login_responses a xs ?t :: (timestamp \<times> 'p response) list)) \<le>
            loginFailureLimit"
          using rejected_in_window [OF srt, of e ?t a] new ex by (simp add: loginFailureLimit_def)
        moreover have "rejected_before e (login_responses a (x # xs) t :: (timestamp \<times> 'p response) list) =
            rejected_before e (login_responses a xs ?t :: (timestamp \<times> 'p response) list)"
          using 2 h quiet(1) by (simp add: x)
        ultimately show ?thesis by linarith
      qed
    next
      case counted
      have "int (rejected_before e (login_responses a xs t' :: (timestamp \<times> 'p response) list)) \<le>
          loginFailureLimit - 1"
        using rejected_in_window [OF srt, of e t' a] counted(3) new ex
        by (simp add: loginFailureLimit_def)
      moreover have "rejected_before e (login_responses a (x # xs) t :: (timestamp \<times> 'p response) list) \<le>
          Suc (rejected_before e (login_responses a xs t' :: (timestamp \<times> 'p response) list))"
        using h by (simp add: x)
      ultimately show ?thesis by linarith
    qed
  next
    case False
    then have roll: "rollWindow (we_now we) t = t" by (simp add: rollWindow_cases)
    from h show ?thesis
    proof (cases rule: handleLogin_cases)
      case quiet
      with roll have "t' = t" by auto
      with Cons.IH [of t] Cons.prems(3) srt low quiet(1) h show ?thesis by (simp add: x)
    next
      case counted
      with Cons.IH [of t'] Cons.prems(3) srt low roll h show ?thesis by (auto simp: x)
    qed
  qed
qed (simp add: loginFailureLimit_def)

lemma rejections_bounded:
  assumes "sorted (login_times xs)" and "0 \<le> lt_failures t"
  shows "length (filter (\<lambda>(n, resp). rejected resp \<and> s \<le> n \<and> n < s + loginFailureWindow)
    (login_responses a xs t :: (timestamp \<times> 'p response) list)) \<le> 20"
  using assms
proof (induction xs arbitrary: t)
  case (Cons x xs)
  obtain we r where x: "x = (we, r)" by fastforce
  obtain resp :: "'p response" and t' where h: "handleLogin we a r t = (resp, t')" by fastforce
  have srt: "sorted (login_times xs)" using Cons.prems by simp
  show ?case
  proof (cases "s \<le> we_now we")
    case True
    then have "s + loginFailureWindow \<le> we_now (fst y) + loginFailureWindow" if "y \<in> set (x # xs)" for y
      using that Cons.prems by (fastforce simp: x)
    then have "int (rejected_before (s + loginFailureWindow)
          (login_responses a (x # xs) t :: (timestamp \<times> 'p response) list)) \<le>
        max 0 (loginFailureLimit - lt_failures t) + loginFailureLimit"
      by (intro rejected_in_minute Cons.prems)
    then have "rejected_before (s + loginFailureWindow)
          (login_responses a (x # xs) t :: (timestamp \<times> 'p response) list) \<le> 20"
      using Cons.prems(2) unfolding loginFailureLimit_def by linarith
    moreover have "length (filter (\<lambda>(n, resp). rejected resp \<and> s \<le> n \<and> n < s + loginFailureWindow) rs) \<le>
        rejected_before (s + loginFailureWindow) rs" for rs :: "(timestamp \<times> 'p response) list"
      by (induction rs) auto
    ultimately show ?thesis by (blast intro: le_trans)
  next
    case False
    from h have "0 \<le> lt_failures t'"
      by (cases rule: handleLogin_cases) (use Cons.prems in \<open>auto simp: rollWindow_cases\<close>)
    with Cons.IH srt h False show ?thesis by (simp add: x)
  qed
qed simp

section \<open>Sessions\<close>

text \<open>A session of a signature that is not empty is a printed number, a dot and the signature.\<close>

lemma hex_char_of_plain: "n < 16 \<Longrightarrow> plain_char (hex_char_of n)"
  by (auto simp: plain_char_def hex_char_of_def)

lemma hex_encode_plain: "\<forall>c \<in> set (hex_encode s). plain_char c"
proof -
  have c256: "(of_char c :: nat) < 256" for c
    by (metis mod_less_divisor of_char_mod_256 zero_less_numeral)
  have "plain_char (hex_char_of (of_char c div 16))" "plain_char (hex_char_of (of_char c mod 16))" for c :: char
    using c256 [of c] by (intro hex_char_of_plain; simp add: less_mult_imp_div_less)+
  then show ?thesis by (auto simp: hex_encode_def)
qed

lemma hex_encode_Nil_iff: "hex_encode s = [] \<longleftrightarrow> s = []"
  by (cases s) (simp_all add: hex_encode_def)

lemma digit_plain:
  assumes "is_digit c"
  shows "plain_char c"
proof -
  have "48 \<le> (of_char c :: int)" "(of_char c :: int) \<le> 57"
    using assms by (auto simp: is_digit_def digit_value_def Let_def split: if_splits)
  then have "48 \<le> int (of_char c :: nat)" "int (of_char c :: nat) \<le> 57"
    by (simp_all add: of_nat_of_char)
  then show ?thesis by (simp add: plain_char_def)
qed

lemma FormatInt_plain: "\<forall>c \<in> set (FormatInt n). plain_char c \<and> c \<noteq> CHR ''.''"
  using FormatInt_chars [of n] not_digits digit_plain by (auto simp: plain_char_def)

lemma time_Unix_unix_time: "time_Unix (unix_time n) = wrap64 n"
proof -
  have "unix_time n div second = wrap64 (n + 62135596800) - 62135596800"
    by (simp add: unix_time_def)
  moreover have "wrap64 (wrap64 (n + k) - k) = wrap64 n" for k
    by (simp add: wrap64_def algebra_simps mod_simps)
  ultimately show ?thesis by (simp add: time_Unix_def)
qed

lemma sessionValue_plain: "\<forall>c \<in> set (sessionValue we a e). plain_char c"
  using FormatInt_plain hex_encode_plain by (fastforce simp: sessionValue_def Let_def plain_char_def)

text \<open>What a session value has to be: signed for a time that has not come.\<close>

lemma validSessionValueD:
  assumes "validSessionValue we a v"
  obtains e where "we_now we < e" "we_sha256 we (TrimSpace v) = we_sha256 we (sessionValue we a e)"
  using assms sessionValue_plain
  by (auto simp: validSessionValue_def constantTimeTokenEqual_def Let_def TrimSpace_plain
      split: option.splits if_splits)

lemma validSessionValue_issued:
  assumes "\<And>k m. we_hmac we k m \<noteq> []" and "0 \<le> e" and "e < 2 ^ 62 * second"
  shows "validSessionValue (we\<lparr>we_now := now\<rparr>) a (sessionValue we a e) \<longleftrightarrow>
    now < e div second * second"
proof -
  let ?we = "we\<lparr>we_now := now\<rparr>"
  define n where "n = e div second"
  have n: "0 \<le> n" "n < 2 ^ 62" using assms(2,3) by (simp_all add: n_def)
  then have u: "time_Unix e = n" "wrap64 n = n" by (simp_all add: time_Unix_def n_def [symmetric] wrap64_id)
  define mac where "mac = we_hmac we (ao_AdminToken a) (''forge-human-session-v1|'' @ FormatInt n)"
  have v: "sessionValue we a e = FormatInt n @ CHR ''.'' # hex_encode mac"
    "sessionValue ?we a (unix_time n) = FormatInt n @ CHR ''.'' # hex_encode mac"
    by (simp_all add: sessionValue_def Let_def u mac_def time_Unix_unix_time)
  have "TrimSpace (sessionValue we a e) = sessionValue we a e"
    using sessionValue_plain by (rule TrimSpace_plain)
  moreover have "Cut (CHR ''.'') (FormatInt n @ CHR ''.'' # hex_encode mac) = Some (FormatInt n, hex_encode mac)"
    using FormatInt_plain by (intro Cut_append) blast
  moreover have "hex_encode mac \<noteq> []" by (simp add: hex_encode_Nil_iff mac_def assms(1))
  moreover have "ParseInt (FormatInt n) = Some n" using n by (intro ParseInt_FormatInt) simp_all
  ultimately have "validSessionValue ?we a (sessionValue we a e) \<longleftrightarrow> now < unix_time n"
    by (simp add: validSessionValue_def constantTimeTokenEqual_def Let_def v)
  moreover have "unix_time n = e div second * second"
    using n by (simp add: unix_time_def wrap64_id n_def)
  ultimately show ?thesis by simp
qed

text \<open>A request without the token and without a signed, unexpired session is not authorized.\<close>

definition holds_token :: "web_env \<Rightarrow> auth_options \<Rightarrow> string \<Rightarrow> bool" where
  "holds_token we a token \<longleftrightarrow>
     TrimSpace token \<noteq> [] \<and> we_sha256 we (TrimSpace token) = we_sha256 we (TrimSpace (ao_AdminToken a))"

definition holds_session :: "web_env \<Rightarrow> auth_options \<Rightarrow> request \<Rightarrow> bool" where
  "holds_session we a r \<longleftrightarrow>
     (\<exists>v e. map_of (rq_Cookies r) (cookieName a) = Some v \<and> we_now we < e \<and>
        we_sha256 we (TrimSpace v) = we_sha256 we (sessionValue we a e))"

lemma ValidAdminTokenD: "ValidAdminToken we a token \<Longrightarrow> holds_token we a token"
  by (auto simp: ValidAdminToken_def constantTimeTokenEqual_def holds_token_def normalized_def Let_def
      split: if_splits)

lemma isAuthorizedD:
  assumes "isAuthorized we a r"
  shows "holds_token we a (bearerToken we (rq_Authorization r)) \<or> holds_token we a (rq_AdminToken r) \<or>
    holds_session we a r"
  using assms ValidAdminTokenD
  by (auto simp: isAuthorized_def isCookieAuthorized_def holds_session_def elim: validSessionValueD
      split: if_splits option.splits)

end
