(* ===== verification/Web_Routes.thy ===== *)
theory Web_Routes
  imports Web_Auth Event_Service Call_Atomicity
begin

text \<open>
  The routes of the human web interface (internal/web/handler.go) and the part of the router that
  leads to them (internal/api/router.go). A handler runs operations of the runtime on the database
  and answers with a page, which carries the data it shows; the HTML is not modelled. The search
  service, the file store and the order of texts in PostgreSQL are fields of \<open>runtime_env\<close>.
\<close>

section \<open>The runtime behind the pages\<close>

record search_tickets_request =
  st_WorkspaceID :: "uuid option"
  st_ProjectID :: "uuid option"
  st_Query :: string
  st_Offset :: int
  st_Limit :: int

record ('sr, 'k) runtime_env =
  re_pg :: pg_env
  re_events :: event_env
  re_collate :: "string \<Rightarrow> 'k"
  re_search :: "search_tickets_request \<Rightarrow> db \<Rightarrow> svc_error + 'sr list"
  re_remove :: "string \<Rightarrow> string option"
  re_open :: "artifact \<Rightarrow> string + artifact_content"
  re_s3 :: "s3_store option"
  re_url :: url_env

definition GetAttemptMetrics_stmt :: "uuid option \<Rightarrow> db \<Rightarrow> pg_error + attempt_metric" where
  "GetAttemptMetrics_stmt i d =
     (case i of None \<Rightarrow> Inl NoRows
      | Some k \<Rightarrow> (case find_row am_AttemptID k (attempt_metrics d) of
            None \<Rightarrow> Inl NoRows | Some m \<Rightarrow> Inr m))"

abbreviation rt_query :: "(db \<Rightarrow> pg_error + 'a) \<Rightarrow> 'a svc" where
  "rt_query q \<equiv> svc_query (StoreError []) q"

text \<open>\<open>ArtifactContentOpenable\<close> and \<open>OpenArtifact\<close> of internal/runtime/runtime.go; \<open>re_open\<close> is the
  \<open>Open\<close> of the two stores.\<close>

definition ArtifactContentOpenable :: "('sr, 'k) runtime_env \<Rightarrow> artifact \<Rightarrow> bool" where
  "ArtifactContentOpenable re a =
     (if ar_StorageBackend a = ArtifactStorageLocal then IsLocalArtifactURL (re_url re) (ar_Url a)
      else if ar_StorageBackend a = ArtifactStorageS3
      then (case re_s3 re of None \<Rightarrow> False | Some s \<Rightarrow> CanOpenURL (re_url re) s (ar_Url a))
      else False)"

definition OpenArtifact :: "('sr, 'k) runtime_env \<Rightarrow> artifact \<Rightarrow> artifact_content svc" where
  "OpenArtifact re a =
     (if ar_StorageBackend a = ArtifactStorageLocal \<or>
         (ar_StorageBackend a = ArtifactStorageS3 \<and> re_s3 re \<noteq> None)
      then (case re_open re a of Inl msg \<Rightarrow> svc_fail (ServiceError msg) | Inr c \<Rightarrow> svc_return c)
      else if ar_StorageBackend a = ArtifactStorageS3
      then svc_fail (ServiceError ''s3 artifact storage is not configured'')
      else svc_fail (ServiceError ''artifact storage backend is not openable''))"

section \<open>Pages\<close>

record ticket_timeline =
  tt_Attempts :: "attempt list"
  tt_Events :: "ticket_event list"
  tt_Artifacts :: "artifact list"
  tt_Checkpoints :: "attempt_checkpoint list"

text \<open>An invalid form shows the texts that were entered and a message.\<close>

datatype 'sr page =
    TicketListPage "ticket list" list_tickets_request
  | SearchPage "'sr list" search_tickets_request
  | EventLedgerPage "ticket_event list" "(uuid \<times> string) list" string list_events_request
  | ArtifactListPage "artifact list" list_artifacts_request
  | ProposedListPage "proposed_ticket_triage_item list" list_proposed_tickets_request
  | TicketDetailPage ticket ticket_timeline "(uuid \<times> bool) list"
  | AttemptDetailPage attempt "artifact list" "attempt_checkpoint list" "attempt_metric option"
  | ArtifactDetailPage artifact bool
  | ProposedDetailPage ticket
  | WorkspaceIndexPage "workspace list" string
  | WorkspaceDetailPage workspace "project list"
  | ContentPage string nat string
  | InvalidForm "string list" string
  | RefusedForm "string list"
  | RejectedForm "string list" svc_error
  | ErrorPage string svc_error

type_synonym 'sr web = "db \<Rightarrow> 'sr page response \<times> db"

definition answer :: "'sr page response \<Rightarrow> 'sr web" where
  "answer resp d = (resp, d)"

definition on_result :: "'a svc \<Rightarrow> (svc_error \<Rightarrow> 'sr web) \<Rightarrow> ('a \<Rightarrow> 'sr web) \<Rightarrow> 'sr web" where
  "on_result m bad good d = (case m d of (Inl e, d') \<Rightarrow> bad e d' | (Inr a, d') \<Rightarrow> good a d')"

definition Runtime_unavailable :: "'sr page response" where
  "Runtime_unavailable = Status 503 ''Runtime unavailable'' ''runtime is not configured''"

definition with_runtime ::
  "('sr, 'k) runtime_env option \<Rightarrow> (('sr, 'k) runtime_env \<Rightarrow> 'sr web) \<Rightarrow> 'sr web" where
  "with_runtime rt f = (case rt of None \<Rightarrow> answer Runtime_unavailable | Some re \<Rightarrow> f re)"

text \<open>\<open>requireMethod\<close>: a page that answers to the given methods only.\<close>

definition required_method :: "request \<Rightarrow> string list \<Rightarrow> 'sr web \<Rightarrow> 'sr web" where
  "required_method r methods page d =
     (if rq_Method r \<in> set methods then page d
      else (MethodNotAllowed methods ''This page does not support that request method.'', d))"

section \<open>Errors\<close>

text \<open>\<open>errors.As\<close> and \<open>errors.Is\<close> look through the wrapped errors.\<close>

fun root_error :: "svc_error \<Rightarrow> svc_error" where
  "root_error (WrappedError _ e) = root_error e"
| "root_error e = e"

definition is_validation :: "svc_error \<Rightarrow> bool" where
  "is_validation e = (case root_error e of ValidationError _ \<Rightarrow> True | _ \<Rightarrow> False)"

definition is_no_rows :: "svc_error \<Rightarrow> bool" where
  "is_no_rows e = (case root_error e of StoreError _ pe \<Rightarrow> pe = NoRows | _ \<Rightarrow> False)"

definition error_page :: "nat \<Rightarrow> string \<Rightarrow> svc_error \<Rightarrow> 'sr page response" where
  "error_page code title e = Page code (ErrorPage title e)"

definition renderTicketServiceError :: "svc_error \<Rightarrow> string \<Rightarrow> 'sr page response" where
  "renderTicketServiceError e title =
     (if is_validation e then error_page 400 title e
      else if root_error e = ErrTicketIsNotProposed \<or> root_error e = ErrTicketNotFound \<or> is_no_rows e
      then error_page 404 title e
      else if root_error e = ErrTicketTransitionNotAllowed then error_page 409 title e
      else if root_error e = ErrEnqueuePermissionRequired then error_page 403 title e
      else error_page 500 title e)"

definition renderCreateError :: "string \<Rightarrow> svc_error \<Rightarrow> 'sr page response" where
  "renderCreateError title e =
     (case root_error e of
        StoreError _ ForeignKeyViolation \<Rightarrow> Status 404 title ''Referenced workspace does not exist.''
      | StoreError _ UniqueViolation \<Rightarrow>
          Status 409 title ''A workspace or project with that name already exists.''
      | StoreError _ NotNullViolation \<Rightarrow> error_page 400 title e
      | StoreError _ CheckViolation \<Rightarrow> error_page 400 title e
      | _ \<Rightarrow> error_page 500 title e)"

definition not_found_or :: "svc_error \<Rightarrow> string \<Rightarrow> string \<Rightarrow> string \<Rightarrow> 'sr page response" where
  "not_found_or e title message failure =
     (if is_no_rows e then Status 404 title message else error_page 500 failure e)"

section \<open>Queries and paths\<close>

definition web_parseUUID :: "web_env \<Rightarrow> string \<Rightarrow> uuid option" where
  "web_parseUUID we v = (let t = TrimSpace v in if t = [] then None else we_scan we t)"

text \<open>\<open>parseOptionalUUID\<close>: \<open>Inl\<close> is an error, and a blank text is the null UUID.\<close>

definition parseOptionalUUID :: "web_env \<Rightarrow> string \<Rightarrow> string \<Rightarrow> string + uuid option" where
  "parseOptionalUUID we v msg =
     (if TrimSpace v = [] then Inr None
      else case web_parseUUID we v of None \<Rightarrow> Inl msg | Some u \<Rightarrow> Inr (Some u))"

definition required_uuid :: "web_env \<Rightarrow> string \<Rightarrow> string \<Rightarrow> string + uuid option" where
  "required_uuid we v msg =
     (case web_parseUUID we v of None \<Rightarrow> Inl msg | Some u \<Rightarrow> Inr (Some u))"

text \<open>A count such as \<open>limit\<close>: \<open>ParseInt(v, 10, 32)\<close>, not negative.\<close>

definition ParseInt32 :: "string \<Rightarrow> int option" where
  "ParseInt32 s =
     (case ParseInt s of
        None \<Rightarrow> None
      | Some n \<Rightarrow> if - (2 ^ 31) \<le> n \<and> n < 2 ^ 31 then Some n else None)"

definition query_count :: "request \<Rightarrow> string \<Rightarrow> int \<Rightarrow> string + int" where
  "query_count r key default_value =
     (let v = TrimSpace (query_Get r key) in
      if v = [] then Inr default_value
      else case ParseInt32 v of
          None \<Rightarrow> Inl (key @ '' must be a non-negative integer'')
        | Some n \<Rightarrow> if n < 0 then Inl (key @ '' must be a non-negative integer'') else Inr n)"

definition listTicketsRequestFromQuery ::
  "web_env \<Rightarrow> request \<Rightarrow> string + list_tickets_request" where
  "listTicketsRequestFromQuery we r =
     (let required = ''workspace_id and project_id are required'' in
      and_then (required_uuid we (query_Get r ''workspace_id'') required) (\<lambda>w.
      and_then (required_uuid we (query_Get r ''project_id'') required) (\<lambda>p.
      and_then (query_count r ''limit'' 50) (\<lambda>limit.
      and_then (query_count r ''offset'' 0) (\<lambda>offset.
      Inr \<lparr>lr_WorkspaceID = w, lr_ProjectID = p, lr_Status = TrimSpace (query_Get r ''status''),
           lr_Type = TrimSpace (query_Get r ''type''), lr_Offset = offset, lr_Limit = limit\<rparr>)))))"

definition searchTicketsRequestFromQuery ::
  "web_env \<Rightarrow> request \<Rightarrow> string + search_tickets_request" where
  "searchTicketsRequestFromQuery we r =
     (let required = ''workspace_id and project_id are required''; q = TrimSpace (query_Get r ''q'') in
      and_then (required_uuid we (query_Get r ''workspace_id'') required) (\<lambda>w.
      and_then (required_uuid we (query_Get r ''project_id'') required) (\<lambda>p.
      and_then (if q = [] then Inl ''query is required'' else Inr q) (\<lambda>text.
      and_then (query_count r ''limit'' 0) (\<lambda>limit.
      and_then (query_count r ''offset'' 0) (\<lambda>offset.
      Inr \<lparr>st_WorkspaceID = w, st_ProjectID = p, st_Query = text, st_Offset = offset,
           st_Limit = limit\<rparr>))))))"

definition listEventsRequestFromQuery ::
  "web_env \<Rightarrow> request \<Rightarrow> string + list_events_request" where
  "listEventsRequestFromQuery we r =
     and_then (parseOptionalUUID we (query_Get r ''workspace_id'') ''workspace_id must be a UUID'') (\<lambda>w.
     and_then (parseOptionalUUID we (query_Get r ''project_id'') ''project_id must be a UUID'') (\<lambda>p.
     and_then (parseOptionalUUID we (query_Get r ''ticket_id'') ''ticket_id must be a UUID'') (\<lambda>t.
     and_then (parseOptionalUUID we (query_Get r ''attempt_id'') ''attempt_id must be a UUID'') (\<lambda>a.
     and_then (query_count r ''limit'' 0) (\<lambda>limit.
     Inr \<lparr>le_WorkspaceID = w, le_ProjectID = p, le_TicketID = t, le_AttemptID = a,
          le_Cursor = TrimSpace (query_Get r ''cursor''), le_Limit = limit\<rparr>)))))"

definition listArtifactsRequestFromQuery ::
  "web_env \<Rightarrow> request \<Rightarrow> string + list_artifacts_request" where
  "listArtifactsRequestFromQuery we r =
     (let required = ''workspace_id and project_id are required'' in
      and_then (required_uuid we (query_Get r ''workspace_id'') required) (\<lambda>w.
      and_then (required_uuid we (query_Get r ''project_id'') required) (\<lambda>p.
      and_then (parseOptionalUUID we (query_Get r ''ticket_id'') ''ticket_id must be a UUID'') (\<lambda>t.
      and_then (query_count r ''limit'' 0) (\<lambda>limit.
      and_then (query_count r ''offset'' 0) (\<lambda>offset.
      Inr \<lparr>la_WorkspaceID = w, la_ProjectID = p, la_TicketID = t, la_Limit = limit,
           la_Offset = offset\<rparr>))))))"

definition listProposedRequestFromQuery ::
  "web_env \<Rightarrow> request \<Rightarrow> string + list_proposed_tickets_request" where
  "listProposedRequestFromQuery we r =
     (let raw = TrimSpace (query_Get r ''limit'') in
      and_then (required_uuid we (query_Get r ''workspace_id'') ''workspace_id is required'') (\<lambda>w.
      and_then (required_uuid we (query_Get r ''project_id'') ''project_id is required'') (\<lambda>p.
      and_then (if raw = [] then Inr 50
                else case ParseInt32 raw of None \<Rightarrow> Inl ''limit must be an integer'' | Some n \<Rightarrow> Inr n)
        (\<lambda>limit.
      Inr \<lparr>lp_WorkspaceID = w, lp_ProjectID = p, lp_Type = TrimSpace (query_Get r ''type''),
           lp_Offset = 0, lp_Limit = limit\<rparr>))))"

definition TrimPrefix :: "string \<Rightarrow> string \<Rightarrow> string" where
  "TrimPrefix p s = (if prefix p s then drop (length p) s else s)"

definition parseIDFromPath :: "web_env \<Rightarrow> string \<Rightarrow> string \<Rightarrow> uuid option" where
  "parseIDFromPath we path pfx =
     (let idText = TrimPrefix pfx path in
      if CHR ''/'' \<in> set idText \<or> TrimSpace idText = [] then None else web_parseUUID we idText)"

text \<open>The identifier and the action after a prefix; no action is the empty text.\<close>

definition parse_route :: "web_env \<Rightarrow> string \<Rightarrow> string \<Rightarrow> (uuid \<times> string) option" where
  "parse_route we pfx path =
     (case Split (CHR ''/'') (TrimPrefix pfx path) of
        [i] \<Rightarrow> (if TrimSpace i = [] then None else map_option (\<lambda>u. (u, [])) (web_parseUUID we i))
      | [i, act] \<Rightarrow>
          (if TrimSpace i = [] then None
           else case web_parseUUID we i of
               None \<Rightarrow> None
             | Some u \<Rightarrow> if TrimSpace act = [] then None else Some (u, TrimSpace act))
      | _ \<Rightarrow> None)"

definition parseTicketRoute where "parseTicketRoute we path = parse_route we ''/tickets/'' path"
definition parseProposedRoute where "parseProposedRoute we path = parse_route we ''/proposed/'' path"

end
