(* ===== verification/Web_Pages.thy ===== *)
theory Web_Pages
  imports Web_Routes
begin

text \<open>
  The handlers of the human web interface: one definition per handler of internal/web/handler.go,
  the dispatch of \<open>ServeHTTP\<close>, and the patterns under which internal/api/router.go mounts it.
\<close>

section \<open>Lists\<close>

definition optional_uuid_text :: "uuid option \<Rightarrow> string" where
  "optional_uuid_text i = (case i of None \<Rightarrow> [] | Some u \<Rightarrow> eventUUIDString u)"

definition limitText :: "int \<Rightarrow> string" where
  "limitText n = (if n \<le> 0 then [] else FormatInt n)"

definition renderTicketList :: "web_env \<Rightarrow> ('sr, 'k) runtime_env option \<Rightarrow> request \<Rightarrow> 'sr web" where
  "renderTicketList we rt r =
     with_runtime rt (\<lambda>re.
       case listTicketsRequestFromQuery we r of
         Inl msg \<Rightarrow> answer (Page 400 (InvalidForm
           [TrimSpace (query_Get r ''status''), TrimSpace (query_Get r ''type'')] msg))
       | Inr req \<Rightarrow> on_result (ListTickets req)
           (\<lambda>e. answer (if is_validation e then error_page 400 ''Invalid ticket filters'' e
                       else error_page 500 ''Unable to load tickets'' e))
           (\<lambda>ts. answer (Page 200 (TicketListPage ts req))))"

definition renderSearch :: "web_env \<Rightarrow> ('sr, 'k) runtime_env option \<Rightarrow> request \<Rightarrow> 'sr web" where
  "renderSearch we rt r =
     with_runtime rt (\<lambda>re.
       case searchTicketsRequestFromQuery we r of
         Inl msg \<Rightarrow> answer (Page 400 (InvalidForm
           [TrimSpace (query_Get r ''workspace_id''), TrimSpace (query_Get r ''project_id''),
            TrimSpace (query_Get r ''q'')] msg))
       | Inr req \<Rightarrow> (\<lambda>d. on_result (\<lambda>d. (re_search re req d, d))
           (\<lambda>e. answer (if is_validation e then Page 400 (RejectedForm
                         [optional_uuid_text (st_WorkspaceID req), optional_uuid_text (st_ProjectID req),
                          st_Query req] e)
                       else error_page 500 ''Unable to search tickets'' e))
           (\<lambda>rs. answer (Page 200 (SearchPage rs req))) d))"

text \<open>\<open>eventTicketTitles\<close>: the title of each distinct ticket, without the failed lookups.\<close>

fun eventTicketTitles :: "ticket_event list \<Rightarrow> (uuid \<times> string) list \<Rightarrow> (uuid \<times> string) list svc" where
  "eventTicketTitles [] titles = svc_return titles"
| "eventTicketTitles (e # es) titles =
     (if ev_TicketID e \<in> set (map fst titles) then eventTicketTitles es titles
      else (\<lambda>d. case GetTicket_stmt (Some (ev_TicketID e)) d of
          Inl _ \<Rightarrow> eventTicketTitles es titles d
        | Inr t \<Rightarrow> eventTicketTitles es (titles @ [(ev_TicketID e, tk_Title t)]) d))"

definition renderEventLedger :: "web_env \<Rightarrow> ('sr, 'k) runtime_env option \<Rightarrow> request \<Rightarrow> 'sr web" where
  "renderEventLedger we rt r =
     with_runtime rt (\<lambda>re.
       case listEventsRequestFromQuery we r of
         Inl msg \<Rightarrow> answer (Page 400 (InvalidForm
           (map (\<lambda>k. TrimSpace (query_Get r k))
             [''workspace_id'', ''project_id'', ''ticket_id'', ''attempt_id'', ''cursor'', ''limit'']) msg))
       | Inr req \<Rightarrow> on_result (ListEvents (re_events re) req)
           (\<lambda>e. answer (if is_validation e then Page 400 (RejectedForm
                         [optional_uuid_text (le_WorkspaceID req), optional_uuid_text (le_ProjectID req),
                          optional_uuid_text (le_TicketID req), optional_uuid_text (le_AttemptID req),
                          le_Cursor req, limitText (le_Limit req)] e)
                       else error_page 500 ''Unable to load event ledger'' e))
           (\<lambda>res. let events = rev (lv_Events res) in
             on_result (eventTicketTitles events [])
               (\<lambda>e. answer (error_page 500 ''Unable to load event ledger'' e))
               (\<lambda>titles. answer (Page 200 (EventLedgerPage events titles (lv_NextCursor res) req)))))"

definition renderArtifactList :: "web_env \<Rightarrow> ('sr, 'k) runtime_env option \<Rightarrow> request \<Rightarrow> 'sr web" where
  "renderArtifactList we rt r =
     with_runtime rt (\<lambda>re.
       case listArtifactsRequestFromQuery we r of
         Inl msg \<Rightarrow> answer (Page 400 (InvalidForm
           (map (\<lambda>k. TrimSpace (query_Get r k)) [''workspace_id'', ''project_id'', ''ticket_id'']) msg))
       | Inr req \<Rightarrow> on_result (ListArtifacts req)
           (\<lambda>e. answer (if is_validation e then Page 400 (RejectedForm
                         [optional_uuid_text (la_WorkspaceID req), optional_uuid_text (la_ProjectID req),
                          optional_uuid_text (la_TicketID req)] e)
                       else error_page 500 ''Unable to load artifacts'' e))
           (\<lambda>as. answer (Page 200 (ArtifactListPage as req))))"

definition renderProposedList :: "web_env \<Rightarrow> ('sr, 'k) runtime_env option \<Rightarrow> request \<Rightarrow> 'sr web" where
  "renderProposedList we rt r =
     with_runtime rt (\<lambda>re.
       case listProposedRequestFromQuery we r of
         Inl msg \<Rightarrow> answer (Page 400 (InvalidForm
           (map (\<lambda>k. TrimSpace (query_Get r k)) [''workspace_id'', ''project_id'', ''type'']) msg))
       | Inr req \<Rightarrow> on_result (ListProposedTickets req)
           (\<lambda>e. answer (if is_validation e then Page 400 (RejectedForm
                         [optional_uuid_text (lp_WorkspaceID req), optional_uuid_text (lp_ProjectID req),
                          lp_Type req] e)
                       else error_page 500 ''Unable to load proposed work'' e))
           (\<lambda>items. answer (Page 200 (ProposedListPage items req))))"

section \<open>Tickets\<close>

definition loadTimeline :: "uuid \<Rightarrow> db \<Rightarrow> ticket_timeline" where
  "loadTimeline t d =
     \<lparr>tt_Attempts = ListAttemptsByTicket_stmt t d, tt_Events = ListTicketEventsByTicket_stmt t d,
      tt_Artifacts = ListArtifactsByTicket_stmt t d,
      tt_Checkpoints = ListAttemptCheckpointsByTicket_stmt t d\<rparr>"

definition artifactContentOpenability ::
  "('sr, 'k) runtime_env \<Rightarrow> artifact list \<Rightarrow> (uuid \<times> bool) list" where
  "artifactContentOpenability re as = map (\<lambda>a. (ar_ID a, ArtifactContentOpenable re a)) as"

definition renderTicketDetail :: "('sr, 'k) runtime_env option \<Rightarrow> uuid \<Rightarrow> 'sr web" where
  "renderTicketDetail rt i =
     with_runtime rt (\<lambda>re.
       on_result (rt_query (GetTicket_stmt (Some i)))
         (\<lambda>e. answer (not_found_or e ''Ticket not found'' ''No ticket exists for that id.''
            ''Unable to load ticket''))
         (\<lambda>t d. let timeline = loadTimeline i d in
            answer (Page 200 (TicketDetailPage t timeline
              (artifactContentOpenability re (tt_Artifacts timeline)))) d))"

definition ticket_path :: "ticket \<Rightarrow> string" where
  "ticket_path t = ''/tickets/'' @ eventUUIDString (tk_ID t)"

definition isTicketAction :: "string \<Rightarrow> bool" where
  "isTicketAction act \<longleftrightarrow>
     act \<in> set [''ready'', ''reopen'', ''unblock'', ''request-review'', ''archive'']"

record ticket_action_spec =
  ta_Action :: string
  ta_Label :: string
  ta_Placeholder :: string

text \<open>The actions that the page of a ticket offers.\<close>

definition ticketActionsForStatus :: "string \<Rightarrow> ticket_action_spec list" where
  "ticketActionsForStatus st =
     (if st = TicketStatusBacklog
      then [\<lparr>ta_Action = ''ready'', ta_Label = ''Mark ready'',
             ta_Placeholder = ''Ready for an agent to claim''\<rparr>]
      else if st = TicketStatusDone \<or> st = TicketStatusFailed
      then [\<lparr>ta_Action = ''reopen'', ta_Label = ''Reopen'',
             ta_Placeholder = ''Return to todo for another attempt''\<rparr>]
      else if st = TicketStatusBlocked
      then [\<lparr>ta_Action = ''unblock'', ta_Label = ''Unblock'', ta_Placeholder = ''Blocker cleared''\<rparr>]
      else []) @
     (if st \<in> set [TicketStatusBlocked, TicketStatusTodo, TicketStatusFailed, TicketStatusDone]
      then [\<lparr>ta_Action = ''request-review'', ta_Label = ''Request review'',
             ta_Placeholder = ''Ready for human review''\<rparr>]
      else []) @
     (if st \<in> set [TicketStatusBacklog, TicketStatusTodo, TicketStatusBlocked,
          TicketStatusNeedsReview, TicketStatusDone, TicketStatusFailed]
      then [\<lparr>ta_Action = ''archive'', ta_Label = ''Archive'', ta_Placeholder = ''No longer needed''\<rparr>]
      else [])"

definition ticket_action ::
  "pg_env \<Rightarrow> ticket_transition_request \<Rightarrow> string \<Rightarrow> ticket svc option" where
  "ticket_action env req act =
     (if act = ''ready'' then Some (MarkReady env req)
      else if act = ''reopen'' then Some (Reopen env req)
      else if act = ''unblock'' then Some (Unblock env req)
      else if act = ''request-review'' then Some (RequestReview env req)
      else if act = ''archive'' then Some (Archive env req)
      else None)"

definition web_transition_request :: "uuid \<Rightarrow> string \<Rightarrow> ticket_transition_request" where
  "web_transition_request i why =
     \<lparr>tr_TicketRef = Some i, tr_ActorType = ActorHuman, tr_ActorID = ''web'',
      tr_Reason = TrimSpace why\<rparr>"

definition web_transitionTicket ::
  "('sr, 'k) runtime_env option \<Rightarrow> request \<Rightarrow> uuid \<Rightarrow> string \<Rightarrow> 'sr web" where
  "web_transitionTicket rt r i act =
     with_runtime rt (\<lambda>re.
       if rq_FormError r then answer (Page 400 (RefusedForm [''Unable to read ticket action form'']))
       else (case ticket_action (re_pg re) (web_transition_request i (FormValue r ''reason'')) act of
           None \<Rightarrow> answer NotFound
         | Some m \<Rightarrow> on_result m
             (\<lambda>e. answer (renderTicketServiceError e ''Unable to update ticket''))
             (\<lambda>t. answer (Redirect (ticket_path t)))))"

definition renderTicketRoute ::
  "web_env \<Rightarrow> ('sr, 'k) runtime_env option \<Rightarrow> request \<Rightarrow> 'sr web" where
  "renderTicketRoute we rt r =
     (case parseTicketRoute we (rq_Path r) of
        None \<Rightarrow> answer (Status 400 ''Invalid ticket id'' ''ticket id must be a UUID'')
      | Some (i, act) \<Rightarrow>
          if act = [] then required_method r [''GET''] (renderTicketDetail rt i)
          else if \<not> isTicketAction act then answer NotFound
          else required_method r [''POST''] (web_transitionTicket rt r i act))"

section \<open>Attempts\<close>

definition renderAttemptDetail ::
  "web_env \<Rightarrow> ('sr, 'k) runtime_env option \<Rightarrow> request \<Rightarrow> 'sr web" where
  "renderAttemptDetail we rt r =
     with_runtime rt (\<lambda>re.
       case parseIDFromPath we (rq_Path r) ''/attempts/'' of
         None \<Rightarrow> answer (Status 400 ''Invalid attempt id'' ''attempt id must be a UUID'')
       | Some i \<Rightarrow> on_result (rt_query (GetAttempt_stmt (Some i)))
           (\<lambda>e. answer (not_found_or e ''Attempt not found'' ''No attempt exists for that id.''
              ''Unable to load attempt''))
           (\<lambda>a. on_result (ListArtifactsByAttempt (Some i))
             (\<lambda>e. answer (error_page 500 ''Unable to load attempt artifacts'' e))
             (\<lambda>as d.
               let checkpoints = filter (\<lambda>c. cp_AttemptID c = i)
                     (ListAttemptCheckpointsByTicket_stmt (at_TicketID a) d) in
               on_result (rt_query (GetAttemptMetrics_stmt (Some i)))
                 (\<lambda>e. answer (if is_no_rows e then Page 200 (AttemptDetailPage a as checkpoints None)
                             else error_page 500 ''Unable to load attempt metrics'' e))
                 (\<lambda>m. answer (Page 200 (AttemptDetailPage a as checkpoints (Some m)))) d)))"

section \<open>Artifacts\<close>

definition renderArtifactDetail ::
  "web_env \<Rightarrow> ('sr, 'k) runtime_env option \<Rightarrow> string \<Rightarrow> 'sr web" where
  "renderArtifactDetail we rt idText =
     with_runtime rt (\<lambda>re.
       case web_parseUUID we idText of
         None \<Rightarrow> answer (Status 400 ''Invalid artifact id'' ''artifact id must be a UUID'')
       | Some i \<Rightarrow> on_result (GetArtifact (Some i))
           (\<lambda>e. answer (not_found_or e ''Artifact not found'' ''No artifact exists for that id.''
              ''Unable to load artifact''))
           (\<lambda>a. answer (Page 200 (ArtifactDetailPage a (ArtifactContentOpenable re a)))))"

definition headerFilename :: "string \<Rightarrow> string" where
  "headerFilename v =
     (let w = filter (\<lambda>c. c \<noteq> CHR 0x22 \<and> c \<noteq> CHR 0x0D \<and> c \<noteq> CHR 0x0A) v in
      if TrimSpace w = [] then ''artifact'' else w)"

definition renderArtifactContent ::
  "web_env \<Rightarrow> ('sr, 'k) runtime_env option \<Rightarrow> string \<Rightarrow> 'sr web" where
  "renderArtifactContent we rt idText =
     with_runtime rt (\<lambda>re.
       case web_parseUUID we idText of
         None \<Rightarrow> answer (Status 400 ''Invalid artifact id'' ''artifact id must be a UUID'')
       | Some i \<Rightarrow> on_result (GetArtifact (Some i))
           (\<lambda>e. answer (not_found_or e ''Artifact not found'' ''No artifact exists for that id.''
              ''Unable to load artifact''))
           (\<lambda>a. on_result (OpenArtifact re a)
             (\<lambda>e. answer (error_page 404 ''Artifact content unavailable'' e))
             (\<lambda>c. answer (Page 200 (ContentPage (headerFilename (ac_Name c)) (ac_Size c) (ac_Reader c))))))"

definition artifactListPath :: "web_env \<Rightarrow> artifact \<Rightarrow> string" where
  "artifactListPath we a =
     ''/artifacts?workspace_id='' @ we_QueryEscape we (eventUUIDString (ar_WorkspaceID a)) @
     ''&project_id='' @ we_QueryEscape we (eventUUIDString (ar_ProjectID a))"

definition deleteArtifact ::
  "web_env \<Rightarrow> ('sr, 'k) runtime_env option \<Rightarrow> string \<Rightarrow> 'sr web" where
  "deleteArtifact we rt idText =
     with_runtime rt (\<lambda>re.
       case web_parseUUID we idText of
         None \<Rightarrow> answer (Status 400 ''Invalid artifact id'' ''artifact id must be a UUID'')
       | Some i \<Rightarrow> on_result (delete_local_artifact (re_remove re) (Some i))
           (\<lambda>e. answer (if root_error e = ErrArtifactDeleteUnsupported
              then Status 409 ''Only local artifacts can be deleted''
                ''Remote artifact metadata is retained because Forge cannot safely clean up the backing object yet.''
              else not_found_or e ''Artifact not found'' ''No artifact exists for that id.''
                ''Unable to delete artifact''))
           (\<lambda>a. answer (Redirect (artifactListPath we a))))"

definition renderArtifactRoute ::
  "web_env \<Rightarrow> ('sr, 'k) runtime_env option \<Rightarrow> request \<Rightarrow> 'sr web" where
  "renderArtifactRoute we rt r =
     (case Split (CHR ''/'') (TrimPrefix ''/artifacts/'' (rq_Path r)) of
        [i] \<Rightarrow> required_method r [''GET''] (renderArtifactDetail we rt i)
      | [i, act] \<Rightarrow>
          (if act = ''content'' then required_method r [''GET''] (renderArtifactContent we rt i)
           else if act = ''delete'' then required_method r [''POST''] (deleteArtifact we rt i)
           else answer NotFound)
      | _ \<Rightarrow> answer NotFound)"

section \<open>Proposed tickets\<close>

definition isProposedTicket :: "ticket \<Rightarrow> bool" where
  "isProposedTicket t \<longleftrightarrow> tk_Status t = TicketStatusBacklog \<and> tk_CreatedBy t = ActorAgent"

definition renderProposedDetail :: "('sr, 'k) runtime_env option \<Rightarrow> uuid \<Rightarrow> 'sr web" where
  "renderProposedDetail rt i =
     with_runtime rt (\<lambda>re.
       on_result (rt_query (GetTicket_stmt (Some i)))
         (\<lambda>e. answer (not_found_or e ''Proposed follow-up not found''
            ''No proposed follow-up exists for that id.'' ''Unable to load proposed follow-up''))
         (\<lambda>t. answer (if \<not> isProposedTicket t
            then Status 404 ''Proposed follow-up not found'' ''That ticket is not proposed follow-up work.''
            else Page 200 (ProposedDetailPage t))))"

definition web_defaultString :: "string \<Rightarrow> string \<Rightarrow> string" where
  "web_defaultString v fallback = (let t = TrimSpace v in if t = [] then fallback else t)"

definition triage_action ::
  "pg_env \<Rightarrow> proposed_ticket_triage_request \<Rightarrow> string \<Rightarrow> ticket svc option" where
  "triage_action env req act =
     (if act = ''ready'' then Some (ReadyProposedTicket env req)
      else if act = ''enqueue'' then Some (EnqueueProposedTicket env req)
      else if act = ''reject'' then Some (RejectProposedTicket env req)
      else if act = ''archive'' then Some (ArchiveProposedTicket env req)
      else None)"

definition web_triage_request :: "uuid \<Rightarrow> request \<Rightarrow> proposed_ticket_triage_request" where
  "web_triage_request i r =
     \<lparr>pt_TicketID = Some i, pt_ActorType = web_defaultString (FormValue r ''actor_type'') ActorHuman,
      pt_ActorID = TrimSpace (FormValue r ''actor_id''), pt_Reason = TrimSpace (FormValue r ''reason''),
      pt_CanEnqueue = False\<rparr>"

definition triageProposedTicket ::
  "('sr, 'k) runtime_env option \<Rightarrow> request \<Rightarrow> uuid \<Rightarrow> string \<Rightarrow> 'sr web" where
  "triageProposedTicket rt r i act =
     with_runtime rt (\<lambda>re.
       if rq_FormError r then answer (Page 400 (RefusedForm [''Unable to read triage form'']))
       else (case triage_action (re_pg re) (web_triage_request i r) act of
           None \<Rightarrow> answer NotFound
         | Some m \<Rightarrow> on_result m
             (\<lambda>e. answer (renderTicketServiceError e ''Unable to triage proposed work''))
             (\<lambda>t. answer (Redirect (ticket_path t)))))"

definition renderProposedRoute ::
  "web_env \<Rightarrow> ('sr, 'k) runtime_env option \<Rightarrow> request \<Rightarrow> 'sr web" where
  "renderProposedRoute we rt r =
     (case parseProposedRoute we (rq_Path r) of
        None \<Rightarrow> answer (Status 400 ''Invalid proposed ticket route''
          ''proposed routes must include a ticket UUID'')
      | Some (i, act) \<Rightarrow>
          if act = [] then required_method r [''GET''] (renderProposedDetail rt i)
          else required_method r [''POST''] (triageProposedTicket rt r i act))"

section \<open>Workspaces\<close>

definition workspace_path :: "uuid \<Rightarrow> string" where
  "workspace_path i = ''/workspaces/'' @ eventUUIDString i"

definition renderWorkspaceIndex ::
  "('sr, 'k :: linorder) runtime_env option \<Rightarrow> request \<Rightarrow> 'sr web" where
  "renderWorkspaceIndex rt r =
     with_runtime rt (\<lambda>re.
       if rq_Method r = ''GET''
       then (\<lambda>d. (Page 200 (WorkspaceIndexPage (ListWorkspaces_stmt (re_collate re) d) []), d))
       else if rq_Method r = ''POST'' then
         (if rq_FormError r
          then answer (Page 400 (WorkspaceIndexPage [] ''Unable to read workspace form.''))
          else (let name = TrimSpace (FormValue r ''name'') in
            if name = [] then answer (Page 400 (WorkspaceIndexPage [] ''Workspace name is required.''))
            else on_result (svc_stmt (StoreError []) (CreateWorkspace_stmt (re_pg re) name))
              (\<lambda>e. answer (renderCreateError ''Unable to create workspace'' e))
              (\<lambda>w. answer (Redirect (workspace_path (ws_ID w))))))
       else answer (MethodNotAllowed [''GET'', ''POST''] ''Workspaces accept GET and POST requests.''))"

definition web_createProject ::
  "('sr, 'k) runtime_env \<Rightarrow> request \<Rightarrow> uuid \<Rightarrow> 'sr web" where
  "web_createProject re r i =
     required_method r [''POST'']
       (if rq_FormError r
        then answer (Status 400 ''Unable to create project'' ''Unable to read project form.'')
        else (let name = TrimSpace (FormValue r ''name'') in
          if name = [] then answer (Status 400 ''Unable to create project'' ''Project name is required.'')
          else on_result (svc_stmt (StoreError []) (CreateProject_stmt (re_pg re) (Some i) name))
            (\<lambda>e. answer (renderCreateError ''Unable to create project'' e))
            (\<lambda>_. answer (Redirect (workspace_path i)))))"

definition workspace_detail :: "('sr, 'k :: linorder) runtime_env \<Rightarrow> uuid \<Rightarrow> 'sr web" where
  "workspace_detail re i =
     on_result (rt_query (GetWorkspace_stmt (Some i)))
       (\<lambda>e. answer (not_found_or e ''Workspace not found'' ''No workspace exists for that id.''
          ''Unable to load workspace''))
       (\<lambda>w d. (Page 200 (WorkspaceDetailPage w
          (ListProjectsByWorkspace_stmt (re_collate re) (Some i) d)), d))"

definition renderWorkspaceRoute ::
  "web_env \<Rightarrow> ('sr, 'k :: linorder) runtime_env option \<Rightarrow> request \<Rightarrow> 'sr web" where
  "renderWorkspaceRoute we rt r =
     with_runtime rt (\<lambda>re.
       let parts = Split (CHR ''/'') (TrimPrefix ''/workspaces/'' (rq_Path r)) in
       if TrimSpace (hd parts) = [] then answer NotFound
       else (case web_parseUUID we (hd parts) of
           None \<Rightarrow> answer (Status 400 ''Invalid workspace id'' ''workspace id must be a UUID'')
         | Some i \<Rightarrow>
             if tl parts = [''projects''] then web_createProject re r i
             else if tl parts \<noteq> [] then answer NotFound
             else required_method r [''GET''] (workspace_detail re i)))"

section \<open>Dispatch\<close>

definition web_route ::
  "web_env \<Rightarrow> ('sr, 'k :: linorder) runtime_env option \<Rightarrow> request \<Rightarrow> 'sr web" where
  "web_route we rt r =
     (let path = rq_Path r in
      if path = ''/tickets'' then required_method r [''GET''] (renderTicketList we rt r)
      else if path = ''/search'' then renderSearch we rt r
      else if path = ''/events'' then required_method r [''GET''] (renderEventLedger we rt r)
      else if path = ''/artifacts'' then required_method r [''GET''] (renderArtifactList we rt r)
      else if path = ''/proposed'' \<or> path = ''/proposed/''
      then required_method r [''GET''] (renderProposedList we rt r)
      else if prefix ''/tickets/'' path then renderTicketRoute we rt r
      else if prefix ''/attempts/'' path then required_method r [''GET''] (renderAttemptDetail we rt r)
      else if prefix ''/artifacts/'' path then renderArtifactRoute we rt r
      else if prefix ''/proposed/'' path then renderProposedRoute we rt r
      else if path = ''/workspaces'' then renderWorkspaceIndex rt r
      else if prefix ''/workspaces/'' path then renderWorkspaceRoute we rt r
      else answer NotFound)"

definition ServeHTTP ::
  "web_env \<Rightarrow> auth_options \<Rightarrow> ('sr, 'k :: linorder) runtime_env option \<Rightarrow> request \<Rightarrow>
   db \<times> login_throttle \<Rightarrow> 'sr page response \<times> db \<times> login_throttle" where
  "ServeHTTP we a rt r = (\<lambda>(d, t).
     let path = rq_Path r; route = (case web_route we rt r d of (resp, d') \<Rightarrow> (resp, d', t)) in
     if path = ''/assets/htmx-2.0.4.min.js'' then (Asset ''application/javascript'', d, t)
     else if path = ''/favicon.ico'' then (Asset ''image/svg+xml'', d, t)
     else if path = ''/'' then (Redirect ''/workspaces'', d, t)
     else if \<not> auth_enabled a then route
     else if path = ''/login'' then (case handleLogin we a r t of (resp, t') \<Rightarrow> (resp, d, t'))
     else if path = ''/logout'' then (handleLogout we a r, d, t)
     else if \<not> isAuthorized we a r then (requireLogin we r, d, t)
     else if isCookieAuthorized we a r \<and> unsafeMethod (rq_Method r) \<and> \<not> sameOrigin we r
     then (Status 403 ''Request rejected'' ''Cookie-authenticated changes require a same-origin request.'',
           d, t)
     else route)"

section \<open>The router\<close>

text \<open>\<open>NewRouterWithRuntimeAndAuth\<close>: \<open>ready\<close> is the readiness check and \<open>api\<close> the handler of the API
  routes. A pattern that ends in a slash matches every path below it; the mux redirects a path that
  is not clean, and a path that lacks only the last slash of a pattern.\<close>

definition web_patterns :: "string list" where
  "web_patterns =
     [''/favicon.ico'', ''/login'', ''/assets/'', ''/tickets'', ''/tickets/'', ''/search'', ''/events'',
      ''/artifacts'', ''/attempts/'', ''/artifacts/'', ''/proposed'', ''/proposed/'', ''/workspaces'',
      ''/workspaces/'']"

definition pattern_matches :: "string \<Rightarrow> string \<Rightarrow> bool" where
  "pattern_matches path p \<longleftrightarrow> path = p \<or> (last p = CHR ''/'' \<and> prefix p path)"

definition cleanPath :: "string \<Rightarrow> string" where
  "cleanPath p0 =
     (let p = (if p0 \<noteq> [] \<and> hd p0 = CHR ''/'' then p0 else CHR ''/'' # p0); np = Clean p in
      if last p = CHR ''/'' \<and> np \<noteq> ''/'' then np @ ''/'' else np)"

datatype ('sr, 'ar) reply =
    Live
  | Ready bool
  | Moved string
  | MuxNotFound
  | ApiUnauthorized
  | ApiReply 'ar
  | WebReply "'sr page response"

definition router ::
  "web_env \<Rightarrow> auth_options \<Rightarrow> ('sr, 'k :: linorder) runtime_env option \<Rightarrow> (db \<Rightarrow> bool) \<Rightarrow>
   (request \<Rightarrow> db \<Rightarrow> 'ar \<times> db) \<Rightarrow> request \<Rightarrow> db \<times> login_throttle \<Rightarrow>
   ('sr, 'ar) reply \<times> db \<times> login_throttle" where
  "router we auth rt ready api r = (\<lambda>(d, t).
     let path = rq_Path r; patterns = ''/livez'' # ''/readyz'' # ''/api/v1/'' # web_patterns in
     if cleanPath path \<noteq> path then (Moved (cleanPath path), d, t)
     else if path = ''/livez'' then (Live, d, t)
     else if path = ''/readyz'' then (Ready (ready d), d, t)
     else if pattern_matches path ''/api/v1/'' then
       (case RequireAdminToken we auth api r d of
          (None, d') \<Rightarrow> (ApiUnauthorized, d', t) | (Some resp, d') \<Rightarrow> (ApiReply resp, d', t))
     else if path = ''/'' \<or> (\<exists>p \<in> set web_patterns. pattern_matches path p) then
       (case ServeHTTP we (normalized auth) rt r (d, t) of (resp, s) \<Rightarrow> (WebReply resp, s))
     else if path @ ''/'' \<in> set patterns then (Moved (path @ ''/''), d, t)
     else (MuxNotFound, d, t))"

section \<open>Which pages only read\<close>

named_theorems web_intros \<open>handlers that leave the database alone\<close>

definition web_reads :: "'sr web \<Rightarrow> bool" where
  "web_reads w \<longleftrightarrow> (\<forall>d. snd (w d) = d)"

lemma svc_reads_read [atomic_intros]: "svc_reads (svc_read q)"
  by (simp add: svc_reads_def svc_read_def)

lemma svc_reads_check [atomic_intros]: "svc_reads m \<Longrightarrow> svc_reads (svc_check ps m)"
  by (simp add: svc_check_def atomic_intros)

lemma svc_reads_decode [atomic_intros]: "svc_reads (svc_decode l v)"
  by (cases v) (simp_all add: svc_decode_def atomic_intros)

lemma svc_reads_option [atomic_intros]:
  "svc_reads m \<Longrightarrow> (\<And>a. svc_reads (f a)) \<Longrightarrow> svc_reads (case v of None \<Rightarrow> m | Some a \<Rightarrow> f a)"
  by (cases v) simp_all

lemma svc_reads_sum [atomic_intros]:
  "(\<And>e. svc_reads (f e)) \<Longrightarrow> (\<And>a. svc_reads (g a)) \<Longrightarrow>
   svc_reads (case v of Inl e \<Rightarrow> f e | Inr a \<Rightarrow> g a)"
  by (cases v) simp_all

lemma web_reads_answer [web_intros]: "web_reads (answer resp)"
  by (simp add: web_reads_def answer_def)

lemma web_reads_pair [web_intros]: "web_reads (\<lambda>d. (f d, d))"
  by (simp add: web_reads_def)

lemma web_reads_result [web_intros]:
  assumes "svc_reads m" and "\<And>e. web_reads (bad e)" and "\<And>a. web_reads (good a)"
  shows "web_reads (on_result m bad good)"
proof -
  have "snd (m d) = d" for d using assms(1) by (simp add: svc_reads_def)
  then have "m d = (r, d') \<Longrightarrow> d' = d" for d r d' by (metis snd_conv)
  then show ?thesis
    using assms(2,3) by (fastforce simp: web_reads_def on_result_def split: prod.splits sum.splits)
qed

lemma web_reads_runtime [web_intros]: "(\<And>re. web_reads (f re)) \<Longrightarrow> web_reads (with_runtime rt f)"
  by (cases rt) (simp_all add: with_runtime_def web_intros)

lemma web_reads_method [web_intros]: "web_reads w \<Longrightarrow> web_reads (required_method r ms w)"
  by (simp add: web_reads_def required_method_def)

lemma web_reads_sum [web_intros]:
  "(\<And>e. web_reads (f e)) \<Longrightarrow> (\<And>a. web_reads (g a)) \<Longrightarrow>
   web_reads (case v of Inl e \<Rightarrow> f e | Inr a \<Rightarrow> g a)"
  by (cases v) simp_all

lemma web_reads_option [web_intros]:
  "web_reads f \<Longrightarrow> (\<And>a. web_reads (g a)) \<Longrightarrow> web_reads (case v of None \<Rightarrow> f | Some a \<Rightarrow> g a)"
  by (cases v) simp_all

lemma web_reads_if [web_intros]:
  "web_reads f \<Longrightarrow> web_reads g \<Longrightarrow> web_reads (if b then f else g)"
  by simp

lemma web_reads_with_db:
  "(\<And>d. snd (f d d) = d) \<Longrightarrow> web_reads (\<lambda>d. f d d)"
  by (simp add: web_reads_def)

lemma required_method_other [web_intros]:
  "rq_Method r \<notin> set ms \<Longrightarrow> web_reads (required_method r ms w)"
  by (simp add: web_reads_def required_method_def)

lemma listings_read [atomic_intros]:
  "svc_reads (ListTickets lt)" "svc_reads (ListEvents ee le)" "svc_reads (ListArtifacts la)"
  "svc_reads (ListArtifactsByAttempt i)" "svc_reads (GetArtifact i)"
  unfolding ListTickets_def ListEvents_def ListArtifacts_def ListArtifactsByAttempt_def GetArtifact_def
    Let_def
  by (intro atomic_intros)+

lemma triageItems_reads [atomic_intros]: "svc_reads (triageItems ts)"
  by (induction ts) (auto intro!: atomic_intros)

lemma ListProposedTickets_reads [atomic_intros]: "svc_reads (ListProposedTickets lp)"
  unfolding ListProposedTickets_def Let_def by (intro atomic_intros)

lemma eventTicketTitles_reads [atomic_intros]: "svc_reads (eventTicketTitles es titles)"
  by (induction es arbitrary: titles)
    (auto simp: svc_reads_def svc_return_def split: sum.splits)

lemma OpenArtifact_reads [atomic_intros]: "svc_reads (OpenArtifact re a)"
  unfolding OpenArtifact_def by (intro atomic_intros)

lemma lists_read [web_intros]:
  "web_reads (renderTicketList we rt r)" "web_reads (renderEventLedger we rt r)"
  "web_reads (renderArtifactList we rt r)" "web_reads (renderProposedList we rt r)"
  unfolding renderTicketList_def renderEventLedger_def renderArtifactList_def renderProposedList_def
    Let_def
  by (intro web_intros atomic_intros)+

lemma renderSearch_reads [web_intros]: "web_reads (renderSearch we rt r)"
proof -
  have "svc_reads (\<lambda>d. (q d, d))" for q :: "db \<Rightarrow> svc_error + 'a list"
    by (simp add: svc_reads_def)
  then show ?thesis
    unfolding renderSearch_def by (intro web_intros)
qed

lemma details_read [web_intros]:
  "web_reads (renderProposedDetail rt i)"
  "web_reads (renderArtifactDetail we rt s)" "web_reads (renderArtifactContent we rt s)"
  unfolding renderProposedDetail_def renderArtifactDetail_def renderArtifactContent_def
  by (intro web_intros atomic_intros)+

lemma renderTicketDetail_reads [web_intros]: "web_reads (renderTicketDetail rt i)"
  unfolding renderTicketDetail_def
  by (intro web_intros atomic_intros) (simp add: web_reads_def answer_def Let_def)

lemma renderAttemptDetail_reads [web_intros]: "web_reads (renderAttemptDetail we rt r)"
proof -
  have "web_reads (\<lambda>d. on_result (rt_query q) bad good d)"
    if "\<And>e. web_reads (bad e)" "\<And>a. web_reads (good a)"
    for q :: "db \<Rightarrow> pg_error + attempt_metric" and bad good
    using that by (intro web_intros atomic_intros)
  show ?thesis
    unfolding renderAttemptDetail_def Let_def
    by (intro web_intros atomic_intros)
      (auto simp: web_reads_def on_result_def svc_query_def answer_def split: sum.splits prod.splits)
qed

text \<open>A request that is not a POST only reads.\<close>


lemma workspace_detail_reads [web_intros]: "web_reads (workspace_detail re i)"
  unfolding workspace_detail_def by (intro web_intros atomic_intros)

lemma web_createProject_reads:
  "rq_Method r \<noteq> ''POST'' \<Longrightarrow> web_reads (web_createProject re r i)"
  unfolding web_createProject_def by (intro required_method_other) simp

lemma routes_read:
  assumes "rq_Method r \<noteq> ''POST''"
  shows "web_reads (renderTicketRoute we rt r)" "web_reads (renderArtifactRoute we rt r)"
    "web_reads (renderProposedRoute we rt r)" "web_reads (renderWorkspaceIndex rt r)"
    "web_reads (renderWorkspaceRoute we rt r)"
proof -
  have post: "web_reads (required_method r [''POST''] w)" for w :: "'z web"
    using assms by (intro required_method_other) simp
  show "web_reads (renderTicketRoute we rt r)"
    unfolding renderTicketRoute_def
    by (auto split: option.splits intro: post web_intros)
  show "web_reads (renderArtifactRoute we rt r)"
    unfolding renderArtifactRoute_def
    by (auto split: list.splits intro: post web_intros)
  show "web_reads (renderProposedRoute we rt r)"
    unfolding renderProposedRoute_def
    by (auto split: option.splits intro: post web_intros)
  show "web_reads (renderWorkspaceIndex rt r)"
    using assms unfolding renderWorkspaceIndex_def
    by (intro web_reads_runtime) (simp add: web_reads_pair web_reads_answer)
  show "web_reads (renderWorkspaceRoute we rt r)"
    unfolding renderWorkspaceRoute_def Let_def
    by (intro web_intros web_createProject_reads assms)
qed

lemma web_route_reads: "rq_Method r \<noteq> ''POST'' \<Longrightarrow> web_reads (web_route we rt r)"
  unfolding web_route_def Let_def by (intro web_intros routes_read renderAttemptDetail_reads)

section \<open>What a request without credentials can do\<close>

lemma normalized_simps [simp]:
  "ao_AdminToken (normalized a) = TrimSpace (ao_AdminToken a)" "normalized (normalized a) = normalized a"
  "auth_enabled (normalized a) \<longleftrightarrow> auth_enabled a" "cookieName (normalized a) = cookieName a"
  "ao_SecureCookie (normalized a) = ao_SecureCookie a"
  by (auto simp: normalized_def auth_enabled_def cookieName_def defaultSessionCookieName_def)

lemma holds_token_normalized [simp]: "holds_token we (normalized a) token \<longleftrightarrow> holds_token we a token"
  by (simp add: holds_token_def)

text \<open>What an operator proves itself with: the token in a header of the request.\<close>

definition sends_token :: "web_env \<Rightarrow> auth_options \<Rightarrow> request \<Rightarrow> bool" where
  "sends_token we a r \<longleftrightarrow>
     holds_token we a (bearerToken we (rq_Authorization r)) \<or> holds_token we a (rq_AdminToken r)"

lemma ServeHTTP_cases:
  assumes "ServeHTTP we a rt r (d, t) = (resp, d', t')"
  obtains (page) "\<not> auth_enabled a \<or> isAuthorized we a r \<and>
      (\<not> isCookieAuthorized we a r \<or> \<not> unsafeMethod (rq_Method r) \<or> sameOrigin we r)"
      "web_route we rt r d = (resp, d')" "t' = t"
  | (login) "rq_Path r = ''/login''" "handleLogin we a r t = (resp, t')" "d' = d"
  | (other) "d' = d" "t' = t" "resp \<in> {Asset ''application/javascript'', Asset ''image/svg+xml'',
      Redirect ''/workspaces'', requireLogin we r, handleLogout we a r} \<or>
      isAuthorized we a r \<and> (\<exists>n x y. resp = Status n x y)"
  using assms
  by (auto simp: ServeHTTP_def Let_def split: if_splits prod.splits)

end
