(* ===== verification/Configuration.thy ===== *)
theory Configuration
  imports Webhook_Policy Go_Path
begin

text \<open>
  internal/config/config.go: the configuration from defaults, a JSON file and the environment, in
  this order of precedence, and the checks that each mode of the program makes before it starts.
  The environment, the files and \<open>strings.ToLower\<close> are fields of \<open>config_env\<close>; a file that is read
  has the JSON document it holds, or \<open>None\<close> when it is not JSON. Documents with duplicate keys are
  decoded key by key; a repeated list replaces the earlier one.
\<close>

section \<open>The configuration\<close>

record config =
  DatabaseURL :: string
  HTTPAddr :: string
  LogLevel :: string
  WorkerConcurrency :: int
  AdminToken :: string
  AuthCookieSecure :: bool
  WebhookAllowedHosts :: "string list"
  WebhookAllowedCIDRs :: "string list"
  WebhookRetentionHours :: int
  ArtifactRoot :: string
  ArtifactBackend :: string
  S3Endpoint :: string
  S3Region :: string
  S3Bucket :: string
  S3Prefix :: string
  S3AccessKeyID :: string
  S3SecretAccessKey :: string
  S3SessionToken :: string
  S3UsePathStyle :: bool

datatype config_error =
    OpenConfigFile string
  | DecodeConfigFile
  | MustBeInteger string
  | MustBeBoolean string
  | ResolveConfigPath string
  | ResolveWorkingDirectory string

record config_env =
  ce_Getenv :: "string \<Rightarrow> string"
  ce_ReadFile :: "string \<Rightarrow> string + json option"
  ce_Getwd :: "string + string"
  ce_ToLower :: "string \<Rightarrow> string"

definition DeprecatedDevelopmentAdminToken :: string where
  "DeprecatedDevelopmentAdminToken = ''change-me-local-admin-token''"

definition defaultArtifactRoot :: string where "defaultArtifactRoot = ''.forge/artifacts''"
definition defaultArtifactBackend :: string where "defaultArtifactBackend = ''local''"

definition default_config :: config where
  "default_config =
     \<lparr>DatabaseURL = [], HTTPAddr = ''127.0.0.1:3017'', LogLevel = ''info'', WorkerConcurrency = 1,
      AdminToken = [], AuthCookieSecure = False, WebhookAllowedHosts = [], WebhookAllowedCIDRs = [],
      WebhookRetentionHours = 0, ArtifactRoot = defaultArtifactRoot,
      ArtifactBackend = defaultArtifactBackend, S3Endpoint = [], S3Region = [], S3Bucket = [],
      S3Prefix = [], S3AccessKeyID = [], S3SecretAccessKey = [], S3SessionToken = [],
      S3UsePathStyle = False\<rparr>"

section \<open>The file\<close>

text \<open>The folding that \<open>encoding/json\<close> compares a key with a field name by: ASCII letters without
  case, and the two other runes that fold to an ASCII letter (U+017F to s, U+212A to k).\<close>

fun foldName :: "string \<Rightarrow> string" where
  "foldName (c # d # e # s) =
     (if c = CHR 0xC5 \<and> d = CHR 0xBF then CHR ''s'' # foldName (e # s)
      else if c = CHR 0xE2 \<and> d = CHR 0x84 \<and> e = CHR 0xAA then CHR ''k'' # foldName s
      else ascii_lower c # foldName (d # e # s))"
| "foldName [c, d] =
     (if c = CHR 0xC5 \<and> d = CHR 0xBF then ''s'' else [ascii_lower c, ascii_lower d])"
| "foldName [c] = [ascii_lower c]"
| "foldName [] = []"

text \<open>A value decoded into a field: \<open>None\<close> is a type error, and null keeps the field.\<close>

fun into_string :: "json \<Rightarrow> string \<Rightarrow> string option" where
  "into_string (JStr s) old = Some s"
| "into_string JNull old = Some old"
| "into_string _ old = None"

fun into_bool :: "json \<Rightarrow> bool \<Rightarrow> bool option" where
  "into_bool (JBool b) old = Some b"
| "into_bool JNull old = Some old"
| "into_bool _ old = None"

fun into_int :: "json \<Rightarrow> int \<Rightarrow> int option" where
  "into_int (JNum m s) old =
     (if s = 0 \<and> - (2 ^ 63) \<le> m \<and> m < 2 ^ 63 then Some m else None)"
| "into_int JNull old = Some old"
| "into_int _ old = None"

fun into_elements :: "json list \<Rightarrow> string list option" where
  "into_elements [] = Some []"
| "into_elements (j # js) =
     Option.bind (into_string j []) (\<lambda>s. map_option ((#) s) (into_elements js))"

fun into_strings :: "json \<Rightarrow> string list option" where
  "into_strings (JArr js) = into_elements js"
| "into_strings JNull = Some []"
| "into_strings _ = None"

definition decode_entry :: "string \<times> json \<Rightarrow> config \<Rightarrow> config option" where
  "decode_entry kv c =
     (let k = foldName (fst kv); j = snd kv in
      if k = ''database_url'' then map_option (\<lambda>v. c\<lparr>DatabaseURL := v\<rparr>) (into_string j (DatabaseURL c))
      else if k = ''http_addr'' then map_option (\<lambda>v. c\<lparr>HTTPAddr := v\<rparr>) (into_string j (HTTPAddr c))
      else if k = ''log_level'' then map_option (\<lambda>v. c\<lparr>LogLevel := v\<rparr>) (into_string j (LogLevel c))
      else if k = ''worker_concurrency''
      then map_option (\<lambda>v. c\<lparr>WorkerConcurrency := v\<rparr>) (into_int j (WorkerConcurrency c))
      else if k = ''admin_token'' then map_option (\<lambda>v. c\<lparr>AdminToken := v\<rparr>) (into_string j (AdminToken c))
      else if k = ''auth_cookie_secure''
      then map_option (\<lambda>v. c\<lparr>AuthCookieSecure := v\<rparr>) (into_bool j (AuthCookieSecure c))
      else if k = ''webhook_allowed_hosts''
      then map_option (\<lambda>v. c\<lparr>WebhookAllowedHosts := v\<rparr>) (into_strings j)
      else if k = ''webhook_allowed_cidrs''
      then map_option (\<lambda>v. c\<lparr>WebhookAllowedCIDRs := v\<rparr>) (into_strings j)
      else if k = ''webhook_retention_hours''
      then map_option (\<lambda>v. c\<lparr>WebhookRetentionHours := v\<rparr>) (into_int j (WebhookRetentionHours c))
      else if k = ''artifact_root'' then map_option (\<lambda>v. c\<lparr>ArtifactRoot := v\<rparr>) (into_string j (ArtifactRoot c))
      else if k = ''artifact_backend''
      then map_option (\<lambda>v. c\<lparr>ArtifactBackend := v\<rparr>) (into_string j (ArtifactBackend c))
      else if k = ''s3_endpoint'' then map_option (\<lambda>v. c\<lparr>S3Endpoint := v\<rparr>) (into_string j (S3Endpoint c))
      else if k = ''s3_region'' then map_option (\<lambda>v. c\<lparr>S3Region := v\<rparr>) (into_string j (S3Region c))
      else if k = ''s3_bucket'' then map_option (\<lambda>v. c\<lparr>S3Bucket := v\<rparr>) (into_string j (S3Bucket c))
      else if k = ''s3_prefix'' then map_option (\<lambda>v. c\<lparr>S3Prefix := v\<rparr>) (into_string j (S3Prefix c))
      else if k = ''s3_access_key_id''
      then map_option (\<lambda>v. c\<lparr>S3AccessKeyID := v\<rparr>) (into_string j (S3AccessKeyID c))
      else if k = ''s3_secret_access_key''
      then map_option (\<lambda>v. c\<lparr>S3SecretAccessKey := v\<rparr>) (into_string j (S3SecretAccessKey c))
      else if k = ''s3_session_token''
      then map_option (\<lambda>v. c\<lparr>S3SessionToken := v\<rparr>) (into_string j (S3SessionToken c))
      else if k = ''s3_use_path_style''
      then map_option (\<lambda>v. c\<lparr>S3UsePathStyle := v\<rparr>) (into_bool j (S3UsePathStyle c))
      else Some c)"

fun decode_entries :: "(string \<times> json) list \<Rightarrow> config \<Rightarrow> config option" where
  "decode_entries [] c = Some c"
| "decode_entries (kv # kvs) c = Option.bind (decode_entry kv c) (decode_entries kvs)"

text \<open>The flag tells whether the document has the key \<open>artifact_root\<close>, spelled so.\<close>

definition loadFile :: "config_env \<Rightarrow> string \<Rightarrow> config \<Rightarrow> config_error + config \<times> bool" where
  "loadFile ce path cfg =
     (case ce_ReadFile ce path of
        Inl msg \<Rightarrow> Inl (OpenConfigFile msg)
      | Inr (Some (JObj kvs)) \<Rightarrow>
          (case decode_entries kvs cfg of
             None \<Rightarrow> Inl DecodeConfigFile
           | Some c \<Rightarrow> Inr (c, ''artifact_root'' \<in> set (map fst kvs)))
      | Inr (Some JNull) \<Rightarrow> Inr (cfg, False)
      | Inr _ \<Rightarrow> Inl DecodeConfigFile)"

section \<open>Paths\<close>

definition IsAbs :: "string \<Rightarrow> bool" where
  "IsAbs p \<longleftrightarrow> prefix ''/'' p"

definition Abs_path :: "config_env \<Rightarrow> string \<Rightarrow> string + string" where
  "Abs_path ce p =
     (if IsAbs p then Inr (Clean p) else and_then (ce_Getwd ce) (\<lambda>wd. Inr (path_Join [wd, p])))"

definition UserHomeDir :: "config_env \<Rightarrow> string option" where
  "UserHomeDir ce = (let h = ce_Getenv ce ''HOME'' in if h = [] then None else Some h)"

definition base_directory ::
  "config_env \<Rightarrow> string \<Rightarrow> string \<Rightarrow> bool \<Rightarrow> bool \<Rightarrow> config_error + string" where
  "base_directory ce root configPath explicit fromEnv =
     (let working = (case ce_Getwd ce of Inl msg \<Rightarrow> Inl (ResolveWorkingDirectory msg) | Inr wd \<Rightarrow> Inr wd) in
      if explicit \<and> \<not> fromEnv \<and> TrimSpace configPath \<noteq> []
      then (case Abs_path ce configPath of Inl msg \<Rightarrow> Inl (ResolveConfigPath msg) | Inr p \<Rightarrow> Inr (Dir p))
      else if \<not> explicit \<and> root = defaultArtifactRoot
      then (case UserHomeDir ce of Some home \<Rightarrow> Inr home | None \<Rightarrow> working)
      else working)"

definition normalizeArtifactRoot ::
  "config_env \<Rightarrow> string \<Rightarrow> string \<Rightarrow> bool \<Rightarrow> bool \<Rightarrow> config_error + string" where
  "normalizeArtifactRoot ce root0 configPath explicit0 fromEnv =
     (let t = TrimSpace root0;
          root = (if t = [] then defaultArtifactRoot else t);
          explicit = (t \<noteq> [] \<and> explicit0) in
      if IsAbs root then Inr (Clean root)
      else and_then (base_directory ce root configPath explicit fromEnv)
             (\<lambda>base. Inr (Clean (path_Join [base, root]))))"

section \<open>Loading\<close>

definition ParseBool :: "string \<Rightarrow> bool option" where
  "ParseBool s =
     (if s \<in> set [''1'', ''t'', ''T'', ''true'', ''TRUE'', ''True''] then Some True
      else if s \<in> set [''0'', ''f'', ''F'', ''false'', ''FALSE'', ''False''] then Some False
      else None)"

definition env_string :: "config_env \<Rightarrow> string \<Rightarrow> string \<Rightarrow> string" where
  "env_string ce key old = (let v = ce_Getenv ce key in if v \<noteq> [] then v else old)"

definition env_int :: "config_env \<Rightarrow> string \<Rightarrow> int \<Rightarrow> config_error + int" where
  "env_int ce key old =
     (let v = ce_Getenv ce key in
      if v = [] then Inr old
      else case ParseInt v of None \<Rightarrow> Inl (MustBeInteger key) | Some n \<Rightarrow> Inr n)"

definition env_bool :: "config_env \<Rightarrow> string \<Rightarrow> bool \<Rightarrow> config_error + bool" where
  "env_bool ce key old =
     (let v = ce_Getenv ce key in
      if v = [] then Inr old
      else case ParseBool v of None \<Rightarrow> Inl (MustBeBoolean key) | Some b \<Rightarrow> Inr b)"

definition splitCSV :: "string \<Rightarrow> string list" where
  "splitCSV v = Split (CHR '','') v"

definition env_csv :: "config_env \<Rightarrow> string \<Rightarrow> string list \<Rightarrow> string list" where
  "env_csv ce key old = (let v = ce_Getenv ce key in if v \<noteq> [] then splitCSV v else old)"

definition compactConfigStrings :: "string list \<Rightarrow> string list" where
  "compactConfigStrings vs = filter (\<lambda>v. v \<noteq> []) (map TrimSpace vs)"

definition first_nonempty :: "string list \<Rightarrow> string" where
  "first_nonempty vs = (case filter (\<lambda>v. v \<noteq> []) vs of [] \<Rightarrow> [] | v # _ \<Rightarrow> v)"

text \<open>The variables of the environment over the configuration of the file.\<close>

definition load_environment :: "config_env \<Rightarrow> config \<Rightarrow> config_error + config" where
  "load_environment ce c =
     and_then (env_int ce ''FORGE_WORKER_CONCURRENCY'' (WorkerConcurrency c)) (\<lambda>workers.
     and_then (env_bool ce ''FORGE_AUTH_COOKIE_SECURE'' (AuthCookieSecure c)) (\<lambda>secure.
     and_then (env_int ce ''FORGE_WEBHOOK_RETENTION_HOURS'' (WebhookRetentionHours c)) (\<lambda>retention.
     and_then (env_bool ce ''FORGE_S3_USE_PATH_STYLE'' (S3UsePathStyle c)) (\<lambda>pathStyle.
     Inr \<lparr>DatabaseURL = env_string ce ''FORGE_DATABASE_URL'' (DatabaseURL c),
          HTTPAddr = env_string ce ''FORGE_HTTP_ADDR'' (HTTPAddr c),
          LogLevel = env_string ce ''FORGE_LOG_LEVEL'' (LogLevel c),
          WorkerConcurrency = workers,
          AdminToken = env_string ce ''FORGE_ADMIN_TOKEN'' (AdminToken c),
          AuthCookieSecure = secure,
          WebhookAllowedHosts = env_csv ce ''FORGE_WEBHOOK_ALLOWED_HOSTS'' (WebhookAllowedHosts c),
          WebhookAllowedCIDRs = env_csv ce ''FORGE_WEBHOOK_ALLOWED_CIDRS'' (WebhookAllowedCIDRs c),
          WebhookRetentionHours = retention,
          ArtifactRoot = env_string ce ''FORGE_ARTIFACT_ROOT'' (ArtifactRoot c),
          ArtifactBackend = env_string ce ''FORGE_ARTIFACT_BACKEND'' (ArtifactBackend c),
          S3Endpoint = env_string ce ''FORGE_S3_ENDPOINT'' (S3Endpoint c),
          S3Region = env_string ce ''FORGE_S3_REGION'' (S3Region c),
          S3Bucket = env_string ce ''FORGE_S3_BUCKET'' (S3Bucket c),
          S3Prefix = env_string ce ''FORGE_S3_PREFIX'' (S3Prefix c),
          S3AccessKeyID = env_string ce ''FORGE_S3_ACCESS_KEY_ID'' (S3AccessKeyID c),
          S3SecretAccessKey = env_string ce ''FORGE_S3_SECRET_ACCESS_KEY'' (S3SecretAccessKey c),
          S3SessionToken = env_string ce ''FORGE_S3_SESSION_TOKEN'' (S3SessionToken c),
          S3UsePathStyle = pathStyle\<rparr>))))"

definition tidy_config :: "config_env \<Rightarrow> string \<Rightarrow> config \<Rightarrow> config" where
  "tidy_config ce root c =
     (let backend = ce_ToLower ce (TrimSpace (ArtifactBackend c)) in
      c\<lparr>ArtifactRoot := root,
        ArtifactBackend := (if backend = [] then defaultArtifactBackend else backend),
        S3Endpoint := TrimSpace (S3Endpoint c), S3Region := TrimSpace (S3Region c),
        S3Bucket := TrimSpace (S3Bucket c), S3Prefix := TrimSpace (S3Prefix c),
        S3AccessKeyID := TrimSpace (S3AccessKeyID c),
        S3SecretAccessKey := TrimSpace (S3SecretAccessKey c),
        S3SessionToken := TrimSpace (S3SessionToken c),
        WebhookAllowedHosts := compactConfigStrings (WebhookAllowedHosts c),
        WebhookAllowedCIDRs := compactConfigStrings (WebhookAllowedCIDRs c)\<rparr>)"

definition Load :: "config_env \<Rightarrow> string \<Rightarrow> config_error + config" where
  "Load ce optPath =
     (let configPath = first_nonempty [optPath, ce_Getenv ce ''FORGE_CONFIG''] in
      and_then (if configPath \<noteq> [] then loadFile ce configPath default_config
                else Inr (default_config, False)) (\<lambda>(fileConfig, rootSet).
      and_then (load_environment ce fileConfig) (\<lambda>cfg.
      let fromEnv = (ce_Getenv ce ''FORGE_ARTIFACT_ROOT'' \<noteq> []) in
      and_then (normalizeArtifactRoot ce (ArtifactRoot cfg) configPath (rootSet \<or> fromEnv) fromEnv)
        (\<lambda>root. Inr (tidy_config ce root cfg)))))"

section \<open>Checks before a mode starts\<close>

text \<open>\<open>net.SplitHostPort\<close>.\<close>

definition index_of :: "char \<Rightarrow> string \<Rightarrow> nat option" where
  "index_of c s = (if c \<in> set s then Some (length (takeWhile (\<lambda>x. x \<noteq> c) s)) else None)"

definition SplitHostPort :: "string \<Rightarrow> (string \<times> string) option" where
  "SplitHostPort hp =
     (if CHR '':'' \<notin> set hp then None
      else
        (let i = length hp - 1 - length (takeWhile (\<lambda>x. x \<noteq> CHR '':'') (rev hp)); port = drop (i + 1) hp in
         if hd hp = CHR ''['' then
           (case index_of (CHR '']'') hp of
              None \<Rightarrow> None
            | Some end \<Rightarrow>
                if end + 1 \<noteq> i then None
                else if CHR ''['' \<in> set (drop 1 hp) \<or> CHR '']'' \<in> set (drop (end + 1) hp) then None
                else Some (take (end - 1) (drop 1 hp), port))
         else if CHR '':'' \<in> set (take i hp) then None
         else if CHR ''['' \<in> set hp \<or> CHR '']'' \<in> set hp then None
         else Some (take i hp, port)))"

definition trim_brackets :: "string \<Rightarrow> string" where
  "trim_brackets s =
     (let p = (\<lambda>c. c = CHR ''['' \<or> c = CHR '']'') in rev (dropWhile p (rev (dropWhile p s))))"

text \<open>\<open>net.ParseIP\<close> refuses an address with a zone.\<close>

definition ParseIP :: "string \<Rightarrow> addr option" where
  "ParseIP s =
     (case ParseAddr s of
        None \<Rightarrow> None
      | Some a \<Rightarrow> if has_zone a then None else Some a)"

definition isLoopbackAddress :: "string \<Rightarrow> bool" where
  "isLoopbackAddress address =
     (case SplitHostPort address of
        None \<Rightarrow> False
      | Some (h, _) \<Rightarrow>
          let host = trim_brackets (TrimSpace h) in
          if foldName host = ''localhost'' then True
          else (case ParseIP host of None \<Rightarrow> False | Some ip \<Rightarrow> IsLoopback (Unmap ip)))"

text \<open>The checks return the message of the first problem.\<close>

definition ValidateArtifactStorage :: "config_env \<Rightarrow> config \<Rightarrow> string option" where
  "ValidateArtifactStorage ce c =
     (let backend = ce_ToLower ce (TrimSpace (ArtifactBackend c)) in
      if backend = [] \<or> backend = ''local'' then None
      else if backend = ''s3'' then
        (if TrimSpace (S3Bucket c) = [] then Some ''s3_bucket is required when artifact_backend is s3''
         else if TrimSpace (S3SessionToken c) \<noteq> [] \<and>
                 (TrimSpace (S3AccessKeyID c) = [] \<or> TrimSpace (S3SecretAccessKey c) = [])
         then Some ''s3_access_key_id and s3_secret_access_key are required when s3_session_token is provided''
         else if (TrimSpace (S3AccessKeyID c) = []) \<noteq> (TrimSpace (S3SecretAccessKey c) = [])
         then Some ''s3_access_key_id and s3_secret_access_key must be provided together''
         else None)
      else Some ''artifact_backend must be local or s3'')"

definition ValidateServer :: "config_env \<Rightarrow> config \<Rightarrow> string option" where
  "ValidateServer ce c =
     (if DatabaseURL c = [] then Some ''database_url is required''
      else if HTTPAddr c = [] then Some ''http_addr is required''
      else if TrimSpace (AdminToken c) = [] then Some ''admin_token is required''
      else if \<not> isLoopbackAddress (HTTPAddr c) \<and>
              TrimSpace (AdminToken c) = DeprecatedDevelopmentAdminToken
      then Some ''admin_token must not use the development placeholder outside loopback''
      else if \<not> isLoopbackAddress (HTTPAddr c) \<and> \<not> AuthCookieSecure c
      then Some ''auth_cookie_secure must be true outside loopback''
      else ValidateArtifactStorage ce c)"

definition ValidateWorker :: "config_env \<Rightarrow> config \<Rightarrow> string option" where
  "ValidateWorker ce c =
     (if DatabaseURL c = [] then Some ''database_url is required''
      else if WorkerConcurrency c \<le> 0 then Some ''worker_concurrency must be greater than zero''
      else ValidateArtifactStorage ce c)"

definition ValidateRuntime :: "config_env \<Rightarrow> config \<Rightarrow> string option" where
  "ValidateRuntime ce c =
     (if DatabaseURL c = [] then Some ''database_url is required''
      else if WebhookRetentionHours c < 0 then Some ''webhook_retention_hours must not be negative''
      else ValidateArtifactStorage ce c)"

section \<open>The artifact root is absolute\<close>

lemma clean_segs_rooted:
  assumes "\<forall>s \<in> set out. proper_segment s" and "\<forall>s \<in> set ss. CHR ''/'' \<notin> set s"
  shows "\<forall>s \<in> set (clean_segs True out ss). proper_segment s"
  using assms
proof (induction ss arbitrary: out)
  case (Cons s ss)
  have ss: "\<forall>s \<in> set ss. CHR ''/'' \<notin> set s" and s: "CHR ''/'' \<notin> set s" using Cons.prems by auto
  consider "s = [] \<or> s = ''.''" | "s = ''..''" | "proper_segment s"
    using s by (auto simp: proper_segment_def)
  then show ?case
  proof cases
    case 1
    with Cons.IH [OF Cons.prems(1) ss] show ?thesis by auto
  next
    case 2
    show ?thesis
    proof (cases out)
      case Nil
      with Cons.IH [of "[]"] ss 2 show ?thesis by simp
    next
      case out: (Cons x xs)
      have "\<forall>s \<in> set (clean_segs True xs ss). proper_segment s"
        using Cons.prems(1) out by (intro Cons.IH ss) simp
      moreover have "x \<noteq> ''..''" using Cons.prems(1) out by (simp add: proper_segment_def)
      ultimately show ?thesis using 2 out by simp
    qed
  next
    case 3
    then have "s \<noteq> []" "s \<noteq> ''.''" "s \<noteq> ''..''" by (simp_all add: proper_segment_def)
    with Cons.IH [of "s # out"] Cons.prems ss 3 show ?thesis by simp
  qed
qed simp

lemma Clean_rooted_form:
  assumes "IsAbs p"
  obtains out where "Clean p = CHR ''/'' # Join (CHR ''/'') out" "\<forall>s \<in> set out. proper_segment s"
proof
  let ?out = "clean_segs True [] (Split (CHR ''/'') p)"
  from assms have "p \<noteq> []" "hd p = CHR ''/''" by (auto simp: IsAbs_def prefix_def)
  then show "Clean p = CHR ''/'' # Join (CHR ''/'') ?out" by (simp add: Clean_def)
  show "\<forall>s \<in> set ?out. proper_segment s"
    by (rule clean_segs_rooted) (auto dest: Split_no_sep)
qed

lemma IsAbs_Cons [simp]: "IsAbs (CHR ''/'' # p)"
  by (simp add: IsAbs_def)

lemma IsAbs_Clean: "IsAbs p \<Longrightarrow> IsAbs (Clean p)"
  by (erule Clean_rooted_form) simp

lemma Clean_Clean:
  assumes "IsAbs p"
  shows "Clean (Clean p) = Clean p"
proof -
  from assms obtain out where c: "Clean p = CHR ''/'' # Join (CHR ''/'') out"
    and good: "\<forall>s \<in> set out. proper_segment s"
    by (rule Clean_rooted_form)
  have "clean_segs True [] (Split (CHR ''/'') (Join (CHR ''/'') out)) = out"
  proof (cases "out = []")
    case False
    then have "Split (CHR ''/'') (Join (CHR ''/'') out) = out"
      using good by (intro Split_Join) (auto simp: proper_segment_def)
    then show ?thesis using clean_segs_proper [OF good] by simp
  qed simp
  then have "Clean (CHR ''/'' # Join (CHR ''/'') out) = CHR ''/'' # Join (CHR ''/'') out"
    by (simp add: Clean_def Let_def)
  with c show ?thesis by simp
qed

lemma IsAbs_Join: "IsAbs base \<Longrightarrow> IsAbs (path_Join [base, p])"
proof -
  assume "IsAbs base"
  then obtain b where b: "base = CHR ''/'' # b" by (auto simp: IsAbs_def prefix_def)
  show ?thesis by (cases p) (auto simp: path_Join_def b intro!: IsAbs_Clean)
qed

lemma IsAbs_Dir: "IsAbs p \<Longrightarrow> IsAbs (Dir p)"
proof -
  assume "IsAbs p"
  then obtain q where "p = CHR ''/'' # q" by (auto simp: IsAbs_def prefix_def)
  then have "IsAbs (rev (dropWhile (\<lambda>c. c \<noteq> CHR ''/'') (rev p)))"
    by (cases "CHR ''/'' \<in> set q") (auto simp: dropWhile_append3 dropWhile_append1)
  then show ?thesis unfolding Dir_def by (rule IsAbs_Clean)
qed

text \<open>The process runs in a directory with an absolute path, as \<open>os.Getwd\<close> documents, and a home
  directory that is set is absolute.\<close>

definition absolute_environment :: "config_env \<Rightarrow> bool" where
  "absolute_environment ce \<longleftrightarrow>
     (case ce_Getwd ce of Inl _ \<Rightarrow> True | Inr wd \<Rightarrow> IsAbs wd) \<and>
     (case UserHomeDir ce of None \<Rightarrow> True | Some home \<Rightarrow> IsAbs home)"

lemma base_directory_absolute:
  assumes "absolute_environment ce" and "base_directory ce root configPath explicit fromEnv = Inr base"
  shows "IsAbs base"
  using assms
  by (auto simp: base_directory_def absolute_environment_def Abs_path_def Let_def and_then_Inr_iff
      split: if_splits sum.splits option.splits intro!: IsAbs_Dir IsAbs_Clean IsAbs_Join)

lemma normalizeArtifactRoot_absolute:
  assumes "absolute_environment ce"
    and "normalizeArtifactRoot ce root configPath explicit fromEnv = Inr r"
  shows "IsAbs r \<and> Clean r = r"
  using assms base_directory_absolute [OF assms(1)]
  by (auto simp: normalizeArtifactRoot_def Let_def and_then_Inr_iff IsAbs_Join IsAbs_Clean Clean_Clean
      split: if_splits)

section \<open>Loopback addresses\<close>

text \<open>An address that only the machine itself reaches: a name that means localhost, or an IP address
  of the loopback blocks.\<close>

definition loopback_block :: "addr \<Rightarrow> bool" where
  "loopback_block a =
     (case a of V4 w \<Rightarrow> in_block 32 (127 * 2 ^ 24, 8) (unat w) | V6 w _ \<Rightarrow> w = 1 | AddrInvalid \<Rightarrow> False)"

definition local_address :: "string \<Rightarrow> bool" where
  "local_address address \<longleftrightarrow>
     (\<exists>h port host. SplitHostPort address = Some (h, port) \<and> host = trim_brackets (TrimSpace h) \<and>
        (foldName host = ''localhost'' \<or>
         (\<exists>ip. ParseAddr host = Some ip \<and> loopback_block (Unmap ip))))"

lemma v4_loopback: "v4_byte 0 w = 127 \<longleftrightarrow> in_block 32 (127 * 2 ^ 24, 8) (unat w)"
proof -
  have "unat w div 2 ^ 24 < 256"
    using unsigned_less [where 'a = nat, of w] by (simp add: less_mult_imp_div_less)
  then show ?thesis by (simp add: in_block_def word_eq_iff unat_bytes)
qed

lemma isLoopbackAddress_local: "isLoopbackAddress address \<Longrightarrow> local_address address"
proof -
  have "IsLoopback a \<Longrightarrow> loopback_block a" for a
    by (cases a) (simp_all add: loopback_block_def v4_loopback)
  then show "isLoopbackAddress address \<Longrightarrow> local_address address"
    by (auto simp: isLoopbackAddress_def local_address_def ParseIP_def Let_def
        split: option.splits if_splits)
qed

end
