(* ===== verification/Web_Properties.thy ===== *)
theory Web_Properties
  imports Web_Pages Configuration Ticket_Transitions Forge_Sample
begin

text \<open>
  What the human web interface and the router promise: requests without credentials and requests
  from other sites change nothing, the form bounds the guesses of the token, sessions end when they
  expire, and a page offers the actions that the ticket service carries out.
\<close>

section \<open>Requests without credentials\<close>

text \<open>What an unauthenticated request is answered with; a session is handed out for the token only.\<close>

fun public_reply :: "bool \<Rightarrow> ('sr, 'ar) reply \<Rightarrow> bool" where
  "public_reply token (ApiReply _) = False"
| "public_reply token (WebReply (Page _ _)) = False"
| "public_reply token (WebReply (Status _ _ _)) = False"
| "public_reply token (WebReply (SessionCleared _ _)) = False"
| "public_reply token (WebReply (SessionStarted _ _ _ _)) = token"
| "public_reply token _ = True"

lemma handleLogin_reply:
  assumes "handleLogin we a r t = (resp, t')"
  shows "public_reply (holds_token we a (FormValue r ''admin_token'')) (WebReply resp)"
  using assms
  by (auto simp: handleLogin_def overLimit_def Let_def constantTimeTokenEqual_def holds_token_def
      split: if_splits)

lemma not_authorized:
  assumes "\<not> sends_token we a r" and "\<not> holds_session we (normalized a) r"
  shows "\<not> isAuthorized we (normalized a) r"
  using assms isAuthorizedD [of we "normalized a" r] by (auto simp: sends_token_def)

lemma ServeHTTP_unauthorized:
  assumes "ServeHTTP we (normalized a) rt r (d, t) = (resp, d', t')" and "auth_enabled a"
    and "\<not> isAuthorized we (normalized a) r"
  shows "d' = d \<and> public_reply (holds_token we a (FormValue r ''admin_token'')) (WebReply resp)"
  using assms(1)
proof (cases rule: ServeHTTP_cases)
  case login
  then show ?thesis using handleLogin_reply [of we "normalized a" r t resp t'] by simp
next
  case other
  with assms(3) show ?thesis by (auto simp: requireLogin_def handleLogout_def)
qed (use assms(2,3) in simp)

lemma RequireAdminToken_refuses:
  assumes "auth_enabled a" and "\<not> sends_token we a r"
  shows "RequireAdminToken we a serve r s = (None, s)"
  using assms ValidAdminTokenD [of we "normalized a"]
  by (auto simp: RequireAdminToken_def sends_token_def Let_def)

text \<open>C21. A request that has no token in a header and no signed session that is still valid leaves the
  database as it was, reaches no handler of the API and is answered without a page; it is handed a
  session only if its form has the token. Tokens and signatures are compared by their digests.\<close>

theorem no_credentials_no_effect:
  assumes "auth_enabled a" and "\<not> sends_token we a r" and "\<not> holds_session we (normalized a) r"
    and "router we a rt ready api r (d, t) = (reply, d', t')"
  shows "d' = d \<and> public_reply (holds_token we a (FormValue r ''admin_token'')) reply"
  using assms(4) ServeHTTP_unauthorized [OF _ assms(1) not_authorized [OF assms(2,3)], of rt d t]
    RequireAdminToken_refuses [OF assms(1,2), of api d]
  by (auto simp: router_def Let_def split: if_splits prod.splits)

text \<open>A server with the token ''secret'' and a POST that archives a ticket of the sample.\<close>

definition sample_web :: web_env where
  "sample_web =
     \<lparr>we_sha256 = (\<lambda>s. s), we_hmac = (\<lambda>k m. CHR ''m'' # k), we_fold = map ascii_lower,
      we_url = \<lparr>ue_Parse = (\<lambda>s. Inr \<lparr>u_Scheme = ''http'', u_Host = drop 7 s, u_Path = [],
          u_EscapedPath = [], u_RawQuery = [], u_Fragment = []\<rparr>),
        ue_String = (\<lambda>_ _ p. p), ue_PathUnescape = Inr\<rparr>,
      we_QueryEscape = (\<lambda>s. s), we_scan = (\<lambda>s. if s = ''t'' then Some sample_ticket else None),
      we_now = 1000, we_issued = 1000\<rparr>"

definition sample_auth :: auth_options where
  "sample_auth =
     \<lparr>ao_AdminToken = ''secret'', ao_CookieName = [], ao_SecureCookie = False, ao_SessionTTL = 0\<rparr>"

definition sample_runtime :: "(unit, nat) runtime_env" where
  "sample_runtime =
     \<lparr>re_pg = sample_env, re_events = \<lparr>ee_format_time = (\<lambda>_. []), ee_parse_time = (\<lambda>_. None),
        ee_scan = (\<lambda>_. None)\<rparr>,
      re_collate = length, re_search = (\<lambda>_ _. Inr []), re_remove = (\<lambda>_. None),
      re_open = (\<lambda>_. Inl ''closed''), re_s3 = None, re_url = we_url sample_web\<rparr>"

definition sample_request :: request where
  "sample_request =
     \<lparr>rq_Method = ''POST'', rq_Path = ''/tickets/t/archive'', rq_RequestURI = ''/tickets/t/archive'',
      rq_Host = ''forge'', rq_Authorization = [], rq_AdminToken = [], rq_Origin = [], rq_Cookies = [],
      rq_Query = [], rq_Form = [], rq_FormError = False\<rparr>"

abbreviation sample_router ::
  "request \<Rightarrow> (unit, unit) reply \<times> db \<times> login_throttle" where
  "sample_router r \<equiv> router sample_web sample_auth (Some sample_runtime) (\<lambda>_. True)
     (\<lambda>_ d. ((), d\<lparr>tickets := []\<rparr>)) r (sample_ready, new_throttle)"

theorem no_credentials_no_effect_witness:
  "fst (snd (sample_router sample_request)) = sample_ready \<and>
   public_reply False (fst (sample_router sample_request))"
proof -
  obtain reply d' t' where e: "sample_router sample_request = (reply, d', t')"
    by (rule prod_cases3)
  have "auth_enabled sample_auth" "\<not> sends_token sample_web sample_auth sample_request"
    "\<not> holds_token sample_web sample_auth (FormValue sample_request ''admin_token'')"
    by code_simp+
  moreover have "\<not> holds_session sample_web (normalized sample_auth) sample_request"
    by (simp add: holds_session_def sample_request_def)
  ultimately show ?thesis
    using no_credentials_no_effect [OF _ _ _ e] by (simp add: e)
qed

section \<open>Requests from other sites\<close>







section \<open>Logins and sessions\<close>

text \<open>Of the login forms handled in any one minute, at most twenty are compared with the token and
  rejected; the others are turned away unread.\<close>

theorem login_guesses_bounded:
  assumes "sorted (login_times xs)"
  shows "length (filter (\<lambda>(now, resp). rejected resp \<and> start \<le> now \<and> now < start + minute)
    (login_responses a xs new_throttle)) \<le> 20"
  using rejections_bounded [OF assms, of new_throttle start a]
  by (simp add: new_throttle_def loginFailureWindow_def)

definition sample_guess :: request where
  "sample_guess = sample_request\<lparr>rq_Path := ''/login'', rq_Form := [(''admin_token'', ''guess'')]\<rparr>"

theorem login_guesses_bounded_witness:
  "length (filter (\<lambda>(now, resp). rejected resp \<and> 0 \<le> now \<and> now < minute)
    (login_responses sample_auth (replicate 30 (sample_web, sample_guess)) new_throttle
       :: (timestamp \<times> unit response) list)) \<le> 20"
proof -
  have "sorted (login_times (replicate 30 (sample_web, sample_guess)))"
    by (simp only: map_replicate sorted_replicate)
  from login_guesses_bounded [OF this, of 0 sample_auth] show ?thesis by (simp only: add_0)
qed

text \<open>A session is handed out to a form with the token. Its value is accepted until the second of
  its expiry, whatever its signature, and from then on it is not.\<close>

theorem session_ends_at_expiry:
  assumes "handleLogin we a r t = (SessionStarted v e secure next :: 'sr page response, t')"
    and "\<And>k m. we_hmac we k m \<noteq> []" and "0 \<le> e" and "e < 2 ^ 62 * second"
  shows "e = we_issued we + sessionTTL a \<and> holds_token we a (FormValue r ''admin_token'') \<and>
    (validSessionValue (we\<lparr>we_now := now\<rparr>) a v \<longleftrightarrow> now < e div second * second)"
proof -
  from assms(1) have "v = sessionValue we a e" "e = we_issued we + sessionTTL a"
    by (auto simp: handleLogin_def overLimit_def Let_def split: if_splits)
  moreover from assms(1) have "holds_token we a (FormValue r ''admin_token'')"
    using handleLogin_reply [of we a r t "SessionStarted v e secure next" t'] by simp
  ultimately show ?thesis
    using validSessionValue_issued [OF assms(2-4), of now a] by simp
qed

definition sample_login :: request where
  "sample_login = sample_guess\<lparr>rq_Form := [(''admin_token'', ''secret'')]\<rparr>"

lemma sample_login_started:
  assumes "ao_AdminToken a = ''secret''"
  shows "handleLogin sample_web a sample_login new_throttle =
    (SessionStarted (sessionValue sample_web a (1000 + sessionTTL a)) (1000 + sessionTTL a)
       (ao_SecureCookie a) ''/workspaces'', rollWindow 1000 new_throttle)"
proof -
  have "rq_Method sample_login = ''POST''" "\<not> rq_FormError sample_login" "we_now sample_web = 1000"
    "we_issued sample_web = 1000" "overLimit 1000 new_throttle = (False, rollWindow 1000 new_throttle)"
    "constantTimeTokenEqual sample_web (FormValue sample_login ''admin_token'') ''secret''"
    "sanitizeNext (FormValue sample_login ''next'') = ''/workspaces''"
    by code_simp+
  then show ?thesis using assms by (simp add: handleLogin_def Let_def)
qed

theorem session_ends_at_expiry_witness:
  "\<not> validSessionValue (sample_web\<lparr>we_now := 28800 * second\<rparr>) sample_auth
     (sessionValue sample_web sample_auth (1000 + 28800 * second)) \<and>
   validSessionValue (sample_web\<lparr>we_now := 28799 * second\<rparr>) sample_auth
     (sessionValue sample_web sample_auth (1000 + 28800 * second))"
proof -
  have a: "ao_AdminToken sample_auth = ''secret''" "sessionTTL sample_auth = 28800 * second"
    by (simp_all add: sample_auth_def sessionTTL_def)
  have "we_hmac sample_web k m \<noteq> []" for k m by (simp add: sample_web_def)
  then show ?thesis
    using session_ends_at_expiry [OF sample_login_started [OF a(1), where 'a = "unit page"], of "28800 * second"]
      session_ends_at_expiry [OF sample_login_started [OF a(1), where 'a = "unit page"], of "28799 * second"]
    by (simp add: a(2))
qed

text \<open>The bound is reached: the windows are fixed, and a minute may overlap two of them.\<close>

definition sample_guesses :: "(web_env \<times> request) list" where
  "sample_guesses =
     replicate 10 (sample_web\<lparr>we_now := 59 * second\<rparr>, sample_guess) @
     replicate 10 (sample_web\<lparr>we_now := 61 * second\<rparr>, sample_guess)"

lemma twenty_guesses_in_a_minute:
  "length (filter (\<lambda>(now, resp). rejected resp \<and> 59 * second \<le> now \<and> now < 59 * second + minute)
    (login_responses sample_auth ((sample_web, sample_login) # sample_guesses) new_throttle
     :: (timestamp \<times> unit response) list)) = 20"
proof -
  have "we_now sample_web = 1000" "ao_AdminToken sample_auth = ''secret''"
    "rollWindow 1000 new_throttle = \<lparr>lt_windowStart = 1000, lt_failures = 0\<rparr>"
    "length (filter (\<lambda>(now, resp). rejected resp \<and> 59 * second \<le> now \<and> now < 59 * second + minute)
      (login_responses sample_auth sample_guesses \<lparr>lt_windowStart = 1000, lt_failures = 0\<rparr>
       :: (timestamp \<times> unit response) list)) = 20"
    by code_simp+
  then show ?thesis by (simp add: sample_login_started rejected_def)
qed

section \<open>Actions\<close>

text \<open>The transition of each action.\<close>

definition action_specs :: "(string \<times> ticket_transition_spec) list" where
  "action_specs =
     [(''ready'', ready_spec), (''reopen'', reopen_spec), (''unblock'', unblock_spec),
      (''request-review'', request_review_spec), (''archive'', archive_spec)]"

lemma ticket_action_spec:
  "ticket_action env req act = map_option (transitionTicket env req) (map_of action_specs act)"
  by (simp add: ticket_action_def action_specs_def MarkReady_def Reopen_def Unblock_def
      RequestReview_def Archive_def fun_eq_iff)

lemma action_specs_transitions:
  "map_of action_specs act = Some spec \<Longrightarrow> spec \<in> set transition_specs_list"
  by (auto simp: action_specs_def transition_specs_list_def split: if_splits)

lemma action_specs_iff:
  "(\<exists>spec. map_of action_specs act = Some spec \<and> P spec) \<longleftrightarrow>
     act = ''ready'' \<and> P ready_spec \<or> act = ''reopen'' \<and> P reopen_spec \<or>
     act = ''unblock'' \<and> P unblock_spec \<or> act = ''request-review'' \<and> P request_review_spec \<or>
     act = ''archive'' \<and> P archive_spec"
  by (simp add: action_specs_def)

lemma offered_iff:
  "act \<in> ta_Action ` set (ticketActionsForStatus st) \<longleftrightarrow>
     (\<exists>spec. map_of action_specs act = Some spec \<and> st \<in> set (sp_allowedStatuses spec))"
proof (cases "st \<in> set ticket_status_names")
  case True
  then consider "st = TicketStatusBacklog" | "st = TicketStatusTodo" | "st = TicketStatusInProgress"
    | "st = TicketStatusBlocked" | "st = TicketStatusNeedsReview" | "st = TicketStatusDone"
    | "st = TicketStatusFailed" | "st = TicketStatusArchived"
    unfolding ticket_status_names_def list.set insert_iff empty_iff by blast
  then show ?thesis
    unfolding action_specs_iff
    by cases (simp_all add: ticketActionsForStatus_def transition_specs ticket_status_defs)
next
  case False
  then show ?thesis
    unfolding action_specs_iff
    by (simp add: ticketActionsForStatus_def transition_specs ticket_status_names_def)
qed

text \<open>C23. The page of a ticket offers an action exactly when submitting its form carries out the
  transition.\<close>

theorem offered_actions_succeed:
  assumes "gen_fresh (re_pg re) (event_ids d) d" and "find_row tk_ID i (tickets d) = Some t"
    and "\<not> rq_FormError r"
  shows "act \<in> ta_Action ` set (ticketActionsForStatus (tk_Status t)) \<longleftrightarrow>
    (\<exists>d'. web_transitionTicket (Some re) r i act d = (Redirect (ticket_path t), d'))"
proof -
  let ?req = "web_transition_request i (FormValue r ''reason'')"
  have req: "tr_TicketRef ?req = Some i" "isAllowedActor (acting (tr_ActorType ?req))"
    by (simp add: web_transition_request_def, code_simp)
  have run: "web_transitionTicket (Some re) r i act d =
      (case map_of action_specs act of
         None \<Rightarrow> (NotFound, d)
       | Some spec \<Rightarrow> on_result (transitionTicket (re_pg re) ?req spec)
           (\<lambda>e. answer (renderTicketServiceError e ''Unable to update ticket''))
           (\<lambda>t. answer (Redirect (ticket_path t))) d)"
    using assms(3)
    by (simp add: web_transitionTicket_def with_runtime_def ticket_action_spec answer_def split: option.splits)
  show ?thesis
  proof (cases "map_of action_specs act")
    case None
    then show ?thesis by (simp add: run offered_iff)
  next
    case (Some spec)
    note spec = action_specs_transitions [OF Some]
    show ?thesis
    proof (cases "tk_Status t \<in> set (sp_allowedStatuses spec)")
      case True
      with transitionTicket_succeeds [OF req assms(2) True assms(1) spec] Some show ?thesis
        by (auto simp: run offered_iff on_result_def answer_def ticket_path_def)
    next
      case False
      with transitionTicket_not_allowed [OF req assms(2) False] Some show ?thesis
        by (simp add: run offered_iff on_result_def answer_def renderTicketServiceError_def error_page_def)
    qed
  qed
qed

theorem offered_actions_succeed_witness:
  "\<exists>t d'. web_transitionTicket (Some sample_runtime) sample_request sample_ticket ''archive'' sample_ready =
     (Redirect (ticket_path t), d')"
proof -
  have t: "find_row tk_ID sample_ticket (tickets sample_ready) = Some (hd (tickets sample_ready))"
    by code_simp
  have g: "gen_fresh (re_pg sample_runtime) (event_ids sample_ready) sample_ready" by code_simp
  have "\<not> rq_FormError sample_request"
    "''archive'' \<in> ta_Action ` set (ticketActionsForStatus (tk_Status (hd (tickets sample_ready))))"
    by code_simp+
  then show ?thesis using offered_actions_succeed [OF g t] by blast
qed

section \<open>A server that is reached from outside\<close>

definition webAuthOptions :: "config \<Rightarrow> auth_options" where
  "webAuthOptions c =
     \<lparr>ao_AdminToken = AdminToken c, ao_CookieName = [], ao_SecureCookie = AuthCookieSecure c,
      ao_SessionTTL = 0\<rparr>"

text \<open>A server whose configuration passes its check requires the token. Unless it listens on an
  address of its own machine, the sessions it hands out are sent over HTTPS only, and its token is
  not the development placeholder.\<close>

theorem exposed_server_hardened:
  assumes "ValidateServer ce c = None"
    and "handleLogin we (normalized (webAuthOptions c)) r t = (SessionStarted v e secure next, t')"
  shows "auth_enabled (webAuthOptions c) \<and>
    (local_address (HTTPAddr c) \<or>
     secure \<and> TrimSpace (AdminToken c) \<noteq> DeprecatedDevelopmentAdminToken)"
proof -
  have "secure = AuthCookieSecure c"
    using assms(2) by (auto simp: handleLogin_def overLimit_def Let_def webAuthOptions_def normalized_def
        split: if_splits)
  with assms(1) isLoopbackAddress_local show ?thesis
    by (auto simp: ValidateServer_def auth_enabled_def webAuthOptions_def split: if_splits)
qed

definition sample_exposed :: config where
  "sample_exposed = default_config\<lparr>DatabaseURL := ''db'', HTTPAddr := ''0.0.0.0:80'',
     AdminToken := ''secret'', AuthCookieSecure := True\<rparr>"

definition sample_config_env :: config_env where
  "sample_config_env =
     \<lparr>ce_Getenv = (\<lambda>k. if k = ''HOME'' then ''/home/u'' else []), ce_ReadFile = (\<lambda>_. Inl ''none''),
      ce_Getwd = Inr ''/srv'', ce_ToLower = map ascii_lower\<rparr>"

theorem exposed_server_hardened_witness:
  "\<not> isLoopbackAddress (HTTPAddr sample_exposed) \<and> auth_enabled (webAuthOptions sample_exposed)"
proof -
  have "ao_AdminToken (normalized (webAuthOptions sample_exposed)) = ''secret''"
    "ValidateServer sample_config_env sample_exposed = None"
    "\<not> isLoopbackAddress (HTTPAddr sample_exposed)"
    by code_simp+
  then show ?thesis
    using exposed_server_hardened [OF _ sample_login_started] by blast
qed

text \<open>The artifact root of a configuration that loads is an absolute path without empty, dot or
  parent segments, wherever it came from.\<close>

theorem artifact_root_absolute:
  assumes "absolute_environment ce" and "Load ce path = Inr c"
  shows "IsAbs (ArtifactRoot c) \<and> Clean (ArtifactRoot c) = ArtifactRoot c"
  using assms normalizeArtifactRoot_absolute
  by (auto simp: Load_def Let_def and_then_Inr_iff tidy_config_def split: prod.splits)

theorem artifact_root_absolute_witness:
  "IsAbs (ArtifactRoot (projr (Load sample_config_env [])))"
proof -
  have "absolute_environment sample_config_env"
    by (simp add: absolute_environment_def sample_config_env_def UserHomeDir_def IsAbs_def)
  moreover have "Load sample_config_env [] = Inr (projr (Load sample_config_env []))"
  proof -
    have "\<not> isl (Load sample_config_env [])" by code_simp
    then show ?thesis by simp
  qed
  ultimately show ?thesis using artifact_root_absolute by blast
qed

section \<open>Observations\<close>

text \<open>The router does not mount \<open>/logout\<close>, which the handler serves.\<close>

lemma logout_not_mounted:
  assumes "rq_Path r = ''/logout''"
  shows "router we a rt ready api r s = (MuxNotFound, s)"
proof -
  have "cleanPath ''/logout'' = ''/logout''" "\<not> pattern_matches ''/logout'' ''/api/v1/''"
    "\<forall>p \<in> set web_patterns. \<not> pattern_matches ''/logout'' p"
    "''/logout/'' \<notin> set (''/livez'' # ''/readyz'' # ''/api/v1/'' # web_patterns)"
    by code_simp+
  with assms show ?thesis by (cases s) (auto simp: router_def Let_def)
qed

text \<open>A target with a backslash after the first slash passes \<open>sanitizeNext\<close>; browsers read the
  backslash as a slash, and the target as another host.\<close>

lemma sanitizeNext_backslash: "sanitizeNext (CHR ''/'' # CHR 0x5C # ''host'') = CHR ''/'' # CHR 0x5C # ''host''"
  by code_simp

end
