(* ===== verification/Analytics.thy ===== *)
theory Analytics
  imports Attempt_Store Forge_Service Go_Numbers "HOL-Library.Product_Lexorder" "HOL-Library.Multiset"
begin

text \<open>
  The analytics over attempts: the statements of internal/db/metrics.sql.go that aggregate, and
  internal/services/analytics.go, which derives the rates. The amounts in a row are integers, in the
  units of their columns: a millionth of a dollar, a thousandth of a second. \<open>collate\<close> is
  PostgreSQL's order of texts and \<open>trunc\<close> its \<open>date_trunc\<close> in the time zone of the session.
\<close>

section \<open>Aggregation\<close>

text \<open>The rows of \<open>attempts LEFT JOIN attempt_metrics\<close> in a scope, where null means every scope.\<close>

type_synonym joined = "attempt \<times> attempt_metric option"

definition left_join :: "uuid option \<Rightarrow> uuid option \<Rightarrow> db \<Rightarrow> joined list" where
  "left_join w p d =
     concat (map (\<lambda>a. case filter (\<lambda>m. am_AttemptID m = at_ID a) (attempt_metrics d) of
           [] \<Rightarrow> [(a, None)]
         | m # ms \<Rightarrow> map (\<lambda>x. (a, Some x)) (m # ms))
       (filter (\<lambda>a. (w = None \<or> w = Some (at_WorkspaceID a)) \<and>
                    (p = None \<or> p = Some (at_ProjectID a))) (attempts d)))"

record analytics_row =
  an_AttemptCount :: int
  an_SucceededAttempts :: int
  an_FailedAttempts :: int
  an_BlockedAttempts :: int
  an_TotalTokensIn :: int
  an_TotalTokensOut :: int
  an_TotalCostUsd :: int
  an_TotalDurationSecs :: int
  an_TotalRetries :: int
  an_AttemptsWithMetrics :: int

definition count_status :: "string \<Rightarrow> joined list \<Rightarrow> int" where
  "count_status s rows = (\<Sum>r\<leftarrow>rows. if at_Status (fst r) = s then 1 else 0)"

definition sum_metric :: "(attempt_metric \<Rightarrow> int) \<Rightarrow> joined list \<Rightarrow> int" where
  "sum_metric f rows = (\<Sum>r\<leftarrow>rows. case snd r of None \<Rightarrow> 0 | Some m \<Rightarrow> f m)"

text \<open>The casts \<open>::bigint\<close> and \<open>::numeric(12, k)\<close> of a sum with \<open>k\<close> digits after the point.\<close>

definition bigint :: "int \<Rightarrow> pg_error + int" where
  "bigint n = (if - (2 ^ 63) \<le> n \<and> n < 2 ^ 63 then Inr n else Inl NumericValueOutOfRange)"

definition numeric12 :: "int \<Rightarrow> pg_error + int" where
  "numeric12 n = (if \<bar>n\<bar> < 10 ^ 12 then Inr n else Inl NumericValueOutOfRange)"

definition aggregate :: "joined list \<Rightarrow> pg_error + analytics_row" where
  "aggregate rows =
     and_then (bigint (sum_metric am_TokensIn rows)) (\<lambda>ti.
     and_then (bigint (sum_metric am_TokensOut rows)) (\<lambda>ou.
     and_then (numeric12 (sum_metric am_CostUsd rows)) (\<lambda>cost.
     and_then (numeric12 (sum_metric am_DurationSeconds rows)) (\<lambda>dur.
     and_then (bigint (sum_metric am_RetryCount rows)) (\<lambda>retries.
     Inr \<lparr>an_AttemptCount = int (length rows),
          an_SucceededAttempts = count_status AttemptStatusSucceeded rows,
          an_FailedAttempts = count_status AttemptStatusFailed rows,
          an_BlockedAttempts = count_status AttemptStatusBlocked rows,
          an_TotalTokensIn = ti, an_TotalTokensOut = ou, an_TotalCostUsd = cost,
          an_TotalDurationSecs = dur, an_TotalRetries = retries,
          an_AttemptsWithMetrics = sum_metric (\<lambda>_. 1) rows\<rparr>)))))"

text \<open>\<open>GROUP BY\<close>: one aggregated row for each value of \<open>key\<close>.\<close>

definition group_rows :: "(joined \<Rightarrow> 'g) \<Rightarrow> joined list \<Rightarrow> ('g \<times> joined list) list" where
  "group_rows key rows = map (\<lambda>g. (g, filter (\<lambda>r. key r = g) rows)) (remdups (map key rows))"

fun aggregate_groups :: "('g \<times> joined list) list \<Rightarrow> pg_error + ('g \<times> analytics_row) list" where
  "aggregate_groups [] = Inr []"
| "aggregate_groups ((g, rows) # gs) =
     and_then (aggregate rows) (\<lambda>r. and_then (aggregate_groups gs) (\<lambda>rs. Inr ((g, r) # rs)))"

definition analytics_by ::
  "(string \<Rightarrow> 'k :: linorder) \<Rightarrow> (attempt \<Rightarrow> string) \<Rightarrow> uuid option \<Rightarrow> uuid option \<Rightarrow> db \<Rightarrow>
   pg_error + (string \<times> analytics_row) list" where
  "analytics_by collate key w p d =
     and_then (aggregate_groups (group_rows (key \<circ> fst) (left_join w p d))) (\<lambda>gs.
     Inr (sort_key (\<lambda>(g, r). (- an_AttemptCount r, collate g)) gs))"

definition known_or_unknown :: "string \<Rightarrow> string" where
  "known_or_unknown s = (if s = [] then ''(unknown)'' else s)"

section \<open>The statements\<close>

definition GetAnalyticsSummary_stmt ::
  "uuid option \<Rightarrow> uuid option \<Rightarrow> db \<Rightarrow> pg_error + analytics_row" where
  "GetAnalyticsSummary_stmt w p d = aggregate (left_join w p d)"

definition GetAnalyticsByModel_stmt where
  "GetAnalyticsByModel_stmt collate = analytics_by collate (\<lambda>a. known_or_unknown (at_Model a))"

definition GetAnalyticsByHarness_stmt where
  "GetAnalyticsByHarness_stmt collate = analytics_by collate (\<lambda>a. known_or_unknown (at_Harness a))"

definition GetAnalyticsByStatus_stmt where
  "GetAnalyticsByStatus_stmt collate = analytics_by collate at_Status"

definition GetAnalyticsByAgent_stmt where
  "GetAnalyticsByAgent_stmt collate = analytics_by collate (\<lambda>a. known_or_unknown (at_AgentID a))"

definition bucket_start :: "(string \<Rightarrow> timestamp \<Rightarrow> timestamp) \<Rightarrow> string \<Rightarrow> attempt \<Rightarrow> timestamp" where
  "bucket_start trunc bucket a =
     trunc (if bucket = ''week'' then ''week'' else ''day'')
       (case at_CompletedAt a of None \<Rightarrow> at_StartedAt a | Some t \<Rightarrow> t)"

definition GetAnalyticsTrends_stmt ::
  "(string \<Rightarrow> timestamp \<Rightarrow> timestamp) \<Rightarrow> string \<Rightarrow> uuid option \<Rightarrow> uuid option \<Rightarrow> db \<Rightarrow>
   pg_error + (timestamp \<times> analytics_row) list" where
  "GetAnalyticsTrends_stmt trunc bucket w p d =
     and_then (aggregate_groups (group_rows (bucket_start trunc bucket \<circ> fst) (left_join w p d)))
       (\<lambda>gs. Inr (sort_key fst gs))"

section \<open>The service\<close>

record analytics_filter =
  af_WorkspaceID :: "uuid option"
  af_ProjectID :: "uuid option"

record analytics_summary =
  as_AttemptCount :: int
  as_SucceededAttempts :: int
  as_FailedAttempts :: int
  as_BlockedAttempts :: int
  as_TotalTokensIn :: int
  as_TotalTokensOut :: int
  as_TotalTokens :: int
  as_TotalCostUSD :: rat
  as_TotalDurationSeconds :: rat
  as_TotalRetries :: int
  as_AttemptsWithMetrics :: int
  as_SuccessRate :: rat
  as_AverageCostUSD :: rat
  as_AverageDurationSeconds :: rat

record analytics_group = analytics_summary +
  ag_Group :: string

record analytics_trend = analytics_summary +
  av_BucketStart :: timestamp
  av_Bucket :: string
  av_AverageTokens :: rat

text \<open>\<open>numericFloat\<close> of a \<open>numeric\<close> with \<open>k\<close> digits after the point; the conversion of \<open>int64\<close>.\<close>

definition numericFloat :: "nat \<Rightarrow> int \<Rightarrow> rat" where
  "numericFloat k n = f64 (of_int n / 10 ^ k)"

definition int64_float :: "int \<Rightarrow> rat" where
  "int64_float n = f64 (of_int n)"

definition ratio :: "int \<Rightarrow> int \<Rightarrow> rat" where
  "ratio numerator denominator =
     (if denominator = 0 then 0 else f64 (int64_float numerator / int64_float denominator))"

definition average :: "rat \<Rightarrow> int \<Rightarrow> rat" where
  "average amount n = (if n = 0 then 0 else f64 (amount / int64_float n))"

definition analyticsSummaryFromRow :: "analytics_row \<Rightarrow> analytics_summary" where
  "analyticsSummaryFromRow r =
     (let totalCost = numericFloat 6 (an_TotalCostUsd r);
          totalDuration = numericFloat 3 (an_TotalDurationSecs r) in
      \<lparr>as_AttemptCount = an_AttemptCount r, as_SucceededAttempts = an_SucceededAttempts r,
       as_FailedAttempts = an_FailedAttempts r, as_BlockedAttempts = an_BlockedAttempts r,
       as_TotalTokensIn = an_TotalTokensIn r, as_TotalTokensOut = an_TotalTokensOut r,
       as_TotalTokens = wrap64 (an_TotalTokensIn r + an_TotalTokensOut r),
       as_TotalCostUSD = totalCost, as_TotalDurationSeconds = totalDuration,
       as_TotalRetries = an_TotalRetries r, as_AttemptsWithMetrics = an_AttemptsWithMetrics r,
       as_SuccessRate = ratio (an_SucceededAttempts r) (an_AttemptCount r),
       as_AverageCostUSD = average totalCost (an_AttemptsWithMetrics r),
       as_AverageDurationSeconds = average totalDuration (an_AttemptsWithMetrics r)\<rparr>)"

definition withComparisonFields :: "analytics_group \<Rightarrow> analytics_group" where
  "withComparisonFields g =
     g\<lparr>as_TotalTokens := wrap64 (as_TotalTokensIn g + as_TotalTokensOut g),
       as_SuccessRate := ratio (as_SucceededAttempts g) (as_AttemptCount g),
       as_AverageCostUSD := average (as_TotalCostUSD g) (as_AttemptsWithMetrics g),
       as_AverageDurationSeconds := average (as_TotalDurationSeconds g) (as_AttemptsWithMetrics g)\<rparr>"

text \<open>The four functions that make a group from a row differ in the name of its first column.\<close>

definition analyticsGroupFromRow :: "string \<times> analytics_row \<Rightarrow> analytics_group" where
  "analyticsGroupFromRow = (\<lambda>(g, r). withComparisonFields
     \<lparr>as_AttemptCount = an_AttemptCount r, as_SucceededAttempts = an_SucceededAttempts r,
      as_FailedAttempts = an_FailedAttempts r, as_BlockedAttempts = an_BlockedAttempts r,
      as_TotalTokensIn = an_TotalTokensIn r, as_TotalTokensOut = an_TotalTokensOut r,
      as_TotalTokens = 0, as_TotalCostUSD = numericFloat 6 (an_TotalCostUsd r),
      as_TotalDurationSeconds = numericFloat 3 (an_TotalDurationSecs r),
      as_TotalRetries = an_TotalRetries r, as_AttemptsWithMetrics = an_AttemptsWithMetrics r,
      as_SuccessRate = 0, as_AverageCostUSD = 0, as_AverageDurationSeconds = 0, ag_Group = g\<rparr>)"

definition analyticsTrendFromRow :: "string \<Rightarrow> timestamp \<times> analytics_row \<Rightarrow> analytics_trend" where
  "analyticsTrendFromRow bucket = (\<lambda>(start, r).
     let totalCost = numericFloat 6 (an_TotalCostUsd r);
         totalDuration = numericFloat 3 (an_TotalDurationSecs r);
         totalTokens = wrap64 (an_TotalTokensIn r + an_TotalTokensOut r) in
     \<lparr>as_AttemptCount = an_AttemptCount r, as_SucceededAttempts = an_SucceededAttempts r,
      as_FailedAttempts = an_FailedAttempts r, as_BlockedAttempts = an_BlockedAttempts r,
      as_TotalTokensIn = an_TotalTokensIn r, as_TotalTokensOut = an_TotalTokensOut r,
      as_TotalTokens = totalTokens, as_TotalCostUSD = totalCost,
      as_TotalDurationSeconds = totalDuration, as_TotalRetries = an_TotalRetries r,
      as_AttemptsWithMetrics = an_AttemptsWithMetrics r,
      as_SuccessRate = ratio (an_SucceededAttempts r) (an_AttemptCount r),
      as_AverageCostUSD = average totalCost (an_AttemptsWithMetrics r),
      as_AverageDurationSeconds = average totalDuration (an_AttemptsWithMetrics r),
      av_BucketStart = start, av_Bucket = bucket,
      av_AverageTokens = average (int64_float totalTokens) (an_AttemptsWithMetrics r)\<rparr>)"

definition Summary :: "analytics_filter \<Rightarrow> analytics_summary svc" where
  "Summary f =
     svc_bind (svc_query (StoreError ''get analytics summary'')
       (GetAnalyticsSummary_stmt (af_WorkspaceID f) (af_ProjectID f)))
       (\<lambda>row. svc_return (analyticsSummaryFromRow row))"

definition analytics_groups ::
  "string \<Rightarrow> (uuid option \<Rightarrow> uuid option \<Rightarrow> db \<Rightarrow> pg_error + (string \<times> analytics_row) list) \<Rightarrow>
   analytics_filter \<Rightarrow> analytics_group list svc" where
  "analytics_groups label stmt f =
     svc_bind (svc_query (StoreError label) (stmt (af_WorkspaceID f) (af_ProjectID f)))
       (\<lambda>rows. svc_return (map analyticsGroupFromRow rows))"

definition ByModel where
  "ByModel collate = analytics_groups ''get analytics by model'' (GetAnalyticsByModel_stmt collate)"

definition ByHarness where
  "ByHarness collate =
     analytics_groups ''get analytics by harness'' (GetAnalyticsByHarness_stmt collate)"

definition ByStatus where
  "ByStatus collate = analytics_groups ''get analytics by status'' (GetAnalyticsByStatus_stmt collate)"

definition ByAgent where
  "ByAgent collate = analytics_groups ''get analytics by agent'' (GetAnalyticsByAgent_stmt collate)"

text \<open>\<open>quote\<close> is the verb \<open>%q\<close>.\<close>

definition normalizeTrendBucket :: "(string \<Rightarrow> string) \<Rightarrow> string \<Rightarrow> svc_error + string" where
  "normalizeTrendBucket quote bucket =
     (if bucket = [] \<or> bucket = ''day'' then Inr ''day''
      else if bucket = ''week'' then Inr ''week''
      else Inl (ServiceError (''unsupported analytics trend bucket '' @ quote bucket)))"

definition Trends ::
  "(string \<Rightarrow> string) \<Rightarrow> (string \<Rightarrow> timestamp \<Rightarrow> timestamp) \<Rightarrow> analytics_filter \<Rightarrow> string \<Rightarrow>
   analytics_trend list svc" where
  "Trends quote trunc f bucket0 =
     (case normalizeTrendBucket quote bucket0 of
        Inl e \<Rightarrow> svc_fail e
      | Inr bucket \<Rightarrow> svc_bind (svc_query (StoreError ''get analytics trends'')
          (GetAnalyticsTrends_stmt trunc bucket (af_WorkspaceID f) (af_ProjectID f)))
          (\<lambda>rows. svc_return (map (analyticsTrendFromRow bucket) rows)))"

section \<open>Groups and totals\<close>

text \<open>What the aggregation computes when no cast overflows, and when that is.\<close>

definition exact_row :: "joined list \<Rightarrow> analytics_row" where
  "exact_row rows =
     \<lparr>an_AttemptCount = int (length rows),
      an_SucceededAttempts = count_status AttemptStatusSucceeded rows,
      an_FailedAttempts = count_status AttemptStatusFailed rows,
      an_BlockedAttempts = count_status AttemptStatusBlocked rows,
      an_TotalTokensIn = sum_metric am_TokensIn rows, an_TotalTokensOut = sum_metric am_TokensOut rows,
      an_TotalCostUsd = sum_metric am_CostUsd rows,
      an_TotalDurationSecs = sum_metric am_DurationSeconds rows,
      an_TotalRetries = sum_metric am_RetryCount rows,
      an_AttemptsWithMetrics = sum_metric (\<lambda>_. 1) rows\<rparr>"

definition in_bigint :: "int \<Rightarrow> bool" where
  "in_bigint n \<longleftrightarrow> - (2 ^ 63) \<le> n \<and> n < 2 ^ 63"

definition representable :: "joined list \<Rightarrow> bool" where
  "representable rows \<longleftrightarrow>
     in_bigint (sum_metric am_TokensIn rows) \<and> in_bigint (sum_metric am_TokensOut rows) \<and>
     \<bar>sum_metric am_CostUsd rows\<bar> < 10 ^ 12 \<and> \<bar>sum_metric am_DurationSeconds rows\<bar> < 10 ^ 12 \<and>
     in_bigint (sum_metric am_RetryCount rows)"

lemma aggregate_eq:
  "aggregate rows =
     (if representable rows then Inr (exact_row rows) else Inl NumericValueOutOfRange)"
  by (simp add: aggregate_def representable_def exact_row_def bigint_def in_bigint_def numeric12_def)

lemma aggregate_groups_eq:
  "aggregate_groups gs =
     (if \<forall>g \<in> set gs. representable (snd g) then Inr (map (\<lambda>(g, rows). (g, exact_row rows)) gs)
      else Inl NumericValueOutOfRange)"
  by (induction gs rule: aggregate_groups.induct) (auto simp: aggregate_eq)

lemma sum_group_rows:
  fixes h :: "joined \<Rightarrow> int"
  shows "(\<Sum>g\<leftarrow>group_rows key rows. \<Sum>r\<leftarrow>snd g. h r) = (\<Sum>r\<leftarrow>rows. h r)"
proof -
  have one: "(\<Sum>g\<leftarrow>gs. if k = g then (c :: int) else 0) = (if k \<in> set gs then c else 0)"
    if "distinct gs" for gs :: "'a list" and k c
    using that by (induction gs) auto
  have "(\<Sum>g\<leftarrow>gs. \<Sum>r\<leftarrow>filter (\<lambda>r. key r = g) rows. h r) = (\<Sum>r\<leftarrow>rows. h r)"
    if "distinct gs" and "key ` set rows \<subseteq> set gs" for gs
    using that(2)
  proof (induction rows)
    case (Cons x xs)
    have "(\<Sum>g\<leftarrow>gs. \<Sum>r\<leftarrow>filter (\<lambda>r. key r = g) (x # xs). h r) =
        (\<Sum>g\<leftarrow>gs. (if key x = g then h x else 0) + (\<Sum>r\<leftarrow>filter (\<lambda>r. key r = g) xs. h r))"
      by (rule arg_cong [of _ _ sum_list], rule map_cong) simp_all
    also have "\<dots> = h x + (\<Sum>r\<leftarrow>xs. h r)"
      using Cons that(1) by (simp add: sum_list_addf one)
    finally show ?case by simp
  qed simp
  from this [of "remdups (map key rows)"] show ?thesis
    by (simp add: group_rows_def comp_def)
qed

lemma sum_sort_key:
  fixes h :: "'a \<Rightarrow> int"
  shows "(\<Sum>x\<leftarrow>sort_key k xs. h x) = (\<Sum>x\<leftarrow>xs. h x)"
  by (metis mset_map mset_sort sum_mset_sum_list)

lemma distinct_map_sort_key: "distinct (map f (sort_key k xs)) \<longleftrightarrow> distinct (map f xs)"
  by (rule mset_eq_imp_distinct_iff) simp

lemma sum_filter_le:
  fixes h :: "'a \<Rightarrow> int"
  assumes "\<And>x. x \<in> set xs \<Longrightarrow> 0 \<le> h x"
  shows "0 \<le> (\<Sum>x\<leftarrow>filter P xs. h x) \<and> (\<Sum>x\<leftarrow>filter P xs. h x) \<le> (\<Sum>x\<leftarrow>xs. h x)"
  using assms by (induction xs) force+

definition checked_metrics :: "joined list \<Rightarrow> bool" where
  "checked_metrics rows \<longleftrightarrow> (\<forall>r \<in> set rows. \<forall>m. snd r = Some m \<longrightarrow> metric_row_checks m)"

lemma left_join_metrics:
  assumes "r \<in> set (left_join w p d)" and "snd r = Some m"
  shows "m \<in> set (attempt_metrics d)"
proof -
  from assms obtain a where "r \<in> set (case filter (\<lambda>m. am_AttemptID m = at_ID a) (attempt_metrics d) of
      [] \<Rightarrow> [(a, None)] | m # ms \<Rightarrow> map (\<lambda>x. (a, Some x)) (m # ms))"
    by (auto simp: left_join_def)
  with assms(2) have "m \<in> set (filter (\<lambda>m. am_AttemptID m = at_ID a) (attempt_metrics d))"
    by (cases "filter (\<lambda>m. am_AttemptID m = at_ID a) (attempt_metrics d)") auto
  then show ?thesis by simp
qed

lemma left_join_checked:
  "\<forall>m \<in> set (attempt_metrics d). metric_row_checks m \<Longrightarrow> checked_metrics (left_join w p d)"
  unfolding checked_metrics_def using left_join_metrics by fastforce

lemma sum_metric_filter:
  assumes "checked_metrics rows" and "\<And>m. metric_row_checks m \<Longrightarrow> 0 \<le> f m"
  shows "0 \<le> sum_metric f (filter P rows) \<and> sum_metric f (filter P rows) \<le> sum_metric f rows"
  unfolding sum_metric_def using assms
  by (intro sum_filter_le) (auto simp: checked_metrics_def split: option.splits)

lemma sum_metric_nonneg:
  assumes "checked_metrics rows" and "\<And>m. metric_row_checks m \<Longrightarrow> 0 \<le> f m"
  shows "0 \<le> sum_metric f rows"
  using sum_metric_filter [where P = "\<lambda>_. True", OF assms] by simp

lemma representable_filter:
  assumes "checked_metrics rows" and "representable rows"
  shows "representable (filter P rows)"
  using assms(2)
    sum_metric_filter [OF assms(1), of am_TokensIn P] sum_metric_filter [OF assms(1), of am_TokensOut P]
    sum_metric_filter [OF assms(1), of am_CostUsd P]
    sum_metric_filter [OF assms(1), of am_DurationSeconds P]
    sum_metric_filter [OF assms(1), of am_RetryCount P]
  by (simp add: representable_def in_bigint_def metric_row_checks_def)

text \<open>A measure that is summed over the rows is the sum of its values in the groups.\<close>

definition summed :: "(analytics_row \<Rightarrow> int) \<Rightarrow> bool" where
  "summed f \<longleftrightarrow> (\<exists>h. \<forall>rows. f (exact_row rows) = (\<Sum>r\<leftarrow>rows. h r))"

lemma summed_measures:
  "summed an_AttemptCount" "summed an_SucceededAttempts" "summed an_FailedAttempts"
  "summed an_BlockedAttempts" "summed an_TotalTokensIn" "summed an_TotalTokensOut"
  "summed an_TotalCostUsd" "summed an_TotalDurationSecs" "summed an_TotalRetries"
  "summed an_AttemptsWithMetrics"
proof -
  have "int (length rows) = (\<Sum>r\<leftarrow>rows. 1)" for rows :: "joined list"
    by (induction rows) auto
  then show "summed an_AttemptCount"
    unfolding summed_def by (intro exI [of _ "\<lambda>_. 1"]) (simp add: exact_row_def)
qed (unfold summed_def exact_row_def count_status_def sum_metric_def; force)+

lemma analytics_by_totals:
  assumes "checked_metrics (left_join w p d)" and "aggregate (left_join w p d) = Inr tot"
  shows "\<exists>gs. analytics_by collate key w p d = Inr gs \<and> distinct (map fst gs) \<and>
    (\<forall>f. summed f \<longrightarrow> (\<Sum>g\<leftarrow>gs. f (snd g)) = f tot)"
proof -
  let ?rows = "left_join w p d"
  let ?groups = "group_rows (key \<circ> fst) ?rows"
  let ?rs = "map (\<lambda>(g, rows). (g, exact_row rows)) ?groups"
  let ?k = "\<lambda>(g, r). (- an_AttemptCount r, collate g)"
  from assms(2) have rep: "representable ?rows" and tot: "tot = exact_row ?rows"
    by (auto simp: aggregate_eq split: if_splits)
  have "\<forall>g \<in> set ?groups. representable (snd g)"
    using representable_filter [OF assms(1) rep] by (auto simp: group_rows_def)
  then have "analytics_by collate key w p d = Inr (sort_key ?k ?rs)"
    by (simp add: analytics_by_def aggregate_groups_eq)
  moreover have "distinct (map fst (sort_key ?k ?rs))"
  proof -
    have "map fst ?rs = remdups (map (key \<circ> fst) ?rows)"
      by (simp add: group_rows_def comp_def)
    then have "distinct (map fst ?rs)" by simp
    then show ?thesis by (simp only: distinct_map_sort_key)
  qed
  moreover have "(\<Sum>g\<leftarrow>sort_key ?k ?rs. f (snd g)) = f tot" if "summed f" for f
  proof -
    from that obtain h where h: "\<And>rows. f (exact_row rows) = (\<Sum>r\<leftarrow>rows. h r)"
      by (auto simp: summed_def)
    have "(\<Sum>g\<leftarrow>sort_key ?k ?rs. f (snd g)) = (\<Sum>g\<leftarrow>?rs. f (snd g))"
      by (rule sum_sort_key)
    also have "\<dots> = (\<Sum>g\<leftarrow>?groups. \<Sum>r\<leftarrow>snd g. h r)"
      by (simp add: comp_def split_def h)
    also have "\<dots> = f tot" unfolding tot h by (rule sum_group_rows)
    finally show ?thesis .
  qed
  ultimately show ?thesis by blast
qed

lemma count_status_bounds:
  "0 \<le> count_status s rows" "count_status s rows \<le> int (length rows)"
  by (induction rows) (auto simp: count_status_def)

lemma ratio_bounds: "0 \<le> n \<Longrightarrow> n \<le> m \<Longrightarrow> 0 \<le> ratio n m \<and> ratio n m \<le> 1"
  using f64_ratio_le_one [of "of_int n" "of_int m"] by (simp add: ratio_def int64_float_def)

end
