(* ===== verification/Analytics_Properties.thy ===== *)
theory Analytics_Properties
  imports Analytics Forge_Sample
begin

text \<open>
  Properties of the analytics: the groupings split the totals, and when the totals can be computed.
\<close>

section \<open>Groupings\<close>

lemma grouping_cases:
  assumes "stmt \<in> {GetAnalyticsByModel_stmt collate, GetAnalyticsByHarness_stmt collate,
    GetAnalyticsByStatus_stmt collate, GetAnalyticsByAgent_stmt collate}"
  obtains key where "stmt = analytics_by collate key"
  using assms
  by (auto simp: GetAnalyticsByModel_stmt_def GetAnalyticsByHarness_stmt_def
      GetAnalyticsByStatus_stmt_def GetAnalyticsByAgent_stmt_def)

text \<open>C25. Whenever the summary of a scope can be computed, so can its groupings by model, harness,
  status and agent; each lists a group once, and in each the counts, the tokens, the costs, the
  durations and the retries of the groups add up to those of the summary.\<close>

theorem analytics_partition:
  assumes "\<forall>m \<in> set (attempt_metrics d). metric_row_checks m"
    and "GetAnalyticsSummary_stmt w p d = Inr s"
    and "stmt \<in> {GetAnalyticsByModel_stmt collate, GetAnalyticsByHarness_stmt collate,
      GetAnalyticsByStatus_stmt collate, GetAnalyticsByAgent_stmt collate}"
  shows "\<exists>gs. stmt w p d = Inr gs \<and> distinct (map fst gs) \<and>
    (\<forall>f \<in> {an_AttemptCount, an_SucceededAttempts, an_FailedAttempts, an_BlockedAttempts,
        an_TotalTokensIn, an_TotalTokensOut, an_TotalCostUsd, an_TotalDurationSecs,
        an_TotalRetries, an_AttemptsWithMetrics}.
      (\<Sum>g\<leftarrow>gs. f (snd g)) = f s)"
proof -
  obtain key where "stmt = analytics_by collate key" using assms(3) by (rule grouping_cases)
  with analytics_by_totals [OF left_join_checked [OF assms(1)], of w p s collate key] assms(2)
  show ?thesis
    using summed_measures unfolding GetAnalyticsSummary_stmt_def by blast
qed

definition sample_metric :: "uuid \<Rightarrow> uuid \<Rightarrow> int \<Rightarrow> attempt_metric" where
  "sample_metric i a cost =
     \<lparr>am_ID = i, am_AttemptID = a, am_WorkspaceID = 1, am_ProjectID = 2, am_TokensIn = 10,
      am_TokensOut = 20, am_CostUsd = cost, am_DurationSeconds = 1500, am_RetryCount = 1,
      am_CreatedAt = 1000\<rparr>"

text \<open>Two attempts of different models, measured with the given costs.\<close>

definition sample_measured :: "int \<Rightarrow> int \<Rightarrow> db" where
  "sample_measured c1 c2 = sample_failed
     \<lparr>attempts := [sample_attempt_row ''failed'' (Some ''broken'') (Some 7),
        (sample_attempt_row ''succeeded'' None (Some 9))\<lparr>at_ID := 110, at_Model := ''m''\<rparr>],
      attempt_metrics := [sample_metric 111 sample_attempt c1, sample_metric 112 110 c2]\<rparr>"

lemma sample_measured_checks:
  "0 \<le> c1 \<Longrightarrow> 0 \<le> c2 \<Longrightarrow>
   \<forall>m \<in> set (attempt_metrics (sample_measured c1 c2)). metric_row_checks m"
  by (simp add: sample_measured_def sample_metric_def metric_row_checks_def)

theorem analytics_partition_witness:
  "\<exists>gs. GetAnalyticsByModel_stmt (\<lambda>s. length s) None (Some 2) (sample_measured 700 800) = Inr gs \<and>
     (\<Sum>g\<leftarrow>gs. an_TotalCostUsd (snd g)) = 1500"
proof -
  let ?d = "sample_measured 700 800"
  let ?s = "projr (GetAnalyticsSummary_stmt None (Some 2) ?d)"
  have "GetAnalyticsSummary_stmt None (Some 2) ?d = Inr ?s" and cost: "an_TotalCostUsd ?s = 1500"
    by code_simp+
  from analytics_partition [OF sample_measured_checks this(1),
      of "GetAnalyticsByModel_stmt (\<lambda>s. length s)" "\<lambda>s. length s"]
  show ?thesis by (auto simp: cost)
qed

section \<open>Rates\<close>

lemma count_status_disjoint:
  "count_status AttemptStatusSucceeded rows + count_status AttemptStatusFailed rows +
   count_status AttemptStatusBlocked rows \<le> int (length rows)"
  by (induction rows)
    (auto simp: count_status_def AttemptStatusSucceeded_def AttemptStatusFailed_def
      AttemptStatusBlocked_def)

text \<open>The success rate of a summary is a rate: the rounding of \<open>float64\<close> keeps it between zero and
  one, and it counts disjoint outcomes.\<close>

theorem success_rate_is_rate:
  assumes "Summary f d = (Inr s, d')"
  shows "0 \<le> as_SuccessRate s \<and> as_SuccessRate s \<le> 1 \<and>
    as_SucceededAttempts s + as_FailedAttempts s + as_BlockedAttempts s \<le> as_AttemptCount s \<and>
    d' = d"
proof -
  from assms obtain r where r: "GetAnalyticsSummary_stmt (af_WorkspaceID f) (af_ProjectID f) d = Inr r"
    and s: "s = analyticsSummaryFromRow r" and "d' = d"
    by (auto simp: Summary_def result_simps)
  from r have "r = exact_row (left_join (af_WorkspaceID f) (af_ProjectID f) d)"
    by (simp add: GetAnalyticsSummary_stmt_def aggregate_eq split: if_splits)
  with s \<open>d' = d\<close> show ?thesis
    using ratio_bounds [OF count_status_bounds] count_status_disjoint
    by (simp add: analyticsSummaryFromRow_def exact_row_def Let_def)
qed

section \<open>Range\<close>

text \<open>The analytics of a scope fail, and only then, when a total is out of the range of the
  column type it is cast to, which for the costs is that of a single attempt: a million dollars
  over all attempts of the scope make its summary fail with a server error.\<close>

theorem analytics_overflow:
  assumes "\<forall>m \<in> set (attempt_metrics d). metric_row_checks m"
  shows "fst (Summary f d) =
      Inl (StoreError ''get analytics summary'' NumericValueOutOfRange) \<longleftrightarrow>
    (let rows = left_join (af_WorkspaceID f) (af_ProjectID f) d in
     2 ^ 63 \<le> sum_metric am_TokensIn rows \<or> 2 ^ 63 \<le> sum_metric am_TokensOut rows \<or>
     1000000 * 10 ^ 6 \<le> sum_metric am_CostUsd rows \<or>
     1000000000 * 10 ^ 3 \<le> sum_metric am_DurationSeconds rows \<or>
     2 ^ 63 \<le> sum_metric am_RetryCount rows)"
proof -
  let ?rows = "left_join (af_WorkspaceID f) (af_ProjectID f) d"
  note nonneg = sum_metric_nonneg [OF left_join_checked [OF assms]]
  have "0 \<le> sum_metric am_TokensIn ?rows" "0 \<le> sum_metric am_TokensOut ?rows"
    "0 \<le> sum_metric am_CostUsd ?rows" "0 \<le> sum_metric am_DurationSeconds ?rows"
    "0 \<le> sum_metric am_RetryCount ?rows"
    by (rule nonneg, simp add: metric_row_checks_def)+
  then have "representable ?rows \<longleftrightarrow> \<not> (2 ^ 63 \<le> sum_metric am_TokensIn ?rows \<or>
      2 ^ 63 \<le> sum_metric am_TokensOut ?rows \<or> 1000000 * 10 ^ 6 \<le> sum_metric am_CostUsd ?rows \<or>
      1000000000 * 10 ^ 3 \<le> sum_metric am_DurationSeconds ?rows \<or>
      2 ^ 63 \<le> sum_metric am_RetryCount ?rows)"
    by (auto simp: representable_def in_bigint_def)
  moreover have "fst (Summary f d) =
      Inl (StoreError ''get analytics summary'' NumericValueOutOfRange) \<longleftrightarrow> \<not> representable ?rows"
    by (simp add: Summary_def GetAnalyticsSummary_stmt_def aggregate_eq svc_bind_def svc_query_def
        svc_return_def)
  ultimately show ?thesis by (simp add: Let_def)
qed

text \<open>A report of 999999 dollars and one of a single dollar.\<close>

theorem analytics_overflow_witness:
  "fst (Summary \<lparr>af_WorkspaceID = Some 1, af_ProjectID = None\<rparr> (sample_measured 999999000000 1000000)) =
     Inl (StoreError ''get analytics summary'' NumericValueOutOfRange)"
proof -
  let ?f = "\<lparr>af_WorkspaceID = Some 1, af_ProjectID = None\<rparr>"
  let ?d = "sample_measured 999999000000 1000000"
  have "sum_metric am_CostUsd (left_join (af_WorkspaceID ?f) (af_ProjectID ?f) ?d) = 10 ^ 12"
    by code_simp
  with analytics_overflow [OF sample_measured_checks, of 999999000000 1000000 ?f] show ?thesis
    by (simp add: Let_def)
qed

end
