(* ===== verification/Go_Json.thy ===== *)
theory Go_Json
  imports Attempt_Store
begin

text \<open>
  \<open>encoding/json\<close> and JSON Schema, as far as the program uses them. A payload struct is a
  \<open>go_type\<close>: its fields with the names of their tags. \<open>decode_into\<close> is \<open>json.Unmarshal\<close> into a
  value that is already there; where Go reports the first mismatch and goes on, \<open>decode_into\<close>
  stops, as callers discard the value. An element of a slice is decoded into a zero value, which
  is what Go does unless a document names a slice twice. Numbers in a \<open>map[string]any\<close> stay as they
  are written. \<open>conforms\<close> reads a schema document as JSON Schema does, for the keywords that occur.
\<close>

section \<open>Types and values\<close>

datatype go_type =
    GString
  | GBool
  | GInt nat
  | GFloat
  | GMap
  | GSlice go_type
  | GPtr go_type
  | GStruct "(string \<times> go_type) list"

datatype go_value =
    VString string
  | VBool bool
  | VInt int
  | VFloat float64
  | VMap "(string \<times> json) list option"
  | VSlice "go_value list option"
  | VPtr "go_value option"
  | VStruct "(string \<times> go_value) list"

fun zero_value :: "go_type \<Rightarrow> go_value" and zero_fields :: "(string \<times> go_type) list \<Rightarrow> (string \<times> go_value) list" where
  "zero_value GString = VString []"
| "zero_value GBool = VBool False"
| "zero_value (GInt b) = VInt 0"
| "zero_value GFloat = VFloat (F64 0 0)"
| "zero_value GMap = VMap None"
| "zero_value (GSlice t) = VSlice None"
| "zero_value (GPtr t) = VPtr None"
| "zero_value (GStruct fs) = VStruct (zero_fields fs)"
| "zero_fields [] = []"
| "zero_fields ((n, t) # fs) = (n, zero_value t) # zero_fields fs"

fun v_fields :: "go_value \<Rightarrow> (string \<times> go_value) list" where
  "v_fields (VStruct fs) = fs"
| "v_fields _ = []"

definition v_field :: "go_value \<Rightarrow> string \<Rightarrow> go_value option" where
  "v_field p n = map_of (v_fields p) n"

fun v_string :: "go_value option \<Rightarrow> string" where
  "v_string (Some (VString s)) = s"
| "v_string _ = []"

fun v_bool :: "go_value option \<Rightarrow> bool" where
  "v_bool (Some (VBool b)) = b"
| "v_bool _ = False"

fun v_int :: "go_value option \<Rightarrow> int" where
  "v_int (Some (VInt n)) = n"
| "v_int _ = 0"

fun v_float :: "go_value option \<Rightarrow> float64" where
  "v_float (Some (VFloat x)) = x"
| "v_float _ = F64 0 0"

fun v_map :: "go_value option \<Rightarrow> (string \<times> json) list" where
  "v_map (Some (VMap (Some kvs))) = kvs"
| "v_map _ = []"

fun v_slice :: "go_value option \<Rightarrow> go_value slice" where
  "v_slice (Some (VSlice vs)) = vs"
| "v_slice _ = None"

fun v_ptr :: "go_value option \<Rightarrow> go_value option" where
  "v_ptr (Some (VPtr v)) = v"
| "v_ptr _ = None"

text \<open>The fields of a payload \<open>p\<close> by the names of their tags.\<close>

definition str :: "go_value \<Rightarrow> string \<Rightarrow> string" where "str p n = v_string (v_field p n)"
definition flag :: "go_value \<Rightarrow> string \<Rightarrow> bool" where "flag p n = v_bool (v_field p n)"
definition num :: "go_value \<Rightarrow> string \<Rightarrow> int" where "num p n = v_int (v_field p n)"
definition float :: "go_value \<Rightarrow> string \<Rightarrow> float64" where "float p n = v_float (v_field p n)"
definition obj :: "go_value \<Rightarrow> string \<Rightarrow> (string \<times> json) list" where "obj p n = v_map (v_field p n)"

definition slice_of_strings :: "go_value slice \<Rightarrow> string slice" where
  "slice_of_strings vs = map_option (map (\<lambda>v. v_string (Some v))) vs"

definition strs :: "go_value \<Rightarrow> string \<Rightarrow> string slice" where
  "strs p n = slice_of_strings (v_slice (v_field p n))"

definition str_list :: "go_value \<Rightarrow> string \<Rightarrow> string list" where
  "str_list p n = (case strs p n of None \<Rightarrow> [] | Some ss \<Rightarrow> ss)"

definition struct :: "go_value \<Rightarrow> string \<Rightarrow> go_value" where
  "struct p n = (case v_field p n of None \<Rightarrow> VStruct [] | Some v \<Rightarrow> v)"

definition structs :: "go_value \<Rightarrow> string \<Rightarrow> go_value list" where
  "structs p n = (case v_slice (v_field p n) of None \<Rightarrow> [] | Some vs \<Rightarrow> vs)"

definition ptr_int :: "go_value \<Rightarrow> string \<Rightarrow> int option" where
  "ptr_int p n = map_option (\<lambda>v. v_int (Some v)) (v_ptr (v_field p n))"

definition ptr_str :: "go_value \<Rightarrow> string \<Rightarrow> string option" where
  "ptr_str p n = map_option (\<lambda>v. v_string (Some v)) (v_ptr (v_field p n))"

definition ptr_strs :: "go_value \<Rightarrow> string \<Rightarrow> string list option" where
  "ptr_strs p n = map_option (\<lambda>v. case slice_of_strings (v_slice (Some v)) of
     None \<Rightarrow> [] | Some ss \<Rightarrow> ss) (v_ptr (v_field p n))"

section \<open>Decoding\<close>

text \<open>\<open>foldName\<close>: the long s and the Kelvin sign are the two runes outside ASCII that fold to a
  letter.\<close>

fun foldName :: "string \<Rightarrow> string" where
  "foldName [] = []"
| "foldName (c # cs) =
     (if prefix [CHR 0xC5, CHR 0xBF] (c # cs) then CHR ''s'' # foldName (drop 1 cs)
      else if prefix [CHR 0xE2, CHR 0x84, CHR 0xAA] (c # cs) then CHR ''k'' # foldName (drop 2 cs)
      else ascii_lower c # foldName cs)"

text \<open>The field that a key names: the one of exactly this name, or else one that differs in case.\<close>

definition find_field :: "(string \<times> go_type) list \<Rightarrow> string \<Rightarrow> (string \<times> go_type) option" where
  "find_field fs k =
     (case find (\<lambda>f. fst f = k) fs of
        Some f \<Rightarrow> Some f
      | None \<Rightarrow> find (\<lambda>f. foldName (fst f) = foldName k) fs)"

definition set_field :: "string \<Rightarrow> go_value \<Rightarrow> (string \<times> go_value) list \<Rightarrow> (string \<times> go_value) list" where
  "set_field n v fs = map (\<lambda>f. if fst f = n then (n, v) else f) fs"

text \<open>\<open>strconv.ParseFloat\<close>: a decimal of at most fifteen digits is itself the shortest form of
  the \<open>float64\<close> it is read as; \<open>pf\<close> reads the others.\<close>

fun drop_zeros :: "int \<Rightarrow> nat \<Rightarrow> decimal" where
  "drop_zeros m 0 = (m, 0)"
| "drop_zeros m (Suc s) = (if m mod 10 = 0 then drop_zeros (m div 10) s else (m, Suc s))"

definition ParseFloat :: "(int \<Rightarrow> nat \<Rightarrow> float64 option) \<Rightarrow> int \<Rightarrow> nat \<Rightarrow> float64 option" where
  "ParseFloat pf m s =
     (if \<bar>m\<bar> < 10 ^ 15 \<and> s < 300 then (case drop_zeros m s of (m', s') \<Rightarrow> Some (F64 m' s')) else pf m s)"

definition fits_bits :: "nat \<Rightarrow> int \<Rightarrow> bool" where
  "fits_bits b n \<longleftrightarrow> - (2 ^ (b - 1)) \<le> n \<and> n < 2 ^ (b - 1)"

fun nullable :: "go_type \<Rightarrow> bool" where
  "nullable GMap = True"
| "nullable (GSlice t) = True"
| "nullable (GPtr t) = True"
| "nullable _ = False"

fun pointee :: "go_type \<Rightarrow> go_value \<Rightarrow> go_value" where
  "pointee t (VPtr (Some v)) = v"
| "pointee t _ = zero_value t"

type_synonym float_parser = "int \<Rightarrow> nat \<Rightarrow> float64 option"

function (sequential)
  decode_into :: "float_parser \<Rightarrow> go_type \<Rightarrow> json \<Rightarrow> go_value \<Rightarrow> go_value option" and
  decode_elements :: "float_parser \<Rightarrow> go_type \<Rightarrow> json list \<Rightarrow> go_value list option" and
  decode_members :: "float_parser \<Rightarrow> (string \<times> go_type) list \<Rightarrow> (string \<times> json) list \<Rightarrow>
    (string \<times> go_value) list \<Rightarrow> (string \<times> go_value) list option" where
  "decode_into pf ty JNull cur = Some (if nullable ty then zero_value ty else cur)"
| "decode_into pf (GPtr t) j cur = map_option (\<lambda>v. VPtr (Some v)) (decode_into pf t j (pointee t cur))"
| "decode_into pf GString (JStr s) cur = Some (VString s)"
| "decode_into pf GBool (JBool b) cur = Some (VBool b)"
| "decode_into pf (GInt b) (JNum m s) cur =
     (if s = 0 \<and> fits_bits b m then Some (VInt m) else None)"
| "decode_into pf GFloat (JNum m s) cur = map_option VFloat (ParseFloat pf m s)"
| "decode_into pf GMap (JObj kvs) cur = Some (VMap (Some (v_map (Some cur) @ kvs)))"
| "decode_into pf (GSlice t) (JArr js) cur =
     map_option (\<lambda>vs. VSlice (Some vs)) (decode_elements pf t js)"
| "decode_into pf (GStruct fs) (JObj kvs) cur =
     map_option VStruct (decode_members pf fs kvs (v_fields cur))"
| "decode_into pf ty j cur = None"
| "decode_elements pf t [] = Some []"
| "decode_elements pf t (j # js) =
     (case decode_into pf t j (zero_value t) of
        None \<Rightarrow> None | Some v \<Rightarrow> map_option ((#) v) (decode_elements pf t js))"
| "decode_members pf fs [] cur = Some cur"
| "decode_members pf fs ((k, j) # kvs) cur =
     (case find_field fs k of
        None \<Rightarrow> decode_members pf fs kvs cur
      | Some (n, t) \<Rightarrow>
          (case decode_into pf t j (case map_of cur n of None \<Rightarrow> zero_value t | Some v \<Rightarrow> v) of
             None \<Rightarrow> None
           | Some v \<Rightarrow> decode_members pf fs kvs (set_field n v cur)))"
  by pat_completeness auto
termination
  by (relation "inv_image (less_than <*lex*> less_than) (case_sum (\<lambda>(pf, ty, j, cur). (size j, size ty))
    (case_sum (\<lambda>(pf, t, js). (size_list size js, 0))
       (\<lambda>(pf, fs, kvs, cur). (size_list (size_prod (\<lambda>_. 0) size) kvs, 0))))") auto

definition unmarshal :: "float_parser \<Rightarrow> go_type \<Rightarrow> json_raw \<Rightarrow> go_value option" where
  "unmarshal pf ty raw = (case raw of RawDoc j \<Rightarrow> decode_into pf ty j (zero_value ty) | _ \<Rightarrow> None)"

section \<open>JSON Schema\<close>

definition schema_type :: "json \<Rightarrow> json \<Rightarrow> bool" where
  "schema_type s v \<longleftrightarrow>
     (case json_field s ''type'' of
        Some (JStr t) \<Rightarrow>
          (case v of
             JNull \<Rightarrow> t = ''null''
           | JBool b \<Rightarrow> t = ''boolean''
           | JNum m e \<Rightarrow> t = ''number'' \<or> t = ''integer'' \<and> m mod 10 ^ e = 0
           | JStr x \<Rightarrow> t = ''string''
           | JArr js \<Rightarrow> t = ''array''
           | JObj kvs \<Rightarrow> t = ''object'')
      | _ \<Rightarrow> True)"

definition schema_const :: "json \<Rightarrow> json \<Rightarrow> bool" where
  "schema_const s v \<longleftrightarrow> (case json_field s ''const'' of None \<Rightarrow> True | Some c \<Rightarrow> v = c)"

definition schema_enum :: "json \<Rightarrow> json \<Rightarrow> bool" where
  "schema_enum s v \<longleftrightarrow> (case json_field s ''enum'' of Some (JArr vs) \<Rightarrow> List.member vs v | _ \<Rightarrow> True)"

definition decimal_le :: "decimal \<Rightarrow> decimal \<Rightarrow> bool" where
  "decimal_le x y \<longleftrightarrow> fst x * 10 ^ snd y \<le> fst y * 10 ^ snd x"

definition schema_bounds :: "json \<Rightarrow> json \<Rightarrow> bool" where
  "schema_bounds s v \<longleftrightarrow>
     (case v of
        JNum m e \<Rightarrow>
          (case json_field s ''minimum'' of Some (JNum l k) \<Rightarrow> decimal_le (l, k) (m, e) | _ \<Rightarrow> True) \<and>
          (case json_field s ''maximum'' of Some (JNum h k) \<Rightarrow> decimal_le (m, e) (h, k) | _ \<Rightarrow> True)
      | _ \<Rightarrow> True)"

definition schema_required :: "json \<Rightarrow> json \<Rightarrow> bool" where
  "schema_required s v \<longleftrightarrow>
     (case (v, json_field s ''required'') of
        (JObj kvs, Some (JArr ks)) \<Rightarrow> list_all (\<lambda>k. case k of
            JStr n \<Rightarrow> List.member (map fst kvs) n | _ \<Rightarrow> True) ks
      | _ \<Rightarrow> True)"

definition schema_min_properties :: "json \<Rightarrow> json \<Rightarrow> bool" where
  "schema_min_properties s v \<longleftrightarrow>
     (case (v, json_field s ''minProperties'') of
        (JObj kvs, Some (JNum n e)) \<Rightarrow> decimal_le (n, e) (int (length (remdups (map fst kvs))), 0)
      | _ \<Rightarrow> True)"

definition schema_keywords :: "json \<Rightarrow> json \<Rightarrow> bool" where
  "schema_keywords s v \<longleftrightarrow>
     schema_type s v \<and> schema_const s v \<and> schema_enum s v \<and> schema_bounds s v \<and>
     schema_required s v \<and> schema_min_properties s v"

definition schema_property :: "json \<Rightarrow> string \<Rightarrow> json option" where
  "schema_property s k =
     (case json_field s ''properties'' of Some ps \<Rightarrow> json_field ps k | None \<Rightarrow> None)"

definition closed_schema :: "json \<Rightarrow> bool" where
  "closed_schema s \<longleftrightarrow> json_field s ''additionalProperties'' = Some (JBool False)"

function (sequential)
  conforms :: "json \<Rightarrow> json \<Rightarrow> bool" and
  items_conform :: "json \<Rightarrow> json list \<Rightarrow> bool" and
  members_conform :: "json \<Rightarrow> (string \<times> json) list \<Rightarrow> bool" where
  "conforms s (JArr js) \<longleftrightarrow> schema_keywords s (JArr js) \<and> items_conform s js"
| "conforms s (JObj kvs) \<longleftrightarrow> schema_keywords s (JObj kvs) \<and> members_conform s kvs"
| "conforms s v \<longleftrightarrow> schema_keywords s v"
| "items_conform s [] \<longleftrightarrow> True"
| "items_conform s (j # js) \<longleftrightarrow>
     (case json_field s ''items'' of None \<Rightarrow> True | Some s' \<Rightarrow> conforms s' j) \<and> items_conform s js"
| "members_conform s [] \<longleftrightarrow> True"
| "members_conform s ((k, j) # kvs) \<longleftrightarrow>
     (case schema_property s k of None \<Rightarrow> \<not> closed_schema s | Some s' \<Rightarrow> conforms s' j) \<and>
     members_conform s kvs"
  by pat_completeness auto
termination
  by (relation "measure (case_sum (\<lambda>(s, v). size v) (case_sum (\<lambda>(s, js). size_list size js)
    (\<lambda>(s, kvs). size_list (size_prod (\<lambda>_. 0) size) kvs)))") auto

section \<open>Schemas and types that fit\<close>

text \<open>A schema fits a type when what conforms to the schema can be decoded into the type: the
  types agree, integers are bounded by the width, and an object is closed and names fields only.\<close>

definition has_type :: "json \<Rightarrow> string \<Rightarrow> bool" where
  "has_type s t \<longleftrightarrow> json_field s ''type'' = Some (JStr t)"

definition bounded_by :: "json \<Rightarrow> nat \<Rightarrow> bool" where
  "bounded_by s b \<longleftrightarrow>
     (case (json_field s ''minimum'', json_field s ''maximum'') of
        (Some (JNum l 0), Some (JNum h 0)) \<Rightarrow> fits_bits b l \<and> fits_bits b h
      | _ \<Rightarrow> False)"

definition property_names :: "json \<Rightarrow> string list" where
  "property_names s = (case json_field s ''properties'' of Some (JObj ps) \<Rightarrow> map fst ps | _ \<Rightarrow> [])"

fun fits :: "json \<Rightarrow> go_type \<Rightarrow> bool" and fields_fit :: "json \<Rightarrow> (string \<times> go_type) list \<Rightarrow> bool" where
  "fits s GString \<longleftrightarrow> has_type s ''string''"
| "fits s GBool \<longleftrightarrow> has_type s ''boolean''"
| "fits s (GInt b) \<longleftrightarrow> has_type s ''integer'' \<and> bounded_by s b"
| "fits s GFloat \<longleftrightarrow> has_type s ''number''"
| "fits s GMap \<longleftrightarrow> has_type s ''object''"
| "fits s (GSlice t) \<longleftrightarrow> has_type s ''array'' \<and>
     (case json_field s ''items'' of None \<Rightarrow> False | Some s' \<Rightarrow> fits s' t)"
| "fits s (GPtr t) \<longleftrightarrow> fits s t"
| "fits s (GStruct fs) \<longleftrightarrow> has_type s ''object'' \<and> closed_schema s \<and>
     list_all (\<lambda>k. List.member (map fst fs) k) (property_names s) \<and> fields_fit s fs"
| "fields_fit s [] \<longleftrightarrow> True"
| "fields_fit s ((n, t) # fs) \<longleftrightarrow>
     (case schema_property s n of None \<Rightarrow> True | Some s' \<Rightarrow> fits s' t) \<and> fields_fit s fs"

text \<open>The numbers of a document, as they are written: Go reads an integer only without a fraction,
  while for JSON Schema \<open>1.0\<close> is one; and not every decimal is in the range of \<open>float64\<close>. A number
  \<open>JNum m s\<close> is written as a decimal with \<open>s\<close> digits after the point; numbers with an exponent,
  which Go refuses for an integer, are outside the model.\<close>

definition plain_number :: "float_parser \<Rightarrow> int \<Rightarrow> nat \<Rightarrow> bool" where
  "plain_number pf m s \<longleftrightarrow> (s = 0 \<or> m mod 10 ^ s \<noteq> 0) \<and> ParseFloat pf m s \<noteq> None"

fun plain_numbers :: "float_parser \<Rightarrow> json \<Rightarrow> bool" where
  "plain_numbers pf (JNum m s) \<longleftrightarrow> plain_number pf m s"
| "plain_numbers pf (JArr js) \<longleftrightarrow> (\<forall>j \<in> set js. plain_numbers pf j)"
| "plain_numbers pf (JObj kvs) \<longleftrightarrow> (\<forall>kv \<in> set kvs. plain_numbers pf (snd kv))"
| "plain_numbers pf _ \<longleftrightarrow> True"

lemma fields_fitD: "fields_fit s fs \<Longrightarrow> (n, t) \<in> set fs \<Longrightarrow> schema_property s n = Some s' \<Longrightarrow> fits s' t"
  by (induction fs) auto

lemma schema_property_name: "schema_property s k = Some s' \<Longrightarrow> k \<in> set (property_names s)"
  by (cases s; cases "the (json_field s ''properties'')")
    (auto simp: schema_property_def property_names_def split: option.splits
      dest!: map_of_SomeD [of "rev _"] intro: rev_image_eqI)

lemma find_field_exact:
  assumes "k \<in> fst ` set fs"
  obtains t where "find_field fs k = Some (k, t)" and "(k, t) \<in> set fs"
proof -
  from assms have "find (\<lambda>f. fst f = k) fs \<noteq> None"
    by (auto simp: find_None_iff)
  then obtain f where f: "find (\<lambda>f. fst f = k) fs = Some f" by blast
  then have "f \<in> set fs" "fst f = k" by (auto simp: find_Some_iff)
  with f that [of "snd f"] show ?thesis by (cases f) (simp add: find_field_def)
qed

lemma closed_member:
  assumes "members_conform s ((k, j) # kvs)" and "closed_schema s" and "fields_fit s fs"
    and "set (property_names s) \<subseteq> fst ` set fs"
  obtains s' t where "find_field fs k = Some (k, t)" and "fits s' t" and "conforms s' j"
proof -
  from assms(1,2) obtain s' where s': "schema_property s k = Some s'" "conforms s' j"
    by (auto split: option.splits)
  then have "k \<in> fst ` set fs" using schema_property_name assms(4) by blast
  then obtain t where "find_field fs k = Some (k, t)" "(k, t) \<in> set fs" by (rule find_field_exact)
  with s' fields_fitD [OF assms(3)] that show ?thesis by blast
qed

lemma conforms_bounds:
  assumes "conforms s (JNum m 0)" and "bounded_by s b"
  shows "fits_bits b m"
proof -
  from assms(2) obtain l h where "json_field s ''minimum'' = Some (JNum l 0)"
      "json_field s ''maximum'' = Some (JNum h 0)" "fits_bits b l" "fits_bits b h"
    by (auto simp: bounded_by_def split: option.splits json.splits nat.splits)
  with assms(1) show ?thesis
    by (simp add: schema_keywords_def schema_bounds_def decimal_le_def fits_bits_def)
qed

lemmas fits_defs = has_type_def schema_type_def list_all_iff

lemma fits_decodes:
  shows "fits s ty \<Longrightarrow> conforms s v \<Longrightarrow> plain_numbers pf v \<Longrightarrow> \<exists>w. decode_into pf ty v cur = Some w"
    and "json_field a ''items'' = Some s \<Longrightarrow> fits s t \<Longrightarrow> items_conform a js \<Longrightarrow>
      \<forall>j \<in> set js. plain_numbers pf j \<Longrightarrow> \<exists>ws. decode_elements pf t js = Some ws"
    and "closed_schema s \<Longrightarrow> fields_fit s fs \<Longrightarrow> set (property_names s) \<subseteq> fst ` set fs \<Longrightarrow>
      members_conform s kvs \<Longrightarrow> \<forall>kv \<in> set kvs. plain_numbers pf (snd kv) \<Longrightarrow>
      \<exists>ws. decode_members pf fs kvs fcur = Some ws"
proof (induction pf ty v cur and pf t js and pf fs kvs fcur arbitrary: s and a s and s
    rule: decode_into_decode_elements_decode_members.induct)
  case (5 pf b m e cur)
  then have "e = 0"
    by (auto simp: fits_defs plain_number_def schema_keywords_def split: option.splits json.splits)
  with 5 conforms_bounds show ?case by auto
next
  case (6 pf m e cur)
  then show ?case by (auto simp: plain_number_def)
next
  case (9 pf fs kvs cur)
  then have "\<exists>ws. decode_members pf fs kvs (v_fields cur) = Some ws"
    by (intro "9.IH") (auto simp: list_all_iff)
  then show ?case by auto
next
  case (14 pf fs k j kvs cur)
  then obtain s' t where f: "find_field fs k = Some (k, t)" "fits s' t" "conforms s' j"
    by (blast elim: closed_member)
  let ?cur = "case map_of cur k of None \<Rightarrow> zero_value t | Some v \<Rightarrow> v"
  from 14 f obtain w where w: "decode_into pf t j ?cur = Some w"
    by fastforce
  moreover have "\<exists>ws. decode_members pf fs kvs (set_field k w cur) = Some ws"
    using 14 f w by fastforce
  ultimately show ?case using f by auto
qed (auto simp: fits_defs schema_keywords_def split: option.splits)

end
