(* ===== verification/Contracts.thy ===== *)
theory Contracts
  imports Go_Json
begin

text \<open>
  internal/contracts/contracts.go: the catalogue of the operations that agents are offered, with the
  names they have in the REST interface, on the command line and as MCP tools, and with the schemas of
  their input and output. A Go \<open>Schema\<close> is a \<open>map[string]any\<close>: here the JSON document it is
  marshalled to. The minimum of a number is zero wherever it is given, so that it is an integer here.
\<close>

section \<open>Names\<close>

definition OperationCreateTicket :: string where "OperationCreateTicket = ''create_ticket''"
definition OperationProposeTicket :: string where "OperationProposeTicket = ''propose_ticket''"
definition OperationCreateTicketFromAttempt :: string where
  "OperationCreateTicketFromAttempt = ''create_ticket_from_attempt''"
definition OperationClaimNextTicket :: string where
  "OperationClaimNextTicket = ''claim_next_ticket''"
definition OperationHeartbeatAttempt :: string where
  "OperationHeartbeatAttempt = ''heartbeat_attempt''"
definition OperationCheckpointAttempt :: string where
  "OperationCheckpointAttempt = ''checkpoint_attempt''"
definition OperationUpdateTicket :: string where "OperationUpdateTicket = ''update_ticket''"
definition OperationMarkTicketReady :: string where
  "OperationMarkTicketReady = ''mark_ticket_ready''"
definition OperationReopenTicket :: string where "OperationReopenTicket = ''reopen_ticket''"
definition OperationUnblockTicket :: string where "OperationUnblockTicket = ''unblock_ticket''"
definition OperationRequestTicketReview :: string where
  "OperationRequestTicketReview = ''request_ticket_review''"
definition OperationReviewTicket :: string where "OperationReviewTicket = ''review_ticket''"
definition OperationArchiveTicket :: string where "OperationArchiveTicket = ''archive_ticket''"
definition OperationCompleteAttempt :: string where
  "OperationCompleteAttempt = ''complete_attempt''"
definition OperationFailAttempt :: string where "OperationFailAttempt = ''fail_attempt''"
definition OperationBlockAttempt :: string where "OperationBlockAttempt = ''block_attempt''"
definition OperationListTickets :: string where "OperationListTickets = ''list_tickets''"
definition OperationGetTicket :: string where "OperationGetTicket = ''get_ticket''"
definition OperationAttachArtifact :: string where "OperationAttachArtifact = ''attach_artifact''"
definition OperationDecomposeTicket :: string where
  "OperationDecomposeTicket = ''decompose_ticket''"
definition OperationRegisterAgentCapabilities :: string where
  "OperationRegisterAgentCapabilities = ''register_agent_capabilities''"
definition OperationAnalyticsSummary :: string where
  "OperationAnalyticsSummary = ''analytics_summary''"
definition OperationAnalyticsByModel :: string where
  "OperationAnalyticsByModel = ''analytics_by_model''"
definition OperationAnalyticsByHarness :: string where
  "OperationAnalyticsByHarness = ''analytics_by_harness''"
definition OperationAnalyticsByStatus :: string where
  "OperationAnalyticsByStatus = ''analytics_by_status''"
definition OperationAnalyticsByAgent :: string where
  "OperationAnalyticsByAgent = ''analytics_by_agent''"
definition RESTCreateTicket :: string where "RESTCreateTicket = ''create-ticket''"
definition RESTProposeTicket :: string where "RESTProposeTicket = ''propose-ticket''"
definition RESTClaimNextTicket :: string where "RESTClaimNextTicket = ''claim-next-ticket''"
definition RESTHeartbeat :: string where "RESTHeartbeat = ''heartbeat-attempt''"
definition RESTCheckpoint :: string where "RESTCheckpoint = ''checkpoint-attempt''"
definition RESTUpdateTicket :: string where "RESTUpdateTicket = ''update-ticket''"
definition RESTMarkTicketReady :: string where "RESTMarkTicketReady = ''ready-ticket''"
definition RESTReopenTicket :: string where "RESTReopenTicket = ''reopen-ticket''"
definition RESTUnblockTicket :: string where "RESTUnblockTicket = ''unblock-ticket''"
definition RESTRequestReview :: string where "RESTRequestReview = ''request-ticket-review''"
definition RESTReviewTicket :: string where "RESTReviewTicket = ''review-ticket''"
definition RESTArchiveTicket :: string where "RESTArchiveTicket = ''archive-ticket''"
definition RESTCompleteAttempt :: string where "RESTCompleteAttempt = ''complete-attempt''"
definition RESTFailAttempt :: string where "RESTFailAttempt = ''fail-attempt''"
definition RESTBlockAttempt :: string where "RESTBlockAttempt = ''block-attempt''"
definition RESTListTickets :: string where "RESTListTickets = ''list-tickets''"
definition RESTGetTicket :: string where "RESTGetTicket = ''get-ticket''"
definition RESTAttachArtifact :: string where "RESTAttachArtifact = ''create-artifact''"
definition RESTDecomposeTicket :: string where "RESTDecomposeTicket = ''decompose-ticket''"
definition RESTAnalyticsSummary :: string where "RESTAnalyticsSummary = ''analytics-summary''"
definition RESTAnalyticsByModel :: string where "RESTAnalyticsByModel = ''analytics-by-model''"
definition RESTAnalyticsByHarness :: string where
  "RESTAnalyticsByHarness = ''analytics-by-harness''"
definition RESTAnalyticsByStatus :: string where "RESTAnalyticsByStatus = ''analytics-by-status''"
definition RESTAnalyticsByAgent :: string where "RESTAnalyticsByAgent = ''analytics-by-agent''"
definition CLICreateTicket :: string where "CLICreateTicket = ''create''"
definition CLIProposeTicket :: string where "CLIProposeTicket = ''propose''"
definition CLIClaimNextTicket :: string where "CLIClaimNextTicket = ''claim-next''"
definition CLIHeartbeat :: string where "CLIHeartbeat = ''heartbeat''"
definition CLICheckpoint :: string where "CLICheckpoint = ''checkpoint''"
definition CLICompleteAttempt :: string where "CLICompleteAttempt = ''complete''"
definition CLIFailAttempt :: string where "CLIFailAttempt = ''fail''"
definition CLIBlockAttempt :: string where "CLIBlockAttempt = ''block''"
definition CLIListTickets :: string where "CLIListTickets = ''list''"
definition CLIGetTicket :: string where "CLIGetTicket = ''get''"
definition CLIAttachArtifact :: string where "CLIAttachArtifact = ''attach''"
definition CLIAnalytics :: string where "CLIAnalytics = ''analytics''"

lemmas operation_names =
  OperationCreateTicket_def OperationProposeTicket_def OperationCreateTicketFromAttempt_def
    OperationClaimNextTicket_def OperationHeartbeatAttempt_def OperationCheckpointAttempt_def
    OperationUpdateTicket_def OperationMarkTicketReady_def OperationReopenTicket_def
    OperationUnblockTicket_def OperationRequestTicketReview_def OperationReviewTicket_def
    OperationArchiveTicket_def OperationCompleteAttempt_def OperationFailAttempt_def
    OperationBlockAttempt_def OperationListTickets_def OperationGetTicket_def
    OperationAttachArtifact_def OperationDecomposeTicket_def OperationRegisterAgentCapabilities_def
    OperationAnalyticsSummary_def OperationAnalyticsByModel_def OperationAnalyticsByHarness_def
    OperationAnalyticsByStatus_def OperationAnalyticsByAgent_def

section \<open>Schemas\<close>

definition objectSchema :: "string \<Rightarrow> string list \<Rightarrow> (string \<times> json) list \<Rightarrow> json" where
  "objectSchema description required properties =
     JObj ([(''$schema'', JStr ''https://json-schema.org/draft/2020-12/schema''),
            (''type'', JStr ''object''), (''description'', JStr description),
            (''additionalProperties'', JBool False), (''properties'', JObj properties)] @
           (if required = [] then [] else [(''required'', JArr (map JStr required))]))"

definition freeformObjectSchema :: "string \<Rightarrow> json" where
  "freeformObjectSchema description =
     JObj [(''type'', JStr ''object''), (''description'', JStr description),
           (''additionalProperties'', JBool True)]"

definition nonEmptyObjectSchema :: "string \<Rightarrow> string list \<Rightarrow> (string \<times> json) list \<Rightarrow> json" where
  "nonEmptyObjectSchema description required properties =
     (case objectSchema description required properties of
        JObj kvs \<Rightarrow> JObj (kvs @ [(''minProperties'', JNum 1 0)]) | s \<Rightarrow> s)"

definition arraySchema :: "string \<Rightarrow> json \<Rightarrow> json" where
  "arraySchema description items =
     JObj [(''type'', JStr ''array''), (''description'', JStr description), (''items'', items)]"

definition stringArraySchema :: "string \<Rightarrow> json" where
  "stringArraySchema description = arraySchema description (JObj [(''type'', JStr ''string'')])"

definition stringSchema :: "string \<Rightarrow> json" where
  "stringSchema description = JObj [(''type'', JStr ''string''), (''description'', JStr description)]"

definition booleanSchema :: "string \<Rightarrow> json" where
  "booleanSchema description = JObj [(''type'', JStr ''boolean''), (''description'', JStr description)]"

definition falseBooleanSchema :: "string \<Rightarrow> json" where
  "falseBooleanSchema description =
     JObj [(''type'', JStr ''boolean''), (''const'', JBool False), (''description'', JStr description)]"

definition uuidSchema :: "string \<Rightarrow> json" where
  "uuidSchema description =
     JObj [(''type'', JStr ''string''), (''format'', JStr ''uuid''), (''description'', JStr description)]"

definition optionalUUIDSchema :: "string \<Rightarrow> json" where
  "optionalUUIDSchema description =
     JObj [(''type'', JStr ''string''), (''format'', JStr ''uuid''), (''description'', JStr description)]"

definition integerSchema :: "string \<Rightarrow> int \<Rightarrow> int \<Rightarrow> json" where
  "integerSchema description minimum maximum =
     JObj [(''type'', JStr ''integer''), (''description'', JStr description),
           (''minimum'', JNum minimum 0), (''maximum'', JNum maximum 0)]"

definition numberSchema :: "string \<Rightarrow> int \<Rightarrow> json" where
  "numberSchema description minimum =
     JObj [(''type'', JStr ''number''), (''description'', JStr description),
           (''minimum'', JNum minimum 0)]"

definition enumSchema :: "string \<Rightarrow> string list \<Rightarrow> json" where
  "enumSchema description values =
     JObj [(''type'', JStr ''string''), (''description'', JStr description),
           (''enum'', JArr (map JStr values))]"

text \<open>The schemas that several operations share. A property of \<open>extra\<close> replaces one of its name.\<close>

definition transitionInputSchema :: "string \<Rightarrow> string list \<Rightarrow> (string \<times> json) list \<Rightarrow> json" where
  "transitionInputSchema title required extra =
     objectSchema title required ((''attempt_id'', uuidSchema ''Attempt ID'') # extra)"

definition ticketInputSchema :: "string \<Rightarrow> string list \<Rightarrow> json" where
  "ticketInputSchema title required =
     objectSchema title required
       [(''workspace_id'', uuidSchema ''Workspace ID''),
       (''project_id'', uuidSchema ''Project ID''),
       (''parent_id'', optionalUUIDSchema ''Parent ticket ID''),
       (''root_id'', optionalUUIDSchema ''Root ticket ID''),
       (''source_attempt_id'', optionalUUIDSchema ''Attempt that produced this ticket''),
       (''source_artifact_id'', optionalUUIDSchema ''Artifact that supports this ticket''),
       (''title'', stringSchema ''Short imperative title''),
       (''description'', stringSchema ''Useful context for the worker''),
       (''type'', enumSchema ''Ticket type'' [''feature'', ''bug'', ''documentation'', ''research'',
         ''analysis'', ''planning'', ''review'', ''integration'', ''investigation'', ''cleanup'',
         ''follow_up'', ''custom'']),
       (''status'', enumSchema ''Initial status'' [''backlog'', ''todo'']),
       (''priority'', integerSchema ''Priority from 0 highest to 4 lowest'' 0 4),
       (''tags'', stringArraySchema ''Search and routing tags''),
       (''acceptance_criteria'', stringArraySchema
         ''Observable conditions that make the work done''),
       (''verification_commands'', stringArraySchema ''Commands or checks the worker should run''),
       (''expected_artifacts'', stringArraySchema ''Proof artifacts expected at completion''),
       (''relevant_paths'', stringArraySchema
         ''Files, packages, docs, or external paths related to the work''),
       (''required_tools'', stringArraySchema ''Tools the worker likely needs''),
       (''required_permissions'', stringArraySchema ''Permissions the worker likely needs''),
       (''environment'', objectSchema ''Environment facts for the worker'' [] []),
       (''input'', objectSchema ''Structured task input'' [] []),
       (''input_schema'', stringSchema ''Optional schema identifier for input''),
       (''required_capabilities'', stringArraySchema ''Capabilities required to claim the ticket''),
       (''allowed_harnesses'', stringArraySchema ''Harnesses allowed to claim the ticket''),
       (''retry_policy'', objectSchema ''Retry policy'' [] []),
       (''dependencies'', stringArraySchema ''Ticket IDs this ticket depends on''),
       (''created_by'', enumSchema ''Creator actor type'' [''human'', ''agent'', ''system'']),
       (''created_by_id'', stringSchema ''Creator identifier''),
       (''creation_reason'', stringSchema ''Why this ticket exists''),
       (''enqueue'', booleanSchema ''Whether to create directly in the claimable queue'')]"

definition attemptMetricsSchema :: "json" where
  "attemptMetricsSchema =
     objectSchema ''Optional attempt metrics supplied by a harness'' []
       [(''tokens_in'', integerSchema ''Input tokens used by the attempt'' 0 (2 ^ 62)),
       (''tokens_out'', integerSchema ''Output tokens produced by the attempt'' 0 (2 ^ 62)),
       (''cost_usd'', numberSchema ''Attempt cost in USD'' 0),
       (''duration_seconds'', numberSchema ''Attempt duration in seconds'' 0),
       (''retry_count'', integerSchema ''Retries used inside the harness'' 0 (2 ^ 31 - 1))]"

definition ticketTransitionInputSchema :: "string \<Rightarrow> json" where
  "ticketTransitionInputSchema title =
     objectSchema title [''ticket_id'']
       [(''ticket_id'', uuidSchema ''Ticket ID''),
       (''actor_id'', stringSchema ''Actor ID for ticket-event attribution''),
       (''reason'', stringSchema ''Reason for the transition'')]"

definition ticketReferenceSchema :: "string \<Rightarrow> json" where
  "ticketReferenceSchema description =
     objectSchema description [''id'', ''title'', ''type'', ''status'']
       [(''id'', uuidSchema ''Ticket ID''),
       (''title'', stringSchema ''Ticket title''),
       (''type'', stringSchema ''Ticket type''),
       (''status'', stringSchema ''Ticket status''),
       (''priority'', integerSchema ''Ticket priority'' 0 4),
       (''project_id'', uuidSchema ''Project ID''),
       (''workspace_id'', uuidSchema ''Workspace ID'')]"

definition attemptReferenceSchema :: "string \<Rightarrow> json" where
  "attemptReferenceSchema description =
     objectSchema description [''id'', ''ticket_id'', ''status'', ''agent_id'', ''harness'']
       [(''id'', uuidSchema ''Attempt ID''),
       (''ticket_id'', uuidSchema ''Ticket ID''),
       (''status'', stringSchema ''Attempt status''),
       (''agent_id'', stringSchema ''Agent ID''),
       (''harness'', stringSchema ''Harness name''),
       (''model'', stringSchema ''Model or runtime label'')]"

definition artifactReferenceSchema :: "string \<Rightarrow> json" where
  "artifactReferenceSchema description =
     objectSchema description [''id'', ''ticket_id'', ''type'', ''role'', ''name'', ''url'']
       [(''id'', uuidSchema ''Artifact ID''),
       (''ticket_id'', uuidSchema ''Ticket ID''),
       (''attempt_id'', optionalUUIDSchema ''Attempt ID''),
       (''type'', stringSchema ''Artifact type''),
       (''role'', stringSchema ''Artifact role''),
       (''name'', stringSchema ''Display name''),
       (''url'', stringSchema ''Artifact URL''),
       (''storage_backend'', stringSchema ''Storage backend''),
       (''size_bytes'', integerSchema ''Artifact size in bytes'' 0 (2 ^ 62)),
       (''mime_type'', stringSchema ''MIME type'')]"

definition ticketOutputSchema :: "string \<Rightarrow> json" where
  "ticketOutputSchema title =
     objectSchema title [''ticket'']
       [(''ticket'', ticketReferenceSchema ''Ticket'')]"

definition attemptOutputSchema :: "string \<Rightarrow> json" where
  "attemptOutputSchema title =
     objectSchema title [''attempt'']
       [(''attempt'', attemptReferenceSchema ''Attempt'')]"

definition transitionOutputSchema :: "string \<Rightarrow> json" where
  "transitionOutputSchema title =
     objectSchema title [''attempt_id'', ''ticket_id'', ''attempt_status'', ''ticket_status'']
       [(''attempt_id'', uuidSchema ''Attempt ID''),
       (''ticket_id'', uuidSchema ''Ticket ID''),
       (''attempt_status'', stringSchema ''Final attempt status''),
       (''ticket_status'', stringSchema ''Final ticket status'')]"

definition analyticsFilterSchema :: "string \<Rightarrow> json" where
  "analyticsFilterSchema title =
     objectSchema title []
       [(''workspace_id'', optionalUUIDSchema ''Workspace scope''),
       (''project_id'', optionalUUIDSchema ''Project scope'')]"

definition analyticsSummarySchema :: "string \<Rightarrow> json" where
  "analyticsSummarySchema title =
     objectSchema title [''summary'']
       [(''summary'', objectSchema ''Summary'' [''attempt_count'', ''total_cost_usd'']
           [(''attempt_count'', integerSchema ''Total attempts'' 0 (2 ^ 62)),
           (''succeeded_attempts'', integerSchema ''Succeeded attempts'' 0 (2 ^ 62)),
           (''failed_attempts'', integerSchema ''Failed attempts'' 0 (2 ^ 62)),
           (''blocked_attempts'', integerSchema ''Blocked attempts'' 0 (2 ^ 62)),
           (''total_tokens_in'', integerSchema ''Input tokens'' 0 (2 ^ 62)),
           (''total_tokens_out'', integerSchema ''Output tokens'' 0 (2 ^ 62)),
           (''total_tokens'', integerSchema ''Input plus output tokens'' 0 (2 ^ 62)),
           (''total_cost_usd'', numberSchema ''Total cost in USD'' 0),
           (''total_duration_seconds'', numberSchema ''Total duration in seconds'' 0),
           (''total_retries'', integerSchema ''Total retries'' 0 (2 ^ 62)),
           (''attempts_with_metrics'', integerSchema ''Attempts that submitted metrics'' 0 (2 ^
             62)),
           (''success_rate'', numberSchema ''Succeeded attempts divided by total attempts'' 0),
           (''average_cost_usd'', numberSchema ''Average cost per attempt with metrics'' 0),
           (''average_duration_seconds'', numberSchema ''Average duration per attempt with metrics''
             0)])]"

definition analyticsGroupSchema :: "string \<Rightarrow> json" where
  "analyticsGroupSchema title =
     objectSchema title [''groups'']
       [(''groups'', arraySchema ''Grouped analytics rows'' (objectSchema ''Group'' [''group'',
         ''attempt_count'']
           [(''group'', stringSchema ''Analytics group value''),
           (''attempt_count'', integerSchema ''Total attempts'' 0 (2 ^ 62)),
           (''succeeded_attempts'', integerSchema ''Succeeded attempts'' 0 (2 ^ 62)),
           (''failed_attempts'', integerSchema ''Failed attempts'' 0 (2 ^ 62)),
           (''blocked_attempts'', integerSchema ''Blocked attempts'' 0 (2 ^ 62)),
           (''total_tokens_in'', integerSchema ''Input tokens'' 0 (2 ^ 62)),
           (''total_tokens_out'', integerSchema ''Output tokens'' 0 (2 ^ 62)),
           (''total_tokens'', integerSchema ''Input plus output tokens'' 0 (2 ^ 62)),
           (''total_cost_usd'', numberSchema ''Total cost in USD'' 0),
           (''total_duration_seconds'', numberSchema ''Total duration in seconds'' 0),
           (''total_retries'', integerSchema ''Total retries'' 0 (2 ^ 62)),
           (''attempts_with_metrics'', integerSchema ''Attempts that submitted metrics'' 0 (2 ^
             62)),
           (''success_rate'', numberSchema ''Succeeded attempts divided by total attempts'' 0),
           (''average_cost_usd'', numberSchema ''Average cost per attempt with metrics'' 0),
           (''average_duration_seconds'', numberSchema ''Average duration per attempt with metrics''
             0)]))]"

definition claimContextSchema :: "json" where
  "claimContextSchema =
     objectSchema ''Claim context bundle'' [''ticket'', ''attempt'']
       [(''ticket'', ticketReferenceSchema ''Claimed ticket''),
       (''attempt'', attemptReferenceSchema ''Current attempt''),
       (''acceptance_criteria'', stringArraySchema ''Acceptance criteria to satisfy''),
       (''verification_commands'', stringArraySchema ''Commands or checks to run''),
       (''environment'', objectSchema ''Environment facts'' [] []),
       (''input'', objectSchema ''Structured ticket input'' [] []),
       (''relevant_paths'', stringArraySchema
         ''Relevant files, packages, docs, or external paths''),
       (''required_tools'', stringArraySchema ''Required tools''),
       (''required_permissions'', stringArraySchema ''Required permissions''),
       (''expected_artifacts'', stringArraySchema ''Expected proof artifacts''),
       (''prior_attempts'', arraySchema ''Previous attempts'' (attemptReferenceSchema
         ''Prior attempt'')),
       (''checkpoints'', arraySchema ''Prior checkpoints'' (objectSchema ''Checkpoint'' []
           [(''id'', uuidSchema ''Checkpoint ID''),
           (''summary'', stringSchema ''Checkpoint summary''),
           (''progress_percent'', integerSchema ''Progress percentage'' 0 100),
           (''next_step'', stringSchema ''Suggested next step''),
           (''risk'', stringSchema ''Risk or blocker note'')])),
       (''artifacts'', arraySchema ''Known artifacts'' (artifactReferenceSchema ''Artifact''))]"

section \<open>Operations\<close>

record surface_binding =
  sb_REST :: string
  sb_CLI :: string
  sb_MCP :: string

record operation =
  op_Name :: string
  op_Summary :: string
  op_Description :: string
  op_Bindings :: surface_binding
  op_InputSchema :: json
  op_OutputSchema :: json

definition opCreateTicket :: operation where
  "opCreateTicket =
     \<lparr>op_Name = OperationCreateTicket, op_Summary = ''Create a ticket'',
      op_Description =
        ''Create human- or system-authored work with enough context for agents to claim and execute.'',
      op_Bindings = \<lparr>sb_REST = RESTCreateTicket, sb_CLI = CLICreateTicket, sb_MCP =
        OperationCreateTicket\<rparr>,
      op_InputSchema = ticketInputSchema ''Create ticket input'' [''workspace_id'', ''project_id'',
        ''title'', ''type'', ''acceptance_criteria''],
      op_OutputSchema = ticketOutputSchema ''Created ticket''\<rparr>"

definition opProposeTicket :: operation where
  "opProposeTicket =
     \<lparr>op_Name = OperationProposeTicket, op_Summary = ''Propose agent-discovered work'',
      op_Description =
        ''Capture agent-discovered work as low-friction backlog without silently enqueueing it for execution.'',
      op_Bindings = \<lparr>sb_REST = RESTProposeTicket, sb_CLI = CLIProposeTicket, sb_MCP =
        OperationProposeTicket\<rparr>,
      op_InputSchema = ticketInputSchema ''Propose ticket input'' [''workspace_id'', ''project_id'',
        ''title'', ''type'', ''acceptance_criteria'', ''creation_reason''],
      op_OutputSchema = ticketOutputSchema ''Proposed ticket''\<rparr>"

definition opCreateTicketFromAttempt :: operation where
  "opCreateTicketFromAttempt =
     \<lparr>op_Name = OperationCreateTicketFromAttempt, op_Summary =
       ''Create a ticket from an attempt'',
      op_Description =
        ''Turn a blocked or failed attempt into structured follow-up work with source attribution.'',
      op_Bindings = \<lparr>sb_REST = [], sb_CLI = [], sb_MCP =
        OperationCreateTicketFromAttempt\<rparr>,
      op_InputSchema = objectSchema ''Create ticket from attempt input'' [''workspace_id'',
        ''project_id'', ''attempt_id'', ''title'', ''type'', ''acceptance_criteria'',
        ''creation_reason'']
        [(''workspace_id'', uuidSchema ''Workspace ID''),
        (''project_id'', uuidSchema ''Project ID''),
        (''attempt_id'', uuidSchema ''Source attempt ID''),
        (''source_artifact_id'', optionalUUIDSchema
          ''Evidence artifact that explains the discovered work''),
        (''created_by_id'', stringSchema ''Creator identifier for ticket-event attribution''),
        (''title'', stringSchema ''Short imperative ticket title''),
        (''description'', stringSchema ''Context captured from the attempt''),
        (''type'', enumSchema ''Ticket template'' [''bug'', ''feature'', ''documentation'',
          ''review'', ''investigation'', ''cleanup'', ''follow_up'']),
        (''priority'', integerSchema ''Priority from 0 highest to 4 lowest'' 0 4),
        (''tags'', stringArraySchema ''Search and routing tags''),
        (''acceptance_criteria'', stringArraySchema
          ''Observable conditions that make the follow-up done''),
        (''verification_commands'', stringArraySchema
          ''Commands or checks a future agent should run when completing the ticket''),
        (''expected_artifacts'', stringArraySchema ''Proof artifacts expected at completion''),
        (''relevant_paths'', stringArraySchema
          ''Files, packages, docs, or external paths related to the work''),
        (''required_tools'', stringArraySchema ''Tools the future worker likely needs''),
        (''required_permissions'', stringArraySchema
          ''Permissions the future worker likely needs''),
        (''required_capabilities'', stringArraySchema
          ''Capabilities required to claim the follow-up''),
        (''allowed_harnesses'', stringArraySchema ''Harnesses allowed to claim the follow-up''),
        (''environment'', freeformObjectSchema ''Environment facts for the future worker''),
        (''input'', freeformObjectSchema ''Structured task input''),
        (''creation_reason'', stringSchema ''Why the attempt created this work'')],
      op_OutputSchema = ticketOutputSchema ''Created follow-up ticket''\<rparr>"

definition opClaimNextTicket :: operation where
  "opClaimNextTicket =
     \<lparr>op_Name = OperationClaimNextTicket, op_Summary = ''Claim next eligible ticket'',
      op_Description =
        ''Atomically claim work and return a context bundle that lets an agent start without extra lookup ceremony.'',
      op_Bindings = \<lparr>sb_REST = RESTClaimNextTicket, sb_CLI = CLIClaimNextTicket, sb_MCP =
        OperationClaimNextTicket\<rparr>,
      op_InputSchema = objectSchema ''Claim next ticket input'' [''workspace_id'', ''project_id'',
        ''agent_id'', ''harness'', ''lease_seconds'']
        [(''workspace_id'', uuidSchema ''Workspace ID''),
        (''project_id'', uuidSchema ''Project ID''),
        (''type'', stringSchema ''Optional ticket type filter''),
        (''tags'', stringArraySchema ''Optional tag filters''),
        (''harness'', stringSchema ''Harness claiming the work, such as codex''),
        (''capabilities'', stringArraySchema ''Capabilities available to the claiming agent''),
        (''agent_id'', stringSchema ''Stable agent or worker identifier''),
        (''model'', stringSchema ''Model or agent runtime label''),
        (''lease_seconds'', integerSchema ''Initial claim lease in seconds'' 1 86400),
        (''idempotency_key'', stringSchema ''Optional replay key for retry-safe claim-next calls''),
        (''idempotency_ttl'', integerSchema ''Optional idempotency retention in seconds'' 0
          604800)],
      op_OutputSchema = objectSchema ''Claim next ticket output'' [''ticket'', ''attempt'',
        ''context'']
        [(''ticket'', ticketReferenceSchema ''Claimed ticket''),
        (''attempt'', attemptReferenceSchema ''Created attempt''),
        (''context'', claimContextSchema)]\<rparr>"

definition opHeartbeatAttempt :: operation where
  "opHeartbeatAttempt =
     \<lparr>op_Name = OperationHeartbeatAttempt, op_Summary = ''Heartbeat attempt'',
      op_Description =
        ''Extend an active attempt lease without recording resumable progress.'',
      op_Bindings = \<lparr>sb_REST = RESTHeartbeat, sb_CLI = CLIHeartbeat, sb_MCP =
        OperationHeartbeatAttempt\<rparr>,
      op_InputSchema = objectSchema ''Heartbeat attempt input'' [''attempt_id'', ''lease_seconds'']
        [(''attempt_id'', uuidSchema ''Attempt ID''),
        (''lease_seconds'', integerSchema ''Lease extension in seconds'' 1 86400)],
      op_OutputSchema = attemptOutputSchema ''Heartbeat result''\<rparr>"

definition opCheckpointAttempt :: operation where
  "opCheckpointAttempt =
     \<lparr>op_Name = OperationCheckpointAttempt, op_Summary = ''Checkpoint attempt'',
      op_Description =
        ''Record resumable progress, touched files, commands run, next step, and risk.'',
      op_Bindings = \<lparr>sb_REST = RESTCheckpoint, sb_CLI = CLICheckpoint, sb_MCP =
        OperationCheckpointAttempt\<rparr>,
      op_InputSchema = objectSchema ''Checkpoint attempt input'' [''attempt_id'', ''summary'',
        ''progress_percent'']
        [(''attempt_id'', uuidSchema ''Attempt ID''),
        (''summary'', stringSchema ''Concise progress summary''),
        (''progress_percent'', integerSchema ''Approximate completion percentage'' 0 100),
        (''files_touched'', stringArraySchema ''Files changed or inspected''),
        (''commands_run'', stringArraySchema ''Commands run since the last checkpoint''),
        (''next_step'', stringSchema ''Most useful next action''),
        (''risk'', stringSchema ''Known risk, uncertainty, or blocker signal'')],
      op_OutputSchema = objectSchema ''Checkpoint attempt output'' [''checkpoint_id'',
        ''attempt_id'', ''summary'', ''progress_percent'']
        [(''checkpoint_id'', uuidSchema ''Checkpoint ID''),
        (''attempt_id'', uuidSchema ''Attempt ID''),
        (''summary'', stringSchema ''Recorded summary''),
        (''progress_percent'', integerSchema ''Recorded progress percentage'' 0 100)]\<rparr>"

definition opUpdateTicket :: operation where
  "opUpdateTicket =
     \<lparr>op_Name = OperationUpdateTicket, op_Summary = ''Update ticket'',
      op_Description =
        ''Patch ticket metadata without changing attempt lifecycle state.'',
      op_Bindings = \<lparr>sb_REST = RESTUpdateTicket, sb_CLI = [], sb_MCP =
        OperationUpdateTicket\<rparr>,
      op_InputSchema = objectSchema ''Update ticket input'' [''ticket_id'', ''patch'']
        [(''ticket_id'', uuidSchema ''Ticket ID''),
        (''actor_id'', stringSchema ''Actor ID for ticket-event attribution''),
        (''patch'', nonEmptyObjectSchema ''Patch fields'' []
            [(''title'', stringSchema ''Updated title''),
            (''description'', stringSchema ''Updated description''),
            (''acceptance_criteria'', stringArraySchema ''Updated acceptance criteria''),
            (''verification_commands'', stringArraySchema ''Updated verification commands''),
            (''relevant_paths'', stringArraySchema ''Updated relevant paths''),
            (''tags'', stringArraySchema ''Updated tags'')])],
      op_OutputSchema = ticketOutputSchema ''Updated ticket''\<rparr>"

definition opMarkTicketReady :: operation where
  "opMarkTicketReady =
     \<lparr>op_Name = OperationMarkTicketReady, op_Summary = ''Mark ticket ready'',
      op_Description =
        ''Move backlog work into the claimable todo queue.'',
      op_Bindings = \<lparr>sb_REST = RESTMarkTicketReady, sb_CLI = [], sb_MCP =
        OperationMarkTicketReady\<rparr>,
      op_InputSchema = ticketTransitionInputSchema ''Mark ticket ready input'',
      op_OutputSchema = ticketOutputSchema ''Ready ticket''\<rparr>"

definition opReopenTicket :: operation where
  "opReopenTicket =
     \<lparr>op_Name = OperationReopenTicket, op_Summary = ''Reopen ticket'',
      op_Description =
        ''Move terminal work back to todo for another attempt.'',
      op_Bindings = \<lparr>sb_REST = RESTReopenTicket, sb_CLI = [], sb_MCP =
        OperationReopenTicket\<rparr>,
      op_InputSchema = ticketTransitionInputSchema ''Reopen ticket input'',
      op_OutputSchema = ticketOutputSchema ''Reopened ticket''\<rparr>"

definition opUnblockTicket :: operation where
  "opUnblockTicket =
     \<lparr>op_Name = OperationUnblockTicket, op_Summary = ''Unblock ticket'',
      op_Description =
        ''Move blocked work back to todo after the blocker is resolved.'',
      op_Bindings = \<lparr>sb_REST = RESTUnblockTicket, sb_CLI = [], sb_MCP =
        OperationUnblockTicket\<rparr>,
      op_InputSchema = ticketTransitionInputSchema ''Unblock ticket input'',
      op_OutputSchema = ticketOutputSchema ''Unblocked ticket''\<rparr>"

definition opRequestTicketReview :: operation where
  "opRequestTicketReview =
     \<lparr>op_Name = OperationRequestTicketReview, op_Summary = ''Request ticket review'',
      op_Description =
        ''Move work into needs_review for a human or authorized reviewer decision.'',
      op_Bindings = \<lparr>sb_REST = RESTRequestReview, sb_CLI = [], sb_MCP =
        OperationRequestTicketReview\<rparr>,
      op_InputSchema = ticketTransitionInputSchema ''Request ticket review input'',
      op_OutputSchema = ticketOutputSchema ''Ticket needing review''\<rparr>"

definition opReviewTicket :: operation where
  "opReviewTicket =
     \<lparr>op_Name = OperationReviewTicket, op_Summary = ''Review ticket'',
      op_Description =
        ''Approve or reject work that is waiting in needs_review.'',
      op_Bindings = \<lparr>sb_REST = RESTReviewTicket, sb_CLI = [], sb_MCP =
        OperationReviewTicket\<rparr>,
      op_InputSchema = objectSchema ''Review ticket input'' [''ticket_id'', ''decision'']
        [(''ticket_id'', uuidSchema ''Ticket ID''),
        (''decision'', enumSchema ''Review decision'' [''approve'', ''reject'']),
        (''actor_id'', stringSchema ''Actor ID for ticket-event attribution''),
        (''reason'', stringSchema ''Reason for the review decision'')],
      op_OutputSchema = ticketOutputSchema ''Reviewed ticket''\<rparr>"

definition opArchiveTicket :: operation where
  "opArchiveTicket =
     \<lparr>op_Name = OperationArchiveTicket, op_Summary = ''Archive ticket'',
      op_Description =
        ''Move non-running work out of active queues.'',
      op_Bindings = \<lparr>sb_REST = RESTArchiveTicket, sb_CLI = [], sb_MCP =
        OperationArchiveTicket\<rparr>,
      op_InputSchema = ticketTransitionInputSchema ''Archive ticket input'',
      op_OutputSchema = ticketOutputSchema ''Archived ticket''\<rparr>"

definition opCompleteAttempt :: operation where
  "opCompleteAttempt =
     \<lparr>op_Name = OperationCompleteAttempt, op_Summary = ''Complete attempt'',
      op_Description =
        ''Finish a running attempt successfully and move its ticket according to workflow rules.'',
      op_Bindings = \<lparr>sb_REST = RESTCompleteAttempt, sb_CLI = CLICompleteAttempt, sb_MCP =
        OperationCompleteAttempt\<rparr>,
      op_InputSchema = transitionInputSchema ''Complete attempt input'' [''attempt_id'', ''output'']
        [(''output'', objectSchema ''Structured completion output'' [] []),
        (''output_schema'', stringSchema ''Optional schema identifier for output''),
        (''metrics'', attemptMetricsSchema)],
      op_OutputSchema = transitionOutputSchema ''Complete attempt output''\<rparr>"

definition opFailAttempt :: operation where
  "opFailAttempt =
     \<lparr>op_Name = OperationFailAttempt, op_Summary = ''Fail attempt'',
      op_Description =
        ''Finish a running attempt unsuccessfully with actionable failure context.'',
      op_Bindings = \<lparr>sb_REST = RESTFailAttempt, sb_CLI = CLIFailAttempt, sb_MCP =
        OperationFailAttempt\<rparr>,
      op_InputSchema = transitionInputSchema ''Fail attempt input'' [''attempt_id'',
        ''failure_reason'']
        [(''failure_reason'', stringSchema ''Human-readable reason the attempt failed''),
        (''failure_category'', stringSchema ''Optional normalized failure category''),
        (''output'', objectSchema ''Structured failure output'' [] []),
        (''metrics'', attemptMetricsSchema)],
      op_OutputSchema = transitionOutputSchema ''Fail attempt output''\<rparr>"

definition opBlockAttempt :: operation where
  "opBlockAttempt =
     \<lparr>op_Name = OperationBlockAttempt, op_Summary = ''Block attempt'',
      op_Description =
        ''Finish a running attempt as blocked and capture enough blocker context to unblock later.'',
      op_Bindings = \<lparr>sb_REST = RESTBlockAttempt, sb_CLI = CLIBlockAttempt, sb_MCP =
        OperationBlockAttempt\<rparr>,
      op_InputSchema = transitionInputSchema ''Block attempt input'' [''attempt_id'',
        ''blocker_reason'']
        [(''blocker_reason'', stringSchema ''Reason the attempt is blocked''),
        (''failure_category'', stringSchema ''Optional normalized blocker category''),
        (''blocker'', objectSchema ''Structured blocker details'' [] []),
        (''metrics'', attemptMetricsSchema)],
      op_OutputSchema = transitionOutputSchema ''Block attempt output''\<rparr>"

definition opListTickets :: operation where
  "opListTickets =
     \<lparr>op_Name = OperationListTickets, op_Summary = ''List tickets'',
      op_Description =
        ''List tickets by workspace, project, status, and type.'',
      op_Bindings = \<lparr>sb_REST = RESTListTickets, sb_CLI = CLIListTickets, sb_MCP =
        OperationListTickets\<rparr>,
      op_InputSchema = objectSchema ''List tickets input'' [''workspace_id'', ''project_id'']
        [(''workspace_id'', uuidSchema ''Workspace ID''),
        (''project_id'', uuidSchema ''Project ID''),
        (''status'', stringSchema ''Optional status filter''),
        (''type'', stringSchema ''Optional type filter''),
        (''offset'', integerSchema ''Pagination offset'' 0 1000000),
        (''limit'', integerSchema ''Maximum result count'' 1 200)],
      op_OutputSchema = objectSchema ''List tickets output'' [''tickets'']
        [(''tickets'', arraySchema ''Tickets'' (ticketReferenceSchema ''Ticket''))]\<rparr>"

definition opGetTicket :: operation where
  "opGetTicket =
     \<lparr>op_Name = OperationGetTicket, op_Summary = ''Get ticket'',
      op_Description =
        ''Fetch a ticket by ID.'',
      op_Bindings = \<lparr>sb_REST = RESTGetTicket, sb_CLI = CLIGetTicket, sb_MCP =
        OperationGetTicket\<rparr>,
      op_InputSchema = objectSchema ''Get ticket input'' [''ticket_id'']
        [(''ticket_id'', uuidSchema ''Ticket ID'')],
      op_OutputSchema = ticketOutputSchema ''Ticket''\<rparr>"

definition opAttachArtifact :: operation where
  "opAttachArtifact =
     \<lparr>op_Name = OperationAttachArtifact, op_Summary = ''Attach artifact'',
      op_Description =
        ''Register proof, context, diagnostic, handoff, or output artifact metadata for a ticket or attempt.'',
      op_Bindings = \<lparr>sb_REST = RESTAttachArtifact, sb_CLI = CLIAttachArtifact, sb_MCP =
        OperationAttachArtifact\<rparr>,
      op_InputSchema = objectSchema ''Attach artifact input'' [''workspace_id'', ''project_id'',
        ''ticket_id'', ''type'', ''role'', ''name'', ''url'']
        [(''workspace_id'', uuidSchema ''Workspace ID''),
        (''project_id'', uuidSchema ''Project ID''),
        (''ticket_id'', uuidSchema ''Ticket ID''),
        (''attempt_id'', optionalUUIDSchema ''Attempt ID when artifact belongs to an attempt''),
        (''type'', enumSchema ''Artifact type'' [''code'', ''document'', ''image'', ''dataset'',
          ''log'', ''diff'', ''trace'', ''test_output'', ''screenshot'', ''handoff'',
          ''diagnostic'', ''final_response'', ''other'']),
        (''role'', enumSchema ''Artifact role'' [''evidence'', ''patch'', ''context'', ''output'',
          ''diagnostic'', ''handoff'']),
        (''name'', stringSchema ''Display name''),
        (''url'', stringSchema ''Local or remote artifact URL''),
        (''storage_backend'', enumSchema ''Storage backend'' [''local'', ''s3'']),
        (''size_bytes'', integerSchema ''Artifact size in bytes'' 0 (2 ^ 62)),
        (''mime_type'', stringSchema ''MIME type''),
        (''metadata'', objectSchema ''Additional metadata'' [] [])],
      op_OutputSchema = objectSchema ''Attach artifact output'' [''artifact'']
        [(''artifact'', artifactReferenceSchema ''Registered artifact'')]\<rparr>"

definition opDecomposeTicket :: operation where
  "opDecomposeTicket =
     \<lparr>op_Name = OperationDecomposeTicket, op_Summary = ''Decompose ticket'',
      op_Description =
        ''Create or propose child tasks and dependencies from a larger ticket or phase.'',
      op_Bindings = \<lparr>sb_REST = RESTDecomposeTicket, sb_CLI = [], sb_MCP =
        OperationDecomposeTicket\<rparr>,
      op_InputSchema = objectSchema ''Decompose ticket input'' [''workspace_id'', ''project_id'',
        ''ticket_id'', ''creation_reason'', ''children'']
        [(''workspace_id'', uuidSchema ''Workspace ID''),
        (''project_id'', uuidSchema ''Project ID''),
        (''ticket_id'', uuidSchema ''Parent ticket ID''),
        (''root_id'', optionalUUIDSchema ''Root ticket ID for nested decomposition''),
        (''mode'', enumSchema ''Creation mode'' [''propose'', ''create'']),
        (''can_enqueue'', falseBooleanSchema
          ''MCP callers cannot self-grant enqueue authority; create mode authorization is adapter-controlled''),
        (''created_by_id'', stringSchema ''Creator identifier''),
        (''creation_reason'', stringSchema ''Why this decomposition is being created''),
        (''children'', arraySchema ''Child ticket proposals'' (objectSchema
          ''Child ticket proposal'' [''key'', ''title'', ''type'', ''acceptance_criteria'']
            [(''key'', stringSchema ''Stable child key used for dependency wiring''),
            (''title'', stringSchema ''Child title''),
            (''description'', stringSchema ''Child context''),
            (''type'', stringSchema ''Child ticket type''),
            (''tags'', stringArraySchema ''Child tags''),
            (''acceptance_criteria'', stringArraySchema ''Child acceptance criteria''),
            (''verification_commands'', stringArraySchema ''Child verification commands''),
            (''expected_artifacts'', stringArraySchema ''Expected child proof artifacts''),
            (''relevant_paths'', stringArraySchema
              ''Relevant files, packages, docs, or external paths''),
            (''required_tools'', stringArraySchema ''Required tools''),
            (''required_permissions'', stringArraySchema ''Required permissions''),
            (''required_capabilities'', stringArraySchema ''Required claiming capabilities''),
            (''allowed_harnesses'', stringArraySchema ''Harnesses allowed to claim this child''),
            (''environment'', freeformObjectSchema ''Environment facts''),
            (''input'', freeformObjectSchema ''Structured child input''),
            (''depends_on'', stringArraySchema ''Sibling child keys this child depends on'')]))],
      op_OutputSchema = objectSchema ''Decompose ticket output'' [''children'']
        [(''children'', arraySchema ''Created or proposed child tickets'' (ticketReferenceSchema
          ''Child ticket''))]\<rparr>"

definition opRegisterAgentCapabilities :: operation where
  "opRegisterAgentCapabilities =
     \<lparr>op_Name = OperationRegisterAgentCapabilities, op_Summary =
       ''Register agent capabilities'',
      op_Description =
        ''Register the tools, transports, artifact abilities, and execution preferences a harness or worker supports.'',
      op_Bindings = \<lparr>sb_REST = [], sb_CLI = [], sb_MCP =
        OperationRegisterAgentCapabilities\<rparr>,
      op_InputSchema = objectSchema ''Register agent capabilities input'' [''workspace_id'',
        ''project_id'', ''agent_id'', ''harness'', ''transports'', ''capabilities'']
        [(''workspace_id'', uuidSchema ''Workspace ID''),
        (''project_id'', uuidSchema ''Project ID''),
        (''agent_id'', stringSchema ''Stable agent or worker identifier''),
        (''harness'', stringSchema ''Harness name, such as codex''),
        (''model'', stringSchema ''Model or runtime label''),
        (''transports'', stringArraySchema ''Supported transports, such as cli, rest, or mcp''),
        (''capabilities'', stringArraySchema ''Capability labels used for matching claims''),
        (''tool_names'', stringArraySchema ''Specific tool names this agent can call''),
        (''artifact_roles'', stringArraySchema ''Artifact roles this agent can produce''),
        (''preferred_claim'', freeformObjectSchema ''Preferred claim filters and lease settings''),
        (''metadata'', freeformObjectSchema ''Additional harness metadata'')],
      op_OutputSchema = objectSchema ''Register agent capabilities output'' [''agent_id'',
        ''harness'', ''capabilities'']
        [(''agent_id'', stringSchema ''Registered agent ID''),
        (''harness'', stringSchema ''Registered harness''),
        (''capabilities'', stringArraySchema ''Registered capabilities'')]\<rparr>"

definition opAnalyticsSummary :: operation where
  "opAnalyticsSummary =
     \<lparr>op_Name = OperationAnalyticsSummary, op_Summary = ''Analytics summary'',
      op_Description =
        ''Summarize attempts, provided metrics, token usage, cost, duration, and retries.'',
      op_Bindings = \<lparr>sb_REST = RESTAnalyticsSummary, sb_CLI = CLIAnalytics, sb_MCP =
        OperationAnalyticsSummary\<rparr>,
      op_InputSchema = analyticsFilterSchema ''Analytics summary input'',
      op_OutputSchema = analyticsSummarySchema ''Analytics summary output''\<rparr>"

definition opAnalyticsByModel :: operation where
  "opAnalyticsByModel =
     \<lparr>op_Name = OperationAnalyticsByModel, op_Summary = ''Analytics by model'',
      op_Description =
        ''Aggregate attempt counts, success counts, tokens, cost, duration, and retries by model.'',
      op_Bindings = \<lparr>sb_REST = RESTAnalyticsByModel, sb_CLI = CLIAnalytics, sb_MCP =
        OperationAnalyticsByModel\<rparr>,
      op_InputSchema = analyticsFilterSchema ''Analytics by model input'',
      op_OutputSchema = analyticsGroupSchema ''Analytics by model output''\<rparr>"

definition opAnalyticsByHarness :: operation where
  "opAnalyticsByHarness =
     \<lparr>op_Name = OperationAnalyticsByHarness, op_Summary = ''Analytics by harness'',
      op_Description =
        ''Aggregate attempt counts, outcome counts, tokens, cost, duration, and retries by harness.'',
      op_Bindings = \<lparr>sb_REST = RESTAnalyticsByHarness, sb_CLI = CLIAnalytics, sb_MCP =
        OperationAnalyticsByHarness\<rparr>,
      op_InputSchema = analyticsFilterSchema ''Analytics by harness input'',
      op_OutputSchema = analyticsGroupSchema ''Analytics by harness output''\<rparr>"

definition opAnalyticsByStatus :: operation where
  "opAnalyticsByStatus =
     \<lparr>op_Name = OperationAnalyticsByStatus, op_Summary = ''Analytics by status'',
      op_Description =
        ''Aggregate attempt counts, outcome counts, tokens, cost, duration, and retries by status.'',
      op_Bindings = \<lparr>sb_REST = RESTAnalyticsByStatus, sb_CLI = CLIAnalytics, sb_MCP =
        OperationAnalyticsByStatus\<rparr>,
      op_InputSchema = analyticsFilterSchema ''Analytics by status input'',
      op_OutputSchema = analyticsGroupSchema ''Analytics by status output''\<rparr>"

definition opAnalyticsByAgent :: operation where
  "opAnalyticsByAgent =
     \<lparr>op_Name = OperationAnalyticsByAgent, op_Summary = ''Analytics by agent'',
      op_Description =
        ''Aggregate attempt counts, outcome counts, tokens, cost, duration, and retries by agent.'',
      op_Bindings = \<lparr>sb_REST = RESTAnalyticsByAgent, sb_CLI = CLIAnalytics, sb_MCP =
        OperationAnalyticsByAgent\<rparr>,
      op_InputSchema = analyticsFilterSchema ''Analytics by agent input'',
      op_OutputSchema = analyticsGroupSchema ''Analytics by agent output''\<rparr>"

definition operations :: "operation list" where
  "operations =
     [opCreateTicket, opProposeTicket, opCreateTicketFromAttempt, opClaimNextTicket, opHeartbeatAttempt,
        opCheckpointAttempt, opUpdateTicket, opMarkTicketReady, opReopenTicket, opUnblockTicket,
        opRequestTicketReview, opReviewTicket, opArchiveTicket, opCompleteAttempt, opFailAttempt,
        opBlockAttempt, opListTickets, opGetTicket, opAttachArtifact, opDecomposeTicket,
        opRegisterAgentCapabilities, opAnalyticsSummary, opAnalyticsByModel, opAnalyticsByHarness,
        opAnalyticsByStatus, opAnalyticsByAgent]"

definition AllOperations :: "operation list" where
  "AllOperations = operations"

definition OperationByName :: "string \<Rightarrow> operation option" where
  "OperationByName name = find (\<lambda>op. op_Name op = name) operations"

text \<open>\<open>MustOperation\<close>: \<open>None\<close> is the panic.\<close>

definition MustOperation :: "string \<Rightarrow> operation option" where
  "MustOperation name = OperationByName name"

end
