(* ===== verification/Rest_Api.thy ===== *)
theory Rest_Api
  imports Web_Pages Webhook_Policy Analytics
begin

text \<open>
  internal/api: the requests of the REST interface and how they are translated into requests to the
  runtime, and its replies. The framework (huma) matches the route, checks the body against its
  schema and decodes it; here a body is a record of what it decodes to. \<open>api_env\<close> holds the texts
  of UUIDs (pgx's \<open>Scan\<close> and \<open>Value\<close>), \<open>url.Parse\<close>, and what the claim service needs.
\<close>

section \<open>Bodies\<close>

record ticket_create_body =
  tb_WorkspaceID :: string
  tb_ProjectID :: string
  tb_ParentID :: string
  tb_RootID :: string
  tb_Title :: string
  tb_Description :: string
  tb_Type :: string
  tb_Status :: string
  tb_Priority :: "int option"
  tb_Tags :: "string list"
  tb_AcceptanceCriteria :: "string list"
  tb_VerificationCommands :: "string list"
  tb_ExpectedArtifacts :: "string list"
  tb_RelevantPaths :: "string list"
  tb_RequiredTools :: "string list"
  tb_RequiredPermissions :: "string list"
  tb_Environment :: "(string \<times> json) list"
  tb_Input :: "(string \<times> json) list"
  tb_InputSchema :: string
  tb_RequiredCapabilities :: "string list"
  tb_AllowedHarnesses :: "string list"
  tb_Dependencies :: "string list"
  tb_CreatedBy :: string
  tb_CreatedByID :: string
  tb_CreationReason :: string
  tb_Enqueue :: bool

record list_tickets_input =
  li_WorkspaceID :: string
  li_ProjectID :: string
  li_Status :: string
  li_Type :: string
  li_Offset :: int
  li_Limit :: int

record ticket_update_body =
  ub_Title :: string
  ub_Description :: string
  ub_Tags :: "string list option"
  ub_AcceptanceCriteria :: "string list option"
  ub_VerificationCommands :: "string list option"
  ub_RelevantPaths :: "string list option"
  ub_ActorType :: string
  ub_ActorID :: string

record decompose_child_body =
  kb_Key :: string
  kb_Title :: string
  kb_Description :: string
  kb_Type :: string
  kb_Priority :: "int option"
  kb_AcceptanceCriteria :: "string list"
  kb_VerificationCommands :: "string list"
  kb_DependsOn :: "string list"

record decompose_body =
  db_WorkspaceID :: string
  db_ProjectID :: string
  db_RootID :: string
  db_Mode :: string
  db_CreatedBy :: string
  db_CreatedByID :: string
  db_CreationReason :: string
  db_Children :: "decompose_child_body list"

record artifact_create_body =
  ab_WorkspaceID :: string
  ab_ProjectID :: string
  ab_TicketID :: string
  ab_AttemptID :: string
  ab_Type :: string
  ab_Role :: string
  ab_Name :: string
  ab_URL :: string
  ab_StorageBackend :: string
  ab_SizeBytes :: int
  ab_MimeType :: string
  ab_Metadata :: "(string \<times> json) list"

record claim_body =
  lb_WorkspaceID :: string
  lb_ProjectID :: string
  lb_AgentID :: string
  lb_Harness :: string
  lb_Model :: string
  lb_Type :: string
  lb_Tags :: "string slice"
  lb_Capabilities :: "string slice"
  lb_LeaseSeconds :: int

record checkpoint_body =
  pb_Summary :: string
  pb_ProgressPercent :: int
  pb_FilesTouched :: "string list"
  pb_CommandsRun :: "string list"
  pb_NextStep :: string
  pb_Risk :: string

record metrics_body =
  mb_TokensIn :: int
  mb_TokensOut :: int
  mb_CostUSD :: float64
  mb_DurationSeconds :: float64
  mb_RetryCount :: int

record complete_body =
  ob_Output :: "(string \<times> json) list"
  ob_OutputSchema :: string
  ob_Metrics :: "metrics_body option"

record fail_body =
  fb_FailureReason :: string
  fb_FailureCategory :: string
  fb_Output :: "(string \<times> json) list"
  fb_Metrics :: "metrics_body option"

record block_body =
  bb_BlockerReason :: string
  bb_FailureCategory :: string
  bb_Blocker :: "(string \<times> json) list"
  bb_Metrics :: "metrics_body option"

record events_input =
  ei_WorkspaceID :: string
  ei_ProjectID :: string
  ei_TicketID :: string
  ei_AttemptID :: string
  ei_Cursor :: string
  ei_Limit :: int

record subscription_body =
  sb_WorkspaceID :: string
  sb_ProjectID :: string
  sb_EndpointURL :: string
  sb_Secret :: string
  sb_EventTypes :: "string slice"
  sb_Active :: "bool option"
  sb_MaxAttempts :: "int option"
  sb_Description :: string

section \<open>UUIDs\<close>

record api_env =
  ap_scan :: "string \<Rightarrow> string + uuid"
  ap_text :: "uuid \<Rightarrow> string"
  ap_url :: url_env
  ap_claim :: claim_env
  ap_locked :: "uuid list"
  ap_quote :: "string \<Rightarrow> string"
  ap_now :: timestamp

definition api_optional_uuid :: "api_env \<Rightarrow> string \<Rightarrow> string + uuid option" where
  "api_optional_uuid ae value0 =
     (let v = TrimSpace value0 in
      if v = [] then Inr None else and_then (ap_scan ae v) (\<lambda>u. Inr (Some u)))"

definition parseRequiredUUID :: "api_env \<Rightarrow> string \<Rightarrow> string \<Rightarrow> string + uuid option" where
  "parseRequiredUUID ae name value0 =
     and_then (api_optional_uuid ae value0) (\<lambda>i.
       if i = None then Inl (name @ '' is required'') else Inr i)"

definition uuidText :: "api_env \<Rightarrow> uuid option \<Rightarrow> string" where
  "uuidText ae i = (case i of None \<Rightarrow> [] | Some u \<Rightarrow> ap_text ae u)"

fun required_uuids :: "api_env \<Rightarrow> string \<Rightarrow> string list \<Rightarrow> string + uuid option list" where
  "required_uuids ae name [] = Inr []"
| "required_uuids ae name (raw # raws) =
     and_then (parseRequiredUUID ae name raw) (\<lambda>i.
     and_then (required_uuids ae name raws) (\<lambda>is. Inr (i # is)))"

section \<open>Requests\<close>

text \<open>\<open>mapTicketCreate\<close>: a request through the API always has the right to enqueue.\<close>

definition mapTicketCreate :: "api_env \<Rightarrow> ticket_create_body \<Rightarrow> string + create_ticket_request" where
  "mapTicketCreate ae b =
     and_then (parseRequiredUUID ae ''workspace_id'' (tb_WorkspaceID b)) (\<lambda>w.
     and_then (parseRequiredUUID ae ''project_id'' (tb_ProjectID b)) (\<lambda>p.
     and_then (api_optional_uuid ae (tb_ParentID b)) (\<lambda>parent.
     and_then (api_optional_uuid ae (tb_RootID b)) (\<lambda>root.
     and_then (required_uuids ae ''dependencies'' (tb_Dependencies b)) (\<lambda>deps.
     Inr \<lparr>cr_WorkspaceID = w, cr_ProjectID = p, cr_ParentID = parent, cr_RootID = root,
          cr_SourceAttemptID = None, cr_SourceArtifactID = None, cr_Title = tb_Title b,
          cr_Description = tb_Description b, cr_Type = tb_Type b, cr_Status = tb_Status b,
          cr_Priority = tb_Priority b, cr_Tags = tb_Tags b,
          cr_AcceptanceCriteria = tb_AcceptanceCriteria b,
          cr_VerificationCommands = tb_VerificationCommands b,
          cr_ExpectedArtifacts = tb_ExpectedArtifacts b, cr_RelevantPaths = tb_RelevantPaths b,
          cr_RequiredTools = tb_RequiredTools b, cr_RequiredPermissions = tb_RequiredPermissions b,
          cr_Environment = tb_Environment b, cr_Input = tb_Input b, cr_InputSchema = tb_InputSchema b,
          cr_RequiredCapabilities = tb_RequiredCapabilities b,
          cr_AllowedHarnesses = tb_AllowedHarnesses b, cr_RetryPolicy = RawEmpty,
          cr_Dependencies = deps, cr_CreatedBy = tb_CreatedBy b, cr_CreatedByID = tb_CreatedByID b,
          cr_CreationReason = tb_CreationReason b, cr_Enqueue = tb_Enqueue b,
          cr_CanEnqueue = True\<rparr>)))))"

definition mapListTickets :: "api_env \<Rightarrow> list_tickets_input \<Rightarrow> string + list_tickets_request" where
  "mapListTickets ae i =
     and_then (parseRequiredUUID ae ''workspace_id'' (li_WorkspaceID i)) (\<lambda>w.
     and_then (parseRequiredUUID ae ''project_id'' (li_ProjectID i)) (\<lambda>p.
     Inr \<lparr>lr_WorkspaceID = w, lr_ProjectID = p, lr_Status = li_Status i, lr_Type = li_Type i,
          lr_Offset = li_Offset i, lr_Limit = li_Limit i\<rparr>))"

text \<open>An empty title or description is not sent on; empty lists are.\<close>

definition mapUpdate :: "uuid option \<Rightarrow> ticket_update_body \<Rightarrow> update_ticket_request" where
  "mapUpdate i b =
     \<lparr>ur_TicketID = i, ur_Title = (if ub_Title b = [] then None else Some (ub_Title b)),
      ur_Description = (if ub_Description b = [] then None else Some (ub_Description b)),
      ur_Tags = ub_Tags b, ur_AcceptanceCriteria = ub_AcceptanceCriteria b,
      ur_VerificationCommands = ub_VerificationCommands b, ur_RelevantPaths = ub_RelevantPaths b,
      ur_ActorType = ub_ActorType b, ur_ActorID = ub_ActorID b, ur_eventData = []\<rparr>"

definition mapDecomposeChild :: "decompose_child_body \<Rightarrow> decompose_child_request" where
  "mapDecomposeChild b =
     \<lparr>dc_Key = kb_Key b, dc_Title = kb_Title b, dc_Description = kb_Description b,
      dc_Type = kb_Type b, dc_Priority = kb_Priority b, dc_Tags = [],
      dc_AcceptanceCriteria = kb_AcceptanceCriteria b,
      dc_VerificationCommands = kb_VerificationCommands b, dc_ExpectedArtifacts = [],
      dc_RelevantPaths = [], dc_RequiredTools = [], dc_RequiredPermissions = [],
      dc_RequiredCapabilities = [], dc_AllowedHarnesses = [], dc_Environment = [], dc_Input = [],
      dc_DependsOn = kb_DependsOn b\<rparr>"

definition mapDecompose ::
  "api_env \<Rightarrow> string \<Rightarrow> decompose_body \<Rightarrow> string + decompose_ticket_request" where
  "mapDecompose ae i b =
     and_then (parseRequiredUUID ae ''id'' i) (\<lambda>parent.
     and_then (parseRequiredUUID ae ''workspace_id'' (db_WorkspaceID b)) (\<lambda>w.
     and_then (parseRequiredUUID ae ''project_id'' (db_ProjectID b)) (\<lambda>p.
     and_then (api_optional_uuid ae (db_RootID b)) (\<lambda>root.
     Inr \<lparr>dt_WorkspaceID = w, dt_ProjectID = p, dt_ParentID = parent, dt_RootID = root,
          dt_Mode = db_Mode b, dt_CanEnqueue = True, dt_CreatedBy = db_CreatedBy b,
          dt_CreatedByID = db_CreatedByID b, dt_CreationReason = db_CreationReason b,
          dt_Children = map mapDecomposeChild (db_Children b)\<rparr>))))"

definition mapArtifactCreate ::
  "api_env \<Rightarrow> artifact_create_body \<Rightarrow> string + register_artifact_request" where
  "mapArtifactCreate ae b =
     and_then (parseRequiredUUID ae ''workspace_id'' (ab_WorkspaceID b)) (\<lambda>w.
     and_then (parseRequiredUUID ae ''project_id'' (ab_ProjectID b)) (\<lambda>p.
     and_then (parseRequiredUUID ae ''ticket_id'' (ab_TicketID b)) (\<lambda>t.
     and_then (api_optional_uuid ae (ab_AttemptID b)) (\<lambda>a.
     Inr \<lparr>ra_WorkspaceID = w, ra_ProjectID = p, ra_TicketID = t, ra_AttemptID = a,
          ra_Type = ab_Type b, ra_Role = ab_Role b, ra_Name = ab_Name b, ra_URL = ab_URL b,
          ra_StorageBackend = ab_StorageBackend b, ra_SizeBytes = ab_SizeBytes b,
          ra_MimeType = ab_MimeType b, ra_Metadata = ab_Metadata b\<rparr>))))"

text \<open>\<open>time.Duration(n) * time.Second\<close>, an \<open>int64\<close> product.\<close>

definition seconds_duration :: "int \<Rightarrow> duration" where
  "seconds_duration n = wrap64 (n * second)"

definition claim_lease :: "claim_body \<Rightarrow> duration" where
  "claim_lease b = seconds_duration (if lb_LeaseSeconds b = 0 then 300 else lb_LeaseSeconds b)"

definition mapClaim :: "api_env \<Rightarrow> string \<Rightarrow> claim_body \<Rightarrow> string + claim_next_request" where
  "mapClaim ae key b =
     and_then (parseRequiredUUID ae ''workspace_id'' (lb_WorkspaceID b)) (\<lambda>w.
     and_then (parseRequiredUUID ae ''project_id'' (lb_ProjectID b)) (\<lambda>p.
     Inr \<lparr>cq_WorkspaceID = w, cq_ProjectID = p, cq_Type = lb_Type b, cq_Tags = lb_Tags b,
          cq_Harness = lb_Harness b, cq_Capabilities = lb_Capabilities b, cq_AgentID = lb_AgentID b,
          cq_Model = lb_Model b, cq_Lease = claim_lease b, cq_IdempotencyKey = key,
          cq_IdempotencyTTL = 0\<rparr>))"

definition mapCheckpoint :: "uuid option \<Rightarrow> checkpoint_body \<Rightarrow> checkpoint_request" where
  "mapCheckpoint i b =
     \<lparr>kr_AttemptID = i, kr_Summary = pb_Summary b, kr_ProgressPercent = pb_ProgressPercent b,
      kr_FilesTouched = pb_FilesTouched b, kr_CommandsRun = pb_CommandsRun b,
      kr_NextStep = pb_NextStep b, kr_Risk = pb_Risk b\<rparr>"

definition mapMetrics :: "metrics_body option \<Rightarrow> attempt_metrics_request option" where
  "mapMetrics body = map_option (\<lambda>b.
     \<lparr>mr_TokensIn = mb_TokensIn b, mr_TokensOut = mb_TokensOut b, mr_CostUSD = mb_CostUSD b,
      mr_DurationSeconds = mb_DurationSeconds b, mr_RetryCount = mb_RetryCount b\<rparr>) body"

definition mapComplete :: "uuid option \<Rightarrow> complete_body \<Rightarrow> complete_attempt_request" where
  "mapComplete i b =
     \<lparr>or_AttemptID = i, or_Output = ob_Output b, or_OutputSchema = ob_OutputSchema b,
      or_Metrics = mapMetrics (ob_Metrics b)\<rparr>"

definition mapFail :: "uuid option \<Rightarrow> fail_body \<Rightarrow> fail_attempt_request" where
  "mapFail i b =
     \<lparr>fr_AttemptID = i, fr_FailureReason = fb_FailureReason b,
      fr_FailureCategory = fb_FailureCategory b, fr_Output = fb_Output b,
      fr_Metrics = mapMetrics (fb_Metrics b)\<rparr>"

definition mapBlock :: "uuid option \<Rightarrow> block_body \<Rightarrow> block_attempt_request" where
  "mapBlock i b =
     \<lparr>br_AttemptID = i, br_BlockerReason = bb_BlockerReason b,
      br_FailureCategory = bb_FailureCategory b, br_Blocker = bb_Blocker b,
      br_Metrics = mapMetrics (bb_Metrics b)\<rparr>"

definition listEventsRequest :: "api_env \<Rightarrow> events_input \<Rightarrow> string + list_events_request" where
  "listEventsRequest ae i =
     and_then (api_optional_uuid ae (ei_WorkspaceID i)) (\<lambda>w.
     and_then (api_optional_uuid ae (ei_ProjectID i)) (\<lambda>p.
     and_then (api_optional_uuid ae (ei_TicketID i)) (\<lambda>t.
     and_then (api_optional_uuid ae (ei_AttemptID i)) (\<lambda>a.
     Inr \<lparr>le_WorkspaceID = w, le_ProjectID = p, le_TicketID = t, le_AttemptID = a,
          le_Cursor = ei_Cursor i, le_Limit = ei_Limit i\<rparr>))))"

definition analyticsFilter :: "api_env \<Rightarrow> string \<Rightarrow> string \<Rightarrow> string + analytics_filter" where
  "analyticsFilter ae workspaceID projectID =
     and_then (api_optional_uuid ae workspaceID) (\<lambda>w.
     and_then (api_optional_uuid ae projectID) (\<lambda>p.
     Inr \<lparr>af_WorkspaceID = w, af_ProjectID = p\<rparr>))"

definition observabilityScope ::
  "api_env \<Rightarrow> string \<Rightarrow> string \<Rightarrow> string + (uuid option \<times> uuid option)" where
  "observabilityScope ae workspaceIDText projectIDText =
     and_then (parseRequiredUUID ae ''workspace_id'' workspaceIDText) (\<lambda>w.
     and_then (parseRequiredUUID ae ''project_id'' projectIDText) (\<lambda>p. Inr (w, p)))"

section \<open>Webhook subscriptions\<close>

definition supportedObservabilityEventTypes :: "string list" where
  "supportedObservabilityEventTypes =
     [''created'', ''proposed'', ''claimed'', ''heartbeat'', ''checkpointed'', ''updated'',
      ''completed'', ''failed'', ''blocked'', ''expired'', ''cancelled'', ''ready'', ''reopened'',
      ''unblocked'', ''review_requested'', ''reviewed'', ''archived'']"

fun supported_types :: "string list \<Rightarrow> string + string list" where
  "supported_types [] = Inr []"
| "supported_types (v0 # vs) =
     (let v = TrimSpace v0 in
      if v = [] then supported_types vs
      else if v \<notin> set supportedObservabilityEventTypes then Inl (''unsupported event_type '' @ v)
      else and_then (supported_types vs) (\<lambda>ts. Inr (v # ts)))"

definition normalizeObservabilityEventTypes :: "string slice \<Rightarrow> string + string list" where
  "normalizeObservabilityEventTypes types =
     (case types of None \<Rightarrow> Inr [] | Some vs \<Rightarrow> supported_types vs)"

text \<open>\<open>URL.Hostname\<close>: the host without a port and without the brackets of an IPv6 literal.\<close>

definition validOptionalPort :: "string \<Rightarrow> bool" where
  "validOptionalPort s \<longleftrightarrow>
     (case s of [] \<Rightarrow> True
      | c # ds \<Rightarrow> c = CHR '':'' \<and> (\<forall>x \<in> set ds. 48 \<le> (of_char x :: nat) \<and> (of_char x :: nat) \<le> 57))"

definition LastIndexByte :: "string \<Rightarrow> char \<Rightarrow> nat option" where
  "LastIndexByte s c =
     (if c \<in> set s then Some (length s - 1 - length (takeWhile (\<lambda>x. x \<noteq> c) (rev s))) else None)"

definition Hostname :: "url \<Rightarrow> string" where
  "Hostname u =
     (let h = u_Host u;
          h1 = (case LastIndexByte h (CHR '':'') of
              Some i \<Rightarrow> if validOptionalPort (drop i h) then take i h else h
            | None \<Rightarrow> h) in
      if h1 \<noteq> [] \<and> hd h1 = CHR ''['' \<and> last h1 = CHR '']'' then butlast (tl h1) else h1)"

definition private_or_local :: "addr \<Rightarrow> bool" where
  "private_or_local ip \<longleftrightarrow>
     IsLoopback ip \<or> IsLinkLocalUnicast ip \<or> IsLinkLocalMulticast ip \<or> IsMulticast ip \<or>
     IsUnspecified ip \<or> IsPrivate ip"

definition validateWebhookEndpointURL :: "api_env \<Rightarrow> string \<Rightarrow> string + unit" where
  "validateWebhookEndpointURL ae raw =
     and_then (ue_Parse (ap_url ae) (TrimSpace raw)) (\<lambda>parsed.
     and_then (ensure (u_Scheme parsed = ''http'' \<or> u_Scheme parsed = ''https'')
       ''endpoint_url must use http or https'') (\<lambda>_.
     and_then (ensure (u_Host parsed \<noteq> []) ''endpoint_url must include a host'') (\<lambda>_.
     case ParseAddr (Hostname parsed) of
       None \<Rightarrow> Inr ()
     | Some ip \<Rightarrow> ensure (\<not> private_or_local (Unmap ip))
         ''endpoint_url must not use a private or local IP address'')))"

definition createObservabilitySubscriptionParams ::
  "api_env \<Rightarrow> subscription_body \<Rightarrow> string + create_subscription_params" where
  "createObservabilitySubscriptionParams ae b =
     and_then (observabilityScope ae (sb_WorkspaceID b) (sb_ProjectID b)) (\<lambda>(w, p).
     and_then (ensure (TrimSpace (sb_EndpointURL b) \<noteq> []) ''endpoint_url is required'') (\<lambda>_.
     and_then (validateWebhookEndpointURL ae (sb_EndpointURL b)) (\<lambda>_.
     let maxAttempts = (case sb_MaxAttempts b of None \<Rightarrow> 3 | Some n \<Rightarrow> n);
         active = (case sb_Active b of None \<Rightarrow> True | Some x \<Rightarrow> x) in
     and_then (ensure (0 < maxAttempts) ''max_attempts must be greater than zero'') (\<lambda>_.
     and_then (normalizeObservabilityEventTypes (sb_EventTypes b)) (\<lambda>types.
     Inr \<lparr>csp_WorkspaceID = w, csp_ProjectID = p, csp_EndpointUrl = TrimSpace (sb_EndpointURL b),
          csp_Secret = optionalText (TrimSpace (sb_Secret b)), csp_EventTypes = Some types,
          csp_Active = active, csp_MaxAttempts = maxAttempts,
          csp_Description = TrimSpace (sb_Description b)\<rparr>)))))"

section \<open>Replies\<close>

record ticket_response =
  tv_ID :: string
  tv_WorkspaceID :: string
  tv_ProjectID :: string
  tv_Title :: string
  tv_Description :: string
  tv_Type :: string
  tv_Status :: string
  tv_Priority :: int
  tv_Tags :: "string list"
  tv_AcceptanceCriteria :: "string list"
  tv_CreatedBy :: string

record artifact_response =
  rv_ID :: string
  rv_WorkspaceID :: string
  rv_ProjectID :: string
  rv_TicketID :: string
  rv_AttemptID :: string
  rv_Type :: string
  rv_Role :: string
  rv_Name :: string
  rv_URL :: string
  rv_StorageBackend :: string
  rv_SizeBytes :: int
  rv_MimeType :: string

record attempt_response =
  nv_ID :: string
  nv_TicketID :: string
  nv_WorkspaceID :: string
  nv_ProjectID :: string
  nv_Status :: string
  nv_ProgressPercent :: int
  nv_AgentID :: string
  nv_Harness :: string

record subscription_payload =
  sv_ID :: string
  sv_WorkspaceID :: string
  sv_ProjectID :: string
  sv_EndpointURL :: string
  sv_SecretSet :: bool
  sv_EventTypes :: "string list"
  sv_Active :: bool
  sv_MaxAttempts :: int
  sv_Description :: string

definition makeTicketResponse :: "api_env \<Rightarrow> ticket \<Rightarrow> ticket_response" where
  "makeTicketResponse ae t =
     \<lparr>tv_ID = uuidText ae (Some (tk_ID t)), tv_WorkspaceID = uuidText ae (Some (tk_WorkspaceID t)),
      tv_ProjectID = uuidText ae (Some (tk_ProjectID t)), tv_Title = tk_Title t,
      tv_Description = tk_Description t, tv_Type = tk_Type t, tv_Status = tk_Status t,
      tv_Priority = tk_Priority t, tv_Tags = tk_Tags t,
      tv_AcceptanceCriteria = tk_AcceptanceCriteria t, tv_CreatedBy = tk_CreatedBy t\<rparr>"

definition makeTicketResponses where
  "makeTicketResponses ae ts = map (makeTicketResponse ae) ts"

definition makeArtifactResponse :: "api_env \<Rightarrow> artifact \<Rightarrow> artifact_response" where
  "makeArtifactResponse ae a =
     \<lparr>rv_ID = uuidText ae (Some (ar_ID a)), rv_WorkspaceID = uuidText ae (Some (ar_WorkspaceID a)),
      rv_ProjectID = uuidText ae (Some (ar_ProjectID a)),
      rv_TicketID = uuidText ae (Some (ar_TicketID a)), rv_AttemptID = uuidText ae (ar_AttemptID a),
      rv_Type = ar_Type a, rv_Role = ar_Role a, rv_Name = ar_Name a, rv_URL = ar_Url a,
      rv_StorageBackend = ar_StorageBackend a, rv_SizeBytes = ar_SizeBytes a,
      rv_MimeType = ar_MimeType a\<rparr>"

definition makeAttemptResponse :: "api_env \<Rightarrow> attempt \<Rightarrow> attempt_response" where
  "makeAttemptResponse ae a =
     \<lparr>nv_ID = uuidText ae (Some (at_ID a)), nv_TicketID = uuidText ae (Some (at_TicketID a)),
      nv_WorkspaceID = uuidText ae (Some (at_WorkspaceID a)),
      nv_ProjectID = uuidText ae (Some (at_ProjectID a)), nv_Status = at_Status a,
      nv_ProgressPercent = at_ProgressPercent a, nv_AgentID = at_AgentID a,
      nv_Harness = at_Harness a\<rparr>"

definition makeObservabilitySubscriptionPayload ::
  "api_env \<Rightarrow> webhook_subscription \<Rightarrow> subscription_payload" where
  "makeObservabilitySubscriptionPayload ae s =
     \<lparr>sv_ID = uuidText ae (Some (wsub_ID s)),
      sv_WorkspaceID = uuidText ae (Some (wsub_WorkspaceID s)),
      sv_ProjectID = uuidText ae (Some (wsub_ProjectID s)), sv_EndpointURL = wsub_EndpointUrl s,
      sv_SecretSet = (case wsub_Secret s of None \<Rightarrow> False | Some x \<Rightarrow> x \<noteq> []),
      sv_EventTypes = wsub_EventTypes s, sv_Active = wsub_Active s,
      sv_MaxAttempts = wsub_MaxAttempts s, sv_Description = wsub_Description s\<rparr>"

section \<open>Errors\<close>

text \<open>An error reply: its status, its message, and the error that it wraps.\<close>

datatype api_error = ApiError (api_status: nat) string "svc_error option"

fun strings_Join :: "string \<Rightarrow> string list \<Rightarrow> string" where
  "strings_Join sep [] = []"
| "strings_Join sep [s] = s"
| "strings_Join sep (s # ss) = s @ sep @ strings_Join sep ss"

definition ValidationError_text :: "string list \<Rightarrow> string" where
  "ValidationError_text problems = ''validation failed: '' @ strings_Join ''; '' problems"

definition resourceError :: "svc_error \<Rightarrow> string \<Rightarrow> api_error" where
  "resourceError e message =
     (case root_error e of
        ValidationError problems \<Rightarrow> ApiError 400 (ValidationError_text problems) None
      | ErrTicketNotFound \<Rightarrow> ApiError 404 ''resource not found'' (Some e)
      | StoreError _ NoRows \<Rightarrow> ApiError 404 ''resource not found'' (Some e)
      | ErrTicketTransitionNotAllowed \<Rightarrow> ApiError 409 message (Some e)
      | ErrArtifactDeleteUnsupported \<Rightarrow> ApiError 409 message (Some e)
      | ErrAttemptNotRunning \<Rightarrow> ApiError 409 message (Some e)
      | ErrIdempotencyConflict \<Rightarrow> ApiError 409 message (Some e)
      | ErrNoClaimableTickets \<Rightarrow> ApiError 409 message (Some e)
      | StoreError _ UniqueViolation \<Rightarrow> ApiError 409 message (Some e)
      | StoreError _ ForeignKeyViolation \<Rightarrow> ApiError 404 ''referenced resource not found'' (Some e)
      | _ \<Rightarrow> ApiError 500 message (Some e))"

definition eventFeedError :: "svc_error \<Rightarrow> string \<Rightarrow> api_error" where
  "eventFeedError e message =
     (case root_error e of
        ValidationError problems \<Rightarrow> ApiError 400 (ValidationError_text problems) None
      | _ \<Rightarrow> ApiError 500 message (Some e))"

definition serverError :: "svc_error \<Rightarrow> string \<Rightarrow> api_error" where
  "serverError e message = ApiError 500 message (Some e)"

definition observabilitySubscriptionCreateError :: "svc_error \<Rightarrow> string \<Rightarrow> api_error" where
  "observabilitySubscriptionCreateError e message =
     (case root_error e of
        StoreError _ ForeignKeyViolation \<Rightarrow>
          ApiError 404 ''referenced workspace or project does not exist'' (Some e)
      | StoreError _ UniqueViolation \<Rightarrow>
          ApiError 409 ''observability subscription already exists'' (Some e)
      | StoreError _ NotNullViolation \<Rightarrow>
          ApiError 400 ''invalid observability subscription'' (Some e)
      | StoreError _ CheckViolation \<Rightarrow>
          ApiError 400 ''invalid observability subscription'' (Some e)
      | _ \<Rightarrow> ApiError 500 message (Some e))"

end
