(* ===== verification/Mcp_Payloads.thy ===== *)
theory Mcp_Payloads
  imports Contracts Rest_Api
begin

text \<open>
  internal/mcp/payloads.go: the input of each tool as the struct it is decoded into, the request that
  the struct becomes, and the JSON of the results. The \<open>api_env\<close> is the one of the REST interface;
  \<open>mcp_env\<close> adds what only the tools need: the order of group names and the reader of long decimals.
  The entries of a Go map are written in the order of the source, although \<open>json.Marshal\<close> sorts them.
\<close>

record 'k mcp_env =
  me_api :: api_env
  me_pg :: pg_env
  me_collate :: "string \<Rightarrow> 'k"
  me_float :: float_parser

section \<open>Fields\<close>

definition validation_failure :: "string \<Rightarrow> svc_error" where
  "validation_failure problem_text = ValidationError [problem_text]"

definition parseUUIDField :: "api_env \<Rightarrow> string \<Rightarrow> string \<Rightarrow> svc_error + uuid option" where
  "parseUUIDField ae name raw =
     (case ap_scan ae raw of
        Inl e \<Rightarrow> Inl (validation_failure (name @ '' must be a valid UUID''))
      | Inr u \<Rightarrow> Inr (Some u))"

definition requiredUUIDField :: "api_env \<Rightarrow> string \<Rightarrow> string \<Rightarrow> svc_error + uuid option" where
  "requiredUUIDField ae name raw =
     (if raw = [] then Inl (validation_failure (name @ '' is required''))
      else parseUUIDField ae name raw)"

definition optionalUUIDField :: "api_env \<Rightarrow> string \<Rightarrow> string \<Rightarrow> svc_error + uuid option" where
  "optionalUUIDField ae name raw = (if raw = [] then Inr None else parseUUIDField ae name raw)"

fun uuid_fields :: "api_env \<Rightarrow> string \<Rightarrow> nat \<Rightarrow> string list \<Rightarrow> svc_error + uuid option list" where
  "uuid_fields ae name i [] = Inr []"
| "uuid_fields ae name i (raw # raws) =
     and_then (requiredUUIDField ae (name @ ''['' @ FormatInt (int i) @ '']'') raw) (\<lambda>u.
     and_then (uuid_fields ae name (i + 1) raws) (\<lambda>us. Inr (u # us)))"

definition optionalUUIDListField :: "api_env \<Rightarrow> string \<Rightarrow> string list \<Rightarrow> svc_error + uuid option list" where
  "optionalUUIDListField ae name raws = uuid_fields ae name 0 raws"

definition optionalJSONField :: "(string \<times> json) list \<Rightarrow> json_raw" where
  "optionalJSONField kvs = (if kvs = [] then RawEmpty else RawDoc (JObj kvs))"

text \<open>\<open>int32(n)\<close> of an \<open>int\<close>.\<close>

definition int32 :: "int \<Rightarrow> int" where
  "int32 n = (n + 2 ^ 31) mod 2 ^ 32 - 2 ^ 31"

section \<open>Tickets\<close>

definition createTicketInput :: go_type where
  "createTicketInput = GStruct
     [(''workspace_id'', GString), (''project_id'', GString), (''parent_id'', GString),
      (''root_id'', GString), (''source_attempt_id'', GString), (''source_artifact_id'', GString),
      (''title'', GString), (''description'', GString), (''type'', GString),
      (''status'', GString), (''priority'', GPtr (GInt 32)), (''tags'', GSlice GString),
      (''acceptance_criteria'', GSlice GString), (''verification_commands'', GSlice GString),
      (''expected_artifacts'', GSlice GString), (''relevant_paths'', GSlice GString),
      (''required_tools'', GSlice GString), (''required_permissions'', GSlice GString),
      (''environment'', GMap), (''input'', GMap), (''input_schema'', GString),
      (''required_capabilities'', GSlice GString), (''allowed_harnesses'', GSlice GString),
      (''retry_policy'', GMap), (''dependencies'', GSlice GString), (''created_by'', GString),
      (''created_by_id'', GString), (''creation_reason'', GString), (''enqueue'', GBool)]"

definition createTicketInput_request ::
  "api_env \<Rightarrow> go_value \<Rightarrow> svc_error + create_ticket_request" where
  "createTicketInput_request ae p =
     and_then (requiredUUIDField ae ''workspace_id'' (str p ''workspace_id'')) (\<lambda>workspaceID.
     and_then (requiredUUIDField ae ''project_id'' (str p ''project_id'')) (\<lambda>projectID.
     and_then (optionalUUIDField ae ''parent_id'' (str p ''parent_id'')) (\<lambda>parentID.
     and_then (optionalUUIDField ae ''root_id'' (str p ''root_id'')) (\<lambda>rootID.
     and_then (optionalUUIDField ae ''source_attempt_id'' (str p ''source_attempt_id'')) (\<lambda>sourceAttemptID.
     and_then (optionalUUIDField ae ''source_artifact_id'' (str p ''source_artifact_id''))
       (\<lambda>sourceArtifactID.
     and_then (optionalUUIDListField ae ''dependencies'' (str_list p ''dependencies'')) (\<lambda>dependencyIDs.
     Inr \<lparr>cr_WorkspaceID = workspaceID, cr_ProjectID = projectID, cr_ParentID = parentID,
          cr_RootID = rootID, cr_SourceAttemptID = sourceAttemptID,
          cr_SourceArtifactID = sourceArtifactID, cr_Title = str p ''title'',
          cr_Description = str p ''description'', cr_Type = str p ''type'',
          cr_Status = str p ''status'', cr_Priority = ptr_int p ''priority'',
          cr_Tags = str_list p ''tags'', cr_AcceptanceCriteria = str_list p ''acceptance_criteria'',
          cr_VerificationCommands = str_list p ''verification_commands'',
          cr_ExpectedArtifacts = str_list p ''expected_artifacts'',
          cr_RelevantPaths = str_list p ''relevant_paths'',
          cr_RequiredTools = str_list p ''required_tools'',
          cr_RequiredPermissions = str_list p ''required_permissions'',
          cr_Environment = obj p ''environment'', cr_Input = obj p ''input'',
          cr_InputSchema = str p ''input_schema'',
          cr_RequiredCapabilities = str_list p ''required_capabilities'',
          cr_AllowedHarnesses = str_list p ''allowed_harnesses'',
          cr_RetryPolicy = optionalJSONField (obj p ''retry_policy''),
          cr_Dependencies = dependencyIDs, cr_CreatedBy = str p ''created_by'',
          cr_CreatedByID = str p ''created_by_id'', cr_CreationReason = str p ''creation_reason'',
          cr_Enqueue = flag p ''enqueue'', cr_CanEnqueue = False\<rparr>)))))))"

definition createFromAttemptInput :: go_type where
  "createFromAttemptInput = GStruct
     [(''workspace_id'', GString), (''project_id'', GString), (''attempt_id'', GString),
      (''source_artifact_id'', GString), (''template_kind'', GString), (''type'', GString),
      (''title'', GString), (''description'', GString), (''priority'', GPtr (GInt 32)),
      (''tags'', GSlice GString), (''acceptance_criteria'', GSlice GString),
      (''verification_commands'', GSlice GString), (''expected_artifacts'', GSlice GString),
      (''relevant_paths'', GSlice GString), (''required_tools'', GSlice GString),
      (''required_permissions'', GSlice GString), (''required_capabilities'', GSlice GString),
      (''allowed_harnesses'', GSlice GString), (''environment'', GMap), (''input'', GMap),
      (''created_by_id'', GString), (''creation_reason'', GString)]"

definition createFromAttemptInput_request ::
  "api_env \<Rightarrow> go_value \<Rightarrow> svc_error + create_ticket_from_attempt_request" where
  "createFromAttemptInput_request ae p =
     and_then (ensure (TrimSpace (str p ''template_kind'') = [])
       (validation_failure ''template_kind is not accepted from MCP callers; use type'')) (\<lambda>_.
     and_then (ensure (TrimSpace (str p ''type'') \<noteq> [])
       (validation_failure ''type is required'')) (\<lambda>_.
     and_then (requiredUUIDField ae ''workspace_id'' (str p ''workspace_id'')) (\<lambda>workspaceID.
     and_then (requiredUUIDField ae ''project_id'' (str p ''project_id'')) (\<lambda>projectID.
     and_then (requiredUUIDField ae ''attempt_id'' (str p ''attempt_id'')) (\<lambda>attemptID.
     and_then (optionalUUIDField ae ''source_artifact_id'' (str p ''source_artifact_id''))
       (\<lambda>sourceArtifactID.
     Inr \<lparr>fa_WorkspaceID = workspaceID, fa_ProjectID = projectID, fa_SourceAttemptID = attemptID,
          fa_SourceArtifactID = sourceArtifactID, fa_TemplateKind = str p ''type'',
          fa_Title = str p ''title'', fa_Description = str p ''description'',
          fa_Priority = ptr_int p ''priority'', fa_Tags = str_list p ''tags'',
          fa_AcceptanceCriteria = str_list p ''acceptance_criteria'',
          fa_VerificationCommands = str_list p ''verification_commands'',
          fa_ExpectedArtifacts = str_list p ''expected_artifacts'',
          fa_RelevantPaths = str_list p ''relevant_paths'',
          fa_RequiredTools = str_list p ''required_tools'',
          fa_RequiredPermissions = str_list p ''required_permissions'',
          fa_RequiredCapabilities = str_list p ''required_capabilities'',
          fa_AllowedHarnesses = str_list p ''allowed_harnesses'',
          fa_Environment = obj p ''environment'', fa_Input = obj p ''input'',
          fa_CreatedByID = str p ''created_by_id'',
          fa_CreationReason = str p ''creation_reason'', fa_Enqueue = False,
          fa_CanEnqueue = False\<rparr>))))))"

definition updateTicketPatch :: go_type where
  "updateTicketPatch = GStruct
     [(''title'', GPtr GString), (''description'', GPtr GString),
      (''tags'', GPtr (GSlice GString)), (''acceptance_criteria'', GPtr (GSlice GString)),
      (''verification_commands'', GPtr (GSlice GString)),
      (''relevant_paths'', GPtr (GSlice GString))]"

definition updateTicketInput :: go_type where
  "updateTicketInput = GStruct
     [(''ticket_id'', GString), (''patch'', updateTicketPatch), (''actor_id'', GString)]"

definition updateTicketInput_request ::
  "api_env \<Rightarrow> go_value \<Rightarrow> svc_error + update_ticket_request" where
  "updateTicketInput_request ae p =
     and_then (requiredUUIDField ae ''ticket_id'' (str p ''ticket_id'')) (\<lambda>ticketID.
     let patch = struct p ''patch'' in
     Inr \<lparr>ur_TicketID = ticketID, ur_Title = ptr_str patch ''title'',
          ur_Description = ptr_str patch ''description'', ur_Tags = ptr_strs patch ''tags'',
          ur_AcceptanceCriteria = ptr_strs patch ''acceptance_criteria'',
          ur_VerificationCommands = ptr_strs patch ''verification_commands'',
          ur_RelevantPaths = ptr_strs patch ''relevant_paths'', ur_ActorType = ActorAgent,
          ur_ActorID = str p ''actor_id'', ur_eventData = []\<rparr>)"

definition ticketTransitionInput :: go_type where
  "ticketTransitionInput = GStruct
     [(''ticket_id'', GString), (''actor_id'', GString), (''reason'', GString)]"

definition ticketTransitionInput_request ::
  "api_env \<Rightarrow> go_value \<Rightarrow> svc_error + ticket_transition_request" where
  "ticketTransitionInput_request ae p =
     and_then (requiredUUIDField ae ''ticket_id'' (str p ''ticket_id'')) (\<lambda>ticketID.
     Inr \<lparr>tr_TicketRef = ticketID, tr_ActorType = ActorAgent, tr_ActorID = str p ''actor_id'',
          tr_Reason = str p ''reason''\<rparr>)"

definition reviewTicketInput :: go_type where
  "reviewTicketInput = GStruct
     [(''ticket_id'', GString), (''decision'', GString), (''actor_id'', GString),
      (''reason'', GString)]"

definition reviewTicketInput_request ::
  "api_env \<Rightarrow> go_value \<Rightarrow> svc_error + review_ticket_request" where
  "reviewTicketInput_request ae p =
     and_then (requiredUUIDField ae ''ticket_id'' (str p ''ticket_id'')) (\<lambda>ticketID.
     Inr (review_ticket_request.make ticketID (str p ''decision'') ActorAgent (str p ''actor_id'')
       (str p ''reason'')))"

definition decomposeChildInput :: go_type where
  "decomposeChildInput = GStruct
     [(''key'', GString), (''title'', GString), (''description'', GString), (''type'', GString),
      (''priority'', GPtr (GInt 32)), (''tags'', GSlice GString),
      (''acceptance_criteria'', GSlice GString), (''verification_commands'', GSlice GString),
      (''expected_artifacts'', GSlice GString), (''relevant_paths'', GSlice GString),
      (''required_tools'', GSlice GString), (''required_permissions'', GSlice GString),
      (''required_capabilities'', GSlice GString), (''allowed_harnesses'', GSlice GString),
      (''environment'', GMap), (''input'', GMap), (''depends_on'', GSlice GString)]"

definition decomposeInput :: go_type where
  "decomposeInput = GStruct
     [(''ticket_id'', GString), (''workspace_id'', GString), (''project_id'', GString),
      (''root_id'', GString), (''mode'', GString), (''can_enqueue'', GBool),
      (''created_by_id'', GString), (''creation_reason'', GString),
      (''children'', GSlice decomposeChildInput)]"

definition decompose_child :: "go_value \<Rightarrow> decompose_child_request" where
  "decompose_child child =
     \<lparr>dc_Key = str child ''key'', dc_Title = str child ''title'',
      dc_Description = str child ''description'', dc_Type = str child ''type'',
      dc_Priority = ptr_int child ''priority'', dc_Tags = str_list child ''tags'',
      dc_AcceptanceCriteria = str_list child ''acceptance_criteria'',
      dc_VerificationCommands = str_list child ''verification_commands'',
      dc_ExpectedArtifacts = str_list child ''expected_artifacts'',
      dc_RelevantPaths = str_list child ''relevant_paths'',
      dc_RequiredTools = str_list child ''required_tools'',
      dc_RequiredPermissions = str_list child ''required_permissions'',
      dc_RequiredCapabilities = str_list child ''required_capabilities'',
      dc_AllowedHarnesses = str_list child ''allowed_harnesses'',
      dc_Environment = obj child ''environment'', dc_Input = obj child ''input'',
      dc_DependsOn = str_list child ''depends_on''\<rparr>"

definition decomposeInput_request ::
  "api_env \<Rightarrow> go_value \<Rightarrow> svc_error + decompose_ticket_request" where
  "decomposeInput_request ae p =
     and_then (ensure (\<not> flag p ''can_enqueue'')
       (validation_failure ''can_enqueue is not accepted from MCP callers'')) (\<lambda>_.
     and_then (requiredUUIDField ae ''workspace_id'' (str p ''workspace_id'')) (\<lambda>workspaceID.
     and_then (requiredUUIDField ae ''project_id'' (str p ''project_id'')) (\<lambda>projectID.
     and_then (requiredUUIDField ae ''ticket_id'' (str p ''ticket_id'')) (\<lambda>parentID.
     and_then (optionalUUIDField ae ''root_id'' (str p ''root_id'')) (\<lambda>rootID.
     Inr \<lparr>dt_WorkspaceID = workspaceID, dt_ProjectID = projectID, dt_ParentID = parentID,
          dt_RootID = rootID, dt_Mode = str p ''mode'',
          dt_CanEnqueue = (str p ''mode'' = DecomposeModeCreate), dt_CreatedBy = ActorAgent,
          dt_CreatedByID = str p ''created_by_id'', dt_CreationReason = str p ''creation_reason'',
          dt_Children = map decompose_child (structs p ''children'')\<rparr>)))))"

section \<open>Attempts\<close>

definition claimNextInput :: go_type where
  "claimNextInput = GStruct
     [(''workspace_id'', GString), (''project_id'', GString), (''type'', GString),
      (''tags'', GSlice GString), (''harness'', GString), (''capabilities'', GSlice GString),
      (''agent_id'', GString), (''model'', GString), (''lease_seconds'', GInt 64),
      (''idempotency_key'', GString), (''idempotency_ttl'', GInt 64)]"

definition claimNextInput_request :: "api_env \<Rightarrow> go_value \<Rightarrow> svc_error + claim_next_request" where
  "claimNextInput_request ae p =
     and_then (requiredUUIDField ae ''workspace_id'' (str p ''workspace_id'')) (\<lambda>workspaceID.
     and_then (requiredUUIDField ae ''project_id'' (str p ''project_id'')) (\<lambda>projectID.
     Inr \<lparr>cq_WorkspaceID = workspaceID, cq_ProjectID = projectID, cq_Type = str p ''type'',
          cq_Tags = strs p ''tags'', cq_Harness = str p ''harness'',
          cq_Capabilities = strs p ''capabilities'', cq_AgentID = str p ''agent_id'',
          cq_Model = str p ''model'', cq_Lease = seconds_duration (num p ''lease_seconds''),
          cq_IdempotencyKey = str p ''idempotency_key'',
          cq_IdempotencyTTL = seconds_duration (num p ''idempotency_ttl'')\<rparr>))"

definition attemptLeaseInput :: go_type where
  "attemptLeaseInput = GStruct
     [(''attempt_id'', GString), (''lease_seconds'', GInt 64)]"

definition checkpointInput :: go_type where
  "checkpointInput = GStruct
     [(''attempt_id'', GString), (''summary'', GString), (''progress_percent'', GInt 64),
      (''files_touched'', GSlice GString), (''commands_run'', GSlice GString),
      (''next_step'', GString), (''risk'', GString)]"

definition metricsInput :: go_type where
  "metricsInput = GStruct
     [(''tokens_in'', GInt 64), (''tokens_out'', GInt 64), (''cost_usd'', GFloat),
      (''duration_seconds'', GFloat), (''retry_count'', GInt 32)]"

definition completeInput :: go_type where
  "completeInput = GStruct
     [(''attempt_id'', GString), (''output'', GMap), (''output_schema'', GString),
      (''metrics'', metricsInput)]"

definition failInput :: go_type where
  "failInput = GStruct
     [(''attempt_id'', GString), (''failure_reason'', GString), (''failure_category'', GString),
      (''output'', GMap), (''metrics'', metricsInput)]"

definition blockInput :: go_type where
  "blockInput = GStruct
     [(''attempt_id'', GString), (''blocker_reason'', GString), (''failure_category'', GString),
      (''blocker'', GMap), (''metrics'', metricsInput)]"

text \<open>Metrics that are all zero count as absent.\<close>

definition is_zero_float :: "float64 \<Rightarrow> bool" where
  "is_zero_float x \<longleftrightarrow> (case x of F64 m s \<Rightarrow> m = 0 | _ \<Rightarrow> False)"

definition metricsInput_request :: "go_value \<Rightarrow> attempt_metrics_request option" where
  "metricsInput_request p =
     (if num p ''tokens_in'' = 0 \<and> num p ''tokens_out'' = 0 \<and> is_zero_float (float p ''cost_usd'') \<and>
         is_zero_float (float p ''duration_seconds'') \<and> num p ''retry_count'' = 0
      then None
      else Some \<lparr>mr_TokensIn = num p ''tokens_in'', mr_TokensOut = num p ''tokens_out'',
             mr_CostUSD = float p ''cost_usd'', mr_DurationSeconds = float p ''duration_seconds'',
             mr_RetryCount = num p ''retry_count''\<rparr>)"

section \<open>Reading, artifacts and capabilities\<close>

definition listTicketsInput :: go_type where
  "listTicketsInput = GStruct
     [(''workspace_id'', GString), (''project_id'', GString), (''status'', GString),
      (''type'', GString), (''offset'', GInt 64), (''limit'', GInt 64)]"

definition getTicketInput :: go_type where
  "getTicketInput = GStruct
     [(''ticket_id'', GString)]"

definition analyticsInput :: go_type where
  "analyticsInput = GStruct
     [(''workspace_id'', GString), (''project_id'', GString)]"

definition analyticsInput_filter :: "api_env \<Rightarrow> go_value \<Rightarrow> svc_error + analytics_filter" where
  "analyticsInput_filter ae p =
     and_then (optionalUUIDField ae ''workspace_id'' (str p ''workspace_id'')) (\<lambda>workspaceID.
     and_then (optionalUUIDField ae ''project_id'' (str p ''project_id'')) (\<lambda>projectID.
     Inr \<lparr>af_WorkspaceID = workspaceID, af_ProjectID = projectID\<rparr>))"

definition attachArtifactInput :: go_type where
  "attachArtifactInput = GStruct
     [(''workspace_id'', GString), (''project_id'', GString), (''ticket_id'', GString),
      (''attempt_id'', GString), (''type'', GString), (''role'', GString), (''name'', GString),
      (''url'', GString), (''storage_backend'', GString), (''size_bytes'', GInt 64),
      (''mime_type'', GString), (''metadata'', GMap)]"

definition attachArtifactInput_request ::
  "api_env \<Rightarrow> go_value \<Rightarrow> svc_error + register_artifact_request" where
  "attachArtifactInput_request ae p =
     and_then (requiredUUIDField ae ''workspace_id'' (str p ''workspace_id'')) (\<lambda>workspaceID.
     and_then (requiredUUIDField ae ''project_id'' (str p ''project_id'')) (\<lambda>projectID.
     and_then (requiredUUIDField ae ''ticket_id'' (str p ''ticket_id'')) (\<lambda>ticketID.
     and_then (optionalUUIDField ae ''attempt_id'' (str p ''attempt_id'')) (\<lambda>attemptID.
     Inr \<lparr>ra_WorkspaceID = workspaceID, ra_ProjectID = projectID, ra_TicketID = ticketID,
          ra_AttemptID = attemptID, ra_Type = str p ''type'', ra_Role = str p ''role'',
          ra_Name = str p ''name'', ra_URL = str p ''url'',
          ra_StorageBackend = str p ''storage_backend'', ra_SizeBytes = num p ''size_bytes'',
          ra_MimeType = str p ''mime_type'', ra_Metadata = obj p ''metadata''\<rparr>))))"

definition registerCapabilitiesInput :: go_type where
  "registerCapabilitiesInput = GStruct
     [(''workspace_id'', GString), (''project_id'', GString), (''agent_id'', GString),
      (''harness'', GString), (''model'', GString), (''transports'', GSlice GString),
      (''capabilities'', GSlice GString), (''tool_names'', GSlice GString),
      (''artifact_roles'', GSlice GString), (''preferred_claim'', GMap), (''metadata'', GMap)]"

definition registerCapabilitiesInput_request ::
  "api_env \<Rightarrow> go_value \<Rightarrow> svc_error + register_capabilities_request" where
  "registerCapabilitiesInput_request ae p =
     and_then (requiredUUIDField ae ''workspace_id'' (str p ''workspace_id'')) (\<lambda>workspaceID.
     and_then (requiredUUIDField ae ''project_id'' (str p ''project_id'')) (\<lambda>projectID.
     Inr \<lparr>rc_WorkspaceID = workspaceID, rc_ProjectID = projectID, rc_AgentID = str p ''agent_id'',
          rc_Harness = str p ''harness'', rc_Model = str p ''model'',
          rc_Transports = strs p ''transports'', rc_Capabilities = strs p ''capabilities'',
          rc_ToolNames = strs p ''tool_names'', rc_ArtifactRoles = strs p ''artifact_roles'',
          rc_PreferredClaim = obj p ''preferred_claim'', rc_Metadata = obj p ''metadata''\<rparr>))"

section \<open>Results\<close>

abbreviation json_strings :: "string list \<Rightarrow> json" where
  "json_strings ss \<equiv> JArr (map JStr ss)"

abbreviation json_int :: "int \<Rightarrow> json" where
  "json_int n \<equiv> JNum n 0"

definition uuid_json :: "api_env \<Rightarrow> uuid \<Rightarrow> json" where
  "uuid_json ae u = JStr (uuidText ae (Some u))"

definition ticketPayload :: "api_env \<Rightarrow> ticket \<Rightarrow> json" where
  "ticketPayload ae t =
     JObj [(''id'', uuid_json ae (tk_ID t)), (''title'', JStr (tk_Title t)),
           (''type'', JStr (tk_Type t)), (''status'', JStr (tk_Status t)),
           (''priority'', json_int (tk_Priority t)), (''project_id'', uuid_json ae (tk_ProjectID t)),
           (''workspace_id'', uuid_json ae (tk_WorkspaceID t))]"

definition attemptPayload :: "api_env \<Rightarrow> attempt \<Rightarrow> json" where
  "attemptPayload ae a =
     JObj [(''id'', uuid_json ae (at_ID a)), (''ticket_id'', uuid_json ae (at_TicketID a)),
           (''agent_id'', JStr (at_AgentID a)), (''harness'', JStr (at_Harness a)),
           (''model'', JStr (at_Model a)), (''status'', JStr (at_Status a))]"

definition artifactPayload :: "api_env \<Rightarrow> artifact \<Rightarrow> json" where
  "artifactPayload ae a =
     JObj ([(''id'', uuid_json ae (ar_ID a)), (''ticket_id'', uuid_json ae (ar_TicketID a)),
            (''type'', JStr (ar_Type a)), (''role'', JStr (ar_Role a)), (''name'', JStr (ar_Name a)),
            (''url'', JStr (ar_Url a)), (''storage_backend'', JStr (ar_StorageBackend a)),
            (''size_bytes'', json_int (ar_SizeBytes a)), (''mime_type'', JStr (ar_MimeType a))] @
           (case ar_AttemptID a of None \<Rightarrow> [] | Some i \<Rightarrow> [(''attempt_id'', uuid_json ae i)]))"

definition checkpoint_payload :: "api_env \<Rightarrow> attempt_checkpoint \<Rightarrow> json" where
  "checkpoint_payload ae c =
     JObj [(''id'', uuid_json ae (cp_ID c)), (''summary'', JStr (cp_Summary c)),
           (''next_step'', JStr (textValue (cp_NextStep c))), (''risk'', JStr (textValue (cp_Risk c)))]"

definition stringSliceValue :: "string slice \<Rightarrow> json" where
  "stringSliceValue v = json_strings (slice_list v)"

definition objectValue :: "(string \<times> json) list \<Rightarrow> json" where
  "objectValue kvs = JObj kvs"

definition claimContextPayload :: "api_env \<Rightarrow> claim_context_bundle \<Rightarrow> json" where
  "claimContextPayload ae b =
     JObj [(''ticket'', ticketPayload ae (cb_Ticket b)), (''attempt'', attemptPayload ae (cb_Attempt b)),
           (''acceptance_criteria'', stringSliceValue (Some (cb_AcceptanceCriteria b))),
           (''verification_commands'', stringSliceValue (cb_VerificationCommands b)),
           (''environment'', objectValue (cb_Environment b)), (''input'', objectValue (cb_Input b)),
           (''relevant_paths'', stringSliceValue (Some (cb_RelevantPaths b))),
           (''required_tools'', stringSliceValue (Some (cb_RequiredTools b))),
           (''required_permissions'', stringSliceValue (Some (cb_RequiredPermissions b))),
           (''expected_artifacts'', stringSliceValue (Some (cb_ExpectedArtifacts b))),
           (''prior_attempts'', JArr (map (attemptPayload ae) (cb_PriorAttempts b))),
           (''checkpoints'', JArr (map (checkpoint_payload ae) (cb_Checkpoints b))),
           (''artifacts'', JArr (map (artifactPayload ae) (cb_Artifacts b)))]"

definition transitionPayload :: "api_env \<Rightarrow> attempt_transition_result \<Rightarrow> json" where
  "transitionPayload ae r =
     JObj [(''attempt_id'', uuid_json ae (ax_AttemptID r)), (''ticket_id'', uuid_json ae (ax_TicketID r)),
           (''attempt_status'', JStr (ax_AttemptStatus r)), (''ticket_status'', JStr (ax_TicketStatus r))]"

text \<open>A \<open>float64\<close> is marshalled as the shortest decimal that reads back: for the amounts of the
  summaries, which are below \<open>2 ^ 53\<close>, the one with the fewest digits after the point.\<close>

definition shortest_decimal :: "rat \<Rightarrow> decimal" where
  "shortest_decimal x =
     (case find (\<lambda>s. f64 (of_int (round_even (x * 10 ^ s)) / 10 ^ s) = x) [0..<330] of
        Some s \<Rightarrow> (round_even (x * 10 ^ s), s) | None \<Rightarrow> (0, 0))"

definition json_float :: "rat \<Rightarrow> json" where
  "json_float x = (case shortest_decimal x of (m, s) \<Rightarrow> JNum m s)"

text \<open>The JSON tags of \<open>AnalyticsSummary\<close> and \<open>AnalyticsGroup\<close> in services/analytics.go.\<close>

definition summary_members :: "'a analytics_summary_scheme \<Rightarrow> (string \<times> json) list" where
  "summary_members s =
     [(''attempt_count'', json_int (as_AttemptCount s)),
      (''succeeded_attempts'', json_int (as_SucceededAttempts s)),
      (''failed_attempts'', json_int (as_FailedAttempts s)),
      (''blocked_attempts'', json_int (as_BlockedAttempts s)),
      (''total_tokens_in'', json_int (as_TotalTokensIn s)),
      (''total_tokens_out'', json_int (as_TotalTokensOut s)),
      (''total_tokens'', json_int (as_TotalTokens s)),
      (''total_cost_usd'', json_float (as_TotalCostUSD s)),
      (''total_duration_seconds'', json_float (as_TotalDurationSeconds s)),
      (''total_retries'', json_int (as_TotalRetries s)),
      (''attempts_with_metrics'', json_int (as_AttemptsWithMetrics s)),
      (''success_rate'', json_float (as_SuccessRate s)),
      (''average_cost_usd'', json_float (as_AverageCostUSD s)),
      (''average_duration_seconds'', json_float (as_AverageDurationSeconds s))]"

definition group_json :: "analytics_group \<Rightarrow> json" where
  "group_json g = JObj ((''group'', JStr (ag_Group g)) # summary_members g)"

end
