(* ===== verification/Mcp_Server.thy ===== *)
theory Mcp_Server
  imports Mcp_Payloads
begin

text \<open>
  internal/mcp: the tools that the MCP server offers, their handlers, and the dispatch of a call. A
  handler returns the JSON of its result or an error, together with what the runtime leaves of the
  database. The protocol itself (the SDK's server and its stdio transport) calls \<open>stdio_tool\<close>.
\<close>

section \<open>Handlers\<close>

datatype mcp_error =
    DecodeInput
  | ToolError svc_error
  | ErrUnknownTool string
  | ErrRuntimeRequired

type_synonym tool_run = "db \<Rightarrow> (mcp_error + json) \<times> db"

text \<open>\<open>decodeInput\<close>: an empty input is an empty object.\<close>

definition decodeInput :: "float_parser \<Rightarrow> json_raw \<Rightarrow> go_type \<Rightarrow> go_value option" where
  "decodeInput pf raw ty = unmarshal pf ty (case raw of RawEmpty \<Rightarrow> RawDoc (JObj []) | _ \<Rightarrow> raw)"

definition with_input :: "'k mcp_env \<Rightarrow> go_type \<Rightarrow> json_raw \<Rightarrow> (go_value \<Rightarrow> tool_run) \<Rightarrow> tool_run" where
  "with_input me ty raw f d =
     (case decodeInput (me_float me) raw ty of
        None \<Rightarrow> (Inl DecodeInput, d) | Some p \<Rightarrow> f p d)"

definition with_request :: "svc_error + 'a \<Rightarrow> ('a \<Rightarrow> tool_run) \<Rightarrow> tool_run" where
  "with_request r f d = (case r of Inl e \<Rightarrow> (Inl (ToolError e), d) | Inr a \<Rightarrow> f a d)"

definition tool_result :: "('a \<Rightarrow> json) \<Rightarrow> 'a svc \<Rightarrow> tool_run" where
  "tool_result payload m d =
     (case m d of (Inl e, d') \<Rightarrow> (Inl (ToolError e), d') | (Inr a, d') \<Rightarrow> (Inr (payload a), d'))"

definition ticket_json :: "'k mcp_env \<Rightarrow> ticket \<Rightarrow> json" where
  "ticket_json me t = JObj [(''ticket'', ticketPayload (me_api me) t)]"

definition defaultMCPCreationReason :: string where
  "defaultMCPCreationReason = ''MCP create_ticket request''"

definition defaultListTicketsLimit :: int where
  "defaultListTicketsLimit = 50"

definition callCreateTicket :: "'k mcp_env \<Rightarrow> json_raw \<Rightarrow> tool_run" where
  "callCreateTicket me raw =
     with_input me createTicketInput raw (\<lambda>p.
     with_request (createTicketInput_request (me_api me) p) (\<lambda>r.
     tool_result (ticket_json me) (with_transaction (CreateTicket (me_pg me)
       (r\<lparr>cr_CreatedBy := ActorAgent,
          cr_CreationReason := (if TrimSpace (cr_CreationReason r) = [] then defaultMCPCreationReason
            else cr_CreationReason r)\<rparr>)))))"

definition callProposeTicket :: "'k mcp_env \<Rightarrow> json_raw \<Rightarrow> tool_run" where
  "callProposeTicket me raw =
     with_input me createTicketInput raw (\<lambda>p.
     with_request (createTicketInput_request (me_api me) p) (\<lambda>r.
     tool_result (ticket_json me)
       (with_transaction (ProposeTicket (me_pg me) (r\<lparr>cr_CreatedBy := ActorAgent\<rparr>)))))"

definition callCreateTicketFromAttempt :: "'k mcp_env \<Rightarrow> json_raw \<Rightarrow> tool_run" where
  "callCreateTicketFromAttempt me raw =
     with_input me createFromAttemptInput raw (\<lambda>p.
     with_request (createFromAttemptInput_request (me_api me) p) (\<lambda>r.
     tool_result (ticket_json me) (CreateTicketFromAttempt (me_pg me) r)))"

definition claim_json :: "'k mcp_env \<Rightarrow> claim_next_result \<Rightarrow> json" where
  "claim_json me res =
     JObj [(''ticket'', ticketPayload (me_api me) (cx_Ticket res)),
           (''attempt'', attemptPayload (me_api me) (cx_Attempt res)),
           (''context'', claimContextPayload (me_api me) (cx_Context res))]"

definition callClaimNextTicket :: "'k mcp_env \<Rightarrow> json_raw \<Rightarrow> tool_run" where
  "callClaimNextTicket me raw =
     with_input me claimNextInput raw (\<lambda>p.
     with_request (claimNextInput_request (me_api me) p) (\<lambda>r.
     tool_result (claim_json me)
       (ClaimNext (ap_claim (me_api me)) (Some runtime_policy) (ap_now (me_api me))
         (ap_locked (me_api me)) (me_pg me) r)))"

definition callHeartbeatAttempt :: "'k mcp_env \<Rightarrow> json_raw \<Rightarrow> tool_run" where
  "callHeartbeatAttempt me raw =
     with_input me attemptLeaseInput raw (\<lambda>p.
     with_request (requiredUUIDField (me_api me) ''attempt_id'' (str p ''attempt_id'')) (\<lambda>i.
     tool_result (\<lambda>a. JObj [(''attempt'', attemptPayload (me_api me) a)])
       (Heartbeat (ap_now (me_api me)) (me_pg me)
         \<lparr>hr_AttemptID = i, hr_Lease = seconds_duration (num p ''lease_seconds'')\<rparr>)))"

definition checkpoint_json :: "'k mcp_env \<Rightarrow> checkpoint_result \<Rightarrow> json" where
  "checkpoint_json me res =
     JObj [(''checkpoint_id'', uuid_json (me_api me) (cp_ID (ck_Checkpoint res))),
           (''attempt_id'', uuid_json (me_api me) (cp_AttemptID (ck_Checkpoint res))),
           (''summary'', JStr (cp_Summary (ck_Checkpoint res))),
           (''progress_percent'', json_int (ck_ProgressPercent res))]"

definition callCheckpointAttempt :: "'k mcp_env \<Rightarrow> json_raw \<Rightarrow> tool_run" where
  "callCheckpointAttempt me raw =
     with_input me checkpointInput raw (\<lambda>p.
     with_request (requiredUUIDField (me_api me) ''attempt_id'' (str p ''attempt_id'')) (\<lambda>i.
     tool_result (checkpoint_json me) (Checkpoint (me_pg me)
       \<lparr>kr_AttemptID = i, kr_Summary = str p ''summary'',
        kr_ProgressPercent = int32 (num p ''progress_percent''),
        kr_FilesTouched = str_list p ''files_touched'', kr_CommandsRun = str_list p ''commands_run'',
        kr_NextStep = str p ''next_step'', kr_Risk = str p ''risk''\<rparr>)))"

definition callUpdateTicket :: "'k mcp_env \<Rightarrow> json_raw \<Rightarrow> tool_run" where
  "callUpdateTicket me raw =
     with_input me updateTicketInput raw (\<lambda>p.
     with_request (updateTicketInput_request (me_api me) p) (\<lambda>r.
     tool_result (ticket_json me) (with_transaction (UpdateTicket (me_pg me) r))))"

definition callTicketTransition ::
  "'k mcp_env \<Rightarrow> (ticket_transition_request \<Rightarrow> ticket svc) \<Rightarrow> json_raw \<Rightarrow> tool_run" where
  "callTicketTransition me transition raw =
     with_input me ticketTransitionInput raw (\<lambda>p.
     with_request (ticketTransitionInput_request (me_api me) p) (\<lambda>r.
     tool_result (ticket_json me) (transition r)))"

definition callMarkTicketReady :: "'k mcp_env \<Rightarrow> json_raw \<Rightarrow> tool_run" where
  "callMarkTicketReady me = callTicketTransition me (MarkReady (me_pg me))"

definition callReopenTicket :: "'k mcp_env \<Rightarrow> json_raw \<Rightarrow> tool_run" where
  "callReopenTicket me = callTicketTransition me (Reopen (me_pg me))"

definition callUnblockTicket :: "'k mcp_env \<Rightarrow> json_raw \<Rightarrow> tool_run" where
  "callUnblockTicket me = callTicketTransition me (Unblock (me_pg me))"

definition callRequestTicketReview :: "'k mcp_env \<Rightarrow> json_raw \<Rightarrow> tool_run" where
  "callRequestTicketReview me = callTicketTransition me (RequestReview (me_pg me))"

definition callArchiveTicket :: "'k mcp_env \<Rightarrow> json_raw \<Rightarrow> tool_run" where
  "callArchiveTicket me = callTicketTransition me (Archive (me_pg me))"

definition callReviewTicket :: "'k mcp_env \<Rightarrow> json_raw \<Rightarrow> tool_run" where
  "callReviewTicket me raw =
     with_input me reviewTicketInput raw (\<lambda>p.
     with_request (reviewTicketInput_request (me_api me) p) (\<lambda>r.
     tool_result (ticket_json me) (Review (me_pg me) r)))"

definition callCompleteAttempt :: "'k mcp_env \<Rightarrow> json_raw \<Rightarrow> tool_run" where
  "callCompleteAttempt me raw =
     with_input me completeInput raw (\<lambda>p.
     with_request (requiredUUIDField (me_api me) ''attempt_id'' (str p ''attempt_id'')) (\<lambda>i.
     tool_result (transitionPayload (me_api me))
       (with_transaction (Complete (ap_now (me_api me)) (me_pg me)
         \<lparr>or_AttemptID = i, or_Output = obj p ''output'', or_OutputSchema = str p ''output_schema'',
          or_Metrics = metricsInput_request (struct p ''metrics'')\<rparr>))))"

definition callFailAttempt :: "'k mcp_env \<Rightarrow> json_raw \<Rightarrow> tool_run" where
  "callFailAttempt me raw =
     with_input me failInput raw (\<lambda>p.
     with_request (requiredUUIDField (me_api me) ''attempt_id'' (str p ''attempt_id'')) (\<lambda>i.
     tool_result (transitionPayload (me_api me))
       (with_transaction (Fail (ap_now (me_api me)) (me_pg me)
         \<lparr>fr_AttemptID = i, fr_FailureReason = str p ''failure_reason'',
          fr_FailureCategory = str p ''failure_category'', fr_Output = obj p ''output'',
          fr_Metrics = metricsInput_request (struct p ''metrics'')\<rparr>))))"

definition callBlockAttempt :: "'k mcp_env \<Rightarrow> json_raw \<Rightarrow> tool_run" where
  "callBlockAttempt me raw =
     with_input me blockInput raw (\<lambda>p.
     with_request (requiredUUIDField (me_api me) ''attempt_id'' (str p ''attempt_id'')) (\<lambda>i.
     tool_result (transitionPayload (me_api me))
       (with_transaction (Block (ap_now (me_api me)) (me_pg me)
         \<lparr>br_AttemptID = i, br_BlockerReason = str p ''blocker_reason'',
          br_FailureCategory = str p ''failure_category'', br_Blocker = obj p ''blocker'',
          br_Metrics = metricsInput_request (struct p ''metrics'')\<rparr>))))"

definition callListTickets :: "'k mcp_env \<Rightarrow> json_raw \<Rightarrow> tool_run" where
  "callListTickets me raw =
     with_input me listTicketsInput raw (\<lambda>p.
     with_request (requiredUUIDField (me_api me) ''workspace_id'' (str p ''workspace_id'')) (\<lambda>w.
     with_request (requiredUUIDField (me_api me) ''project_id'' (str p ''project_id'')) (\<lambda>k.
     let limit = (if num p ''limit'' = 0 then defaultListTicketsLimit else num p ''limit'') in
     tool_result (\<lambda>ts. JObj [(''tickets'', JArr (map (ticketPayload (me_api me)) ts))])
       (ListTickets \<lparr>lr_WorkspaceID = w, lr_ProjectID = k, lr_Status = str p ''status'',
          lr_Type = str p ''type'', lr_Offset = int32 (num p ''offset''), lr_Limit = int32 limit\<rparr>))))"

definition callGetTicket :: "'k mcp_env \<Rightarrow> json_raw \<Rightarrow> tool_run" where
  "callGetTicket me raw =
     with_input me getTicketInput raw (\<lambda>p.
     with_request (requiredUUIDField (me_api me) ''ticket_id'' (str p ''ticket_id'')) (\<lambda>i.
     tool_result (ticket_json me) (rt_query (GetTicket_stmt i))))"

definition callAttachArtifact :: "'k mcp_env \<Rightarrow> json_raw \<Rightarrow> tool_run" where
  "callAttachArtifact me raw =
     with_input me attachArtifactInput raw (\<lambda>p.
     with_request (attachArtifactInput_request (me_api me) p) (\<lambda>r.
     tool_result (\<lambda>a. JObj [(''artifact'', artifactPayload (me_api me) a)])
       (RegisterArtifact (me_pg me) r)))"

definition callDecomposeTicket :: "'k mcp_env \<Rightarrow> json_raw \<Rightarrow> tool_run" where
  "callDecomposeTicket me raw =
     with_input me decomposeInput raw (\<lambda>p.
     with_request (decomposeInput_request (me_api me) p) (\<lambda>r.
     tool_result (\<lambda>ts. JObj [(''children'', JArr (map (ticketPayload (me_api me)) ts))])
       (with_transaction (DecomposeTicket (ap_quote (me_api me)) (me_pg me) r))))"

definition capability_json :: "agent_capability \<Rightarrow> json" where
  "capability_json c =
     JObj [(''agent_id'', JStr (ac_AgentID c)), (''harness'', JStr (ac_Harness c)),
           (''capabilities'', json_strings (ac_Capabilities c))]"

definition callRegisterCapabilities :: "'k mcp_env \<Rightarrow> json_raw \<Rightarrow> tool_run" where
  "callRegisterCapabilities me raw =
     with_input me registerCapabilitiesInput raw (\<lambda>p.
     with_request (registerCapabilitiesInput_request (me_api me) p) (\<lambda>r.
     tool_result capability_json (RegisterCapabilities (ap_now (me_api me)) (me_pg me) r)))"

definition callAnalyticsSummary :: "'k mcp_env \<Rightarrow> json_raw \<Rightarrow> tool_run" where
  "callAnalyticsSummary me raw =
     with_input me analyticsInput raw (\<lambda>p.
     with_request (analyticsInput_filter (me_api me) p) (\<lambda>f.
     tool_result (\<lambda>s. JObj [(''summary'', JObj (summary_members s))]) (Summary f)))"

definition call_analytics_groups ::
  "'k mcp_env \<Rightarrow> (analytics_filter \<Rightarrow> analytics_group list svc) \<Rightarrow> json_raw \<Rightarrow> tool_run" where
  "call_analytics_groups me groups raw =
     with_input me analyticsInput raw (\<lambda>p.
     with_request (analyticsInput_filter (me_api me) p) (\<lambda>f.
     tool_result (\<lambda>gs. JObj [(''groups'', JArr (map group_json gs))]) (groups f)))"

definition callAnalyticsByModel :: "('k :: linorder) mcp_env \<Rightarrow> json_raw \<Rightarrow> tool_run" where
  "callAnalyticsByModel me = call_analytics_groups me (ByModel (me_collate me))"

definition callAnalyticsByHarness :: "('k :: linorder) mcp_env \<Rightarrow> json_raw \<Rightarrow> tool_run" where
  "callAnalyticsByHarness me = call_analytics_groups me (ByHarness (me_collate me))"

definition callAnalyticsByStatus :: "('k :: linorder) mcp_env \<Rightarrow> json_raw \<Rightarrow> tool_run" where
  "callAnalyticsByStatus me = call_analytics_groups me (ByStatus (me_collate me))"

definition callAnalyticsByAgent :: "('k :: linorder) mcp_env \<Rightarrow> json_raw \<Rightarrow> tool_run" where
  "callAnalyticsByAgent me = call_analytics_groups me (ByAgent (me_collate me))"

section \<open>The server\<close>

record tool =
  tool_Name :: string
  tool_Summary :: string
  tool_Description :: string
  tool_InputSchema :: json
  tool_OutputSchema :: json

record mcp_server =
  ms_runtime :: bool
  ms_tools :: "(string \<times> tool) list"
  ms_order :: "string list"

text \<open>\<open>registerHandlers\<close>: the handlers by the names of their tools.\<close>

definition handlers ::
  "('k :: linorder) mcp_env \<Rightarrow> (string \<times> (json_raw \<Rightarrow> tool_run)) list" where
  "handlers me =
     [(OperationCreateTicket, callCreateTicket me),
      (OperationProposeTicket, callProposeTicket me),
      (OperationCreateTicketFromAttempt, callCreateTicketFromAttempt me),
      (OperationClaimNextTicket, callClaimNextTicket me),
      (OperationHeartbeatAttempt, callHeartbeatAttempt me),
      (OperationCheckpointAttempt, callCheckpointAttempt me),
      (OperationUpdateTicket, callUpdateTicket me),
      (OperationMarkTicketReady, callMarkTicketReady me),
      (OperationReopenTicket, callReopenTicket me),
      (OperationUnblockTicket, callUnblockTicket me),
      (OperationRequestTicketReview, callRequestTicketReview me),
      (OperationReviewTicket, callReviewTicket me),
      (OperationArchiveTicket, callArchiveTicket me),
      (OperationCompleteAttempt, callCompleteAttempt me),
      (OperationFailAttempt, callFailAttempt me),
      (OperationBlockAttempt, callBlockAttempt me),
      (OperationListTickets, callListTickets me),
      (OperationGetTicket, callGetTicket me),
      (OperationAttachArtifact, callAttachArtifact me),
      (OperationDecomposeTicket, callDecomposeTicket me),
      (OperationRegisterAgentCapabilities, callRegisterCapabilities me),
      (OperationAnalyticsSummary, callAnalyticsSummary me),
      (OperationAnalyticsByModel, callAnalyticsByModel me),
      (OperationAnalyticsByHarness, callAnalyticsByHarness me),
      (OperationAnalyticsByStatus, callAnalyticsByStatus me),
      (OperationAnalyticsByAgent, callAnalyticsByAgent me)]"

definition tool_name :: "operation \<Rightarrow> string" where
  "tool_name op = (if sb_MCP (op_Bindings op) = [] then op_Name op else sb_MCP (op_Bindings op))"

definition operation_tool :: "operation \<Rightarrow> tool" where
  "operation_tool op =
     \<lparr>tool_Name = tool_name op, tool_Summary = op_Summary op,
      tool_Description = op_Description op, tool_InputSchema = op_InputSchema op,
      tool_OutputSchema = op_OutputSchema op\<rparr>"

text \<open>\<open>NewServer\<close>: \<open>Inl\<close> names the duplicate tool. Marshalling a schema does not fail.\<close>

fun add_tools :: "operation list \<Rightarrow> mcp_server \<Rightarrow> string + mcp_server" where
  "add_tools [] s = Inr s"
| "add_tools (op # ops) s =
     (let name = tool_name op in
      if map_of (ms_tools s) name \<noteq> None then Inl name
      else add_tools ops (s\<lparr>ms_tools := ms_tools s @ [(name, operation_tool op)],
             ms_order := ms_order s @ [name]\<rparr>))"

definition NewServer :: "bool \<Rightarrow> operation list \<Rightarrow> string + mcp_server" where
  "NewServer rt ops = add_tools ops \<lparr>ms_runtime = rt, ms_tools = [], ms_order = []\<rparr>"

text \<open>A server pointer may be nil.\<close>

definition Tools :: "mcp_server option \<Rightarrow> tool list" where
  "Tools srv = (case srv of None \<Rightarrow> [] | Some s \<Rightarrow> List.map_filter (map_of (ms_tools s)) (ms_order s))"

definition server_tool :: "mcp_server option \<Rightarrow> string \<Rightarrow> tool option" where
  "server_tool srv name = (case srv of None \<Rightarrow> None | Some s \<Rightarrow> map_of (ms_tools s) name)"

definition CanCall :: "('k :: linorder) mcp_env \<Rightarrow> mcp_server option \<Rightarrow> string \<Rightarrow> bool" where
  "CanCall me srv name \<longleftrightarrow>
     (case srv of None \<Rightarrow> False
      | Some s \<Rightarrow> map_of (ms_tools s) name \<noteq> None \<and> map_of (handlers me) name \<noteq> None)"

definition mcp_call ::
  "('k :: linorder) mcp_env \<Rightarrow> mcp_server option \<Rightarrow> string \<Rightarrow> json_raw \<Rightarrow> tool_run" where
  "mcp_call me srv name raw d =
     (case srv of
        None \<Rightarrow> (Inl (ErrUnknownTool []), d)
      | Some s \<Rightarrow>
          (case map_of (handlers me) name of
             None \<Rightarrow> (Inl (ErrUnknownTool name), d)
           | Some handler \<Rightarrow>
               if map_of (ms_tools s) name = None then (Inl (ErrUnknownTool name), d)
               else if \<not> ms_runtime s then (Inl ErrRuntimeRequired, d)
               else handler raw d))"

text \<open>\<open>ServeStdio\<close>: how the SDK's handler for a tool answers; an error says nothing of its cause.\<close>

datatype call_tool_result = ToolFailed string | ToolAnswer json

definition stdio_tool ::
  "('k :: linorder) mcp_env \<Rightarrow> mcp_server \<Rightarrow> string \<Rightarrow> json_raw \<Rightarrow> db \<Rightarrow> call_tool_result \<times> db" where
  "stdio_tool me s name arguments d =
     (case mcp_call me (Some s) name
         (case arguments of RawEmpty \<Rightarrow> RawDoc (JObj []) | _ \<Rightarrow> arguments) d of
        (Inl e, d') \<Rightarrow> (ToolFailed ''tool request failed'', d')
      | (Inr output, d') \<Rightarrow> (ToolAnswer output, d'))"

end
