(* ===== verification/Rest_Handlers.thy ===== *)
theory Rest_Handlers
  imports Rest_Api
begin

text \<open>
  The routes of internal/api: \<open>resources.go\<close>, \<open>lifecycle.go\<close> and \<open>router.go\<close>. \<open>api_request\<close> has one
  constructor for each operation, with its path parameter, query and body as the framework decodes
  them; \<open>api_reply\<close> is the handler that is registered for it. A handler that runs an operation of the
  runtime returns what the operation leaves of the database, also when it fails.
\<close>

section \<open>Payloads and handlers\<close>

datatype (plugins only: code) api_payload =
    TicketReply ticket_response
  | TicketsReply "ticket_response list"
  | ArtifactReply artifact_response
  | AttemptReply attempt_response
  | ClaimReply ticket_response attempt_response
  | CheckpointReply string int
  | TransitionReply string string string string
  | EventsReply list_events_result
  | SummaryReply analytics_summary
  | GroupsReply "analytics_group list"
  | SubscriptionReply subscription_payload
  | SubscriptionsReply "subscription_payload list"

type_synonym api = "db \<Rightarrow> (api_error + api_payload) \<times> db"

definition api_refuse :: "nat \<Rightarrow> string \<Rightarrow> api" where
  "api_refuse code message d = (Inl (ApiError code message None), d)"

definition api_parsed :: "string + 'a \<Rightarrow> ('a \<Rightarrow> api) \<Rightarrow> api" where
  "api_parsed parsed f = (case parsed of Inl msg \<Rightarrow> api_refuse 400 msg | Inr a \<Rightarrow> f a)"

definition api_run :: "(svc_error \<Rightarrow> string \<Rightarrow> api_error) \<Rightarrow> string \<Rightarrow> ('a \<Rightarrow> api_payload) \<Rightarrow> 'a svc \<Rightarrow> api" where
  "api_run failure message payload m d =
     (case m d of (Inl e, d') \<Rightarrow> (Inl (failure e message), d') | (Inr a, d') \<Rightarrow> (Inr (payload a), d'))"

abbreviation resource_run :: "string \<Rightarrow> ('a \<Rightarrow> api_payload) \<Rightarrow> 'a svc \<Rightarrow> api" where
  "resource_run \<equiv> api_run resourceError"

section \<open>Tickets\<close>

definition api_createTicket :: "api_env \<Rightarrow> pg_env \<Rightarrow> ticket_create_body \<Rightarrow> api" where
  "api_createTicket ae env b =
     api_parsed (mapTicketCreate ae b) (\<lambda>req.
       resource_run ''create ticket failed'' (TicketReply \<circ> makeTicketResponse ae)
         (with_transaction (CreateTicket env req)))"

definition api_proposeTicket :: "api_env \<Rightarrow> pg_env \<Rightarrow> ticket_create_body \<Rightarrow> api" where
  "api_proposeTicket ae env b =
     api_parsed (mapTicketCreate ae b) (\<lambda>req.
       resource_run ''propose ticket failed'' (TicketReply \<circ> makeTicketResponse ae)
         (with_transaction (ProposeTicket env req)))"

definition api_listTickets :: "api_env \<Rightarrow> list_tickets_input \<Rightarrow> api" where
  "api_listTickets ae i =
     api_parsed (mapListTickets ae i) (\<lambda>req.
       resource_run ''list tickets failed'' (TicketsReply \<circ> makeTicketResponses ae) (ListTickets req))"

definition api_getTicket :: "api_env \<Rightarrow> string \<Rightarrow> api" where
  "api_getTicket ae i =
     api_parsed (parseRequiredUUID ae ''id'' i) (\<lambda>k.
       resource_run ''get ticket failed'' (TicketReply \<circ> makeTicketResponse ae)
         (rt_query (GetTicket_stmt k)))"

definition api_updateTicket :: "api_env \<Rightarrow> pg_env \<Rightarrow> string \<Rightarrow> ticket_update_body \<Rightarrow> api" where
  "api_updateTicket ae env i b =
     api_parsed (parseRequiredUUID ae ''id'' i) (\<lambda>k.
       resource_run ''update ticket failed'' (TicketReply \<circ> makeTicketResponse ae)
         (with_transaction (UpdateTicket env (mapUpdate k b))))"

definition api_decomposeTicket :: "api_env \<Rightarrow> pg_env \<Rightarrow> string \<Rightarrow> decompose_body \<Rightarrow> api" where
  "api_decomposeTicket ae env i b =
     api_parsed (mapDecompose ae i b) (\<lambda>req.
       resource_run ''decompose ticket failed'' (TicketsReply \<circ> makeTicketResponses ae)
         (with_transaction (DecomposeTicket (ap_quote ae) env req)))"

section \<open>Artifacts\<close>

definition api_registerArtifact :: "api_env \<Rightarrow> pg_env \<Rightarrow> artifact_create_body \<Rightarrow> api" where
  "api_registerArtifact ae env b =
     api_parsed (mapArtifactCreate ae b) (\<lambda>req.
       resource_run ''register artifact failed'' (ArtifactReply \<circ> makeArtifactResponse ae)
         (RegisterArtifact env req))"

definition api_getArtifact :: "api_env \<Rightarrow> string \<Rightarrow> api" where
  "api_getArtifact ae i =
     api_parsed (parseRequiredUUID ae ''id'' i) (\<lambda>k.
       resource_run ''get artifact failed'' (ArtifactReply \<circ> makeArtifactResponse ae) (GetArtifact k))"

definition api_deleteArtifact :: "api_env \<Rightarrow> (string \<Rightarrow> string option) \<Rightarrow> string \<Rightarrow> api" where
  "api_deleteArtifact ae remove i =
     api_parsed (parseRequiredUUID ae ''id'' i) (\<lambda>k.
       resource_run ''delete artifact failed'' (ArtifactReply \<circ> makeArtifactResponse ae)
         (delete_local_artifact remove k))"

section \<open>Execution\<close>

definition api_claimNext :: "api_env \<Rightarrow> pg_env \<Rightarrow> string \<Rightarrow> claim_body \<Rightarrow> api" where
  "api_claimNext ae env key b =
     api_parsed (mapClaim ae key b) (\<lambda>req.
       resource_run ''claim next ticket failed''
         (\<lambda>res. ClaimReply (makeTicketResponse ae (cx_Ticket res)) (makeAttemptResponse ae (cx_Attempt res)))
         (ClaimNext (ap_claim ae) (Some runtime_policy) (ap_now ae) (ap_locked ae) env req))"

definition api_getAttempt :: "api_env \<Rightarrow> string \<Rightarrow> api" where
  "api_getAttempt ae i =
     api_parsed (parseRequiredUUID ae ''id'' i) (\<lambda>k.
       resource_run ''get attempt failed'' (AttemptReply \<circ> makeAttemptResponse ae)
         (rt_query (GetAttempt_stmt k)))"

definition api_heartbeat :: "api_env \<Rightarrow> pg_env \<Rightarrow> string \<Rightarrow> int \<Rightarrow> api" where
  "api_heartbeat ae env i leaseSeconds =
     api_parsed (parseRequiredUUID ae ''id'' i) (\<lambda>k.
       resource_run ''heartbeat failed'' (AttemptReply \<circ> makeAttemptResponse ae)
         (Heartbeat (ap_now ae) env \<lparr>hr_AttemptID = k, hr_Lease = seconds_duration leaseSeconds\<rparr>))"

definition api_checkpoint :: "api_env \<Rightarrow> pg_env \<Rightarrow> string \<Rightarrow> checkpoint_body \<Rightarrow> api" where
  "api_checkpoint ae env i b =
     api_parsed (parseRequiredUUID ae ''id'' i) (\<lambda>k.
       resource_run ''checkpoint failed''
         (\<lambda>res. CheckpointReply (uuidText ae (Some (cp_ID (ck_Checkpoint res)))) (ck_ProgressPercent res))
         (Checkpoint env (mapCheckpoint k b)))"

definition transition_payload :: "api_env \<Rightarrow> attempt_transition_result \<Rightarrow> api_payload" where
  "transition_payload ae r =
     TransitionReply (uuidText ae (Some (ax_AttemptID r))) (uuidText ae (Some (ax_TicketID r)))
       (ax_AttemptStatus r) (ax_TicketStatus r)"

definition api_complete :: "api_env \<Rightarrow> pg_env \<Rightarrow> string \<Rightarrow> complete_body \<Rightarrow> api" where
  "api_complete ae env i b =
     api_parsed (parseRequiredUUID ae ''id'' i) (\<lambda>k.
       resource_run ''complete attempt failed'' (transition_payload ae)
         (with_transaction (Complete (ap_now ae) env (mapComplete k b))))"

definition api_fail :: "api_env \<Rightarrow> pg_env \<Rightarrow> string \<Rightarrow> fail_body \<Rightarrow> api" where
  "api_fail ae env i b =
     api_parsed (parseRequiredUUID ae ''id'' i) (\<lambda>k.
       resource_run ''fail attempt failed'' (transition_payload ae)
         (with_transaction (Fail (ap_now ae) env (mapFail k b))))"

definition api_block :: "api_env \<Rightarrow> pg_env \<Rightarrow> string \<Rightarrow> block_body \<Rightarrow> api" where
  "api_block ae env i b =
     api_parsed (parseRequiredUUID ae ''id'' i) (\<lambda>k.
       resource_run ''block attempt failed'' (transition_payload ae)
         (with_transaction (Block (ap_now ae) env (mapBlock k b))))"

definition api_cancel :: "api_env \<Rightarrow> pg_env \<Rightarrow> string \<Rightarrow> string \<Rightarrow> api" where
  "api_cancel ae env i why =
     api_parsed (parseRequiredUUID ae ''id'' i) (\<lambda>k.
       resource_run ''cancel attempt failed'' (transition_payload ae)
         (Cancel (ap_now ae) env \<lparr>xr_AttemptID = k, xr_Reason = why\<rparr>))"

section \<open>Events\<close>

text \<open>The events of one attempt or one ticket, and the feed.\<close>

definition api_resourceEvents :: "api_env \<Rightarrow> event_env \<Rightarrow> bool \<Rightarrow> string \<Rightarrow> string \<Rightarrow> int \<Rightarrow> api" where
  "api_resourceEvents ae ee attempt i cursor limit =
     api_parsed (parseRequiredUUID ae ''id'' i) (\<lambda>k.
       resource_run ''list events failed'' EventsReply
         (ListEvents ee \<lparr>le_WorkspaceID = None, le_ProjectID = None,
            le_TicketID = (if attempt then None else k), le_AttemptID = (if attempt then k else None),
            le_Cursor = cursor, le_Limit = limit\<rparr>))"

definition api_listEvents :: "api_env \<Rightarrow> event_env \<Rightarrow> events_input \<Rightarrow> api" where
  "api_listEvents ae ee i =
     api_parsed (listEventsRequest ae i) (\<lambda>req.
       api_run eventFeedError ''event feed failed'' EventsReply (ListEvents ee req))"

section \<open>Analytics\<close>

definition api_analyticsSummary :: "api_env \<Rightarrow> string \<Rightarrow> string \<Rightarrow> api" where
  "api_analyticsSummary ae w p =
     api_parsed (analyticsFilter ae w p) (\<lambda>f.
       api_run serverError ''analytics summary failed'' SummaryReply (Summary f))"

definition api_analyticsGroups ::
  "api_env \<Rightarrow> string \<Rightarrow> (analytics_filter \<Rightarrow> analytics_group list svc) \<Rightarrow> string \<Rightarrow> string \<Rightarrow> api" where
  "api_analyticsGroups ae message groups w p =
     api_parsed (analyticsFilter ae w p) (\<lambda>f. api_run serverError message GroupsReply (groups f))"

section \<open>Webhook subscriptions\<close>

definition observabilitySubscriptionPayloads where
  "observabilitySubscriptionPayloads ae ss = map (makeObservabilitySubscriptionPayload ae) ss"

definition api_listSubscriptions :: "api_env \<Rightarrow> string \<Rightarrow> string \<Rightarrow> bool \<Rightarrow> api" where
  "api_listSubscriptions ae w p everything =
     api_parsed (observabilityScope ae w p) (\<lambda>(wid, pid).
       api_run serverError ''observability subscription list failed''
         (SubscriptionsReply \<circ> observabilitySubscriptionPayloads ae)
         (svc_read (ListWebhookSubscriptions_stmt wid pid (\<not> everything))))"

definition api_createSubscription :: "api_env \<Rightarrow> pg_env \<Rightarrow> subscription_body \<Rightarrow> api" where
  "api_createSubscription ae env b =
     api_parsed (createObservabilitySubscriptionParams ae b) (\<lambda>req.
       api_run observabilitySubscriptionCreateError ''observability subscription create failed''
         (SubscriptionReply \<circ> makeObservabilitySubscriptionPayload ae)
         (svc_stmt (StoreError []) (CreateWebhookSubscription_stmt env req)))"

section \<open>Dispatch\<close>

datatype (plugins only: code) api_request =
    ApiCreateTicket ticket_create_body
  | ApiProposeTicket ticket_create_body
  | ApiListTickets list_tickets_input
  | ApiGetTicket string
  | ApiUpdateTicket string ticket_update_body
  | ApiDecomposeTicket string decompose_body
  | ApiAttachArtifact artifact_create_body
  | ApiGetArtifact string
  | ApiDeleteArtifact string
  | ApiClaimNext string claim_body
  | ApiGetAttempt string
  | ApiHeartbeat string int
  | ApiCheckpoint string checkpoint_body
  | ApiComplete string complete_body
  | ApiFail string fail_body
  | ApiBlock string block_body
  | ApiCancel string string
  | ApiTicketEvents string string int
  | ApiAttemptEvents string string int
  | ApiListEvents events_input
  | ApiAnalyticsSummary string string
  | ApiAnalyticsByModel string string
  | ApiAnalyticsByHarness string string
  | ApiAnalyticsByStatus string string
  | ApiAnalyticsByAgent string string
  | ApiListSubscriptions string string bool
  | ApiCreateSubscription subscription_body
  | ApiPlaceholder

definition notImplemented :: string where
  "notImplemented = ''route is registered; handler wiring is not implemented yet''"

fun api_handle :: "api_env \<Rightarrow> ('sr, 'k :: linorder) runtime_env \<Rightarrow> api_request \<Rightarrow> api" where
  "api_handle ae re (ApiCreateTicket b) = api_createTicket ae (re_pg re) b"
| "api_handle ae re (ApiProposeTicket b) = api_proposeTicket ae (re_pg re) b"
| "api_handle ae re (ApiListTickets i) = api_listTickets ae i"
| "api_handle ae re (ApiGetTicket i) = api_getTicket ae i"
| "api_handle ae re (ApiUpdateTicket i b) = api_updateTicket ae (re_pg re) i b"
| "api_handle ae re (ApiDecomposeTicket i b) = api_decomposeTicket ae (re_pg re) i b"
| "api_handle ae re (ApiAttachArtifact b) = api_registerArtifact ae (re_pg re) b"
| "api_handle ae re (ApiGetArtifact i) = api_getArtifact ae i"
| "api_handle ae re (ApiDeleteArtifact i) = api_deleteArtifact ae (re_remove re) i"
| "api_handle ae re (ApiClaimNext key b) = api_claimNext ae (re_pg re) key b"
| "api_handle ae re (ApiGetAttempt i) = api_getAttempt ae i"
| "api_handle ae re (ApiHeartbeat i n) = api_heartbeat ae (re_pg re) i n"
| "api_handle ae re (ApiCheckpoint i b) = api_checkpoint ae (re_pg re) i b"
| "api_handle ae re (ApiComplete i b) = api_complete ae (re_pg re) i b"
| "api_handle ae re (ApiFail i b) = api_fail ae (re_pg re) i b"
| "api_handle ae re (ApiBlock i b) = api_block ae (re_pg re) i b"
| "api_handle ae re (ApiCancel i why) = api_cancel ae (re_pg re) i why"
| "api_handle ae re (ApiTicketEvents i c n) = api_resourceEvents ae (re_events re) False i c n"
| "api_handle ae re (ApiAttemptEvents i c n) = api_resourceEvents ae (re_events re) True i c n"
| "api_handle ae re (ApiListEvents i) = api_listEvents ae (re_events re) i"
| "api_handle ae re (ApiAnalyticsSummary w p) = api_analyticsSummary ae w p"
| "api_handle ae re (ApiAnalyticsByModel w p) =
     api_analyticsGroups ae ''analytics by model failed'' (ByModel (re_collate re)) w p"
| "api_handle ae re (ApiAnalyticsByHarness w p) =
     api_analyticsGroups ae ''analytics by harness failed'' (ByHarness (re_collate re)) w p"
| "api_handle ae re (ApiAnalyticsByStatus w p) =
     api_analyticsGroups ae ''analytics by status failed'' (ByStatus (re_collate re)) w p"
| "api_handle ae re (ApiAnalyticsByAgent w p) =
     api_analyticsGroups ae ''analytics by agent failed'' (ByAgent (re_collate re)) w p"
| "api_handle ae re (ApiListSubscriptions w p everything) = api_listSubscriptions ae w p everything"
| "api_handle ae re (ApiCreateSubscription b) = api_createSubscription ae (re_pg re) b"
| "api_handle ae re ApiPlaceholder = api_refuse 501 notImplemented"

text \<open>Without a runtime every operation is refused. \<open>huma\<close> is the framework: it finds the operation
  of a request and decodes the parameters and the body, or refuses the request.\<close>

fun unconfigured :: "api_request \<Rightarrow> string" where
  "unconfigured (ApiListEvents i) = notImplemented"
| "unconfigured (ApiAnalyticsSummary w p) = notImplemented"
| "unconfigured (ApiAnalyticsByModel w p) = notImplemented"
| "unconfigured (ApiAnalyticsByHarness w p) = notImplemented"
| "unconfigured (ApiAnalyticsByStatus w p) = notImplemented"
| "unconfigured (ApiAnalyticsByAgent w p) = notImplemented"
| "unconfigured (ApiListSubscriptions w p everything) = notImplemented"
| "unconfigured (ApiCreateSubscription b) = notImplemented"
| "unconfigured ApiPlaceholder = notImplemented"
| "unconfigured _ = ''resource runtime is not configured''"

definition api_reply ::
  "api_env \<Rightarrow> ('sr, 'k :: linorder) runtime_env option \<Rightarrow> api_request \<Rightarrow> api" where
  "api_reply ae rt q =
     (case rt of None \<Rightarrow> api_refuse 501 (unconfigured q)
      | Some re \<Rightarrow> api_handle ae re q)"

definition api_serve ::
  "api_env \<Rightarrow> ('sr, 'k :: linorder) runtime_env option \<Rightarrow> (request \<Rightarrow> api_error + api_request) \<Rightarrow>
   request \<Rightarrow> api" where
  "api_serve ae rt huma r =
     (case huma r of Inl e \<Rightarrow> (\<lambda>d. (Inl e, d)) | Inr q \<Rightarrow> api_reply ae rt q)"

end
