(* ===== verification/Rest_Properties.thy ===== *)
theory Rest_Properties
  imports Rest_Handlers Claim_Properties
begin

text \<open>
  Properties of the REST interface: what its replies say about the database, and how its own checks
  relate to those of the components behind it.
\<close>

section \<open>Replies\<close>

lemma api_parsed_Inr_iff [result_simps]:
  "api_parsed x f d = (Inr r, d') \<longleftrightarrow> (\<exists>a. x = Inr a \<and> f a d = (Inr r, d'))"
  by (auto simp: api_parsed_def api_refuse_def split: sum.splits)

lemma api_run_Inr_iff [result_simps]:
  "api_run bad msg payload m d = (Inr r, d') \<longleftrightarrow> (\<exists>a. m d = (Inr a, d') \<and> r = payload a)"
  by (auto simp: api_run_def split: sum.splits prod.splits)

lemma api_run_Inl_iff [result_simps]:
  "api_run bad msg payload m d = (Inl x, d') \<longleftrightarrow> (\<exists>e. m d = (Inl e, d') \<and> x = bad e msg)"
  by (auto simp: api_run_def split: sum.splits prod.splits)

text \<open>A handler whose error replies leave the database alone.\<close>

named_theorems api_intros \<open>handlers that fail without effect\<close>

definition api_atomic :: "api \<Rightarrow> bool" where
  "api_atomic h \<longleftrightarrow> (\<forall>d e d'. h d = (Inl e, d') \<longrightarrow> d' = d)"

lemma api_atomic_refuse [api_intros]: "api_atomic (api_refuse code msg)"
  by (simp add: api_atomic_def api_refuse_def)

lemma api_atomic_parsed [api_intros]: "(\<And>a. api_atomic (f a)) \<Longrightarrow> api_atomic (api_parsed x f)"
  by (cases x) (simp_all add: api_parsed_def api_intros)

lemma api_atomic_run [api_intros]: "svc_atomic m \<Longrightarrow> api_atomic (api_run bad msg payload m)"
  by (auto simp: api_atomic_def api_run_Inl_iff dest: svc_atomicD)

lemma svc_atomic_of_reads: "svc_reads m \<Longrightarrow> svc_atomic m"
  by (metis svc_atomic_def svc_reads_def snd_conv)

lemma analytics_read [atomic_intros]:
  "svc_reads (Summary f)" "svc_reads (analytics_groups label stmt f)"
  unfolding Summary_def analytics_groups_def by (intro atomic_intros)+

lemmas api_reads_intros = api_intros svc_atomic_of_reads atomic_intros

lemma api_handlers_atomic:
  "api_atomic (api_createTicket ae env tb)" "api_atomic (api_proposeTicket ae env tb)"
  "api_atomic (api_listTickets ae li)" "api_atomic (api_getTicket ae i)"
  "api_atomic (api_updateTicket ae env i ub)" "api_atomic (api_decomposeTicket ae env i xb)"
  "api_atomic (api_registerArtifact ae env ab)" "api_atomic (api_getArtifact ae i)"
  "api_atomic (api_deleteArtifact ae remove i)" "api_atomic (api_getAttempt ae i)"
  "api_atomic (api_heartbeat ae env i n)" "api_atomic (api_checkpoint ae env i pb)"
  "api_atomic (api_complete ae env i ob)" "api_atomic (api_fail ae env i fb)"
  "api_atomic (api_block ae env i bb)" "api_atomic (api_cancel ae env i why)"
  "api_atomic (api_resourceEvents ae ee attempt i c n)" "api_atomic (api_listEvents ae ee ei)"
  "api_atomic (api_analyticsSummary ae w p)"
  "api_atomic (api_createSubscription ae env sb)"
  unfolding api_createTicket_def api_proposeTicket_def api_listTickets_def api_getTicket_def
    api_updateTicket_def api_decomposeTicket_def api_registerArtifact_def api_getArtifact_def
    api_deleteArtifact_def api_getAttempt_def api_heartbeat_def api_checkpoint_def api_complete_def
    api_fail_def api_block_def api_cancel_def api_resourceEvents_def api_listEvents_def
    api_analyticsSummary_def api_createSubscription_def
  by (intro api_reads_intros)+

lemma api_groups_atomic:
  "api_atomic (api_analyticsGroups ae msg (ByModel collate) w p)"
  "api_atomic (api_analyticsGroups ae msg (ByHarness collate) w p)"
  "api_atomic (api_analyticsGroups ae msg (ByStatus collate) w p)"
  "api_atomic (api_analyticsGroups ae msg (ByAgent collate) w p)"
  unfolding api_analyticsGroups_def ByModel_def ByHarness_def ByStatus_def ByAgent_def
  by (intro api_reads_intros)+

lemma api_subscriptions_atomic: "api_atomic (api_listSubscriptions ae w p everything)"
  unfolding api_listSubscriptions_def
  by (intro api_atomic_parsed) (auto intro!: api_reads_intros split: prod.splits)

lemma api_handle_atomic:
  assumes "\<And>key b. q \<noteq> ApiClaimNext key b"
  shows "api_atomic (api_handle ae re q)"
proof (cases q)
  case (ApiClaimNext key b)
  with assms show ?thesis by blast
qed (simp_all only: api_handle.simps api_handlers_atomic api_groups_atomic api_subscriptions_atomic
    api_atomic_refuse)

text \<open>An error reply of the API means that nothing happened, for every operation but a claim.\<close>

theorem api_error_no_effect:
  assumes "api_reply ae rt q d = (Inl e, d')" and "\<And>key b. q \<noteq> ApiClaimNext key b"
  shows "d' = d"
proof (cases rt)
  case None
  with assms(1) show ?thesis by (simp add: api_reply_def api_refuse_def)
next
  case (Some re)
  with assms(1) api_handle_atomic [OF assms(2), of ae re] show ?thesis
    by (simp add: api_reply_def api_atomic_def)
qed

section \<open>Reading what was written\<close>

text \<open>The texts of UUIDs can be read back; this is what pgx documents of \<open>Value\<close> and \<open>Scan\<close>.\<close>

definition uuid_texts :: "api_env \<Rightarrow> bool" where
  "uuid_texts ae \<longleftrightarrow>
     (\<forall>u. ap_scan ae (ap_text ae u) = Inr u \<and> ap_text ae u \<noteq> [] \<and>
        TrimSpace (ap_text ae u) = ap_text ae u)"

lemma uuid_texts_parse:
  "uuid_texts ae \<Longrightarrow> parseRequiredUUID ae name (uuidText ae (Some u)) = Inr (Some u)"
  by (simp add: uuid_texts_def parseRequiredUUID_def api_optional_uuid_def uuidText_def)

lemma api_createTicket_Inr:
  assumes "api_createTicket ae env b d = (Inr r, d')"
  obtains req t where "mapTicketCreate ae b = Inr req" "CreateTicket env req d = (Inr t, d')"
    "r = TicketReply (makeTicketResponse ae t)"
  using assms by (auto simp: api_createTicket_def result_simps)

text \<open>C24. What a creation through the API replies is what reading the ticket under the replied
  identifier returns from then on, until some operation changes the ticket: reading it directly
  afterwards gives the same reply and changes nothing.\<close>

theorem created_ticket_readable:
  assumes "uuid_texts ae"
    and "api_reply ae (Some re) (ApiCreateTicket b) d = (Inr (TicketReply t), d')"
  shows "api_reply ae (Some re) (ApiGetTicket (tv_ID t)) d' = (Inr (TicketReply t), d') \<and>
    tv_Title t = TrimSpace (tb_Title b) \<and>
    (\<forall>u \<in> set (tickets d). u \<in> set (tickets d') \<and> ap_text ae (tk_ID u) \<noteq> tv_ID t)"
proof -
  from assms(2) obtain req k where req: "mapTicketCreate ae b = Inr req"
    and create: "createTicket (re_pg re) req EventTicketCreated d = (Inr k, d')"
    and t: "t = makeTicketResponse ae k"
    by (auto simp: api_reply_def CreateTicket_def elim: api_createTicket_Inr)
  note rows = createTicket_rows [OF create]
  have "find_row tk_ID (tk_ID k) (tickets d') = Some k"
    using rows(1,2) by (simp add: find_row_append find_row_absent)
  then have get: "api_reply ae (Some re) (ApiGetTicket (tv_ID t)) d' = (Inr (TicketReply t), d')"
    using uuid_texts_parse [OF assms(1), of "''id''" "tk_ID k"] t
    by (simp add: api_reply_def api_getTicket_def makeTicketResponse_def api_parsed_def api_run_def
        svc_query_def GetTicket_stmt_def)
  have "cr_Title req = tb_Title b" using req by (auto simp: mapTicketCreate_def result_simps)
  then have "tv_Title t = TrimSpace (tb_Title b)"
    using rows(5) t by (simp add: makeTicketResponse_def)
  moreover have "ap_text ae (tk_ID u) \<noteq> tv_ID t" if "u \<in> set (tickets d)" for u
  proof -
    have "tk_ID u \<noteq> tk_ID k" using rows(2) that by (metis image_eqI)
    then show ?thesis
      using assms(1) t unfolding uuid_texts_def makeTicketResponse_def uuidText_def
      by (metis option.case(2) sum.inject(2) ticket_response.select_convs(1))
  qed
  ultimately show ?thesis using get rows(1) by simp
qed

text \<open>An API whose UUIDs are written in unary, and a body for the sample's project.\<close>

definition sample_api :: api_env where
  "sample_api =
     \<lparr>ap_scan = (\<lambda>s. if s \<noteq> [] \<and> s = replicate (length s) (CHR ''x'')
        then Inr (of_nat (length s - 1)) else Inl ''cannot parse UUID''),
      ap_text = (\<lambda>u. replicate (Suc (unat u)) (CHR ''x'')),
      ap_url = \<lparr>ue_Parse = (\<lambda>s. Inr \<lparr>u_Scheme = ''http'', u_Host = drop 7 s, u_Path = [],
          u_EscapedPath = [], u_RawQuery = [], u_Fragment = []\<rparr>),
        ue_String = (\<lambda>_ _ p. p), ue_PathUnescape = Inr\<rparr>,
      ap_claim = sample_claim_env, ap_locked = [], ap_quote = (\<lambda>s. s), ap_now = 5\<rparr>"

lemma sample_api_texts: "uuid_texts sample_api"
proof -
  have "TrimSpace (replicate n (CHR ''x'')) = replicate n (CHR ''x'')" for n
    by (rule TrimSpace_plain) (simp add: plain_char_def)
  then show ?thesis
    by (simp add: uuid_texts_def sample_api_def del: replicate_Suc)
qed

definition sample_api_runtime :: "(unit, nat) runtime_env" where
  "sample_api_runtime =
     \<lparr>re_pg = sample_env, re_events = \<lparr>ee_format_time = (\<lambda>_. []), ee_parse_time = (\<lambda>_. None),
        ee_scan = (\<lambda>_. None)\<rparr>,
      re_collate = length, re_search = (\<lambda>_ _. Inr []), re_remove = (\<lambda>_. None),
      re_open = (\<lambda>_. Inl ''closed''), re_s3 = None, re_url = ap_url sample_api\<rparr>"

definition sample_body :: ticket_create_body where
  "sample_body =
     \<lparr>tb_WorkspaceID = ''xx'', tb_ProjectID = ''xxx'', tb_ParentID = [], tb_RootID = [],
      tb_Title = '' t '', tb_Description = ''d'', tb_Type = ''bug'', tb_Status = [],
      tb_Priority = None, tb_Tags = [], tb_AcceptanceCriteria = [''a''],
      tb_VerificationCommands = [], tb_ExpectedArtifacts = [], tb_RelevantPaths = [],
      tb_RequiredTools = [], tb_RequiredPermissions = [], tb_Environment = [], tb_Input = [],
      tb_InputSchema = [], tb_RequiredCapabilities = [], tb_AllowedHarnesses = [],
      tb_Dependencies = [], tb_CreatedBy = [], tb_CreatedByID = [], tb_CreationReason = [],
      tb_Enqueue = False\<rparr>"

theorem created_ticket_readable_witness:
  "\<exists>t d'. api_reply sample_api (Some sample_api_runtime) (ApiCreateTicket sample_body) sample_db =
       (Inr (TicketReply t), d') \<and>
     api_reply sample_api (Some sample_api_runtime) (ApiGetTicket (tv_ID t)) d' =
       (Inr (TicketReply t), d')"
proof -
  let ?x = "api_reply sample_api (Some sample_api_runtime) (ApiCreateTicket sample_body) sample_db"
  have "case fst ?x of Inr (TicketReply t) \<Rightarrow> True | _ \<Rightarrow> False"
    by code_simp
  then obtain t d' where x: "?x = (Inr (TicketReply t), d')"
    by (cases ?x) (auto split: sum.splits api_payload.splits)
  with created_ticket_readable [OF sample_api_texts x] show ?thesis by blast
qed

section \<open>Leases\<close>

text \<open>The lease that a request for \<open>n\<close> seconds means: five minutes for none, and the product in
  nanoseconds modulo \<open>2 ^ 64\<close>, as a signed number.\<close>

definition meant_lease :: "int \<Rightarrow> int" where
  "meant_lease n =
     (let ns = (if n = 0 then 300 else n) * 10 ^ 9; r = ns mod 2 ^ 64 in
      if r < 2 ^ 63 then r else r - 2 ^ 64)"

lemma claim_lease_meant: "claim_lease b = meant_lease (lb_LeaseSeconds b)"
proof -
  have "wrap64 x = (if x mod 2 ^ 64 < 2 ^ 63 then x mod 2 ^ 64 else x mod 2 ^ 64 - 2 ^ 64)" for x
  proof -
    have "wrap64 x = (x mod 2 ^ 64 + 2 ^ 63) mod 2 ^ 64 - 2 ^ 63"
      by (simp only: wrap64_def mod_add_left_eq)
    moreover have "(r + 2 ^ 63) mod 2 ^ 64 - 2 ^ 63 = (if r < 2 ^ 63 then r else r - 2 ^ 64)"
      if "0 \<le> r" "r < 2 ^ 64" for r :: int
      using that by (simp add: mod_pos_geq)
    ultimately show ?thesis by simp
  qed
  then show ?thesis
    by (simp add: claim_lease_def seconds_duration_def meant_lease_def Let_def)
qed

text \<open>A claim request whose only possible problem is its lease.\<close>

abbreviation valid_but_lease :: "claim_next_request \<Rightarrow> bool" where
  "valid_but_lease req \<equiv> validateClaimNextRequest ((trimClaimNextRequest req)\<lparr>cq_Lease := 1\<rparr>) = []"

lemma lease_problem:
  "valid_but_lease req \<Longrightarrow> validateClaimNextRequest (trimClaimNextRequest req) =
     problem (cq_Lease req \<le> 0) ''lease must be positive''"
  by (auto simp: validateClaimNextRequest_def trimClaimNextRequest_def problem_def
      split: if_splits)

lemma granted_lease:
  assumes "ClaimNext ce policy now locked env req d = (Inr res, d')"
    and "TrimSpace (cq_IdempotencyKey req) = []"
  shows "\<exists>a. attempts d' = attempts d @ [a] \<and> at_LeaseExpiresAt a = now + cq_Lease req"
  using assms(1)
proof (cases rule: ClaimNext_InrD)
  case 1
  then show ?thesis using assms(2) by (simp add: trimClaimNextRequest_def)
next
  case (2 row)
  from 2(2) show ?thesis
  proof (rule ClaimNextTicket_stmt_InrD)
    fix t a e ks
    assume core: "core d' = core (claimed env a e ks d)"
      and a: "a = new_attempt env (claimParams now (trimClaimNextRequest req)
        (claimRequestHash ce (trimClaimNextRequest req))) t (at_ID a)"
    have "attempts d' = attempts d @ [a]"
      using core_eqD(5) [OF core] by (simp add: claimed_def)
    moreover have "at_LeaseExpiresAt a = now + cq_Lease req"
      using arg_cong [OF a, of at_LeaseExpiresAt]
      by (simp add: new_attempt_def claimParams_def trimClaimNextRequest_def)
    ultimately show ?thesis by blast
  qed
qed

lemma policy_refusal_reply:
  "ApiError 500 msg (Some (ErrPolicyDenied rs)) = resourceError e msg \<longleftrightarrow> e = ErrPolicyDenied rs"
proof
  assume "ApiError 500 msg (Some (ErrPolicyDenied rs)) = resourceError e msg"
  then show "e = ErrPolicyDenied rs"
    by (simp add: resourceError_def split: svc_error.splits pg_error.splits)
qed (simp add: resourceError_def)

text \<open>C26. The lease of a claim through the API, for a request without an idempotency key whose other
  fields are valid. The lease is the product of the seconds and \<open>10 ^ 9\<close> in 64 bits, which wraps: up
  to 9223372036 seconds it is what was asked for, 10000000000 seconds become a negative lease and
  18446744074 seconds (some 584 years) become 0.29 seconds. A lease that is not positive is answered
  with 400; one of more than a day is refused by the installed policy, which is answered with 500;
  any other lease is not refused by policy, and a claim that succeeds stores exactly this lease.\<close>

theorem api_lease_policy:
  fixes b :: claim_body
  defines "lease \<equiv> meant_lease (lb_LeaseSeconds b)"
  assumes "mapClaim ae key b = Inr req" and "TrimSpace key = []" and "valid_but_lease req"
  shows "(lease \<le> 0 \<longrightarrow> api_reply ae (Some re) (ApiClaimNext key b) d =
      (Inl (ApiError 400 (ValidationError_text [''lease must be positive'']) None), d)) \<and>
    (24 * hour < lease \<longrightarrow> (\<exists>rs. api_reply ae (Some re) (ApiClaimNext key b) d =
      (Inl (ApiError 500 ''claim next ticket failed'' (Some (ErrPolicyDenied rs))), d))) \<and>
    (lease \<le> 24 * hour \<longrightarrow> (\<nexists>rs. api_reply ae (Some re) (ApiClaimNext key b) d =
      (Inl (ApiError 500 ''claim next ticket failed'' (Some (ErrPolicyDenied rs))), d))) \<and>
    (\<forall>p d'. api_reply ae (Some re) (ApiClaimNext key b) d = (Inr p, d') \<longrightarrow>
      (\<exists>a. attempts d' = attempts d @ [a] \<and> at_LeaseExpiresAt a = ap_now ae + lease)) \<and>
    (0 < lb_LeaseSeconds b \<and> lb_LeaseSeconds b \<le> 9223372036 \<longrightarrow>
      lease = lb_LeaseSeconds b * second) \<and>
    meant_lease 10000000000 < 0 \<and> meant_lease 18446744074 = 290448384"
proof -
  have req: "cq_Lease req = lease" "cq_IdempotencyKey req = key"
    using assms(2) by (auto simp: mapClaim_def result_simps lease_def claim_lease_meant)
  note problems = lease_problem [OF assms(4)]
  have reply: "api_reply ae (Some re) (ApiClaimNext key b) d =
      resource_run ''claim next ticket failed'' (\<lambda>res. ClaimReply
        (makeTicketResponse ae (cx_Ticket res)) (makeAttemptResponse ae (cx_Attempt res)))
      (ClaimNext (ap_claim ae) (Some runtime_policy) (ap_now ae) (ap_locked ae) (re_pg re) req) d"
    by (simp add: api_reply_def api_claimNext_def api_parsed_def assms(2))
  have refused: "ClaimNext (ap_claim ae) (Some runtime_policy) (ap_now ae) (ap_locked ae) (re_pg re)
      req d = (Inl (ValidationError [''lease must be positive'']), d)" if "lease \<le> 0"
    using that problems req by (simp add: ClaimNext_def Let_def svc_check_def svc_fail_def problem_def)
  have policy: "(\<exists>rs. api_reply ae (Some re) (ApiClaimNext key b) d =
      (Inl (ApiError 500 ''claim next ticket failed'' (Some (ErrPolicyDenied rs))), d)) \<longleftrightarrow>
    (\<exists>rs. ClaimNext (ap_claim ae) (Some runtime_policy) (ap_now ae) (ap_locked ae) (re_pg re) req d =
      (Inl (ErrPolicyDenied rs), d))"
    by (simp add: reply api_run_Inl_iff policy_refusal_reply)
  have decides: "(\<exists>rs. ClaimNext (ap_claim ae) (Some runtime_policy) (ap_now ae) (ap_locked ae)
      (re_pg re) req d = (Inl (ErrPolicyDenied rs), d)) \<longleftrightarrow> 24 * hour < lease"
  proof (cases "lease \<le> 0")
    case True
    then show ?thesis by (simp add: refused)
  next
    case False
    then show ?thesis
      using long_lease_denied [of req "ap_claim ae" "ap_now ae" "ap_locked ae" "re_pg re" d]
        problems req assms(3) by (simp add: problem_def)
  qed
  have granted: "\<exists>a. attempts d' = attempts d @ [a] \<and> at_LeaseExpiresAt a = ap_now ae + lease"
    if "api_reply ae (Some re) (ApiClaimNext key b) d = (Inr p, d')" for p d'
  proof -
    from that obtain res where "ClaimNext (ap_claim ae) (Some runtime_policy) (ap_now ae)
        (ap_locked ae) (re_pg re) req d = (Inr res, d')"
      by (auto simp: reply api_run_Inr_iff)
    from granted_lease [OF this] req assms(3) show ?thesis by simp
  qed
  have "lease = lb_LeaseSeconds b * second"
    if "0 < lb_LeaseSeconds b" "lb_LeaseSeconds b \<le> 9223372036"
    using that by (simp add: lease_def meant_lease_def)
  moreover have "meant_lease 10000000000 < 0" "meant_lease 18446744074 = 290448384"
    by (simp_all add: meant_lease_def)
  moreover have "api_reply ae (Some re) (ApiClaimNext key b) d =
      (Inl (ApiError 400 (ValidationError_text [''lease must be positive'']) None), d)" if "lease \<le> 0"
    using refused [OF that] by (simp add: reply api_run_def resourceError_def)
  ultimately show ?thesis
    using granted unfolding policy decides by auto
qed

definition sample_claim_body :: "int \<Rightarrow> claim_body" where
  "sample_claim_body n =
     \<lparr>lb_WorkspaceID = ''xx'', lb_ProjectID = ''xxx'', lb_AgentID = ''a'', lb_Harness = ''h'',
      lb_Model = [], lb_Type = [], lb_Tags = None, lb_Capabilities = None, lb_LeaseSeconds = n\<rparr>"

lemma sample_trims:
  "TrimSpace ''a'' = ''a''" "TrimSpace ''h'' = ''h''" "TrimSpace ''xx'' = ''xx''"
  "TrimSpace ''xxx'' = ''xxx''"
  by (simp_all add: TrimSpace_plain plain_char_def)

text \<open>Two days are refused, and 584 years are granted.\<close>

theorem api_lease_policy_witness:
  "(\<exists>rs. api_reply sample_api (Some sample_api_runtime) (ApiClaimNext [] (sample_claim_body 172800))
      sample_ready =
     (Inl (ApiError 500 ''claim next ticket failed'' (Some (ErrPolicyDenied rs))), sample_ready)) \<and>
   (\<nexists>rs. api_reply sample_api (Some sample_api_runtime) (ApiClaimNext [] (sample_claim_body 18446744074))
      sample_ready =
     (Inl (ApiError 500 ''claim next ticket failed'' (Some (ErrPolicyDenied rs))), sample_ready))"
proof -
  let ?req = "sample_claim\<lparr>cq_Tags := None, cq_IdempotencyKey := []\<rparr>"
  have ids: "parseRequiredUUID sample_api name ''xx'' = Inr (Some 1)"
    "parseRequiredUUID sample_api name ''xxx'' = Inr (Some 2)" for name
    by (simp_all add: parseRequiredUUID_def api_optional_uuid_def sample_api_def sample_trims)
  have ok: "mapClaim sample_api [] (sample_claim_body n) =
      Inr (?req\<lparr>cq_Lease := claim_lease (sample_claim_body n)\<rparr>)" for n
    by (simp add: mapClaim_def ids sample_claim_body_def sample_claim_def)
  have v: "valid_but_lease (?req\<lparr>cq_Lease := lease\<rparr>)" for lease
    by (simp add: validateClaimNextRequest_def trimClaimNextRequest_def sample_claim_def sample_trims)
  have leases: "24 * hour < meant_lease (lb_LeaseSeconds (sample_claim_body 172800))"
    "meant_lease (lb_LeaseSeconds (sample_claim_body 18446744074)) \<le> 24 * hour"
    by (simp_all add: meant_lease_def sample_claim_body_def)
  show ?thesis
    using api_lease_policy [OF ok [of 172800] TrimSpace_Nil v, of sample_api_runtime sample_ready]
      api_lease_policy [OF ok [of 18446744074] TrimSpace_Nil v, of sample_api_runtime sample_ready]
      leases
    by blast
qed

section \<open>Webhook endpoints\<close>

text \<open>For an endpoint whose host is an IP address, the check of the API on subscribing is that
  of the dialer under an empty policy; so an accepted endpoint is dialed under every policy, while
  one inside a prefix that the operator configured is refused here although it would be dialed.\<close>

theorem endpoint_check_is_dial_check:
  assumes "ue_Parse (ap_url ae) (TrimSpace raw) = Inr u"
    and "u_Scheme u = ''http'' \<or> u_Scheme u = ''https''" and "u_Host u \<noteq> []"
    and "ParseAddr (Hostname u) = Some ip"
    and "destination_host toLower (Hostname u) = Hostname u"
  shows "(validateWebhookEndpointURL ae raw = Inr () \<longleftrightarrow>
      \<not> isl (ValidateHost toLower resolve \<lparr>dp_AllowedHosts = [], dp_AllowedCIDRs = []\<rparr> (Hostname u))) \<and>
    (validateWebhookEndpointURL ae raw = Inr () \<longrightarrow>
      \<not> isl (ValidateHost toLower resolve p (Hostname u)))"
  using assms
  by (auto simp: validateWebhookEndpointURL_def ValidateHost_def Let_def private_or_local_def
      allowedIP_def ensure_def split: if_splits)

theorem endpoint_check_is_dial_check_witness:
  "validateWebhookEndpointURL sample_api ''http://8.8.8.8:80'' = Inr () \<and>
   isl (validateWebhookEndpointURL sample_api ''http://10.0.0.7'') \<and>
   \<not> isl (ValidateHost (\<lambda>s. s) (\<lambda>_. Inr [])
     \<lparr>dp_AllowedHosts = [], dp_AllowedCIDRs = [\<lparr>px_addr = V4 (10 * 2 ^ 24), px_bits = 8\<rparr>]\<rparr> ''10.0.0.7'')"
proof -
  have "ue_Parse (ap_url sample_api) (TrimSpace ''http://8.8.8.8:80'') =
      Inr \<lparr>u_Scheme = ''http'', u_Host = ''8.8.8.8:80'', u_Path = [], u_EscapedPath = [],
        u_RawQuery = [], u_Fragment = []\<rparr>" (is "_ = Inr ?u")
    by code_simp
  moreover have "ParseAddr (Hostname ?u) = Some (V4 0x08080808)"
    "destination_host (\<lambda>s. s) (Hostname ?u) = Hostname ?u"
    "\<not> isl (ValidateHost (\<lambda>s. s) (\<lambda>_. Inr []) \<lparr>dp_AllowedHosts = [], dp_AllowedCIDRs = []\<rparr> (Hostname ?u))"
    by code_simp+
  ultimately have "validateWebhookEndpointURL sample_api ''http://8.8.8.8:80'' = Inr ()"
    using endpoint_check_is_dial_check by (metis url.select_convs(1,2) list.distinct(1))
  moreover have "isl (validateWebhookEndpointURL sample_api ''http://10.0.0.7'')"
    "\<not> isl (ValidateHost (\<lambda>s. s) (\<lambda>_. Inr [])
       \<lparr>dp_AllowedHosts = [], dp_AllowedCIDRs = [\<lparr>px_addr = V4 (10 * 2 ^ 24), px_bits = 8\<rparr>]\<rparr> ''10.0.0.7'')"
    by code_simp+
  ultimately show ?thesis by blast
qed

end
