(* ===== verification/Mcp_Properties.thy ===== *)
theory Mcp_Properties
  imports Mcp_Server Rest_Properties Ticket_Properties Forge_Sample
begin

text \<open>
  Properties of the MCP server: that what its contracts admit is understood, what the tools do to
  the database, and that what they return is what the contracts promise.
\<close>

section \<open>Results of a tool\<close>

lemma with_input_Inr_iff [result_simps]:
  "with_input me ty raw f d = (Inr j, d') \<longleftrightarrow>
     (\<exists>p. decodeInput (me_float me) raw ty = Some p \<and> f p d = (Inr j, d'))"
  by (auto simp: with_input_def split: option.splits)

lemma with_request_Inr_iff [result_simps]:
  "with_request r f d = (Inr j, d') \<longleftrightarrow> (\<exists>a. r = Inr a \<and> f a d = (Inr j, d'))"
  by (auto simp: with_request_def split: sum.splits)

lemma tool_result_Inr_iff [result_simps]:
  "tool_result payload m d = (Inr j, d') \<longleftrightarrow> (\<exists>a. m d = (Inr a, d') \<and> j = payload a)"
  by (auto simp: tool_result_def split: sum.splits prod.splits)

named_theorems tool_intros \<open>tools whose errors are those of the services\<close>

definition service_errors :: "tool_run \<Rightarrow> bool" where
  "service_errors f \<longleftrightarrow> (\<forall>d e d'. f d = (Inl e, d') \<longrightarrow> (\<exists>se. e = ToolError se))"

lemma service_errors_result [tool_intros]: "service_errors (tool_result payload m)"
  by (auto simp: service_errors_def tool_result_def split: sum.splits prod.splits)

lemma service_errors_request [tool_intros]:
  "(\<And>a. service_errors (f a)) \<Longrightarrow> service_errors (with_request r f)"
  by (cases r) (auto simp: service_errors_def with_request_def)

section \<open>Contracts and payloads\<close>

text \<open>A handler understands a schema when it fails on conforming arguments only as its service
  fails.\<close>

definition understands :: "'k mcp_env \<Rightarrow> (json_raw \<Rightarrow> tool_run) \<Rightarrow> json \<Rightarrow> bool" where
  "understands me h schema \<longleftrightarrow>
     (\<forall>v. conforms schema v \<longrightarrow> plain_numbers (me_float me) v \<longrightarrow> service_errors (h (RawDoc v)))"

lemma understandsI [tool_intros]:
  assumes "fits schema ty" and "\<And>p. service_errors (f p)"
  shows "understands me (\<lambda>raw. with_input me ty raw f) schema"
  unfolding understands_def
proof (intro allI impI)
  fix v
  assume "conforms schema v" and "plain_numbers (me_float me) v"
  with fits_decodes(1) [OF assms(1)] obtain p where
    "decodeInput (me_float me) (RawDoc v) ty = Some p"
    unfolding decodeInput_def unmarshal_def by fastforce
  then have "with_input me ty (RawDoc v) f d = f p d" for d
    by (simp add: with_input_def)
  then show "service_errors (with_input me ty (RawDoc v) f)"
    using assms(2) [of p] by (simp add: service_errors_def)
qed

lemma fits_tickets [tool_intros]:
  "fits (op_InputSchema opCreateTicket) createTicketInput"
  "fits (op_InputSchema opProposeTicket) createTicketInput"
  "fits (op_InputSchema opCreateTicketFromAttempt) createFromAttemptInput"
  "fits (op_InputSchema opUpdateTicket) updateTicketInput"
  "fits (op_InputSchema opMarkTicketReady) ticketTransitionInput"
  "fits (op_InputSchema opReopenTicket) ticketTransitionInput"
  "fits (op_InputSchema opUnblockTicket) ticketTransitionInput"
  "fits (op_InputSchema opRequestTicketReview) ticketTransitionInput"
  "fits (op_InputSchema opArchiveTicket) ticketTransitionInput"
  "fits (op_InputSchema opReviewTicket) reviewTicketInput"
  "fits (op_InputSchema opListTickets) listTicketsInput"
  "fits (op_InputSchema opGetTicket) getTicketInput"
  "fits (op_InputSchema opDecomposeTicket) decomposeInput"
  by code_simp+

lemma fits_attempts [tool_intros]:
  "fits (op_InputSchema opClaimNextTicket) claimNextInput"
  "fits (op_InputSchema opHeartbeatAttempt) attemptLeaseInput"
  "fits (op_InputSchema opCheckpointAttempt) checkpointInput"
  "fits (op_InputSchema opCompleteAttempt) completeInput"
  "fits (op_InputSchema opFailAttempt) failInput"
  "fits (op_InputSchema opBlockAttempt) blockInput"
  by code_simp+

lemma fits_others [tool_intros]:
  "fits (op_InputSchema opAttachArtifact) attachArtifactInput"
  "fits (op_InputSchema opRegisterAgentCapabilities) registerCapabilitiesInput"
  "fits (op_InputSchema opAnalyticsSummary) analyticsInput"
  "fits (op_InputSchema opAnalyticsByModel) analyticsInput"
  "fits (op_InputSchema opAnalyticsByHarness) analyticsInput"
  "fits (op_InputSchema opAnalyticsByStatus) analyticsInput"
  "fits (op_InputSchema opAnalyticsByAgent) analyticsInput"
  by code_simp+

lemma tickets_understood:
  "understands me (callCreateTicket me) (op_InputSchema opCreateTicket)"
  "understands me (callProposeTicket me) (op_InputSchema opProposeTicket)"
  "understands me (callCreateTicketFromAttempt me) (op_InputSchema opCreateTicketFromAttempt)"
  "understands me (callUpdateTicket me) (op_InputSchema opUpdateTicket)"
  "understands me (callMarkTicketReady me) (op_InputSchema opMarkTicketReady)"
  "understands me (callReopenTicket me) (op_InputSchema opReopenTicket)"
  "understands me (callUnblockTicket me) (op_InputSchema opUnblockTicket)"
  "understands me (callRequestTicketReview me) (op_InputSchema opRequestTicketReview)"
  "understands me (callArchiveTicket me) (op_InputSchema opArchiveTicket)"
  "understands me (callReviewTicket me) (op_InputSchema opReviewTicket)"
  "understands me (callListTickets me) (op_InputSchema opListTickets)"
  "understands me (callGetTicket me) (op_InputSchema opGetTicket)"
  "understands me (callDecomposeTicket me) (op_InputSchema opDecomposeTicket)"
  unfolding callCreateTicket_def [abs_def] callProposeTicket_def [abs_def]
    callCreateTicketFromAttempt_def [abs_def] callUpdateTicket_def [abs_def]
    callMarkTicketReady_def callReopenTicket_def callUnblockTicket_def
    callRequestTicketReview_def callArchiveTicket_def callTicketTransition_def [abs_def]
    callReviewTicket_def [abs_def] callListTickets_def [abs_def] callGetTicket_def [abs_def]
    callDecomposeTicket_def [abs_def] Let_def
  by (intro tool_intros)+

lemma others_understood:
  "understands me (callClaimNextTicket me) (op_InputSchema opClaimNextTicket)"
  "understands me (callHeartbeatAttempt me) (op_InputSchema opHeartbeatAttempt)"
  "understands me (callCheckpointAttempt me) (op_InputSchema opCheckpointAttempt)"
  "understands me (callCompleteAttempt me) (op_InputSchema opCompleteAttempt)"
  "understands me (callFailAttempt me) (op_InputSchema opFailAttempt)"
  "understands me (callBlockAttempt me) (op_InputSchema opBlockAttempt)"
  "understands me (callAttachArtifact me) (op_InputSchema opAttachArtifact)"
  "understands me (callRegisterCapabilities me) (op_InputSchema opRegisterAgentCapabilities)"
  "understands me (callAnalyticsSummary me) (op_InputSchema opAnalyticsSummary)"
  "understands me (callAnalyticsByModel me) (op_InputSchema opAnalyticsByModel)"
  "understands me (callAnalyticsByHarness me) (op_InputSchema opAnalyticsByHarness)"
  "understands me (callAnalyticsByStatus me) (op_InputSchema opAnalyticsByStatus)"
  "understands me (callAnalyticsByAgent me) (op_InputSchema opAnalyticsByAgent)"
  unfolding callClaimNextTicket_def [abs_def] callHeartbeatAttempt_def [abs_def]
    callCheckpointAttempt_def [abs_def] callCompleteAttempt_def [abs_def]
    callFailAttempt_def [abs_def] callBlockAttempt_def [abs_def] callAttachArtifact_def [abs_def]
    callRegisterCapabilities_def [abs_def] callAnalyticsSummary_def [abs_def]
    callAnalyticsByModel_def callAnalyticsByHarness_def callAnalyticsByStatus_def
    callAnalyticsByAgent_def call_analytics_groups_def [abs_def]
  by (intro tool_intros)+

section \<open>The catalogue\<close>

lemma tool_names_distinct: "distinct (map tool_name AllOperations)"
  by code_simp

lemma tool_name_is_name: "\<forall>op \<in> set AllOperations. tool_name op = op_Name op"
  by code_simp

lemma handler_names: "map fst (handlers me) = map tool_name AllOperations"
  unfolding handlers_def list.map fst_conv by code_simp

lemma handlers_understand:
  "list_all2 (\<lambda>h op. understands me (snd h) (op_InputSchema op)) (handlers me) AllOperations"
  unfolding handlers_def AllOperations_def operations_def
  by (simp only: list_all2_Cons list.rel_inject(1) snd_conv tickets_understood others_understood simp_thms)

lemma handler_of_operation:
  assumes "op \<in> set AllOperations"
  obtains h where "map_of (handlers me) (tool_name op) = Some h"
    and "understands me h (op_InputSchema op)"
proof -
  from assms obtain i where i: "i < length AllOperations" "AllOperations ! i = op"
    by (auto simp: in_set_conv_nth)
  have n: "length (handlers me) = length AllOperations"
    using handler_names [of me] by (metis length_map)
  with i have "fst (handlers me ! i) = tool_name op"
    using handler_names [of me] by (metis nth_map)
  moreover have "distinct (map fst (handlers me))"
    using handler_names tool_names_distinct by metis
  ultimately have "map_of (handlers me) (tool_name op) = Some (snd (handlers me ! i))"
    using i n by (metis map_of_eq_Some_iff nth_mem prod.collapse)
  moreover have "understands me (snd (handlers me ! i)) (op_InputSchema op)"
    using handlers_understand [of me] i n by (metis list_all2_nthD)
  ultimately show ?thesis using that by blast
qed

lemma add_tools_distinct:
  assumes "distinct (map tool_name ops)" and "set (map tool_name ops) \<inter> fst ` set (ms_tools s) = {}"
  shows "add_tools ops s = Inr (s\<lparr>ms_tools := ms_tools s @ map (\<lambda>op. (tool_name op, operation_tool op)) ops,
    ms_order := ms_order s @ map tool_name ops\<rparr>)"
  using assms
proof (induction ops arbitrary: s)
  case (Cons op ops)
  then have "map_of (ms_tools s) (tool_name op) = None"
    by (simp add: map_of_eq_None_iff)
  with Cons show ?case by (auto simp: Let_def)
qed simp

lemma NewServer_catalogue:
  "NewServer rt AllOperations =
     Inr \<lparr>ms_runtime = rt, ms_tools = map (\<lambda>op. (tool_name op, operation_tool op)) AllOperations,
       ms_order = map tool_name AllOperations\<rparr>"
  using add_tools_distinct [OF tool_names_distinct] by (simp add: NewServer_def)

lemma catalogue_tool:
  "map_of (map (\<lambda>op. (tool_name op, operation_tool op)) AllOperations) name =
     map_option operation_tool (OperationByName name)"
proof -
  have "map_of (map (\<lambda>op. (tool_name op, operation_tool op)) ops) name =
      map_option operation_tool (find (\<lambda>op. op_Name op = name) ops)"
    if "\<forall>op \<in> set ops. tool_name op = op_Name op" for ops
    using that by (induction ops) auto
  then show ?thesis
    using tool_name_is_name by (simp add: OperationByName_def AllOperations_def)
qed

lemma handled_name: "map_of (handlers me) name = None \<longleftrightarrow> OperationByName name = None"
proof -
  have "map_of (handlers me) name = None \<longleftrightarrow> name \<notin> set (map tool_name AllOperations)"
    using handler_names [of me] by (metis map_of_eq_None_iff set_map)
  also have "\<dots> \<longleftrightarrow> OperationByName name = None"
    using tool_name_is_name
    by (auto simp: OperationByName_def AllOperations_def find_None_iff)
  finally show ?thesis .
qed

lemma mcp_call_catalogue:
  assumes "NewServer True AllOperations = Inr s" and "map_of (handlers me) name = Some h"
  shows "mcp_call me (Some s) name raw d = h raw d"
proof -
  have "OperationByName name \<noteq> None" using assms(2) handled_name [of me name] by simp
  with assms show ?thesis
    by (auto simp: mcp_call_def NewServer_catalogue catalogue_tool)
qed

text \<open>The server that is made from the catalogue lists exactly the operations of the catalogue,
  each with its schemas; it can call what it lists, and a call by any other name is an unknown tool
  without effect.\<close>

theorem catalogue_served:
  assumes "NewServer True AllOperations = Inr s"
  shows "Tools (Some s) = map operation_tool AllOperations \<and>
    (\<forall>name. CanCall me (Some s) name \<longleftrightarrow> OperationByName name \<noteq> None) \<and>
    (\<forall>name raw d. OperationByName name = None \<longrightarrow>
       mcp_call me (Some s) name raw d = (Inl (ErrUnknownTool name), d))"
proof (intro conjI allI impI)
  have s: "s = \<lparr>ms_runtime = True,
      ms_tools = map (\<lambda>op. (tool_name op, operation_tool op)) AllOperations,
      ms_order = map tool_name AllOperations\<rparr>"
    using assms by (simp add: NewServer_catalogue)
  have "List.map_filter (map_of (map (\<lambda>op. (tool_name op, operation_tool op)) ops)) (map tool_name qs) =
      map operation_tool qs" if "distinct (map tool_name ops)" "set qs \<subseteq> set ops" for ops qs
    using that
  proof (induction qs)
    case (Cons q qs)
    have "map_of (map (\<lambda>op. (tool_name op, operation_tool op)) ops) (tool_name q) =
        Some (operation_tool q)"
      using Cons.prems by (intro map_of_is_SomeI) (auto simp: o_def)
    with Cons show ?case by (simp add: List.map_filter_simps)
  qed (simp add: List.map_filter_simps)
  from this [OF tool_names_distinct subset_refl] show "Tools (Some s) = map operation_tool AllOperations"
    by (simp add: Tools_def s)
  show "CanCall me (Some s) name \<longleftrightarrow> OperationByName name \<noteq> None" for name
    using handled_name [of me name] by (simp add: CanCall_def s catalogue_tool)
  show "mcp_call me (Some s) name raw d = (Inl (ErrUnknownTool name), d)"
    if "OperationByName name = None" for name raw d
    using that handled_name [of me name] by (simp add: mcp_call_def)
qed

text \<open>C28. Arguments that conform to a tool's published input schema and whose numbers are written
  plainly (no exponent, no integer written with a fraction, nothing outside the range of \<open>float64\<close>)
  are understood: the call finds its tool and decodes its input, so that if it fails, it is with an
  error of the service. JSON Schema counts 1.0 as an integer too, which Go's decoder refuses; such
  arguments are outside the statement.\<close>

theorem conforming_call_understood:
  assumes "NewServer True AllOperations = Inr s" and "op \<in> set AllOperations"
    and "conforms (op_InputSchema op) v" and "plain_numbers (me_float me) v"
    and "mcp_call me (Some s) (tool_name op) (RawDoc v) d = (Inl e, d')"
  shows "\<exists>se. e = ToolError se"
proof -
  obtain h where h: "map_of (handlers me) (tool_name op) = Some h"
    "understands me h (op_InputSchema op)"
    using assms(2) by (rule handler_of_operation)
  have "h (RawDoc v) d = (Inl e, d')"
    using assms(5) unfolding mcp_call_catalogue [OF assms(1) h(1)] .
  with h(2) assms(3,4) show ?thesis
    unfolding understands_def service_errors_def by blast
qed

definition sample_mcp :: "nat mcp_env" where
  "sample_mcp = \<lparr>me_api = sample_api, me_pg = sample_env, me_collate = length, me_float = (\<lambda>_ _. None)\<rparr>"

definition sample_server :: mcp_server where
  "sample_server = projr (NewServer True AllOperations)"

lemma sample_server: "NewServer True AllOperations = Inr sample_server"
  by (simp add: sample_server_def NewServer_catalogue)

theorem catalogue_served_witness:
  "CanCall sample_mcp (Some sample_server) ''get_ticket'' \<and>
   mcp_call sample_mcp (Some sample_server) ''drop_ticket'' RawEmpty sample_db =
     (Inl (ErrUnknownTool ''drop_ticket''), sample_db)"
proof -
  have "OperationByName ''get_ticket'' \<noteq> None" "OperationByName ''drop_ticket'' = None"
    by (code_simp, code_simp)
  with catalogue_served [OF sample_server, of sample_mcp] show ?thesis by blast
qed

theorem conforming_call_understood_witness:
  "\<exists>se. fst (mcp_call sample_mcp (Some sample_server) (tool_name opGetTicket)
     (RawDoc (JObj [(''ticket_id'', JStr ''xx'')])) sample_db) = Inl (ToolError se)"
proof -
  let ?v = "JObj [(''ticket_id'', JStr ''xx'')]"
  have op: "opGetTicket \<in> set AllOperations"
    by (simp add: AllOperations_def operations_def)
  have v: "conforms (op_InputSchema opGetTicket) ?v" "plain_numbers (me_float sample_mcp) ?v"
    by (code_simp, simp)
  have h: "map_of (handlers sample_mcp) (tool_name opGetTicket) = Some (callGetTicket sample_mcp)"
    by (simp add: handlers_def tool_name_def opGetTicket_def operation_names)
  have "case callGetTicket sample_mcp (RawDoc ?v) sample_db of (Inl e, _) \<Rightarrow> True | _ \<Rightarrow> False"
    by code_simp
  then obtain e d' where run: "mcp_call sample_mcp (Some sample_server) (tool_name opGetTicket)
      (RawDoc ?v) sample_db = (Inl e, d')"
    unfolding mcp_call_catalogue [OF sample_server h] by (auto split: prod.splits sum.splits)
  from conforming_call_understood [OF sample_server op v run] run show ?thesis by auto
qed

section \<open>Structured values\<close>

lemma conforms_member:
  assumes "conforms s (JObj kvs)" and "(k, x) \<in> set kvs" and "schema_property s k = Some s'"
  shows "conforms s' x"
proof -
  have "members_conform s kvs" using assms(1) by simp
  then show ?thesis using assms(2,3) by (induction kvs) auto
qed

lemma closed_empty_object:
  assumes "conforms s x" and "has_type s ''object''" and "closed_schema s" and "property_names s = []"
  shows "x = JObj []"
proof -
  have "schema_type s x" using assms(1) by (cases x) (simp_all add: schema_keywords_def)
  with assms(2) obtain kvs where x: "x = JObj kvs"
    by (cases x) (auto simp: schema_type_def has_type_def)
  have "schema_property s k = None" for k
    using schema_property_name [of s k] assms(4) by (cases "schema_property s k") auto
  with assms(1,3) x show ?thesis by (cases kvs) auto
qed

text \<open>The fields whose value is a structure of the caller's choice, which the handlers decode into a
  \<open>map[string]any\<close> and the services store.\<close>

definition structured_fields :: "(operation \<times> string) list" where
  "structured_fields =
     [(opCreateTicket, ''environment''), (opCreateTicket, ''input''), (opCreateTicket, ''retry_policy''),
      (opProposeTicket, ''environment''), (opProposeTicket, ''input''),
      (opProposeTicket, ''retry_policy''), (opCompleteAttempt, ''output''),
      (opFailAttempt, ''output''), (opBlockAttempt, ''blocker''), (opAttachArtifact, ''metadata'')]"

lemma structured_fields_closed:
  "list_all (\<lambda>(op, k). case schema_property (op_InputSchema op) k of
      None \<Rightarrow> False
    | Some s \<Rightarrow> has_type s ''object'' \<and> closed_schema s \<and> property_names s = []) structured_fields"
  by code_simp

text \<open>The contracts contradict their purpose for structured values: the schemas of environment,
  input, retry policy, output, blocker details and metadata are closed objects without properties, so
  that arguments which conform carry the empty object there, although the tools store whatever
  object they are given.\<close>

theorem structured_values_excluded:
  assumes "(op, k) \<in> set structured_fields" and "conforms (op_InputSchema op) (JObj kvs)"
    and "(k, x) \<in> set kvs"
  shows "x = JObj []"
proof -
  from assms(1) structured_fields_closed obtain s where
    "schema_property (op_InputSchema op) k = Some s" "has_type s ''object''" "closed_schema s"
    "property_names s = []"
    by (auto simp: list_all_iff split: option.splits)
  with conforms_member [OF assms(2,3)] show ?thesis by (blast intro: closed_empty_object)
qed

definition sample_completion :: "(string \<times> json) list \<Rightarrow> json" where
  "sample_completion out = JObj [(''attempt_id'', JStr (replicate 103 (CHR ''x''))), (''output'', JObj out)]"

theorem structured_values_excluded_witness:
  "(\<forall>out. conforms (op_InputSchema opCompleteAttempt) (sample_completion out) \<longleftrightarrow> out = []) \<and>
   \<not> isl (fst (callCompleteAttempt sample_mcp
     (RawDoc (sample_completion [(''commit'', JStr ''c'')])) sample_claimed))"
proof (intro conjI allI iffI)
  show "out = []" if "conforms (op_InputSchema opCompleteAttempt) (sample_completion out)" for out
  proof -
    have "(opCompleteAttempt, ''output'') \<in> set structured_fields"
      by (simp add: structured_fields_def)
    from structured_values_excluded [OF this that [unfolded sample_completion_def]] show ?thesis
      by simp
  qed
  have "conforms (op_InputSchema opCompleteAttempt) (sample_completion [])"
    by code_simp
  then show "conforms (op_InputSchema opCompleteAttempt) (sample_completion out)" if "out = []" for out
    using that by simp
qed code_simp

end
