(* ===== verification/Mcp_Effects.thy ===== *)
theory Mcp_Effects
  imports Mcp_Properties
begin

text \<open>
  What the MCP tools do to the database, and that what they return is what the output schemas of the
  catalogue promise.
\<close>

section \<open>Creation\<close>

lemma handler_entries:
  "map_of (handlers me) OperationCreateTicket = Some (callCreateTicket me)"
  "map_of (handlers me) OperationProposeTicket = Some (callProposeTicket me)"
  "map_of (handlers me) OperationCreateTicketFromAttempt = Some (callCreateTicketFromAttempt me)"
  "map_of (handlers me) OperationUpdateTicket = Some (callUpdateTicket me)"
  "map_of (handlers me) OperationMarkTicketReady = Some (callMarkTicketReady me)"
  "map_of (handlers me) OperationReopenTicket = Some (callReopenTicket me)"
  "map_of (handlers me) OperationUnblockTicket = Some (callUnblockTicket me)"
  "map_of (handlers me) OperationRequestTicketReview = Some (callRequestTicketReview me)"
  "map_of (handlers me) OperationReviewTicket = Some (callReviewTicket me)"
  "map_of (handlers me) OperationArchiveTicket = Some (callArchiveTicket me)"
  "map_of (handlers me) OperationGetTicket = Some (callGetTicket me)"
  "map_of (handlers me) OperationHeartbeatAttempt = Some (callHeartbeatAttempt me)"
  "map_of (handlers me) OperationCheckpointAttempt = Some (callCheckpointAttempt me)"
  "map_of (handlers me) OperationCompleteAttempt = Some (callCompleteAttempt me)"
  "map_of (handlers me) OperationFailAttempt = Some (callFailAttempt me)"
  "map_of (handlers me) OperationBlockAttempt = Some (callBlockAttempt me)"
  "map_of (handlers me) OperationListTickets = Some (callListTickets me)"
  "map_of (handlers me) OperationDecomposeTicket = Some (callDecomposeTicket me)"
  "map_of (handlers me) OperationRegisterAgentCapabilities = Some (callRegisterCapabilities me)"
  by (simp_all add: handlers_def operation_names)

lemma tool_names:
  "tool_name opCreateTicket = OperationCreateTicket"
  "tool_name opProposeTicket = OperationProposeTicket"
  "tool_name opCreateTicketFromAttempt = OperationCreateTicketFromAttempt"
  "tool_name opUpdateTicket = OperationUpdateTicket"
  "tool_name opMarkTicketReady = OperationMarkTicketReady"
  "tool_name opReopenTicket = OperationReopenTicket"
  "tool_name opUnblockTicket = OperationUnblockTicket"
  "tool_name opRequestTicketReview = OperationRequestTicketReview"
  "tool_name opReviewTicket = OperationReviewTicket"
  "tool_name opArchiveTicket = OperationArchiveTicket"
  "tool_name opGetTicket = OperationGetTicket"
  "tool_name opHeartbeatAttempt = OperationHeartbeatAttempt"
  "tool_name opCheckpointAttempt = OperationCheckpointAttempt"
  "tool_name opCompleteAttempt = OperationCompleteAttempt"
  "tool_name opFailAttempt = OperationFailAttempt"
  "tool_name opBlockAttempt = OperationBlockAttempt"
  "tool_name opListTickets = OperationListTickets"
  "tool_name opDecomposeTicket = OperationDecomposeTicket"
  "tool_name opRegisterAgentCapabilities = OperationRegisterAgentCapabilities"
  by (simp_all add: tool_name_def operation_names opCreateTicket_def opProposeTicket_def opCreateTicketFromAttempt_def opUpdateTicket_def
    opMarkTicketReady_def opReopenTicket_def opUnblockTicket_def opRequestTicketReview_def
    opReviewTicket_def opArchiveTicket_def opGetTicket_def opHeartbeatAttempt_def
    opCheckpointAttempt_def opCompleteAttempt_def opFailAttempt_def opBlockAttempt_def
    opListTickets_def opDecomposeTicket_def opRegisterAgentCapabilities_def)

definition added_to_backlog :: "db \<Rightarrow> ticket \<Rightarrow> db \<Rightarrow> bool" where
  "added_to_backlog d t d' \<longleftrightarrow>
     tickets d' = tickets d @ [t] \<and> tk_ID t \<notin> tk_ID ` set (tickets d) \<and>
     tk_Status t = TicketStatusBacklog \<and> tk_CreatedBy t = ActorAgent"

lemma propose_adds:
  assumes "ProposeTicket env r d = (Inr t, d')" and "cr_CreatedBy r = ActorAgent"
  shows "added_to_backlog d t d'"
proof -
  note rows = createTicket_rows [OF assms(1) [unfolded ProposeTicket_def]]
  have "TrimSpace ActorAgent = ActorAgent" "ActorAgent \<noteq> []"
    by code_simp+
  with rows(1,2,12,13) assms(2) show ?thesis
    by (simp add: added_to_backlog_def completeCreateTicketRequest_def Let_def default_string_def)
qed

lemma create_adds:
  assumes "CreateTicket env r d = (Inr t, d')" and "cr_CreatedBy r = ActorAgent" and "\<not> cr_CanEnqueue r"
  shows "added_to_backlog d t d'"
proof -
  note rows = createTicket_rows [OF assms(1) [unfolded CreateTicket_def]]
  have "TrimSpace ActorAgent = ActorAgent" "ActorAgent \<noteq> []"
    by code_simp+
  with rows(13) assms(2) have agent: "tk_CreatedBy t = ActorAgent"
    by (simp add: default_string_def)
  have "ticket_status_of d' (tk_ID t) = Some TicketStatusBacklog"
    using assms(1) agent assms(3) by (rule agent_creates_in_backlog)
  then have "tk_Status t = TicketStatusBacklog"
    using rows(1,2) by (simp add: ticket_status_of_def find_row_append find_row_absent)
  with agent rows(1,2) show ?thesis by (simp add: added_to_backlog_def)
qed

lemma createTicketInput_cannot_enqueue:
  "createTicketInput_request ae p = Inr r \<Longrightarrow> \<not> cr_CanEnqueue r"
  by (auto simp: createTicketInput_request_def result_simps)

lemma createFromAttemptInput_cannot_enqueue:
  "createFromAttemptInput_request ae p = Inr r \<Longrightarrow> \<not> fa_Enqueue r"
  by (auto simp: createFromAttemptInput_request_def result_simps)

lemma from_attempt_adds:
  assumes "CreateTicketFromAttempt env r d = (Inr t, d')" and "\<not> fa_Enqueue r"
  shows "added_to_backlog d t d'"
proof -
  have "\<not> fa_Enqueue (trimCreateTicketFromAttemptRequest r)"
    using assms(2) by (simp add: trimCreateTicketFromAttemptRequest_def)
  with assms(1) have "ProposeTicket env (createTicketRequestFromAttempt
      (trimCreateTicketFromAttemptRequest r)
      (TicketTemplateByKind (fa_TemplateKind (trimCreateTicketFromAttemptRequest r)))) d = (Inr t, d')"
    by (simp add: CreateTicketFromAttempt_def Let_def svc_check_Inr_iff)
  then show ?thesis
    by (rule propose_adds) (simp add: createTicketRequestFromAttempt_def)
qed

text \<open>C27. What the three tools that create a single ticket through MCP (\<open>create_ticket\<close>,
  \<open>propose_ticket\<close> and \<open>create_ticket_from_attempt\<close>) make lands in the backlog, whatever the
  arguments say: a successful call adds one ticket, in the backlog and marked as made by an agent,
  and returns it. \<open>decompose_ticket\<close> is not one of them: in its mode create it puts the children
  into the queue.\<close>

theorem mcp_creates_in_backlog:
  assumes "NewServer True AllOperations = Inr s"
    and "mcp_call me (Some s) name raw d = (Inr out, d')"
    and "name \<in> {OperationCreateTicket, OperationProposeTicket, OperationCreateTicketFromAttempt}"
  shows "\<exists>t. added_to_backlog d t d' \<and> out = ticket_json me t"
proof -
  from assms(3) consider "name = OperationCreateTicket" | "name = OperationProposeTicket"
    | "name = OperationCreateTicketFromAttempt" by blast
  then show ?thesis
  proof cases
    case 1
    with assms(2) obtain p r t where r: "createTicketInput_request (me_api me) p = Inr r"
      and run: "CreateTicket (me_pg me) (r\<lparr>cr_CreatedBy := ActorAgent,
          cr_CreationReason := (if TrimSpace (cr_CreationReason r) = [] then defaultMCPCreationReason
            else cr_CreationReason r)\<rparr>) d = (Inr t, d')" and out: "out = ticket_json me t"
      by (auto simp: mcp_call_catalogue [OF assms(1)] handler_entries callCreateTicket_def result_simps)
    from run have "added_to_backlog d t d'"
      by (rule create_adds) (use createTicketInput_cannot_enqueue [OF r] in simp_all)
    with out show ?thesis by blast
  next
    case 2
    with assms(2) show ?thesis
      by (auto simp: mcp_call_catalogue [OF assms(1)] handler_entries callProposeTicket_def result_simps
          intro!: propose_adds)
  next
    case 3
    with assms(2) show ?thesis
      by (auto simp: mcp_call_catalogue [OF assms(1)] handler_entries callCreateTicketFromAttempt_def
          result_simps intro!: from_attempt_adds dest: createFromAttemptInput_cannot_enqueue)
  qed
qed

definition sample_tool_create :: json where
  "sample_tool_create = JObj
     [(''workspace_id'', JStr ''xx''), (''project_id'', JStr ''xxx''), (''title'', JStr ''t''),
      (''description'', JStr ''d''), (''type'', JStr ''bug''), (''created_by'', JStr ''human''),
      (''creation_reason'', JStr ''r''), (''acceptance_criteria'', JArr [JStr ''a''])]"

text \<open>How the sample call is decoded, and the request that it becomes.\<close>

definition sample_tool_payload :: go_value where
  "sample_tool_payload = VStruct
     [(''workspace_id'', VString ''xx''), (''project_id'', VString ''xxx''), (''parent_id'', VString []),
      (''root_id'', VString []), (''source_attempt_id'', VString []),
      (''source_artifact_id'', VString []), (''title'', VString ''t''), (''description'', VString ''d''),
      (''type'', VString ''bug''), (''status'', VString []), (''priority'', VPtr None),
      (''tags'', VSlice None), (''acceptance_criteria'', VSlice (Some [VString ''a''])),
      (''verification_commands'', VSlice None), (''expected_artifacts'', VSlice None),
      (''relevant_paths'', VSlice None), (''required_tools'', VSlice None),
      (''required_permissions'', VSlice None), (''environment'', VMap None), (''input'', VMap None),
      (''input_schema'', VString []), (''required_capabilities'', VSlice None),
      (''allowed_harnesses'', VSlice None), (''retry_policy'', VMap None),
      (''dependencies'', VSlice None), (''created_by'', VString ''human''),
      (''created_by_id'', VString []), (''creation_reason'', VString ''r''), (''enqueue'', VBool False)]"

definition sample_tool_request :: create_ticket_request where
  "sample_tool_request =
     sample_create\<lparr>cr_Title := ''t'', cr_CreatedBy := ''human'', cr_CreationReason := ''r''\<rparr>"

lemma sample_tool_decoded:
  "decodeInput (me_float sample_mcp) (RawDoc sample_tool_create) createTicketInput =
     Some sample_tool_payload"
  "createTicketInput_request (me_api sample_mcp) sample_tool_payload = Inr sample_tool_request"
  "sample_tool_request\<lparr>cr_CreatedBy := ActorAgent,
     cr_CreationReason := (if TrimSpace (cr_CreationReason sample_tool_request) = []
       then defaultMCPCreationReason else cr_CreationReason sample_tool_request)\<rparr> =
   sample_tool_request\<lparr>cr_CreatedBy := ActorAgent\<rparr>"
  by (code_simp, code_simp, code_simp)

theorem mcp_creates_in_backlog_witness:
  "\<exists>t out d'. mcp_call sample_mcp (Some sample_server) OperationCreateTicket
       (RawDoc sample_tool_create) sample_db = (Inr out, d') \<and> added_to_backlog sample_db t d'"
proof -
  let ?x = "CreateTicket sample_env (sample_tool_request\<lparr>cr_CreatedBy := ActorAgent\<rparr>) sample_db"
  have "?x = (Inr (projr (fst ?x)), snd ?x)"
    by (rule evaluated_svc) code_simp
  then obtain t d' where x: "?x = (Inr t, d')" by blast
  have "callCreateTicket sample_mcp (RawDoc sample_tool_create) sample_db =
      tool_result (ticket_json sample_mcp) (with_transaction (CreateTicket (me_pg sample_mcp)
        (sample_tool_request\<lparr>cr_CreatedBy := ActorAgent\<rparr>))) sample_db"
    unfolding callCreateTicket_def with_input_def sample_tool_decoded(1) option.case with_request_def
      sample_tool_decoded(2) sum.case sample_tool_decoded(3) ..
  also have "\<dots> = (Inr (ticket_json sample_mcp t), d')"
    using x by (simp add: tool_result_def with_transaction_def sample_mcp_def)
  finally have run: "mcp_call sample_mcp (Some sample_server) OperationCreateTicket
      (RawDoc sample_tool_create) sample_db = (Inr (ticket_json sample_mcp t), d')"
    unfolding mcp_call_catalogue [OF sample_server handler_entries(1)] .
  then show ?thesis
    using mcp_creates_in_backlog [OF sample_server run] by blast
qed

section \<open>Results\<close>

text \<open>An operation that returns a row of the table it leaves.\<close>

definition returns_row :: "ticket svc \<Rightarrow> bool" where
  "returns_row m \<longleftrightarrow> (\<forall>d t d'. m d = (Inr t, d') \<longrightarrow> t \<in> set (tickets d'))"

named_theorems row_intros \<open>operations that return a row\<close>

lemma returns_row_transaction [row_intros]: "returns_row m \<Longrightarrow> returns_row (with_transaction m)"
  by (auto simp: returns_row_def result_simps)

lemma returns_row_create [row_intros]:
  "returns_row (CreateTicket env r)" "returns_row (ProposeTicket env r)"
  by (auto simp: returns_row_def CreateTicket_def ProposeTicket_def createTicket_rows(1))

lemma returns_row_from_attempt [row_intros]: "returns_row (CreateTicketFromAttempt env r)"
  using returns_row_create
  by (auto simp: returns_row_def CreateTicketFromAttempt_def Let_def svc_check_Inr_iff split: if_splits)

lemma returns_row_update [row_intros]: "returns_row (UpdateTicket env r)"
  unfolding returns_row_def
proof (intro allI impI)
  fix d t d'
  assume "UpdateTicket env r d = (Inr t, d')"
  then show "t \<in> set (tickets d')"
    by (rule UpdateTicket_InrD) (auto simp: set_update_rows dest: find_row_SomeD)
qed

lemma returns_row_get [row_intros]: "returns_row (rt_query (GetTicket_stmt i))"
  by (auto simp: returns_row_def svc_query_Inr_iff GetTicket_stmt_def split: option.splits
      dest: find_row_SomeD)

context ticket_operation
begin

lemma returns_row: "returns_row (run env r)"
  unfolding returns_row_def using status_after by (metis find_row_SomeD(1))

end

lemmas returns_row_transitions [row_intros] =
  ready.returns_row reopen.returns_row unblock.returns_row request_review.returns_row
  archive.returns_row review.returns_row

lemmas schema_builders =
  objectSchema_def uuidSchema_def optionalUUIDSchema_def stringSchema_def integerSchema_def
  arraySchema_def stringArraySchema_def

lemmas schema_keyword_defs =
  schema_keywords_def schema_type_def schema_const_def schema_enum_def schema_bounds_def
  schema_required_def schema_min_properties_def schema_property_def closed_schema_def decimal_le_def

lemma ticket_conforms:
  assumes "ticket_row_checks t"
  shows "conforms (ticketReferenceSchema title) (ticketPayload ae t)"
  using assms
  by (simp add: ticketReferenceSchema_def ticketPayload_def uuid_json_def schema_builders
      schema_keyword_defs ticket_row_checks_def)

lemma attempt_conforms: "conforms (attemptReferenceSchema title) (attemptPayload ae a)"
  by (simp add: attemptReferenceSchema_def attemptPayload_def uuid_json_def schema_builders
      schema_keyword_defs)

lemma transition_conforms: "conforms (transitionOutputSchema title) (transitionPayload ae r)"
  by (simp add: transitionOutputSchema_def transitionPayload_def uuid_json_def schema_builders
      schema_keyword_defs)

lemma single_member_conforms:
  "conforms s v \<Longrightarrow> conforms (objectSchema title [k] [(k, s)]) (JObj [(k, v)])"
  by (simp add: schema_builders schema_keyword_defs)

lemma ticket_json_conforms:
  "ticket_row_checks t \<Longrightarrow> conforms (ticketOutputSchema title) (ticket_json me t)"
  unfolding ticketOutputSchema_def ticket_json_def
  by (intro single_member_conforms ticket_conforms)

lemma items_conform_iff:
  "json_field s ''items'' = Some s' \<Longrightarrow> items_conform s js \<longleftrightarrow> (\<forall>j \<in> set js. conforms s' j)"
  by (induction js) auto

lemma tickets_conform:
  "\<forall>t \<in> set ts. ticket_row_checks t \<Longrightarrow>
   conforms (arraySchema title (ticketReferenceSchema t0)) (JArr (map (ticketPayload ae) ts))"
  using ticket_conforms
  by (simp add: items_conform_iff arraySchema_def schema_keyword_defs)

lemma strings_conform: "conforms (stringArraySchema title) (json_strings ss)"
  by (simp add: items_conform_iff schema_builders schema_keyword_defs)

lemma capability_conforms: "conforms (op_OutputSchema opRegisterAgentCapabilities) (capability_json c)"
  using strings_conform [unfolded stringArraySchema_def arraySchema_def]
  by (simp add: opRegisterAgentCapabilities_def capability_json_def schema_builders schema_keyword_defs)

text \<open>A tool promises a schema when what it returns, from a database in order, conforms to it.\<close>

definition promises :: "tool_run \<Rightarrow> json \<Rightarrow> bool" where
  "promises f schema \<longleftrightarrow>
     (\<forall>d out d'. workflow_ok d \<longrightarrow> f d = (Inr out, d') \<longrightarrow> conforms schema out)"

named_theorems promise_intros \<open>tools that keep their output schemas\<close>

lemma promises_input [promise_intros]:
  "(\<And>p. promises (f p) schema) \<Longrightarrow> promises (with_input me ty raw f) schema"
  by (auto simp: promises_def result_simps)

lemma promises_request [promise_intros]:
  "(\<And>a. promises (f a) schema) \<Longrightarrow> promises (with_request r f) schema"
  by (auto simp: promises_def result_simps)

lemma promises_payload: "(\<And>a. conforms schema (payload a)) \<Longrightarrow> promises (tool_result payload m) schema"
  by (auto simp: promises_def result_simps)

lemma checked_rows:
  assumes "workflow_ok d" and "svc_steps stmt_step m" and "m d = (r, d')"
  shows "\<forall>t \<in> set (tickets d'). ticket_row_checks t"
  using workflow.steps [OF svc_stepsD [OF assms(2,3)] assms(1)]
  by (simp add: workflow_ok_def rows_ok_def)

lemma promises_ticket [promise_intros]:
  assumes "returns_row m" and "svc_steps stmt_step m"
  shows "promises (tool_result (ticket_json me) m) (ticketOutputSchema title)"
  using assms(1) checked_rows [OF _ assms(2)]
  by (auto simp: promises_def result_simps returns_row_def intro!: ticket_json_conforms)

lemma promises_tickets [promise_intros]:
  assumes "\<And>d ts d'. m d = (Inr ts, d') \<Longrightarrow> set ts \<subseteq> set (tickets d')" and "svc_steps stmt_step m"
  shows "promises (tool_result (\<lambda>ts. JObj [(k, JArr (map (ticketPayload ae) ts))]) m)
    (objectSchema title [k] [(k, arraySchema t0 (ticketReferenceSchema t1))])"
  unfolding promises_def
proof (intro allI impI)
  fix d out d'
  assume "workflow_ok d" and "tool_result (\<lambda>ts. JObj [(k, JArr (map (ticketPayload ae) ts))]) m d = (Inr out, d')"
  then obtain ts where run: "m d = (Inr ts, d')" and out: "out = JObj [(k, JArr (map (ticketPayload ae) ts))]"
    by (auto simp: result_simps)
  have "\<forall>t \<in> set ts. ticket_row_checks t"
    using checked_rows [OF \<open>workflow_ok d\<close> assms(2) run] assms(1) [OF run] by blast
  then show "conforms (objectSchema title [k] [(k, arraySchema t0 (ticketReferenceSchema t1))]) out"
    unfolding out by (intro single_member_conforms tickets_conform)
qed

lemma ListTickets_rows: "ListTickets r d = (Inr ts, d') \<Longrightarrow> set ts \<subseteq> set (tickets d')"
  by (auto simp: ListTickets_def Let_def svc_check_Inr_iff svc_read_iff ListTickets_stmt_def
      limit_rows_def offset_rows_def dest!: in_set_takeD in_set_dropD)

lemma DecomposeTicket_rows:
  "with_transaction (DecomposeTicket quote env r) d = (Inr ts, d') \<Longrightarrow> set ts \<subseteq> set (tickets d')"
  by (auto simp: result_simps dest: decomposition_rows)

lemma query_steps: "svc_steps stmt_step (rt_query q)"
  by (rule svc_steps_pure) (simp add: svc_query_def split: sum.splits)

lemma list_steps: "svc_steps stmt_step (ListTickets r)"
  by (rule svc_steps_pure) (simp add: ListTickets_def Let_def svc_check_def svc_fail_def svc_read_def)

lemma promises_checkpoint:
  "promises (tool_result (checkpoint_json me) (Checkpoint env r)) (op_OutputSchema opCheckpointAttempt)"
  by (auto simp: promises_def result_simps Checkpoint_def Let_def validateCheckpointRequest_def
      problem_def checkpoint_json_def uuid_json_def opCheckpointAttempt_def schema_builders
      schema_keyword_defs split: if_splits)

lemma ticket_tools_promise:
  "promises (callCreateTicket me raw) (op_OutputSchema opCreateTicket)"
  "promises (callProposeTicket me raw) (op_OutputSchema opProposeTicket)"
  "promises (callCreateTicketFromAttempt me raw) (op_OutputSchema opCreateTicketFromAttempt)"
  "promises (callUpdateTicket me raw) (op_OutputSchema opUpdateTicket)"
  "promises (callMarkTicketReady me raw) (op_OutputSchema opMarkTicketReady)"
  "promises (callReopenTicket me raw) (op_OutputSchema opReopenTicket)"
  "promises (callUnblockTicket me raw) (op_OutputSchema opUnblockTicket)"
  "promises (callRequestTicketReview me raw) (op_OutputSchema opRequestTicketReview)"
  "promises (callReviewTicket me raw) (op_OutputSchema opReviewTicket)"
  "promises (callArchiveTicket me raw) (op_OutputSchema opArchiveTicket)"
  "promises (callGetTicket me raw) (op_OutputSchema opGetTicket)"
  unfolding callCreateTicket_def opCreateTicket_def callProposeTicket_def opProposeTicket_def callCreateTicketFromAttempt_def opCreateTicketFromAttempt_def
    callUpdateTicket_def opUpdateTicket_def callMarkTicketReady_def opMarkTicketReady_def callReopenTicket_def opReopenTicket_def
    callUnblockTicket_def opUnblockTicket_def callRequestTicketReview_def opRequestTicketReview_def callReviewTicket_def opReviewTicket_def
    callArchiveTicket_def opArchiveTicket_def callGetTicket_def opGetTicket_def
    callTicketTransition_def operation.select_convs
  by (intro promise_intros row_intros svc_steps_intros query_steps)+

lemma listing_tools_promise:
  "promises (callListTickets me raw) (op_OutputSchema opListTickets)"
  "promises (callDecomposeTicket me raw) (op_OutputSchema opDecomposeTicket)"
  unfolding callListTickets_def opListTickets_def callDecomposeTicket_def opDecomposeTicket_def
    operation.select_convs Let_def
  by (intro promise_intros svc_steps_intros list_steps, erule ListTickets_rows)
    (intro promise_intros svc_steps_intros, erule DecomposeTicket_rows)

lemma attempt_tools_promise:
  "promises (callHeartbeatAttempt me raw) (op_OutputSchema opHeartbeatAttempt)"
  "promises (callCheckpointAttempt me raw) (op_OutputSchema opCheckpointAttempt)"
  "promises (callCompleteAttempt me raw) (op_OutputSchema opCompleteAttempt)"
  "promises (callFailAttempt me raw) (op_OutputSchema opFailAttempt)"
  "promises (callBlockAttempt me raw) (op_OutputSchema opBlockAttempt)"
  "promises (callRegisterCapabilities me raw) (op_OutputSchema opRegisterAgentCapabilities)"
proof -
  have "promises (callHeartbeatAttempt me raw) (attemptOutputSchema ''Heartbeat result'')"
    unfolding callHeartbeatAttempt_def attemptOutputSchema_def
    by (intro promise_intros promises_payload single_member_conforms attempt_conforms)
  then show "promises (callHeartbeatAttempt me raw) (op_OutputSchema opHeartbeatAttempt)"
    by (simp add: opHeartbeatAttempt_def)
  show "promises (callCheckpointAttempt me raw) (op_OutputSchema opCheckpointAttempt)"
    unfolding callCheckpointAttempt_def by (intro promise_intros promises_checkpoint)
  show "promises (callCompleteAttempt me raw) (op_OutputSchema opCompleteAttempt)"
    "promises (callFailAttempt me raw) (op_OutputSchema opFailAttempt)"
    "promises (callBlockAttempt me raw) (op_OutputSchema opBlockAttempt)"
    unfolding callCompleteAttempt_def opCompleteAttempt_def callFailAttempt_def opFailAttempt_def
      callBlockAttempt_def opBlockAttempt_def operation.select_convs
    by (intro promise_intros promises_payload transition_conforms)+
  show "promises (callRegisterCapabilities me raw) (op_OutputSchema opRegisterAgentCapabilities)"
    unfolding callRegisterCapabilities_def
    by (intro promise_intros promises_payload capability_conforms)
qed

text \<open>The operations whose results the schemas describe without exception. The others are the claim,
  whose context carries structured values that its schema excludes, the registration of an artifact,
  whose size may exceed the bound of the schema, and the analytics.\<close>

definition contract_keepers :: "operation list" where
  "contract_keepers =
     [opCreateTicket, opProposeTicket, opCreateTicketFromAttempt,
      opUpdateTicket, opMarkTicketReady, opReopenTicket,
      opUnblockTicket, opRequestTicketReview, opReviewTicket,
      opArchiveTicket, opGetTicket, opHeartbeatAttempt,
      opCheckpointAttempt, opCompleteAttempt, opFailAttempt,
      opBlockAttempt, opListTickets, opDecomposeTicket,
      opRegisterAgentCapabilities]"

text \<open>C29. In a reachable database, whatever one of these nineteen tools returns conforms to the
  output schema that the catalogue publishes for it: the row it reports has passed the checks of the
  table, and the progress it reports is a percentage, whatever the arguments were. Left out are
  \<open>claim_next_ticket\<close>, whose context breaks its schema for tickets with an environment or an input,
  \<open>attach_artifact\<close>, whose schema bounds the size below the range of the column, and the five tools
  for analytics, which are not covered.\<close>

theorem tool_outputs_conform:
  assumes "initial_db d0" and "stmt_step\<^sup>*\<^sup>* d0 d" and "NewServer True AllOperations = Inr s"
    and "op \<in> set contract_keepers"
    and "mcp_call me (Some s) (tool_name op) raw d = (Inr out, d')"
  shows "conforms (op_OutputSchema op) out"
proof -
  have "\<exists>h. map_of (handlers me) (tool_name op) = Some h \<and> promises (h raw) (op_OutputSchema op)"
    using assms(4)
    by (auto simp: contract_keepers_def tool_names handler_entries ticket_tools_promise
        listing_tools_promise attempt_tools_promise)
  then obtain h where h: "map_of (handlers me) (tool_name op) = Some h"
      "promises (h raw) (op_OutputSchema op)" by blast
  have "h raw d = (Inr out, d')"
    using assms(5) unfolding mcp_call_catalogue [OF assms(3) h(1)] .
  with h(2) workflow.reachable [OF assms(1,2)] show ?thesis
    unfolding promises_def by blast
qed

theorem tool_outputs_conform_witness:
  "\<exists>out d'. mcp_call sample_mcp (Some sample_server) (tool_name opGetTicket)
       (RawDoc (JObj [(''ticket_id'', JStr (replicate 101 (CHR ''x'')))])) sample_ready = (Inr out, d') \<and>
     conforms (op_OutputSchema opGetTicket) out"
proof -
  let ?raw = "RawDoc (JObj [(''ticket_id'', JStr (replicate 101 (CHR ''x'')))])"
  have h: "map_of (handlers sample_mcp) (tool_name opGetTicket) = Some (callGetTicket sample_mcp)"
    by (simp add: tool_names handler_entries)
  have "\<not> isl (fst (callGetTicket sample_mcp ?raw sample_ready))"
    by code_simp
  then obtain out d' where "callGetTicket sample_mcp ?raw sample_ready = (Inr out, d')"
    by (metis isl_def prod.collapse sum.collapse(2))
  then have run: "mcp_call sample_mcp (Some sample_server) (tool_name opGetTicket) ?raw sample_ready =
      (Inr out, d')"
    unfolding mcp_call_catalogue [OF sample_server h] .
  have "opGetTicket \<in> set contract_keepers"
    by (simp add: contract_keepers_def)
  from tool_outputs_conform [OF sample_initial sample_ready_reachable sample_server this run] run
  show ?thesis by blast
qed

end
