(* ===== verification/Search_Service.thy ===== *)
theory Search_Service
  imports Rest_Api
begin

text \<open>
  internal/services/search.go and internal/db/search.sql.go: search, related work, and the
  recommendation of tickets to a harness. PostgreSQL's full text search is outside the repository:
  \<open>search_env\<close> holds what the statements use of it, with queries and ranks of any types.
\<close>

section \<open>Recommendation\<close>

record recommend_tickets_params =
  rtp_Offset :: int
  rtp_Limit :: int
  rtp_WorkspaceID :: "uuid option"
  rtp_ProjectID :: "uuid option"
  rtp_TicketType :: "string option"
  rtp_Tags :: "string slice"
  rtp_Harness :: string
  rtp_Capabilities :: "string slice"

text \<open>A row of the statement is a ticket with two more columns.\<close>

record recommend_tickets_row = ticket +
  rtr_RecommendationScore :: int
  rtr_RecommendationReasons :: "string list"

text \<open>The candidates of the statement, with the cast of the retry policy that may fail.\<close>

definition recommend_matches :: "recommend_tickets_params \<Rightarrow> db \<Rightarrow> ticket \<Rightarrow> bool" where
  "recommend_matches p d t \<longleftrightarrow>
     Some (tk_WorkspaceID t) = rtp_WorkspaceID p \<and> Some (tk_ProjectID t) = rtp_ProjectID p \<and>
     tk_Status t = TicketStatusTodo \<and>
     (rtp_TicketType p = None \<or> rtp_TicketType p = Some (tk_Type t)) \<and>
     (slice_list (rtp_Tags p) = [] \<or> (\<exists>g \<in> set (tk_Tags t). g \<in> set (slice_list (rtp_Tags p)))) \<and>
     (tk_AllowedHarnesses t = [] \<or> rtp_Harness p \<in> set (tk_AllowedHarnesses t)) \<and>
     (tk_RequiredCapabilities t = [] \<or>
        (\<forall>c \<in> set (tk_RequiredCapabilities t). c \<in> set (slice_list (rtp_Capabilities p)))) \<and>
     \<not> has_open_dependency d (tk_ID t)"

definition recommendable :: "recommend_tickets_params \<Rightarrow> db \<Rightarrow> ticket \<Rightarrow> pg_error + bool" where
  "recommendable p d t =
     (if recommend_matches p d t
      then and_then (max_attempts t) (\<lambda>m. Inr (failure_count d (tk_ID t) < m))
      else Inr False)"

definition verification_count :: "ticket \<Rightarrow> int" where
  "verification_count t = (case tk_VerificationCommands t of JArr js \<Rightarrow> int (length js) | _ \<Rightarrow> 0)"

definition related_done_count :: "db \<Rightarrow> ticket \<Rightarrow> int" where
  "related_done_count d t = int (length (filter (\<lambda>u.
     tk_WorkspaceID u = tk_WorkspaceID t \<and> tk_ProjectID u = tk_ProjectID t \<and> tk_ID u \<noteq> tk_ID t \<and>
     tk_Status u = TicketStatusDone \<and>
     (tk_Type u = tk_Type t \<or> (\<exists>g \<in> set (tk_Tags u). g \<in> set (tk_Tags t)))) (tickets d)))"

definition recommendation_score :: "db \<Rightarrow> ticket \<Rightarrow> int" where
  "recommendation_score d t =
     100 - tk_Priority t * 10
     + (if tk_AcceptanceCriteria t \<noteq> [] then 8 else 0)
     + (if 0 < verification_count t then 8 else 0)
     + (if tk_RelevantPaths t \<noteq> [] then 4 else 0)
     + (if 0 < related_done_count d t then 6 else 0)
     + (if tk_CreatedBy t = ActorAgent then 3 else 0)
     - failure_count d (tk_ID t) * 5"

definition recommendation_reasons :: "db \<Rightarrow> ticket \<Rightarrow> string list" where
  "recommendation_reasons d t =
     [''priority:'' @ FormatInt (tk_Priority t)] @
     (if tk_AcceptanceCriteria t \<noteq> [] then [''has_acceptance_criteria''] else []) @
     (if 0 < verification_count t then [''has_verification_commands''] else []) @
     (if tk_RelevantPaths t \<noteq> [] then [''has_relevant_paths''] else []) @
     (if 0 < related_done_count d t then [''has_related_done_work''] else []) @
     (if tk_CreatedBy t = ActorAgent then [''agent_created''] else []) @
     (if 0 < failure_count d (tk_ID t) then [''retry_available_after_failure''] else [])"

definition recommendation_order :: "db \<Rightarrow> ticket \<Rightarrow> int \<times> int \<times> timestamp \<times> uuid" where
  "recommendation_order d t = (- recommendation_score d t, tk_Priority t, tk_CreatedAt t, tk_ID t)"

text \<open>The rows are sorted by their score before the page is cut, so that the statement decides for
  every candidate whether it is recommended; the plan may evaluate the cast for further tickets.\<close>

definition RecommendTickets_stmt ::
  "pg_env \<Rightarrow> recommend_tickets_params \<Rightarrow> db \<Rightarrow> pg_error + recommend_tickets_row list" where
  "RecommendTickets_stmt env p d =
     and_then (plan_casts env (tickets d)) (\<lambda>_.
     and_then (filter_rows (recommendable p d) (tickets d)) (\<lambda>rows.
     Inr (map (\<lambda>t. ticket.extend t (recommend_tickets_row.fields (recommendation_score d t)
         (recommendation_reasons d t)))
       (limit_rows (rtp_Limit p) (offset_rows (rtp_Offset p)
         (sort_key (recommendation_order d) rows))))))"

section \<open>Search\<close>

record 'q search_env =
  fts_websearch :: "string \<Rightarrow> 'q"
  fts_lexemes :: "string \<Rightarrow> string list"
  fts_plain :: "string \<Rightarrow> string"
  fts_tsquery :: "string \<Rightarrow> 'q"
  fts_matches :: "string \<Rightarrow> 'q \<Rightarrow> bool"
  fts_rank :: "string \<Rightarrow> 'q \<Rightarrow> rat"
  fts_json_text :: "json \<Rightarrow> string"
  fts_left :: "nat \<Rightarrow> string \<Rightarrow> string"
  fts_text_sort :: "string list \<Rightarrow> string list"

text \<open>One row of the union of matches: the ticket, the attempt, the kind of the source, the text
  that is shown and the rank of the text that was matched.\<close>

record search_match =
  sm_TicketID :: uuid
  sm_AttemptID :: "uuid option"
  sm_Source :: string
  sm_Text :: string
  sm_Rank :: rat

definition concat_ws :: "string option list \<Rightarrow> string" where
  "concat_ws parts = strings_Join '' '' (map the (filter (\<lambda>p. p \<noteq> None) parts))"

definition match_row ::
  "'q search_env \<Rightarrow> 'q \<Rightarrow> uuid \<Rightarrow> uuid option \<Rightarrow> string \<Rightarrow> string \<Rightarrow> string \<Rightarrow> search_match list" where
  "match_row se q ticket attempt source shown searched =
     (if fts_matches se searched q
      then [\<lparr>sm_TicketID = ticket, sm_AttemptID = attempt, sm_Source = source, sm_Text = shown,
             sm_Rank = fts_rank se searched q\<rparr>]
      else [])"

definition search_matches ::
  "'q search_env \<Rightarrow> 'q \<Rightarrow> uuid option \<Rightarrow> uuid option \<Rightarrow> db \<Rightarrow> search_match list" where
  "search_matches se q w p d =
     (let here = (\<lambda>w' p'. Some w' = w \<and> Some p' = p) in
      concat (map (\<lambda>t. match_row se q (tk_ID t) None ''ticket''
          (concat_ws [Some (tk_Title t), Some (tk_Description t)])
          (tk_Title t @ '' '' @ tk_Description t))
        (filter (\<lambda>t. here (tk_WorkspaceID t) (tk_ProjectID t)) (tickets d))) @
      concat (map (\<lambda>a. match_row se q (at_TicketID a) (Some (at_ID a)) ''attempt''
          (concat_ws [at_CurrentSummary a, Some (fts_json_text se (at_Output a))])
          (textValue (at_CurrentSummary a) @ '' '' @ fts_json_text se (at_Output a)))
        (filter (\<lambda>a. here (at_WorkspaceID a) (at_ProjectID a)) (attempts d))) @
      concat (map (\<lambda>e. match_row se q (ev_TicketID e) (ev_AttemptID e) ''event''
          (fts_json_text se (ev_Data e)) (fts_json_text se (ev_Data e)))
        (filter (\<lambda>e. here (ev_WorkspaceID e) (ev_ProjectID e)) (ticket_events d))) @
      concat (map (\<lambda>a. match_row se q (ar_TicketID a) (ar_AttemptID a) ''artifact'' (ar_Name a) (ar_Name a))
        (filter (\<lambda>a. here (ar_WorkspaceID a) (ar_ProjectID a)) (artifacts d))))"

text \<open>
  Grouping by ticket: \<open>array_agg(DISTINCT ...)\<close> and \<open>string_agg(DISTINCT ...)\<close> sort. The statement
  of SearchTickets does not select the attempts.
\<close>

record search_tickets_row = ticket +
  swr_MatchSources :: "string list"
  swr_Snippet :: string
  swr_Rank :: rat

record search_related_tickets_row = search_tickets_row +
  swr_AttemptIds :: "uuid list"

definition search_group ::
  "'q search_env \<Rightarrow> search_match list \<Rightarrow> ticket \<Rightarrow> search_related_tickets_row" where
  "search_group se ms t =
     (let own = filter (\<lambda>m. sm_TicketID m = tk_ID t) ms in
      search_tickets_row.extend
        (ticket.extend t (search_tickets_row.fields
          (fts_text_sort se (remdups (map sm_Source own)))
          (strings_Join '' | ''
            (fts_text_sort se (remdups (map (\<lambda>m. fts_left se 360 (sm_Text m)) own))))
          (Max (sm_Rank ` set own))))
        (search_related_tickets_row.fields (sort (remdups (List.map_filter sm_AttemptID own)))))"

text \<open>\<open>ORDER BY rank DESC, updated_at DESC, id ASC\<close>.\<close>

definition search_order :: "'e search_tickets_row_scheme \<Rightarrow> rat \<times> int \<times> uuid" where
  "search_order r = (- swr_Rank r, - tk_UpdatedAt r, tk_ID r)"

definition search_page ::
  "'q search_env \<Rightarrow> search_match list \<Rightarrow> ticket list \<Rightarrow> int \<Rightarrow> int \<Rightarrow>
   search_related_tickets_row list" where
  "search_page se ms ts offset limit =
     limit_rows limit (offset_rows offset (sort_key search_order (map (search_group se ms)
       (filter (\<lambda>t. \<exists>m \<in> set ms. sm_TicketID m = tk_ID t) ts))))"

record search_tickets_params =
  stp_WorkspaceID :: "uuid option"
  stp_ProjectID :: "uuid option"
  stp_Offset :: int
  stp_Limit :: int
  stp_Query :: string

definition SearchTickets_stmt ::
  "'q search_env \<Rightarrow> search_tickets_params \<Rightarrow> db \<Rightarrow> search_tickets_row list" where
  "SearchTickets_stmt se p d =
     map search_tickets_row.truncate (search_page se
       (search_matches se (fts_websearch se (stp_Query p)) (stp_WorkspaceID p) (stp_ProjectID p) d)
       (filter (\<lambda>t. Some (tk_WorkspaceID t) = stp_WorkspaceID p \<and>
          Some (tk_ProjectID t) = stp_ProjectID p) (tickets d))
       (stp_Offset p) (stp_Limit p))"

record search_related_params =
  srp_Offset :: int
  srp_Limit :: int
  srp_TicketID :: "uuid option"

text \<open>The query of a ticket's own words: up to 64 of them, one of which has to occur.\<close>

definition source_text :: "ticket \<Rightarrow> string" where
  "source_text t = concat_ws [Some (tk_Title t), Some (tk_Description t),
     Some (strings_Join '' '' (tk_Tags t)), Some (strings_Join '' '' (tk_AcceptanceCriteria t)),
     Some (strings_Join '' '' (tk_RelevantPaths t))]"

definition related_query :: "'q search_env \<Rightarrow> ticket \<Rightarrow> 'q" where
  "related_query se t =
     fts_tsquery se (strings_Join '' | '' (take 64 (fts_text_sort se (remdups
       (filter (\<lambda>q. q \<noteq> []) (map (fts_plain se) (fts_lexemes se (source_text t))))))))"

definition SearchRelatedTickets_stmt ::
  "'q search_env \<Rightarrow> search_related_params \<Rightarrow> db \<Rightarrow> search_related_tickets_row list" where
  "SearchRelatedTickets_stmt se p d =
     (case filter (\<lambda>t. Some (tk_ID t) = srp_TicketID p) (tickets d) of
        [] \<Rightarrow> []
      | st # _ \<Rightarrow>
          search_page se
            (filter (\<lambda>m. sm_TicketID m \<noteq> tk_ID st)
              (search_matches se (related_query se st) (Some (tk_WorkspaceID st))
                (Some (tk_ProjectID st)) d))
            (filter (\<lambda>t. tk_WorkspaceID t = tk_WorkspaceID st \<and> tk_ProjectID t = tk_ProjectID st \<and>
               tk_ID t \<noteq> tk_ID st) (tickets d))
            (srp_Offset p) (srp_Limit p))"

section \<open>The service\<close>

definition defaultSearchLimit :: int where "defaultSearchLimit = 25"
definition maxSearchLimit :: int where "maxSearchLimit = 100"

definition search_limit :: "int \<Rightarrow> int" where
  "search_limit requested =
     (let limit = (if requested = 0 then defaultSearchLimit else requested) in
      if maxSearchLimit < limit then maxSearchLimit else limit)"

definition page_problems :: "int \<Rightarrow> int \<Rightarrow> string list" where
  "page_problems offset limit =
     problem (offset < 0) ''offset must be non-negative'' @ problem (limit < 0) ''limit must be non-negative''"

definition scope_problems :: "uuid option \<Rightarrow> uuid option \<Rightarrow> string list" where
  "scope_problems w p =
     problem (w = None) ''workspace_id is required'' @ problem (p = None) ''project_id is required''"

record recommendation_request =
  rcq_WorkspaceID :: "uuid option"
  rcq_ProjectID :: "uuid option"
  rcq_Type :: string
  rcq_Tags :: "string list"
  rcq_Harness :: string
  rcq_Capabilities :: "string list"
  rcq_Offset :: int
  rcq_Limit :: int

record recommendation_result =
  rr_Ticket :: ticket
  rr_Score :: int
  rr_Reasons :: "string list"

definition validateRecommendationRequest :: "recommendation_request \<Rightarrow> string list" where
  "validateRecommendationRequest r =
     scope_problems (rcq_WorkspaceID r) (rcq_ProjectID r) @
     problem (rcq_Harness r = []) ''harness is required'' @
     page_problems (rcq_Offset r) (rcq_Limit r)"

definition validateSearchTicketsRequest :: "search_tickets_request \<Rightarrow> string list" where
  "validateSearchTicketsRequest r =
     scope_problems (st_WorkspaceID r) (st_ProjectID r) @
     problem (st_Query r = []) ''query is required'' @ page_problems (st_Offset r) (st_Limit r)"

record search_result =
  sr_Ticket :: ticket
  sr_MatchSources :: "string list"
  sr_Snippet :: string
  sr_Rank :: rat

record related_work_request =
  rw_TicketID :: "uuid option"
  rw_Offset :: int
  rw_Limit :: int

record related_work_result =
  rwr_Ticket :: ticket
  rwr_MatchSources :: "string list"
  rwr_AttemptIDs :: "uuid list"
  rwr_Snippet :: string
  rwr_Rank :: rat

definition validateRelatedWorkRequest :: "related_work_request \<Rightarrow> string list" where
  "validateRelatedWorkRequest r =
     problem (rw_TicketID r = None) ''ticket_id is required'' @
     page_problems (rw_Offset r) (rw_Limit r)"

definition trimRecommendationRequest :: "recommendation_request \<Rightarrow> recommendation_request" where
  "trimRecommendationRequest r =
     r\<lparr>rcq_Type := TrimSpace (rcq_Type r), rcq_Harness := TrimSpace (rcq_Harness r),
       rcq_Tags := slice_list (compactStrings (rcq_Tags r)),
       rcq_Capabilities := slice_list (compactStrings (rcq_Capabilities r))\<rparr>"

definition recommendParams :: "recommendation_request \<Rightarrow> recommend_tickets_params" where
  "recommendParams r =
     \<lparr>rtp_Offset = rcq_Offset r, rtp_Limit = search_limit (rcq_Limit r),
      rtp_WorkspaceID = rcq_WorkspaceID r, rtp_ProjectID = rcq_ProjectID r,
      rtp_TicketType = optionalText (rcq_Type r), rtp_Tags = Some (rcq_Tags r),
      rtp_Harness = rcq_Harness r, rtp_Capabilities = Some (rcq_Capabilities r)\<rparr>"

definition recommendationRowTicket :: "recommend_tickets_row \<Rightarrow> ticket" where
  "recommendationRowTicket row = ticket.truncate row"

definition searchRowTicket :: "search_tickets_row \<Rightarrow> ticket" where
  "searchRowTicket row = ticket.truncate row"

definition relatedRowTicket :: "search_related_tickets_row \<Rightarrow> ticket" where
  "relatedRowTicket row = ticket.truncate row"

definition RecommendTickets ::
  "pg_env \<Rightarrow> recommendation_request \<Rightarrow> recommendation_result list svc" where
  "RecommendTickets env req =
     (let r = trimRecommendationRequest req in
      svc_check (validateRecommendationRequest r)
        (svc_bind (svc_query (StoreError []) (RecommendTickets_stmt env (recommendParams r))) (\<lambda>rows.
         svc_return (map (\<lambda>row. \<lparr>rr_Ticket = recommendationRowTicket row,
           rr_Score = rtr_RecommendationScore row,
           rr_Reasons = rtr_RecommendationReasons row\<rparr>) rows))))"

definition SearchTickets :: "'q search_env \<Rightarrow> search_tickets_request \<Rightarrow> search_result list svc" where
  "SearchTickets se req =
     (let r = req\<lparr>st_Query := TrimSpace (st_Query req)\<rparr> in
      svc_check (validateSearchTicketsRequest r)
        (svc_bind (svc_read (SearchTickets_stmt se
          \<lparr>stp_WorkspaceID = st_WorkspaceID r, stp_ProjectID = st_ProjectID r,
           stp_Offset = st_Offset r, stp_Limit = search_limit (st_Limit r),
           stp_Query = st_Query r\<rparr>)) (\<lambda>rows.
         svc_return (map (\<lambda>row. \<lparr>sr_Ticket = searchRowTicket row,
           sr_MatchSources = swr_MatchSources row, sr_Snippet = swr_Snippet row,
           sr_Rank = swr_Rank row\<rparr>) rows))))"

definition RelatedWork :: "'q search_env \<Rightarrow> related_work_request \<Rightarrow> related_work_result list svc" where
  "RelatedWork se r =
     svc_check (validateRelatedWorkRequest r)
       (svc_bind (svc_query (\<lambda>e. if e = NoRows then ErrTicketNotFound else StoreError [] e)
           (GetTicket_stmt (rw_TicketID r))) (\<lambda>_.
        svc_bind (svc_read (SearchRelatedTickets_stmt se
          \<lparr>srp_Offset = rw_Offset r, srp_Limit = search_limit (rw_Limit r),
           srp_TicketID = rw_TicketID r\<rparr>)) (\<lambda>rows.
        svc_return (map (\<lambda>row. \<lparr>rwr_Ticket = relatedRowTicket row,
           rwr_MatchSources = swr_MatchSources row, rwr_AttemptIDs = swr_AttemptIds row,
           rwr_Snippet = swr_Snippet row, rwr_Rank = swr_Rank row\<rparr>) rows))))"

end
