(* ===== verification/Search_Properties.thy ===== *)
theory Search_Properties
  imports Search_Service Lifecycle Forge_Sample
begin

text \<open>
  What the search service shows: the tickets recommended to a harness are those that a claim with
  the same filter would take; results stay in their scope, come in the order of their rank, and
  leave out the ticket that is asked about.
\<close>

section \<open>Pages and rows\<close>

lemma ticket_row [simp]: "ticket.truncate (ticket.extend t x) = t"
  by (simp add: ticket.defs)

lemma recommendation_row [simp]:
  "rtr_RecommendationScore (ticket.extend t (recommend_tickets_row.fields s rs)) = s"
  by (simp add: ticket.defs recommend_tickets_row.defs)

lemma search_limit_pos: "\<not> requested < 0 \<Longrightarrow> 1 \<le> search_limit requested"
  by (simp add: search_limit_def defaultSearchLimit_def maxSearchLimit_def)

lemma page_subset: "set (limit_rows n (offset_rows k rows)) \<subseteq> set rows"
  by (auto simp: limit_rows_def offset_rows_def dest!: in_set_takeD in_set_dropD)

lemma page_all:
  assumes "int (length (limit_rows n (offset_rows 0 rows))) < n"
  shows "limit_rows n (offset_rows 0 rows) = rows"
  using assms by (simp add: limit_rows_def offset_rows_def min_def split: if_splits)

lemma page_Nil_iff: "1 \<le> n \<Longrightarrow> limit_rows n (offset_rows 0 rows) = [] \<longleftrightarrow> rows = []"
  by (simp add: limit_rows_def offset_rows_def)

lemma page_sorted: "sorted_wrt R rows \<Longrightarrow> sorted_wrt R (limit_rows n (offset_rows k rows))"
  by (simp add: limit_rows_def offset_rows_def sorted_wrt_take sorted_wrt_drop)

lemma page_distinct: "distinct rows \<Longrightarrow> distinct (limit_rows n (offset_rows k rows))"
  by (simp add: limit_rows_def offset_rows_def)

lemma page_map: "limit_rows n (offset_rows k (map f rows)) = map f (limit_rows n (offset_rows k rows))"
  by (simp add: limit_rows_def offset_rows_def take_map drop_map)

lemma sorted_wrt_sort_key:
  "(\<And>a b. f a \<le> f b \<Longrightarrow> R a b) \<Longrightarrow> sorted_wrt R (sort_key f rows)"
  using sorted_sort_key [of f rows] by (simp add: sorted_map sorted_wrt_mono_rel [where P = "\<lambda>a b. f a \<le> f b"])

section \<open>A concrete installation\<close>

text \<open>Two open tickets, and a search for tickets that contain the query.\<close>

definition sample_two :: db where
  "sample_two = sample_db\<lparr>tickets := [sample_ticket_row ''todo'',
     (sample_ticket_row ''todo'')\<lparr>tk_ID := 101, tk_Title := ''other'', tk_Priority := 1\<rparr>]\<rparr>"

definition sample_search_env :: "string search_env" where
  "sample_search_env =
     \<lparr>fts_websearch = (\<lambda>s. s), fts_lexemes = map (\<lambda>c. [c]), fts_plain = (\<lambda>s. s),
      fts_tsquery = (\<lambda>s. take 1 (drop 4 s)),
      fts_matches = (\<lambda>s q. list_ex (\<lambda>k. take (length q) (drop k s) = q) [0..<length s]),
      fts_rank = (\<lambda>s q. of_nat (length q)), fts_json_text = (\<lambda>j. []), fts_left = take,
      fts_text_sort = (\<lambda>ss. ss)\<rparr>"

definition sample_search :: search_tickets_request where
  "sample_search =
     \<lparr>st_WorkspaceID = Some 1, st_ProjectID = Some 2, st_Query = '' the '', st_Offset = 0,
      st_Limit = 0\<rparr>"

definition sample_related :: related_work_request where
  "sample_related = \<lparr>rw_TicketID = Some 101, rw_Offset = 0, rw_Limit = 0\<rparr>"

definition sample_recommendation :: recommendation_request where
  "sample_recommendation =
     \<lparr>rcq_WorkspaceID = Some 1, rcq_ProjectID = Some 2, rcq_Type = [], rcq_Tags = [],
      rcq_Harness = ''h'', rcq_Capabilities = [], rcq_Offset = 0, rcq_Limit = 0\<rparr>"

section \<open>Recommendations\<close>

definition same_filter :: "recommendation_request \<Rightarrow> claim_next_request \<Rightarrow> bool" where
  "same_filter r c \<longleftrightarrow>
     cq_WorkspaceID c = rcq_WorkspaceID r \<and> cq_ProjectID c = rcq_ProjectID r \<and>
     cq_Type c = rcq_Type r \<and> slice_list (cq_Tags c) = rcq_Tags r \<and>
     cq_Harness c = rcq_Harness r \<and> slice_list (cq_Capabilities c) = rcq_Capabilities r"

lemma recommendable_claimable:
  assumes "same_filter r c"
  shows "recommendable (recommendParams (trimRecommendationRequest r)) d t =
    claimable (claimParams now (trimClaimNextRequest c) h) d t"
  using assms
  by (simp add: recommendable_def claimable_def recommend_matches_def claim_matches_def
      same_filter_def recommendParams_def claimParams_def trimRecommendationRequest_def
      trimClaimNextRequest_def)

lemma RecommendTickets_InrD:
  assumes "RecommendTickets env req d = (Inr rs, d')"
  defines "p \<equiv> recommendParams (trimRecommendationRequest req)"
  obtains rows where "d' = d" "plan_casts env (tickets d) = Inr ()"
    "filter_rows (recommendable p d) (tickets d) = Inr rows"
    "map rr_Ticket rs =
       limit_rows (rtp_Limit p) (offset_rows (rtp_Offset p) (sort_key (recommendation_order d) rows))"
    "map rr_Score rs = map (recommendation_score d) (map rr_Ticket rs)"
proof -
  from assms(1) have v: "validateRecommendationRequest (trimRecommendationRequest req) = []"
    by (auto simp: RecommendTickets_def svc_check_def svc_fail_def Let_def split: if_splits)
  with assms(1) obtain rows where "d' = d" "plan_casts env (tickets d) = Inr ()"
    "filter_rows (recommendable p d) (tickets d) = Inr rows"
    "map rr_Ticket rs =
       limit_rows (rtp_Limit p) (offset_rows (rtp_Offset p) (sort_key (recommendation_order d) rows))"
    "map rr_Score rs = map (recommendation_score d) (map rr_Ticket rs)"
    by (auto simp: RecommendTickets_def svc_check_def Let_def svc_bind_def svc_query_def
        svc_return_def RecommendTickets_stmt_def and_then_Inr_iff recommendationRowTicket_def
        p_def comp_def split: sum.splits)
  then show thesis using that by blast
qed

text \<open>The cut of a result that a page shows.\<close>

definition page_of :: "int \<Rightarrow> int \<Rightarrow> 'r list \<Rightarrow> 'r list" where
  "page_of offset n rows = take (nat n) (drop (nat offset) rows)"

text \<open>C30. Recommendation and claim agree. There is a list of exactly the tickets that a claim with
  the same filter can take, each once, the best score first and by priority among equals, and a
  successful request returns the page of this list that its offset and limit ask for, with the
  scores. The list is empty exactly when that claim, on tickets that nobody has locked and with the
  policies it reads well formed, finds nothing. Asking changes nothing.\<close>

theorem recommended_are_claimable:
  fixes now h creq
  defines "P \<equiv> claimParams now (trimClaimNextRequest creq) h"
  assumes "RecommendTickets env req d = (Inr rs, d')" and "same_filter req creq"
  shows "d' = d \<and>
    (\<exists>ts. mset ts = mset (filter (\<lambda>t. claimable P d t = Inr True) (tickets d)) \<and>
       sorted_wrt (\<lambda>a b. recommendation_score d b < recommendation_score d a \<or>
         recommendation_score d b = recommendation_score d a \<and> tk_Priority a \<le> tk_Priority b) ts \<and>
       map rr_Ticket rs = page_of (rcq_Offset req) (search_limit (rcq_Limit req)) ts \<and>
       map rr_Score rs = map (recommendation_score d) (map rr_Ticket rs) \<and>
       (\<forall>env'. casts_succeed env' P d \<longrightarrow>
          (ts = [] \<longleftrightarrow> claim_candidate env' [] P d = Inl NoRows)))"
proof -
  define p where "p = recommendParams (trimRecommendationRequest req)"
  have same: "recommendable p d = claimable P d"
    unfolding p_def P_def by (rule ext) (rule recommendable_claimable [OF assms(3)])
  have o: "rtp_Offset p = rcq_Offset req" "rtp_Limit p = search_limit (rcq_Limit req)"
    by (simp_all add: p_def recommendParams_def trimRecommendationRequest_def)
  from assms(2) obtain rows where r: "d' = d" "filter_rows (claimable P d) (tickets d) = Inr rows"
    "map rr_Ticket rs = limit_rows (search_limit (rcq_Limit req))
       (offset_rows (rcq_Offset req) (sort_key (recommendation_order d) rows))"
    "map rr_Score rs = map (recommendation_score d) (map rr_Ticket rs)"
    by (rule RecommendTickets_InrD) (simp add: same o p_def [symmetric])
  let ?ts = "sort_key (recommendation_order d) rows"
  have rows: "rows = filter (\<lambda>t. claimable P d t = Inr True) (tickets d)"
    using r(2) by (simp add: filter_rows_Inr_iff)
  have "sorted_wrt (\<lambda>a b. recommendation_score d b < recommendation_score d a \<or>
      recommendation_score d b = recommendation_score d a \<and> tk_Priority a \<le> tk_Priority b) ?ts"
    by (intro sorted_wrt_sort_key) (auto simp: recommendation_order_def)
  moreover have "?ts = [] \<longleftrightarrow> claim_candidate env' [] P d = Inl NoRows"
    if "casts_succeed env' P d" for env'
    using claim_candidate_NoRows_iff [OF that, of "[]"]
    by (auto simp: rows filter_empty_conv simp flip: set_empty)
  moreover have "mset ?ts = mset (filter (\<lambda>t. claimable P d t = Inr True) (tickets d))"
    by (simp add: rows)
  ultimately show ?thesis
    using r(1,3,4) by (intro conjI exI [of _ ?ts]) (simp_all add: page_of_def limit_rows_def offset_rows_def)
qed

theorem recommended_are_claimable_witness:
  "\<exists>rs. RecommendTickets sample_env (sample_recommendation\<lparr>rcq_Offset := 1\<rparr>) sample_two =
      (Inr rs, sample_two) \<and>
    map (tk_ID \<circ> rr_Ticket) rs = [100] \<and>
    (\<forall>r \<in> set rs. claimable (claimParams 5 (trimClaimNextRequest sample_claim) ''h'') sample_two
       (rr_Ticket r) = Inr True)"
proof -
  let ?req = "sample_recommendation\<lparr>rcq_Offset := 1\<rparr>"
  let ?P = "claimParams 5 (trimClaimNextRequest sample_claim) ''h''"
  have "(\<lambda>(r, d). (map_sum id (map (tk_ID \<circ> rr_Ticket)) r, d))
      (RecommendTickets sample_env ?req sample_two) = (Inr [100], sample_two)"
    by code_simp
  then obtain rs where rs: "RecommendTickets sample_env ?req sample_two = (Inr rs, sample_two)"
    "map (tk_ID \<circ> rr_Ticket) rs = [100]"
    by (cases "RecommendTickets sample_env ?req sample_two"; cases "fst (RecommendTickets
      sample_env ?req sample_two)") auto
  have same: "same_filter ?req sample_claim"
    by code_simp
  from recommended_are_claimable [OF rs(1) same, of 5 "''h''"] obtain ts where
    ts: "mset ts = mset (filter (\<lambda>t. claimable ?P sample_two t = Inr True) (tickets sample_two))"
    "map rr_Ticket rs = page_of (rcq_Offset ?req) (search_limit (rcq_Limit ?req)) ts"
    by blast
  have "rr_Ticket r \<in> set ts" if "r \<in> set rs" for r
  proof -
    have "rr_Ticket r \<in> set (map rr_Ticket rs)" using that by simp
    then show ?thesis
      unfolding ts(2) page_of_def by (blast dest: in_set_takeD in_set_dropD)
  qed
  then show ?thesis
    using rs mset_eq_setD [OF ts(1)] by (intro exI [of _ rs]) auto
qed

section \<open>Search\<close>

lemma search_group_ticket [simp]:
  "ticket.truncate (search_tickets_row.truncate (search_group se ms t)) = t"
  "ticket.truncate (search_group se ms t) = t"
  by (simp_all add: search_group_def Let_def ticket.defs search_tickets_row.defs
      search_related_tickets_row.defs)

lemma search_group_rank [simp]:
  "swr_Rank (search_tickets_row.truncate (search_group se ms t)) = swr_Rank (search_group se ms t)"
  "swr_Rank (search_group se ms t) = Max (sm_Rank ` {m \<in> set ms. sm_TicketID m = tk_ID t})"
  by (simp_all add: search_group_def Let_def ticket.defs search_tickets_row.defs
      search_related_tickets_row.defs)

definition has_match :: "search_match list \<Rightarrow> ticket \<Rightarrow> bool" where
  "has_match ms t \<longleftrightarrow> (\<exists>m \<in> set ms. sm_TicketID m = tk_ID t)"

definition best_rank :: "search_match list \<Rightarrow> ticket \<Rightarrow> rat" where
  "best_rank ms t = Max (sm_Rank ` {m \<in> set ms. sm_TicketID m = tk_ID t})"

text \<open>A page of results: tickets with a match, each once, the best of its ranks first.\<close>

lemma search_page_tickets:
  fixes ms ts k n se
  defines "page \<equiv> map ticket.truncate (search_page se ms ts k n)"
  shows "\<forall>t \<in> set page. t \<in> set ts \<and> has_match ms t"
    and "map swr_Rank (search_page se ms ts k n) = map (best_rank ms) page"
    and "sorted_wrt (\<lambda>a b. best_rank ms b \<le> best_rank ms a) page"
    and "distinct ts \<Longrightarrow> distinct page"
    and "\<exists>all. mset all = mset (filter (has_match ms) ts) \<and>
      sorted_wrt (\<lambda>a b. best_rank ms b \<le> best_rank ms a) all \<and> page = page_of k n all"
proof -
  define groups where "groups = map (search_group se ms) (filter (has_match ms) ts)"
  have page: "search_page se ms ts k n = limit_rows n (offset_rows k (sort_key search_order groups))"
    by (simp add: search_page_def groups_def has_match_def [abs_def])
  have ranks: "swr_Rank r = best_rank ms (ticket.truncate r)" if "r \<in> set groups" for r
    using that by (auto simp: groups_def best_rank_def)
  have sub: "set (search_page se ms ts k n) \<subseteq> set groups"
    unfolding page using page_subset by fastforce
  then show "\<forall>t \<in> set page. t \<in> set ts \<and> has_match ms t"
    by (auto simp: page_def groups_def)
  show r: "map swr_Rank (search_page se ms ts k n) = map (best_rank ms) page"
    using sub ranks by (auto simp: page_def)
  have "sorted_wrt (\<lambda>a b. swr_Rank b \<le> swr_Rank a) (search_page se ms ts k n)"
    unfolding page by (intro page_sorted sorted_wrt_sort_key) (auto simp: search_order_def)
  then have "sorted_wrt (\<lambda>a b. b \<le> a) (map swr_Rank (search_page se ms ts k n))"
    by (simp add: sorted_wrt_map)
  then show "sorted_wrt (\<lambda>a b. best_rank ms b \<le> best_rank ms a) page"
    unfolding r by (simp add: sorted_wrt_map)
  have perm: "mset (map ticket.truncate (sort_key search_order groups)) = mset (filter (has_match ms) ts)"
    by (simp add: groups_def image_mset.compositionality comp_def)
  have all: "page = limit_rows n (offset_rows k (map ticket.truncate (sort_key search_order groups)))"
    by (simp add: page_def page page_map)
  show "distinct page" if "distinct ts"
    unfolding all
    by (intro page_distinct) (use perm that mset_eq_imp_distinct_iff in fastforce)
  have "sorted_wrt (\<lambda>a b. swr_Rank b \<le> swr_Rank a) (sort_key search_order groups)"
    by (intro sorted_wrt_sort_key) (auto simp: search_order_def)
  then have "sorted_wrt (\<lambda>a b. best_rank ms b \<le> best_rank ms a)
      (map ticket.truncate (sort_key search_order groups))"
    unfolding sorted_wrt_map by (rule sorted_wrt_mono_rel [rotated]) (simp add: ranks)
  with perm all show "\<exists>rows. mset rows = mset (filter (has_match ms) ts) \<and>
      sorted_wrt (\<lambda>a b. best_rank ms b \<le> best_rank ms a) rows \<and> page = page_of k n rows"
    by (intro exI [of _ "map ticket.truncate (sort_key search_order groups)"])
      (simp add: page_of_def limit_rows_def offset_rows_def)
qed

lemma SearchTickets_InrD:
  assumes "SearchTickets se req d = (Inr rs, d')"
  obtains "d' = d" "rs = map (\<lambda>row. \<lparr>sr_Ticket = searchRowTicket row,
      sr_MatchSources = swr_MatchSources row, sr_Snippet = swr_Snippet row,
      sr_Rank = swr_Rank row\<rparr>)
    (SearchTickets_stmt se \<lparr>stp_WorkspaceID = st_WorkspaceID req, stp_ProjectID = st_ProjectID req,
      stp_Offset = st_Offset req, stp_Limit = search_limit (st_Limit req),
      stp_Query = TrimSpace (st_Query req)\<rparr> d)"
  using assms
  by (auto simp: SearchTickets_def svc_check_def svc_fail_def Let_def svc_bind_def svc_read_def
      svc_return_def split: if_splits)

definition in_search_scope :: "search_tickets_request \<Rightarrow> ticket \<Rightarrow> bool" where
  "in_search_scope req t \<longleftrightarrow>
     Some (tk_WorkspaceID t) = st_WorkspaceID req \<and> Some (tk_ProjectID t) = st_ProjectID req"

text \<open>C31. A search is a page of a complete result. There is a list of exactly the tickets of the
  workspace and project asked for that have a match for the query in the ticket, its attempts,
  events or artifacts, each once and the best match first, and the search returns the page of this
  list that its offset and limit ask for, with the ranks. Searching changes nothing.\<close>

theorem search_results:
  fixes se req d
  defines "ms \<equiv> search_matches se (fts_websearch se (TrimSpace (st_Query req)))
    (st_WorkspaceID req) (st_ProjectID req) d"
  assumes "SearchTickets se req d = (Inr rs, d')"
  shows "d' = d \<and>
    (\<exists>ts. mset ts = mset (filter (\<lambda>t. in_search_scope req t \<and> has_match ms t) (tickets d)) \<and>
       sorted_wrt (\<lambda>a b. best_rank ms b \<le> best_rank ms a) ts \<and>
       map sr_Ticket rs = page_of (st_Offset req) (search_limit (st_Limit req)) ts) \<and>
    map sr_Rank rs = map (best_rank ms) (map sr_Ticket rs)"
proof -
  let ?scope = "filter (in_search_scope req) (tickets d)"
  let ?page = "search_page se ms ?scope (st_Offset req) (search_limit (st_Limit req))"
  from assms(2) have d: "d' = d" and rs: "map sr_Ticket rs = map ticket.truncate ?page"
    "map sr_Rank rs = map swr_Rank ?page"
    by (auto elim!: SearchTickets_InrD simp: SearchTickets_stmt_def ms_def searchRowTicket_def
        in_search_scope_def [abs_def] search_tickets_row.defs ticket.defs)
  note page = search_page_tickets [where se = se and ms = ms and ts = ?scope
      and k = "st_Offset req" and n = "search_limit (st_Limit req)", folded rs]
  from page(5) obtain ts where ts: "mset ts = mset (filter (has_match ms) ?scope)"
    "sorted_wrt (\<lambda>a b. best_rank ms b \<le> best_rank ms a) ts"
    "map sr_Ticket rs = page_of (st_Offset req) (search_limit (st_Limit req)) ts"
    by blast
  have "mset ts = mset (filter (\<lambda>t. in_search_scope req t \<and> has_match ms t) (tickets d))"
    using ts(1) by (simp add: filter_filter conj_commute)
  then show ?thesis
    using d page(2) ts(2,3) by (auto simp: rs(2))
qed

theorem search_results_witness:
  "\<exists>rs. SearchTickets sample_search_env sample_search sample_two = (Inr rs, sample_two) \<and>
    map (tk_ID \<circ> sr_Ticket) rs = [101] \<and>
    (\<forall>t \<in> set (map sr_Ticket rs). in_search_scope sample_search t)"
proof -
  have "(\<lambda>(r, d). (map_sum id (map (tk_ID \<circ> sr_Ticket)) r, d))
      (SearchTickets sample_search_env sample_search sample_two) = (Inr [101], sample_two)"
    by code_simp
  then obtain rs where rs:
    "SearchTickets sample_search_env sample_search sample_two = (Inr rs, sample_two)"
    "map (tk_ID \<circ> sr_Ticket) rs = [101]"
    by (cases "SearchTickets sample_search_env sample_search sample_two"; cases "fst (SearchTickets
      sample_search_env sample_search sample_two)") auto
  from search_results [OF rs(1)] obtain ts where
    all: "mset ts = mset (filter (\<lambda>t. in_search_scope sample_search t \<and>
      has_match (search_matches sample_search_env
        (fts_websearch sample_search_env (TrimSpace (st_Query sample_search)))
        (st_WorkspaceID sample_search) (st_ProjectID sample_search) sample_two) t) (tickets sample_two))"
    and page: "map sr_Ticket rs =
      page_of (st_Offset sample_search) (search_limit (st_Limit sample_search)) ts"
    by blast
  have "\<forall>t \<in> set ts. in_search_scope sample_search t"
    using mset_eq_setD [OF all] by simp
  with page have "\<forall>t \<in> set (map sr_Ticket rs). in_search_scope sample_search t"
    by (auto simp: page_of_def dest!: in_set_takeD in_set_dropD)
  with rs show ?thesis
    by (intro exI [of _ rs] conjI)
qed

lemma find_row_filter:
  "find_row key k rows = Some t \<Longrightarrow> \<exists>rest. filter (\<lambda>r. key r = k) rows = t # rest"
  unfolding find_row_def by (induction rows) (auto split: if_splits)

lemma RelatedWork_InrD:
  assumes "RelatedWork se r d = (Inr rs, d')"
  obtains t rest where "d' = d" "filter (\<lambda>t. Some (tk_ID t) = rw_TicketID r) (tickets d) = t # rest"
    "map rwr_Ticket rs = map ticket.truncate (SearchRelatedTickets_stmt se
      \<lparr>srp_Offset = rw_Offset r, srp_Limit = search_limit (rw_Limit r),
       srp_TicketID = rw_TicketID r\<rparr> d)"
proof -
  from assms obtain k t where k: "rw_TicketID r = Some k" "find_row tk_ID k (tickets d) = Some t"
    and "d' = d" and "map rwr_Ticket rs = map ticket.truncate (SearchRelatedTickets_stmt se
      \<lparr>srp_Offset = rw_Offset r, srp_Limit = search_limit (rw_Limit r),
       srp_TicketID = rw_TicketID r\<rparr> d)"
    by (auto simp: RelatedWork_def svc_check_Inr_iff svc_bind_Inr_iff svc_query_Inr_iff
        svc_read_iff svc_return_iff GetTicket_stmt_Inr_iff relatedRowTicket_def comp_def)
  with find_row_filter [OF k(2)] show thesis
    using that by auto
qed

text \<open>Related work is other work: every ticket returned for a ticket has another identifier, is in
  the same workspace and project, and is in the database, which is left as it was.\<close>

theorem related_work_is_other:
  assumes "RelatedWork se r d = (Inr rs, d')"
  shows "d' = d \<and> (\<exists>t \<in> set (tickets d). rw_TicketID r = Some (tk_ID t) \<and>
    (\<forall>u \<in> set (map rwr_Ticket rs). u \<in> set (tickets d) \<and> tk_ID u \<noteq> tk_ID t \<and>
       tk_WorkspaceID u = tk_WorkspaceID t \<and> tk_ProjectID u = tk_ProjectID t))"
proof -
  from assms obtain t rest where r: "d' = d"
    "filter (\<lambda>t. Some (tk_ID t) = rw_TicketID r) (tickets d) = t # rest"
    "map rwr_Ticket rs = map ticket.truncate (SearchRelatedTickets_stmt se
      \<lparr>srp_Offset = rw_Offset r, srp_Limit = search_limit (rw_Limit r),
       srp_TicketID = rw_TicketID r\<rparr> d)"
    by (rule RelatedWork_InrD)
  have t: "t \<in> set (tickets d)" "rw_TicketID r = Some (tk_ID t)"
    using r(2) by (auto simp: filter_eq_Cons_iff)
  define ms where "ms = filter (\<lambda>m. sm_TicketID m \<noteq> tk_ID t)
    (search_matches se (related_query se t) (Some (tk_WorkspaceID t)) (Some (tk_ProjectID t)) d)"
  define others where "others = filter (\<lambda>u. tk_WorkspaceID u = tk_WorkspaceID t \<and>
    tk_ProjectID u = tk_ProjectID t \<and> tk_ID u \<noteq> tk_ID t) (tickets d)"
  have rs: "map rwr_Ticket rs = map ticket.truncate
      (search_page se ms others (rw_Offset r) (search_limit (rw_Limit r)))"
    by (simp add: r(2,3) SearchRelatedTickets_stmt_def ms_def others_def)
  have "u \<in> set others" if "u \<in> set (map rwr_Ticket rs)" for u
    using that search_page_tickets(1) unfolding rs by blast
  then show ?thesis
    using r(1) t unfolding others_def by auto
qed

theorem related_work_is_other_witness:
  "\<exists>rs. RelatedWork sample_search_env sample_related sample_two = (Inr rs, sample_two) \<and>
    map (tk_ID \<circ> rwr_Ticket) rs = [100] \<and>
    (\<forall>u \<in> set (map rwr_Ticket rs). u \<in> set (tickets sample_two))"
proof -
  let ?p = "\<lparr>srp_Offset = 0, srp_Limit = 25, srp_TicketID = Some 101\<rparr>"
  let ?rows = "SearchRelatedTickets_stmt sample_search_env ?p sample_two"
  have rows: "map (tk_ID \<circ> ticket.truncate) ?rows = [100]"
    by code_simp
  have "validateRelatedWorkRequest sample_related = []"
    by code_simp
  moreover have "\<exists>t. GetTicket_stmt (Some 101) sample_two = Inr t"
    by (rule exI [where x = "tickets sample_two ! 1"]) code_simp
  ultimately obtain rs where
    "RelatedWork sample_search_env sample_related sample_two = (Inr rs, sample_two)"
    "map rwr_Ticket rs = map ticket.truncate ?rows"
    by (auto simp: RelatedWork_def svc_check_def svc_bind_def svc_query_def svc_read_def
        svc_return_def sample_related_def search_limit_def defaultSearchLimit_def
        maxSearchLimit_def relatedRowTicket_def comp_def)
  with rows related_work_is_other [of sample_search_env sample_related sample_two rs sample_two]
  show ?thesis
    by (metis (no_types, lifting) map_map)
qed

end
