(* ===== verification/Cli_Payloads.thy ===== *)
theory Cli_Payloads
  imports Mcp_Payloads Search_Service
begin

text \<open>
  The JSON that the command line prints (internal/cli/cli.go). A \<open>map[string]any\<close> is an object
  with its members in the order of the source; a nil slice is printed as null. A number of a stored
  document is taken to be one that float64 holds.
\<close>

definition cli_ticketPayload :: "api_env \<Rightarrow> ticket \<Rightarrow> (string \<times> json) list" where
  "cli_ticketPayload ae t =
     [(''id'', uuid_json ae (tk_ID t)), (''title'', JStr (tk_Title t)), (''type'', JStr (tk_Type t)),
      (''status'', JStr (tk_Status t)), (''priority'', json_int (tk_Priority t)),
      (''created_by'', JStr (tk_CreatedBy t)), (''project_id'', uuid_json ae (tk_ProjectID t)),
      (''workspace_id'', uuid_json ae (tk_WorkspaceID t))]"

definition slice_json :: "string slice \<Rightarrow> json" where
  "slice_json v = (case v of None \<Rightarrow> JNull | Some ss \<Rightarrow> json_strings ss)"

definition optional_uuid_json :: "api_env \<Rightarrow> uuid option \<Rightarrow> json" where
  "optional_uuid_json ae i = JStr (uuidText ae i)"

definition proposedTicketPayload :: "api_env \<Rightarrow> proposed_ticket_triage_item \<Rightarrow> json" where
  "proposedTicketPayload ae item =
     JObj (cli_ticketPayload ae (ti_Ticket item) @
       [(''source_attempt_id'', optional_uuid_json ae (ti_SourceAttemptID item)),
        (''source_artifact_id'', optional_uuid_json ae (ti_SourceArtifactID item)),
        (''created_by_id'', JStr (ti_CreatedByID item)),
        (''creation_reason'', JStr (ti_CreationReason item)),
        (''acceptance_criteria'', json_strings (ti_AcceptanceCriteria item)),
        (''verification_commands'', slice_json (ti_VerificationCommands item)),
        (''relevant_paths'', json_strings (ti_RelevantPaths item))])"

definition workspacePayload :: "api_env \<Rightarrow> workspace \<Rightarrow> json" where
  "workspacePayload ae w = JObj [(''id'', uuid_json ae (ws_ID w)), (''name'', JStr (ws_Name w))]"

definition projectPayload :: "api_env \<Rightarrow> project \<Rightarrow> json" where
  "projectPayload ae p =
     JObj [(''id'', uuid_json ae (pj_ID p)), (''workspace_id'', uuid_json ae (pj_WorkspaceID p)),
           (''name'', JStr (pj_Name p))]"

definition webhookSubscriptionPayload :: "api_env \<Rightarrow> webhook_subscription \<Rightarrow> json" where
  "webhookSubscriptionPayload ae s =
     JObj [(''id'', uuid_json ae (wsub_ID s)), (''workspace_id'', uuid_json ae (wsub_WorkspaceID s)),
           (''project_id'', uuid_json ae (wsub_ProjectID s)),
           (''endpoint_url'', JStr (wsub_EndpointUrl s)),
           (''secret_set'', JBool (wsub_Secret s \<noteq> None \<and> wsub_Secret s \<noteq> Some [])),
           (''event_types'', json_strings (wsub_EventTypes s)),
           (''active'', JBool (wsub_Active s)), (''max_attempts'', json_int (wsub_MaxAttempts s)),
           (''description'', JStr (wsub_Description s))]"

definition textPayload :: "string option \<Rightarrow> json" where
  "textPayload v = (case v of None \<Rightarrow> JNull | Some s \<Rightarrow> JStr s)"

definition jsonValuePayload :: "json \<Rightarrow> json" where
  "jsonValuePayload v = (if v = JNull then JObj [] else v)"

definition checkpointContextPayload :: "api_env \<Rightarrow> attempt_checkpoint \<Rightarrow> json" where
  "checkpointContextPayload ae c =
     JObj [(''id'', uuid_json ae (cp_ID c)), (''attempt_id'', uuid_json ae (cp_AttemptID c)),
           (''ticket_id'', uuid_json ae (cp_TicketID c)), (''summary'', JStr (cp_Summary c)),
           (''next_step'', textPayload (cp_NextStep c)), (''risk'', textPayload (cp_Risk c))]"

definition cli_artifactPayload :: "api_env \<Rightarrow> artifact \<Rightarrow> json" where
  "cli_artifactPayload ae a =
     JObj [(''id'', uuid_json ae (ar_ID a)), (''ticket_id'', uuid_json ae (ar_TicketID a)),
           (''attempt_id'', optional_uuid_json ae (ar_AttemptID a)), (''type'', JStr (ar_Type a)),
           (''role'', JStr (ar_Role a)), (''name'', JStr (ar_Name a)), (''url'', JStr (ar_Url a)),
           (''storage_backend'', JStr (ar_StorageBackend a)),
           (''size_bytes'', json_int (ar_SizeBytes a)), (''mime_type'', JStr (ar_MimeType a))]"

text \<open>The bundle of a claim: its ticket and attempt are printed with more of their columns.\<close>

definition context_ticket :: "api_env \<Rightarrow> claim_context_bundle \<Rightarrow> json" where
  "context_ticket ae b =
     (let t = cb_Ticket b in
      JObj [(''id'', uuid_json ae (tk_ID t)), (''workspace_id'', uuid_json ae (tk_WorkspaceID t)),
            (''project_id'', uuid_json ae (tk_ProjectID t)), (''title'', JStr (tk_Title t)),
            (''description'', JStr (tk_Description t)), (''type'', JStr (tk_Type t)),
            (''status'', JStr (tk_Status t)), (''priority'', json_int (tk_Priority t)),
            (''tags'', json_strings (tk_Tags t)),
            (''acceptance_criteria'', json_strings (cb_AcceptanceCriteria b)),
            (''verification_commands'', slice_json (cb_VerificationCommands b)),
            (''expected_artifacts'', json_strings (cb_ExpectedArtifacts b)),
            (''relevant_paths'', json_strings (cb_RelevantPaths b)),
            (''required_tools'', json_strings (cb_RequiredTools b)),
            (''required_permissions'', json_strings (cb_RequiredPermissions b)),
            (''environment'', JObj (cb_Environment b)), (''input'', JObj (cb_Input b)),
            (''retry_policy'', jsonValuePayload (tk_RetryPolicy t)),
            (''created_by'', JStr (tk_CreatedBy t)),
            (''created_by_id'', textPayload (tk_CreatedByID t)),
            (''creation_reason'', textPayload (tk_CreationReason t))])"

definition context_attempt :: "api_env \<Rightarrow> attempt \<Rightarrow> json" where
  "context_attempt ae a =
     JObj [(''id'', uuid_json ae (at_ID a)), (''ticket_id'', uuid_json ae (at_TicketID a)),
           (''agent_id'', JStr (at_AgentID a)), (''harness'', JStr (at_Harness a)),
           (''model'', JStr (at_Model a)), (''status'', JStr (at_Status a)),
           (''progress_percent'', json_int (at_ProgressPercent a)),
           (''current_summary'', textPayload (at_CurrentSummary a)),
           (''next_step'', textPayload (at_NextStep a)),
           (''output'', jsonValuePayload (at_Output a))]"

definition cli_claimContextPayload :: "api_env \<Rightarrow> claim_context_bundle \<Rightarrow> json" where
  "cli_claimContextPayload ae b =
     JObj [(''ticket'', context_ticket ae b), (''attempt'', context_attempt ae (cb_Attempt b)),
           (''prior_attempts'', JArr (map (attemptPayload ae) (cb_PriorAttempts b))),
           (''checkpoints'', JArr (map (checkpointContextPayload ae) (cb_Checkpoints b))),
           (''artifacts'', JArr (map (cli_artifactPayload ae) (cb_Artifacts b)))]"

definition claimPayload :: "api_env \<Rightarrow> claim_next_result \<Rightarrow> json" where
  "claimPayload ae r =
     JObj [(''ticket'', JObj (cli_ticketPayload ae (cx_Ticket r))),
           (''attempt'', attemptPayload ae (cx_Attempt r)),
           (''context'', cli_claimContextPayload ae (cx_Context r)),
           (''ticket_id'', uuid_json ae (tk_ID (cx_Ticket r))),
           (''attempt_id'', uuid_json ae (at_ID (cx_Attempt r)))]"

definition checkpointPayload :: "api_env \<Rightarrow> checkpoint_result \<Rightarrow> json" where
  "checkpointPayload ae r =
     JObj [(''checkpoint_id'', uuid_json ae (cp_ID (ck_Checkpoint r))),
           (''attempt_id'', uuid_json ae (cp_AttemptID (ck_Checkpoint r))),
           (''summary'', JStr (cp_Summary (ck_Checkpoint r))),
           (''progress'', json_int (ck_ProgressPercent r))]"

definition recommendationPayload :: "api_env \<Rightarrow> recommendation_result \<Rightarrow> json" where
  "recommendationPayload ae r =
     JObj [(''ticket'', JObj (cli_ticketPayload ae (rr_Ticket r))), (''score'', json_int (rr_Score r)),
           (''reasons'', json_strings (rr_Reasons r))]"

text \<open>A float32, as the rank of a result is one: 24 significant bits.\<close>

definition f32 :: "rat \<Rightarrow> rat" where
  "f32 x =
     (if x = 0 then 0
      else let u = 2 powi (exponent \<bar>x\<bar> - 23) in sgn x * (of_int (round_even (\<bar>x\<bar> / u)) * u))"

definition json_float32 :: "rat \<Rightarrow> json" where
  "json_float32 x =
     (case find (\<lambda>s. f32 (of_int (round_even (x * 10 ^ s)) / 10 ^ s) = x) [0..<60] of
        Some s \<Rightarrow> JNum (round_even (x * 10 ^ s)) s | None \<Rightarrow> JNum 0 0)"

definition relatedWorkPayload :: "api_env \<Rightarrow> related_work_result \<Rightarrow> json" where
  "relatedWorkPayload ae r =
     JObj [(''ticket'', JObj (cli_ticketPayload ae (rwr_Ticket r))),
           (''match_sources'', json_strings (rwr_MatchSources r)),
           (''attempt_ids'', JArr (map (uuid_json ae) (rwr_AttemptIDs r))),
           (''snippet'', JStr (rwr_Snippet r)), (''rank'', json_float32 (rwr_Rank r))]"

text \<open>The last segment of a reference to a proof.\<close>

definition trim_right_slashes :: "string \<Rightarrow> string" where
  "trim_right_slashes s = rev (dropWhile (\<lambda>c. c = CHR ''/'') (rev s))"

definition proofName :: "string \<Rightarrow> string" where
  "proofName value0 =
     (let v = TrimSpace value0 in
      if v = [] then ''proof''
      else (let w = trim_right_slashes v; b = rev (takeWhile (\<lambda>c. c \<noteq> CHR ''/'') (rev w)) in
        if CHR ''/'' \<in> set w \<and> b \<noteq> [] then b else w))"

end
