(* ===== verification/Go_Flag.thy ===== *)
theory Go_Flag
  imports Configuration Go_Numbers Attempt_Store
begin

text \<open>
  Go's package \<open>flag\<close>, and what it and the command line need of \<open>strconv\<close> and \<open>time\<close>:
  \<open>ParseInt\<close> with the base taken from the prefix, and \<open>time.ParseDuration\<close>. A flag set is a list
  of names with what their values do to the variables \<open>'o\<close> that they are bound to.
\<close>

section \<open>Integers in any base\<close>

definition lower_char :: "char \<Rightarrow> char" where
  "lower_char c = char_of (of_char c OR (32 :: nat))"

definition alnum_value :: "char \<Rightarrow> int option" where
  "alnum_value c =
     (let k = of_char c :: int; l = of_char (lower_char c) :: int in
      if 48 \<le> k \<and> k \<le> 57 then Some (k - 48)
      else if 97 \<le> l \<and> l \<le> 122 then Some (l - 87)
      else None)"

text \<open>\<open>underscoreOK\<close>: what was seen before a character is the start, a digit, an underscore or
  something else.\<close>

datatype seen_char = SawStart | SawDigit | SawUnderscore | SawOther

fun underscores_ok :: "bool \<Rightarrow> seen_char \<Rightarrow> string \<Rightarrow> bool" where
  "underscores_ok hex saw [] \<longleftrightarrow> saw \<noteq> SawUnderscore"
| "underscores_ok hex saw (c # cs) \<longleftrightarrow>
     (if is_digit c \<or> (hex \<and> lower_char c \<in> set ''abcdef'') then underscores_ok hex SawDigit cs
      else if c = CHR ''_'' then saw = SawDigit \<and> underscores_ok hex SawUnderscore cs
      else saw \<noteq> SawUnderscore \<and> underscores_ok hex SawOther cs)"

definition base_prefix :: "string \<Rightarrow> bool" where
  "base_prefix s \<longleftrightarrow> (case s of z # b # _ \<Rightarrow> z = CHR ''0'' \<and> lower_char b \<in> set ''box'' | _ \<Rightarrow> False)"

definition underscoreOK :: "string \<Rightarrow> bool" where
  "underscoreOK s0 =
     (let s = (case s0 of c # cs \<Rightarrow> if c = CHR ''-'' \<or> c = CHR ''+'' then cs else s0 | [] \<Rightarrow> s0) in
      if base_prefix s then underscores_ok (lower_char (s ! 1) = CHR ''x'') SawDigit (drop 2 s)
      else underscores_ok False SawStart s)"

fun based_value :: "int \<Rightarrow> int \<Rightarrow> string \<Rightarrow> int option" where
  "based_value base acc [] = Some acc"
| "based_value base acc (c # cs) =
     (if c = CHR ''_'' then based_value base acc cs
      else (case alnum_value c of
          None \<Rightarrow> None
        | Some v \<Rightarrow> if base \<le> v then None
            else if 2 ^ 64 \<le> acc * base + v then None else based_value base (acc * base + v) cs))"

text \<open>\<open>ParseUint(s, 0, 64)\<close> and \<open>ParseInt(s, 0, 64)\<close>.\<close>

definition ParseUint0 :: "string \<Rightarrow> int option" where
  "ParseUint0 s =
     (case s of
        [] \<Rightarrow> None
      | c # cs \<Rightarrow>
          (let (base, digits) =
             (if c \<noteq> CHR ''0'' then (10, s)
              else if 3 \<le> length s \<and> lower_char (s ! 1) = CHR ''b'' then (2, drop 2 s)
              else if 3 \<le> length s \<and> lower_char (s ! 1) = CHR ''o'' then (8, drop 2 s)
              else if 3 \<le> length s \<and> lower_char (s ! 1) = CHR ''x'' then (16, drop 2 s)
              else (8, cs)) in
           case based_value base 0 digits of
             None \<Rightarrow> None
           | Some n \<Rightarrow> if CHR ''_'' \<in> set digits \<and> \<not> underscoreOK s then None else Some n))"

definition ParseInt0 :: "string \<Rightarrow> int option" where
  "ParseInt0 s0 =
     (case s0 of
        [] \<Rightarrow> None
      | c # cs \<Rightarrow>
          (let neg = (c = CHR ''-''); s = (if c = CHR ''-'' \<or> c = CHR ''+'' then cs else s0) in
           case ParseUint0 s of
             None \<Rightarrow> None
           | Some n \<Rightarrow>
               if \<not> neg \<and> 2 ^ 63 \<le> n then None
               else if neg \<and> 2 ^ 63 < n then None
               else Some (if neg then - n else n)))"

section \<open>Durations\<close>

definition unitMap :: "(string \<times> int) list" where
  "unitMap =
     [(''ns'', 1), (''us'', 1000), ([CHR 0xC2, CHR 0xB5, CHR ''s''], 1000),
      ([CHR 0xCE, CHR 0xBC, CHR ''s''], 1000), (''ms'', 1000000), (''s'', second),
      (''m'', minute), (''h'', hour)]"

text \<open>\<open>leadingInt\<close> fails on overflow; \<open>leadingFraction\<close> stops counting instead.\<close>

fun leadingInt :: "int \<Rightarrow> string \<Rightarrow> (int \<times> string) option" where
  "leadingInt x [] = Some (x, [])"
| "leadingInt x (c # cs) =
     (case digit_value c of
        None \<Rightarrow> Some (x, c # cs)
      | Some v \<Rightarrow> if 2 ^ 63 div 10 < x then None
          else if 2 ^ 63 < x * 10 + v then None else leadingInt (x * 10 + v) cs)"

fun leadingFraction :: "bool \<Rightarrow> int \<Rightarrow> rat \<Rightarrow> string \<Rightarrow> int \<times> rat \<times> string" where
  "leadingFraction over x scale [] = (x, scale, [])"
| "leadingFraction over x scale (c # cs) =
     (case digit_value c of
        None \<Rightarrow> (x, scale, c # cs)
      | Some v \<Rightarrow>
          if over \<or> (2 ^ 63 - 1) div 10 < x \<or> 2 ^ 63 < x * 10 + v
          then leadingFraction True x scale cs
          else leadingFraction False (x * 10 + v) (f64 (scale * 10)) cs)"

definition number_char :: "char \<Rightarrow> bool" where
  "number_char c \<longleftrightarrow> c = CHR ''.'' \<or> is_digit c"

text \<open>One number with its unit: its value in nanoseconds and the rest.\<close>

definition duration_part :: "string \<Rightarrow> (int \<times> string) option" where
  "duration_part s =
     (case leadingInt 0 s of
        None \<Rightarrow> None
      | Some (v, s1) \<Rightarrow>
          (let pre = (length s1 \<noteq> length s);
               dot = (s1 \<noteq> [] \<and> hd s1 = CHR ''.'');
               (f, scale, s2) = (if dot then leadingFraction False 0 1 (tl s1) else (0, 1, s1));
               post = (dot \<and> length s2 \<noteq> length (tl s1));
               u = takeWhile (\<lambda>c. \<not> number_char c) s2;
               rest = dropWhile (\<lambda>c. \<not> number_char c) s2 in
           if \<not> pre \<and> \<not> post then None
           else if u = [] then None
           else (case map_of unitMap u of
               None \<Rightarrow> None
             | Some unit \<Rightarrow>
                 if 2 ^ 63 div unit < v then None
                 else (let w = v * unit +
                         (if 0 < f then \<lfloor>f64 (f64 (of_int f) * f64 (of_int unit / scale))\<rfloor> else 0) in
                   if 0 < f \<and> 2 ^ 63 < w then None else Some (w, rest)))))"

lemma leadingInt_length: "leadingInt x s = Some (v, s1) \<Longrightarrow> length s1 \<le> length s"
  by (induction x s rule: leadingInt.induct) (auto split: option.splits if_splits)

lemma leadingFraction_length: "leadingFraction over x scale s = (f, sc, s2) \<Longrightarrow> length s2 \<le> length s"
  by (induction over x scale s rule: leadingFraction.induct) (auto split: option.splits if_splits)

lemma duration_part_shorter:
  assumes "duration_part s = Some (v, rest)"
  shows "length rest < length s"
proof -
  from assms obtain v s1 where i: "leadingInt 0 s = Some (v, s1)"
    by (auto simp: duration_part_def split: option.splits)
  define dot where "dot \<longleftrightarrow> s1 \<noteq> [] \<and> hd s1 = CHR ''.''"
  obtain f scale s2 where f:
    "(if dot then leadingFraction False 0 1 (tl s1) else (0, 1, s1)) = (f, scale, s2)"
    by (cases "if dot then leadingFraction False 0 1 (tl s1) else (0, 1, s1)") auto
  have s2: "length s2 \<le> length s1"
    using f leadingFraction_length [of False 0 1 "tl s1" f scale s2]
    by (auto split: if_splits)
  from assms have u: "takeWhile (\<lambda>c. \<not> number_char c) s2 \<noteq> []"
    and rest: "rest = dropWhile (\<lambda>c. \<not> number_char c) s2"
    using i f by (auto simp: duration_part_def Let_def dot_def split: option.splits if_splits)
  have "length (takeWhile (\<lambda>c. \<not> number_char c) s2) + length rest = length s2"
    unfolding rest by (metis length_append takeWhile_dropWhile_id)
  moreover have "0 < length (takeWhile (\<lambda>c. \<not> number_char c) s2)"
    using u by simp
  ultimately show ?thesis
    using s2 leadingInt_length [OF i] by linarith
qed

text \<open>The sum of the parts; a sum of two parts of \<open>2 ^ 63\<close> wraps to zero.\<close>

function duration_sum :: "int \<Rightarrow> string \<Rightarrow> int option" where
  "duration_sum d s =
     (if s = [] then Some d
      else if \<not> number_char (hd s) then None
      else (case duration_part s of
          None \<Rightarrow> None
        | Some (v, rest) \<Rightarrow>
            if 2 ^ 63 < (d + v) mod 2 ^ 64 then None else duration_sum ((d + v) mod 2 ^ 64) rest))"
  by pat_completeness auto
termination
  by (relation "measure (\<lambda>(d, s). length s)") (auto dest: duration_part_shorter)

declare duration_sum.simps [simp del]

definition ParseDuration :: "string \<Rightarrow> duration option" where
  "ParseDuration s0 =
     (let neg = (s0 \<noteq> [] \<and> hd s0 = CHR ''-'');
          s = (if s0 \<noteq> [] \<and> (hd s0 = CHR ''-'' \<or> hd s0 = CHR ''+'') then tl s0 else s0) in
      if s = ''0'' then Some 0
      else if s = [] then None
      else (case duration_sum 0 s of
          None \<Rightarrow> None
        | Some d \<Rightarrow> if neg then Some (- d) else if 2 ^ 63 \<le> d then None else Some d))"

section \<open>Flag sets\<close>

datatype 'o flag_kind =
    StringVar "string \<Rightarrow> 'o \<Rightarrow> 'o"
  | IntVar "int \<Rightarrow> 'o \<Rightarrow> 'o"
  | FloatVar "float64 \<Rightarrow> 'o \<Rightarrow> 'o"
  | BoolVar "bool \<Rightarrow> 'o \<Rightarrow> 'o"

type_synonym 'o flag_set = "(string \<times> 'o flag_kind) list"

datatype flag_error =
    ErrHelp
  | BadSyntax string
  | NotDefined string
  | NeedsArgument string
  | InvalidValue string string

fun is_bool_flag :: "'o flag_kind \<Rightarrow> bool" where
  "is_bool_flag (BoolVar f) = True"
| "is_bool_flag _ = False"

text \<open>\<open>Value.Set\<close>; \<open>pf\<close> is \<open>strconv.ParseFloat\<close>.\<close>

fun flag_Set :: "(string \<Rightarrow> float64 option) \<Rightarrow> 'o flag_kind \<Rightarrow> string \<Rightarrow> 'o \<Rightarrow> 'o option" where
  "flag_Set pf (StringVar f) v vars = Some (f v vars)"
| "flag_Set pf (IntVar f) v vars = map_option (\<lambda>n. f n vars) (ParseInt0 v)"
| "flag_Set pf (FloatVar f) v vars = map_option (\<lambda>x. f x vars) (pf v)"
| "flag_Set pf (BoolVar f) v vars = map_option (\<lambda>b. f b vars) (ParseBool v)"

text \<open>What an argument is: not a flag, the terminator, malformed, or a flag with its own value.\<close>

datatype flag_arg = NotFlag | Terminator | Malformed | FlagArg string "string option"

definition cut_value :: "string \<Rightarrow> string \<times> string option" where
  "cut_value name =
     (let n = takeWhile (\<lambda>c. c \<noteq> CHR ''='') (tl name) in
      if length n = length (tl name) then (name, None)
      else (hd name # n, Some (drop (length n + 2) name)))"

definition flag_arg :: "string \<Rightarrow> flag_arg" where
  "flag_arg s =
     (if length s < 2 \<or> hd s \<noteq> CHR ''-'' then NotFlag
      else if s = ''--'' then Terminator
      else (let name = (if s ! 1 = CHR ''-'' then drop 2 s else drop 1 s) in
        if name = [] \<or> hd name = CHR ''-'' \<or> hd name = CHR ''='' then Malformed
        else (case cut_value name of (n, v) \<Rightarrow> FlagArg n v)))"

text \<open>\<open>FlagSet.Parse\<close>: the variables, the flags that were set, and the arguments that are left.\<close>

fun flag_Parse ::
  "(string \<Rightarrow> float64 option) \<Rightarrow> 'o flag_set \<Rightarrow> 'o \<Rightarrow> string list \<Rightarrow> string list \<Rightarrow>
   flag_error + ('o \<times> string list \<times> string list)" where
  "flag_Parse pf fs vars seen [] = Inr (vars, seen, [])"
| "flag_Parse pf fs vars seen (s # args) =
     (case flag_arg s of
        NotFlag \<Rightarrow> Inr (vars, seen, s # args)
      | Terminator \<Rightarrow> Inr (vars, seen, args)
      | Malformed \<Rightarrow> Inl (BadSyntax s)
      | FlagArg name value \<Rightarrow>
          (case map_of fs name of
             None \<Rightarrow> Inl (if name = ''help'' \<or> name = ''h'' then ErrHelp else NotDefined name)
           | Some kind \<Rightarrow>
               (if is_bool_flag kind \<or> value \<noteq> None then
                  (let v = (case value of None \<Rightarrow> ''true'' | Some v \<Rightarrow> v) in
                   case flag_Set pf kind v vars of
                     None \<Rightarrow> Inl (InvalidValue v name)
                   | Some vars' \<Rightarrow> flag_Parse pf fs vars' (seen @ [name]) args)
                else
                  (case args of
                     [] \<Rightarrow> Inl (NeedsArgument name)
                   | v # rest \<Rightarrow>
                       (case flag_Set pf kind v vars of
                          None \<Rightarrow> Inl (InvalidValue v name)
                        | Some vars' \<Rightarrow> flag_Parse pf fs vars' (seen @ [name]) rest)))))"

end
