(* ===== verification/Cli_Commands.thy ===== *)
theory Cli_Commands
  imports Cli_Payloads Go_Flag Ticket_Templates
begin

text \<open>
  internal/cli/cli.go: the commands that run one operation of the runtime. A command parses its
  flags, opens the runtime, calls it and prints JSON; its result is the exit code with what it
  printed. The local variables and the option structs of the commands are the record \<open>cli_vars\<close>, of
  which each command binds its own flags. The database behind the runtime, the local artifact root
  and the bucket are the state.
\<close>

section \<open>The environment\<close>

record 's cli_world =
  cw_db :: db
  cw_files :: root_fs
  cw_bucket :: 's

datatype stat_outcome = NotExist | StatFailed string | Found file_info

text \<open>
  \<open>cl_pool\<close> is the outcome of connecting to a database, \<open>cl_client\<close> of creating the S3 client,
  \<open>cl_put\<close> and \<open>cl_del\<close> are its operations, \<open>cl_stat\<close> is \<open>os.Stat\<close>, \<open>cl_storage n\<close> what the system
  supplies to the n-th file that is stored, \<open>cl_cleanup\<close> to removals, and \<open>cl_float\<close> is \<open>strconv.ParseFloat\<close>.
\<close>

record ('k, 'q, 's) cli_env =
  cl_api :: api_env
  cl_pg :: pg_env
  cl_collate :: "string \<Rightarrow> 'k"
  cl_time :: "timestamp \<Rightarrow> string"
  cl_trunc :: "string \<Rightarrow> timestamp \<Rightarrow> timestamp"
  cl_search :: "'q search_env"
  cl_config :: config_env
  cl_pool :: "string \<Rightarrow> string option"
  cl_client :: "config \<Rightarrow> string option"
  cl_put :: "string \<Rightarrow> string \<Rightarrow> string \<Rightarrow> nat \<Rightarrow> string \<Rightarrow> 's \<Rightarrow> string option \<times> 's"
  cl_del :: "string \<Rightarrow> string \<Rightarrow> 's \<Rightarrow> string option \<times> 's"
  cl_stat :: "string \<Rightarrow> stat_outcome"
  cl_storage :: "nat \<Rightarrow> storage_env"
  cl_cleanup :: storage_env
  cl_float :: "string \<Rightarrow> float64 option"

section \<open>Results\<close>

text \<open>Why a proof could not be stored: the argument was wrong, the system failed, or there is no such
  attempt.\<close>

datatype proof_failure =
    ProofArgument string
  | ProofFailed string
  | AttemptLookup svc_error

datatype cli_error =
    FlagError flag_error
  | ArgumentError string string
  | ConfigurationError string config_error
  | ProcessConfigError string string
  | OpenError string string
  | CommandError string svc_error
  | ArtifactError string proof_failure
  | CleanupWarning string
  | UnknownCommand string string
  | UsageError string

datatype cli_output =
    NoOutput
  | HelpText string
  | JsonLine json
  | SummaryText analytics_summary
  | GroupsText string "analytics_group list"
  | TrendsText "analytics_trend list"
  | VersionText
  | ProcessText string

record cli_result =
  res_Code :: int
  res_Output :: cli_output
  res_Errors :: "cli_error list"

type_synonym 's cli = "'s cli_world \<Rightarrow> cli_result \<times> 's cli_world"

definition cli_exit :: "int \<Rightarrow> cli_error list \<Rightarrow> 's cli" where
  "cli_exit code es w = (\<lparr>res_Code = code, res_Output = NoOutput, res_Errors = es\<rparr>, w)"

definition cli_usage :: "cli_error \<Rightarrow> 's cli" where "cli_usage e = cli_exit 2 [e]"
definition cli_failed :: "cli_error \<Rightarrow> 's cli" where "cli_failed e = cli_exit 1 [e]"

definition cli_print :: "cli_output \<Rightarrow> 's cli" where
  "cli_print out w = (\<lparr>res_Code = 0, res_Output = out, res_Errors = []\<rparr>, w)"

abbreviation cli_json :: "json \<Rightarrow> 's cli" where "cli_json j \<equiv> cli_print (JsonLine j)"

text \<open>Running an operation of the runtime on the database.\<close>

definition cli_call :: "string \<Rightarrow> 'a svc \<Rightarrow> ('a \<Rightarrow> 's cli) \<Rightarrow> 's cli" where
  "cli_call label m f w =
     (case m (cw_db w) of
        (Inl e, d') \<Rightarrow> cli_failed (CommandError label e) (w\<lparr>cw_db := d'\<rparr>)
      | (Inr a, d') \<Rightarrow> f a (w\<lparr>cw_db := d'\<rparr>))"

definition with_argument :: "string \<Rightarrow> string + 'a \<Rightarrow> ('a \<Rightarrow> 's cli) \<Rightarrow> 's cli" where
  "with_argument label r f =
     (case r of Inl msg \<Rightarrow> cli_usage (ArgumentError label msg) | Inr a \<Rightarrow> f a)"

definition with_flags ::
  "('k, 'q, 's) cli_env \<Rightarrow> 'o flag_set \<Rightarrow> 'o \<Rightarrow> string list \<Rightarrow>
   ('o \<Rightarrow> string list \<Rightarrow> string list \<Rightarrow> 's cli) \<Rightarrow> 's cli" where
  "with_flags ce fs defaults args f =
     (case flag_Parse (cl_float ce) fs defaults [] args of
        Inl e \<Rightarrow> cli_usage (FlagError e) | Inr (v, seen, rest) \<Rightarrow> f v seen rest)"

section \<open>Opening the runtime\<close>

record runtime_handle =
  rh_LocalRoot :: string
  rh_S3 :: "s3_store option"

definition NewWithConfig :: "('k, 'q, 's) cli_env \<Rightarrow> config \<Rightarrow> string + runtime_handle" where
  "NewWithConfig ce cfg =
     (case ValidateArtifactStorage (cl_config ce) cfg of
        Some msg \<Rightarrow> Inl msg
      | None \<Rightarrow>
          and_then
            (if ce_fold (ap_claim (cl_api ce)) (TrimSpace (ArtifactBackend cfg)) BackendS3
             then (case cl_client ce cfg of
                 Some msg \<Rightarrow> Inl msg
               | None \<Rightarrow> (case NewS3Store True (S3Bucket cfg) (S3Prefix cfg) of
                     Inl msg \<Rightarrow> Inl (''configure s3 artifact store: '' @ msg)
                   | Inr s \<Rightarrow> Inr (Some s)))
             else Inr None) (\<lambda>s3.
          case NewWebhookDestinationPolicy (ce_ToLower (cl_config ce)) (WebhookAllowedHosts cfg)
              (WebhookAllowedCIDRs cfg) of
            Inl e \<Rightarrow> Inl ''configure webhook destination policy''
          | Inr policy \<Rightarrow>
              Inr \<lparr>rh_LocalRoot = (if ArtifactRoot cfg = [] then defaultArtifactRoot
                     else ArtifactRoot cfg), rh_S3 = s3\<rparr>))"

definition open_runtime :: "('k, 'q, 's) cli_env \<Rightarrow> config \<Rightarrow> string + runtime_handle" where
  "open_runtime ce cfg =
     (case cl_pool ce (DatabaseURL cfg) of
        Some msg \<Rightarrow> Inl msg | None \<Rightarrow> NewWithConfig ce cfg)"

definition openCommandRuntime ::
  "('k, 'q, 's) cli_env \<Rightarrow> string \<Rightarrow> string \<Rightarrow> (runtime_handle \<Rightarrow> 's cli) \<Rightarrow> 's cli" where
  "openCommandRuntime ce commandName configPath f =
     (case Load (cl_config ce) configPath of
        Inl e \<Rightarrow> cli_failed (ConfigurationError commandName e)
      | Inr cfg \<Rightarrow>
          (case open_runtime ce cfg of
             Inl msg \<Rightarrow> cli_failed (OpenError commandName msg)
           | Inr rt \<Rightarrow> f rt))"

section \<open>Flags\<close>

record create_ticket_flags =
  cf_WorkspaceID :: string
  cf_ProjectID :: string
  cf_Title :: string
  cf_Description :: string
  cf_Type :: string
  cf_Priority :: int
  cf_Tags :: "string list"
  cf_Acceptance :: "string list"
  cf_Verify :: "string list"
  cf_CreatedBy :: string
  cf_CreatedByID :: string
  cf_Reason :: string
  cf_Enqueue :: bool

record attempt_metrics_flags =
  mf_TokensIn :: int
  mf_TokensOut :: int
  mf_CostUSD :: float64
  mf_Duration :: string
  mf_Retries :: int

record codex_proof_flags =
  pf_WorkspaceID :: string
  pf_ProjectID :: string
  pf_Proofs :: "string list"
  pf_ProofType :: string
  pf_ProofRole :: string
  pf_MimeType :: string

record cli_vars =
  cv_ConfigPath :: string
  cv_JSON :: bool
  cv_Create :: create_ticket_flags
  cv_Metrics :: attempt_metrics_flags
  cv_Proof :: codex_proof_flags
  cv_WorkspaceID :: string
  cv_ProjectID :: string
  cv_TicketType :: string
  cv_Harness :: string
  cv_AgentID :: string
  cv_Model :: string
  cv_Lease :: string
  cv_IdempotencyKey :: string
  cv_Status :: string
  cv_Id :: string
  cv_Kind :: string
  cv_TicketID :: string
  cv_Name :: string
  cv_ActorType :: string
  cv_ActorID :: string
  cv_Reason :: string
  cv_AttemptID :: string
  cv_Summary :: string
  cv_NextStep :: string
  cv_Risk :: string
  cv_Category :: string
  cv_ArtifactType :: string
  cv_Role :: string
  cv_URL :: string
  cv_StorageBackend :: string
  cv_MimeType :: string
  cv_Bucket :: string
  cv_EndpointURL :: string
  cv_Secret :: string
  cv_EventTypes :: string
  cv_Description :: string
  cv_ArtifactID :: string
  cv_Title :: string
  cv_Tags :: "string list"
  cv_Capabilities :: "string list"
  cv_Files :: "string list"
  cv_Commands :: "string list"
  cv_Acceptance :: "string list"
  cv_Verify :: "string list"
  cv_Paths :: "string list"
  cv_Offset :: int
  cv_Limit :: int
  cv_Progress :: int
  cv_SizeBytes :: int
  cv_MaxAttempts :: int
  cv_All :: bool
  cv_Inactive :: bool

definition ArtifactTypeOther :: string where "ArtifactTypeOther = ''other''"
definition ArtifactRoleEvidence :: string where "ArtifactRoleEvidence = ''evidence''"

definition no_vars :: cli_vars where
  "no_vars =
     \<lparr>cv_ConfigPath = [], cv_JSON = False,
      cv_Create = \<lparr>cf_WorkspaceID = [], cf_ProjectID = [], cf_Title = [], cf_Description = [],
        cf_Type = [], cf_Priority = 2, cf_Tags = [], cf_Acceptance = [], cf_Verify = [],
        cf_CreatedBy = [], cf_CreatedByID = [], cf_Reason = [], cf_Enqueue = False\<rparr>,
      cv_Metrics = \<lparr>mf_TokensIn = 0, mf_TokensOut = 0, mf_CostUSD = F64 0 0, mf_Duration = [],
        mf_Retries = 0\<rparr>,
      cv_Proof = \<lparr>pf_WorkspaceID = [], pf_ProjectID = [], pf_Proofs = [],
        pf_ProofType = ArtifactTypeOther, pf_ProofRole = ArtifactRoleEvidence, pf_MimeType = []\<rparr>,
      cv_WorkspaceID = [], cv_ProjectID = [], cv_TicketType = [], cv_Harness = [],
      cv_AgentID = [], cv_Model = [], cv_Lease = [], cv_IdempotencyKey = [], cv_Status = [],
      cv_Id = [], cv_Kind = [], cv_TicketID = [], cv_Name = [], cv_ActorType = [],
      cv_ActorID = [], cv_Reason = [], cv_AttemptID = [], cv_Summary = [], cv_NextStep = [],
      cv_Risk = [], cv_Category = [], cv_ArtifactType = [], cv_Role = [], cv_URL = [],
      cv_StorageBackend = [], cv_MimeType = [], cv_Bucket = [], cv_EndpointURL = [],
      cv_Secret = [], cv_EventTypes = [], cv_Description = [], cv_ArtifactID = [], cv_Title = [],
      cv_Tags = [], cv_Capabilities = [], cv_Files = [], cv_Commands = [], cv_Acceptance = [],
      cv_Verify = [], cv_Paths = [], cv_Offset = 0, cv_Limit = 0, cv_Progress = 0,
      cv_SizeBytes = 0, cv_MaxAttempts = 0, cv_All = False, cv_Inactive = False\<rparr>"

text \<open>\<open>StringVar\<close> and the others bind a name to a variable; a \<open>stringList\<close> appends.\<close>

abbreviation string_flag :: "string \<Rightarrow> ((string \<Rightarrow> string) \<Rightarrow> 'o \<Rightarrow> 'o) \<Rightarrow> string \<times> 'o flag_kind" where
  "string_flag n upd \<equiv> (n, StringVar (\<lambda>v. upd (\<lambda>_. v)))"

abbreviation list_flag ::
  "string \<Rightarrow> ((string list \<Rightarrow> string list) \<Rightarrow> 'o \<Rightarrow> 'o) \<Rightarrow> string \<times> 'o flag_kind" where
  "list_flag n upd \<equiv> (n, StringVar (\<lambda>v. upd (\<lambda>l. l @ [v])))"

abbreviation int_flag :: "string \<Rightarrow> ((int \<Rightarrow> int) \<Rightarrow> 'o \<Rightarrow> 'o) \<Rightarrow> string \<times> 'o flag_kind" where
  "int_flag n upd \<equiv> (n, IntVar (\<lambda>v. upd (\<lambda>_. v)))"

abbreviation bool_flag :: "string \<Rightarrow> ((bool \<Rightarrow> bool) \<Rightarrow> 'o \<Rightarrow> 'o) \<Rightarrow> string \<times> 'o flag_kind" where
  "bool_flag n upd \<equiv> (n, BoolVar (\<lambda>v. upd (\<lambda>_. v)))"

definition command_flags :: "cli_vars flag_set" where
  "command_flags =
     [string_flag ''config'' cv_ConfigPath_update, bool_flag ''json'' cv_JSON_update]"

definition scope_flags :: "cli_vars flag_set" where
  "scope_flags =
     [string_flag ''workspace-id'' cv_WorkspaceID_update,
      string_flag ''workspace'' cv_WorkspaceID_update,
      string_flag ''project-id'' cv_ProjectID_update,
      string_flag ''project'' cv_ProjectID_update]"

definition page_flags :: "cli_vars flag_set" where
  "page_flags = [int_flag ''offset'' cv_Offset_update, int_flag ''limit'' cv_Limit_update]"

definition create_flags :: "cli_vars flag_set" where
  "create_flags =
     [string_flag ''workspace-id'' (\<lambda>f. cv_Create_update (cf_WorkspaceID_update f)),
      string_flag ''workspace'' (\<lambda>f. cv_Create_update (cf_WorkspaceID_update f)),
      string_flag ''project-id'' (\<lambda>f. cv_Create_update (cf_ProjectID_update f)),
      string_flag ''project'' (\<lambda>f. cv_Create_update (cf_ProjectID_update f)),
      string_flag ''title'' (\<lambda>f. cv_Create_update (cf_Title_update f)),
      string_flag ''description'' (\<lambda>f. cv_Create_update (cf_Description_update f)),
      string_flag ''type'' (\<lambda>f. cv_Create_update (cf_Type_update f)),
      int_flag ''priority'' (\<lambda>f. cv_Create_update (cf_Priority_update f)),
      list_flag ''tag'' (\<lambda>f. cv_Create_update (cf_Tags_update f)),
      list_flag ''acceptance'' (\<lambda>f. cv_Create_update (cf_Acceptance_update f)),
      list_flag ''verify'' (\<lambda>f. cv_Create_update (cf_Verify_update f)),
      string_flag ''created-by'' (\<lambda>f. cv_Create_update (cf_CreatedBy_update f)),
      string_flag ''created-by-id'' (\<lambda>f. cv_Create_update (cf_CreatedByID_update f)),
      string_flag ''reason'' (\<lambda>f. cv_Create_update (cf_Reason_update f)),
      bool_flag ''enqueue'' (\<lambda>f. cv_Create_update (cf_Enqueue_update f))]"

definition metrics_flags :: "cli_vars flag_set" where
  "metrics_flags =
     [int_flag ''tokens-in'' (\<lambda>f. cv_Metrics_update (mf_TokensIn_update f)),
      int_flag ''tokens-out'' (\<lambda>f. cv_Metrics_update (mf_TokensOut_update f)),
      (''cost-usd'', FloatVar (\<lambda>v. cv_Metrics_update (mf_CostUSD_update (\<lambda>_. v)))),
      string_flag ''duration'' (\<lambda>f. cv_Metrics_update (mf_Duration_update f)),
      int_flag ''retries'' (\<lambda>f. cv_Metrics_update (mf_Retries_update f))]"

text \<open>A \<open>time.Duration\<close> in seconds as a float64.\<close>

definition duration_Seconds :: "duration \<Rightarrow> float64" where
  "duration_Seconds d =
     (case shortest_decimal (f64 (f64 (of_int (d div second)) +
         f64 (f64 (of_int (d mod second)) / 10 ^ 9))) of (m, s) \<Rightarrow> F64 m s)"

fun negative_float :: "float64 \<Rightarrow> bool" where
  "negative_float (F64 m s) \<longleftrightarrow> m < 0"
| "negative_float (F64Inf neg) \<longleftrightarrow> True"
| "negative_float F64NaN \<longleftrightarrow> True"

definition MaxInt32 :: int where "MaxInt32 = 2 ^ 31 - 1"

definition metric_names :: "string list" where
  "metric_names = [''tokens-in'', ''tokens-out'', ''cost-usd'', ''duration'', ''retries'']"

definition metrics_request ::
  "attempt_metrics_flags \<Rightarrow> string list \<Rightarrow> string + attempt_metrics_request option" where
  "metrics_request f seen =
     (if set metric_names \<inter> set seen = {} then Inr None
      else if mf_TokensIn f < 0 then Inl ''--tokens-in must be non-negative''
      else if mf_TokensOut f < 0 then Inl ''--tokens-out must be non-negative''
      else if negative_float (mf_CostUSD f)
      then Inl ''--cost-usd must be a finite non-negative number''
      else if mf_Retries f < 0 \<or> MaxInt32 < mf_Retries f
      then Inl ''--retries must be between 0 and 2147483647''
      else and_then
        (if TrimSpace (mf_Duration f) = [] then Inr (F64 0 0)
         else (case ParseDuration (mf_Duration f) of
             None \<Rightarrow> Inl ''--duration must be a duration like 95s or 1m35s''
           | Some d \<Rightarrow> if d < 0 then Inl ''--duration must be non-negative''
               else Inr (duration_Seconds d))) (\<lambda>secs.
        Inr (Some \<lparr>mr_TokensIn = mf_TokensIn f, mr_TokensOut = mf_TokensOut f,
          mr_CostUSD = mf_CostUSD f, mr_DurationSeconds = secs,
          mr_RetryCount = int32 (mf_Retries f)\<rparr>)))"

section \<open>Identifiers\<close>

text \<open>\<open>mustUUID\<close> ignores the error of the parser.\<close>

definition mustUUID :: "api_env \<Rightarrow> string \<Rightarrow> uuid option" where
  "mustUUID ae v =
     (if v = [] then None else (case ap_scan ae v of Inl _ \<Rightarrow> None | Inr u \<Rightarrow> Some u))"

definition optionalUUID :: "api_env \<Rightarrow> string \<Rightarrow> string + uuid option" where
  "optionalUUID ae v0 =
     (let v = TrimSpace v0 in
      if v = [] then Inr None else and_then (ap_scan ae v) (\<lambda>u. Inr (Some u)))"

definition uuid_flag :: "api_env \<Rightarrow> string \<Rightarrow> string \<Rightarrow> string + uuid option" where
  "uuid_flag ae name v =
     (case optionalUUID ae v of
        Inl msg \<Rightarrow> Inl (name @ '' must be a UUID: '' @ msg) | Inr i \<Rightarrow> Inr i)"

definition requiredUUIDFlag :: "api_env \<Rightarrow> string \<Rightarrow> string \<Rightarrow> string + uuid option" where
  "requiredUUIDFlag ae name v =
     (if TrimSpace v = [] then Inl (name @ '' is required'') else uuid_flag ae name (TrimSpace v))"

definition analyticsFilterFromFlags :: "api_env \<Rightarrow> string \<Rightarrow> string \<Rightarrow> string + analytics_filter" where
  "analyticsFilterFromFlags ae workspaceID projectID =
     and_then (uuid_flag ae ''--workspace-id'' workspaceID) (\<lambda>w.
     and_then (uuid_flag ae ''--project-id'' projectID) (\<lambda>p.
     Inr \<lparr>af_WorkspaceID = w, af_ProjectID = p\<rparr>))"

text \<open>\<open>splitAttemptIDArg\<close>: the first argument that is no flag and no value of a flag; \<open>pre\<close> are the
  arguments before it.\<close>

definition trim_left_dashes :: "string \<Rightarrow> string" where
  "trim_left_dashes s = dropWhile (\<lambda>c. c = CHR ''-'') s"

definition flagTakesValue :: "'o flag_set \<Rightarrow> string \<Rightarrow> bool" where
  "flagTakesValue fs name =
     (case map_of fs name of None \<Rightarrow> False | Some kind \<Rightarrow> \<not> is_bool_flag kind)"

fun split_id :: "'o flag_set \<Rightarrow> string list \<Rightarrow> string list \<Rightarrow> string \<times> string list" where
  "split_id fs pre [] = ([], pre)"
| "split_id fs pre (arg # rest) =
     (if arg = ''--'' then (case rest of [] \<Rightarrow> ([], pre @ [arg]) | i # after \<Rightarrow> (i, pre @ after))
      else if prefix ''-'' arg
      then (let name = takeWhile (\<lambda>c. c \<noteq> CHR ''='') (trim_left_dashes arg) in
        if flagTakesValue fs name \<and> CHR ''='' \<notin> set arg
        then (case rest of [] \<Rightarrow> ([], pre @ [arg]) | v # after \<Rightarrow> split_id fs (pre @ [arg, v]) after)
        else split_id fs (pre @ [arg]) rest)
      else (arg, pre @ rest))"

definition splitAttemptIDArg :: "string list \<Rightarrow> 'o flag_set \<Rightarrow> string \<times> string list" where
  "splitAttemptIDArg args fs = split_id fs [] args"

text \<open>The identifier of an attempt: from its flag, or else the positional argument.\<close>

definition attempt_id_arg :: "string \<Rightarrow> string \<Rightarrow> string list \<Rightarrow> string" where
  "attempt_id_arg flagged positional rest =
     (if flagged \<noteq> [] then flagged
      else if positional \<noteq> [] then positional
      else if rest \<noteq> [] then hd rest else [])"

definition with_attempt_flags ::
  "('k, 'q, 's) cli_env \<Rightarrow> cli_vars flag_set \<Rightarrow> cli_vars \<Rightarrow> string list \<Rightarrow>
   (cli_vars \<Rightarrow> string list \<Rightarrow> string \<Rightarrow> 's cli) \<Rightarrow> 's cli" where
  "with_attempt_flags ce fs defaults args f =
     (case splitAttemptIDArg args fs of
        (positional, parseArgs) \<Rightarrow>
          with_flags ce fs defaults parseArgs (\<lambda>v seen rest.
            f v seen (attempt_id_arg (cv_AttemptID v) positional rest)))"

section \<open>Creating, claiming and reading\<close>

definition first_text :: "string list \<Rightarrow> string" where
  "first_text vs = (case find (\<lambda>v. v \<noteq> []) vs of None \<Rightarrow> [] | Some v \<Rightarrow> v)"

definition create_flags_request :: "api_env \<Rightarrow> create_ticket_flags \<Rightarrow> create_ticket_request" where
  "create_flags_request ae f =
     \<lparr>cr_WorkspaceID = mustUUID ae (cf_WorkspaceID f), cr_ProjectID = mustUUID ae (cf_ProjectID f),
      cr_ParentID = None, cr_RootID = None, cr_SourceAttemptID = None, cr_SourceArtifactID = None,
      cr_Title = cf_Title f, cr_Description = cf_Description f, cr_Type = cf_Type f,
      cr_Status = [], cr_Priority = Some (int32 (cf_Priority f)), cr_Tags = cf_Tags f,
      cr_AcceptanceCriteria = cf_Acceptance f, cr_VerificationCommands = cf_Verify f,
      cr_ExpectedArtifacts = [], cr_RelevantPaths = [], cr_RequiredTools = [],
      cr_RequiredPermissions = [], cr_Environment = [], cr_Input = [], cr_InputSchema = [],
      cr_RequiredCapabilities = [], cr_AllowedHarnesses = [], cr_RetryPolicy = RawEmpty,
      cr_Dependencies = [], cr_CreatedBy = cf_CreatedBy f, cr_CreatedByID = cf_CreatedByID f,
      cr_CreationReason = cf_Reason f, cr_Enqueue = cf_Enqueue f, cr_CanEnqueue = cf_Enqueue f\<rparr>"

definition runCreateCommand :: "('k, 'q, 's) cli_env \<Rightarrow> string \<Rightarrow> string list \<Rightarrow> 's cli" where
  "runCreateCommand ce name args =
     with_flags ce (command_flags @ create_flags) no_vars args (\<lambda>v seen rest.
     openCommandRuntime ce name (cv_ConfigPath v) (\<lambda>rt.
     let ae = cl_api ce; req = create_flags_request ae (cv_Create v) in
     cli_call name
       (if name = ''propose''
        then with_transaction (ProposeTicket (cl_pg ce)
          (req\<lparr>cr_CreatedBy := first_text [cr_CreatedBy req, ActorAgent]\<rparr>))
        else with_transaction (CreateTicket (cl_pg ce)
          (req\<lparr>cr_CreatedBy := first_text [cr_CreatedBy req, ActorHuman]\<rparr>)))
       (\<lambda>t. cli_json (JObj (cli_ticketPayload ae t)))))"

definition claim_flags :: "cli_vars flag_set" where
  "claim_flags =
     command_flags @ scope_flags @
     [string_flag ''type'' cv_TicketType_update, list_flag ''tag'' cv_Tags_update,
      string_flag ''harness'' cv_Harness_update, list_flag ''capability'' cv_Capabilities_update,
      string_flag ''agent-id'' cv_AgentID_update, string_flag ''model'' cv_Model_update,
      string_flag ''lease'' cv_Lease_update,
      string_flag ''idempotency-key'' cv_IdempotencyKey_update]"

definition flag_slice :: "string list \<Rightarrow> string slice" where
  "flag_slice l = (if l = [] then None else Some l)"

definition claim_flags_request ::
  "cli_vars \<Rightarrow> string \<Rightarrow> uuid option \<Rightarrow> uuid option \<Rightarrow> duration \<Rightarrow> claim_next_request" where
  "claim_flags_request v harness w p lease =
     \<lparr>cq_WorkspaceID = w, cq_ProjectID = p, cq_Type = cv_TicketType v,
      cq_Tags = flag_slice (cv_Tags v), cq_Harness = harness,
      cq_Capabilities = flag_slice (cv_Capabilities v), cq_AgentID = cv_AgentID v,
      cq_Model = cv_Model v, cq_Lease = lease, cq_IdempotencyKey = cv_IdempotencyKey v,
      cq_IdempotencyTTL = 0\<rparr>"

definition claim_call ::
  "('k, 'q, 's) cli_env \<Rightarrow> string \<Rightarrow> claim_next_request \<Rightarrow> 's cli" where
  "claim_call ce label req =
     (let ae = cl_api ce in
      cli_call label (ClaimNext (ap_claim ae) (Some runtime_policy) (ap_now ae) (ap_locked ae)
          (cl_pg ce) req)
        (\<lambda>res. cli_json (claimPayload ae res)))"

definition parse_lease :: "string \<Rightarrow> string + duration" where
  "parse_lease s =
     (case ParseDuration s of None \<Rightarrow> Inl ''lease must be a duration'' | Some d \<Rightarrow> Inr d)"

definition runClaimNextCommand :: "('k, 'q, 's) cli_env \<Rightarrow> string list \<Rightarrow> 's cli" where
  "runClaimNextCommand ce args =
     with_flags ce claim_flags (no_vars\<lparr>cv_Lease := ''30m''\<rparr>) args (\<lambda>v seen rest.
     openCommandRuntime ce ''claim-next'' (cv_ConfigPath v) (\<lambda>rt.
     with_argument ''claim-next'' (parse_lease (cv_Lease v)) (\<lambda>lease.
     claim_call ce ''claim-next'' (claim_flags_request v (cv_Harness v)
       (mustUUID (cl_api ce) (cv_WorkspaceID v)) (mustUUID (cl_api ce) (cv_ProjectID v)) lease))))"

definition runListCommand :: "('k, 'q, 's) cli_env \<Rightarrow> string list \<Rightarrow> 's cli" where
  "runListCommand ce args =
     with_flags ce (command_flags @ scope_flags @
         [string_flag ''status'' cv_Status_update, string_flag ''type'' cv_TicketType_update] @
         page_flags) (no_vars\<lparr>cv_Limit := 50\<rparr>) args (\<lambda>v seen rest.
     openCommandRuntime ce ''list'' (cv_ConfigPath v) (\<lambda>rt.
     let ae = cl_api ce in
     cli_call ''list'' (ListTickets
         \<lparr>lr_WorkspaceID = mustUUID ae (cv_WorkspaceID v), lr_ProjectID = mustUUID ae (cv_ProjectID v),
          lr_Status = cv_Status v, lr_Type = cv_TicketType v, lr_Offset = int32 (cv_Offset v),
          lr_Limit = int32 (cv_Limit v)\<rparr>)
       (\<lambda>ts. cli_json (JObj [(''tickets'', JArr (map (JObj \<circ> cli_ticketPayload ae) ts))]))))"

definition runGetCommand :: "('k, 'q, 's) cli_env \<Rightarrow> string list \<Rightarrow> 's cli" where
  "runGetCommand ce args =
     with_flags ce (command_flags @
         [string_flag ''id'' cv_Id_update, string_flag ''kind'' cv_Kind_update])
       (no_vars\<lparr>cv_Kind := ''ticket''\<rparr>) args (\<lambda>v seen rest.
     let ae = cl_api ce;
         i = (if cv_Id v = [] \<and> rest \<noteq> [] then hd rest else cv_Id v);
         parsedID = mustUUID ae i in
     openCommandRuntime ce ''get'' (cv_ConfigPath v) (\<lambda>rt.
     if cv_Kind v = ''ticket''
     then cli_call ''get'' (rt_query (GetTicket_stmt parsedID))
       (\<lambda>t. cli_json (JObj (cli_ticketPayload ae t)))
     else if cv_Kind v = ''attempt''
     then cli_call ''get'' (rt_query (GetAttempt_stmt parsedID))
       (\<lambda>a. cli_json (attemptPayload ae a))
     else cli_usage (ArgumentError ''get'' ''kind must be ticket or attempt'')))"

text \<open>The checks that recommendations and related work make on their page.\<close>

definition page_arguments :: "int \<Rightarrow> int \<Rightarrow> string + unit" where
  "page_arguments offset limit =
     and_then (ensure (0 \<le> offset) ''--offset must be non-negative'') (\<lambda>_.
     and_then (ensure (offset \<le> MaxInt32) ''--offset must be between 0 and 2147483647'') (\<lambda>_.
     ensure (0 \<le> limit \<and> limit \<le> MaxInt32) ''--limit must be between 0 and 2147483647''))"

definition runRecommendationsCommandWithDefaultHarness ::
  "('k, 'q, 's) cli_env \<Rightarrow> string list \<Rightarrow> string \<Rightarrow> 's cli" where
  "runRecommendationsCommandWithDefaultHarness ce args defaultHarness =
     with_flags ce (command_flags @ scope_flags @
         [string_flag ''type'' cv_TicketType_update, list_flag ''tag'' cv_Tags_update,
          string_flag ''harness'' cv_Harness_update, list_flag ''capability'' cv_Capabilities_update]
         @ page_flags) (no_vars\<lparr>cv_Harness := defaultHarness, cv_Limit := 25\<rparr>) args
       (\<lambda>v seen rest.
     with_argument ''recommendations'' (page_arguments (cv_Offset v) (cv_Limit v)) (\<lambda>_.
     openCommandRuntime ce ''recommendations'' (cv_ConfigPath v) (\<lambda>rt.
     let ae = cl_api ce in
     cli_call ''recommendations'' (RecommendTickets (cl_pg ce)
         \<lparr>rcq_WorkspaceID = mustUUID ae (cv_WorkspaceID v),
          rcq_ProjectID = mustUUID ae (cv_ProjectID v), rcq_Type = cv_TicketType v,
          rcq_Tags = cv_Tags v, rcq_Harness = cv_Harness v, rcq_Capabilities = cv_Capabilities v,
          rcq_Offset = int32 (cv_Offset v), rcq_Limit = int32 (cv_Limit v)\<rparr>)
       (\<lambda>rs. cli_json (JObj [(''recommendations'', JArr (map (recommendationPayload ae) rs))])))))"

definition runRecommendationsCommand :: "('k, 'q, 's) cli_env \<Rightarrow> string list \<Rightarrow> 's cli" where
  "runRecommendationsCommand ce args = runRecommendationsCommandWithDefaultHarness ce args []"

definition runRelatedCommand :: "('k, 'q, 's) cli_env \<Rightarrow> string list \<Rightarrow> 's cli" where
  "runRelatedCommand ce args =
     with_flags ce (command_flags @ [string_flag ''ticket-id'' cv_TicketID_update] @ page_flags)
       (no_vars\<lparr>cv_Limit := 25\<rparr>) args (\<lambda>v seen rest.
     let ae = cl_api ce;
         ticketID = (if cv_TicketID v = [] \<and> rest \<noteq> [] then hd rest else cv_TicketID v) in
     with_argument ''related'' (requiredUUIDFlag ae ''--ticket-id'' ticketID) (\<lambda>source.
     with_argument ''related'' (page_arguments (cv_Offset v) (cv_Limit v)) (\<lambda>_.
     openCommandRuntime ce ''related'' (cv_ConfigPath v) (\<lambda>rt.
     cli_call ''related'' (RelatedWork (cl_search ce)
         \<lparr>rw_TicketID = source, rw_Offset = int32 (cv_Offset v), rw_Limit = int32 (cv_Limit v)\<rparr>)
       (\<lambda>rs. cli_json (JObj [(''related_work'', JArr (map (relatedWorkPayload ae) rs))]))))))"

section \<open>Workspaces, projects and proposed tickets\<close>

definition isHelpArg :: "string \<Rightarrow> bool" where
  "isHelpArg v \<longleftrightarrow> v = ''help'' \<or> v = ''--help'' \<or> v = ''-h''"

text \<open>A group without a subcommand, or with a request for help, prints its usage.\<close>

definition with_subcommand ::
  "string \<Rightarrow> string list \<Rightarrow> (string \<Rightarrow> string list \<Rightarrow> 's cli) \<Rightarrow> 's cli" where
  "with_subcommand grp args f =
     (case args of
        [] \<Rightarrow> cli_print (HelpText grp)
      | sub # rest \<Rightarrow> if isHelpArg sub then cli_print (HelpText grp) else f sub rest)"

definition isWorkspaceSubcommand :: "string \<Rightarrow> bool" where
  "isWorkspaceSubcommand name \<longleftrightarrow> name = ''list'' \<or> name = ''create''"

definition isProjectSubcommand :: "string \<Rightarrow> bool" where
  "isProjectSubcommand name \<longleftrightarrow> name = ''list'' \<or> name = ''create''"

definition required_name :: "string \<Rightarrow> string + string" where
  "required_name name0 =
     (let name = TrimSpace name0 in if name = [] then Inl ''--name is required'' else Inr name)"

definition runWorkspacesCommand ::
  "('k :: linorder, 'q, 's) cli_env \<Rightarrow> string list \<Rightarrow> 's cli" where
  "runWorkspacesCommand ce args =
     with_subcommand ''workspaces'' args (\<lambda>sub rest.
     with_flags ce (command_flags @ [string_flag ''name'' cv_Name_update]) no_vars rest (\<lambda>v seen _.
     let ae = cl_api ce; label = ''workspaces '' @ sub in
     if \<not> isWorkspaceSubcommand sub then cli_usage (UnknownCommand ''workspaces'' sub)
     else openCommandRuntime ce label (cv_ConfigPath v) (\<lambda>rt.
       if sub = ''list''
       then cli_call label (svc_read (ListWorkspaces_stmt (cl_collate ce)))
         (\<lambda>ws. cli_json (JObj [(''workspaces'', JArr (map (workspacePayload ae) ws))]))
       else with_argument label (required_name (cv_Name v)) (\<lambda>name.
         cli_call label (svc_stmt (StoreError []) (CreateWorkspace_stmt (cl_pg ce) name))
           (\<lambda>w. cli_json (workspacePayload ae w))))))"

definition runProjectsCommand ::
  "('k :: linorder, 'q, 's) cli_env \<Rightarrow> string list \<Rightarrow> 's cli" where
  "runProjectsCommand ce args =
     with_subcommand ''projects'' args (\<lambda>sub rest.
     with_flags ce (command_flags @
         [string_flag ''workspace-id'' cv_WorkspaceID_update,
          string_flag ''workspace'' cv_WorkspaceID_update, string_flag ''name'' cv_Name_update])
       no_vars rest (\<lambda>v seen _.
     let ae = cl_api ce; label = ''projects '' @ sub in
     if \<not> isProjectSubcommand sub then cli_usage (UnknownCommand ''projects'' sub)
     else with_argument label (requiredUUIDFlag ae ''--workspace-id'' (cv_WorkspaceID v)) (\<lambda>w.
     openCommandRuntime ce label (cv_ConfigPath v) (\<lambda>rt.
       if sub = ''list''
       then cli_call label (svc_read (ListProjectsByWorkspace_stmt (cl_collate ce) w))
         (\<lambda>ps. cli_json (JObj [(''projects'', JArr (map (projectPayload ae) ps))]))
       else with_argument label (required_name (cv_Name v)) (\<lambda>name.
         cli_call label (svc_stmt (StoreError []) (CreateProject_stmt (cl_pg ce) w name))
           (\<lambda>p. cli_json (projectPayload ae p)))))))"

definition runProposedListCommand :: "('k, 'q, 's) cli_env \<Rightarrow> string list \<Rightarrow> 's cli" where
  "runProposedListCommand ce args =
     with_flags ce (command_flags @ scope_flags @ [string_flag ''type'' cv_TicketType_update] @
         page_flags) (no_vars\<lparr>cv_Limit := 50\<rparr>) args (\<lambda>v seen rest.
     openCommandRuntime ce ''proposed list'' (cv_ConfigPath v) (\<lambda>rt.
     let ae = cl_api ce in
     cli_call ''proposed list'' (ListProposedTickets
         \<lparr>lp_WorkspaceID = mustUUID ae (cv_WorkspaceID v), lp_ProjectID = mustUUID ae (cv_ProjectID v),
          lp_Type = cv_TicketType v, lp_Offset = int32 (cv_Offset v),
          lp_Limit = int32 (cv_Limit v)\<rparr>)
       (\<lambda>items. cli_json (JObj [(''proposed'', JArr (map (proposedTicketPayload ae) items))]))))"

definition triage_flags :: "cli_vars flag_set" where
  "triage_flags =
     command_flags @
     [string_flag ''ticket-id'' cv_TicketID_update, string_flag ''actor-type'' cv_ActorType_update,
      string_flag ''actor-id'' cv_ActorID_update, string_flag ''reason'' cv_Reason_update]"

definition runProposedTriageCommand ::
  "('k, 'q, 's) cli_env \<Rightarrow> string \<Rightarrow> (pg_env \<Rightarrow> proposed_ticket_triage_request \<Rightarrow> ticket svc) \<Rightarrow>
   string list \<Rightarrow> 's cli" where
  "runProposedTriageCommand ce command transition args =
     (let ae = cl_api ce; label = ''proposed '' @ command in
      case splitAttemptIDArg args triage_flags of
        (positional, parseArgs) \<Rightarrow>
          with_flags ce triage_flags (no_vars\<lparr>cv_ActorType := ActorHuman\<rparr>) parseArgs (\<lambda>v seen rest.
          let t0 = cv_TicketID v; t1 = (if t0 = [] \<and> rest \<noteq> [] then hd rest else t0);
              ticketID = (if t1 = [] \<and> positional \<noteq> [] then positional else t1) in
          with_argument label (requiredUUIDFlag ae ''--ticket-id'' ticketID) (\<lambda>i.
          openCommandRuntime ce label (cv_ConfigPath v) (\<lambda>rt.
          cli_call label (transition (cl_pg ce)
              \<lparr>pt_TicketID = i, pt_ActorType = cv_ActorType v, pt_ActorID = cv_ActorID v,
               pt_Reason = cv_Reason v, pt_CanEnqueue = False\<rparr>)
            (\<lambda>t. cli_json (JObj (cli_ticketPayload ae t)))))))"

definition runProposedCommand :: "('k, 'q, 's) cli_env \<Rightarrow> string list \<Rightarrow> 's cli" where
  "runProposedCommand ce args =
     with_subcommand ''proposed'' args (\<lambda>sub rest.
     if sub = ''list'' then runProposedListCommand ce rest
     else if sub = ''ready'' then runProposedTriageCommand ce sub ReadyProposedTicket rest
     else if sub = ''enqueue'' then runProposedTriageCommand ce sub EnqueueProposedTicket rest
     else if sub = ''reject'' then runProposedTriageCommand ce sub RejectProposedTicket rest
     else if sub = ''archive'' then runProposedTriageCommand ce sub ArchiveProposedTicket rest
     else cli_usage (UnknownCommand ''proposed'' sub))"

section \<open>Attempts\<close>

definition runHeartbeatCommand :: "('k, 'q, 's) cli_env \<Rightarrow> string list \<Rightarrow> 's cli" where
  "runHeartbeatCommand ce args =
     with_attempt_flags ce (command_flags @
         [string_flag ''attempt-id'' cv_AttemptID_update, string_flag ''lease'' cv_Lease_update])
       (no_vars\<lparr>cv_Lease := ''30m''\<rparr>) args (\<lambda>v seen attemptID.
     with_argument ''heartbeat'' (parse_lease (cv_Lease v)) (\<lambda>lease.
     openCommandRuntime ce ''heartbeat'' (cv_ConfigPath v) (\<lambda>rt.
     let ae = cl_api ce in
     cli_call ''heartbeat'' (Heartbeat (ap_now ae) (cl_pg ce)
         \<lparr>hr_AttemptID = mustUUID ae attemptID, hr_Lease = lease\<rparr>)
       (\<lambda>a. cli_json (attemptPayload ae a)))))"

definition checkpoint_flags :: "cli_vars flag_set" where
  "checkpoint_flags =
     command_flags @
     [string_flag ''attempt-id'' cv_AttemptID_update, string_flag ''summary'' cv_Summary_update,
      int_flag ''progress'' cv_Progress_update, list_flag ''file'' cv_Files_update,
      list_flag ''command'' cv_Commands_update, string_flag ''next'' cv_NextStep_update,
      string_flag ''risk'' cv_Risk_update]"

definition checkpoint_call ::
  "('k, 'q, 's) cli_env \<Rightarrow> string \<Rightarrow> cli_vars \<Rightarrow> uuid option \<Rightarrow> 's cli" where
  "checkpoint_call ce label v i =
     cli_call label (Checkpoint (cl_pg ce)
         \<lparr>kr_AttemptID = i, kr_Summary = cv_Summary v, kr_ProgressPercent = int32 (cv_Progress v),
          kr_FilesTouched = cv_Files v, kr_CommandsRun = cv_Commands v, kr_NextStep = cv_NextStep v,
          kr_Risk = cv_Risk v\<rparr>)
       (\<lambda>res. cli_json (checkpointPayload (cl_api ce) res))"

definition runCheckpointCommand :: "('k, 'q, 's) cli_env \<Rightarrow> string list \<Rightarrow> 's cli" where
  "runCheckpointCommand ce args =
     with_attempt_flags ce checkpoint_flags no_vars args (\<lambda>v seen attemptID.
     openCommandRuntime ce ''checkpoint'' (cv_ConfigPath v) (\<lambda>rt.
     checkpoint_call ce ''checkpoint'' v (mustUUID (cl_api ce) attemptID)))"

definition runCompleteCommand :: "('k, 'q, 's) cli_env \<Rightarrow> string list \<Rightarrow> 's cli" where
  "runCompleteCommand ce args =
     with_attempt_flags ce (command_flags @ metrics_flags @
         [string_flag ''attempt-id'' cv_AttemptID_update,
          string_flag ''summary'' cv_Summary_update]) no_vars args (\<lambda>v seen attemptID.
     openCommandRuntime ce ''complete'' (cv_ConfigPath v) (\<lambda>rt.
     with_argument ''complete'' (metrics_request (cv_Metrics v) seen) (\<lambda>metrics.
     let ae = cl_api ce in
     cli_call ''complete'' (with_transaction (Complete (ap_now ae) (cl_pg ce)
         \<lparr>or_AttemptID = mustUUID ae attemptID, or_Output = [(''summary'', JStr (cv_Summary v))],
          or_OutputSchema = [], or_Metrics = metrics\<rparr>))
       (\<lambda>res. cli_json (transitionPayload ae res)))))"

definition end_flags :: "cli_vars flag_set" where
  "end_flags =
     [string_flag ''attempt-id'' cv_AttemptID_update, string_flag ''reason'' cv_Reason_update,
      string_flag ''category'' cv_Category_update]"

definition ValidateFailureCategory :: "string \<Rightarrow> string + unit" where
  "ValidateFailureCategory c =
     (case validateFailureCategory (TrimSpace c) of
        [] \<Rightarrow> Inr () | ps \<Rightarrow> Inl (ValidationError_text ps))"

definition runFailCommand :: "('k, 'q, 's) cli_env \<Rightarrow> string list \<Rightarrow> 's cli" where
  "runFailCommand ce args =
     with_attempt_flags ce (command_flags @ metrics_flags @ end_flags) no_vars args
       (\<lambda>v seen attemptID.
     with_argument ''fail'' (metrics_request (cv_Metrics v) seen) (\<lambda>metrics.
     with_argument ''fail'' (ValidateFailureCategory (cv_Category v)) (\<lambda>_.
     openCommandRuntime ce ''fail'' (cv_ConfigPath v) (\<lambda>rt.
     let ae = cl_api ce in
     cli_call ''fail'' (with_transaction (Fail (ap_now ae) (cl_pg ce)
         \<lparr>fr_AttemptID = mustUUID ae attemptID, fr_FailureReason = cv_Reason v,
          fr_FailureCategory = cv_Category v, fr_Output = [], fr_Metrics = metrics\<rparr>))
       (\<lambda>res. cli_json (transitionPayload ae res))))))"

definition runBlockCommand :: "('k, 'q, 's) cli_env \<Rightarrow> string list \<Rightarrow> 's cli" where
  "runBlockCommand ce args =
     with_attempt_flags ce (command_flags @ metrics_flags @ end_flags) no_vars args
       (\<lambda>v seen attemptID.
     with_argument ''block'' (metrics_request (cv_Metrics v) seen) (\<lambda>metrics.
     with_argument ''block'' (ValidateFailureCategory (cv_Category v)) (\<lambda>_.
     openCommandRuntime ce ''block'' (cv_ConfigPath v) (\<lambda>rt.
     let ae = cl_api ce in
     cli_call ''block'' (with_transaction (Block (ap_now ae) (cl_pg ce)
         \<lparr>br_AttemptID = mustUUID ae attemptID, br_BlockerReason = cv_Reason v,
          br_FailureCategory = cv_Category v, br_Blocker = [(''reason'', JStr (cv_Reason v))],
          br_Metrics = metrics\<rparr>))
       (\<lambda>res. cli_json (transitionPayload ae res))))))"

definition runCancelCommand :: "('k, 'q, 's) cli_env \<Rightarrow> string list \<Rightarrow> 's cli" where
  "runCancelCommand ce args =
     with_attempt_flags ce (command_flags @
         [string_flag ''attempt-id'' cv_AttemptID_update, string_flag ''reason'' cv_Reason_update])
       no_vars args (\<lambda>v seen attemptID.
     openCommandRuntime ce ''cancel'' (cv_ConfigPath v) (\<lambda>rt.
     let ae = cl_api ce in
     cli_call ''cancel'' (Cancel (ap_now ae) (cl_pg ce)
         \<lparr>xr_AttemptID = mustUUID ae attemptID, xr_Reason = cv_Reason v\<rparr>)
       (\<lambda>res. cli_json (transitionPayload ae res))))"

definition attach_flags :: "cli_vars flag_set" where
  "attach_flags =
     command_flags @ scope_flags @
     [string_flag ''ticket-id'' cv_TicketID_update, string_flag ''attempt-id'' cv_AttemptID_update,
      string_flag ''type'' cv_ArtifactType_update, string_flag ''role'' cv_Role_update,
      string_flag ''name'' cv_Name_update, string_flag ''url'' cv_URL_update,
      string_flag ''storage-backend'' cv_StorageBackend_update,
      string_flag ''mime-type'' cv_MimeType_update, int_flag ''size-bytes'' cv_SizeBytes_update]"

definition attach_request :: "api_env \<Rightarrow> cli_vars \<Rightarrow> register_artifact_request" where
  "attach_request ae v =
     \<lparr>ra_WorkspaceID = mustUUID ae (cv_WorkspaceID v), ra_ProjectID = mustUUID ae (cv_ProjectID v),
      ra_TicketID = mustUUID ae (cv_TicketID v), ra_AttemptID = mustUUID ae (cv_AttemptID v),
      ra_Type = cv_ArtifactType v, ra_Role = cv_Role v, ra_Name = cv_Name v, ra_URL = cv_URL v,
      ra_StorageBackend = cv_StorageBackend v, ra_SizeBytes = cv_SizeBytes v,
      ra_MimeType = cv_MimeType v, ra_Metadata = []\<rparr>"

definition runAttachCommand :: "('k, 'q, 's) cli_env \<Rightarrow> string list \<Rightarrow> 's cli" where
  "runAttachCommand ce args =
     with_flags ce attach_flags (no_vars\<lparr>cv_StorageBackend := ArtifactStorageLocal\<rparr>) args
       (\<lambda>v seen rest.
     openCommandRuntime ce ''attach'' (cv_ConfigPath v) (\<lambda>rt.
     cli_call ''attach'' (RegisterArtifact (cl_pg ce) (attach_request (cl_api ce) v))
       (\<lambda>a. cli_json (cli_artifactPayload (cl_api ce) a))))"

section \<open>Analytics and webhook subscriptions\<close>

text \<open>The JSON tags of \<open>AnalyticsTrend\<close> in services/analytics.go.\<close>

definition trend_json :: "(timestamp \<Rightarrow> string) \<Rightarrow> analytics_trend \<Rightarrow> json" where
  "trend_json time t =
     JObj [(''bucket_start'', JStr (time (av_BucketStart t))), (''bucket'', JStr (av_Bucket t)),
           (''attempt_count'', json_int (as_AttemptCount t)),
           (''succeeded_attempts'', json_int (as_SucceededAttempts t)),
           (''failed_attempts'', json_int (as_FailedAttempts t)),
           (''blocked_attempts'', json_int (as_BlockedAttempts t)),
           (''total_tokens_in'', json_int (as_TotalTokensIn t)),
           (''total_tokens_out'', json_int (as_TotalTokensOut t)),
           (''total_tokens'', json_int (as_TotalTokens t)),
           (''average_tokens'', json_float (av_AverageTokens t)),
           (''total_cost_usd'', json_float (as_TotalCostUSD t)),
           (''total_duration_seconds'', json_float (as_TotalDurationSeconds t)),
           (''total_retries'', json_int (as_TotalRetries t)),
           (''attempts_with_metrics'', json_int (as_AttemptsWithMetrics t)),
           (''success_rate'', json_float (as_SuccessRate t)),
           (''average_cost_usd'', json_float (as_AverageCostUSD t)),
           (''average_duration_seconds'', json_float (as_AverageDurationSeconds t))]"

definition analytics_groups_output :: "bool \<Rightarrow> string \<Rightarrow> analytics_group list \<Rightarrow> 's cli" where
  "analytics_groups_output as_json title gs =
     (if as_json then cli_json (JObj [(''groups'', JArr (map group_json gs))])
      else cli_print (GroupsText title gs))"

definition runAnalyticsCommand ::
  "('k :: linorder, 'q, 's) cli_env \<Rightarrow> string list \<Rightarrow> 's cli" where
  "runAnalyticsCommand ce args =
     with_subcommand ''analytics'' args (\<lambda>sub rest.
     with_flags ce (command_flags @ scope_flags @ [string_flag ''bucket'' cv_Bucket_update])
       (no_vars\<lparr>cv_Bucket := ''day''\<rparr>) rest (\<lambda>v seen _.
     let ae = cl_api ce; label = ''analytics '' @ sub; collate = cl_collate ce in
     with_argument label (analyticsFilterFromFlags ae (cv_WorkspaceID v) (cv_ProjectID v)) (\<lambda>f.
     openCommandRuntime ce label (cv_ConfigPath v) (\<lambda>rt.
     if sub = ''summary'' then
       cli_call label (Summary f) (\<lambda>s.
         if cv_JSON v then cli_json (JObj [(''summary'', JObj (summary_members s))])
         else cli_print (SummaryText s))
     else if sub = ''by-model'' then
       cli_call label (ByModel collate f) (analytics_groups_output (cv_JSON v) ''Model'')
     else if sub = ''by-harness'' then
       cli_call label (ByHarness collate f) (analytics_groups_output (cv_JSON v) ''Harness'')
     else if sub = ''by-status'' then
       cli_call label (ByStatus collate f) (analytics_groups_output (cv_JSON v) ''Status'')
     else if sub = ''by-agent'' then
       cli_call label (ByAgent collate f) (analytics_groups_output (cv_JSON v) ''Agent'')
     else if sub = ''trends'' then
       cli_call label (Trends (ap_quote ae) (cl_trunc ce) f (cv_Bucket v)) (\<lambda>ts.
         if cv_JSON v then cli_json (JObj [(''trends'', JArr (map (trend_json (cl_time ce)) ts))])
         else cli_print (TrendsText ts))
     else cli_usage (UnknownCommand ''analytics'' sub)))))"

definition runObservabilitySubscriptionsListCommand ::
  "('k, 'q, 's) cli_env \<Rightarrow> string list \<Rightarrow> 's cli" where
  "runObservabilitySubscriptionsListCommand ce args =
     (let ae = cl_api ce; label = ''observability subscriptions list'' in
      with_flags ce (command_flags @ scope_flags @ [bool_flag ''all'' cv_All_update]) no_vars args
        (\<lambda>v seen rest.
      with_argument label (requiredUUIDFlag ae ''--workspace-id'' (cv_WorkspaceID v)) (\<lambda>w.
      with_argument label (requiredUUIDFlag ae ''--project-id'' (cv_ProjectID v)) (\<lambda>p.
      openCommandRuntime ce label (cv_ConfigPath v) (\<lambda>rt.
      cli_call label (svc_read (ListWebhookSubscriptions_stmt w p (\<not> cv_All v)))
        (\<lambda>ss. cli_json (JObj [(''subscriptions'',
           JArr (map (webhookSubscriptionPayload ae) ss))])))))))"

definition cli_validateWebhookEndpointURL :: "api_env \<Rightarrow> string \<Rightarrow> string + unit" where
  "cli_validateWebhookEndpointURL ae raw0 =
     (let raw = TrimSpace raw0 in
      and_then (ensure (raw \<noteq> []) ''--endpoint-url is required'') (\<lambda>_.
      and_then (case ue_Parse (ap_url ae) raw of
          Inl msg \<Rightarrow> Inl (''--endpoint-url must be a valid URL: '' @ msg) | Inr u \<Rightarrow> Inr u) (\<lambda>parsed.
      and_then (ensure (u_Scheme parsed = ''http'' \<or> u_Scheme parsed = ''https'')
        ''--endpoint-url must use http or https'') (\<lambda>_.
      and_then (ensure (u_Host parsed \<noteq> []) ''--endpoint-url must include a host'') (\<lambda>_.
      case ParseAddr (Hostname parsed) of
        None \<Rightarrow> Inr ()
      | Some ip \<Rightarrow> ensure (\<not> private_or_local (Unmap ip))
          ''--endpoint-url must not use a private or local IP address'')))))"

definition cli_splitCSV :: "string \<Rightarrow> string list" where
  "cli_splitCSV raw =
     (if TrimSpace raw = [] then []
      else filter (\<lambda>p. p \<noteq> []) (map TrimSpace (Split (CHR '','') raw)))"

definition subscription_flags :: "cli_vars flag_set" where
  "subscription_flags =
     command_flags @ scope_flags @
     [string_flag ''endpoint-url'' cv_EndpointURL_update, string_flag ''url'' cv_EndpointURL_update,
      string_flag ''secret'' cv_Secret_update, string_flag ''event-types'' cv_EventTypes_update,
      int_flag ''max-attempts'' cv_MaxAttempts_update,
      string_flag ''description'' cv_Description_update, bool_flag ''inactive'' cv_Inactive_update]"

definition subscription_params ::
  "cli_vars \<Rightarrow> uuid option \<Rightarrow> uuid option \<Rightarrow> create_subscription_params" where
  "subscription_params v w p =
     \<lparr>csp_WorkspaceID = w, csp_ProjectID = p, csp_EndpointUrl = TrimSpace (cv_EndpointURL v),
      csp_Secret = (if TrimSpace (cv_Secret v) = [] then None else Some (TrimSpace (cv_Secret v))),
      csp_EventTypes = Some (cli_splitCSV (cv_EventTypes v)), csp_Active = (\<not> cv_Inactive v),
      csp_MaxAttempts = int32 (cv_MaxAttempts v), csp_Description = TrimSpace (cv_Description v)\<rparr>"

definition runObservabilitySubscriptionsCreateCommand ::
  "('k, 'q, 's) cli_env \<Rightarrow> string list \<Rightarrow> 's cli" where
  "runObservabilitySubscriptionsCreateCommand ce args =
     (let ae = cl_api ce; label = ''observability subscriptions create'' in
      with_flags ce subscription_flags (no_vars\<lparr>cv_MaxAttempts := 3\<rparr>) args (\<lambda>v seen rest.
      with_argument label (requiredUUIDFlag ae ''--workspace-id'' (cv_WorkspaceID v)) (\<lambda>w.
      with_argument label (requiredUUIDFlag ae ''--project-id'' (cv_ProjectID v)) (\<lambda>p.
      with_argument label (cli_validateWebhookEndpointURL ae (cv_EndpointURL v)) (\<lambda>_.
      with_argument label (ensure (0 < cv_MaxAttempts v \<and> cv_MaxAttempts v \<le> MaxInt32)
        ''--max-attempts must be between 1 and 2147483647'') (\<lambda>_.
      openCommandRuntime ce label (cv_ConfigPath v) (\<lambda>rt.
      cli_call label (svc_stmt (StoreError [])
          (CreateWebhookSubscription_stmt (cl_pg ce) (subscription_params v w p)))
        (\<lambda>s. cli_json (webhookSubscriptionPayload ae s)))))))))"

definition runObservabilityCommand :: "('k, 'q, 's) cli_env \<Rightarrow> string list \<Rightarrow> 's cli" where
  "runObservabilityCommand ce args =
     with_subcommand ''observability'' args (\<lambda>sub rest.
     if sub \<noteq> ''subscriptions'' then cli_usage (UnknownCommand ''observability'' sub)
     else with_subcommand ''observability subscriptions'' rest (\<lambda>sub2 rest2.
       if sub2 = ''list'' then runObservabilitySubscriptionsListCommand ce rest2
       else if sub2 = ''create'' then runObservabilitySubscriptionsCreateCommand ce rest2
       else cli_usage (UnknownCommand ''observability subscriptions'' sub2)))"

end
