(* ===== verification/Cli_Codex.thy ===== *)
theory Cli_Codex
  imports Cli_Commands
begin

text \<open>
  The codex commands of internal/cli/cli.go: claims and checkpoints for the codex harness, and ends
  of attempts with proofs. A proof that names a file is stored first and registered together with
  the end of the attempt; when the attempt cannot be ended, the stored files are removed again.
\<close>

section \<open>Proofs\<close>

definition strings_contains :: "string \<Rightarrow> string \<Rightarrow> bool" where
  "strings_contains p s = list_ex (\<lambda>k. prefix p (drop k s)) [0..<Suc (length s)]"

text \<open>\<open>StoreArtifact\<close> and \<open>RemoveArtifact\<close> of internal/runtime/runtime.go.\<close>

definition StoreArtifact ::
  "('k, 'q, 's) cli_env \<Rightarrow> runtime_handle \<Rightarrow> nat \<Rightarrow> string \<Rightarrow> string \<Rightarrow> 's cli_world \<Rightarrow>
   stored_artifact storage_result \<times> 's cli_world" where
  "StoreArtifact ce rt n sourcePath preferredName w =
     (let ue = ap_url (cl_api ce) in
      case rh_S3 rt of
        Some s \<Rightarrow>
          (case StoreS3File ue (cl_storage ce n) s (cl_put ce) sourcePath preferredName (cw_bucket w) of
             (r, st) \<Rightarrow> (r, w\<lparr>cw_bucket := st\<rparr>))
      | None \<Rightarrow>
          (case StoreLocalFile ue (cl_storage ce n) (rh_LocalRoot rt) sourcePath preferredName
              (cw_files w) of
             (r, fs) \<Rightarrow> (r, w\<lparr>cw_files := fs\<rparr>)))"

definition RemoveArtifact ::
  "('k, 'q, 's) cli_env \<Rightarrow> runtime_handle \<Rightarrow> string \<Rightarrow> 's cli_world \<Rightarrow>
   unit storage_result \<times> 's cli_world" where
  "RemoveArtifact ce rt rawURL w =
     (let ue = ap_url (cl_api ce); backend = BackendForURL ue rawURL in
      if backend = BackendLocal then
        (case RemoveLocal ue (cl_cleanup ce) (rh_LocalRoot rt) rawURL (cw_files w) of
           (r, fs) \<Rightarrow> (r, w\<lparr>cw_files := fs\<rparr>))
      else if backend = BackendS3 then
        (case rh_S3 rt of
           None \<Rightarrow> (Inl ''s3 artifact storage is not configured'', w)
         | Some s \<Rightarrow> (case RemoveS3 ue s (cl_del ce) rawURL (cw_bucket w) of
               (r, st) \<Rightarrow> (r, w\<lparr>cw_bucket := st\<rparr>)))
      else (Inl (''artifact storage backend is not configured for '' @ ap_quote (cl_api ce) rawURL), w))"

definition storeFilesystemProof ::
  "('k, 'q, 's) cli_env \<Rightarrow> runtime_handle \<Rightarrow> nat \<Rightarrow> string \<Rightarrow> 's cli_world \<Rightarrow>
   (proof_failure + stored_artifact option) \<times> 's cli_world" where
  "storeFilesystemProof ce rt n reference w =
     (if reference = [] \<or> strings_contains ''://'' reference then (Inr None, w)
      else (case cl_stat ce reference of
          NotExist \<Rightarrow> (Inl (ProofArgument
            (''--proof file does not exist: '' @ ap_quote (cl_api ce) reference)), w)
        | StatFailed msg \<Rightarrow> (Inl (ProofFailed (''inspect proof file: '' @ msg)), w)
        | Found info \<Rightarrow>
            if fi_IsDir info
            then (Inl (ProofArgument
              (''--proof must be a file, got directory '' @ ap_quote (cl_api ce) reference)), w)
            else (case StoreArtifact ce rt n reference (Base reference) w of
                (Inl msg, w') \<Rightarrow> (Inl (ProofFailed (''store proof file: '' @ msg)), w')
              | (Inr stored, w') \<Rightarrow> (Inr (Some stored), w'))))"

fun cleanupStoredProofArtifacts ::
  "('k, 'q, 's) cli_env \<Rightarrow> runtime_handle \<Rightarrow> string list \<Rightarrow> 's cli_world \<Rightarrow>
   string list \<times> 's cli_world" where
  "cleanupStoredProofArtifacts ce rt [] w = ([], w)"
| "cleanupStoredProofArtifacts ce rt (url # urls) w =
     (case RemoveArtifact ce rt url w of
        (r, w1) \<Rightarrow> (case cleanupStoredProofArtifacts ce rt urls w1 of
          (es, w2) \<Rightarrow> ((case r of Inl e \<Rightarrow> e # es | Inr _ \<Rightarrow> es), w2)))"

text \<open>\<open>errors.Join\<close> of an error with those of the cleanup.\<close>

fun join_failure :: "proof_failure \<Rightarrow> string list \<Rightarrow> proof_failure" where
  "join_failure (ProofArgument msg) es = ProofArgument (strings_Join [CHR 0x0A] (msg # es))"
| "join_failure (ProofFailed msg) es = ProofFailed (strings_Join [CHR 0x0A] (msg # es))"
| "join_failure (AttemptLookup e) es = AttemptLookup e"

definition proof_request ::
  "('k, 'q, 's) cli_env \<Rightarrow> codex_proof_flags \<Rightarrow> attempt \<Rightarrow> string \<Rightarrow> stored_artifact option \<Rightarrow>
   register_artifact_request" where
  "proof_request ce f a reference stored =
     (let ue = ap_url (cl_api ce);
          base = \<lparr>ra_WorkspaceID = Some (at_WorkspaceID a), ra_ProjectID = Some (at_ProjectID a),
            ra_TicketID = Some (at_TicketID a), ra_AttemptID = Some (at_ID a),
            ra_Type = pf_ProofType f, ra_Role = pf_ProofRole f, ra_Name = proofName reference,
            ra_URL = reference, ra_StorageBackend = BackendForURL ue reference, ra_SizeBytes = 0,
            ra_MimeType = pf_MimeType f, ra_Metadata = []\<rparr> in
      case stored of
        None \<Rightarrow> base
      | Some s \<Rightarrow> base\<lparr>ra_Name := sa_Name s, ra_URL := sa_URL s,
          ra_StorageBackend := (if sa_StorageBackend s = [] then BackendForURL ue (sa_URL s)
            else sa_StorageBackend s),
          ra_SizeBytes := int (sa_Size s),
          ra_MimeType := (if pf_MimeType f = [] then sa_MimeType s else pf_MimeType f)\<rparr>)"

fun codexProofArtifactRequests ::
  "('k, 'q, 's) cli_env \<Rightarrow> runtime_handle \<Rightarrow> codex_proof_flags \<Rightarrow> attempt \<Rightarrow>
   register_artifact_request list \<Rightarrow> string list \<Rightarrow> string list \<Rightarrow> 's cli_world \<Rightarrow>
   (proof_failure + register_artifact_request list \<times> string list) \<times> 's cli_world" where
  "codexProofArtifactRequests ce rt f a reqs urls [] w = (Inr (reqs, urls), w)"
| "codexProofArtifactRequests ce rt f a reqs urls (p # ps) w =
     (let reference = TrimSpace p in
      case storeFilesystemProof ce rt (length urls) reference w of
        (Inl e, w1) \<Rightarrow> (case cleanupStoredProofArtifacts ce rt urls w1 of
          (es, w2) \<Rightarrow> (Inl (join_failure e es), w2))
      | (Inr stored, w1) \<Rightarrow>
          codexProofArtifactRequests ce rt f a (reqs @ [proof_request ce f a reference stored])
            (urls @ (case stored of None \<Rightarrow> [] | Some s \<Rightarrow> [sa_URL s])) ps w1)"

definition validateOptionalScopeFlags ::
  "api_env \<Rightarrow> string \<Rightarrow> string \<Rightarrow> uuid \<Rightarrow> uuid \<Rightarrow> string + unit" where
  "validateOptionalScopeFlags ae workspaceID projectID expectedWorkspace expectedProject =
     and_then (uuid_flag ae ''--workspace-id'' workspaceID) (\<lambda>w.
     and_then (uuid_flag ae ''--project-id'' projectID) (\<lambda>p.
     and_then (ensure (w = None \<or> w = Some expectedWorkspace)
       ''--workspace-id does not match source attempt'') (\<lambda>_.
     ensure (p = None \<or> p = Some expectedProject)
       ''--project-id does not match source attempt'')))"

definition codexProofArtifactRequestsForAttempt ::
  "('k, 'q, 's) cli_env \<Rightarrow> runtime_handle \<Rightarrow> codex_proof_flags \<Rightarrow> uuid option \<Rightarrow> 's cli_world \<Rightarrow>
   (proof_failure + register_artifact_request list \<times> string list) \<times> 's cli_world" where
  "codexProofArtifactRequestsForAttempt ce rt f i w =
     (if pf_Proofs f = [] then (Inr ([], []), w)
      else (case GetAttempt_stmt i (cw_db w) of
          Inl e \<Rightarrow> (Inl (AttemptLookup (StoreError [] e)), w)
        | Inr a \<Rightarrow>
            (case validateOptionalScopeFlags (cl_api ce) (pf_WorkspaceID f) (pf_ProjectID f)
                (at_WorkspaceID a) (at_ProjectID a) of
               Inl msg \<Rightarrow> (Inl (ProofArgument msg), w)
             | Inr _ \<Rightarrow> codexProofArtifactRequests ce rt f a [] [] (pf_Proofs f) w)))"

section \<open>Ending an attempt with proofs\<close>

definition proof_flags :: "cli_vars flag_set" where
  "proof_flags =
     [string_flag ''workspace-id'' (\<lambda>f. cv_Proof_update (pf_WorkspaceID_update f)),
      string_flag ''workspace'' (\<lambda>f. cv_Proof_update (pf_WorkspaceID_update f)),
      string_flag ''project-id'' (\<lambda>f. cv_Proof_update (pf_ProjectID_update f)),
      string_flag ''project'' (\<lambda>f. cv_Proof_update (pf_ProjectID_update f)),
      list_flag ''proof'' (\<lambda>f. cv_Proof_update (pf_Proofs_update f)),
      string_flag ''proof-type'' (\<lambda>f. cv_Proof_update (pf_ProofType_update f)),
      string_flag ''proof-role'' (\<lambda>f. cv_Proof_update (pf_ProofRole_update f)),
      string_flag ''mime-type'' (\<lambda>f. cv_Proof_update (pf_MimeType_update f))]"

text \<open>\<open>validate\<close>: the index of the first empty proof.\<close>

definition validate_proofs :: "codex_proof_flags \<Rightarrow> string + unit" where
  "validate_proofs f =
     (case find (\<lambda>i. TrimSpace (pf_Proofs f ! i) = []) [0..<length (pf_Proofs f)] of
        None \<Rightarrow> Inr ()
      | Some i \<Rightarrow> Inl (''--proof['' @ FormatInt (int i) @ ''] must not be empty''))"

text \<open>
  What the commands that complete and block share after their flags: the proofs are stored, the
  attempt is ended together with the registration of its artifacts, and the stored files are
  removed when it is not.
\<close>

definition end_with_proofs ::
  "('k, 'q, 's) cli_env \<Rightarrow> string \<Rightarrow> runtime_handle \<Rightarrow> codex_proof_flags \<Rightarrow> uuid option \<Rightarrow>
   (register_artifact_request list \<Rightarrow> (attempt_transition_result \<times> artifact list) svc) \<Rightarrow> 's cli" where
  "end_with_proofs ce label rt f i finish w =
     (let ae = cl_api ce in
      case codexProofArtifactRequestsForAttempt ce rt f i w of
        (Inl (ProofArgument msg), w1) \<Rightarrow> cli_usage (ArgumentError label msg) w1
      | (Inl e, w1) \<Rightarrow> cli_failed (ArtifactError label e) w1
      | (Inr (reqs, urls), w1) \<Rightarrow>
          (case finish reqs (cw_db w1) of
             (Inl e, d') \<Rightarrow>
               (case cleanupStoredProofArtifacts ce rt urls (w1\<lparr>cw_db := d'\<rparr>) of
                  (es, w2) \<Rightarrow> cli_exit 1
                    ((if es = [] then [] else [CleanupWarning (strings_Join [CHR 0x0A] es)]) @
                     [CommandError label e]) w2)
           | (Inr (res, arts), d') \<Rightarrow>
               cli_json (JObj [(''transition'', transitionPayload ae res),
                   (''artifacts'', JArr (map (cli_artifactPayload ae) arts))]) (w1\<lparr>cw_db := d'\<rparr>)))"

definition proofs_json :: "codex_proof_flags \<Rightarrow> json" where
  "proofs_json f = slice_json (flag_slice (pf_Proofs f))"

definition complete_flags :: "cli_vars flag_set" where
  "complete_flags =
     command_flags @ proof_flags @ metrics_flags @
     [string_flag ''attempt-id'' cv_AttemptID_update, string_flag ''summary'' cv_Summary_update]"

definition runCodexCompleteCommand :: "('k, 'q, 's) cli_env \<Rightarrow> string list \<Rightarrow> 's cli" where
  "runCodexCompleteCommand ce args =
     (let ae = cl_api ce; label = ''codex complete'' in
      with_attempt_flags ce complete_flags no_vars args (\<lambda>v seen attemptID.
      with_argument label (validate_proofs (cv_Proof v)) (\<lambda>_.
      with_argument label (requiredUUIDFlag ae ''--attempt-id'' attemptID) (\<lambda>i.
      with_argument label (metrics_request (cv_Metrics v) seen) (\<lambda>metrics.
      openCommandRuntime ce label (cv_ConfigPath v) (\<lambda>rt.
      end_with_proofs ce label rt (cv_Proof v) i
        (CompleteWithArtifacts (ap_now ae) (cl_pg ce)
          \<lparr>or_AttemptID = i,
           or_Output = [(''summary'', JStr (cv_Summary v)), (''proofs'', proofs_json (cv_Proof v))],
           or_OutputSchema = [], or_Metrics = metrics\<rparr>)))))))"

definition block_flags :: "cli_vars flag_set" where
  "block_flags = command_flags @ proof_flags @ metrics_flags @ end_flags"

definition runCodexBlockCommand :: "('k, 'q, 's) cli_env \<Rightarrow> string list \<Rightarrow> 's cli" where
  "runCodexBlockCommand ce args =
     (let ae = cl_api ce; label = ''codex block'' in
      with_attempt_flags ce block_flags no_vars args (\<lambda>v seen attemptID.
      with_argument label (validate_proofs (cv_Proof v)) (\<lambda>_.
      with_argument label (requiredUUIDFlag ae ''--attempt-id'' attemptID) (\<lambda>i.
      with_argument label (metrics_request (cv_Metrics v) seen) (\<lambda>metrics.
      openCommandRuntime ce label (cv_ConfigPath v) (\<lambda>rt.
      end_with_proofs ce label rt (cv_Proof v) i
        (BlockWithArtifacts (ap_now ae) (cl_pg ce)
          \<lparr>br_AttemptID = i, br_BlockerReason = cv_Reason v, br_FailureCategory = cv_Category v,
           br_Blocker = [(''reason'', JStr (cv_Reason v)), (''proofs'', proofs_json (cv_Proof v))],
           br_Metrics = metrics\<rparr>)))))))"

section \<open>The other commands\<close>

definition runCodexClaimCommand :: "('k, 'q, 's) cli_env \<Rightarrow> string list \<Rightarrow> 's cli" where
  "runCodexClaimCommand ce args =
     (let ae = cl_api ce; label = ''codex claim'' in
      with_flags ce (filter (\<lambda>f. fst f \<noteq> ''harness'') claim_flags)
        (no_vars\<lparr>cv_Lease := ''30m'', cv_AgentID := ''codex''\<rparr>) args (\<lambda>v seen rest.
      with_argument label (parse_lease (cv_Lease v)) (\<lambda>lease.
      with_argument label (requiredUUIDFlag ae ''--workspace-id'' (cv_WorkspaceID v)) (\<lambda>w.
      with_argument label (requiredUUIDFlag ae ''--project-id'' (cv_ProjectID v)) (\<lambda>p.
      openCommandRuntime ce label (cv_ConfigPath v) (\<lambda>rt.
      claim_call ce label (claim_flags_request v ''codex'' w p lease)))))))"

definition runCodexCheckpointCommand :: "('k, 'q, 's) cli_env \<Rightarrow> string list \<Rightarrow> 's cli" where
  "runCodexCheckpointCommand ce args =
     (let ae = cl_api ce; label = ''codex checkpoint'' in
      with_attempt_flags ce checkpoint_flags no_vars args (\<lambda>v seen attemptID.
      with_argument label (requiredUUIDFlag ae ''--attempt-id'' attemptID) (\<lambda>i.
      openCommandRuntime ce label (cv_ConfigPath v) (\<lambda>rt.
      checkpoint_call ce label v i))))"

definition follow_up_flags :: "cli_vars flag_set" where
  "follow_up_flags =
     command_flags @ scope_flags @
     [string_flag ''attempt-id'' cv_AttemptID_update, string_flag ''artifact-id'' cv_ArtifactID_update,
      string_flag ''type'' cv_TicketType_update, string_flag ''title'' cv_Title_update,
      string_flag ''description'' cv_Description_update, list_flag ''acceptance'' cv_Acceptance_update,
      list_flag ''verify'' cv_Verify_update, list_flag ''path'' cv_Paths_update,
      list_flag ''tag'' cv_Tags_update, string_flag ''reason'' cv_Reason_update]"

definition follow_up_request ::
  "cli_vars \<Rightarrow> uuid option \<Rightarrow> attempt \<Rightarrow> create_ticket_from_attempt_request" where
  "follow_up_request v sourceArtifactID a =
     \<lparr>fa_WorkspaceID = Some (at_WorkspaceID a), fa_ProjectID = Some (at_ProjectID a),
      fa_SourceAttemptID = Some (at_ID a), fa_SourceArtifactID = sourceArtifactID,
      fa_TemplateKind = cv_TicketType v, fa_Title = cv_Title v, fa_Description = cv_Description v,
      fa_Priority = None, fa_Tags = cv_Tags v, fa_AcceptanceCriteria = cv_Acceptance v,
      fa_VerificationCommands = cv_Verify v, fa_ExpectedArtifacts = [],
      fa_RelevantPaths = cv_Paths v, fa_RequiredTools = [], fa_RequiredPermissions = [],
      fa_RequiredCapabilities = [], fa_AllowedHarnesses = [], fa_Environment = [], fa_Input = [],
      fa_CreatedByID = ''codex'', fa_CreationReason = cv_Reason v, fa_Enqueue = False,
      fa_CanEnqueue = False\<rparr>"

definition runCodexFollowUpCommand :: "('k, 'q, 's) cli_env \<Rightarrow> string \<Rightarrow> string list \<Rightarrow> 's cli" where
  "runCodexFollowUpCommand ce commandName args =
     (let ae = cl_api ce; label = ''codex '' @ commandName in
      with_flags ce follow_up_flags (no_vars\<lparr>cv_TicketType := TemplateFollowUp\<rparr>) args
        (\<lambda>v seen rest.
      with_argument label (requiredUUIDFlag ae ''--attempt-id'' (cv_AttemptID v)) (\<lambda>source.
      with_argument label (uuid_flag ae ''--artifact-id'' (cv_ArtifactID v)) (\<lambda>artifactID.
      openCommandRuntime ce label (cv_ConfigPath v) (\<lambda>rt.
      cli_call label (rt_query (GetAttempt_stmt source)) (\<lambda>a.
      with_argument label (validateOptionalScopeFlags ae (cv_WorkspaceID v) (cv_ProjectID v)
        (at_WorkspaceID a) (at_ProjectID a)) (\<lambda>_.
      cli_call label (CreateTicketFromAttempt (cl_pg ce) (follow_up_request v artifactID a))
        (\<lambda>t. cli_json (JObj [(''ticket'', JObj (cli_ticketPayload ae t))])))))))))"

text \<open>A request for help after a subcommand: not after the terminator, and not as the value of a
  flag.\<close>

definition codex_value_flags :: "string list" where
  "codex_value_flags =
     [''config'', ''workspace-id'', ''workspace'', ''project-id'', ''project'', ''type'', ''tag'',
      ''capability'', ''agent-id'', ''model'', ''lease'', ''idempotency-key'', ''attempt-id'',
      ''summary'', ''progress'', ''file'', ''command'', ''next'', ''risk'', ''artifact-id'', ''title'',
      ''description'', ''acceptance'', ''verify'', ''path'', ''reason'', ''category'', ''proof'',
      ''proof-type'', ''proof-role'', ''mime-type'']"

definition codexFlagConsumesValue :: "string \<Rightarrow> bool" where
  "codexFlagConsumesValue arg \<longleftrightarrow>
     prefix ''-'' arg \<and> arg \<noteq> ''-'' \<and> CHR ''='' \<notin> set (trim_left_dashes arg) \<and>
     trim_left_dashes arg \<in> set codex_value_flags"

fun help_requested :: "string option \<Rightarrow> string list \<Rightarrow> bool" where
  "help_requested prev [] \<longleftrightarrow> False"
| "help_requested prev (arg # args) \<longleftrightarrow>
     (if arg = ''--'' then False
      else if (arg = ''--help'' \<or> arg = ''-h'') \<and>
        \<not> (\<exists>p \<in> set_option prev. codexFlagConsumesValue p \<and> CHR ''='' \<notin> set p)
      then True else help_requested (Some arg) args)"

definition isCodexSubcommandHelpRequest :: "string list \<Rightarrow> bool" where
  "isCodexSubcommandHelpRequest args \<longleftrightarrow>
     args \<noteq> [] \<and> (hd args = ''help'' \<or> help_requested None args)"

definition codex_commands :: "string list" where
  "codex_commands =
     [''claim'', ''checkpoint'', ''complete'', ''follow-up'', ''propose'', ''recommendations'', ''block'']"

definition runCodexCommand :: "('k, 'q, 's) cli_env \<Rightarrow> string list \<Rightarrow> 's cli" where
  "runCodexCommand ce args =
     with_subcommand ''codex'' args (\<lambda>sub rest.
     if isCodexSubcommandHelpRequest rest \<and> sub \<in> set codex_commands
     then cli_print (HelpText (''codex '' @ sub))
     else if sub = ''claim'' then runCodexClaimCommand ce rest
     else if sub = ''checkpoint'' then runCodexCheckpointCommand ce rest
     else if sub = ''complete'' then runCodexCompleteCommand ce rest
     else if sub = ''follow-up'' \<or> sub = ''propose'' then runCodexFollowUpCommand ce sub rest
     else if sub = ''recommendations''
     then runRecommendationsCommandWithDefaultHarness ce rest ''codex''
     else if sub = ''block'' then runCodexBlockCommand ce rest
     else cli_usage (UnknownCommand ''codex'' sub))"

end
