(* ===== verification/Cli_Process.thy ===== *)
theory Cli_Process
  imports Cli_Codex
begin

text \<open>
  The entry point of the command line (internal/cli/cli.go): the dispatch of a command, and the
  options and checks of the commands that start a process. What a started process does to the
  world until it ends is an argument (\<open>pr_run\<close>), and so are the commands \<open>migrate\<close> and \<open>init\<close>,
  which work on the schema and on a new configuration file (\<open>pr_tool\<close>).
\<close>

section \<open>Options of processes\<close>

record process_options =
  po_ConfigPath :: string
  po_TUIWorkspaceID :: string
  po_TUIProjectID :: string
  po_TUIStatus :: string
  po_TUIType :: string
  po_TUILimit :: int
  po_WorkerOnce :: bool
  po_WorkerInterval :: string

definition parsePositiveIntFlag :: "string \<Rightarrow> string \<Rightarrow> string + int" where
  "parsePositiveIntFlag name v =
     (case ParseInt v of
        None \<Rightarrow> Inl (name @ '' must be an integer'')
      | Some n \<Rightarrow>
          if n < 0 then Inl (name @ '' must be non-negative'')
          else if MaxInt32 < n
          then Inl (name @ '' must be less than or equal to '' @ FormatInt MaxInt32)
          else Inr n)"

text \<open>The options that take a value, with the process that has them and how they are set.\<close>

definition limit_option :: "string \<Rightarrow> process_options \<Rightarrow> string + process_options" where
  "limit_option v o' =
     and_then (parsePositiveIntFlag ''--limit'' v) (\<lambda>n. Inr (o'\<lparr>po_TUILimit := n\<rparr>))"

definition value_options ::
  "(string \<times> string \<times> (string \<Rightarrow> process_options \<Rightarrow> string + process_options)) list" where
  "value_options =
     [(''--workspace-id'', ''tui'', \<lambda>v o'. Inr (o'\<lparr>po_TUIWorkspaceID := v\<rparr>)),
      (''--workspace'', ''tui'', \<lambda>v o'. Inr (o'\<lparr>po_TUIWorkspaceID := v\<rparr>)),
      (''--project-id'', ''tui'', \<lambda>v o'. Inr (o'\<lparr>po_TUIProjectID := v\<rparr>)),
      (''--project'', ''tui'', \<lambda>v o'. Inr (o'\<lparr>po_TUIProjectID := v\<rparr>)),
      (''--status'', ''tui'', \<lambda>v o'. Inr (o'\<lparr>po_TUIStatus := v\<rparr>)),
      (''--type'', ''tui'', \<lambda>v o'. Inr (o'\<lparr>po_TUIType := v\<rparr>)),
      (''--limit'', ''tui'', limit_option),
      (''--interval'', ''worker'', \<lambda>v o'. Inr (o'\<lparr>po_WorkerInterval := v\<rparr>))]"

definition split_option :: "string \<Rightarrow> string \<times> string option" where
  "split_option arg =
     (let n = takeWhile (\<lambda>c. c \<noteq> CHR ''='') arg in
      (n, if n = arg then None else Some (drop (length n + 1) arg)))"

fun parseProcessOptions ::
  "string \<Rightarrow> string list \<Rightarrow> process_options \<Rightarrow> string + process_options" where
  "parseProcessOptions name [] o' = Inr o'"
| "parseProcessOptions name (arg # args) o' =
     (case split_option arg of (n, inline) \<Rightarrow>
      if n = ''--config'' then
        (case inline of
           Some v \<Rightarrow> if v = [] then Inl ''--config requires a path''
             else parseProcessOptions name args (o'\<lparr>po_ConfigPath := v\<rparr>)
         | None \<Rightarrow> (case args of
               [] \<Rightarrow> Inl ''--config requires a path''
             | v # rest \<Rightarrow> parseProcessOptions name rest (o'\<lparr>po_ConfigPath := v\<rparr>)))
      else if arg = ''--once'' \<and> name = ''worker''
      then parseProcessOptions name args (o'\<lparr>po_WorkerOnce := True\<rparr>)
      else
        (case map_of value_options n of
           None \<Rightarrow> Inl (''unknown flag '' @ arg)
         | Some (process, set_value) \<Rightarrow>
             if name \<noteq> process then Inl (''unknown flag '' @ arg)
             else (case inline of
                 Some v \<Rightarrow> (case set_value v o' of
                     Inl msg \<Rightarrow> Inl msg | Inr o2 \<Rightarrow> parseProcessOptions name args o2)
               | None \<Rightarrow> (case args of
                     [] \<Rightarrow> Inl (n @ '' requires a value'')
                   | v # rest \<Rightarrow> (case set_value v o' of
                         Inl msg \<Rightarrow> Inl msg | Inr o2 \<Rightarrow> parseProcessOptions name rest o2)))))"

record worker_options =
  wo_Once :: bool
  wo_Interval :: duration
  wo_Concurrency :: int

definition workerOptionsFromProcess :: "process_options \<Rightarrow> int \<Rightarrow> string + worker_options" where
  "workerOptionsFromProcess o' concurrency =
     (let interval = (if po_WorkerInterval o' = [] then ''30s'' else po_WorkerInterval o') in
      case ParseDuration interval of
        None \<Rightarrow> Inl ''--interval must be a duration''
      | Some d \<Rightarrow>
          if d \<le> 0 then Inl ''--interval must be greater than zero''
          else Inr \<lparr>wo_Once = po_WorkerOnce o', wo_Interval = d,
            wo_Concurrency = (if concurrency \<le> 0 then 1 else concurrency)\<rparr>)"

section \<open>Processes\<close>

text \<open>A process that is ready to run, and how it ends: without an error, by a cancelled context
  before the runtime is open, or with an error.\<close>

datatype process =
    TerminalUI "uuid option" "uuid option" string string int
  | Server config
  | McpServer
  | Worker worker_options

record ('k, 'q, 's) process_env =
  pr_cli :: "('k, 'q, 's) cli_env"
  pr_level :: "string \<Rightarrow> bool"
  pr_cancelled :: "process \<Rightarrow> bool"
  pr_run :: "process \<Rightarrow> runtime_handle \<Rightarrow> 's cli_world \<Rightarrow> string option \<times> 's cli_world"
  pr_tool :: "string \<Rightarrow> string list \<Rightarrow> 's cli"

text \<open>Signals cancel the server and the worker that loops; the others run until they end.\<close>

fun cancellable :: "process \<Rightarrow> bool" where
  "cancellable (Server cfg) = True"
| "cancellable (Worker wo) = (\<not> wo_Once wo)"
| "cancellable _ = False"

definition start_process ::
  "('k, 'q, 's) process_env \<Rightarrow> string \<Rightarrow> config \<Rightarrow> process \<Rightarrow> 's cli" where
  "start_process pe name cfg p w =
     (if cancellable p \<and> pr_cancelled pe p then cli_print NoOutput w
      else (case open_runtime (pr_cli pe) cfg of
          Inl msg \<Rightarrow> cli_failed (OpenError name msg) w
        | Inr rt \<Rightarrow> (case pr_run pe p rt w of
              (Some msg, w') \<Rightarrow>
                (\<lparr>res_Code = 1, res_Output = ProcessText name, res_Errors = [UsageError msg]\<rparr>, w')
            | (None, w') \<Rightarrow> cli_print (ProcessText name) w')))"

definition with_config_check :: "string \<Rightarrow> string option \<Rightarrow> 's cli \<Rightarrow> 's cli" where
  "with_config_check name problem_text run =
     (case problem_text of Some msg \<Rightarrow> cli_usage (ProcessConfigError name msg) | None \<Rightarrow> run)"

definition runProcess :: "('k, 'q, 's) process_env \<Rightarrow> string \<Rightarrow> string list \<Rightarrow> 's cli" where
  "runProcess pe name args =
     (let ce = pr_cli pe; cc = cl_config ce; ae = cl_api ce in
      case parseProcessOptions name args
          \<lparr>po_ConfigPath = [], po_TUIWorkspaceID = [], po_TUIProjectID = [], po_TUIStatus = [],
           po_TUIType = [], po_TUILimit = 0, po_WorkerOnce = False, po_WorkerInterval = []\<rparr> of
        Inl msg \<Rightarrow> cli_usage (UsageError msg)
      | Inr o' \<Rightarrow>
          (case Load cc (po_ConfigPath o') of
             Inl e \<Rightarrow> cli_usage (ConfigurationError name e)
           | Inr cfg \<Rightarrow>
               if \<not> pr_level pe (LogLevel cfg)
               then cli_usage (ProcessConfigError name
                 ''log_level must be debug, info, warn, or error'')
               else if name = ''tui'' then
                 with_config_check name (ValidateRuntime cc cfg)
                   (with_argument name (uuid_flag ae ''--workspace-id'' (po_TUIWorkspaceID o')) (\<lambda>w.
                    with_argument name (uuid_flag ae ''--project-id'' (po_TUIProjectID o')) (\<lambda>p.
                    start_process pe name cfg
                      (TerminalUI w p (po_TUIStatus o') (po_TUIType o') (int32 (po_TUILimit o'))))))
               else if name = ''server'' then
                 with_config_check name (ValidateServer cc cfg)
                   (start_process pe name cfg (Server cfg))
               else if name = ''mcp'' then
                 with_config_check name (ValidateRuntime cc cfg)
                   (start_process pe name cfg McpServer)
               else
                 with_argument name (workerOptionsFromProcess o' (WorkerConcurrency cfg)) (\<lambda>wo.
                 with_config_check name (ValidateWorker cc cfg)
                   (start_process pe name cfg (Worker wo)))))"

section \<open>Dispatch\<close>

definition commands :: "string list" where
  "commands =
     [''server'', ''worker'', ''init'', ''migrate'', ''mcp'', ''version'', ''tui'', ''create'',
      ''propose'', ''claim-next'', ''heartbeat'', ''checkpoint'', ''complete'', ''fail'', ''block'',
      ''cancel'', ''attach'', ''list'', ''get'', ''workspaces'', ''projects'', ''proposed'',
      ''recommendations'', ''related'', ''analytics'', ''observability'', ''codex'']"

definition isKnownCommand :: "string \<Rightarrow> bool" where
  "isKnownCommand name \<longleftrightarrow> name \<in> set commands"

definition runRuntimeCommand ::
  "('k :: linorder, 'q, 's) cli_env \<Rightarrow> string \<Rightarrow> string list \<Rightarrow> 's cli" where
  "runRuntimeCommand ce name args =
     (if name = ''create'' \<or> name = ''propose'' then runCreateCommand ce name args
      else if name = ''claim-next'' then runClaimNextCommand ce args
      else if name = ''list'' then runListCommand ce args
      else if name = ''get'' then runGetCommand ce args
      else if name = ''workspaces'' then runWorkspacesCommand ce args
      else if name = ''projects'' then runProjectsCommand ce args
      else if name = ''proposed'' then runProposedCommand ce args
      else if name = ''recommendations'' then runRecommendationsCommand ce args
      else if name = ''related'' then runRelatedCommand ce args
      else if name = ''heartbeat'' then runHeartbeatCommand ce args
      else if name = ''checkpoint'' then runCheckpointCommand ce args
      else if name = ''complete'' then runCompleteCommand ce args
      else if name = ''fail'' then runFailCommand ce args
      else if name = ''block'' then runBlockCommand ce args
      else if name = ''cancel'' then runCancelCommand ce args
      else if name = ''attach'' then runAttachCommand ce args
      else if name = ''analytics'' then runAnalyticsCommand ce args
      else if name = ''observability'' then runObservabilityCommand ce args
      else cli_failed (UnknownCommand [] name))"

definition RunWithDependencies ::
  "('k :: linorder, 'q, 's) process_env \<Rightarrow> string list \<Rightarrow> 's cli" where
  "RunWithDependencies pe args =
     (case args of
        [] \<Rightarrow> cli_print (HelpText [])
      | name # rest \<Rightarrow>
          if isHelpArg name then cli_print (HelpText [])
          else if \<not> isKnownCommand name then cli_usage (UnknownCommand [] name)
          else if rest \<noteq> [] \<and> isHelpArg (hd rest) then cli_print (HelpText name)
          else if name = ''migrate'' \<or> name = ''init'' then pr_tool pe name rest
          else if name = ''version'' then
            (if rest \<noteq> [] then cli_usage (UsageError ''version does not accept arguments'')
             else cli_print VersionText)
          else if name \<in> {''server'', ''worker'', ''mcp'', ''tui''} then runProcess pe name rest
          else if name = ''codex'' then runCodexCommand (pr_cli pe) rest
          else runRuntimeCommand (pr_cli pe) name rest)"

end
