(* ===== verification/Cli_Proofs.thy ===== *)
theory Cli_Proofs
  imports Cli_Process Search_Properties Rest_Properties Web_Properties Boundary_Properties
begin

text \<open>
  The files of proofs under the local artifact root: ending an attempt stores them first, and when
  the attempt is not ended, none of them stays behind.
\<close>

section \<open>Files that were stored\<close>

text \<open>What the runtime's artifact root and the system have to supply: the printed URLs are read back,
  copies are not cut short and removals work.\<close>

definition readable_path :: "url_env \<Rightarrow> string \<Rightarrow> bool" where
  "readable_path ue rel \<longleftrightarrow> local_url_ok ue rel \<and> TrimSpace rel = rel"

definition sound_storage ::
  "('k, 'q, 's) cli_env \<Rightarrow> runtime_handle \<Rightarrow> string list \<Rightarrow> bool" where
  "sound_storage ce rt proofs \<longleftrightarrow>
     rh_S3 rt = None \<and> se_fault (cl_cleanup ce) = (\<lambda>_. None) \<and>
     (\<forall>n. se_fault (cl_storage ce n) ''copy'' = None) \<and>
     (\<forall>n name rel p. p \<in> set proofs \<longrightarrow>
        artifact_names (cl_storage ce n) (TrimSpace (TrimSpace p)) (Base (TrimSpace p)) = Inr (name, rel) \<longrightarrow>
        readable_path (ap_url (cl_api ce)) rel)"

text \<open>The stored files \<open>rels\<close> can be removed, and the others are those of \<open>files\<close>.\<close>

definition added ::
  "('k, 'q, 's) cli_env \<Rightarrow> runtime_handle \<Rightarrow> string list \<Rightarrow> (string \<times> string) list \<Rightarrow> 's cli_world \<Rightarrow> bool"
  where
  "added ce rt rels files w \<longleftrightarrow>
     filter (\<lambda>f. fst f \<notin> set rels) (rf_files (cw_files w)) = files \<and>
     (rels \<noteq> [] \<longrightarrow> TrimSpace (rh_LocalRoot rt) \<noteq> []) \<and>
     (\<forall>rel \<in> set rels. LocalRelativePath (ap_url (cl_api ce))
        (localArtifactURL (ap_url (cl_api ce)) rel) = Inr rel)"

abbreviation stored_urls :: "('k, 'q, 's) cli_env \<Rightarrow> string list \<Rightarrow> string list" where
  "stored_urls ce rels \<equiv> map (localArtifactURL (ap_url (cl_api ce))) rels"

lemma StoreLocalFile_Inl:
  assumes "StoreLocalFile ue env dir source preferred fs = (Inl e, fs')"
    and "se_fault env ''copy'' = None"
  shows "rf_files fs' = rf_files fs"
  using assms
  by (auto simp: StoreLocalFile_def split: sum.splits prod.splits option.splits if_splits)
    (metis root_mkdir_all_files snd_conv)+

lemma RemoveLocal_files:
  assumes "LocalRelativePath ue url = Inr rel" and "se_fault env = (\<lambda>_. None)"
    and "TrimSpace dir \<noteq> []"
  shows "rf_files (snd (RemoveLocal ue env dir url fs)) = filter (\<lambda>f. fst f \<noteq> rel) (rf_files fs)"
proof -
  have kept: "rf_files fs = filter (\<lambda>f. fst f \<noteq> rel) (rf_files fs)"
    if "map_of (rf_files fs) rel = None"
    using that by (intro filter_True [symmetric]) (auto simp: map_of_eq_None_iff)
  show ?thesis
    using assms kept
    by (auto simp: RemoveLocal_def openRoot_def system_def root_remove_def root_entry_def
        split: option.splits)
qed

section \<open>Storing and removing\<close>

lemma store_proof_added:
  assumes "storeFilesystemProof ce rt n (TrimSpace p) w = (r, w')" and "sound_storage ce rt ps"
    and "p \<in> set ps" and "added ce rt rels files w"
  obtains e where "r = Inl e" "added ce rt rels files w'"
  | "r = Inr None" "added ce rt rels files w'"
  | s rel where "r = Inr (Some s)" "sa_URL s = localArtifactURL (ap_url (cl_api ce)) rel"
      "added ce rt (rels @ [rel]) files w'"
proof -
  let ?ue = "ap_url (cl_api ce)"
  obtain x fs where x: "StoreLocalFile ?ue (cl_storage ce n) (rh_LocalRoot rt) (TrimSpace p)
      (Base (TrimSpace p)) (cw_files w) = (x, fs)"
    by fastforce
  have s3: "rh_S3 rt = None" and copy: "se_fault (cl_storage ce n) ''copy'' = None"
    using assms(2) by (simp_all add: sound_storage_def)
  have store: "StoreArtifact ce rt n (TrimSpace p) (Base (TrimSpace p)) w = (x, w\<lparr>cw_files := fs\<rparr>)"
    using s3 x by (simp add: StoreArtifact_def Let_def)
  consider "r = Inr None" "w' = w" | e where "r = Inl e" "w' = w"
    | e where "x = Inl e" "r = Inl (ProofFailed (''store proof file: '' @ e))" "w' = w\<lparr>cw_files := fs\<rparr>"
    | s where "x = Inr s" "r = Inr (Some s)" "w' = w\<lparr>cw_files := fs\<rparr>"
    using assms(1) unfolding storeFilesystemProof_def store
    by (cases "cl_stat ce (TrimSpace p)"; cases x) (auto split: if_splits)
  then show ?thesis
  proof cases
    case 3
    then have "rf_files fs = rf_files (cw_files w)"
      using x copy StoreLocalFile_Inl by blast
    with 3 assms(4) that(1) show ?thesis by (simp add: added_def)
  next
    case (4 s)
    with x obtain content rel where
      src: "local_source (cl_storage ce n) (TrimSpace (TrimSpace p)) (Base (TrimSpace p)) =
        Inr (content, sa_Name s, rel)"
      and fs: "rf_files fs = (rel, content) # rf_files (cw_files w)"
        "rel \<notin> fst ` set (rf_files (cw_files w))"
      and url: "sa_URL s = localArtifactURL ?ue rel" and root: "TrimSpace (rh_LocalRoot rt) \<noteq> []"
      using StoreLocalFile_InrD by (metis (no_types, lifting))
    have names: "artifact_names (cl_storage ce n) (TrimSpace (TrimSpace p)) (Base (TrimSpace p)) =
        Inr (sa_Name s, rel)"
      using src by (auto simp: local_source_def result_simps)
    then have "readable_path ?ue rel"
      using assms(2,3) unfolding sound_storage_def by blast
    then have "local_url_ok ?ue rel" "TrimSpace rel = rel"
      by (simp_all add: readable_path_def)
    note LocalRelativePath_url [OF this(1) artifact_names_proper [OF names] this(2)]
    moreover have "filter (\<lambda>f. fst f \<notin> set (rels @ [rel])) (rf_files fs) =
        filter (\<lambda>f. fst f \<notin> set rels) (rf_files (cw_files w))"
      using fs by (auto intro!: filter_cong)
    ultimately have "added ce rt (rels @ [rel]) files w'"
      using assms(4) 4(3) root by (auto simp: added_def)
    with 4(2) url that(3) show ?thesis by blast
  qed (use assms(4) that in auto)
qed

lemma cleanup_files:
  assumes "cleanupStoredProofArtifacts ce rt (stored_urls ce rels) w = (es, w')"
    and "sound_storage ce rt ps" and "rels \<noteq> [] \<longrightarrow> TrimSpace (rh_LocalRoot rt) \<noteq> []"
    and "\<forall>rel \<in> set rels. LocalRelativePath (ap_url (cl_api ce))
        (localArtifactURL (ap_url (cl_api ce)) rel) = Inr rel"
  shows "rf_files (cw_files w') = filter (\<lambda>f. fst f \<notin> set rels) (rf_files (cw_files w))"
  using assms
proof (induction rels arbitrary: w es)
  case (Cons rel rels)
  let ?ue = "ap_url (cl_api ce)"
  obtain r w1 where r: "RemoveArtifact ce rt (localArtifactURL ?ue rel) w = (r, w1)" by fastforce
  obtain es' where rest: "cleanupStoredProofArtifacts ce rt (stored_urls ce rels) w1 = (es', w')"
    using Cons.prems(1) r by (auto split: prod.splits)
  have "BackendForURL ?ue (localArtifactURL ?ue rel) = BackendLocal"
    using Cons.prems(4) by (simp add: BackendForURL_def IsLocalArtifactURL_def)
  then have "rf_files (cw_files w1) = filter (\<lambda>f. fst f \<noteq> rel) (rf_files (cw_files w))"
    using r Cons.prems(2-4) RemoveLocal_files [of ?ue "localArtifactURL ?ue rel" rel
        "cl_cleanup ce" "rh_LocalRoot rt" "cw_files w"]
    by (auto simp: RemoveArtifact_def Let_def sound_storage_def split: prod.splits)
  with Cons.IH [OF rest] Cons.prems show ?case by (auto intro: filter_cong)
qed simp

lemma cleanup_removes:
  assumes "cleanupStoredProofArtifacts ce rt (stored_urls ce rels) w = (es, w')"
    and "sound_storage ce rt ps" and "added ce rt rels files w"
  shows "rf_files (cw_files w') = files"
  using cleanup_files [OF assms(1,2)] assms(3) by (simp add: added_def)

lemma proof_requests_added:
  assumes "codexProofArtifactRequests ce rt f a reqs (stored_urls ce rels) ps w = (r, w')"
    and "sound_storage ce rt proofs" and "set ps \<subseteq> set proofs" and "added ce rt rels files w"
  shows "case r of Inl e \<Rightarrow> rf_files (cw_files w') = files
    | Inr (reqs', urls) \<Rightarrow> \<exists>rels'. urls = stored_urls ce rels' \<and> added ce rt rels' files w'"
  using assms
proof (induction ps arbitrary: reqs rels w)
  case (Cons p ps)
  obtain x w1 where x: "storeFilesystemProof ce rt (length rels) (TrimSpace p) w = (x, w1)"
    by fastforce
  have "p \<in> set proofs" using Cons.prems(3) by simp
  from x Cons.prems(2) this Cons.prems(4) show ?case
  proof (cases rule: store_proof_added)
    case (1 e)
    obtain es w2 where "cleanupStoredProofArtifacts ce rt (stored_urls ce rels) w1 = (es, w2)"
      by fastforce
    with 1 x Cons.prems(1,2) show ?thesis by (auto dest: cleanup_removes)
  next
    case 2
    with x Cons.prems(1) have "codexProofArtifactRequests ce rt f a
        (reqs @ [proof_request ce f a (TrimSpace p) None]) (stored_urls ce rels) ps w1 = (r, w')"
      by simp
    from Cons.IH [OF this] Cons.prems(2,3) 2(2) show ?thesis by simp
  next
    case (3 s rel)
    with x Cons.prems(1) have "codexProofArtifactRequests ce rt f a
        (reqs @ [proof_request ce f a (TrimSpace p) (Some s)]) (stored_urls ce (rels @ [rel])) ps w1 =
        (r, w')"
      by simp
    from Cons.IH [OF this] Cons.prems(2,3) 3(3) show ?thesis by simp
  qed
qed auto

lemma proofs_for_attempt_added:
  assumes "codexProofArtifactRequestsForAttempt ce rt f i w = (x, w1)"
    and "sound_storage ce rt (pf_Proofs f)"
  shows "case x of Inl e \<Rightarrow> rf_files (cw_files w1) = rf_files (cw_files w)
    | Inr (reqs, urls) \<Rightarrow> \<exists>rels. urls = stored_urls ce rels \<and>
        added ce rt rels (rf_files (cw_files w)) w1"
proof -
  have none: "added ce rt [] (rf_files (cw_files w)) w" by (simp add: added_def)
  consider "x = Inr ([], [])" "w1 = w" | e where "x = Inl e" "w1 = w"
    | a where "codexProofArtifactRequests ce rt f a [] (stored_urls ce []) (pf_Proofs f) w = (x, w1)"
    using assms(1) unfolding codexProofArtifactRequestsForAttempt_def
    by (cases "pf_Proofs f = []"; cases "GetAttempt_stmt i (cw_db w)") (auto split: sum.splits)
  then show ?thesis
  proof cases
    case 1
    with none show ?thesis by auto
  next
    case (3 a)
    from proof_requests_added [OF this assms(2) subset_refl none] show ?thesis .
  qed simp
qed

text \<open>C34. An attempt that is not ended keeps no files: when a command that ends an attempt with proofs
  reports an error, whether a proof could not be stored, the attempt was refused or an artifact
  was, the files under the local artifact root are those from before.\<close>

theorem failed_end_keeps_no_files:
  assumes "end_with_proofs ce label rt f i finish w = (r, w')" and "res_Code r \<noteq> 0"
    and "sound_storage ce rt (pf_Proofs f)"
  shows "rf_files (cw_files w') = rf_files (cw_files w)"
proof -
  obtain x w1 where x: "codexProofArtifactRequestsForAttempt ce rt f i w = (x, w1)" by fastforce
  note stored = proofs_for_attempt_added [OF x assms(3)]
  show ?thesis
  proof (cases x)
    case (Inl e)
    with assms(1) x have "cw_files w' = cw_files w1"
      by (cases e) (auto simp: end_with_proofs_def Let_def cli_usage_def cli_failed_def cli_exit_def)
    with stored Inl show ?thesis by simp
  next
    case (Inr p)
    then obtain reqs rels where p: "p = (reqs, stored_urls ce rels)"
      and more: "added ce rt rels (rf_files (cw_files w)) w1"
      using stored by (cases p) auto
    obtain y d' where y: "finish reqs (cw_db w1) = (y, d')" by fastforce
    obtain es w2 where c:
      "cleanupStoredProofArtifacts ce rt (stored_urls ce rels) (w1\<lparr>cw_db := d'\<rparr>) = (es, w2)"
      by fastforce
    have "added ce rt rels (rf_files (cw_files w)) (w1\<lparr>cw_db := d'\<rparr>)"
      using more by (simp add: added_def)
    note cleanup_removes [OF c assms(3) this]
    moreover have "w' = w2"
      using assms(1,2) x Inr p y c
      by (auto simp: end_with_proofs_def Let_def cli_print_def cli_exit_def split: sum.splits)
    ultimately show ?thesis by simp
  qed
qed

text \<open>A command line for the witnesses: every file exists and has three bytes, and the storage is
  local.\<close>

definition sample_cli :: "(nat, string, unit) cli_env" where
  "sample_cli =
     \<lparr>cl_api = sample_api\<lparr>ap_url := sample_url_env\<rparr>, cl_pg = sample_env, cl_collate = length,
      cl_time = (\<lambda>_. []), cl_trunc = (\<lambda>_ t. t), cl_search = sample_search_env,
      cl_config = sample_config_env, cl_pool = (\<lambda>_. None), cl_client = (\<lambda>_. None),
      cl_put = (\<lambda>_ _ _ _ _ s. (None, s)), cl_del = (\<lambda>_ _ s. (None, s)),
      cl_stat = (\<lambda>_. Found \<lparr>fi_IsDir = False, fi_IsRegular = True, fi_Size = 3\<rparr>),
      cl_storage = (\<lambda>_. sample_storage), cl_cleanup = sample_storage, cl_float = (\<lambda>_. None)\<rparr>"

definition sample_process :: "(nat, string, unit) process_env" where
  "sample_process =
     \<lparr>pr_cli = sample_cli, pr_level = (\<lambda>_. True), pr_cancelled = (\<lambda>_. False),
      pr_run = (\<lambda>_ _ w. (None, w)), pr_tool = (\<lambda>_ _. cli_print NoOutput)\<rparr>"

definition sample_world :: "db \<Rightarrow> unit cli_world" where
  "sample_world d = \<lparr>cw_db = d, cw_files = \<lparr>rf_files = [(''old'', ''x'')], rf_dirs = []\<rparr>, cw_bucket = ()\<rparr>"

lemma sample_opens:
  "openCommandRuntime sample_cli name [] f =
     f \<lparr>rh_LocalRoot = ''/home/u/.forge/artifacts'', rh_S3 = None\<rparr>"
proof -
  let ?cfg = "default_config\<lparr>ArtifactRoot := ''/home/u/.forge/artifacts''\<rparr>"
  have "Load sample_config_env [] = Inr ?cfg" and "open_runtime sample_cli ?cfg =
      Inr \<lparr>rh_LocalRoot = ''/home/u/.forge/artifacts'', rh_S3 = None\<rparr>"
    by code_simp+
  then show ?thesis
    by (simp add: openCommandRuntime_def sample_cli_def)
qed

definition sample_proof :: codex_proof_flags where
  "sample_proof = (cv_Proof no_vars)\<lparr>pf_Proofs := [''log'']\<rparr>"

definition sample_attempt_db :: db where
  "sample_attempt_db = sample_db\<lparr>attempts := [sample_attempt_row AttemptStatusFailed None None]\<rparr>"

definition sample_end :: "cli_result \<times> unit cli_world" where
  "sample_end =
     end_with_proofs sample_cli ''codex complete'' \<lparr>rh_LocalRoot = ''/root'', rh_S3 = None\<rparr>
       sample_proof (Some sample_attempt)
       (CompleteWithArtifacts 9 sample_env \<lparr>or_AttemptID = Some sample_attempt, or_Output = [],
          or_OutputSchema = [], or_Metrics = None\<rparr>) (sample_world sample_attempt_db)"

theorem failed_end_keeps_no_files_witness:
  "rf_files (cw_files (snd sample_end)) = [(''old'', ''x'')]"
proof -
  let ?rt = "\<lparr>rh_LocalRoot = ''/root'', rh_S3 = None\<rparr>"
  have names: "artifact_names sample_storage (TrimSpace (TrimSpace ''log'')) (Base (TrimSpace ''log'')) =
      Inr (''log'', ''01ab-log'')"
    by code_simp
  have "local_url_ok sample_url_env ''01ab-log'' \<and> TrimSpace ''01ab-log'' = ''01ab-log''"
    by code_simp
  with names have "sound_storage sample_cli ?rt (pf_Proofs sample_proof)"
    by (simp add: sound_storage_def readable_path_def sample_proof_def sample_cli_def
        sample_storage_def)
  moreover have "res_Code (fst sample_end) \<noteq> 0"
    by code_simp
  ultimately have "rf_files (cw_files (snd sample_end)) = rf_files (cw_files (sample_world sample_attempt_db))"
    using failed_end_keeps_no_files [of sample_cli _ ?rt sample_proof] surjective_pairing
    unfolding sample_end_def by metis
  then show ?thesis by (simp add: sample_world_def)
qed

end
