(* ===== verification/Cli_Properties.thy ===== *)
theory Cli_Properties
  imports Cli_Proofs
begin

text \<open>
  What the command line promises: that a command is at most one call of the runtime, that commands
  which report an error leave the database alone, and that no files of proofs are left behind.
\<close>

section \<open>Commands and calls\<close>

named_theorems command_intros \<open>composition of commands\<close>

text \<open>An operation has the effect of one call of the runtime.\<close>

definition is_call :: "'a svc \<Rightarrow> bool" where
  "is_call m \<longleftrightarrow> (\<exists>c. \<forall>d. snd (m d) = snd (runtime c d))"

definition prints :: "'s cli \<Rightarrow> bool" where
  "prints c \<longleftrightarrow> (\<forall>w. snd (c w) = w \<and> res_Code (fst (c w)) = 0)"

lemma is_call_if [command_intros]: "is_call m \<Longrightarrow> is_call m' \<Longrightarrow> is_call (if b then m else m')"
  by simp

text \<open>What may come of a command: the database is as it was, or one call of the runtime was made
  and the exit code is not that of a usage error; a quiet command that fails changes nothing.\<close>

definition ok_result :: "bool \<Rightarrow> 's cli_world \<Rightarrow> cli_result \<times> 's cli_world \<Rightarrow> bool" where
  "ok_result quiet w x \<longleftrightarrow>
     (cw_db (snd x) = cw_db w \<or>
      (res_Code (fst x) \<noteq> 2 \<and> (\<exists>k. cw_db (snd x) = snd (runtime k (cw_db w))))) \<and>
     (quiet \<and> res_Code (fst x) \<noteq> 0 \<longrightarrow> cw_db (snd x) = cw_db w)"

definition command_ok :: "bool \<Rightarrow> 's cli \<Rightarrow> bool" where
  "command_ok quiet c \<longleftrightarrow> (\<forall>w. ok_result quiet w (c w))"

lemma is_callI: "no_result m = runtime c \<Longrightarrow> is_call m"
proof -
  assume "no_result m = runtime c"
  moreover have "snd (no_result m d) = snd (m d)" for d
    by (cases "m d"; cases "fst (m d)") (auto simp: no_result_def svc_bind_def svc_return_def)
  ultimately show ?thesis unfolding is_call_def by metis
qed

lemma prints_print [command_intros]: "prints (cli_print out)"
  by (simp add: prints_def cli_print_def)

lemma prints_if [command_intros]: "prints c \<Longrightarrow> prints c' \<Longrightarrow> prints (if b then c else c')"
  by simp

lemma prints_groups [command_intros]: "prints (analytics_groups_output b title gs)"
  by (simp add: analytics_groups_output_def command_intros)

lemma ok_prints: "prints c \<Longrightarrow> command_ok q c"
  by (simp add: command_ok_def ok_result_def prints_def)

lemma ok_print [command_intros]: "command_ok q (cli_print out)"
  by (rule ok_prints) (rule prints_print)

lemma ok_groups [command_intros]: "command_ok q (analytics_groups_output b title gs)"
  by (rule ok_prints) (rule prints_groups)

lemma ok_usage [command_intros]: "command_ok q (cli_usage e)"
  by (simp add: command_ok_def ok_result_def cli_usage_def cli_exit_def)

lemma ok_failed [command_intros]: "command_ok q (cli_failed e)"
  by (simp add: command_ok_def ok_result_def cli_failed_def cli_exit_def)

lemma ok_if [command_intros]:
  "command_ok q c \<Longrightarrow> command_ok q c' \<Longrightarrow> command_ok q (if b then c else c')"
  by simp

lemma ok_let: "(\<And>x. command_ok q (f x)) \<Longrightarrow> command_ok q (Let a f)"
  by simp

lemma ok_argument [command_intros]:
  "(\<And>a. command_ok q (f a)) \<Longrightarrow> command_ok q (with_argument label r f)"
  by (simp add: with_argument_def ok_usage split: sum.split)

lemma ok_flags [command_intros]:
  "(\<And>v seen rest. command_ok q (f v seen rest)) \<Longrightarrow> command_ok q (with_flags ce fs d args f)"
  by (simp add: with_flags_def ok_usage split: sum.split prod.split)

lemma ok_attempt_flags [command_intros]:
  "(\<And>v seen a. command_ok q (f v seen a)) \<Longrightarrow> command_ok q (with_attempt_flags ce fs d args f)"
  by (simp add: with_attempt_flags_def ok_flags split: prod.split)

lemma ok_subcommand [command_intros]:
  "(\<And>sub rest. command_ok q (f sub rest)) \<Longrightarrow> command_ok q (with_subcommand grp args f)"
  by (simp add: with_subcommand_def ok_print split: list.split)

lemma ok_open [command_intros]:
  "(\<And>rt. command_ok q (f rt)) \<Longrightarrow> command_ok q (openCommandRuntime ce name path f)"
  by (simp add: openCommandRuntime_def ok_failed split: sum.split)

lemma cli_call_cases:
  assumes "cli_call label m f w = (r, w')"
  obtains e d' where "m (cw_db w) = (Inl e, d')" "w' = w\<lparr>cw_db := d'\<rparr>" "res_Code r = 1"
  | a d' where "m (cw_db w) = (Inr a, d')" "f a (w\<lparr>cw_db := d'\<rparr>) = (r, w')"
  using assms
  by (auto simp: cli_call_def cli_failed_def cli_exit_def split: prod.splits sum.splits)

lemma ok_call:
  assumes "is_call m" and "q \<longrightarrow> svc_atomic m" and "\<And>a. prints (f a)"
  shows "command_ok q (cli_call label m f :: 's cli)"
  unfolding command_ok_def
proof
  fix w :: "'s cli_world"
  obtain r w' where x: "cli_call label m f w = (r, w')" by fastforce
  have "cw_db w' = snd (m (cw_db w)) \<and> res_Code r \<noteq> 2 \<and>
      (q \<and> res_Code r \<noteq> 0 \<longrightarrow> cw_db w' = cw_db w)"
    using x
  proof (cases rule: cli_call_cases)
    case (1 e d')
    then show ?thesis using assms(2) by (auto dest: svc_atomicD)
  next
    case (2 a d')
    with assms(3) [of a] have "w' = w\<lparr>cw_db := d'\<rparr>" and "res_Code r = 0"
      unfolding prints_def by (metis fst_conv snd_conv)+
    with 2 show ?thesis by simp
  qed
  with assms(1) show "ok_result q w (cli_call label m f w)"
    unfolding ok_result_def is_call_def x by auto
qed

lemma ok_read:
  assumes "svc_reads m" and "\<And>a. command_ok q (f a)"
  shows "command_ok q (cli_call label m f :: 's cli)"
  unfolding command_ok_def
proof
  fix w :: "'s cli_world"
  obtain x d' where m: "m (cw_db w) = (x, d')" by fastforce
  with assms(1) have "d' = cw_db w" unfolding svc_reads_def by (metis snd_conv)
  with m assms(2) show "ok_result q w (cli_call label m f w)"
    by (cases x) (simp_all add: cli_call_def ok_failed [unfolded command_ok_def]
        command_ok_def)
qed


section \<open>The operations that commands call\<close>

lemmas runtime_calls = runtime.simps [symmetric]

lemma calls [command_intros]:
  "is_call (with_transaction (CreateTicket env ct))" "is_call (with_transaction (ProposeTicket env ct))"
  "is_call (ClaimNext cl (Some runtime_policy) now locked env cn)" "is_call (Heartbeat now env hb)"
  "is_call (Checkpoint env cp)" "is_call (with_transaction (Complete now env co))"
  "is_call (with_transaction (Fail now env fa))" "is_call (with_transaction (Block now env bl))"
  "is_call (Cancel now env ca)" "is_call (ReadyProposedTicket env pt)"
  "is_call (EnqueueProposedTicket env pt)" "is_call (RejectProposedTicket env pt)"
  "is_call (ArchiveProposedTicket env pt)" "is_call (CreateTicketFromAttempt env fc)"
  "is_call (CompleteWithArtifacts now env co rs)" "is_call (BlockWithArtifacts now env bl rs)"
  "is_call (RegisterArtifact env ra)"
  "is_call (svc_stmt (StoreError []) (CreateWorkspace_stmt env nm))"
  "is_call (svc_stmt (StoreError []) (CreateProject_stmt env wo nm))"
  "is_call (svc_stmt (StoreError []) (CreateWebhookSubscription_stmt env ws))"
  by (rule is_callI, rule runtime_calls)+

lemma reads [command_intros]:
  "svc_reads (ListTickets lt)" "svc_reads (ListProposedTickets lp)" "svc_reads (RecommendTickets env rt)"
  "svc_reads (RelatedWork se rw)" "svc_reads (Summary f)" "svc_reads (ByModel col f)"
  "svc_reads (ByHarness col f)" "svc_reads (ByStatus col f)" "svc_reads (ByAgent col f)"
  "svc_reads (Trends qt tr f b)" "svc_reads (svc_read q)" "svc_reads (rt_query p)"
  unfolding RecommendTickets_def RelatedWork_def ByModel_def ByHarness_def ByStatus_def ByAgent_def
    Trends_def Let_def
  by (intro atomic_intros)+

lemma quiet_call [command_intros]:
  "is_call m \<Longrightarrow> svc_atomic m \<Longrightarrow> (\<And>a. prints (f a)) \<Longrightarrow> command_ok q (cli_call label m f)"
  by (rule ok_call) auto

lemma loud_call:
  "is_call m \<Longrightarrow> (\<And>a. prints (f a)) \<Longrightarrow> command_ok False (cli_call label m f)"
  by (rule ok_call) auto

section \<open>The commands\<close>

lemma ok_create [command_intros]: "command_ok q (runCreateCommand ce name args)"
  unfolding runCreateCommand_def Let_def
  by (intro command_intros atomic_intros)

lemma ok_claim_call: "command_ok False (claim_call ce label req)"
  unfolding claim_call_def Let_def by (intro loud_call command_intros)

lemma ok_claim: "command_ok False (runClaimNextCommand ce args)"
  unfolding runClaimNextCommand_def by (intro command_intros ok_claim_call)

lemma ok_reading [command_intros]:
  "command_ok q (runListCommand ce args)" "command_ok q (runGetCommand ce args)"
  "command_ok q (runRecommendationsCommandWithDefaultHarness ce args h)"
  "command_ok q (runRelatedCommand ce args)" "command_ok q (runProposedListCommand ce args)"
  unfolding runListCommand_def runGetCommand_def runRecommendationsCommandWithDefaultHarness_def
    runRelatedCommand_def runProposedListCommand_def Let_def
  by (intro command_intros ok_read)+

lemmas quiet_intros = command_intros ok_read atomic_intros

lemma ok_resources [command_intros]:
  "command_ok q (runWorkspacesCommand ce args)" "command_ok q (runProjectsCommand ce args)"
  unfolding runWorkspacesCommand_def runProjectsCommand_def Let_def
  by (intro quiet_intros)+

lemma ok_registrations [command_intros]:
  "command_ok q (runObservabilitySubscriptionsListCommand ce args)"
  "command_ok q (runObservabilitySubscriptionsCreateCommand ce args)"
  "command_ok q (runAttachCommand ce args)"
  unfolding runObservabilitySubscriptionsListCommand_def
    runObservabilitySubscriptionsCreateCommand_def runAttachCommand_def Let_def
  by (intro quiet_intros)+

lemma ok_observability [command_intros]: "command_ok q (runObservabilityCommand ce args)"
  unfolding runObservabilityCommand_def by (intro command_intros)

lemma ok_analytics [command_intros]: "command_ok q (runAnalyticsCommand ce args)"
  unfolding runAnalyticsCommand_def Let_def by (intro quiet_intros)

lemma ok_triage:
  assumes "\<And>env r. is_call (m env r)" and "\<And>env r. svc_atomic (m env r)"
  shows "command_ok q (runProposedTriageCommand ce c m args)"
  unfolding runProposedTriageCommand_def Let_def
  by (simp split: prod.split) (intro allI impI command_intros assms)

lemma ok_proposed [command_intros]: "command_ok q (runProposedCommand ce args)"
  unfolding runProposedCommand_def by (intro command_intros ok_triage atomic_intros)

lemma ok_checkpoint_call [command_intros]: "command_ok q (checkpoint_call ce label v i)"
  unfolding checkpoint_call_def by (intro command_intros atomic_intros)

lemma ok_attempts [command_intros]:
  "command_ok q (runHeartbeatCommand ce args)" "command_ok q (runCheckpointCommand ce args)"
  "command_ok q (runCompleteCommand ce args)" "command_ok q (runFailCommand ce args)"
  "command_ok q (runBlockCommand ce args)" "command_ok q (runCancelCommand ce args)"
  unfolding runHeartbeatCommand_def runCheckpointCommand_def runCompleteCommand_def
    runFailCommand_def runBlockCommand_def runCancelCommand_def Let_def
  by (intro command_intros atomic_intros)+

section \<open>Ends of attempts with proofs\<close>

lemma remove_keeps_db: "RemoveArtifact ce rt u w = (r, w') \<Longrightarrow> cw_db w' = cw_db w"
  by (auto simp: RemoveArtifact_def Let_def split: if_splits prod.splits option.splits)

lemma cleanup_keeps_db:
  "cleanupStoredProofArtifacts ce rt us w = (es, w') \<Longrightarrow> cw_db w' = cw_db w"
  by (induction ce rt us w arbitrary: es w' rule: cleanupStoredProofArtifacts.induct)
    (auto dest: remove_keeps_db split: prod.splits)

lemma store_proof_keeps_db: "storeFilesystemProof ce rt n p w = (r, w') \<Longrightarrow> cw_db w' = cw_db w"
  by (auto simp: storeFilesystemProof_def StoreArtifact_def Let_def
      split: if_splits prod.splits option.splits stat_outcome.splits sum.splits)

lemma proof_requests_keep_db:
  "codexProofArtifactRequests ce rt f a reqs urls ps w = (r, w') \<Longrightarrow> cw_db w' = cw_db w"
proof (induction ce rt f a reqs urls ps w arbitrary: r w' rule: codexProofArtifactRequests.induct)
  case (2 ce rt f a reqs urls p ps w)
  obtain x w1 where x: "storeFilesystemProof ce rt (length urls) (TrimSpace p) w = (x, w1)"
    by fastforce
  note db = store_proof_keeps_db [OF x]
  show ?case
  proof (cases x)
    case (Inl e)
    with 2(2) x db show ?thesis by (auto dest: cleanup_keeps_db split: prod.splits)
  next
    case (Inr s)
    with 2(2) x have "codexProofArtifactRequests ce rt f a
        (reqs @ [proof_request ce f a (TrimSpace p) s])
        (urls @ (case s of None \<Rightarrow> [] | Some s \<Rightarrow> [sa_URL s])) ps w1 = (r, w')"
      by simp
    with 2(1) [OF refl x [symmetric] Inr] db show ?thesis by simp
  qed
qed simp

lemma proofs_for_attempt_keep_db:
  "codexProofArtifactRequestsForAttempt ce rt f i w = (r, w') \<Longrightarrow> cw_db w' = cw_db w"
  by (auto simp: codexProofArtifactRequestsForAttempt_def dest: proof_requests_keep_db
      split: if_splits sum.splits)

lemma ok_end_with_proofs [command_intros]:
  assumes "\<And>reqs. is_call (m reqs)" and "\<And>reqs. svc_atomic (m reqs)"
  shows "command_ok q (end_with_proofs ce label rt f i m :: 's cli)"
  unfolding command_ok_def
proof
  fix w :: "'s cli_world"
  obtain x w1 where x: "codexProofArtifactRequestsForAttempt ce rt f i w = (x, w1)" by fastforce
  note db = proofs_for_attempt_keep_db [OF x]
  show "ok_result q w (end_with_proofs ce label rt f i m w)"
  proof (cases x)
    case (Inl e)
    with x db show ?thesis
      by (cases e) (simp_all add: end_with_proofs_def Let_def ok_result_def cli_usage_def
          cli_failed_def cli_exit_def)
  next
    case (Inr p)
    obtain reqs urls where p: "p = (reqs, urls)" by fastforce
    obtain y d' where y: "m reqs (cw_db w) = (y, d')" by fastforce
    have call: "\<exists>k. d' = snd (runtime k (cw_db w))"
      using assms(1) [of reqs] y unfolding is_call_def by (metis snd_conv)
    show ?thesis
    proof (cases y)
      case (Inl e)
      with assms(2) y have "d' = cw_db w" by (auto dest: svc_atomicD)
      with x db \<open>x = Inr p\<close> p y Inl show ?thesis
        by (auto simp: end_with_proofs_def Let_def ok_result_def cli_exit_def
            dest: cleanup_keeps_db split: prod.split)
    next
      case (Inr b)
      with x db \<open>x = Inr p\<close> p y call show ?thesis
        by (auto simp: end_with_proofs_def Let_def ok_result_def cli_print_def split: prod.split)
    qed
  qed
qed

lemma ok_codex_ends [command_intros]:
  "command_ok q (runCodexCompleteCommand ce args)" "command_ok q (runCodexBlockCommand ce args)"
  "command_ok q (runCodexCheckpointCommand ce args)"
  unfolding runCodexCompleteCommand_def runCodexBlockCommand_def runCodexCheckpointCommand_def
    Let_def
  by (intro command_intros atomic_intros)+

lemma ok_codex_loud:
  "command_ok False (runCodexClaimCommand ce args)"
  "command_ok False (runCodexFollowUpCommand ce name args)"
  unfolding runCodexClaimCommand_def runCodexFollowUpCommand_def Let_def
  by (intro command_intros ok_claim_call loud_call ok_read)+

section \<open>The command line\<close>

text \<open>The commands that start a process or work on the schema; those of the others that run several
  statements without a transaction.\<close>

definition starts_process :: "string list \<Rightarrow> bool" where
  "starts_process args \<longleftrightarrow>
     args \<noteq> [] \<and> hd args \<in> set [''server'', ''worker'', ''mcp'', ''tui'', ''migrate'', ''init'']"

definition several_statements :: "string list \<Rightarrow> bool" where
  "several_statements args \<longleftrightarrow>
     args \<noteq> [] \<and> (hd args = ''claim-next'' \<or>
       (hd args = ''codex'' \<and> tl args \<noteq> [] \<and>
        hd (tl args) \<in> set [''claim'', ''follow-up'', ''propose'']))"

lemma ok_runtime_command:
  "name \<noteq> ''claim-next'' \<Longrightarrow> command_ok q (runRuntimeCommand ce name args)"
  by (simp add: runRuntimeCommand_def runRecommendationsCommand_def ok_create ok_reading ok_resources
      ok_registrations ok_observability ok_analytics ok_proposed ok_attempts ok_failed)

lemma ok_cases:
  "(b \<Longrightarrow> command_ok q c) \<Longrightarrow> (\<not> b \<Longrightarrow> command_ok q c') \<Longrightarrow> command_ok q (if b then c else c')"
  by simp

lemma ok_codex:
  "command_ok (\<not> several_statements (''codex'' # args)) (runCodexCommand ce args)"
proof (cases args)
  case Nil
  then show ?thesis by (simp add: runCodexCommand_def with_subcommand_def ok_print)
next
  case (Cons sub rest)
  have "several_statements (''codex'' # args) \<longleftrightarrow> sub \<in> set [''claim'', ''follow-up'', ''propose'']"
    by (simp add: several_statements_def Cons)
  then show ?thesis
    using ok_codex_loud(1) [of ce rest] ok_codex_loud(2) [of ce "''follow-up''" rest]
      ok_codex_loud(2) [of ce "''propose''" rest]
    by (simp add: runCodexCommand_def with_subcommand_def Cons ok_print ok_codex_ends ok_usage
        ok_reading)
qed

lemma ok_command:
  assumes "\<not> starts_process args"
  shows "command_ok (\<not> several_statements args) (RunWithDependencies pe args)"
proof (cases args)
  case Nil
  then show ?thesis by (simp add: RunWithDependencies_def ok_print)
next
  case (Cons name rest)
  have "command_ok (\<not> several_statements args) (runRuntimeCommand (pr_cli pe) name rest)"
  proof (cases "name = ''claim-next''")
    case True
    then show ?thesis
      by (simp add: several_statements_def Cons runRuntimeCommand_def ok_claim)
  qed (rule ok_runtime_command)
  moreover have "name = ''codex'' \<Longrightarrow>
      command_ok (\<not> several_statements args) (runCodexCommand (pr_cli pe) rest)"
    using ok_codex Cons by blast
  moreover have "name \<notin> set [''server'', ''worker'', ''mcp'', ''tui'', ''migrate'', ''init'']"
    using assms by (simp add: starts_process_def Cons)
  ultimately show ?thesis
    unfolding RunWithDependencies_def Cons list.case
    by (intro ok_cases ok_print ok_usage) auto
qed

text \<open>A session is a sequence of commands, each in the environment of its own time.\<close>

fun run_commands ::
  "(('k :: linorder, 'q, 's) process_env \<times> string list) list \<Rightarrow> 's cli_world \<Rightarrow> 's cli_world" where
  "run_commands [] w = w"
| "run_commands ((pe, args) # cs) w = run_commands cs (snd (RunWithDependencies pe args w))"

text \<open>C32. A session of commands, none of which starts a process (\<open>server\<close>, \<open>worker\<close>, \<open>mcp\<close>, \<open>tui\<close>,
  \<open>migrate\<close> and \<open>init\<close> do), has on the database the effect of calls of the runtime, at most one for
  each command, so that what holds of the runtime's calls holds of these commands.\<close>

theorem session_is_calls:
  assumes "\<forall>c \<in> set cs. \<not> starts_process (snd c)"
  shows "\<exists>ks. length ks \<le> length cs \<and> cw_db (run_commands cs w) = run_calls ks (cw_db w)"
  using assms
proof (induction cs w rule: run_commands.induct)
  case (1 w)
  then show ?case by (auto intro: exI [of _ "[]"])
next
  case (2 pe args cs w)
  let ?w = "snd (RunWithDependencies pe args w)"
  obtain ks where ks: "length ks \<le> length cs" "cw_db (run_commands cs ?w) = run_calls ks (cw_db ?w)"
    using 2 by auto
  have "ok_result (\<not> several_statements args) w (RunWithDependencies pe args w)"
    using 2(2) ok_command unfolding command_ok_def by force
  then consider "cw_db ?w = cw_db w" | k where "cw_db ?w = snd (runtime k (cw_db w))"
    by (auto simp: ok_result_def)
  then show ?case
  proof cases
    case 1
    with ks show ?thesis by (intro exI [of _ ks]) auto
  next
    case (2 k)
    with ks show ?thesis by (intro exI [of _ "k # ks"]) auto
  qed
qed

theorem session_is_calls_witness:
  "\<exists>ks. length ks \<le> 1 \<and> cw_db (run_commands [(sample_process, [''heartbeat'',
     replicate 103 (CHR ''x'')])] (sample_world sample_claimed)) = run_calls ks sample_claimed"
  using session_is_calls [of "[(sample_process, [''heartbeat'', replicate 103 (CHR ''x'')])]"
      "sample_world sample_claimed"]
  by (simp add: starts_process_def sample_world_def)

text \<open>C33. A command that starts no process and reports an error has left the database as it was:
  always when it is a usage error (exit code 2), and with any other exit code but 0 unless the
  command runs several statements without a transaction. Files are not part of the statement: a
  copy that fails may leave a partial file behind.\<close>

theorem cli_failure_harmless:
  assumes "\<not> starts_process args" and "RunWithDependencies pe args w = (r, w')"
    and "res_Code r = 2 \<or> (res_Code r \<noteq> 0 \<and> \<not> several_statements args)"
  shows "cw_db w' = cw_db w"
  using ok_command [OF assms(1), of pe] assms(2,3)
  unfolding command_ok_def ok_result_def by (metis fst_conv snd_conv)

theorem cli_failure_harmless_witness:
  "cw_db (snd (RunWithDependencies sample_process [''heartbeat'', ''x'', ''--lease'', ''5'']
     (sample_world sample_claimed))) = sample_claimed"
proof -
  let ?args = "[''heartbeat'', ''x'', ''--lease'', ''5'']"
  let ?x = "RunWithDependencies sample_process ?args (sample_world sample_claimed)"
  have "res_Code (fst ?x) = 2" and "\<not> starts_process ?args"
    by (code_simp, simp add: starts_process_def)
  with cli_failure_harmless [of ?args sample_process "sample_world sample_claimed" "fst ?x" "snd ?x"]
  show ?thesis by (simp add: sample_world_def)
qed

section \<open>Proposed tickets and checkpoints\<close>

text \<open>The command that the documentation gives for an agent to put a proposed ticket into the queue
  never does: it reports an error and changes nothing, for any ticket, actor and reason.\<close>

theorem documented_enqueue_refused:
  assumes "\<not> prefix ''-'' ticket"
    and "RunWithDependencies pe [''proposed'', ''enqueue'', ticket, ''--actor-type'', ''agent'',
      ''--actor-id'', who, ''--reason'', why] w = (r, w')"
  shows "res_Code r \<noteq> 0 \<and> w' = w"
proof -
  have flags: "flag_arg ''--actor-type'' = FlagArg ''actor-type'' None"
    "flag_arg ''--actor-id'' = FlagArg ''actor-id'' None" "flag_arg ''--reason'' = FlagArg ''reason'' None"
    by code_simp+
  have split: "splitAttemptIDArg [ticket, ''--actor-type'', ''agent'', ''--actor-id'', who, ''--reason'', why]
      triage_flags = (ticket, [''--actor-type'', ''agent'', ''--actor-id'', who, ''--reason'', why])"
    using assms(1) by (auto simp: splitAttemptIDArg_def)
  have parsed: "flag_Parse pf triage_flags (no_vars\<lparr>cv_ActorType := ActorHuman\<rparr>) []
      [''--actor-type'', ''agent'', ''--actor-id'', who, ''--reason'', why] =
      Inr (no_vars\<lparr>cv_ActorType := ''agent'', cv_ActorID := who, cv_Reason := why\<rparr>,
        [''actor-type'', ''actor-id'', ''reason''], [])" for pf
    by (simp add: flags triage_flags_def command_flags_def)
  have refused: "EnqueueProposedTicket env \<lparr>pt_TicketID = i, pt_ActorType = ''agent'', pt_ActorID = who,
      pt_Reason = why, pt_CanEnqueue = False\<rparr> d = (Inl ErrEnqueuePermissionRequired, d)" for env i d
  proof -
    have "default_string ActorHuman (TrimSpace ''agent'') = ActorAgent" by code_simp
    then show ?thesis
      by (simp add: EnqueueProposedTicket_def Let_def trimProposedTicketTriageRequest_def svc_fail_def)
  qed
  have "RunWithDependencies pe [''proposed'', ''enqueue'', ticket, ''--actor-type'', ''agent'',
      ''--actor-id'', who, ''--reason'', why] w =
    runProposedTriageCommand (pr_cli pe) ''enqueue'' EnqueueProposedTicket
      [ticket, ''--actor-type'', ''agent'', ''--actor-id'', who, ''--reason'', why] w"
    by (simp add: RunWithDependencies_def isHelpArg_def isKnownCommand_def commands_def
        runRuntimeCommand_def runProposedCommand_def with_subcommand_def)
  with assms(2) show ?thesis
    by (auto simp: runProposedTriageCommand_def Let_def split with_flags_def parsed with_argument_def
        cli_usage_def cli_failed_def cli_exit_def openCommandRuntime_def cli_call_def refused
        simp del: flag_Parse.simps split: sum.splits)
qed

theorem documented_enqueue_refused_witness:
  "res_Code (fst (RunWithDependencies sample_process [''proposed'', ''enqueue'', ''xx'',
     ''--actor-type'', ''agent'', ''--actor-id'', ''codex'', ''--reason'', ''now'']
     (sample_world sample_claimed))) \<noteq> 0"
  using documented_enqueue_refused [of "''xx''" sample_process "''codex''" "''now''"
      "sample_world sample_claimed"] prod.collapse [symmetric]
  by (simp del: prod.collapse) blast

lemma Checkpoint_recorded:
  assumes "Checkpoint env req d = (Inr res, d')"
  obtains k a where "kr_AttemptID req = Some k" "find_row at_ID k (attempts d') = Some a"
    "at_ProgressPercent a = kr_ProgressPercent req"
    "0 \<le> kr_ProgressPercent req" "kr_ProgressPercent req \<le> 100"
proof -
  let ?r = "trimCheckpointRequest req"
  let ?p = "\<lparr>kap_ProgressPercent = kr_ProgressPercent ?r, kap_Summary = kr_Summary ?r,
    kap_NextStep = optionalText (kr_NextStep ?r), kap_AttemptID = kr_AttemptID ?r,
    kap_FilesTouched = kr_FilesTouched ?r, kap_CommandsRun = kr_CommandsRun ?r,
    kap_Risk = optionalText (kr_Risk ?r)\<rparr>"
  let ?f = "\<lambda>x. x\<lparr>at_ProgressPercent := kap_ProgressPercent ?p,
    at_CurrentSummary := Some (kap_Summary ?p), at_NextStep := kap_NextStep ?p\<rparr>"
  have same: "kr_AttemptID ?r = kr_AttemptID req" "kr_ProgressPercent ?r = kr_ProgressPercent req"
    by (simp_all add: trimCheckpointRequest_def)
  from assms obtain c where v: "validateCheckpointRequest ?r = []"
    and c: "CheckpointAttempt_stmt env ?p d = Inr (c, d')"
    by (auto simp: Checkpoint_def Let_def result_simps)
  from c obtain a e ep cs i where a: "running_attempt (kap_AttemptID ?p) d = Inr a"
    and ins: "insert_ticket_event env ep ((set_attempt (at_ID a) ?f d)
      \<lparr>id_ctr := Suc (id_ctr d), attempt_checkpoints := cs\<rparr>) = Inr (e, d')"
    by (auto simp: CheckpointAttempt_stmt_def Let_def gen_random_uuid_def and_then_Inr_iff
        split: prod.splits)
  have "attempts d' = attempts (set_attempt (at_ID a) ?f d)"
    using core_eqD(5) [OF insert_ticket_event_core(1) [OF ins]] by simp
  moreover have "keeps_attempt_keys ?f"
    by (simp add: keeps_attempt_keys_def)
  ultimately have "find_row at_ID (at_ID a) (attempts d') = Some (?f a)"
    using a by (auto simp: find_set_attempt running_attempt_Inr_iff dest: find_row_SomeD)
  moreover have "kr_AttemptID req = Some (at_ID a)"
    using a same by (auto simp: running_attempt_Inr_iff dest: find_row_SomeD)
  moreover have "0 \<le> kr_ProgressPercent req" "kr_ProgressPercent req \<le> 100"
    using v same by (auto simp: validateCheckpointRequest_def problem_def split: if_splits)
  ultimately show ?thesis using that [of "at_ID a" "?f a"] same by simp
qed

lemma checkpoint_run:
  assumes "\<not> prefix ''-'' i" and "i \<noteq> ''help''" and "ParseInt0 p = Some n"
  shows "RunWithDependencies pe [''checkpoint'', i, ''--summary'', s, ''--progress'', p] =
    openCommandRuntime (pr_cli pe) ''checkpoint'' [] (\<lambda>rt.
      checkpoint_call (pr_cli pe) ''checkpoint'' (no_vars\<lparr>cv_Summary := s, cv_Progress := n\<rparr>)
        (mustUUID (cl_api (pr_cli pe)) i))"
proof -
  let ?args = "[''--summary'', s, ''--progress'', p]"
  let ?v = "no_vars\<lparr>cv_Summary := s, cv_Progress := n\<rparr>"
  have flags: "flag_arg ''--summary'' = FlagArg ''summary'' None"
    "flag_arg ''--progress'' = FlagArg ''progress'' None"
    by code_simp+
  have split: "splitAttemptIDArg (i # ?args) checkpoint_flags = (i, ?args)"
    using assms(1) by (auto simp: splitAttemptIDArg_def)
  have parsed: "flag_Parse pf checkpoint_flags no_vars [] ?args =
      Inr (?v, [''summary'', ''progress''], [])" for pf
    by (simp add: flags checkpoint_flags_def command_flags_def assms(3))
  have none: "cv_AttemptID ?v = []" "cv_ConfigPath ?v = []"
    by (simp_all add: no_vars_def)
  have i: "attempt_id_arg [] i [] = i"
    by (simp add: attempt_id_arg_def)
  have "\<not> isHelpArg i"
    using assms(1,2) by (auto simp: isHelpArg_def)
  then have "RunWithDependencies pe (''checkpoint'' # i # ?args) =
      runCheckpointCommand (pr_cli pe) (i # ?args)"
    by (simp add: RunWithDependencies_def isHelpArg_def isKnownCommand_def commands_def
        runRuntimeCommand_def)
  also have "\<dots> = openCommandRuntime (pr_cli pe) ''checkpoint'' [] (\<lambda>rt.
      checkpoint_call (pr_cli pe) ''checkpoint'' ?v (mustUUID (cl_api (pr_cli pe)) i))"
    unfolding runCheckpointCommand_def with_attempt_flags_def split with_flags_def prod.case parsed
      sum.case none i ..
  finally show ?thesis .
qed

text \<open>The progress that a checkpoint records is the number of the flag narrowed to 32 bits: the
  bounds of 0 and 100 are checked on what is left of it.\<close>

theorem checkpoint_progress_narrowed:
  assumes "\<not> prefix ''-'' i" and "i \<noteq> ''help''" and "ParseInt0 p = Some n"
    and "RunWithDependencies pe [''checkpoint'', i, ''--summary'', s, ''--progress'', p] w = (r, w')"
    and "res_Code r = 0"
  shows "\<exists>k a. mustUUID (cl_api (pr_cli pe)) i = Some k \<and>
    find_row at_ID k (attempts (cw_db w')) = Some a \<and> at_ProgressPercent a = int32 n \<and>
    0 \<le> int32 n \<and> int32 n \<le> 100"
proof -
  let ?ce = "pr_cli pe" and ?v = "no_vars\<lparr>cv_Summary := s, cv_Progress := n\<rparr>"
  obtain res where "Checkpoint (cl_pg ?ce)
      \<lparr>kr_AttemptID = mustUUID (cl_api ?ce) i, kr_Summary = s, kr_ProgressPercent = int32 n,
       kr_FilesTouched = cv_Files ?v, kr_CommandsRun = cv_Commands ?v,
       kr_NextStep = cv_NextStep ?v, kr_Risk = cv_Risk ?v\<rparr> (cw_db w) = (Inr res, cw_db w')"
    using assms(4,5) unfolding checkpoint_run [OF assms(1-3)]
    by (auto simp: openCommandRuntime_def checkpoint_call_def cli_call_def cli_failed_def
        cli_exit_def cli_print_def split: sum.splits prod.splits)
  then show ?thesis
    by (rule Checkpoint_recorded) auto
qed

definition sample_half :: "string list" where
  "sample_half =
     [''checkpoint'', replicate 103 (CHR ''x''), ''--summary'', ''half'', ''--progress'', ''4294967346'']"

lemma sample_half_ends:
  "res_Code (fst (RunWithDependencies sample_process sample_half (sample_world sample_claimed))) = 0"
proof -
  have "\<not> prefix ''-'' (replicate 103 (CHR ''x''))" "replicate 103 (CHR ''x'') \<noteq> ''help''"
    "ParseInt0 ''4294967346'' = Some 4294967346"
    by code_simp+
  note run = checkpoint_run [OF this, of sample_process]
  have "res_Code (fst (checkpoint_call sample_cli ''checkpoint''
      (no_vars\<lparr>cv_Summary := ''half'', cv_Progress := 4294967346\<rparr>)
      (mustUUID (cl_api sample_cli) (replicate 103 (CHR ''x''))) (sample_world sample_claimed))) = 0"
    by code_simp
  moreover have "pr_cli sample_process = sample_cli"
    by (simp add: sample_process_def)
  ultimately show ?thesis
    unfolding sample_half_def run by (simp only: sample_opens)
qed

theorem checkpoint_progress_narrowed_witness:
  "\<exists>a. find_row at_ID sample_attempt (attempts (cw_db (snd (RunWithDependencies sample_process
       sample_half (sample_world sample_claimed))))) = Some a \<and> at_ProgressPercent a = 50"
proof -
  let ?i = "replicate 103 (CHR ''x'')"
  let ?x = "RunWithDependencies sample_process sample_half (sample_world sample_claimed)"
  have "\<not> prefix ''-'' ?i" "?i \<noteq> ''help''" "ParseInt0 ''4294967346'' = Some 4294967346"
    by code_simp+
  moreover have "?x = (fst ?x, snd ?x)" "res_Code (fst ?x) = 0"
    using sample_half_ends by simp_all
  ultimately have "\<exists>k a. mustUUID (cl_api (pr_cli sample_process)) ?i = Some k \<and>
    find_row at_ID k (attempts (cw_db (snd ?x))) = Some a \<and> at_ProgressPercent a = int32 4294967346"
    using checkpoint_progress_narrowed [of ?i "''4294967346''" 4294967346 sample_process "''half''"
        "sample_world sample_claimed" "fst ?x" "snd ?x"]
    unfolding sample_half_def by blast
  moreover have "mustUUID (cl_api (pr_cli sample_process)) ?i = Some sample_attempt"
    "int32 4294967346 = 50"
    by code_simp+
  ultimately show ?thesis by auto
qed

end
