(* ===== verification/Observability.thy ===== *)
theory Observability
  imports Webhook_Worker Go_Json
begin

text \<open>
  What a webhook delivers: the document that the trigger of migration 0007 stores with a delivery,
  the payload that internal/services/observability.go makes of it, and the request by which
  internal/jobs/webhooks.go posts it.
\<close>

section \<open>The stored document\<close>

text \<open>\<open>NULLIF(a.model, '')\<close> and the columns that may be null.\<close>

definition nullable_json :: "('a \<Rightarrow> json) \<Rightarrow> 'a option \<Rightarrow> json" where
  "nullable_json f v = (case v of None \<Rightarrow> JNull | Some a \<Rightarrow> f a)"

definition attempt_document :: "pg_env \<Rightarrow> attempt \<Rightarrow> json" where
  "attempt_document env a =
     JObj [(''id'', JStr (env_uuid_text env (at_ID a))), (''agent_id'', JStr (at_AgentID a)),
           (''harness'', JStr (at_Harness a)),
           (''model'', if at_Model a = [] then JNull else JStr (at_Model a)),
           (''status'', JStr (at_Status a)), (''progress_percent'', JNum (at_ProgressPercent a) 0),
           (''trace_id'', nullable_json JStr (at_TraceID a)),
           (''checkpoint_ref'', nullable_json JStr (at_CheckpointRef a)),
           (''started_at'', JStr (env_time_text env (at_StartedAt a))),
           (''completed_at'', nullable_json (\<lambda>t. JStr (env_time_text env t)) (at_CompletedAt a))]"

definition metrics_document :: "attempt_metric \<Rightarrow> json" where
  "metrics_document m =
     JObj [(''tokens_in'', JNum (am_TokensIn m) 0), (''tokens_out'', JNum (am_TokensOut m) 0),
           (''total_tokens'', JNum (am_TokensIn m + am_TokensOut m) 0),
           (''cost_usd'', JNum (am_CostUsd m) 6),
           (''duration_seconds'', JNum (am_DurationSeconds m) 3),
           (''retry_count'', JNum (am_RetryCount m) 0)]"

definition delivery_document :: "pg_env \<Rightarrow> delivery_payload \<Rightarrow> json" where
  "delivery_document env p =
     (let e = pl_Event p; uuid = (\<lambda>u. JStr (env_uuid_text env u)) in
      JObj [(''event_id'', uuid (ev_ID e)), (''event_type'', JStr (ev_Type e)),
            (''workspace_id'', uuid (ev_WorkspaceID e)), (''project_id'', uuid (ev_ProjectID e)),
            (''ticket_id'', uuid (ev_TicketID e)),
            (''attempt_id'', nullable_json uuid (ev_AttemptID e)),
            (''actor_type'', JStr (ev_ActorType e)),
            (''actor_id'', nullable_json JStr (ev_ActorID e)), (''data'', ev_Data e),
            (''created_at'', JStr (env_time_text env (ev_CreatedAt e))),
            (''attempt'', nullable_json (attempt_document env) (pl_Attempt p)),
            (''metrics'', nullable_json metrics_document (pl_Metrics p))])"

section \<open>The payload\<close>

record observability_attempt =
  oa_ID :: string
  oa_AgentID :: string
  oa_Harness :: string
  oa_Model :: string
  oa_Status :: string
  oa_ProgressPercent :: int
  oa_TraceID :: string
  oa_CheckpointRef :: string
  oa_StartedAt :: "timestamp option"
  oa_CompletedAt :: "timestamp option"

record observability_attempt_metrics =
  om_TokensIn :: int
  om_TokensOut :: int
  om_TotalTokens :: int
  om_CostUSD :: float64
  om_DurationSeconds :: float64
  om_RetryCount :: int

text \<open>A time of \<open>None\<close> is Go's zero time.\<close>

record observability_payload_input =
  oi_EventID :: "uuid option"
  oi_WorkspaceID :: "uuid option"
  oi_ProjectID :: "uuid option"
  oi_TicketID :: "uuid option"
  oi_AttemptID :: "uuid option"
  oi_EventType :: string
  oi_ActorType :: string
  oi_ActorID :: string
  oi_EventData :: json_raw
  oi_OccurredAt :: "timestamp option"
  oi_Attempt :: "attempt option"
  oi_Metrics :: "attempt_metric option"

record observability_event =
  oe_ID :: string
  oe_Type :: string
  oe_ActorType :: string
  oe_ActorID :: string
  oe_Data :: json
  oe_OccurredAt :: "timestamp option"

record observability_payload =
  op_SchemaVersion :: string
  op_Source :: string
  op_Signal :: string
  op_WorkspaceID :: string
  op_ProjectID :: string
  op_TicketID :: string
  op_AttemptID :: string
  op_Event :: observability_event
  op_Attempt :: "observability_attempt option"
  op_Metrics :: "observability_attempt_metrics option"

text \<open>The text of an identifier, \<open>strconv.ParseFloat\<close>, and the parser and printer of times.\<close>

record observability_env =
  ob_uuid :: "uuid \<Rightarrow> string"
  ob_float :: float_parser
  ob_parse_time :: "string \<Rightarrow> timestamp option"
  ob_time :: "timestamp option \<Rightarrow> string"

definition ObservabilitySchemaVersion :: string where
  "ObservabilitySchemaVersion = ''forge.observability.v1''"
definition ObservabilitySource :: string where "ObservabilitySource = ''forge''"
definition ObservabilitySignalEvent :: string where "ObservabilitySignalEvent = ''ticket_event''"

definition ob_uuidText :: "observability_env \<Rightarrow> uuid option \<Rightarrow> string" where
  "ob_uuidText oe i = (case i of None \<Rightarrow> [] | Some u \<Rightarrow> ob_uuid oe u)"

definition observabilityAttempt :: "observability_env \<Rightarrow> attempt \<Rightarrow> observability_attempt" where
  "observabilityAttempt oe a =
     \<lparr>oa_ID = ob_uuidText oe (Some (at_ID a)), oa_AgentID = at_AgentID a, oa_Harness = at_Harness a,
      oa_Model = at_Model a, oa_Status = at_Status a, oa_ProgressPercent = at_ProgressPercent a,
      oa_TraceID = textValue (at_TraceID a), oa_CheckpointRef = textValue (at_CheckpointRef a),
      oa_StartedAt = Some (at_StartedAt a), oa_CompletedAt = at_CompletedAt a\<rparr>"

text \<open>\<open>numericFloat\<close>: the digits of a \<open>numeric\<close> with \<open>k\<close> of them after the point, as a float64; zero
  when they cannot be read.\<close>

definition ob_numericFloat :: "observability_env \<Rightarrow> nat \<Rightarrow> int \<Rightarrow> float64" where
  "ob_numericFloat oe k n =
     (case ParseFloat (ob_float oe) n k of None \<Rightarrow> F64 0 0 | Some x \<Rightarrow> x)"

definition int64 :: "int \<Rightarrow> int" where
  "int64 n = (n + 2 ^ 63) mod 2 ^ 64 - 2 ^ 63"

definition observabilityMetrics ::
  "observability_env \<Rightarrow> attempt_metric \<Rightarrow> observability_attempt_metrics" where
  "observabilityMetrics oe m =
     \<lparr>om_TokensIn = am_TokensIn m, om_TokensOut = am_TokensOut m,
      om_TotalTokens = int64 (am_TokensIn m + am_TokensOut m),
      om_CostUSD = ob_numericFloat oe 6 (am_CostUsd m),
      om_DurationSeconds = ob_numericFloat oe 3 (am_DurationSeconds m),
      om_RetryCount = am_RetryCount m\<rparr>"

definition normalizeJSONData :: "json_raw \<Rightarrow> string + json" where
  "normalizeJSONData data =
     (case data of
        RawEmpty \<Rightarrow> Inr (JObj [])
      | RawInvalid \<Rightarrow> Inl ''decode event data''
      | RawDoc j \<Rightarrow> Inr (if j = JNull then JObj [] else j))"

definition BuildObservabilityPayload ::
  "observability_env \<Rightarrow> observability_payload_input \<Rightarrow> string + observability_payload" where
  "BuildObservabilityPayload oe i =
     and_then (normalizeJSONData (oi_EventData i)) (\<lambda>data.
     Inr \<lparr>op_SchemaVersion = ObservabilitySchemaVersion, op_Source = ObservabilitySource,
          op_Signal = ObservabilitySignalEvent, op_WorkspaceID = ob_uuidText oe (oi_WorkspaceID i),
          op_ProjectID = ob_uuidText oe (oi_ProjectID i), op_TicketID = ob_uuidText oe (oi_TicketID i),
          op_AttemptID = ob_uuidText oe (oi_AttemptID i),
          op_Event = \<lparr>oe_ID = ob_uuidText oe (oi_EventID i), oe_Type = oi_EventType i,
            oe_ActorType = oi_ActorType i, oe_ActorID = oi_ActorID i, oe_Data = data,
            oe_OccurredAt = oi_OccurredAt i\<rparr>,
          op_Attempt = map_option (observabilityAttempt oe) (oi_Attempt i),
          op_Metrics = map_option (observabilityMetrics oe) (oi_Metrics i)\<rparr>)"

section \<open>The payload of a delivery\<close>

text \<open>The structs that the stored document is decoded into. A time is decoded as the pointer to its
  text, which is null for the zero time; the event's data is kept as it is.\<close>

definition observability_attempt_type :: go_type where
  "observability_attempt_type =
     GStruct [(''id'', GString), (''agent_id'', GString), (''harness'', GString), (''model'', GString),
       (''status'', GString), (''progress_percent'', GInt 32), (''trace_id'', GString),
       (''checkpoint_ref'', GString), (''started_at'', GPtr GString), (''completed_at'', GPtr GString)]"

definition observability_metrics_type :: go_type where
  "observability_metrics_type =
     GStruct [(''tokens_in'', GInt 64), (''tokens_out'', GInt 64), (''total_tokens'', GInt 64),
       (''cost_usd'', GFloat), (''duration_seconds'', GFloat), (''retry_count'', GInt 32)]"

definition raw_delivery_type :: go_type where
  "raw_delivery_type =
     GStruct [(''event_type'', GString), (''actor_type'', GString), (''actor_id'', GPtr GString),
       (''created_at'', GPtr GString), (''attempt'', GPtr observability_attempt_type),
       (''metrics'', GPtr observability_metrics_type)]"

text \<open>The last member whose key is \<open>data\<close> up to folding.\<close>

definition raw_data :: "json \<Rightarrow> json_raw" where
  "raw_data doc =
     (case doc of
        JObj kvs \<Rightarrow> (case filter (\<lambda>kv. foldName (fst kv) = ''data'') kvs of
            [] \<Rightarrow> RawEmpty | ms \<Rightarrow> RawDoc (snd (last ms)))
      | _ \<Rightarrow> RawEmpty)"

definition time_field ::
  "observability_env \<Rightarrow> go_value \<Rightarrow> string \<Rightarrow> string + timestamp option" where
  "time_field oe v n =
     (case ptr_str v n of
        None \<Rightarrow> Inr None
      | Some s \<Rightarrow> (case ob_parse_time oe s of None \<Rightarrow> Inl ''cannot parse time'' | Some t \<Rightarrow> Inr (Some t)))"

text \<open>A time is an instant, without the zone it was written in. The source keeps the zone of the
  stored text here and converts to UTC elsewhere, so that the texts agree for a database session in
  UTC.\<close>

definition struct_attempt ::
  "observability_env \<Rightarrow> go_value \<Rightarrow> string + observability_attempt" where
  "struct_attempt oe v =
     and_then (time_field oe v ''started_at'') (\<lambda>started.
     and_then (time_field oe v ''completed_at'') (\<lambda>completed.
     Inr \<lparr>oa_ID = str v ''id'', oa_AgentID = str v ''agent_id'', oa_Harness = str v ''harness'',
          oa_Model = str v ''model'', oa_Status = str v ''status'',
          oa_ProgressPercent = num v ''progress_percent'', oa_TraceID = str v ''trace_id'',
          oa_CheckpointRef = str v ''checkpoint_ref'', oa_StartedAt = started,
          oa_CompletedAt = completed\<rparr>))"

definition struct_metrics :: "go_value \<Rightarrow> observability_attempt_metrics" where
  "struct_metrics v =
     \<lparr>om_TokensIn = num v ''tokens_in'', om_TokensOut = num v ''tokens_out'',
      om_TotalTokens = num v ''total_tokens'', om_CostUSD = float v ''cost_usd'',
      om_DurationSeconds = float v ''duration_seconds'', om_RetryCount = num v ''retry_count''\<rparr>"

definition decoded_attempt ::
  "observability_env \<Rightarrow> go_value \<Rightarrow> string + observability_attempt option" where
  "decoded_attempt oe v =
     (case v_ptr (v_field v ''attempt'') of
        None \<Rightarrow> Inr None | Some a \<Rightarrow> and_then (struct_attempt oe a) (\<lambda>x. Inr (Some x)))"

definition BuildObservabilityPayloadFromWebhookDelivery ::
  "observability_env \<Rightarrow> json \<Rightarrow> webhook_delivery \<Rightarrow> string + observability_payload" where
  "BuildObservabilityPayloadFromWebhookDelivery oe doc r =
     (case unmarshal (ob_float oe) raw_delivery_type (RawDoc doc) of
        None \<Rightarrow> Inl ''decode webhook event payload''
      | Some v \<Rightarrow>
          and_then (time_field oe v ''created_at'') (\<lambda>occurred.
          and_then (decoded_attempt oe v) (\<lambda>a.
          and_then (BuildObservabilityPayload oe
            \<lparr>oi_EventID = Some (wd_EventID r), oi_WorkspaceID = Some (wd_WorkspaceID r),
             oi_ProjectID = Some (wd_ProjectID r), oi_TicketID = Some (wd_TicketID r),
             oi_AttemptID = wd_AttemptID r, oi_EventType = str v ''event_type'',
             oi_ActorType = str v ''actor_type'', oi_ActorID = textValue (ptr_str v ''actor_id''),
             oi_EventData = raw_data doc, oi_OccurredAt = occurred, oi_Attempt = None,
             oi_Metrics = None\<rparr>) (\<lambda>p.
          Inr (p\<lparr>op_Attempt := a,
            op_Metrics := map_option struct_metrics (v_ptr (v_field v ''metrics''))\<rparr>)))))"

section \<open>Posting a delivery\<close>

text \<open>The tags of the structs: a member with \<open>omitempty\<close> is left out when it is empty.\<close>

definition nonempty_member :: "string \<Rightarrow> string \<Rightarrow> (string \<times> json) list" where
  "nonempty_member n v = (if v = [] then [] else [(n, JStr v)])"

fun float_json :: "float64 \<Rightarrow> json option" where
  "float_json (F64 m s) = Some (JNum m s)"
| "float_json _ = None"

definition observability_attempt_json :: "observability_env \<Rightarrow> observability_attempt \<Rightarrow> json" where
  "observability_attempt_json oe a =
     (let time = (\<lambda>n t. case t of None \<Rightarrow> [] | Some x \<Rightarrow> [(n, JStr (ob_time oe (Some x)))]) in
      JObj ([(''id'', JStr (oa_ID a)), (''agent_id'', JStr (oa_AgentID a)),
             (''harness'', JStr (oa_Harness a))] @ nonempty_member ''model'' (oa_Model a) @
            [(''status'', JStr (oa_Status a)), (''progress_percent'', JNum (oa_ProgressPercent a) 0)] @
            nonempty_member ''trace_id'' (oa_TraceID a) @
            nonempty_member ''checkpoint_ref'' (oa_CheckpointRef a) @
            time ''started_at'' (oa_StartedAt a) @ time ''completed_at'' (oa_CompletedAt a)))"

text \<open>\<open>encoding/json\<close> refuses NaN and the infinities.\<close>

definition observability_metrics_json :: "observability_attempt_metrics \<Rightarrow> json option" where
  "observability_metrics_json m =
     (case (float_json (om_CostUSD m), float_json (om_DurationSeconds m)) of
        (Some cost, Some dur) \<Rightarrow>
          Some (JObj [(''tokens_in'', JNum (om_TokensIn m) 0), (''tokens_out'', JNum (om_TokensOut m) 0),
            (''total_tokens'', JNum (om_TotalTokens m) 0), (''cost_usd'', cost),
            (''duration_seconds'', dur), (''retry_count'', JNum (om_RetryCount m) 0)])
      | _ \<Rightarrow> None)"

definition observability_json :: "observability_env \<Rightarrow> observability_payload \<Rightarrow> json option" where
  "observability_json oe p =
     (let e = op_Event p;
          head = [(''schema_version'', JStr (op_SchemaVersion p)), (''source'', JStr (op_Source p)),
            (''signal'', JStr (op_Signal p)), (''workspace_id'', JStr (op_WorkspaceID p)),
            (''project_id'', JStr (op_ProjectID p)), (''ticket_id'', JStr (op_TicketID p))] @
            nonempty_member ''attempt_id'' (op_AttemptID p) @
            [(''event'', JObj ([(''id'', JStr (oe_ID e)), (''type'', JStr (oe_Type e)),
               (''actor_type'', JStr (oe_ActorType e))] @ nonempty_member ''actor_id'' (oe_ActorID e) @
               [(''data'', oe_Data e), (''occurred_at'', JStr (ob_time oe (oe_OccurredAt e)))]))] @
            (case op_Attempt p of None \<Rightarrow> []
             | Some a \<Rightarrow> [(''attempt'', observability_attempt_json oe a)]) in
      case op_Metrics p of
        None \<Rightarrow> Some (JObj head)
      | Some m \<Rightarrow> map_option (\<lambda>j. JObj (head @ [(''metrics'', j)])) (observability_metrics_json m))"

definition deliveryPayload ::
  "observability_env \<Rightarrow> json \<Rightarrow> webhook_delivery \<Rightarrow> string + json" where
  "deliveryPayload oe doc r =
     and_then (BuildObservabilityPayloadFromWebhookDelivery oe doc r) (\<lambda>p.
     case observability_json oe p of
       None \<Rightarrow> Inl ''encode observability webhook payload'' | Some j \<Rightarrow> Inr j)"

text \<open>The request with its headers, and what comes of it: no response, or a status with the body
  that could be read and the error that ended the reading.\<close>

record webhook_request =
  wq_URL :: string
  wq_Headers :: "(string \<times> string) list"
  wq_Body :: json

datatype http_result = NoResponse string | HttpResponse int string "string option"

text \<open>\<open>dl_request\<close> is the error of \<open>http.NewRequest\<close> for a URL, \<open>dl_hmac\<close> the hexadecimal HMAC-SHA256
  of the encoded payload under a secret, \<open>dl_client\<close> the client with its dialer.\<close>

record delivery_env =
  dl_observability :: observability_env
  dl_pg :: pg_env
  dl_request :: "string \<Rightarrow> string option"
  dl_hmac :: "string \<Rightarrow> json \<Rightarrow> string"
  dl_client :: "webhook_request \<Rightarrow> http_result"

definition webhookSignature :: "delivery_env \<Rightarrow> string \<Rightarrow> json \<Rightarrow> string" where
  "webhookSignature de secret payload = ''sha256='' @ dl_hmac de secret payload"

definition webhook_headers ::
  "delivery_env \<Rightarrow> webhook_delivery \<Rightarrow> webhook_subscription \<Rightarrow> json \<Rightarrow> (string \<times> string) list" where
  "webhook_headers de r s payload =
     (let oe = dl_observability de in
      [(''Content-Type'', ''application/json''), (''User-Agent'', ''forge-webhooks/1''),
       (''X-Forge-Payload-Schema'', ObservabilitySchemaVersion),
       (''X-Forge-Event-ID'', ob_uuidText oe (Some (wd_EventID r))),
       (''X-Forge-Delivery-ID'', ob_uuidText oe (Some (wd_ID r)))] @
      (case wsub_Secret s of
         None \<Rightarrow> []
       | Some secret \<Rightarrow> if TrimSpace secret = [] then []
           else [(''X-Forge-Signature-SHA256'', webhookSignature de secret payload)]))"

definition failed_delivery :: "string \<Rightarrow> delivery_outcome" where
  "failed_delivery e = \<lparr>do_statusCode = 0, do_body = [], do_err = Some e\<rparr>"

definition deliver :: "delivery_env \<Rightarrow> http_send" where
  "deliver de r s =
     (case deliveryPayload (dl_observability de) (delivery_document (dl_pg de) (wd_Payload r)) r of
        Inl e \<Rightarrow> failed_delivery e
      | Inr payload \<Rightarrow>
          (case dl_request de (wsub_EndpointUrl s) of
             Some e \<Rightarrow> failed_delivery e
           | None \<Rightarrow>
               (case dl_client de \<lparr>wq_URL = wsub_EndpointUrl s,
                   wq_Headers = webhook_headers de r s payload, wq_Body = payload\<rparr> of
                  NoResponse e \<Rightarrow> failed_delivery e
                | HttpResponse status body readErr \<Rightarrow>
                    \<lparr>do_statusCode = status, do_body = take 4096 body,
                     do_err = (if status < 200 \<or> 300 \<le> status then readErr else None)\<rparr>)))"

end
