(* ===== verification/Observability_Properties.thy ===== *)
theory Observability_Properties
  imports Observability Attempt_Properties
begin

text \<open>
  What a webhook says of an event: that the payload of a delivery is that of the rows at the time of
  the event, and what is missing from it when an attempt ends.
\<close>

section \<open>Decoding the stored document\<close>

lemma find_attempt_fields:
  "find_field (case observability_attempt_type of GStruct fs \<Rightarrow> fs) k = map_option (\<lambda>t. (k, t))
     (map_of (case observability_attempt_type of GStruct fs \<Rightarrow> fs) k)"
  if "k \<in> set [''id'', ''agent_id'', ''harness'', ''model'', ''status'', ''progress_percent'', ''trace_id'',
    ''checkpoint_ref'', ''started_at'', ''completed_at'']"
proof -
  have "list_all (\<lambda>k. find_field (case observability_attempt_type of GStruct fs \<Rightarrow> fs) k =
      map_option (\<lambda>t. (k, t)) (map_of (case observability_attempt_type of GStruct fs \<Rightarrow> fs) k))
    [''id'', ''agent_id'', ''harness'', ''model'', ''status'', ''progress_percent'', ''trace_id'',
     ''checkpoint_ref'', ''started_at'', ''completed_at'']"
    by code_simp
  with that show ?thesis by (simp only: list_all_iff)
qed

definition attempt_value :: "pg_env \<Rightarrow> attempt \<Rightarrow> go_value" where
  "attempt_value env a =
     VStruct [(''id'', VString (env_uuid_text env (at_ID a))), (''agent_id'', VString (at_AgentID a)),
       (''harness'', VString (at_Harness a)), (''model'', VString (at_Model a)),
       (''status'', VString (at_Status a)), (''progress_percent'', VInt (at_ProgressPercent a)),
       (''trace_id'', VString (textValue (at_TraceID a))),
       (''checkpoint_ref'', VString (textValue (at_CheckpointRef a))),
       (''started_at'', VPtr (Some (VString (env_time_text env (at_StartedAt a))))),
       (''completed_at'', VPtr (map_option (\<lambda>t. VString (env_time_text env t)) (at_CompletedAt a)))]"

lemma decode_attempt:
  assumes "fits_bits 32 (at_ProgressPercent a)"
  shows "decode_into pf observability_attempt_type (attempt_document env a)
    (zero_value observability_attempt_type) = Some (attempt_value env a)"
  using assms find_attempt_fields
  by (simp add: observability_attempt_type_def attempt_document_def attempt_value_def nullable_json_def
      textValue_def set_field_def split: option.split)

lemma find_metrics_fields:
  "find_field (case observability_metrics_type of GStruct fs \<Rightarrow> fs) k = map_option (\<lambda>t. (k, t))
     (map_of (case observability_metrics_type of GStruct fs \<Rightarrow> fs) k)"
  if "k \<in> set [''tokens_in'', ''tokens_out'', ''total_tokens'', ''cost_usd'', ''duration_seconds'',
    ''retry_count'']"
proof -
  have "list_all (\<lambda>k. find_field (case observability_metrics_type of GStruct fs \<Rightarrow> fs) k =
      map_option (\<lambda>t. (k, t)) (map_of (case observability_metrics_type of GStruct fs \<Rightarrow> fs) k))
    [''tokens_in'', ''tokens_out'', ''total_tokens'', ''cost_usd'', ''duration_seconds'', ''retry_count'']"
    by code_simp
  with that show ?thesis by (simp only: list_all_iff)
qed

text \<open>The ranges of the columns: bigint counts whose sum is one, amounts of twelve digits, and an
  integer count of retries.\<close>

definition metrics_in_range :: "attempt_metric \<Rightarrow> bool" where
  "metrics_in_range m \<longleftrightarrow>
     fits_bits 64 (am_TokensIn m) \<and> fits_bits 64 (am_TokensOut m) \<and>
     fits_bits 64 (am_TokensIn m + am_TokensOut m) \<and> fits_bits 32 (am_RetryCount m) \<and>
     \<bar>am_CostUsd m\<bar> < 10 ^ 12 \<and> \<bar>am_DurationSeconds m\<bar> < 10 ^ 12"

lemma ParseFloat_small:
  "\<bar>n\<bar> < 10 ^ 12 \<Longrightarrow> k < 300 \<Longrightarrow> ParseFloat (ob_float oe) n k = Some (ob_numericFloat oe k n)"
  by (simp add: ob_numericFloat_def ParseFloat_def split: prod.split)

lemma int64_id: "fits_bits 64 n \<Longrightarrow> int64 n = n"
  by (simp add: int64_def fits_bits_def)

lemma decode_metrics:
  assumes "metrics_in_range m"
  shows "\<exists>v. decode_into (ob_float oe) observability_metrics_type (metrics_document m)
    (zero_value observability_metrics_type) = Some v \<and> struct_metrics v = observabilityMetrics oe m"
proof -
  have float: "ParseFloat (ob_float oe) (am_CostUsd m) 6 = Some (ob_numericFloat oe 6 (am_CostUsd m))"
    "ParseFloat (ob_float oe) (am_DurationSeconds m) 3 = Some (ob_numericFloat oe 3 (am_DurationSeconds m))"
    using assms by (auto simp: metrics_in_range_def intro: ParseFloat_small)
  have bits: "fits_bits 64 (am_TokensIn m)" "fits_bits 64 (am_TokensOut m)"
    "fits_bits 64 (am_TokensIn m + am_TokensOut m)" "fits_bits 32 (am_RetryCount m)"
    using assms by (simp_all add: metrics_in_range_def)
  show ?thesis
    using find_metrics_fields bits float int64_id [OF bits(3)]
    by (simp add: observability_metrics_type_def metrics_document_def set_field_def struct_metrics_def
        observabilityMetrics_def num_def float_def v_field_def)
qed

lemma struct_attempt_value:
  assumes "\<forall>t. ob_parse_time oe (env_time_text env t) = Some t" and "ob_uuid oe = env_uuid_text env"
  shows "struct_attempt oe (attempt_value env a) = Inr (observabilityAttempt oe a)"
  using assms
  by (simp add: struct_attempt_def attempt_value_def observabilityAttempt_def time_field_def ptr_str_def
      v_field_def str_def num_def ob_uuidText_def and_then_def split: option.split)

lemma find_delivery_fields:
  "find_field (case raw_delivery_type of GStruct fs \<Rightarrow> fs) k = map_option (\<lambda>t. (k, t))
     (map_of (case raw_delivery_type of GStruct fs \<Rightarrow> fs) k)"
  if "k \<in> set [''event_id'', ''event_type'', ''workspace_id'', ''project_id'', ''ticket_id'',
    ''attempt_id'', ''actor_type'', ''actor_id'', ''data'', ''created_at'', ''attempt'', ''metrics'']"
proof -
  have "list_all (\<lambda>k. find_field (case raw_delivery_type of GStruct fs \<Rightarrow> fs) k =
      map_option (\<lambda>t. (k, t)) (map_of (case raw_delivery_type of GStruct fs \<Rightarrow> fs) k))
    [''event_id'', ''event_type'', ''workspace_id'', ''project_id'', ''ticket_id'', ''attempt_id'',
     ''actor_type'', ''actor_id'', ''data'', ''created_at'', ''attempt'', ''metrics'']"
    by code_simp
  with that show ?thesis by (simp only: list_all_iff)
qed

lemma raw_data_document: "raw_data (delivery_document env p) = RawDoc (ev_Data (pl_Event p))"
proof -
  have "filter (\<lambda>k. foldName k = ''data'') [''event_id'', ''event_type'', ''workspace_id'', ''project_id'',
      ''ticket_id'', ''attempt_id'', ''actor_type'', ''actor_id'', ''data'', ''created_at'', ''attempt'',
      ''metrics''] = [''data'']"
    by code_simp
  then show ?thesis
    by (simp add: raw_data_def delivery_document_def Let_def split: if_splits)
qed

lemma decode_pointer:
  assumes "\<And>x. v = Some x \<Longrightarrow> decode_into pf t (f x) (zero_value t) = Some (g x)"
    and "\<And>x. v = Some x \<Longrightarrow> f x \<noteq> JNull"
  shows "decode_into pf (GPtr t) (nullable_json f v) (VPtr None) = Some (VPtr (map_option g v))"
proof (cases v)
  case (Some x)
  have "decode_into pf (GPtr t) (f x) (VPtr None) =
      map_option (\<lambda>y. VPtr (Some y)) (decode_into pf t (f x) (zero_value t))"
    using assms(2) [OF Some] by (cases "f x") simp_all
  with Some assms(1) [OF Some] show ?thesis by (simp add: nullable_json_def)
qed (simp add: nullable_json_def)

lemma decode_delivery:
  assumes "\<forall>a. pl_Attempt p = Some a \<longrightarrow> fits_bits 32 (at_ProgressPercent a)"
    and "\<forall>m. pl_Metrics p = Some m \<longrightarrow> metrics_in_range m"
  obtains v g where "unmarshal (ob_float oe) raw_delivery_type (RawDoc (delivery_document env p)) = Some v"
    "\<forall>m. pl_Metrics p = Some m \<longrightarrow> struct_metrics (g m) = observabilityMetrics oe m"
    "v = VStruct [(''event_type'', VString (ev_Type (pl_Event p))),
       (''actor_type'', VString (ev_ActorType (pl_Event p))),
       (''actor_id'', VPtr (map_option VString (ev_ActorID (pl_Event p)))),
       (''created_at'', VPtr (Some (VString (env_time_text env (ev_CreatedAt (pl_Event p)))))),
       (''attempt'', VPtr (map_option (attempt_value env) (pl_Attempt p))),
       (''metrics'', VPtr (map_option g (pl_Metrics p)))]"
proof -
  define g where "g m = (SOME v. decode_into (ob_float oe) observability_metrics_type
    (metrics_document m) (zero_value observability_metrics_type) = Some v \<and>
    struct_metrics v = observabilityMetrics oe m)" for m
  have g: "decode_into (ob_float oe) observability_metrics_type (metrics_document m)
      (zero_value observability_metrics_type) = Some (g m)"
    "struct_metrics (g m) = observabilityMetrics oe m" if "pl_Metrics p = Some m" for m
    using someI_ex [OF decode_metrics, of m oe] assms(2) that unfolding g_def by blast+
  have actor: "decode_into (ob_float oe) (GPtr GString) (nullable_json JStr (ev_ActorID (pl_Event p)))
      (VPtr None) = Some (VPtr (map_option VString (ev_ActorID (pl_Event p))))"
    by (rule decode_pointer) simp_all
  have attempt: "decode_into (ob_float oe) (GPtr observability_attempt_type)
      (nullable_json (attempt_document env) (pl_Attempt p)) (VPtr None) =
      Some (VPtr (map_option (attempt_value env) (pl_Attempt p)))"
    using assms(1) by (intro decode_pointer decode_attempt) (auto simp: attempt_document_def)
  have metrics: "decode_into (ob_float oe) (GPtr observability_metrics_type)
      (nullable_json metrics_document (pl_Metrics p)) (VPtr None) =
      Some (VPtr (map_option g (pl_Metrics p)))"
    by (intro decode_pointer g) (auto simp: metrics_document_def)
  show ?thesis
    using that [of _ g] g(2) find_delivery_fields actor attempt metrics
    by (simp add: unmarshal_def raw_delivery_type_def delivery_document_def Let_def set_field_def)
qed

text \<open>C35. The payload of a delivery that the trigger enqueues is the one built from the rows that the
  event found: its attempt and metrics are those of the moment of the event, however often and
  however late the delivery is posted.\<close>

theorem delivery_snapshots_event:
  fixes env :: pg_env and e :: ticket_event and d :: db
  defines "a \<equiv> Option.bind (ev_AttemptID e) (\<lambda>k. find_row at_ID k (attempts d))"
    and "m \<equiv> Option.bind (ev_AttemptID e) (\<lambda>k. find_row am_AttemptID k (attempt_metrics d))"
  assumes "\<forall>t. ob_parse_time oe (env_time_text env t) = Some t" and "ob_uuid oe = env_uuid_text env"
    and "\<forall>r \<in> set (attempts d). fits_bits 32 (at_ProgressPercent r)"
    and "\<forall>r \<in> set (attempt_metrics d). metrics_in_range r"
  shows "let r = new_delivery env d e s i in
    BuildObservabilityPayloadFromWebhookDelivery oe (delivery_document env (wd_Payload r)) r =
    BuildObservabilityPayload oe
      \<lparr>oi_EventID = Some (ev_ID e), oi_WorkspaceID = Some (ev_WorkspaceID e),
       oi_ProjectID = Some (ev_ProjectID e), oi_TicketID = Some (ev_TicketID e),
       oi_AttemptID = ev_AttemptID e, oi_EventType = ev_Type e, oi_ActorType = ev_ActorType e,
       oi_ActorID = textValue (ev_ActorID e), oi_EventData = RawDoc (ev_Data e),
       oi_OccurredAt = Some (ev_CreatedAt e), oi_Attempt = a, oi_Metrics = m\<rparr>"
proof -
  let ?r = "new_delivery env d e s i"
  have p: "pl_Event (wd_Payload ?r) = e" "pl_Attempt (wd_Payload ?r) = a" "pl_Metrics (wd_Payload ?r) = m"
    by (simp_all add: new_delivery_def a_def m_def split: option.split)
  have ids: "wd_EventID ?r = ev_ID e" "wd_WorkspaceID ?r = ev_WorkspaceID e"
    "wd_ProjectID ?r = ev_ProjectID e" "wd_TicketID ?r = ev_TicketID e" "wd_AttemptID ?r = ev_AttemptID e"
    by (simp_all add: new_delivery_def)
  have "\<forall>x. pl_Attempt (wd_Payload ?r) = Some x \<longrightarrow> fits_bits 32 (at_ProgressPercent x)"
    "\<forall>x. pl_Metrics (wd_Payload ?r) = Some x \<longrightarrow> metrics_in_range x"
    unfolding p using assms(5,6)
    by (auto simp: a_def m_def bind_eq_Some_conv dest: find_row_SomeD)
  then show ?thesis
  proof (rule decode_delivery [of "wd_Payload ?r" oe env])
    fix v g
    assume u: "unmarshal (ob_float oe) raw_delivery_type (RawDoc (delivery_document env (wd_Payload ?r))) = Some v"
      and g: "\<forall>m. pl_Metrics (wd_Payload ?r) = Some m \<longrightarrow> struct_metrics (g m) = observabilityMetrics oe m"
      and v: "v = VStruct [(''event_type'', VString (ev_Type (pl_Event (wd_Payload ?r)))),
       (''actor_type'', VString (ev_ActorType (pl_Event (wd_Payload ?r)))),
       (''actor_id'', VPtr (map_option VString (ev_ActorID (pl_Event (wd_Payload ?r))))),
       (''created_at'', VPtr (Some (VString (env_time_text env (ev_CreatedAt (pl_Event (wd_Payload ?r))))))),
       (''attempt'', VPtr (map_option (attempt_value env) (pl_Attempt (wd_Payload ?r)))),
       (''metrics'', VPtr (map_option g (pl_Metrics (wd_Payload ?r))))]"
    have att: "decoded_attempt oe v = Inr (map_option (observabilityAttempt oe) a)"
      using struct_attempt_value [OF assms(3,4)]
      by (cases a) (simp_all add: v p decoded_attempt_def v_field_def and_then_def)
    have met: "map_option struct_metrics (v_ptr (v_field v ''metrics'')) = map_option (observabilityMetrics oe) m"
      using g by (cases m) (simp_all add: v p v_field_def)
    have "time_field oe v ''created_at'' = Inr (Some (ev_CreatedAt e))"
      using assms(3) by (simp add: v p time_field_def ptr_str_def v_field_def)
    moreover have "str v ''event_type'' = ev_Type e" "str v ''actor_type'' = ev_ActorType e"
      "ptr_str v ''actor_id'' = ev_ActorID e"
      by (cases "ev_ActorID e"; simp add: v p str_def ptr_str_def v_field_def)+
    ultimately show ?thesis
      using met
      by (cases "ev_Data e = JNull")
        (simp_all add: Let_def BuildObservabilityPayloadFromWebhookDelivery_def u att raw_data_document p
          BuildObservabilityPayload_def normalizeJSONData_def ids and_then_def)
  qed
qed

text \<open>Times and identifiers in unary, so that they are read back.\<close>

definition sample_text_env :: pg_env where
  "sample_text_env = sample_env\<lparr>env_time_text := \<lambda>t.
     (if 0 \<le> t then CHR ''+'' else CHR ''-'') # replicate (nat \<bar>t\<bar>) (CHR ''x'')\<rparr>"

definition sample_observability :: observability_env where
  "sample_observability =
     \<lparr>ob_uuid = env_uuid_text sample_env, ob_float = (\<lambda>_ _. None),
      ob_parse_time = (\<lambda>s. Some (if hd s = CHR ''+'' then int (length s - 1) else - int (length s - 1))),
      ob_time = (\<lambda>_. ''time'')\<rparr>"

definition sample_subscription :: webhook_subscription where
  "sample_subscription =
     \<lparr>wsub_ID = 9, wsub_WorkspaceID = 1, wsub_ProjectID = 2, wsub_EndpointUrl = ''https://x'',
      wsub_Secret = None, wsub_EventTypes = [], wsub_Active = True, wsub_MaxAttempts = 3,
      wsub_Description = [], wsub_CreatedAt = 0, wsub_UpdatedAt = 0\<rparr>"

definition sample_measured_db :: db where
  "sample_measured_db = sample_db\<lparr>attempts := [sample_attempt_row ''failed'' None None],
     attempt_metrics := [\<lparr>am_ID = 7, am_AttemptID = sample_attempt, am_WorkspaceID = 1,
       am_ProjectID = 2, am_TokensIn = 1, am_TokensOut = 2, am_CostUsd = 1500000,
       am_DurationSeconds = 2500, am_RetryCount = 0, am_CreatedAt = 0\<rparr>]\<rparr>"

theorem delivery_snapshots_event_witness:
  "\<exists>p. (let r = new_delivery sample_text_env sample_measured_db (last sample_events) sample_subscription 8 in
     BuildObservabilityPayloadFromWebhookDelivery sample_observability
       (delivery_document sample_text_env (wd_Payload r)) r) = Inr p \<and>
     map_option om_CostUSD (op_Metrics p) = Some (F64 15 1) \<and>
     map_option oa_Status (op_Attempt p) = Some ''failed''"
proof -
  have laws: "\<forall>t. ob_parse_time sample_observability (env_time_text sample_text_env t) = Some t"
    "ob_uuid sample_observability = env_uuid_text sample_text_env"
    by (simp_all add: sample_observability_def sample_text_env_def)
  have rows: "\<forall>r \<in> set (attempts sample_measured_db). fits_bits 32 (at_ProgressPercent r)"
    "\<forall>r \<in> set (attempt_metrics sample_measured_db). metrics_in_range r"
    by (simp_all add: sample_measured_db_def sample_attempt_row_def fits_bits_def metrics_in_range_def)
  have e: "ev_AttemptID (last sample_events) = Some sample_attempt" "ev_Data (last sample_events) \<noteq> JNull"
    by (simp_all add: sample_events_def)
  have cost: "ob_numericFloat sample_observability 6 1500000 = F64 15 1"
    by code_simp
  show ?thesis
    using delivery_snapshots_event [OF laws rows, of "last sample_events" sample_subscription 8] e cost
    by (simp add: Let_def BuildObservabilityPayload_def normalizeJSONData_def and_then_def
        sample_measured_db_def sample_attempt_row_def find_row_def observabilityMetrics_def
        observabilityAttempt_def)
qed

section \<open>Metrics of an attempt that ends\<close>

definition snapshot_metrics :: "uuid option \<Rightarrow> db \<Rightarrow> attempt_metric option" where
  "snapshot_metrics i d = Option.bind i (\<lambda>k. find_row am_AttemptID k (attempt_metrics d))"

text \<open>The deliveries that a statement adds carry the metrics from before it.\<close>

definition adds_snapshots :: "uuid option \<Rightarrow> db \<Rightarrow> db \<Rightarrow> bool" where
  "adds_snapshots i d d' \<longleftrightarrow>
     (\<forall>r \<in> set (webhook_deliveries d') - set (webhook_deliveries d).
        wd_AttemptID r = i \<and> pl_Metrics (wd_Payload r) = snapshot_metrics i d)"

lemma enqueue_adds_snapshots:
  "enqueue_deliveries env e ss d = Inr d' \<Longrightarrow> adds_snapshots (ev_AttemptID e) d d'"
proof (induction env e ss d rule: enqueue_deliveries.induct)
  case (2 env e s ss d)
  obtain i d1 where i: "gen_random_uuid env d = (i, d1)" by fastforce
  then have d1: "webhook_deliveries d1 = webhook_deliveries d" "attempt_metrics d1 = attempt_metrics d"
    by (auto simp: gen_random_uuid_def)
  let ?r = "new_delivery env d1 e s i"
  let ?d2 = "d1\<lparr>webhook_deliveries := webhook_deliveries d1 @ [?r]\<rparr>"
  from 2(2) i have ins: "insert_row wd_ID ?r (webhook_deliveries d1) = Inr (webhook_deliveries d1 @ [?r])"
    and rest: "enqueue_deliveries env e ss ?d2 = Inr d'"
    by (auto simp: and_then_Inr_iff insert_row_Inr_iff)
  have "adds_snapshots (ev_AttemptID e) ?d2 d'"
    by (rule 2(1) [OF i [symmetric] rest])
  moreover have "wd_AttemptID ?r = ev_AttemptID e"
    "pl_Metrics (wd_Payload ?r) = snapshot_metrics (ev_AttemptID e) d"
    by (simp_all add: new_delivery_def snapshot_metrics_def d1 split: option.split)
  ultimately show ?case
    by (auto simp: adds_snapshots_def snapshot_metrics_def d1)
qed (simp add: adds_snapshots_def)

lemma transition_adds_snapshots:
  assumes "transition_attempt env i guard close next_status ty actor data d = Inr (row, d')"
  obtains k where "i = Some k" "tr_AttemptID row = k" "adds_snapshots (Some k) d d'"
proof -
  from assms obtain a t st e where a: "running_attempt i d = Inr a" "tr_AttemptID row = at_ID a"
    and ins: "insert_ticket_event env (attempt_event a ty actor (JObj (data st)))
        (set_ticket_status env (at_TicketID a) st (set_attempt (at_ID a) close d)) = Inr (e, d')"
    by (auto simp: transition_attempt_def and_then_Inr_iff split: prod.splits)
  let ?d = "set_ticket_status env (at_TicketID a) st (set_attempt (at_ID a) close d)"
  have e: "ev_AttemptID e = Some (at_ID a)"
    using insert_ticket_event_core(2) [OF ins] by (simp add: new_event_def attempt_event_def)
  from ins obtain es where "enqueue_deliveries env e
      (filter (subscription_wants e) (webhook_subscriptions (snd (gen_random_uuid env ?d))))
      (snd (gen_random_uuid env ?d)\<lparr>ticket_events := es, event_seq := event_seq ?d + 1\<rparr>) = Inr d'"
    by (auto simp: insert_ticket_event_def gen_random_uuid_def Let_def and_then_Inr_iff)
  from enqueue_adds_snapshots [OF this] have "adds_snapshots (Some (at_ID a)) d d'"
    by (simp add: adds_snapshots_def snapshot_metrics_def e gen_random_uuid_def set_ticket_status_def
        set_attempt_def)
  moreover have "i = Some (at_ID a)"
    using a(1) by (auto simp: running_attempt_Inr_iff dest: find_row_SomeD)
  ultimately show ?thesis using that a(2) by blast
qed

lemma record_keeps_deliveries:
  "recordAttemptMetrics env row m d = (Inr u, d') \<Longrightarrow> webhook_deliveries d' = webhook_deliveries d"
  by (auto simp: recordAttemptMetrics_def CreateAttemptMetrics_stmt_def gen_random_uuid_def Let_def
      result_simps split: option.splits prod.splits)

fun ending_attempt :: "runtime_call \<Rightarrow> uuid option" where
  "ending_attempt (CallComplete now env r) = or_AttemptID r"
| "ending_attempt (CallFail now env r) = fr_AttemptID r"
| "ending_attempt (CallBlock now env r) = br_AttemptID r"
| "ending_attempt _ = None"

lemma ends_add_snapshots:
  assumes "ending_attempt c = Some k" and "runtime c d = (Inr (), d')"
  shows "adds_snapshots (Some k) d d'"
  using assms
proof (cases c)
  case (CallComplete now env r)
  with assms obtain p row d1 u where "CompleteAttempt_stmt env p d = Inr (row, d1)" "complete_attempt_params.cap_AttemptID p = Some k"
    and "recordAttemptMetrics env row (or_Metrics r) d1 = (Inr u, d')"
    by (force simp: no_result_def Complete_def Let_def result_simps)
  then show ?thesis
    by (force simp: CompleteAttempt_stmt_def and_then_Inr_iff adds_snapshots_def dest!: record_keeps_deliveries
        elim!: transition_adds_snapshots)
next
  case (CallFail now env r)
  with assms obtain p row d1 u where "FailAttempt_stmt env p d = Inr (row, d1)" "fap_AttemptID p = Some k"
    and "recordAttemptMetrics env row (fr_Metrics r) d1 = (Inr u, d')"
    by (force simp: no_result_def Fail_def Let_def result_simps)
  then show ?thesis
    by (force simp: FailAttempt_stmt_def and_then_Inr_iff adds_snapshots_def dest!: record_keeps_deliveries
        elim!: transition_adds_snapshots)
next
  case (CallBlock now env r)
  with assms obtain p row d1 u where "BlockAttempt_stmt env p d = Inr (row, d1)" "bap_AttemptID p = Some k"
    and "recordAttemptMetrics env row (br_Metrics r) d1 = (Inr u, d')"
    by (force simp: no_result_def Block_def Let_def result_simps)
  then show ?thesis
    by (force simp: BlockAttempt_stmt_def and_then_Inr_iff adds_snapshots_def dest!: record_keeps_deliveries
        elim!: transition_adds_snapshots)
qed simp_all

text \<open>C36. The webhook that reports the end of an attempt never carries the metrics that were recorded
  with the end, as the trigger runs before they are stored.\<close>

theorem end_reported_without_metrics:
  assumes "ending_attempt c = Some k" and "runtime c d = (Inr (), d')"
    and "find_row am_AttemptID k (attempt_metrics d) = None"
    and "r \<in> set (webhook_deliveries d')" and "r \<notin> set (webhook_deliveries d)"
  shows "wd_AttemptID r = Some k \<and> pl_Metrics (wd_Payload r) = None"
  using ends_add_snapshots [OF assms(1,2)] assms(3-5)
  by (auto simp: adds_snapshots_def snapshot_metrics_def)

definition sample_subscribed :: db where
  "sample_subscribed = sample_claimed\<lparr>webhook_subscriptions := [sample_subscription]\<rparr>"

definition sample_measured_end :: runtime_call where
  "sample_measured_end = CallComplete 6 sample_env
     \<lparr>or_AttemptID = Some sample_attempt, or_Output = [], or_OutputSchema = [],
      or_Metrics = Some \<lparr>mr_TokensIn = 1, mr_TokensOut = 2, mr_CostUSD = F64 5 1,
        mr_DurationSeconds = F64 15 1, mr_RetryCount = 0\<rparr>\<rparr>"

theorem end_reported_without_metrics_witness:
  "let d = snd (runtime sample_measured_end sample_subscribed) in
     map (\<lambda>r. (wd_AttemptID r, pl_Metrics (wd_Payload r))) (webhook_deliveries d) =
       [(Some sample_attempt, None)] \<and> length (attempt_metrics d) = 1"
proof -
  let ?x = "runtime sample_measured_end sample_subscribed"
  have "isl (fst ?x) = False \<and> length (webhook_deliveries (snd ?x)) = 1 \<and>
      length (attempt_metrics (snd ?x)) = 1"
    by code_simp
  then obtain r where x: "?x = (Inr (), snd ?x)" and r: "webhook_deliveries (snd ?x) = [r]"
    and m: "length (attempt_metrics (snd ?x)) = 1"
    by (cases ?x; cases "fst ?x") (auto simp: length_Suc_conv)
  have "webhook_deliveries sample_subscribed = []"
    "find_row am_AttemptID sample_attempt (attempt_metrics sample_subscribed) = None"
    by code_simp+
  with end_reported_without_metrics [OF _ x, of sample_attempt r] r m show ?thesis
    by (simp add: sample_measured_end_def Let_def)
qed

end
