(* ===== verification/Migrations.thy ===== *)
theory Migrations
  imports Go_Path Cli_Commands "HOL-Library.List_Lexorder" "HOL-Library.Char_ord"
begin

text \<open>
  internal/cli/migrate.go: the command that brings a database to the schema of a directory of
  migration files. The table \<open>forge_schema_migrations\<close> is explicit; the rest of the database is a
  type \<open>'s\<close>, whose SQL and catalog are arguments, and no migration file names the table. One
  transaction covers a run, so an error drops the state that the run has reached.
\<close>

section \<open>The database\<close>

record migration_row =
  mr_Id :: string
  mr_Filename :: string
  mr_Checksum :: "string option"

record 's migration_db =
  ms_Table :: "migration_row list option"
  ms_Schema :: 's

datatype commit_outcome = Committed | CommitRefused string | ReplyLost string

text \<open>
  \<open>me_Pool\<close> is the outcome of \<open>pgxpool.New\<close>, \<open>me_Glob\<close> of \<open>filepath.Glob\<close> and \<open>me_File\<close> of
  \<open>os.ReadFile\<close>; \<open>me_Sum\<close> is the hexadecimal SHA-256. \<open>me_Exec\<close> runs SQL, \<open>me_Relation\<close>, \<open>me_Column\<close>,
  \<open>me_Constraint\<close> and \<open>me_Function\<close> read the catalog. \<open>me_Fault n\<close> is the error that the n-th
  exchange with the server may end in, and \<open>me_Commit\<close> is how the commit ends: a lost reply is an
  error for the program although the transaction holds.
\<close>

record 's migration_env =
  me_Pool :: "string \<Rightarrow> string option"
  me_Glob :: "string \<Rightarrow> string + string list"
  me_File :: "string \<Rightarrow> string + string"
  me_Sum :: "string \<Rightarrow> string"
  me_Exec :: "string \<Rightarrow> 's \<Rightarrow> string + 's"
  me_Relation :: "'s \<Rightarrow> string \<Rightarrow> bool"
  me_Column :: "'s \<Rightarrow> string \<Rightarrow> string \<Rightarrow> bool"
  me_Constraint :: "'s \<Rightarrow> string \<Rightarrow> string \<Rightarrow> string \<Rightarrow> bool"
  me_Function :: "'s \<Rightarrow> string \<Rightarrow> string \<Rightarrow> bool"
  me_Fault :: "nat \<Rightarrow> string option"
  me_Commit :: commit_outcome

section \<open>The transaction\<close>

text \<open>A step inside the transaction has the database and the number of exchanges so far; an error
  keeps neither.\<close>

type_synonym ('s, 'a) in_tx =
  "'s migration_db \<times> nat \<Rightarrow> string + 'a \<times> 's migration_db \<times> nat"

definition tx_return :: "'a \<Rightarrow> ('s, 'a) in_tx" where "tx_return a s = Inr (a, s)"

definition tx_bind :: "('s, 'a) in_tx \<Rightarrow> ('a \<Rightarrow> ('s, 'b) in_tx) \<Rightarrow> ('s, 'b) in_tx" where
  "tx_bind m f s = and_then (m s) (\<lambda>(a, s'). f a s')"

text \<open>A value computed outside the database, or its error.\<close>

definition tx_lift :: "string + 'a \<Rightarrow> ('s, 'a) in_tx" where
  "tx_lift r s = and_then r (\<lambda>a. Inr (a, s))"

text \<open>\<open>fmt.Errorf("...: %w", err)\<close>.\<close>

definition wrap :: "string \<Rightarrow> string + 'a \<Rightarrow> string + 'a" where
  "wrap label r = (case r of Inl msg \<Rightarrow> Inl (label @ msg) | Inr a \<Rightarrow> Inr a)"

definition tx_wrap :: "string \<Rightarrow> ('s, 'a) in_tx \<Rightarrow> ('s, 'a) in_tx" where
  "tx_wrap label m s = wrap label (m s)"

definition exchange ::
  "'s migration_env \<Rightarrow> ('s migration_db \<Rightarrow> string + 'a \<times> 's migration_db) \<Rightarrow> ('s, 'a) in_tx" where
  "exchange me f = (\<lambda>(d, n).
     (case me_Fault me n of
        Some msg \<Rightarrow> Inl msg
      | None \<Rightarrow> and_then (f d) (\<lambda>(a, d'). Inr (a, d', Suc n))))"

section \<open>File names\<close>

text \<open>\<open>filepath.Ext\<close> and \<open>strings.TrimSuffix\<close>.\<close>

definition Ext :: "string \<Rightarrow> string" where
  "Ext p =
     (let e = takeWhile (\<lambda>c. c \<noteq> CHR ''.'' \<and> c \<noteq> CHR ''/'') (rev p) in
      case drop (length e) (rev p) of
        c # _ \<Rightarrow> if c = CHR ''.'' then c # rev e else []
      | [] \<Rightarrow> [])"

definition TrimSuffix :: "string \<Rightarrow> string \<Rightarrow> string" where
  "TrimSuffix s x = (if suffix x s then take (length s - length x) s else s)"

definition migration_id :: "string \<Rightarrow> string" where
  "migration_id path = TrimSuffix (Base path) (Ext path)"

definition migrationFiles :: "'s migration_env \<Rightarrow> string \<Rightarrow> string + string list" where
  "migrationFiles me dir0 =
     (let dir = TrimSpace dir0 in
      if dir = [] then Inl ''migration directory is required''
      else and_then (wrap ''list migrations: '' (me_Glob me (path_Join [dir, ''*.sql''])))
             (\<lambda>files. Inr (sort files)))"

definition migrationChecksum :: "'s migration_env \<Rightarrow> string \<Rightarrow> string + string" where
  "migrationChecksum me path =
     and_then (wrap (''read migration '' @ Base path @ '': '') (me_File me path))
       (\<lambda>data. Inr (me_Sum me data))"

section \<open>The part of a file that applies it\<close>

definition goose_up :: string where "goose_up = ''-- +goose Up''"
definition goose_down :: string where "goose_down = ''-- +goose Down''"

text \<open>The last marker Up before the first marker Down that follows one, and that Down.\<close>

fun goose_marks :: "nat \<Rightarrow> nat option \<Rightarrow> string list \<Rightarrow> nat option \<times> nat option" where
  "goose_marks index start [] = (start, None)"
| "goose_marks index start (line # lines) =
     (if TrimSpace line = goose_up then goose_marks (Suc index) (Some (Suc index)) lines
      else if TrimSpace line = goose_down \<and> start \<noteq> None then (start, Some index)
      else goose_marks (Suc index) start lines)"

definition newline :: char where "newline = CHR 0x0A"

definition extractGooseUp :: "string \<Rightarrow> string + string" where
  "extractGooseUp contents =
     (let lines = Split newline contents in
      case goose_marks 0 None lines of
        (None, _) \<Rightarrow> Inl ''missing -- +goose Up marker''
      | (Some start, stop) \<Rightarrow>
          (let end_index = (case stop of None \<Rightarrow> length lines | Some i \<Rightarrow> i);
               up = TrimSpace (Join newline (drop start (take end_index lines))) in
           if up = [] then Inl ''empty up migration'' else Inr up))"

definition readMigrationUp :: "'s migration_env \<Rightarrow> string \<Rightarrow> string + string" where
  "readMigrationUp me path =
     and_then (wrap (''read migration '' @ Base path @ '': '') (me_File me path)) (\<lambda>data.
     wrap (''parse migration '' @ Base path @ '': '') (extractGooseUp data))"

section \<open>The table of applied migrations\<close>

definition no_table :: string where
  "no_table = ''ERROR: relation \"forge_schema_migrations\" does not exist (SQLSTATE 42P01)''"

definition duplicate_id :: string where
  "duplicate_id = ''ERROR: duplicate key value violates unique constraint '' @
     ''\"forge_schema_migrations_pkey\" (SQLSTATE 23505)''"

definition migration_rows :: "'s migration_db \<Rightarrow> string + migration_row list" where
  "migration_rows d = (case ms_Table d of None \<Rightarrow> Inl no_table | Some rows \<Rightarrow> Inr rows)"

definition migrationTableSQL :: "'s migration_db \<Rightarrow> string + unit \<times> 's migration_db" where
  "migrationTableSQL d =
     Inr ((), d\<lparr>ms_Table := Some (case ms_Table d of None \<Rightarrow> [] | Some rows \<Rightarrow> rows)\<rparr>)"

definition insert_migration :: "migration_row \<Rightarrow> 's migration_db \<Rightarrow> string + unit \<times> 's migration_db" where
  "insert_migration r d =
     and_then (migration_rows d) (\<lambda>rows.
     (case insert_row mr_Id r rows of
        Inl _ \<Rightarrow> Inl duplicate_id
      | Inr rows' \<Rightarrow> Inr ((), d\<lparr>ms_Table := Some rows'\<rparr>)))"

definition adopt_checksum ::
  "string \<times> string \<Rightarrow> 's migration_db \<Rightarrow> string + unit \<times> 's migration_db" where
  "adopt_checksum = (\<lambda>(i, sum) d.
     and_then (migration_rows d) (\<lambda>rows.
     Inr ((), d\<lparr>ms_Table := Some (update_rows (\<lambda>r. mr_Id r = i \<and> mr_Checksum r = None)
                               (mr_Checksum_update (\<lambda>_. Some sum)) rows)\<rparr>)))"

definition select_migrations :: "'s migration_db \<Rightarrow> string + migration_row list \<times> 's migration_db" where
  "select_migrations d = and_then (migration_rows d) (\<lambda>rows. Inr (rows, d))"

definition end_of_rows :: "'s migration_db \<Rightarrow> string + unit \<times> 's migration_db" where
  "end_of_rows d = Inr ((), d)"

definition recordMigration ::
  "'s migration_env \<Rightarrow> string \<Rightarrow> string \<Rightarrow> ('s, unit) in_tx" where
  "recordMigration me i path =
     tx_bind (tx_lift (migrationChecksum me path)) (\<lambda>sum.
     exchange me (insert_migration
       \<lparr>mr_Id = i, mr_Filename = Base path, mr_Checksum = Some sum\<rparr>))"

definition loadAppliedMigrations :: "'s migration_env \<Rightarrow> ('s, string list) in_tx" where
  "loadAppliedMigrations me =
     tx_bind (tx_wrap ''list applied migrations: '' (exchange me select_migrations)) (\<lambda>rows.
     tx_bind (tx_wrap ''read applied migrations: '' (exchange me end_of_rows)) (\<lambda>_.
     tx_return (map mr_Id rows)))"

section \<open>Checksums\<close>

text \<open>The map from an id to its file; a later file with the same id replaces an earlier one.\<close>

definition files_by_id :: "string list \<Rightarrow> string \<Rightarrow> string option" where
  "files_by_id files = map_of (rev (map (\<lambda>p. (migration_id p, p)) files))"

fun check_rows ::
  "'s migration_env \<Rightarrow> (string \<Rightarrow> string option) \<Rightarrow> migration_row list \<Rightarrow> string + (string \<times> string) list"
where
  "check_rows me byID [] = Inr []"
| "check_rows me byID (r # rs) =
     (case byID (mr_Id r) of
        None \<Rightarrow> Inl (''applied migration '' @ mr_Id r @ '' is missing'')
      | Some path \<Rightarrow>
          if mr_Filename r \<noteq> Base path
          then Inl (''applied migration '' @ mr_Id r @ '' filename changed from '' @ mr_Filename r @
                    '' to '' @ Base path)
          else and_then (migrationChecksum me path) (\<lambda>current.
            (case mr_Checksum r of
               None \<Rightarrow> and_then (check_rows me byID rs) (\<lambda>as. Inr ((mr_Id r, current) # as))
             | Some c \<Rightarrow>
                 if c = [] then and_then (check_rows me byID rs) (\<lambda>as. Inr ((mr_Id r, current) # as))
                 else if c \<noteq> current
                 then Inl (''applied migration '' @ mr_Id r @ '' checksum does not match file'')
                 else check_rows me byID rs)))"

fun adopt_checksums :: "'s migration_env \<Rightarrow> (string \<times> string) list \<Rightarrow> ('s, unit) in_tx" where
  "adopt_checksums me [] = tx_return ()"
| "adopt_checksums me (a # as) =
     tx_bind (tx_wrap (''adopt checksum for migration '' @ fst a @ '': '')
               (exchange me (adopt_checksum a))) (\<lambda>_. adopt_checksums me as)"

definition verifyMigrationChecksums :: "'s migration_env \<Rightarrow> string list \<Rightarrow> ('s, unit) in_tx" where
  "verifyMigrationChecksums me files =
     tx_bind (tx_wrap ''list migration checksums: '' (exchange me select_migrations)) (\<lambda>rows.
     tx_bind (tx_lift (check_rows me (files_by_id files) rows)) (\<lambda>adoptions.
     tx_bind (tx_wrap ''read migration checksums: '' (exchange me end_of_rows)) (\<lambda>_.
     adopt_checksums me adoptions)))"

section \<open>Databases that were made by hand\<close>

text \<open>Whether the objects that a migration makes are there.\<close>

datatype schema_check =
    Relations "string list"
  | Column string string
  | Constraint string string string
  | FunctionSource string string

definition relationExists :: "'s migration_env \<Rightarrow> string \<Rightarrow> ('s, bool) in_tx" where
  "relationExists me name =
     tx_wrap (''inspect relation '' @ name @ '': '')
       (exchange me (\<lambda>d. Inr (me_Relation me (ms_Schema d) name, d)))"

fun hasAllRelations :: "'s migration_env \<Rightarrow> string list \<Rightarrow> ('s, bool) in_tx" where
  "hasAllRelations me [] = tx_return True"
| "hasAllRelations me (name # names) =
     tx_bind (relationExists me name) (\<lambda>b.
     if b then hasAllRelations me names else tx_return False)"

definition columnExists :: "'s migration_env \<Rightarrow> string \<Rightarrow> string \<Rightarrow> ('s, bool) in_tx" where
  "columnExists me table column =
     tx_wrap (''inspect column '' @ table @ ''.'' @ column @ '': '')
       (exchange me (\<lambda>d. Inr (me_Column me (ms_Schema d) table column, d)))"

definition constraintContains ::
  "'s migration_env \<Rightarrow> string \<Rightarrow> string \<Rightarrow> string \<Rightarrow> ('s, bool) in_tx" where
  "constraintContains me table constraint fragment =
     tx_wrap (''inspect constraint '' @ table @ ''.'' @ constraint @ '': '')
       (exchange me (\<lambda>d. Inr (me_Constraint me (ms_Schema d) table constraint fragment, d)))"

definition functionSourceContains :: "'s migration_env \<Rightarrow> string \<Rightarrow> string \<Rightarrow> ('s, bool) in_tx" where
  "functionSourceContains me name fragment =
     tx_wrap (''inspect function '' @ name @ '': '')
       (exchange me (\<lambda>d. Inr (me_Function me (ms_Schema d) name fragment, d)))"

fun run_check :: "'s migration_env \<Rightarrow> schema_check \<Rightarrow> ('s, bool) in_tx" where
  "run_check me (Relations names) = hasAllRelations me names"
| "run_check me (Column t c) = columnExists me t c"
| "run_check me (Constraint t c f) = constraintContains me t c f"
| "run_check me (FunctionSource n f) = functionSourceContains me n f"

definition core_relations :: "string list" where
  "core_relations =
     [''workspaces'', ''projects'', ''tickets'', ''ticket_dependencies'', ''attempts'',
      ''attempt_checkpoints'', ''ticket_events'', ''artifacts'', ''idempotency_keys'',
      ''agent_capabilities'', ''api_keys'', ''attempt_metrics'']"

definition baseline_checks :: "(string \<times> schema_check) list" where
  "baseline_checks =
     [(''0002_ticket_transition_event_types'',
       Constraint ''ticket_events'' ''ticket_events_type_check'' ''ready''),
      (''0003_add_attempt_checkpoints_ticket_index'',
       Relations [''idx_attempt_checkpoints_ticket_id'']),
      (''0003_full_text_search'',
       Relations [''idx_tickets_search_vector'', ''idx_attempts_search_vector'',
         ''idx_ticket_events_search_vector'', ''idx_artifacts_search_vector'']),
      (''0004_webhook_deliveries'', Relations [''webhook_subscriptions'', ''webhook_deliveries'']),
      (''0005_workspace_members'', Relations [''workspace_members'']),
      (''0006_ticket_event_sequence'', Column ''ticket_events'' ''event_sequence''),
      (''0007_webhook_observability_snapshots'',
       FunctionSource ''enqueue_webhook_deliveries_for_ticket_event'' (CHR 0x27 # ''metrics'' @ [CHR 0x27])),
      (''0008_ticket_task_type'', Constraint ''tickets'' ''tickets_type_check'' ''task'')]"

fun candidates :: "'s migration_env \<Rightarrow> (string \<times> schema_check) list \<Rightarrow> ('s, string list) in_tx" where
  "candidates me [] = tx_return []"
| "candidates me ((i, c) # cs) =
     tx_bind (run_check me c) (\<lambda>ok.
     tx_bind (candidates me cs) (\<lambda>ids. tx_return (if ok then i # ids else ids)))"

definition detectBaselineMigrations :: "'s migration_env \<Rightarrow> string list \<Rightarrow> ('s, string list) in_tx" where
  "detectBaselineMigrations me files =
     tx_bind (hasAllRelations me core_relations) (\<lambda>core.
     if \<not> core then tx_return []
     else tx_bind (candidates me baseline_checks) (\<lambda>ids.
       tx_return (filter (\<lambda>i. i \<in> set (''0001_initial_schema'' # ids)) (map migration_id files))))"

section \<open>A run\<close>

record migration_result =
  mg_Applied :: "string list"
  mg_Skipped :: "string list"
  mg_Baselined :: "string list"

fun record_baseline ::
  "'s migration_env \<Rightarrow> string list \<Rightarrow> string list \<Rightarrow> ('s, string list) in_tx" where
  "record_baseline me ids [] = tx_return []"
| "record_baseline me ids (path # paths) =
     (let i = migration_id path in
      if i \<notin> set ids then record_baseline me ids paths
      else tx_bind (tx_wrap (''record baseline migration '' @ i @ '': '') (recordMigration me i path)) (\<lambda>_.
        tx_bind (record_baseline me ids paths) (\<lambda>bs. tx_return (i # bs))))"

definition apply_migration :: "'s migration_env \<Rightarrow> string \<Rightarrow> ('s, unit) in_tx" where
  "apply_migration me path =
     (let i = migration_id path in
      tx_bind (tx_lift (readMigrationUp me path)) (\<lambda>sql.
      tx_bind (tx_wrap (''apply migration '' @ i @ '': '') (exchange me (\<lambda>d.
        and_then (me_Exec me sql (ms_Schema d)) (\<lambda>s. Inr ((), d\<lparr>ms_Schema := s\<rparr>))))) (\<lambda>_.
      tx_wrap (''record migration '' @ i @ '': '') (recordMigration me i path))))"

text \<open>The files in order: a migration that was applied before is skipped, and listed so unless this
  run took it as a baseline.\<close>

fun apply_migrations ::
  "'s migration_env \<Rightarrow> string list \<Rightarrow> string list \<Rightarrow> string list \<Rightarrow> ('s, string list \<times> string list) in_tx"
where
  "apply_migrations me done_ids baselined [] = tx_return ([], [])"
| "apply_migrations me done_ids baselined (path # paths) =
     (let i = migration_id path in
      if i \<in> set done_ids
      then tx_bind (apply_migrations me done_ids baselined paths) (\<lambda>(as, ss).
             tx_return (as, if i \<in> set baselined then ss else i # ss))
      else tx_bind (apply_migration me path) (\<lambda>_.
             tx_bind (apply_migrations me done_ids baselined paths) (\<lambda>(as, ss).
             tx_return (i # as, ss))))"

definition baseline_step ::
  "'s migration_env \<Rightarrow> bool \<Rightarrow> string list \<Rightarrow> string list \<Rightarrow> ('s, string list) in_tx" where
  "baseline_step me baselineExisting done_ids files =
     (if baselineExisting \<and> done_ids = []
      then tx_bind (detectBaselineMigrations me files) (\<lambda>ids.
        if ids = []
        then tx_lift (Inl (''baseline-existing requires an existing Forge schema '' @
                           ''with recognized migration artifacts''))
        else record_baseline me ids files)
      else tx_return [])"

definition migration_tx ::
  "'s migration_env \<Rightarrow> string list \<Rightarrow> bool \<Rightarrow> ('s, migration_result) in_tx" where
  "migration_tx me files baselineExisting =
     tx_bind (tx_wrap ''begin migration transaction: '' (exchange me end_of_rows)) (\<lambda>_.
     tx_bind (tx_wrap ''ensure migration table: '' (exchange me migrationTableSQL)) (\<lambda>_.
     tx_bind (tx_wrap ''lock migration table: '' (exchange me end_of_rows)) (\<lambda>_.
     tx_bind (loadAppliedMigrations me) (\<lambda>applied.
     tx_bind (baseline_step me baselineExisting applied files) (\<lambda>baselined.
     tx_bind (verifyMigrationChecksums me files) (\<lambda>_.
     tx_bind (apply_migrations me (applied @ baselined) baselined files) (\<lambda>(as, ss).
     tx_return \<lparr>mg_Applied = as, mg_Skipped = ss, mg_Baselined = baselined\<rparr>)))))))"

definition ApplyMigrationsWithOptions ::
  "'s migration_env \<Rightarrow> string \<Rightarrow> string \<Rightarrow> bool \<Rightarrow> 's migration_db \<Rightarrow>
   (string + migration_result) \<times> 's migration_db" where
  "ApplyMigrationsWithOptions me url dir baselineExisting d =
     (case me_Pool me url of
        Some msg \<Rightarrow> (Inl (''create postgres pool: '' @ msg), d)
      | None \<Rightarrow>
          (case migrationFiles me dir of
             Inl msg \<Rightarrow> (Inl msg, d)
           | Inr files \<Rightarrow>
               (case migration_tx me files baselineExisting (d, 0) of
                  Inl msg \<Rightarrow> (Inl msg, d)
                | Inr (r, d', n) \<Rightarrow>
                    (case me_Commit me of
                       Committed \<Rightarrow> (Inr r, d')
                     | CommitRefused msg \<Rightarrow> (Inl (''commit migrations: '' @ msg), d)
                     | ReplyLost msg \<Rightarrow> (Inl (''commit migrations: '' @ msg), d')))))"

definition ApplyMigrations ::
  "'s migration_env \<Rightarrow> string \<Rightarrow> string \<Rightarrow> 's migration_db \<Rightarrow>
   (string + migration_result) \<times> 's migration_db" where
  "ApplyMigrations me url dir = ApplyMigrationsWithOptions me url dir False"

section \<open>The command\<close>

record migrate_vars =
  mv_ConfigPath :: string
  mv_JSON :: bool
  mv_Dir :: string
  mv_BaselineExisting :: bool

definition migrate_flags :: "migrate_vars flag_set" where
  "migrate_flags =
     [string_flag ''config'' mv_ConfigPath_update, bool_flag ''json'' mv_JSON_update,
      string_flag ''dir'' mv_Dir_update, bool_flag ''baseline-existing'' mv_BaselineExisting_update]"

datatype migrate_output =
    NoMigrateOutput
  | MigrateJson json
  | MigrateLines "string list"

definition migration_result_json :: "migration_result \<Rightarrow> json" where
  "migration_result_json r =
     JObj [(''applied'', JArr (map JStr (mg_Applied r))), (''skipped'', JArr (map JStr (mg_Skipped r))),
           (''baselined'', JArr (map JStr (mg_Baselined r)))]"

definition migration_lines :: "migration_result \<Rightarrow> string list" where
  "migration_lines r =
     map (\<lambda>i. ''baselined '' @ i) (mg_Baselined r) @ map (\<lambda>i. ''applied '' @ i) (mg_Applied r) @
     map (\<lambda>i. ''skipped '' @ i) (mg_Skipped r) @
     (if mg_Applied r = [] \<and> mg_Skipped r = [] \<and> mg_Baselined r = [] then [''no migrations found''] else [])"

definition runMigrateCommand ::
  "('k, 'q, 't) cli_env \<Rightarrow> 's migration_env \<Rightarrow> string list \<Rightarrow> 's migration_db \<Rightarrow>
   (int \<times> migrate_output \<times> cli_error list) \<times> 's migration_db" where
  "runMigrateCommand ce me args d =
     (case flag_Parse (cl_float ce) migrate_flags
             \<lparr>mv_ConfigPath = [], mv_JSON = False, mv_Dir = ''sql/migrations'', mv_BaselineExisting = False\<rparr>
             [] args of
        Inl e \<Rightarrow> ((2, NoMigrateOutput, [FlagError e]), d)
      | Inr (v, seen, rest) \<Rightarrow>
          (case Load (cl_config ce) (mv_ConfigPath v) of
             Inl e \<Rightarrow> ((2, NoMigrateOutput, [ConfigurationError ''migrate'' e]), d)
           | Inr cfg \<Rightarrow>
               if TrimSpace (DatabaseURL cfg) = []
               then ((2, NoMigrateOutput, [ProcessConfigError ''migrate'' ''database_url is required'']), d)
               else (case ApplyMigrationsWithOptions me (DatabaseURL cfg) (mv_Dir v) (mv_BaselineExisting v) d of
                    (Inl msg, d') \<Rightarrow> ((1, NoMigrateOutput, [UsageError (''migrate error: '' @ msg)]), d')
                  | (Inr r, d') \<Rightarrow>
                      ((0, if mv_JSON v then MigrateJson (migration_result_json r)
                           else MigrateLines (migration_lines r), []), d'))))"

end
