(* ===== verification/Migration_Properties.thy ===== *)
theory Migration_Properties
  imports Migrations
begin

text \<open>
  What a run of the migrations does: the pending files in order, each once; a changed or missing
  file refused; and a run that failed at any exchange repeated without harm.
\<close>

section \<open>Steps of the transaction\<close>

named_theorems tx_simps \<open>inversion of the steps of a transaction\<close>

lemma tx_return_Inr [tx_simps]: "tx_return a s = Inr (b, s') \<longleftrightarrow> b = a \<and> s' = s"
  by (auto simp: tx_return_def)

lemma tx_bind_Inr [tx_simps]:
  "tx_bind m f s = Inr x \<longleftrightarrow> (\<exists>a s'. m s = Inr (a, s') \<and> f a s' = Inr x)"
  by (auto simp: tx_bind_def result_simps split: prod.splits)

lemma tx_lift_Inr [tx_simps]: "tx_lift r s = Inr (a, s') \<longleftrightarrow> r = Inr a \<and> s' = s"
  by (auto simp: tx_lift_def result_simps)

lemma wrap_Inr [tx_simps]: "wrap label r = Inr a \<longleftrightarrow> r = Inr a"
  by (auto simp: wrap_def split: sum.splits)

lemma tx_wrap_Inr [tx_simps]: "tx_wrap label m s = Inr x \<longleftrightarrow> m s = Inr x"
  by (simp add: tx_wrap_def wrap_Inr)

lemma exchange_Inr [tx_simps]:
  "exchange me f (d, n) = Inr (a, d', n') \<longleftrightarrow>
     me_Fault me n = None \<and> f d = Inr (a, d') \<and> n' = Suc n"
  by (auto simp: exchange_def result_simps split: option.splits)

lemma end_of_rows_Inr [tx_simps]: "end_of_rows d = Inr (u, d') \<longleftrightarrow> d' = d"
  by (auto simp: end_of_rows_def)

lemma select_migrations_Inr [tx_simps]:
  "select_migrations d = Inr (rows, d') \<longleftrightarrow> ms_Table d = Some rows \<and> d' = d"
  by (auto simp: select_migrations_def migration_rows_def result_simps split: option.splits)

lemma insert_migration_Inr [tx_simps]:
  "insert_migration r d = Inr (u, d') \<longleftrightarrow>
     (\<exists>rows. ms_Table d = Some rows \<and> mr_Id r \<notin> set (map mr_Id rows) \<and>
        d' = d\<lparr>ms_Table := Some (rows @ [r])\<rparr>)"
  by (auto simp: insert_migration_def migration_rows_def insert_row_def result_simps
      split: option.splits if_splits)

lemma adopt_checksum_Inr [tx_simps]:
  "adopt_checksum (i, c) d = Inr (u, d') \<longleftrightarrow>
     (\<exists>rows. ms_Table d = Some rows \<and>
        d' = d\<lparr>ms_Table := Some (update_rows (\<lambda>r. mr_Id r = i \<and> mr_Checksum r = None)
                 (mr_Checksum_update (\<lambda>_. Some c)) rows)\<rparr>)"
  by (auto simp: adopt_checksum_def migration_rows_def result_simps split: option.splits)

lemma migrationChecksum_Inr [tx_simps]:
  "migrationChecksum me p = Inr c \<longleftrightarrow> (\<exists>data. me_File me p = Inr data \<and> c = me_Sum me data)"
  by (auto simp: migrationChecksum_def result_simps tx_simps)

text \<open>The row that records a file.\<close>

definition recorded :: "'s migration_env \<Rightarrow> string \<Rightarrow> migration_row \<Rightarrow> bool" where
  "recorded me p r \<longleftrightarrow>
     (case me_File me p of
        Inl _ \<Rightarrow> False
      | Inr data \<Rightarrow> r = \<lparr>mr_Id = migration_id p, mr_Filename = Base p, mr_Checksum = Some (me_Sum me data)\<rparr>)"

lemma recorded_id: "recorded me p r \<Longrightarrow> mr_Id r = migration_id p"
  by (auto simp: recorded_def split: sum.splits)

lemma recorded_ids: "list_all2 (recorded me) ps rs \<Longrightarrow> map mr_Id rs = map migration_id ps"
  by (induction rule: list_all2_induct) (auto dest: recorded_id)

lemma recordMigration_Inr [tx_simps]:
  "recordMigration me (migration_id p) p (d, n) = Inr (u, d', n') \<longleftrightarrow>
     (\<exists>rows r. ms_Table d = Some rows \<and> recorded me p r \<and> mr_Id r \<notin> set (map mr_Id rows) \<and>
        d' = d\<lparr>ms_Table := Some (rows @ [r])\<rparr> \<and> me_Fault me n = None \<and> n' = Suc n)"
  by (cases "me_File me p") (auto simp: recordMigration_def recorded_def tx_simps)

section \<open>Baselines\<close>

lemma hasAllRelations_frame: "hasAllRelations me ns (d, n) = Inr (b, d', n') \<Longrightarrow> d' = d"
  by (induction ns arbitrary: n b d' n')
    (auto simp: tx_simps relationExists_def split: if_splits)

lemma run_check_frame: "run_check me c (d, n) = Inr (b, d', n') \<Longrightarrow> d' = d"
  by (cases c) (auto simp: tx_simps columnExists_def constraintContains_def
      functionSourceContains_def dest: hasAllRelations_frame)

lemma candidates_frame: "candidates me cs (d, n) = Inr (ids, d', n') \<Longrightarrow> d' = d"
  by (induction cs arbitrary: n ids d' n') (fastforce simp: tx_simps dest: run_check_frame)+

lemma detect_baseline_Inr:
  assumes "detectBaselineMigrations me files (d, n) = Inr (ids, d', n')"
  shows "d' = d" and "set ids \<subseteq> migration_id ` set files"
proof -
  obtain core d1 n1 where c: "hasAllRelations me core_relations (d, n) = Inr (core, d1, n1)"
    and r: "(if \<not> core then tx_return []
       else tx_bind (candidates me baseline_checks) (\<lambda>ids.
         tx_return (filter (\<lambda>i. i \<in> set (''0001_initial_schema'' # ids)) (map migration_id files))))
       (d1, n1) = Inr (ids, d', n')"
    using assms by (auto simp: detectBaselineMigrations_def tx_bind_Inr)
  have "d1 = d" using c by (rule hasAllRelations_frame)
  with r show "d' = d" and "set ids \<subseteq> migration_id ` set files"
    by (auto simp: tx_simps split: if_splits dest: candidates_frame)
qed

lemma record_baseline_Inr:
  "record_baseline me ids ps (d, n) = Inr (bs, d', n') \<Longrightarrow> ms_Table d = Some rows \<Longrightarrow>
     \<exists>new. list_all2 (recorded me) (filter (\<lambda>p. migration_id p \<in> set ids) ps) new \<and>
       bs = map migration_id (filter (\<lambda>p. migration_id p \<in> set ids) ps) \<and>
       d' = d\<lparr>ms_Table := Some (rows @ new)\<rparr>"
proof (induction ps arbitrary: d n bs rows)
  case Nil
  then show ?case by (auto simp: tx_simps)
next
  case (Cons p ps)
  show ?case
  proof (cases "migration_id p \<in> set ids")
    case False
    with Cons show ?thesis by (simp add: Let_def)
  next
    case True
    with Cons.prems obtain r n1 bs' where r: "recorded me p r"
      and rest: "record_baseline me ids ps (d\<lparr>ms_Table := Some (rows @ [r])\<rparr>, n1) = Inr (bs', d', n')"
      and bs: "bs = migration_id p # bs'"
      by (auto simp: Let_def tx_simps)
    from Cons.IH [OF rest, of "rows @ [r]"] obtain new
      where "list_all2 (recorded me) (filter (\<lambda>p. migration_id p \<in> set ids) ps) new"
        and "bs' = map migration_id (filter (\<lambda>p. migration_id p \<in> set ids) ps)"
        and "d' = d\<lparr>ms_Table := Some (rows @ [r] @ new)\<rparr>" by auto
    with True r bs show ?thesis by (intro exI [of _ "r # new"]) simp
  qed
qed

lemma baseline_step_Inr:
  assumes "baseline_step me b ids files (d, n) = Inr (bs, d', n')" and "ms_Table d = Some rows"
  obtains new ps where "list_all2 (recorded me) ps new" "set ps \<subseteq> set files"
    "bs = map migration_id ps" "d' = d\<lparr>ms_Table := Some (rows @ new)\<rparr>"
    "bs \<noteq> [] \<longrightarrow> b \<and> ids = []" "b \<and> ids = [] \<longrightarrow> bs \<noteq> []"
proof (cases "b \<and> ids = []")
  case False
  with assms that [of "[]" "[]"] show ?thesis by (auto simp: baseline_step_def tx_simps)
next
  case True
  then obtain found d1 n1 where f: "detectBaselineMigrations me files (d, n) = Inr (found, d1, n1)"
    and r: "record_baseline me found files (d1, n1) = Inr (bs, d', n')" and ne: "found \<noteq> []"
    using assms(1) by (auto simp: baseline_step_def tx_simps split: if_splits)
  from detect_baseline_Inr [OF f] have d1: "d1 = d" and sub: "set found \<subseteq> migration_id ` set files"
    by auto
  let ?ps = "filter (\<lambda>p. migration_id p \<in> set found) files"
  from record_baseline_Inr [OF r] assms(2) d1 obtain new
    where "list_all2 (recorded me) ?ps new" "bs = map migration_id ?ps"
      "d' = d\<lparr>ms_Table := Some (rows @ new)\<rparr>" by auto
  moreover from ne sub have "?ps \<noteq> []" by (cases found) (auto simp: filter_empty_conv)
  ultimately show ?thesis using True by (intro that [of ?ps new]) auto
qed

section \<open>Checksums\<close>

text \<open>A row agrees with the files: its file is there under the same name, and its checksum, unless it
  has none, is that of the file.\<close>

definition row_agrees :: "'s migration_env \<Rightarrow> string list \<Rightarrow> migration_row \<Rightarrow> bool" where
  "row_agrees me files r \<longleftrightarrow>
     (case files_by_id files (mr_Id r) of
        None \<Rightarrow> False
      | Some path \<Rightarrow> mr_Filename r = Base path \<and>
          (case me_File me path of
             Inl _ \<Rightarrow> False
           | Inr data \<Rightarrow>
               (case mr_Checksum r of None \<Rightarrow> True | Some c \<Rightarrow> c = [] \<or> c = me_Sum me data)))"

lemma check_rows_Cons:
  assumes "check_rows me byID (r # rs) = Inr as"
  shows "\<exists>path data as'. byID (mr_Id r) = Some path \<and> mr_Filename r = Base path \<and>
     me_File me path = Inr data \<and> check_rows me byID rs = Inr as' \<and>
     (mr_Checksum r \<in> {None, Some []} \<and> as = (mr_Id r, me_Sum me data) # as' \<or>
      mr_Checksum r = Some (me_Sum me data) \<and> as = as')"
proof (cases "byID (mr_Id r)")
  case None
  with assms show ?thesis by simp
next
  case (Some path)
  with assms have name: "mr_Filename r = Base path" by (simp split: if_splits)
  show ?thesis
  proof (cases "me_File me path")
    case (Inl msg)
    with assms Some name show ?thesis by (simp add: migrationChecksum_def wrap_def)
  next
    case (Inr data)
    with assms Some name have step: "(case mr_Checksum r of
        None \<Rightarrow> and_then (check_rows me byID rs) (\<lambda>as. Inr ((mr_Id r, me_Sum me data) # as))
      | Some c \<Rightarrow>
          if c = [] then and_then (check_rows me byID rs) (\<lambda>as. Inr ((mr_Id r, me_Sum me data) # as))
          else if c \<noteq> me_Sum me data
          then Inl (''applied migration '' @ mr_Id r @ '' checksum does not match file'')
          else check_rows me byID rs) = Inr as"
      by (simp add: migrationChecksum_def wrap_def)
    show ?thesis
    proof (cases "mr_Checksum r")
      case None
      with step Some name Inr show ?thesis by (auto simp: and_then_Inr_iff)
    next
      case (Some c)
      with step \<open>byID (mr_Id r) = Some path\<close> name Inr show ?thesis
        by (cases "c = []") (auto simp: and_then_Inr_iff split: if_splits)
    qed
  qed
qed

lemma check_rows_Inr:
  "check_rows me (files_by_id files) rows = Inr as \<Longrightarrow>
     (\<forall>r \<in> set rows. row_agrees me files r) \<and>
     (\<forall>a \<in> set as. \<forall>path data. files_by_id files (fst a) = Some path \<longrightarrow>
        me_File me path = Inr data \<longrightarrow> snd a = me_Sum me data) \<and>
     (\<forall>r \<in> set rows. mr_Checksum r = None \<longrightarrow> mr_Id r \<in> fst ` set as)"
proof (induction rows arbitrary: as)
  case Nil
  then show ?case by simp
next
  case (Cons r rs)
  from check_rows_Cons [OF Cons.prems] obtain path data as'
    where p: "files_by_id files (mr_Id r) = Some path"
      "mr_Filename r = Base path" "me_File me path = Inr data"
    and as': "check_rows me (files_by_id files) rs = Inr as'"
    and cases: "mr_Checksum r \<in> {None, Some []} \<and> as = (mr_Id r, me_Sum me data) # as' \<or>
       mr_Checksum r = Some (me_Sum me data) \<and> as = as'"
    by blast
  have "row_agrees me files r" using p cases by (auto simp: row_agrees_def)
  moreover have "\<forall>a \<in> set as. \<forall>path data. files_by_id files (fst a) = Some path \<longrightarrow>
        me_File me path = Inr data \<longrightarrow> snd a = me_Sum me data"
    using Cons.IH [OF as'] p cases by fastforce
  moreover have "\<forall>x \<in> set (r # rs). mr_Checksum x = None \<longrightarrow> mr_Id x \<in> fst ` set as"
    using Cons.IH [OF as'] cases by auto
  ultimately show ?case using Cons.IH [OF as'] by simp
qed

lemma check_rows_agree:
  "\<forall>r \<in> set rows. row_agrees me files r \<Longrightarrow> \<exists>as. check_rows me (files_by_id files) rows = Inr as"
  by (induction rows)
    (auto simp: row_agrees_def migrationChecksum_def wrap_def split: option.splits sum.splits)

text \<open>Adoption fills checksums in, one row after the other.\<close>

definition adopt_rows :: "(string \<times> string) list \<Rightarrow> migration_row list \<Rightarrow> migration_row list" where
  "adopt_rows as rows =
     fold (\<lambda>(i, c). update_rows (\<lambda>r. mr_Id r = i \<and> mr_Checksum r = None)
                      (mr_Checksum_update (\<lambda>_. Some c))) as rows"

lemma adopt_checksums_Inr:
  "adopt_checksums me as (d, n) = Inr (u, d', n') \<Longrightarrow> ms_Table d = Some rows \<Longrightarrow>
     d' = d\<lparr>ms_Table := Some (adopt_rows as rows)\<rparr>"
proof (induction as arbitrary: d n rows)
  case Nil
  then show ?case by (auto simp: tx_simps adopt_rows_def)
next
  case (Cons a as)
  obtain i c where a: "a = (i, c)" by (cases a)
  let ?rows = "update_rows (\<lambda>r. mr_Id r = i \<and> mr_Checksum r = None)
                 (mr_Checksum_update (\<lambda>_. Some c)) rows"
  from Cons.prems a obtain n1
    where "adopt_checksums me as (d\<lparr>ms_Table := Some ?rows\<rparr>, n1) = Inr (u, d', n')"
    by (auto simp: tx_simps)
  from Cons.IH [OF this, of ?rows] a show ?case by (simp add: adopt_rows_def)
qed

lemma adopt_rows_Cons:
  "adopt_rows (a # as) rows =
     adopt_rows as (map (\<lambda>r. if mr_Id r = fst a \<and> mr_Checksum r = None
       then r\<lparr>mr_Checksum := Some (snd a)\<rparr> else r) rows)"
  by (simp add: adopt_rows_def update_rows_def split_beta fun_upd_def)

definition adopt_row :: "(string \<times> string) list \<Rightarrow> migration_row \<Rightarrow> migration_row" where
  "adopt_row as r =
     (case mr_Checksum r of
        Some _ \<Rightarrow> r
      | None \<Rightarrow> (case map_of as (mr_Id r) of None \<Rightarrow> r | Some c \<Rightarrow> r\<lparr>mr_Checksum := Some c\<rparr>))"

lemma adopt_rows_map: "adopt_rows as rows = map (adopt_row as) rows"
proof (induction as arbitrary: rows)
  case Nil
  have "adopt_row [] = (\<lambda>r. r)" by (rule ext) (simp add: adopt_row_def split: option.split)
  then show ?case by (simp add: adopt_rows_def)
next
  case (Cons a as)
  have "adopt_row as (if mr_Id r = fst a \<and> mr_Checksum r = None
          then r\<lparr>mr_Checksum := Some (snd a)\<rparr> else r) = adopt_row (a # as) r" for r
    by (cases a) (auto simp: adopt_row_def split: option.splits)
  then show ?case by (simp add: adopt_rows_Cons Cons.IH)
qed

lemma adopt_row_id [simp]: "mr_Id (adopt_row as r) = mr_Id r"
  by (simp add: adopt_row_def split: option.splits)

text \<open>A row that is settled agrees with the files and has a checksum.\<close>

definition settled :: "'s migration_env \<Rightarrow> string list \<Rightarrow> migration_row \<Rightarrow> bool" where
  "settled me files r \<longleftrightarrow> row_agrees me files r \<and> mr_Checksum r \<noteq> None"

lemma adopt_row_settled: "mr_Checksum r \<noteq> None \<Longrightarrow> adopt_row as r = r"
  by (auto simp: adopt_row_def)

lemma verify_Inr:
  assumes "verifyMigrationChecksums me files (d, n) = Inr (u, d', n')" and "ms_Table d = Some rows"
  obtains rows' where "d' = d\<lparr>ms_Table := Some rows'\<rparr>" "map mr_Id rows' = map mr_Id rows"
    "\<forall>r \<in> set rows'. settled me files r" "\<forall>r \<in> set rows. row_agrees me files r"
proof -
  from assms obtain as n1 where c: "check_rows me (files_by_id files) rows = Inr as"
    and a: "adopt_checksums me as (d, n1) = Inr (u, d', n')"
    by (auto simp: verifyMigrationChecksums_def tx_simps)
  note checked = check_rows_Inr [OF c]
  have "settled me files (adopt_row as r)" if r: "r \<in> set rows" for r
  proof (cases "mr_Checksum r")
    case (Some x)
    with checked r show ?thesis by (simp add: settled_def adopt_row_settled)
  next
    case None
    with checked r obtain sum where s: "map_of as (mr_Id r) = Some sum"
      by (cases "map_of as (mr_Id r)") (auto simp: map_of_eq_None_iff)
    from checked r have "row_agrees me files r" by blast
    moreover have "(mr_Id r, sum) \<in> set as" using s by (rule map_of_SomeD)
    ultimately show ?thesis
      using checked None s by (fastforce simp: settled_def row_agrees_def adopt_row_def
          split: option.splits sum.splits)
  qed
  then show ?thesis
    using that [of "map (adopt_row as) rows"] adopt_checksums_Inr [OF a assms(2)] checked
    by (auto simp: adopt_rows_map)
qed

section \<open>Applying\<close>

text \<open>The effect of the files on the rest of the database: their parts Up, one after the other.\<close>

fun run_files :: "'s migration_env \<Rightarrow> string list \<Rightarrow> 's \<Rightarrow> string + 's" where
  "run_files me [] s = Inr s"
| "run_files me (p # ps) s =
     and_then (readMigrationUp me p) (\<lambda>sql. and_then (me_Exec me sql s) (run_files me ps))"

definition pending :: "string list \<Rightarrow> string list \<Rightarrow> string list" where
  "pending known files = filter (\<lambda>p. migration_id p \<notin> set known) files"

lemma apply_migration_Inr:
  assumes "apply_migration me p (d, n) = Inr (u, d', n')"
  obtains sql s rows r where "readMigrationUp me p = Inr sql" "me_Exec me sql (ms_Schema d) = Inr s"
    "ms_Table d = Some rows" "recorded me p r"
    "d' = d\<lparr>ms_Schema := s, ms_Table := Some (rows @ [r])\<rparr>"
  using assms by (auto simp: apply_migration_def Let_def tx_simps result_simps)

lemma apply_migrations_Inr:
  "apply_migrations me known base files (d, n) = Inr ((as, ss), d', n') \<Longrightarrow> ms_Table d = Some rows \<Longrightarrow>
     \<exists>new s. list_all2 (recorded me) (pending known files) new \<and>
       as = map migration_id (pending known files) \<and>
       ss = filter (\<lambda>i. i \<in> set known \<and> i \<notin> set base) (map migration_id files) \<and>
       run_files me (pending known files) (ms_Schema d) = Inr s \<and>
       d' = d\<lparr>ms_Schema := s, ms_Table := Some (rows @ new)\<rparr>"
proof (induction files arbitrary: d n as ss rows)
  case Nil
  then show ?case by (auto simp: tx_simps pending_def)
next
  case (Cons p ps)
  show ?case
  proof (cases "migration_id p \<in> set known")
    case True
    with Cons.prems(1) obtain ss'
      where rest: "apply_migrations me known base ps (d, n) = Inr ((as, ss'), d', n')"
        and ss: "ss = (if migration_id p \<in> set base then ss' else migration_id p # ss')"
      by (auto simp: Let_def tx_simps split: prod.splits if_splits)
    from Cons.IH [OF rest Cons.prems(2)] True ss show ?thesis by (auto simp: pending_def)
  next
    case False
    with Cons.prems(1) obtain d1 n1 as' u
      where one: "apply_migration me p (d, n) = Inr (u, d1, n1)"
        and rest: "apply_migrations me known base ps (d1, n1) = Inr ((as', ss), d', n')"
        and as: "as = migration_id p # as'"
      by (auto simp: Let_def tx_simps split: prod.splits)
    from one obtain sql s r where o: "readMigrationUp me p = Inr sql"
        "me_Exec me sql (ms_Schema d) = Inr s" "recorded me p r"
        "d1 = d\<lparr>ms_Schema := s, ms_Table := Some (rows @ [r])\<rparr>"
      using Cons.prems(2) by (elim apply_migration_Inr) auto
    then have "ms_Table d1 = Some (rows @ [r])" by simp
    from Cons.IH [OF rest this] obtain new s'
      where "list_all2 (recorded me) (pending known ps) new"
        "as' = map migration_id (pending known ps)"
        "ss = filter (\<lambda>i. i \<in> set known \<and> i \<notin> set base) (map migration_id ps)"
        "run_files me (pending known ps) (ms_Schema d1) = Inr s'"
        "d' = d1\<lparr>ms_Schema := s', ms_Table := Some ((rows @ [r]) @ new)\<rparr>" by blast
    with o as False show ?thesis
      by (intro exI [of _ "r # new"] exI [of _ s']) (auto simp: pending_def)
  qed
qed

section \<open>A run\<close>

definition applied_ids :: "'s migration_db \<Rightarrow> string list" where
  "applied_ids d = (case ms_Table d of None \<Rightarrow> [] | Some rows \<Rightarrow> map mr_Id rows)"

lemma recorded_settled:
  assumes "recorded me p r" and "p \<in> set files" and "distinct (map migration_id files)"
  shows "settled me files r"
proof -
  have "files_by_id files (migration_id p) = Some p"
    using assms(2,3) unfolding files_by_id_def
    by (intro map_of_is_SomeI) (auto simp: rev_map [symmetric] comp_def)
  with assms(1) show ?thesis
    by (auto simp: recorded_def settled_def row_agrees_def split: sum.splits)
qed

lemma recorded_all_settled:
  assumes "list_all2 (recorded me) ps rs" and "set ps \<subseteq> set files"
    and "distinct (map migration_id files)"
  shows "\<forall>r \<in> set rs. settled me files r"
  using assms by (induction rule: list_all2_induct) (auto intro: recorded_settled)


lemma tx_bindE:
  assumes "tx_bind m f s = Inr x"
  obtains a d n where "m s = Inr (a, d, n)" and "f a (d, n) = Inr x"
  using assms by (auto simp: tx_bind_Inr)

lemma loadAppliedMigrations_Inr:
  "loadAppliedMigrations me (d, n) = Inr (ids, d', n') \<Longrightarrow>
     d' = d \<and> (\<exists>rows. ms_Table d = Some rows \<and> ids = map mr_Id rows)"
  by (auto simp: loadAppliedMigrations_def tx_simps)

lemma migration_tx_steps:
  assumes "migration_tx me files b (d, n) = Inr (r, d', n')"
  obtains d0 d1 d2 as ss u n1 n2 n3 n4
    where "d0 = d\<lparr>ms_Table := Some (case ms_Table d of None \<Rightarrow> [] | Some xs \<Rightarrow> xs)\<rparr>"
      and "baseline_step me b (applied_ids d) files (d0, n1) = Inr (mg_Baselined r, d1, n2)"
      and "verifyMigrationChecksums me files (d1, n2) = Inr (u, d2, n3)"
      and "apply_migrations me (applied_ids d @ mg_Baselined r) (mg_Baselined r) files (d2, n3) =
             Inr ((as, ss), d', n4)"
      and "mg_Applied r = as" and "mg_Skipped r = ss"
  using assms unfolding migration_tx_def
proof (elim tx_bindE, goal_cases)
  case (1 _ e1 m1 _ e2 m2 _ e3 m3 ids e4 m4 bs e5 m5 u e6 m6 res e7 m7)
  obtain as ss where res: "res = (as, ss)" by (cases res)
  have e3: "e3 = d\<lparr>ms_Table := Some (case ms_Table d of None \<Rightarrow> [] | Some xs \<Rightarrow> xs)\<rparr>"
    using 1(2,3,4) by (auto simp: migrationTableSQL_def tx_wrap_Inr exchange_Inr end_of_rows_Inr)
  from loadAppliedMigrations_Inr [OF 1(5)] e3 have "e4 = e3" and "ids = applied_ids d"
    by (auto simp: applied_ids_def split: option.splits)
  moreover have "r = \<lparr>mg_Applied = as, mg_Skipped = ss, mg_Baselined = bs\<rparr>" and "e7 = d'"
    using 1(9) res by (auto simp: tx_return_Inr)
  ultimately show ?case
    using 1(6,7,8) e3 res by (intro 1(1)) auto
qed

text \<open>What a transaction that succeeds has done: the rows that were there and those of the baseline
  are settled, and the pending files are executed and recorded.\<close>

lemma migration_tx_Inr:
  assumes "migration_tx me files b (d, n) = Inr (r, d', n')"
  obtains rows new where
    "map mr_Id rows = applied_ids d @ mg_Baselined r"
    "\<forall>x \<in> set rows. settled me files x"
    "\<forall>x \<in> set (case ms_Table d of None \<Rightarrow> [] | Some xs \<Rightarrow> xs). row_agrees me files x"
    "list_all2 (recorded me) (pending (applied_ids d @ mg_Baselined r) files) new"
    "mg_Applied r = map migration_id (pending (applied_ids d @ mg_Baselined r) files)"
    "run_files me (pending (applied_ids d @ mg_Baselined r) files) (ms_Schema d) = Inr (ms_Schema d')"
    "ms_Table d' = Some (rows @ new)"
    "mg_Skipped r = filter (\<lambda>i. i \<in> set (applied_ids d @ mg_Baselined r) \<and> i \<notin> set (mg_Baselined r))
       (map migration_id files)"
    "mg_Baselined r \<noteq> [] \<longrightarrow> b \<and> applied_ids d = []"
    "b \<and> applied_ids d = [] \<longrightarrow> mg_Baselined r \<noteq> []"
proof -
  let ?rows = "case ms_Table d of None \<Rightarrow> [] | Some xs \<Rightarrow> xs"
  let ?d = "d\<lparr>ms_Table := Some ?rows\<rparr>"
  have ids: "map mr_Id ?rows = applied_ids d" by (simp add: applied_ids_def split: option.split)
  let ?bs = "mg_Baselined r"
  from assms obtain d1 d2 as ss n1 n2 n3 n4 u
    where base: "baseline_step me b (applied_ids d) files (?d, n1) = Inr (?bs, d1, n2)"
      and ver: "verifyMigrationChecksums me files (d1, n2) = Inr (u, d2, n3)"
      and app: "apply_migrations me (applied_ids d @ ?bs) ?bs files (d2, n3) = Inr ((as, ss), d', n4)"
      and r: "mg_Applied r = as" "mg_Skipped r = ss"
    by (rule migration_tx_steps) blast
  have "ms_Table ?d = Some ?rows" by simp
  with base obtain recs ps
    where recs: "list_all2 (recorded me) ps recs" "?bs = map migration_id ps"
      "d1 = ?d\<lparr>ms_Table := Some (?rows @ recs)\<rparr>"
      and b: "?bs \<noteq> [] \<longrightarrow> b \<and> applied_ids d = []" "b \<and> applied_ids d = [] \<longrightarrow> ?bs \<noteq> []"
    by (rule baseline_step_Inr) (rule that; assumption)
  have "ms_Table d1 = Some (?rows @ recs)" using recs(3) by simp
  from verify_Inr [OF ver this] obtain rows where
    rows: "d2 = d1\<lparr>ms_Table := Some rows\<rparr>" "map mr_Id rows = map mr_Id (?rows @ recs)"
      "\<forall>x \<in> set rows. settled me files x" "\<forall>x \<in> set (?rows @ recs). row_agrees me files x"
    by blast
  have "ms_Table d2 = Some rows" using rows(1) by simp
  from apply_migrations_Inr [OF app this] obtain new s where
    new: "list_all2 (recorded me) (pending (applied_ids d @ ?bs) files) new"
    and as: "as = map migration_id (pending (applied_ids d @ ?bs) files)"
    and ss: "ss = filter (\<lambda>i. i \<in> set (applied_ids d @ ?bs) \<and> i \<notin> set ?bs) (map migration_id files)"
    and run: "run_files me (pending (applied_ids d @ ?bs) files) (ms_Schema d2) = Inr s"
    and d': "d' = d2\<lparr>ms_Schema := s, ms_Table := Some (rows @ new)\<rparr>" by blast
  show ?thesis
  proof (rule that [OF _ rows(3) _ new])
    show "map mr_Id rows = applied_ids d @ ?bs"
      using rows(2) ids recorded_ids [OF recs(1)] recs(2) by simp
    show "\<forall>x \<in> set ?rows. row_agrees me files x" using rows(4) by simp
    have "ms_Schema d2 = ms_Schema d" using rows(1) recs(3) by simp
    with run d' show "run_files me (pending (applied_ids d @ ?bs) files) (ms_Schema d) = Inr (ms_Schema d')"
      by simp
    show "ms_Table d' = Some (rows @ new)" using d' by simp
    show "mg_Applied r = map migration_id (pending (applied_ids d @ ?bs) files)"
      using r(1) as by (rule trans)
    show "mg_Skipped r =
        filter (\<lambda>i. i \<in> set (applied_ids d @ ?bs) \<and> i \<notin> set ?bs) (map migration_id files)"
      using r(2) ss by (rule trans)
  qed (rule b)+
qed

section \<open>Repeating a run\<close>

definition reliable :: "'s migration_env \<Rightarrow> bool" where
  "reliable me \<longleftrightarrow> me_Fault me = (\<lambda>_. None) \<and> me_Commit me = Committed"

abbreviation faulty ::
  "'s migration_env \<Rightarrow> (nat \<Rightarrow> string option) \<Rightarrow> commit_outcome \<Rightarrow> 's migration_env" where
  "faulty me f c \<equiv> me\<lparr>me_Fault := f, me_Commit := c\<rparr>"

text \<open>Whatever a step computes among faults, it computes without them.\<close>

definition follows :: "('s, 'a) in_tx \<Rightarrow> ('s, 'a) in_tx \<Rightarrow> bool" where
  "follows m m0 \<longleftrightarrow> (\<forall>s x. m s = Inr x \<longrightarrow> m0 s = Inr x)"

named_theorems follows_intros \<open>steps among faults and without them\<close>

lemma follows_refl [follows_intros]: "follows m m"
  by (simp add: follows_def)

lemma follows_bind [follows_intros]:
  "follows m m0 \<Longrightarrow> (\<And>a. follows (f a) (f0 a)) \<Longrightarrow> follows (tx_bind m f) (tx_bind m0 f0)"
  by (fastforce simp: follows_def tx_bind_Inr)

lemma follows_wrap [follows_intros]: "follows m m0 \<Longrightarrow> follows (tx_wrap l m) (tx_wrap l m0)"
  by (simp add: follows_def tx_wrap_Inr)

lemma follows_if [follows_intros]:
  "follows m m0 \<Longrightarrow> follows k k0 \<Longrightarrow> follows (if b then m else k) (if b then m0 else k0)"
  by simp

lemma follows_case_prod [follows_intros]:
  "(\<And>a b. follows (f a b) (f0 a b)) \<Longrightarrow> follows (case p of (a, b) \<Rightarrow> f a b) (case p of (a, b) \<Rightarrow> f0 a b)"
  by (simp split: prod.split)

lemma follows_exchange [follows_intros]:
  "reliable me \<Longrightarrow> follows (exchange (faulty me f c) g) (exchange me g)"
  by (auto simp: follows_def exchange_def reliable_def split: option.splits)

lemma faulty_sum [simp]: "migrationChecksum (faulty me f c) p = migrationChecksum me p"
  by (simp add: migrationChecksum_def)

lemma faulty_read [simp]: "readMigrationUp (faulty me f c) p = readMigrationUp me p"
  by (simp add: readMigrationUp_def)

lemma faulty_check_rows [simp]: "check_rows (faulty me f c) byID rows = check_rows me byID rows"
  by (induction rows) (simp_all cong: option.case_cong if_cong)

lemma follows_relation [follows_intros]:
  "reliable me \<Longrightarrow> follows (relationExists (faulty me f c) n) (relationExists me n)"
  by (auto simp: relationExists_def intro!: follows_intros)

lemma follows_relations [follows_intros]:
  "reliable me \<Longrightarrow> follows (hasAllRelations (faulty me f c) ns) (hasAllRelations me ns)"
  by (induction ns) (auto intro!: follows_intros)

lemma follows_check [follows_intros]:
  "reliable me \<Longrightarrow> follows (run_check (faulty me f c) k) (run_check me k)"
  by (cases k) (auto simp: columnExists_def constraintContains_def functionSourceContains_def
      intro!: follows_intros)

lemma follows_candidates [follows_intros]:
  "reliable me \<Longrightarrow> follows (candidates (faulty me f c) ks) (candidates me ks)"
  by (induction ks) (auto intro!: follows_intros)

lemma follows_detect [follows_intros]:
  "reliable me \<Longrightarrow> follows (detectBaselineMigrations (faulty me f c) ps) (detectBaselineMigrations me ps)"
  unfolding detectBaselineMigrations_def by (intro follows_intros)

lemma follows_record [follows_intros]:
  "reliable me \<Longrightarrow> follows (recordMigration (faulty me f c) i p) (recordMigration me i p)"
  unfolding recordMigration_def faulty_sum by (intro follows_intros)

lemma follows_record_baseline [follows_intros]:
  "reliable me \<Longrightarrow> follows (record_baseline (faulty me f c) ids ps) (record_baseline me ids ps)"
  by (induction ps) (auto simp: Let_def intro!: follows_intros)

lemma follows_baseline [follows_intros]:
  "reliable me \<Longrightarrow> follows (baseline_step (faulty me f c) b ids ps) (baseline_step me b ids ps)"
  unfolding baseline_step_def by (intro follows_intros)

lemma follows_adopt [follows_intros]:
  "reliable me \<Longrightarrow> follows (adopt_checksums (faulty me f c) as) (adopt_checksums me as)"
  by (induction as) (auto intro!: follows_intros)

lemma follows_verify [follows_intros]:
  "reliable me \<Longrightarrow>
     follows (verifyMigrationChecksums (faulty me f c) ps) (verifyMigrationChecksums me ps)"
  unfolding verifyMigrationChecksums_def faulty_check_rows by (intro follows_intros)

lemma follows_apply_one [follows_intros]:
  "reliable me \<Longrightarrow> follows (apply_migration (faulty me f c) p) (apply_migration me p)"
  by (auto simp: apply_migration_def Let_def intro!: follows_intros)

lemma follows_apply [follows_intros]:
  "reliable me \<Longrightarrow>
     follows (apply_migrations (faulty me f c) known base ps) (apply_migrations me known base ps)"
  by (induction ps) (auto simp: Let_def intro!: follows_intros)

lemma follows_tx:
  "reliable me \<Longrightarrow> follows (migration_tx (faulty me f c) ps b) (migration_tx me ps b)"
  unfolding migration_tx_def loadAppliedMigrations_def by (intro follows_intros)

text \<open>A database in which every file is recorded and settled is left alone.\<close>

lemma exchange_reliable: "reliable me \<Longrightarrow> exchange me g (d, n) = and_then (g d) (\<lambda>(a, d'). Inr (a, d', Suc n))"
  by (simp add: exchange_def reliable_def)

lemma adopt_checksums_reliable:
  assumes "reliable me"
  shows "ms_Table d = Some rows \<Longrightarrow>
    \<exists>n'. adopt_checksums me as (d, n) = Inr ((), d\<lparr>ms_Table := Some (adopt_rows as rows)\<rparr>, n')"
proof (induction as arbitrary: d n rows)
  case Nil
  then show ?case by (simp add: adopt_rows_def tx_return_def)
next
  case (Cons a as)
  obtain i c where a: "a = (i, c)" by (cases a)
  let ?rows = "update_rows (\<lambda>r. mr_Id r = i \<and> mr_Checksum r = None)
                 (mr_Checksum_update (\<lambda>_. Some c)) rows"
  have "ms_Table (d\<lparr>ms_Table := Some ?rows\<rparr>) = Some ?rows" by simp
  from Cons.IH [OF this, of "Suc n"] Cons.prems assms a show ?case
    by (simp add: adopt_rows_def tx_bind_def tx_wrap_def wrap_def exchange_reliable adopt_checksum_def
        migration_rows_def)
qed

lemma apply_migrations_done:
  "set (map migration_id ps) \<subseteq> set known \<Longrightarrow>
     apply_migrations me known [] ps s = Inr (([], map migration_id ps), s)"
  by (induction ps) (auto simp: Let_def tx_bind_def tx_return_def)

lemma rerun_leaves:
  assumes "reliable me" and "ms_Table d = Some rows" and "\<forall>r \<in> set rows. settled me files r"
    and "set (map migration_id files) \<subseteq> set (map mr_Id rows)" and "b \<Longrightarrow> rows \<noteq> []"
  shows "\<exists>n. migration_tx me files b (d, 0) =
     Inr (\<lparr>mg_Applied = [], mg_Skipped = map migration_id files, mg_Baselined = []\<rparr>, d, n)"
proof -
  have "\<forall>r \<in> set rows. row_agrees me files r" using assms(3) by (simp add: settled_def)
  then obtain as where as: "check_rows me (files_by_id files) rows = Inr as"
    using check_rows_agree by blast
  have same: "adopt_rows as rows = rows"
    using assms(3) unfolding adopt_rows_map by (intro map_idI adopt_row_settled) (simp add: settled_def)
  have d: "d\<lparr>ms_Table := Some rows\<rparr> = d" using assms(2) by simp
  have ver: "\<exists>n'. verifyMigrationChecksums me files (d, n) = Inr ((), d, n')" for n
    using adopt_checksums_reliable [OF assms(1,2), of as "Suc (Suc n)"] as assms(1,2) same d
    by (simp add: verifyMigrationChecksums_def tx_bind_def tx_wrap_def tx_lift_def wrap_def
        exchange_reliable select_migrations_def migration_rows_def end_of_rows_def)
  have base: "baseline_step me b (map mr_Id rows) files s = Inr ([], s)" for s
    using assms(5) by (auto simp: baseline_step_def tx_return_def)
  obtain n' where "verifyMigrationChecksums me files (d, 5) = Inr ((), d, n')" using ver by blast
  then show ?thesis
    using assms(1,2,4) base
    by (simp add: d migration_tx_def loadAppliedMigrations_def tx_bind_def tx_wrap_def wrap_def
        exchange_reliable migrationTableSQL_def end_of_rows_def select_migrations_def
        migration_rows_def tx_return_def apply_migrations_done eval_nat_numeral)
qed

section \<open>A sample\<close>

text \<open>Two files, of which the first is recorded without a checksum.\<close>

definition sample_file :: "string \<Rightarrow> string + string" where
  "sample_file p =
     (if p = ''m/1.sql'' then Inr (goose_up @ [newline] @ ''A'')
      else if p = ''m/2.sql'' then Inr (goose_up @ [newline] @ ''B'' @ [newline] @ goose_down @ [newline] @ ''C'')
      else Inl ''no such file'')"

definition sample_migrations :: "string list migration_env" where
  "sample_migrations =
     \<lparr>me_Pool = (\<lambda>_. None),
      me_Glob = (\<lambda>p. if p = ''m/*.sql'' then Inr [''m/2.sql'', ''m/1.sql''] else Inr []),
      me_File = sample_file, me_Sum = (\<lambda>data. data), me_Exec = (\<lambda>sql s. Inr (s @ [sql])),
      me_Relation = (\<lambda>_ _. True), me_Column = (\<lambda>_ _ _. True), me_Constraint = (\<lambda>_ _ _ _. True),
      me_Function = (\<lambda>_ _ _. True), me_Fault = (\<lambda>_. None), me_Commit = Committed\<rparr>"

definition sample_schema :: "string list migration_db" where
  "sample_schema =
     \<lparr>ms_Table = Some [\<lparr>mr_Id = ''1'', mr_Filename = ''1.sql'', mr_Checksum = None\<rparr>],
      ms_Schema = [''A'']\<rparr>"

definition sample_migrated :: "string list migration_db" where
  "sample_migrated =
     \<lparr>ms_Table = Some [
        \<lparr>mr_Id = ''1'', mr_Filename = ''1.sql'', mr_Checksum = Some (goose_up @ [newline] @ ''A'')\<rparr>,
        \<lparr>mr_Id = ''2'', mr_Filename = ''2.sql'',
         mr_Checksum = Some (goose_up @ [newline] @ ''B'' @ [newline] @ goose_down @ [newline] @ ''C'')\<rparr>],
      ms_Schema = [''A'', ''B'']\<rparr>"

abbreviation sample_run :: migration_result where
  "sample_run \<equiv> \<lparr>mg_Applied = [''2''], mg_Skipped = [''1''], mg_Baselined = []\<rparr>"

lemma sample_migration_files: "migrationFiles sample_migrations ''m'' = Inr [''m/1.sql'', ''m/2.sql'']"
  by code_simp

lemma sample_migration_run:
  "ApplyMigrationsWithOptions sample_migrations ''u'' ''m'' False sample_schema =
     (Inr sample_run, sample_migrated)"
  by code_simp

lemma sample_migration_fault:
  "ApplyMigrationsWithOptions (faulty sample_migrations (\<lambda>n. if n = 9 then Some ''reset'' else None) Committed)
     ''u'' ''m'' False sample_schema = (Inl ''record migration 2: reset'', sample_schema)"
  by code_simp

lemma sample_migration_ids: "map migration_id [''m/1.sql'', ''m/2.sql''] = [''1'', ''2'']"
  by code_simp

lemma sample_reliable: "reliable sample_migrations"
  by (simp add: reliable_def sample_migrations_def)

section \<open>The runs\<close>

lemma ApplyMigrations_Inr:
  assumes "ApplyMigrationsWithOptions me url dir b d = (Inr r, d')" and "migrationFiles me dir = Inr files"
  obtains n where "migration_tx me files b (d, 0) = Inr (r, d', n)" "me_Pool me url = None"
    "me_Commit me = Committed"
  using assms unfolding ApplyMigrationsWithOptions_def
  by (auto split: option.splits sum.splits commit_outcome.splits)

lemma table_of_ids: "map mr_Id (case ms_Table d of None \<Rightarrow> [] | Some xs \<Rightarrow> xs) = applied_ids d"
  by (simp add: applied_ids_def split: option.split)

lemma pending_covers:
  "set (map migration_id files) \<subseteq> set known \<union> set (map migration_id (pending known files))"
  by (auto simp: pending_def)

lemma settled_ids: "settled me files r \<Longrightarrow> mr_Id r \<in> migration_id ` set files"
  unfolding settled_def row_agrees_def files_by_id_def
  by (auto split: option.splits dest!: map_of_SomeD)

text \<open>After a run that succeeds every file is recorded, and the same run again does nothing.\<close>

lemma success_is_final:
  assumes "reliable me" and "migrationFiles me dir = Inr files" and "distinct (map migration_id files)"
    and "ApplyMigrationsWithOptions me url dir b d = (Inr r, d1)"
  shows "ApplyMigrationsWithOptions me url dir b d1 =
    (Inr \<lparr>mg_Applied = [], mg_Skipped = map migration_id files, mg_Baselined = []\<rparr>, d1)"
proof -
  let ?known = "applied_ids d @ mg_Baselined r"
  from assms(4,2) obtain n where tx: "migration_tx me files b (d, 0) = Inr (r, d1, n)"
    and pool: "me_Pool me url = None" by (rule ApplyMigrations_Inr)
  obtain rows new where ids: "map mr_Id rows = ?known" and set: "\<forall>x \<in> set rows. settled me files x"
    and new: "list_all2 (recorded me) (pending ?known files) new"
    and table: "ms_Table d1 = Some (rows @ new)"
    and base: "b \<and> applied_ids d = [] \<longrightarrow> mg_Baselined r \<noteq> []"
    by (rule migration_tx_Inr [OF tx])
  have all: "\<forall>x \<in> set (rows @ new). settled me files x"
    using set recorded_all_settled [OF new _ assms(3)] by (auto simp: pending_def)
  have "map mr_Id (rows @ new) = ?known @ map migration_id (pending ?known files)"
    using ids recorded_ids [OF new] by simp
  then have covers: "set (map migration_id files) \<subseteq> set (map mr_Id (rows @ new))"
    using pending_covers [of files ?known] by (simp only: set_append)
  have "b \<Longrightarrow> rows @ new \<noteq> []" using base ids by auto
  from rerun_leaves [OF assms(1) table all covers this] obtain n'
    where "migration_tx me files b (d1, 0) =
      Inr (\<lparr>mg_Applied = [], mg_Skipped = map migration_id files, mg_Baselined = []\<rparr>, d1, n')" by blast
  with pool assms(1,2) show ?thesis
    by (simp add: ApplyMigrationsWithOptions_def reliable_def)
qed

text \<open>Among faults a run ends in the state before it or in the one that it reaches without them.\<close>

lemma faulty_outcome:
  assumes "reliable me" and "migrationFiles me dir = Inr files"
    and "ApplyMigrationsWithOptions me url dir b d = (Inr r, d1)"
    and "ApplyMigrationsWithOptions (faulty me f c) url dir b d = (out, d2)"
  shows "d2 = d \<and> (\<exists>msg. out = Inl msg) \<or> d2 = d1 \<and> (out = Inr r \<or> (\<exists>msg. c = ReplyLost msg))"
proof -
  from assms(3,2) obtain n where tx: "migration_tx me files b (d, 0) = Inr (r, d1, n)"
    and pool: "me_Pool me url = None" by (rule ApplyMigrations_Inr)
  have files: "migrationFiles (faulty me f c) dir = Inr files"
    using assms(2) by (simp add: migrationFiles_def Let_def split: if_splits)
  show ?thesis
  proof (cases "migration_tx (faulty me f c) files b (d, 0)")
    case (Inl msg)
    with assms(4) pool files show ?thesis by (auto simp: ApplyMigrationsWithOptions_def)
  next
    case (Inr x)
    with follows_tx [OF assms(1), where f = f and c = c and ps = files and b = b] tx have "x = (r, d1, n)"
      unfolding follows_def by fastforce
    with Inr assms(4) pool files show ?thesis
      by (cases c) (auto simp: ApplyMigrationsWithOptions_def)
  qed
qed

text \<open>C37. An interrupted run of the migrations can be repeated. Wherever the connection fails, also
  when the reply to the commit is lost, the database is as before or as after the whole run; running
  the command again then succeeds and ends in the state of a run without faults, and if that was
  reached already it skips every file.\<close>

theorem interrupted_migration_repeats:
  assumes "reliable me" and "migrationFiles me dir = Inr files" and "distinct (map migration_id files)"
    and "ApplyMigrationsWithOptions me url dir b d = (Inr r, d1)"
    and "ApplyMigrationsWithOptions (faulty me f c) url dir b d = (out, d2)"
  shows "(d2 = d \<and> (\<exists>msg. out = Inl msg) \<or> d2 = d1 \<and> (out = Inr r \<or> (\<exists>msg. c = ReplyLost msg))) \<and>
    ApplyMigrationsWithOptions me url dir b d2 =
      (Inr (if d2 = d1
            then \<lparr>mg_Applied = [], mg_Skipped = map migration_id files, mg_Baselined = []\<rparr> else r), d1)"
proof -
  note outcome = faulty_outcome [OF assms(1,2,4,5)]
  show ?thesis
  proof (cases "d2 = d1")
    case True
    with outcome success_is_final [OF assms(1-4)] show ?thesis by simp
  next
    case False
    with outcome assms(4) show ?thesis by simp
  qed
qed

theorem interrupted_migration_repeats_witness:
  "ApplyMigrationsWithOptions sample_migrations ''u'' ''m'' False sample_schema = (Inr sample_run, sample_migrated) \<and>
   sample_schema \<noteq> sample_migrated"
proof -
  have "sample_schema \<noteq> sample_migrated"
    by (simp add: sample_schema_def sample_migrated_def)
  with interrupted_migration_repeats [OF sample_reliable sample_migration_files _ sample_migration_run
      sample_migration_fault] sample_migration_ids
  show ?thesis by simp
qed

text \<open>C38. A successful run applies the files that are neither recorded nor taken as a baseline, each
  once and in the order of their names, records them, and leaves the table with exactly the ids of
  the files. Only a database without records can get a baseline, and only when asked for.\<close>

theorem migrations_apply_pending:
  assumes "ApplyMigrationsWithOptions me url dir b d = (Inr r, d')"
    and "migrationFiles me dir = Inr files"
  shows "(let known = applied_ids d @ mg_Baselined r; todo = pending known files in
    mg_Applied r = map migration_id todo \<and> sorted files \<and>
    run_files me todo (ms_Schema d) = Inr (ms_Schema d') \<and>
    applied_ids d' = known @ map migration_id todo \<and>
    set (applied_ids d') = set (map migration_id files) \<and>
    (mg_Baselined r \<noteq> [] \<longrightarrow> b \<and> applied_ids d = []))"
proof -
  let ?known = "applied_ids d @ mg_Baselined r"
  from assms obtain n where tx: "migration_tx me files b (d, 0) = Inr (r, d', n)"
    by (rule ApplyMigrations_Inr)
  obtain rows new where ids: "map mr_Id rows = ?known" and set: "\<forall>x \<in> set rows. settled me files x"
    and new: "list_all2 (recorded me) (pending ?known files) new"
    and applied: "mg_Applied r = map migration_id (pending ?known files)"
    and run: "run_files me (pending ?known files) (ms_Schema d) = Inr (ms_Schema d')"
    and table: "ms_Table d' = Some (rows @ new)"
    and base: "mg_Baselined r \<noteq> [] \<longrightarrow> b \<and> applied_ids d = []"
    by (rule migration_tx_Inr [OF tx])
  have after: "applied_ids d' = ?known @ map migration_id (pending ?known files)"
    using table ids recorded_ids [OF new] by (simp add: applied_ids_def)
  have "set ?known \<subseteq> migration_id ` set files"
    using set unfolding ids [symmetric] by (auto dest: settled_ids)
  then have "set (applied_ids d') = set (map migration_id files)"
    unfolding after using pending_covers [of files ?known] by (auto simp: pending_def)
  moreover have "sorted files"
    using assms(2) by (auto simp: migrationFiles_def Let_def result_simps split: if_splits)
  ultimately show ?thesis
    using applied run after base by (simp add: Let_def)
qed

theorem migrations_apply_pending_witness:
  "run_files sample_migrations (pending [''1''] [''m/1.sql'', ''m/2.sql'']) [''A''] = Inr [''A'', ''B''] \<and>
   sorted [''m/1.sql'', ''m/2.sql'']"
  using migrations_apply_pending [OF sample_migration_run sample_migration_files]
  by (simp add: Let_def sample_schema_def sample_migrated_def applied_ids_def)

text \<open>C39. When a migration that was applied has been tampered with, the run is refused and the
  database stays as it is: when a row of the table has no file under its identifier, when the file
  has another name than the one recorded, or when a checksum was recorded, is not empty, and is not
  that of the file. A row from before the checksums, which has none, is adopted with the file's
  checksum, and an empty checksum is never compared; an edit behind such a row is not noticed.\<close>

theorem tampered_migration_refused:
  assumes "migrationFiles me dir = Inr files" and "ms_Table d = Some rows" and "x \<in> set rows"
    and "files_by_id files (mr_Id x) = None \<or>
      (\<exists>path. files_by_id files (mr_Id x) = Some path \<and>
         (mr_Filename x \<noteq> Base path \<or>
          (\<exists>c content. mr_Checksum x = Some c \<and> c \<noteq> [] \<and> me_File me path = Inr content \<and>
             c \<noteq> me_Sum me content)))"
  shows "\<exists>msg. ApplyMigrationsWithOptions me url dir b d = (Inl msg, d)"
proof (cases "me_Pool me url")
  case (Some msg)
  then show ?thesis by (simp add: ApplyMigrationsWithOptions_def)
next
  case None
  show ?thesis
  proof (cases "migration_tx me files b (d, 0)")
    case (Inl msg)
    with None assms(1) show ?thesis by (simp add: ApplyMigrationsWithOptions_def)
  next
    case (Inr y)
    obtain r d' n where "y = (r, d', n)" by (cases y)
    with Inr have "migration_tx me files b (d, 0) = Inr (r, d', n)" by simp
    then have "\<forall>x \<in> set (case ms_Table d of None \<Rightarrow> [] | Some xs \<Rightarrow> xs). row_agrees me files x"
      by (rule migration_tx_Inr)
    then have "row_agrees me files x" using assms(2,3) by simp
    then show ?thesis using assms(4) by (auto simp: row_agrees_def)
  qed
qed

theorem tampered_migration_refused_witness:
  "\<exists>msg. ApplyMigrationsWithOptions sample_migrations ''u'' ''m'' False
     (sample_migrated\<lparr>ms_Table := Some [\<lparr>mr_Id = ''2'', mr_Filename = ''2.sql'', mr_Checksum = Some ''x''\<rparr>]\<rparr>) =
     (Inl msg, sample_migrated\<lparr>ms_Table := Some [\<lparr>mr_Id = ''2'', mr_Filename = ''2.sql'', mr_Checksum = Some ''x''\<rparr>]\<rparr>)"
proof (rule tampered_migration_refused [OF sample_migration_files])
  let ?files = "[''m/1.sql'', ''m/2.sql'']"
  let ?x = "\<lparr>mr_Id = ''2'', mr_Filename = ''2.sql'', mr_Checksum = Some ''x''\<rparr>"
  have "files_by_id ?files (mr_Id ?x) = Some ''m/2.sql''"
    by code_simp
  moreover have "\<exists>content. me_File sample_migrations ''m/2.sql'' = Inr content \<and>
      ''x'' \<noteq> me_Sum sample_migrations content"
    by (rule exI [of _ "projr (me_File sample_migrations ''m/2.sql'')"]) code_simp
  ultimately show "files_by_id ?files (mr_Id ?x) = None \<or>
      (\<exists>path. files_by_id ?files (mr_Id ?x) = Some path \<and>
         (mr_Filename ?x \<noteq> Base path \<or>
          (\<exists>c content. mr_Checksum ?x = Some c \<and> c \<noteq> [] \<and>
             me_File sample_migrations path = Inr content \<and> c \<noteq> me_Sum sample_migrations content)))"
    by auto
qed (simp, rule list.set_intros)

end
