(* ===== verification/Tui_Detail.thy ===== *)
theory Tui_Detail
  imports Event_Service Go_Strconv
begin

text \<open>
  internal/tui/detail.go: the text of the page that the terminal interface shows for one ticket. The
  styles of the library lipgloss and the text of a JSON column are arguments.
\<close>

section \<open>The page\<close>

record tui_env =
  te_Title :: "string \<Rightarrow> string"
  te_Selected :: "string \<Rightarrow> string"
  te_Muted :: "string \<Rightarrow> string"
  te_Plain :: "string \<Rightarrow> string"
  te_Json :: "json \<Rightarrow> string"
  te_Lower :: "string \<Rightarrow> string"

record detail_timeline =
  dt_Attempts :: "attempt list"
  dt_Checkpoints :: "attempt_checkpoint list"
  dt_Events :: "ticket_event list"
  dt_Artifacts :: "artifact list"

record ticket_detail_model =
  td_Ticket :: ticket
  td_Timeline :: detail_timeline
  td_Err :: "string option"

definition no_timeline :: detail_timeline where
  "no_timeline = \<lparr>dt_Attempts = [], dt_Checkpoints = [], dt_Events = [], dt_Artifacts = []\<rparr>"

definition NewTicketDetailModelWithTimeline :: "ticket \<Rightarrow> detail_timeline \<Rightarrow> ticket_detail_model" where
  "NewTicketDetailModelWithTimeline t tml = \<lparr>td_Ticket = t, td_Timeline = tml, td_Err = None\<rparr>"

definition NewTicketDetailModel :: "ticket \<Rightarrow> attempt list \<Rightarrow> ticket_detail_model" where
  "NewTicketDetailModel t as = NewTicketDetailModelWithTimeline t (no_timeline\<lparr>dt_Attempts := as\<rparr>)"

definition NewTicketDetailModelWithError :: "ticket \<Rightarrow> string \<Rightarrow> ticket_detail_model" where
  "NewTicketDetailModelWithError t err = \<lparr>td_Ticket = t, td_Timeline = no_timeline, td_Err = Some err\<rparr>"

section \<open>Values\<close>

definition nl :: string where "nl = [CHR 0x0A]"

definition valueOrDash :: "string \<Rightarrow> string" where
  "valueOrDash v = (if v = [] then ''-'' else v)"

definition text_or_dash :: "string option \<Rightarrow> string" where
  "text_or_dash v = (case v of None \<Rightarrow> ''-'' | Some s \<Rightarrow> if s = [] then ''-'' else s)"

text \<open>A null element of an array of strings is decoded as the empty string.\<close>

fun string_elements :: "json list \<Rightarrow> string list option" where
  "string_elements [] = Some []"
| "string_elements (JStr s # js) = map_option (Cons s) (string_elements js)"
| "string_elements (JNull # js) = map_option (Cons []) (string_elements js)"
| "string_elements (j # js) = None"

definition detail_strings :: "json \<Rightarrow> string list" where
  "detail_strings j =
     (case j of
        JArr js \<Rightarrow> (case string_elements js of None \<Rightarrow> [] | Some ss \<Rightarrow> ss)
      | _ \<Rightarrow> [])"

definition reason_keys :: "string list" where
  "reason_keys = [''reason'', ''summary'', ''message'', ''detail'']"

fun first_reason :: "json \<Rightarrow> string list \<Rightarrow> string option" where
  "first_reason j [] = None"
| "first_reason j (k # ks) =
     (case json_field j k of
        Some (JStr v) \<Rightarrow> if v \<noteq> [] then Some v else first_reason j ks
      | _ \<Rightarrow> first_reason j ks)"

definition timelineReason :: "tui_env \<Rightarrow> json option \<Rightarrow> string" where
  "timelineReason te raw =
     (case raw of
        None \<Rightarrow> []
      | Some j \<Rightarrow> (case first_reason j reason_keys of Some v \<Rightarrow> v | None \<Rightarrow> te_Json te j))"

fun join_text :: "string \<Rightarrow> string list \<Rightarrow> string" where
  "join_text sep [] = []"
| "join_text sep [v] = v"
| "join_text sep (v # vs) = v @ sep @ join_text sep vs"

section \<open>Parts of the page\<close>

definition optional_line :: "string \<Rightarrow> string option \<Rightarrow> string" where
  "optional_line label v = (case v of None \<Rightarrow> [] | Some s \<Rightarrow> label @ s @ nl)"

definition writeListSection :: "tui_env \<Rightarrow> string \<Rightarrow> string list \<Rightarrow> string \<Rightarrow> string" where
  "writeListSection te title vs prefix_text =
     (if vs = [] then []
      else nl @ te_Title te title @ nl @ concat (map (\<lambda>v. prefix_text @ v @ nl) vs))"

definition writeJoinedLine :: "string \<Rightarrow> string list \<Rightarrow> string" where
  "writeJoinedLine label vs = (if vs = [] then [] else label @ '': '' @ join_text '', '' vs @ nl)"

definition attemptStateLabel :: "string \<Rightarrow> string" where
  "attemptStateLabel status =
     (if status = ''running'' then ''active''
      else if status = ''blocked'' then ''blocked''
      else if status \<in> {''succeeded'', ''failed'', ''expired'', ''cancelled''} then ''terminal''
      else ''state'')"

definition writeAttemptLine :: "attempt \<Rightarrow> string" where
  "writeAttemptLine a =
     (let label = attemptStateLabel (at_Status a);
          who = valueOrDash (at_AgentID a) @ ''/'' @ valueOrDash (at_Model a) in
      (if label = ''blocked'' then label @ '' '' @ who
       else label @ '' '' @ valueOrDash (at_Status a) @ '' '' @ who) @
      (if 0 < at_ProgressPercent a then '' '' @ FormatInt (at_ProgressPercent a) @ ''%'' else []) @ nl @
      ''Attempt link: /attempts/'' @ eventUUIDString (at_ID a) @ nl)"

definition writeAttemptNotes :: "tui_env \<Rightarrow> attempt \<Rightarrow> string" where
  "writeAttemptNotes te a =
     optional_line [] (at_CurrentSummary a) @ optional_line ''Next: '' (at_NextStep a) @
     (case at_FailureReason a of
        None \<Rightarrow> []
      | Some r \<Rightarrow> ''Failure: '' @ r @
          (case at_FailureCategory a of None \<Rightarrow> [] | Some c \<Rightarrow> '' ('' @ c @ '')'') @ nl) @
     (let blocker = timelineReason te (at_Blocker a) in
      if blocker \<noteq> [] then ''Blocker: '' @ blocker @ nl else [])"

definition currentAttemptIndex :: "attempt list \<Rightarrow> nat" where
  "currentAttemptIndex as = 0"

definition attempt_text :: "tui_env \<Rightarrow> attempt \<Rightarrow> string" where
  "attempt_text te a = writeAttemptLine a @ writeAttemptNotes te a"

definition writeAttemptSections :: "tui_env \<Rightarrow> attempt list \<Rightarrow> string" where
  "writeAttemptSections te as =
     nl @ te_Title te ''Attempts timeline'' @ nl @
     (if as = [] then ''No attempts recorded yet.'' @ nl
      else (let current = currentAttemptIndex as;
                prior = map snd (filter (\<lambda>(i, a). i \<noteq> current) (enumerate 0 as)) in
        te_Title te ''Current attempt'' @ nl @ attempt_text te (as ! current) @
        (if prior = [] then []
         else nl @ te_Title te ''Prior attempts'' @ nl @ concat (map (attempt_text te) prior))))"

definition checkpoint_text :: "attempt_checkpoint \<Rightarrow> string" where
  "checkpoint_text c =
     ''checkpoint '' @ cp_Summary c @ nl @ writeJoinedLine ''Commands'' (cp_CommandsRun c) @
     writeJoinedLine ''Files'' (cp_FilesTouched c) @ optional_line ''Next: '' (cp_NextStep c) @
     optional_line ''Risk: '' (cp_Risk c)"

definition writeCheckpointTimeline :: "tui_env \<Rightarrow> attempt_checkpoint list \<Rightarrow> string" where
  "writeCheckpointTimeline te cs =
     nl @ te_Title te ''Checkpoints timeline'' @ nl @
     (if cs = [] then ''No checkpoints recorded.'' @ nl else concat (map checkpoint_text cs))"

definition event_text :: "tui_env \<Rightarrow> ticket_event \<Rightarrow> string" where
  "event_text te e =
     ev_Type e @ '' by '' @ valueOrDash (ev_ActorType e) @ ''/'' @ text_or_dash (ev_ActorID e) @ nl @
     (let reason = timelineReason te (Some (ev_Data e)) in
      if reason \<noteq> [] then ''Data: '' @ reason @ nl else [])"

definition writeEventTimeline :: "tui_env \<Rightarrow> ticket_event list \<Rightarrow> string" where
  "writeEventTimeline te es =
     nl @ te_Title te ''Events timeline'' @ nl @
     (if es = [] then ''No ticket events recorded.'' @ nl else concat (map (event_text te) es))"

definition artifact_text :: "artifact \<Rightarrow> string" where
  "artifact_text a =
     valueOrDash (ar_Role a) @ '' '' @ valueOrDash (ar_Type a) @ '' '' @ valueOrDash (ar_Name a) @ nl @
     (if ar_Url a \<noteq> [] then ar_Url a @ nl else []) @
     ''Artifact link: /artifacts/'' @ eventUUIDString (ar_ID a) @ nl"

definition writeArtifactTimeline :: "tui_env \<Rightarrow> artifact list \<Rightarrow> string" where
  "writeArtifactTimeline te as =
     nl @ te_Title te ''Proof artifacts'' @ nl @
     (if as = [] then ''No proof artifacts recorded.'' @ nl else concat (map artifact_text as))"

definition proposed_ticket :: "ticket \<Rightarrow> bool" where
  "proposed_ticket t \<longleftrightarrow> tk_CreatedBy t = ActorAgent \<and> tk_Status t = TicketStatusBacklog"

definition detail_head :: "tui_env \<Rightarrow> ticket \<Rightarrow> string" where
  "detail_head te t =
     te_Title te ''Ticket Detail'' @ nl @ tk_Title t @ nl @
     valueOrDash (tk_Status t) @ '' '' @ valueOrDash (tk_Type t) @ '' P'' @ FormatInt (tk_Priority t) @ nl @
     writeJoinedLine ''Tags'' (tk_Tags t) @
     ''Source: '' @ valueOrDash (tk_CreatedBy t) @ '' '' @ text_or_dash (tk_CreatedByID t) @ nl @
     optional_line ''Source attempt: '' (map_option eventUUIDString (tk_SourceAttemptID t)) @
     optional_line ''Reason: '' (tk_CreationReason t) @
     (if tk_Description t \<noteq> [] then nl @ tk_Description t @ nl else [])"

definition detail_View :: "tui_env \<Rightarrow> ticket_detail_model \<Rightarrow> string" where
  "detail_View te m =
     (let t = td_Ticket m; tml = td_Timeline m; ticketID = eventUUIDString (tk_ID t) in
      detail_head te t @
      (case td_Err m of
         Some err \<Rightarrow> nl @ ''Unable to load attempts and timeline: '' @ err @ nl @
           te_Muted te ''b back  q quit'' @ nl
       | None \<Rightarrow>
           writeListSection te ''Acceptance'' (tk_AcceptanceCriteria t) ''- '' @
           writeListSection te ''Verification'' (detail_strings (tk_VerificationCommands t)) ''$ '' @
           writeListSection te ''Paths'' (tk_RelevantPaths t) ''- '' @
           writeListSection te ''Expected artifacts'' (tk_ExpectedArtifacts t) ''- '' @
           writeListSection te ''Required tools'' (tk_RequiredTools t) ''- '' @
           writeListSection te ''Permissions'' (tk_RequiredPermissions t) ''- '' @
           writeListSection te ''Capabilities'' (tk_RequiredCapabilities t) ''- '' @
           writeListSection te ''Harnesses'' (tk_AllowedHarnesses t) ''- '' @
           writeAttemptSections te (dt_Attempts tml) @ writeCheckpointTimeline te (dt_Checkpoints tml) @
           writeEventTimeline te (dt_Events tml) @ writeArtifactTimeline te (dt_Artifacts tml) @
           nl @ te_Title te ''Copy'' @ nl @ ''Ticket ID: '' @ ticketID @ nl @
           ''forge get --id '' @ ticketID @ nl @ ''Web ticket: /tickets/'' @ ticketID @ nl @
           (if proposed_ticket t then ''Web proposed: /proposed/'' @ ticketID @ nl else []) @
           te_Muted te ''b back  q quit'' @ nl))"

end
