(* ===== verification/Tui_Queue.thy ===== *)
theory Tui_Queue
  imports Tui_Detail Cli_Codex "HOL-Library.List_Lexorder" "HOL-Library.Char_ord"
begin

text \<open>
  internal/tui/queue.go: the list of tickets that the terminal interface shows, as the state machine
  that the library bubbletea runs: a message gives the next model and a command, which runs beside the
  loop and answers with a message. An index out of range is a panic, which is the value \<open>None\<close>.
\<close>

section \<open>The model\<close>

record queue_model =
  qm_Tickets :: "ticket list"
  qm_Selected :: int
  qm_Err :: "string option"
  qm_Loader :: bool
  qm_Detail :: "ticket_detail_model option"
  qm_ShowDetail :: bool
  qm_DetailTicket :: "uuid option"
  qm_DetailSeq :: int
  qm_Width :: int
  qm_Height :: int
  qm_Filter :: string
  qm_Filtering :: bool
  qm_Status :: string

definition NewQueueModel :: "ticket list \<Rightarrow> queue_model" where
  "NewQueueModel ts =
     \<lparr>qm_Tickets = ts, qm_Selected = 0, qm_Err = None, qm_Loader = False, qm_Detail = None,
      qm_ShowDetail = False, qm_DetailTicket = None, qm_DetailSeq = 0, qm_Width = 0, qm_Height = 0,
      qm_Filter = [], qm_Filtering = False, qm_Status = []\<rparr>"

definition NewQueueModelWithError :: "string \<Rightarrow> queue_model" where
  "NewQueueModelWithError err = (NewQueueModel [])\<lparr>qm_Err := Some err\<rparr>"

definition WithDetailLoader :: "queue_model \<Rightarrow> queue_model" where
  "WithDetailLoader m = m\<lparr>qm_Loader := True\<rparr>"

record tui_options =
  to_WorkspaceID :: "uuid option"
  to_ProjectID :: "uuid option"
  to_Status :: string
  to_Type :: string
  to_Limit :: int

definition defaultQueueLimit :: int where "defaultQueueLimit = 50"

type_synonym ticket_lister = "list_tickets_request \<Rightarrow> string + ticket list"

definition LoadQueue :: "ticket_lister \<Rightarrow> tui_options \<Rightarrow> queue_model \<times> string option" where
  "LoadQueue lister opts =
     (let limit_n = (if to_Limit opts = 0 then defaultQueueLimit else to_Limit opts) in
      case lister \<lparr>lr_WorkspaceID = to_WorkspaceID opts, lr_ProjectID = to_ProjectID opts,
             lr_Status = to_Status opts, lr_Type = to_Type opts, lr_Offset = 0, lr_Limit = limit_n\<rparr> of
        Inl err \<Rightarrow> (NewQueueModelWithError err, Some err)
      | Inr ts \<Rightarrow> (NewQueueModel ts, None))"

record timeline_loader =
  tl_Attempts :: "uuid \<Rightarrow> string + attempt list"
  tl_Checkpoints :: "uuid \<Rightarrow> string + attempt_checkpoint list"
  tl_Events :: "uuid \<Rightarrow> string + ticket_event list"
  tl_Artifacts :: "uuid \<Rightarrow> string + artifact list"

definition LoadTicketTimeline :: "timeline_loader \<Rightarrow> uuid \<Rightarrow> string + detail_timeline" where
  "LoadTicketTimeline tml i =
     and_then (tl_Attempts tml i) (\<lambda>as.
     and_then (tl_Checkpoints tml i) (\<lambda>cs.
     and_then (tl_Events tml i) (\<lambda>es.
     and_then (tl_Artifacts tml i) (\<lambda>rs.
     Inr \<lparr>dt_Attempts = as, dt_Checkpoints = cs, dt_Events = es, dt_Artifacts = rs\<rparr>))))"

section \<open>Messages\<close>

text \<open>A key is what the code reads of it: its name and its runes, as UTF-8.\<close>

datatype tui_msg =
    WindowSizeMsg int int
  | KeyMsg string string
  | DetailLoadedMsg int ticket "string + detail_timeline"
  | OtherMsg

datatype tui_cmd = NoCmd | QuitCmd | LoadCmd int ticket

definition Init :: "queue_model \<Rightarrow> tui_cmd" where
  "Init m = (if qm_Err m \<noteq> None then QuitCmd else NoCmd)"

text \<open>The message that a command answers with.\<close>

fun run_cmd :: "timeline_loader \<Rightarrow> tui_cmd \<Rightarrow> tui_msg option" where
  "run_cmd tml (LoadCmd n t) = Some (DetailLoadedMsg n t (LoadTicketTimeline tml (tk_ID t)))"
| "run_cmd tml _ = None"

section \<open>Selection and filter\<close>

definition index_at :: "'a list \<Rightarrow> int \<Rightarrow> 'a option" where
  "index_at xs i = (if 0 \<le> i \<and> i < int (length xs) then Some (xs ! nat i) else None)"

definition normal_filter :: "tui_env \<Rightarrow> queue_model \<Rightarrow> string" where
  "normal_filter te m = te_Lower te (TrimSpace (qm_Filter m))"

definition filter_matches :: "tui_env \<Rightarrow> string \<Rightarrow> ticket \<Rightarrow> bool" where
  "filter_matches te fil t \<longleftrightarrow>
     strings_contains fil (te_Lower te (tk_Title t @ '' '' @ tk_Status t @ '' '' @ tk_Type t))"

fun first_match :: "tui_env \<Rightarrow> string \<Rightarrow> int \<Rightarrow> ticket list \<Rightarrow> int" where
  "first_match te fil i [] = 0"
| "first_match te fil i (t # ts) =
     (if filter_matches te fil t then i else first_match te fil (i + 1) ts)"

definition firstVisibleIndex :: "tui_env \<Rightarrow> queue_model \<Rightarrow> int" where
  "firstVisibleIndex te m =
     (let fil = normal_filter te m in
      if fil = [] then 0 else first_match te fil 0 (qm_Tickets m))"

text \<open>The rows of the window; the loop reads \<open>m.tickets[i]\<close> for each \<open>i\<close>.\<close>

function visible_rows :: "tui_env \<Rightarrow> string \<Rightarrow> ticket list \<Rightarrow> int \<Rightarrow> int \<Rightarrow> (int \<times> ticket) list option" where
  "visible_rows te fil ts i stop =
     (if stop \<le> i then Some []
      else (case index_at ts i of
          None \<Rightarrow> None
        | Some t \<Rightarrow> (case visible_rows te fil ts (i + 1) stop of
              None \<Rightarrow> None
            | Some rows \<Rightarrow> Some (if fil \<noteq> [] \<and> \<not> filter_matches te fil t then rows else (i, t) # rows))))"
  by pat_completeness auto
termination
  by (relation "measure (\<lambda>(te, fil, ts, i, stop). nat (stop - i))") auto

declare visible_rows.simps [simp del]

definition visibleTickets :: "tui_env \<Rightarrow> queue_model \<Rightarrow> (int \<times> ticket) list option" where
  "visibleTickets te m =
     (let rows = (if qm_Height m - 10 < 3 then 3 else qm_Height m - 10);
          start = (if rows \<le> qm_Selected m then qm_Selected m - rows + 1 else 0);
          stop = (if int (length (qm_Tickets m)) < start + rows then int (length (qm_Tickets m))
                  else start + rows) in
      visible_rows te (normal_filter te m) (qm_Tickets m) start stop)"

definition MoveDown :: "queue_model \<Rightarrow> queue_model" where
  "MoveDown m =
     (if qm_Selected m < int (length (qm_Tickets m)) - 1
      then m\<lparr>qm_Selected := qm_Selected m + 1\<rparr> else m)"

definition MoveUp :: "queue_model \<Rightarrow> queue_model" where
  "MoveUp m = (if 0 < qm_Selected m then m\<lparr>qm_Selected := qm_Selected m - 1\<rparr> else m)"

definition loadSelectedDetail :: "queue_model \<Rightarrow> (queue_model \<times> tui_cmd) option" where
  "loadSelectedDetail m =
     (if qm_Tickets m = [] \<or> \<not> qm_Loader m then Some (m, NoCmd)
      else (case index_at (qm_Tickets m) (qm_Selected m) of
          None \<Rightarrow> None
        | Some t \<Rightarrow> (let n = wrap64 (qm_DetailSeq m + 1) in
            Some (m\<lparr>qm_DetailSeq := n, qm_DetailTicket := Some (tk_ID t)\<rparr>, LoadCmd n t))))"

section \<open>Update\<close>

definition update_filter :: "tui_env \<Rightarrow> string \<Rightarrow> string \<Rightarrow> queue_model \<Rightarrow> queue_model" where
  "update_filter te key runes m =
     (if key = ''enter''
      then m\<lparr>qm_Filtering := False, qm_Status := ''Filter applied: '' @ qm_Filter m\<rparr>
      else if key = ''esc''
      then (let m' = m\<lparr>qm_Filtering := False, qm_Filter := [], qm_Status := ''Filter cleared''\<rparr> in
        m'\<lparr>qm_Selected := firstVisibleIndex te m'\<rparr>)
      else if key = ''backspace''
      then (if qm_Filter m = [] then m
        else (let m' = m\<lparr>qm_Filter := butlast (qm_Filter m)\<rparr> in
          m'\<lparr>qm_Selected := firstVisibleIndex te m'\<rparr>))
      else if runes = [] then m
      else (let m' = m\<lparr>qm_Filter := qm_Filter m @ runes\<rparr> in
        m'\<lparr>qm_Selected := firstVisibleIndex te m'\<rparr>))"

definition update_list :: "string \<Rightarrow> queue_model \<Rightarrow> (queue_model \<times> tui_cmd) option" where
  "update_list key m =
     (if key \<in> {''ctrl+c'', ''q'', ''esc''} then Some (m, QuitCmd)
      else if key \<in> {''down'', ''j''} then Some (MoveDown m, NoCmd)
      else if key \<in> {''up'', ''k''} then Some (MoveUp m, NoCmd)
      else if key = ''enter'' then loadSelectedDetail m
      else if key = ''/''
      then Some (m\<lparr>qm_Filtering := True,
        qm_Status := ''Filter: type text, enter to apply, esc to cancel''\<rparr>, NoCmd)
      else if key = ''c''
      then (if qm_Tickets m = [] then Some (m, NoCmd)
        else (case index_at (qm_Tickets m) (qm_Selected m) of
            None \<Rightarrow> None
          | Some t \<Rightarrow>
              Some (m\<lparr>qm_Status := ''Copy selected ticket ID: '' @ eventUUIDString (tk_ID t)\<rparr>, NoCmd)))
      else Some (m, NoCmd))"

fun queue_Update :: "tui_env \<Rightarrow> tui_msg \<Rightarrow> queue_model \<Rightarrow> (queue_model \<times> tui_cmd) option" where
  "queue_Update te (WindowSizeMsg w h) m = Some (m\<lparr>qm_Width := w, qm_Height := h\<rparr>, NoCmd)"
| "queue_Update te (KeyMsg key runes) m =
     (if qm_ShowDetail m
      then (if key \<in> {''ctrl+c'', ''q'', ''esc''} then Some (m, QuitCmd)
            else if key = ''b'' then Some (m\<lparr>qm_ShowDetail := False\<rparr>, NoCmd)
            else Some (m, NoCmd))
      else if qm_Filtering m then Some (update_filter te key runes m, NoCmd)
      else update_list key m)"
| "queue_Update te (DetailLoadedMsg n t result) m =
     (if n \<noteq> qm_DetailSeq m then Some (m, NoCmd)
      else if Some (tk_ID t) \<noteq> qm_DetailTicket m then Some (m, NoCmd)
      else Some (m\<lparr>qm_Detail := Some (case result of
            Inl err \<Rightarrow> NewTicketDetailModelWithError t err
          | Inr tml \<Rightarrow> NewTicketDetailModelWithTimeline t tml),
          qm_ShowDetail := True\<rparr>, NoCmd))"
| "queue_Update te OtherMsg m = Some (m, NoCmd)"

section \<open>View\<close>

definition status_counts :: "ticket list \<Rightarrow> (string \<times> int) list" where
  "status_counts ts =
     map (\<lambda>s. (s, int (length (filter (\<lambda>t. tk_Status t = s) ts)))) (sort (remdups (map tk_Status ts)))"

definition summaryLine :: "ticket list \<Rightarrow> string" where
  "summaryLine ts =
     (if ts = [] then ''0 tickets''
      else (let proposed = int (length (filter proposed_ticket ts)) in
        join_text ''  ''
          ((FormatInt (int (length ts)) @ '' tickets'') #
           map (\<lambda>(s, n). s @ '' '' @ FormatInt n) (status_counts ts) @
           (if 0 < proposed then [''proposed '' @ FormatInt proposed] else []))))"

definition row_line :: "tui_env \<Rightarrow> queue_model \<Rightarrow> int \<times> ticket \<Rightarrow> string" where
  "row_line te m = (\<lambda>(i, t).
     (let on = (i = qm_Selected m) in
      (if on then te_Selected te else te_Plain te)
        ((if on then ''>'' else '' '') @ '' P'' @ FormatInt (tk_Priority t) @ '' '' @ tk_Status t @ '' '' @
         tk_Type t @ (if proposed_ticket t then '' [proposed]'' else []) @ '' '' @ tk_Title t) @ nl))"

definition selected_text :: "tui_env \<Rightarrow> ticket \<Rightarrow> string" where
  "selected_text te t =
     nl @ te_Title te ''Selected'' @ nl @ tk_Title t @ nl @
     ''Link: /tickets/'' @ eventUUIDString (tk_ID t) @ nl @
     (if proposed_ticket t then ''Triage: /proposed/'' @ eventUUIDString (tk_ID t) @ nl else []) @
     (if proposed_ticket t
      then ''Proposed by: '' @ text_or_dash (tk_CreatedByID t) @ nl @ optional_line ''Reason: '' (tk_CreationReason t)
      else []) @
     (if tk_AcceptanceCriteria t \<noteq> []
      then ''Acceptance: '' @ join_text ''; '' (tk_AcceptanceCriteria t) @ nl else []) @
     (if tk_RelevantPaths t \<noteq> [] then ''Paths: '' @ join_text '', '' (tk_RelevantPaths t) @ nl else [])"

definition queue_View :: "tui_env \<Rightarrow> queue_model \<Rightarrow> string option" where
  "queue_View te m =
     (if qm_ShowDetail m then map_option (detail_View te) (qm_Detail m)
      else (let head = te_Title te ''Forge Queue'' @ nl in
        case qm_Err m of
          Some err \<Rightarrow> Some (head @ ''Unable to load queue: '' @ err @ nl)
        | None \<Rightarrow>
            if qm_Tickets m = []
            then Some (head @ summaryLine [] @ nl @ nl @
              ''No tickets match this queue. Create work or adjust filters.'' @ nl @
              te_Muted te ''q quit'' @ nl)
            else (case (visibleTickets te m, index_at (qm_Tickets m) (qm_Selected m)) of
                (Some rows, Some t) \<Rightarrow>
                  Some (head @ summaryLine (qm_Tickets m) @ nl @ nl @ concat (map (row_line te m) rows) @
                    selected_text te t @
                    (if qm_Status m \<noteq> [] then nl @ qm_Status m @ nl else []) @
                    te_Muted te ''j/k move  / filter  enter open  c copy ID  b back  q quit'' @ nl)
              | _ \<Rightarrow> None)))"

end
