(* ===== verification/Tui_Properties.thy ===== *)
theory Tui_Properties
  imports Tui_Queue Forge_Sample
begin

text \<open>
  The terminal interface under every order of keys, resizes and answers of its commands: it never
  reads outside the list, and the page it opens is that of the ticket asked for last. Typing a filter
  selects its first match; moving afterwards does not respect the filter.
\<close>

section \<open>The window\<close>

lemma visible_rows_set:
  "0 \<le> i \<Longrightarrow> stop \<le> int (length ts) \<Longrightarrow>
     \<exists>rows. visible_rows te fil ts i stop = Some rows \<and>
       set rows = {(j, ts ! nat j) | j. i \<le> j \<and> j < stop \<and> (fil = [] \<or> filter_matches te fil (ts ! nat j))}"
proof (induction te fil ts i stop rule: visible_rows.induct)
  case (1 te fil ts i stop)
  show ?case
  proof (cases "stop \<le> i")
    case True
    then show ?thesis by (auto simp: visible_rows.simps [of te fil ts i stop])
  next
    case False
    with 1(2,3) have t: "index_at ts i = Some (ts ! nat i)" by (simp add: index_at_def)
    from 1(1) [OF False t] 1(2,3) obtain rows
      where r: "visible_rows te fil ts (i + 1) stop = Some rows"
        and s: "set rows = {(j, ts ! nat j) | j. i + 1 \<le> j \<and> j < stop \<and>
          (fil = [] \<or> filter_matches te fil (ts ! nat j))}" by auto
    have split: "i \<le> j \<longleftrightarrow> j = i \<or> i + 1 \<le> j" for j :: int by auto
    show ?thesis
      using False t r s by (auto simp: visible_rows.simps [of te fil ts i stop] split)
  qed
qed

definition selection_ok :: "queue_model \<Rightarrow> bool" where
  "selection_ok m \<longleftrightarrow>
     0 \<le> qm_Selected m \<and> (qm_Tickets m = [] \<longrightarrow> qm_Selected m = 0) \<and>
     (qm_Tickets m \<noteq> [] \<longrightarrow> qm_Selected m < int (length (qm_Tickets m)))"

lemma selection_ok_fields [simp]:
  "selection_ok (m\<lparr>qm_Filtering := x\<rparr>) \<longleftrightarrow> selection_ok m"
  "selection_ok (m\<lparr>qm_Status := s\<rparr>) \<longleftrightarrow> selection_ok m"
  "selection_ok (m\<lparr>qm_Filter := s\<rparr>) \<longleftrightarrow> selection_ok m"
  "selection_ok (m\<lparr>qm_Width := i\<rparr>) \<longleftrightarrow> selection_ok m"
  "selection_ok (m\<lparr>qm_Height := i\<rparr>) \<longleftrightarrow> selection_ok m"
  "selection_ok (m\<lparr>qm_ShowDetail := x\<rparr>) \<longleftrightarrow> selection_ok m"
  "selection_ok (m\<lparr>qm_Detail := y\<rparr>) \<longleftrightarrow> selection_ok m"
  "selection_ok (m\<lparr>qm_DetailTicket := z\<rparr>) \<longleftrightarrow> selection_ok m"
  "selection_ok (m\<lparr>qm_DetailSeq := i\<rparr>) \<longleftrightarrow> selection_ok m"
  by (simp_all add: selection_ok_def)

lemma selection_ok_index:
  "selection_ok m \<Longrightarrow> qm_Tickets m \<noteq> [] \<Longrightarrow>
     index_at (qm_Tickets m) (qm_Selected m) = Some (qm_Tickets m ! nat (qm_Selected m))"
  by (simp add: selection_ok_def index_at_def)

lemma visibleTickets_set:
  assumes "selection_ok m"
  obtains rows start stop where "visibleTickets te m = Some rows" "0 \<le> start"
    "set rows = {(j, qm_Tickets m ! nat j) | j. start \<le> j \<and> j < stop \<and>
       (normal_filter te m = [] \<or> filter_matches te (normal_filter te m) (qm_Tickets m ! nat j))}"
    "stop \<le> int (length (qm_Tickets m))"
    "qm_Tickets m \<noteq> [] \<Longrightarrow> start \<le> qm_Selected m \<and> qm_Selected m < stop"
proof -
  let ?rows = "if qm_Height m - 10 < 3 then 3 else qm_Height m - 10"
  let ?start = "if ?rows \<le> qm_Selected m then qm_Selected m - ?rows + 1 else 0"
  let ?stop = "if int (length (qm_Tickets m)) < ?start + ?rows then int (length (qm_Tickets m))
    else ?start + ?rows"
  have "0 \<le> ?start" and "?stop \<le> int (length (qm_Tickets m))" by auto
  moreover have "qm_Tickets m \<noteq> [] \<Longrightarrow> ?start \<le> qm_Selected m \<and> qm_Selected m < ?stop"
    using assms by (auto simp: selection_ok_def)
  ultimately show ?thesis
    using visible_rows_set [of ?start ?stop "qm_Tickets m" te "normal_filter te m"] that
    unfolding visibleTickets_def Let_def by blast
qed

lemma first_match_range:
  "first_match te fil i ts = 0 \<or> i \<le> first_match te fil i ts \<and> first_match te fil i ts < i + int (length ts)"
  by (induction ts arbitrary: i) force+

lemma first_match_is:
  "\<exists>t \<in> set ts. filter_matches te fil t \<Longrightarrow>
     \<exists>k. first_match te fil i ts = i + int k \<and> k < length ts \<and> filter_matches te fil (ts ! k) \<and>
       (\<forall>l < k. \<not> filter_matches te fil (ts ! l))"
proof (induction ts arbitrary: i)
  case Nil
  then show ?case by simp
next
  case (Cons t ts)
  show ?case
  proof (cases "filter_matches te fil t")
    case True
    then show ?thesis by (intro exI [of _ 0]) simp
  next
    case False
    with Cons.prems have "\<exists>t \<in> set ts. filter_matches te fil t" by auto
    from Cons.IH [OF this, of "i + 1"] obtain k where "first_match te fil (i + 1) ts = i + 1 + int k"
      "k < length ts" "filter_matches te fil (ts ! k)" "\<forall>l < k. \<not> filter_matches te fil (ts ! l)" by blast
    with False show ?thesis by (intro exI [of _ "Suc k"]) (auto simp: less_Suc_eq_0_disj)
  qed
qed

lemma firstVisible_ok: "selection_ok (m\<lparr>qm_Selected := firstVisibleIndex te m\<rparr>)"
proof (cases "qm_Tickets m")
  case Nil
  then show ?thesis by (simp add: selection_ok_def firstVisibleIndex_def Let_def)
next
  case (Cons t ts)
  with first_match_range [of te "normal_filter te m" 0 "qm_Tickets m"] show ?thesis
    by (auto simp: selection_ok_def firstVisibleIndex_def Let_def)
qed

section \<open>The invariant\<close>

text \<open>The detail page, when it is shown, is of the ticket that was opened last, and it is one of the
  list; so are the tickets of the commands under way.\<close>

definition queue_inv :: "ticket list \<Rightarrow> queue_model \<Rightarrow> tui_cmd list \<Rightarrow> bool" where
  "queue_inv ts m cs \<longleftrightarrow>
     qm_Tickets m = ts \<and> selection_ok m \<and>
     (qm_ShowDetail m \<longrightarrow> (\<exists>dm. qm_Detail m = Some dm \<and> td_Ticket dm \<in> set ts \<and>
        qm_DetailTicket m = Some (tk_ID (td_Ticket dm)))) \<and>
     (\<forall>n t. LoadCmd n t \<in> set cs \<longrightarrow> t \<in> set ts)"

fun from_user :: "tui_msg \<Rightarrow> bool" where
  "from_user (DetailLoadedMsg n t r) = False"
| "from_user _ = True"

text \<open>A run of the program from a model: the messages of the user and the answers of commands, in any
  order, where a command reads what the database has when it runs.\<close>

inductive tui_run :: "tui_env \<Rightarrow> queue_model \<Rightarrow> queue_model \<Rightarrow> tui_cmd list \<Rightarrow> bool"
  for te :: tui_env and m0 :: queue_model where
  tui_start: "tui_run te m0 m0 []"
| tui_user: "tui_run te m0 m cs \<Longrightarrow> from_user msg \<Longrightarrow> queue_Update te msg m = Some (m', c) \<Longrightarrow>
    tui_run te m0 m' (c # cs)"
| tui_answer: "tui_run te m0 m cs \<Longrightarrow> c \<in> set cs \<Longrightarrow> run_cmd ld c = Some msg \<Longrightarrow>
    queue_Update te msg m = Some (m', c') \<Longrightarrow> tui_run te m0 m' (c' # remove1 c cs)"

text \<open>The models that a handler may return, with the command.\<close>

definition keeps :: "ticket list \<Rightarrow> tui_cmd list \<Rightarrow> (queue_model \<times> tui_cmd) option \<Rightarrow> bool" where
  "keeps ts cs r \<longleftrightarrow> (\<exists>m c. r = Some (m, c) \<and> queue_inv ts m (c # cs))"

lemma keeps_Some [simp]: "keeps ts cs (Some (m, c)) \<longleftrightarrow> queue_inv ts m (c # cs)"
  by (simp add: keeps_def)

lemma keeps_if: "keeps ts cs r \<Longrightarrow> keeps ts cs r' \<Longrightarrow> keeps ts cs (if b then r else r')"
  by simp

lemma queue_inv_if: "queue_inv ts m cs \<Longrightarrow> queue_inv ts m' cs \<Longrightarrow> queue_inv ts (if b then m else m') cs"
  by simp

lemma queue_inv_NoCmd [simp]: "queue_inv ts m (NoCmd # cs) \<longleftrightarrow> queue_inv ts m cs"
  and queue_inv_QuitCmd [simp]: "queue_inv ts m (QuitCmd # cs) \<longleftrightarrow> queue_inv ts m cs"
  by (simp_all add: queue_inv_def)

lemma queue_inv_fields [simp]:
  "queue_inv ts (m\<lparr>qm_Filtering := x\<rparr>) cs \<longleftrightarrow> queue_inv ts m cs"
  "queue_inv ts (m\<lparr>qm_Status := s\<rparr>) cs \<longleftrightarrow> queue_inv ts m cs"
  "queue_inv ts (m\<lparr>qm_Filter := s\<rparr>) cs \<longleftrightarrow> queue_inv ts m cs"
  "queue_inv ts (m\<lparr>qm_Width := i\<rparr>) cs \<longleftrightarrow> queue_inv ts m cs"
  "queue_inv ts (m\<lparr>qm_Height := i\<rparr>) cs \<longleftrightarrow> queue_inv ts m cs"
  by (simp_all add: queue_inv_def)

lemma queue_inv_selected:
  "queue_inv ts m cs \<Longrightarrow> selection_ok (m\<lparr>qm_Selected := i\<rparr>) \<Longrightarrow> queue_inv ts (m\<lparr>qm_Selected := i\<rparr>) cs"
  by (simp add: queue_inv_def)

lemma queue_inv_first:
  "queue_inv ts m cs \<Longrightarrow> queue_inv ts (m\<lparr>qm_Selected := firstVisibleIndex te m\<rparr>) cs"
  by (rule queue_inv_selected [OF _ firstVisible_ok])

lemma update_filter_inv: "queue_inv ts m cs \<Longrightarrow> queue_inv ts (update_filter te key runes m) cs"
  unfolding update_filter_def Let_def by (intro queue_inv_if queue_inv_first) simp_all

lemma move_inv:
  assumes "queue_inv ts m cs"
  shows "queue_inv ts (MoveDown m) cs" and "queue_inv ts (MoveUp m) cs"
  using assms by (auto simp: queue_inv_def selection_ok_def MoveDown_def MoveUp_def)

lemma load_inv:
  assumes "queue_inv ts m cs" and "\<not> qm_ShowDetail m"
  shows "keeps ts cs (loadSelectedDetail m)"
proof (cases "qm_Tickets m = []")
  case True
  with assms show ?thesis by (simp add: loadSelectedDetail_def)
next
  case False
  with assms have i: "index_at (qm_Tickets m) (qm_Selected m) = Some (qm_Tickets m ! nat (qm_Selected m))"
    and mem: "qm_Tickets m ! nat (qm_Selected m) \<in> set ts"
    by (auto simp: queue_inv_def selection_ok_def intro!: selection_ok_index nth_mem)
  show ?thesis
    using assms False i mem by (auto simp: loadSelectedDetail_def Let_def queue_inv_def)
qed

lemma copy_inv:
  assumes "queue_inv ts m cs"
  shows "keeps ts cs (if qm_Tickets m = [] then Some (m, NoCmd)
    else (case index_at (qm_Tickets m) (qm_Selected m) of
        None \<Rightarrow> None
      | Some t \<Rightarrow>
          Some (m\<lparr>qm_Status := ''Copy selected ticket ID: '' @ eventUUIDString (tk_ID t)\<rparr>, NoCmd)))"
proof -
  have "selection_ok m" using assms by (simp add: queue_inv_def)
  with assms selection_ok_index [of m] show ?thesis by (simp del: not_None_eq)
qed

lemma update_list_inv:
  assumes "queue_inv ts m cs" and "\<not> qm_ShowDetail m"
  shows "keeps ts cs (update_list key m)"
  unfolding update_list_def
  by (intro keeps_if load_inv copy_inv [OF assms(1)] assms) (simp_all add: assms move_inv)

lemma user_inv:
  assumes "queue_inv ts m cs" and "from_user msg"
  shows "keeps ts cs (queue_Update te msg m)"
proof (cases msg)
  case (KeyMsg key runes)
  show ?thesis
  proof (cases "qm_ShowDetail m")
    case True
    have "queue_inv ts (m\<lparr>qm_ShowDetail := False\<rparr>) cs"
      using assms(1) by (simp add: queue_inv_def)
    with True KeyMsg assms(1) show ?thesis by simp
  next
    case False
    with update_list_inv [OF assms(1)] update_filter_inv [OF assms(1)] KeyMsg show ?thesis by simp
  qed
qed (use assms in simp_all)

lemma answer_inv:
  assumes "queue_inv ts m cs" and "t \<in> set ts"
  shows "keeps ts cs (queue_Update te (DetailLoadedMsg n t r) m)"
proof (cases "n = qm_DetailSeq m \<and> qm_DetailTicket m = Some (tk_ID t)")
  case True
  with assms show ?thesis
    by (cases r) (simp_all add: queue_inv_def NewTicketDetailModelWithError_def
        NewTicketDetailModelWithTimeline_def)
next
  case False
  with assms(1) show ?thesis by auto
qed

lemma queue_inv_remove: "queue_inv ts m cs \<Longrightarrow> queue_inv ts m (remove1 c cs)"
  by (auto simp: queue_inv_def dest: notin_set_remove1)

lemma tui_run_inv:
  "tui_run te m0 m cs \<Longrightarrow> queue_inv ts m0 [] \<Longrightarrow> queue_inv ts m cs"
proof (induction rule: tui_run.induct)
  case tui_start
  then show ?case .
next
  case (tui_user m cs msg m' c)
  with user_inv [of ts m cs msg te] show ?case by simp
next
  case (tui_answer m cs c ld msg m' c')
  obtain n t where c: "c = LoadCmd n t" and msg: "msg = DetailLoadedMsg n t (LoadTicketTimeline ld (tk_ID t))"
    using tui_answer.hyps(3) by (cases c) auto
  have inv: "queue_inv ts m cs" using tui_answer by simp
  with tui_answer.hyps(2) c have "t \<in> set ts" by (auto simp: queue_inv_def)
  from answer_inv [OF queue_inv_remove [OF inv] this] tui_answer.hyps(4) msg show ?case
    by (metis keeps_Some)
qed

definition tui_initial :: "queue_model \<Rightarrow> bool" where
  "tui_initial m \<longleftrightarrow> (\<exists>lister opts. m \<in> {fst (LoadQueue lister opts), WithDetailLoader (fst (LoadQueue lister opts))})"

lemma LoadQueue_model: "\<exists>ts. fst (LoadQueue lister opts) \<in> {NewQueueModel ts} \<union> range NewQueueModelWithError"
  unfolding LoadQueue_def Let_def by (simp split: sum.split) blast

lemma queue_inv_new:
  "queue_inv ts (NewQueueModel ts) []" "queue_inv ts (WithDetailLoader (NewQueueModel ts)) []"
  "queue_inv [] (NewQueueModelWithError err) []"
  "queue_inv [] (WithDetailLoader (NewQueueModelWithError err)) []"
  by (auto simp: queue_inv_def selection_ok_def NewQueueModel_def NewQueueModelWithError_def
      WithDetailLoader_def)

lemma tui_initial_inv: "tui_initial m0 \<Longrightarrow> queue_inv (qm_Tickets m0) m0 []"
proof -
  assume "tui_initial m0"
  then obtain lister opts
    where "m0 \<in> {fst (LoadQueue lister opts), WithDetailLoader (fst (LoadQueue lister opts))}"
    by (auto simp: tui_initial_def)
  with LoadQueue_model [of lister opts] obtain ts where "queue_inv ts m0 []"
    using queue_inv_new by fastforce
  then show ?thesis by (simp add: queue_inv_def)
qed

section \<open>A sample\<close>

definition sample_tui :: tui_env where
  "sample_tui =
     \<lparr>te_Title = (\<lambda>s. s), te_Selected = (\<lambda>s. s), te_Muted = (\<lambda>s. s), te_Plain = (\<lambda>s. s),
      te_Json = (\<lambda>j. ''{}''), te_Lower = (\<lambda>s. s)\<rparr>"

definition sample_row :: "uuid \<Rightarrow> string \<Rightarrow> ticket" where
  "sample_row i title = (sample_ticket_row TicketStatusTodo)\<lparr>tk_ID := i, tk_Title := title\<rparr>"

definition sample_queue :: queue_model where
  "sample_queue = NewQueueModel [sample_row 7 ''xx'', sample_row 8 ''yy'']"

definition sample_filtered :: queue_model where
  "sample_filtered = sample_queue\<lparr>qm_Filter := ''xx''\<rparr>"

definition sample_filtered_typed :: queue_model where
  "sample_filtered_typed = sample_filtered\<lparr>qm_Filtering := True\<rparr>"

lemma sample_queue_initial: "tui_initial (WithDetailLoader sample_queue)"
  unfolding tui_initial_def
  by (rule exI [of _ "\<lambda>_. Inr (qm_Tickets sample_queue)"],
      rule exI [of _ "\<lparr>to_WorkspaceID = None, to_ProjectID = None, to_Status = [], to_Type = [], to_Limit = 0\<rparr>"])
    (simp add: LoadQueue_def Let_def sample_queue_def NewQueueModel_def)

lemma sample_filter: "normal_filter sample_tui sample_filtered = ''xx''"
  by (simp add: normal_filter_def sample_tui_def sample_filtered_def TrimSpace_plain plain_char_def)

lemma sample_matches:
  "filter_matches sample_tui ''xx'' (sample_row 7 ''xx'')"
  "\<not> filter_matches sample_tui ''xx'' (sample_row 8 ''yy'')"
  by code_simp+

section \<open>Properties\<close>

text \<open>C40. The terminal interface never panics and never mixes tickets up. After any sequence of keys,
  resizes and answers of its commands, whatever they read and in whichever order they come, the
  selection lies in the list, the page can be drawn and every further message is handled; and a detail
  page that is shown is of the ticket that was opened last, not of one opened before.\<close>

theorem tui_safe:
  assumes "tui_initial m0" and "tui_run te m0 m cs"
  shows "qm_Tickets m = qm_Tickets m0 \<and> selection_ok m \<and>
    (\<exists>page. queue_View te m = Some page) \<and>
    (from_user msg \<longrightarrow> (\<exists>m' c. queue_Update te msg m = Some (m', c))) \<and>
    (c \<in> set cs \<longrightarrow> run_cmd ld c = Some reply \<longrightarrow> (\<exists>m' c'. queue_Update te reply m = Some (m', c'))) \<and>
    (qm_ShowDetail m \<longrightarrow> (\<exists>dm. qm_Detail m = Some dm \<and> td_Ticket dm \<in> set (qm_Tickets m0) \<and>
       qm_DetailTicket m = Some (tk_ID (td_Ticket dm)) \<and> queue_View te m = Some (detail_View te dm)))"
proof -
  have inv: "queue_inv (qm_Tickets m0) m cs"
    using tui_run_inv [OF assms(2)] tui_initial_inv [OF assms(1)] by blast
  then have ok: "selection_ok m" by (simp add: queue_inv_def)
  obtain rows where "visibleTickets te m = Some rows" by (rule visibleTickets_set [OF ok])
  then have view: "\<exists>page. queue_View te m = Some page"
    using inv selection_ok_index [OF ok]
    by (auto simp: queue_View_def queue_inv_def Let_def split: option.splits)
  have user: "from_user msg \<longrightarrow> (\<exists>m' c. queue_Update te msg m = Some (m', c))"
    using user_inv [OF inv, of msg te] by (auto simp: keeps_def)
  have "\<exists>m' c'. queue_Update te reply m = Some (m', c')"
    if "c \<in> set cs" and "run_cmd ld c = Some reply"
  proof (cases c)
    case (LoadCmd n t)
    with that inv have "t \<in> set (qm_Tickets m0)" by (auto simp: queue_inv_def)
    from answer_inv [OF inv this] that LoadCmd show ?thesis by (auto simp: keeps_def)
  qed (use that in simp_all)
  with inv ok view user show ?thesis by (auto simp: queue_inv_def queue_View_def)
qed

theorem tui_safe_witness:
  "\<exists>page. queue_View sample_tui ((WithDetailLoader sample_queue)\<lparr>qm_Selected := 1\<rparr>) = Some page"
proof -
  have "queue_Update sample_tui (KeyMsg ''j'' []) (WithDetailLoader sample_queue) =
      Some ((WithDetailLoader sample_queue)\<lparr>qm_Selected := 1\<rparr>, NoCmd)"
    by (simp add: sample_queue_def NewQueueModel_def WithDetailLoader_def update_list_def MoveDown_def)
  from tui_user [OF tui_start _ this] have "tui_run sample_tui (WithDetailLoader sample_queue)
      ((WithDetailLoader sample_queue)\<lparr>qm_Selected := 1\<rparr>) [NoCmd]" by simp
  from tui_safe [OF sample_queue_initial this] show ?thesis by blast
qed

text \<open>While a filter is typed the selection follows it: when some ticket matches, the first one
  that does is selected, and it is on the screen.\<close>

theorem filter_selects_first_match:
  assumes "qm_Filtering m" and "\<not> qm_ShowDetail m" and "runes \<noteq> []"
    and "key \<notin> {''enter'', ''esc'', ''backspace''}"
    and "queue_Update te (KeyMsg key runes) m = Some (m', c)"
    and "normal_filter te m' \<noteq> []"
    and "\<exists>t \<in> set (qm_Tickets m'). filter_matches te (normal_filter te m') t"
  shows "\<exists>k rows. qm_Selected m' = int k \<and> k < length (qm_Tickets m') \<and>
    filter_matches te (normal_filter te m') (qm_Tickets m' ! k) \<and>
    (\<forall>l < k. \<not> filter_matches te (normal_filter te m') (qm_Tickets m' ! l)) \<and>
    visibleTickets te m' = Some rows \<and> (int k, qm_Tickets m' ! k) \<in> set rows"
proof -
  let ?m = "m\<lparr>qm_Filter := qm_Filter m @ runes\<rparr>"
  have m': "m' = ?m\<lparr>qm_Selected := firstVisibleIndex te ?m\<rparr>"
    using assms(1-5) by (auto simp: update_filter_def Let_def)
  have same: "normal_filter te m' = normal_filter te ?m" "qm_Tickets m' = qm_Tickets ?m"
    by (simp_all add: m' normal_filter_def)
  have ok: "selection_ok m'" unfolding m' by (rule firstVisible_ok)
  from first_match_is [OF assms(7), of 0] obtain k
    where k: "first_match te (normal_filter te m') 0 (qm_Tickets m') = int k"
      "k < length (qm_Tickets m')" "filter_matches te (normal_filter te m') (qm_Tickets m' ! k)"
      "\<forall>l < k. \<not> filter_matches te (normal_filter te m') (qm_Tickets m' ! l)" by auto
  have sel: "qm_Selected m' = int k"
    using k(1) assms(6) same by (simp add: m' firstVisibleIndex_def Let_def)
  obtain rows start stop where rows: "visibleTickets te m' = Some rows"
    "set rows = {(j, qm_Tickets m' ! nat j) | j. start \<le> j \<and> j < stop \<and>
       (normal_filter te m' = [] \<or> filter_matches te (normal_filter te m') (qm_Tickets m' ! nat j))}"
    "qm_Tickets m' \<noteq> [] \<Longrightarrow> start \<le> qm_Selected m' \<and> qm_Selected m' < stop"
    by (rule visibleTickets_set [OF ok, of te]) blast
  have "qm_Tickets m' \<noteq> []" using k(2) by auto
  from rows(3) [OF this] have "(int k, qm_Tickets m' ! k) \<in> set rows"
    using rows(2) k(3) sel by auto
  with sel k rows(1) show ?thesis by blast
qed

theorem filter_selects_first_match_witness:
  "\<exists>rows. visibleTickets sample_tui sample_filtered_typed = Some rows \<and>
     (0, sample_row 7 ''xx'') \<in> set rows"
proof -
  have "queue_Update sample_tui (KeyMsg ''xx'' ''xx'') (sample_queue\<lparr>qm_Filtering := True\<rparr>) =
      Some (sample_filtered_typed, NoCmd)"
    using sample_filter sample_matches
    by (simp add: sample_queue_def NewQueueModel_def update_filter_def Let_def firstVisibleIndex_def
        sample_filtered_typed_def sample_filtered_def normal_filter_def)
  moreover have "normal_filter sample_tui sample_filtered_typed = ''xx''"
    using sample_filter by (simp add: normal_filter_def sample_filtered_typed_def)
  ultimately show ?thesis
    using filter_selects_first_match [of "sample_queue\<lparr>qm_Filtering := True\<rparr>" "''xx''" "''xx''" sample_tui
        sample_filtered_typed NoCmd] sample_matches
    by (auto simp: sample_queue_def NewQueueModel_def sample_filtered_typed_def sample_filtered_def
        less_Suc_eq)
qed

text \<open>Once a filter is applied, moving does not follow it: a step down onto a ticket that the
  filter hides leaves the selection, and with it the preview and the ticket that Enter opens, on a
  ticket that is not on the screen.\<close>

theorem moving_ignores_filter:
  assumes "selection_ok m" and "\<not> qm_ShowDetail m" and "\<not> qm_Filtering m"
    and "normal_filter te m \<noteq> []"
    and "index_at (qm_Tickets m) (qm_Selected m + 1) = Some t"
    and "\<not> filter_matches te (normal_filter te m) t"
  shows "\<exists>m' rows. queue_Update te (KeyMsg ''down'' []) m = Some (m', NoCmd) \<and>
    qm_Selected m' = qm_Selected m + 1 \<and> index_at (qm_Tickets m') (qm_Selected m') = Some t \<and>
    visibleTickets te m' = Some rows \<and> qm_Selected m' \<notin> fst ` set rows"
proof -
  let ?m = "m\<lparr>qm_Selected := qm_Selected m + 1\<rparr>"
  have bound: "qm_Selected m + 1 < int (length (qm_Tickets m))"
    and t: "t = qm_Tickets m ! nat (qm_Selected m + 1)"
    using assms(5) by (auto simp: index_at_def split: if_splits)
  have up: "queue_Update te (KeyMsg ''down'' []) m = Some (?m, NoCmd)"
    using assms(2,3) bound by (simp add: update_list_def MoveDown_def)
  have "selection_ok ?m" using assms(1) bound by (auto simp: selection_ok_def)
  then obtain rows start stop where rows: "visibleTickets te ?m = Some rows"
    "set rows = {(j, qm_Tickets ?m ! nat j) | j. start \<le> j \<and> j < stop \<and>
       (normal_filter te ?m = [] \<or> filter_matches te (normal_filter te ?m) (qm_Tickets ?m ! nat j))}"
    by (rule visibleTickets_set)
  have "normal_filter te ?m = normal_filter te m" by (simp add: normal_filter_def)
  with rows(2) assms(4,6) t have "qm_Selected ?m \<notin> fst ` set rows" by auto
  with up rows(1) assms(5) show ?thesis by (intro exI [of _ ?m] exI [of _ rows]) simp
qed

theorem moving_ignores_filter_witness:
  "\<exists>m rows. queue_Update sample_tui (KeyMsg ''down'' []) sample_filtered = Some (m, NoCmd) \<and>
     visibleTickets sample_tui m = Some rows \<and> qm_Selected m \<notin> fst ` set rows"
proof -
  have "selection_ok sample_filtered" "\<not> qm_ShowDetail sample_filtered" "\<not> qm_Filtering sample_filtered"
    "index_at (qm_Tickets sample_filtered) (qm_Selected sample_filtered + 1) = Some (sample_row 8 ''yy'')"
    by (simp_all add: sample_filtered_def sample_queue_def NewQueueModel_def selection_ok_def index_at_def)
  with moving_ignores_filter [of sample_filtered sample_tui "sample_row 8 ''yy''"] sample_filter sample_matches
  show ?thesis by auto
qed

end
