(* ===== verification/Spec2Isabelle.thy ===== *)
theory Spec2Isabelle
  imports Claim_Properties Attempt_Properties Ticket_Properties Worker_Properties Resource_Properties
    Boundary_Properties Web_Properties Analytics_Properties Mcp_Effects Search_Properties
    Cli_Properties Observability_Properties Migration_Properties Tui_Properties
begin

text \<open>
  This development verifies Forge, a ledger of work for coding agents kept in a PostgreSQL
  database. Humans and agents create tickets; an agent claims the next ticket of a project,
  which starts an attempt with a lease; it extends the lease with heartbeats, records
  checkpoints, and ends the attempt as succeeded, failed, blocked or cancelled; a maintenance
  worker expires attempts whose lease ran out; every change writes an event, which a database
  trigger turns into webhook deliveries that a second worker posts.

  \<^bold>\<open>How the program is modelled.\<close> A value of the record \<open>db\<close> is
  the content of the database, one list of rows per table. A query of internal/db/*.sql.go is a
  function \<open>X_stmt\<close> on \<open>db\<close>: it returns an error of type
  \<open>pg_error\<close>, in which case a statement has no effect, or a result with the new
  database. A service operation of internal/services/*.go has type \<open>'a svc\<close>: an error
  or a value, together with the database, which keeps the effects of the statements that ran
  before an error. \<open>with_transaction\<close> is the runtime's transaction. What the outside
  decides is an argument: the time, the identifiers that \<open>gen_random_uuid()\<close> returns
  (\<open>pg_env\<close>), the rows that other transactions have locked, the outcome of an HTTP
  exchange, the digest of a request. Where a query can raise an error, in the cast of a retry
  policy, SQL does not fix which rows the cast is evaluated on: the model evaluates it on the rows
  that decide the result (\<open>scan_queue\<close> takes the rows of the queue up to the one that
  is claimed, a recommendation needs all candidates) and on any further tickets that the plan may
  choose (\<open>env_casts\<close> of \<open>pg_env\<close>), so that what is proved holds for
  every plan. Concurrency is modelled at the level of statements, which PostgreSQL runs
  atomically: \<open>stmt_step\<close> lets any statement of any service or worker run next, so
  that what holds of all its sequences holds of every interleaving of the services.

  \<^bold>\<open>Theories.\<close>
  \<^item> \<open>Forge_Prelude\<close>, \<open>Forge_Json\<close>: lists as tables, ordering and limits, Go's
    \<open>strings.TrimSpace\<close> on bytes, JSON values, PostgreSQL's casts from \<open>jsonb\<close>, and the encoders
    of the services.
  \<^item> \<open>Go_Strconv\<close>, \<open>Go_Numbers\<close>, \<open>Go_Base64\<close>, \<open>Go_Path\<close>, \<open>Go_Netip\<close>, \<open>Go_Json\<close>, \<open>Go_Flag\<close>:
    what the program uses of Go's standard library: printing and parsing of integers, machine
    integers and float64, base64, \<open>path.Clean\<close> and \<open>Join\<close>, IP addresses and prefixes,
    \<open>json.Unmarshal\<close> into structs, JSON Schema, flag sets and \<open>time.ParseDuration\<close>.
  \<^item> \<open>Forge_Store\<close>: the tables (internal/db/models.go, sql/migrations), their constraints, the
    insertion of an event and the trigger that enqueues deliveries; freshness of identifiers.
  \<^item> \<open>Ticket_Store\<close>, \<open>Attempt_Store\<close>, \<open>Claim_Store\<close>, \<open>Webhook_Store\<close>, \<open>Resource_Store\<close>: the
    statements of the sqlc files. The locale \<open>attempt_transition\<close> is the contract of a statement
    that ends an attempt; the five statements of transitions.sql.go are its interpretations.
  \<^item> \<open>Policy_Service\<close>, \<open>Forge_Service\<close>, \<open>Ticket_Service\<close>, \<open>Claim_Service\<close>, \<open>Attempt_Service\<close>,
    \<open>Ticket_Templates\<close>, \<open>Ticket_Decomposition\<close>, \<open>Dependency_Graph\<close>, \<open>Event_Service\<close>,
    \<open>Resource_Service\<close>, \<open>Search_Service\<close>, \<open>Analytics\<close>: internal/services, operation by operation,
    with their validation and the statements that only they use.
  \<^item> \<open>Ticket_Laws\<close>, \<open>Ticket_Transitions\<close>: the contract \<open>ticket_operation\<close> of an operation that moves
    one ticket along given pairs of statuses, interpreted by the eleven operations of the ticket
    service, and the outcomes of a request to move a given ticket.
  \<^item> \<open>Workflow\<close>, \<open>Lifecycle\<close>: the invariant of tickets and attempts, the step relation, its
    refinement of an abstract machine (\<open>workflow_step\<close>) and of the status graph
    (\<open>status_edges\<close>), and the append-only event log. The locale \<open>invariant_system\<close> carries
    invariants from steps to reachable states.
  \<^item> \<open>Maintenance_Worker\<close>, \<open>Webhook_Worker\<close>, \<open>Webhook_Policy\<close>, \<open>Observability\<close>: one run of each
    worker of internal/jobs, the addresses that a webhook may be posted to, and what is posted: the
    document that the trigger stores, internal/services/observability.go and the signed request.
  \<^item> \<open>Forge_Runtime\<close>, \<open>Service_Steps\<close>, \<open>Call_Atomicity\<close>, \<open>Dependency_Order\<close>: the calls of
    internal/runtime/runtime.go with their transactions; that each is a sequence of statement
    steps (the locale \<open>statement_relation\<close>), which of them are atomic, and what they do to the
    order of dependencies.
  \<^item> \<open>Artifact_Storage\<close>, \<open>Configuration\<close>: internal/storage with both stores, and
    internal/config/config.go.
  \<^item> \<open>Web_Auth\<close>, \<open>Web_Routes\<close>, \<open>Web_Pages\<close>: internal/web/handler.go: access control, parsing of
    forms, and one definition per handler; a page is the data it shows.
  \<^item> \<open>Rest_Api\<close>, \<open>Rest_Handlers\<close>: internal/api: bodies, requests, replies and every operation.
  \<^item> \<open>Contracts\<close>, \<open>Mcp_Payloads\<close>, \<open>Mcp_Server\<close>: the catalogue of internal/contracts/contracts.go
    with its schemas, and internal/mcp: the decoding of arguments, the tools and their results.
  \<^item> \<open>Cli_Payloads\<close>, \<open>Cli_Commands\<close>, \<open>Cli_Codex\<close>, \<open>Cli_Process\<close>: internal/cli/cli.go, with the
    opening of the runtime from a configuration: one definition per command, from its arguments to
    its exit code and output, the codex commands with the files of their proofs, and the dispatch.
  \<^item> \<open>Migrations\<close>: internal/cli/migrate.go: a run of the migration files in one transaction, whose
    exchanges with the server may fail at any point.
  \<^item> \<open>Tui_Detail\<close>, \<open>Tui_Queue\<close>: internal/tui: the terminal interface as a state machine over keys
    and answers of commands (\<open>queue_Update\<close>), and the text of its pages.
  \<^item> \<open>Forge_Sample\<close>: a small installation that the witnesses evaluate.
  \<^item> \<open>Claim_Properties\<close>, \<open>Attempt_Properties\<close>, \<open>Ticket_Properties\<close>, \<open>Worker_Properties\<close>,
    \<open>Resource_Properties\<close>, \<open>Boundary_Properties\<close>, \<open>Web_Properties\<close>, \<open>Rest_Properties\<close>,
    \<open>Analytics_Properties\<close>, \<open>Mcp_Properties\<close>, \<open>Mcp_Effects\<close>, \<open>Search_Properties\<close>,
    \<open>Cli_Proofs\<close>, \<open>Cli_Properties\<close>, \<open>Observability_Properties\<close>, \<open>Migration_Properties\<close>,
    \<open>Tui_Properties\<close> and this theory: the properties.

  \<^bold>\<open>What is shown.\<close> For every interleaving: progress and running attempts
  agree and attempts exclude each other, retry budgets hold, every statement moves a status along
  at most one edge of the graph and for the cause that the edge belongs to, the archive is final,
  ended attempts are immutable, the event log only grows, and dependencies never form a cycle. For
  the operations: which ticket a claim takes and when it succeeds, that a page of recommendations
  is one of all the tickets that a harness can claim, that a claim can be repeated, what ends an
  attempt, when it can be completed and what this does to the ticket, that leases protect, which
  transitions are carried out, who may enqueue, what creation (every field of the ticket and
  nothing else), patches and decompositions change, that the event feed is complete, that a search
  is a page of all matches in its scope, and that the analytics of the groups add up. For the
  workers: that maintenance clears what is overdue, up to the size of its batch, and that
  deliveries are accounted for, bounded, posted to admitted addresses only (an unspecified address
  with a zone excepted), and carry what the rows of the event held. For the front ends: that
  requests without credentials or from other sites have no effect on the database, that guesses of
  the token are bounded, that the actions a page offers succeed, that the REST interface reads
  back what it created, which leases it grants and which it refuses, that the MCP server
  understands what its schemas admit when numbers are written plainly, that nineteen of its tools
  return what their schemas promise, and that the three tools which create a single ticket create
  it in the backlog; that a command of the command line that starts no process is at most one call
  of the runtime, that a failing one leaves the database alone (claims and three of the codex
  commands excepted, which run several statements), and that a failed end of an attempt leaves no
  files of proofs behind; that a run of the migrations applies what is pending, refuses files that
  are missing, renamed or differ from a recorded checksum, and can be repeated wherever it was
  interrupted; that the terminal interface stays within its list and shows the ticket that was
  opened. For the boundary: artifact names cannot leave their directory, an S3 store acts on its
  own objects only, and a stored artifact is found again. Some properties record defects:
  exhausted tickets are stranded in the queue, a malformed retry policy blocks the claims of the
  tickets behind it and the completion of attempts, a prefix of white space is checked but not
  used by the S3 store, the right to enqueue can be bypassed in triage, a deleted artifact may
  leave its file, totals can exceed the range that is stored, the schemas of structured values
  admit the empty object only, the progress of a checkpoint is narrowed to 32 bits before it is
  checked, deliveries of ended attempts lack their metrics, and moving in a filtered list of the
  terminal steps onto hidden tickets.

  \<^bold>\<open>Bounds.\<close> No definition needs fuel: most loops are structural recursions
  over lists. The others have termination proofs: trimming by the length of the string, the search
  for cycles by the children not yet visited, the decoder of JSON and the check of schemas by the
  size of their descriptions, the parser of durations by the length of the text, the window of the
  terminal by its rows. Statements that succeed need fresh identifiers; \<open>gen_fresh env n
  d\<close> asks for the next \<open>n\<close> only, where \<open>event_ids\<close> counts what an
  event and its deliveries use. Timestamps and durations are unbounded integers, as their ranges
  are not reached; integers that PostgreSQL checks (\<open>int4\<close>, \<open>numeric(12,
  k)\<close>) have their ranges written out, and so have the integers that JSON is decoded into. A
  float64 is the rational number it stands for, rounded after each operation.

  \<^bold>\<open>Not modelled.\<close> Matching of routes and decoding of bodies by the HTTP
  framework, the MCP SDK and its transport, HTML and the text that other commands print for
  people; the command \<open>init\<close>, the loop of the worker and what a process does while it
  runs, which are arguments of the command line's dispatch, as is the command
  \<open>migrate\<close>, whose own theory has a state of its own; the effect of the SQL of a
  migration file, PostgreSQL's full text search and its collations, digests and signatures, the
  HTTP client, the event loop and the styles of the terminal libraries, which are arguments; the
  handling of connections. Also outside: failures to begin or commit a transaction of the runtime
  (those of a migration are modelled), texts that are not UTF-8 or contain NUL, which PostgreSQL
  refuses, numbers with an exponent in JSON, transactions that commit in another order than they
  drew the numbers of their events, and the time zone of the database session, which is taken to
  be UTC.
\<close>

section \<open>The workflow\<close>

text \<open>C1. In every database that any interleaving of statements can reach, a ticket is in
  progress exactly when an attempt on it is running, and a ticket never has two running
  attempts.\<close>

theorem exclusive_progress:
  assumes "initial_db d0" and "stmt_step\<^sup>*\<^sup>* d0 d"
  shows "(\<forall>t \<in> set (tickets d). tk_Status t = TicketStatusInProgress \<longleftrightarrow>
      (\<exists>a \<in> set (attempts d). at_TicketID a = tk_ID t \<and> at_Status a = AttemptStatusRunning)) \<and>
    (\<forall>a \<in> set (attempts d). \<forall>b \<in> set (attempts d).
      at_Status a = AttemptStatusRunning \<and> at_Status b = AttemptStatusRunning \<and>
      at_TicketID a = at_TicketID b \<longrightarrow> a = b)"
proof -
  note ok = workflow.reachable [OF assms]
  show ?thesis
    using workflow_okD(2,3) [OF ok]
    unfolding one_runner_def progress_iff_held_def held_def by blast
qed

theorem exclusive_progress_witness:
  "tk_Status (hd (tickets sample_claimed)) = TicketStatusInProgress \<and>
   (\<exists>a \<in> set (attempts sample_claimed). at_TicketID a = tk_ID (hd (tickets sample_claimed)) \<and>
      at_Status a = AttemptStatusRunning)"
proof -
  have "hd (tickets sample_claimed) \<in> set (tickets sample_claimed)"
    "tk_Status (hd (tickets sample_claimed)) = TicketStatusInProgress"
    by (rule hd_in_set, code_simp, code_simp)
  then show ?thesis
    using exclusive_progress [OF sample_initial sample_claimed_reachable] by blast
qed

text \<open>Whatever calls front ends and workers make, in whatever order, the calls leave a
  database in which the rows satisfy their constraints, progress and running attempts agree,
  and no ticket has failed more often than its retry policy allows.\<close>

theorem calls_keep_workflow:
  assumes "initial_db d"
  shows "workflow_ok (run_calls cs d)"
  using assms run_calls_steps by (rule workflow.reachable)

theorem calls_keep_workflow_witness:
  "workflow_ok (run_calls [CallCreateTicket sample_env sample_create] sample_db)"
  by (rule calls_keep_workflow [OF sample_initial])

text \<open>C2. Every single statement of every execution moves the status of a ticket along at most one
  edge of the status graph, and no ticket is ever lost. Moreover the edges belong to their causes:
  only a claim, which starts an attempt and finds no open dependency, moves a ticket from todo to in
  progress; only the end of its running attempt takes a ticket out of progress, to one of the
  closing statuses; every other move is one of the transitions that the ticket service offers, and
  leaves the attempts as they are.\<close>

theorem status_machine:
  assumes "workflow_ok d0" and "stmt_step\<^sup>*\<^sup>* d0 d" and "stmt_step d d'"
    and "ticket_status_of d k = Some s"
  shows "\<exists>s'. ticket_status_of d' k = Some s' \<and>
    (s' = s \<or> (s, s') \<in> status_edges \<and>
      (s = TicketStatusTodo \<and> s' = TicketStatusInProgress \<and>
         \<not> held d k \<and> held d' k \<and> \<not> has_open_dependency d k \<or>
       s = TicketStatusInProgress \<and> s' \<in> closing_statuses \<and> held d k \<and> \<not> held d' k \<or>
       (s, s') \<in> manual_edges \<and> attempts d' = attempts d))"
proof -
  have ok: "workflow_ok d"
    using assms(2,1) by (rule workflow.steps)
  from assms(4) obtain u where u: "find_row tk_ID k (tickets d) = Some u" "tk_Status u = s"
    by (auto simp: ticket_status_of_Some)
  from status_step [OF stmt_step_refines [OF assms(3)] ok u(1)] obtain u' where
    u': "find_row tk_ID k (tickets d') = Some u'"
    "tk_Status u' = s \<or> status_move d d' k s (tk_Status u')"
    unfolding u(2) by blast
  show ?thesis
    by (rule exI [of _ "tk_Status u'"], rule conjI)
      (simp add: ticket_status_of_def u'(1), use u'(2) status_move_edge in
        \<open>unfold status_move_def, blast\<close>)
qed

theorem status_machine_witness:
  "\<exists>s' d'. stmt_step sample_ready d' \<and> ticket_status_of d' sample_ticket = Some s' \<and>
     (s' = TicketStatusTodo \<or> (TicketStatusTodo, s') \<in> status_edges)"
proof -
  let ?x = "ClaimNextTicket_stmt [] sample_env (claimParams 5 sample_claim ''h'') sample_ready"
  have "?x = Inr (fst (projr ?x), snd (projr ?x))"
    by (rule evaluated_stmt) code_simp
  then have step: "stmt_step sample_ready (snd (projr ?x))"
    by (rule stmt_step.claim_next)
  have "ticket_status_of sample_ready sample_ticket = Some TicketStatusTodo"
    by code_simp
  with step show ?thesis
    using status_machine [OF sample_ready_ok rtranclp.rtrancl_refl step] by blast
qed

text \<open>Archiving is final: no sequence of statements takes a ticket out of the archive.\<close>

theorem archived_forever:
  assumes "workflow_ok d" and "stmt_step\<^sup>*\<^sup>* d d'"
    and "ticket_status_of d k = Some TicketStatusArchived"
  shows "ticket_status_of d' k = Some TicketStatusArchived"
proof -
  obtain s where s: "ticket_status_of d' k = Some s" "(TicketStatusArchived, s) \<in> status_edges\<^sup>*"
    using status_steps [OF assms(2,1,3)] by blast
  from s(2) have "s = TicketStatusArchived"
    by (induction rule: rtrancl_induct) (auto simp: status_edges_def)
  with s(1) show ?thesis by simp
qed

definition sample_archived :: db where
  "sample_archived = run_calls [CallArchive sample_env
     \<lparr>tr_TicketRef = Some sample_ticket, tr_ActorType = [], tr_ActorID = [], tr_Reason = []\<rparr>]
     sample_ready"

theorem archived_forever_witness:
  "ticket_status_of (run_calls [CallReopen sample_env
     \<lparr>tr_TicketRef = Some sample_ticket, tr_ActorType = [], tr_ActorID = [], tr_Reason = []\<rparr>]
     sample_archived) sample_ticket = Some TicketStatusArchived"
proof -
  have "workflow_ok sample_archived"
    unfolding sample_archived_def using run_calls_steps sample_ready_ok by (rule workflow.steps)
  moreover have "ticket_status_of sample_archived sample_ticket = Some TicketStatusArchived"
    by code_simp
  ultimately show ?thesis
    using archived_forever run_calls_steps by blast
qed

text \<open>C7. An attempt that has ended is immutable: its row stays as it is under every further
  statement.\<close>

theorem ended_attempt_immutable:
  assumes "workflow_ok d" and "stmt_step\<^sup>*\<^sup>* d d'" and "a \<in> set (attempts d)"
    and "at_Status a \<noteq> AttemptStatusRunning"
  shows "a \<in> set (attempts d')"
  using assms(2,1,3,4) by (rule ended_attempt_steps)

theorem ended_attempt_immutable_witness:
  "hd (attempts sample_failed) \<in> set (attempts (run_calls
     [CallClaimNext sample_claim_env 9 [] sample_env (sample_claim\<lparr>cq_IdempotencyKey := []\<rparr>)]
     sample_failed))"
proof -
  have "hd (attempts sample_failed) \<in> set (attempts sample_failed)"
    "at_Status (hd (attempts sample_failed)) \<noteq> AttemptStatusRunning"
    by (rule hd_in_set, code_simp, code_simp)
  then show ?thesis
    using ended_attempt_immutable [OF sample_failed_ok run_calls_steps] by blast
qed

text \<open>C10. The event log is append-only, and its sequence numbers strictly increase, under every
  interleaving.\<close>

theorem event_log_appends:
  assumes "initial_db d0" and "stmt_step\<^sup>*\<^sup>* d0 d" and "stmt_step\<^sup>*\<^sup>* d d'"
  shows "(\<exists>es. ticket_events d' = ticket_events d @ es) \<and>
    sorted_wrt (<) (map ev_EventSequence (ticket_events d'))"
proof -
  have "events_ok d'"
    using assms(1) rtranclp_trans [OF assms(2,3)] by (rule event_log.reachable)
  with stmt_steps_append [OF assms(3)] show ?thesis
    by (simp add: events_ok_def)
qed

theorem event_log_appends_witness:
  "(\<exists>es. ticket_events sample_claimed = ticket_events sample_ready @ es) \<and>
   sorted_wrt (<) (map ev_EventSequence (ticket_events sample_claimed))"
  using event_log_appends [OF sample_initial sample_ready_reachable] run_calls_steps
  unfolding sample_claimed_def by blast

section \<open>Retries\<close>

lemma failure_status_reachable:
  assumes "workflow_ok d" and "FailAttempt_stmt env p d = Inr (r, d')"
    and "find_row tk_ID (tr_TicketID r) (tickets d) = Some t"
  shows "exhausted_status d t = Inr TicketStatusTodo"
    and "failure_status d t = Inr (tr_TicketStatus r)"
proof -
  from fail.effect [OF assms(2)] obtain a u where
    a: "find_row at_ID (at_ID a) (attempts d) = Some a" "at_Status a = AttemptStatusRunning"
    and u: "find_row tk_ID (at_TicketID a) (tickets d) = Some u"
      "failure_status d u = Inr (tr_TicketStatus r)" and r: "tr_TicketID r = at_TicketID a"
    by (rule transition_effectE) blast
  with assms(3) have "u = t" by simp
  with u show "failure_status d t = Inr (tr_TicketStatus r)" by simp
  have t: "t \<in> set (tickets d)" "tk_ID t = at_TicketID a"
    using assms(3) r by (auto dest: find_row_SomeD)
  then have "held d (tk_ID t)"
    using a by (auto simp: held_def dest: find_row_SomeD)
  with t(1) workflow_okD(4) [OF assms(1)] show "exhausted_status d t = Inr TicketStatusTodo"
    by (auto simp: retry_budget_def exhausted_status_def)
qed

text \<open>The branch of \<open>FailAttempt\<close> that marks a ticket failed when its attempts are exhausted
  is never taken: in a reachable database the failing attempt is not yet counted, and a claim
  required retries to be left, so that a policy that returns to todo always does.\<close>

theorem failed_attempt_returns_ticket:
  assumes "initial_db d0" and "stmt_step\<^sup>*\<^sup>* d0 d" and "FailAttempt_stmt env p d = Inr (r, d')"
    and "find_row tk_ID (tr_TicketID r) (tickets d) = Some t"
    and "json_field (tk_RetryPolicy t) ''on_failure'' \<noteq> Some (JStr ''mark_failed'')"
    and "json_field (tk_RetryPolicy t) ''on_failure'' \<noteq> Some (JStr ''needs_review'')"
  shows "tr_TicketStatus r = TicketStatusTodo"
proof -
  note ok = workflow.reachable [OF assms(1,2)]
  from failure_status_reachable [OF ok assms(3,4)] assms(5,6) show ?thesis
    by (simp add: failure_status_def json_text_is_def)
qed

theorem failed_attempt_returns_ticket_witness:
  "tr_TicketStatus (fst (projr (FailAttempt_stmt sample_env sample_fail sample_claimed))) =
     TicketStatusTodo"
proof -
  let ?x = "FailAttempt_stmt sample_env sample_fail sample_claimed"
  have run: "?x = Inr (fst (projr ?x), snd (projr ?x))"
    by (rule evaluated_stmt) code_simp
  have t: "find_row tk_ID (tr_TicketID (fst (projr ?x))) (tickets sample_claimed) =
      Some (hd (tickets sample_claimed))"
    by code_simp
  have "json_field (tk_RetryPolicy (hd (tickets sample_claimed))) ''on_failure'' =
      Some (JStr ''return_to_todo'')"
    by code_simp
  then show ?thesis
    by (intro failed_attempt_returns_ticket [OF sample_initial sample_claimed_reachable run t])
      simp_all
qed



definition sample_once :: db where
  "sample_once = run_calls
     [CallCreateTicket sample_env (sample_create\<lparr>cr_RetryPolicy := RawDoc (JObj
        [(''max_attempts'', JNum 1 0), (''on_failure'', JStr ''return_to_todo'')])\<rparr>),
      CallClaimNext sample_claim_env 5 [] sample_env sample_claim] sample_db"

lemma sample_once_state [code]:
  "sample_once = sample_claimed\<lparr>tickets := [(sample_ticket_row ''in_progress'')
     \<lparr>tk_RetryPolicy := JObj
        [(''max_attempts'', JNum 1 0), (''on_failure'', JStr ''return_to_todo'')]\<rparr>]\<rparr>"
  by code_simp


end
